(* ===== verification/Prelude.thy ===== *)
theory Prelude
  imports Main "HOL-Library.Word"
begin

section \<open>Prelude: machine integers, byte strings and Rust results\<close>

text \<open>
  What every component shares: the integer and byte types, Rust's \<^verbatim>\<open>Result\<close> together with
  the panic a slice or an arithmetic check may raise, the \<^verbatim>\<open>?\<close> operator, the big- and
  little-endian encodings of \<^verbatim>\<open>u64\<close>, decimal printing, and the list lemmas
  the components reuse.
\<close>

named_theorems result_simps \<open>equations that decide the outcome of a fallible step\<close>

subsection \<open>Machine integers and bytes\<close>

type_synonym u8 = "8 word"
type_synonym u16 = "16 word"
type_synonym u32 = "32 word"
type_synonym u64 = "64 word"
type_synonym bytes = "u8 list"

text \<open>\<^verbatim>\<open>String::as_bytes\<close>: the characters of a string, as bytes.\<close>

definition as_bytes :: "string \<Rightarrow> bytes" where
  "as_bytes s = map (\<lambda>c. word_of_nat (of_char c)) s"

lemma unat_char_byte: "unat (word_of_nat (of_char c) :: u8) = of_char c"
proof -
  have "of_char c < (2 ^ LENGTH(8) :: nat)"
    using nat_of_char_less_256 [of c] by simp
  then show ?thesis by (simp add: unsigned_of_nat take_bit_nat_eq_self_iff)
qed

lemma char_byte_inj: "(word_of_nat (of_char c) :: u8) = word_of_nat (of_char d) \<longleftrightarrow> c = d"
  by (metis unat_char_byte of_char_eq_iff)

lemma as_bytes_inj [simp]: "as_bytes s = as_bytes t \<longleftrightarrow> s = t"
  by (simp add: as_bytes_def inj_map_eq_map inj_def char_byte_inj)

lemma length_as_bytes [simp]: "length (as_bytes s) = length s"
  by (simp add: as_bytes_def)

text \<open>\<^verbatim>\<open>u64::to_be_bytes\<close>, \<^verbatim>\<open>u64::to_le_bytes\<close> and \<^verbatim>\<open>u16::to_le_bytes\<close>.\<close>

definition byte_at :: "nat \<Rightarrow> u64 \<Rightarrow> u8" where
  "byte_at i w = ucast (drop_bit (8 * i) w)"

definition to_le_bytes :: "u64 \<Rightarrow> bytes" where
  "to_le_bytes w = map (\<lambda>i. byte_at i w) [0, 1, 2, 3, 4, 5, 6, 7]"

definition to_be_bytes :: "u64 \<Rightarrow> bytes" where
  "to_be_bytes w = rev (to_le_bytes w)"

definition u16_to_le_bytes :: "u16 \<Rightarrow> bytes" where
  "u16_to_le_bytes w = [ucast w, ucast (drop_bit 8 w)]"

lemma length_to_le_bytes [simp]: "length (to_le_bytes w) = 8"
  by (simp add: to_le_bytes_def)

lemma length_to_be_bytes [simp]: "length (to_be_bytes w) = 8"
  by (simp add: to_be_bytes_def)

lemma length_u16_to_le_bytes [simp]: "length (u16_to_le_bytes w) = 2"
  by (simp add: u16_to_le_bytes_def)

lemma byte_at_eq_imp:
  assumes "\<And>i. i < 8 \<Longrightarrow> byte_at i v = byte_at i w"
  shows "v = w"
proof (rule bit_word_eqI)
  fix n assume "n < LENGTH(64)"
  then have i: "n div 8 < 8" and n: "n = 8 * (n div 8) + n mod 8" by simp_all
  have "bit (byte_at (n div 8) u) (n mod 8) = bit u n" for u :: u64
    using n by (simp add: byte_at_def bit_ucast_iff bit_drop_bit_eq)
  with assms [OF i] show "bit v n = bit w n" by metis
qed

lemma to_le_bytes_inj [simp]: "to_le_bytes v = to_le_bytes w \<longleftrightarrow> v = w"
proof
  assume "to_le_bytes v = to_le_bytes w"
  then have "\<forall>i \<in> {0, 1, 2, 3, 4, 5, 6, 7}. byte_at i v = byte_at i w"
    by (simp add: to_le_bytes_def)
  moreover have "i \<in> {0, 1, 2, 3, 4, 5, 6, 7}" if "i < 8" for i :: nat
    using that by auto
  ultimately show "v = w" by (intro byte_at_eq_imp) blast
qed simp

lemma to_be_bytes_inj [simp]: "to_be_bytes v = to_be_bytes w \<longleftrightarrow> v = w"
  by (simp add: to_be_bytes_def)

text \<open>
  Concatenations split at a known width: the fact behind every canonical encoding of the
  program that puts fixed-width fields side by side.
\<close>

lemma fixed_width_split:
  "length a = length c \<Longrightarrow> a @ b = c @ d \<longleftrightarrow> a = c \<and> b = d"
  by simp

lemma fixed_suffix_split:
  "length b = length d \<Longrightarrow> a @ b = c @ d \<longleftrightarrow> a = c \<and> b = d"
  by (auto dest: arg_cong [where f = length])

subsection \<open>Checked and wrapping arithmetic on u64\<close>

definition u64_max :: u64 where
  "u64_max = 18446744073709551615"

definition saturating_sub :: "u64 \<Rightarrow> u64 \<Rightarrow> u64" where
  "saturating_sub a b = (if b \<le> a then a - b else 0)"

lemma u64_max_greatest [simp]: "w \<le> u64_max"
proof -
  have "u64_max = (-1 :: u64)" by (simp add: u64_max_def)
  then show ?thesis by (metis word_n1_ge)
qed

lemma unat_succ: "unat w + 1 < 2 ^ 64 \<Longrightarrow> unat (w + 1 :: u64) = unat w + 1"
  by (simp add: unat_word_ariths)

lemma word_ge_1_iff [simp]: "1 \<le> w \<longleftrightarrow> w \<noteq> 0" for w :: "'a :: len word"
  by (metis linorder_not_le word_less_1 word_neq_0_conv)

subsection \<open>Rust results, with panics\<close>

text \<open>
  \<^verbatim>\<open>Result<T, E>\<close> has the values \<open>Ok\<close> and \<open>Err\<close>. A slice that is too short, an index out
  of range or a checked arithmetic overflow panics instead: that outcome is \<open>Panic\<close>, so
  that a function of the model says when the code does not return at all.
\<close>

datatype ('a, 'e) result = Ok 'a | Err 'e | Panic

definition rbind :: "('a, 'e) result \<Rightarrow> ('a \<Rightarrow> ('b, 'e) result) \<Rightarrow> ('b, 'e) result" where
  "rbind r f = (case r of Ok a \<Rightarrow> f a | Err e \<Rightarrow> Err e | Panic \<Rightarrow> Panic)"

definition rmap_err :: "('e \<Rightarrow> 'f) \<Rightarrow> ('a, 'e) result \<Rightarrow> ('a, 'f) result" where
  "rmap_err f r = (case r of Ok a \<Rightarrow> Ok a | Err e \<Rightarrow> Err (f e) | Panic \<Rightarrow> Panic)"

definition ok_or :: "'e \<Rightarrow> 'a option \<Rightarrow> ('a, 'e) result" where
  "ok_or e x = (case x of None \<Rightarrow> Err e | Some a \<Rightarrow> Ok a)"

definition is_ok :: "('a, 'e) result \<Rightarrow> bool" where
  "is_ok r = (case r of Ok _ \<Rightarrow> True | _ \<Rightarrow> False)"

lemma rbind_simps [simp]:
  "rbind (Ok a) f = f a" "rbind (Err e) f = Err e" "rbind Panic f = Panic"
  by (simp_all add: rbind_def)

lemma rmap_err_simps [simp]:
  "rmap_err f (Ok a) = Ok a" "rmap_err f (Err e) = Err (f e)" "rmap_err f Panic = Panic"
  by (simp_all add: rmap_err_def)

lemma ok_or_simps [simp]: "ok_or e None = Err e" "ok_or e (Some a) = Ok a"
  by (simp_all add: ok_or_def)

lemma is_ok_simps [simp]: "is_ok (Ok a)" "\<not> is_ok (Err e)" "\<not> is_ok Panic"
  by (simp_all add: is_ok_def)

lemma is_ok_iff: "is_ok r \<longleftrightarrow> (\<exists>a. r = Ok a)"
  by (cases r) simp_all

lemma rbind_eq_Ok [result_simps]: "rbind r f = Ok b \<longleftrightarrow> (\<exists>a. r = Ok a \<and> f a = Ok b)"
  by (cases r) simp_all

lemma rbind_eq_Err [result_simps]:
  "rbind r f = Err e \<longleftrightarrow> r = Err e \<or> (\<exists>a. r = Ok a \<and> f a = Err e)"
  by (cases r) auto

lemma rbind_eq_Panic [result_simps]:
  "rbind r f = Panic \<longleftrightarrow> r = Panic \<or> (\<exists>a. r = Ok a \<and> f a = Panic)"
  by (cases r) auto

lemma rmap_err_eq_Ok [result_simps]: "rmap_err f r = Ok b \<longleftrightarrow> r = Ok b"
  by (cases r) simp_all

lemma rmap_err_eq_Err [result_simps]: "rmap_err f r = Err e \<longleftrightarrow> (\<exists>d. r = Err d \<and> e = f d)"
  by (cases r) auto

lemma rmap_err_eq_Panic [result_simps]: "rmap_err f r = Panic \<longleftrightarrow> r = Panic"
  by (cases r) simp_all

lemma ok_or_eq_Ok [result_simps]: "ok_or e x = Ok a \<longleftrightarrow> x = Some a"
  by (cases x) simp_all

text \<open>
  \<^verbatim>\<open>a + b\<close> on \<^verbatim>\<open>u64\<close>: an overflow panics where overflow checks are on
  (\<open>debug\<close>), and wraps otherwise.
\<close>

definition add_u64 :: "bool \<Rightarrow> u64 \<Rightarrow> u64 \<Rightarrow> (u64, 'e) result" where
  "add_u64 debug a b = (if debug \<and> a + b < a then Panic else Ok (a + b))"

lemma add_u64_no_overflow: "unat a + unat b < 2 ^ 64 \<Longrightarrow> add_u64 debug a b = Ok (a + b)"
  by (simp add: add_u64_def word_less_nat_alt unat_word_ariths)

lemma add_one_no_overflow: "t + 1 \<noteq> 0 \<Longrightarrow> add_u64 debug t 1 = Ok (t + 1)" for t :: u64
proof -
  assume "t + 1 \<noteq> 0"
  then have "unat (t + 1) = Suc (unat t)" using unatSuc [of t] by (simp add: add.commute)
  then show ?thesis by (simp add: add_u64_def word_less_nat_alt)
qed

lemma add_u64_overflow: "2 ^ 64 \<le> unat a + unat b \<Longrightarrow> add_u64 True a b = Panic"
proof -
  assume *: "2 ^ 64 \<le> unat a + unat b"
  have "unat a < 2 ^ 64" "unat b < 2 ^ 64"
    using unsigned_less [of a, where ?'a = nat] unsigned_less [of b, where ?'a = nat] by simp_all
  with * have "(unat a + unat b) mod 2 ^ 64 < unat a" by (simp add: mod_if, linarith)
  then show ?thesis by (simp add: add_u64_def word_less_nat_alt unat_word_ariths)
qed

text \<open>\<^verbatim>\<open>a - b\<close> on \<^verbatim>\<open>u64\<close>, and \<^verbatim>\<open>a + b\<close> on \<^verbatim>\<open>u32\<close>, alike.\<close>

definition sub_u64 :: "bool \<Rightarrow> u64 \<Rightarrow> u64 \<Rightarrow> (u64, 'e) result" where
  "sub_u64 debug a b = (if debug \<and> a < b then Panic else Ok (a - b))"

definition add_u32 :: "bool \<Rightarrow> u32 \<Rightarrow> u32 \<Rightarrow> (u32, 'e) result" where
  "add_u32 debug a b = (if debug \<and> a + b < a then Panic else Ok (a + b))"

lemma sub_u64_le [simp]: "b \<le> a \<Longrightarrow> sub_u64 debug a b = Ok (a - b)"
  by (simp add: sub_u64_def not_less)

lemma sub_u64_debug_less [simp]: "a < b \<Longrightarrow> sub_u64 True a b = Panic"
  by (simp add: sub_u64_def)

text \<open>
  Slices: \<^verbatim>\<open>&s[..n]\<close> and \<^verbatim>\<open>&s[n..]\<close> panic when \<open>n\<close> exceeds the length, as
  indexing out of range does.
\<close>

definition slice_to :: "'a list \<Rightarrow> nat \<Rightarrow> ('a list, 'e) result" where
  "slice_to xs n = (if n \<le> length xs then Ok (take n xs) else Panic)"

definition index_at :: "'a list \<Rightarrow> nat \<Rightarrow> ('a, 'e) result" where
  "index_at xs i = (if i < length xs then Ok (xs ! i) else Panic)"

lemma slice_to_ok [simp]: "n \<le> length xs \<Longrightarrow> slice_to xs n = Ok (take n xs)"
  by (simp add: slice_to_def)

lemma index_at_ok [simp]: "i < length xs \<Longrightarrow> index_at xs i = Ok (xs ! i)"
  by (simp add: index_at_def)

text \<open>The loop \<^verbatim>\<open>for x in xs { out.push(f(x)?) }\<close>: it stops at the first failure.\<close>

fun try_map :: "('a \<Rightarrow> ('b, 'e) result) \<Rightarrow> 'a list \<Rightarrow> ('b list, 'e) result" where
  "try_map f [] = Ok []"
| "try_map f (x # xs) = rbind (f x) (\<lambda>y. rbind (try_map f xs) (\<lambda>ys. Ok (y # ys)))"

lemma try_map_Ok_iff:
  "try_map f xs = Ok ys \<longleftrightarrow> list_all2 (\<lambda>x y. f x = Ok y) xs ys"
proof (induction xs arbitrary: ys)
  case Nil
  show ?case by auto
next
  case (Cons x xs)
  then show ?case by (auto simp: result_simps list_all2_Cons1)
qed

lemma try_map_const_Ok:
  "(\<And>x. x \<in> set xs \<Longrightarrow> f x = Ok (g x)) \<Longrightarrow> try_map f xs = Ok (map g xs)"
  by (induction xs) simp_all

text \<open>\<^verbatim>\<open>slice::first\<close> and \<^verbatim>\<open>slice::last\<close>.\<close>

definition list_first :: "'a list \<Rightarrow> 'a option" where
  "list_first xs = (case xs of [] \<Rightarrow> None | x # _ \<Rightarrow> Some x)"

definition list_last :: "'a list \<Rightarrow> 'a option" where
  "list_last xs = (if xs = [] then None else Some (last xs))"

lemma list_first_simps [simp]: "list_first [] = None" "list_first (x # xs) = Some x"
  by (simp_all add: list_first_def)

lemma list_first_Some_iff: "list_first xs = Some x \<longleftrightarrow> (\<exists>ys. xs = x # ys)"
  by (cases xs) auto

lemma list_last_simps [simp]: "list_last [] = None" "list_last (xs @ [x]) = Some x"
  by (simp_all add: list_last_def)

lemma list_last_Some_iff: "list_last xs = Some x \<longleftrightarrow> xs \<noteq> [] \<and> last xs = x"
  by (auto simp: list_last_def)

subsection \<open>Consecutive pairs of a list\<close>

fun pairs :: "'a list \<Rightarrow> ('a \<times> 'a) list" where
  "pairs (x # y # xs) = (x, y) # pairs (y # xs)"
| "pairs _ = []"

lemma length_pairs [simp]: "length (pairs xs) = length xs - 1"
  by (induction xs rule: pairs.induct) simp_all

lemma nth_pairs: "Suc i < length xs \<Longrightarrow> pairs xs ! i = (xs ! i, xs ! Suc i)"
proof (induction xs arbitrary: i rule: pairs.induct)
  case (1 x y xs)
  then show ?case by (cases i) simp_all
qed simp_all

lemma pairs_append_single:
  "xs \<noteq> [] \<Longrightarrow> pairs (xs @ [z]) = pairs xs @ [(last xs, z)]"
  by (induction xs rule: pairs.induct) simp_all

lemma pairs_index: "map (\<lambda>i. (xs ! i, xs ! Suc i)) [0..<length xs - 1] = pairs xs"
  by (rule nth_equalityI) (simp_all add: nth_pairs)

lemma try_map_map: "try_map g (map h xs) = try_map (g \<circ> h) xs"
  by (induction xs) simp_all

lemma try_map_pairs:
  "try_map (\<lambda>i. f (xs ! i) (xs ! (i + 1))) [0..<length xs - 1] =
   try_map (\<lambda>(a, b). f a b) (pairs xs)"
  by (simp only: pairs_index [symmetric] try_map_map comp_def) simp

lemma pairs_short: "length xs < 2 \<Longrightarrow> pairs xs = []"
  by (cases xs rule: pairs.cases) simp_all

subsection \<open>Decimal printing\<close>

fun decimal :: "nat \<Rightarrow> string" where
  "decimal n = (if n < 10 then [char_of (48 + n)] else decimal (n div 10) @ [char_of (48 + n mod 10)])"

declare decimal.simps [simp del]

definition show_u64 :: "u64 \<Rightarrow> string" where
  "show_u64 w = decimal (unat w)"

subsection \<open>Strictly increasing lists\<close>

lemma sorted_wrt_less_snoc:
  "sorted_wrt (<) (map f (xs @ [x])) \<longleftrightarrow>
     sorted_wrt (<) (map f xs) \<and> (\<forall>y \<in> set xs. f y < f x)"
  for f :: "'a \<Rightarrow> 'b :: linorder"
  by (auto simp: sorted_wrt_append)

lemma sorted_wrt_last_max:
  fixes f :: "'a \<Rightarrow> 'b :: linorder"
  assumes "sorted_wrt (<) (map f xs)" and "y \<in> set xs"
  shows "f y \<le> f (last xs)"
proof -
  obtain zs where xs: "xs = zs @ [last xs]"
    using assms(2) by (metis append_butlast_last_id empty_iff list.set(1))
  from assms(1) have "\<forall>y \<in> set zs. f y < f (last xs)"
    by (subst (asm) xs) (simp add: sorted_wrt_append)
  moreover have "y \<in> set zs \<or> y = last xs"
    using assms(2) by (subst (asm) xs) auto
  ultimately show ?thesis by auto
qed

lemma sorted_wrt_less_inj:
  fixes f :: "'a \<Rightarrow> 'b :: linorder"
  assumes "sorted_wrt (<) (map f xs)" and "x \<in> set xs" and "y \<in> set xs" and "f x = f y"
  shows "x = y"
  using assms
proof (induction xs)
  case Nil
  then show ?case by simp
next
  case (Cons z zs)
  then have *: "\<forall>w \<in> set zs. f z < f w" by simp
  show ?case
  proof (cases "x = z \<or> y = z")
    case True
    with Cons.prems * show ?thesis by (metis less_irrefl set_ConsD)
  next
    case False
    with Cons show ?thesis by simp
  qed
qed

end
