(* ===== verification/Stateful.thy ===== *)
theory Stateful
  imports Prelude
begin

section \<open>Operations on a state that may fail\<close>

text \<open>
  A method on \<^verbatim>\<open>&self\<close> with interior mutability takes the state and returns an outcome and
  a state: what it changed before it failed stays changed, as in the code. \<open>sbind\<close> is
  \<^verbatim>\<open>?\<close>.
\<close>

type_synonym ('s, 'a, 'e) stateful = "'s \<Rightarrow> ('a, 'e) result \<times> 's"

definition sret :: "'a \<Rightarrow> ('s, 'a, 'e) stateful" where
  "sret a s = (Ok a, s)"

definition slift :: "('a, 'e) result \<Rightarrow> ('s, 'a, 'e) stateful" where
  "slift r s = (r, s)"

definition sget :: "('s \<Rightarrow> 'a) \<Rightarrow> ('s, 'a, 'e) stateful" where
  "sget f s = (Ok (f s), s)"

definition smod :: "('s \<Rightarrow> 's) \<Rightarrow> ('s, unit, 'e) stateful" where
  "smod f s = (Ok (), f s)"

definition sbind :: "('s, 'a, 'e) stateful \<Rightarrow> ('a \<Rightarrow> ('s, 'b, 'e) stateful) \<Rightarrow> ('s, 'b, 'e) stateful" where
  "sbind m f s = (case m s of
     (Ok a, s') \<Rightarrow> f a s'
   | (Err e, s') \<Rightarrow> (Err e, s')
   | (Panic, s') \<Rightarrow> (Panic, s'))"

named_theorems stateful_simps

lemma sret_eq [stateful_simps]: "sret a s = (r, s') \<longleftrightarrow> r = Ok a \<and> s' = s"
  by (auto simp: sret_def)

lemma slift_eq [stateful_simps]: "slift r s = (r', s') \<longleftrightarrow> r = r' \<and> s' = s"
  by (auto simp: slift_def)

lemma sget_eq [stateful_simps]: "sget f s = (r, s') \<longleftrightarrow> r = Ok (f s) \<and> s' = s"
  by (auto simp: sget_def)

lemma smod_eq [stateful_simps]: "smod f s = (r, s') \<longleftrightarrow> r = Ok () \<and> s' = f s"
  by (auto simp: smod_def)

lemma sbind_eq_Ok [stateful_simps]:
  "sbind m f s = (Ok b, s'') \<longleftrightarrow> (\<exists>a s'. m s = (Ok a, s') \<and> f a s' = (Ok b, s''))"
  by (auto simp: sbind_def split: prod.splits result.splits)

lemma sbind_Ok [simp]: "m s = (Ok a, s') \<Longrightarrow> sbind m f s = f a s'"
  by (simp add: sbind_def)

lemma sbind_Err [simp]: "m s = (Err e, s') \<Longrightarrow> sbind m f s = (Err e, s')"
  by (simp add: sbind_def)

lemma sbind_slift [simp]:
  "sbind (slift (Ok a)) f s = f a s"
  "sbind (slift (Err e)) f s = (Err e, s)"
  "sbind (slift Panic) f s = (Panic, s)"
  by (simp_all add: sbind_def slift_def)

lemma sbind_smod [simp]: "sbind (smod g) f s = f () (g s)"
  by (simp add: sbind_def smod_def)

lemma sbind_sget [simp]: "sbind (sget g) f s = f (g s) s"
  by (simp add: sbind_def sget_def)

lemma sbind_sret [simp]: "sbind (sret a) f s = f a s"
  by (simp add: sbind_def sret_def)

text \<open>A property that every part of an operation keeps is kept by the operation, however it ends.\<close>

definition keeps :: "('s \<Rightarrow> bool) \<Rightarrow> ('s, 'a, 'e) stateful \<Rightarrow> bool" where
  "keeps P m \<longleftrightarrow> (\<forall>s. P s \<longrightarrow> P (snd (m s)))"

lemma keepsD: "keeps P m \<Longrightarrow> P s \<Longrightarrow> P (snd (m s))"
  by (simp add: keeps_def)

lemma keeps_sret [intro, simp]: "keeps P (sret a)"
  by (simp add: keeps_def sret_def)

lemma keeps_slift [intro, simp]: "keeps P (slift r)"
  by (simp add: keeps_def slift_def)

lemma keeps_sget [intro, simp]: "keeps P (sget f)"
  by (simp add: keeps_def sget_def)

lemma keeps_smod [intro]: "(\<And>s. P s \<Longrightarrow> P (f s)) \<Longrightarrow> keeps P (smod f)"
  by (simp add: keeps_def smod_def)

lemma keeps_sbind [intro]: "keeps P m \<Longrightarrow> (\<And>a. keeps P (f a)) \<Longrightarrow> keeps P (sbind m f)"
  by (auto simp: keeps_def sbind_def split: prod.splits result.splits)

lemma keeps_if [intro]: "keeps P m \<Longrightarrow> keeps P m' \<Longrightarrow> keeps P (if b then m else m')"
  by simp

end
