(* ===== verification/Core_Types.thy ===== *)
theory Core_Types
  imports Prelude
begin

section \<open>Core types: errors, algorithm identifiers, TBIDs\<close>

text \<open>
  Models \<^verbatim>\<open>core-engine/src/error.rs\<close> and \<^verbatim>\<open>core-engine/src/foretias/types.rs\<close>.
  Error payloads that come from other crates (I/O, JSON) are the strings those crates produce.
  Hex encoding belongs to the \<^verbatim>\<open>hex\<close> crate: the functions that use it take the
  encoder or the decoder as an argument.
\<close>

subsection \<open>Errors\<close>

datatype crypto_error =
    BadSignature
  | BadKey
  | BadInput string
  | CryptoUnsupported string
  | CryptoInternal int
  | UnknownAlgorithm string
  | IoWrite string
  | IoRead string
  | ProofRangeEmpty
  | ProofRangeExceeds

datatype node_error =
    Crypto crypto_error
  | NotFound string
  | BadFormat string
  | NotImplemented string
  | Io string
  | Serialization string
  | Internal string
  | Dormant string
  | IntegrityFailure u64
  | TransportConnect string
  | TransportTimeout
  | TransportDecode string
  | AttestationVerificationFailed string
  | QueueFull
  | OutOfSpace
  | Stale string
  | Unsupported string
  | NodeAlgorithmMismatch string
  | InvalidInput string

text \<open>The result code of the C core as an error: \<^verbatim>\<open>c_result_to_error\<close>.\<close>

definition c_result_to_error :: "int \<Rightarrow> (unit, crypto_error) result" where
  "c_result_to_error code =
     (if code = 0 then Ok ()
      else if code = -1 then Err BadSignature
      else if code = -3 then Err BadKey
      else if code = -6 then Err (BadInput ''invalid input'')
      else if code = -8 then Err (CryptoUnsupported ''not implemented'')
      else if code = -9 then Err ProofRangeEmpty
      else if code = -10 then Err ProofRangeExceeds
      else Err (CryptoInternal code))"

lemma c_result_to_error_Ok [simp]: "c_result_to_error code = Ok u \<longleftrightarrow> code = 0"
  by (simp add: c_result_to_error_def)

lemma c_result_to_error_no_panic [simp]: "c_result_to_error code \<noteq> Panic"
  by (simp add: c_result_to_error_def)

text \<open>The three-way reading of a verification's result code, shared by every verifier.\<close>

definition verify_rc :: "int \<Rightarrow> (bool, crypto_error) result" where
  "verify_rc rc =
     (if rc = 0 then Ok True
      else if rc = -1 then Ok False
      else rbind (c_result_to_error rc) (\<lambda>_. Ok False))"

lemma verify_rc_True [simp]: "verify_rc rc = Ok True \<longleftrightarrow> rc = 0"
  by (auto simp: verify_rc_def result_simps)

lemma verify_rc_no_panic [simp]: "verify_rc rc \<noteq> Panic"
  by (simp add: verify_rc_def result_simps)

subsection \<open>Algorithm identifiers\<close>

datatype signature_algorithm = Ed25519 | SPHINCS_SHA2_128S | Dilithium3 | SLH_DSA_SHA2_256F

fun to_id_string :: "signature_algorithm \<Rightarrow> string" where
  "to_id_string Ed25519 = ''Ed25519''"
| "to_id_string SPHINCS_SHA2_128S = ''SPHINCS+-SHA2-128s-simple''"
| "to_id_string Dilithium3 = ''Dilithium3''"
| "to_id_string SLH_DSA_SHA2_256F = ''SPHINCS+-SHA2-256f-simple''"

definition from_id_string :: "string \<Rightarrow> (signature_algorithm, crypto_error) result" where
  "from_id_string s =
     (if s = ''Ed25519'' then Ok Ed25519
      else if s = ''SPHINCS+-SHA2-128s-simple'' then Ok SPHINCS_SHA2_128S
      else if s = ''Dilithium3'' then Ok Dilithium3
      else if s = ''SPHINCS+-SHA2-256f-simple'' then Ok SLH_DSA_SHA2_256F
      else Err (UnknownAlgorithm s))"

fun pubkey_max_bytes :: "signature_algorithm \<Rightarrow> nat" where
  "pubkey_max_bytes Ed25519 = 32"
| "pubkey_max_bytes SPHINCS_SHA2_128S = 32"
| "pubkey_max_bytes Dilithium3 = 1952"
| "pubkey_max_bytes SLH_DSA_SHA2_256F = 64"

fun signature_max_bytes :: "signature_algorithm \<Rightarrow> nat" where
  "signature_max_bytes Ed25519 = 64"
| "signature_max_bytes SPHINCS_SHA2_128S = 7856"
| "signature_max_bytes Dilithium3 = 3309"
| "signature_max_bytes SLH_DSA_SHA2_256F = 49856"

lemma from_id_string_to_id_string [simp]: "from_id_string (to_id_string a) = Ok a"
  by (cases a) (simp_all add: from_id_string_def)

lemma from_id_string_Ok_iff: "from_id_string s = Ok a \<longleftrightarrow> s = to_id_string a"
  by (cases a) (auto simp: from_id_string_def split: if_splits)

lemma from_id_string_no_panic [simp]: "from_id_string s \<noteq> Panic"
  by (simp add: from_id_string_def)

datatype kem_algorithm = NoiseXX | MLKEM_768

fun kem_to_id_string :: "kem_algorithm \<Rightarrow> string" where
  "kem_to_id_string NoiseXX = ''Noise-XX''"
| "kem_to_id_string MLKEM_768 = ''ML-KEM-768''"

definition kem_from_id_string :: "string \<Rightarrow> (kem_algorithm, crypto_error) result" where
  "kem_from_id_string s =
     (if s = ''Noise-XX'' then Ok NoiseXX
      else if s = ''ML-KEM-768'' then Ok MLKEM_768
      else Err (UnknownAlgorithm s))"

lemma kem_from_id_string_to_id_string [simp]: "kem_from_id_string (kem_to_id_string a) = Ok a"
  by (cases a) (simp_all add: kem_from_id_string_def)

subsection \<open>TBIDs\<close>

text \<open>
  A TBID is a flat array of 96 bytes: the Ed25519 public key, then the SLH-DSA public key.
  The array length is Rust's type; here it is the predicate \<open>wf_tbid\<close>, which every
  constructor of the code establishes.
\<close>

record tbid =
  inner :: bytes

definition wf_tbid :: "tbid \<Rightarrow> bool" where
  "wf_tbid t \<longleftrightarrow> length (inner t) = 96"

definition tbid_default :: tbid where
  "tbid_default = \<lparr>inner = replicate 96 0\<rparr>"

definition raw_bytes :: "tbid \<Rightarrow> bytes" where
  "raw_bytes t = inner t"

definition from_raw :: "bytes \<Rightarrow> tbid" where
  "from_raw b = \<lparr>inner = b\<rparr>"

definition tbid_from_bytes :: "bytes \<Rightarrow> (tbid, crypto_error) result" where
  "tbid_from_bytes b =
     (if length b \<noteq> 96 then Err (BadInput ''TBID public key must be 96 bytes'')
      else Ok (from_raw b))"

definition ed25519_public_key :: "tbid \<Rightarrow> bytes" where
  "ed25519_public_key t = take 32 (inner t)"

definition slh_dsa_public_key :: "tbid \<Rightarrow> bytes" where
  "slh_dsa_public_key t = drop 32 (inner t)"

definition to_hex :: "(bytes \<Rightarrow> string) \<Rightarrow> tbid \<Rightarrow> string" where
  "to_hex hex_encode t = hex_encode (inner t)"

definition from_hex :: "(string \<Rightarrow> bytes option) \<Rightarrow> string \<Rightarrow> (tbid, crypto_error) result" where
  "from_hex hex_decode s =
     rbind (ok_or (BadInput ''invalid hex TBID'') (hex_decode s)) tbid_from_bytes"

lemma wf_tbid_default [simp]: "wf_tbid tbid_default"
  by (simp add: wf_tbid_def tbid_default_def)

lemma tbid_from_bytes_Ok_iff: "tbid_from_bytes b = Ok t \<longleftrightarrow> length b = 96 \<and> t = from_raw b"
  by (auto simp: tbid_from_bytes_def)

lemma tbid_from_bytes_wf: "tbid_from_bytes b = Ok t \<Longrightarrow> wf_tbid t"
  by (auto simp: tbid_from_bytes_Ok_iff wf_tbid_def from_raw_def)

lemma from_hex_wf: "from_hex dec s = Ok t \<Longrightarrow> wf_tbid t"
  by (auto simp: from_hex_def result_simps intro: tbid_from_bytes_wf)

lemma from_hex_no_panic [simp]: "from_hex dec s \<noteq> Panic"
  by (cases "dec s") (simp_all add: from_hex_def tbid_from_bytes_def)

lemma tbid_public_keys:
  assumes "wf_tbid t"
  shows "length (ed25519_public_key t) = 32" "length (slh_dsa_public_key t) = 64"
    "ed25519_public_key t @ slh_dsa_public_key t = raw_bytes t"
  using assms
  by (simp_all add: wf_tbid_def ed25519_public_key_def slh_dsa_public_key_def raw_bytes_def)

subsection \<open>TBID secrets\<close>

record tbid_secret =
  encrypted_ed25519 :: bytes
  ed25519_nonce :: bytes
  encrypted_slh_dsa :: bytes
  slh_dsa_nonce :: bytes

definition secret_from_bytes :: "bytes \<Rightarrow> (tbid_secret, crypto_error) result" where
  "secret_from_bytes b =
     (if length b \<noteq> 240 then Err (BadInput ''TBID secret must be 240 bytes'')
      else Ok \<lparr>encrypted_ed25519 = take 48 b,
               ed25519_nonce = take 24 (drop 48 b),
               encrypted_slh_dsa = take 144 (drop 72 b),
               slh_dsa_nonce = take 24 (drop 216 b)\<rparr>)"

definition secret_to_bytes :: "tbid_secret \<Rightarrow> bytes" where
  "secret_to_bytes s =
     encrypted_ed25519 s @ ed25519_nonce s @ encrypted_slh_dsa s @ slh_dsa_nonce s"

lemma take_take_drop: "take n (drop m b) @ drop (m + n) b = drop m b"
  by (metis append_take_drop_id drop_drop add.commute)

lemma secret_from_bytes_to_bytes:
  "secret_from_bytes b = Ok s \<Longrightarrow> secret_to_bytes s = b \<and> length b = 240"
proof -
  assume *: "secret_from_bytes b = Ok s"
  then have l: "length b = 240" by (simp add: secret_from_bytes_def split: if_splits)
  have "take 24 (drop 216 b) = drop 216 b" using l by simp
  moreover have "take 144 (drop 72 b) @ drop 216 b = drop 72 b"
    using take_take_drop [of 144 72 b] by simp
  moreover have "take 24 (drop 48 b) @ drop 72 b = drop 48 b"
    using take_take_drop [of 24 48 b] by simp
  ultimately show ?thesis
    using * l by (auto simp: secret_from_bytes_def secret_to_bytes_def)
qed

subsection \<open>The clock\<close>

text \<open>
  A clock is asked once per operation; its answer is an input of the operation. The
  rendering of a reading is \<^verbatim>\<open>format!("UE+{now_ns}ns")\<close>.
\<close>

type_synonym clock_reading = "(u64, string) result"

definition reference_time :: "u64 \<Rightarrow> string" where
  "reference_time now_ns = ''UE+'' @ show_u64 now_ns @ ''ns''"

end
