(* ===== verification/Crypto.thy ===== *)
theory Crypto
  imports Core_Types
begin

section \<open>The crypto server and its software backend\<close>

text \<open>
  Models \<^verbatim>\<open>core-engine/src/crypto_server\<close> (the traits, \<^verbatim>\<open>software.rs\<close>,
  \<^verbatim>\<open>signing_tbid.rs\<close>, \<^verbatim>\<open>signing_sphincs.rs\<close>,
  \<^verbatim>\<open>signing_dilithium.rs\<close>) and the wrappers of \<^verbatim>\<open>core/signing.rs\<close>,
  \<^verbatim>\<open>core/hashing.rs\<close> and \<^verbatim>\<open>core/identity.rs\<close>.

  The primitives themselves are libsodium and liboqs behind the C core: they are the fields
  of the record \<open>ffi\<close>, each returning the C result code and its out buffer. A
  private key is an opaque handle of the type \<open>'k\<close>. A \<^verbatim>\<open>dyn CryptoServer\<close> is the
  record \<open>crypto_server\<close> of the methods the domain logic calls;
  \<open>software_crypto_server\<close> is the instance the program uses.
\<close>

subsection \<open>The foreign functions\<close>

record 'k ffi =
  ffi_hash_sha256 :: "bytes \<Rightarrow> int \<times> bytes"
  ffi_ed25519_public :: "'k \<Rightarrow> bytes"
  ffi_ed25519_sign :: "'k \<Rightarrow> bytes \<Rightarrow> int \<times> bytes"
  ffi_ed25519_verify :: "bytes \<Rightarrow> bytes \<Rightarrow> bytes \<Rightarrow> int"
  ffi_sphincs_128s_verify :: "bytes \<Rightarrow> bytes \<Rightarrow> bytes \<Rightarrow> int"
  ffi_dilithium3_verify :: "bytes \<Rightarrow> bytes \<Rightarrow> bytes \<Rightarrow> int"
  ffi_sphincs_256f_verify :: "bytes \<Rightarrow> bytes \<Rightarrow> bytes \<Rightarrow> int"
  ffi_tbid_v1_sign :: "bytes \<Rightarrow> bytes \<Rightarrow> int \<times> bytes"
  ffi_tbid_v1_verify :: "bytes \<Rightarrow> bytes \<Rightarrow> bytes \<Rightarrow> int"

definition FORETIAS_TBID_V1_PUB_BYTES :: nat where
  "FORETIAS_TBID_V1_PUB_BYTES = 96"

definition FORETIAS_TBID_V1_SIG_BYTES :: nat where
  "FORETIAS_TBID_V1_SIG_BYTES = 49920"

definition FORETIAS_SIG_MAX_PUBKEY_BYTES :: nat where
  "FORETIAS_SIG_MAX_PUBKEY_BYTES = 2048"

definition FORETIAS_SIG_MAX_SIG_BYTES :: nat where
  "FORETIAS_SIG_MAX_SIG_BYTES = 65536"

subsection \<open>Wrappers over the foreign functions\<close>

definition sha256 :: "'k ffi \<Rightarrow> bytes \<Rightarrow> (bytes, crypto_error) result" where
  "sha256 F data =
     (let (rc, out) = ffi_hash_sha256 F data
      in rbind (c_result_to_error rc) (\<lambda>_. Ok out))"

text \<open>\<^verbatim>\<open>PrivKeyHandle::sign\<close> and \<^verbatim>\<open>PrivKeyHandle::public_key\<close>.\<close>

definition handle_sign :: "'k ffi \<Rightarrow> 'k \<Rightarrow> bytes \<Rightarrow> (bytes, crypto_error) result" where
  "handle_sign F k msg =
     (let (rc, sig) = ffi_ed25519_sign F k msg
      in rbind (c_result_to_error rc) (\<lambda>_. Ok sig))"

definition handle_public_key :: "'k ffi \<Rightarrow> 'k \<Rightarrow> (bytes, crypto_error) result" where
  "handle_public_key F k = Ok (ffi_ed25519_public F k)"

definition ed25519_verify :: "'k ffi \<Rightarrow> bytes \<Rightarrow> bytes \<Rightarrow> bytes \<Rightarrow> (bool, crypto_error) result" where
  "ed25519_verify F pub_key msg sig = verify_rc (ffi_ed25519_verify F pub_key msg sig)"

text \<open>
  The post-quantum verifiers copy the key and the signature into fixed buffers first; a
  slice that does not fit the buffer panics.
\<close>

definition pq_verify ::
    "(bytes \<Rightarrow> bytes \<Rightarrow> bytes \<Rightarrow> int) \<Rightarrow> bytes \<Rightarrow> bytes \<Rightarrow> bytes \<Rightarrow> (bool, crypto_error) result" where
  "pq_verify ffi_verify public_key msg sig =
     (if length public_key > FORETIAS_SIG_MAX_PUBKEY_BYTES then Panic
      else if length sig > FORETIAS_SIG_MAX_SIG_BYTES then Panic
      else verify_rc (ffi_verify public_key msg sig))"

definition dilithium3_verify ::
    "'k ffi \<Rightarrow> bytes \<Rightarrow> bytes \<Rightarrow> bytes \<Rightarrow> (bool, crypto_error) result" where
  "dilithium3_verify F = pq_verify (ffi_dilithium3_verify F)"

definition tbid_sign :: "'k ffi \<Rightarrow> bytes \<Rightarrow> bytes \<Rightarrow> (bytes, crypto_error) result" where
  "tbid_sign F secret_key msg =
     (if length secret_key \<noteq> 240 then Err (BadInput ''secret key length mismatch'')
      else (let (rc, sig) = ffi_tbid_v1_sign F secret_key msg
            in rbind (c_result_to_error rc) (\<lambda>_. Ok sig)))"

definition tbid_verify ::
    "'k ffi \<Rightarrow> bytes \<Rightarrow> bytes \<Rightarrow> bytes \<Rightarrow> (bool, crypto_error) result" where
  "tbid_verify F public_key msg sig =
     (if length public_key \<noteq> FORETIAS_TBID_V1_PUB_BYTES
      then Err (BadInput ''public key length mismatch'')
      else if length sig < FORETIAS_TBID_V1_SIG_BYTES then Err (BadInput ''signature too short'')
      else if length sig > FORETIAS_TBID_V1_SIG_BYTES then Panic
      else verify_rc (ffi_tbid_v1_verify F public_key msg sig))"

text \<open>\<^verbatim>\<open>TbidSecret::sign\<close>.\<close>

definition secret_sign :: "'k ffi \<Rightarrow> tbid_secret \<Rightarrow> bytes \<Rightarrow> (bytes, crypto_error) result" where
  "secret_sign F s message =
     (let secret_bytes = secret_to_bytes s
      in if length secret_bytes \<noteq> 240 then Err (BadInput ''secret key length mismatch'')
         else tbid_sign F secret_bytes message)"

subsection \<open>The crypto server interface\<close>

record crypto_server =
  cs_sha256 :: "bytes \<Rightarrow> (bytes, crypto_error) result"
  cs_sign :: "bytes \<Rightarrow> (bytes, crypto_error) result"
  cs_signature_algorithm :: signature_algorithm
  cs_verify_ed25519 :: "bytes \<Rightarrow> bytes \<Rightarrow> bytes \<Rightarrow> (bool, crypto_error) result"
  cs_verify_with :: "bytes \<Rightarrow> string \<Rightarrow> bytes \<Rightarrow> bytes \<Rightarrow> (bool, crypto_error) result"

subsection \<open>The software backend\<close>

text \<open>
  \<^verbatim>\<open>verify_with\<close> slices \<^verbatim>\<open>pub_key[..32]\<close> and \<^verbatim>\<open>sig[..64]\<close> before the
  conversion whose error it maps, so that a shorter slice panics.
\<close>

definition sw_verify_with ::
    "'k ffi \<Rightarrow> bytes \<Rightarrow> string \<Rightarrow> bytes \<Rightarrow> bytes \<Rightarrow> (bool, crypto_error) result" where
  "sw_verify_with F pub_key alg_id msg sig =
     rbind (from_id_string alg_id) (\<lambda>alg. case alg of
       Ed25519 \<Rightarrow>
         rbind (slice_to pub_key 32) (\<lambda>pk_bytes.
         rbind (slice_to sig 64) (\<lambda>sig_bytes.
           ed25519_verify F pk_bytes msg sig_bytes))
     | SPHINCS_SHA2_128S \<Rightarrow> pq_verify (ffi_sphincs_128s_verify F) pub_key msg sig
     | Dilithium3 \<Rightarrow> dilithium3_verify F pub_key msg sig
     | SLH_DSA_SHA2_256F \<Rightarrow> pq_verify (ffi_sphincs_256f_verify F) pub_key msg sig)"

definition software_crypto_server :: "'k ffi \<Rightarrow> 'k \<Rightarrow> crypto_server" where
  "software_crypto_server F priv_key =
     \<lparr>cs_sha256 = sha256 F,
      cs_sign = handle_sign F priv_key,
      cs_signature_algorithm = Ed25519,
      cs_verify_ed25519 = ed25519_verify F,
      cs_verify_with = sw_verify_with F\<rparr>"

lemma sw_simps [simp]:
  "cs_sha256 (software_crypto_server F k) = sha256 F"
  "cs_sign (software_crypto_server F k) = handle_sign F k"
  "cs_signature_algorithm (software_crypto_server F k) = Ed25519"
  "cs_verify_ed25519 (software_crypto_server F k) = ed25519_verify F"
  "cs_verify_with (software_crypto_server F k) = sw_verify_with F"
  by (simp_all add: software_crypto_server_def)

text \<open>The software backend on well-sized Ed25519 input is the foreign verifier itself.\<close>

lemma sw_verify_with_ed25519:
  assumes "length pk = 32" and "length sig = 64"
  shows "sw_verify_with F pk ''Ed25519'' msg sig = ed25519_verify F pk msg sig"
  using assms by (simp add: sw_verify_with_def from_id_string_def)

lemma sw_verify_with_short_sig:
  "length sig < 64 \<Longrightarrow> sw_verify_with F pk ''Ed25519'' msg sig = Panic"
  by (simp add: sw_verify_with_def from_id_string_def slice_to_def)

lemma sw_verify_with_short_key:
  "length pk < 32 \<Longrightarrow> sw_verify_with F pk ''Ed25519'' msg sig = Panic"
  by (simp add: sw_verify_with_def from_id_string_def slice_to_def)

text \<open>The identifier \<^verbatim>\<open>"SLH-DSA"\<close> names no algorithm of \<^verbatim>\<open>from_id_string\<close>.\<close>

lemma sw_verify_with_slh_dsa:
  "sw_verify_with F pk ''SLH-DSA'' msg sig = Err (UnknownAlgorithm ''SLH-DSA'')"
  by (simp add: sw_verify_with_def from_id_string_def)

text \<open>
  What the program relies on in the primitives: hashing answers with a digest, keys and
  signatures have their documented sizes, and a signature verifies under the public key of
  the handle that made it.
\<close>

definition ffi_ed25519_correct :: "'k ffi \<Rightarrow> bool" where
  "ffi_ed25519_correct F \<longleftrightarrow>
     (\<forall>k. length (ffi_ed25519_public F k) = 32) \<and>
     (\<forall>k m. fst (ffi_ed25519_sign F k m) = 0 \<longrightarrow>
        length (snd (ffi_ed25519_sign F k m)) = 64 \<and>
        ffi_ed25519_verify F (ffi_ed25519_public F k) m (snd (ffi_ed25519_sign F k m)) = 0)"

definition ffi_tbid_correct :: "'k ffi \<Rightarrow> tbid \<Rightarrow> tbid_secret \<Rightarrow> bool" where
  "ffi_tbid_correct F t s \<longleftrightarrow>
     (\<forall>m. fst (ffi_tbid_v1_sign F (secret_to_bytes s) m) = 0 \<longrightarrow>
        length (snd (ffi_tbid_v1_sign F (secret_to_bytes s) m)) = FORETIAS_TBID_V1_SIG_BYTES \<and>
        ffi_tbid_v1_verify F (raw_bytes t) m (snd (ffi_tbid_v1_sign F (secret_to_bytes s) m)) = 0)"

lemma handle_sign_Ok:
  "handle_sign F k m = Ok sig \<longleftrightarrow>
     fst (ffi_ed25519_sign F k m) = 0 \<and> sig = snd (ffi_ed25519_sign F k m)"
  by (auto simp: handle_sign_def result_simps split: prod.splits)

lemma handle_sign_verifies:
  assumes "ffi_ed25519_correct F" and "handle_sign F k m = Ok sig"
  shows "length sig = 64"
    and "sw_verify_with F (ffi_ed25519_public F k) ''Ed25519'' m sig = Ok True"
  using assms
  by (simp_all add: ffi_ed25519_correct_def handle_sign_Ok sw_verify_with_ed25519
      ed25519_verify_def verify_rc_def)

lemma handle_sign_verifies_prefix:
  assumes "ffi_ed25519_correct F" and "handle_sign F k m = Ok sig"
  shows "sw_verify_with F (ffi_ed25519_public F k) ''Ed25519'' m (sig @ rest) = Ok True"
  using handle_sign_verifies [OF assms] assms
  by (simp add: sw_verify_with_def from_id_string_def ffi_ed25519_correct_def ed25519_verify_def)

lemma secret_sign_Ok:
  "secret_sign F s m = Ok sig \<longleftrightarrow>
     length (secret_to_bytes s) = 240 \<and>
     fst (ffi_tbid_v1_sign F (secret_to_bytes s) m) = 0 \<and>
     sig = snd (ffi_tbid_v1_sign F (secret_to_bytes s) m)"
  by (auto simp: secret_sign_def tbid_sign_def Let_def result_simps split: prod.splits)

lemma secret_sign_verifies:
  assumes "ffi_tbid_correct F t s" and "wf_tbid t" and "secret_sign F s m = Ok sig"
  shows "length sig = FORETIAS_TBID_V1_SIG_BYTES"
    and "tbid_verify F (raw_bytes t) m sig = Ok True"
  using assms
  by (simp_all add: ffi_tbid_correct_def secret_sign_Ok tbid_verify_def verify_rc_def
      FORETIAS_TBID_V1_PUB_BYTES_def wf_tbid_def raw_bytes_def)

end
