(* ===== verification/Tick.thy ===== *)
theory Tick
  imports Crypto
begin

section \<open>Chronon records, foretis records, stamping and verifying\<close>

text \<open>
  Models \<^verbatim>\<open>core-engine/src/foretias/tick.rs\<close> and
  \<^verbatim>\<open>external_attestation.rs\<close>: the two record types, their validating
  constructors, the canonical blobs that are signed, \<^verbatim>\<open>stamp\<close>,
  \<^verbatim>\<open>verify\<close> and \<^verbatim>\<open>verify_pair\<close>.

  \<^verbatim>\<open>postcard::to_allocvec\<close> (a crate) is an argument \<open>pc\<close> of the functions that
  serialise a payload. Randomness and the clock are read at most once per call; what they
  answered is an argument.
\<close>

subsection \<open>Records\<close>

record foretis_record =
  fr_chronon_number :: u64
  fr_content_hash :: bytes
  fr_tbid :: tbid
  fr_echo :: string
  fr_tbn :: string
  fr_time_being_reference_time :: string

text \<open>
  A chronon record holds the external attestations it received, and each of them holds the
  attester's own chronon record: the two types are mutually recursive.
\<close>

datatype chronon_record =
  ChrononRecord
    (cr_chronon_number: u64)
    (cr_public_key: bytes)
    (cr_signature_algorithm: string)
    (cr_forward_foretis: bytes)
    (cr_backward_foretis: bytes)
    (cr_aa_nonce: bytes)
    (cr_chronon_stamp_count: u64)
    (cr_external_attestations: "external_attestation_record list")
    (cr_tb_version: u32)
    (cr_tbid: tbid)
and external_attestation_record =
  ExternalAttestationRecord
    (ea_attester_tbid: string)
    (ea_foretis: foretis_record)
    (ea_signature: bytes)
    (ea_signature_algorithm: string)
    (ea_attester_tick_record: chronon_record)
    (ea_received_at_ns: u64)

definition set_external_attestations ::
    "external_attestation_record list \<Rightarrow> chronon_record \<Rightarrow> chronon_record" where
  "set_external_attestations atts r =
     ChrononRecord (cr_chronon_number r) (cr_public_key r) (cr_signature_algorithm r)
       (cr_forward_foretis r) (cr_backward_foretis r) (cr_aa_nonce r)
       (cr_chronon_stamp_count r) atts (cr_tb_version r) (cr_tbid r)"

lemma set_external_attestations_sel [simp]:
  "cr_chronon_number (set_external_attestations a r) = cr_chronon_number r"
  "cr_public_key (set_external_attestations a r) = cr_public_key r"
  "cr_signature_algorithm (set_external_attestations a r) = cr_signature_algorithm r"
  "cr_forward_foretis (set_external_attestations a r) = cr_forward_foretis r"
  "cr_backward_foretis (set_external_attestations a r) = cr_backward_foretis r"
  "cr_aa_nonce (set_external_attestations a r) = cr_aa_nonce r"
  "cr_chronon_stamp_count (set_external_attestations a r) = cr_chronon_stamp_count r"
  "cr_external_attestations (set_external_attestations a r) = a"
  "cr_tb_version (set_external_attestations a r) = cr_tb_version r"
  "cr_tbid (set_external_attestations a r) = cr_tbid r"
  by (simp_all add: set_external_attestations_def)

text \<open>The validating \<^verbatim>\<open>build\<close> of each builder, and the deprecated constructors.\<close>

definition chronon_build :: "chronon_record \<Rightarrow> (chronon_record, node_error) result" where
  "chronon_build record =
     (if cr_chronon_number record = 0 then Err (InvalidInput ''chronon_number must be > 0'')
      else if cr_public_key record = [] then Err (InvalidInput ''public_key must not be empty'')
      else Ok record)"

definition chronon_new ::
    "u64 \<Rightarrow> bytes \<Rightarrow> string \<Rightarrow> bytes \<Rightarrow> bytes \<Rightarrow> bytes \<Rightarrow> u64 \<Rightarrow>
     (chronon_record, node_error) result" where
  "chronon_new n public_key alg forward backward nonce stamps =
     (if n = 0 then Err (InvalidInput ''chronon_number must be > 0'')
      else if public_key = [] then Err (InvalidInput ''public_key must not be empty'')
      else Ok (ChrononRecord n public_key alg forward backward nonce stamps [] 0 tbid_default))"

definition is_genesis :: "chronon_record \<Rightarrow> bool" where
  "is_genesis r \<longleftrightarrow> cr_chronon_number r = 1"

definition foretis_build :: "foretis_record \<Rightarrow> (foretis_record, node_error) result" where
  "foretis_build record =
     (if fr_chronon_number record = 0 then Err (InvalidInput ''chronon_number must be > 0'')
      else Ok record)"

definition foretis_new ::
    "u64 \<Rightarrow> bytes \<Rightarrow> tbid \<Rightarrow> string \<Rightarrow> string \<Rightarrow> string \<Rightarrow> (foretis_record, node_error) result" where
  "foretis_new n content_hash t echo tbn time =
     (if n = 0 then Err (InvalidInput ''chronon_number must be > 0'')
      else Ok \<lparr>fr_chronon_number = n, fr_content_hash = content_hash, fr_tbid = t,
               fr_echo = echo, fr_tbn = tbn, fr_time_being_reference_time = time\<rparr>)"

definition attestation_build ::
    "external_attestation_record \<Rightarrow> (external_attestation_record, node_error) result" where
  "attestation_build record =
     (if fr_chronon_number (ea_foretis record) = 0
      then Err (InvalidInput ''foretis.chronon_number must be > 0'')
      else Ok record)"

lemma chronon_build_Ok_iff:
  "chronon_build r = Ok r' \<longleftrightarrow> r' = r \<and> cr_chronon_number r \<noteq> 0 \<and> cr_public_key r \<noteq> []"
  by (auto simp: chronon_build_def)

subsection \<open>Serialisation algorithms\<close>

datatype serialization_algorithm = Postcard | Bincode

definition serialize ::
    "(bytes \<Rightarrow> (bytes, string) result) \<Rightarrow> (bytes \<Rightarrow> (bytes, string) result) \<Rightarrow>
     serialization_algorithm \<Rightarrow> bytes \<Rightarrow> (bytes, node_error) result" where
  "serialize postcard bincode alg content = (case alg of
     Postcard \<Rightarrow> rmap_err (\<lambda>e. Internal (''postcard serialize: '' @ e)) (postcard content)
   | Bincode \<Rightarrow> rmap_err (\<lambda>e. Internal (''bincode serialize: '' @ e)) (bincode content))"

fun serialization_name :: "serialization_algorithm \<Rightarrow> string" where
  "serialization_name Postcard = ''postcard''"
| "serialization_name Bincode = ''bincode''"

text \<open>\<^verbatim>\<open>str::to_lowercase\<close> on ASCII letters; the identifiers compared are ASCII.\<close>

definition lower_char :: "char \<Rightarrow> char" where
  "lower_char c =
     (if 65 \<le> (of_char c :: nat) \<and> (of_char c :: nat) \<le> 90 then char_of (of_char c + 32 :: nat) else c)"

definition serialization_from_str ::
    "string \<Rightarrow> (serialization_algorithm, node_error) result" where
  "serialization_from_str s =
     (let l = map lower_char s in
      if l = ''postcard'' then Ok Postcard
      else if l = ''bincode'' then Ok Bincode
      else Err (InvalidInput (''unknown serialization algorithm: '' @ [CHR 0x27] @ l @ [CHR 0x27] @
             '' (expected '' @ [CHR 0x27] @ ''postcard'' @ [CHR 0x27] @ '' or '' @ [CHR 0x27] @
             ''bincode'' @ [CHR 0x27] @ '')'')))"

lemma serialization_from_str_name [simp]: "serialization_from_str (serialization_name a) = Ok a"
  by (cases a) (simp_all add: serialization_from_str_def lower_char_def)

subsection \<open>Stamping\<close>

text \<open>The calendar lookup trait, as the record of its methods.\<close>

record calendar_lookup =
  lk_get :: "u64 \<Rightarrow> nat \<Rightarrow> (chronon_record list, node_error) result"
  lk_latest :: "u64 option"
  lk_tbid :: tbid
  lk_tbn :: string

record stamped_foretis =
  st_foretis :: foretis_record
  st_signature_bytes :: bytes
  st_signature_algorithm :: string

type_synonym postcard_foretis = "foretis_record \<Rightarrow> (bytes, string) result"

definition postcard_error :: "string \<Rightarrow> node_error" where
  "postcard_error e = Internal (''postcard serialize error: '' @ e)"

definition clock_error :: "string \<Rightarrow> node_error" where
  "clock_error e = Internal (''clock error: '' @ e)"

text \<open>\<^verbatim>\<open>ForetisRecord::sig_input_bytes\<close>: \<^verbatim>\<open>expect\<close> panics on a serialisation error.\<close>

definition sig_input_bytes :: "postcard_foretis \<Rightarrow> foretis_record \<Rightarrow> (bytes, 'e) result" where
  "sig_input_bytes pc f = (case pc f of Ok b \<Rightarrow> Ok b | _ \<Rightarrow> Panic)"

definition stamp ::
    "postcard_foretis \<Rightarrow> crypto_server \<Rightarrow> clock_reading \<Rightarrow> tbid \<Rightarrow> u64 \<Rightarrow> bytes \<Rightarrow>
     string \<Rightarrow> string \<Rightarrow> (stamped_foretis, node_error) result" where
  "stamp pc server clock t chronon_number content echo tbn =
     rbind (rmap_err Crypto (cs_sha256 server content)) (\<lambda>content_hash.
     rbind (rmap_err clock_error clock) (\<lambda>now_ns.
     (let foretis = \<lparr>fr_chronon_number = chronon_number, fr_content_hash = content_hash,
                     fr_tbid = t, fr_echo = echo, fr_tbn = tbn,
                     fr_time_being_reference_time = reference_time now_ns\<rparr>
      in rbind (rmap_err postcard_error (pc foretis)) (\<lambda>sig_input.
         rbind (rmap_err Crypto (cs_sign server sig_input)) (\<lambda>signature.
           Ok \<lparr>st_foretis = foretis, st_signature_bytes = signature,
               st_signature_algorithm = to_id_string (cs_signature_algorithm server)\<rparr>)))))"

subsection \<open>Verifying\<close>

definition verify ::
    "postcard_foretis \<Rightarrow> crypto_server \<Rightarrow> foretis_record \<Rightarrow> bytes \<Rightarrow> string \<Rightarrow> bytes \<Rightarrow>
     calendar_lookup \<Rightarrow> (bool, node_error) result" where
  "verify pc server foretis signature signature_algorithm content calendar =
     rbind (rmap_err Crypto (cs_sha256 server content)) (\<lambda>recomputed.
     if recomputed \<noteq> fr_content_hash foretis then Ok False
     else
       rbind (lk_get calendar (fr_chronon_number foretis) 1) (\<lambda>records.
       rbind (ok_or (NotFound ''tick'') (list_first records)) (\<lambda>rec.
       rbind (rmap_err postcard_error (pc foretis)) (\<lambda>sig_input.
         rmap_err Crypto
           (cs_verify_with server (cr_public_key rec) signature_algorithm sig_input signature)))))"

text \<open>
  What \<open>Ok True\<close> means: the content is the one hashed, the calendar answered with a
  record, and the signature over the payload verifies under that record's key.
\<close>

lemma verify_Ok_True_iff:
  "verify pc server f sig alg content cal = Ok True \<longleftrightarrow>
     cs_sha256 server content = Ok (fr_content_hash f) \<and>
     (\<exists>rec recs sig_input. lk_get cal (fr_chronon_number f) 1 = Ok (rec # recs) \<and>
        pc f = Ok sig_input \<and> cs_verify_with server (cr_public_key rec) alg sig_input sig = Ok True)"
  by (auto simp: verify_def result_simps list_first_Some_iff split: if_splits)

subsection \<open>The auto-attestation blobs\<close>

definition blob_with_count ::
    "string \<Rightarrow> u64 \<Rightarrow> bytes \<Rightarrow> u64 \<Rightarrow> bytes \<Rightarrow> u64 \<Rightarrow> bytes \<Rightarrow> bytes" where
  "blob_with_count tbid_str a_tick a_pk b_tick b_pk stamps nonce =
     as_bytes tbid_str @ to_be_bytes a_tick @ a_pk @ to_be_bytes b_tick @ b_pk @
     to_be_bytes stamps @ nonce"

definition auto_attestation_blob_with_count ::
    "(bytes, crypto_error) result \<Rightarrow> string \<Rightarrow> u64 \<Rightarrow> bytes \<Rightarrow> u64 \<Rightarrow> bytes \<Rightarrow> u64 \<Rightarrow>
     (bytes \<times> bytes, node_error) result" where
  "auto_attestation_blob_with_count random_nonce tbid_str a_tick a_pk b_tick b_pk stamps =
     rbind (rmap_err Crypto random_nonce) (\<lambda>nonce.
       Ok (blob_with_count tbid_str a_tick a_pk b_tick b_pk stamps nonce, nonce))"

definition auto_attestation_blob ::
    "(bytes, crypto_error) result \<Rightarrow> string \<Rightarrow> u64 \<Rightarrow> bytes \<Rightarrow> u64 \<Rightarrow> bytes \<Rightarrow>
     (bytes \<times> bytes, node_error) result" where
  "auto_attestation_blob random_nonce tbid_str a_tick a_pk b_tick b_pk =
     auto_attestation_blob_with_count random_nonce tbid_str a_tick a_pk b_tick b_pk 0"

definition genesis_blob_with_sig ::
    "string \<Rightarrow> u64 \<Rightarrow> bytes \<Rightarrow> bytes \<Rightarrow> u64 \<Rightarrow> bytes \<Rightarrow> bytes" where
  "genesis_blob_with_sig tbid_str tick pk genesis_sig stamps nonce =
     as_bytes tbid_str @ to_be_bytes tick @ pk @ to_be_bytes tick @ pk @ genesis_sig @
     to_be_bytes stamps @ nonce"

definition auto_attestation_blob_with_genesis ::
    "(bytes, crypto_error) result \<Rightarrow> string \<Rightarrow> u64 \<Rightarrow> bytes \<Rightarrow> bytes \<Rightarrow> u64 \<Rightarrow>
     (bytes \<times> bytes, node_error) result" where
  "auto_attestation_blob_with_genesis random_nonce tbid_str tick pk genesis_sig stamps =
     rbind (rmap_err Crypto random_nonce) (\<lambda>nonce.
       Ok (genesis_blob_with_sig tbid_str tick pk genesis_sig stamps nonce, nonce))"

definition build_normal_attest_blob ::
    "string \<Rightarrow> chronon_record \<Rightarrow> chronon_record \<Rightarrow> u64 \<Rightarrow> bytes \<Rightarrow> bytes" where
  "build_normal_attest_blob tbid_str prev cur stamps nonce =
     as_bytes tbid_str @ to_be_bytes (cr_chronon_number prev) @ cr_public_key prev @
     to_be_bytes (cr_chronon_number cur) @ cr_public_key cur @ to_be_bytes stamps @ nonce"

definition build_genesis_attest_blob ::
    "string \<Rightarrow> chronon_record \<Rightarrow> bytes \<Rightarrow> u64 \<Rightarrow> bytes \<Rightarrow> bytes" where
  "build_genesis_attest_blob tbid_str cur forward_genesis stamps nonce =
     as_bytes tbid_str @ to_be_bytes (cr_chronon_number cur) @ cr_public_key cur @
     to_be_bytes (cr_chronon_number cur) @ cr_public_key cur @
     (if forward_genesis \<noteq> [] then forward_genesis else []) @
     to_be_bytes stamps @ nonce"

definition build_genesis_blob :: "chronon_record \<Rightarrow> chronon_record \<Rightarrow> bytes" where
  "build_genesis_blob prev cur =
     raw_bytes (cr_tbid prev) @ to_be_bytes (cr_chronon_number cur) @ cr_public_key cur"

lemma normal_blob_eq:
  "build_normal_attest_blob s prev cur stamps nonce =
     blob_with_count s (cr_chronon_number prev) (cr_public_key prev) (cr_chronon_number cur)
       (cr_public_key cur) stamps nonce"
  by (simp add: build_normal_attest_blob_def blob_with_count_def)

lemma genesis_attest_blob_eq:
  "build_genesis_attest_blob s cur g stamps nonce =
     genesis_blob_with_sig s (cr_chronon_number cur) (cr_public_key cur) g stamps nonce"
  by (simp add: build_genesis_attest_blob_def genesis_blob_with_sig_def)

text \<open>
  The blob determines its fields once the key and TBID string widths are fixed: no two
  different attestations share a blob.
\<close>

lemma blob_with_count_inj:
  assumes "length s = length s'" and "length a_pk = length a_pk'" and "length b_pk = length b_pk'"
    and "blob_with_count s a a_pk b b_pk n nonce = blob_with_count s' a' a_pk' b' b_pk' n' nonce'"
  shows "s = s' \<and> a = a' \<and> a_pk = a_pk' \<and> b = b' \<and> b_pk = b_pk' \<and> n = n' \<and> nonce = nonce'"
  using assms by (simp add: blob_with_count_def)

subsection \<open>Verifying a pair of ticks\<close>

definition validate_and_split_genesis ::
    "bytes \<Rightarrow> bytes \<Rightarrow> (bytes \<times> bytes \<times> bytes \<times> bytes, node_error) result" where
  "validate_and_split_genesis forward backward =
     (if length forward < 64
      then Err (InvalidInput ''forward_foretis too short for genesis split'')
      else if length backward < 64
      then Err (InvalidInput ''backward_foretis too short for genesis split'')
      else Ok (take 64 forward, take 64 backward, drop 64 forward, drop 64 backward))"

definition verify_genesis ::
    "'k ffi \<Rightarrow> bytes \<Rightarrow> bytes \<Rightarrow> chronon_record \<Rightarrow> chronon_record \<Rightarrow> u32 \<Rightarrow>
     (bool, node_error) result" where
  "verify_genesis F forward_genesis backward_genesis prev cur tb_version =
     (if forward_genesis \<noteq> [] \<and> forward_genesis = backward_genesis
      then rmap_err Crypto
             (tbid_verify F (raw_bytes (cr_tbid prev)) (build_genesis_blob prev cur) forward_genesis)
      else Ok (forward_genesis = [] \<and> tb_version = 0))"

definition verify_pair ::
    "'k ffi \<Rightarrow> crypto_server \<Rightarrow> string \<Rightarrow> chronon_record \<Rightarrow> chronon_record \<Rightarrow>
     (bool, node_error) result" where
  "verify_pair F crypto tbid_str prev cur =
     (let nonce = cr_aa_nonce cur; stamps = cr_chronon_stamp_count cur in
      rbind
        (if cr_chronon_number cur = 1 \<and> cr_tb_version cur = 1 then
           rbind (validate_and_split_genesis (cr_forward_foretis cur) (cr_backward_foretis cur))
             (\<lambda>(forward_sig, backward_sig, forward_genesis, backward_genesis).
           rbind (verify_genesis F forward_genesis backward_genesis prev cur (cr_tb_version cur))
             (\<lambda>genesis_valid.
             Ok (forward_sig, backward_sig,
                 build_genesis_attest_blob tbid_str cur forward_genesis stamps nonce,
                 genesis_valid)))
         else
           Ok (cr_forward_foretis cur, cr_backward_foretis cur,
               build_normal_attest_blob tbid_str prev cur stamps nonce, True))
        (\<lambda>(forward_sig, backward_sig, attest_blob, genesis_valid).
      rbind (rmap_err Crypto
              (cs_verify_with crypto (cr_public_key prev) (cr_signature_algorithm cur)
                 attest_blob forward_sig)) (\<lambda>forward_valid.
      rbind (rmap_err Crypto
              (cs_verify_with crypto (cr_public_key cur) (cr_signature_algorithm cur)
                 attest_blob backward_sig)) (\<lambda>backward_valid.
        Ok (forward_valid \<and> backward_valid \<and> genesis_valid)))))"

definition genesis_shaped :: "chronon_record \<Rightarrow> bool" where
  "genesis_shaped r \<longleftrightarrow> cr_chronon_number r = 1 \<and> cr_tb_version r = 1"

lemma verify_pair_normal:
  assumes "\<not> genesis_shaped cur"
  shows "verify_pair F crypto s prev cur = Ok True \<longleftrightarrow>
    cs_verify_with crypto (cr_public_key prev) (cr_signature_algorithm cur)
      (build_normal_attest_blob s prev cur (cr_chronon_stamp_count cur) (cr_aa_nonce cur))
      (cr_forward_foretis cur) = Ok True \<and>
    cs_verify_with crypto (cr_public_key cur) (cr_signature_algorithm cur)
      (build_normal_attest_blob s prev cur (cr_chronon_stamp_count cur) (cr_aa_nonce cur))
      (cr_backward_foretis cur) = Ok True"
  using assms by (auto simp: genesis_shaped_def verify_pair_def Let_def result_simps)

lemma verify_genesis_True:
  "verify_genesis F fg bg prev cur 1 = Ok True \<longleftrightarrow>
     fg \<noteq> [] \<and> bg = fg \<and>
     tbid_verify F (raw_bytes (cr_tbid prev)) (build_genesis_blob prev cur) fg = Ok True"
  by (auto simp: verify_genesis_def result_simps)

text \<open>The base-record trait: chronon, foretis and attestation records need no full signature.\<close>

definition chronon_require_full :: "chronon_record \<Rightarrow> bool" where
  "chronon_require_full r = False"

definition foretis_require_full :: "foretis_record \<Rightarrow> bool" where
  "foretis_require_full r = False"

definition attestation_require_full :: "external_attestation_record \<Rightarrow> bool" where
  "attestation_require_full r = False"

subsection \<open>What a tick signs\<close>

definition tick_numbered :: "u64 \<Rightarrow> chronon_record" where
  "tick_numbered n = ChrononRecord n [1] ''Ed25519'' [] [] [] 0 [] 0 tbid_default"

text \<open>
  What a tick signs determines it: two attestation blobs of ticks with keys and TBID
  strings of the same length are equal only for the same two numbers, the same two keys, the
  same stamp count and the same nonce.
\<close>

theorem attestation_blob_binds:
  assumes "length s = length s'"
    and "length (cr_public_key prev) = length (cr_public_key prev')"
    and "length (cr_public_key cur) = length (cr_public_key cur')"
    and "build_normal_attest_blob s prev cur stamps nonce = build_normal_attest_blob s' prev' cur' stamps' nonce'"
  shows "s = s' \<and> cr_chronon_number prev = cr_chronon_number prev' \<and> cr_public_key prev = cr_public_key prev' \<and>
    cr_chronon_number cur = cr_chronon_number cur' \<and> cr_public_key cur = cr_public_key cur' \<and>
    stamps = stamps' \<and> nonce = nonce'"
  using blob_with_count_inj [OF assms(1-3)] assms(4) by (simp add: normal_blob_eq)

theorem attestation_blob_binds_witness:
  "build_normal_attest_blob ''ab'' (tick_numbered 1) (tick_numbered 2) 3 [1] \<noteq>
   build_normal_attest_blob ''ab'' (tick_numbered 1) (tick_numbered 2) 4 [1]"
  using attestation_blob_binds [of "''ab''" "''ab''" "tick_numbered 1" "tick_numbered 1" "tick_numbered 2"
      "tick_numbered 2" 3 "[1]" 4 "[1]"] by auto

end
