(* ===== verification/Demo_Crypto.thy ===== *)
theory Demo_Crypto
  imports Tick
begin

section \<open>Concrete instances of the foreign code\<close>

text \<open>
  Small executable functions in the place of the crates and of the C core, on which the
  theorems about them are applied to concrete inputs: keys are byte strings, a signature is
  the public key followed by a one-byte checksum of the message, padded to the size of the
  real ones.
\<close>

definition checksum :: "bytes \<Rightarrow> u8" where
  "checksum m = fold (\<lambda>b h. 3 * h + b) m 1"

definition demo_public :: "bytes \<Rightarrow> bytes" where
  "demo_public k = take 32 (k @ replicate 32 0)"

definition demo_tag :: "nat \<Rightarrow> bytes \<Rightarrow> bytes" where
  "demo_tag n m = checksum m # replicate n 0"

definition demo_ffi :: "bytes ffi" where
  "demo_ffi =
     \<lparr>ffi_hash_sha256 = (\<lambda>m. (0, demo_tag 31 m)),
      ffi_ed25519_public = demo_public,
      ffi_ed25519_sign = (\<lambda>k m. (0, demo_public k @ demo_tag 31 m)),
      ffi_ed25519_verify = (\<lambda>pk m sig. if sig = pk @ demo_tag 31 m then 0 else -1),
      ffi_sphincs_128s_verify = (\<lambda>pk m sig. -1),
      ffi_dilithium3_verify = (\<lambda>pk m sig. -1),
      ffi_sphincs_256f_verify = (\<lambda>pk m sig. -1),
      ffi_tbid_v1_sign = (\<lambda>sk m. (0, demo_tag 49919 m)),
      ffi_tbid_v1_verify = (\<lambda>pk m sig. if sig = demo_tag 49919 m then 0 else -1)\<rparr>"

definition demo_server :: crypto_server where
  "demo_server = software_crypto_server demo_ffi []"

definition demo_hex :: "bytes \<Rightarrow> string" where
  "demo_hex b = concat (map (\<lambda>w. let n = unat w; d = (\<lambda>k. char_of (if k < 10 then 48 + k else 87 + k))
                               in [d (n div 16), d (n mod 16)]) b)"

definition demo_postcard :: postcard_foretis where
  "demo_postcard f = Ok (to_be_bytes (fr_chronon_number f) @ fr_content_hash f @ as_bytes (fr_echo f))"

definition demo_tbid_keypair :: "(bytes \<times> bytes, crypto_error) result" where
  "demo_tbid_keypair = Ok (replicate 96 7, replicate 240 9)"

lemma demo_postcard_ok [simp]: "is_ok (demo_postcard f)"
  by (simp add: demo_postcard_def)

lemma demo_ffi_simps [simp]:
  "ffi_hash_sha256 demo_ffi m = (0, demo_tag 31 m)"
  "ffi_ed25519_public demo_ffi = demo_public"
  "ffi_ed25519_sign demo_ffi k m = (0, demo_public k @ demo_tag 31 m)"
  "ffi_ed25519_verify demo_ffi pk m sig = (if sig = pk @ demo_tag 31 m then 0 else -1)"
  "ffi_tbid_v1_sign demo_ffi sk m = (0, demo_tag 49919 m)"
  "ffi_tbid_v1_verify demo_ffi pk m sig = (if sig = demo_tag 49919 m then 0 else -1)"
  by (simp_all add: demo_ffi_def)

lemma demo_lengths [simp]: "length (demo_public k) = 32" "length (demo_tag n m) = Suc n"
  by (simp_all add: demo_public_def demo_tag_def)

lemma demo_ffi_ed25519 [simp]: "ffi_ed25519_correct demo_ffi"
  by (simp add: ffi_ed25519_correct_def)

lemma demo_ffi_tbid [simp]: "ffi_tbid_correct demo_ffi t s"
  by (simp add: ffi_tbid_correct_def FORETIAS_TBID_V1_SIG_BYTES_def)

lemma demo_hash [simp]: "sha256 demo_ffi m = Ok (demo_tag 31 m)"
  by (simp add: sha256_def c_result_to_error_def)

lemma demo_sign [simp]: "handle_sign demo_ffi k m = Ok (demo_public k @ demo_tag 31 m)"
  by (simp add: handle_sign_def c_result_to_error_def)

definition light_ffi :: "bytes ffi" where
  "light_ffi =
     \<lparr>ffi_hash_sha256 = (\<lambda>m. (0, m)),
      ffi_ed25519_public = id,
      ffi_ed25519_sign = (\<lambda>k m. (0, k @ k)),
      ffi_ed25519_verify = (\<lambda>pk m sig. if sig = pk @ pk then 0 else -1),
      ffi_sphincs_128s_verify = (\<lambda>pk m sig. -1),
      ffi_dilithium3_verify = (\<lambda>pk m sig. -1),
      ffi_sphincs_256f_verify = (\<lambda>pk m sig. -1),
      ffi_tbid_v1_sign = (\<lambda>sk m. (0, [1])),
      ffi_tbid_v1_verify = (\<lambda>pk m sig. -1)\<rparr>"

definition light_hex :: "bytes \<Rightarrow> string" where
  "light_hex b = replicate 16 CHR ''0''"

end
