(* ===== verification/Calendar_Lookup.thy ===== *)
theory Calendar_Lookup
  imports Tick Demo_Crypto
begin

section \<open>The interface between verification and a calendar\<close>

text \<open>
  \<^verbatim>\<open>CalendarLookup\<close> (tick.rs) is how the verification code reads a calendar. Its
  contract, which the clients rely on and which each implementation has to meet, is the locale
  \<open>chronon_source\<close>; a source that can also be appended to is \<open>chronon_log\<close>.
\<close>

abbreviation numbers :: "chronon_record list \<Rightarrow> u64 list" where
  "numbers rs \<equiv> map cr_chronon_number rs"

abbreviation chronological :: "chronon_record list \<Rightarrow> bool" where
  "chronological rs \<equiv> sorted_wrt (<) (numbers rs)"

definition at_or_after :: "u64 \<Rightarrow> nat \<Rightarrow> chronon_record list \<Rightarrow> chronon_record list" where
  "at_or_after n count rs = take count (filter (\<lambda>t. cr_chronon_number t \<ge> n) rs)"

lemma at_or_after_exact:
  assumes "chronological rs" and "r \<in> set rs"
  shows "at_or_after (cr_chronon_number r) 1 rs = [r]"
  using assms
proof (induction rs)
  case Nil
  then show ?case by simp
next
  case (Cons x xs)
  then have lt: "\<forall>y \<in> set xs. cr_chronon_number x < cr_chronon_number y" by simp
  show ?case
  proof (cases "x = r")
    case True
    then show ?thesis by (simp add: at_or_after_def)
  next
    case False
    with Cons.prems have "r \<in> set xs" by simp
    with lt have "\<not> cr_chronon_number r \<le> cr_chronon_number x" by (auto simp: not_le)
    with Cons \<open>r \<in> set xs\<close> show ?thesis by (simp add: at_or_after_def)
  qed
qed

lemma at_or_after_none_after:
  "\<forall>r \<in> set rs. cr_chronon_number r < n \<Longrightarrow> at_or_after n k rs = []"
  by (simp add: at_or_after_def filter_empty_conv not_le)

text \<open>A source as the trait object that verification receives.\<close>

definition as_lookup ::
    "(u64 \<Rightarrow> nat \<Rightarrow> (chronon_record list, node_error) result) \<Rightarrow> u64 option \<Rightarrow> tbid \<Rightarrow> string \<Rightarrow>
     calendar_lookup" where
  "as_lookup get latest t n = \<lparr>lk_get = get, lk_latest = latest, lk_tbid = t, lk_tbn = n\<rparr>"

locale chronon_source =
  fixes records :: "'c \<Rightarrow> chronon_record list"
    and invar :: "'c \<Rightarrow> bool"
    and get :: "'c \<Rightarrow> u64 \<Rightarrow> nat \<Rightarrow> (chronon_record list, node_error) result"
    and latest :: "'c \<Rightarrow> u64 option"
  assumes source_chronological: "invar c \<Longrightarrow> chronological (records c)"
    and get_spec: "invar c \<Longrightarrow> get c n k = Ok (at_or_after n k (records c))"
    and latest_spec: "invar c \<Longrightarrow> latest c = map_option cr_chronon_number (list_last (records c))"
begin

lemma get_exact:
  assumes "invar c" and "r \<in> set (records c)"
  shows "get c (cr_chronon_number r) 1 = Ok [r]"
  using at_or_after_exact [OF source_chronological [OF assms(1)] assms(2)] assms(1)
  by (simp add: get_spec)

lemma get_number_le:
  assumes "invar c" and "get c n k = Ok rs" and "r \<in> set rs"
  shows "n \<le> cr_chronon_number r" and "r \<in> set (records c)"
  using assms by (auto simp: get_spec at_or_after_def dest: in_set_takeD)

lemma get_after_latest:
  assumes "invar c" and "\<forall>m. latest c = Some m \<longrightarrow> m < n"
  shows "get c n k = Ok []"
proof -
  have "cr_chronon_number r < n" if "r \<in> set (records c)" for r
  proof -
    have "records c \<noteq> []" using that by auto
    then have "latest c = Some (cr_chronon_number (last (records c)))"
      using assms(1) by (simp add: latest_spec list_last_def)
    moreover have "cr_chronon_number r \<le> cr_chronon_number (last (records c))"
      using source_chronological [OF assms(1)] that by (rule sorted_wrt_last_max)
    ultimately show ?thesis using assms(2) by fastforce
  qed
  then show ?thesis using assms(1) by (simp add: get_spec at_or_after_none_after)
qed

lemma get_latest:
  assumes "invar c" and "latest c = Some n"
  shows "\<exists>r. get c n 1 = Ok [r] \<and> cr_chronon_number r = n"
proof -
  from assms have "records c \<noteq> []" and n: "n = cr_chronon_number (last (records c))"
    by (auto simp: latest_spec list_last_def split: if_splits)
  then have "last (records c) \<in> set (records c)" by simp
  with assms(1) n show ?thesis using get_exact by blast
qed

text \<open>
  Verification through the lookup: for a chronon the source holds, it is the check of the
  hash and of the signature under the key of exactly that chronon.
\<close>

lemma verify_held_chronon:
  assumes "invar c" and "r \<in> set (records c)" and "cr_chronon_number r = fr_chronon_number f"
  shows "verify pc server f sig alg content (as_lookup (get c) (latest c) t n) = Ok True \<longleftrightarrow>
    cs_sha256 server content = Ok (fr_content_hash f) \<and>
    (\<exists>sig_input. pc f = Ok sig_input \<and>
       cs_verify_with server (cr_public_key r) alg sig_input sig = Ok True)"
  using get_exact [OF assms(1,2)] assms(3)
  by (auto simp: verify_Ok_True_iff as_lookup_def)

lemma verify_after_latest:
  assumes "invar c" and "\<forall>m. latest c = Some m \<longrightarrow> m < fr_chronon_number f"
    and "cs_sha256 server content = Ok (fr_content_hash f)"
  shows "verify pc server f sig alg content (as_lookup (get c) (latest c) t n) = Err (NotFound ''tick'')"
  using get_after_latest [OF assms(1,2)] assms(3) by (simp add: verify_def as_lookup_def)

text \<open>A number that is not stored is answered with the next record that is.\<close>

lemma verify_next_chronon:
  assumes "invar c" and "records c = earlier @ r # newer" and "\<forall>x \<in> set earlier. cr_chronon_number x < fr_chronon_number f"
    and "fr_chronon_number f \<le> cr_chronon_number r" and "cs_sha256 server content = Ok (fr_content_hash f)"
    and "pc f = Ok m"
  shows "verify pc server f sig alg content (as_lookup (get c) (latest c) t n) =
    rmap_err Crypto (cs_verify_with server (cr_public_key r) alg m sig)"
proof -
  have "filter (\<lambda>y. fr_chronon_number f \<le> cr_chronon_number y) earlier = []"
    using assms(3) by (auto simp: filter_empty_conv not_le)
  then have "get c (fr_chronon_number f) 1 = Ok [r]"
    using assms(1,2,4) by (simp add: get_spec at_or_after_def)
  with assms(5,6) show ?thesis by (simp add: verify_def as_lookup_def list_first_def)
qed

end

locale chronon_log = chronon_source records invar get latest
  for records :: "'c \<Rightarrow> chronon_record list"
    and invar :: "'c \<Rightarrow> bool"
    and get :: "'c \<Rightarrow> u64 \<Rightarrow> nat \<Rightarrow> (chronon_record list, node_error) result"
    and latest :: "'c \<Rightarrow> u64 option" +
  fixes append :: "chronon_record \<Rightarrow> 'c \<Rightarrow> ('c, node_error) result"
  assumes append_spec: "invar c \<Longrightarrow> (\<forall>m. latest c = Some m \<longrightarrow> m < cr_chronon_number r) \<Longrightarrow>
      \<exists>c'. append r c = Ok c' \<and> invar c' \<and> records c' = records c @ [r]"
    and append_reject: "invar c \<Longrightarrow> latest c = Some m \<Longrightarrow> cr_chronon_number r \<le> m \<Longrightarrow>
      \<not> is_ok (append r c)"
begin

lemma append_ok_iff:
  assumes "invar c"
  shows "is_ok (append r c) \<longleftrightarrow> (\<forall>m. latest c = Some m \<longrightarrow> m < cr_chronon_number r)"
proof (cases "\<forall>m. latest c = Some m \<longrightarrow> m < cr_chronon_number r")
  case True
  with append_spec [OF assms, of r] show ?thesis by auto
next
  case False
  then obtain m where "latest c = Some m" and "cr_chronon_number r \<le> m"
    by (auto simp: not_less)
  with append_reject [OF assms] False show ?thesis by auto
qed

lemma append_records:
  assumes "invar c" and "append r c = Ok c'"
  shows "invar c'" and "records c' = records c @ [r]"
proof -
  from assms have "is_ok (append r c)" by simp
  then have "\<forall>m. latest c = Some m \<longrightarrow> m < cr_chronon_number r"
    using append_ok_iff [OF assms(1)] by simp
  from append_spec [OF assms(1) this] assms(2)
  show "invar c'" and "records c' = records c @ [r]" by auto
qed

text \<open>What a lookup returns after an append.\<close>

lemma get_appended:
  assumes "invar c" and "append r c = Ok c'"
  shows "get c' (cr_chronon_number r) 1 = Ok [r]" and "latest c' = Some (cr_chronon_number r)"
  using append_records [OF assms] get_exact [of c' r] by (simp_all add: latest_spec)

lemma get_preserved:
  assumes "invar c" and "append r c = Ok c'" and "s \<in> set (records c)"
  shows "get c' (cr_chronon_number s) 1 = Ok [s]"
  using append_records [OF assms(1,2)] assms(3) get_exact [of c' s] by simp

end

end
