(* ===== verification/Calendar.thy ===== *)
theory Calendar
  imports Calendar_Lookup
begin

section \<open>The calendar\<close>

text \<open>
  Models \<^verbatim>\<open>core-engine/src/foretias/calendar.rs\<close>: the append-only list of
  chronon records, the binary search, the integrity check, and saving and loading with crash
  recovery. The JSON encoder and decoder (\<^verbatim>\<open>serde_json\<close>) are arguments; the
  file system is a map from paths to contents and each I/O call carries its outcome.
\<close>

record calendar =
  cal_tbid :: tbid
  cal_tbn :: string
  cal_stamp_tbid :: tbid
  ticks :: "chronon_record list"

definition calendar_new :: "tbid \<Rightarrow> string \<Rightarrow> calendar" where
  "calendar_new t tbn = \<lparr>cal_tbid = t, cal_tbn = tbn, cal_stamp_tbid = t, ticks = []\<rparr>"

definition latest_tick :: "calendar \<Rightarrow> chronon_record option" where
  "latest_tick c = list_last (ticks c)"

definition tick_count :: "calendar \<Rightarrow> nat" where
  "tick_count c = length (ticks c)"

text \<open>The setters assert, in debug builds, that they run once.\<close>

definition set_tbid :: "bool \<Rightarrow> tbid \<Rightarrow> calendar \<Rightarrow> (calendar, 'e) result" where
  "set_tbid debug t c =
     (if debug \<and> cal_tbid c \<noteq> tbid_default then Panic else Ok (c\<lparr>cal_tbid := t\<rparr>))"

definition set_tbn :: "bool \<Rightarrow> string \<Rightarrow> calendar \<Rightarrow> (calendar, 'e) result" where
  "set_tbn debug tbn c =
     (if debug \<and> cal_tbn c \<noteq> [] then Panic else Ok (c\<lparr>cal_tbn := tbn\<rparr>))"

definition cal_append :: "chronon_record \<Rightarrow> calendar \<Rightarrow> (calendar, node_error) result" where
  "cal_append record c =
     (case list_last (ticks c) of
        Some l \<Rightarrow>
          if cr_chronon_number record \<le> cr_chronon_number l
          then Err (Internal (''tick number '' @ show_u64 (cr_chronon_number record) @
                 '' is not strictly greater than last tick '' @ show_u64 (cr_chronon_number l)))
          else Ok (c\<lparr>ticks := ticks c @ [record]\<rparr>)
      | None \<Rightarrow> Ok (c\<lparr>ticks := ticks c @ [record]\<rparr>))"

subsection \<open>Lookup by binary search\<close>

text \<open>
  \<^verbatim>\<open>slice::binary_search_by\<close>: \<open>base\<close> moves to the middle unless the element
  there is greater than the key, and \<open>sz\<close> halves; one comparison at the end decides.
\<close>

function search_base :: "u64 list \<Rightarrow> u64 \<Rightarrow> nat \<Rightarrow> nat \<Rightarrow> nat" where
  "search_base ks n base sz =
     (if sz > 1 then
        (let half = sz div 2; mid = base + half
         in search_base ks n (if ks ! mid > n then base else mid) (sz - half))
      else base)"
  by pat_completeness auto
termination
  by (relation "measure (\<lambda>(ks, n, base, sz). sz)") auto

declare search_base.simps [simp del]

definition binary_search :: "u64 list \<Rightarrow> u64 \<Rightarrow> nat option" where
  "binary_search ks n =
     (if ks = [] then None
      else (let i = search_base ks n 0 (length ks) in if ks ! i = n then Some i else None))"

definition tick_at :: "u64 \<Rightarrow> calendar \<Rightarrow> chronon_record option" where
  "tick_at n c = map_option (\<lambda>i. ticks c ! i) (binary_search (numbers (ticks c)) n)"

lemma search_base_range:
  "0 < sz \<Longrightarrow> base \<le> search_base ks n base sz \<and> search_base ks n base sz < base + sz"
proof (induction ks n base sz rule: search_base.induct)
  case (1 ks n base sz)
  show ?case
  proof (cases "sz > 1")
    case True
    define b where "b = (if ks ! (base + sz div 2) > n then base else base + sz div 2)"
    have "b \<le> search_base ks n b (sz - sz div 2) \<and>
        search_base ks n b (sz - sz div 2) < b + (sz - sz div 2)"
      using "1.IH" [OF True refl refl] True unfolding b_def by simp
    moreover have "base \<le> b" "b + (sz - sz div 2) \<le> base + sz"
      by (auto simp: b_def)
    moreover have "search_base ks n base sz = search_base ks n b (sz - sz div 2)"
      using True by (subst search_base.simps) (simp add: b_def Let_def)
    ultimately show ?thesis by simp
  next
    case False
    with "1.prems" show ?thesis by (simp add: search_base.simps [of ks n base sz])
  qed
qed

lemma search_base_finds:
  assumes "sorted_wrt (<) ks" and "i < length ks" and "ks ! i = n"
    and "base \<le> i" and "i < base + sz" and "base + sz \<le> length ks"
  shows "search_base ks n base sz = i"
  using assms
proof (induction ks n base sz rule: search_base.induct)
  case (1 ks n base sz)
  let ?mid = "base + sz div 2"
  show ?case
  proof (cases "sz > 1")
    case True
    define b where "b = (if ks ! ?mid > n then base else ?mid)"
    have mid: "?mid < length ks" using "1.prems" True by simp
    have greater: "ks ! ?mid > n \<longleftrightarrow> i < ?mid"
    proof
      assume "n < ks ! ?mid"
      then show "i < ?mid"
        using sorted_wrt_nth_less [OF "1.prems"(1), of ?mid i] "1.prems"(2,3)
        by (metis less_asym linorder_neqE_nat less_irrefl)
    next
      assume "i < ?mid"
      then show "n < ks ! ?mid"
        using sorted_wrt_nth_less [OF "1.prems"(1) _ mid] "1.prems"(3) by blast
    qed
    have "search_base ks n b (sz - sz div 2) = i"
      using "1.IH" [OF True refl refl] "1.prems" True greater unfolding b_def
      by (auto split: if_splits)
    moreover have "search_base ks n base sz = search_base ks n b (sz - sz div 2)"
      using True by (subst search_base.simps) (simp add: b_def Let_def)
    ultimately show ?thesis by simp
  next
    case False
    with "1.prems" show ?thesis by (simp add: search_base.simps [of ks n base sz])
  qed
qed

lemma binary_search_Some:
  assumes "sorted_wrt (<) ks"
  shows "binary_search ks n = Some i \<longleftrightarrow> i < length ks \<and> ks ! i = n"
proof
  assume "binary_search ks n = Some i"
  then have "ks \<noteq> []" "i = search_base ks n 0 (length ks)" "ks ! i = n"
    by (auto simp: binary_search_def Let_def split: if_splits)
  then show "i < length ks \<and> ks ! i = n"
    using search_base_range [of "length ks" 0 ks n] by simp
next
  assume "i < length ks \<and> ks ! i = n"
  then show "binary_search ks n = Some i"
    using search_base_finds [OF assms, of i n 0 "length ks"] by (auto simp: binary_search_def Let_def)
qed

lemma tick_at_Some_iff:
  assumes "chronological (ticks c)"
  shows "tick_at n c = Some r \<longleftrightarrow> r \<in> set (ticks c) \<and> cr_chronon_number r = n"
proof -
  have "tick_at n c = Some r \<longleftrightarrow> (\<exists>i < length (ticks c). cr_chronon_number (ticks c ! i) = n \<and> ticks c ! i = r)"
    using binary_search_Some [OF assms, of n] by (fastforce simp: tick_at_def)
  also have "\<dots> \<longleftrightarrow> r \<in> set (ticks c) \<and> cr_chronon_number r = n"
    by (auto simp: in_set_conv_nth)
  finally show ?thesis .
qed

subsection \<open>The lookup trait\<close>

definition cal_get :: "calendar \<Rightarrow> u64 \<Rightarrow> nat \<Rightarrow> (chronon_record list, node_error) result" where
  "cal_get c chronon_number count =
     Ok (take count (filter (\<lambda>t. cr_chronon_number t \<ge> chronon_number) (ticks c)))"

definition cal_latest :: "calendar \<Rightarrow> u64 option" where
  "cal_latest c = map_option cr_chronon_number (list_last (ticks c))"

definition cal_lookup :: "calendar \<Rightarrow> calendar_lookup" where
  "cal_lookup c = as_lookup (cal_get c) (cal_latest c) (cal_tbid c) (cal_tbn c)"

text \<open>The calendar's invariant: chronon numbers strictly increase.\<close>

definition cal_inv :: "calendar \<Rightarrow> bool" where
  "cal_inv c \<longleftrightarrow> chronological (ticks c)"

lemma cal_inv_new [simp]: "cal_inv (calendar_new t tbn)"
  by (simp add: cal_inv_def calendar_new_def)

interpretation cal: chronon_log ticks cal_inv cal_get cal_latest cal_append
proof unfold_locales
  fix c :: calendar and n k r m
  assume inv: "cal_inv c"
  then show "chronological (ticks c)" by (simp add: cal_inv_def)
  show "cal_get c n k = Ok (at_or_after n k (ticks c))"
    by (simp add: cal_get_def at_or_after_def)
  show "cal_latest c = map_option cr_chronon_number (list_last (ticks c))"
    by (simp add: cal_latest_def)
  show "\<exists>c'. cal_append r c = Ok c' \<and> cal_inv c' \<and> ticks c' = ticks c @ [r]"
    if new: "\<forall>m. cal_latest c = Some m \<longrightarrow> m < cr_chronon_number r"
  proof -
    have "cr_chronon_number y < cr_chronon_number r" if "y \<in> set (ticks c)" for y
    proof -
      have "cr_chronon_number y \<le> cr_chronon_number (last (ticks c))"
        using inv that by (auto simp: cal_inv_def intro: sorted_wrt_last_max)
      also have "\<dots> < cr_chronon_number r"
        using new that by (cases "ticks c") (auto simp: cal_latest_def list_last_def)
      finally show ?thesis .
    qed
    then have "cal_inv (c\<lparr>ticks := ticks c @ [r]\<rparr>)"
      using inv by (simp add: cal_inv_def sorted_wrt_append)
    then show ?thesis
      using new
      by (cases "ticks c = []") (auto simp: cal_append_def cal_latest_def list_last_def not_le [symmetric])
  qed
  show "\<not> is_ok (cal_append r c)" if "cal_latest c = Some m" "cr_chronon_number r \<le> m"
    using that by (auto simp: cal_append_def cal_latest_def split: option.splits)
qed

lemma cal_append_frame:
  "cal_append r c = Ok c' \<Longrightarrow> cal_tbid c' = cal_tbid c \<and> cal_tbn c' = cal_tbn c"
  by (auto simp: cal_append_def split: option.splits if_splits)

subsection \<open>External attestations\<close>

fun add_attestation_to ::
    "u64 \<Rightarrow> external_attestation_record \<Rightarrow> chronon_record list \<Rightarrow> chronon_record list option" where
  "add_attestation_to n att [] = None"
| "add_attestation_to n att (t # ts) =
     (if cr_chronon_number t = n
      then Some (set_external_attestations (cr_external_attestations t @ [att]) t # ts)
      else map_option (\<lambda>ts'. t # ts') (add_attestation_to n att ts))"

definition add_external_attestation ::
    "u64 \<Rightarrow> external_attestation_record \<Rightarrow> calendar \<Rightarrow> (calendar, node_error) result" where
  "add_external_attestation n att c =
     (case add_attestation_to n att (ticks c) of
        Some ts \<Rightarrow> Ok (c\<lparr>ticks := ts\<rparr>)
      | None \<Rightarrow> Err (Internal (''tick number '' @ show_u64 n @ '' not found for external attestation'')))"

lemma add_attestation_to_None: "add_attestation_to n att ts = None \<longleftrightarrow> n \<notin> set (numbers ts)"
  by (induction ts) auto

lemma add_attestation_to_numbers: "add_attestation_to n att ts = Some ts' \<Longrightarrow> numbers ts' = numbers ts"
  by (induction ts arbitrary: ts') (auto split: if_splits)

lemma add_external_attestation_inv:
  "cal_inv c \<Longrightarrow> add_external_attestation n att c = Ok c' \<Longrightarrow> cal_inv c'"
  by (auto simp: add_external_attestation_def cal_inv_def add_attestation_to_numbers split: option.splits)

subsection \<open>Lookup after append\<close>

text \<open>
  C37: Looking a tick up by binary search is the linear search, and appending a record makes
  exactly its number answer with it, all others answering as before.
\<close>

theorem tick_lookup_after_append:
  assumes "cal_inv c" and "cal_append r c = Ok c'"
  shows "cal_inv c' \<and> tick_at n c = find (\<lambda>t. cr_chronon_number t = n) (ticks c) \<and>
    tick_at n c' = (if n = cr_chronon_number r then Some r else tick_at n c)"
proof -
  have linear: "tick_at m d = find (\<lambda>t. cr_chronon_number t = m) (ticks d)" if "cal_inv d" for m d
  proof (cases "find (\<lambda>t. cr_chronon_number t = m) (ticks d)")
    case None
    then have "tick_at m d = Some t \<longleftrightarrow> False" for t
      using tick_at_Some_iff [of d m t] that by (auto simp: cal_inv_def find_None_iff)
    then show ?thesis using None by (cases "tick_at m d") auto
  next
    case (Some t)
    then have "t \<in> set (ticks d)" "cr_chronon_number t = m" by (auto simp: find_Some_iff)
    then show ?thesis using tick_at_Some_iff [of d m t] that Some by (simp add: cal_inv_def)
  qed
  have c': "cal_inv c'" "ticks c' = ticks c @ [r]" using cal.append_records [OF assms] by simp_all
  have less: "\<forall>t \<in> set (ticks c). cr_chronon_number t < cr_chronon_number r"
    using c' by (auto simp: cal_inv_def sorted_wrt_append)
  have "tick_at n c' = Some t \<longleftrightarrow> (if n = cr_chronon_number r then Some r else tick_at n c) = Some t" for t
    using tick_at_Some_iff [of c' n t] tick_at_Some_iff [of c n t] assms(1) c' less
    by (auto simp: cal_inv_def)
  then have "tick_at n c' = (if n = cr_chronon_number r then Some r else tick_at n c)"
    by (metis option.exhaust)
  with c'(1) linear [OF assms(1)] show ?thesis by simp
qed

theorem tick_lookup_after_append_witness:
  "\<exists>c'. cal_append (tick_numbered 9) ((calendar_new tbid_default ''n'')\<lparr>ticks := [tick_numbered 2, tick_numbered 5]\<rparr>) = Ok c' \<and>
    tick_at 9 c' = Some (tick_numbered 9) \<and> tick_at 5 c' = Some (tick_numbered 5) \<and> tick_at 7 c' = None"
proof -
  let ?c = "(calendar_new tbid_default ''n'')\<lparr>ticks := [tick_numbered 2, tick_numbered 5]\<rparr>"
  have inv: "cal_inv ?c" by (simp add: cal_inv_def tick_numbered_def)
  obtain c' where c': "cal_append (tick_numbered 9) ?c = Ok c'"
    by (simp add: cal_append_def tick_numbered_def list_last_def)
  have "tick_at n c' = (if n = 9 then Some (tick_numbered 9) else find (\<lambda>t. cr_chronon_number t = n) (ticks ?c))" for n
    using tick_lookup_after_append [OF inv c', of n] by (simp add: tick_numbered_def)
  with c' show ?thesis by (simp add: tick_numbered_def)
qed

end
