(* ===== verification/Calendar_Chain.thy ===== *)
theory Calendar_Chain
  imports Calendar
begin

section \<open>Integrity of the chain, saving and loading\<close>

text \<open>
  Models \<^verbatim>\<open>integrity_check\<close>, \<^verbatim>\<open>save\<close>, \<^verbatim>\<open>load\<close> and
  \<^verbatim>\<open>load_and_verify\<close> of \<^verbatim>\<open>core-engine/src/foretias/calendar.rs\<close>.
\<close>

subsection \<open>The integrity check\<close>

definition in_range :: "u64 option \<Rightarrow> u64 option \<Rightarrow> chronon_record list \<Rightarrow> chronon_record list" where
  "in_range start end rs =
     (let start_tick = case_option 0 id start; end_tick = case_option u64_max id end
      in filter (\<lambda>t. start_tick \<le> cr_chronon_number t \<and> cr_chronon_number t \<le> end_tick) rs)"

definition integrity_check ::
    "'k ffi \<Rightarrow> crypto_server \<Rightarrow> string \<Rightarrow> u64 option \<Rightarrow> u64 option \<Rightarrow> calendar \<Rightarrow>
     (bool list, node_error) result" where
  "integrity_check F crypto tbid_str start end c =
     (let ts = in_range start end (ticks c) in
      if length ts < 2 then Ok []
      else try_map (\<lambda>i. verify_pair F crypto tbid_str (ts ! i) (ts ! (i + 1))) [0..<length ts - 1])"

lemma in_range_all [simp]: "in_range None None rs = rs"
  by (simp add: in_range_def)

lemma integrity_check_pairs:
  "integrity_check F crypto s start end c =
     try_map (\<lambda>(a, b). verify_pair F crypto s a b) (pairs (in_range start end (ticks c)))"
  using try_map_pairs [where f = "verify_pair F crypto s"]
  by (simp add: integrity_check_def Let_def pairs_short)

lemma integrity_check_all_true:
  "integrity_check F crypto s start end c = Ok bs \<and> (\<forall>b \<in> set bs. b) \<longleftrightarrow>
     bs = replicate (length (in_range start end (ticks c)) - 1) True \<and>
     (\<forall>(a, b) \<in> set (pairs (in_range start end (ticks c))). verify_pair F crypto s a b = Ok True)"
  (is "?L \<longleftrightarrow> ?R")
proof -
  let ?ps = "pairs (in_range start end (ticks c))"
  let ?f = "\<lambda>(a, b). verify_pair F crypto s a b"
  have "(\<forall>b \<in> set bs. b) \<longleftrightarrow> bs = replicate (length bs) True"
    by (metis (full_types) in_set_replicate replicate_eqI)
  then show ?thesis
    by (auto simp: integrity_check_pairs try_map_Ok_iff list_all2_conv_all_nth in_set_conv_nth
        all_set_conv_all_nth)
qed

definition chain_ok :: "'k ffi \<Rightarrow> crypto_server \<Rightarrow> string \<Rightarrow> chronon_record list \<Rightarrow> bool" where
  "chain_ok F crypto s rs \<longleftrightarrow> (\<forall>(a, b) \<in> set (pairs rs). verify_pair F crypto s a b = Ok True)"

lemma chain_ok_Nil [simp]: "chain_ok F crypto s []"
  by (simp add: chain_ok_def)

lemma chain_ok_single [simp]: "chain_ok F crypto s [r]"
  by (simp add: chain_ok_def)

lemma chain_ok_snoc:
  "rs \<noteq> [] \<Longrightarrow> chain_ok F crypto s (rs @ [r]) \<longleftrightarrow>
     chain_ok F crypto s rs \<and> verify_pair F crypto s (last rs) r = Ok True"
  by (auto simp: chain_ok_def pairs_append_single)

lemma integrity_check_chain_ok:
  "chain_ok F crypto s (ticks c) \<Longrightarrow>
     integrity_check F crypto s None None c = Ok (replicate (tick_count c - 1) True)"
  using integrity_check_all_true [of F crypto s None None c "replicate (tick_count c - 1) True"]
  by (simp add: chain_ok_def tick_count_def)

subsection \<open>Files\<close>

type_synonym fs = "string \<rightharpoonup> string"

text \<open>
  The outcome of a write: done, or failed after some prefix reached the file.
\<close>

datatype write_outcome = Written | WriteFailed nat string

record io_outcomes =
  io_create_dir :: "(unit, string) result"
  io_write :: write_outcome
  io_rename :: "(unit, string) result"

definition tmp_path :: "string \<Rightarrow> string" where
  "tmp_path path = path @ ''.tmp''"

lemma tmp_path_neq [simp]: "tmp_path path \<noteq> path" "path \<noteq> tmp_path path"
  by (simp_all add: tmp_path_def)

definition fs_write :: "write_outcome \<Rightarrow> string \<Rightarrow> string \<Rightarrow> fs \<Rightarrow> (unit, node_error) result \<times> fs" where
  "fs_write out path data files = (case out of
     Written \<Rightarrow> (Ok (), files(path \<mapsto> data))
   | WriteFailed n e \<Rightarrow> (Err (Io e), files(path \<mapsto> take n data)))"

definition fs_rename :: "(unit, string) result \<Rightarrow> string \<Rightarrow> string \<Rightarrow> fs \<Rightarrow> (unit, node_error) result \<times> fs" where
  "fs_rename out src dst files = (case out of
     Ok _ \<Rightarrow> (Ok (), files(dst := files src, src := None))
   | Err e \<Rightarrow> (Err (Io e), files)
   | Panic \<Rightarrow> (Panic, files))"

definition fs_remove :: "string \<Rightarrow> fs \<Rightarrow> fs" where
  "fs_remove path files = files(path := None)"

definition save ::
    "(calendar \<Rightarrow> (string, string) result) \<Rightarrow> io_outcomes \<Rightarrow> string \<Rightarrow> calendar \<Rightarrow> fs \<Rightarrow>
     (unit, node_error) result \<times> fs" where
  "save to_json io path c files =
     (case to_json c of
        Err e \<Rightarrow> (Err (Serialization e), files)
      | Panic \<Rightarrow> (Panic, files)
      | Ok data \<Rightarrow>
     (case io_create_dir io of
        Err e \<Rightarrow> (Err (Io e), files)
      | Panic \<Rightarrow> (Panic, files)
      | Ok _ \<Rightarrow>
     (case fs_write (io_write io) (tmp_path path) data files of
        (Ok _, files1) \<Rightarrow> fs_rename (io_rename io) (tmp_path path) path files1
      | (r, files1) \<Rightarrow> (r, files1))))"

definition load ::
    "(string \<Rightarrow> calendar option) \<Rightarrow> string \<Rightarrow> fs \<Rightarrow> (calendar, node_error) result \<times> fs" where
  "load from_json path files =
     (let main_cal = Option.bind (files path) from_json;
          (tmp_cal, files1) =
            (case files (tmp_path path) of
               None \<Rightarrow> (None, files)
             | Some data \<Rightarrow>
                 (case from_json data of
                    Some c \<Rightarrow> (Some c, files)
                  | None \<Rightarrow> (None, fs_remove (tmp_path path) files)))
      in (case (main_cal, tmp_cal) of
            (Some c, None) \<Rightarrow> (Ok c, files1)
          | (Some m, Some t) \<Rightarrow>
              (if length (ticks t) \<ge> length (ticks m)
               then (Ok t, fs_remove (tmp_path path) files1)
               else (Ok m, fs_remove (tmp_path path) files1))
          | (None, Some t) \<Rightarrow> (Ok t, fs_remove (tmp_path path) files1)
          | (None, None) \<Rightarrow> (Err (Internal (''calendar file not found: '' @ path)), files1)))"

definition load_and_verify ::
    "'k ffi \<Rightarrow> (string \<Rightarrow> calendar option) \<Rightarrow> string \<Rightarrow> crypto_server \<Rightarrow> string \<Rightarrow>
     u64 option \<Rightarrow> u64 option \<Rightarrow> fs \<Rightarrow> (calendar, node_error) result \<times> fs" where
  "load_and_verify F from_json path crypto tbid_str start end files =
     (let (loaded, files1) = load from_json path files in
      (rbind loaded (\<lambda>c.
       rbind (integrity_check F crypto tbid_str start end c) (\<lambda>results.
         if (\<exists>v \<in> set results. \<not> v)
         then Err (Internal (''calendar integrity check failed for '' @ path @ '': '' @
                decimal (length (filter Not results)) @ '' pair(s) invalid out of '' @
                decimal (length results)))
         else Ok c)), files1))"

text \<open>
  A crash interrupts a save before the write, in the middle of it, between write and rename,
  or after the rename. What is then on disk is what the completed steps left there.
\<close>

datatype crash_point = BeforeWrite | DuringWrite nat | BeforeRename | AfterRename

definition crashed_save :: "crash_point \<Rightarrow> string \<Rightarrow> string \<Rightarrow> fs \<Rightarrow> fs" where
  "crashed_save cp path data files = (case cp of
     BeforeWrite \<Rightarrow> files
   | DuringWrite n \<Rightarrow> snd (fs_write (WriteFailed n []) (tmp_path path) data files)
   | BeforeRename \<Rightarrow> snd (fs_write Written (tmp_path path) data files)
   | AfterRename \<Rightarrow>
       snd (fs_rename (Ok ()) (tmp_path path) path (snd (fs_write Written (tmp_path path) data files))))"

lemma load_no_tmp:
  "files (tmp_path path) = None \<Longrightarrow> files path = Some data \<Longrightarrow> from_json data = Some c \<Longrightarrow>
     load from_json path files = (Ok c, files)"
  by (simp add: load_def)

lemma load_tmp_newer:
  assumes "files (tmp_path path) = Some data" and "from_json data = Some t"
    and "\<And>m. Option.bind (files path) from_json = Some m \<Longrightarrow> length (ticks m) \<le> length (ticks t)"
  shows "load from_json path files = (Ok t, fs_remove (tmp_path path) files)"
  using assms by (cases "Option.bind (files path) from_json") (auto simp: load_def)

lemma load_tmp_corrupt:
  assumes "files (tmp_path path) = Some data" and "from_json data = None"
    and "files path = Some main" and "from_json main = Some c"
  shows "load from_json path files = (Ok c, fs_remove (tmp_path path) files)"
  using assms by (simp add: load_def)

lemma save_ok_files:
  assumes "to_json c = Ok data" and "io_create_dir io = Ok ()" and "io_write io = Written"
    and "io_rename io = Ok ()"
  shows "save to_json io path c files = (Ok (), crashed_save AfterRename path data files)"
  using assms by (simp add: save_def crashed_save_def fs_write_def fs_rename_def)

lemma crashed_save_load:
  assumes "files path = Some old_data" and "from_json old_data = Some old"
    and "files (tmp_path path) = None"
    and "from_json data = Some new" and "length (ticks old) \<le> length (ticks new)"
    and "\<And>n. n < length data \<Longrightarrow> from_json (take n data) = None"
  shows "fst (load from_json path (crashed_save cp path data files)) =
    Ok (case cp of BeforeWrite \<Rightarrow> old | DuringWrite n \<Rightarrow> if n < length data then old else new
        | BeforeRename \<Rightarrow> new | AfterRename \<Rightarrow> new)"
proof (cases cp)
  case BeforeWrite
  then show ?thesis using assms by (simp add: crashed_save_def load_no_tmp)
next
  case (DuringWrite n)
  let ?files = "crashed_save cp path data files"
  have tmp: "?files (tmp_path path) = Some (take n data)" and main: "?files path = Some old_data"
    using DuringWrite assms(1) by (simp_all add: crashed_save_def fs_write_def)
  show ?thesis
  proof (cases "n < length data")
    case True
    then show ?thesis
      using load_tmp_corrupt [of ?files path _ from_json, OF tmp assms(6) main assms(2)] DuringWrite by simp
  next
    case False
    then have "from_json (take n data) = Some new" using assms(4) by simp
    from load_tmp_newer [of ?files path _ from_json, OF tmp this] assms main False DuringWrite
    show ?thesis by simp
  qed
next
  case BeforeRename
  let ?files = "crashed_save cp path data files"
  have tmp: "?files (tmp_path path) = Some data" and main: "?files path = Some old_data"
    using BeforeRename assms(1) by (simp_all add: crashed_save_def fs_write_def)
  from load_tmp_newer [of ?files path _ from_json, OF tmp assms(4)] assms main BeforeRename
  show ?thesis by simp
next
  case AfterRename
  then show ?thesis
    using assms by (simp add: crashed_save_def fs_write_def fs_rename_def load_no_tmp)
qed

subsection \<open>Saves and crashes, one after another\<close>

definition save_all :: "string \<Rightarrow> (calendar \<Rightarrow> string) \<Rightarrow> (crash_point \<times> calendar) list \<Rightarrow> fs \<Rightarrow> fs" where
  "save_all path enc saves files = fold (\<lambda>(cp, c). crashed_save cp path (enc c)) saves files"

text \<open>The encoding of a calendar decodes, and no proper prefix of it does.\<close>

definition enc_ok :: "(calendar \<Rightarrow> string) \<Rightarrow> (string \<Rightarrow> calendar option) \<Rightarrow> calendar \<Rightarrow> bool" where
  "enc_ok enc dec c \<longleftrightarrow> dec (enc c) = Some c \<and> (\<forall>n < length (enc c). dec (take n (enc c)) = None)"

definition disk_ok ::
    "string \<Rightarrow> (string \<Rightarrow> calendar option) \<Rightarrow> calendar set \<Rightarrow> nat \<Rightarrow> fs \<Rightarrow> bool" where
  "disk_ok path dec known n files \<longleftrightarrow>
     (\<exists>m. Option.bind (files path) dec = Some m \<and> m \<in> known \<and> n \<le> length (ticks m)) \<and>
     (\<forall>t. Option.bind (files (tmp_path path)) dec = Some t \<longrightarrow> t \<in> known)"

lemma disk_ok_load:
  assumes "disk_ok path dec known n files"
  shows "\<exists>c. fst (load dec path files) = Ok c \<and> c \<in> known \<and> n \<le> length (ticks c)"
  using assms
  by (cases "files (tmp_path path)"; cases "Option.bind (files (tmp_path path)) dec")
    (auto simp: disk_ok_def load_def split: option.splits)

lemma disk_ok_crashed_save:
  assumes "disk_ok path dec known n files" and "enc_ok enc dec c" and "n \<le> length (ticks c)"
  shows "disk_ok path dec (insert c known) (if cp = AfterRename then length (ticks c) else n)
    (crashed_save cp path (enc c) files)"
proof (cases cp)
  case (DuringWrite k)
  have "dec (take k (enc c)) = None \<or> dec (take k (enc c)) = Some c"
    using assms(2) by (cases "k < length (enc c)") (simp_all add: enc_ok_def)
  with DuringWrite assms(1) show ?thesis
    by (auto simp: disk_ok_def crashed_save_def fs_write_def)
qed (use assms in \<open>auto simp: disk_ok_def crashed_save_def fs_write_def fs_rename_def enc_ok_def\<close>)

text \<open>
  C25: However saves of a growing calendar are interrupted, the next load returns a calendar
  that was saved (or the one there at the start), and never one shorter than a save that
  completed.
\<close>

theorem interrupted_saves_recover:
  assumes "Option.bind (files path) dec = Some old" and "files (tmp_path path) = None"
    and "\<forall>c \<in> snd ` set saves. enc_ok enc dec c"
    and "sorted (map (length \<circ> ticks) (old # map snd saves))"
  shows "\<exists>c. fst (load dec path (save_all path enc saves files)) = Ok c \<and>
    c \<in> insert old (snd ` set saves) \<and> length (ticks old) \<le> length (ticks c) \<and>
    (\<forall>done. (AfterRename, done) \<in> set saves \<longrightarrow> length (ticks done) \<le> length (ticks c))"
proof -
  have "\<exists>n. disk_ok path dec (insert old (snd ` set saves)) n (save_all path enc saves files) \<and>
      length (ticks old) \<le> n \<and> n \<le> length (ticks (last (old # map snd saves))) \<and>
      (\<forall>done. (AfterRename, done) \<in> set saves \<longrightarrow> length (ticks done) \<le> n)"
    using assms(3,4)
  proof (induction saves rule: rev_induct)
    case Nil
    then show ?case using assms(1,2) by (auto simp: save_all_def disk_ok_def)
  next
    case (snoc x saves)
    obtain cp c where x: "x = (cp, c)" by fastforce
    from snoc obtain n where n: "disk_ok path dec (insert old (snd ` set saves)) n (save_all path enc saves files)"
      "length (ticks old) \<le> n" "n \<le> length (ticks (last (old # map snd saves)))"
      "\<forall>done. (AfterRename, done) \<in> set saves \<longrightarrow> length (ticks done) \<le> n"
      by (auto simp: sorted_append)
    have "length (ticks (last (old # map snd saves))) \<le> length (ticks c)"
      using snoc.prems(2) x by (cases saves rule: rev_cases) (auto simp: sorted_append)
    then have "n \<le> length (ticks c)" using n(3) by simp
    moreover have "enc_ok enc dec c" using snoc.prems(1) x by auto
    moreover have "save_all path enc (saves @ [x]) files = crashed_save cp path (enc c) (save_all path enc saves files)"
      by (simp add: save_all_def x)
    ultimately show ?case
      using n disk_ok_crashed_save [OF n(1), of enc c cp] x
      by (intro exI [of _ "if cp = AfterRename then length (ticks c) else n"])
        (auto simp: insert_commute intro: le_trans)
  qed
  then obtain n where n: "disk_ok path dec (insert old (snd ` set saves)) n (save_all path enc saves files)"
    "length (ticks old) \<le> n" "\<forall>done. (AfterRename, done) \<in> set saves \<longrightarrow> length (ticks done) \<le> n" by blast
  from disk_ok_load [OF n(1)] n(2,3) show ?thesis by (meson le_trans)
qed

definition unary_calendar :: "nat \<Rightarrow> calendar" where
  "unary_calendar n = (calendar_new tbid_default ''n'')
     \<lparr>ticks := map (\<lambda>i. ChrononRecord (word_of_nat i) [1] ''Ed25519'' [] [] [] 0 [] 0 tbid_default) [1..<Suc n]\<rparr>"

definition unary_enc :: "calendar \<Rightarrow> string" where
  "unary_enc c = replicate (length (ticks c)) CHR ''a'' @ ''!''"

definition unary_dec :: "string \<Rightarrow> calendar option" where
  "unary_dec s = (if list_last s = Some CHR ''!'' then Some (unary_calendar (length s - 1)) else None)"

lemma unary_enc_ok [simp]: "enc_ok unary_enc unary_dec (unary_calendar n)"
proof -
  have "take k (replicate n CHR ''a'' @ ''!'') = replicate k CHR ''a''" if "k < Suc n" for k
    using that by simp
  moreover have "list_last (replicate k CHR ''a'') \<noteq> Some CHR ''!''" for k :: nat
    by (auto simp: list_last_def)
  ultimately show ?thesis
    by (auto simp: enc_ok_def unary_enc_def unary_dec_def unary_calendar_def)
qed

theorem interrupted_saves_recover_witness:
  "\<exists>c. fst (load unary_dec ''cal'' (save_all ''cal'' unary_enc
      [(BeforeRename, unary_calendar 2), (AfterRename, unary_calendar 3), (DuringWrite 2, unary_calendar 5)]
      [''cal'' \<mapsto> unary_enc (unary_calendar 1)])) = Ok c \<and> 3 \<le> length (ticks c)"
proof -
  have len: "length (ticks (unary_calendar n)) = n" for n by (simp add: unary_calendar_def)
  have dec: "unary_dec (unary_enc (unary_calendar n)) = Some (unary_calendar n)" for n
    using unary_enc_ok by (simp add: enc_ok_def)
  from interrupted_saves_recover [of "[''cal'' \<mapsto> unary_enc (unary_calendar 1)]" "''cal''" unary_dec
      "unary_calendar 1" "[(BeforeRename, unary_calendar 2), (AfterRename, unary_calendar 3),
        (DuringWrite 2, unary_calendar 5)]" unary_enc]
  show ?thesis by (auto simp: dec len tmp_path_def)
qed

text \<open>
  A recovered save is not durable. After a crash between write and rename, the first
  load returns the newer calendar and deletes its only copy: the second load is back to the
  older one, or finds nothing where there was no main file.
\<close>

theorem recovery_not_durable:
  assumes "files (tmp_path path) = None" and "dec data = Some new"
    and "\<forall>old. Option.bind (files path) dec = Some old \<longrightarrow> length (ticks old) \<le> length (ticks new)"
    and "load dec path (crashed_save BeforeRename path data files) = (first, files1)"
  shows "first = Ok new \<and>
    fst (load dec path files1) = (case Option.bind (files path) dec of
        Some old \<Rightarrow> Ok old
      | None \<Rightarrow> Err (Internal (''calendar file not found: '' @ path)))"
proof -
  let ?files = "crashed_save BeforeRename path data files"
  have disk: "?files (tmp_path path) = Some data" "?files path = files path"
    by (simp_all add: crashed_save_def fs_write_def)
  from load_tmp_newer [of ?files path data dec new] disk assms(2-4)
  have "first = Ok new" and files1: "files1 = fs_remove (tmp_path path) ?files" by auto
  moreover have "files1 (tmp_path path) = None" "files1 path = files path"
    using files1 disk by (simp_all add: fs_remove_def)
  ultimately show ?thesis by (auto simp: load_def split: option.splits)
qed

theorem recovery_not_durable_witness:
  "fst (load unary_dec ''cal'' (snd (load unary_dec ''cal'' (crashed_save BeforeRename ''cal''
      (unary_enc (unary_calendar 2)) [''cal'' \<mapsto> unary_enc (unary_calendar 1)])))) = Ok (unary_calendar 1)"
proof -
  have len: "length (ticks (unary_calendar n)) = n" for n by (simp add: unary_calendar_def)
  have dec: "unary_dec (unary_enc (unary_calendar n)) = Some (unary_calendar n)" for n
    using unary_enc_ok by (simp add: enc_ok_def)
  from recovery_not_durable [of "[''cal'' \<mapsto> unary_enc (unary_calendar 1)]" "''cal''" unary_dec
      "unary_enc (unary_calendar 2)" "unary_calendar 2", OF _ _ _ surjective_pairing]
  show ?thesis by (simp add: dec len tmp_path_def)
qed

text \<open>
  Loading with verification accepts exactly what loads and whose every pair of
  neighbours verifies.
\<close>

theorem load_and_verify_accepts:
  "fst (load_and_verify F dec path crypto s None None files) = Ok c \<longleftrightarrow>
     fst (load dec path files) = Ok c \<and> chain_ok F crypto s (ticks c)"
proof (cases "load dec path files")
  case (Pair loaded files1)
  have "(\<exists>bs. integrity_check F crypto s None None d = Ok bs \<and> (\<forall>b \<in> set bs. b)) \<longleftrightarrow> chain_ok F crypto s (ticks d)" for d
    unfolding integrity_check_all_true by (simp add: chain_ok_def)
  moreover have "rbind R (\<lambda>results. if \<exists>v \<in> set results. \<not> v then Err (e results) else Ok d) = Ok c \<longleftrightarrow>
      d = c \<and> (\<exists>bs. R = Ok bs \<and> (\<forall>b \<in> set bs. b))"
    for R :: "(bool list, node_error) result" and d and e :: "bool list \<Rightarrow> node_error"
    by (cases R) auto
  ultimately show ?thesis
    using Pair by (auto simp: load_and_verify_def rbind_eq_Ok)
qed

lemma save_Ok_files:
  assumes "save to_json io path c files = (Ok (), files')"
  obtains data where "to_json c = Ok data" and "files' = crashed_save AfterRename path data files"
  using assms
  by (auto simp: save_def crashed_save_def fs_write_def fs_rename_def
      split: result.splits write_outcome.splits)

end
