(* ===== verification/Server_Calendar.thy ===== *)
theory Server_Calendar
  imports Calendar_Chain
begin

section \<open>The server's calendar\<close>

text \<open>
  Models \<^verbatim>\<open>foretias-server/src/calendar/mod.rs\<close>: the calendar behind a lock with its
  own signing key and the sender of its task queue, the tick observer by which the
  chronomatter feeds it, and its lookup trait. The tasks and \<^verbatim>\<open>enqueue\<close> are those of
  \<^verbatim>\<open>calendar/task_queue.rs\<close>; an unbounded channel is the list of what was sent, and
  refuses once its receiver is gone.
\<close>

record peer_addr =
  json_rpc :: string

datatype calendar_task =
    DoChrononAttestation string
  | DoEpochAttestation string
  | FindNewMirror
  | InitiateDump peer_addr
  | StartStream peer_addr
  | ExploreMirror peer_addr
  | ExpireMirror peer_addr
  | VerifyFbRecorded string

fun kind :: "calendar_task \<Rightarrow> string" where
  "kind (DoChrononAttestation _) = ''do_chronon_attestation''"
| "kind (DoEpochAttestation _) = ''do_epoch_attestation''"
| "kind FindNewMirror = ''find_new_mirror''"
| "kind (InitiateDump _) = ''initiate_dump''"
| "kind (StartStream _) = ''start_stream''"
| "kind (ExploreMirror _) = ''explore_mirror''"
| "kind (ExpireMirror _) = ''expire_mirror''"
| "kind (VerifyFbRecorded _) = ''verify_fb_recorded''"

record task_channel =
  tc_closed :: bool
  tc_tasks :: "calendar_task list"

definition enqueue :: "calendar_task \<Rightarrow> task_channel \<Rightarrow> (unit, calendar_task) result \<times> task_channel" where
  "enqueue task ch =
     (if tc_closed ch then (Err task, ch) else (Ok (), ch\<lparr>tc_tasks := tc_tasks ch @ [task]\<rparr>))"

record 'k server_calendar =
  sc_inner :: calendar
  sc_tbn :: string
  sc_signing_key :: "'k option"
  sc_task_tx :: "task_channel option"

definition generate_calendar_signing_key :: "('k, crypto_error) result \<Rightarrow> ('k option, 'e) result" where
  "generate_calendar_signing_key generated = (case generated of
     Ok key \<Rightarrow> Ok (Some key) | Err _ \<Rightarrow> Ok None | Panic \<Rightarrow> Panic)"

definition server_calendar_new ::
    "('k, crypto_error) result \<Rightarrow> tbid \<Rightarrow> string \<Rightarrow> ('k server_calendar, 'e) result" where
  "server_calendar_new generated t tbn =
     rbind (generate_calendar_signing_key generated) (\<lambda>key.
       Ok \<lparr>sc_inner = calendar_new t tbn, sc_tbn = tbn, sc_signing_key = key, sc_task_tx = None\<rparr>)"

definition from_persisted ::
    "(calendar, node_error) result \<Rightarrow> ('k, crypto_error) result \<Rightarrow>
     ('k server_calendar, node_error) result" where
  "from_persisted loaded generated =
     rbind loaded (\<lambda>c.
     rbind (generate_calendar_signing_key generated) (\<lambda>key.
       Ok \<lparr>sc_inner = c, sc_tbn = cal_tbn c, sc_signing_key = key, sc_task_tx = None\<rparr>))"

definition enqueue_task ::
    "calendar_task \<Rightarrow> 'k server_calendar \<Rightarrow> (unit, calendar_task) result \<times> 'k server_calendar" where
  "enqueue_task task c = (case sc_task_tx c of
     None \<Rightarrow> (Err task, c)
   | Some tx \<Rightarrow> (let (r, tx') = enqueue task tx in (r, c\<lparr>sc_task_tx := Some tx'\<rparr>)))"

definition sign_foretis ::
    "'k ffi \<Rightarrow> 'k server_calendar \<Rightarrow> bytes \<Rightarrow> (bytes, node_error) result" where
  "sign_foretis F c foretis_bytes =
     rbind (ok_or (Internal ''calendar signing key not initialized'') (sc_signing_key c)) (\<lambda>key.
       rmap_err Crypto (handle_sign F key foretis_bytes))"

definition calendar_public_key :: "'k ffi \<Rightarrow> 'k server_calendar \<Rightarrow> bytes option" where
  "calendar_public_key F c = (case sc_signing_key c of
     None \<Rightarrow> None
   | Some key \<Rightarrow> (case handle_public_key F key of Ok pk \<Rightarrow> Some pk | _ \<Rightarrow> None))"

text \<open>
  The observer: append, log and ignore a refusal, and on success enqueue a verification task
  when the lottery (\<^verbatim>\<open>gen_ratio(1, 20)\<close>, drawn by \<open>lottery\<close>) says so.
\<close>

definition on_tick_advance ::
    "(bytes \<Rightarrow> string) \<Rightarrow> bool \<Rightarrow> u64 \<Rightarrow> bytes \<Rightarrow> chronon_record \<Rightarrow>
     'k server_calendar \<Rightarrow> 'k server_calendar" where
  "on_tick_advance hex_encode lottery chronon_number public_key tick_record c =
     (case cal_append tick_record (sc_inner c) of
        Ok inner' \<Rightarrow>
          (let c' = c\<lparr>sc_inner := inner'\<rparr>
           in if lottery
              then (case sc_task_tx c' of
                      None \<Rightarrow> c'
                    | Some tx \<Rightarrow> c'\<lparr>sc_task_tx :=
                        Some (snd (enqueue (VerifyFbRecorded (to_hex hex_encode (cal_tbid inner'))) tx))\<rparr>)
              else c')
      | _ \<Rightarrow> c)"

subsection \<open>The lookup trait of the server's calendar\<close>

definition sc_records :: "'k server_calendar \<Rightarrow> chronon_record list" where
  "sc_records c = ticks (sc_inner c)"

definition sc_inv :: "'k server_calendar \<Rightarrow> bool" where
  "sc_inv c \<longleftrightarrow> cal_inv (sc_inner c)"

definition sc_get ::
    "'k server_calendar \<Rightarrow> u64 \<Rightarrow> nat \<Rightarrow> (chronon_record list, node_error) result" where
  "sc_get c n count = cal_get (sc_inner c) n count"

definition sc_latest :: "'k server_calendar \<Rightarrow> u64 option" where
  "sc_latest c = cal_latest (sc_inner c)"

definition sc_tbid :: "'k server_calendar \<Rightarrow> tbid" where
  "sc_tbid c = cal_tbid (sc_inner c)"

definition sc_lookup :: "'k server_calendar \<Rightarrow> calendar_lookup" where
  "sc_lookup c = as_lookup (sc_get c) (sc_latest c) (sc_tbid c) (sc_tbn c)"

interpretation sc: chronon_source sc_records sc_inv sc_get sc_latest
  by unfold_locales
    (simp_all add: sc_records_def sc_inv_def sc_get_def sc_latest_def cal.source_chronological
      cal.get_spec cal.latest_spec)

text \<open>
  The contract between whoever makes ticks and the observer that stores them: a record
  numbered after all the stored ones is stored last, any other changes nothing stored.
  \<open>'l\<close> is what the observer decides for itself.
\<close>

locale tick_observer = chronon_source records invar get latest
  for records :: "'o \<Rightarrow> chronon_record list"
    and invar :: "'o \<Rightarrow> bool"
    and get :: "'o \<Rightarrow> u64 \<Rightarrow> nat \<Rightarrow> (chronon_record list, node_error) result"
    and latest :: "'o \<Rightarrow> u64 option" +
  fixes notify :: "'l \<Rightarrow> u64 \<Rightarrow> bytes \<Rightarrow> chronon_record \<Rightarrow> 'o \<Rightarrow> 'o"
  assumes notify_invar: "invar c \<Longrightarrow> invar (notify l n pk r c)"
    and notify_records: "invar c \<Longrightarrow>
      records (notify l n pk r c) =
        (if \<forall>m. latest c = Some m \<longrightarrow> m < cr_chronon_number r then records c @ [r] else records c)"
begin

lemma notify_new:
  assumes "invar c" and "\<forall>x \<in> set (records c). cr_chronon_number x < cr_chronon_number r"
  shows "records (notify l n pk r c) = records c @ [r]"
  using assms by (auto simp: notify_records latest_spec list_last_Some_iff)

lemma notify_keeps: "invar c \<Longrightarrow> set (records c) \<subseteq> set (records (notify l n pk r c))"
  by (auto simp: notify_records)

lemma get_notified:
  assumes "invar c" and "\<forall>x \<in> set (records c). cr_chronon_number x < cr_chronon_number r"
  shows "get (notify l n pk r c) (cr_chronon_number r) 1 = Ok [r]"
  using notify_new [OF assms] get_exact [OF notify_invar [OF assms(1)]] by simp

end

lemma sc_inner_on_tick_advance:
  "sc_inner (on_tick_advance hex l n pk r c) =
     (case cal_append r (sc_inner c) of Ok inner' \<Rightarrow> inner' | _ \<Rightarrow> sc_inner c)"
  by (simp add: on_tick_advance_def Let_def split: result.splits option.splits)

lemma on_tick_advance_tbid [simp]: "sc_tbid (on_tick_advance hex l n pk r c) = sc_tbid c"
  by (auto simp: sc_tbid_def sc_inner_on_tick_advance dest: cal_append_frame split: result.splits)

interpretation sc_obs: tick_observer sc_records sc_inv sc_get sc_latest "on_tick_advance hex" for hex
proof unfold_locales
  fix c :: "'b server_calendar" and l n pk r
  assume inv: "sc_inv c"
  show "sc_inv (on_tick_advance hex l n pk r c)"
    using inv cal.append_records(1) [of "sc_inner c" r]
    by (auto simp: sc_inv_def sc_inner_on_tick_advance split: result.splits)
  show "sc_records (on_tick_advance hex l n pk r c) =
      (if \<forall>m. sc_latest c = Some m \<longrightarrow> m < cr_chronon_number r then sc_records c @ [r] else sc_records c)"
  proof (cases "cal_append r (sc_inner c)")
    case (Ok c')
    then have "is_ok (cal_append r (sc_inner c))" by simp
    then have "\<forall>m. sc_latest c = Some m \<longrightarrow> m < cr_chronon_number r"
      using cal.append_ok_iff [of "sc_inner c" r] inv by (simp add: sc_inv_def sc_latest_def)
    with Ok show ?thesis
      using cal.append_records(2) [of "sc_inner c" r c'] inv
      by (simp add: sc_records_def sc_inner_on_tick_advance sc_inv_def)
  qed (use cal.append_ok_iff [of "sc_inner c" r] inv in
      \<open>auto simp: sc_records_def sc_inner_on_tick_advance sc_inv_def sc_latest_def is_ok_iff\<close>)
qed

end
