(* ===== verification/Clean_Auth.thy ===== *)
theory Clean_Auth
  imports Calendar
begin

section \<open>The trust boundary\<close>

text \<open>
  Models \<^verbatim>\<open>core-engine/src/foretias/clean_auth.rs\<close>: the wrappers
  \<^verbatim>\<open>UnverifiedSignatureEnvelope\<close>, \<^verbatim>\<open>CleanAuthenticated\<close>,
  \<^verbatim>\<open>CleanFullyAuthenticated\<close> and \<^verbatim>\<open>Externalized\<close>, the ordered
  signature chain, and the inbound gates of the record types. The wrappers are separate
  record types, as in the code; the privacy of their fields is Rust's and has no counterpart
  here.
\<close>

subsection \<open>Signature entries\<close>

datatype signer_role = ChronomatterRole | CalendarRole | MemberRole | CommunerdEnvelope

datatype sig_algorithm = FastEd25519 | DualKey

record signature_entry =
  se_role :: signer_role
  se_tbid :: string
  se_algorithm :: sig_algorithm
  se_sig :: bytes

fun sig_algorithm_name :: "sig_algorithm \<Rightarrow> string" where
  "sig_algorithm_name FastEd25519 = ''Ed25519''"
| "sig_algorithm_name DualKey = ''SLH-DSA''"

datatype clean_auth_parse_error =
    InvalidJson string
  | TruncatedBytes
  | ParseInvalidLength string
  | ParseBadFormat string
  | ParseUnknownAlgorithm string

datatype clean_auth_error =
    Parse clean_auth_parse_error
  | InvalidSignature
  | AlgorithmMismatch
  | ChainBreak
  | ReplayDetected
  | UnknownPeer
  | NotYetImplemented
  | InvalidLength string
  | CaCrypto node_error
  | FullSignatureRequired
  | SignatureCountMismatch nat nat
  | SignatureVerificationFailed signer_role string

subsection \<open>Wrappers\<close>

record 'a unverified =
  uv_inner :: 'a
  uv_signatures :: "signature_entry list"

record 'a clean =
  ca_inner :: 'a
  ca_signatures :: "signature_entry list"

record 'a clean_full =
  cf_inner :: 'a
  cf_signatures :: "signature_entry list"

record 'a externalized =
  ex_inner :: 'a

definition from_parsed :: "'a \<Rightarrow> 'a unverified" where
  "from_parsed x = \<lparr>uv_inner = x, uv_signatures = []\<rparr>"

definition from_json_text ::
    "('j \<Rightarrow> ('a, string) result) \<Rightarrow> 'j \<Rightarrow> ('a unverified, clean_auth_parse_error) result" where
  "from_json_text from_slice b = rbind (rmap_err InvalidJson (from_slice b)) (\<lambda>v. Ok (from_parsed v))"

definition ca_from_trusted :: "'a \<Rightarrow> 'a clean" where
  "ca_from_trusted x = \<lparr>ca_inner = x, ca_signatures = []\<rparr>"

definition from_dual_verified :: "'a \<Rightarrow> 'a clean_full" where
  "from_dual_verified x = \<lparr>cf_inner = x, cf_signatures = []\<rparr>"

definition clean_of_full :: "'a clean_full \<Rightarrow> 'a clean" where
  "clean_of_full f = \<lparr>ca_inner = cf_inner f, ca_signatures = cf_signatures f\<rparr>"

definition ex_from_trusted :: "'a \<Rightarrow> 'a externalized" where
  "ex_from_trusted x = \<lparr>ex_inner = x\<rparr>"

definition externalize :: "'a clean \<Rightarrow> 'a externalized" where
  "externalize c = ex_from_trusted (ca_inner c)"

subsection \<open>Building an externalised record\<close>

record 'a ex_builder =
  eb_inner :: 'a
  eb_signatures :: "signature_entry list"

definition builder_from :: "'a \<Rightarrow> 'a ex_builder" where
  "builder_from x = \<lparr>eb_inner = x, eb_signatures = []\<rparr>"

definition builder_from_authenticated :: "'a clean \<Rightarrow> 'a ex_builder" where
  "builder_from_authenticated a = \<lparr>eb_inner = ca_inner a, eb_signatures = []\<rparr>"

definition add_signature ::
    "signer_role \<Rightarrow> string \<Rightarrow> sig_algorithm \<Rightarrow> bytes \<Rightarrow> 'a ex_builder \<Rightarrow> 'a ex_builder" where
  "add_signature role t algorithm sig b =
     b\<lparr>eb_signatures := eb_signatures b @
         [\<lparr>se_role = role, se_tbid = t, se_algorithm = algorithm, se_sig = sig\<rparr>]\<rparr>"

definition ex_build :: "'a ex_builder \<Rightarrow> ('a externalized, clean_auth_error) result" where
  "ex_build b =
     (case list_last (eb_signatures b) of
        None \<Rightarrow> Err (SignatureCountMismatch 1 0)
      | Some l \<Rightarrow>
          if se_role l \<noteq> CommunerdEnvelope
          then Err (SignatureVerificationFailed (se_role l) (se_tbid l))
          else Ok \<lparr>ex_inner = eb_inner b\<rparr>)"

subsection \<open>The ordered signature chain\<close>

text \<open>
  Entry \<open>i\<close> signs the payload and, from the second entry on, the encoding of the entries
  before it.
\<close>

definition encode_error :: "string \<Rightarrow> clean_auth_error" where
  "encode_error e = CaCrypto (Crypto (UnknownAlgorithm e))"

definition signing_data ::
    "('a \<Rightarrow> (bytes, string) result) \<Rightarrow> (signature_entry list \<Rightarrow> (bytes, string) result) \<Rightarrow>
     'a \<Rightarrow> signature_entry list \<Rightarrow> nat \<Rightarrow> (bytes, clean_auth_error) result" where
  "signing_data pc pc_sigs record sigs i =
     rbind (rmap_err encode_error (pc record)) (\<lambda>payload_bytes.
     if i > 0 then
       rbind (rmap_err encode_error (pc_sigs (take i sigs))) (\<lambda>prev_bytes.
         Ok (payload_bytes @ prev_bytes))
     else Ok payload_bytes)"

definition check_entry ::
    "('a \<Rightarrow> (bytes, string) result) \<Rightarrow> (signature_entry list \<Rightarrow> (bytes, string) result) \<Rightarrow>
     crypto_server \<Rightarrow> bytes \<Rightarrow> 'a \<Rightarrow> signature_entry list \<Rightarrow> nat \<Rightarrow> (unit, clean_auth_error) result" where
  "check_entry pc pc_sigs crypto pub_key record sigs i =
     rbind (signing_data pc pc_sigs record sigs i) (\<lambda>data.
     rbind (rmap_err (\<lambda>e. CaCrypto (Crypto e))
             (cs_verify_with crypto pub_key (sig_algorithm_name (se_algorithm (sigs ! i))) data
                (se_sig (sigs ! i)))) (\<lambda>valid.
       if \<not> valid
       then Err (SignatureVerificationFailed (se_role (sigs ! i)) (se_tbid (sigs ! i)))
       else Ok ()))"

definition verify_all_signatures ::
    "('a \<Rightarrow> (bytes, string) result) \<Rightarrow> (signature_entry list \<Rightarrow> (bytes, string) result) \<Rightarrow>
     ('a \<Rightarrow> bool) \<Rightarrow> crypto_server \<Rightarrow> bytes \<Rightarrow> 'a unverified \<Rightarrow>
     ('a clean, clean_auth_error) result" where
  "verify_all_signatures pc pc_sigs require_full crypto pub_key u =
     (let record = uv_inner u; sigs = uv_signatures u in
      if length sigs \<noteq> 2 then Err (SignatureCountMismatch 2 (length sigs))
      else
        rbind (try_map (check_entry pc pc_sigs crypto pub_key record sigs) [0..<length sigs]) (\<lambda>_.
          if require_full record \<and> \<not> (\<exists>s \<in> set sigs. se_algorithm s = DualKey)
          then Err FullSignatureRequired
          else Ok \<lparr>ca_inner = record, ca_signatures = sigs\<rparr>))"

lemma check_entry_Ok_iff:
  "check_entry pc pc_sigs crypto pub_key record sigs i = Ok u \<longleftrightarrow>
     (\<exists>data. signing_data pc pc_sigs record sigs i = Ok data \<and>
        cs_verify_with crypto pub_key (sig_algorithm_name (se_algorithm (sigs ! i))) data
          (se_sig (sigs ! i)) = Ok True)"
  by (auto simp: check_entry_def result_simps split: if_splits)

lemma verify_all_signatures_Ok_iff:
  "verify_all_signatures pc pc_sigs require_full crypto pub_key u = Ok a \<longleftrightarrow>
     a = \<lparr>ca_inner = uv_inner u, ca_signatures = uv_signatures u\<rparr> \<and>
     length (uv_signatures u) = 2 \<and>
     (\<forall>i < 2. is_ok (check_entry pc pc_sigs crypto pub_key (uv_inner u) (uv_signatures u) i)) \<and>
     (require_full (uv_inner u) \<longrightarrow> (\<exists>s \<in> set (uv_signatures u). se_algorithm s = DualKey))"
  (is "_ \<longleftrightarrow> ?R")
proof (cases "length (uv_signatures u) = 2")
  case True
  let ?check = "check_entry pc pc_sigs crypto pub_key (uv_inner u) (uv_signatures u)"
  have idx: "[0..<2] = [0, 1 :: nat]" by (simp add: upt_rec)
  have "is_ok (try_map ?check [0..<2]) \<longleftrightarrow> (\<forall>i < 2. is_ok (?check i))"
    unfolding idx by (auto simp: is_ok_iff result_simps less_2_cases_iff)
  then show ?thesis
    using True by (cases "try_map ?check [0..<2]")
      (auto simp: verify_all_signatures_def Let_def)
next
  case False
  then show ?thesis by (simp add: verify_all_signatures_def Let_def)
qed

subsection \<open>Gates of the chronon record\<close>

definition verify_chronon ::
    "'k ffi \<Rightarrow> (bytes \<Rightarrow> string) \<Rightarrow> crypto_server \<Rightarrow> chronon_record clean option \<Rightarrow>
     chronon_record unverified \<Rightarrow> (chronon_record clean, clean_auth_error) result" where
  "verify_chronon F hex_encode crypto prev u = (case prev of
     Some p \<Rightarrow>
       rbind (rmap_err CaCrypto
               (verify_pair F crypto (to_hex hex_encode (cr_tbid (ca_inner p))) (ca_inner p)
                  (uv_inner u))) (\<lambda>valid.
         if \<not> valid then Err ChainBreak
         else Ok \<lparr>ca_inner = uv_inner u, ca_signatures = uv_signatures u\<rparr>)
   | None \<Rightarrow>
       (if cr_chronon_number (uv_inner u) \<noteq> 1 then Err ChainBreak
        else if cr_public_key (uv_inner u) = [] then Err (InvalidLength ''public_key empty'')
        else if cr_tb_version (uv_inner u) \<ge> 1 then Err NotYetImplemented
        else Ok \<lparr>ca_inner = uv_inner u, ca_signatures = uv_signatures u\<rparr>))"

definition chronon_into_clean_authenticated ::
    "'k ffi \<Rightarrow> (bytes \<Rightarrow> string) \<Rightarrow> crypto_server \<Rightarrow> chronon_record clean \<Rightarrow>
     chronon_record unverified \<Rightarrow> (chronon_record clean, clean_auth_error) result" where
  "chronon_into_clean_authenticated F hex_encode crypto prev u =
     verify_chronon F hex_encode crypto (Some prev) u"

definition chronon_into_clean_authenticated_genesis ::
    "'k ffi \<Rightarrow> (bytes \<Rightarrow> string) \<Rightarrow> crypto_server \<Rightarrow>
     chronon_record unverified \<Rightarrow> (chronon_record clean, clean_auth_error) result" where
  "chronon_into_clean_authenticated_genesis F hex_encode crypto u =
     verify_chronon F hex_encode crypto None u"

lemma verify_chronon_Some_Ok_iff:
  "verify_chronon F hex crypto (Some p) u = Ok a \<longleftrightarrow>
     verify_pair F crypto (to_hex hex (cr_tbid (ca_inner p))) (ca_inner p) (uv_inner u) = Ok True \<and>
     a = \<lparr>ca_inner = uv_inner u, ca_signatures = uv_signatures u\<rparr>"
  by (auto simp: verify_chronon_def result_simps split: if_splits)

lemma verify_chronon_None_Ok_iff:
  "verify_chronon F hex crypto None u = Ok a \<longleftrightarrow>
     cr_chronon_number (uv_inner u) = 1 \<and> cr_public_key (uv_inner u) \<noteq> [] \<and>
     cr_tb_version (uv_inner u) = 0 \<and>
     a = \<lparr>ca_inner = uv_inner u, ca_signatures = uv_signatures u\<rparr>"
  by (auto simp: verify_chronon_def split: if_splits)

subsection \<open>Gates of the foretis record\<close>

definition has_signatures :: "'a unverified \<Rightarrow> bool" where
  "has_signatures u \<longleftrightarrow> uv_signatures u \<noteq> []"

text \<open>
  Parsing the wire format. JSON values belong to a crate: the accessors
  \<^verbatim>\<open>as_object\<close>, \<^verbatim>\<open>as_str\<close> and the derived decoder are arguments.
\<close>

definition from_json_value_v2 ::
    "('j \<Rightarrow> (string \<rightharpoonup> 'j) option) \<Rightarrow> ('j \<Rightarrow> string option) \<Rightarrow>
     ('j \<Rightarrow> (foretis_record, string) result) \<Rightarrow> (string \<Rightarrow> bytes option) \<Rightarrow> 'j \<Rightarrow>
     (foretis_record unverified, clean_auth_parse_error) result" where
  "from_json_value_v2 as_object as_str from_value hex_decode v =
     rbind (ok_or (ParseBadFormat ''v2 envelope requires JSON object'') (as_object v)) (\<lambda>obj.
     rbind (ok_or (ParseBadFormat (''v2 envelope requires '' @ [CHR 0x27] @ ''foretis'' @ [CHR 0x27] @
              '' key'')) (obj ''foretis'')) (\<lambda>foretis_val.
     rbind (rmap_err InvalidJson (from_value foretis_val)) (\<lambda>foretis.
     (let env = from_parsed foretis in
      case Option.bind (Option.bind (obj ''signature'') as_str) hex_decode of
        None \<Rightarrow> Ok env
      | Some sig_bytes \<Rightarrow>
          if sig_bytes = [] then Ok env
          else
            rbind (case Option.bind (obj ''signature_algorithm'') as_str of
                     None \<Rightarrow> Err (ParseBadFormat (''missing '' @ [CHR 0x27] @
                               ''signature_algorithm'' @ [CHR 0x27] @ '' field''))
                   | Some a \<Rightarrow>
                       if a = ''SLH-DSA'' then Ok DualKey
                       else if a = ''Ed25519'' then Ok FastEd25519
                       else Err (ParseUnknownAlgorithm a)) (\<lambda>algorithm.
            Ok (env\<lparr>uv_signatures := uv_signatures env @
                      [\<lparr>se_role = ChronomatterRole, se_tbid = [], se_algorithm = algorithm,
                        se_sig = sig_bytes\<rparr>]\<rparr>))))))"

text \<open>A single authenticated record as a calendar: it answers every lookup with itself.\<close>

definition lookup_from_clean_record :: "chronon_record clean \<Rightarrow> calendar_lookup" where
  "lookup_from_clean_record rec =
     \<lparr>lk_get = (\<lambda>_ _. Ok [ca_inner rec]), lk_latest = Some (cr_chronon_number (ca_inner rec)),
      lk_tbid = cr_tbid (ca_inner rec), lk_tbn = []\<rparr>"

definition verify_foretis ::
    "postcard_foretis \<Rightarrow> crypto_server \<Rightarrow> chronon_record clean \<Rightarrow> bytes \<Rightarrow>
     foretis_record unverified \<Rightarrow> (foretis_record clean, clean_auth_error) result" where
  "verify_foretis pc crypto record content u =
     (let foretis = uv_inner u in
      if fr_chronon_number foretis \<noteq> cr_chronon_number (ca_inner record) then Err ChainBreak
      else
        rbind (rmap_err (\<lambda>e. CaCrypto (Crypto e)) (cs_sha256 crypto content)) (\<lambda>recomputed.
        if recomputed \<noteq> fr_content_hash foretis then Err InvalidSignature
        else
          rbind (rmap_err CaCrypto
            (verify pc crypto foretis
               (case list_first (uv_signatures u) of None \<Rightarrow> [] | Some s \<Rightarrow> se_sig s)
               (case list_first (uv_signatures u) of
                  None \<Rightarrow> ''Ed25519'' | Some s \<Rightarrow> sig_algorithm_name (se_algorithm s))
               content (lookup_from_clean_record record))) (\<lambda>valid.
          if \<not> valid then Err InvalidSignature
          else Ok \<lparr>ca_inner = uv_inner u, ca_signatures = uv_signatures u\<rparr>)))"

definition foretis_into_clean_authenticated ::
    "postcard_foretis \<Rightarrow> crypto_server \<Rightarrow> bytes \<Rightarrow> chronon_record clean \<Rightarrow>
     foretis_record unverified \<Rightarrow> (foretis_record clean, clean_auth_error) result" where
  "foretis_into_clean_authenticated pc crypto content record u =
     verify_foretis pc crypto record content u"

definition signature_bytes :: "foretis_record clean \<Rightarrow> bytes option" where
  "signature_bytes c = map_option se_sig (list_first (ca_signatures c))"

definition signature_algorithm_of :: "foretis_record clean \<Rightarrow> string option" where
  "signature_algorithm_of c =
     map_option (\<lambda>s. sig_algorithm_name (se_algorithm s)) (list_first (ca_signatures c))"

text \<open>The gate in full: what is accepted, and what is returned.\<close>

lemma verify_foretis_signed_Ok_iff:
  assumes "uv_signatures u = s # rest"
  shows "verify_foretis pc crypto record content u = Ok a \<longleftrightarrow>
     fr_chronon_number (uv_inner u) = cr_chronon_number (ca_inner record) \<and>
     cs_sha256 crypto content = Ok (fr_content_hash (uv_inner u)) \<and>
     (\<exists>sig_input. pc (uv_inner u) = Ok sig_input \<and>
        cs_verify_with crypto (cr_public_key (ca_inner record)) (sig_algorithm_name (se_algorithm s))
          sig_input (se_sig s) = Ok True) \<and>
     a = \<lparr>ca_inner = uv_inner u, ca_signatures = uv_signatures u\<rparr>"
  using assms
  by (auto simp: verify_foretis_def Let_def result_simps verify_Ok_True_iff
      lookup_from_clean_record_def split: if_splits)

subsection \<open>What the gates accept\<close>

text \<open>
  The ordered signature chain is accepted exactly when there are two signatures, the
  first over the payload, the second over the payload followed by the encoding of the first,
  both valid under the one key, with a dual-key one among them where the record asks for it.
\<close>

theorem signature_chain_accepts:
  "verify_all_signatures pc pc_sigs require_full crypto pub_key u = Ok a \<longleftrightarrow>
    (\<exists>s1 s2 payload first. uv_signatures u = [s1, s2] \<and> pc (uv_inner u) = Ok payload \<and>
       cs_verify_with crypto pub_key (sig_algorithm_name (se_algorithm s1)) payload (se_sig s1) = Ok True \<and>
       pc_sigs [s1] = Ok first \<and>
       cs_verify_with crypto pub_key (sig_algorithm_name (se_algorithm s2)) (payload @ first) (se_sig s2) = Ok True \<and>
       (require_full (uv_inner u) \<longrightarrow> se_algorithm s1 = DualKey \<or> se_algorithm s2 = DualKey) \<and>
       a = \<lparr>ca_inner = uv_inner u, ca_signatures = [s1, s2]\<rparr>)"
  (is "?L \<longleftrightarrow> ?R")
proof (cases "length (uv_signatures u) = 2")
  case True
  then obtain s1 s2 where s: "uv_signatures u = [s1, s2]" by (auto simp: length_Suc_conv numeral_2_eq_2)
  have "(\<forall>i < 2. P i) \<longleftrightarrow> P 0 \<and> P (Suc 0)" for P :: "nat \<Rightarrow> bool" by (auto simp: less_2_cases_iff)
  then show ?thesis
    unfolding verify_all_signatures_Ok_iff
    by (auto simp: s is_ok_iff check_entry_Ok_iff signing_data_def result_simps)
next
  case False
  then show ?thesis unfolding verify_all_signatures_Ok_iff by auto
qed

theorem signature_chain_accepts_witness:
  "is_ok (verify_all_signatures (\<lambda>b. Ok b) (\<lambda>s. Ok [7]) (\<lambda>_. False) (software_crypto_server demo_ffi [])
     (demo_public [1])
     \<lparr>uv_inner = [5], uv_signatures =
        [\<lparr>se_role = ChronomatterRole, se_tbid = ''a'', se_algorithm = FastEd25519,
          se_sig = demo_public [1] @ demo_tag 31 [5]\<rparr>,
         \<lparr>se_role = CalendarRole, se_tbid = ''b'', se_algorithm = FastEd25519,
          se_sig = demo_public [1] @ demo_tag 31 [5, 7]\<rparr>]\<rparr>)"
  unfolding is_ok_iff signature_chain_accepts
  by (simp add: sw_verify_with_ed25519 ed25519_verify_def verify_rc_def)

text \<open>
  The genesis gate checks no signature: it accepts a version-0 record numbered 1 with a
  key whatever its signatures are, and refuses the version-1 record that a chronomatter makes.
\<close>

theorem genesis_gate_unsigned:
  "is_ok (chronon_into_clean_authenticated_genesis F hex crypto
      (from_parsed (ChrononRecord n pk alg fwd bwd nonce stamps atts v t))) \<longleftrightarrow> n = 1 \<and> pk \<noteq> [] \<and> v = 0"
  by (auto simp: is_ok_iff chronon_into_clean_authenticated_genesis_def verify_chronon_None_Ok_iff from_parsed_def)

text \<open>
  With the software backend, the gate for a foretis accepts exactly an envelope whose
  first signature is an Ed25519 one that verifies under the key of the chronon it names, for a
  content with the hash in it. An envelope without signatures that reaches the check makes the
  verifier panic.
\<close>

theorem foretis_gate_accepts:
  "(is_ok (foretis_into_clean_authenticated pc (software_crypto_server F k) content record u) \<longleftrightarrow>
     fr_chronon_number (uv_inner u) = cr_chronon_number (ca_inner record) \<and>
     sha256 F content = Ok (fr_content_hash (uv_inner u)) \<and>
     (\<exists>s rest m. uv_signatures u = s # rest \<and> se_algorithm s = FastEd25519 \<and> pc (uv_inner u) = Ok m \<and>
        sw_verify_with F (cr_public_key (ca_inner record)) ''Ed25519'' m (se_sig s) = Ok True)) \<and>
   (uv_signatures u = [] \<and> fr_chronon_number (uv_inner u) = cr_chronon_number (ca_inner record) \<and>
      sha256 F content = Ok (fr_content_hash (uv_inner u)) \<and> is_ok (pc (uv_inner u)) \<longrightarrow>
    foretis_into_clean_authenticated pc (software_crypto_server F k) content record u = Panic)"
proof (cases "uv_signatures u")
  case Nil
  have short: "sw_verify_with F pk ''Ed25519'' m [] = Panic" for pk m
    by (rule sw_verify_with_short_sig) simp
  show ?thesis
    by (auto simp: foretis_into_clean_authenticated_def verify_foretis_def Let_def Nil is_ok_iff
        result_simps verify_Ok_True_iff short verify_def lookup_from_clean_record_def split: if_splits)
next
  case (Cons s rest)
  have "sig_algorithm_name (se_algorithm s) = (if se_algorithm s = FastEd25519 then ''Ed25519'' else ''SLH-DSA'')"
    by (cases "se_algorithm s") simp_all
  then show ?thesis
    by (auto simp: foretis_into_clean_authenticated_def verify_foretis_signed_Ok_iff [OF Cons] is_ok_iff
        Cons sw_verify_with_slh_dsa)
qed

theorem foretis_gate_accepts_witness:
  "foretis_into_clean_authenticated demo_postcard (software_crypto_server demo_ffi []) [5]
     (ca_from_trusted (ChrononRecord 3 (demo_public [1]) ''Ed25519'' [] [] [] 0 [] 0 tbid_default))
     (from_parsed \<lparr>fr_chronon_number = 3, fr_content_hash = demo_tag 31 [5], fr_tbid = tbid_default,
        fr_echo = ''e'', fr_tbn = ''n'', fr_time_being_reference_time = ''t''\<rparr>) = Panic"
  by (rule foretis_gate_accepts [THEN conjunct2, rule_format]) (simp add: from_parsed_def ca_from_trusted_def)

end
