(* ===== verification/Chronomatter.thy ===== *)
theory Chronomatter
  imports Stateful Server_Calendar Clean_Auth
begin

section \<open>The chronomatter\<close>

text \<open>
  Models \<^verbatim>\<open>core-engine/src/chronomatter/mod.rs\<close>: the time being that advances its tick,
  makes a key pair per tick, signs the auto-attestation that links it to the tick before,
  stamps content and hands each record to the tick observer.

  The observer is the state \<open>cm_observer\<close> and the function \<open>obs\<close> of the operations
  that notify it. What the key generator, the random number generator and the clock answer
  during a call is in the call's \<open>tick_inputs\<close>. The metrics callbacks are the trace
  \<open>cm_events\<close>, present when an observer for them is set. \<open>debug\<close> is whether the build
  checks overflow. The operations here run one at a time; the locks and atomics of the code
  do not make them atomic, see \<open>Chronomatter_Race\<close>.
\<close>

record 'k tick_key_pair =
  kp_pub_key :: bytes
  kp_priv_key :: 'k

datatype attest_event = AttestSent | AttestOk | AttestFailed

record ('k, 'o) chronomatter =
  cm_tbid :: tbid
  cm_tbid_secret :: "tbid_secret option"
  cm_tbn :: string
  cm_current_tick :: u64
  cm_keypairs :: "'k tick_key_pair list"
  cm_observer :: 'o
  cm_events :: "attest_event list option"
  cm_chronon_ns :: u64
  cm_is_dormant :: bool
  cm_chronon_stamp_count :: u64

record 'k tick_inputs =
  ti_key :: "('k, crypto_error) result"
  ti_nonce :: "(bytes, crypto_error) result"
  ti_clock :: clock_reading

subsection \<open>Construction\<close>

definition tbid_secret_generate ::
    "(bytes \<times> bytes, crypto_error) result \<Rightarrow> (tbid \<times> tbid_secret, crypto_error) result" where
  "tbid_secret_generate tbid_keypair =
     rbind tbid_keypair (\<lambda>(pub_bytes, sec_bytes).
     rbind (tbid_from_bytes pub_bytes) (\<lambda>t.
     rbind (secret_from_bytes sec_bytes) (\<lambda>secret. Ok (t, secret))))"

definition chronomatter_new ::
    "(bytes \<Rightarrow> string) \<Rightarrow> (bytes \<times> bytes, crypto_error) result \<Rightarrow> u64 \<Rightarrow> 'o \<Rightarrow>
     (('k, 'o) chronomatter, node_error) result" where
  "chronomatter_new hex_encode tbid_keypair chronon_ns observer =
     rbind (rmap_err Crypto (tbid_secret_generate tbid_keypair)) (\<lambda>(t, secret).
     rbind (slice_to (to_hex hex_encode t) 16) (\<lambda>prefix.
       Ok \<lparr>cm_tbid = t, cm_tbid_secret = Some secret, cm_tbn = ''tf-'' @ prefix,
           cm_current_tick = 0, cm_keypairs = [], cm_observer = observer, cm_events = None,
           cm_chronon_ns = chronon_ns, cm_is_dormant = False, cm_chronon_stamp_count = 0\<rparr>))"

definition from_calendar ::
    "(bytes \<Rightarrow> string) \<Rightarrow> (bytes \<times> bytes, crypto_error) result \<Rightarrow> (calendar, node_error) result \<Rightarrow>
     'o \<Rightarrow> (('k, 'o) chronomatter, node_error) result" where
  "from_calendar hex_encode tbid_keypair loaded observer =
     rbind loaded (\<lambda>calendar_data.
     (let latest_tick = case_option 0 id (cal_latest calendar_data) in
      rbind (rmap_err Crypto (tbid_secret_generate tbid_keypair)) (\<lambda>(t, _).
      rbind (slice_to (to_hex hex_encode t) 16) (\<lambda>prefix.
        Ok \<lparr>cm_tbid = t, cm_tbid_secret = None, cm_tbn = ''tf-'' @ prefix,
            cm_current_tick = latest_tick, cm_keypairs = [], cm_observer = observer, cm_events = None,
            cm_chronon_ns = 0, cm_is_dormant = True, cm_chronon_stamp_count = 0\<rparr>))))"

definition set_dormant :: "bool \<Rightarrow> ('k, 'o) chronomatter \<Rightarrow> ('k, 'o) chronomatter" where
  "set_dormant dormant s = s\<lparr>cm_is_dormant := dormant\<rparr>"

definition set_mutual_attest_observer :: "('k, 'o) chronomatter \<Rightarrow> ('k, 'o) chronomatter" where
  "set_mutual_attest_observer s = s\<lparr>cm_events := Some []\<rparr>"

definition emit :: "attest_event \<Rightarrow> ('k, 'o) chronomatter \<Rightarrow> ('k, 'o) chronomatter" where
  "emit ev s = s\<lparr>cm_events := map_option (\<lambda>l. l @ [ev]) (cm_events s)\<rparr>"

definition sign_tbid_message ::
    "'k ffi \<Rightarrow> ('k, 'o) chronomatter \<Rightarrow> bytes \<Rightarrow> (bytes, node_error) result" where
  "sign_tbid_message F s msg =
     rbind (ok_or (Crypto (BadInput ''no TBID signing key'')) (cm_tbid_secret s)) (\<lambda>secret.
       rmap_err Crypto (secret_sign F secret msg))"

definition latest_public_key :: "('k, 'o) chronomatter \<Rightarrow> bytes option" where
  "latest_public_key s = map_option kp_pub_key (list_last (cm_keypairs s))"

subsection \<open>Key pairs\<close>

text \<open>\<^verbatim>\<open>while keypairs.len() > 2 { keypairs.remove(0) }\<close>.\<close>

fun retain_two :: "'a list \<Rightarrow> 'a list" where
  "retain_two ks = (if length ks > 2 then retain_two (tl ks) else ks)"

declare retain_two.simps [simp del]

definition store_keypair :: "'k tick_key_pair \<Rightarrow> ('k, 'o) chronomatter \<Rightarrow> ('k, 'o) chronomatter" where
  "store_keypair kp s = s\<lparr>cm_keypairs := retain_two (cm_keypairs s @ [kp])\<rparr>"

definition generate_and_store_keypair ::
    "'k ffi \<Rightarrow> ('k, crypto_error) result \<Rightarrow> (('k, 'o) chronomatter, unit, node_error) stateful" where
  "generate_and_store_keypair F generated =
     sbind (slift (rmap_err Crypto generated)) (\<lambda>handle.
     sbind (slift (rmap_err Crypto (handle_public_key F handle))) (\<lambda>pub_key.
       smod (store_keypair \<lparr>kp_pub_key = pub_key, kp_priv_key = handle\<rparr>)))"

text \<open>Key pairs are addressed from the newest: 0 is the current one, 1 the one before.\<close>

definition relative_keypair :: "nat \<Rightarrow> ('k, 'o) chronomatter \<Rightarrow> 'k tick_key_pair option" where
  "relative_keypair relative_idx s =
     (let len = length (cm_keypairs s)
      in if relative_idx + 1 \<le> len then Some (cm_keypairs s ! (len - (relative_idx + 1))) else None)"

definition sign_with_keypair ::
    "'k ffi \<Rightarrow> nat \<Rightarrow> bytes \<Rightarrow> (('k, 'o) chronomatter, bytes, node_error) stateful" where
  "sign_with_keypair F relative_idx msg s =
     (rbind (ok_or (Internal (''keypair relative index '' @ decimal relative_idx @
              '' out of range (len='' @ decimal (length (cm_keypairs s)) @ '')''))
             (relative_keypair relative_idx s)) (\<lambda>kp.
        rmap_err Crypto (handle_sign F (kp_priv_key kp) msg)), s)"

definition keypair_pub :: "nat \<Rightarrow> ('k, 'o) chronomatter \<Rightarrow> bytes option" where
  "keypair_pub relative_idx s = map_option kp_pub_key (relative_keypair relative_idx s)"

subsection \<open>Building the auto-attestation\<close>

definition swap_stamp_count :: "(('k, 'o) chronomatter, u64, node_error) stateful" where
  "swap_stamp_count s = (Ok (cm_chronon_stamp_count s), s\<lparr>cm_chronon_stamp_count := 0\<rparr>)"

definition build_auto_attestation ::
    "'k ffi \<Rightarrow> (bytes \<Rightarrow> string) \<Rightarrow> (bytes, crypto_error) result \<Rightarrow> u64 \<Rightarrow> bytes \<Rightarrow>
     (('k, 'o) chronomatter, bytes \<times> bytes \<times> bytes \<times> u64, node_error) stateful" where
  "build_auto_attestation F hex_encode random_nonce tick new_pub =
     sbind (sget (\<lambda>s. to_hex hex_encode (cm_tbid s))) (\<lambda>tbid_str.
     sbind swap_stamp_count (\<lambda>stamps.
       if tick = 1 then
         sbind (slift (auto_attestation_blob_with_count random_nonce tbid_str tick new_pub tick
                  new_pub stamps)) (\<lambda>(attest_blob, nonce).
         sbind (sign_with_keypair F 0 attest_blob) (\<lambda>sig.
           sret (sig, sig, nonce, stamps)))
       else
         sbind (\<lambda>s. (ok_or (Internal ''missing previous keypair'') (keypair_pub 1 s), s)) (\<lambda>prev_pub.
         sbind (slift (auto_attestation_blob_with_count random_nonce tbid_str (tick - 1) prev_pub
                  tick new_pub stamps)) (\<lambda>(attest_blob, nonce).
         sbind (sign_with_keypair F 1 attest_blob) (\<lambda>forward_sig.
         sbind (sign_with_keypair F 0 attest_blob) (\<lambda>backward_sig.
           sret (forward_sig, backward_sig, nonce, stamps)))))))"

text \<open>The metrics callback on a result: \<^verbatim>\<open>match &result\<close> before \<^verbatim>\<open>result?\<close>.\<close>

definition report_result ::
    "(('k, 'o) chronomatter, 'a, node_error) stateful \<Rightarrow> (('k, 'o) chronomatter, 'a, node_error) stateful" where
  "report_result m s = (case m s of
     (Ok a, s') \<Rightarrow> (Ok a, emit AttestOk s')
   | (Err e, s') \<Rightarrow> (Err e, emit AttestFailed s')
   | (Panic, s') \<Rightarrow> (Panic, s'))"

definition build_genesis_with_pqc ::
    "'k ffi \<Rightarrow> (bytes \<Rightarrow> string) \<Rightarrow> (bytes, crypto_error) result \<Rightarrow> u64 \<Rightarrow> bytes \<Rightarrow> tbid_secret \<Rightarrow>
     (('k, 'o) chronomatter, bytes \<times> bytes \<times> bytes \<times> u64 \<times> u32, node_error) stateful" where
  "build_genesis_with_pqc F hex_encode random_nonce tick new_pub secret =
     sbind (sget cm_tbid) (\<lambda>t.
     sbind (slift (rmap_err Crypto
              (secret_sign F secret (raw_bytes t @ to_be_bytes tick @ new_pub)))) (\<lambda>genesis_sig.
     sbind swap_stamp_count (\<lambda>stamps_count.
     sbind (slift (auto_attestation_blob_with_genesis random_nonce (to_hex hex_encode t) tick new_pub
              genesis_sig stamps_count)) (\<lambda>(attest_blob, nonce).
     sbind (sign_with_keypair F 0 attest_blob) (\<lambda>ed_sig.
       sret (ed_sig @ genesis_sig, ed_sig @ genesis_sig, nonce, stamps_count, 1))))))"

definition build_genesis_without_pqc ::
    "'k ffi \<Rightarrow> (bytes \<Rightarrow> string) \<Rightarrow> (bytes, crypto_error) result \<Rightarrow> u64 \<Rightarrow> bytes \<Rightarrow>
     (('k, 'o) chronomatter, bytes \<times> bytes \<times> bytes \<times> u64 \<times> u32, node_error) stateful" where
  "build_genesis_without_pqc F hex_encode random_nonce tick new_pub =
     sbind (report_result (build_auto_attestation F hex_encode random_nonce tick new_pub))
       (\<lambda>(fwd, bwd, nonce, stamps_count). sret (fwd, bwd, nonce, stamps_count, 0))"

definition build_genesis_tick_record ::
    "'k ffi \<Rightarrow> (bytes \<Rightarrow> string) \<Rightarrow> crypto_server \<Rightarrow> (bytes, crypto_error) result \<Rightarrow> u64 \<Rightarrow> bytes \<Rightarrow>
     (('k, 'o) chronomatter, chronon_record, node_error) stateful" where
  "build_genesis_tick_record F hex_encode crypto random_nonce tick new_pub =
     sbind (smod (emit AttestSent)) (\<lambda>_.
     sbind (sget (\<lambda>s. (cm_tbid s, cm_tbid_secret s))) (\<lambda>(t, tbid_secret).
     sbind (case tbid_secret of
              Some secret \<Rightarrow> build_genesis_with_pqc F hex_encode random_nonce tick new_pub secret
            | None \<Rightarrow> build_genesis_without_pqc F hex_encode random_nonce tick new_pub)
       (\<lambda>(forward_foretis, backward_foretis, aa_nonce, stamps, tb_version).
     sbind (smod (emit AttestOk)) (\<lambda>_.
       slift (chronon_build
         (ChrononRecord tick new_pub (to_id_string (cs_signature_algorithm crypto)) forward_foretis
            backward_foretis aa_nonce stamps [] tb_version t))))))"

definition build_regular_tick_record ::
    "'k ffi \<Rightarrow> (bytes \<Rightarrow> string) \<Rightarrow> crypto_server \<Rightarrow> (bytes, crypto_error) result \<Rightarrow> u64 \<Rightarrow> bytes \<Rightarrow>
     (('k, 'o) chronomatter, chronon_record, node_error) stateful" where
  "build_regular_tick_record F hex_encode crypto random_nonce tick new_pub =
     sbind (smod (emit AttestSent)) (\<lambda>_.
     sbind (report_result (build_auto_attestation F hex_encode random_nonce tick new_pub))
       (\<lambda>(forward_foretis, backward_foretis, aa_nonce, stamps).
     sbind (sget cm_tbid) (\<lambda>t.
       slift (chronon_build
         (ChrononRecord tick new_pub (to_id_string (cs_signature_algorithm crypto)) forward_foretis
            backward_foretis aa_nonce stamps [] 0 t)))))"

definition build_tick_record ::
    "'k ffi \<Rightarrow> (bytes \<Rightarrow> string) \<Rightarrow> crypto_server \<Rightarrow> (bytes, crypto_error) result \<Rightarrow> u64 \<Rightarrow> bytes \<Rightarrow>
     (('k, 'o) chronomatter, chronon_record, node_error) stateful" where
  "build_tick_record F hex_encode crypto random_nonce tick new_pub =
     (if tick = 1 then build_genesis_tick_record F hex_encode crypto random_nonce tick new_pub
      else build_regular_tick_record F hex_encode crypto random_nonce tick new_pub)"

definition notify_observer ::
    "(u64 \<Rightarrow> bytes \<Rightarrow> chronon_record \<Rightarrow> 'o \<Rightarrow> 'o) \<Rightarrow> u64 \<Rightarrow> bytes \<Rightarrow> chronon_record \<Rightarrow>
     (('k, 'o) chronomatter, unit, node_error) stateful" where
  "notify_observer obs tick pk record = smod (\<lambda>s. s\<lparr>cm_observer := obs tick pk record (cm_observer s)\<rparr>)"

subsection \<open>Stamping\<close>

definition current_keypair_pub :: "(('k, 'o) chronomatter, bytes, node_error) stateful" where
  "current_keypair_pub s =
     (ok_or (Internal ''keypair not found after generation'') (keypair_pub 0 s), s)"

text \<open>\<^verbatim>\<open>self.current_tick.fetch_add(1, SeqCst) + 1\<close>: the counter wraps, the sum may panic.\<close>

definition next_tick :: "bool \<Rightarrow> (('k, 'o) chronomatter, u64, node_error) stateful" where
  "next_tick debug s = (add_u64 debug (cm_current_tick s) 1, s\<lparr>cm_current_tick := cm_current_tick s + 1\<rparr>)"

definition create_foretis ::
    "'k ffi \<Rightarrow> (bytes \<Rightarrow> string) \<Rightarrow> postcard_foretis \<Rightarrow> crypto_server \<Rightarrow>
     (u64 \<Rightarrow> bytes \<Rightarrow> chronon_record \<Rightarrow> 'o \<Rightarrow> 'o) \<Rightarrow> 'k tick_inputs \<Rightarrow> u64 \<Rightarrow> bytes \<Rightarrow> string \<Rightarrow>
     (('k, 'o) chronomatter, stamped_foretis, node_error) stateful" where
  "create_foretis F hex_encode pc crypto obs inp tick content echo =
     sbind (generate_and_store_keypair F (ti_key inp)) (\<lambda>_.
     sbind current_keypair_pub (\<lambda>new_pub.
     sbind (slift (rmap_err Crypto (cs_sha256 crypto content))) (\<lambda>content_hash.
     sbind (slift (rmap_err clock_error (ti_clock inp))) (\<lambda>now_ns.
     sbind (sget (\<lambda>s. \<lparr>fr_chronon_number = tick, fr_content_hash = content_hash,
                       fr_tbid = cm_tbid s, fr_echo = echo, fr_tbn = cm_tbn s,
                       fr_time_being_reference_time = reference_time now_ns\<rparr>)) (\<lambda>foretis.
     sbind (slift (rmap_err postcard_error (pc foretis))) (\<lambda>sig_input.
     sbind (sign_with_keypair F 0 sig_input) (\<lambda>signature.
     sbind (build_tick_record F hex_encode crypto (ti_nonce inp) tick new_pub) (\<lambda>record.
     sbind (notify_observer obs tick new_pub record) (\<lambda>_.
       sret \<lparr>st_foretis = foretis, st_signature_bytes = signature,
             st_signature_algorithm = to_id_string (cs_signature_algorithm crypto)\<rparr>)))))))))"

definition cm_stamp ::
    "bool \<Rightarrow> 'k ffi \<Rightarrow> (bytes \<Rightarrow> string) \<Rightarrow> postcard_foretis \<Rightarrow> crypto_server \<Rightarrow>
     (u64 \<Rightarrow> bytes \<Rightarrow> chronon_record \<Rightarrow> 'o \<Rightarrow> 'o) \<Rightarrow> 'k tick_inputs \<Rightarrow> bytes \<Rightarrow> string \<Rightarrow>
     (('k, 'o) chronomatter, stamped_foretis, node_error) stateful" where
  "cm_stamp debug F hex_encode pc crypto obs inp content echo =
     sbind (sget cm_is_dormant) (\<lambda>dormant.
     if dormant then slift (Err (Internal ''Cannot stamp: Chronomatter is in verify-only mode''))
     else
       sbind (next_tick debug) (\<lambda>tick.
       sbind (smod (\<lambda>s. s\<lparr>cm_chronon_stamp_count := cm_chronon_stamp_count s + 1\<rparr>)) (\<lambda>_.
         create_foretis F hex_encode pc crypto obs inp tick content echo)))"

subsection \<open>Verifying\<close>

text \<open>
  \<^verbatim>\<open>verify_unprocessed\<close> renders the errors it wraps; \<open>show_error\<close> and
  \<open>show_auth_error\<close> are their \<^verbatim>\<open>Display\<close>.
\<close>

definition verify_unprocessed ::
    "(node_error \<Rightarrow> string) \<Rightarrow> (clean_auth_error \<Rightarrow> string) \<Rightarrow> postcard_foretis \<Rightarrow> crypto_server \<Rightarrow>
     foretis_record unverified \<Rightarrow> bytes \<Rightarrow> calendar_lookup \<Rightarrow>
     (foretis_record clean, node_error) result" where
  "verify_unprocessed show_error show_auth_error pc crypto unprocessed content calendar =
     rbind (rmap_err (\<lambda>e. Internal (''calendar lookup failed: '' @ show_error e))
             (lk_get calendar (fr_chronon_number (uv_inner unprocessed)) 1)) (\<lambda>records.
     rbind (ok_or (Internal (''chronon '' @ show_u64 (fr_chronon_number (uv_inner unprocessed)) @
              '' not found in calendar for verification'')) (list_first records)) (\<lambda>rec.
       rmap_err (\<lambda>e. Internal (''verification failed: '' @ show_auth_error e))
         (foretis_into_clean_authenticated pc crypto content (ca_from_trusted rec) unprocessed)))"

text \<open>A stamp as the envelope that arrives for verification: its one signature, of the chronomatter.\<close>

definition stamped_envelope :: "stamped_foretis \<Rightarrow> foretis_record unverified" where
  "stamped_envelope st =
     \<lparr>uv_inner = st_foretis st,
      uv_signatures = [\<lparr>se_role = ChronomatterRole, se_tbid = [], se_algorithm = FastEd25519,
        se_sig = st_signature_bytes st\<rparr>]\<rparr>"

subsection \<open>The daemon\<close>

definition daemon_tick ::
    "bool \<Rightarrow> 'k ffi \<Rightarrow> (bytes \<Rightarrow> string) \<Rightarrow> crypto_server \<Rightarrow>
     (u64 \<Rightarrow> bytes \<Rightarrow> chronon_record \<Rightarrow> 'o \<Rightarrow> 'o) \<Rightarrow> 'k tick_inputs \<Rightarrow>
     (('k, 'o) chronomatter, unit, node_error) stateful" where
  "daemon_tick debug F hex_encode crypto obs inp =
     sbind (sget cm_is_dormant) (\<lambda>dormant.
     if dormant then sret ()
     else
       sbind (next_tick debug) (\<lambda>tick.
       sbind (generate_and_store_keypair F (ti_key inp)) (\<lambda>_.
       sbind current_keypair_pub (\<lambda>new_pub.
       sbind (build_tick_record F hex_encode crypto (ti_nonce inp) tick new_pub) (\<lambda>record.
         notify_observer obs tick new_pub record)))))"

text \<open>
  Starting and stopping: the spawned loops still running, and the one the handle names. A
  dropped \<^verbatim>\<open>JoinHandle\<close> detaches its task.
\<close>

record daemon =
  dm_handle :: "nat option"
  dm_running :: "nat list"
  dm_spawned :: nat

definition daemon_idle :: daemon where
  "daemon_idle = \<lparr>dm_handle = None, dm_running = [], dm_spawned = 0\<rparr>"

definition daemon_period_ms :: "u64 \<Rightarrow> u64" where
  "daemon_period_ms chronon_ns =
     (let chronon_ms = chronon_ns div 1000000 in if chronon_ms > 0 then chronon_ms else 1)"

definition start_daemon :: "u64 \<Rightarrow> daemon \<Rightarrow> daemon" where
  "start_daemon chronon_ns d =
     (if chronon_ns = 0 then d
      else \<lparr>dm_handle = Some (dm_spawned d), dm_running = dm_running d @ [dm_spawned d],
            dm_spawned = dm_spawned d + 1\<rparr>)"

definition stop_daemon :: "daemon \<Rightarrow> daemon" where
  "stop_daemon d = (case dm_handle d of
     None \<Rightarrow> d
   | Some h \<Rightarrow> d\<lparr>dm_handle := None, dm_running := removeAll h (dm_running d)\<rparr>)"

subsection \<open>Integrity check against any calendar\<close>

definition cm_integrity_check ::
    "'k ffi \<Rightarrow> (bytes \<Rightarrow> string) \<Rightarrow> crypto_server \<Rightarrow> calendar_lookup \<Rightarrow> u64 option \<Rightarrow> u64 option \<Rightarrow>
     (bool list, node_error) result" where
  "cm_integrity_check F hex_encode crypto calendar start end =
     rbind (lk_get calendar (case_option 0 id start) 10000) (\<lambda>records.
     if records = [] then Ok []
     else
       (let start_tick = case_option 0 id start; end_tick = case_option u64_max id end;
            filtered = filter (\<lambda>t. cr_chronon_number t \<ge> start_tick \<and> cr_chronon_number t \<le> end_tick) records
        in if filtered = [] then Ok []
           else if length filtered \<ge> 2
           then try_map (\<lambda>i. verify_pair F crypto (to_hex hex_encode (lk_tbid calendar))
                                (filtered ! i) (filtered ! (i + 1))) [0..<length filtered - 1]
           else Ok []))"

end
