(* ===== verification/Chronomatter_Run.thy ===== *)
theory Chronomatter_Run
  imports Chronomatter
begin

section \<open>Runs of the chronomatter\<close>

text \<open>
  What the chronomatter's operations keep true of its state and of the calendar it feeds,
  proved for any observer that meets the contract \<open>tick_observer\<close> and then read off for
  the server's calendar.
\<close>

subsection \<open>Key pairs\<close>

lemma retain_two_drop: "retain_two ks = drop (length ks - 2) ks"
proof (induction ks rule: retain_two.induct)
  case (1 ks)
  show ?case
  proof (cases "length ks > 2")
    case True
    then have "retain_two ks = drop (length (tl ks) - 2) (tl ks)"
      using 1 by (subst retain_two.simps) simp
    also have "\<dots> = drop (length ks - 2) ks"
      using True by (cases ks) (simp_all add: drop_Cons' numeral_2_eq_2)
    finally show ?thesis .
  next
    case False
    then show ?thesis by (subst retain_two.simps) simp
  qed
qed

lemma store_keypair_keypairs:
  "cm_keypairs (store_keypair kp s) = drop (length (cm_keypairs s) - 1) (cm_keypairs s) @ [kp]"
  by (simp add: store_keypair_def retain_two_drop)

lemma store_keypair_current [simp]: "relative_keypair 0 (store_keypair kp s) = Some kp"
  by (simp add: relative_keypair_def store_keypair_keypairs Let_def nth_append)

lemma store_keypair_previous:
  "relative_keypair 1 (store_keypair kp s) = list_last (cm_keypairs s)"
proof (cases "cm_keypairs s" rule: rev_cases)
  case Nil
  then show ?thesis by (simp add: relative_keypair_def store_keypair_keypairs)
next
  case (snoc ys y)
  then show ?thesis by (simp add: relative_keypair_def store_keypair_keypairs Let_def nth_append)
qed

lemma store_keypair_length:
  "length (cm_keypairs (store_keypair kp s)) = min 2 (Suc (length (cm_keypairs s)))"
  by (simp add: store_keypair_keypairs)

lemma store_keypair_set:
  "set (cm_keypairs (store_keypair kp s)) \<subseteq> insert kp (set (cm_keypairs s))"
  by (auto simp: store_keypair_keypairs dest: in_set_dropD)

lemma generate_and_store_keypair_Ok:
  "generate_and_store_keypair F generated s = (Ok u, s') \<longleftrightarrow>
     (\<exists>k. generated = Ok k \<and>
        s' = store_keypair \<lparr>kp_pub_key = ffi_ed25519_public F k, kp_priv_key = k\<rparr> s)"
  by (cases generated)
    (auto simp: generate_and_store_keypair_def handle_public_key_def smod_eq sbind_def slift_def)

lemma keypair_pub_0 [simp]: "keypair_pub 0 (store_keypair kp s) = Some (kp_pub_key kp)"
  by (simp add: keypair_pub_def)

lemma store_keypair_frame [simp]:
  "cm_tbid (store_keypair kp s) = cm_tbid s"
  "cm_tbid_secret (store_keypair kp s) = cm_tbid_secret s"
  "cm_tbn (store_keypair kp s) = cm_tbn s"
  "cm_current_tick (store_keypair kp s) = cm_current_tick s"
  "cm_observer (store_keypair kp s) = cm_observer s"
  "cm_is_dormant (store_keypair kp s) = cm_is_dormant s"
  "cm_chronon_stamp_count (store_keypair kp s) = cm_chronon_stamp_count s"
  by (simp_all add: store_keypair_def)

subsection \<open>A record that was built\<close>

text \<open>The state that building a record does not touch, whether or not it succeeds.\<close>

definition same_core :: "('k, 'o) chronomatter \<Rightarrow> ('k, 'o) chronomatter \<Rightarrow> bool" where
  "same_core s s' \<longleftrightarrow> cm_tbid s' = cm_tbid s \<and> cm_tbid_secret s' = cm_tbid_secret s \<and>
     cm_tbn s' = cm_tbn s \<and> cm_current_tick s' = cm_current_tick s \<and>
     cm_keypairs s' = cm_keypairs s \<and> cm_observer s' = cm_observer s \<and>
     cm_is_dormant s' = cm_is_dormant s"

lemma same_core_refl [simp]: "same_core s s"
  by (simp add: same_core_def)

lemma same_core_trans: "same_core s s' \<Longrightarrow> same_core s' s'' \<Longrightarrow> same_core s s''"
  by (simp add: same_core_def)

lemma emit_frame [simp]:
  "same_core s (emit ev s)" "cm_chronon_stamp_count (emit ev s) = cm_chronon_stamp_count s"
  "cm_tbid (emit ev s) = cm_tbid s" "cm_tbid_secret (emit ev s) = cm_tbid_secret s"
  "relative_keypair i (emit ev s) = relative_keypair i s"
  "keypair_pub i (emit ev s) = keypair_pub i s"
  by (simp_all add: same_core_def emit_def relative_keypair_def keypair_pub_def Let_def)

lemma stamp_count_frame [simp]:
  "same_core s (s\<lparr>cm_chronon_stamp_count := n\<rparr>)"
  "relative_keypair i (s\<lparr>cm_chronon_stamp_count := n\<rparr>) = relative_keypair i s"
  "keypair_pub i (s\<lparr>cm_chronon_stamp_count := n\<rparr>) = keypair_pub i s"
  by (simp_all add: same_core_def relative_keypair_def keypair_pub_def Let_def)

lemma sign_with_keypair_Ok:
  "sign_with_keypair F i msg s = (Ok sig, s') \<longleftrightarrow>
     s' = s \<and> (\<exists>kp. relative_keypair i s = Some kp \<and> handle_sign F (kp_priv_key kp) msg = Ok sig)"
  by (auto simp: sign_with_keypair_def result_simps)

lemma swap_stamp_count_Ok [stateful_simps]:
  "swap_stamp_count s = (r, s') \<longleftrightarrow>
     r = Ok (cm_chronon_stamp_count s) \<and> s' = s\<lparr>cm_chronon_stamp_count := 0\<rparr>"
  by (auto simp: swap_stamp_count_def)

lemma report_result_Ok [stateful_simps]:
  "report_result m s = (Ok a, s'') \<longleftrightarrow> (\<exists>s'. m s = (Ok a, s') \<and> s'' = emit AttestOk s')"
  by (auto simp: report_result_def split: prod.splits result.splits)

lemma count_blob_Ok:
  "auto_attestation_blob_with_count rn s a apk b bpk n = Ok (blob, nonce) \<longleftrightarrow>
     rn = Ok nonce \<and> blob = blob_with_count s a apk b bpk n nonce"
  by (auto simp: auto_attestation_blob_with_count_def result_simps)

lemma genesis_blob_Ok:
  "auto_attestation_blob_with_genesis rn s t pk g n = Ok (blob, nonce) \<longleftrightarrow>
     rn = Ok nonce \<and> blob = genesis_blob_with_sig s t pk g n nonce"
  by (auto simp: auto_attestation_blob_with_genesis_def result_simps)

lemma build_auto_attestation_Ok:
  assumes "tick \<noteq> 1"
  shows "build_auto_attestation F hex rn tick pub s = (Ok (fwd, bwd, nonce, stamps), s') \<longleftrightarrow>
    rn = Ok nonce \<and> stamps = cm_chronon_stamp_count s \<and> s' = s\<lparr>cm_chronon_stamp_count := 0\<rparr> \<and>
    (\<exists>prev cur. relative_keypair 1 s = Some prev \<and> relative_keypair 0 s = Some cur \<and>
       handle_sign F (kp_priv_key prev)
         (blob_with_count (to_hex hex (cm_tbid s)) (tick - 1) (kp_pub_key prev) tick pub stamps nonce) = Ok fwd \<and>
       handle_sign F (kp_priv_key cur)
         (blob_with_count (to_hex hex (cm_tbid s)) (tick - 1) (kp_pub_key prev) tick pub stamps nonce) = Ok bwd)"
  using assms
  by (auto simp: build_auto_attestation_def stateful_simps result_simps sign_with_keypair_Ok
      keypair_pub_def count_blob_Ok)

definition linked_to ::
    "'k ffi \<Rightarrow> string \<Rightarrow> 'k tick_key_pair \<Rightarrow> 'k tick_key_pair \<Rightarrow> chronon_record \<Rightarrow> bool" where
  "linked_to F tbid_str prev cur r \<longleftrightarrow>
     (let blob = blob_with_count tbid_str (cr_chronon_number r - 1) (kp_pub_key prev)
                   (cr_chronon_number r) (cr_public_key r) (cr_chronon_stamp_count r) (cr_aa_nonce r)
      in handle_sign F (kp_priv_key prev) blob = Ok (cr_forward_foretis r) \<and>
         handle_sign F (kp_priv_key cur) blob = Ok (cr_backward_foretis r))"

definition built_from ::
    "(bytes \<Rightarrow> string) \<Rightarrow> crypto_server \<Rightarrow> u64 \<Rightarrow> bytes \<Rightarrow> ('k, 'o) chronomatter \<Rightarrow> chronon_record \<Rightarrow> bool" where
  "built_from hex crypto tick pub s r \<longleftrightarrow>
     cr_chronon_number r = tick \<and> tick \<noteq> 0 \<and> cr_public_key r = pub \<and> cr_tbid r = cm_tbid s \<and>
     cr_signature_algorithm r = to_id_string (cs_signature_algorithm crypto) \<and>
     cr_chronon_stamp_count r = cm_chronon_stamp_count s \<and> cr_external_attestations r = []"

lemma build_regular_Ok:
  assumes "tick \<noteq> 1" and "build_regular_tick_record F hex crypto rn tick pub s = (Ok r, s')"
  shows "built_from hex crypto tick pub s r" and "same_core s s'" and "cm_chronon_stamp_count s' = 0"
    and "\<exists>prev cur. relative_keypair 1 s = Some prev \<and> relative_keypair 0 s = Some cur \<and>
           linked_to F (to_hex hex (cm_tbid s)) prev cur r"
    and "cr_tb_version r = 0"
proof -
  obtain fwd bwd nonce stamps s1 where
    att: "build_auto_attestation F hex rn tick pub (emit AttestSent s) = (Ok (fwd, bwd, nonce, stamps), s1)"
    and s': "s' = emit AttestOk s1"
    and r: "r = ChrononRecord tick pub (to_id_string (cs_signature_algorithm crypto)) fwd bwd nonce
                  stamps [] 0 (cm_tbid s1)" "tick \<noteq> 0"
    using assms(2) by (auto simp: build_regular_tick_record_def stateful_simps chronon_build_Ok_iff)
  note b = att [unfolded build_auto_attestation_Ok [OF assms(1)]]
  show "built_from hex crypto tick pub s r" using b r by (auto simp: built_from_def)
  show "cr_tb_version r = 0" using r by simp
  show "\<exists>prev cur. relative_keypair 1 s = Some prev \<and> relative_keypair 0 s = Some cur \<and>
           linked_to F (to_hex hex (cm_tbid s)) prev cur r"
    using b r by (auto simp: linked_to_def Let_def)
  have "s1 = (emit AttestSent s)\<lparr>cm_chronon_stamp_count := 0\<rparr>" using b by simp
  with s' show "same_core s s'" and "cm_chronon_stamp_count s' = 0"
    by (simp_all add: same_core_def emit_def)
qed

lemma build_genesis_frame:
  assumes "build_genesis_tick_record F hex crypto rn 1 pub s = (Ok r, s')"
  shows "built_from hex crypto 1 pub s r \<and> same_core s s' \<and> cm_chronon_stamp_count s' = 0"
proof (cases "cm_tbid_secret s")
  case None
  with assms show ?thesis
    by (auto simp: build_genesis_tick_record_def build_genesis_without_pqc_def
        build_auto_attestation_def stateful_simps sign_with_keypair_Ok chronon_build_Ok_iff
        built_from_def same_core_def emit_def count_blob_Ok)
next
  case (Some secret)
  with assms show ?thesis
    by (auto simp: build_genesis_tick_record_def build_genesis_with_pqc_def stateful_simps
        sign_with_keypair_Ok chronon_build_Ok_iff built_from_def same_core_def emit_def genesis_blob_Ok)
qed

subsection \<open>The invariant\<close>

text \<open>
  Tick numbers of the stored records are 1, 2, ..., up to the current tick; every pair of
  consecutive records verifies; the newest key pairs are kept, at most two, and the newest is
  the key of the last record.
\<close>

definition consecutive :: "chronon_record list \<Rightarrow> bool" where
  "consecutive rs \<longleftrightarrow> (\<forall>i < length rs. unat (cr_chronon_number (rs ! i)) = Suc i)"

lemma consecutive_Nil [simp]: "consecutive []"
  by (simp add: consecutive_def)

lemma consecutive_snoc:
  "consecutive (rs @ [r]) \<longleftrightarrow> consecutive rs \<and> unat (cr_chronon_number r) = Suc (length rs)"
  by (auto simp: consecutive_def nth_append less_Suc_eq)

lemma consecutive_last:
  "consecutive rs \<Longrightarrow> rs \<noteq> [] \<Longrightarrow> unat (cr_chronon_number (last rs)) = length rs"
  by (simp add: consecutive_def last_conv_nth)

lemma consecutive_less:
  "consecutive rs \<Longrightarrow> x \<in> set rs \<Longrightarrow> unat (cr_chronon_number x) \<le> length rs"
  by (auto simp: consecutive_def in_set_conv_nth)

definition keypairs_inv :: "'k ffi \<Rightarrow> 'k tick_key_pair list \<Rightarrow> chronon_record list \<Rightarrow> bool" where
  "keypairs_inv F kps rs \<longleftrightarrow>
     length kps = min 2 (length rs) \<and>
     (\<forall>kp \<in> set kps. kp_pub_key kp = ffi_ed25519_public F (kp_priv_key kp)) \<and>
     (rs \<noteq> [] \<longrightarrow> kp_pub_key (last kps) = cr_public_key (last rs))"

lemma keypairs_inv_store:
  assumes "keypairs_inv F (cm_keypairs s) rs" and "cr_public_key r = ffi_ed25519_public F k"
  shows "keypairs_inv F (cm_keypairs
      (store_keypair \<lparr>kp_pub_key = ffi_ed25519_public F k, kp_priv_key = k\<rparr> s)) (rs @ [r])"
proof -
  let ?kp = "\<lparr>kp_pub_key = ffi_ed25519_public F k, kp_priv_key = k\<rparr>"
  have "kp_pub_key kp = ffi_ed25519_public F (kp_priv_key kp)"
    if "kp \<in> set (cm_keypairs (store_keypair ?kp s))" for kp
    using store_keypair_set [THEN subsetD, OF that] assms(1) by (auto simp: keypairs_inv_def)
  moreover have "length (cm_keypairs (store_keypair ?kp s)) = min 2 (length (rs @ [r]))"
    using assms(1) by (simp add: store_keypair_length keypairs_inv_def)
  moreover have "kp_pub_key (last (cm_keypairs (store_keypair ?kp s))) = cr_public_key r"
    using assms(2) by (simp add: store_keypair_keypairs)
  ultimately show ?thesis by (simp add: keypairs_inv_def)
qed

definition run_inv ::
    "('o \<Rightarrow> chronon_record list) \<Rightarrow> ('o \<Rightarrow> bool) \<Rightarrow> 'k ffi \<Rightarrow> (bytes \<Rightarrow> string) \<Rightarrow> crypto_server \<Rightarrow>
     ('k, 'o) chronomatter \<Rightarrow> bool" where
  "run_inv records invar F hex crypto s \<longleftrightarrow>
     (let rs = records (cm_observer s) in
      invar (cm_observer s) \<and> length rs = unat (cm_current_tick s) \<and> consecutive rs \<and>
      chain_ok F crypto (to_hex hex (cm_tbid s)) rs \<and>
      (\<forall>r \<in> set rs. cr_tbid r = cm_tbid s) \<and> keypairs_inv F (cm_keypairs s) rs)"

text \<open>The link that a freshly built record makes to the record before it.\<close>

lemma linked_pair_verifies:
  assumes ffi: "ffi_ed25519_correct F"
    and link: "linked_to F s prev cur r" and alg: "cr_signature_algorithm r = ''Ed25519''"
    and prev: "kp_pub_key prev = ffi_ed25519_public F (kp_priv_key prev)"
      "kp_pub_key prev = cr_public_key p" "cr_chronon_number p = cr_chronon_number r - 1"
    and cur: "cr_public_key r = ffi_ed25519_public F (kp_priv_key cur)"
    and number: "cr_chronon_number r \<noteq> 1"
  shows "verify_pair F (software_crypto_server F k0) s p r = Ok True"
proof -
  let ?blob = "build_normal_attest_blob s p r (cr_chronon_stamp_count r) (cr_aa_nonce r)"
  have "handle_sign F (kp_priv_key prev) ?blob = Ok (cr_forward_foretis r)"
    and "handle_sign F (kp_priv_key cur) ?blob = Ok (cr_backward_foretis r)"
    using link prev by (simp_all add: linked_to_def Let_def normal_blob_eq)
  from this [THEN handle_sign_verifies(2) [OF ffi]] prev cur alg number
  show ?thesis by (simp add: verify_pair_normal genesis_shaped_def)
qed

lemma next_tick_Ok:
  "next_tick debug s = (Ok t, s') \<Longrightarrow>
     t = cm_current_tick s + 1 \<and> s' = s\<lparr>cm_current_tick := t\<rparr>"
  by (auto simp: next_tick_def add_u64_def split: if_splits)

lemma current_keypair_pub_Ok [stateful_simps]:
  "current_keypair_pub s = (Ok pk, s') \<longleftrightarrow> s' = s \<and> keypair_pub 0 s = Some pk"
  by (auto simp: current_keypair_pub_def result_simps)

text \<open>
  What both kinds of tick do once the tick is taken: build the record on the fresh key pair,
  notify the observer.
\<close>

definition ticked ::
    "'k ffi \<Rightarrow> (bytes \<Rightarrow> string) \<Rightarrow> crypto_server \<Rightarrow> (u64 \<Rightarrow> bytes \<Rightarrow> chronon_record \<Rightarrow> 'o \<Rightarrow> 'o) \<Rightarrow>
     'k \<Rightarrow> ('k, 'o) chronomatter \<Rightarrow> ('k, 'o) chronomatter \<Rightarrow> chronon_record \<Rightarrow> bool" where
  "ticked F hex crypto obs k s s' r \<longleftrightarrow>
     (let t = cm_current_tick s + 1; pub = ffi_ed25519_public F k;
          kp = \<lparr>kp_pub_key = pub, kp_priv_key = k\<rparr>;
          kps = cm_keypairs (store_keypair kp s) in
      cr_chronon_number r = t \<and> t \<noteq> 0 \<and> cr_public_key r = pub \<and> cr_tbid r = cm_tbid s \<and>
      cr_signature_algorithm r = to_id_string (cs_signature_algorithm crypto) \<and>
      cr_external_attestations r = [] \<and>
      (t \<noteq> 1 \<longrightarrow> (\<exists>prev. list_last (cm_keypairs s) = Some prev \<and>
                     linked_to F (to_hex hex (cm_tbid s)) prev kp r)) \<and>
      cm_current_tick s' = t \<and> cm_keypairs s' = kps \<and> cm_tbid s' = cm_tbid s \<and>
      cm_tbid_secret s' = cm_tbid_secret s \<and> cm_tbn s' = cm_tbn s \<and>
      cm_is_dormant s' = cm_is_dormant s \<and> cm_chronon_stamp_count s' = 0 \<and>
      cm_observer s' = obs t pub r (cm_observer s))"

lemma build_tick_record_Ok:
  assumes "build_tick_record F hex crypto rn tick pub s = (Ok r, s')"
  shows "built_from hex crypto tick pub s r" and "same_core s s'" and "cm_chronon_stamp_count s' = 0"
    and "tick \<noteq> 1 \<Longrightarrow> \<exists>prev cur. relative_keypair 1 s = Some prev \<and> relative_keypair 0 s = Some cur \<and>
           linked_to F (to_hex hex (cm_tbid s)) prev cur r"
proof -
  show "built_from hex crypto tick pub s r" "same_core s s'" "cm_chronon_stamp_count s' = 0"
    using assms build_regular_Ok [of tick] build_genesis_frame [of F hex crypto rn pub s r s']
    by (auto simp: build_tick_record_def split: if_splits)
  show "\<exists>prev cur. relative_keypair 1 s = Some prev \<and> relative_keypair 0 s = Some cur \<and>
           linked_to F (to_hex hex (cm_tbid s)) prev cur r" if "tick \<noteq> 1"
    using assms that build_regular_Ok(4) [OF that, of F hex crypto rn pub s r s']
    by (simp add: build_tick_record_def)
qed

lemma build_and_notify_ticked:
  assumes "build_tick_record F hex crypto rn (cm_current_tick s + 1) (ffi_ed25519_public F k)
      (store_keypair \<lparr>kp_pub_key = ffi_ed25519_public F k, kp_priv_key = k\<rparr>
         (s\<lparr>cm_current_tick := cm_current_tick s + 1, cm_chronon_stamp_count := n\<rparr>)) = (Ok r, s1)"
    and "notify_observer obs (cm_current_tick s + 1) (ffi_ed25519_public F k) r s1 = (Ok (), s')"
  shows "ticked F hex crypto obs k s s' r" and "cr_chronon_stamp_count r = n"
proof -
  let ?t = "cm_current_tick s + 1" and ?kp = "\<lparr>kp_pub_key = ffi_ed25519_public F k, kp_priv_key = k\<rparr>"
  define s0 where "s0 = s\<lparr>cm_current_tick := ?t, cm_chronon_stamp_count := n\<rparr>"
  have s0: "cm_tbid s0 = cm_tbid s" "cm_tbid_secret s0 = cm_tbid_secret s" "cm_tbn s0 = cm_tbn s"
    "cm_current_tick s0 = ?t" "cm_keypairs s0 = cm_keypairs s" "cm_observer s0 = cm_observer s"
    "cm_is_dormant s0 = cm_is_dormant s" "cm_chronon_stamp_count s0 = n"
    by (simp_all add: s0_def)
  note b = build_tick_record_Ok [OF assms(1) [folded s0_def]]
  have frame: "same_core (store_keypair ?kp s0) s1" and count: "cm_chronon_stamp_count s1 = 0"
    by (fact b(2), fact b(3))
  have s': "s' = s1\<lparr>cm_observer := obs ?t (ffi_ed25519_public F k) r (cm_observer s1)\<rparr>"
    using assms(2) by (simp add: notify_observer_def smod_def)
  have built: "built_from hex crypto ?t (ffi_ed25519_public F k) (store_keypair ?kp s0) r"
    by (fact b(1))
  have link: "\<exists>prev. list_last (cm_keypairs s) = Some prev \<and>
      linked_to F (to_hex hex (cm_tbid s)) prev ?kp r" if "?t \<noteq> 1"
    using b(4) [OF that] by (simp only: store_keypair_previous store_keypair_current store_keypair_frame s0) auto
  have kps: "cm_keypairs (store_keypair ?kp s0) = cm_keypairs (store_keypair ?kp s)"
    by (simp only: store_keypair_keypairs s0)
  show "cr_chronon_stamp_count r = n" using built by (simp add: built_from_def s0)
  show "ticked F hex crypto obs k s s' r"
    using built link frame count
    by (simp add: ticked_def Let_def built_from_def same_core_def s' s0 kps)
qed

lemma daemon_tick_Ok:
  assumes "daemon_tick debug F hex crypto obs inp s = (Ok u, s')" and "\<not> cm_is_dormant s"
  obtains k r where "ti_key inp = Ok k" and "ticked F hex crypto obs k s s' r"
    and "cr_chronon_stamp_count r = cm_chronon_stamp_count s"
proof -
  from assms obtain k r s1 where "ti_key inp = Ok k"
    and "build_tick_record F hex crypto (ti_nonce inp) (cm_current_tick s + 1) (ffi_ed25519_public F k)
      (store_keypair \<lparr>kp_pub_key = ffi_ed25519_public F k, kp_priv_key = k\<rparr>
         (s\<lparr>cm_current_tick := cm_current_tick s + 1\<rparr>)) = (Ok r, s1)"
    and "notify_observer obs (cm_current_tick s + 1) (ffi_ed25519_public F k) r s1 = (Ok (), s')"
    by (auto simp: daemon_tick_def stateful_simps generate_and_store_keypair_Ok dest!: next_tick_Ok)
  with that build_and_notify_ticked [of F hex crypto "ti_nonce inp" s k "cm_chronon_stamp_count s" r s1 obs s']
  show ?thesis by simp
qed

lemma cm_stamp_Ok:
  assumes "cm_stamp debug F hex pc crypto obs inp content echo s = (Ok st, s')"
  obtains k r content_hash now_ns sig_input where "\<not> cm_is_dormant s" and "ti_key inp = Ok k"
    and "ticked F hex crypto obs k s s' r"
    and "cr_chronon_stamp_count r = cm_chronon_stamp_count s + 1"
    and "cs_sha256 crypto content = Ok content_hash" and "ti_clock inp = Ok now_ns"
    and "st_foretis st = \<lparr>fr_chronon_number = cm_current_tick s + 1, fr_content_hash = content_hash,
           fr_tbid = cm_tbid s, fr_echo = echo, fr_tbn = cm_tbn s,
           fr_time_being_reference_time = reference_time now_ns\<rparr>"
    and "pc (st_foretis st) = Ok sig_input" and "handle_sign F k sig_input = Ok (st_signature_bytes st)"
    and "st_signature_algorithm st = to_id_string (cs_signature_algorithm crypto)"
proof -
  let ?s = "\<lambda>k. store_keypair \<lparr>kp_pub_key = ffi_ed25519_public F k, kp_priv_key = k\<rparr>
      (s\<lparr>cm_current_tick := cm_current_tick s + 1, cm_chronon_stamp_count := cm_chronon_stamp_count s + 1\<rparr>)"
  from assms have nd: "\<not> cm_is_dormant s"
    by (auto simp: cm_stamp_def stateful_simps split: if_splits)
  from assms nd obtain k r s1 content_hash now_ns sig_input sig where key: "ti_key inp = Ok k"
    and build: "build_tick_record F hex crypto (ti_nonce inp) (cm_current_tick s + 1)
      (ffi_ed25519_public F k) (?s k) = (Ok r, s1)"
    and notify: "notify_observer obs (cm_current_tick s + 1) (ffi_ed25519_public F k) r s1 = (Ok (), s')"
    and hash: "cs_sha256 crypto content = Ok content_hash" and clock: "ti_clock inp = Ok now_ns"
    and st: "st = \<lparr>st_foretis = \<lparr>fr_chronon_number = cm_current_tick s + 1, fr_content_hash = content_hash,
           fr_tbid = cm_tbid s, fr_echo = echo, fr_tbn = cm_tbn s,
           fr_time_being_reference_time = reference_time now_ns\<rparr>, st_signature_bytes = sig,
           st_signature_algorithm = to_id_string (cs_signature_algorithm crypto)\<rparr>"
    and pc: "pc (st_foretis st) = Ok sig_input" and sig: "handle_sign F k sig_input = Ok sig"
    by (auto simp: cm_stamp_def create_foretis_def stateful_simps result_simps sign_with_keypair_Ok
        generate_and_store_keypair_Ok dest!: next_tick_Ok)
  show ?thesis
    using nd key hash clock st pc sig build_and_notify_ticked [OF build notify]
    by (intro that [of k r content_hash now_ns sig_input]) simp_all
qed

subsection \<open>Sequences of calls\<close>

text \<open>
  A run is the outcomes of a list of calls and the state they leave. A call fails without
  stopping the run: the server keeps serving after an error.
\<close>

datatype ('k, 'l) cm_call =
    CallStamp "'k tick_inputs" 'l bytes string
  | CallDaemonTick "'k tick_inputs" 'l
  | CallSetDormant bool

fun cm_call_step ::
    "bool \<Rightarrow> 'k ffi \<Rightarrow> (bytes \<Rightarrow> string) \<Rightarrow> postcard_foretis \<Rightarrow> crypto_server \<Rightarrow>
     ('l \<Rightarrow> u64 \<Rightarrow> bytes \<Rightarrow> chronon_record \<Rightarrow> 'o \<Rightarrow> 'o) \<Rightarrow> ('k, 'l) cm_call \<Rightarrow>
     (('k, 'o) chronomatter, stamped_foretis option, node_error) stateful" where
  "cm_call_step debug F hex pc crypto obs (CallStamp inp l content echo) =
     sbind (cm_stamp debug F hex pc crypto (obs l) inp content echo) (\<lambda>st. sret (Some st))"
| "cm_call_step debug F hex pc crypto obs (CallDaemonTick inp l) =
     sbind (daemon_tick debug F hex crypto (obs l) inp) (\<lambda>_. sret None)"
| "cm_call_step debug F hex pc crypto obs (CallSetDormant d) =
     sbind (smod (set_dormant d)) (\<lambda>_. sret None)"

fun cm_run ::
    "bool \<Rightarrow> 'k ffi \<Rightarrow> (bytes \<Rightarrow> string) \<Rightarrow> postcard_foretis \<Rightarrow> crypto_server \<Rightarrow>
     ('l \<Rightarrow> u64 \<Rightarrow> bytes \<Rightarrow> chronon_record \<Rightarrow> 'o \<Rightarrow> 'o) \<Rightarrow> ('k, 'l) cm_call list \<Rightarrow>
     ('k, 'o) chronomatter \<Rightarrow> (stamped_foretis option, node_error) result list \<times> ('k, 'o) chronomatter" where
  "cm_run debug F hex pc crypto obs [] s = ([], s)"
| "cm_run debug F hex pc crypto obs (c # cs) s =
     (let (r, s') = cm_call_step debug F hex pc crypto obs c s;
          (rs, s'') = cm_run debug F hex pc crypto obs cs s'
      in (r # rs, s''))"

definition all_ok :: "('a, 'e) result list \<Rightarrow> bool" where
  "all_ok rs \<longleftrightarrow> list_all is_ok rs"

lemma cm_run_append:
  "cm_run debug F hex pc crypto obs (cs @ ds) s =
     (let (rs, s') = cm_run debug F hex pc crypto obs cs s;
          (rs', s'') = cm_run debug F hex pc crypto obs ds s'
      in (rs @ rs', s''))"
  by (induction cs arbitrary: s) (auto simp: Let_def split: prod.splits)

lemma cm_run_snoc:
  "cm_run debug F hex pc crypto obs (cs @ [c]) s =
     (let (rs, s') = cm_run debug F hex pc crypto obs cs s;
          (r, s'') = cm_call_step debug F hex pc crypto obs c s'
      in (rs @ [r], s''))"
  by (simp add: cm_run_append Let_def split: prod.splits)

text \<open>What one successful call is: nothing but the dormant flag, or one tick.\<close>

lemma cm_call_step_Ok:
  assumes "cm_call_step debug F hex pc crypto obs c s = (Ok v, s')"
  obtains (same) "cm_observer s' = cm_observer s" "cm_current_tick s' = cm_current_tick s"
      "cm_keypairs s' = cm_keypairs s" "cm_tbid s' = cm_tbid s"
    | (tick) k l r where "ticked F hex crypto (obs l) k s s' r"
proof (cases c)
  case (CallStamp inp l content echo)
  with assms obtain st where "cm_stamp debug F hex pc crypto (obs l) inp content echo s = (Ok st, s')"
    by (auto simp: stateful_simps)
  then show ?thesis using tick by (rule cm_stamp_Ok)
next
  case (CallDaemonTick inp l)
  with assms obtain u where d: "daemon_tick debug F hex crypto (obs l) inp s = (Ok u, s')"
    by (auto simp: stateful_simps)
  show ?thesis
  proof (cases "cm_is_dormant s")
    case True
    with d same show ?thesis by (simp add: daemon_tick_def sret_def)
  next
    case False
    from daemon_tick_Ok [OF d False] tick show ?thesis by metis
  qed
next
  case (CallSetDormant d)
  with assms same show ?thesis by (auto simp: set_dormant_def smod_def sret_def sbind_def)
qed

context tick_observer
begin

lemma ticked_run_inv:
  assumes ffi: "ffi_ed25519_correct F"
    and inv: "run_inv records invar F hex (software_crypto_server F k0) s"
    and t: "ticked F hex (software_crypto_server F k0) (notify l) k s s' r"
  shows "run_inv records invar F hex (software_crypto_server F k0) s'"
    and "records (cm_observer s') = records (cm_observer s) @ [r]"
proof -
  let ?rs = "records (cm_observer s)" and ?t = "cm_current_tick s + 1"
  note I = inv [unfolded run_inv_def Let_def] and T = t [unfolded ticked_def Let_def]
  have len: "length ?rs = unat (cm_current_tick s)" using I by simp
  have t0: "?t \<noteq> 0" using T by simp
  then have tick: "unat ?t = Suc (length ?rs)"
    using len unatSuc [of "cm_current_tick s"] by (simp add: add.commute)
  have less: "cr_chronon_number x < cr_chronon_number r" if "x \<in> set ?rs" for x
    using consecutive_less [of ?rs x] that I T tick by (simp add: word_less_nat_alt)
  show rs': "records (cm_observer s') = ?rs @ [r]"
    using notify_new [of "cm_observer s" r] less I T by simp
  have one: "?t \<noteq> 1 \<longleftrightarrow> ?rs \<noteq> []"
    using len by (cases ?rs) (auto simp: unat_eq_0)
  have "keypairs_inv F (cm_keypairs s) ?rs" using I by simp
  moreover have "cm_keypairs s' = cm_keypairs
      (store_keypair \<lparr>kp_pub_key = ffi_ed25519_public F k, kp_priv_key = k\<rparr> s)"
    and "cr_public_key r = ffi_ed25519_public F k" using T by simp_all
  ultimately have keys: "keypairs_inv F (cm_keypairs s') (?rs @ [r])"
    by (simp add: keypairs_inv_store)
  have chain: "chain_ok F (software_crypto_server F k0) (to_hex hex (cm_tbid s)) (?rs @ [r])"
  proof (cases "?rs = []")
    case False
    with T one obtain prev where prev: "list_last (cm_keypairs s) = Some prev"
      and link: "linked_to F (to_hex hex (cm_tbid s)) prev
          \<lparr>kp_pub_key = ffi_ed25519_public F k, kp_priv_key = k\<rparr> r" by blast
    then have "prev \<in> set (cm_keypairs s)" by (auto simp: list_last_Some_iff)
    moreover have "cr_chronon_number (last ?rs) = cr_chronon_number r - 1"
    proof -
      have "unat (cr_chronon_number (last ?rs)) = unat (cm_current_tick s)"
        using I False len consecutive_last [of ?rs] by simp
      then have "cr_chronon_number (last ?rs) = cm_current_tick s"
        by (rule word_unat_eq_iff [THEN iffD2])
      moreover have "cr_chronon_number r = ?t" using T by simp
      ultimately show ?thesis by simp
    qed
    ultimately have "verify_pair F (software_crypto_server F k0) (to_hex hex (cm_tbid s)) (last ?rs) r = Ok True"
      using linked_pair_verifies [OF ffi link, of "last ?rs"] I T prev False one
      by (auto simp: keypairs_inv_def list_last_Some_iff)
    then show ?thesis using I False by (simp add: chain_ok_snoc)
  qed simp
  show "run_inv records invar F hex (software_crypto_server F k0) s'"
    using I T rs' keys chain tick notify_invar [of "cm_observer s"]
    by (simp add: run_inv_def Let_def consecutive_snoc)
qed

lemma step_run_inv:
  assumes "ffi_ed25519_correct F"
    and "run_inv records invar F hex (software_crypto_server F k0) s"
    and "cm_call_step debug F hex pc (software_crypto_server F k0) notify c s = (Ok v, s')"
  shows "run_inv records invar F hex (software_crypto_server F k0) s'"
    and "\<exists>new. records (cm_observer s') = records (cm_observer s) @ new"
proof -
  from assms(3) show "run_inv records invar F hex (software_crypto_server F k0) s'"
  proof (cases rule: cm_call_step_Ok)
    case same
    with assms(2) show ?thesis by (simp add: run_inv_def)
  next
    case tick
    with assms show ?thesis by (blast intro: ticked_run_inv)
  qed
  from assms(3) show "\<exists>new. records (cm_observer s') = records (cm_observer s) @ new"
  proof (cases rule: cm_call_step_Ok)
    case tick
    with assms show ?thesis by (blast dest: ticked_run_inv(2))
  qed simp
qed

theorem run_keeps_inv:
  assumes "ffi_ed25519_correct F"
    and "run_inv records invar F hex (software_crypto_server F k0) s"
    and "cm_run debug F hex pc (software_crypto_server F k0) notify cs s = (rs, s')" and "all_ok rs"
  shows "run_inv records invar F hex (software_crypto_server F k0) s' \<and>
    (\<exists>new. records (cm_observer s') = records (cm_observer s) @ new)"
  using assms(2-)
proof (induction cs arbitrary: s rs)
  case Nil
  then show ?case by simp
next
  case (Cons c cs)
  obtain r s1 where step: "cm_call_step debug F hex pc (software_crypto_server F k0) notify c s = (r, s1)"
    by fastforce
  obtain rs1 where rest: "cm_run debug F hex pc (software_crypto_server F k0) notify cs s1 = (rs1, s')"
    and rs: "rs = r # rs1"
    using Cons.prems(2) step by (auto split: prod.splits)
  then obtain v where "r = Ok v" and ok: "all_ok rs1"
    using Cons.prems(3) by (auto simp: all_ok_def is_ok_iff)
  with step have "cm_call_step debug F hex pc (software_crypto_server F k0) notify c s = (Ok v, s1)" by simp
  note st = step_run_inv [OF assms(1) Cons.prems(1) this]
  from Cons.IH [OF st(1) rest ok] st(2) show ?case by auto
qed

lemma run_inv_integrity:
  assumes "run_inv records invar F hex crypto s" and "length (records (cm_observer s)) \<le> 10000"
  shows "cm_integrity_check F hex crypto
      (as_lookup (get (cm_observer s)) (latest (cm_observer s)) (cm_tbid s) n) None None =
    Ok (replicate (length (records (cm_observer s)) - 1) True)"
proof -
  let ?rs = "records (cm_observer s)" and ?s = "to_hex hex (cm_tbid s)"
  have "invar (cm_observer s)" and chain: "chain_ok F crypto ?s ?rs"
    using assms(1) by (simp_all add: run_inv_def Let_def)
  then have get: "get (cm_observer s) 0 10000 = Ok ?rs"
    using assms(2) by (simp add: get_spec at_or_after_def)
  have "try_map (\<lambda>(a, b). verify_pair F crypto ?s a b) (pairs ?rs) = Ok (map (\<lambda>_. True) (pairs ?rs))"
    using chain by (intro try_map_const_Ok) (auto simp: chain_ok_def)
  then show ?thesis
    using get try_map_pairs [of "verify_pair F crypto ?s" ?rs]
    by (auto simp: cm_integrity_check_def as_lookup_def Let_def map_replicate_const not_le)
qed

text \<open>
  A stamp verifies: at once, and against whatever calendar still holds its record.
\<close>

lemma stamp_verifies:
  assumes ffi: "ffi_ed25519_correct F"
    and inv: "run_inv records invar F hex (software_crypto_server F k0) s"
    and stamp: "cm_stamp debug F hex pc (software_crypto_server F k0) (notify l) inp content echo s = (Ok st, s')"
  obtains r where "records (cm_observer s') = records (cm_observer s) @ [r]"
    and "cr_chronon_number r = fr_chronon_number (st_foretis st)"
    and "\<And>c t n. invar c \<Longrightarrow> r \<in> set (records c) \<Longrightarrow>
      verify pc (software_crypto_server F k0) (st_foretis st) (st_signature_bytes st)
        (st_signature_algorithm st) content (as_lookup (get c) (latest c) t n) = Ok True"
proof -
  from stamp obtain k r content_hash now_ns sig_input where
    t: "ticked F hex (software_crypto_server F k0) (notify l) k s s' r"
    and hash: "sha256 F content = Ok content_hash" "fr_content_hash (st_foretis st) = content_hash"
    and number: "fr_chronon_number (st_foretis st) = cm_current_tick s + 1"
    and sig: "pc (st_foretis st) = Ok sig_input" "handle_sign F k sig_input = Ok (st_signature_bytes st)"
      "st_signature_algorithm st = ''Ed25519''"
    by (elim cm_stamp_Ok) auto
  have r: "cr_chronon_number r = fr_chronon_number (st_foretis st)"
    "cr_public_key r = ffi_ed25519_public F k"
    using t number by (simp_all add: ticked_def Let_def)
  show ?thesis
  proof (rule that [OF ticked_run_inv(2) [OF ffi inv t] r(1)])
    fix c t n
    assume "invar c" and "r \<in> set (records c)"
    then show "verify pc (software_crypto_server F k0) (st_foretis st) (st_signature_bytes st)
        (st_signature_algorithm st) content (as_lookup (get c) (latest c) t n) = Ok True"
      using hash sig r handle_sign_verifies(2) [OF ffi sig(2)]
      by (simp add: verify_held_chronon)
  qed
qed

end

end
