(* ===== verification/Chronomatter_Live.thy ===== *)
theory Chronomatter_Live
  imports Chronomatter_Run
begin

section \<open>Progress, failure and the genesis record\<close>

text \<open>
  When the calls of the chronomatter succeed, what a failed call leaves behind, and the
  record of the first tick.
\<close>

subsection \<open>Progress\<close>

definition ffi_answers :: "'k ffi \<Rightarrow> tbid_secret option \<Rightarrow> bool" where
  "ffi_answers F secret \<longleftrightarrow>
     (\<forall>m. fst (ffi_hash_sha256 F m) = 0) \<and> (\<forall>k m. fst (ffi_ed25519_sign F k m) = 0) \<and>
     (\<forall>s. secret = Some s \<longrightarrow> length (secret_to_bytes s) = 240 \<and>
        (\<forall>m. fst (ffi_tbid_v1_sign F (secret_to_bytes s) m) = 0))"

lemma handle_sign_answers: "ffi_answers F secret \<Longrightarrow> \<exists>sig. handle_sign F k m = Ok sig"
  by (simp add: ffi_answers_def handle_sign_Ok)

lemma secret_sign_answers: "ffi_answers F (Some sec) \<Longrightarrow> \<exists>sig. secret_sign F sec m = Ok sig"
  by (simp add: ffi_answers_def secret_sign_Ok)

lemma sha256_answers:
  assumes "ffi_answers F secret"
  shows "\<exists>h. sha256 F m = Ok h"
proof -
  have "fst (ffi_hash_sha256 F m) = 0" using assms by (simp add: ffi_answers_def)
  then show ?thesis by (cases "ffi_hash_sha256 F m") (simp add: sha256_def c_result_to_error_def)
qed

lemma sign_with_keypair_live:
  assumes "ffi_answers F secret" and "relative_keypair i s = Some kp"
  shows "\<exists>sig. sign_with_keypair F i m s = (Ok sig, s)"
  using handle_sign_answers [OF assms(1), of "kp_priv_key kp" m] assms(2)
  by (auto simp: sign_with_keypair_def)

lemma blob_with_count_live [simp]:
  "auto_attestation_blob_with_count (Ok nonce) s a apk b bpk n =
     Ok (blob_with_count s a apk b bpk n nonce, nonce)"
  by (simp add: auto_attestation_blob_with_count_def)

lemma blob_with_genesis_live [simp]:
  "auto_attestation_blob_with_genesis (Ok nonce) s t pk g n =
     Ok (genesis_blob_with_sig s t pk g n nonce, nonce)"
  by (simp add: auto_attestation_blob_with_genesis_def)

lemma build_auto_attestation_live:
  assumes F: "ffi_answers F secret" and cur: "relative_keypair 0 s = Some cur"
    and prev: "tick \<noteq> 1 \<Longrightarrow> \<exists>prev. relative_keypair 1 s = Some prev"
  shows "\<exists>fwd bwd stamps s'.
    build_auto_attestation F hex (Ok nonce) tick pub s = (Ok (fwd, bwd, nonce, stamps), s')"
proof -
  let ?s = "s\<lparr>cm_chronon_stamp_count := 0\<rparr>"
  have "\<exists>sig. sign_with_keypair F 0 m ?s = (Ok sig, ?s)" for m
    using cur by (intro sign_with_keypair_live [OF F]) simp
  moreover have "\<exists>sig. sign_with_keypair F 1 m ?s = (Ok sig, ?s)" if "tick \<noteq> 1" for m
    using prev [OF that] sign_with_keypair_live [OF F, of 1 ?s] by auto
  ultimately show ?thesis
    using prev by (cases "tick = 1")
      (fastforce simp: build_auto_attestation_def stateful_simps keypair_pub_def)+
qed

lemma build_tick_record_live:
  assumes F: "ffi_answers F (cm_tbid_secret s)" and cur: "relative_keypair 0 s = Some cur"
    and prev: "tick \<noteq> 1 \<Longrightarrow> \<exists>prev. relative_keypair 1 s = Some prev"
    and tick: "tick \<noteq> 0" and pub: "pub \<noteq> []"
  shows "\<exists>r s'. build_tick_record F hex crypto (Ok nonce) tick pub s = (Ok r, s')"
proof -
  let ?s = "emit AttestSent s"
  note att = build_auto_attestation_live [OF F, of ?s cur tick hex nonce pub]
  consider "tick \<noteq> 1" | "tick = 1" "cm_tbid_secret s = None"
    | secret where "tick = 1" "cm_tbid_secret s = Some secret"
    by (cases "cm_tbid_secret s") auto
  then show ?thesis
  proof cases
    case 1
    with att cur prev obtain fwd bwd stamps s' where
      "build_auto_attestation F hex (Ok nonce) tick pub ?s = (Ok (fwd, bwd, nonce, stamps), s')"
      by auto
    with 1 tick pub show ?thesis
      by (auto simp: build_tick_record_def build_regular_tick_record_def stateful_simps
          chronon_build_Ok_iff)
  next
    case 2
    with att cur obtain fwd bwd stamps s' where
      "build_auto_attestation F hex (Ok nonce) 1 pub ?s = (Ok (fwd, bwd, nonce, stamps), s')"
      by auto
    with 2 pub show ?thesis
      by (auto simp: build_tick_record_def build_genesis_tick_record_def build_genesis_without_pqc_def
          stateful_simps chronon_build_Ok_iff)
  next
    case 3
    let ?s0 = "?s\<lparr>cm_chronon_stamp_count := 0\<rparr>"
    obtain gs where gs: "secret_sign F secret (raw_bytes (cm_tbid s) @ to_be_bytes 1 @ pub) = Ok gs"
      using secret_sign_answers F 3 by metis
    have "relative_keypair 0 ?s0 = Some cur" using cur by simp
    from sign_with_keypair_live [OF F this] obtain ed where
      ed: "sign_with_keypair F 0 (genesis_blob_with_sig (to_hex hex (cm_tbid s)) 1 pub gs
             (cm_chronon_stamp_count s) nonce) ?s0 = (Ok ed, ?s0)" by blast
    from 3 pub show ?thesis
      by (simp add: build_tick_record_def build_genesis_tick_record_def build_genesis_with_pqc_def
          stateful_simps chronon_build_Ok_iff gs ed)
  qed
qed

text \<open>What a call needs: answers from the key generator and the other sources it reads.\<close>

definition inputs_ok :: "'k tick_inputs \<Rightarrow> bool" where
  "inputs_ok inp \<longleftrightarrow> is_ok (ti_key inp) \<and> is_ok (ti_nonce inp) \<and> is_ok (ti_clock inp)"

fun call_ok :: "('k, 'l) cm_call \<Rightarrow> bool" where
  "call_ok (CallStamp inp l content echo) = inputs_ok inp"
| "call_ok (CallDaemonTick inp l) = inputs_ok inp"
| "call_ok (CallSetDormant d) = (\<not> d)"

text \<open>The state from which a tick can be made.\<close>

definition ready :: "'k ffi \<Rightarrow> ('k, 'o) chronomatter \<Rightarrow> bool" where
  "ready F s \<longleftrightarrow> \<not> cm_is_dormant s \<and> ffi_answers F (cm_tbid_secret s) \<and>
     (cm_current_tick s \<noteq> 0 \<longrightarrow> cm_keypairs s \<noteq> [])"

lemma build_on_fresh_key_live:
  assumes ready: "ready F s" and ffi: "ffi_ed25519_correct F"
    and s1: "cm_tbid_secret s1 = cm_tbid_secret s" "cm_keypairs s1 = cm_keypairs s"
    and tick: "cm_current_tick s + 1 \<noteq> 0"
  shows "\<exists>r s'. build_tick_record F hex crypto (Ok nonce) (cm_current_tick s + 1) (ffi_ed25519_public F k)
    (store_keypair \<lparr>kp_pub_key = ffi_ed25519_public F k, kp_priv_key = k\<rparr> s1) = (Ok r, s')"
proof (rule build_tick_record_live)
  let ?kp = "\<lparr>kp_pub_key = ffi_ed25519_public F k, kp_priv_key = k\<rparr>"
  show "ffi_answers F (cm_tbid_secret (store_keypair ?kp s1))"
    using ready s1 by (simp add: ready_def)
  show "relative_keypair 0 (store_keypair ?kp s1) = Some ?kp" by (rule store_keypair_current)
  show "\<exists>prev. relative_keypair 1 (store_keypair ?kp s1) = Some prev" if "cm_current_tick s + 1 \<noteq> 1"
  proof -
    have "cm_keypairs s \<noteq> []" using that ready by (simp add: ready_def)
    then show ?thesis unfolding store_keypair_previous s1 by (simp add: list_last_def)
  qed
  have "length (ffi_ed25519_public F k) = 32" using ffi by (simp add: ffi_ed25519_correct_def)
  then show "ffi_ed25519_public F k \<noteq> []" by auto
qed (fact tick)

lemma daemon_tick_live:
  assumes "ready F s" and "ffi_ed25519_correct F" and "cm_current_tick s + 1 \<noteq> 0" and "inputs_ok inp"
  shows "\<exists>s'. daemon_tick debug F hex crypto obs inp s = (Ok (), s')"
proof -
  obtain k nonce where inp: "ti_key inp = Ok k" "ti_nonce inp = Ok nonce"
    using assms(4) by (auto simp: inputs_ok_def is_ok_iff)
  let ?s = "s\<lparr>cm_current_tick := cm_current_tick s + 1\<rparr>"
  obtain r s' where "build_tick_record F hex crypto (Ok nonce) (cm_current_tick s + 1) (ffi_ed25519_public F k)
      (store_keypair \<lparr>kp_pub_key = ffi_ed25519_public F k, kp_priv_key = k\<rparr> ?s) = (Ok r, s')"
    using build_on_fresh_key_live [OF assms(1,2) _ _ assms(3), of ?s] by fastforce
  then show ?thesis
    using assms(1,3) inp
    by (auto simp: daemon_tick_def ready_def stateful_simps next_tick_def add_one_no_overflow
        generate_and_store_keypair_Ok notify_observer_def)
qed

lemma cm_stamp_live:
  assumes "ready F s" and "ffi_ed25519_correct F" and "cm_current_tick s + 1 \<noteq> 0" and "inputs_ok inp"
    and "\<And>f. is_ok (pc f)"
  shows "\<exists>st s'. cm_stamp debug F hex pc (software_crypto_server F k0) obs inp content echo s = (Ok st, s')"
proof -
  obtain k nonce now_ns where inp: "ti_key inp = Ok k" "ti_nonce inp = Ok nonce" "ti_clock inp = Ok now_ns"
    using assms(4) by (auto simp: inputs_ok_def is_ok_iff)
  let ?s = "s\<lparr>cm_current_tick := cm_current_tick s + 1, cm_chronon_stamp_count := cm_chronon_stamp_count s + 1\<rparr>"
  let ?kp = "\<lparr>kp_pub_key = ffi_ed25519_public F k, kp_priv_key = k\<rparr>"
  have answers: "ffi_answers F (cm_tbid_secret s)" using assms(1) by (simp add: ready_def)
  then obtain h where hash: "sha256 F content = Ok h" using sha256_answers by blast
  define f where "f = \<lparr>fr_chronon_number = cm_current_tick s + 1, fr_content_hash = h, fr_tbid = cm_tbid s,
    fr_echo = echo, fr_tbn = cm_tbn s, fr_time_being_reference_time = reference_time now_ns\<rparr>"
  obtain b where b: "pc f = Ok b" using assms(5) [of f] by (auto simp: is_ok_iff)
  have "relative_keypair 0 (store_keypair ?kp ?s) = Some ?kp" by (rule store_keypair_current)
  from sign_with_keypair_live [OF answers this] obtain sig where
    sig: "sign_with_keypair F 0 b (store_keypair ?kp ?s) = (Ok sig, store_keypair ?kp ?s)" by blast
  obtain r s' where "build_tick_record F (hex) (software_crypto_server F k0) (Ok nonce) (cm_current_tick s + 1)
      (ffi_ed25519_public F k) (store_keypair ?kp ?s) = (Ok r, s')"
    using build_on_fresh_key_live [OF assms(1,2) _ _ assms(3), of ?s] by fastforce
  then show ?thesis
    using assms(1,3) inp hash b sig
    by (simp add: cm_stamp_def create_foretis_def ready_def stateful_simps next_tick_def
        add_one_no_overflow generate_and_store_keypair_Ok notify_observer_def f_def [symmetric])
qed

lemma create_foretis_live:
  assumes "ffi_answers F (cm_tbid_secret s)" and "cm_keypairs s \<noteq> []" and ffi: "ffi_ed25519_correct F"
    and "t \<noteq> 0" and "inputs_ok inp" and "\<And>f. is_ok (pc f)"
    and key: "ti_key inp = Ok k"
  obtains st s' r b where
    "create_foretis F hex pc (software_crypto_server F k0) obs inp t content echo s = (Ok st, s')"
    and "sha256 F content = Ok (fr_content_hash (st_foretis st))"
    and "fr_chronon_number (st_foretis st) = t" and "pc (st_foretis st) = Ok b"
    and "handle_sign F k b = Ok (st_signature_bytes st)" and "st_signature_algorithm st = ''Ed25519''"
    and "cr_chronon_number r = t" and "cm_observer s' = obs t (ffi_ed25519_public F k) r (cm_observer s)"
proof -
  obtain nonce now_ns where inp: "ti_key inp = Ok k" "ti_nonce inp = Ok nonce" "ti_clock inp = Ok now_ns"
    using assms(5) key by (auto simp: inputs_ok_def is_ok_iff)
  let ?kp = "\<lparr>kp_pub_key = ffi_ed25519_public F k, kp_priv_key = k\<rparr>"
  let ?s = "store_keypair ?kp s"
  obtain h where hash: "sha256 F content = Ok h" using sha256_answers [OF assms(1)] by blast
  define f where "f = \<lparr>fr_chronon_number = t, fr_content_hash = h, fr_tbid = cm_tbid s,
    fr_echo = echo, fr_tbn = cm_tbn s, fr_time_being_reference_time = reference_time now_ns\<rparr>"
  obtain b where b: "pc f = Ok b" using assms(6) [of f] by (auto simp: is_ok_iff)
  have cur: "relative_keypair 0 ?s = Some ?kp" by (rule store_keypair_current)
  from sign_with_keypair_live [OF assms(1) this] obtain sig where
    sig: "sign_with_keypair F 0 b ?s = (Ok sig, ?s)" by blast
  then have signed: "handle_sign F k b = Ok sig" by (simp add: sign_with_keypair_Ok)
  have "length (ffi_ed25519_public F k) = 32" using ffi by (simp add: ffi_ed25519_correct_def)
  then have pub: "ffi_ed25519_public F k \<noteq> []" by auto
  have "\<exists>prev. relative_keypair 1 ?s = Some prev"
    using assms(2) unfolding store_keypair_previous by (simp add: list_last_def)
  with build_tick_record_live [OF _ cur _ assms(4) pub] assms(1) obtain r s1 where
    build: "build_tick_record F hex (software_crypto_server F k0) (Ok nonce) t (ffi_ed25519_public F k) ?s = (Ok r, s1)"
    by fastforce
  note made = build_tick_record_Ok(1,2) [OF build]
  have "create_foretis F hex pc (software_crypto_server F k0) obs inp t content echo s =
      (Ok \<lparr>st_foretis = f, st_signature_bytes = sig, st_signature_algorithm = ''Ed25519''\<rparr>,
       s1\<lparr>cm_observer := obs t (ffi_ed25519_public F k) r (cm_observer s1)\<rparr>)"
    using inp hash b sig build
    by (simp add: create_foretis_def stateful_simps generate_and_store_keypair_Ok notify_observer_def f_def [symmetric])
  from that [OF this, where b = b and r = r] show ?thesis
    using hash b signed made by (simp add: f_def built_from_def same_core_def)
qed

lemma ticked_ready: "ready F s \<Longrightarrow> ticked F hex crypto obs k s s' r \<Longrightarrow> ready F s'"
  by (auto simp: ready_def ticked_def Let_def store_keypair_keypairs)

lemma cm_call_step_live:
  assumes "ready F s" and "ffi_ed25519_correct F" and "cm_current_tick s + 1 \<noteq> 0" and "call_ok c"
    and "\<And>f. is_ok (pc f)"
  shows "\<exists>v s'. cm_call_step debug F hex pc (software_crypto_server F k0) obs c s = (Ok v, s') \<and>
    ready F s' \<and> unat (cm_current_tick s') \<le> unat (cm_current_tick s) + 1"
proof -
  have tick: "unat (cm_current_tick s + 1) = unat (cm_current_tick s) + 1"
    using assms(3) unatSuc [of "cm_current_tick s"] by (simp add: add.commute)
  show ?thesis
  proof (cases c)
    case (CallStamp inp l content echo)
    with cm_stamp_live [OF assms(1-3), of inp pc debug hex k0 "obs l" content echo] assms(4,5)
    obtain st s' where ok: "cm_stamp debug F hex pc (software_crypto_server F k0) (obs l) inp content echo s = (Ok st, s')"
      by auto
    obtain k r where t: "ticked F hex (software_crypto_server F k0) (obs l) k s s' r"
      using ok by (rule cm_stamp_Ok)
    then have "cm_current_tick s' = cm_current_tick s + 1" by (simp add: ticked_def Let_def)
    with ok t assms(1) tick CallStamp show ?thesis by (auto simp: stateful_simps intro: ticked_ready)
  next
    case (CallDaemonTick inp l)
    with daemon_tick_live [OF assms(1-3), of inp debug hex "software_crypto_server F k0" "obs l"] assms(4)
    obtain s' where ok: "daemon_tick debug F hex (software_crypto_server F k0) (obs l) inp s = (Ok (), s')"
      by auto
    have "\<not> cm_is_dormant s" using assms(1) by (simp add: ready_def)
    with ok obtain k r where t: "ticked F hex (software_crypto_server F k0) (obs l) k s s' r"
      by (rule daemon_tick_Ok)
    then have "cm_current_tick s' = cm_current_tick s + 1" by (simp add: ticked_def Let_def)
    with ok t assms(1) tick CallDaemonTick show ?thesis by (auto simp: stateful_simps intro: ticked_ready)
  next
    case (CallSetDormant d)
    with assms show ?thesis by (auto simp: stateful_simps set_dormant_def ready_def)
  qed
qed

context tick_observer
begin

text \<open>A stamp made while another call holds the number before its own.\<close>

lemma stamp_over_gap:
  fixes s :: "('k, 'o) chronomatter"
  defines "t \<equiv> cm_current_tick s"
  assumes ffi: "ffi_ed25519_correct F" and inv: "run_inv records invar F hex (software_crypto_server F k0) s"
    and ready: "ready F s" and tick: "t \<noteq> 0" "unat t + 2 < 2 ^ 64"
    and inputs: "inputs_ok inp" "ti_key inp = Ok k" and pc: "\<And>f. is_ok (pc f)"
  obtains st s' r b where
    "cm_stamp debug F hex pc (software_crypto_server F k0) (notify l) inp content echo
       (s\<lparr>cm_current_tick := t + 1\<rparr>) = (Ok st, s')"
    and "ready F s'" and "cm_keypairs s' \<noteq> []" and "invar (cm_observer s')"
    and "records (cm_observer s') = records (cm_observer s) @ [r]"
    and "cr_chronon_number r = t + 2" and "cr_public_key r = ffi_ed25519_public F k"
    and "fr_chronon_number (st_foretis st) = t + 2" and "sha256 F content = Ok (fr_content_hash (st_foretis st))"
    and "pc (st_foretis st) = Ok b" and "handle_sign F k b = Ok (st_signature_bytes st)"
    and "st_signature_algorithm st = ''Ed25519''"
    and "\<forall>x \<in> set (records (cm_observer s)). cr_chronon_number x < t + 1" and "t + 1 < t + 2"
proof -
  let ?G = "software_crypto_server F k0" and ?s1 = "s\<lparr>cm_current_tick := t + 1\<rparr>"
  note I = inv [unfolded run_inv_def Let_def]
  have u1: "unat (t + 1) = unat t + 1" using tick(2) by (intro unat_succ) simp
  have u2: "unat (2 + t) = unat t + 2" using tick(2) u1 unat_succ [of "t + 1"] by (simp add: add.commute)
  then have t2: "2 + t \<noteq> 0" by (metis add_is_0 zero_neq_numeral unat_0)
  have old: "cr_chronon_number x < t + 1" if "x \<in> set (records (cm_observer s))" for x
    using consecutive_less [of _ x] that I u1 by (fastforce simp: word_less_nat_alt t_def)
  have "ready F ?s1" using ready tick(1) by (simp add: ready_def t_def)
  from cm_stamp_live [where pc = pc and obs = "notify l" and debug = debug and hex = hex and ?k0.0 = k0
      and content = content and echo = echo, OF this ffi _ inputs(1) pc] t2
  obtain st s' where stamp: "cm_stamp debug F hex pc ?G (notify l) inp content echo ?s1 = (Ok st, s')"
    by auto
  then obtain r b where T0: "ticked F hex ?G (notify l) k ?s1 s' r"
    and st: "fr_chronon_number (st_foretis st) = 2 + t" "sha256 F content = Ok (fr_content_hash (st_foretis st))"
      "pc (st_foretis st) = Ok b" "handle_sign F k b = Ok (st_signature_bytes st)"
      "st_signature_algorithm st = ''Ed25519''"
    using inputs(2) by (elim cm_stamp_Ok) auto
  note T = T0 [unfolded ticked_def Let_def]
  have "ready F s'" by (rule ticked_ready [OF \<open>ready F ?s1\<close> T0])
  moreover have "cm_current_tick s' \<noteq> 0" using T t2 by simp
  moreover have "records (cm_observer s') = records (cm_observer s) @ [r]"
    using notify_new [of "cm_observer s" r] old I T u1 u2 by (fastforce simp: word_less_nat_alt)
  moreover have "invar (cm_observer s')" using I T notify_invar [of "cm_observer s"] by simp
  ultimately show ?thesis
    using stamp st old T u1 u2 unfolding add.commute [of 2 t]
    by (intro that [of st s' r b]) (simp_all add: ready_def word_less_nat_alt add.commute [of t 2])
qed

end

theorem cm_run_live:
  assumes "ready F s" and "ffi_ed25519_correct F" and "unat (cm_current_tick s) + length cs < 2 ^ 64"
    and "\<forall>c \<in> set cs. call_ok c" and "\<And>f. is_ok (pc f)"
  shows "all_ok (fst (cm_run debug F hex pc (software_crypto_server F k0) obs cs s))"
  using assms(1,3,4)
proof (induction cs arbitrary: s)
  case Nil
  then show ?case by (simp add: all_ok_def)
next
  case (Cons c cs)
  have "cm_current_tick s + 1 \<noteq> 0"
  proof
    assume "cm_current_tick s + 1 = 0"
    moreover have "unat (cm_current_tick s + 1) = unat (cm_current_tick s) + 1"
      using Cons.prems(2) by (intro unat_succ) simp
    ultimately show False by simp
  qed
  from cm_call_step_live [OF Cons.prems(1) assms(2) this, of c pc debug hex k0 obs] Cons.prems(3) assms(5)
  obtain v s' where step: "cm_call_step debug F hex pc (software_crypto_server F k0) obs c s = (Ok v, s')"
    and s': "ready F s'" "unat (cm_current_tick s') \<le> unat (cm_current_tick s) + 1" by auto
  have "all_ok (fst (cm_run debug F hex pc (software_crypto_server F k0) obs cs s'))"
    using Cons.prems(2,3) s' by (intro Cons.IH) auto
  then show ?case using step
    by (cases "cm_run debug F hex pc (software_crypto_server F k0) obs cs s'")
      (simp add: all_ok_def)
qed

subsection \<open>A fresh chronomatter\<close>

lemma chronomatter_new_Ok:
  assumes "chronomatter_new hex tk ns obs0 = Ok s"
  shows "cm_current_tick s = 0" and "cm_keypairs s = []" and "cm_observer s = obs0"
    and "\<not> cm_is_dormant s" and "cm_chronon_stamp_count s = 0" and "wf_tbid (cm_tbid s)"
    and "\<exists>secret. cm_tbid_secret s = Some secret \<and> length (secret_to_bytes secret) = 240"
proof -
  from assms obtain t secret prefix where
    gen: "tbid_secret_generate tk = Ok (t, secret)"
    and s: "s = \<lparr>cm_tbid = t, cm_tbid_secret = Some secret, cm_tbn = ''tf-'' @ prefix,
           cm_current_tick = 0, cm_keypairs = [], cm_observer = obs0, cm_events = None,
           cm_chronon_ns = ns, cm_is_dormant = False, cm_chronon_stamp_count = 0\<rparr>"
    by (auto simp: chronomatter_new_def result_simps)
  from gen have "wf_tbid t" "length (secret_to_bytes secret) = 240"
    by (auto simp: tbid_secret_generate_def result_simps dest: tbid_from_bytes_wf secret_from_bytes_to_bytes)
  with s show "cm_current_tick s = 0" "cm_keypairs s = []" "cm_observer s = obs0"
    "\<not> cm_is_dormant s" "cm_chronon_stamp_count s = 0" "wf_tbid (cm_tbid s)"
    "\<exists>secret. cm_tbid_secret s = Some secret \<and> length (secret_to_bytes secret) = 240"
    by simp_all
qed

lemma run_inv_new:
  assumes "chronomatter_new hex tk ns obs0 = Ok s" and "invar obs0" and "records obs0 = []"
  shows "run_inv records invar F hex' crypto s"
  using chronomatter_new_Ok [OF assms(1)] assms(2,3)
  by (simp add: run_inv_def Let_def keypairs_inv_def)

end
