(* ===== verification/Chronomatter_Faults.thy ===== *)
theory Chronomatter_Faults
  imports Chronomatter_Live
begin

section \<open>What failures leave behind, and the genesis record\<close>

subsection \<open>Whatever the outcomes\<close>

text \<open>
  However the calls end, at most two key pairs are retained, each with its own public key,
  and the observer only ever gains records.
\<close>

definition safe_from ::
    "('o \<Rightarrow> chronon_record list) \<Rightarrow> ('o \<Rightarrow> bool) \<Rightarrow> 'k ffi \<Rightarrow> 'o \<Rightarrow> ('k, 'o) chronomatter \<Rightarrow> bool" where
  "safe_from records invar F o0 s \<longleftrightarrow>
     length (cm_keypairs s) \<le> 2 \<and>
     (\<forall>kp \<in> set (cm_keypairs s). kp_pub_key kp = ffi_ed25519_public F (kp_priv_key kp)) \<and>
     invar (cm_observer s) \<and> (\<exists>new. records (cm_observer s) = records o0 @ new)"

lemma safe_from_cong:
  "cm_keypairs s' = cm_keypairs s \<Longrightarrow> cm_observer s' = cm_observer s \<Longrightarrow>
     safe_from records invar F o0 s \<Longrightarrow> safe_from records invar F o0 s'"
  by (simp add: safe_from_def)

lemma safe_from_emit: "safe_from records invar F o0 s \<Longrightarrow> safe_from records invar F o0 (emit ev s)"
  by (rule safe_from_cong) (simp_all add: emit_def)

lemma keeps_generate:
  "keeps (safe_from records invar F o0) (generate_and_store_keypair F generated)"
proof -
  have "safe_from records invar F o0 (store_keypair \<lparr>kp_pub_key = ffi_ed25519_public F k, kp_priv_key = k\<rparr> s)"
    if "safe_from records invar F o0 s" for k s
    using that store_keypair_set [of "\<lparr>kp_pub_key = ffi_ed25519_public F k, kp_priv_key = k\<rparr>" s]
    by (auto simp: safe_from_def store_keypair_length)
  then show ?thesis
    by (auto simp: generate_and_store_keypair_def handle_public_key_def keeps_def sbind_def slift_def smod_def
        split: result.splits)
qed

lemma keeps_swap: "keeps (safe_from records invar F o0) swap_stamp_count"
  by (simp add: keeps_def swap_stamp_count_def safe_from_def)

lemma keeps_sign: "keeps (safe_from records invar F o0) (sign_with_keypair G i m)"
  by (simp add: keeps_def sign_with_keypair_def)

lemma keeps_report:
  assumes "keeps (safe_from records invar F o0) m"
  shows "keeps (safe_from records invar F o0) (report_result m)"
  unfolding keeps_def
proof (intro allI impI)
  fix s
  assume "safe_from records invar F o0 s"
  then have "safe_from records invar F o0 (snd (m s))" by (rule keepsD [OF assms])
  then show "safe_from records invar F o0 (snd (report_result m s))"
    by (cases "m s") (auto simp: report_result_def safe_from_emit split: result.splits)
qed

lemma keeps_emit: "keeps (safe_from records invar F o0) (smod (emit ev))"
  by (rule keeps_smod) (rule safe_from_emit)

lemma keeps_read: "keeps P (\<lambda>s. (f s, s))"
  by (simp add: keeps_def)

lemma keeps_split: "(\<And>a b. keeps P (f a b)) \<Longrightarrow> keeps P (case p of (a, b) \<Rightarrow> f a b)"
  by (cases p) simp

lemmas keeps_intros = keeps_sbind keeps_swap keeps_sign keeps_report keeps_emit keeps_read keeps_split
  keeps_if keeps_generate keeps_sret keeps_slift keeps_sget

lemma keeps_build_auto_attestation:
  "keeps (safe_from records invar F o0) (build_auto_attestation G hex rn tick pub)"
  unfolding build_auto_attestation_def by (intro keeps_intros)

lemma keeps_build_tick_record:
  "keeps (safe_from records invar F o0) (build_tick_record G hex crypto rn tick pub)"
  unfolding build_tick_record_def build_genesis_tick_record_def build_regular_tick_record_def
    build_genesis_with_pqc_def build_genesis_without_pqc_def
  by (intro keeps_intros keeps_build_auto_attestation) (auto split: option.splits intro!: keeps_intros keeps_build_auto_attestation)

lemma keeps_current: "keeps P current_keypair_pub"
  by (simp add: keeps_def current_keypair_pub_def)

lemma keeps_next_tick: "keeps (safe_from records invar F o0) (next_tick debug)"
  by (simp add: keeps_def next_tick_def safe_from_def)

context tick_observer
begin

lemma keeps_notify:
  "keeps (safe_from records invar F o0) (notify_observer (notify l) tick pk r)"
proof -
  have "\<exists>new. records (notify l tick pk r c) = records o0 @ new"
    if "invar c" "records c = records o0 @ new" for c new
    using that by (simp add: notify_records)
  then show ?thesis
    unfolding notify_observer_def
    by (intro keeps_smod) (auto simp: safe_from_def notify_invar)
qed

lemma keeps_daemon_tick:
  "keeps (safe_from records invar F o0) (daemon_tick debug F hex crypto (notify l) inp)"
  unfolding daemon_tick_def
  by (intro keeps_intros keeps_build_tick_record keeps_current keeps_next_tick keeps_notify)

lemma keeps_cm_stamp:
  "keeps (safe_from records invar F o0) (cm_stamp debug F hex pc crypto (notify l) inp content echo)"
proof -
  have "keeps (safe_from records invar F o0)
      (smod (\<lambda>s. s\<lparr>cm_chronon_stamp_count := cm_chronon_stamp_count s + 1\<rparr>))"
    by (rule keeps_smod) (simp add: safe_from_def)
  then show ?thesis
    unfolding cm_stamp_def create_foretis_def
    by (intro keeps_intros keeps_build_tick_record keeps_current keeps_next_tick keeps_notify)
qed

lemma keeps_call:
  "keeps (safe_from records invar F o0) (cm_call_step debug F hex pc crypto notify c)"
proof (cases c)
  case (CallSetDormant d)
  have "keeps (safe_from records invar F o0) (smod (set_dormant d))"
    by (rule keeps_smod) (simp add: safe_from_def set_dormant_def)
  then show ?thesis unfolding CallSetDormant cm_call_step.simps by (intro keeps_intros)
qed (auto intro!: keeps_sbind keeps_cm_stamp keeps_daemon_tick)

theorem run_safe:
  "safe_from records invar F o0 s \<Longrightarrow>
     safe_from records invar F o0 (snd (cm_run debug F hex pc crypto notify cs s))"
proof (induction cs arbitrary: s)
  case (Cons c cs)
  then show ?case
    using keepsD [OF keeps_call, of F o0 s debug hex pc crypto c]
    by (auto simp: Let_def split: prod.splits) (metis snd_conv)
qed simp

end

text \<open>A fresh chronomatter over an empty calendar, and what a run keeps, as starting points.\<close>

lemma fresh_run_inv:
  assumes "chronomatter_new hex tk ns cal0 = Ok s0" and "sc_records cal0 = []"
  shows "run_inv sc_records sc_inv F hex crypto s0"
proof (rule run_inv_new [OF assms(1)])
  show "sc_inv cal0" using assms(2) by (simp add: sc_inv_def cal_inv_def sc_records_def)
qed (fact assms(2))

lemma run_inv_safe_from:
  "run_inv records invar F hex crypto s \<Longrightarrow> safe_from records invar F (cm_observer s) s"
  by (auto simp: safe_from_def run_inv_def Let_def keypairs_inv_def)

subsection \<open>The genesis record\<close>

text \<open>
  The record of the first tick of a chronomatter with a TBID secret verifies against itself:
  both halves of the Ed25519 signature and the TBID signature over the genesis blob.
\<close>

lemma build_genesis_with_pqc_Ok:
  "build_genesis_with_pqc F hex rn tick pub secret s = (Ok (fwd, bwd, nonce, stamps, v), s') \<longleftrightarrow>
     (\<exists>gs ed cur. secret_sign F secret (raw_bytes (cm_tbid s) @ to_be_bytes tick @ pub) = Ok gs \<and>
        rn = Ok nonce \<and> relative_keypair 0 s = Some cur \<and>
        handle_sign F (kp_priv_key cur)
          (genesis_blob_with_sig (to_hex hex (cm_tbid s)) tick pub gs stamps nonce) = Ok ed \<and>
        fwd = ed @ gs \<and> bwd = ed @ gs \<and> stamps = cm_chronon_stamp_count s \<and> v = 1 \<and>
        s' = s\<lparr>cm_chronon_stamp_count := 0\<rparr>)"
  by (auto simp: build_genesis_with_pqc_def stateful_simps result_simps sign_with_keypair_Ok genesis_blob_Ok)

lemma genesis_record_verifies:
  assumes ffi: "ffi_ed25519_correct F" and tbid: "ffi_tbid_correct F (cm_tbid s) secret"
    and secret: "cm_tbid_secret s = Some secret" and wf: "wf_tbid (cm_tbid s)"
    and cur: "relative_keypair 0 s = Some cur" "kp_pub_key cur = ffi_ed25519_public F (kp_priv_key cur)"
    and build: "build_tick_record F hex (software_crypto_server F k0) rn 1 (kp_pub_key cur) s = (Ok r, s')"
  shows "verify_pair F (software_crypto_server F k0) (to_hex hex (cm_tbid s)) r r = Ok True"
    and "genesis_shaped r"
proof -
  let ?pub = "kp_pub_key cur"
  obtain gs ed nonce stamps where
    gs: "secret_sign F secret (raw_bytes (cm_tbid s) @ to_be_bytes 1 @ ?pub) = Ok gs"
    and ed: "handle_sign F (kp_priv_key cur)
        (genesis_blob_with_sig (to_hex hex (cm_tbid s)) 1 ?pub gs stamps nonce) = Ok ed"
    and r: "r = ChrononRecord 1 ?pub ''Ed25519'' (ed @ gs) (ed @ gs) nonce stamps [] 1 (cm_tbid s)"
    using build secret cur
    by (auto simp: build_tick_record_def build_genesis_tick_record_def stateful_simps
        build_genesis_with_pqc_Ok chronon_build_Ok_iff)
  note tv = secret_sign_verifies [OF tbid wf gs]
  have len: "length ed = 64" using handle_sign_verifies(1) [OF ffi ed] .
  have "gs \<noteq> []" using tv(1) by (auto simp: FORETIAS_TBID_V1_SIG_BYTES_def)
  moreover have "sw_verify_with F ?pub ''Ed25519''
      (genesis_blob_with_sig (to_hex hex (cm_tbid s)) 1 ?pub gs stamps nonce) ed = Ok True"
    using handle_sign_verifies(2) [OF ffi ed] cur by simp
  ultimately show "verify_pair F (software_crypto_server F k0) (to_hex hex (cm_tbid s)) r r = Ok True"
    using tv(2) len
    by (simp add: r verify_pair_def Let_def validate_and_split_genesis_def verify_genesis_def
        build_genesis_blob_def genesis_attest_blob_eq)
  show "genesis_shaped r" by (simp add: r genesis_shaped_def)
qed

subsection \<open>A failed tick\<close>

lemma daemon_tick_no_key:
  assumes "\<not> cm_is_dormant s" and "cm_current_tick s + 1 \<noteq> 0" and "ti_key inp = Err e"
  shows "daemon_tick debug F hex crypto obs inp s =
    (Err (Crypto e), s\<lparr>cm_current_tick := cm_current_tick s + 1\<rparr>)"
  using assms
  by (simp add: daemon_tick_def next_tick_def add_one_no_overflow generate_and_store_keypair_def
      sbind_def sget_def slift_def)

text \<open>
  The tick after a failed one: its record names, in what it signs, the tick number that was
  lost, while the check reads the number of the record it finds stored before.
\<close>

lemma gap_signs_other_blob:
  assumes "linked_to F s prev cur r" and "cr_chronon_number p + 1 \<noteq> cr_chronon_number r"
    and "length (kp_pub_key prev) = 32" and "length (cr_public_key p) = 32"
  obtains blob where "handle_sign F (kp_priv_key prev) blob = Ok (cr_forward_foretis r)"
    and "blob \<noteq> build_normal_attest_blob s p r (cr_chronon_stamp_count r) (cr_aa_nonce r)"
proof (rule that)
  let ?blob = "blob_with_count s (cr_chronon_number r - 1) (kp_pub_key prev)
                   (cr_chronon_number r) (cr_public_key r) (cr_chronon_stamp_count r) (cr_aa_nonce r)"
  show "handle_sign F (kp_priv_key prev) ?blob = Ok (cr_forward_foretis r)"
    using assms(1) by (simp add: linked_to_def Let_def)
  show "?blob \<noteq> build_normal_attest_blob s p r (cr_chronon_stamp_count r) (cr_aa_nonce r)"
  proof
    assume "?blob = build_normal_attest_blob s p r (cr_chronon_stamp_count r) (cr_aa_nonce r)"
    then have "cr_chronon_number r - 1 = cr_chronon_number p"
      unfolding normal_blob_eq using assms(3,4) by (auto dest!: blob_with_count_inj [rotated 3])
    then show False using assms(2) by (simp add: diff_eq_eq)
  qed
qed

subsection \<open>A chronomatter made from a saved calendar\<close>

lemma from_calendar_Ok:
  assumes "from_calendar hex tk loaded obs0 = Ok s"
  obtains c where "loaded = Ok c" and "cm_is_dormant s" and "cm_keypairs s = []"
    and "cm_tbid_secret s = None" and "cm_current_tick s = case_option 0 id (cal_latest c)"
    and "cm_observer s = obs0" and "cm_chronon_ns s = 0"
  using assms by (auto simp: from_calendar_def result_simps Let_def)

lemma dormant_stamp:
  "cm_is_dormant s \<Longrightarrow> cm_stamp debug F hex pc crypto obs inp content echo s =
     (Err (Internal ''Cannot stamp: Chronomatter is in verify-only mode''), s)"
  by (simp add: cm_stamp_def slift_def)

lemma dormant_daemon_tick:
  "cm_is_dormant s \<Longrightarrow> daemon_tick debug F hex crypto obs inp s = (Ok (), s)"
  by (simp add: daemon_tick_def sret_def)

text \<open>
  Woken up, its first tick finds no previous key pair and fails after the tick was taken, the
  key made and the stamp count reset.
\<close>

lemma woken_first_tick_fails:
  assumes "\<not> cm_is_dormant s" and "cm_keypairs s = []" and "cm_current_tick s \<noteq> 0"
    and "cm_current_tick s + 1 \<noteq> 0" and "ti_key inp = Ok k"
  shows "fst (daemon_tick debug F hex crypto obs inp s) = Err (Internal ''missing previous keypair'')"
    and "cm_current_tick (snd (daemon_tick debug F hex crypto obs inp s)) = cm_current_tick s + 1"
    and "cm_observer (snd (daemon_tick debug F hex crypto obs inp s)) = cm_observer s"
proof -
  let ?s = "store_keypair \<lparr>kp_pub_key = ffi_ed25519_public F k, kp_priv_key = k\<rparr>
      (s\<lparr>cm_current_tick := cm_current_tick s + 1\<rparr>)"
  have "keypair_pub 1 (emit AttestSent ?s\<lparr>cm_chronon_stamp_count := 0\<rparr>) = None"
    using assms(2) by (simp add: keypair_pub_def store_keypair_previous [simplified])
  then have "daemon_tick debug F hex crypto obs inp s =
      (Err (Internal ''missing previous keypair''),
       emit AttestFailed (emit AttestSent ?s\<lparr>cm_chronon_stamp_count := 0\<rparr>))"
    using assms
    by (simp add: daemon_tick_def next_tick_def add_one_no_overflow generate_and_store_keypair_def
        handle_public_key_def build_tick_record_def build_regular_tick_record_def report_result_def
        build_auto_attestation_def swap_stamp_count_def current_keypair_pub_def sbind_def sget_def
        slift_def smod_def)
  then show "fst (daemon_tick debug F hex crypto obs inp s) = Err (Internal ''missing previous keypair'')"
    and "cm_current_tick (snd (daemon_tick debug F hex crypto obs inp s)) = cm_current_tick s + 1"
    and "cm_observer (snd (daemon_tick debug F hex crypto obs inp s)) = cm_observer s"
    by (simp_all add: emit_def)
qed

subsection \<open>The daemon\<close>

definition daemon_inv :: "daemon \<Rightarrow> bool" where
  "daemon_inv d \<longleftrightarrow> (\<forall>i \<in> set (dm_running d). i < dm_spawned d) \<and> distinct (dm_running d) \<and>
     (\<forall>h. dm_handle d = Some h \<longrightarrow> h \<in> set (dm_running d))"

lemma daemon_inv_ops:
  "daemon_inv daemon_idle"
  "daemon_inv d \<Longrightarrow> daemon_inv (start_daemon ns d)"
  "daemon_inv d \<Longrightarrow> daemon_inv (stop_daemon d)"
  by (auto simp: daemon_inv_def daemon_idle_def start_daemon_def stop_daemon_def
      distinct_removeAll split: option.splits)

lemma start_twice_stop_once:
  assumes "daemon_inv d" and "dm_handle d = None" and "dm_running d = []" and "ns \<noteq> 0"
  shows "dm_running (stop_daemon (start_daemon ns d)) = []"
    and "dm_running (stop_daemon (start_daemon ns (start_daemon ns d))) = [dm_spawned d]"
    and "stop_daemon (stop_daemon (start_daemon ns (start_daemon ns d))) =
         stop_daemon (start_daemon ns (start_daemon ns d))"
  using assms by (simp_all add: start_daemon_def stop_daemon_def)

end
