(* ===== verification/Instances.thy ===== *)
theory Instances
  imports Chronomatter_Faults
begin

section \<open>A chronomatter to start from\<close>

text \<open>
  The inputs, the empty calendar and the fresh chronomatter on which the theorems about runs
  are applied, over the cryptography of \<open>Demo_Crypto\<close>.
\<close>

definition demo_inputs :: "u8 \<Rightarrow> bytes tick_inputs" where
  "demo_inputs n = \<lparr>ti_key = Ok [n], ti_nonce = Ok (replicate 16 n), ti_clock = Ok (ucast n)\<rparr>"

definition light_inputs :: "u8 \<Rightarrow> bytes tick_inputs" where
  "light_inputs n = \<lparr>ti_key = Ok (replicate 32 n), ti_nonce = Ok [n], ti_clock = Ok 5\<rparr>"

definition demo_calendar :: "bytes server_calendar" where
  "demo_calendar = \<lparr>sc_inner = calendar_new (from_raw (replicate 96 7)) ''n'', sc_tbn = ''n'',
     sc_signing_key = None, sc_task_tx = None\<rparr>"

definition demo_start :: "(bytes, bytes server_calendar) chronomatter" where
  "demo_start =
     \<lparr>cm_tbid = from_raw (replicate 96 7),
      cm_tbid_secret = Some \<lparr>encrypted_ed25519 = replicate 48 9, ed25519_nonce = replicate 24 9,
        encrypted_slh_dsa = replicate 144 9, slh_dsa_nonce = replicate 24 9\<rparr>,
      cm_tbn = ''tf-'' @ replicate 16 CHR ''0'', cm_current_tick = 0, cm_keypairs = [],
      cm_observer = demo_calendar, cm_events = None, cm_chronon_ns = 1000000,
      cm_is_dormant = False, cm_chronon_stamp_count = 0\<rparr>"

lemma demo_new:
  "chronomatter_new light_hex demo_tbid_keypair 1000000 demo_calendar = Ok demo_start"
  by (simp add: chronomatter_new_def tbid_secret_generate_def demo_tbid_keypair_def tbid_from_bytes_def
      secret_from_bytes_def demo_start_def to_hex_def light_hex_def)

lemma demo_calendar_empty [simp]: "sc_records demo_calendar = []"
  by (simp add: sc_records_def demo_calendar_def calendar_new_def)

lemma demo_answers [simp]: "ffi_answers demo_ffi (cm_tbid_secret demo_start)"
  by (simp add: ffi_answers_def demo_start_def secret_to_bytes_def)

lemma demo_inputs_ok [simp]: "inputs_ok (demo_inputs n)"
  by (simp add: inputs_ok_def demo_inputs_def)

abbreviation demo_run ::
    "(bytes, bool) cm_call list \<Rightarrow> (stamped_foretis option, node_error) result list \<times>
       (bytes, bytes server_calendar) chronomatter" where
  "demo_run cs \<equiv> cm_run True demo_ffi light_hex demo_postcard (software_crypto_server demo_ffi [])
     (on_tick_advance light_hex) cs demo_start"

lemma demo_run_ok:
  assumes "length cs < 1000" and "\<forall>c \<in> set cs. call_ok c"
  shows "all_ok (fst (demo_run cs))"
  using assms chronomatter_new_Ok [OF demo_new]
  by (intro cm_run_live) (auto simp: ready_def)

definition demo_calls :: "(bytes, bool) cm_call list" where
  "demo_calls = [CallDaemonTick (demo_inputs 1) False, CallStamp (demo_inputs 2) True [5] ''e'',
     CallSetDormant False, CallDaemonTick (demo_inputs 3) True]"

end
