(* ===== verification/Chronomatter_Laws.thy ===== *)
theory Chronomatter_Laws
  imports Instances
begin

section \<open>The first tick, failed ticks, restored chronomatters, daemons\<close>

text \<open>
  Properties of the chronomatter of \<open>Chronomatter\<close> beyond its good runs: the genesis record,
  what a failed tick does to the chain, what a chronomatter restored from a calendar can do,
  and the daemon's handle.
\<close>

text \<open>
  The first tick of a fresh chronomatter stores one record, numbered 1, that verifies
  against itself: its Ed25519 signature and the TBID's signature of the genesis blob.
\<close>

theorem genesis_tick_verifies:
  assumes "ffi_ed25519_correct F"
    and "chronomatter_new hex tk ns cal0 = Ok s0" and "sc_records cal0 = []"
    and "\<And>secret. cm_tbid_secret s0 = Some secret \<Longrightarrow> ffi_tbid_correct F (cm_tbid s0) secret"
    and "daemon_tick debug F hex (software_crypto_server F k0) (on_tick_advance hex l) inp s0 = (Ok (), s)"
  shows "\<exists>r. sc_records (cm_observer s) = [r] \<and> genesis_shaped r \<and> cr_tbid r = cm_tbid s0 \<and>
    verify_pair F (software_crypto_server F k0) (to_hex hex (cm_tbid s0)) r r = Ok True"
proof -
  note new = chronomatter_new_Ok [OF assms(2)]
  obtain secret where secret: "cm_tbid_secret s0 = Some secret" using new by blast
  obtain k r s1 where build: "build_tick_record F hex (software_crypto_server F k0) (ti_nonce inp) 1
      (ffi_ed25519_public F k)
      (store_keypair \<lparr>kp_pub_key = ffi_ed25519_public F k, kp_priv_key = k\<rparr>
         (s0\<lparr>cm_current_tick := 1\<rparr>)) = (Ok r, s1)"
    and obs: "notify_observer (on_tick_advance hex l) 1 (ffi_ed25519_public F k) r s1 = (Ok (), s)"
    using assms(5) new(1,4)
    by (auto simp: daemon_tick_def stateful_simps generate_and_store_keypair_Ok dest!: next_tick_Ok)
  let ?s = "store_keypair \<lparr>kp_pub_key = ffi_ed25519_public F k, kp_priv_key = k\<rparr> (s0\<lparr>cm_current_tick := 1\<rparr>)"
  have "verify_pair F (software_crypto_server F k0) (to_hex hex (cm_tbid ?s)) r r = Ok True"
    and g: "genesis_shaped r"
    using genesis_record_verifies [OF assms(1), of ?s secret
        "\<lparr>kp_pub_key = ffi_ed25519_public F k, kp_priv_key = k\<rparr>" hex k0 "ti_nonce inp" r s1]
      assms(4) secret new(6) build by simp_all
  moreover have "cr_tbid r = cm_tbid s0" and same: "same_core ?s s1"
    using build_tick_record_Ok(1,2) [OF build] by (simp_all add: built_from_def)
  moreover have "sc_records (cm_observer s) = [r]"
  proof -
    have "sc_inv (cm_observer s1)" "sc_records (cm_observer s1) = []"
      using same new(3) assms(3) by (simp_all add: same_core_def sc_inv_def cal_inv_def sc_records_def)
    then show ?thesis
      using obs sc_obs.notify_new [of "cm_observer s1" r hex l 1 "ffi_ed25519_public F k"]
      by (simp add: notify_observer_def smod_eq)
  qed
  ultimately show ?thesis by auto
qed

theorem genesis_tick_verifies_witness:
  "\<exists>s r. daemon_tick True demo_ffi light_hex (software_crypto_server demo_ffi [])
      (on_tick_advance light_hex False) (demo_inputs 1) demo_start = (Ok (), s) \<and>
    sc_records (cm_observer s) = [r] \<and> genesis_shaped r"
proof -
  have "all_ok (fst (demo_run [CallDaemonTick (demo_inputs 1) False]))" by (rule demo_run_ok) simp_all
  then obtain s where s: "daemon_tick True demo_ffi light_hex (software_crypto_server demo_ffi [])
      (on_tick_advance light_hex False) (demo_inputs 1) demo_start = (Ok (), s)"
    by (auto simp: all_ok_def is_ok_iff stateful_simps Let_def split: prod.splits)
  from genesis_tick_verifies [OF demo_ffi_ed25519 demo_new demo_calendar_empty demo_ffi_tbid s] s
  show ?thesis by blast
qed

text \<open>
  When the key generator fails during a daemon tick, the tick number is lost for
  good. The next tick succeeds, but what it signs names the lost number as its predecessor's,
  so it is not what the integrity check of the two stored neighbours reads.
\<close>

theorem failed_tick_breaks_link:
  assumes "ffi_ed25519_correct F" and "run_inv sc_records sc_inv F hex (software_crypto_server F k0) s1"
    and "sc_records (cm_observer s1) \<noteq> []" and "\<not> cm_is_dormant s1"
    and "unat (cm_current_tick s1) + 2 < 2 ^ 64" and "ti_key inp = Err e"
    and "daemon_tick debug F hex (software_crypto_server F k0) (on_tick_advance hex l) inp s1 = (res, s2)"
    and "daemon_tick debug F hex (software_crypto_server F k0) (on_tick_advance hex l) inp' s2 = (Ok (), s3)"
  shows "res = Err (Crypto e) \<and>
    (\<exists>p r blob. sc_records (cm_observer s3) = sc_records (cm_observer s1) @ [r] \<and>
       p = last (sc_records (cm_observer s1)) \<and>
       unat (cr_chronon_number r) = unat (cr_chronon_number p) + 2 \<and>
       handle_sign F (kp_priv_key (last (cm_keypairs s1))) blob = Ok (cr_forward_foretis r) \<and>
       blob \<noteq> build_normal_attest_blob (to_hex hex (cm_tbid s1)) p r (cr_chronon_stamp_count r) (cr_aa_nonce r))"
proof -
  let ?rs = "sc_records (cm_observer s1)" and ?p = "last (sc_records (cm_observer s1))"
    and ?t = "cm_current_tick s1"
  note I = assms(2) [unfolded run_inv_def Let_def keypairs_inv_def]
  have t: "unat (?t + 1) = unat ?t + 1" using assms(5) by (intro unat_succ) simp
  have t2: "unat (?t + 1 + 1) = unat ?t + 2" using assms(5) t unat_succ [of "?t + 1"] by simp
  have p: "unat (cr_chronon_number ?p) = unat ?t" using I assms(3) consecutive_last by metis
  have "?t + 1 \<noteq> 0"
  proof
    assume "?t + 1 = 0"
    with t show False by (simp only: unat_0)
  qed
  from daemon_tick_no_key [OF assms(4) this assms(6)] assms(7)
  have res: "res = Err (Crypto e)" and s2: "s2 = s1\<lparr>cm_current_tick := ?t + 1\<rparr>" by simp_all
  from assms(8) obtain k r where "ticked F hex (software_crypto_server F k0) (on_tick_advance hex l) k s2 s3 r"
    using assms(4) s2 by (elim daemon_tick_Ok) simp_all
  note T = this [unfolded ticked_def Let_def]
  have num: "cr_chronon_number r = ?t + 1 + 1" using T s2 by simp
  have "?t + 1 + 1 \<noteq> 1"
  proof
    assume "?t + 1 + 1 = 1"
    with t2 show False by (simp only: unat_1)
  qed
  then obtain prev cur where prev: "list_last (cm_keypairs s1) = Some prev"
    and link: "linked_to F (to_hex hex (cm_tbid s1)) prev cur r"
    using T s2 num by auto
  have prev_last: "prev = last (cm_keypairs s1)" "prev \<in> set (cm_keypairs s1)"
    using prev by (auto simp: list_last_Some_iff)
  then have len: "length (kp_pub_key prev) = 32" "length (cr_public_key ?p) = 32"
    using I assms(1,3) by (metis ffi_ed25519_correct_def)+
  have "unat (cr_chronon_number ?p + 1) = unat ?t + 1" using p t by (metis word_unat_eq_iff)
  then have ne: "cr_chronon_number ?p + 1 \<noteq> cr_chronon_number r" using num t2 by auto
  obtain blob where "handle_sign F (kp_priv_key prev) blob = Ok (cr_forward_foretis r)"
    and "blob \<noteq> build_normal_attest_blob (to_hex hex (cm_tbid s1)) ?p r (cr_chronon_stamp_count r) (cr_aa_nonce r)"
    by (rule gap_signs_other_blob [OF link ne len])
  moreover have "sc_records (cm_observer s3) = ?rs @ [r]"
  proof -
    have less: "\<forall>x \<in> set ?rs. cr_chronon_number x < cr_chronon_number r"
      using I consecutive_less [of ?rs] num t2 by (fastforce simp: word_less_nat_alt)
    have "sc_inv (cm_observer s1)" using I by simp
    from sc_obs.notify_new [OF this less] show ?thesis using T s2 by simp
  qed
  ultimately show ?thesis using res num t2 p prev_last(1) by auto
qed
definition byte_23 :: "bytes \<Rightarrow> u8" where "byte_23 m = hd (drop 23 m @ [0])"
definition compact_ffi :: "bytes ffi" where
  "compact_ffi =
     \<lparr>ffi_hash_sha256 = (\<lambda>m. (0, m)),
      ffi_ed25519_public = demo_public,
      ffi_ed25519_sign = (\<lambda>k m. (0, demo_public k @ replicate 32 (byte_23 m))),
      ffi_ed25519_verify = (\<lambda>pk m sig. if sig = pk @ replicate 32 (byte_23 m) then 0 else -1),
      ffi_sphincs_128s_verify = (\<lambda>pk m sig. -1),
      ffi_dilithium3_verify = (\<lambda>pk m sig. -1),
      ffi_sphincs_256f_verify = (\<lambda>pk m sig. -1),
      ffi_tbid_v1_sign = (\<lambda>sk m. (0, [1])),
      ffi_tbid_v1_verify = (\<lambda>pk m sig. -1)\<rparr>"
definition no_key :: "bytes tick_inputs" where
  "no_key = \<lparr>ti_key = Err BadKey, ti_nonce = Ok [], ti_clock = Ok 5\<rparr>"
definition gap_run ::
    "(stamped_foretis option, node_error) result list \<times> (bytes, bytes server_calendar) chronomatter" where
  "gap_run = cm_run True compact_ffi light_hex demo_postcard (software_crypto_server compact_ffi [])
     (on_tick_advance light_hex) [CallDaemonTick (light_inputs 1) False, CallDaemonTick no_key False,
       CallDaemonTick (light_inputs 3) False] demo_start"

lemma gap_run_computed:
  "(map is_ok (fst gap_run),
    integrity_check compact_ffi (software_crypto_server compact_ffi []) (light_hex []) None None
      (sc_inner (cm_observer (snd gap_run)))) = ([True, False, True], Ok [False])"
  by code_simp

lemma compact_ffi_ed25519 [simp]: "ffi_ed25519_correct compact_ffi"
  by (simp add: ffi_ed25519_correct_def compact_ffi_def)

theorem failed_tick_breaks_link_witness:
  "\<exists>p r. sc_records (cm_observer (snd gap_run)) = [p, r] \<and>
    unat (cr_chronon_number r) = unat (cr_chronon_number p) + 2 \<and>
    integrity_check compact_ffi (software_crypto_server compact_ffi []) (light_hex []) None None
      (sc_inner (cm_observer (snd gap_run))) = Ok [False]"
proof -
  let ?tick = "daemon_tick True compact_ffi light_hex (software_crypto_server compact_ffi [])
      (on_tick_advance light_hex False)"
  obtain r1 s1 where 1: "?tick (light_inputs 1) demo_start = (r1, s1)" by fastforce
  obtain r2 s2 where 2: "?tick no_key s1 = (r2, s2)" by fastforce
  obtain r3 s3 where 3: "?tick (light_inputs 3) s2 = (r3, s3)" by fastforce
  have ok: "is_ok r1" "is_ok r3" and fin: "snd gap_run = s3"
    using gap_run_computed 1 2 3
    by (auto simp: gap_run_def sbind_def sret_def is_ok_def Let_def split: result.splits)
  then have o1: "?tick (light_inputs 1) demo_start = (Ok (), s1)" and o3: "?tick (light_inputs 3) s2 = (Ok (), s3)"
    using 1 3 by (auto simp: is_ok_iff)
  have call: "cm_call_step True compact_ffi light_hex demo_postcard (software_crypto_server compact_ffi [])
      (on_tick_advance light_hex) (CallDaemonTick (light_inputs 1) False) demo_start = (Ok None, s1)"
    using o1 by (simp add: stateful_simps)
  note inv = sc_obs.step_run_inv(1) [OF compact_ffi_ed25519 fresh_run_inv [OF demo_new demo_calendar_empty] call]
  note start = chronomatter_new_Ok [OF demo_new]
  obtain k r where t: "ticked compact_ffi light_hex (software_crypto_server compact_ffi [])
      (on_tick_advance light_hex False) k demo_start s1 r"
    by (rule daemon_tick_Ok [OF o1 start(4)])
  then have "cm_current_tick s1 = 1" "\<not> cm_is_dormant s1" using start by (simp_all add: ticked_def Let_def)
  moreover from this have len: "length (sc_records (cm_observer s1)) = 1"
    using inv by (simp add: run_inv_def Let_def)
  moreover from this have "sc_records (cm_observer s1) \<noteq> []" by auto
  ultimately obtain r where "sc_records (cm_observer s3) = sc_records (cm_observer s1) @ [r]"
    and "unat (cr_chronon_number r) = unat (cr_chronon_number (last (sc_records (cm_observer s1)))) + 2"
    using failed_tick_breaks_link [OF compact_ffi_ed25519 inv _ _ _ _ 2 o3, of BadKey]
    by (auto simp: no_key_def)
  then show ?thesis using len fin gap_run_computed by (auto simp: length_Suc_conv)
qed

text \<open>
  A chronomatter restored from a calendar refuses to stamp and does nothing on a daemon
  tick. Woken up, its first tick fails for want of the previous key pair, after using up a
  number, and stores nothing.
\<close>

theorem restored_chronomatter_first_tick:
  assumes "from_calendar hex tk (Ok c) obs0 = Ok s"
    and "cal_latest c = Some n" and "n \<noteq> 0" and "n + 1 \<noteq> 0" and "ti_key inp = Ok k"
    and "daemon_tick debug F hex crypto obs inp (set_dormant False s) = (res, s')"
  shows "cm_stamp debug F hex pc crypto obs inp content echo s =
      (Err (Internal ''Cannot stamp: Chronomatter is in verify-only mode''), s) \<and>
    daemon_tick debug F hex crypto obs inp s = (Ok (), s) \<and>
    res = Err (Internal ''missing previous keypair'') \<and>
    cm_current_tick s' = n + 1 \<and> cm_observer s' = obs0"
proof -
  obtain c' where c': "(Ok c :: (calendar, node_error) result) = Ok c'" and dormant: "cm_is_dormant s"
    and s: "cm_keypairs s = []" "cm_current_tick s = case_option 0 id (cal_latest c')" "cm_observer s = obs0"
    using assms(1) by (rule from_calendar_Ok)
  let ?s = "set_dormant False s"
  have "\<not> cm_is_dormant ?s" "cm_keypairs ?s = []" "cm_current_tick ?s = n" "cm_observer ?s = obs0"
    using s c' assms(2) by (simp_all add: set_dormant_def)
  with woken_first_tick_fails [of ?s inp k debug F hex crypto obs] assms(3-6)
  have "res = Err (Internal ''missing previous keypair'') \<and> cm_current_tick s' = n + 1 \<and> cm_observer s' = obs0"
    by simp
  with dormant show ?thesis by (simp add: dormant_stamp dormant_daemon_tick)
qed

theorem restored_chronomatter_first_tick_witness:
  "\<exists>s. from_calendar light_hex demo_tbid_keypair
      (Ok (calendar_new (from_raw (replicate 96 7)) ''n''\<lparr>ticks := [ChrononRecord 4 [1] ''Ed25519'' [] [] [] 0 [] 0 tbid_default]\<rparr>))
      demo_calendar = Ok s \<and>
    fst (daemon_tick True demo_ffi light_hex demo_server (on_tick_advance light_hex False) (demo_inputs 2)
      (set_dormant False s)) = Err (Internal ''missing previous keypair'')"
proof -
  let ?c = "calendar_new (from_raw (replicate 96 7)) ''n''\<lparr>ticks := [ChrononRecord 4 [1] ''Ed25519'' [] [] [] 0 [] 0 tbid_default]\<rparr>"
  obtain s :: "(bytes, bytes server_calendar) chronomatter" where
    s: "from_calendar light_hex demo_tbid_keypair (Ok ?c) demo_calendar = Ok s"
    by (simp add: from_calendar_def tbid_secret_generate_def demo_tbid_keypair_def tbid_from_bytes_def
      secret_from_bytes_def to_hex_def light_hex_def Let_def)
  have "cal_latest ?c = Some 4" by (simp add: cal_latest_def list_last_def)
  moreover have "ti_key (demo_inputs 2) = Ok [2]" by (simp add: demo_inputs_def)
  ultimately have "fst (daemon_tick True demo_ffi light_hex demo_server (on_tick_advance light_hex False) (demo_inputs 2)
      (set_dormant False s)) = Err (Internal ''missing previous keypair'')"
    using restored_chronomatter_first_tick [OF s _ _ _ _ surjective_pairing, of 4] by simp
  with s show ?thesis by blast
qed

text \<open>
  Stopping the daemon ends it when it was started once. Started twice, the first task's
  handle is dropped, and no number of stops ends that task.
\<close>

theorem daemon_started_twice:
  assumes "ns \<noteq> 0"
  shows "dm_running (stop_daemon (start_daemon ns daemon_idle)) = [] \<and>
    dm_running ((stop_daemon ^^ Suc n) (start_daemon ns (start_daemon ns daemon_idle))) = [0]"
proof -
  have inv: "daemon_inv daemon_idle" by (rule daemon_inv_ops)
  note twice = start_twice_stop_once [OF inv _ _ assms, unfolded daemon_idle_def, simplified, folded daemon_idle_def]
  have "(stop_daemon ^^ Suc n) (start_daemon ns (start_daemon ns daemon_idle)) =
      stop_daemon (start_daemon ns (start_daemon ns daemon_idle))"
    using twice by (induction n) simp_all
  with twice show ?thesis by simp
qed

theorem daemon_started_twice_witness:
  "dm_running ((stop_daemon ^^ Suc 4) (start_daemon 5 (start_daemon 5 daemon_idle))) = [0]"
  using daemon_started_twice [of 5 4] by simp

end
