(* ===== verification/Family.thy ===== *)
theory Family
  imports Clean_Auth "HOL-Library.List_Lexorder" "HOL-Library.Char_ord"
begin

section \<open>Family records\<close>

text \<open>
  Models \<^verbatim>\<open>core-engine/src/foretias/family_record.rs\<close> and the family gate of
  \<^verbatim>\<open>clean_auth.rs\<close>: the validating constructor, the check of the cross-signing
  matrix cell by cell, and \<^verbatim>\<open>verify_family_record\<close>.
\<close>

definition MAX_FAMILY_MEMBERS :: nat where
  "MAX_FAMILY_MEMBERS = 64"

datatype family_error = EmptyMembers | DuplicateMembers | BadMatrixDims | OversizedFamily

record family_record =
  fam_members :: "string list"
  fam_matrix :: "bytes list list"

definition has_adjacent_equal :: "string list \<Rightarrow> bool" where
  "has_adjacent_equal xs \<longleftrightarrow> list_ex (\<lambda>i. xs ! i = xs ! (i + 1)) [0..<length xs - 1]"

definition try_new :: "string list \<Rightarrow> bytes list list \<Rightarrow> (family_record, family_error) result" where
  "try_new members matrix =
     (if members = [] then Err EmptyMembers
      else if length members > MAX_FAMILY_MEMBERS then Err OversizedFamily
      else if has_adjacent_equal (sort members) then Err DuplicateMembers
      else if length matrix \<noteq> length members then Err BadMatrixDims
      else if list_ex (\<lambda>row. length row \<noteq> length members) matrix then Err BadMatrixDims
      else Ok \<lparr>fam_members = members, fam_matrix = matrix\<rparr>)"

definition fam_k :: "family_record \<Rightarrow> nat" where
  "fam_k f = length (fam_members f)"

lemma has_adjacent_equal_sorted:
  assumes "sorted xs"
  shows "has_adjacent_equal xs \<longleftrightarrow> \<not> distinct xs"
proof
  assume "has_adjacent_equal xs"
  then obtain i where "Suc i < length xs" and "xs ! i = xs ! Suc i"
    by (auto simp: has_adjacent_equal_def list_ex_iff less_diff_conv)
  then show "\<not> distinct xs" by (metis distinct_conv_nth n_not_Suc_n Suc_lessD)
next
  assume "\<not> distinct xs"
  then obtain i j where ij: "i < j" "j < length xs" "xs ! i = xs ! j"
    by (metis distinct_conv_nth linorder_neqE_nat)
  have "xs ! i \<le> xs ! Suc i" using assms ij by (intro sorted_nth_mono) auto
  moreover have "xs ! Suc i \<le> xs ! i" unfolding ij(3) using assms ij by (intro sorted_nth_mono) auto
  ultimately have "xs ! i = xs ! Suc i" by (rule antisym)
  moreover have "i < length xs - 1" using ij by simp
  ultimately show "has_adjacent_equal xs" by (auto simp: has_adjacent_equal_def list_ex_iff)
qed

definition square :: "nat \<Rightarrow> 'a list list \<Rightarrow> bool" where
  "square k m \<longleftrightarrow> length m = k \<and> (\<forall>row \<in> set m. length row = k)"

definition wf_family :: "family_record \<Rightarrow> bool" where
  "wf_family f \<longleftrightarrow> fam_members f \<noteq> [] \<and> fam_k f \<le> MAX_FAMILY_MEMBERS \<and>
     distinct (fam_members f) \<and> square (fam_k f) (fam_matrix f)"

lemma try_new_spec:
  "try_new members matrix = Ok f \<longleftrightarrow>
     f = \<lparr>fam_members = members, fam_matrix = matrix\<rparr> \<and> wf_family f"
  by (auto simp: try_new_def wf_family_def fam_k_def square_def has_adjacent_equal_sorted list_ex_iff
      not_le)

subsection \<open>The cross-signing matrix\<close>

definition verify_cell ::
    "crypto_server \<Rightarrow> bytes list list \<Rightarrow> tbid list \<Rightarrow> nat \<Rightarrow> nat \<Rightarrow> (unit, crypto_error) result" where
  "verify_cell crypto matrix tbids i j =
     rbind (index_at matrix i) (\<lambda>row.
     rbind (index_at row j) (\<lambda>sig.
     if length sig < 64 then Err BadSignature
     else
       rbind (cs_verify_ed25519 crypto (ed25519_public_key (tbids ! i)) (raw_bytes (tbids ! j))
                (take 64 sig)) (\<lambda>valid.
         if \<not> valid then Err BadSignature else Ok ())))"

definition verify_matrix ::
    "(string \<Rightarrow> bytes option) \<Rightarrow> crypto_server \<Rightarrow> family_record \<Rightarrow> (unit, crypto_error) result" where
  "verify_matrix hex_decode crypto f =
     (let k = fam_k f in
      rbind (try_map (from_hex hex_decode) (fam_members f)) (\<lambda>tbids.
      rbind (try_map (\<lambda>i. try_map (\<lambda>j. verify_cell crypto (fam_matrix f) tbids i j) [0..<k]) [0..<k])
        (\<lambda>_. Ok ())))"

lemma is_ok_try_map: "is_ok (try_map f xs) \<longleftrightarrow> (\<forall>x \<in> set xs. is_ok (f x))"
  by (induction xs) (auto simp: is_ok_iff result_simps)

lemma try_map_panic: "try_map f xs = Panic \<Longrightarrow> \<exists>x \<in> set xs. f x = Panic"
  by (induction xs) (auto simp: result_simps)

lemma verify_cell_Ok_iff:
  assumes "i < length matrix" and "j < length (matrix ! i)"
  shows "verify_cell crypto matrix tbids i j = Ok u \<longleftrightarrow>
    64 \<le> length (matrix ! i ! j) \<and>
    cs_verify_ed25519 crypto (ed25519_public_key (tbids ! i)) (raw_bytes (tbids ! j))
      (take 64 (matrix ! i ! j)) = Ok True"
  using assms by (auto simp: verify_cell_def result_simps not_less split: if_splits)

lemma verify_matrix_Ok_iff:
  assumes "square (fam_k f) (fam_matrix f)"
  shows "verify_matrix hex_decode crypto f = Ok u \<longleftrightarrow>
    (\<exists>tbids. try_map (from_hex hex_decode) (fam_members f) = Ok tbids \<and>
      (\<forall>i < fam_k f. \<forall>j < fam_k f.
         64 \<le> length (fam_matrix f ! i ! j) \<and>
         cs_verify_ed25519 crypto (ed25519_public_key (tbids ! i)) (raw_bytes (tbids ! j))
           (take 64 (fam_matrix f ! i ! j)) = Ok True))"
proof -
  let ?all = "\<lambda>tbids. \<forall>i < fam_k f. \<forall>j < fam_k f. is_ok (verify_cell crypto (fam_matrix f) tbids i j)"
  have "verify_matrix hex_decode crypto f = Ok u \<longleftrightarrow>
      (\<exists>tbids. try_map (from_hex hex_decode) (fam_members f) = Ok tbids \<and> ?all tbids)"
    by (simp add: verify_matrix_def Let_def rbind_eq_Ok is_ok_try_map [unfolded is_ok_iff] is_ok_iff
        Ball_def)
  moreover have "is_ok (verify_cell crypto (fam_matrix f) tbids i j) \<longleftrightarrow>
      64 \<le> length (fam_matrix f ! i ! j) \<and>
      cs_verify_ed25519 crypto (ed25519_public_key (tbids ! i)) (raw_bytes (tbids ! j))
        (take 64 (fam_matrix f ! i ! j)) = Ok True"
    if "i < fam_k f" "j < fam_k f" for tbids i j
    using that assms by (auto simp: is_ok_iff verify_cell_Ok_iff square_def)
  ultimately show ?thesis by auto
qed

lemma verify_matrix_no_panic:
  assumes "square (fam_k f) (fam_matrix f)" and "\<And>p m s. cs_verify_ed25519 crypto p m s \<noteq> Panic"
  shows "verify_matrix hex_decode crypto f \<noteq> Panic"
proof
  assume "verify_matrix hex_decode crypto f = Panic"
  then obtain tbids i j where "i < fam_k f" "j < fam_k f"
      and "verify_cell crypto (fam_matrix f) tbids i j = Panic"
    by (auto simp: verify_matrix_def Let_def result_simps dest!: try_map_panic)
  with assms show False
    by (auto simp: verify_cell_def result_simps square_def split: if_splits)
qed

text \<open>
  A record that was deserialised instead of constructed may have fewer matrix rows than
  members: the first cell of a missing row is an index out of range.
\<close>

lemma verify_matrix_short_panics:
  assumes "try_map (from_hex hex_decode) (fam_members f) = Ok tbids" and "fam_members f \<noteq> []"
    and "fam_matrix f = []"
  shows "verify_matrix hex_decode crypto f = Panic"
proof -
  obtain ns where "[0..<fam_k f] = 0 # ns"
    using assms(2) by (simp add: fam_k_def upt_rec)
  with assms show ?thesis
    by (simp add: verify_matrix_def Let_def verify_cell_def index_at_def)
qed

subsection \<open>The family gate\<close>

definition family_require_full :: "family_record \<Rightarrow> bool" where
  "family_require_full f = True"

definition verify_family_record ::
    "(string \<Rightarrow> bytes option) \<Rightarrow> (family_record \<Rightarrow> (bytes, string) result) \<Rightarrow>
     (signature_entry list \<Rightarrow> (bytes, string) result) \<Rightarrow> crypto_server \<Rightarrow> bytes \<Rightarrow>
     family_record unverified \<Rightarrow> (family_record clean_full, clean_auth_error) result" where
  "verify_family_record hex_decode pc pc_sigs crypto pub_key u =
     rbind (verify_all_signatures pc pc_sigs family_require_full crypto pub_key u) (\<lambda>ca.
     rbind (rmap_err (\<lambda>e. CaCrypto (Crypto e)) (verify_matrix hex_decode crypto (ca_inner ca))) (\<lambda>_.
       Ok (from_dual_verified (ca_inner ca))))"

lemma verify_family_record_Ok:
  "verify_family_record hex pc pc_sigs crypto pk u = Ok a \<longleftrightarrow>
     is_ok (verify_all_signatures pc pc_sigs family_require_full crypto pk u) \<and>
     is_ok (verify_matrix hex crypto (uv_inner u)) \<and> a = from_dual_verified (uv_inner u)"
  by (auto simp: verify_family_record_def result_simps verify_all_signatures_Ok_iff is_ok_iff)

text \<open>No dual-key entry verifies under the software backend.\<close>

lemma check_entry_dual_software:
  assumes "se_algorithm (sigs ! i) = DualKey"
  shows "\<not> is_ok (check_entry pc pc_sigs (software_crypto_server F k) pk record sigs i)"
  using assms by (auto simp: is_ok_iff check_entry_Ok_iff sw_verify_with_slh_dsa)

subsection \<open>What is accepted\<close>

text \<open>
  The constructor of a family accepts exactly 1 to 64 distinct members with a square
  matrix of their number, and names the first of these conditions that fails.
\<close>

theorem try_new_accepts:
  "try_new members matrix =
     (if members = [] then Err EmptyMembers
      else if 64 < length members then Err OversizedFamily
      else if \<not> distinct members then Err DuplicateMembers
      else if \<not> square (length members) matrix then Err BadMatrixDims
      else Ok \<lparr>fam_members = members, fam_matrix = matrix\<rparr>)"
  by (auto simp: try_new_def MAX_FAMILY_MEMBERS_def has_adjacent_equal_sorted square_def list_ex_iff)

text \<open>
  The matrix check of a constructed family never panics and accepts exactly when every
  member parses and every cell holds the row member's valid signature of the column member's
  TBID, its own included.
\<close>

theorem matrix_check_accepts:
  assumes "wf_family f" and "\<And>p m s. cs_verify_ed25519 crypto p m s \<noteq> Panic"
  shows "verify_matrix hex_decode crypto f \<noteq> Panic \<and>
    (verify_matrix hex_decode crypto f = Ok () \<longleftrightarrow>
      (\<exists>tbids. try_map (from_hex hex_decode) (fam_members f) = Ok tbids \<and>
        (\<forall>i < fam_k f. \<forall>j < fam_k f.
           64 \<le> length (fam_matrix f ! i ! j) \<and>
           cs_verify_ed25519 crypto (ed25519_public_key (tbids ! i)) (raw_bytes (tbids ! j))
             (take 64 (fam_matrix f ! i ! j)) = Ok True)))"
proof -
  have "square (fam_k f) (fam_matrix f)" using assms(1) by (simp add: wf_family_def)
  from verify_matrix_no_panic [OF this assms(2)] verify_matrix_Ok_iff [OF this] show ?thesis by blast
qed

definition demo_family :: "u8 \<Rightarrow> family_record" where
  "demo_family b =
     \<lparr>fam_members = [''a''], fam_matrix = [[replicate 32 b @ demo_tag 31 (replicate 96 7)]]\<rparr>"

theorem matrix_check_accepts_witness:
  "verify_matrix (\<lambda>_. Some (replicate 96 7)) (software_crypto_server demo_ffi []) (demo_family 7) = Ok ()"
proof -
  let ?G = "software_crypto_server demo_ffi []"
  have wf: "wf_family (demo_family 7)"
    by (simp add: wf_family_def demo_family_def fam_k_def square_def MAX_FAMILY_MEMBERS_def)
  have np: "\<And>p m s. cs_verify_ed25519 ?G p m s \<noteq> Panic" by (simp add: ed25519_verify_def)
  have "try_map (from_hex (\<lambda>_. Some (replicate 96 7))) (fam_members (demo_family 7)) = Ok [from_raw (replicate 96 7)]"
    by (simp add: demo_family_def from_hex_def tbid_from_bytes_def)
  then show ?thesis
    unfolding matrix_check_accepts [OF wf np, THEN conjunct2]
    by (intro exI [of _ "[from_raw (replicate 96 7)]"])
      (simp add: demo_family_def fam_k_def ed25519_public_key_def raw_bytes_def from_raw_def
        ed25519_verify_def verify_rc_def)
qed

text \<open>
  No family record is ever accepted with the software backend. The gate asks for a
  dual-key signature, which it verifies under the identifier \<^verbatim>\<open>SLH-DSA\<close>, and no algorithm
  has that identifier.
\<close>

theorem family_never_accepted:
  "\<not> is_ok (verify_family_record hex pc pc_sigs (software_crypto_server F k) pub_key u)"
proof
  assume "is_ok (verify_family_record hex pc pc_sigs (software_crypto_server F k) pub_key u)"
  then obtain c where ok: "verify_all_signatures pc pc_sigs family_require_full (software_crypto_server F k) pub_key u = Ok c"
    by (auto simp: is_ok_iff verify_family_record_Ok)
  then obtain i where i: "i < 2" "se_algorithm (uv_signatures u ! i) = DualKey"
    by (auto simp: verify_all_signatures_Ok_iff family_require_full_def in_set_conv_nth)
  from check_entry_dual_software [OF i(2), of pc pc_sigs F k pub_key "uv_inner u"] ok i(1) show False by (auto simp: verify_all_signatures_Ok_iff)
qed

end
