(* ===== verification/Probity.thy ===== *)
theory Probity
  imports Clean_Auth "HOL-Library.Multiset"
begin

section \<open>Probity reports\<close>

text \<open>
  Models \<^verbatim>\<open>core-engine/src/probity/report.rs\<close> and, of the server,
  \<^verbatim>\<open>probity/store.rs\<close> (ingest, dedup, bounded retention) and
  \<^verbatim>\<open>probity/gossip_handler.rs\<close>. A \<^verbatim>\<open>f32\<close> is its bit pattern;
  the comparison of two floats follows IEEE 754. The aggregation of scores
  (floating-point sums) is not modelled: a store carries the scores it last computed.
\<close>

subsection \<open>Floats as bit patterns\<close>

type_synonym f32 = u32

definition f32_magnitude :: "f32 \<Rightarrow> nat" where
  "f32_magnitude w = unat w mod 2147483648"

definition f32_is_nan :: "f32 \<Rightarrow> bool" where
  "f32_is_nan w \<longleftrightarrow> f32_magnitude w > 2139095040"

definition f32_key :: "f32 \<Rightarrow> int" where
  "f32_key w = (if unat w < 2147483648 then int (f32_magnitude w) else - int (f32_magnitude w))"

definition f32_lt :: "f32 \<Rightarrow> f32 \<Rightarrow> bool" where
  "f32_lt a b \<longleftrightarrow> \<not> f32_is_nan a \<and> \<not> f32_is_nan b \<and> f32_key a < f32_key b"

definition f32_zero :: f32 where
  "f32_zero = 0"

definition f32_minus_50 :: f32 where
  "f32_minus_50 = 3259498496"

subsection \<open>The report and its inbound gates\<close>

record probity_report =
  pr_subject :: string
  pr_reporter :: string
  pr_attribute :: string
  pr_value :: f32
  pr_timestamp_ns :: u64
  pr_signature :: bytes
  pr_curve :: u8
  pr_slow_signature :: bytes

type_synonym postcard_report = "probity_report \<Rightarrow> (bytes, string) result"

definition set_signature :: "bytes \<Rightarrow> probity_report \<Rightarrow> probity_report" where
  "set_signature sig r = r\<lparr>pr_signature := sig\<rparr>"

definition canonical :: "postcard_report \<Rightarrow> probity_report \<Rightarrow> (bytes, 'e) result" where
  "canonical pc r =
     (case pc (r\<lparr>pr_signature := [], pr_slow_signature := []\<rparr>) of Ok b \<Rightarrow> Ok b | _ \<Rightarrow> Panic)"

definition report_require_full :: "probity_report \<Rightarrow> bool" where
  "report_require_full r \<longleftrightarrow> pr_attribute r = ''fb'' \<or> pr_attribute r = ''gnf''"

definition pub_key_from_tbid_hex ::
    "(string \<Rightarrow> (bytes, string) result) \<Rightarrow> string \<Rightarrow> (bytes, clean_auth_error) result" where
  "pub_key_from_tbid_hex hex_decode s =
     rbind (rmap_err (\<lambda>e. InvalidLength (''invalid TBID hex: '' @ e)) (hex_decode s)) (\<lambda>tbid_bytes.
       if length tbid_bytes < 32
       then Err (InvalidLength (''TBID too short for Ed25519: '' @ decimal (length tbid_bytes) @
              '' bytes (need 32)''))
       else Ok (take 32 tbid_bytes))"

definition check_fast ::
    "(string \<Rightarrow> (bytes, string) result) \<Rightarrow> postcard_report \<Rightarrow> crypto_server \<Rightarrow> probity_report \<Rightarrow>
     (unit, clean_auth_error) result" where
  "check_fast hex_decode pc crypto r =
     rbind (pub_key_from_tbid_hex hex_decode (pr_reporter r)) (\<lambda>public_key.
     rbind (canonical pc r) (\<lambda>canon.
     rbind (rmap_err (\<lambda>e. CaCrypto (Crypto e))
             (cs_verify_with crypto public_key ''Ed25519'' canon (pr_signature r))) (\<lambda>valid.
       if \<not> valid then Err InvalidSignature else Ok ())))"

definition verify_report ::
    "(string \<Rightarrow> (bytes, string) result) \<Rightarrow> postcard_report \<Rightarrow> crypto_server \<Rightarrow>
     probity_report unverified \<Rightarrow> (probity_report clean, clean_auth_error) result" where
  "verify_report hex_decode pc crypto u =
     (let report = uv_inner u in
      if pr_curve report \<noteq> 1 then Err InvalidSignature
      else if length (pr_signature report) < 64
      then Err (InvalidLength (''probity report signature too short: '' @
             decimal (length (pr_signature report)) @ '' bytes (expected 64)''))
      else rbind (check_fast hex_decode pc crypto report) (\<lambda>_. Ok (ca_from_trusted report)))"

definition verify_report_full ::
    "(string \<Rightarrow> (bytes, string) result) \<Rightarrow> postcard_report \<Rightarrow> crypto_server \<Rightarrow>
     probity_report unverified \<Rightarrow> (probity_report clean_full, clean_auth_error) result" where
  "verify_report_full hex_decode pc crypto u =
     (let report = uv_inner u in
      if pr_slow_signature report = [] then Err FullSignatureRequired
      else if pr_curve report \<noteq> 1 then Err InvalidSignature
      else if length (pr_signature report) < 64
      then Err (InvalidLength (''probity report fast signature too short: '' @
             decimal (length (pr_signature report)) @ '' bytes (expected 64)''))
      else
        rbind (check_fast hex_decode pc crypto report) (\<lambda>_.
        if length (pr_slow_signature report) < 48 * 1024
        then Err (InvalidLength (''probity report slow signature too short: '' @
               decimal (length (pr_slow_signature report)) @ '' bytes (expected >= 48KB for SLH-DSA)''))
        else Ok (from_dual_verified report)))"

lemma check_fast_Ok_iff:
  "check_fast hex pc crypto r = Ok u \<longleftrightarrow>
     (\<exists>pk canon. pub_key_from_tbid_hex hex (pr_reporter r) = Ok pk \<and>
        canonical pc r = (Ok canon :: (bytes, clean_auth_error) result) \<and>
        cs_verify_with crypto pk ''Ed25519'' canon (pr_signature r) = Ok True)"
  by (auto simp: check_fast_def result_simps split: if_splits)

lemma verify_report_Ok_iff:
  "verify_report hex pc crypto u = Ok a \<longleftrightarrow>
     pr_curve (uv_inner u) = 1 \<and> 64 \<le> length (pr_signature (uv_inner u)) \<and>
     is_ok (check_fast hex pc crypto (uv_inner u)) \<and> a = ca_from_trusted (uv_inner u)"
  by (auto simp: verify_report_def Let_def result_simps is_ok_iff not_less split: if_splits)

lemma verify_report_full_Ok_iff:
  "verify_report_full hex pc crypto u = Ok a \<longleftrightarrow>
     pr_curve (uv_inner u) = 1 \<and> 64 \<le> length (pr_signature (uv_inner u)) \<and>
     is_ok (check_fast hex pc crypto (uv_inner u)) \<and>
     48 * 1024 \<le> length (pr_slow_signature (uv_inner u)) \<and> a = from_dual_verified (uv_inner u)"
  by (auto simp: verify_report_full_def Let_def result_simps is_ok_iff not_less split: if_splits)

text \<open>Whatever the slow signature holds, a report that passes in full passes with any other of its length.\<close>

lemma canonical_slow_signature [simp]:
  "canonical pc (r\<lparr>pr_slow_signature := s\<rparr>) = canonical pc r"
  by (simp add: canonical_def)

lemma check_fast_slow_signature [simp]:
  "check_fast hex pc crypto (r\<lparr>pr_slow_signature := s\<rparr>) = check_fast hex pc crypto r"
  by (simp add: check_fast_def)

subsection \<open>The report store\<close>

record probity_store =
  ps_reports :: "string \<rightharpoonup> probity_report list"
  ps_scores :: "string \<rightharpoonup> f32"
  ps_max_reports_per_peer :: nat

definition ps_with_config :: "nat \<Rightarrow> probity_store" where
  "ps_with_config max_reports =
     \<lparr>ps_reports = Map.empty, ps_scores = Map.empty, ps_max_reports_per_peer = max_reports\<rparr>"

definition ps_new :: probity_store where
  "ps_new = ps_with_config 500"

definition ps_list :: "string \<Rightarrow> probity_store \<Rightarrow> probity_report list" where
  "ps_list subject s = case_option [] id (ps_reports s subject)"

definition same_report :: "probity_report \<Rightarrow> probity_report \<Rightarrow> bool" where
  "same_report a b \<longleftrightarrow> pr_reporter a = pr_reporter b \<and> pr_attribute a = pr_attribute b \<and>
     pr_timestamp_ns a = pr_timestamp_ns b"

definition ingest_list :: "nat \<Rightarrow> probity_report \<Rightarrow> probity_report list \<Rightarrow> probity_report list" where
  "ingest_list max_reports report lst =
     (if list_ex (\<lambda>r. same_report r report) lst then lst
      else (let l = lst @ [report] in
            if length l > max_reports
            then drop (length l - max_reports) (sort_key pr_timestamp_ns l)
            else l))"

definition ingest :: "probity_report \<Rightarrow> probity_store \<Rightarrow> probity_store" where
  "ingest report s =
     s\<lparr>ps_reports := (ps_reports s)(pr_subject report \<mapsto>
         ingest_list (ps_max_reports_per_peer s) report (ps_list (pr_subject report) s))\<rparr>"

definition ps_score :: "string \<Rightarrow> probity_store \<Rightarrow> f32" where
  "ps_score peer s = case_option f32_zero id (ps_scores s peer)"

definition report_count :: "string \<Rightarrow> probity_store \<Rightarrow> nat" where
  "report_count peer s = length (ps_list peer s)"

definition report_key :: "probity_report \<Rightarrow> string \<times> string \<times> u64" where
  "report_key r = (pr_reporter r, pr_attribute r, pr_timestamp_ns r)"

lemma same_report_key: "same_report a b \<longleftrightarrow> report_key a = report_key b"
  by (auto simp: same_report_def report_key_def)

definition ps_inv :: "probity_store \<Rightarrow> bool" where
  "ps_inv s \<longleftrightarrow> (\<forall>subject. length (ps_list subject s) \<le> ps_max_reports_per_peer s \<and>
     distinct (map report_key (ps_list subject s)) \<and>
     (\<forall>r \<in> set (ps_list subject s). pr_subject r = subject))"

lemma distinct_map_drop: "distinct (map f xs) \<Longrightarrow> distinct (map f (drop n xs))"
  by (simp add: drop_map [symmetric])

lemma distinct_map_sort_key: "distinct (map f (sort_key g xs)) = distinct (map f xs)"
proof -
  have "mset (map f (sort_key g xs)) = mset (map f xs)" by (simp only: mset_map mset_sort)
  then show ?thesis by (metis mset_eq_imp_distinct_iff)
qed

lemma ingest_list_props:
  assumes "length lst \<le> m" and "distinct (map report_key lst)"
  shows "length (ingest_list m r lst) \<le> m"
    and "distinct (map report_key (ingest_list m r lst))"
    and "set (ingest_list m r lst) \<subseteq> insert r (set lst)"
proof -
  have "report_key r \<notin> report_key ` set lst" if "\<not> list_ex (\<lambda>x. same_report x r) lst"
    using that by (auto simp: same_report_key list_ex_iff)
  then show "distinct (map report_key (ingest_list m r lst))"
    using assms by (auto simp: ingest_list_def Let_def distinct_map_sort_key intro!: distinct_map_drop)
  show "length (ingest_list m r lst) \<le> m"
    using assms by (simp add: ingest_list_def Let_def)
  show "set (ingest_list m r lst) \<subseteq> insert r (set lst)"
    by (auto simp: ingest_list_def Let_def dest: in_set_dropD)
qed

lemma ps_list_ingest:
  "ps_list subject (ingest r s) =
     (if subject = pr_subject r
      then ingest_list (ps_max_reports_per_peer s) r (ps_list subject s) else ps_list subject s)"
  by (simp add: ps_list_def ingest_def)

lemma ps_inv_new [simp]: "ps_inv (ps_with_config m)"
  by (simp add: ps_inv_def ps_with_config_def ps_list_def)

lemma max_reports_ingest [simp]: "ps_max_reports_per_peer (ingest r s) = ps_max_reports_per_peer s"
  by (simp add: ingest_def)

lemma ingest_inv:
  assumes "ps_inv s"
  shows "ps_inv (ingest r s)"
  unfolding ps_inv_def
proof
  fix subject
  let ?lst = "ps_list subject s" and ?m = "ps_max_reports_per_peer s"
  have old: "length ?lst \<le> ?m" "distinct (map report_key ?lst)" "\<forall>x \<in> set ?lst. pr_subject x = subject"
    using assms by (auto simp: ps_inv_def)
  show "length (ps_list subject (ingest r s)) \<le> ps_max_reports_per_peer (ingest r s) \<and>
      distinct (map report_key (ps_list subject (ingest r s))) \<and>
      (\<forall>x \<in> set (ps_list subject (ingest r s)). pr_subject x = subject)"
    using old ingest_list_props [OF old(1,2), of r] by (auto simp: ps_list_ingest)
qed

text \<open>Eviction drops the oldest reports.\<close>

lemma sorted_drop_take:
  assumes "sorted (map f xs)" and "x \<in> set (take n xs)" and "y \<in> set (drop n xs)"
  shows "f x \<le> f y"
proof -
  have "sorted (map f (take n xs) @ map f (drop n xs))"
    using assms(1) by (metis append_take_drop_id map_append)
  then show ?thesis using assms(2,3) by (auto simp: sorted_append)
qed

lemma ingest_list_keeps_newest:
  assumes "x \<in> insert r (set lst)" and "x \<notin> set (ingest_list m r lst)"
    and "y \<in> set (ingest_list m r lst)" and "\<not> list_ex (\<lambda>z. same_report z r) lst"
  shows "pr_timestamp_ns x \<le> pr_timestamp_ns y"
proof -
  let ?l = "sort_key pr_timestamp_ns (lst @ [r])" and ?n = "length (lst @ [r]) - m"
  have eq: "ingest_list m r lst = drop ?n ?l"
    using assms(1,2,4) by (auto simp: ingest_list_def Let_def split: if_splits)
  have "x \<in> set ?l" using assms(1) by simp
  then have "x \<in> set (take ?n ?l) \<or> x \<in> set (drop ?n ?l)"
    by (metis append_take_drop_id Un_iff set_append)
  then have "x \<in> set (take ?n ?l)" using assms(2) eq by simp
  then show ?thesis
    using assms(3) eq sorted_drop_take [of pr_timestamp_ns ?l x ?n y] by simp
qed

subsection \<open>Gossip\<close>

definition resolve_public_key ::
    "(string \<Rightarrow> (bytes, string) result) \<Rightarrow> string \<Rightarrow> (bytes, node_error) result" where
  "resolve_public_key hex_decode s =
     rbind (rmap_err (\<lambda>e. BadFormat (''invalid reporter TBID hex: '' @ e)) (hex_decode s)) (\<lambda>tbid_bytes.
       if length tbid_bytes < 32
       then Err (BadFormat (''reporter TBID too short for Ed25519: '' @ decimal (length tbid_bytes) @
              '' bytes (need 32)''))
       else Ok (take 32 tbid_bytes))"

definition skew_limit :: u64 where
  "skew_limit = 5 * 60 * 1000000000"

text \<open>
  \<^verbatim>\<open>now_ns + 5 * 60 * 1_000_000_000\<close> overflows to a panic where overflow checks are on
  (\<open>debug\<close>), and wraps otherwise. \<^verbatim>\<open>parse\<close> is the JSON decoder, with the text of
  its error.
\<close>

definition authenticate_gossip ::
    "(string \<Rightarrow> (bytes, string) result) \<Rightarrow> postcard_report \<Rightarrow> crypto_server \<Rightarrow>
     probity_report unverified \<Rightarrow> (probity_report clean, clean_auth_error) result" where
  "authenticate_gossip hex_decode pc crypto envelope =
     (if pr_attribute (uv_inner envelope) = ''fb'' \<or> pr_attribute (uv_inner envelope) = ''gnf''
      then rbind (verify_report_full hex_decode pc crypto envelope) (\<lambda>cfa. Ok (clean_of_full cfa))
      else verify_report hex_decode pc crypto envelope)"

definition handle_gossip_message ::
    "bool \<Rightarrow> ('d \<Rightarrow> (probity_report, string) result) \<Rightarrow> (string \<Rightarrow> (bytes, string) result) \<Rightarrow>
     postcard_report \<Rightarrow> crypto_server \<Rightarrow> u64 \<Rightarrow> 'd \<Rightarrow> probity_store \<Rightarrow>
     (unit, node_error) result \<times> probity_store" where
  "handle_gossip_message debug parse hex_decode pc crypto now_ns data s =
     (case parse data of
        Err e \<Rightarrow> (Err (BadFormat (''ProbityReportRecord deserialization: invalid JSON: '' @ e)), s)
      | Panic \<Rightarrow> (Panic, s)
      | Ok report \<Rightarrow>
     (case add_u64 debug now_ns skew_limit of
        Err e \<Rightarrow> (Err e, s)
      | Panic \<Rightarrow> (Panic, s)
      | Ok limit \<Rightarrow>
        if pr_timestamp_ns report > limit then (Err (Stale ''future-dated probity report''), s)
        else if f32_lt (ps_score (pr_reporter report) s) f32_minus_50 then (Ok (), s)
        else (case authenticate_gossip hex_decode pc crypto (from_parsed report) of
                Ok a \<Rightarrow> (Ok (), ingest (ca_inner a) s)
              | Err _ \<Rightarrow> (Ok (), s)
              | Panic \<Rightarrow> (Panic, s))))"

lemma handle_gossip_inv:
  "ps_inv s \<Longrightarrow> ps_inv (snd (handle_gossip_message debug parse hex pc crypto now data s))"
  by (simp add: handle_gossip_message_def ingest_inv split: result.splits)

lemma authenticate_gossip_Ok:
  "authenticate_gossip hex pc crypto u = Ok a \<Longrightarrow>
     ca_inner a = uv_inner u \<and> pr_curve (uv_inner u) = 1 \<and>
     is_ok (check_fast hex pc crypto (uv_inner u)) \<and>
     (report_require_full (uv_inner u) \<longrightarrow> 48 * 1024 \<le> length (pr_slow_signature (uv_inner u)))"
  by (auto simp: authenticate_gossip_def report_require_full_def result_simps verify_report_Ok_iff
      verify_report_full_Ok_iff clean_of_full_def from_dual_verified_def ca_from_trusted_def
      split: if_splits)

subsection \<open>Any number of messages\<close>

definition gossip_run ::
    "bool \<Rightarrow> ('d \<Rightarrow> (probity_report, string) result) \<Rightarrow> (string \<Rightarrow> (bytes, string) result) \<Rightarrow>
     postcard_report \<Rightarrow> crypto_server \<Rightarrow> (u64 \<times> 'd) list \<Rightarrow> probity_store \<Rightarrow> probity_store" where
  "gossip_run debug parse hex_decode pc crypto msgs s =
     fold (\<lambda>(now_ns, data) s. snd (handle_gossip_message debug parse hex_decode pc crypto now_ns data s)) msgs s"

definition authentic ::
    "(string \<Rightarrow> (bytes, string) result) \<Rightarrow> postcard_report \<Rightarrow> crypto_server \<Rightarrow> probity_report \<Rightarrow> bool" where
  "authentic hex_decode pc crypto r \<longleftrightarrow>
     (\<exists>pk canon. pr_curve r = 1 \<and> pub_key_from_tbid_hex hex_decode (pr_reporter r) = Ok pk \<and>
        pc (r\<lparr>pr_signature := [], pr_slow_signature := []\<rparr>) = Ok canon \<and>
        cs_verify_with crypto pk ''Ed25519'' canon (pr_signature r) = Ok True) \<and>
     (report_require_full r \<longrightarrow> 48 * 1024 \<le> length (pr_slow_signature r))"

lemma canonical_Ok_iff:
  "canonical pc r = Ok b \<longleftrightarrow> pc (r\<lparr>pr_signature := [], pr_slow_signature := []\<rparr>) = Ok b"
  by (auto simp: canonical_def split: result.splits)

lemma authenticate_gossip_authentic:
  "authenticate_gossip hex pc crypto u = Ok a \<Longrightarrow> ca_inner a = uv_inner u \<and> authentic hex pc crypto (uv_inner u)"
  using authenticate_gossip_Ok [of hex pc crypto u a]
  by (auto simp: authentic_def is_ok_iff check_fast_Ok_iff canonical_Ok_iff)

lemma handle_gossip_authentic:
  assumes "ps_inv s" and "\<forall>subject. \<forall>r \<in> set (ps_list subject s). authentic hex pc crypto r"
  shows "\<forall>subject. \<forall>r \<in> set (ps_list subject (snd (handle_gossip_message debug parse hex pc crypto now data s))).
    authentic hex pc crypto r"
proof -
  have "\<forall>r \<in> set (ps_list subject (ingest x s)). authentic hex pc crypto r"
    if "authentic hex pc crypto x" for subject x
  proof -
    have "length (ps_list subject s) \<le> ps_max_reports_per_peer s" "distinct (map report_key (ps_list subject s))"
      using assms(1) by (auto simp: ps_inv_def)
    from ingest_list_props(3) [OF this] show ?thesis using that assms(2) by (auto simp: ps_list_ingest)
  qed
  then show ?thesis
    using assms(2)
    by (auto simp: handle_gossip_message_def from_parsed_def split: result.splits
        dest!: authenticate_gossip_authentic)
qed

text \<open>
  C26: After any sequence of gossip messages, whatever they hold, each peer has at most the
  configured number of reports, all about that peer, no two of the same reporter, attribute
  and time, and each one signed by its reporter.
\<close>

theorem gossip_store_authentic:
  assumes "s = gossip_run debug parse hex_decode pc crypto msgs (ps_with_config m)"
  shows "length (ps_list peer s) \<le> m \<and> distinct (map report_key (ps_list peer s)) \<and>
    (\<forall>r \<in> set (ps_list peer s). pr_subject r = peer \<and> authentic hex_decode pc crypto r)"
proof -
  let ?step = "\<lambda>(now_ns, data) s. snd (handle_gossip_message debug parse hex_decode pc crypto now_ns data s)"
  have max: "ps_max_reports_per_peer (?step x t) = ps_max_reports_per_peer t" for x t
    by (auto simp: handle_gossip_message_def split: prod.splits result.splits)
  have "ps_inv (fold ?step msgs t) \<and> ps_max_reports_per_peer (fold ?step msgs t) = ps_max_reports_per_peer t \<and>
      (\<forall>subject. \<forall>r \<in> set (ps_list subject (fold ?step msgs t)). authentic hex_decode pc crypto r)"
    if "ps_inv t" "\<forall>subject. \<forall>r \<in> set (ps_list subject t). authentic hex_decode pc crypto r" for t
    using that
  proof (induction msgs arbitrary: t)
    case (Cons x msgs)
    have "ps_inv (?step x t)" using Cons.prems(1) by (cases x) (simp add: handle_gossip_inv)
    moreover have "\<forall>subject. \<forall>r \<in> set (ps_list subject (?step x t)). authentic hex_decode pc crypto r"
      using handle_gossip_authentic [OF Cons.prems] by (cases x) simp
    ultimately show ?case using Cons.IH [of "?step x t"] max [of x t] by simp
  qed simp
  from this [OF ps_inv_new] have "ps_inv s" "ps_max_reports_per_peer s = m"
    "\<forall>subject. \<forall>r \<in> set (ps_list subject s). authentic hex_decode pc crypto r"
    by (simp_all add: assms gossip_run_def) (simp_all add: ps_with_config_def ps_list_def)
  then show ?thesis by (auto simp: ps_inv_def)
qed

definition signed_report :: probity_report where
  "signed_report = \<lparr>pr_subject = ''p'', pr_reporter = ''r'', pr_attribute = ''a'', pr_value = 0,
     pr_timestamp_ns = 3, pr_signature = demo_public [1] @ demo_tag 31 [2], pr_curve = 1, pr_slow_signature = []\<rparr>"

theorem gossip_store_authentic_witness:
  "ps_list ''p'' (gossip_run True Ok (\<lambda>_. Ok (demo_public [1])) (\<lambda>_. Ok [2]) demo_server
      [(0, signed_report), (5, signed_report)] (ps_with_config 3)) = [signed_report] \<and>
    authentic (\<lambda>_. Ok (demo_public [1])) (\<lambda>_. Ok [2]) demo_server signed_report"
proof -
  have check: "is_ok (check_fast (\<lambda>_. Ok (demo_public [1])) (\<lambda>_. Ok [2]) demo_server signed_report)"
    unfolding is_ok_iff check_fast_Ok_iff canonical_Ok_iff
    by (simp add: pub_key_from_tbid_hex_def demo_server_def signed_report_def sw_verify_with_ed25519
        ed25519_verify_def verify_rc_def)
  have "authenticate_gossip (\<lambda>_. Ok (demo_public [1])) (\<lambda>_. Ok [2]) demo_server (from_parsed signed_report) =
      Ok (ca_from_trusted signed_report)"
    using check by (simp add: authenticate_gossip_def from_parsed_def verify_report_Ok_iff)
      (simp add: signed_report_def)
  then have "ps_list ''p'' (gossip_run True Ok (\<lambda>_. Ok (demo_public [1])) (\<lambda>_. Ok [2]) demo_server
      [(0, signed_report), (5, signed_report)] (ps_with_config 3)) = [signed_report]"
    by (simp add: gossip_run_def handle_gossip_message_def add_u64_def skew_limit_def ps_score_def
        f32_lt_def f32_key_def f32_magnitude_def f32_zero_def f32_minus_50_def ps_with_config_def
        ca_from_trusted_def ps_list_def ingest_def ingest_list_def same_report_def Let_def)
      (simp add: signed_report_def)
  with gossip_store_authentic [OF HOL.refl] show ?thesis by (metis list.set_intros(1))
qed

text \<open>
  A store that is full forgets the oldest: a report that is no longer there after an
  ingest is no younger than any that is.
\<close>

theorem ingest_keeps_newest:
  assumes "ps_inv s" and "x \<in> insert r (set (ps_list (pr_subject r) s))"
    and "x \<notin> set (ps_list (pr_subject r) (ingest r s))"
    and "y \<in> set (ps_list (pr_subject r) (ingest r s))"
  shows "pr_timestamp_ns x \<le> pr_timestamp_ns y \<or> (x = r \<and> (\<exists>z \<in> set (ps_list (pr_subject r) s). report_key z = report_key r))"
proof (cases "list_ex (\<lambda>z. same_report z r) (ps_list (pr_subject r) s)")
  case True
  then have "ps_list (pr_subject r) (ingest r s) = ps_list (pr_subject r) s"
    by (simp add: ps_list_ingest ingest_list_def)
  with assms(2,3) True show ?thesis by (auto simp: list_ex_iff same_report_key)
next
  case False
  with ingest_list_keeps_newest [of x r "ps_list (pr_subject r) s" "ps_max_reports_per_peer s" y] assms(2-4)
  show ?thesis by (simp add: ps_list_ingest)
qed

definition report_at :: "u64 \<Rightarrow> probity_report" where
  "report_at n = \<lparr>pr_subject = ''p'', pr_reporter = ''r'', pr_attribute = ''a'', pr_value = 0,
     pr_timestamp_ns = n, pr_signature = [], pr_curve = 1, pr_slow_signature = []\<rparr>"

theorem ingest_keeps_newest_witness:
  "report_at 7 \<in> set (ps_list ''p'' (ingest (report_at 7) (ingest (report_at 4) (ps_with_config 1)))) \<and>
   pr_timestamp_ns (report_at 4) \<le> pr_timestamp_ns (report_at 7)"
proof -
  have lists: "ps_list ''p'' (ingest (report_at 4) (ps_with_config 1)) = [report_at 4]"
    "ps_list ''p'' (ingest (report_at 7) (ingest (report_at 4) (ps_with_config 1))) = [report_at 7]"
    by (simp_all add: ps_list_def ingest_def ingest_list_def same_report_def report_at_def
        ps_with_config_def Let_def)
  then show ?thesis
    using ingest_keeps_newest
      [of "ingest (report_at 4) (ps_with_config 1)" "report_at 4" "report_at 7" "report_at 7"]
    by (simp add: ingest_inv report_at_def)
qed

text \<open>
  The slow signature that accusations must carry is not verified: a report accepted in
  full is accepted with any other bytes of the same length in its place.
\<close>

theorem slow_signature_unchecked:
  assumes "length sl = length (pr_slow_signature r)"
  shows "is_ok (verify_report_full hex_decode pc crypto (from_parsed (r\<lparr>pr_slow_signature := sl\<rparr>))) \<longleftrightarrow>
    is_ok (verify_report_full hex_decode pc crypto (from_parsed r))"
  using assms by (auto simp: is_ok_iff verify_report_full_Ok_iff from_parsed_def)

theorem slow_signature_unchecked_witness:
  "is_ok (verify_report_full (\<lambda>_. Ok []) (\<lambda>_. Ok []) demo_server (from_parsed ((report_at 1)\<lparr>pr_slow_signature := []\<rparr>))) \<longleftrightarrow>
   is_ok (verify_report_full (\<lambda>_. Ok []) (\<lambda>_. Ok []) demo_server (from_parsed (report_at 1)))"
  by (rule slow_signature_unchecked) (simp add: report_at_def)

end
