(* ===== verification/Interleaving.thy ===== *)
theory Interleaving
  imports Stateful
begin

section \<open>Interleaved operations\<close>

text \<open>
  An operation on shared state, cut at the points where another thread may run: a program is
  finished with a result, or takes one atomic step and goes on. A lock that is taken and
  released within a step, or an atomic instruction, is one step.
\<close>

datatype ('s, 'r) prog = Finished 'r | Atomic "'s \<Rightarrow> ('s, 'r) prog \<times> 's"

primrec run_prog :: "('s, 'r) prog \<Rightarrow> 's \<Rightarrow> 'r \<times> 's" where
  "run_prog (Finished r) = (\<lambda>s. (r, s))"
| "run_prog (Atomic f) = (\<lambda>s. case (map_prod run_prog id \<circ> f) s of (g, s') \<Rightarrow> g s')"

primrec pbind :: "('s, 'a) prog \<Rightarrow> ('a \<Rightarrow> ('s, 'b) prog) \<Rightarrow> ('s, 'b) prog" where
  "pbind (Finished a) k = k a"
| "pbind (Atomic f) k = Atomic (map_prod (\<lambda>p. pbind p k) id \<circ> f)"

definition pthen ::
    "('s, ('a, 'e) result) prog \<Rightarrow> ('a \<Rightarrow> ('s, ('b, 'e) result) prog) \<Rightarrow> ('s, ('b, 'e) result) prog" where
  "pthen m k = pbind m (\<lambda>r. case r of Ok a \<Rightarrow> k a | Err e \<Rightarrow> Finished (Err e) | Panic \<Rightarrow> Finished Panic)"

definition atomic :: "('s, 'a, 'e) stateful \<Rightarrow> ('s, ('a, 'e) result) prog" where
  "atomic m = Atomic (\<lambda>s. let (r, s') = m s in (Finished r, s'))"

lemma run_prog_pbind: "run_prog (pbind m k) s = (case run_prog m s of (a, s') \<Rightarrow> run_prog (k a) s')"
proof (induction m arbitrary: s)
  case (Finished a)
  show ?case by simp
next
  case (Atomic f)
  have "run_prog (pbind (fst (f s)) k) (snd (f s)) =
      (case run_prog (fst (f s)) (snd (f s)) of (a, s') \<Rightarrow> run_prog (k a) s')"
    by (rule Atomic.IH [of "f s"]) (auto simp: prod_set_defs)
  then show ?case by (simp add: case_prod_beta)
qed

lemma run_prog_atomic [simp]: "run_prog (atomic m) = m"
  by (rule ext) (simp add: atomic_def Let_def split: prod.splits)

text \<open>Run alone, a program is the operation it was cut from.\<close>

lemma run_prog_pthen [simp]: "run_prog (pthen m k) = sbind (run_prog m) (\<lambda>a. run_prog (k a))"
  by (rule ext) (auto simp: pthen_def run_prog_pbind sbind_def split: prod.splits result.splits)

lemma run_prog_Finished [simp]: "run_prog (Finished r) = slift r"
  by (rule ext) (simp add: slift_def)

lemma pbind_assoc: "pbind (pbind m k) h = pbind m (\<lambda>a. pbind (k a) h)"
proof (induction m)
  case (Atomic f)
  have "map_prod (\<lambda>p. pbind p h) id (map_prod (\<lambda>p. pbind p k) id (f s)) =
      map_prod (\<lambda>p. pbind p (\<lambda>a. pbind (k a) h)) id (f s)" for s
  proof (cases "f s")
    case (Pair p s')
    then have "p \<in> Basic_BNFs.fsts (f s)" by (simp add: prod_set_defs)
    from Atomic [OF rangeI this] Pair show ?thesis by simp
  qed
  then show ?case by (simp add: fun_eq_iff)
qed simp

lemma pthen_assoc: "pthen (pthen m k) h = pthen m (\<lambda>a. pthen (k a) h)"
  unfolding pthen_def pbind_assoc
  by (rule arg_cong [where f = "pbind m"]) (auto split: result.splits)

declare run_prog.simps(1) [simp del]

subsection \<open>Threads\<close>

text \<open>A configuration is the threads and the shared state; any unfinished thread may step.\<close>

inductive thread_step ::
    "('s, 'r) prog list \<times> 's \<Rightarrow> ('s, 'r) prog list \<times> 's \<Rightarrow> bool" where
  step: "i < length ts \<Longrightarrow> ts ! i = Atomic f \<Longrightarrow> f s = (p, s') \<Longrightarrow> thread_step (ts, s) (ts[i := p], s')"

inductive_cases thread_stepE: "thread_step (ts, s) c"

inductive thread_steps ::
    "('s, 'r) prog list \<times> 's \<Rightarrow> ('s, 'r) prog list \<times> 's \<Rightarrow> bool" where
  refl: "thread_steps c c"
| step: "thread_steps c c' \<Longrightarrow> thread_step c' c'' \<Longrightarrow> thread_steps c c''"

text \<open>A schedule names the thread that steps next.\<close>

fun run_schedule :: "nat list \<Rightarrow> ('s, 'r) prog list \<times> 's \<Rightarrow> ('s, 'r) prog list \<times> 's" where
  "run_schedule [] c = c"
| "run_schedule (i # is) (ts, s) =
     (if i < length ts
      then (case ts ! i of
              Finished r \<Rightarrow> run_schedule is (ts, s)
            | Atomic f \<Rightarrow> (case f s of (p, s') \<Rightarrow> run_schedule is (ts[i := p], s')))
      else run_schedule is (ts, s))"

lemma thread_steps_trans:
  assumes "thread_steps c c'" and "thread_steps c' c''"
  shows "thread_steps c c''"
  using assms(2,1) by induction (auto intro: thread_steps.step)

lemma thread_step_first: "thread_step c c' \<Longrightarrow> thread_steps c' c'' \<Longrightarrow> thread_steps c c''"
  by (rule thread_steps_trans [OF thread_steps.step [OF thread_steps.refl]])

lemma run_schedule_steps: "thread_steps c (run_schedule is c)"
proof (induction "is" c rule: run_schedule.induct)
  case (1 c)
  show ?case by (simp add: thread_steps.refl)
next
  case (2 i "is" ts s)
  show ?case
  proof (cases "i < length ts")
    case True
    show ?thesis
    proof (cases "ts ! i")
      case (Finished r)
      with True 2(1) show ?thesis by simp
    next
      case (Atomic f)
      obtain p s' where "f s = (p, s')" by fastforce
      moreover from this have "thread_step (ts, s) (ts[i := p], s')"
        using True Atomic by (intro thread_step.step)
      ultimately show ?thesis
        using True Atomic 2(2) [OF True Atomic] by (auto intro: thread_step_first)
    qed
  next
    case False
    with 2(3) show ?thesis by simp
  qed
qed

lemma run_schedule_append:
  "run_schedule (is @ js) c = run_schedule js (run_schedule is c)"
  by (induction "is" c rule: run_schedule.induct) (auto split: prog.splits prod.splits)

lemma run_schedule_first:
  "m s = (Ok a, s') \<Longrightarrow>
     run_schedule (0 # js) (pthen (atomic m) k # ts, s) = run_schedule js (k a # ts, s')"
  by (simp add: pthen_def atomic_def)

text \<open>A thread scheduled until it ends does what its program does when run alone.\<close>

lemma run_alone:
  assumes "i < length ts"
  shows "\<exists>n. run_schedule (replicate n i) (ts, s) =
    (ts[i := Finished (fst (run_prog (ts ! i) s))], snd (run_prog (ts ! i) s))"
proof -
  have "\<exists>n. run_schedule (replicate n i) (ts[i := p], s) =
      (ts[i := Finished (fst (run_prog p s))], snd (run_prog p s))" for p s
  proof (induction p arbitrary: s)
    case (Finished r)
    have "run_schedule (replicate 0 i) (ts[i := Finished r], s) =
        (ts[i := Finished (fst (run_prog (Finished r) s))], snd (run_prog (Finished r) s))"
      by (simp add: run_prog.simps(1))
    then show ?case by blast
  next
    case (Atomic f)
    obtain p s' where f: "f s = (p, s')" by fastforce
    have "p \<in> Basic_BNFs.fsts (f s)" by (simp add: f prod_set_defs)
    from Atomic.IH [OF _ this] obtain n where
      "run_schedule (replicate n i) (ts[i := p], s') =
        (ts[i := Finished (fst (run_prog p s'))], snd (run_prog p s'))" by blast
    then have "run_schedule (replicate (Suc n) i) (ts[i := Atomic f], s) =
        (ts[i := Finished (fst (run_prog (Atomic f) s))], snd (run_prog (Atomic f) s))"
      using assms f by simp
    then show ?case by blast
  qed
  from this [of "ts ! i" s] show ?thesis by simp
qed

subsection \<open>Properties that every atomic step keeps\<close>

inductive prog_keeps :: "('s \<Rightarrow> bool) \<Rightarrow> ('s, 'r) prog \<Rightarrow> bool" for P where
  finished: "prog_keeps P (Finished r)"
| atomic: "(\<And>s. P s \<Longrightarrow> P (snd (f s))) \<Longrightarrow> (\<And>s. prog_keeps P (fst (f s))) \<Longrightarrow> prog_keeps P (Atomic f)"

inductive_simps prog_keeps_Atomic: "prog_keeps P (Atomic f)"

lemma prog_keeps_pbind:
  assumes "prog_keeps P m" and "\<And>a. prog_keeps P (k a)"
  shows "prog_keeps P (pbind m k)"
  using assms(1)
proof induction
  case (finished r)
  show ?case using assms(2) by simp
next
  case (atomic f)
  then show ?case by (auto intro!: prog_keeps.atomic simp: comp_def)
qed

lemma prog_keeps_pthen:
  "prog_keeps P m \<Longrightarrow> (\<And>a. prog_keeps P (k a)) \<Longrightarrow> prog_keeps P (pthen m k)"
  unfolding pthen_def
  by (erule prog_keeps_pbind) (auto split: result.splits intro: prog_keeps.finished)

lemma prog_keeps_atomic: "keeps P m \<Longrightarrow> prog_keeps P (atomic m)"
  unfolding atomic_def keeps_def
  by (rule prog_keeps.atomic) (auto simp: Let_def case_prod_beta intro: prog_keeps.finished)

lemma prog_keeps_if: "prog_keeps P m \<Longrightarrow> prog_keeps P m' \<Longrightarrow> prog_keeps P (if b then m else m')"
  by simp

lemma prog_keeps_split: "(\<And>a b. prog_keeps P (f a b)) \<Longrightarrow> prog_keeps P (case p of (a, b) \<Rightarrow> f a b)"
  by (cases p) simp

theorem thread_steps_keep:
  assumes "thread_steps (ts, s) (ts', s')" and "\<forall>p \<in> set ts. prog_keeps P p" and "P s"
  shows "P s' \<and> (\<forall>p \<in> set ts'. prog_keeps P p)"
  using assms
proof (induction "(ts, s)" "(ts', s')" arbitrary: ts' s' rule: thread_steps.induct)
  case refl
  then show ?case by simp
next
  case (step c' ts' s')
  obtain ts1 s1 where c': "c' = (ts1, s1)" by fastforce
  with step have keep: "P s1" "\<forall>p \<in> set ts1. prog_keeps P p" by auto
  from step(3) [unfolded c'] show ?case
  proof (rule thread_stepE)
    fix i f p s2
    assume *: "(ts', s') = (ts1[i := p], s2)" "i < length ts1" "ts1 ! i = Atomic f" "f s1 = (p, s2)"
    then have "prog_keeps P (Atomic f)" using keep(2) by (metis nth_mem)
    then have "P (snd (f s1))" and "prog_keeps P (fst (f s1))"
      using keep(1) by (auto simp: prog_keeps_Atomic)
    then show ?case using * keep by (auto dest: set_update_subset_insert [THEN subsetD])
  qed
qed

end
