(* ===== verification/Chronomatter_Race.thy ===== *)
theory Chronomatter_Race
  imports Interleaving Chronomatter_Faults
begin

section \<open>Concurrent calls of the chronomatter\<close>

text \<open>
  \<^verbatim>\<open>stamp\<close> and \<^verbatim>\<open>daemon_tick\<close> take \<^verbatim>\<open>&self\<close>: handlers and the daemon call
  them from several threads, with no lock around a whole call. The programs here are the
  operations of \<open>Chronomatter\<close> cut at their atomic instructions and lock regions: the
  tick counter's \<^verbatim>\<open>fetch_add\<close>, each read or write of the key pairs, the swap of the
  stamp count, each metrics callback and the observer's append. Run alone, they are the
  operations themselves.
\<close>

type_synonym ('k, 'o, 'a) cm_prog = "(('k, 'o) chronomatter, ('a, node_error) result) prog"

definition store_prog :: "'k ffi \<Rightarrow> ('k, crypto_error) result \<Rightarrow> ('k, 'o, unit) cm_prog" where
  "store_prog F generated =
     pthen (Finished (rmap_err Crypto generated)) (\<lambda>handle.
     pthen (Finished (rmap_err Crypto (handle_public_key F handle))) (\<lambda>pub_key.
       atomic (smod (store_keypair \<lparr>kp_pub_key = pub_key, kp_priv_key = handle\<rparr>))))"

definition auto_attestation_prog ::
    "'k ffi \<Rightarrow> (bytes \<Rightarrow> string) \<Rightarrow> (bytes, crypto_error) result \<Rightarrow> u64 \<Rightarrow> bytes \<Rightarrow>
     ('k, 'o, bytes \<times> bytes \<times> bytes \<times> u64) cm_prog" where
  "auto_attestation_prog F hex_encode random_nonce tick new_pub =
     pthen (atomic (sget (\<lambda>s. to_hex hex_encode (cm_tbid s)))) (\<lambda>tbid_str.
     pthen (atomic swap_stamp_count) (\<lambda>stamps.
       if tick = 1 then
         pthen (Finished (auto_attestation_blob_with_count random_nonce tbid_str tick new_pub tick
                  new_pub stamps)) (\<lambda>(attest_blob, nonce).
         pthen (atomic (sign_with_keypair F 0 attest_blob)) (\<lambda>sig.
           Finished (Ok (sig, sig, nonce, stamps))))
       else
         pthen (atomic (\<lambda>s. (ok_or (Internal ''missing previous keypair'') (keypair_pub 1 s), s))) (\<lambda>prev_pub.
         pthen (Finished (auto_attestation_blob_with_count random_nonce tbid_str (tick - 1) prev_pub
                  tick new_pub stamps)) (\<lambda>(attest_blob, nonce).
         pthen (atomic (sign_with_keypair F 1 attest_blob)) (\<lambda>forward_sig.
         pthen (atomic (sign_with_keypair F 0 attest_blob)) (\<lambda>backward_sig.
           Finished (Ok (forward_sig, backward_sig, nonce, stamps))))))))"

definition report_prog :: "('k, 'o, 'a) cm_prog \<Rightarrow> ('k, 'o, 'a) cm_prog" where
  "report_prog m = pbind m (\<lambda>r. case r of
     Ok a \<Rightarrow> pthen (atomic (smod (emit AttestOk))) (\<lambda>_. Finished (Ok a))
   | Err e \<Rightarrow> pthen (atomic (smod (emit AttestFailed))) (\<lambda>_. Finished (Err e))
   | Panic \<Rightarrow> Finished Panic)"

definition genesis_with_pqc_prog ::
    "'k ffi \<Rightarrow> (bytes \<Rightarrow> string) \<Rightarrow> (bytes, crypto_error) result \<Rightarrow> u64 \<Rightarrow> bytes \<Rightarrow> tbid_secret \<Rightarrow>
     ('k, 'o, bytes \<times> bytes \<times> bytes \<times> u64 \<times> u32) cm_prog" where
  "genesis_with_pqc_prog F hex_encode random_nonce tick new_pub secret =
     pthen (atomic (sget cm_tbid)) (\<lambda>t.
     pthen (Finished (rmap_err Crypto
              (secret_sign F secret (raw_bytes t @ to_be_bytes tick @ new_pub)))) (\<lambda>genesis_sig.
     pthen (atomic swap_stamp_count) (\<lambda>stamps_count.
     pthen (Finished (auto_attestation_blob_with_genesis random_nonce (to_hex hex_encode t) tick new_pub
              genesis_sig stamps_count)) (\<lambda>(attest_blob, nonce).
     pthen (atomic (sign_with_keypair F 0 attest_blob)) (\<lambda>ed_sig.
       Finished (Ok (ed_sig @ genesis_sig, ed_sig @ genesis_sig, nonce, stamps_count, 1)))))))"

definition tick_record_prog ::
    "'k ffi \<Rightarrow> (bytes \<Rightarrow> string) \<Rightarrow> crypto_server \<Rightarrow> (bytes, crypto_error) result \<Rightarrow> u64 \<Rightarrow> bytes \<Rightarrow>
     ('k, 'o, chronon_record) cm_prog" where
  "tick_record_prog F hex_encode crypto random_nonce tick new_pub =
     (if tick = 1 then
        pthen (atomic (smod (emit AttestSent))) (\<lambda>_.
        pthen (atomic (sget (\<lambda>s. (cm_tbid s, cm_tbid_secret s)))) (\<lambda>(t, tbid_secret).
        pthen (case tbid_secret of
                 Some secret \<Rightarrow> genesis_with_pqc_prog F hex_encode random_nonce tick new_pub secret
               | None \<Rightarrow>
                   pthen (report_prog (auto_attestation_prog F hex_encode random_nonce tick new_pub))
                     (\<lambda>(fwd, bwd, nonce, stamps_count). Finished (Ok (fwd, bwd, nonce, stamps_count, 0))))
          (\<lambda>(forward_foretis, backward_foretis, aa_nonce, stamps, tb_version).
        pthen (atomic (smod (emit AttestOk))) (\<lambda>_.
          Finished (chronon_build
            (ChrononRecord tick new_pub (to_id_string (cs_signature_algorithm crypto)) forward_foretis
               backward_foretis aa_nonce stamps [] tb_version t))))))
      else
        pthen (atomic (smod (emit AttestSent))) (\<lambda>_.
        pthen (report_prog (auto_attestation_prog F hex_encode random_nonce tick new_pub))
          (\<lambda>(forward_foretis, backward_foretis, aa_nonce, stamps).
        pthen (atomic (sget cm_tbid)) (\<lambda>t.
          Finished (chronon_build
            (ChrononRecord tick new_pub (to_id_string (cs_signature_algorithm crypto)) forward_foretis
               backward_foretis aa_nonce stamps [] 0 t))))))"

definition daemon_tick_prog ::
    "bool \<Rightarrow> 'k ffi \<Rightarrow> (bytes \<Rightarrow> string) \<Rightarrow> crypto_server \<Rightarrow>
     (u64 \<Rightarrow> bytes \<Rightarrow> chronon_record \<Rightarrow> 'o \<Rightarrow> 'o) \<Rightarrow> 'k tick_inputs \<Rightarrow> ('k, 'o, unit) cm_prog" where
  "daemon_tick_prog debug F hex_encode crypto obs inp =
     pthen (atomic (sget cm_is_dormant)) (\<lambda>dormant.
     if dormant then Finished (Ok ())
     else
       pthen (atomic (next_tick debug)) (\<lambda>tick.
       pthen (store_prog F (ti_key inp)) (\<lambda>_.
       pthen (atomic current_keypair_pub) (\<lambda>new_pub.
       pthen (tick_record_prog F hex_encode crypto (ti_nonce inp) tick new_pub) (\<lambda>record.
         atomic (notify_observer obs tick new_pub record))))))"

definition stamp_prog ::
    "bool \<Rightarrow> 'k ffi \<Rightarrow> (bytes \<Rightarrow> string) \<Rightarrow> postcard_foretis \<Rightarrow> crypto_server \<Rightarrow>
     (u64 \<Rightarrow> bytes \<Rightarrow> chronon_record \<Rightarrow> 'o \<Rightarrow> 'o) \<Rightarrow> 'k tick_inputs \<Rightarrow> bytes \<Rightarrow> string \<Rightarrow>
     ('k, 'o, stamped_foretis) cm_prog" where
  "stamp_prog debug F hex_encode pc crypto obs inp content echo =
     pthen (atomic (sget cm_is_dormant)) (\<lambda>dormant.
     if dormant then Finished (Err (Internal ''Cannot stamp: Chronomatter is in verify-only mode''))
     else
       pthen (atomic (next_tick debug)) (\<lambda>tick.
       pthen (atomic (smod (\<lambda>s. s\<lparr>cm_chronon_stamp_count := cm_chronon_stamp_count s + 1\<rparr>))) (\<lambda>_.
       pthen (store_prog F (ti_key inp)) (\<lambda>_.
       pthen (atomic current_keypair_pub) (\<lambda>new_pub.
       pthen (Finished (rmap_err Crypto (cs_sha256 crypto content))) (\<lambda>content_hash.
       pthen (Finished (rmap_err clock_error (ti_clock inp))) (\<lambda>now_ns.
       pthen (atomic (sget (\<lambda>s. \<lparr>fr_chronon_number = tick, fr_content_hash = content_hash,
                         fr_tbid = cm_tbid s, fr_echo = echo, fr_tbn = cm_tbn s,
                         fr_time_being_reference_time = reference_time now_ns\<rparr>))) (\<lambda>foretis.
       pthen (Finished (rmap_err postcard_error (pc foretis))) (\<lambda>sig_input.
       pthen (atomic (sign_with_keypair F 0 sig_input)) (\<lambda>signature.
       pthen (tick_record_prog F hex_encode crypto (ti_nonce inp) tick new_pub) (\<lambda>record.
       pthen (atomic (notify_observer obs tick new_pub record)) (\<lambda>_.
         Finished (Ok \<lparr>st_foretis = foretis, st_signature_bytes = signature,
               st_signature_algorithm = to_id_string (cs_signature_algorithm crypto)\<rparr>)))))))))))))"

text \<open>The calls of a run, each as the program of a thread.\<close>

fun call_prog ::
    "bool \<Rightarrow> 'k ffi \<Rightarrow> (bytes \<Rightarrow> string) \<Rightarrow> postcard_foretis \<Rightarrow> crypto_server \<Rightarrow>
     ('l \<Rightarrow> u64 \<Rightarrow> bytes \<Rightarrow> chronon_record \<Rightarrow> 'o \<Rightarrow> 'o) \<Rightarrow> ('k, 'l) cm_call \<Rightarrow>
     ('k, 'o, stamped_foretis option) cm_prog" where
  "call_prog debug F hex pc crypto obs (CallStamp inp l content echo) =
     pthen (stamp_prog debug F hex pc crypto (obs l) inp content echo) (\<lambda>st. Finished (Ok (Some st)))"
| "call_prog debug F hex pc crypto obs (CallDaemonTick inp l) =
     pthen (daemon_tick_prog debug F hex crypto (obs l) inp) (\<lambda>_. Finished (Ok None))"
| "call_prog debug F hex pc crypto obs (CallSetDormant d) =
     pthen (atomic (smod (set_dormant d))) (\<lambda>_. Finished (Ok None))"

subsection \<open>Without interference, the operations of the sequential model\<close>

lemma sret_slift: "sret a = slift (Ok a)"
  by (rule ext) (simp add: sret_def slift_def)

lemma run_if: "run_prog (if b then p else q) = (if b then run_prog p else run_prog q)"
  by simp

lemma run_split: "run_prog (case x of (a, b) \<Rightarrow> f a b) = (case x of (a, b) \<Rightarrow> run_prog (f a b))"
  by (cases x) simp

lemma run_report: "run_prog (report_prog m) = report_result (run_prog m)"
  by (rule ext) (auto simp: report_prog_def run_prog_pbind report_result_def slift_def
      split: prod.splits result.splits)

lemmas run_simps = run_if run_split run_report sret_slift

lemma run_store: "run_prog (store_prog F g) = generate_and_store_keypair F g"
  by (simp add: store_prog_def generate_and_store_keypair_def)

lemma run_auto_attestation:
  "run_prog (auto_attestation_prog F hex rn tick pub) = build_auto_attestation F hex rn tick pub"
  by (simp add: auto_attestation_prog_def build_auto_attestation_def run_simps cong: if_cong)

lemma run_genesis_with_pqc:
  "run_prog (genesis_with_pqc_prog F hex rn tick pub secret) = build_genesis_with_pqc F hex rn tick pub secret"
  by (simp add: genesis_with_pqc_prog_def build_genesis_with_pqc_def run_simps)

lemma run_option:
  "run_prog (case x of None \<Rightarrow> p | Some a \<Rightarrow> f a) = (case x of None \<Rightarrow> run_prog p | Some a \<Rightarrow> run_prog (f a))"
  by (cases x) simp_all

lemma run_tick_record:
  "run_prog (tick_record_prog F hex crypto rn tick pub) = build_tick_record F hex crypto rn tick pub"
  by (simp add: tick_record_prog_def build_tick_record_def build_genesis_tick_record_def
      build_regular_tick_record_def build_genesis_without_pqc_def run_simps run_option
      run_auto_attestation run_genesis_with_pqc cong: option.case_cong)

lemma run_daemon_tick:
  "run_prog (daemon_tick_prog debug F hex crypto obs inp) = daemon_tick debug F hex crypto obs inp"
  by (simp add: daemon_tick_prog_def daemon_tick_def run_simps run_store run_tick_record cong: if_cong)

lemma run_stamp:
  "run_prog (stamp_prog debug F hex pc crypto obs inp content echo) =
     cm_stamp debug F hex pc crypto obs inp content echo"
  by (simp add: stamp_prog_def cm_stamp_def create_foretis_def run_simps run_store run_tick_record cong: if_cong)

theorem run_call:
  "run_prog (call_prog debug F hex pc crypto obs c) = cm_call_step debug F hex pc crypto obs c"
  by (cases c) (simp_all add: run_stamp run_daemon_tick run_simps)

text \<open>Calls made one after another are one of the schedules of the concurrent ones.\<close>

lemma sequential_schedule:
  "\<exists>is. run_schedule is (map Finished done @ map (call_prog debug F hex pc crypto obs) calls, s) =
     (map Finished (done @ fst (cm_run debug F hex pc crypto obs calls s)),
      snd (cm_run debug F hex pc crypto obs calls s))"
proof (induction calls arbitrary: "done" s)
  case Nil
  have "run_schedule [] (map Finished done, s) = (map Finished done, s)" by simp
  then show ?case by (metis append_Nil2 cm_run.simps(1) fst_conv list.map(1) snd_conv)
next
  case (Cons c cs)
  let ?p = "call_prog debug F hex pc crypto obs" and ?i = "length done"
  obtain r s' where step: "cm_call_step debug F hex pc crypto obs c s = (r, s')" by fastforce
  let ?ts = "map Finished done @ map ?p (c # cs)"
  obtain n where n: "run_schedule (replicate n ?i) (?ts, s) =
      (?ts[?i := Finished (fst (run_prog (?ts ! ?i) s))], snd (run_prog (?ts ! ?i) s))"
    using run_alone [of ?i ?ts s] by auto
  have "?ts ! ?i = ?p c" by (simp add: nth_append)
  then have n: "run_schedule (replicate n ?i) (?ts, s) = (map Finished (done @ [r]) @ map ?p cs, s')"
    using n by (simp add: run_call step list_update_append)
  obtain js where "run_schedule js (map Finished (done @ [r]) @ map ?p cs, s') =
     (map Finished ((done @ [r]) @ fst (cm_run debug F hex pc crypto obs cs s')),
      snd (cm_run debug F hex pc crypto obs cs s'))"
    using Cons.IH by blast
  with n have "run_schedule (replicate n ?i @ js) (?ts, s) =
     (map Finished (done @ fst (cm_run debug F hex pc crypto obs (c # cs) s)),
      snd (cm_run debug F hex pc crypto obs (c # cs) s))"
    by (simp add: run_schedule_append step Let_def case_prod_beta)
  then show ?case by blast
qed

subsection \<open>A stamp overtaken by another call\<close>

text \<open>A thread that stamps, once it has taken its number.\<close>

lemma stamp_takes_number:
  assumes "\<not> cm_is_dormant s" and "cm_current_tick s + 1 \<noteq> 0"
  obtains q where
    "run_schedule [0, 0] (call_prog debug F hex pc crypto obs (CallStamp inp l content echo) # ts, s) =
       (q # ts, s\<lparr>cm_current_tick := cm_current_tick s + 1\<rparr>)"
    and "run_prog q =
       sbind (sbind (smod (\<lambda>s. s\<lparr>cm_chronon_stamp_count := cm_chronon_stamp_count s + 1\<rparr>)) (\<lambda>_.
         create_foretis F hex pc crypto (obs l) inp (cm_current_tick s + 1) content echo)) (\<lambda>st.
         sret (Some st))"
proof -
  let ?p = "call_prog debug F hex pc crypto obs (CallStamp inp l content echo)"
  have dormant: "sget cm_is_dormant s = (Ok False, s)" using assms(1) by (simp add: sget_def)
  have tick: "next_tick debug s = (Ok (cm_current_tick s + 1), s\<lparr>cm_current_tick := cm_current_tick s + 1\<rparr>)"
    using assms(2) by (simp add: next_tick_def add_one_no_overflow)
  obtain k where k: "stamp_prog debug F hex pc crypto (obs l) inp content echo =
      pthen (atomic (sget cm_is_dormant)) (\<lambda>dormant.
        if dormant then Finished (Err (Internal ''Cannot stamp: Chronomatter is in verify-only mode''))
        else pthen (atomic (next_tick debug)) k)"
    and run: "\<And>t. run_prog (k t) =
      sbind (smod (\<lambda>s. s\<lparr>cm_chronon_stamp_count := cm_chronon_stamp_count s + 1\<rparr>)) (\<lambda>_.
        create_foretis F hex pc crypto (obs l) inp t content echo)"
  proof -
    show thesis if "\<And>k. stamp_prog debug F hex pc crypto (obs l) inp content echo =
      pthen (atomic (sget cm_is_dormant)) (\<lambda>dormant.
        if dormant then Finished (Err (Internal ''Cannot stamp: Chronomatter is in verify-only mode''))
        else pthen (atomic (next_tick debug)) k) \<Longrightarrow> (\<And>t. run_prog (k t) =
      sbind (smod (\<lambda>s. s\<lparr>cm_chronon_stamp_count := cm_chronon_stamp_count s + 1\<rparr>)) (\<lambda>_.
        create_foretis F hex pc crypto (obs l) inp t content echo)) \<Longrightarrow> thesis" for thesis
      by (rule that [OF stamp_prog_def])
        (simp add: create_foretis_def run_simps run_store run_tick_record cong: if_cong)
  qed
  let ?q = "\<lambda>t. pthen (k t) (\<lambda>st. Finished (Ok (Some st)))"
  have "run_schedule [0, 0] (?p # ts, s) =
      run_schedule [0] (pthen (atomic (next_tick debug)) ?q # ts, s)"
    by (simp only: call_prog.simps k pthen_assoc run_schedule_first [where m = "sget cm_is_dormant", OF dormant] if_False)
  also have "\<dots> = (?q (cm_current_tick s + 1) # ts, s\<lparr>cm_current_tick := cm_current_tick s + 1\<rparr>)"
    by (simp only: run_schedule_first [where m = "next_tick debug", OF tick] run_schedule.simps(1))
  finally show ?thesis
    by (rule that) (simp add: run sret_slift)
qed

text \<open>
  The schedule of the race: the first stamp takes its number, the second runs from its start to
  its end, the first goes on.
\<close>

lemma overtaken_stamp:
  assumes "\<not> cm_is_dormant s" and "cm_current_tick s + 1 \<noteq> 0"
    and "cm_call_step debug F hex pc crypto obs c (s\<lparr>cm_current_tick := cm_current_tick s + 1\<rparr>) = (r, s2)"
    and "create_foretis F hex pc crypto (obs l) inp (cm_current_tick s + 1) content echo
      (s2\<lparr>cm_chronon_stamp_count := cm_chronon_stamp_count s2 + 1\<rparr>) = (Ok st, s3)"
  shows "thread_steps
    (map (call_prog debug F hex pc crypto obs) [CallStamp inp l content echo, c], s)
    ([Finished (Ok (Some st)), Finished r], s3)"
proof -
  let ?p = "call_prog debug F hex pc crypto obs" and ?c = "CallStamp inp l content echo"
    and ?s1 = "s\<lparr>cm_current_tick := cm_current_tick s + 1\<rparr>"
  obtain q where q: "run_schedule [0, 0] (?p ?c # [?p c], s) = (q # [?p c], ?s1)"
    and "run_prog q =
       sbind (sbind (smod (\<lambda>s. s\<lparr>cm_chronon_stamp_count := cm_chronon_stamp_count s + 1\<rparr>)) (\<lambda>_.
         create_foretis F hex pc crypto (obs l) inp (cm_current_tick s + 1) content echo)) (\<lambda>st.
         sret (Some st))"
    by (rule stamp_takes_number [OF assms(1,2)])
  then have run: "run_prog q s2 = (Ok (Some st), s3)" by (simp add: stateful_simps assms(4))
  obtain n where n: "run_schedule (replicate n 1) ([q, ?p c], ?s1) = ([q, Finished r], s2)"
    using run_alone [of 1 "[q, ?p c]" ?s1] assms(3) by (auto simp: run_call)
  obtain m where m: "run_schedule (replicate m 0) ([q, Finished r], s2) =
      ([Finished (Ok (Some st)), Finished r], s3)"
    using run_alone [of 0 "[q, Finished r]" s2] run by auto
  have "run_schedule ([0, 0] @ replicate n 1 @ replicate m 0) (map ?p [?c, c], s) =
      ([Finished (Ok (Some st)), Finished r], s3)"
    unfolding run_schedule_append list.map q n m ..
  then show ?thesis using run_schedule_steps by metis
qed

subsection \<open>What survives interference\<close>

lemmas prog_intros = prog_keeps_pthen prog_keeps_atomic prog_keeps_if prog_keeps_split prog_keeps.finished
  keeps_swap keeps_sign keeps_emit keeps_read keeps_sget keeps_current keeps_next_tick

lemma prog_keeps_store:
  "prog_keeps (safe_from (records :: 'a \<Rightarrow> chronon_record list) invar (F :: 'c ffi) o0) (store_prog F g)"
proof -
  have "keeps (safe_from records invar F o0)
      (smod (store_keypair \<lparr>kp_pub_key = ffi_ed25519_public F k, kp_priv_key = k\<rparr>)
        :: (('c, 'a) chronomatter, unit, node_error) stateful)" for k
  proof -
    have "generate_and_store_keypair F (Ok k) =
        smod (store_keypair \<lparr>kp_pub_key = ffi_ed25519_public F k, kp_priv_key = k\<rparr>)"
      by (rule ext) (simp add: generate_and_store_keypair_def handle_public_key_def)
    then show ?thesis using keeps_generate [of records invar F o0 "Ok k"] by metis
  qed
  then show ?thesis
    by (cases g) (auto simp: store_prog_def handle_public_key_def pthen_def
        intro: prog_keeps.finished prog_keeps_atomic)
qed

lemma prog_keeps_report:
  "prog_keeps (safe_from records invar F o0) m \<Longrightarrow> prog_keeps (safe_from records invar F o0) (report_prog m)"
  unfolding report_prog_def
  by (erule prog_keeps_pbind) (auto split: result.splits intro!: prog_intros)

lemma prog_keeps_auto_attestation:
  "prog_keeps (safe_from records invar F o0) (auto_attestation_prog G hex rn tick pub)"
  unfolding auto_attestation_prog_def by (intro prog_intros)

lemma prog_keeps_tick_record:
  "prog_keeps (safe_from records invar F o0) (tick_record_prog G hex crypto rn tick pub)"
  unfolding tick_record_prog_def genesis_with_pqc_prog_def
  by (intro prog_intros prog_keeps_report prog_keeps_auto_attestation)
    (auto split: option.splits intro!: prog_intros prog_keeps_report prog_keeps_auto_attestation)

context tick_observer
begin

lemma prog_keeps_daemon_tick:
  "prog_keeps (safe_from records invar F o0) (daemon_tick_prog debug F hex crypto (notify l) inp)"
  unfolding daemon_tick_prog_def
  by (intro prog_intros prog_keeps_store prog_keeps_tick_record keeps_notify)

lemma prog_keeps_stamp:
  "prog_keeps (safe_from records invar F o0) (stamp_prog debug F hex pc crypto (notify l) inp content echo)"
proof -
  have "keeps (safe_from records invar F o0)
      (smod (\<lambda>s. s\<lparr>cm_chronon_stamp_count := cm_chronon_stamp_count s + 1\<rparr>))"
    by (rule keeps_smod) (simp add: safe_from_def)
  then show ?thesis
    unfolding stamp_prog_def
    by (intro prog_intros prog_keeps_store prog_keeps_tick_record keeps_notify)
qed

lemma prog_keeps_call:
  "prog_keeps (safe_from records invar F o0) (call_prog debug F hex pc crypto notify c)"
proof (cases c)
  case (CallSetDormant d)
  have "keeps (safe_from records invar F o0) (smod (set_dormant d))"
    by (rule keeps_smod) (simp add: safe_from_def set_dormant_def)
  then show ?thesis unfolding CallSetDormant call_prog.simps by (intro prog_intros)
qed (auto intro!: prog_keeps_pthen prog_keeps.finished prog_keeps_stamp prog_keeps_daemon_tick)

text \<open>
  Whatever the interleaving of any number of calls: at most two key pairs, every one with
  its own public key, and a calendar that is in order and only grew.
\<close>

theorem concurrent_calls_safe:
  assumes "thread_steps (map (call_prog debug F hex pc crypto notify) calls, s) (ts, s')"
    and "safe_from records invar F o0 s"
  shows "safe_from records invar F o0 s'"
proof -
  have "\<forall>p \<in> set (map (call_prog debug F hex pc crypto notify) calls).
      prog_keeps (safe_from records invar F o0) p"
    by (auto intro: prog_keeps_call)
  from thread_steps_keep [OF assms(1) this assms(2)] show ?thesis by simp
qed

end

end
