(* ===== verification/Collision.thy ===== *)
theory Collision
  imports Chronomatter_Faults
begin

section \<open>Identity collisions\<close>

text \<open>
  Models \<^verbatim>\<open>core-engine/src/collision\<close>: the signed heartbeat (\<^verbatim>\<open>heartbeat.rs\<close>), the
  detector with its window of own nonces (\<^verbatim>\<open>detector.rs\<close>), the liege channel
  (\<^verbatim>\<open>liege.rs\<close>) and the reaction to a confirmed collision (\<^verbatim>\<open>escalation.rs\<close>).
\<close>

subsection \<open>Heartbeats\<close>

record heartbeat =
  hb_peer_id :: string
  hb_timestamp_ns :: u64
  hb_nonce :: bytes
  hb_curve :: u8
  hb_signature :: bytes

definition hb_canonical :: "heartbeat \<Rightarrow> bytes" where
  "hb_canonical hb =
     u16_to_le_bytes (word_of_nat (length (hb_peer_id hb))) @ as_bytes (hb_peer_id hb) @
     to_le_bytes (hb_timestamp_ns hb) @ hb_nonce hb @ [hb_curve hb]"

lemma hb_canonical_inj:
  assumes "length (hb_nonce a) = 16" and "length (hb_nonce b) = 16" and "hb_canonical a = hb_canonical b"
  shows "hb_peer_id a = hb_peer_id b \<and> hb_timestamp_ns a = hb_timestamp_ns b \<and>
    hb_nonce a = hb_nonce b \<and> hb_curve a = hb_curve b"
proof -
  have "length (hb_canonical a) = length (hb_canonical b)" using assms(3) by simp
  then have "length (hb_peer_id a) = length (hb_peer_id b)"
    using assms(1,2) by (simp add: hb_canonical_def)
  with assms show ?thesis by (simp add: hb_canonical_def)
qed

subsection \<open>The detector\<close>

record collision_detector =
  cd_my_peer_id :: string
  cd_my_pub_key :: bytes
  cd_my_nonces :: "bytes list"
  cd_nonce_window :: nat

definition collision_detector_new :: "string \<Rightarrow> bytes \<Rightarrow> nat \<Rightarrow> collision_detector" where
  "collision_detector_new my_peer_id my_pub_key nonce_window =
     \<lparr>cd_my_peer_id = my_peer_id, cd_my_pub_key = my_pub_key, cd_my_nonces = [],
      cd_nonce_window = nonce_window\<rparr>"

definition register_own_nonce :: "bytes \<Rightarrow> collision_detector \<Rightarrow> collision_detector" where
  "register_own_nonce nonce d =
     d\<lparr>cd_my_nonces :=
         (if length (cd_my_nonces d) \<ge> cd_nonce_window d then tl (cd_my_nonces d)
          else cd_my_nonces d) @ [nonce]\<rparr>"

text \<open>
  \<open>Ok (Some hb)\<close> is \<^verbatim>\<open>Some(Confirmed { foreign_heartbeat })\<close>; \<^verbatim>\<open>.ok()?\<close> turns an error
  of the verifier into no event.
\<close>

definition on_heartbeat ::
    "heartbeat \<Rightarrow> crypto_server \<Rightarrow> collision_detector \<Rightarrow> (heartbeat option, 'e) result" where
  "on_heartbeat hb crypto d =
     (if hb_peer_id hb \<noteq> cd_my_peer_id d then Ok None
      else if list_ex (\<lambda>n. n = hb_nonce hb) (cd_my_nonces d) then Ok None
      else if length (hb_signature hb) < 64 then Ok None
      else (case cs_verify_ed25519 crypto (cd_my_pub_key d) (hb_canonical hb) (take 64 (hb_signature hb)) of
              Ok valid \<Rightarrow> if \<not> valid then Ok None else Ok (Some hb)
            | Err _ \<Rightarrow> Ok None
            | Panic \<Rightarrow> Panic))"

lemma on_heartbeat_confirmed_iff:
  "on_heartbeat hb crypto d = Ok (Some ev) \<longleftrightarrow>
     ev = hb \<and> hb_peer_id hb = cd_my_peer_id d \<and> hb_nonce hb \<notin> set (cd_my_nonces d) \<and>
     64 \<le> length (hb_signature hb) \<and>
     cs_verify_ed25519 crypto (cd_my_pub_key d) (hb_canonical hb) (take 64 (hb_signature hb)) = Ok True"
  by (auto simp: on_heartbeat_def list_ex_iff split: result.splits)

text \<open>
  The window holds exactly the most recent nonces: as many as configured, and one where the
  window is configured as 0.
\<close>

definition recent :: "nat \<Rightarrow> 'a list \<Rightarrow> 'a list" where
  "recent n xs = drop (length xs - n) xs"

lemma recent_snoc: "0 < n \<Longrightarrow> recent n (xs @ [x]) = recent (n - 1) xs @ [x]"
  by (auto simp: recent_def Suc_diff_le)

lemma recent_recent:
  assumes "k \<le> n"
  shows "recent k (recent n xs) = recent k xs"
proof -
  have "length (recent n xs) - k + (length xs - n) = length xs - k"
    using assms by (simp add: recent_def)
  then show ?thesis by (simp add: recent_def)
qed

lemma register_window:
  "register_own_nonce nonce d = d\<lparr>cd_my_nonces := recent (max 1 (cd_nonce_window d) - 1) (cd_my_nonces d) @ [nonce]\<rparr>"
  if "length (cd_my_nonces d) \<le> max 1 (cd_nonce_window d)"
proof (cases "length (cd_my_nonces d) \<ge> cd_nonce_window d")
  case True
  then have "tl (cd_my_nonces d) = recent (max 1 (cd_nonce_window d) - 1) (cd_my_nonces d)"
    using that by (cases "cd_my_nonces d") (auto simp: recent_def drop_Cons')
  with True show ?thesis by (simp add: register_own_nonce_def)
next
  case False
  then show ?thesis using that by (simp add: register_own_nonce_def recent_def)
qed

definition register_all :: "bytes list \<Rightarrow> collision_detector \<Rightarrow> collision_detector" where
  "register_all nonces d = fold register_own_nonce nonces d"

lemma register_all_frame [simp]:
  "cd_my_peer_id (register_all ns d) = cd_my_peer_id d"
  "cd_my_pub_key (register_all ns d) = cd_my_pub_key d"
  "cd_nonce_window (register_all ns d) = cd_nonce_window d"
  by (induction ns arbitrary: d) (simp_all add: register_all_def register_own_nonce_def)

lemma register_all_window:
  "cd_my_nonces (register_all ns (collision_detector_new p k w)) = recent (max 1 w) ns"
proof (induction ns rule: rev_induct)
  case Nil
  show ?case by (simp add: register_all_def collision_detector_new_def recent_def)
next
  case (snoc n ns)
  let ?d = "register_all ns (collision_detector_new p k w)"
  have w: "cd_nonce_window ?d = w" by (simp add: collision_detector_new_def)
  have "register_all (ns @ [n]) (collision_detector_new p k w) = register_own_nonce n ?d"
    by (simp add: register_all_def)
  moreover have "length (cd_my_nonces ?d) \<le> max 1 w" using snoc by (simp add: recent_def)
  ultimately have "cd_my_nonces (register_all (ns @ [n]) (collision_detector_new p k w)) =
      recent (max 1 w - 1) (recent (max 1 w) ns) @ [n]"
    using register_window [of ?d n] snoc w by simp
  also have "\<dots> = recent (max 1 w) (ns @ [n])"
    by (subst recent_snoc) (simp_all add: recent_recent)
  finally show ?case .
qed

subsection \<open>Escalation\<close>

datatype help_reason = IdentityCollision heartbeat | SuspectedBadActor string

text \<open>An unbounded channel: what was sent, and whether its receiver is gone.\<close>

record 'm channel =
  ch_closed :: bool
  ch_sent :: "'m list"

definition ch_send :: "'m \<Rightarrow> 'm channel \<Rightarrow> (unit, node_error) result \<times> 'm channel" where
  "ch_send m c =
     (if ch_closed c then (Err (Internal ''channel closed''), c)
      else (Ok (), c\<lparr>ch_sent := ch_sent c @ [m]\<rparr>))"

definition send_help ::
    "help_reason \<Rightarrow> help_reason channel \<Rightarrow> (unit, node_error) result \<times> help_reason channel" where
  "send_help reason c = ch_send reason c"

definition handle_confirmed_collision ::
    "heartbeat \<Rightarrow> ('k, 'o) chronomatter \<times> help_reason channel \<times> string channel option \<Rightarrow>
     ('k, 'o) chronomatter \<times> help_reason channel \<times> string channel option" where
  "handle_confirmed_collision foreign_heartbeat = (\<lambda>(cm, liege, swarm_cmd_tx).
     (set_dormant True cm, snd (send_help (IdentityCollision foreign_heartbeat) liege),
      map_option (\<lambda>tx. snd (ch_send ''EnterDormancy'' tx)) swarm_cmd_tx))"

subsection \<open>Echoes and encodings\<close>

text \<open>
  A node's own heartbeat that comes back to it is recognised only while its nonce is
  among the last ones in the window. A later echo is confirmed as a collision, and the
  reaction makes the node's own chronomatter refuse every stamp.
\<close>

theorem late_echo_is_a_collision:
  assumes "hb_peer_id hb = p" and "64 \<le> length (hb_signature hb)"
    and "cs_verify_ed25519 crypto key (hb_canonical hb) (take 64 (hb_signature hb)) = Ok True"
  shows "on_heartbeat hb crypto (register_all sent (collision_detector_new p key window)) =
      Ok (if hb_nonce hb \<in> set (recent (max 1 window) sent) then None else Some hb) \<and>
    fst (cm_stamp debug F hex pc crypto obs inp content echo
        (fst (handle_confirmed_collision hb (cm, liege, swarm)))) =
      Err (Internal ''Cannot stamp: Chronomatter is in verify-only mode'')"
proof -
  have "cm_is_dormant (fst (handle_confirmed_collision hb (cm, liege, swarm)))"
    by (simp add: handle_confirmed_collision_def set_dormant_def)
  moreover have "on_heartbeat hb crypto (register_all sent (collision_detector_new p key window)) =
      Ok (if hb_nonce hb \<in> set (recent (max 1 window) sent) then None else Some hb)"
    using assms by (auto simp: on_heartbeat_def register_all_window list_ex_iff)
      (simp_all add: collision_detector_new_def)
  ultimately show ?thesis by (simp add: dormant_stamp)
qed

definition own_heartbeat :: "u8 \<Rightarrow> heartbeat" where
  "own_heartbeat n =
     (let hb = \<lparr>hb_peer_id = ''p'', hb_timestamp_ns = 9, hb_nonce = replicate 16 n, hb_curve = 1, hb_signature = []\<rparr>
      in hb\<lparr>hb_signature := demo_public [1] @ demo_tag 31 (hb_canonical hb)\<rparr>)"

theorem late_echo_is_a_collision_witness:
  "on_heartbeat (own_heartbeat 1) demo_server
     (register_all (map (replicate 16) [1, 2, 3]) (collision_detector_new ''p'' (demo_public [1]) 2)) =
   (Ok (Some (own_heartbeat 1)) :: (heartbeat option, node_error) result)"
proof -
  have "hb_canonical (own_heartbeat 1) =
      hb_canonical \<lparr>hb_peer_id = ''p'', hb_timestamp_ns = 9, hb_nonce = replicate 16 1, hb_curve = 1, hb_signature = []\<rparr>"
    by (simp add: own_heartbeat_def Let_def hb_canonical_def)
  then have sig: "cs_verify_ed25519 demo_server (demo_public [1]) (hb_canonical (own_heartbeat 1))
      (take 64 (hb_signature (own_heartbeat 1))) = Ok True"
    by (simp add: demo_server_def ed25519_verify_def verify_rc_def) (simp add: own_heartbeat_def Let_def)
  have hb: "hb_peer_id (own_heartbeat 1) = ''p''" "64 \<le> length (hb_signature (own_heartbeat 1))"
    by (simp_all add: own_heartbeat_def Let_def)
  have "hb_nonce (own_heartbeat 1) \<notin> set (recent (max 1 2) (map (replicate 16) [1, 2, 3]))"
    by (simp add: own_heartbeat_def Let_def recent_def)
  then show ?thesis
    using late_echo_is_a_collision [OF hb sig, THEN conjunct1, of "map (replicate 16) [1, 2, 3]" 2]
    by (simp only: if_False)
qed

text \<open>
  The bytes a heartbeat signs determine it: with 16-byte nonces, no two heartbeats that
  differ in peer, time, nonce or curve share them, whatever bytes the peer's name holds.
\<close>

theorem heartbeat_encoding_injective:
  assumes "length (hb_nonce a) = 16" and "length (hb_nonce b) = 16"
  shows "hb_canonical a = hb_canonical b \<longleftrightarrow>
    hb_peer_id a = hb_peer_id b \<and> hb_timestamp_ns a = hb_timestamp_ns b \<and>
    hb_nonce a = hb_nonce b \<and> hb_curve a = hb_curve b"
  using hb_canonical_inj [OF assms] by (auto simp: hb_canonical_def)

theorem heartbeat_encoding_injective_witness:
  "hb_canonical (own_heartbeat 1) \<noteq> hb_canonical (own_heartbeat 2)"
  by (subst heartbeat_encoding_injective) (simp_all add: own_heartbeat_def Let_def)

end
