(* ===== verification/Epoch.thy ===== *)
theory Epoch
  imports Probity "HOL-Library.List_Lexorder" "HOL-Library.Char_ord" "HOL-Library.AList"
begin

section \<open>Epochs: scheduler, committee, snapshots\<close>

text \<open>
  Models \<^verbatim>\<open>core-engine/src/epoch\<close> (\<^verbatim>\<open>scheduler.rs\<close>, \<^verbatim>\<open>committee.rs\<close>,
  \<^verbatim>\<open>snapshot.rs\<close>, \<^verbatim>\<open>handler.rs\<close>, \<^verbatim>\<open>frost_bridge.rs\<close>) and the score
  store of \<^verbatim>\<open>core-engine/src/probity/store.rs\<close>.
\<close>

subsection \<open>The scheduler\<close>

record epoch_scheduler =
  es_epoch_duration :: u64
  es_epoch_number :: u64

definition with_clock :: "u64 \<Rightarrow> epoch_scheduler" where
  "with_clock epoch_duration_secs = \<lparr>es_epoch_duration = epoch_duration_secs, es_epoch_number = 0\<rparr>"

definition current_epoch_number :: "epoch_scheduler \<Rightarrow> u64" where
  "current_epoch_number s = es_epoch_number s"

definition next_epoch_number :: "bool \<Rightarrow> epoch_scheduler \<Rightarrow> (u64, 'e) result \<times> epoch_scheduler" where
  "next_epoch_number debug s =
     (add_u64 debug (es_epoch_number s) 1, s\<lparr>es_epoch_number := es_epoch_number s + 1\<rparr>)"

text \<open>A duration is its number of seconds. Division by zero panics in every build.\<close>

definition mul_u64 :: "bool \<Rightarrow> u64 \<Rightarrow> u64 \<Rightarrow> (u64, 'e) result" where
  "mul_u64 debug a b = (if debug \<and> \<not> unat a * unat b < 18446744073709551616 then Panic else Ok (a * b))"

definition align_to_next_boundary :: "bool \<Rightarrow> clock_reading \<Rightarrow> epoch_scheduler \<Rightarrow> (u64, 'e) result" where
  "align_to_next_boundary debug clock s =
     (let now_ns = (case clock of Ok n \<Rightarrow> n | _ \<Rightarrow> 0);
          now_secs = now_ns div 1000000000;
          epoch_secs = es_epoch_duration s
      in if epoch_secs = 0 then Panic
         else
           rbind (add_u64 debug (now_secs div epoch_secs) 1) (\<lambda>next_index.
           rbind (mul_u64 debug next_index epoch_secs) (\<lambda>next.
             Ok (saturating_sub next now_secs))))"

lemma align_zero_panics:
  "es_epoch_duration s = 0 \<Longrightarrow> align_to_next_boundary debug clock s = Panic"
  by (simp add: align_to_next_boundary_def Let_def)

lemma align_spec:
  assumes "es_epoch_duration s \<noteq> 0"
  obtains d where "align_to_next_boundary debug (Ok now_ns) s = Ok d"
    and "0 < unat d" and "unat d \<le> unat (es_epoch_duration s)"
    and "(unat now_ns div 1000000000 + unat d) mod unat (es_epoch_duration s) = 0"
proof -
  let ?e = "es_epoch_duration s"
  define now where "now = now_ns div 1000000000"
  define q where "q = unat now div unat ?e"
  have e: "0 < unat ?e" using assms by (simp add: unat_gt_0)
  have now: "unat now = unat now_ns div 1000000000" by (simp add: now_def unat_div)
  moreover have "unat now_ns < 2 ^ 64" using unsigned_less [of now_ns, where ?'a = nat] by simp
  ultimately have now_small: "unat now < 2 ^ 62" by simp
  have q: "unat (now div ?e) = q" by (simp add: q_def unat_div)
  have "q \<le> unat now" by (simp add: q_def)
  then have q1: "unat (now div ?e) + 1 < 2 ^ 64" using q now_small by simp
  then have step: "unat (now div ?e + 1) = q + 1" using q unat_succ by metis
  have bound: "(q + 1) * unat ?e < 2 ^ 64"
  proof (cases "q = 0")
    case True
    then show ?thesis using unsigned_less [of ?e, where ?'a = nat] by simp
  next
    case False
    have "q * unat ?e \<le> unat now" by (simp add: q_def)
    moreover from False this have "unat ?e \<le> unat now"
      by (metis le_trans mult_le_mono1 nat_mult_1 not_less_eq_eq less_one not_less)
    ultimately show ?thesis using now_small by (simp add: algebra_simps)
  qed
  define n where "n = (now div ?e + 1) * ?e"
  have n: "unat n = (q + 1) * unat ?e"
    using bound step by (simp add: n_def unat_word_ariths)
  have split: "unat now = q * unat ?e + unat now mod unat ?e" by (simp add: q_def)
  have less: "unat now mod unat ?e < unat ?e" using e by simp
  have le: "unat now \<le> unat n" using n split less by simp
  have d: "unat (n - now) = unat n - unat now" using le by (simp add: unat_sub word_le_nat_alt)
  have "align_to_next_boundary debug (Ok now_ns) s = Ok (n - now)"
    using assms bound step q1 le
    by (simp add: align_to_next_boundary_def Let_def now_def [symmetric] add_u64_no_overflow mul_u64_def
        n_def saturating_sub_def word_le_nat_alt)
  moreover have "0 < unat (n - now)" "unat (n - now) \<le> unat ?e"
    using d n split less by simp_all
  moreover have "(unat now_ns div 1000000000 + unat (n - now)) mod unat ?e = 0"
    using d le n now by simp
  ultimately show ?thesis by (rule that)
qed

subsection \<open>The score store and the committee\<close>

text \<open>The store is a hash map; an association list is one with the order it iterates in.\<close>

type_synonym score_store = "(string \<times> f32) list"

definition set_score :: "string \<Rightarrow> f32 \<Rightarrow> score_store \<Rightarrow> score_store" where
  "set_score peer_id score s = AList.update peer_id score s"

definition score_of :: "string \<Rightarrow> score_store \<Rightarrow> f32" where
  "score_of peer_id s = case_option f32_zero id (map_of s peer_id)"

definition all_scores :: "score_store \<Rightarrow> (string \<times> f32) list" where
  "all_scores s = s"

text \<open>
  The comparison of \<^verbatim>\<open>select\<close>, on scores that are numbers, is a linear order on the key of
  an entry: the higher score first, then the peer's name.
\<close>

datatype rank = Rank (rank_score: int) (rank_peer: string)

instantiation rank :: linorder
begin

definition less_eq_rank :: "rank \<Rightarrow> rank \<Rightarrow> bool" where
  "less_eq_rank a b \<longleftrightarrow> rank_score b < rank_score a \<or> rank_score a = rank_score b \<and> rank_peer a \<le> rank_peer b"

definition less_rank :: "rank \<Rightarrow> rank \<Rightarrow> bool" where
  "less_rank a b \<longleftrightarrow> a \<le> b \<and> \<not> b \<le> (a :: rank)"

instance
proof
  fix a b c :: rank
  show "a < b \<longleftrightarrow> a \<le> b \<and> \<not> b \<le> a" by (rule less_rank_def)
  show "a \<le> a" by (simp add: less_eq_rank_def)
  show "a \<le> b \<Longrightarrow> b \<le> c \<Longrightarrow> a \<le> c" by (auto simp: less_eq_rank_def)
  show "a \<le> b \<Longrightarrow> b \<le> a \<Longrightarrow> a = b" by (cases a, cases b) (auto simp: less_eq_rank_def)
  show "a \<le> b \<or> b \<le> a" by (auto simp: less_eq_rank_def)
qed

end

definition rank_of :: "string \<times> f32 \<Rightarrow> rank" where
  "rank_of p = Rank (f32_key (snd p)) (fst p)"

text \<open>
  With a NaN among the scores the comparator is no order, and what \<^verbatim>\<open>sort_by\<close> leaves is
  unspecified: \<open>nan_sort\<close>.
\<close>

record committee_selector =
  cs_committee_size :: nat
  cs_threshold_k :: u32

definition select ::
    "((string \<times> f32) list \<Rightarrow> (string \<times> f32) list) \<Rightarrow> committee_selector \<Rightarrow> score_store \<Rightarrow>
     string list \<times> u32" where
  "select nan_sort sel store =
     (let scored = all_scores store;
          sorted_scores = (if list_ex (\<lambda>p. f32_is_nan (snd p)) scored then nan_sort scored
                    else sort_key rank_of scored)
      in (map fst (take (cs_committee_size sel) sorted_scores), cs_threshold_k sel))"

definition no_nan :: "score_store \<Rightarrow> bool" where
  "no_nan s \<longleftrightarrow> (\<forall>p \<in> set s. \<not> f32_is_nan (snd p))"

lemma rank_inj_on_store: "distinct (map fst s) \<Longrightarrow> inj_on rank_of (set s)"
  by (auto simp: inj_on_def rank_of_def distinct_map)

lemma select_no_nan:
  "no_nan s \<Longrightarrow> select ns sel s =
     (map fst (take (cs_committee_size sel) (sort_key rank_of s)), cs_threshold_k sel)"
  by (auto simp: select_def all_scores_def no_nan_def list_ex_iff Let_def)

text \<open>The committee does not depend on the order in which the hash map iterates.\<close>

lemma sort_key_unique:
  assumes "mset xs = mset ys" and "inj_on f (set xs)"
  shows "sort_key f xs = sort_key f ys"
  using assms by (intro sort_key_inj_key_eq) simp_all

lemma select_order_independent:
  assumes "mset s = mset s'" and "distinct (map fst s)" and "no_nan s"
  shows "select ns sel s = select ns sel s'"
proof -
  have "set s = set s'" using assms(1) by (rule mset_eq_setD)
  then have "no_nan s'" using assms(3) by (simp add: no_nan_def)
  with assms show ?thesis
    using sort_key_unique [OF assms(1) rank_inj_on_store [OF assms(2)]] by (simp add: select_no_nan)
qed

lemma select_distinct:
  assumes "distinct (map fst s)" and "no_nan s"
  shows "distinct (fst (select ns sel s))" and "length (fst (select ns sel s)) = min (length s) (cs_committee_size sel)"
  using assms
  by (simp_all add: select_no_nan take_map [symmetric] distinct_map_sort_key)

lemma select_top:
  assumes "distinct (map fst s)" and "no_nan s"
    and "x \<in> set s" and "fst x \<in> set (fst (select ns sel s))"
    and "y \<in> set s" and "fst y \<notin> set (fst (select ns sel s))"
  shows "f32_key (snd y) \<le> f32_key (snd x)"
proof -
  let ?l = "sort_key rank_of s" and ?n = "cs_committee_size sel"
  have sel: "fst (select ns sel s) = map fst (take ?n ?l)" using assms(2) by (simp add: select_no_nan)
  have inj: "u = v" if "u \<in> set s" "v \<in> set s" "fst u = fst v" for u v
    using that assms(1) by (auto simp: distinct_map dest: inj_onD)
  have "x \<in> set (take ?n ?l)"
  proof -
    obtain z where z: "z \<in> set (take ?n ?l)" "fst z = fst x" using assms(4) by (auto simp: sel)
    then have "z \<in> set s" using in_set_takeD by fastforce
    then have "z = x" using inj [OF _ assms(3)] z(2) by blast
    with z(1) show ?thesis by simp
  qed
  moreover have "y \<in> set (drop ?n ?l)"
  proof -
    have "y \<in> set (take ?n ?l @ drop ?n ?l)" using assms(5) by simp
    moreover have "y \<notin> set (take ?n ?l)" using assms(6) by (auto simp: sel)
    ultimately show ?thesis by (simp only: set_append Un_iff) simp
  qed
  ultimately have "rank_of x \<le> rank_of y" by (intro sorted_drop_take) auto
  then show ?thesis by (auto simp: less_eq_rank_def rank_of_def)
qed

subsection \<open>Snapshots\<close>

record peer_score =
  sc_peer_id :: string
  sc_score :: f32

record epoch_payload =
  ep_epoch_number :: u64
  ep_epoch_start_ns :: u64
  ep_epoch_end_ns :: u64
  ep_peer_scores :: "peer_score list"
  ep_committee :: "string list"
  ep_threshold :: u32
  ep_committee_pubkey :: bytes

record epoch_snapshot_record = epoch_payload +
  ep_frost_signature :: bytes

text \<open>
  What is signed: the JSON encoding (\<^verbatim>\<open>serde_json\<close>, the argument \<open>to_vec\<close>) of the record
  without its signature, with the scores and the committee sorted by name.
\<close>

definition canonical_bytes :: "(epoch_payload \<Rightarrow> bytes) \<Rightarrow> epoch_snapshot_record \<Rightarrow> bytes" where
  "canonical_bytes to_vec s =
     to_vec \<lparr>ep_epoch_number = ep_epoch_number s, ep_epoch_start_ns = ep_epoch_start_ns s,
             ep_epoch_end_ns = ep_epoch_end_ns s,
             ep_peer_scores = sort_key sc_peer_id (ep_peer_scores s),
             ep_committee = sort (ep_committee s), ep_threshold = ep_threshold s,
             ep_committee_pubkey = ep_committee_pubkey s\<rparr>"

lemma canonical_bytes_order:
  assumes "mset (ep_peer_scores s) = mset scores" and "mset (ep_committee s) = mset committee"
    and "distinct (map sc_peer_id (ep_peer_scores s))"
  shows "canonical_bytes to_vec
      (s\<lparr>ep_peer_scores := scores, ep_committee := committee, ep_frost_signature := sig\<rparr>) =
    canonical_bytes to_vec s"
proof -
  have "sort_key sc_peer_id (ep_peer_scores s) = sort_key sc_peer_id scores"
    using assms(1,3) by (intro sort_key_unique) (simp_all add: distinct_map)
  moreover have "sort (ep_committee s) = sort committee"
    using assms(2) by (intro sort_key_unique) simp_all
  ultimately show ?thesis by (simp add: canonical_bytes_def)
qed

definition handle_epoch_snapshot ::
    "('d \<Rightarrow> epoch_snapshot_record option) \<Rightarrow> 'd \<Rightarrow> epoch_scheduler \<Rightarrow>
     (epoch_snapshot_record, node_error) result" where
  "handle_epoch_snapshot from_slice data scheduler =
     rbind (ok_or (BadFormat ''EpochSnapshotRecord deserialization'') (from_slice data)) (\<lambda>snapshot.
     (let current = current_epoch_number scheduler in
      if ep_epoch_number snapshot \<noteq> current
      then Err (Stale (''epoch snapshot '' @ show_u64 (ep_epoch_number snapshot) @
             '' not for current epoch '' @ show_u64 current))
      else if ep_frost_signature snapshot = []
      then Err (BadFormat ''epoch snapshot has empty FROST signature'')
      else if length (ep_frost_signature snapshot) \<noteq> 64
      then Err (BadFormat (''epoch snapshot FROST signature wrong size: '' @
             decimal (length (ep_frost_signature snapshot)) @ '' bytes (expected 64)''))
      else Ok snapshot))"

definition run_frost_round ::
    "u64 \<Rightarrow> u64 \<Rightarrow> u64 \<Rightarrow> string list \<Rightarrow> u32 \<Rightarrow> (epoch_snapshot_record, node_error) result" where
  "run_frost_round epoch_num start_ns end_ns committee threshold_k =
     Ok \<lparr>ep_epoch_number = epoch_num, ep_epoch_start_ns = start_ns, ep_epoch_end_ns = end_ns,
         ep_peer_scores = [], ep_committee = committee, ep_threshold = threshold_k,
         ep_committee_pubkey = replicate 32 0, ep_frost_signature = replicate 64 0\<rparr>"

definition run_frost_round_stub ::
    "u64 \<Rightarrow> u64 \<Rightarrow> u64 \<Rightarrow> peer_score list \<Rightarrow> string list \<Rightarrow> u32 \<Rightarrow>
     (epoch_snapshot_record, node_error) result" where
  "run_frost_round_stub epoch_num start_ns end_ns peer_scores committee threshold =
     Ok \<lparr>ep_epoch_number = epoch_num, ep_epoch_start_ns = start_ns, ep_epoch_end_ns = end_ns,
         ep_peer_scores = sort_key sc_peer_id peer_scores, ep_committee = committee,
         ep_threshold = threshold, ep_committee_pubkey = replicate 32 0xCD,
         ep_frost_signature = replicate 64 0xAB\<rparr>"

lemma handle_epoch_snapshot_Ok_iff:
  "handle_epoch_snapshot from_slice data sch = Ok s \<longleftrightarrow>
     from_slice data = Some s \<and> ep_epoch_number s = es_epoch_number sch \<and>
     length (ep_frost_signature s) = 64"
  by (auto simp: handle_epoch_snapshot_def Let_def result_simps current_epoch_number_def split: if_splits)

subsection \<open>Waiting, choosing, signing\<close>

text \<open>
  The scheduler's wait ends on an epoch boundary, after at least a second and at most
  one epoch, without overflow at any time the clock can show; an epoch of 0 seconds panics.
\<close>

theorem align_reaches_boundary:
  "(es_epoch_duration s = 0 \<longrightarrow> align_to_next_boundary debug clock s = Panic) \<and>
   (es_epoch_duration s \<noteq> 0 \<longrightarrow>
     (\<exists>d. align_to_next_boundary debug (Ok now_ns) s = Ok d \<and> 0 < unat d \<and>
        unat d \<le> unat (es_epoch_duration s) \<and>
        unat (es_epoch_duration s) dvd unat now_ns div 1000000000 + unat d))"
proof (intro conjI impI)
  show "align_to_next_boundary debug clock s = Panic" if "es_epoch_duration s = 0"
    using that by (rule align_zero_panics)
  show "\<exists>d. align_to_next_boundary debug (Ok now_ns) s = Ok d \<and> 0 < unat d \<and>
        unat d \<le> unat (es_epoch_duration s) \<and>
        unat (es_epoch_duration s) dvd unat now_ns div 1000000000 + unat d"
    if "es_epoch_duration s \<noteq> 0"
    by (rule align_spec [OF that, of debug now_ns]) (auto simp: dvd_eq_mod_eq_0)
qed

theorem align_reaches_boundary_witness:
  "\<exists>d. align_to_next_boundary True (Ok 7000000000) (with_clock 5) = Ok d \<and> 5 dvd 7 + unat d \<and> 0 < unat d \<and> unat d \<le> 5"
  using align_reaches_boundary [THEN conjunct2, rule_format, of "with_clock 5" True 7000000000]
  by (auto simp: with_clock_def)

text \<open>
  C38: The committee is the same whatever order the hash map iterates in; it has no peer twice
  and as many peers as it should, and no peer left out has a higher score than one chosen.
\<close>

theorem committee_well_chosen:
  assumes "distinct (map fst s)" and "no_nan s" and "mset s' = mset s"
  shows "select nan_sort sel s' = select nan_sort sel s \<and>
    distinct (fst (select nan_sort sel s)) \<and>
    length (fst (select nan_sort sel s)) = min (length s) (cs_committee_size sel) \<and>
    (\<forall>x \<in> set s. \<forall>y \<in> set s. fst x \<in> set (fst (select nan_sort sel s)) \<and>
       fst y \<notin> set (fst (select nan_sort sel s)) \<longrightarrow> f32_key (snd y) \<le> f32_key (snd x))"
proof (intro conjI ballI impI)
  show "select nan_sort sel s' = select nan_sort sel s"
    by (rule select_order_independent [OF assms(3) [symmetric] assms(1,2), symmetric])
  show "f32_key (snd y) \<le> f32_key (snd x)"
    if "x \<in> set s" "y \<in> set s" "fst x \<in> set (fst (select nan_sort sel s)) \<and>
       fst y \<notin> set (fst (select nan_sort sel s))" for x y
    using select_top [OF assms(1,2) that(1) _ that(2), of nan_sort sel] that(3) by simp
qed (rule select_distinct [OF assms(1,2)])+

theorem committee_well_chosen_witness:
  "select id \<lparr>cs_committee_size = 2, cs_threshold_k = 1\<rparr> [(''c'', 3), (''a'', 9), (''b'', 3)] =
   select id \<lparr>cs_committee_size = 2, cs_threshold_k = 1\<rparr> [(''a'', 9), (''b'', 3), (''c'', 3)]"
proof -
  let ?s = "[(''a'', 9), (''b'', 3), (''c'', 3)] :: score_store"
  have "no_nan ?s" by (simp add: no_nan_def f32_is_nan_def f32_magnitude_def)
  then show ?thesis
    using committee_well_chosen [of ?s "[(''c'', 3), (''a'', 9), (''b'', 3)]" id] by simp
qed

text \<open>
  What an epoch's snapshot signs depends neither on the order of its scores and of its
  committee nor on the signature it carries.
\<close>

theorem snapshot_bytes_canonical:
  assumes "mset (ep_peer_scores s) = mset scores" and "mset (ep_committee s) = mset committee"
    and "distinct (map sc_peer_id (ep_peer_scores s))"
  shows "canonical_bytes to_vec
      (s\<lparr>ep_peer_scores := scores, ep_committee := committee, ep_frost_signature := sig\<rparr>) =
    canonical_bytes to_vec s"
  by (rule canonical_bytes_order) (fact assms)+

theorem snapshot_bytes_canonical_witness:
  "canonical_bytes (\<lambda>p. as_bytes (concat (ep_committee p))) \<lparr>ep_epoch_number = 1, ep_epoch_start_ns = 2, ep_epoch_end_ns = 3,
      ep_peer_scores = [\<lparr>sc_peer_id = ''b'', sc_score = 4\<rparr>, \<lparr>sc_peer_id = ''a'', sc_score = 5\<rparr>],
      ep_committee = [''b'', ''a''], ep_threshold = 2, ep_committee_pubkey = [], ep_frost_signature = [1]\<rparr> =
   canonical_bytes (\<lambda>p. as_bytes (concat (ep_committee p))) \<lparr>ep_epoch_number = 1, ep_epoch_start_ns = 2, ep_epoch_end_ns = 3,
      ep_peer_scores = [\<lparr>sc_peer_id = ''a'', sc_score = 5\<rparr>, \<lparr>sc_peer_id = ''b'', sc_score = 4\<rparr>],
      ep_committee = [''a'', ''b''], ep_threshold = 2, ep_committee_pubkey = [], ep_frost_signature = []\<rparr>"
  using snapshot_bytes_canonical [of "\<lparr>ep_epoch_number = 1, ep_epoch_start_ns = 2, ep_epoch_end_ns = 3,
      ep_peer_scores = [\<lparr>sc_peer_id = ''a'', sc_score = 5\<rparr>, \<lparr>sc_peer_id = ''b'', sc_score = 4\<rparr>],
      ep_committee = [''a'', ''b''], ep_threshold = 2, ep_committee_pubkey = [], ep_frost_signature = []\<rparr>"
      "[\<lparr>sc_peer_id = ''b'', sc_score = 4\<rparr>, \<lparr>sc_peer_id = ''a'', sc_score = 5\<rparr>]" "[''b'', ''a'']" "\<lambda>p. as_bytes (concat (ep_committee p))" "[1]"]
  by (simp add: add_mset_commute)

end
