(* ===== verification/Alists.thy ===== *)
theory Alists
  imports Main "HOL-Library.AList"
begin

section \<open>Association lists\<close>

text \<open>
  A hash map behind a lock is an association list with distinct keys where the code iterates
  over it or counts its entries. What the components share about updating one.
\<close>

lemma set_update_cases: "p \<in> set (AList.update k r rs) \<Longrightarrow> p = (k, r) \<or> p \<in> set rs"
  by (induction rs) (auto split: if_splits)

lemma set_delete_subset: "p \<in> set (AList.delete k rs) \<Longrightarrow> p \<in> set rs"
  by (induction rs) (auto split: if_splits)

lemma map_of_in_snd: "map_of xs k = Some v \<Longrightarrow> v \<in> set (map snd xs)"
  by (force dest: map_of_SomeD)

lemma map_of_update: "map_of (AList.update k v xs) l = (if l = k then Some v else map_of xs l)"
  by (simp add: update_conv')

lemma map_of_delete: "map_of (AList.delete k xs) l = (if l = k then None else map_of xs l)"
  by (simp add: delete_conv')

lemma length_update:
  "distinct (map fst xs) \<Longrightarrow>
     length (AList.update k v xs) = (if k \<in> fst ` set xs then length xs else Suc (length xs))"
  by (induction xs) auto

end
