(* ===== verification/Calendar_Lru.thy ===== *)
theory Calendar_Lru
  imports Core_Types Alists
begin

section \<open>The bin-based cache of calendars\<close>

text \<open>
  Models \<^verbatim>\<open>foretias-server/src/calendar_store/lru.rs\<close>: the records of peers' calendars
  in three bins, their byte count, and eviction. The hash map is an association list, in the
  order it iterates; the random choice of a victim is the next element of \<open>picks\<close>. The byte
  counter is atomic and wraps; \<open>debug\<close> is whether plain sums and differences are checked.
\<close>

datatype calendar_bin = MyOwn | Used | Unused

datatype calendar_storage_policy =
    Everything
  | PolicyMyOwn
  | MyOwnPlusLru u64

record calendar_record =
  lr_peer_id :: string
  lr_bin :: calendar_bin
  lr_size_bytes :: u64
  lr_last_touch :: u64
  lr_path :: string

record bin_based_lru =
  lru_max_bytes :: u64
  lru_current_bytes :: u64
  lru_records :: "(string \<times> calendar_record) list"
  lru_removed_files :: "string list"

definition UNLIMITED_BUDGET :: u64 where
  "UNLIMITED_BUDGET = u64_max"

definition lru_with_clock :: "u64 \<Rightarrow> bin_based_lru" where
  "lru_with_clock max_bytes =
     \<lparr>lru_max_bytes = max_bytes, lru_current_bytes = 0, lru_records = [], lru_removed_files = []\<rparr>"

definition lru_unlimited :: bin_based_lru where
  "lru_unlimited = lru_with_clock UNLIMITED_BUDGET"

definition lru_get :: "string \<Rightarrow> bin_based_lru \<Rightarrow> calendar_record option" where
  "lru_get peer_id l = map_of (lru_records l) peer_id"

definition lru_len :: "bin_based_lru \<Rightarrow> nat" where
  "lru_len l = length (lru_records l)"

definition lru_insert :: "calendar_record \<Rightarrow> bin_based_lru \<Rightarrow> bin_based_lru" where
  "lru_insert rec l =
     (let is_new = lru_get (lr_peer_id rec) l = None;
          l' = (if is_new then l\<lparr>lru_current_bytes := lru_current_bytes l + lr_size_bytes rec\<rparr> else l)
      in l'\<lparr>lru_records := AList.update (lr_peer_id rec) rec (lru_records l')\<rparr>)"

definition lru_touch :: "clock_reading \<Rightarrow> string \<Rightarrow> bin_based_lru \<Rightarrow> bin_based_lru" where
  "lru_touch clock peer_id l = (case lru_get peer_id l of
     None \<Rightarrow> l
   | Some rec \<Rightarrow> l\<lparr>lru_records := AList.update peer_id
         (rec\<lparr>lr_last_touch := (case clock of Ok n \<Rightarrow> n | _ \<Rightarrow> 0), lr_bin := Used\<rparr>) (lru_records l)\<rparr>)"

definition demote_one :: "bool \<Rightarrow> u64 \<Rightarrow> u64 \<Rightarrow> calendar_record \<Rightarrow> (calendar_record, 'e) result" where
  "demote_one debug now stale_threshold_ns rec =
     (if lr_bin rec = Used
      then rbind (sub_u64 debug now (lr_last_touch rec)) (\<lambda>age.
             Ok (if age > stale_threshold_ns then rec\<lparr>lr_bin := Unused\<rparr> else rec))
      else Ok rec)"

definition demote_stale_to_unused ::
    "bool \<Rightarrow> clock_reading \<Rightarrow> u64 \<Rightarrow> bin_based_lru \<Rightarrow> (bin_based_lru, 'e) result" where
  "demote_stale_to_unused debug clock stale_threshold_ns l =
     (let now = (case clock of Ok n \<Rightarrow> n | _ \<Rightarrow> 0)
      in rbind (try_map (\<lambda>(k, rec). rbind (demote_one debug now stale_threshold_ns rec) (\<lambda>rec'. Ok (k, rec')))
                  (lru_records l)) (\<lambda>records'. Ok (l\<lparr>lru_records := records'\<rparr>)))"

definition unused :: "bin_based_lru \<Rightarrow> calendar_record list" where
  "unused l = filter (\<lambda>r. lr_bin r = Unused) (map snd (lru_records l))"

definition pick_unused_random :: "nat \<Rightarrow> bin_based_lru \<Rightarrow> calendar_record option" where
  "pick_unused_random pick l =
     (let candidates = unused l
      in if candidates = [] then None else Some (candidates ! (pick mod length candidates)))"

definition lru_evict :: "calendar_record \<Rightarrow> bin_based_lru \<Rightarrow> bin_based_lru" where
  "lru_evict rec l =
     l\<lparr>lru_removed_files := lru_removed_files l @ [lr_path rec],
       lru_current_bytes := lru_current_bytes l - lr_size_bytes rec,
       lru_records := AList.delete (lr_peer_id rec) (lru_records l)\<rparr>"

text \<open>
  The loop removes the victim's key each time round. A record is stored under its own peer's
  key by \<open>lru_insert\<close>, so the map shrinks; a record under another key would not be removed
  and the loop would not end: \<open>fuel\<close> is the number of rounds, and
  \<open>evict_to_fit_enough\<close> shows that the number of records is enough. \<open>None\<close> is a loop
  that has not ended.
\<close>

fun evict_loop ::
    "bool \<Rightarrow> nat \<Rightarrow> nat list \<Rightarrow> u64 \<Rightarrow> bin_based_lru \<Rightarrow> ((unit, node_error) result \<times> bin_based_lru) option" where
  "evict_loop debug fuel picks incoming_bytes l =
     (case add_u64 debug (lru_current_bytes l) incoming_bytes of
        Panic \<Rightarrow> Some (Panic, l)
      | Err e \<Rightarrow> Some (Err e, l)
      | Ok needed \<Rightarrow>
        if needed > lru_max_bytes l then
          (case pick_unused_random (case picks of [] \<Rightarrow> 0 | p # _ \<Rightarrow> p) l of
             None \<Rightarrow> Some (Err OutOfSpace, l)
           | Some rec \<Rightarrow>
               (case fuel of
                  0 \<Rightarrow> None
                | Suc fuel' \<Rightarrow> evict_loop debug fuel' (tl picks) incoming_bytes (lru_evict rec l)))
        else Some (Ok (), l))"

declare evict_loop.simps [simp del]

definition evict_to_fit ::
    "bool \<Rightarrow> nat \<Rightarrow> nat list \<Rightarrow> u64 \<Rightarrow> bin_based_lru \<Rightarrow> ((unit, node_error) result \<times> bin_based_lru) option" where
  "evict_to_fit debug fuel picks incoming_bytes l =
     (if lru_max_bytes l = UNLIMITED_BUDGET then Some (Ok (), l)
      else evict_loop debug fuel picks incoming_bytes l)"

definition lru_remove :: "string \<Rightarrow> bin_based_lru \<Rightarrow> calendar_record option \<times> bin_based_lru" where
  "lru_remove peer_id l =
     (let rec = lru_get peer_id l; l' = l\<lparr>lru_records := AList.delete peer_id (lru_records l)\<rparr>
      in (rec, case rec of None \<Rightarrow> l'
                 | Some r \<Rightarrow> l'\<lparr>lru_current_bytes := lru_current_bytes l' - lr_size_bytes r\<rparr>))"

subsection \<open>The cache's invariant\<close>

text \<open>Distinct keys, each record under its own peer, and the counter is the sum of the sizes.\<close>

definition sizes :: "(string \<times> calendar_record) list \<Rightarrow> u64" where
  "sizes rs = sum_list (map (\<lambda>p. lr_size_bytes (snd p)) rs)"

definition lru_keys_ok :: "(string \<times> calendar_record) list \<Rightarrow> bool" where
  "lru_keys_ok rs \<longleftrightarrow> distinct (map fst rs) \<and> (\<forall>(k, r) \<in> set rs. lr_peer_id r = k)"

definition lru_inv :: "bin_based_lru \<Rightarrow> bool" where
  "lru_inv l \<longleftrightarrow> lru_keys_ok (lru_records l) \<and> lru_current_bytes l = sizes (lru_records l)"

lemma sizes_delete:
  assumes "distinct (map fst rs)" and "map_of rs k = Some r"
  shows "sizes (AList.delete k rs) = sizes rs - lr_size_bytes r"
  using assms
proof (induction rs)
  case (Cons p rs)
  show ?case
  proof (cases "fst p = k")
    case True
    then have "AList.delete k rs = rs" using Cons.prems(1) by (intro delete_id) auto
    with True Cons.prems show ?thesis by (cases p) (simp add: sizes_def)
  next
    case False
    with Cons show ?thesis by (cases p) (simp add: sizes_def)
  qed
qed simp

lemma sizes_update:
  assumes "distinct (map fst rs)"
  shows "sizes (AList.update k r rs) =
    (case map_of rs k of None \<Rightarrow> sizes rs + lr_size_bytes r
     | Some r0 \<Rightarrow> sizes rs - lr_size_bytes r0 + lr_size_bytes r)"
  using assms
  by (induction rs) (auto simp: sizes_def algebra_simps split: option.splits)

lemma keys_ok_update: "lru_keys_ok rs \<Longrightarrow> lr_peer_id r = k \<Longrightarrow> lru_keys_ok (AList.update k r rs)"
  by (auto simp: lru_keys_ok_def distinct_update dest!: set_update_cases)

lemma keys_ok_delete: "lru_keys_ok rs \<Longrightarrow> lru_keys_ok (AList.delete k rs)"
  by (auto simp: lru_keys_ok_def distinct_delete dest!: set_delete_subset)

lemma lru_inv_new [simp]: "lru_inv (lru_with_clock m)"
  by (simp add: lru_inv_def lru_keys_ok_def lru_with_clock_def sizes_def)

lemma lru_insert_inv:
  assumes "lru_inv l"
  shows "lru_inv (lru_insert rec l) \<longleftrightarrow>
    (\<forall>old. lru_get (lr_peer_id rec) l = Some old \<longrightarrow> lr_size_bytes rec = lr_size_bytes old)"
proof -
  have "distinct (map fst (lru_records l))" using assms by (simp add: lru_inv_def lru_keys_ok_def)
  from sizes_update [OF this, of "lr_peer_id rec" rec] keys_ok_update [of "lru_records l" rec] assms
  show ?thesis
    by (auto simp: lru_inv_def lru_insert_def Let_def lru_get_def algebra_simps split: option.splits)
qed

lemma lru_touch_inv: "lru_inv l \<Longrightarrow> lru_inv (lru_touch clock peer l)"
proof -
  assume inv: "lru_inv l"
  then have d: "distinct (map fst (lru_records l))" by (simp add: lru_inv_def lru_keys_ok_def)
  have "lr_peer_id r = peer" if "map_of (lru_records l) peer = Some r" for r
    using inv map_of_SomeD [OF that] by (auto simp: lru_inv_def lru_keys_ok_def)
  then show ?thesis
    using inv
    by (auto simp: lru_touch_def lru_get_def lru_inv_def sizes_update [OF d] intro!: keys_ok_update
        split: option.splits)
qed

lemma lru_remove_inv: "lru_inv l \<Longrightarrow> lru_inv (snd (lru_remove peer l))"
  using sizes_delete [of "lru_records l" peer]
  by (auto simp: lru_inv_def lru_remove_def Let_def lru_get_def keys_ok_delete lru_keys_ok_def map_of_eq_None_iff
      split: option.splits intro!: keys_ok_delete [unfolded lru_keys_ok_def])

lemma demote_one_frame:
  "demote_one debug now t r = Ok r' \<Longrightarrow> lr_peer_id r' = lr_peer_id r \<and> lr_size_bytes r' = lr_size_bytes r \<and>
     (lr_bin r = MyOwn \<longrightarrow> lr_bin r' = MyOwn)"
  by (auto simp: demote_one_def result_simps split: if_splits)

lemma demote_inv:
  assumes "lru_inv l" and "demote_stale_to_unused debug clock t l = (Ok l' :: (bin_based_lru, 'e) result)"
  shows "lru_inv l'"
proof -
  let ?now = "case clock of Ok n \<Rightarrow> n | _ \<Rightarrow> 0"
  obtain rs where l': "l' = l\<lparr>lru_records := rs\<rparr>"
    and rs: "try_map (\<lambda>(k, rec). rbind (demote_one debug ?now t rec) (\<lambda>rec'. Ok (k, rec')))
      (lru_records l) = (Ok rs :: (_, 'e) result)"
    using assms(2) by (auto simp: demote_stale_to_unused_def Let_def result_simps)
  have "list_all2 (\<lambda>p q. fst q = fst p \<and> lr_peer_id (snd q) = lr_peer_id (snd p) \<and>
      lr_size_bytes (snd q) = lr_size_bytes (snd p)) (lru_records l) rs"
    using rs [unfolded try_map_Ok_iff]
    by (rule list_all2_mono) (auto simp: result_simps dest: demote_one_frame)
  then have "map fst rs = map fst (lru_records l) \<and> sizes rs = sizes (lru_records l) \<and>
      ((\<forall>(k, r) \<in> set (lru_records l). lr_peer_id r = k) \<longrightarrow> (\<forall>(k, r) \<in> set rs. lr_peer_id r = k))"
    by (induction rule: list_all2_induct) (auto simp: sizes_def)
  then show ?thesis using assms(1) l' by (simp add: lru_inv_def lru_keys_ok_def)
qed

subsection \<open>Eviction\<close>

lemma pick_in_unused: "pick_unused_random pick l = Some r \<Longrightarrow> r \<in> set (unused l)"
  by (auto simp: pick_unused_random_def Let_def split: if_splits)

lemma unused_stored:
  assumes "lru_keys_ok (lru_records l)" and "r \<in> set (unused l)"
  shows "lru_get (lr_peer_id r) l = Some r" and "lr_bin r = Unused"
  using assms by (auto simp: unused_def lru_get_def lru_keys_ok_def intro!: map_of_is_SomeI)

lemma evict_inv:
  assumes "lru_inv l" and "r \<in> set (unused l)"
  shows "lru_inv (lru_evict r l)"
  using assms unused_stored [of l r] sizes_delete [of "lru_records l" "lr_peer_id r" r]
  by (simp add: lru_inv_def lru_evict_def keys_ok_delete lru_get_def lru_keys_ok_def [of "lru_records l"])

lemma length_delete_less: "map_of rs k = Some r \<Longrightarrow> length (AList.delete k rs) < length rs"
proof (induction rs)
  case (Cons p rs)
  then show ?case
    using length_delete_le [of k rs] by (cases p) (auto simp: less_Suc_eq_le split: if_splits)
qed simp

lemma evict_loop_ends:
  assumes "lru_inv l" and "length (lru_records l) \<le> fuel"
  shows "\<exists>out l'. evict_loop debug fuel picks incoming l = Some (out, l')"
  using assms
proof (induction debug fuel picks incoming l rule: evict_loop.induct)
  case (1 debug fuel picks incoming l)
  show ?case
  proof (cases "add_u64 debug (lru_current_bytes l) incoming :: (u64, node_error) result")
    case (Ok needed)
    show ?thesis
    proof (cases "needed > lru_max_bytes l")
      case True
      show ?thesis
      proof (cases "pick_unused_random (case picks of [] \<Rightarrow> 0 | p # _ \<Rightarrow> p) l")
        case None
        with Ok True show ?thesis by (subst evict_loop.simps) simp
      next
        case (Some r)
        then have r: "r \<in> set (unused l)" by (rule pick_in_unused)
        then have "map_of (lru_records l) (lr_peer_id r) = Some r"
          using unused_stored "1.prems"(1) by (simp add: lru_inv_def lru_get_def)
        then have less: "length (lru_records (lru_evict r l)) < length (lru_records l)"
          by (simp add: lru_evict_def length_delete_less)
        then obtain fuel' where fuel: "fuel = Suc fuel'" using "1.prems"(2) by (cases fuel) auto
        have "\<exists>out l'. evict_loop debug fuel' (tl picks) incoming (lru_evict r l) = Some (out, l')"
          using "1.IH" [OF Ok True Some fuel] evict_inv [OF "1.prems"(1) r] less "1.prems"(2) fuel by simp
        with Ok True Some fuel show ?thesis by (subst evict_loop.simps) simp
      qed
    next
      case False
      with Ok show ?thesis by (subst evict_loop.simps) simp
    qed
  qed (subst evict_loop.simps, simp)+
qed

lemma evict_loop_spec:
  assumes "lru_inv l" and "evict_loop debug fuel picks incoming l = Some (out, l')"
  shows "lru_inv l' \<and> lru_max_bytes l' = lru_max_bytes l \<and>
    (\<forall>k r. lru_get k l = Some r \<and> lr_bin r \<noteq> Unused \<longrightarrow> lru_get k l' = Some r) \<and>
    (\<forall>k r. lru_get k l' = Some r \<longrightarrow> lru_get k l = Some r) \<and>
    (out = Ok () \<longrightarrow> lru_current_bytes l' + incoming \<le> lru_max_bytes l \<and>
       (debug \<longrightarrow> lru_current_bytes l' \<le> lru_current_bytes l' + incoming)) \<and>
    (is_ok out \<or> out = Panic \<or> out = Err OutOfSpace \<and> unused l' = [])"
  using assms
proof (induction debug fuel picks incoming l rule: evict_loop.induct)
  case (1 debug fuel picks incoming l)
  show ?case
  proof (cases "add_u64 debug (lru_current_bytes l) incoming :: (u64, node_error) result")
    case (Ok needed)
    then have needed: "needed = lru_current_bytes l + incoming"
      and fits: "debug \<Longrightarrow> lru_current_bytes l \<le> lru_current_bytes l + incoming"
      by (auto simp: add_u64_def not_less split: if_splits)
    show ?thesis
    proof (cases "needed > lru_max_bytes l")
      case True
      show ?thesis
      proof (cases "pick_unused_random (case picks of [] \<Rightarrow> 0 | p # _ \<Rightarrow> p) l")
        case None
        with Ok True "1.prems" show ?thesis
          by (subst (asm) evict_loop.simps)
            (auto simp: pick_unused_random_def Let_def split: if_splits)
      next
        case (Some r)
        then have r: "r \<in> set (unused l)" by (rule pick_in_unused)
        then have st: "lru_get (lr_peer_id r) l = Some r" "lr_bin r = Unused"
          using unused_stored "1.prems"(1) by (auto simp: lru_inv_def)
        from Ok True Some "1.prems"(2) obtain fuel' where fuel: "fuel = Suc fuel'"
          and rec: "evict_loop debug fuel' (tl picks) incoming (lru_evict r l) = Some (out, l')"
          by (subst (asm) evict_loop.simps) (auto split: nat.splits)
        note ih = "1.IH" [OF Ok True Some fuel evict_inv [OF "1.prems"(1) r] rec]
        have get: "lru_get k (lru_evict r l) = (if k = lr_peer_id r then None else lru_get k l)" for k
          by (simp add: lru_get_def lru_evict_def delete_conv')
        have max: "lru_max_bytes (lru_evict r l) = lru_max_bytes l" by (simp add: lru_evict_def)
        have "lru_get k l' = Some q" if "lru_get k l = Some q" "lr_bin q \<noteq> Unused" for k q
        proof -
          have "k \<noteq> lr_peer_id r" using that st by auto
          then have "lru_get k (lru_evict r l) = Some q" using that(1) get by simp
          with ih that(2) show ?thesis by blast
        qed
        moreover have "lru_get k l = Some q" if "lru_get k l' = Some q" for k q
        proof -
          have "lru_get k (lru_evict r l) = Some q" using ih that by blast
          then show ?thesis using get [of k] by (simp split: if_splits)
        qed
        ultimately show ?thesis using ih unfolding max by (intro conjI allI impI; (elim conjE)?; blast)
      qed
    next
      case False
      with Ok "1.prems" needed fits show ?thesis
        by (subst (asm) evict_loop.simps) auto
    qed
  next
    case (Err e)
    then show ?thesis by (auto simp: add_u64_def split: if_splits)
  next
    case Panic
    then have "out = Panic" "l' = l" using "1.prems"(2) by (subst (asm) evict_loop.simps, simp)+
    then show ?thesis using "1.prems"(1) by simp
  qed
qed

subsection \<open>The counter and the room made\<close>

text \<open>
  The cache's byte counter is the sum of the sizes of its records, each stored under its
  own peer, through touches, removals and demotions. Inserting keeps it so exactly when the
  peer is new or the record has the size of the one it replaces.
\<close>

theorem lru_counter_exact:
  assumes "lru_inv l"
  shows "lru_inv (lru_touch clock peer l) \<and> lru_inv (snd (lru_remove peer l)) \<and>
    (\<forall>l'. demote_stale_to_unused debug clock stale l = (Ok l' :: (bin_based_lru, node_error) result) \<longrightarrow> lru_inv l') \<and>
    (lru_inv (lru_insert rec l) \<longleftrightarrow>
      (\<forall>old. lru_get (lr_peer_id rec) l = Some old \<longrightarrow> lr_size_bytes rec = lr_size_bytes old))"
  using assms lru_touch_inv lru_remove_inv lru_insert_inv
  by (intro conjI allI impI) (auto intro: demote_inv)

definition cached :: "string \<Rightarrow> u64 \<Rightarrow> calendar_bin \<Rightarrow> calendar_record" where
  "cached p n b = \<lparr>lr_peer_id = p, lr_bin = b, lr_size_bytes = n, lr_last_touch = 0, lr_path = p\<rparr>"

theorem lru_counter_exact_witness:
  "\<not> lru_inv (lru_insert (cached ''p'' 7 Used) (lru_insert (cached ''p'' 5 Used) (lru_with_clock 100)))"
proof -
  have "lru_inv (lru_insert (cached ''p'' 5 Used) (lru_with_clock 100))"
    by (simp add: lru_inv_def lru_insert_def lru_with_clock_def lru_get_def Let_def lru_keys_ok_def cached_def
        sizes_def)
  from lru_counter_exact [OF this, of _ _ _ _ "cached ''p'' 7 Used", THEN conjunct2, THEN conjunct2, THEN conjunct2]
  show ?thesis by (simp add: lru_insert_def lru_with_clock_def lru_get_def Let_def cached_def)
qed

lemma evict_to_fit_cases:
  "evict_to_fit debug fuel picks incoming l = Some (out, l') \<Longrightarrow>
     lru_max_bytes l = UNLIMITED_BUDGET \<and> out = Ok () \<and> l' = l \<or>
     evict_loop debug fuel picks incoming l = Some (out, l')"
  by (auto simp: evict_to_fit_def split: if_splits)

text \<open>
  C35: Making room ends within as many rounds as there are records, evicts only unused
  calendars, keeps the counter exact, and on success leaves room for the incoming bytes; it
  fails only when nothing unused is left or the sum of the bytes overflows.
\<close>

theorem evict_makes_room:
  assumes "lru_inv l" and "length (lru_records l) \<le> fuel"
  shows "\<exists>out l'. evict_to_fit debug fuel picks incoming l = Some (out, l') \<and> lru_inv l' \<and>
    (\<forall>k r. lru_get k l = Some r \<and> lr_bin r \<noteq> Unused \<longrightarrow> lru_get k l' = Some r) \<and>
    (\<forall>k r. lru_get k l' = Some r \<longrightarrow> lru_get k l = Some r) \<and>
    (out = Ok () \<longrightarrow> lru_max_bytes l = UNLIMITED_BUDGET \<or>
       lru_current_bytes l' + incoming \<le> lru_max_bytes l \<and>
       (debug \<longrightarrow> lru_current_bytes l' \<le> lru_current_bytes l' + incoming)) \<and>
    (is_ok out \<or> out = Panic \<or> out = Err OutOfSpace \<and> unused l' = [])"
proof -
  obtain out l' where run: "evict_to_fit debug fuel picks incoming l = Some (out, l')"
    using evict_loop_ends [OF assms, of debug picks incoming]
    by (cases "lru_max_bytes l = UNLIMITED_BUDGET") (auto simp: evict_to_fit_def)
  from evict_to_fit_cases [OF run] show ?thesis
  proof (elim disjE conjE)
    assume "lru_max_bytes l = UNLIMITED_BUDGET" "out = Ok ()" "l' = l"
    with run assms(1) show ?thesis by simp
  next
    assume "evict_loop debug fuel picks incoming l = Some (out, l')"
    from evict_loop_spec [OF assms(1) this] run show ?thesis by blast
  qed
qed

theorem evict_makes_room_witness:
  "\<exists>out l'. evict_to_fit True 2 [1] 40
      (lru_insert (cached ''q'' 30 MyOwn) (lru_insert (cached ''p'' 50 Unused) (lru_with_clock 100))) = Some (out, l') \<and>
    lru_inv l' \<and> lru_get ''q'' l' = Some (cached ''q'' 30 MyOwn)"
proof -
  let ?l = "lru_insert (cached ''q'' 30 MyOwn) (lru_insert (cached ''p'' 50 Unused) (lru_with_clock 100))"
  have l: "lru_inv ?l" "length (lru_records ?l) \<le> 2" "lru_get ''q'' ?l = Some (cached ''q'' 30 MyOwn)"
    by (simp_all add: lru_inv_def lru_insert_def lru_with_clock_def lru_get_def Let_def lru_keys_ok_def
        cached_def sizes_def)
  moreover have "lr_bin (cached ''q'' 30 MyOwn) \<noteq> Unused" by (simp add: cached_def)
  ultimately show ?thesis using evict_makes_room [OF l(1,2), of True "[1]" 40] by blast
qed

end
