(* ===== verification/Merkle.thy ===== *)
theory Merkle
  imports Core_Types
begin

section \<open>Merkle trees and range proofs\<close>

text \<open>
  Models \<^verbatim>\<open>core/src/merkle.c\<close>, the C functions behind the storage proofs, and their
  safe wrappers in \<^verbatim>\<open>core-engine/src/core/merkle.rs\<close>. SHA-256 is libsodium's: the
  argument \<open>H\<close>. An array is a list; a loop that fills the first \<open>count\<close> entries of a buffer
  yields the list of those entries. An access outside an array, undefined in C, is
  \<open>Panic\<close>. The null checks have no counterpart: the wrappers pass references.
\<close>

type_synonym hash32 = bytes

definition zero_hash :: hash32 where
  "zero_hash = replicate 32 0"

definition MERKLE_MAX_TREE_PADDED :: nat where "MERKLE_MAX_TREE_PADDED = 128"
definition FORETIAS_MERKLE_MAX_RANGE_PROOF :: nat where "FORETIAS_MERKLE_MAX_RANGE_PROOF = 64"
definition FORETIAS_MERKLE_MAX_DEPTH :: nat where "FORETIAS_MERKLE_MAX_DEPTH = 32"

record range_proof =
  rp_leaves :: "hash32 list"
  rp_siblings :: "hash32 list"
  rp_leaf_count :: int
  rp_sibling_count :: int
  rp_n :: int

text \<open>A cast to \<^verbatim>\<open>int32_t\<close>, and an array padded with zeroes.\<close>

definition as_i32 :: "nat \<Rightarrow> int" where
  "as_i32 n = sint (word_of_nat n :: 32 word)"

definition pad_to :: "nat \<Rightarrow> hash32 list \<Rightarrow> hash32 list" where
  "pad_to n xs = xs @ replicate (n - length xs) zero_hash"

subsection \<open>Hashing leaves and nodes\<close>

definition c_merkle_leaf :: "(bytes \<Rightarrow> hash32) \<Rightarrow> bytes \<Rightarrow> int \<times> hash32" where
  "c_merkle_leaf H data = (0, H (0x00 # data))"

definition node_hash :: "(bytes \<Rightarrow> hash32) \<Rightarrow> hash32 \<Rightarrow> hash32 \<Rightarrow> hash32" where
  "node_hash H left right = H (0x01 # left @ right)"

text \<open>\<^verbatim>\<open>merkle_next_pow2\<close>, with \<open>p\<close> as its exponent, and \<^verbatim>\<open>merkle_log2\<close>.\<close>

function next_pow2_from :: "nat \<Rightarrow> nat \<Rightarrow> nat" where
  "next_pow2_from d n = (if 2 ^ d < n then next_pow2_from (d + 1) n else 2 ^ d)"
  by pat_completeness auto
termination
proof (relation "measure (\<lambda>(d, n). n - d)")
  show "((d + 1, n), (d, n)) \<in> measure (\<lambda>(d, n). n - d)" if "2 ^ d < n" for d n :: nat
    using less_trans [OF less_exp that] by simp
qed simp

declare next_pow2_from.simps [simp del]

definition merkle_next_pow2 :: "nat \<Rightarrow> nat" where
  "merkle_next_pow2 n = next_pow2_from 0 n"

fun merkle_log2_from :: "nat \<Rightarrow> nat \<Rightarrow> nat" where
  "merkle_log2_from n d = (if n > 1 then merkle_log2_from (n div 2) (d + 1) else d)"

declare merkle_log2_from.simps [simp del]

definition merkle_log2 :: "nat \<Rightarrow> nat" where
  "merkle_log2 n = merkle_log2_from n 0"

subsection \<open>The root\<close>

definition level_up :: "(bytes \<Rightarrow> hash32) \<Rightarrow> nat \<Rightarrow> hash32 list \<Rightarrow> hash32 list" where
  "level_up H count cur = map (\<lambda>i. node_hash H (cur ! (2 * i)) (cur ! (2 * i + 1))) [0..<count div 2]"

fun reduce_levels :: "(bytes \<Rightarrow> hash32) \<Rightarrow> nat \<Rightarrow> hash32 list \<Rightarrow> hash32 list" where
  "reduce_levels H count cur =
     (if count > 1 then reduce_levels H (count div 2) (level_up H count cur) else cur)"

declare reduce_levels.simps [simp del]

definition c_merkle_root_from_leaves :: "(bytes \<Rightarrow> hash32) \<Rightarrow> hash32 list \<Rightarrow> int \<times> hash32" where
  "c_merkle_root_from_leaves H leaves =
     (let n = length leaves in
      if n = 0 then (-9, zero_hash)
      else (let padded = merkle_next_pow2 n in
        if padded > MERKLE_MAX_TREE_PADDED then (-6, zero_hash)
        else (0, reduce_levels H padded (pad_to padded leaves) ! 0)))"

subsection \<open>Making a range proof\<close>

text \<open>The tree is one array, level after level, \<open>offset padded k\<close> being where level \<open>k\<close> starts.\<close>

fun offset :: "nat \<Rightarrow> nat \<Rightarrow> nat" where
  "offset padded 0 = 0"
| "offset padded (Suc k) = offset padded k + padded div 2 ^ k"

definition fill_level :: "(bytes \<Rightarrow> hash32) \<Rightarrow> nat \<Rightarrow> nat \<Rightarrow> nat \<Rightarrow> hash32 list \<Rightarrow> hash32 list" where
  "fill_level H from dest count tree =
     fold (\<lambda>j t. t[dest + j := node_hash H (t ! (from + 2 * j)) (t ! (from + 2 * j + 1))]) [0..<count div 2] tree"

definition build_tree :: "(bytes \<Rightarrow> hash32) \<Rightarrow> nat \<Rightarrow> nat \<Rightarrow> hash32 list \<Rightarrow> hash32 list" where
  "build_tree H padded depth leaves =
     fold (\<lambda>k. fill_level H (offset padded k) (offset padded (k + 1)) (padded div 2 ^ k)) [0..<depth]
       (pad_to (offset padded depth + 1) leaves)"

definition collect_siblings ::
    "nat \<Rightarrow> hash32 list \<Rightarrow> nat \<Rightarrow> nat \<times> nat \<times> hash32 list \<Rightarrow> nat \<times> nat \<times> hash32 list" where
  "collect_siblings padded tree k = (\<lambda>(s, e, sibs).
     (s div 2, (e + 1) div 2,
      sibs @ (if s mod 2 = 1 then [tree ! (offset padded k + s - 1)] else []) @
        (if e mod 2 = 1 \<and> e < padded div 2 ^ k then [tree ! (offset padded k + e)] else [])))"

definition c_merkle_range_proof ::
    "(bytes \<Rightarrow> hash32) \<Rightarrow> hash32 list \<Rightarrow> nat \<Rightarrow> nat \<Rightarrow> (int \<times> range_proof option, 'e) result" where
  "c_merkle_range_proof H leaves start end =
     (let n = length leaves in
      if n = 0 then Ok (-9, None)
      else if start \<ge> end then Ok (-9, None)
      else if end > n then Ok (-10, None)
      else if as_i32 (end - start) > int FORETIAS_MERKLE_MAX_RANGE_PROOF then Ok (-10, None)
      else (let padded = merkle_next_pow2 n in
        if padded > MERKLE_MAX_TREE_PADDED then Ok (-6, None)
        else
          (let depth = merkle_log2 padded;
               tree = build_tree H padded depth leaves;
               (_, _, sibs) = fold (collect_siblings padded tree) [0..<depth] (start, end, [])
           in if end - start > FORETIAS_MERKLE_MAX_RANGE_PROOF \<or> length sibs > FORETIAS_MERKLE_MAX_DEPTH
              then Panic
              else Ok (0, Some
                \<lparr>rp_leaves = pad_to FORETIAS_MERKLE_MAX_RANGE_PROOF (map (\<lambda>i. tree ! i) [start..<end]),
                 rp_siblings = pad_to FORETIAS_MERKLE_MAX_DEPTH sibs,
                 rp_leaf_count = as_i32 (end - start), rp_sibling_count = int (length sibs),
                 rp_n = as_i32 n\<rparr>))))"

subsection \<open>Verifying a range proof\<close>

text \<open>The loop over pairs of one level: the parents, and the node left over.\<close>

fun pair_up :: "(bytes \<Rightarrow> hash32) \<Rightarrow> hash32 list \<Rightarrow> hash32 list \<times> hash32 option" where
  "pair_up H (a # b # xs) = (let (ps, l) = pair_up H xs in (node_hash H a b # ps, l))"
| "pair_up H [a] = ([], Some a)"
| "pair_up H [] = ([], None)"

definition verify_level ::
    "(bytes \<Rightarrow> hash32) \<Rightarrow> hash32 list \<Rightarrow> nat \<Rightarrow> hash32 list \<Rightarrow> nat \<Rightarrow>
     (hash32 list \<times> nat, 'e) result" where
  "verify_level H siblings s nodes sibling_idx =
     rbind (if s mod 2 = 1
            then rbind (index_at siblings sibling_idx) (\<lambda>sib.
                   rbind (index_at nodes 0) (\<lambda>node.
                     Ok ([node_hash H sib node], tl nodes, sibling_idx + 1)))
            else Ok ([], nodes, sibling_idx)) (\<lambda>(front, rest, idx).
     (let (ps, left) = pair_up H rest in
      case left of
        None \<Rightarrow> Ok (front @ ps, idx)
      | Some node \<Rightarrow>
          rbind (index_at siblings idx) (\<lambda>sib. Ok (front @ ps @ [node_hash H node sib], idx + 1))))"

fun verify_levels ::
    "(bytes \<Rightarrow> hash32) \<Rightarrow> hash32 list \<Rightarrow> nat \<Rightarrow> nat \<Rightarrow> hash32 list \<Rightarrow> nat \<Rightarrow> (hash32 list, 'e) result" where
  "verify_levels H siblings 0 s nodes idx = Ok nodes"
| "verify_levels H siblings (Suc d) s nodes idx =
     rbind (verify_level H siblings s nodes idx) (\<lambda>(nodes', idx').
       verify_levels H siblings d (s div 2) nodes' idx')"

definition c_merkle_verify_range_proof ::
    "(bytes \<Rightarrow> hash32) \<Rightarrow> hash32 \<Rightarrow> range_proof \<Rightarrow> nat \<Rightarrow> nat \<Rightarrow> (int, 'e) result" where
  "c_merkle_verify_range_proof H root proof start end =
     (if rp_n proof \<le> 0 then Ok (-9)
      else if start \<ge> end then Ok (-9)
      else if int end > rp_n proof then Ok (-10)
      else if rp_leaf_count proof \<noteq> as_i32 (end - start) then Ok (-2)
      else
        (let depth = merkle_log2 (merkle_next_pow2 (nat (rp_n proof))) in
         if end - start > length (rp_leaves proof) then Panic
         else
           rbind (verify_levels H (rp_siblings proof) depth start (take (end - start) (rp_leaves proof)) 0)
             (\<lambda>nodes. Ok (if length nodes = 1 \<and> nodes ! 0 = root then 0 else -2))))"

subsection \<open>The wrappers\<close>

definition merkle_leaf :: "(bytes \<Rightarrow> hash32) \<Rightarrow> bytes \<Rightarrow> (hash32, crypto_error) result" where
  "merkle_leaf H data =
     (let (rc, out) = c_merkle_leaf H data in rbind (c_result_to_error rc) (\<lambda>_. Ok out))"

definition merkle_root_from_leaves ::
    "(bytes \<Rightarrow> hash32) \<Rightarrow> hash32 list \<Rightarrow> (hash32, crypto_error) result" where
  "merkle_root_from_leaves H leaves =
     (if leaves = [] then Err ProofRangeEmpty
      else (let (rc, root_out) = c_merkle_root_from_leaves H leaves
            in rbind (c_result_to_error rc) (\<lambda>_. Ok root_out)))"

definition merkle_range_proof ::
    "(bytes \<Rightarrow> hash32) \<Rightarrow> hash32 list \<Rightarrow> nat \<Rightarrow> nat \<Rightarrow> (range_proof, crypto_error) result" where
  "merkle_range_proof H leaves start end =
     (if leaves = [] then Err ProofRangeEmpty
      else if start \<ge> end then Err ProofRangeEmpty
      else if end > length leaves then Err ProofRangeExceeds
      else if end - start > FORETIAS_MERKLE_MAX_RANGE_PROOF then Err ProofRangeExceeds
      else
        rbind (c_merkle_range_proof H leaves start end) (\<lambda>(rc, proof_out).
        rbind (c_result_to_error rc) (\<lambda>_. ok_or ProofRangeEmpty proof_out)))"

definition merkle_verify_range_proof ::
    "(bytes \<Rightarrow> hash32) \<Rightarrow> hash32 \<Rightarrow> range_proof \<Rightarrow> nat \<Rightarrow> nat \<Rightarrow> (bool, crypto_error) result" where
  "merkle_verify_range_proof H root proof start end =
     rbind (c_merkle_verify_range_proof H root proof start end) (\<lambda>result_out.
       if result_out = 0 then Ok True
       else if result_out = -2 \<or> result_out = -9 \<or> result_out = -10 then Ok False
       else rbind (c_result_to_error result_out) (\<lambda>_. Ok False))"


subsection \<open>Powers of two\<close>

lemma next_pow2_from_spec:
  "\<exists>D. next_pow2_from d n = 2 ^ D \<and> n \<le> 2 ^ D \<and> (\<forall>m. d \<le> m \<and> n \<le> 2 ^ m \<longrightarrow> D \<le> m)"
proof (induction d n rule: next_pow2_from.induct)
  case (1 d n)
  show ?case
  proof (cases "2 ^ d < n")
    case True
    with 1 obtain D where D: "next_pow2_from (d + 1) n = 2 ^ D" "n \<le> 2 ^ D"
      "\<forall>m. d + 1 \<le> m \<and> n \<le> 2 ^ m \<longrightarrow> D \<le> m" by blast
    have "D \<le> m" if "d \<le> m" "n \<le> 2 ^ m" for m
      using that True D(3) by (cases "m = d") auto
    with True D show ?thesis by (auto simp: next_pow2_from.simps [of d n])
  next
    case False
    then show ?thesis by (auto simp: next_pow2_from.simps [of d n] intro!: exI [of _ d])
  qed
qed

lemma merkle_log2_power: "merkle_log2 (2 ^ D) = D"
proof -
  have "merkle_log2_from (2 ^ D) d = d + D" for d
  proof (induction D arbitrary: d)
    case 0
    show ?case by (simp add: merkle_log2_from.simps)
  next
    case (Suc D)
    have "1 < (2 ^ Suc D :: nat)" by (rule one_less_power) simp_all
    then have "merkle_log2_from (2 ^ Suc D) d = merkle_log2_from (2 ^ D) (d + 1)"
      by (subst merkle_log2_from.simps) simp
    with Suc show ?case by simp
  qed
  then show ?thesis by (simp add: merkle_log2_def)
qed

lemma as_i32_small: "m < 2 ^ 31 \<Longrightarrow> as_i32 m = int m"
  by (simp add: as_i32_def signed_of_nat signed_take_bit_int_eq_self)

lemma length_pad_to [simp]: "length (pad_to m xs) = max m (length xs)"
  by (simp add: pad_to_def)

lemma nth_pad_to: "i < max m (length xs) \<Longrightarrow> pad_to m xs ! i = (if i < length xs then xs ! i else zero_hash)"
  by (auto simp: pad_to_def nth_append)

lemma take_pad_to: "k \<le> length xs \<Longrightarrow> take k (pad_to m xs) = take k xs"
  by (simp add: pad_to_def)

subsection \<open>The levels of the tree\<close>

primrec lev :: "(bytes \<Rightarrow> hash32) \<Rightarrow> hash32 list \<Rightarrow> nat \<Rightarrow> hash32 list" where
  "lev H xs 0 = xs"
| "lev H xs (Suc k) = level_up H (length (lev H xs k)) (lev H xs k)"

lemma length_lev: "length xs = 2 ^ D \<Longrightarrow> k \<le> D \<Longrightarrow> length (lev H xs k) = 2 ^ (D - k)"
proof (induction k)
  case (Suc k)
  then have "length (lev H xs k) = 2 ^ Suc (D - Suc k)" by (simp add: Suc_diff_Suc)
  then show ?case by (simp add: level_up_def)
qed simp

lemma lev_Suc_nth:
  assumes "length xs = 2 ^ D" and "Suc k \<le> D" and "i < 2 ^ (D - Suc k)"
  shows "lev H xs (Suc k) ! i = node_hash H (lev H xs k ! (2 * i)) (lev H xs k ! (2 * i + 1))"
proof -
  have "length (lev H xs k) = 2 ^ Suc (D - Suc k)"
    using assms by (simp add: length_lev Suc_diff_Suc)
  with assms(3) show ?thesis by (simp add: level_up_def)
qed

lemma lev_shift: "lev H (level_up H (length xs) xs) k = lev H xs (Suc k)"
  by (induction k) simp_all

lemma reduce_levels_lev: "length xs = 2 ^ D \<Longrightarrow> reduce_levels H (2 ^ D) xs = lev H xs D"
proof (induction D arbitrary: xs)
  case 0
  then show ?case by (simp add: reduce_levels.simps)
next
  case (Suc D)
  have "length (level_up H (length xs) xs) = 2 ^ D" using Suc.prems by (simp add: level_up_def)
  then have "reduce_levels H (2 ^ D) (level_up H (length xs) xs) = lev H xs (Suc D)"
    using Suc.IH lev_shift by metis
  moreover have "1 < (2 ^ Suc D :: nat)" by (rule one_less_power) simp_all
  then have "reduce_levels H (2 ^ Suc D) xs = reduce_levels H (2 ^ D) (level_up H (2 ^ Suc D) xs)"
    by (subst reduce_levels.simps) simp
  ultimately show ?case using Suc.prems by simp
qed

subsection \<open>The array holds the levels\<close>

lemma fill_level_spec:
  assumes "dest + m \<le> length tree" and "from + 2 * m \<le> dest" and "count div 2 = m"
  shows "length (fill_level H from dest count tree) = length tree \<and>
    (\<forall>i < dest. fill_level H from dest count tree ! i = tree ! i) \<and>
    (\<forall>j < m. fill_level H from dest count tree ! (dest + j) =
       node_hash H (tree ! (from + 2 * j)) (tree ! (from + 2 * j + 1)))"
proof -
  let ?step = "\<lambda>j t. t[dest + j := node_hash H (t ! (from + 2 * j)) (t ! (from + 2 * j + 1))]"
  have "l \<le> m \<Longrightarrow> length (fold ?step [0..<l] tree) = length tree \<and>
      (\<forall>i < dest. fold ?step [0..<l] tree ! i = tree ! i) \<and>
      (\<forall>j < l. fold ?step [0..<l] tree ! (dest + j) =
         node_hash H (tree ! (from + 2 * j)) (tree ! (from + 2 * j + 1)))" for l
  proof (induction l)
    case (Suc l)
    then have "from + 2 * l + 1 < dest" "dest + l < length tree" using assms by linarith+
    with Suc show ?case by (auto simp: nth_list_update less_Suc_eq)
  qed simp
  from this [of m] show ?thesis by (simp add: fill_level_def assms(3))
qed

lemma offset_power: "k < D \<Longrightarrow> offset (2 ^ D) (Suc k) = offset (2 ^ D) k + 2 ^ (D - k)"
  by (simp add: power_diff)

lemma offset_mono: "i \<le> j \<Longrightarrow> offset p i \<le> offset p j"
  by (induction j) (auto simp: le_Suc_eq)

lemma build_tree_spec:
  assumes "length leaves \<le> 2 ^ D" and "k \<le> D" and "i < 2 ^ (D - k)"
  shows "build_tree H (2 ^ D) D leaves ! (offset (2 ^ D) k + i) = lev H (pad_to (2 ^ D) leaves) k ! i"
proof -
  let ?p = "2 ^ D :: nat" and ?xs = "pad_to (2 ^ D) leaves"
  let ?init = "pad_to (offset ?p D + 1) leaves"
  let ?f = "\<lambda>k. fill_level H (offset ?p k) (offset ?p (k + 1)) (?p div 2 ^ k)"
  have xs: "length ?xs = 2 ^ D" using assms(1) by simp
  have size: "2 ^ D \<le> offset ?p D + 1"
    by (cases D) (use offset_mono [of 1 D ?p] in simp_all)
  have "m \<le> D \<Longrightarrow> length (fold ?f [0..<m] ?init) = offset ?p D + 1 \<and>
      (\<forall>k \<le> m. \<forall>i < 2 ^ (D - k). fold ?f [0..<m] ?init ! (offset ?p k + i) = lev H ?xs k ! i)" for m
  proof (induction m)
    case 0
    show ?case using assms(1) size by (auto simp: nth_pad_to)
  next
    case (Suc m)
    let ?t = "fold ?f [0..<m] ?init"
    have half: "?p div 2 ^ m div 2 = 2 ^ (D - Suc m)"
      using Suc.prems by (metis Suc_leD div_mult2_eq power_Suc2 power_diff zero_neq_numeral)
    have dest: "offset ?p (Suc m) = offset ?p m + 2 * 2 ^ (D - Suc m)"
      using Suc.prems offset_power [of m D] by (simp add: power_Suc [symmetric] Suc_diff_Suc del: power_Suc)
    have fits: "offset ?p (Suc m) + 2 ^ (D - Suc m) \<le> length ?t"
    proof (cases "Suc m = D")
      case True
      then show ?thesis using Suc by simp
    next
      case False
      then have "offset ?p (Suc (Suc m)) \<le> offset ?p D" using Suc.prems by (intro offset_mono) simp
      then show ?thesis using Suc False offset_power [of "Suc m" D] by simp
    qed
    have t': "fold ?f [0..<Suc m] ?init = fill_level H (offset ?p m) (offset ?p (Suc m)) (?p div 2 ^ m) ?t"
      by simp
    note spec = fill_level_spec [OF fits _ half, of "offset ?p m" H, folded t']
    have "fold ?f [0..<Suc m] ?init ! (offset ?p k + i) = lev H ?xs k ! i"
      if k: "k \<le> Suc m" and i: "i < 2 ^ (D - k)" for k i
    proof (cases "k = Suc m")
      case True
      have "2 * i + 1 < 2 ^ (D - m)"
        using i True Suc.prems by (simp add: Suc_diff_Suc [symmetric])
      then have "?t ! (offset ?p m + 2 * i) = lev H ?xs m ! (2 * i)"
        "?t ! (offset ?p m + 2 * i + 1) = lev H ?xs m ! (2 * i + 1)"
        using Suc.IH Suc.prems by (auto simp only: add.assoc Suc_leD le_refl)
      then show ?thesis
        using True i spec dest lev_Suc_nth [OF xs Suc.prems, of i H] by simp
    next
      case False
      then have "offset ?p k + i < offset ?p (Suc k)"
        using i k Suc.prems offset_power [of k D] by simp
      also have "\<dots> \<le> offset ?p (Suc m)" using k False by (intro offset_mono) simp
      finally show ?thesis using spec dest Suc k False i by simp
    qed
    then show ?case using spec dest Suc by simp
  qed
  from this [of D] show ?thesis using assms by (simp add: build_tree_def)
qed


subsection \<open>The siblings a proof carries\<close>

primrec sib_list :: "(nat \<Rightarrow> hash32 list) \<Rightarrow> nat \<Rightarrow> nat \<Rightarrow> nat \<Rightarrow> nat \<Rightarrow> hash32 list" where
  "sib_list L 0 k s e = []"
| "sib_list L (Suc d) k s e =
     (if s mod 2 = 1 then [L k ! (s - 1)] else []) @ (if e mod 2 = 1 then [L k ! e] else []) @
     sib_list L d (Suc k) (s div 2) ((e + 1) div 2)"

lemma length_sib_list: "length (sib_list L d k s e) \<le> 2 * d"
proof (induction d arbitrary: k s e)
  case (Suc d)
  from Suc.IH [of "Suc k" "s div 2" "(e + 1) div 2"] show ?case by simp
qed simp

lemma collect_siblings_list:
  assumes "\<And>k i. k \<le> D \<Longrightarrow> i < 2 ^ (D - k) \<Longrightarrow> tree ! (offset (2 ^ D) k + i) = L k ! i"
    and "k + d = D" and "s < e" and "e \<le> 2 ^ d"
  shows "\<exists>s' e'. fold (collect_siblings (2 ^ D) tree) [k..<k + d] (s, e, acc) =
    (s', e', acc @ sib_list L d k s e)"
  using assms(2-4)
proof (induction d arbitrary: k s e acc)
  case 0
  then show ?case by simp
next
  case (Suc d)
  have width: "2 ^ D div 2 ^ k = (2 ^ Suc d :: nat)"
    using Suc.prems by (metis add_diff_cancel_left' le_add1 power_diff zero_neq_numeral)
  have Dk: "D - k = Suc d" using Suc.prems by simp
  have "e < 2 ^ Suc d" if "e mod 2 = 1"
  proof -
    have "e \<noteq> 2 * 2 ^ d" using that by (metis mod_mult_self1_is_0 zero_neq_one)
    then show ?thesis using Suc.prems by simp
  qed
  then have e: "(e mod 2 = 1 \<and> e < 2 ^ D div 2 ^ k) = (e mod 2 = 1)" by (auto simp: width)
  have sub: "tree ! (offset (2 ^ D) k + s - 1) = L k ! (s - 1)" if "s mod 2 = 1"
  proof -
    have "0 < s" using that by (cases s) simp_all
    then have "offset (2 ^ D) k + s - 1 = offset (2 ^ D) k + (s - 1)" by simp
    moreover have "s - 1 < 2 ^ (D - k)" unfolding Dk using Suc.prems \<open>0 < s\<close> by linarith
    ultimately show ?thesis using assms(1) [of k "s - 1"] Suc.prems by simp
  qed
  have "tree ! (offset (2 ^ D) k + e) = L k ! e" if "e mod 2 = 1"
    using that assms(1) [of k e] Suc.prems \<open>e mod 2 = 1 \<Longrightarrow> e < 2 ^ Suc d\<close> by (simp add: Dk)
  then have step: "collect_siblings (2 ^ D) tree k (s, e, acc) =
      (s div 2, (e + 1) div 2, acc @ (if s mod 2 = 1 then [L k ! (s - 1)] else []) @
         (if e mod 2 = 1 then [L k ! e] else []))"
    using sub by (simp only: collect_siblings_def prod.case e) simp
  let ?acc = "acc @ (if s mod 2 = 1 then [L k ! (s - 1)] else []) @ (if e mod 2 = 1 then [L k ! e] else [])"
  have "[k..<k + Suc d] = k # [Suc k..<Suc k + d]" by (simp add: upt_conv_Cons)
  then have "fold (collect_siblings (2 ^ D) tree) [k..<k + Suc d] (s, e, acc) =
      fold (collect_siblings (2 ^ D) tree) [Suc k..<Suc k + d] (s div 2, (e + 1) div 2, ?acc)"
    by (simp only: fold_simps step)
  moreover have "\<exists>s' e'. fold (collect_siblings (2 ^ D) tree) [Suc k..<Suc k + d] (s div 2, (e + 1) div 2, ?acc) =
      (s', e', ?acc @ sib_list L d (Suc k) (s div 2) ((e + 1) div 2))"
    using Suc.prems by (intro Suc.IH) simp_all
  ultimately show ?case by (simp only: sib_list.simps append_assoc)
qed

subsection \<open>Verification climbs the levels\<close>

lemma pair_up_even:
  assumes "a \<le> b" and "\<And>i. a \<le> i \<Longrightarrow> i < b \<Longrightarrow> f i = node_hash H (g (2 * i)) (g (2 * i + 1))"
  shows "pair_up H (map g [2 * a..<2 * b]) = (map f [a..<b], None)"
    and "pair_up H (map g [2 * a..<2 * b + 1]) = (map f [a..<b], Some (g (2 * b)))"
proof -
  have "pair_up H (map g [2 * a..<2 * b]) = (map f [a..<b], None) \<and>
    pair_up H (map g [2 * a..<2 * b + 1]) = (map f [a..<b], Some (g (2 * b)))"
    using assms
  proof (induction "b - a" arbitrary: a)
    case 0
    then show ?case by simp
  next
    case (Suc m)
    then have lt: "a < b" by simp
    have "[2 * a..<2 * b] = 2 * a # (2 * a + 1) # [2 * Suc a..<2 * b]"
      "[2 * a..<2 * b + 1] = 2 * a # (2 * a + 1) # [2 * Suc a..<2 * b + 1]"
      using lt by (simp_all add: upt_conv_Cons)
    moreover have "[a..<b] = a # [Suc a..<b]" using lt by (simp add: upt_conv_Cons)
    moreover have "pair_up H (map g [2 * Suc a..<2 * b]) = (map f [Suc a..<b], None) \<and>
        pair_up H (map g [2 * Suc a..<2 * b + 1]) = (map f [Suc a..<b], Some (g (2 * b)))"
      using Suc.hyps(2) lt Suc.prems(2) by (intro Suc.hyps(1)) auto
    ultimately show ?case using Suc.prems(2) [of a] lt by simp
  qed
  then show "pair_up H (map g [2 * a..<2 * b]) = (map f [a..<b], None)"
    and "pair_up H (map g [2 * a..<2 * b + 1]) = (map f [a..<b], Some (g (2 * b)))" by simp_all
qed

lemma index_at_drop: "drop i xs = x # ys \<Longrightarrow> index_at xs i = Ok x"
  by (metis drop_eq_Nil index_at_ok leI list.distinct(1) nth_via_drop)

lemma drop_Suc_drop: "drop i xs = x # ys \<Longrightarrow> drop (Suc i) xs = ys"
  by (metis drop_Suc list.sel(3) tl_drop)

lemma verify_level_step:
  assumes f: "\<And>i. i < (e + 1) div 2 \<Longrightarrow> f i = node_hash H (g (2 * i)) (g (2 * i + 1))"
    and "s < e"
    and sibs: "drop idx siblings = (if s mod 2 = 1 then [g (s - 1)] else []) @
      (if e mod 2 = 1 then [g e] else []) @ rest"
  shows "\<exists>idx'. verify_level H siblings s (map g [s..<e]) idx =
      Ok (map f [s div 2..<(e + 1) div 2], idx') \<and> drop idx' siblings = rest"
proof -
  define a where "a = s div 2"
  define b where "b = e div 2"
  have s: "s = 2 * a \<or> s = 2 * a + 1" and e: "e = 2 * b \<or> e = 2 * b + 1"
    by (simp_all add: a_def b_def) presburger+
  have fa: "\<And>i. i < b \<Longrightarrow> f i = node_hash H (g (2 * i)) (g (2 * i + 1))"
    using f by (simp add: b_def)
  have fb: "f b = node_hash H (g (2 * b)) (g (2 * b + 1))" if "e = 2 * b + 1"
    using f [of b] that by simp
  show ?thesis
    using s e
  proof (elim disjE)
    assume "s = 2 * a" "e = 2 * b"
    then show ?thesis
      using pair_up_even(1) [of a b f H g] assms(2) fa sibs
      by (simp add: verify_level_def)
  next
    assume *: "s = 2 * a" "e = 2 * b + 1"
    with sibs have "drop idx siblings = g e # rest" by simp
    then show ?thesis
      using * pair_up_even(2) [of a b f H g] assms(2) fa fb
      by (simp add: verify_level_def index_at_drop drop_Suc_drop)
  next
    assume *: "s = 2 * a + 1" "e = 2 * b"
    with sibs have "drop idx siblings = g (2 * a) # rest" by simp
    moreover have "[s..<e] = s # [2 * (a + 1)..<e]" "[a..<b] = a # [a + 1..<b]"
      using * assms(2) by (simp_all add: upt_conv_Cons)
    moreover have "a < b" using * assms(2) by simp
    ultimately show ?thesis
      using * pair_up_even(1) [of "a + 1" b f H g] fa
      by (simp add: verify_level_def index_at_drop drop_Suc_drop)
  next
    assume *: "s = 2 * a + 1" "e = 2 * b + 1"
    with sibs have "drop idx siblings = g (2 * a) # g e # rest" by simp
    moreover from this have "drop (Suc idx) siblings = g e # rest" by (rule drop_Suc_drop)
    moreover have "[s..<e] = s # [2 * (a + 1)..<e]" "[a..<b] = a # [a + 1..<b]"
      using * assms(2) by (simp_all add: upt_conv_Cons)
    moreover have "a < b" using * assms(2) by simp
    ultimately show ?thesis
      using * pair_up_even(2) [of "a + 1" b f H g] fa fb
      by (simp add: verify_level_def index_at_drop drop_Suc_drop)
  qed
qed

lemma verify_levels_root:
  assumes L: "\<And>k i. Suc k \<le> D \<Longrightarrow> i < 2 ^ (D - Suc k) \<Longrightarrow>
      L (Suc k) ! i = node_hash H (L k ! (2 * i)) (L k ! (2 * i + 1))"
    and "k + d = D" and "s < e" and "e \<le> 2 ^ d"
    and "drop idx siblings = sib_list L d k s e @ rest"
  shows "verify_levels H siblings d s (map ((!) (L k)) [s..<e]) idx = (Ok [L D ! 0] :: (hash32 list, 'e) result)"
  using assms(2-5)
proof (induction d arbitrary: k s e idx)
  case 0
  then have "s = 0" "e = 1" "k = D" by simp_all
  then show ?case by simp
next
  case (Suc d)
  have "(e + 1) div 2 \<le> 2 ^ d" using Suc.prems by simp
  moreover have "D - Suc k = d" using Suc.prems by simp
  ultimately have "L (Suc k) ! i = node_hash H (L k ! (2 * i)) (L k ! (2 * i + 1))"
    if "i < (e + 1) div 2" for i
    using L [of k i] that Suc.prems by simp
  then obtain idx' where
    "verify_level H siblings s (map ((!) (L k)) [s..<e]) idx =
       (Ok (map ((!) (L (Suc k))) [s div 2..<(e + 1) div 2], idx') :: (_, 'e) result)"
    "drop idx' siblings = sib_list L d (Suc k) (s div 2) ((e + 1) div 2) @ rest"
    using verify_level_step [of e "(!) (L (Suc k))" H "(!) (L k)" s idx siblings
        "sib_list L d (Suc k) (s div 2) ((e + 1) div 2) @ rest"] Suc.prems by auto
  moreover have "s div 2 < (e + 1) div 2" using Suc.prems by linarith
  ultimately show ?case
    using Suc.IH [of "Suc k" "s div 2" "(e + 1) div 2" idx'] Suc.prems \<open>(e + 1) div 2 \<le> 2 ^ d\<close> by simp
qed


subsection \<open>The round trip\<close>

lemma c_result_to_error_0 [simp]: "c_result_to_error 0 = Ok ()"
  by simp

lemma tree_power:
  assumes "xs \<noteq> []" and "length xs \<le> 128"
  obtains D where "merkle_next_pow2 (length xs) = 2 ^ D" and "length xs \<le> 2 ^ D" and "D \<le> 7"
proof -
  obtain D where "next_pow2_from 0 (length xs) = 2 ^ D" "length xs \<le> 2 ^ D"
    "\<forall>m. 0 \<le> m \<and> length xs \<le> 2 ^ m \<longrightarrow> D \<le> m"
    using next_pow2_from_spec [of 0 "length xs"] by blast
  moreover from this(3) assms(2) have "D \<le> 7" by (auto dest: spec [of _ 7])
  ultimately show ?thesis using that by (simp add: merkle_next_pow2_def)
qed

lemma merkle_root_lev:
  assumes "xs \<noteq> []" and "length xs \<le> 2 ^ D" and "merkle_next_pow2 (length xs) = 2 ^ D" and "D \<le> 7"
  shows "merkle_root_from_leaves H xs = Ok (lev H (pad_to (2 ^ D) xs) D ! 0)"
proof -
  have "(2 :: nat) ^ D \<le> 2 ^ 7" using assms(4) by (rule power_increasing) simp
  moreover have "length (pad_to (2 ^ D) xs) = 2 ^ D" using assms(2) by simp
  ultimately show ?thesis
    using assms reduce_levels_lev [of "pad_to (2 ^ D) xs" D H]
    by (simp add: merkle_root_from_leaves_def c_merkle_root_from_leaves_def Let_def
        MERKLE_MAX_TREE_PADDED_def)
qed

lemma merkle_range_proof_sibs:
  assumes "start < end" and "end \<le> length xs" and "end - start \<le> 64"
    and "length xs \<le> 2 ^ D" and "merkle_next_pow2 (length xs) = 2 ^ D" and "D \<le> 7"
  shows "merkle_range_proof H xs start end = Ok
    \<lparr>rp_leaves = pad_to 64 (take (end - start) (drop start xs)),
     rp_siblings = pad_to 32 (sib_list (lev H (pad_to (2 ^ D) xs)) D 0 start end),
     rp_leaf_count = int (end - start),
     rp_sibling_count = int (length (sib_list (lev H (pad_to (2 ^ D) xs)) D 0 start end)),
     rp_n = int (length xs)\<rparr>"
proof -
  let ?L = "lev H (pad_to (2 ^ D) xs)"
  let ?tree = "build_tree H (2 ^ D) D xs"
  have small: "(2 :: nat) ^ D \<le> 128" using power_increasing [OF assms(6), of "2 :: nat"] by simp
  have n: "length xs < 2 ^ 31" using assms(4) small by simp
  have nodes: "?tree ! (offset (2 ^ D) k + i) = ?L k ! i" if "k \<le> D" "i < 2 ^ (D - k)" for k i
    using build_tree_spec [OF assms(4) that] .
  have "e \<le> 2 ^ D" if "e \<le> length xs" for e using that assms(4) by simp
  then obtain s' e' where sibs: "fold (collect_siblings (2 ^ D) ?tree) [0..<D] (start, end, []) =
      (s', e', sib_list ?L D 0 start end)"
    using collect_siblings_list [of D ?tree ?L 0 D start "end" "[]"] nodes assms(1,2) by auto
  have leaves: "map ((!) ?tree) [start..<end] = take (end - start) (drop start xs)"
  proof (rule nth_equalityI)
    fix i assume "i < length (map ((!) ?tree) [start..<end])"
    then have "start + i < length xs" "i < end - start" using assms(2) by simp_all
    then show "map ((!) ?tree) [start..<end] ! i = take (end - start) (drop start xs) ! i"
      using nodes [of 0 "start + i"] assms(4) by (simp add: nth_pad_to)
  qed (use assms in simp)
  have "length (sib_list ?L D 0 start end) \<le> 32"
    using length_sib_list [of ?L D 0 start "end"] assms(6) by linarith
  then show ?thesis
    using assms small n sibs leaves
    by (auto simp: merkle_range_proof_def c_merkle_range_proof_def Let_def MERKLE_MAX_TREE_PADDED_def
        FORETIAS_MERKLE_MAX_RANGE_PROOF_def FORETIAS_MERKLE_MAX_DEPTH_def merkle_log2_power as_i32_small)
qed

text \<open>What the arrays of a made proof hold.\<close>

definition proof_shape :: "range_proof \<Rightarrow> nat \<Rightarrow> nat \<Rightarrow> bool" where
  "proof_shape p n m \<longleftrightarrow> rp_n p = int n \<and> rp_leaf_count p = int m \<and>
     (\<exists>ls ss. rp_leaves p = pad_to 64 ls \<and> length ls = m \<and> rp_siblings p = pad_to 32 ss \<and>
        rp_sibling_count p = int (length ss) \<and> length ss \<le> 32)"

lemma merkle_made_verifies:
  assumes "start < end" and "end \<le> length leaves" and "end - start \<le> 64" and "length leaves \<le> 128"
  shows "\<exists>proof root. merkle_range_proof H leaves start end = Ok proof \<and>
    merkle_root_from_leaves H leaves = Ok root \<and>
    merkle_verify_range_proof H root proof start end = Ok True \<and>
    proof_shape proof (length leaves) (end - start)"
proof -
  have "leaves \<noteq> []" using assms by auto
  then obtain D where D: "merkle_next_pow2 (length leaves) = 2 ^ D" "length leaves \<le> 2 ^ D" "D \<le> 7"
    using tree_power assms(4) by metis
  let ?xs = "pad_to (2 ^ D) leaves"
  let ?sibs = "sib_list (lev H ?xs) D 0 start end"
  note made = merkle_range_proof_sibs [OF assms(1-3) D(2,1,3), of H]
  have n: "length leaves < 2 ^ 31" "end - start < 2 ^ 31" using assms by simp_all
  have "take (end - start) (drop start leaves) = map ((!) (lev H ?xs 0)) [start..<end]"
  proof (rule nth_equalityI)
    fix i assume "i < length (take (end - start) (drop start leaves))"
    then have "start + i < length leaves" "i < end - start" using assms(2) by simp_all
    then show "take (end - start) (drop start leaves) ! i = map ((!) (lev H ?xs 0)) [start..<end] ! i"
      using D(2) by (simp add: nth_pad_to)
  qed (use assms in simp)
  moreover have "verify_levels H (pad_to 32 ?sibs) D start (map ((!) (lev H ?xs 0)) [start..<end]) 0 =
      (Ok [lev H ?xs D ! 0] :: (hash32 list, crypto_error) result)"
    using lev_Suc_nth [of ?xs D _ _ H] D(2) assms
    by (intro verify_levels_root [where rest = "replicate (32 - length ?sibs) zero_hash"])
      (auto simp: pad_to_def)
  ultimately have "merkle_verify_range_proof H (lev H ?xs D ! 0)
      \<lparr>rp_leaves = pad_to 64 (take (end - start) (drop start leaves)), rp_siblings = pad_to 32 ?sibs,
       rp_leaf_count = int (end - start), rp_sibling_count = int (length ?sibs),
       rp_n = int (length leaves)\<rparr> start end = Ok True"
    using assms n D \<open>leaves \<noteq> []\<close>
    by (simp add: merkle_verify_range_proof_def c_merkle_verify_range_proof_def Let_def
        merkle_log2_power as_i32_small take_pad_to min_def)
  moreover have "length ?sibs \<le> 32" using length_sib_list [of "lev H ?xs" D 0 start "end"] D(3) by linarith
  then have "proof_shape \<lparr>rp_leaves = pad_to 64 (take (end - start) (drop start leaves)),
      rp_siblings = pad_to 32 ?sibs, rp_leaf_count = int (end - start),
      rp_sibling_count = int (length ?sibs), rp_n = int (length leaves)\<rparr> (length leaves) (end - start)"
    using assms(1,2) unfolding proof_shape_def
    by (intro conjI exI [of _ "take (end - start) (drop start leaves)"] exI [of _ ?sibs]) simp_all
  ultimately show ?thesis using made merkle_root_lev [OF \<open>leaves \<noteq> []\<close> D(2,1,3)] by blast
qed

subsection \<open>A verified range is the tree's\<close>

text \<open>
  The pairs of hashes that a verification hashes, level by level, and those that the tree does. A
  proof collides with the tree when two different ones of these pairs have the same hash.
\<close>

fun pairs_of :: "hash32 list \<Rightarrow> (hash32 \<times> hash32) list" where
  "pairs_of (a # b # xs) = (a, b) # pairs_of xs"
| "pairs_of _ = []"

definition hashed_level :: "hash32 list \<Rightarrow> nat \<Rightarrow> hash32 list \<Rightarrow> nat \<Rightarrow> (hash32 \<times> hash32) list" where
  "hashed_level siblings s nodes idx =
     (let xs = (if s mod 2 = 1 then [siblings ! idx] else []) @ nodes
      in pairs_of (xs @ (if odd (length xs) then [siblings ! (idx + s mod 2)] else [])))"

fun hashed_levels :: "(bytes \<Rightarrow> hash32) \<Rightarrow> hash32 list \<Rightarrow> nat \<Rightarrow> nat \<Rightarrow> hash32 list \<Rightarrow> nat \<Rightarrow> (hash32 \<times> hash32) list" where
  "hashed_levels H siblings 0 s nodes idx = []"
| "hashed_levels H siblings (Suc d) s nodes idx =
     (let ps = hashed_level siblings s nodes idx
      in ps @ hashed_levels H siblings d (s div 2) (map (\<lambda>(a, b). node_hash H a b) ps)
                (idx + s mod 2 + (s mod 2 + length nodes) mod 2))"

definition tree_pairs :: "(bytes \<Rightarrow> hash32) \<Rightarrow> hash32 list \<Rightarrow> (hash32 \<times> hash32) list" where
  "tree_pairs H leaves = (let padded = merkle_next_pow2 (length leaves) in
     concat (map (\<lambda>k. pairs_of (lev H (pad_to padded leaves) k)) [0..<merkle_log2 padded]))"

definition collides :: "(bytes \<Rightarrow> hash32) \<Rightarrow> hash32 list \<Rightarrow> range_proof \<Rightarrow> nat \<Rightarrow> nat \<Rightarrow> bool" where
  "collides H leaves p start end \<longleftrightarrow>
     (\<exists>(a, b) \<in> set (hashed_levels H (rp_siblings p) (merkle_log2 (merkle_next_pow2 (length leaves))) start
                    (take (end - start) (rp_leaves p)) 0).
      \<exists>(c, d) \<in> set (tree_pairs H leaves). (a, b) \<noteq> (c, d) \<and> node_hash H a b = node_hash H c d)"

lemma pair_up_pairs: "pair_up H xs = (map (\<lambda>(a, b). node_hash H a b) (pairs_of xs), if odd (length xs) then Some (last xs) else None)"
  by (induction H xs rule: pair_up.induct) (auto simp: Let_def split: if_splits)

lemma pairs_of_snoc: "odd (length xs) \<Longrightarrow> pairs_of (xs @ [x]) = pairs_of xs @ [(last xs, x)]"
  by (induction xs rule: pairs_of.induct) auto

lemma pairs_of_nth: "pairs_of xs = map (\<lambda>i. (xs ! (2 * i), xs ! (2 * i + 1))) [0..<length xs div 2]"
proof (induction xs rule: pairs_of.induct)
  case (1 a b xs)
  then show ?case by (simp add: upt_rec [of 0] map_Suc_upt [symmetric] comp_def del: upt_Suc)
qed simp_all

lemma concat_pairs_of: "even (length xs) \<Longrightarrow> concat (map (\<lambda>(a, b). [a, b]) (pairs_of xs)) = xs"
  by (induction xs rule: pairs_of.induct) auto

lemma concat_pairs_upt: "concat (map (\<lambda>i. [g (2 * i), g (2 * i + 1)]) [a..<b]) = map g [2 * a..<2 * b]"
proof (induction b)
  case (Suc b)
  then show ?case by (cases "a \<le> b") simp_all
qed simp

lemma verify_level_hashed:
  assumes "verify_level H siblings s nodes idx = Ok (nodes', idx')" and "nodes \<noteq> []"
  shows "nodes' = map (\<lambda>(a, b). node_hash H a b) (hashed_level siblings s nodes idx)"
    and "idx' = idx + s mod 2 + (s mod 2 + length nodes) mod 2"
proof -
  obtain y ys where nodes: "nodes = y # ys" using assms(2) by (cases nodes) auto
  show "nodes' = map (\<lambda>(a, b). node_hash H a b) (hashed_level siblings s nodes idx)"
    and "idx' = idx + s mod 2 + (s mod 2 + length nodes) mod 2"
    using assms(1) unfolding nodes
    by (auto simp: verify_level_def hashed_level_def pair_up_pairs pairs_of_snoc pairs_of_snoc [of "y # ys", simplified]
      result_simps index_at_def Let_def odd_iff_mod_2_eq_one split: if_splits option.splits)
qed

text \<open>Where a level was hashed without a collision to what the tree has, its nodes are the tree's.\<close>

lemma level_of_pairs:
  assumes "hashed_level siblings s nodes idx = map (\<lambda>i. (g (2 * i), g (2 * i + 1))) [s div 2..<(e + 1) div 2]"
    and "length nodes = e - s" and "s < e"
  shows "nodes = map g [s..<e]"
proof -
  define front where "front = (if s mod 2 = 1 then [siblings ! idx] else [])"
  define behind where "behind = (if odd (length (front @ nodes)) then [siblings ! (idx + s mod 2)] else [])"
  have "even (length (front @ nodes @ behind))" by (simp add: behind_def)
  moreover have "pairs_of (front @ nodes @ behind) = map (\<lambda>i. (g (2 * i), g (2 * i + 1))) [s div 2..<(e + 1) div 2]"
    using assms(1) unfolding hashed_level_def Let_def front_def [symmetric] behind_def [symmetric] by simp
  ultimately have "front @ nodes @ behind = map g [2 * (s div 2)..<2 * ((e + 1) div 2)]"
    using concat_pairs_of [of "front @ nodes @ behind"] concat_pairs_upt [of g "s div 2" "(e + 1) div 2"] by (simp add: comp_def)
  moreover have "length front = s mod 2" by (auto simp: front_def)
  ultimately have "nodes = take (e - s) (drop (s mod 2) (map g [2 * (s div 2)..<2 * ((e + 1) div 2)]))"
    using assms(2) by (metis append_eq_conv_conj)
  also have "\<dots> = map g [2 * (s div 2) + s mod 2..<2 * (s div 2) + s mod 2 + (e - s)]"
    using assms(3) by (simp add: drop_map take_map)
  also have "\<dots> = map g [s..<e]" using assms(3) by simp
  finally show ?thesis .
qed

lemma length_hashed_level:
  assumes "s < e" and "length nodes = e - s"
  shows "length (hashed_level siblings s nodes idx) = (e + 1) div 2 - s div 2"
proof -
  let ?m = "s mod 2 + length nodes"
  have "e + 1 = 2 * (s div 2) + (?m + 1)" using assms by simp
  then have "(e + 1) div 2 = s div 2 + (?m + 1) div 2" by (metis div_mult_self4 zero_neq_numeral add.commute)
  moreover have "length (hashed_level siblings s nodes idx) = (?m + 1) div 2"
    by (auto simp: hashed_level_def Let_def pairs_of_nth odd_iff_mod_2_eq_one elim!: oddE evenE)
  ultimately show ?thesis by simp
qed

lemma verify_levels_sound:
  assumes L: "\<And>k i. Suc k \<le> D \<Longrightarrow> i < 2 ^ (D - Suc k) \<Longrightarrow>
      L (Suc k) ! i = node_hash H (L k ! (2 * i)) (L k ! (2 * i + 1))"
    and "k + d = D" and "s < e" and "e \<le> 2 ^ d" and "length nodes = e - s"
    and "verify_levels H siblings d s nodes idx = (Ok [L D ! 0] :: (_, 'e) result)"
    and "\<And>a b j i. (a, b) \<in> set (hashed_levels H siblings d s nodes idx) \<Longrightarrow> Suc j \<le> D \<Longrightarrow> i < 2 ^ (D - Suc j) \<Longrightarrow>
      node_hash H a b = node_hash H (L j ! (2 * i)) (L j ! (2 * i + 1)) \<Longrightarrow> (a, b) = (L j ! (2 * i), L j ! (2 * i + 1))"
  shows "nodes = map ((!) (L k)) [s..<e]"
  using assms(2-7)
proof (induction d arbitrary: k s e nodes idx)
  case 0
  then have "s = 0" "e = 1" "k = D" by simp_all
  with 0 show ?case by simp
next
  case (Suc d)
  let ?ps = "hashed_level siblings s nodes idx" and ?s = "s div 2" and ?e = "(e + 1) div 2"
  have k: "Suc k \<le> D" "D - Suc k = d" using Suc.prems(1) by simp_all
  have e: "?e \<le> 2 ^ d" "?s < ?e" using Suc.prems(2,3) by simp_all
  obtain nodes' idx' where level: "verify_level H siblings s nodes idx = (Ok (nodes', idx') :: (_, 'e) result)"
    and rest: "verify_levels H siblings d ?s nodes' idx' = (Ok [L D ! 0] :: (_, 'e) result)"
    using Suc.prems(5) by (auto simp: rbind_eq_Ok)
  have "nodes \<noteq> []" using Suc.prems(2,4) by auto
  note hashed = verify_level_hashed [OF level this]
  have "length ?ps = ?e - ?s" using Suc.prems(2,4) by (rule length_hashed_level)
  then have len: "length nodes' = ?e - ?s" using hashed(1) by simp
  have "nodes' = map ((!) (L (Suc k))) [?s..<?e]"
  proof (rule Suc.IH [OF _ e(2,1) len rest])
    fix a b j i
    assume "(a, b) \<in> set (hashed_levels H siblings d ?s nodes' idx')"
    then have "(a, b) \<in> set (hashed_levels H siblings (Suc d) s nodes idx)"
      using hashed by (simp add: Let_def)
    then show "Suc j \<le> D \<Longrightarrow> i < 2 ^ (D - Suc j) \<Longrightarrow> node_hash H a b = node_hash H (L j ! (2 * i)) (L j ! (2 * i + 1)) \<Longrightarrow>
        (a, b) = (L j ! (2 * i), L j ! (2 * i + 1))"
      by (rule Suc.prems(6))
  qed (use Suc.prems(1) in simp)
  then have hashes: "map (\<lambda>(a, b). node_hash H a b) ?ps = map ((!) (L (Suc k))) [?s..<?e]" using hashed(1) by simp
  have "?ps = map (\<lambda>i. (L k ! (2 * i), L k ! (2 * i + 1))) [?s..<?e]"
  proof (rule nth_equalityI)
    fix j assume j: "j < length ?ps"
    obtain a b where ab: "?ps ! j = (a, b)" by fastforce
    have i: "?s + j < 2 ^ d" using j \<open>length ?ps = ?e - ?s\<close> e(1) by simp
    have "node_hash H a b = map (\<lambda>(a, b). node_hash H a b) ?ps ! j" using j ab by simp
    also have "\<dots> = L (Suc k) ! (?s + j)" using j \<open>length ?ps = ?e - ?s\<close> unfolding hashes by simp
    also have "\<dots> = node_hash H (L k ! (2 * (?s + j))) (L k ! (2 * (?s + j) + 1))" using L k i by simp
    finally have "(a, b) = (L k ! (2 * (?s + j)), L k ! (2 * (?s + j) + 1))"
      using Suc.prems(6) [of a b k "?s + j"] k i nth_mem [OF j] ab by (simp add: Let_def)
    then show "?ps ! j = map (\<lambda>i. (L k ! (2 * i), L k ! (2 * i + 1))) [?s..<?e] ! j"
      using ab j \<open>length ?ps = ?e - ?s\<close> by simp
  qed (simp add: \<open>length ?ps = ?e - ?s\<close>)
  then show ?case using Suc.prems(4,2) by (rule level_of_pairs)
qed

lemma tree_pairs_mem:
  assumes "leaves \<noteq> []" and "merkle_next_pow2 (length leaves) = 2 ^ D" and "length leaves \<le> 2 ^ D"
    and "Suc j \<le> D" and "i < 2 ^ (D - Suc j)"
  shows "(lev H (pad_to (2 ^ D) leaves) j ! (2 * i), lev H (pad_to (2 ^ D) leaves) j ! (2 * i + 1)) \<in> set (tree_pairs H leaves)"
proof -
  have "length (lev H (pad_to (2 ^ D) leaves) j) = 2 ^ Suc (D - Suc j)"
    using assms(3,4) by (simp add: length_lev Suc_diff_Suc)
  then have "(lev H (pad_to (2 ^ D) leaves) j ! (2 * i), lev H (pad_to (2 ^ D) leaves) j ! (2 * i + 1)) \<in>
      set (pairs_of (lev H (pad_to (2 ^ D) leaves) j))"
    using assms(5) by (auto simp: pairs_of_nth)
  then show ?thesis using assms(2,4) by (auto simp: tree_pairs_def merkle_log2_power Let_def intro!: bexI [of _ j])
qed

lemma merkle_verified_leaves:
  assumes "leaves \<noteq> []" and "length leaves \<le> 128" and "merkle_root_from_leaves H leaves = Ok root"
    and "rp_n p = int (length leaves)" and "merkle_verify_range_proof H root p start end = Ok True"
    and "\<not> collides H leaves p start end"
  shows "take (end - start) (rp_leaves p) = take (end - start) (drop start leaves)"
proof -
  obtain D where D: "merkle_next_pow2 (length leaves) = 2 ^ D" "length leaves \<le> 2 ^ D" "D \<le> 7"
    using tree_power assms(1,2) by metis
  let ?L = "lev H (pad_to (2 ^ D) leaves)" and ?nodes = "take (end - start) (rp_leaves p)"
  have root: "root = ?L D ! 0" using merkle_root_lev [OF assms(1) D(2,1,3), of H] assms(3) by simp
  have "c_merkle_verify_range_proof H root p start end = (Ok 0 :: (int, crypto_error) result)"
    using assms(5) by (auto simp: merkle_verify_range_proof_def result_simps split: if_splits)
  then obtain ns where range: "start < end" "end \<le> length leaves" "end - start \<le> length (rp_leaves p)"
    and ns: "verify_levels H (rp_siblings p) D start ?nodes 0 = (Ok ns :: (_, crypto_error) result)" "length ns = 1" "ns ! 0 = root"
    using assms(4) D(1) by (auto simp: c_merkle_verify_range_proof_def Let_def merkle_log2_power result_simps not_le split: if_splits)
  then have "ns = [?L D ! 0]" using root by (cases ns) simp_all
  have "?nodes = map ((!) (?L 0)) [start..<end]"
  proof (rule verify_levels_sound [where d = D and D = D and siblings = "rp_siblings p" and idx = 0])
    show "?L (Suc k) ! i = node_hash H (?L k ! (2 * i)) (?L k ! (2 * i + 1))" if "Suc k \<le> D" "i < 2 ^ (D - Suc k)" for k i
      using lev_Suc_nth [OF _ that] D(2) by simp
    show "verify_levels H (rp_siblings p) D start ?nodes 0 = (Ok [?L D ! 0] :: (_, crypto_error) result)"
      using ns(1) \<open>ns = [?L D ! 0]\<close> by simp
    fix a b j i
    assume ab: "(a, b) \<in> set (hashed_levels H (rp_siblings p) D start ?nodes 0)"
      and "Suc j \<le> D" "i < 2 ^ (D - Suc j)"
      and eq: "node_hash H a b = node_hash H (?L j ! (2 * i)) (?L j ! (2 * i + 1))"
    then have "(?L j ! (2 * i), ?L j ! (2 * i + 1)) \<in> set (tree_pairs H leaves)"
      by (intro tree_pairs_mem [OF assms(1) D(1,2)])
    with ab eq assms(6) show "(a, b) = (?L j ! (2 * i), ?L j ! (2 * i + 1))"
      unfolding collides_def D(1) merkle_log2_power by blast
  qed (use range D(2) in simp_all)
  also have "\<dots> = take (end - start) (drop start leaves)"
  proof (rule nth_equalityI)
    fix i assume "i < length (map ((!) (?L 0)) [start..<end])"
    then have "start + i < length leaves" "i < end - start" using range by simp_all
    then show "map ((!) (?L 0)) [start..<end] ! i = take (end - start) (drop start leaves) ! i"
      using D(2) by (simp add: nth_pad_to)
  qed (use range in simp)
  finally show ?thesis .
qed

text \<open>
  C22: A range proof verifies for the range it was made for, and no proof passes for other leaves. For any
  leaves up to the largest tree (128) and any range of at most 64 of them, the proof the C code makes
  passes its verification for that range against the root of the leaves. Whatever proof over that many leaves
  passes for whatever range against that root carries as many leaves as the range has, and they are
  the tree's leaves there, unless two different pairs of hashes, one hashed by the verification and
  one by the tree, have the same hash.
\<close>

theorem merkle_range_exact:
  assumes "start < end" and "end \<le> length leaves" and "end - start \<le> 64" and "length leaves \<le> 128"
  shows "\<exists>proof root. merkle_range_proof H leaves start end = Ok proof \<and>
    merkle_root_from_leaves H leaves = Ok root \<and>
    merkle_verify_range_proof H root proof start end = Ok True \<and>
    (\<forall>p s e. rp_n p = int (length leaves) \<longrightarrow> merkle_verify_range_proof H root p s e = Ok True \<longrightarrow>
       \<not> collides H leaves p s e \<longrightarrow>
       e - s = nat (rp_leaf_count p) \<and> take (e - s) (rp_leaves p) = take (e - s) (drop s leaves))"
proof -
  have "leaves \<noteq> []" using assms by auto
  obtain pr root where made: "merkle_range_proof H leaves start end = Ok pr"
    "merkle_root_from_leaves H leaves = Ok root" "merkle_verify_range_proof H root pr start end = Ok True"
    using merkle_made_verifies [OF assms] by blast
  have "e - s = nat (rp_leaf_count p)"
    if "merkle_verify_range_proof H root p s e = Ok True" "rp_n p = int (length leaves)" for p s e
  proof -
    have "c_merkle_verify_range_proof H root p s e = (Ok 0 :: (int, crypto_error) result)"
      using that(1) by (auto simp: merkle_verify_range_proof_def result_simps split: if_splits)
    then have "rp_leaf_count p = as_i32 (e - s)" "e \<le> length leaves"
      using that(2) by (auto simp: c_merkle_verify_range_proof_def split: if_splits)
    then show ?thesis using assms(4) by (simp add: as_i32_small)
  qed
  then show ?thesis
    using made merkle_verified_leaves [OF \<open>leaves \<noteq> []\<close> assms(4) made(2)] by blast
qed

theorem merkle_range_exact_witness:
  "\<exists>proof root. merkle_range_proof id [[1], [2], [3]] 1 3 = Ok proof \<and>
    merkle_root_from_leaves id [[1], [2], [3]] = Ok root \<and>
    merkle_verify_range_proof id root proof 1 3 = Ok True \<and>
    merkle_verify_range_proof id root (proof\<lparr>rp_leaves := [[2], [4]]\<rparr>) 1 3 \<noteq> Ok True \<and>
    merkle_verify_range_proof id root proof 0 2 \<noteq> Ok True"
proof -
  have "\<exists>proof root. merkle_range_proof id [[1], [2], [3]] 1 3 = Ok proof \<and>
      merkle_root_from_leaves id [[1], [2], [3]] = Ok root \<and>
      merkle_verify_range_proof id root proof 1 3 = Ok True \<and>
      (\<forall>p s e. rp_n p = int (length [[1 :: u8], [2], [3]]) \<longrightarrow> merkle_verify_range_proof id root p s e = Ok True \<longrightarrow>
         \<not> collides id [[1], [2], [3]] p s e \<longrightarrow>
         e - s = nat (rp_leaf_count p) \<and> take (e - s) (rp_leaves p) = take (e - s) (drop s [[1], [2], [3]]))"
    by (rule merkle_range_exact) simp_all
  then obtain p root where made: "merkle_range_proof id [[1], [2], [3]] 1 3 = Ok p"
    "merkle_root_from_leaves id [[1], [2], [3]] = Ok root" "merkle_verify_range_proof id root p 1 3 = Ok True"
    and exact: "\<And>p s e. rp_n p = int (length [[1 :: u8], [2], [3]]) \<Longrightarrow> merkle_verify_range_proof id root p s e = Ok True \<Longrightarrow>
       \<not> collides id [[1], [2], [3]] p s e \<Longrightarrow> take (e - s) (rp_leaves p) = take (e - s) (drop s [[1], [2], [3]])"
    by blast
  have comp: "(case merkle_range_proof id [[1], [2], [3]] 1 3 of
      Ok p \<Rightarrow> rp_n p = 3 \<and> \<not> collides id [[1], [2], [3]] (p\<lparr>rp_leaves := [[2], [4]]\<rparr>) 1 3 \<and>
        \<not> collides id [[1], [2], [3]] p 0 2 \<and> take 2 (rp_leaves p) = [[2], [3]]
    | _ \<Rightarrow> False)"
    by code_simp
  then have "rp_n p = 3" "\<not> collides id [[1], [2], [3]] (p\<lparr>rp_leaves := [[2], [4]]\<rparr>) 1 3"
    "\<not> collides id [[1], [2], [3]] p 0 2" "take 2 (rp_leaves p) = [[2], [3]]"
    unfolding made(1) by simp_all
  then have "merkle_verify_range_proof id root (p\<lparr>rp_leaves := [[2], [4]]\<rparr>) 1 3 \<noteq> Ok True"
    "merkle_verify_range_proof id root p 0 2 \<noteq> Ok True"
    using exact [of "p\<lparr>rp_leaves := [[2], [4]]\<rparr>" 1 3] exact [of p 0 2] by auto
  with made show ?thesis by blast
qed

lemma merkle_too_many_leaves:
  assumes "128 < length leaves"
  shows "merkle_root_from_leaves H leaves = Err (BadInput ''invalid input'')"
proof -
  obtain D where D: "merkle_next_pow2 (length leaves) = 2 ^ D" "length leaves \<le> 2 ^ D"
    using next_pow2_from_spec [of 0 "length leaves"] by (auto simp: merkle_next_pow2_def)
  then have "128 < (2 :: nat) ^ D" using assms by simp
  then show ?thesis
    using assms D by (auto simp: merkle_root_from_leaves_def c_merkle_root_from_leaves_def Let_def
        MERKLE_MAX_TREE_PADDED_def c_result_to_error_def)
qed

text \<open>More leaves than the array of a proof holds are read past its end.\<close>

lemma merkle_verify_out_of_bounds:
  assumes "length (rp_leaves p) = 64" and "64 < m" and "rp_leaf_count p = as_i32 m" and "int m \<le> rp_n p"
  shows "merkle_verify_range_proof H root p 0 m = Panic"
  using assms by (auto simp: merkle_verify_range_proof_def c_merkle_verify_range_proof_def Let_def)

end
