(* ===== verification/Calendar_Store.thy ===== *)
theory Calendar_Store
  imports Calendar_Chain Clean_Auth Merkle
begin

section \<open>The store of calendar blocks\<close>

text \<open>
  Models \<^verbatim>\<open>foretias-server/src/calendar_store/encrypted_jsonl.rs\<close> (the append-only file of
  sealed blocks) and the chronon lookups of \<^verbatim>\<open>calendar_store/mod.rs\<close>. The JSON, CBOR and
  base64 codecs, SHA-256 and the sealing of the crypto server are the fields of \<open>codec\<close>; the file
  system is the one of \<open>Calendar_Chain\<close>.
\<close>

subsection \<open>Blocks and the line codec\<close>

record calendar_block =
  cb_block_id :: u64
  cb_written_at_ns :: u64
  cb_ticks :: "chronon_record externalized list"
  cb_merkle_root :: bytes

record ('sealed) codec =
  cd_tick_json :: "chronon_record \<Rightarrow> (bytes, string) result"
  cd_sha256 :: "bytes \<Rightarrow> hash32"
  cd_block_json :: "calendar_block \<Rightarrow> (bytes, node_error) result"
  cd_seal :: "bytes \<Rightarrow> ('sealed, node_error) result"
  cd_cbor :: "'sealed \<Rightarrow> (bytes, string) result"
  cd_base64 :: "bytes \<Rightarrow> string"
  cd_base64_decode :: "string \<Rightarrow> (bytes, string) result"
  cd_cbor_decode :: "bytes \<Rightarrow> ('sealed, string) result"
  cd_unseal :: "'sealed \<Rightarrow> (bytes, node_error) result"
  cd_block_of_json :: "bytes \<Rightarrow> (calendar_block, node_error) result"

definition compute_merkle_root :: "'s codec \<Rightarrow> calendar_block \<Rightarrow> (bytes, node_error) result" where
  "compute_merkle_root C block =
     (if cb_ticks block = [] then Ok (replicate 32 0)
      else
        rbind (try_map (\<lambda>tick.
                 rbind (rmap_err (\<lambda>e. Internal (''tick serialize error: '' @ e)) (cd_tick_json C (ex_inner tick)))
                   (\<lambda>json. rmap_err Crypto (merkle_leaf (cd_sha256 C) json))) (cb_ticks block)) (\<lambda>leaves.
          rmap_err Crypto (merkle_root_from_leaves (cd_sha256 C) leaves)))"

definition encode_line :: "'s codec \<Rightarrow> calendar_block \<Rightarrow> (string, node_error) result" where
  "encode_line C block =
     rbind (cd_block_json C block) (\<lambda>json_bytes.
     rbind (cd_seal C json_bytes) (\<lambda>sealed.
     rbind (rmap_err (\<lambda>e. Internal (''CBOR encode error: '' @ e)) (cd_cbor C sealed)) (\<lambda>cbor_bytes.
       Ok (cd_base64 C cbor_bytes))))"

definition decode_line :: "'s codec \<Rightarrow> string \<Rightarrow> (calendar_block, node_error) result" where
  "decode_line C line =
     rbind (rmap_err (\<lambda>e. Internal (''base64 decode error: '' @ e)) (cd_base64_decode C line)) (\<lambda>cbor_bytes.
     rbind (rmap_err (\<lambda>e. Internal (''CBOR decode error: '' @ e)) (cd_cbor_decode C cbor_bytes)) (\<lambda>sealed.
     rbind (cd_unseal C sealed) (\<lambda>json_bytes. cd_block_of_json C json_bytes)))"

subsection \<open>Lines of a file\<close>

abbreviation newline :: char where
  "newline \<equiv> CHR 0x0A"

text \<open>\<^verbatim>\<open>str::lines\<close> without its treatment of \<^verbatim>\<open>\r\<close>, which the trim that follows subsumes.\<close>

fun lines_of :: "string \<Rightarrow> string list" where
  "lines_of [] = []"
| "lines_of (c # cs) =
     (if c = newline then [] # lines_of cs
      else (case lines_of cs of
              [] \<Rightarrow> [[c]]
            | l # ls \<Rightarrow> (c # l) # ls))"

definition is_blank :: "char \<Rightarrow> bool" where
  "is_blank c \<longleftrightarrow> c \<in> {CHR '' '', CHR 0x09, CHR 0x0A, CHR 0x0B, CHR 0x0C, CHR 0x0D}"

definition trim :: "string \<Rightarrow> string" where
  "trim s = rev (dropWhile is_blank (rev (dropWhile is_blank s)))"

definition stored_lines :: "string \<Rightarrow> string list" where
  "stored_lines contents = filter (\<lambda>l. l \<noteq> []) (map trim (lines_of contents))"

lemma lines_of_Nil_iff [simp]: "lines_of cs = [] \<longleftrightarrow> cs = []"
  by (cases cs) (auto split: list.splits)

lemma lines_of_line: "newline \<notin> set l \<Longrightarrow> lines_of (l @ newline # cs) = l # lines_of cs"
  by (induction l) auto

lemma lines_of_append:
  "cs = [] \<or> last cs = newline \<Longrightarrow> lines_of (cs @ ds) = lines_of cs @ lines_of ds"
proof (induction cs)
  case (Cons c cs)
  show ?case
  proof (cases "cs = []")
    case True
    with Cons.prems show ?thesis by simp
  next
    case False
    with Cons show ?thesis by (auto split: list.splits)
  qed
qed simp

lemma stored_lines_append:
  assumes "contents = [] \<or> last contents = newline" and "newline \<notin> set l" and "trim l \<noteq> []"
  shows "stored_lines (contents @ l @ [newline]) = stored_lines contents @ [trim l]"
  using lines_of_append [OF assms(1), of "l @ [newline]"] lines_of_line [OF assms(2), of "[]"] assms(3)
  by (simp add: stored_lines_def)

subsection \<open>The store\<close>

record jsonl_store =
  js_path :: string
  js_next_block_id :: u64

definition read_contents :: "string \<Rightarrow> fs \<Rightarrow> string" where
  "read_contents path files = case_option [] id (files path)"

text \<open>
  \<^verbatim>\<open>compute_next_block_id\<close>, line by line: one that cannot be read makes it
  \<^verbatim>\<open>None\<close>, a greatest number has no successor.
\<close>

definition next_block_id :: "bool \<Rightarrow> calendar_block \<Rightarrow> u64 \<Rightarrow> (u64, node_error) result" where
  "next_block_id debug b max_id =
     (if cb_block_id b \<ge> max_id then add_u64 debug (cb_block_id b) 1 else Ok max_id)"

definition compute_next_block_id :: "bool \<Rightarrow> 's codec \<Rightarrow> string \<Rightarrow> fs \<Rightarrow> (u64, node_error) result" where
  "compute_next_block_id debug C path files =
     (case files path of
        None \<Rightarrow> Ok 0
      | Some contents \<Rightarrow>
          fold (\<lambda>line acc. rbind acc (\<lambda>max_id.
                  rbind (decode_line C line) (\<lambda>b. next_block_id debug b max_id)))
            (stored_lines contents) (Ok 0))"

text \<open>Where every line is read, the numbers of the blocks decide.\<close>

lemma next_block_id_of_lines:
  assumes "try_map (decode_line C) ls = Ok blocks"
  shows "fold (\<lambda>line acc. rbind acc (\<lambda>max_id. rbind (decode_line C line) (\<lambda>b. next_block_id debug b max_id))) ls acc =
    fold (\<lambda>b acc. rbind acc (next_block_id debug b)) blocks acc"
  using assms
proof (induction ls arbitrary: blocks acc)
  case (Cons l ls)
  then obtain b bs where "decode_line C l = Ok b" "try_map (decode_line C) ls = Ok bs" "blocks = b # bs"
    by (auto simp: result_simps)
  with Cons.IH [of bs] show ?case by simp
qed simp

definition jsonl_open :: "bool \<Rightarrow> 's codec \<Rightarrow> string \<Rightarrow> fs \<Rightarrow> (jsonl_store, node_error) result" where
  "jsonl_open debug C path files = (case compute_next_block_id debug C path files of
     Ok n \<Rightarrow> Ok \<lparr>js_path = path, js_next_block_id = n\<rparr>
   | Err _ \<Rightarrow> Ok \<lparr>js_path = path, js_next_block_id = 0\<rparr>
   | Panic \<Rightarrow> Panic)"

text \<open>
  \<^verbatim>\<open>writeln!\<close> on a file opened for appending: all of the line, or a prefix of it when the
  write fails.
\<close>

definition fs_append :: "write_outcome \<Rightarrow> string \<Rightarrow> string \<Rightarrow> fs \<Rightarrow> (unit, node_error) result \<times> fs" where
  "fs_append out path data files = (case out of
     Written \<Rightarrow> (Ok (), files(path \<mapsto> read_contents path files @ data))
   | WriteFailed n e \<Rightarrow> (Err (Io e), files(path \<mapsto> read_contents path files @ take n data)))"

definition append_block ::
    "'s codec \<Rightarrow> clock_reading \<Rightarrow> (unit, string) result \<Rightarrow> write_outcome \<Rightarrow>
     chronon_record externalized list \<Rightarrow> jsonl_store \<times> fs \<Rightarrow> (unit, node_error) result \<times> jsonl_store \<times> fs" where
  "append_block C clock create_dir out ts = (\<lambda>(st, files).
     (let block_id = js_next_block_id st; st' = st\<lparr>js_next_block_id := block_id + 1\<rparr>;
          line = rbind (rmap_err (\<lambda>e. Internal (''clock error: '' @ e)) clock) (\<lambda>written_at_ns.
                 (let block = \<lparr>cb_block_id = block_id, cb_written_at_ns = written_at_ns,
                               cb_ticks = ts, cb_merkle_root = replicate 32 0\<rparr> in
                  rbind (compute_merkle_root C block) (\<lambda>root.
                  rbind (encode_line C (block\<lparr>cb_merkle_root := root\<rparr>)) (\<lambda>line.
                  rbind (rmap_err Io create_dir) (\<lambda>_. Ok line)))))
      in (case line of
            Ok l \<Rightarrow> (let (r, files') = fs_append out (js_path st) (l @ [newline]) files in (r, st', files'))
          | Err e \<Rightarrow> (Err e, st', files)
          | Panic \<Rightarrow> (Panic, st', files))))"

definition read_all :: "'s codec \<Rightarrow> string \<Rightarrow> fs \<Rightarrow> (calendar_block list, node_error) result" where
  "read_all C path files = (case files path of
     None \<Rightarrow> Ok []
   | Some contents \<Rightarrow> try_map (decode_line C) (stored_lines contents))"

lemma try_map_append:
  "try_map f (xs @ ys) = rbind (try_map f xs) (\<lambda>us. rbind (try_map f ys) (\<lambda>vs. Ok (us @ vs)))"
proof (induction xs)
  case Nil
  show ?case by (cases "try_map f ys") simp_all
next
  case (Cons x xs)
  show ?case unfolding append_Cons try_map.simps Cons
    by (cases "f x"; cases "try_map f xs"; cases "try_map f ys") simp_all
qed

text \<open>What the codec has to do: read back the block it wrote, on a line of its own.\<close>

definition codec_ok :: "'s codec \<Rightarrow> bool" where
  "codec_ok C \<longleftrightarrow> (\<forall>b l. encode_line C b = Ok l \<longrightarrow>
     newline \<notin> set l \<and> trim l = l \<and> l \<noteq> [] \<and> decode_line C l = Ok b)"

definition file_ok :: "string \<Rightarrow> bool" where
  "file_ok contents \<longleftrightarrow> contents = [] \<or> last contents = newline"

lemma append_block_read_all:
  assumes "codec_ok C" and "file_ok (read_contents (js_path st) files)"
    and "read_all C (js_path st) files = Ok blocks"
    and "append_block C clock create_dir Written ts (st, files) = (Ok (), st', files')"
  shows "\<exists>b. read_all C (js_path st') files' = Ok (blocks @ [b]) \<and> cb_ticks b = ts \<and>
      cb_block_id b = js_next_block_id st \<and> js_next_block_id st' = js_next_block_id st + 1"
    and "file_ok (read_contents (js_path st') files')"
proof -
  let ?old = "read_contents (js_path st) files"
  from assms(4) obtain l b where enc: "encode_line C b = Ok l"
    and b: "cb_ticks b = ts" "cb_block_id b = js_next_block_id st"
    and st': "st' = st\<lparr>js_next_block_id := js_next_block_id st + 1\<rparr>"
    and files': "files' = files(js_path st \<mapsto> ?old @ l @ [newline])"
    by (auto simp: append_block_def Let_def fs_append_def result_simps split: result.splits)
  have l: "newline \<notin> set l" "trim l = l" "l \<noteq> []" "decode_line C l = Ok b"
    using assms(1) enc by (auto simp: codec_ok_def)
  have "try_map (decode_line C) (stored_lines ?old) = Ok blocks"
    using assms(3) by (auto simp: read_all_def read_contents_def stored_lines_def split: option.splits)
  moreover have "stored_lines (?old @ l @ [newline]) = stored_lines ?old @ [l]"
    using stored_lines_append [of ?old l] l assms(2) by (simp add: file_ok_def)
  ultimately show "\<exists>b. read_all C (js_path st') files' = Ok (blocks @ [b]) \<and> cb_ticks b = ts \<and>
      cb_block_id b = js_next_block_id st \<and> js_next_block_id st' = js_next_block_id st + 1"
    using l(4) b st' files' by (auto simp: read_all_def try_map_append)
  show "file_ok (read_contents (js_path st') files')"
    using st' files' by (simp add: file_ok_def read_contents_def)
qed

text \<open>
  An append cut short leaves an unfinished line, and one line that cannot be decoded is an
  error of every later \<open>read_all\<close>.
\<close>

lemma unreadable_line_hides_all:
  assumes "files path = Some contents" and "l \<in> set (stored_lines contents)"
    and "\<not> is_ok (decode_line C l)"
  shows "\<not> is_ok (read_all C path files)"
proof
  assume "is_ok (read_all C path files)"
  then obtain bs where "list_all2 (\<lambda>x y. decode_line C x = Ok y) (stored_lines contents) bs"
    using assms(1) by (auto simp: read_all_def is_ok_iff try_map_Ok_iff)
  then show False using assms(2,3) by (auto simp: list_all2_conv_all_nth in_set_conv_nth is_ok_iff)
qed

subsection \<open>Appending any number of blocks\<close>

text \<open>Every append writes; a clock reading and the ticks come with each.\<close>

fun append_blocks ::
    "'s codec \<Rightarrow> (clock_reading \<times> chronon_record externalized list) list \<Rightarrow> jsonl_store \<times> fs \<Rightarrow>
     (unit, node_error) result list \<times> jsonl_store \<times> fs" where
  "append_blocks C [] st = ([], st)"
| "append_blocks C ((clock, ts) # rest) st =
     (let (r, st1) = append_block C clock (Ok ()) Written ts st; (rs, st2) = append_blocks C rest st1
      in (r # rs, st2))"

lemma read_all_appends:
  assumes "codec_ok C" and "append_blocks C tss (st, files) = (rs, st', files')" and "list_all is_ok rs"
    and "file_ok (read_contents (js_path st) files)" and "read_all C (js_path st) files = Ok blocks"
  shows "\<exists>new. read_all C (js_path st') files' = Ok (blocks @ new) \<and> map cb_ticks new = map snd tss \<and>
    map cb_block_id new = map (\<lambda>i. js_next_block_id st + word_of_nat i) [0..<length tss] \<and>
    js_path st' = js_path st \<and> js_next_block_id st' = js_next_block_id st + word_of_nat (length tss)"
  using assms(2-)
proof (induction tss arbitrary: st files rs blocks)
  case Nil
  then show ?case by simp
next
  case (Cons x tss)
  obtain clock ts where x: "x = (clock, ts)" by fastforce
  obtain r st1 files1 where a: "append_block C clock (Ok ()) Written ts (st, files) = (r, st1, files1)"
    by (cases "append_block C clock (Ok ()) Written ts (st, files)") auto
  then obtain rs1 where as: "append_blocks C tss (st1, files1) = (rs1, st', files')" "list_all is_ok rs1"
    and "is_ok r"
    using Cons.prems(1,2) x by (auto simp: Let_def split: prod.splits)
  then have a: "append_block C clock (Ok ()) Written ts (st, files) = (Ok (), st1, files1)"
    using a by (simp add: is_ok_iff)
  from append_block_read_all [OF assms(1) Cons.prems(3,4) a] obtain b where
    b: "read_all C (js_path st1) files1 = Ok (blocks @ [b])" "cb_ticks b = ts"
      "cb_block_id b = js_next_block_id st" "js_next_block_id st1 = js_next_block_id st + 1"
    and ok: "file_ok (read_contents (js_path st1) files1)" by blast
  have path: "js_path st1 = js_path st"
    using a by (auto simp: append_block_def Let_def split: result.splits prod.splits)
  have "map (\<lambda>i. js_next_block_id st + word_of_nat i) [0..<length (x # tss)] =
      js_next_block_id st # map (\<lambda>i. js_next_block_id st + 1 + word_of_nat i) [0..<length tss]"
    by (simp add: upt_rec [of 0] map_Suc_upt [symmetric] comp_def add.assoc del: upt_Suc)
  with Cons.IH [OF as ok b(1)] b path x show ?case by (auto simp: add.assoc)
qed

lemma next_block_id_after:
  assumes "map cb_block_id bs = map word_of_nat [0..<n]" and "n < 2 ^ 64"
  shows "fold (\<lambda>b acc. rbind acc (next_block_id debug b)) bs (Ok 0) = (Ok (word_of_nat n) :: (u64, node_error) result)"
  using assms
proof (induction bs arbitrary: n rule: rev_induct)
  case Nil
  then show ?case by simp
next
  case (snoc b bs)
  then obtain m where n: "n = Suc m" and bs: "map cb_block_id bs = map word_of_nat [0..<m]" "cb_block_id b = word_of_nat m"
    by (cases n) auto
  have "unat (word_of_nat m :: u64) = m" using snoc.prems(2) n by (simp add: unat_of_nat)
  then have "add_u64 debug (word_of_nat m) 1 = (Ok (word_of_nat m + 1) :: (u64, node_error) result)"
    using snoc.prems(2) n by (intro add_u64_no_overflow) simp
  then show ?case using snoc.IH [OF bs(1)] snoc.prems(2) n bs(2) by (simp add: next_block_id_def)
qed

text \<open>
  C36: Blocks appended to a fresh store are read back in order with the ticks they were given,
  numbered from 0; a store opened on that file goes on with the next number.
\<close>

theorem appended_blocks_read_back:
  assumes "codec_ok C" and "files path = None" and "length tss < 2 ^ 64"
    and "append_blocks C tss (\<lparr>js_path = path, js_next_block_id = 0\<rparr>, files) = (rs, st', files')"
    and "list_all is_ok rs"
  shows "\<exists>blocks. read_all C path files' = Ok blocks \<and> map cb_ticks blocks = map snd tss \<and>
    map cb_block_id blocks = map word_of_nat [0..<length tss] \<and>
    jsonl_open debug C path files' = Ok \<lparr>js_path = path, js_next_block_id = word_of_nat (length tss)\<rparr>"
proof -
  have "file_ok (read_contents path files)" "read_all C path files = Ok []"
    using assms(2) by (simp_all add: file_ok_def read_contents_def read_all_def)
  with read_all_appends [OF assms(1,4,5)] obtain bs where
    bs: "read_all C path files' = Ok bs" "map cb_ticks bs = map snd tss"
      "map cb_block_id bs = map word_of_nat [0..<length tss]" by auto
  then have "compute_next_block_id debug C path files' = Ok (word_of_nat (length tss))"
    using next_block_id_after [OF bs(3) assms(3)] next_block_id_of_lines
    by (fastforce simp: compute_next_block_id_def read_all_def split: option.splits)
  with bs show ?thesis by (auto simp: jsonl_open_def)
qed

text \<open>A codec small enough to compute with: the block numbered \<open>n\<close>, empty, is \<open>n\<close> letters and a mark.\<close>

definition unary_block :: "u64 \<Rightarrow> calendar_block" where
  "unary_block n = \<lparr>cb_block_id = n, cb_written_at_ns = 5, cb_ticks = [], cb_merkle_root = replicate 32 0\<rparr>"

definition unary_codec :: "bytes codec" where
  "unary_codec =
     \<lparr>cd_tick_json = (\<lambda>_. Ok []), cd_sha256 = (\<lambda>m. m),
      cd_block_json = (\<lambda>b. if b = unary_block (cb_block_id b) then Ok (replicate (unat (cb_block_id b)) 0)
                           else Err (Internal [])),
      cd_seal = Ok, cd_cbor = Ok,
      cd_base64 = (\<lambda>bs. replicate (length bs) CHR ''a'' @ ''!''),
      cd_base64_decode = (\<lambda>s. if list_last s = Some CHR ''!'' then Ok (replicate (length s - 1) 0) else Err []),
      cd_cbor_decode = Ok, cd_unseal = Ok,
      cd_block_of_json = (\<lambda>bs. Ok (unary_block (word_of_nat (length bs))))\<rparr>"

lemma two_letters: "replicate (unat (2 :: u64)) c = [c, c]"
proof -
  have "unat (2 :: u64) = Suc (Suc 0)" by simp
  then show ?thesis by (simp only: replicate.simps)
qed

lemma trim_marked: "trim (replicate n CHR ''a'' @ ''!'') = replicate n CHR ''a'' @ ''!''"
proof -
  have "dropWhile is_blank (replicate n CHR ''a'' @ ''!'') = replicate n CHR ''a'' @ ''!''"
    by (cases n) (simp_all add: is_blank_def)
  then show ?thesis by (simp add: trim_def is_blank_def)
qed

lemma unary_encode: "encode_line unary_codec b = Ok l \<longleftrightarrow>
    b = unary_block (cb_block_id b) \<and> l = replicate (unat (cb_block_id b)) CHR ''a'' @ ''!''"
  by (auto simp: encode_line_def unary_codec_def)

lemma unary_codec_ok [simp]: "codec_ok unary_codec"
proof -
  have "decode_line unary_codec (replicate (unat n) CHR ''a'' @ ''!'') = Ok (unary_block n)" for n
    by (simp add: decode_line_def unary_codec_def)
  then show ?thesis by (auto simp: codec_ok_def unary_encode trim_marked)
qed

lemma append_empty_block:
  "append_block unary_codec (Ok 5) (Ok ()) out [] (st, files) =
     (let (r, files') = fs_append out (js_path st)
            (replicate (unat (js_next_block_id st)) CHR ''a'' @ ''!'' @ [newline]) files
      in (r, st\<lparr>js_next_block_id := js_next_block_id st + 1\<rparr>, files'))"
proof -
  have "encode_line unary_codec (unary_block n) = Ok (replicate (unat n) CHR ''a'' @ ''!'')" for n
    by (simp add: unary_encode) (simp add: unary_block_def)
  then show ?thesis
    by (simp add: append_block_def compute_merkle_root_def Let_def unary_block_def)
qed

theorem appended_blocks_read_back_witness:
  "\<exists>blocks. read_all unary_codec ''f'' (snd (snd (append_blocks unary_codec [(Ok 5, []), (Ok 5, [])]
      (\<lparr>js_path = ''f'', js_next_block_id = 0\<rparr>, Map.empty)))) = Ok blocks \<and>
    map cb_block_id blocks = [0, 1]"
proof -
  let ?run = "append_blocks unary_codec [(Ok 5, []), (Ok 5, [])] (\<lparr>js_path = ''f'', js_next_block_id = 0\<rparr>, Map.empty)"
  have "list_all is_ok (fst ?run)"
    by (simp add: append_empty_block fs_append_def)
  from appended_blocks_read_back [where debug = True, OF unary_codec_ok, of Map.empty "''f''" "[(Ok 5, []), (Ok 5, [])]",
      OF _ _ _ this, of "fst (snd ?run)" "snd (snd ?run)"]
  have "\<exists>blocks. read_all unary_codec ''f'' (snd (snd ?run)) = Ok blocks \<and> map cb_block_id blocks = [0, 1]"
    by (simp only: prod.collapse) (auto simp: upt_rec)
  then show ?thesis .
qed

lemma next_block_id_Ok:
  assumes "\<forall>b \<in> set blocks. cb_block_id b + 1 \<noteq> 0"
  shows "\<exists>m. fold (\<lambda>b acc. rbind acc (next_block_id debug b)) blocks (Ok n) = (Ok m :: (u64, node_error) result)"
  using assms
proof (induction blocks arbitrary: n)
  case (Cons b bs)
  then have "add_u64 debug (cb_block_id b) 1 = (Ok (cb_block_id b + 1) :: (u64, node_error) result)"
    by (intro add_one_no_overflow) simp
  with Cons show ?case by (cases "n \<le> cb_block_id b") (simp_all add: next_block_id_def)
qed simp

text \<open>
  One append that stops short makes the whole store unreadable. The torn line does not
  decode, so reading fails from then on, and a store opened again on the file numbers its
  blocks from 0.
\<close>

theorem torn_append_hides_store:
  assumes "file_ok (read_contents (js_path st) files)"
    and "read_all C (js_path st) files = Ok blocks"
    and "append_block C clock (Ok ()) (WriteFailed n err) ts (st, files) = (r, st', files')"
    and "files' \<noteq> files"
    and "\<And>b l. cb_block_id b = js_next_block_id st \<Longrightarrow> encode_line C b = Ok l \<Longrightarrow>
      newline \<notin> set l \<and> n < length l \<and> trim (take n l) \<noteq> [] \<and>
      (\<exists>e. decode_line C (trim (take n l)) = Err e)"
    and "\<forall>b \<in> set blocks. cb_block_id b + 1 \<noteq> 0"
  shows "r = Err (Io err) \<and> \<not> is_ok (read_all C (js_path st) files') \<and>
    jsonl_open debug C (js_path st) files' = Ok \<lparr>js_path = js_path st, js_next_block_id = 0\<rparr>"
proof -
  let ?old = "read_contents (js_path st) files"
  from assms(3,4) obtain a root l where
    "encode_line C \<lparr>cb_block_id = js_next_block_id st, cb_written_at_ns = a, cb_ticks = ts,
       cb_merkle_root = root\<rparr> = Ok l"
    and r: "r = Err (Io err)" and files': "files' = files(js_path st \<mapsto> ?old @ take n (l @ [newline]))"
    by (auto simp: append_block_def Let_def fs_append_def result_simps split: result.splits)
  then obtain b where enc: "cb_block_id b = js_next_block_id st" "encode_line C b = Ok l"
    by (metis calendar_block.select_convs(1))
  from assms(5) [OF enc] obtain e where l: "newline \<notin> set l" "n < length l" "trim (take n l) \<noteq> []"
    and e: "decode_line C (trim (take n l)) = Err e" by blast
  have nl: "newline \<notin> set (take n l)" using l(1) by (auto dest: in_set_takeD)
  have "lines_of t = [t]" if "newline \<notin> set t" "t \<noteq> []" for t
    using that
  proof (induction t)
    case (Cons c t)
    then show ?case by (cases t) auto
  qed simp
  moreover have "trim [] = []" by (simp add: trim_def)
  then have "take n l \<noteq> []" using l(3) by metis
  ultimately have lines: "stored_lines (?old @ take n l) = stored_lines ?old @ [trim (take n l)]"
    using lines_of_append [of ?old "take n l"] assms(1) l(3) nl by (simp add: stored_lines_def file_ok_def)
  moreover have old: "try_map (decode_line C) (stored_lines ?old) = Ok blocks"
    using assms(2) by (auto simp: read_all_def read_contents_def stored_lines_def split: option.splits)
  ultimately have "try_map (decode_line C) (stored_lines (?old @ take n l)) = Err e"
    using e by (simp add: try_map_append)
  moreover have "files' (js_path st) = Some (?old @ take n l)" using files' l(2) by simp
  moreover obtain m where "fold (\<lambda>b acc. rbind acc (next_block_id debug b)) blocks (Ok 0) = (Ok m :: (u64, node_error) result)"
    using next_block_id_Ok [OF assms(6)] by blast
  ultimately show ?thesis
    using r e next_block_id_of_lines [OF old, of debug "Ok 0"] lines
    by (simp add: read_all_def jsonl_open_def compute_next_block_id_def)
qed

theorem torn_append_hides_store_witness:
  "\<not> is_ok (read_all unary_codec ''f'' (snd (snd (append_block unary_codec (Ok 5) (Ok ()) (WriteFailed 1 ''full'') []
     (\<lparr>js_path = ''f'', js_next_block_id = 2\<rparr>, [''f'' \<mapsto> ''!'' @ [newline] @ ''a!'' @ [newline]])))))"
proof -
  let ?old = "[''f'' \<mapsto> ''!'' @ [newline] @ ''a!'' @ [newline]] :: fs"
    and ?st = "\<lparr>js_path = ''f'', js_next_block_id = 2\<rparr>"
  have "read_all unary_codec ''f'' ?old = Ok [unary_block 0, unary_block 1]"
    by (simp add: read_all_def stored_lines_def trim_def is_blank_def decode_line_def unary_codec_def list_last_def)
  then have "read_all unary_codec (js_path ?st) ?old = Ok [unary_block 0, unary_block 1]" by simp
  moreover have "file_ok (read_contents (js_path ?st) ?old)" by (simp add: file_ok_def read_contents_def)
  moreover have app: "append_block unary_codec (Ok 5) (Ok ()) (WriteFailed 1 ''full'') [] (?st, ?old) =
      (Err (Io ''full''), ?st\<lparr>js_next_block_id := 3\<rparr>, ?old(''f'' \<mapsto> ''!'' @ [newline] @ ''a!'' @ [newline] @ ''a''))"
    by (simp add: append_empty_block fs_append_def read_contents_def two_letters del: unat_numeral)
  moreover have "?old(''f'' \<mapsto> ''!'' @ [newline] @ ''a!'' @ [newline] @ ''a'') \<noteq> ?old"
    by (auto dest: fun_cong [of _ _ "''f''"])
  moreover have "newline \<notin> set l \<and> 1 < length l \<and> trim (take 1 l) \<noteq> [] \<and>
      (\<exists>e. decode_line unary_codec (trim (take 1 l)) = Err e)"
    if "cb_block_id b = js_next_block_id ?st" "encode_line unary_codec b = Ok l" for b l
  proof -
    have "l = replicate (unat (2 :: u64)) CHR ''a'' @ ''!''" using that by (simp add: unary_encode)
    then have "l = ''aa!''" unfolding two_letters by simp
    then show ?thesis
      by (simp add: trim_def is_blank_def decode_line_def unary_codec_def list_last_def)
  qed
  moreover have "\<forall>b \<in> set [unary_block 0, unary_block 1]. cb_block_id b + 1 \<noteq> 0"
    by (simp add: unary_block_def)
  ultimately have "\<not> is_ok (read_all unary_codec (js_path ?st)
      (?old(''f'' \<mapsto> ''!'' @ [newline] @ ''a!'' @ [newline] @ ''a'')))"
    by (intro torn_append_hides_store [THEN conjunct2, THEN conjunct1])
  then show ?thesis unfolding app by simp
qed

end
