(* ===== verification/Chronon_Lookup.thy ===== *)
theory Chronon_Lookup
  imports Calendar_Store
begin

section \<open>Chronon lookups over stored blocks\<close>

text \<open>
  Models \<^verbatim>\<open>foretias-server/src/calendar_store/mod.rs\<close>: looking up one chronon or a range of
  them in what \<^verbatim>\<open>read_all\<close> returned, and the gaps of a partial answer. \<open>debug\<close> is whether the build checks overflow.
\<close>

record coverage_info =
  cov_requested :: u64
  cov_returned :: u64

datatype chronon_chain_result =
    Complete "chronon_record list" coverage_info
  | Partial "chronon_record list" coverage_info "(u64 \<times> u64) list"
  | NoChronons coverage_info

definition clear_attestations :: "bool \<Rightarrow> chronon_record \<Rightarrow> chronon_record" where
  "clear_attestations include_attestations r =
     (if \<not> include_attestations then set_external_attestations [] r else r)"

lemma clear_attestations_number [simp]:
  "cr_chronon_number (clear_attestations i r) = cr_chronon_number r"
  by (simp add: clear_attestations_def)

definition block_ticks :: "calendar_block list \<Rightarrow> chronon_record list" where
  "block_ticks blocks = concat (map (\<lambda>b. map ex_inner (cb_ticks b)) blocks)"

definition get_chronon ::
    "(calendar_block list, node_error) result \<Rightarrow> u64 \<Rightarrow> bool \<Rightarrow> chronon_record clean option" where
  "get_chronon read chronon_number include_attestations = (case read of
     Ok blocks \<Rightarrow> map_option (\<lambda>r. ca_from_trusted (clear_attestations include_attestations r))
        (find (\<lambda>r. cr_chronon_number r = chronon_number) (block_ticks blocks))
   | _ \<Rightarrow> None)"

subsection \<open>Gaps\<close>

fun find_gaps_from ::
    "bool \<Rightarrow> chronon_record list \<Rightarrow> u64 \<Rightarrow> u64 \<Rightarrow> ((u64 \<times> u64) list, 'e) result" where
  "find_gaps_from debug [] expected end =
     (if expected \<le> end then rbind (add_u64 debug end 1) (\<lambda>e. Ok [(expected, e)]) else Ok [])"
| "find_gaps_from debug (r # rs) expected end =
     (let cn = cr_chronon_number r in
      rbind (add_u64 debug cn 1) (\<lambda>expected'.
      rbind (find_gaps_from debug rs expected' end) (\<lambda>gaps.
        Ok (if cn > expected then (expected, cn) # gaps else gaps))))"

definition find_gaps ::
    "bool \<Rightarrow> chronon_record list \<Rightarrow> u64 \<Rightarrow> u64 \<Rightarrow> ((u64 \<times> u64) list, 'e) result" where
  "find_gaps debug records start end = find_gaps_from debug records start end"

definition in_gaps :: "(u64 \<times> u64) list \<Rightarrow> u64 \<Rightarrow> bool" where
  "in_gaps gaps x \<longleftrightarrow> (\<exists>(a, b) \<in> set gaps. a \<le> x \<and> x < b)"

lemma word_succ_le: "a < b \<Longrightarrow> unat (a + 1) = unat a + 1" for a b :: u64
  using unsigned_less [of b, where ?'a = nat]
  by (intro unat_succ) (simp add: word_less_nat_alt)

lemma succ_le_iff: "a < b \<Longrightarrow> a + 1 \<le> x \<longleftrightarrow> a < x" for a b x :: u64
  by (simp add: word_le_nat_alt word_less_nat_alt [of a x] word_succ_le [of a b] Suc_le_eq)

lemma less_succ_iff: "a < b \<Longrightarrow> x < a + 1 \<longleftrightarrow> x \<le> a" for a b x :: u64
  using succ_le_iff [of a b x] by (metis not_less)

lemma add_one_Ok: "a < b \<Longrightarrow> add_u64 debug a 1 = Ok (a + 1)" for a b :: u64
  using unsigned_less [of b, where ?'a = nat]
  by (intro add_u64_no_overflow) (simp add: word_less_nat_alt)

lemma find_gaps_spec:
  assumes "chronological rs" and "\<forall>r \<in> set rs. start \<le> cr_chronon_number r \<and> cr_chronon_number r \<le> end"
    and "end < u64_max"
  obtains gaps where "find_gaps debug rs start end = (Ok gaps :: (_, 'e) result)"
    and "\<And>x. in_gaps gaps x \<longleftrightarrow> start \<le> x \<and> x \<le> end \<and> x \<notin> cr_chronon_number ` set rs"
proof -
  have "\<exists>gaps. find_gaps_from debug rs start end = (Ok gaps :: (_, 'e) result) \<and>
      (\<forall>x. in_gaps gaps x \<longleftrightarrow> start \<le> x \<and> x \<le> end \<and> x \<notin> cr_chronon_number ` set rs)"
    using assms(1,2)
  proof (induction rs arbitrary: start)
    case Nil
    then show ?case using assms(3) by (auto simp: add_one_Ok in_gaps_def less_succ_iff)
  next
    case (Cons r rs)
    let ?n = "cr_chronon_number r"
    have n: "start \<le> ?n" "?n \<le> end" "?n < u64_max" using Cons.prems(2) assms(3) by auto
    have later: "\<forall>r' \<in> set rs. ?n < cr_chronon_number r'" using Cons.prems(1) by auto
    then have "\<forall>r' \<in> set rs. ?n + 1 \<le> cr_chronon_number r' \<and> cr_chronon_number r' \<le> end"
      using Cons.prems(2) n(3) by (auto simp: succ_le_iff)
    with Cons.IH [of "?n + 1"] Cons.prems(1) obtain gaps where
      gaps: "find_gaps_from debug rs (?n + 1) end = (Ok gaps :: (_, 'e) result)"
        "\<forall>x. in_gaps gaps x \<longleftrightarrow> ?n + 1 \<le> x \<and> x \<le> end \<and> x \<notin> cr_chronon_number ` set rs" by auto
    let ?gaps = "if ?n > start then (start, ?n) # gaps else gaps"
    have "in_gaps ?gaps x \<longleftrightarrow> start \<le> x \<and> x \<le> end \<and> x \<notin> cr_chronon_number ` set (r # rs)" for x
    proof -
      have "in_gaps ?gaps x \<longleftrightarrow> start \<le> x \<and> x < ?n \<or> in_gaps gaps x"
        using n(1) by (auto simp: in_gaps_def)
      also have "\<dots> \<longleftrightarrow> start \<le> x \<and> x < ?n \<or> ?n < x \<and> x \<le> end \<and> x \<notin> cr_chronon_number ` set rs"
        using gaps(2) succ_le_iff [OF n(3)] by simp
      also have "\<dots> \<longleftrightarrow> start \<le> x \<and> x \<le> end \<and> x \<notin> cr_chronon_number ` set (r # rs)"
        using n later by (auto dest: order_less_asym)
      finally show ?thesis .
    qed
    then show ?case using gaps(1) by (simp add: Let_def add_one_Ok [OF n(3)])
  qed
  then show ?thesis using that by (auto simp: find_gaps_def)
qed

subsection \<open>A range of chronons\<close>

text \<open>\<^verbatim>\<open>Vec::dedup_by_key\<close>: of consecutive elements with the same key the first stays.\<close>

fun dedup_by_key :: "('a \<Rightarrow> 'b) \<Rightarrow> 'a list \<Rightarrow> 'a list" where
  "dedup_by_key f (x # y # xs) =
     (if f x = f y then dedup_by_key f (x # xs) else x # dedup_by_key f (y # xs))"
| "dedup_by_key f xs = xs"

lemma dedup_keys: "f ` set (dedup_by_key f xs) = f ` set xs"
  by (induction f xs rule: dedup_by_key.induct) auto

lemma dedup_subset: "set (dedup_by_key f xs) \<subseteq> set xs"
  by (induction f xs rule: dedup_by_key.induct) auto

lemma dedup_strict:
  fixes f :: "'a \<Rightarrow> 'b :: linorder"
  shows "sorted (map f xs) \<Longrightarrow> sorted_wrt (<) (map f (dedup_by_key f xs))"
proof (induction f xs rule: dedup_by_key.induct)
  case (1 f x y xs)
  show ?case
  proof (cases "f x = f y")
    case True
    with 1 show ?thesis by simp
  next
    case False
    then have "f x < f z" if "z \<in> set (dedup_by_key f (y # xs))" for z
    proof -
      have "z \<in> set (y # xs)" using that dedup_subset [of f "y # xs"] by blast
      then have "f y \<le> f z" using "1.prems" by auto
      moreover have "f x < f y" using "1.prems" False by auto
      ultimately show ?thesis by simp
    qed
    with False 1 show ?thesis by simp
  qed
qed simp_all

definition get_chronon_chain ::
    "bool \<Rightarrow> (calendar_block list, node_error) result \<Rightarrow> u64 \<Rightarrow> u64 \<Rightarrow> bool \<Rightarrow>
     (chronon_chain_result, 'e) result" where
  "get_chronon_chain debug read chronon_start chronon_end include_attestations =
     (if chronon_start > chronon_end
      then Ok (NoChronons \<lparr>cov_requested = 0, cov_returned = 0\<rparr>)
      else rbind (add_u64 debug (chronon_end - chronon_start) 1) (\<lambda>requested.
       (case read of
          Err _ \<Rightarrow> Ok (NoChronons \<lparr>cov_requested = requested, cov_returned = 0\<rparr>)
        | Panic \<Rightarrow> Panic
        | Ok blocks \<Rightarrow>
          (let found = map (clear_attestations include_attestations)
                 (filter (\<lambda>r. chronon_start \<le> cr_chronon_number r \<and> cr_chronon_number r \<le> chronon_end)
                    (block_ticks blocks));
               records = dedup_by_key cr_chronon_number (sort_key cr_chronon_number found);
               returned = word_of_nat (length records);
               coverage = \<lparr>cov_requested = requested, cov_returned = returned\<rparr>
           in if returned = 0 then Ok (NoChronons coverage)
              else if returned = requested then Ok (Complete records coverage)
              else rbind (find_gaps debug records chronon_start chronon_end) (\<lambda>gaps.
                     Ok (Partial records coverage gaps))))))"

lemma unat_image_range: "unat ` {a .. b} = {unat a .. unat b}" for a b :: u64
proof
  show "unat ` {a .. b} \<subseteq> {unat a .. unat b}" by (auto simp: word_le_nat_alt)
  show "{unat a .. unat b} \<subseteq> unat ` {a .. b}"
  proof
    fix n
    assume n: "n \<in> {unat a .. unat b}"
    then have "n < 2 ^ 64" using unsigned_less [of b, where ?'a = nat] by simp
    then have "unat (word_of_nat n :: u64) = n" by (simp add: unat_of_nat)
    with n show "n \<in> unat ` {a .. b}"
      by (intro image_eqI [of _ _ "word_of_nat n"]) (auto simp: word_le_nat_alt)
  qed
qed

lemma card_range: "card {a .. b} = unat b + 1 - unat a" for a b :: u64
proof -
  have "inj_on (unat :: u64 \<Rightarrow> nat) {a .. b}" by (auto simp: inj_on_def word_unat_eq_iff)
  then have "card (unat ` {a .. b}) = card {a .. b}" by (rule card_image)
  then show ?thesis by (simp add: unat_image_range)
qed

definition stored_in :: "calendar_block list \<Rightarrow> u64 \<Rightarrow> u64 \<Rightarrow> u64 set" where
  "stored_in blocks a b = {n \<in> {a .. b}. n \<in> cr_chronon_number ` set (block_ticks blocks)}"

text \<open>The first record that the blocks hold under a number.\<close>

definition first_stored :: "calendar_block list \<Rightarrow> u64 \<Rightarrow> chronon_record" where
  "first_stored blocks n = hd (filter (\<lambda>r. cr_chronon_number r = n) (block_ticks blocks))"

lemma dedup_first:
  "sorted (map f xs) \<Longrightarrow> y \<in> set (dedup_by_key f xs) \<Longrightarrow> y = hd (filter (\<lambda>x. f x = f y) xs)"
proof (induction f xs rule: dedup_by_key.induct)
  case (1 f x x' xs)
  show ?case
  proof (cases "f x = f x' \<or> y = x")
    case True
    then show ?thesis
    proof
      assume eq: "f x = f x'"
      then have "y = hd (filter (\<lambda>z. f z = f y) (x # xs))"
        using "1.prems" by (intro "1.IH"(1)) simp_all
      moreover have "hd (filter (\<lambda>z. f z = k) (x # xs)) = hd (filter (\<lambda>z. f z = k) (x # x' # xs))" for k
        using eq by simp
      ultimately show ?thesis by (rule trans)
    qed simp
  next
    case False
    then have y: "y \<in> set (dedup_by_key f (x' # xs))" using "1.prems" by simp
    then have "y \<in> set (x' # xs)" using dedup_subset by fastforce
    then have "f x' \<le> f y" using "1.prems"(1) by auto
    moreover have "f x < f x'" using "1.prems"(1) False by (simp add: less_le)
    ultimately have "filter (\<lambda>z. f z = f y) (x # x' # xs) = filter (\<lambda>z. f z = f y) (x' # xs)" by simp
    moreover have "y = hd (filter (\<lambda>z. f z = f y) (x' # xs))"
      using False "1.prems"(1) y by (intro "1.IH"(2)) simp_all
    ultimately show ?thesis by (simp only:)
  qed
qed auto

text \<open>Sorting is stable, so that of several records with one number the first that was stored stays.\<close>

lemma answered_records:
  fixes found :: "chronon_record list"
  defines "rs \<equiv> dedup_by_key cr_chronon_number (sort_key cr_chronon_number found)"
  shows "rs = map (\<lambda>n. hd (filter (\<lambda>r. cr_chronon_number r = n) found))
    (sorted_list_of_set (cr_chronon_number ` set found))"
proof -
  have nums: "set (numbers rs) = cr_chronon_number ` set found" by (simp add: rs_def dedup_keys)
  have strict: "sorted_wrt (<) (numbers rs)" unfolding rs_def by (rule dedup_strict) simp
  have "r = hd (filter (\<lambda>x. cr_chronon_number x = cr_chronon_number r) found)" if "r \<in> set rs" for r
    using dedup_first [of cr_chronon_number "sort_key cr_chronon_number found" r] that
    by (simp add: rs_def sort_key_stable)
  then have "rs = map (\<lambda>n. hd (filter (\<lambda>r. cr_chronon_number r = n) found)) (numbers rs)"
    by (simp add: map_idI)
  moreover have "numbers rs = sorted_list_of_set (set (numbers rs))"
    using strict by (metis sorted_list_of_set.idem_if_sorted_distinct strict_sorted_iff)
  ultimately show ?thesis unfolding nums by metis
qed

lemma hd_filter_map:
  "(\<And>x. P (f x) = Q x) \<Longrightarrow> filter Q xs \<noteq> [] \<Longrightarrow> hd (filter P (map f xs)) = f (hd (filter Q xs))"
  by (simp add: filter_map comp_def hd_map)

lemma found_records:
  fixes start stop :: u64 and blocks :: "calendar_block list" and inc :: bool
  defines "found \<equiv> map (clear_attestations inc)
    (filter (\<lambda>r. start \<le> cr_chronon_number r \<and> cr_chronon_number r \<le> stop) (block_ticks blocks))"
  shows "cr_chronon_number ` set found = stored_in blocks start stop"
    and "n \<in> stored_in blocks start stop \<Longrightarrow>
      hd (filter (\<lambda>r. cr_chronon_number r = n) found) = clear_attestations inc (first_stored blocks n)"
proof -
  show "cr_chronon_number ` set found = stored_in blocks start stop"
    by (auto simp: found_def stored_in_def image_iff)
  assume n: "n \<in> stored_in blocks start stop"
  then have "filter (\<lambda>r. cr_chronon_number r = n)
      (filter (\<lambda>r. start \<le> cr_chronon_number r \<and> cr_chronon_number r \<le> stop) (block_ticks blocks)) =
    filter (\<lambda>r. cr_chronon_number r = n) (block_ticks blocks)"
    by (auto simp: stored_in_def intro!: filter_cong)
  moreover have "filter (\<lambda>r. cr_chronon_number r = n) (block_ticks blocks) \<noteq> []"
    using n by (auto simp: stored_in_def filter_empty_conv)
  ultimately show "hd (filter (\<lambda>r. cr_chronon_number r = n) found) = clear_attestations inc (first_stored blocks n)"
    unfolding found_def by (subst hd_filter_map [where Q = "\<lambda>r. cr_chronon_number r = n"]) (simp_all add: first_stored_def)
qed

lemma requested_chronons:
  assumes "start \<le> end" and "end < u64_max"
  shows "add_u64 debug (end - start) 1 = Ok (end - start + 1)"
    and "unat (end - start + 1) = card {start .. end}"
proof -
  have "card {start .. end} = unat (end - start) + 1"
    using assms(1) by (simp add: card_range unat_sub word_le_nat_alt)
  moreover have "unat (end - start) < 2 ^ 64 - 1"
    using assms by (simp add: unat_sub word_le_nat_alt word_less_nat_alt u64_max_def)
  ultimately show "add_u64 debug (end - start) 1 = Ok (end - start + 1)"
    and "unat (end - start + 1) = card {start .. end}"
    by (simp_all add: add_u64_no_overflow unat_succ)
qed

text \<open>Whether the number of records that are returned, as a \<^verbatim>\<open>u64\<close>, is zero or all that were asked for.\<close>

lemma returned_chronons:
  fixes N :: "u64 set"
  assumes "start \<le> end" and "end < u64_max" and "N \<subseteq> {start .. end}"
  shows "(word_of_nat (card N) :: u64) = 0 \<longleftrightarrow> N = {}"
    and "(word_of_nat (card N) :: u64) = end - start + 1 \<longleftrightarrow> N = {start .. end}"
proof -
  have "card N \<le> card {start .. end}" using assms(3) by (intro card_mono) simp_all
  then have "card N < 2 ^ 64"
    using requested_chronons(2) [OF assms(1,2)] unsigned_less [of "end - start + 1", where ?'a = nat] by simp
  then have ret: "unat (word_of_nat (card N) :: u64) = card N" by (simp add: unat_of_nat)
  have fin: "finite {start .. end}" "finite N" using assms(3) by (simp_all add: finite_subset)
  show "(word_of_nat (card N) :: u64) = 0 \<longleftrightarrow> N = {}"
    using ret fin(2) by (metis card_0_eq unat_eq_0)
  show "(word_of_nat (card N) :: u64) = end - start + 1 \<longleftrightarrow> N = {start .. end}"
    using ret requested_chronons(2) [OF assms(1,2)] assms(3) fin(1) card_subset_eq by (metis word_unat_eq_iff)
qed

lemma get_chronon_chain_eq:
  fixes blocks :: "calendar_block list"
  assumes "start \<le> end" and "end < u64_max"
  defines "nums \<equiv> sorted_list_of_set (stored_in blocks start end)"
  shows "get_chronon_chain debug (Ok blocks) start end inc =
    (let rs = map (\<lambda>n. clear_attestations inc (first_stored blocks n)) nums;
         coverage = \<lparr>cov_requested = end - start + 1, cov_returned = word_of_nat (length nums)\<rparr>
     in if nums = [] then Ok (NoChronons coverage)
        else if set nums = {start .. end} then Ok (Complete rs coverage)
        else rbind (find_gaps debug rs start end) (\<lambda>gaps. Ok (Partial rs coverage gaps)))"
proof -
  define found where "found = map (clear_attestations inc)
    (filter (\<lambda>r. start \<le> cr_chronon_number r \<and> cr_chronon_number r \<le> end) (block_ticks blocks))"
  let ?N = "stored_in blocks start end"
  have N: "?N \<subseteq> {start .. end}" "finite ?N" by (auto simp: stored_in_def)
  have rs: "dedup_by_key cr_chronon_number (sort_key cr_chronon_number found) =
      map (\<lambda>n. clear_attestations inc (first_stored blocks n)) nums"
    using N(2) found_records [where start = start and stop = "end" and blocks = blocks and inc = inc]
    by (simp add: answered_records nums_def found_def [symmetric])
  have nums: "length nums = card ?N" "set nums = ?N" "nums = [] \<longleftrightarrow> ?N = {}"
    using N(2) by (simp_all add: nums_def)
  note count = requested_chronons(1) [OF assms(1,2)] returned_chronons [OF assms(1,2) N(1)]
  have "\<not> end < start" using assms(1) by simp
  then show ?thesis
    unfolding get_chronon_chain_def result.case found_def [symmetric] rs Let_def
    by (simp add: count nums)
qed

lemma get_chronon_stored:
  "get_chronon (Ok blocks) n inc = None \<longleftrightarrow> n \<notin> cr_chronon_number ` set (block_ticks blocks)"
  by (auto simp: get_chronon_def find_None_iff)

subsection \<open>What an answer means\<close>

text \<open>
  C34: Asking the store for a range of chronons below the greatest number answers with exactly
  what it holds of the range: under each number the first record that was stored, with its
  attestations if they were asked for, in the order of the numbers; the coverage counts what was
  asked for and what is returned, and the answer is complete, or partial with gaps that name
  exactly the numbers missing, or empty, as it is for a range that ends before it starts.
\<close>

theorem chronon_chain_exact:
  assumes "end < u64_max"
  shows "\<exists>gaps. (\<forall>x. in_gaps gaps x \<longleftrightarrow> x \<in> {start .. end} - stored_in blocks start end) \<and>
    get_chronon_chain debug (Ok blocks) start end inc =
      (Ok (if end < start then NoChronons \<lparr>cov_requested = 0, cov_returned = 0\<rparr>
           else (let nums = sorted_list_of_set (stored_in blocks start end);
                     rs = map (\<lambda>n. if inc then first_stored blocks n
                                  else set_external_attestations [] (first_stored blocks n)) nums;
                     coverage = \<lparr>cov_requested = end - start + 1, cov_returned = word_of_nat (length nums)\<rparr>
                 in if nums = [] then NoChronons coverage
                    else if set nums = {start .. end} then Complete rs coverage
                    else Partial rs coverage gaps)) :: (_, node_error) result)"
proof (cases "end < start")
  case True
  then have "in_gaps [] x \<longleftrightarrow> x \<in> {start .. end} - stored_in blocks start end" for x
    by (auto simp: in_gaps_def)
  with True show ?thesis by (auto simp: get_chronon_chain_def)
next
  case False
  let ?N = "stored_in blocks start end"
  define rs where "rs = map (\<lambda>n. clear_attestations inc (first_stored blocks n)) (sorted_list_of_set ?N)"
  have N: "finite ?N" "?N \<subseteq> {start .. end}" by (auto simp: stored_in_def)
  have "cr_chronon_number (first_stored blocks n) = n" if "n \<in> ?N" for n
    using found_records(2) [OF that, of inc] hd_in_set [of "filter (\<lambda>r. cr_chronon_number r = n) (block_ticks blocks)"] that
    by (auto simp: first_stored_def stored_in_def filter_empty_conv)
  then have nums: "numbers rs = sorted_list_of_set ?N" using N(1) by (auto simp: rs_def intro!: map_idI)
  then have "chronological rs" by simp
  moreover have "set (numbers rs) = ?N" using nums N(1) by simp
  then have "\<forall>r \<in> set rs. start \<le> cr_chronon_number r \<and> cr_chronon_number r \<le> end" using N(2) by fastforce
  ultimately obtain gaps where gaps: "find_gaps debug rs start end = (Ok gaps :: (_, node_error) result)"
      "\<And>x. in_gaps gaps x \<longleftrightarrow> x \<in> {start .. end} - ?N"
    using find_gaps_spec [OF _ _ assms, of rs start debug] \<open>set (numbers rs) = ?N\<close> by auto
  have "get_chronon_chain debug (Ok blocks) start end inc = (let
       coverage = \<lparr>cov_requested = end - start + 1, cov_returned = word_of_nat (length (sorted_list_of_set ?N))\<rparr>
     in if sorted_list_of_set ?N = [] then Ok (NoChronons coverage)
        else if set (sorted_list_of_set ?N) = {start .. end} then Ok (Complete rs coverage)
        else (Ok (Partial rs coverage gaps) :: (_, node_error) result))"
    using gaps(1) unfolding get_chronon_chain_eq [OF leI [OF False] assms] Let_def rs_def [symmetric] by simp
  with False gaps(2) show ?thesis
    by (intro exI [of _ gaps]) (simp add: rs_def clear_attestations_def Let_def)
qed

definition block_of :: "u64 list \<Rightarrow> calendar_block" where
  "block_of ns = \<lparr>cb_block_id = 0, cb_written_at_ns = 0,
     cb_ticks = map (\<lambda>n. ex_from_trusted (ChrononRecord n [1] ''Ed25519'' [] [] [] 0 [] 0 tbid_default)) ns,
     cb_merkle_root = replicate 32 0\<rparr>"

theorem chronon_chain_exact_witness:
  "\<exists>gaps. get_chronon_chain True (Ok [block_of [4, 2], (block_of [])\<lparr>cb_ticks := [ex_from_trusted (ChrononRecord 2 [2] [] [] [] [] 0 [] 0 tbid_default)]\<rparr>]) 1 5 False =
      (Ok (Partial [ChrononRecord 2 [1] ''Ed25519'' [] [] [] 0 [] 0 tbid_default,
             ChrononRecord 4 [1] ''Ed25519'' [] [] [] 0 [] 0 tbid_default]
           \<lparr>cov_requested = 5, cov_returned = 2\<rparr> gaps) :: (_, node_error) result) \<and>
    in_gaps gaps 3 \<and> \<not> in_gaps gaps 4"
proof -
  let ?bs = "[block_of [4, 2], (block_of [])\<lparr>cb_ticks := [ex_from_trusted (ChrononRecord 2 [2] [] [] [] [] 0 [] 0 tbid_default)]\<rparr>]"
  have stored: "stored_in ?bs 1 5 = {2, 4}"
    by (auto simp: stored_in_def block_ticks_def block_of_def ex_from_trusted_def)
  have nums: "sorted_list_of_set {2, 4 :: u64} = [2, 4]" by simp
  have first: "first_stored ?bs 2 = ChrononRecord 2 [1] ''Ed25519'' [] [] [] 0 [] 0 tbid_default"
    "first_stored ?bs 4 = ChrononRecord 4 [1] ''Ed25519'' [] [] [] 0 [] 0 tbid_default"
    by (simp_all add: first_stored_def block_ticks_def block_of_def ex_from_trusted_def)
  have "(5 :: u64) < u64_max" by (simp add: u64_max_def)
  from chronon_chain_exact [OF this, of 1 ?bs True False] obtain gaps where
    gaps: "\<And>x. in_gaps gaps x \<longleftrightarrow> x \<in> {1 .. 5} - {2, 4}" and
    ans: "get_chronon_chain True (Ok ?bs) 1 5 False = (Ok (if (5 :: u64) < 1 then NoChronons \<lparr>cov_requested = 0, cov_returned = 0\<rparr>
       else (let nums = [2, 4]; rs = map (\<lambda>n. if False then first_stored ?bs n
                 else set_external_attestations [] (first_stored ?bs n)) nums;
             coverage = \<lparr>cov_requested = 5 - 1 + 1, cov_returned = word_of_nat (length nums)\<rparr>
           in if nums = [] then NoChronons coverage else if set nums = {1 .. 5 :: u64} then Complete rs coverage
              else Partial rs coverage gaps)) :: (_, node_error) result)"
    unfolding stored nums by blast
  have "(1 :: u64) \<in> {1 .. 5} \<and> (1 :: u64) \<notin> set [2, 4]" by simp
  then have "set [2, 4] \<noteq> {1 .. 5 :: u64}" by blast
  with ans have "get_chronon_chain True (Ok ?bs) 1 5 False = (Ok (Partial [ChrononRecord 2 [1] ''Ed25519'' [] [] [] 0 [] 0 tbid_default,
             ChrononRecord 4 [1] ''Ed25519'' [] [] [] 0 [] 0 tbid_default]
           \<lparr>cov_requested = 5, cov_returned = 2\<rparr> gaps) :: (_, node_error) result)"
    by (simp add: first Let_def set_external_attestations_def)
  then show ?thesis using gaps by (intro exI [of _ gaps]) simp
qed

end
