(* ===== verification/Json.thy ===== *)
theory Json
  imports Prelude
begin

section \<open>JSON values and JSON-RPC responses\<close>

text \<open>
  Models \<^verbatim>\<open>foretias-server/src/server/jsonrpc.rs\<close> and the accessors of
  \<^verbatim>\<open>serde_json::Value\<close> that the handlers use. An object is the list of its entries,
  whose keys are distinct; an integer that fits is kept as one, anything else is the bit
  pattern of a 64-bit float.
\<close>

datatype json_number = PosInt u64 | NegInt int | Float u64

datatype json =
    JNull
  | JBool bool
  | JNumber json_number
  | JString string
  | JArray "json list"
  | JObject "(string \<times> json) list"

subsection \<open>Accessors\<close>

fun jget :: "string \<Rightarrow> json \<Rightarrow> json option" where
  "jget key (JObject entries) = map_of entries key"
| "jget key _ = None"

fun as_str :: "json \<Rightarrow> string option" where
  "as_str (JString s) = Some s"
| "as_str _ = None"

fun as_bool :: "json \<Rightarrow> bool option" where
  "as_bool (JBool b) = Some b"
| "as_bool _ = None"

fun as_u64 :: "json \<Rightarrow> u64 option" where
  "as_u64 (JNumber (PosInt n)) = Some n"
| "as_u64 _ = None"

fun as_array :: "json \<Rightarrow> json list option" where
  "as_array (JArray vs) = Some vs"
| "as_array _ = None"

fun as_object :: "json \<Rightarrow> (string \<rightharpoonup> json) option" where
  "as_object (JObject entries) = Some (map_of entries)"
| "as_object _ = None"

text \<open>\<^verbatim>\<open>params.get(key).and_then(|v| v.as_..())\<close>.\<close>

definition get_str :: "string \<Rightarrow> json \<Rightarrow> string option" where
  "get_str key v = Option.bind (jget key v) as_str"

definition get_u64 :: "string \<Rightarrow> json \<Rightarrow> u64 option" where
  "get_u64 key v = Option.bind (jget key v) as_u64"

definition get_bool :: "string \<Rightarrow> json \<Rightarrow> bool option" where
  "get_bool key v = Option.bind (jget key v) as_bool"

definition get_array :: "string \<Rightarrow> json \<Rightarrow> json list option" where
  "get_array key v = Option.bind (jget key v) as_array"

text \<open>\<^verbatim>\<open>unwrap_or\<close>.\<close>

definition unwrap_or :: "'a \<Rightarrow> 'a option \<Rightarrow> 'a" where
  "unwrap_or d x = (case x of None \<Rightarrow> d | Some a \<Rightarrow> a)"

lemma unwrap_or_simps [simp]: "unwrap_or d None = d" "unwrap_or d (Some a) = a"
  by (simp_all add: unwrap_or_def)

lemmas json_get_defs = get_str_def get_u64_def get_bool_def get_array_def

lemma jget_entry [simp]: "jget key (JObject ((key, v) # es)) = Some v"
  by simp

text \<open>A number literal of \<^verbatim>\<open>json!\<close>.\<close>

definition jnum :: "u64 \<Rightarrow> json" where
  "jnum n = JNumber (PosInt n)"

definition jlen :: "'a list \<Rightarrow> json" where
  "jlen xs = jnum (word_of_nat (length xs))"

lemma as_u64_jnum [simp]: "as_u64 (jnum n) = Some n"
  by (simp add: jnum_def)

subsection \<open>Responses\<close>

record json_rpc_response =
  jr_jsonrpc :: string
  jr_result :: "json option"
  jr_error :: "(int \<times> string) option"
  jr_id :: "json option"
  jr_dormant :: bool

definition PARSE_ERROR :: int where "PARSE_ERROR = -32700"
definition INVALID_REQUEST :: int where "INVALID_REQUEST = -32600"
definition METHOD_NOT_FOUND :: int where "METHOD_NOT_FOUND = -32601"
definition INVALID_PARAMS :: int where "INVALID_PARAMS = -32602"
definition INTERNAL_ERROR :: int where "INTERNAL_ERROR = -32603"
definition DORMANT_ERROR :: int where "DORMANT_ERROR = -32001"

definition rpc_success :: "json option \<Rightarrow> json \<Rightarrow> json_rpc_response" where
  "rpc_success req_id value =
     \<lparr>jr_jsonrpc = ''2.0'', jr_result = Some value, jr_error = None, jr_id = req_id, jr_dormant = False\<rparr>"

definition rpc_error :: "json option \<Rightarrow> int \<Rightarrow> string \<Rightarrow> json_rpc_response" where
  "rpc_error req_id code message =
     \<lparr>jr_jsonrpc = ''2.0'', jr_result = None, jr_error = Some (code, message), jr_id = req_id,
      jr_dormant = False\<rparr>"

definition dormant_success :: "json option \<Rightarrow> json \<Rightarrow> json_rpc_response" where
  "dormant_success req_id value = (rpc_success req_id value)\<lparr>jr_dormant := True\<rparr>"

definition dormant_error :: "json option \<Rightarrow> int \<Rightarrow> string \<Rightarrow> json_rpc_response" where
  "dormant_error req_id code message = (rpc_error req_id code message)\<lparr>jr_dormant := True\<rparr>"

definition is_success :: "json_rpc_response \<Rightarrow> bool" where
  "is_success r \<longleftrightarrow> jr_result r \<noteq> None"

lemma rpc_sels [simp]:
  "jr_id (rpc_success i v) = i" "jr_id (rpc_error i c m) = i"
  "jr_id (dormant_success i v) = i" "jr_id (dormant_error i c m) = i"
  "jr_result (rpc_success i v) = Some v" "jr_result (dormant_success i v) = Some v"
  "jr_result (rpc_error i c m) = None" "jr_result (dormant_error i c m) = None"
  "jr_error (rpc_error i c m) = Some (c, m)" "jr_error (dormant_error i c m) = Some (c, m)"
  "jr_error (rpc_success i v) = None" "jr_error (dormant_success i v) = None"
  by (simp_all add: rpc_success_def rpc_error_def dormant_success_def dormant_error_def)

end
