(* ===== verification/Mirror_Store.thy ===== *)
theory Mirror_Store
  imports Calendar Json Alists
begin

section \<open>The mirror store\<close>

text \<open>
  Models \<^verbatim>\<open>foretias-client/src/calendar/mirror.rs\<close>: the records of other nodes'
  calendars, by TBID. The map behind the lock is an association list with distinct keys (the
  order in which the hash map iterates is unspecified); the base directory is kept and never
  used.
\<close>

record mirror_store =
  ms_mirrors :: "(string \<times> chronon_record list) list"
  ms_base_dir :: string
  ms_max_mirrored_tbids :: nat

definition mirror_store_new :: "string \<Rightarrow> nat \<Rightarrow> mirror_store" where
  "mirror_store_new base_dir max_mirrored =
     \<lparr>ms_mirrors = [], ms_base_dir = base_dir, ms_max_mirrored_tbids = max_mirrored\<rparr>"

definition ms_get :: "string \<Rightarrow> mirror_store \<Rightarrow> chronon_record list option" where
  "ms_get tbid_hex m = map_of (ms_mirrors m) tbid_hex"

definition can_accept_mirror :: "string \<Rightarrow> mirror_store \<Rightarrow> bool" where
  "can_accept_mirror tbid_hex m =
     (if ms_get tbid_hex m \<noteq> None then False
      else length (ms_mirrors m) < ms_max_mirrored_tbids m)"

definition mirrored_tbids :: "mirror_store \<Rightarrow> string list" where
  "mirrored_tbids m = map fst (ms_mirrors m)"

definition mirror_tick_count :: "string \<Rightarrow> mirror_store \<Rightarrow> u64" where
  "mirror_tick_count tbid_hex m = (case ms_get tbid_hex m of
     None \<Rightarrow> 0 | Some v \<Rightarrow> word_of_nat (length v))"

definition insert_sorted :: "chronon_record \<Rightarrow> chronon_record list \<Rightarrow> chronon_record list" where
  "insert_sorted record entry =
     (if list_ex (\<lambda>r. cr_chronon_number r = cr_chronon_number record) entry then entry
      else sort_key cr_chronon_number (entry @ [record]))"

definition insert_mirrored ::
    "string \<Rightarrow> chronon_record \<Rightarrow> mirror_store \<Rightarrow> (unit, node_error) result \<times> mirror_store" where
  "insert_mirrored tbid_hex record m =
     (Ok (), m\<lparr>ms_mirrors := AList.update tbid_hex
        (insert_sorted record (case ms_get tbid_hex m of None \<Rightarrow> [] | Some v \<Rightarrow> v)) (ms_mirrors m)\<rparr>)"

definition get_mirrored ::
    "string \<Rightarrow> u64 \<Rightarrow> nat \<Rightarrow> mirror_store \<Rightarrow> (chronon_record list, node_error) result" where
  "get_mirrored tbid_hex n count m =
     rbind (ok_or (NotFound ''mirrored calendar'') (ms_get tbid_hex m)) (\<lambda>records.
       Ok (take count (dropWhile (\<lambda>r. cr_chronon_number r < n) records)))"

definition latest_record :: "string \<Rightarrow> mirror_store \<Rightarrow> chronon_record option" where
  "latest_record tbid_hex m = Option.bind (ms_get tbid_hex m) list_last"

definition compute_hash_sanity :: "'k ffi \<Rightarrow> (bytes \<Rightarrow> string) \<Rightarrow> chronon_record list \<Rightarrow> string" where
  "compute_hash_sanity F hex_encode records =
     (case sha256 F (concat (map (\<lambda>r. to_be_bytes (cr_chronon_number r)) records)) of
        Ok h \<Rightarrow> hex_encode h
      | _ \<Rightarrow> [])"

definition mirror_info ::
    "'k ffi \<Rightarrow> (bytes \<Rightarrow> string) \<Rightarrow> string \<Rightarrow> mirror_store \<Rightarrow> (u64 \<times> u64 \<times> string) option" where
  "mirror_info F hex_encode tbid_hex m =
     Option.bind (ms_get tbid_hex m) (\<lambda>records.
       if records = [] then None
       else Option.bind (list_last records) (\<lambda>l.
         Some (word_of_nat (length records), cr_chronon_number l,
               compute_hash_sanity F hex_encode records)))"


subsection \<open>Insertion\<close>

lemma insert_sorted_after:
  assumes "chronological entry" and "\<forall>x \<in> set entry. cr_chronon_number x < cr_chronon_number r"
  shows "insert_sorted r entry = entry @ [r]"
proof -
  have "sorted (map cr_chronon_number (entry @ [r]))"
    using assms by (auto simp: sorted_append strict_sorted_iff less_imp_le)
  then have "sort_key cr_chronon_number (entry @ [r]) = entry @ [r]" by (rule sort_key_id_if_sorted)
  moreover have "\<not> list_ex (\<lambda>x. cr_chronon_number x = cr_chronon_number r) entry"
    using assms(2) by (auto simp: list_ex_iff)
  ultimately show ?thesis by (simp add: insert_sorted_def)
qed

lemma insert_sorted_known:
  "cr_chronon_number r \<in> set (numbers entry) \<Longrightarrow> insert_sorted r entry = entry"
  by (force simp: insert_sorted_def list_ex_iff)

lemma numbers_insert_sorted:
  "set (numbers (insert_sorted r entry)) = insert (cr_chronon_number r) (set (numbers entry))"
proof (cases "cr_chronon_number r \<in> set (numbers entry)")
  case True
  then show ?thesis by (simp add: insert_sorted_known insert_absorb)
next
  case False
  then have "\<not> list_ex (\<lambda>x. cr_chronon_number x = cr_chronon_number r) entry"
    by (simp add: list_ex_iff image_iff) metis
  then show ?thesis by (simp add: insert_sorted_def)
qed

lemma set_insert_sorted: "set entry \<subseteq> set (insert_sorted r entry)"
  by (auto simp: insert_sorted_def)

lemma insert_sorted_not_Nil: "insert_sorted r entry \<noteq> []"
  using numbers_insert_sorted [of r entry] by auto

lemma insert_sorted_chronological:
  assumes "chronological entry"
  shows "chronological (insert_sorted r entry)"
proof (cases "cr_chronon_number r \<in> set (numbers entry)")
  case True
  with assms show ?thesis by (simp add: insert_sorted_known)
next
  case False
  have "distinct (numbers (entry @ [r]))" using assms False by (simp add: strict_sorted_iff)
  then have "distinct (numbers (sort_key cr_chronon_number (entry @ [r])))"
    by (metis distinct_map distinct_sort set_sort)
  moreover have "sorted (numbers (sort_key cr_chronon_number (entry @ [r])))" by simp
  ultimately have "chronological (sort_key cr_chronon_number (entry @ [r]))"
    by (simp only: strict_sorted_iff)
  then show ?thesis using assms by (simp add: insert_sorted_def)
qed

subsection \<open>The invariant\<close>

definition ms_inv :: "mirror_store \<Rightarrow> bool" where
  "ms_inv m \<longleftrightarrow> distinct (map fst (ms_mirrors m)) \<and>
     (\<forall>v \<in> set (map snd (ms_mirrors m)). v \<noteq> [] \<and> chronological v)"

definition mirrored :: "string \<Rightarrow> mirror_store \<Rightarrow> chronon_record list" where
  "mirrored t m = unwrap_or [] (ms_get t m)"

lemma ms_get_insert:
  "ms_get t (snd (insert_mirrored u r m)) = (if t = u then Some (insert_sorted r (mirrored u m)) else ms_get t m)"
  by (auto simp: ms_get_def insert_mirrored_def map_of_update mirrored_def split: option.splits)

lemma mirrored_insert:
  "mirrored t (snd (insert_mirrored u r m)) = (if t = u then insert_sorted r (mirrored u m) else mirrored t m)"
  by (simp add: mirrored_def ms_get_insert)

lemma ms_inv_mirrored: "ms_inv m \<Longrightarrow> chronological (mirrored t m)"
  by (cases "ms_get t m") (auto simp: ms_inv_def mirrored_def ms_get_def dest: map_of_in_snd)

lemma ms_inv_new [simp]: "ms_inv (mirror_store_new d n)"
  by (simp add: ms_inv_def mirror_store_new_def)

lemma ms_inv_insert:
  assumes "ms_inv m"
  shows "ms_inv (snd (insert_mirrored t r m))"
proof -
  let ?v = "insert_sorted r (mirrored t m)"
  have m: "ms_mirrors (snd (insert_mirrored t r m)) = AList.update t ?v (ms_mirrors m)"
    by (simp add: insert_mirrored_def mirrored_def unwrap_or_def)
  have "v \<noteq> [] \<and> chronological v" if "v \<in> set (map snd (AList.update t ?v (ms_mirrors m)))" for v
  proof -
    have "v = ?v \<or> v \<in> set (map snd (ms_mirrors m))"
      using that by (auto dest: set_update_cases)
    then show ?thesis
      using assms insert_sorted_chronological [OF ms_inv_mirrored [OF assms]]
      by (auto simp: ms_inv_def insert_sorted_not_Nil)
  qed
  then show ?thesis using assms by (simp add: ms_inv_def m distinct_update del: set_map)
qed

end
