(* ===== verification/Storage_Proof.thy ===== *)
theory Storage_Proof
  imports Chronon_Lookup
begin

section \<open>Storage proofs\<close>

text \<open>
  Models the storage proofs of \<^verbatim>\<open>foretias-server/src/calendar_store/mod.rs\<close>: the holder of a
  calendar proves with Merkle range proofs that its blocks hold chronons of a range
  (\<^verbatim>\<open>prove_storage\<close>), and the other side checks them (\<^verbatim>\<open>verify_storage_proof\<close>). The coverage
  ratio, a float, is the pair of the two counts it divides.
\<close>

record block_proof =
  bp_block_id :: u64
  bp_merkle_root :: hash32
  bp_leaves :: "hash32 list"
  bp_siblings :: "hash32 list"
  bp_leaf_count :: nat
  bp_sibling_count :: nat
  bp_n :: nat

record storage_proof_request =
  sp_tbid :: string
  sp_chronon_start :: u64
  sp_chronon_end :: u64

record storage_proof_response =
  spr_blocks :: "block_proof list"
  spr_covered :: u64
  spr_requested :: u64

record storage_proof_result =
  sp_verified :: bool
  sp_covered :: u64
  sp_requested :: u64

subsection \<open>Making a proof\<close>

definition find_tick_index :: "chronon_record externalized list \<Rightarrow> u64 \<Rightarrow> nat" where
  "find_tick_index ts target =
     length (takeWhile (\<lambda>t. \<not> cr_chronon_number (ex_inner t) \<ge> target) ts)"

definition find_tick_index_after :: "chronon_record externalized list \<Rightarrow> u64 \<Rightarrow> nat" where
  "find_tick_index_after ts target =
     length (dropWhile (\<lambda>t. \<not> cr_chronon_number (ex_inner t) \<le> target) (rev ts))"

definition format_proof_arrays :: "range_proof \<Rightarrow> hash32 list \<times> hash32 list" where
  "format_proof_arrays proof =
     (pad_to 64 (take (min 64 (nat (rp_leaf_count proof))) (rp_leaves proof)),
      pad_to 32 (take (min 32 (nat (rp_sibling_count proof))) (rp_siblings proof)))"

definition tick_leaf :: "'s codec \<Rightarrow> chronon_record externalized \<Rightarrow> hash32" where
  "tick_leaf C t =
     (let canonical = (case cd_tick_json C (ex_inner t) of Ok json \<Rightarrow> json | _ \<Rightarrow> [])
      in case merkle_leaf (cd_sha256 C) canonical of Ok leaf \<Rightarrow> leaf | _ \<Rightarrow> zero_hash)"

text \<open>One turn of the loop over the blocks: \<open>None\<close> is \<^verbatim>\<open>continue\<close>.\<close>

definition block_merkle_proof ::
    "'s codec \<Rightarrow> u64 \<Rightarrow> u64 \<Rightarrow> calendar_block \<Rightarrow> ((block_proof \<times> nat) option, 'e) result" where
  "block_merkle_proof C chronon_start chronon_end block =
     (if \<not> list_ex (\<lambda>t. cr_chronon_number (ex_inner t) \<ge> chronon_start \<and>
                        cr_chronon_number (ex_inner t) \<le> chronon_end) (cb_ticks block)
      then Ok None
      else
        (let leaves = map (tick_leaf C) (cb_ticks block) in
         if leaves = []
         then Ok (Some (\<lparr>bp_block_id = cb_block_id block, bp_merkle_root = cb_merkle_root block,
                bp_leaves = replicate 64 zero_hash, bp_siblings = replicate 32 zero_hash,
                bp_leaf_count = 0, bp_sibling_count = 0, bp_n = 0\<rparr>, 0))
         else
           (let block_start = find_tick_index (cb_ticks block) chronon_start;
                block_end = find_tick_index_after (cb_ticks block) chronon_end in
            if block_start \<ge> block_end \<or> block_end > length leaves then Ok None
            else (case merkle_range_proof (cd_sha256 C) leaves block_start block_end of
                    Panic \<Rightarrow> Panic
                  | Err _ \<Rightarrow> Ok None
                  | Ok proof \<Rightarrow>
                      (let (proof_leaves, proof_siblings) = format_proof_arrays proof in
                       Ok (Some (\<lparr>bp_block_id = cb_block_id block, bp_merkle_root = cb_merkle_root block,
                          bp_leaves = proof_leaves, bp_siblings = proof_siblings,
                          bp_leaf_count = nat (rp_leaf_count proof),
                          bp_sibling_count = nat (rp_sibling_count proof),
                          bp_n = nat (rp_n proof)\<rparr>, block_end - block_start)))))))"

fun build_blocks ::
    "bool \<Rightarrow> 's codec \<Rightarrow> u64 \<Rightarrow> u64 \<Rightarrow> calendar_block list \<Rightarrow> u64 \<Rightarrow>
     (block_proof list \<times> u64, 'e) result" where
  "build_blocks debug C chronon_start chronon_end [] covered_ticks = Ok ([], covered_ticks)"
| "build_blocks debug C chronon_start chronon_end (b # bs) covered_ticks =
     rbind (block_merkle_proof C chronon_start chronon_end b) (\<lambda>made. case made of
       None \<Rightarrow> build_blocks debug C chronon_start chronon_end bs covered_ticks
     | Some (bp, count) \<Rightarrow>
         rbind (add_u64 debug covered_ticks (word_of_nat count)) (\<lambda>covered_ticks'.
         rbind (build_blocks debug C chronon_start chronon_end bs covered_ticks') (\<lambda>(bps, covered).
           Ok (bp # bps, covered))))"

definition build_merkle_proofs ::
    "bool \<Rightarrow> 's codec \<Rightarrow> calendar_block list \<Rightarrow> u64 \<Rightarrow> u64 \<Rightarrow>
     ((block_proof list \<times> u64) option, 'e) result" where
  "build_merkle_proofs debug C blocks chronon_start chronon_end =
     rbind (build_blocks debug C chronon_start chronon_end blocks 0) (\<lambda>(block_proofs, covered_ticks).
       Ok (if block_proofs = [] then None else Some (block_proofs, covered_ticks)))"

definition prove_storage ::
    "bool \<Rightarrow> 's codec \<Rightarrow> (calendar_block list, node_error) result \<Rightarrow> storage_proof_request \<Rightarrow>
     (storage_proof_response option, 'e) result" where
  "prove_storage debug C read req =
     (if sp_chronon_start req > sp_chronon_end req then Ok None
      else (case read of
        Panic \<Rightarrow> Panic
      | Err _ \<Rightarrow> Ok None
      | Ok blocks \<Rightarrow>
          rbind (add_u64 debug (sp_chronon_end req - sp_chronon_start req) 1) (\<lambda>requested_count.
          rbind (build_merkle_proofs debug C blocks (sp_chronon_start req) (sp_chronon_end req)) (\<lambda>built.
            Ok (map_option (\<lambda>(block_proofs, covered_ticks).
                  \<lparr>spr_blocks = block_proofs, spr_covered = covered_ticks,
                   spr_requested = requested_count\<rparr>) built)))))"

subsection \<open>Checking one\<close>

definition reconstruct_range_proof :: "block_proof \<Rightarrow> range_proof" where
  "reconstruct_range_proof bp =
     \<lparr>rp_leaves = pad_to 64 (take (min (bp_leaf_count bp) 64) (bp_leaves bp)),
      rp_siblings = pad_to 32 (take (min (bp_sibling_count bp) 32) (bp_siblings bp)),
      rp_leaf_count = as_i32 (bp_leaf_count bp), rp_sibling_count = as_i32 (bp_sibling_count bp),
      rp_n = as_i32 (bp_n bp)\<rparr>"

text \<open>The verdict on one block, \<^verbatim>\<open>unwrap_or(false)\<close> included.\<close>

definition block_valid :: "(bytes \<Rightarrow> hash32) \<Rightarrow> block_proof \<Rightarrow> (bool, 'e) result" where
  "block_valid H bp =
     (case merkle_verify_range_proof H (bp_merkle_root bp) (reconstruct_range_proof bp) 0 (bp_leaf_count bp) of
        Panic \<Rightarrow> Panic
      | Ok valid \<Rightarrow> Ok valid
      | Err _ \<Rightarrow> Ok False)"

fun verify_blocks ::
    "bool \<Rightarrow> (bytes \<Rightarrow> hash32) \<Rightarrow> hash32 list \<Rightarrow> block_proof list \<Rightarrow> bool \<Rightarrow> u64 \<Rightarrow> (bool \<times> u64, 'e) result" where
  "verify_blocks debug H known_roots [] all_verified covered_ticks = Ok (all_verified, covered_ticks)"
| "verify_blocks debug H known_roots (bp # bps) all_verified covered_ticks =
     (if bp_n bp = 0 \<or> bp_leaf_count bp = 0
      then verify_blocks debug H known_roots bps all_verified covered_ticks
      else rbind (block_valid H bp) (\<lambda>valid.
        if \<not> valid then verify_blocks debug H known_roots bps False covered_ticks
        else if known_roots \<noteq> [] \<and> bp_merkle_root bp \<notin> set known_roots
        then verify_blocks debug H known_roots bps False covered_ticks
        else rbind (add_u64 debug covered_ticks (word_of_nat (bp_leaf_count bp))) (\<lambda>covered_ticks'.
               verify_blocks debug H known_roots bps all_verified covered_ticks')))"

definition verify_storage_proof ::
    "bool \<Rightarrow> (bytes \<Rightarrow> hash32) \<Rightarrow> storage_proof_request \<Rightarrow> storage_proof_response \<Rightarrow> hash32 list \<Rightarrow>
     (storage_proof_result, 'e) result" where
  "verify_storage_proof debug H req resp known_roots =
     rbind (if sp_chronon_start req > sp_chronon_end req then Ok 0
            else add_u64 debug (sp_chronon_end req - sp_chronon_start req) 1) (\<lambda>requested_count.
     if requested_count = 0
     then Ok \<lparr>sp_verified = False, sp_covered = 0, sp_requested = 1\<rparr>
     else rbind (verify_blocks debug H known_roots (spr_blocks resp) True 0) (\<lambda>(all_verified, covered).
            Ok \<lparr>sp_verified = all_verified, sp_covered = covered, sp_requested = requested_count\<rparr>))"



subsection \<open>A made proof is accepted\<close>

text \<open>What the verifier rebuilds from a block proof is the range proof it was made of.\<close>

definition block_proof_of :: "calendar_block \<Rightarrow> range_proof \<Rightarrow> block_proof" where
  "block_proof_of b p = (let (proof_leaves, proof_siblings) = format_proof_arrays p in
     \<lparr>bp_block_id = cb_block_id b, bp_merkle_root = cb_merkle_root b,
      bp_leaves = proof_leaves, bp_siblings = proof_siblings,
      bp_leaf_count = nat (rp_leaf_count p), bp_sibling_count = nat (rp_sibling_count p),
      bp_n = nat (rp_n p)\<rparr>)"

lemma reconstruct_format:
  assumes "proof_shape p n m" and "m \<le> 64" and "n \<le> 128"
  shows "reconstruct_range_proof (block_proof_of b p) = p"
    and "bp_leaf_count (block_proof_of b p) = m" and "bp_n (block_proof_of b p) = n"
    and "bp_merkle_root (block_proof_of b p) = cb_merkle_root b"
proof -
  from assms(1) obtain ls ss where p: "rp_n p = int n" "rp_leaf_count p = int m" "rp_leaves p = pad_to 64 ls"
    "length ls = m" "rp_siblings p = pad_to 32 ss" "rp_sibling_count p = int (length ss)" "length ss \<le> 32"
    by (auto simp: proof_shape_def)
  have cut: "pad_to k (take (min (length xs) k) (pad_to k (take (min k (length xs)) (pad_to k xs)))) = pad_to k xs"
    if "length xs \<le> k" for k and xs :: "hash32 list"
    using that by (simp add: take_pad_to min_def)
  have "length ss < 2 ^ 31" "m < 2 ^ 31" "n < 2 ^ 31" using p(7) assms by simp_all
  then show "reconstruct_range_proof (block_proof_of b p) = p"
    using p assms cut [of ls 64] cut [of ss 32]
    by (cases p) (simp add: reconstruct_range_proof_def block_proof_of_def format_proof_arrays_def as_i32_small)
qed (use assms in \<open>auto simp: block_proof_of_def format_proof_arrays_def proof_shape_def\<close>)

definition has_overlap :: "storage_proof_request \<Rightarrow> calendar_block \<Rightarrow> bool" where
  "has_overlap req b \<longleftrightarrow> list_ex (\<lambda>t. sp_chronon_start req \<le> cr_chronon_number (ex_inner t) \<and>
     cr_chronon_number (ex_inner t) \<le> sp_chronon_end req) (cb_ticks b)"

text \<open>
  A block the proofs work for: the range covers it from its first tick, and at most 64 ticks of
  it; it has at most 128; and its stored root is the one of its ticks.
\<close>

definition provable_block :: "'s codec \<Rightarrow> storage_proof_request \<Rightarrow> calendar_block \<Rightarrow> bool" where
  "provable_block C req b \<longleftrightarrow>
     find_tick_index (cb_ticks b) (sp_chronon_start req) = 0 \<and>
     find_tick_index_after (cb_ticks b) (sp_chronon_end req) \<le> 64 \<and> length (cb_ticks b) \<le> 128 \<and>
     merkle_root_from_leaves (cd_sha256 C) (map (tick_leaf C) (cb_ticks b)) = Ok (cb_merkle_root b)"

lemma find_tick_index_after_le: "find_tick_index_after ts n \<le> length ts"
  unfolding find_tick_index_after_def by (metis length_dropWhile_le length_rev)

lemma find_tick_index_after_pos:
  "t \<in> set ts \<Longrightarrow> cr_chronon_number (ex_inner t) \<le> n \<Longrightarrow> 0 < find_tick_index_after ts n"
  by (auto simp: find_tick_index_after_def dropWhile_eq_Nil_conv)

lemma provable_block_verifies:
  assumes "provable_block C req b" and "has_overlap req b"
  shows "\<exists>bp m. block_merkle_proof C (sp_chronon_start req) (sp_chronon_end req) b =
      (Ok (Some (bp, m)) :: (_, 'e) result) \<and>
    m = bp_leaf_count bp \<and> 0 < m \<and> m \<le> 64 \<and> bp_n bp \<noteq> 0 \<and> bp_merkle_root bp = cb_merkle_root b \<and>
    block_valid (cd_sha256 C) bp = (Ok True :: (_, 'f) result)"
proof -
  let ?m = "find_tick_index_after (cb_ticks b) (sp_chronon_end req)"
  let ?leaves = "map (tick_leaf C) (cb_ticks b)"
  have m: "0 < ?m" "?m \<le> length ?leaves" "?m - 0 \<le> 64" "length ?leaves \<le> 128"
    using assms find_tick_index_after_pos find_tick_index_after_le [of "cb_ticks b"]
    by (auto simp: provable_block_def has_overlap_def list_ex_iff)
  from merkle_made_verifies [OF m, of "cd_sha256 C"] assms(1) obtain p where
    p: "merkle_range_proof (cd_sha256 C) ?leaves 0 ?m = Ok p"
      "merkle_verify_range_proof (cd_sha256 C) (cb_merkle_root b) p 0 ?m = Ok True"
      "proof_shape p (length ?leaves) ?m"
    by (auto simp: provable_block_def)
  have "?leaves \<noteq> []" using m by auto
  then have "block_merkle_proof C (sp_chronon_start req) (sp_chronon_end req) b =
      (Ok (Some (block_proof_of b p, ?m)) :: (_, 'e) result)"
    using assms m p(1) unfolding block_merkle_proof_def provable_block_def has_overlap_def block_proof_of_def
    by (simp add: Let_def split_def)
  moreover have "block_valid (cd_sha256 C) (block_proof_of b p) = (Ok True :: (_, 'f) result)"
    using p(2) reconstruct_format [OF p(3)] m by (simp add: block_valid_def)
  ultimately show ?thesis using reconstruct_format [OF p(3)] m by fastforce
qed

lemma no_overlap_skipped:
  "\<not> has_overlap req b \<Longrightarrow>
     block_merkle_proof C (sp_chronon_start req) (sp_chronon_end req) b = Ok None"
  by (simp add: block_merkle_proof_def has_overlap_def)

lemma add_ticks: "unat c + 64 * Suc k < 2 ^ 64 \<Longrightarrow> m \<le> 64 \<Longrightarrow>
    add_u64 debug c (word_of_nat m) = Ok (c + word_of_nat m) \<and>
    unat (c + word_of_nat m) + 64 * k < 2 ^ 64" for c :: u64
proof -
  assume *: "unat c + 64 * Suc k < 2 ^ 64" "m \<le> 64"
  then have "unat (word_of_nat m :: u64) = m" by (simp add: unat_of_nat)
  moreover from this have "unat (c + word_of_nat m) = unat c + m"
    using * by (subst unat_add_lem [THEN iffD1]) simp_all
  ultimately show ?thesis using * by (simp add: add_u64_no_overflow)
qed

lemma build_then_verify:
  assumes "\<forall>b \<in> set bs. has_overlap req b \<longrightarrow> provable_block C req b \<and> (roots = [] \<or> cb_merkle_root b \<in> set roots)"
    and "unat c + 64 * length bs < 2 ^ 64"
  shows "\<exists>bps c'. build_blocks debug C (sp_chronon_start req) (sp_chronon_end req) bs c =
      (Ok (bps, c') :: (_, 'e) result) \<and>
    verify_blocks debug (cd_sha256 C) roots bps True c = (Ok (True, c') :: (_, 'f) result) \<and>
    (bps = [] \<longleftrightarrow> (\<forall>b \<in> set bs. \<not> has_overlap req b))"
  using assms
proof (induction bs arbitrary: c)
  case (Cons b bs)
  show ?case
  proof (cases "has_overlap req b")
    case True
    with Cons.prems have "provable_block C req b" by simp
    from provable_block_verifies [OF this True] obtain bp where
      bp: "block_merkle_proof C (sp_chronon_start req) (sp_chronon_end req) b =
          (Ok (Some (bp, bp_leaf_count bp)) :: (_, 'e) result)" "bp_leaf_count bp \<noteq> 0"
        "bp_leaf_count bp \<le> 64" "bp_n bp \<noteq> 0" "bp_merkle_root bp = cb_merkle_root b"
        "block_valid (cd_sha256 C) bp = (Ok True :: (_, 'f) result)" by auto
    have "unat c + 64 * Suc (length bs) < 2 ^ 64" using Cons.prems(2) by simp
    note add = add_ticks [OF this bp(3), THEN conjunct1] add_ticks [OF this bp(3), THEN conjunct2]
    from Cons.IH [of "c + word_of_nat (bp_leaf_count bp)"] Cons.prems add obtain bps c' where
      "build_blocks debug C (sp_chronon_start req) (sp_chronon_end req) bs (c + word_of_nat (bp_leaf_count bp)) =
        (Ok (bps, c') :: (_, 'e) result)"
      "verify_blocks debug (cd_sha256 C) roots bps True (c + word_of_nat (bp_leaf_count bp)) =
        (Ok (True, c') :: (_, 'f) result)" by auto
    then show ?thesis
      using True bp Cons.prems(1) by (intro exI [of _ "bp # bps"] exI [of _ c']) (auto simp: add(1))
  next
    case False
    moreover have "unat c + 64 * length bs < 2 ^ 64" using Cons.prems(2) by simp
    ultimately show ?thesis using Cons.IH [of c] Cons.prems(1) by (auto simp: no_overlap_skipped)
  qed
qed simp

lemma requested_count_Ok:
  assumes "start \<le> end" and "end < u64_max"
  shows "add_u64 debug (end - start) 1 = Ok (end - start + 1)" and "end - start + 1 \<noteq> 0"
proof -
  have "end - start \<le> end" using assms(1) by (simp add: word_sub_le)
  then have d: "end - start < u64_max" using assms(2) by (rule le_less_trans)
  show "add_u64 debug (end - start) 1 = Ok (end - start + 1)" by (rule add_one_Ok [OF d])
  show "end - start + 1 \<noteq> 0" using word_succ_le [OF d] by auto
qed

text \<open>
  C20: A storage proof that was made verifies: when the range covers the blocks it meets from
  their first tick, at most 64 ticks of each, their stored roots are right and among the roots
  the verifier knows, then \<^verbatim>\<open>prove_storage\<close> answers with a proof (with none when no block
  meets the range), and \<^verbatim>\<open>verify_storage_proof\<close> accepts it and counts the same coverage.
\<close>

theorem storage_proof_roundtrip:
  assumes "sp_chronon_start req \<le> sp_chronon_end req" and "sp_chronon_end req < u64_max"
    and "\<forall>b \<in> set blocks. has_overlap req b \<longrightarrow>
      provable_block C req b \<and> (roots = [] \<or> cb_merkle_root b \<in> set roots)"
    and "length blocks < 2 ^ 57"
  shows "if \<exists>b \<in> set blocks. has_overlap req b
    then \<exists>resp. prove_storage debug C (Ok blocks) req = (Ok (Some resp) :: (_, node_error) result) \<and>
      verify_storage_proof debug (cd_sha256 C) req resp roots =
        (Ok \<lparr>sp_verified = True, sp_covered = spr_covered resp, sp_requested = spr_requested resp\<rparr>
          :: (_, node_error) result)
    else prove_storage debug C (Ok blocks) req = (Ok None :: (_, node_error) result)"
proof -
  have "unat (0 :: u64) + 64 * length blocks < 2 ^ 64" using assms(4) by simp
  from build_then_verify [OF assms(3) this] obtain bps c where
    "build_blocks debug C (sp_chronon_start req) (sp_chronon_end req) blocks 0 =
      (Ok (bps, c) :: (_, node_error) result)"
    "verify_blocks debug (cd_sha256 C) roots bps True 0 = (Ok (True, c) :: (_, node_error) result)"
    "bps = [] \<longleftrightarrow> (\<forall>b \<in> set blocks. \<not> has_overlap req b)" by metis
  then show ?thesis
    using assms(1) requested_count_Ok(2) [OF assms(1,2)]
    by (auto simp: prove_storage_def verify_storage_proof_def build_merkle_proofs_def not_less
        requested_count_Ok(1) [OF assms(1,2)])
qed

lemma next_pow2_two: "merkle_next_pow2 2 = 2" "merkle_next_pow2 (Suc (Suc 0)) = 2"
  by (simp_all add: merkle_next_pow2_def next_pow2_from.simps)

lemma merkle_root_two: "merkle_root_from_leaves H [a, b] = Ok (node_hash H a b)"
proof -
  have "merkle_next_pow2 (length [a, b]) = 2 ^ 1" by (simp add: next_pow2_two)
  from merkle_root_lev [OF _ _ this] show ?thesis by (simp add: level_up_def pad_to_def)
qed

text \<open>A codec whose ticks are the byte of their number, hashed by adding the bytes up.\<close>

definition sum_codec :: "bytes codec" where
  "sum_codec = unary_codec \<lparr>cd_tick_json := \<lambda>r. Ok [word_of_nat (unat (cr_chronon_number r))],
     cd_sha256 := \<lambda>m. [fold (\<lambda>x acc. 3 * acc + x) m 0]\<rparr>"

definition two_ticks :: calendar_block where
  "two_ticks = (block_of [1, 2]) \<lparr>cb_merkle_root :=
     node_hash (cd_sha256 sum_codec) (tick_leaf sum_codec (cb_ticks (block_of [1, 2]) ! 0))
       (tick_leaf sum_codec (cb_ticks (block_of [1, 2]) ! 1))\<rparr>"

text \<open>
  A range that begins inside a block cannot be proved: the verifier checks every block as if
  the range began at its first tick. The honest proof for the second tick of a block of two
  verifies only if hashing the two leaves in either order gives the same parent.
\<close>

theorem mid_block_proof_refused:
  assumes "cb_ticks b = [t0, t1]"
    and "merkle_root_from_leaves (cd_sha256 C) (map (tick_leaf C) [t0, t1]) = Ok (cb_merkle_root b)"
    and "cr_chronon_number (ex_inner t0) < start" and "start \<le> cr_chronon_number (ex_inner t1)"
    and "cr_chronon_number (ex_inner t1) \<le> end" and "end < u64_max"
  shows "\<exists>resp res. prove_storage debug C (Ok [b]) \<lparr>sp_tbid = tb, sp_chronon_start = start, sp_chronon_end = end\<rparr> =
      (Ok (Some resp) :: (_, node_error) result) \<and> spr_covered resp = 1 \<and>
    verify_storage_proof debug (cd_sha256 C) \<lparr>sp_tbid = tb, sp_chronon_start = start, sp_chronon_end = end\<rparr> resp [] =
      (Ok res :: (_, node_error) result) \<and>
    (sp_verified res \<longleftrightarrow> node_hash (cd_sha256 C) (tick_leaf C t1) (tick_leaf C t0) =
       node_hash (cd_sha256 C) (tick_leaf C t0) (tick_leaf C t1))"
proof -
  let ?H = "cd_sha256 C" and ?l0 = "tick_leaf C t0" and ?l1 = "tick_leaf C t1"
  let ?p = "\<lparr>rp_leaves = pad_to 64 [?l1], rp_siblings = pad_to 32 [?l0], rp_leaf_count = 1,
    rp_sibling_count = 1, rp_n = 2\<rparr>"
  have le: "start \<le> end" using assms by simp
  note pow = next_pow2_two
  have root: "cb_merkle_root b = node_hash ?H ?l0 ?l1"
    using assms(2) by (simp add: merkle_root_two)
  have proof2: "merkle_range_proof ?H [?l0, ?l1] 1 2 = Ok ?p"
    using merkle_range_proof_sibs [of 1 2 "[?l0, ?l1]" 1 ?H] pow by (simp add: pad_to_def)
  have shape: "proof_shape ?p 2 1"
    unfolding proof_shape_def by (intro conjI exI [of _ "[?l1]"] exI [of _ "[?l0]"]) simp_all
  note rebuilt = reconstruct_format [OF shape, of b]
  have "find_tick_index [t0, t1] start = 1" "find_tick_index_after [t0, t1] end = 2"
    using assms(3-5) by (simp_all add: find_tick_index_def find_tick_index_after_def not_le)
  then have made: "block_merkle_proof C start end b = (Ok (Some (block_proof_of b ?p, 1)) :: (_, node_error) result)"
    using assms(1,3-5) proof2 by (simp add: block_merkle_proof_def block_proof_of_def Let_def split_def not_le)
  have valid: "block_valid ?H (block_proof_of b ?p) = (Ok (node_hash ?H ?l1 ?l0 = node_hash ?H ?l0 ?l1) :: (_, node_error) result)"
    using rebuilt root pow merkle_log2_power [of 1]
    by (simp add: block_valid_def merkle_verify_range_proof_def c_merkle_verify_range_proof_def Let_def
        as_i32_small verify_level_def pad_to_def index_at_def)
  show ?thesis
    using leD [OF le] made valid rebuilt requested_count_Ok(2) [OF le assms(6)]
    by (simp add: prove_storage_def build_merkle_proofs_def verify_storage_proof_def add_u64_def
        requested_count_Ok(1) [OF le assms(6), unfolded add_u64_def])
qed

theorem mid_block_proof_refused_witness:
  "\<exists>resp res. prove_storage True sum_codec (Ok [two_ticks]) \<lparr>sp_tbid = [], sp_chronon_start = 2, sp_chronon_end = 2\<rparr> =
      (Ok (Some resp) :: (_, node_error) result) \<and> spr_covered resp = 1 \<and>
    verify_storage_proof True (cd_sha256 sum_codec) \<lparr>sp_tbid = [], sp_chronon_start = 2, sp_chronon_end = 2\<rparr> resp [] =
      (Ok res :: (_, node_error) result) \<and> \<not> sp_verified res"
proof -
  let ?t = "\<lambda>i. cb_ticks (block_of [1, 2]) ! i"
  have ticks: "cb_ticks two_ticks = [?t 0, ?t 1]" "cr_chronon_number (ex_inner (?t 0)) = 1"
    "cr_chronon_number (ex_inner (?t 1)) = 2"
    by (simp_all add: two_ticks_def block_of_def ex_from_trusted_def)
  have root: "merkle_root_from_leaves (cd_sha256 sum_codec) (map (tick_leaf sum_codec) [?t 0, ?t 1]) =
      Ok (cb_merkle_root two_ticks)"
    by (simp add: merkle_root_two two_ticks_def)
  have leaves: "tick_leaf sum_codec (?t 0) = [1]" "tick_leaf sum_codec (?t 1) = [2]"
    by (simp_all add: tick_leaf_def sum_codec_def merkle_leaf_def c_merkle_leaf_def block_of_def ex_from_trusted_def)
  have "node_hash (cd_sha256 sum_codec) [2] [1] \<noteq> node_hash (cd_sha256 sum_codec) [1] [2]"
    by (simp add: node_hash_def sum_codec_def)
  moreover have "(1 :: u64) < 2" "(2 :: u64) \<le> 2" "(2 :: u64) < u64_max" by (simp_all add: u64_max_def)
  ultimately show ?thesis
    using mid_block_proof_refused [OF ticks(1) root, of 2 2 True "[]"] ticks leaves by auto
qed

lemma verify_blocks_True:
  "verify_blocks debug H roots bps v c = (Ok (True, c') :: (_, 'e) result) \<Longrightarrow>
     v \<and> (\<forall>bp \<in> set bps. bp_n bp \<noteq> 0 \<and> bp_leaf_count bp \<noteq> 0 \<longrightarrow>
       block_valid H bp = (Ok True :: (_, 'e) result) \<and> (roots = [] \<or> bp_merkle_root bp \<in> set roots))"
proof (induction bps arbitrary: v c)
  case (Cons bp bps)
  then show ?case by (fastforce simp: result_simps split: if_splits)
qed simp

lemma block_valid_True:
  "block_valid H bp = Ok True \<longleftrightarrow>
     merkle_verify_range_proof H (bp_merkle_root bp) (reconstruct_range_proof bp) 0 (bp_leaf_count bp) = Ok True"
  by (auto simp: block_valid_def split: result.splits)

text \<open>Blocks without leaves say nothing, and are not looked at.\<close>

lemma verify_blocks_skips:
  "\<forall>bp \<in> set bps. bp_n bp = 0 \<or> bp_leaf_count bp = 0 \<Longrightarrow>
     verify_blocks debug H roots bps v c = Ok (v, c)"
  by (induction bps) auto

text \<open>
  A storage proof that verifies has every block that claims leaves checked against its
  Merkle root, and that root known where roots are given. Blocks that claim none are not
  looked at, so a proof of such blocks verifies and covers nothing of what was asked.
\<close>

theorem storage_proof_checked:
  "(verify_storage_proof debug H req resp roots = (Ok res :: (_, node_error) result) \<and> sp_verified res \<longrightarrow>
     (\<forall>bp \<in> set (spr_blocks resp). bp_n bp \<noteq> 0 \<and> bp_leaf_count bp \<noteq> 0 \<longrightarrow>
        merkle_verify_range_proof H (bp_merkle_root bp) (reconstruct_range_proof bp) 0 (bp_leaf_count bp) = Ok True \<and>
        (roots = [] \<or> bp_merkle_root bp \<in> set roots))) \<and>
   ((\<forall>bp \<in> set (spr_blocks resp). bp_n bp = 0 \<or> bp_leaf_count bp = 0) \<and>
     sp_chronon_start req \<le> sp_chronon_end req \<and> sp_chronon_end req < u64_max \<longrightarrow>
    verify_storage_proof debug H req resp roots =
      (Ok \<lparr>sp_verified = True, sp_covered = 0,
          sp_requested = sp_chronon_end req - sp_chronon_start req + 1\<rparr> :: (_, node_error) result))"
proof (intro conjI impI)
  assume *: "(\<forall>bp \<in> set (spr_blocks resp). bp_n bp = 0 \<or> bp_leaf_count bp = 0) \<and>
     sp_chronon_start req \<le> sp_chronon_end req \<and> sp_chronon_end req < u64_max"
  then have le: "sp_chronon_start req \<le> sp_chronon_end req" and lt: "sp_chronon_end req < u64_max" by simp_all
  from * show "verify_storage_proof debug H req resp roots =
      (Ok \<lparr>sp_verified = True, sp_covered = 0,
        sp_requested = sp_chronon_end req - sp_chronon_start req + 1\<rparr> :: (_, node_error) result)"
    using requested_count_Ok(2) [OF le lt]
    by (simp add: verify_storage_proof_def verify_blocks_skips not_less requested_count_Ok(1) [OF le lt])
next
  assume "verify_storage_proof debug H req resp roots = (Ok res :: (_, node_error) result) \<and> sp_verified res"
  then obtain c where "verify_blocks debug H roots (spr_blocks resp) True 0 =
      (Ok (True, c) :: (_, node_error) result)"
    by (auto simp: verify_storage_proof_def rbind_eq_Ok split: if_splits)
  from verify_blocks_True [OF this] show "\<forall>bp \<in> set (spr_blocks resp). bp_n bp \<noteq> 0 \<and> bp_leaf_count bp \<noteq> 0 \<longrightarrow>
        merkle_verify_range_proof H (bp_merkle_root bp) (reconstruct_range_proof bp) 0 (bp_leaf_count bp) = Ok True \<and>
        (roots = [] \<or> bp_merkle_root bp \<in> set roots)"
    by (simp add: block_valid_True)
qed

theorem storage_proof_checked_witness:
  "verify_storage_proof True (\<lambda>m. m) \<lparr>sp_tbid = [], sp_chronon_start = 1, sp_chronon_end = 9\<rparr>
       \<lparr>spr_blocks = [], spr_covered = 9, spr_requested = 9\<rparr> [zero_hash] =
     (Ok \<lparr>sp_verified = True, sp_covered = 0, sp_requested = 9\<rparr> :: (_, node_error) result)"
  using storage_proof_checked [THEN conjunct2, rule_format, of "\<lparr>spr_blocks = [], spr_covered = 9, spr_requested = 9\<rparr>"
      "\<lparr>sp_tbid = [], sp_chronon_start = 1, sp_chronon_end = 9\<rparr>" True "\<lambda>m. m" "[zero_hash]"]
  by (simp add: u64_max_def)

text \<open>
  A storage proof from the network can make the verifier read past the end of the proof: the
  leaf count is bounded by the number of leaves the proof claims and by nothing else, so any
  block that claims between 65 and 2^31 - 1 leaves is read beyond the array of 64.
\<close>

theorem storage_proof_overread:
  assumes "sp_chronon_start req \<le> sp_chronon_end req" and "sp_chronon_end req < u64_max"
    and "64 < bp_leaf_count bp" and "bp_leaf_count bp \<le> bp_n bp" and "bp_n bp < 2 ^ 31"
    and "length (bp_leaves bp) = 64"
  shows "verify_storage_proof debug H req (resp\<lparr>spr_blocks := bp # bps\<rparr>) roots =
    (Panic :: (_, node_error) result)"
proof -
  have "length (rp_leaves (reconstruct_range_proof bp)) = 64"
    using assms(3,6) by (simp add: reconstruct_range_proof_def min_def)
  moreover have "int (bp_leaf_count bp) \<le> rp_n (reconstruct_range_proof bp)"
    using assms(4,5) by (simp add: reconstruct_range_proof_def as_i32_small)
  ultimately have "block_valid H bp = (Panic :: (_, node_error) result)"
    using merkle_verify_out_of_bounds [of "reconstruct_range_proof bp" "bp_leaf_count bp" H "bp_merkle_root bp"] assms(3)
    by (simp add: block_valid_def reconstruct_range_proof_def)
  then show ?thesis
    using assms requested_count_Ok(2) [OF assms(1,2)]
    by (simp add: verify_storage_proof_def not_less requested_count_Ok(1) [OF assms(1,2)])
qed

theorem storage_proof_overread_witness:
  "verify_storage_proof False (\<lambda>m. m) \<lparr>sp_tbid = [], sp_chronon_start = 1, sp_chronon_end = 1\<rparr>
      \<lparr>spr_blocks = [\<lparr>bp_block_id = 0, bp_merkle_root = zero_hash, bp_leaves = replicate 64 zero_hash,
         bp_siblings = replicate 32 zero_hash, bp_leaf_count = 65, bp_sibling_count = 0, bp_n = 65\<rparr>],
       spr_covered = 0, spr_requested = 1\<rparr> [] = (Panic :: (_, node_error) result)"
  using storage_proof_overread [of "\<lparr>sp_tbid = [], sp_chronon_start = 1, sp_chronon_end = 1\<rparr>"
      "\<lparr>bp_block_id = 0, bp_merkle_root = zero_hash, bp_leaves = replicate 64 zero_hash,
         bp_siblings = replicate 32 zero_hash, bp_leaf_count = 65, bp_sibling_count = 0, bp_n = 65\<rparr>"
      False "\<lambda>m. m" "[]" "\<lparr>spr_blocks = [], spr_covered = 0, spr_requested = 1\<rparr>" "[]"]
  by (simp add: u64_max_def)

theorem storage_proof_roundtrip_witness:
  "\<exists>resp. prove_storage True sum_codec (Ok [two_ticks, block_of [7]]) \<lparr>sp_tbid = [], sp_chronon_start = 1, sp_chronon_end = 2\<rparr> =
      (Ok (Some resp) :: (_, node_error) result) \<and>
    verify_storage_proof True (cd_sha256 sum_codec) \<lparr>sp_tbid = [], sp_chronon_start = 1, sp_chronon_end = 2\<rparr> resp
       [cb_merkle_root two_ticks] =
      (Ok \<lparr>sp_verified = True, sp_covered = spr_covered resp, sp_requested = spr_requested resp\<rparr>
        :: (_, node_error) result)"
proof -
  let ?req = "\<lparr>sp_tbid = [], sp_chronon_start = 1, sp_chronon_end = 2\<rparr>"
  have overlap: "has_overlap ?req two_ticks" "\<not> has_overlap ?req (block_of [7])"
    by (simp_all add: has_overlap_def two_ticks_def block_of_def ex_from_trusted_def)
  have "provable_block sum_codec ?req two_ticks"
    by (simp add: provable_block_def two_ticks_def block_of_def ex_from_trusted_def find_tick_index_def
        find_tick_index_after_def merkle_root_two)
  moreover have "(1 :: u64) \<le> 2" "(2 :: u64) < u64_max" by (simp_all add: u64_max_def)
  ultimately show ?thesis
    using storage_proof_roundtrip [of ?req "[two_ticks, block_of [7]]" sum_codec "[cb_merkle_root two_ticks]" True] overlap
    by (simp split: if_splits)
qed

end
