(* ===== verification/Server_State.thy ===== *)
theory Server_State
  imports Chronomatter Calendar_Store Mirror_Store Storage_Proof
begin

section \<open>The state of a node\<close>

text \<open>
  Models \<^verbatim>\<open>foretias-server/src/server/mod.rs\<close> (\<^verbatim>\<open>TimeFamilyServer\<close>: what it is made of, its
  constructors, saving) and \<^verbatim>\<open>metrics.rs\<close>. The \<^verbatim>\<open>Arc\<close> of the calendar is shared between the
  server and the chronomatter, whose tick observer it is; here it lives in the observer slot
  of the chronomatter. A server restored by \<^verbatim>\<open>from_calendar\<close> has an observer that does
  nothing, and a calendar beside it: the flag \<open>sv_observing\<close> says which of the two it is.
\<close>

subsection \<open>Metrics\<close>

datatype metric_field =
    StampsTotal | StampsRateLimited | MutualAttestSent | MutualAttestOk | MutualAttestFailed
  | CalendarFlushCount | HeartbeatsSent | HeartbeatsReceived | CollisionsDetected
  | DormantTransitions

type_synonym node_metrics = "metric_field \<Rightarrow> u64"

definition metrics_new :: node_metrics where
  "metrics_new = (\<lambda>_. 0)"

definition inc :: "metric_field \<Rightarrow> node_metrics \<Rightarrow> node_metrics" where
  "inc field m = m(field := m field + 1)"

fun attest_metric :: "attest_event \<Rightarrow> metric_field" where
  "attest_metric AttestSent = MutualAttestSent"
| "attest_metric AttestOk = MutualAttestOk"
| "attest_metric AttestFailed = MutualAttestFailed"

subsection \<open>What the handlers call but the model does not define\<close>

text \<open>
  The codecs of the crates (serde, hex, postcard), the crypto server, and \<^verbatim>\<open>Display\<close> of the
  errors. A float (the coverage ratio) is the bit pattern of the quotient.
\<close>

record ('k, 's) node_env =
  ne_debug :: bool
  ne_ffi :: "'k ffi"
  ne_crypto :: crypto_server
  ne_postcard :: postcard_foretis
  ne_hex_encode :: "bytes \<Rightarrow> string"
  ne_hex_decode :: "string \<Rightarrow> (bytes, string) result"
  ne_chronon_json :: "chronon_record \<Rightarrow> json"
  ne_chronon_of_json :: "json \<Rightarrow> (chronon_record, string) result"
  ne_foretis_json :: "foretis_record \<Rightarrow> json"
  ne_foretis_of_json :: "json \<Rightarrow> (foretis_record, string) result"
  ne_calendar_json :: "calendar \<Rightarrow> (string, string) result"
  ne_codec :: "'s codec"
  ne_ratio :: "u64 \<Rightarrow> u64 \<Rightarrow> u64"
  ne_show_error :: "node_error \<Rightarrow> string"
  ne_show_auth :: "clean_auth_error \<Rightarrow> string"
  ne_show_parse :: "clean_auth_parse_error \<Rightarrow> string"

text \<open>
  The peer-to-peer layer as the handlers see it, and the inputs of one call: entropy and clock
  of a tick, the lottery of the observer, the outcomes of the file system.
\<close>

record communerd_api =
  ca_route_stamp :: "string \<Rightarrow> string \<Rightarrow> string \<Rightarrow> (foretis_record clean, node_error) result"
  ca_get_chronon :: "tbid \<Rightarrow> u64 \<Rightarrow> (chronon_record clean, string) result"
  ca_known_peers :: "string list"
  ca_peer_score :: "string \<Rightarrow> u64 \<times> nat"

record 'k call_inputs =
  ci_tick :: "'k tick_inputs"
  ci_lottery :: bool
  ci_create_dir :: "(unit, string) result"
  ci_io :: io_outcomes

subsection \<open>The server\<close>

record 'k time_family_server =
  sv_chronomatter :: "('k, 'k server_calendar) chronomatter"
  sv_observing :: bool
  sv_mirror_store :: mirror_store
  sv_calendar_store :: "(calendar_block list, node_error) result option"
  sv_communerd :: "communerd_api option"
  sv_listen_addr :: string
  sv_persist_path :: "string option"
  sv_metrics :: node_metrics
  sv_noise_static_priv :: bytes
  sv_noise_static_pub :: bytes
  sv_files :: fs

definition sv_calendar :: "'k time_family_server \<Rightarrow> 'k server_calendar" where
  "sv_calendar s = cm_observer (sv_chronomatter s)"

definition set_calendar :: "'k server_calendar \<Rightarrow> 'k time_family_server \<Rightarrow> 'k time_family_server" where
  "set_calendar c s = s\<lparr>sv_chronomatter := (sv_chronomatter s)\<lparr>cm_observer := c\<rparr>\<rparr>"

definition sv_tbid :: "'k time_family_server \<Rightarrow> tbid" where
  "sv_tbid s = cm_tbid (sv_chronomatter s)"

definition is_dormant :: "'k time_family_server \<Rightarrow> bool" where
  "is_dormant s = cm_is_dormant (sv_chronomatter s)"

definition metric :: "'k time_family_server \<Rightarrow> metric_field \<Rightarrow> u64" where
  "metric s field =
     sv_metrics s field +
       word_of_nat (length (filter (\<lambda>e. attest_metric e = field)
         (unwrap_or [] (cm_events (sv_chronomatter s)))))"

definition inc_metric :: "metric_field \<Rightarrow> 'k time_family_server \<Rightarrow> 'k time_family_server" where
  "inc_metric field s = s\<lparr>sv_metrics := inc field (sv_metrics s)\<rparr>"

definition mirror_store_default :: mirror_store where
  "mirror_store_default = mirror_store_new ''/tmp/foretias-mirrors'' 64"

definition calendar_store_path :: "string \<Rightarrow> string" where
  "calendar_store_path p = p @ ''/calendar_store.jsonl''"

text \<open>
  \<open>stored\<close> is what \<^verbatim>\<open>read_all\<close> finds under the path of the block store. The keys are generated
  in the order of the code: the calendar's, the TBID's, the one of the Noise channel.
\<close>

definition new_with_config ::
    "('k, 's) node_env \<Rightarrow> (string \<Rightarrow> (calendar_block list, node_error) result) \<Rightarrow>
     ('k, crypto_error) result \<Rightarrow> (unit, crypto_error) result \<Rightarrow>
     (bytes \<times> bytes, crypto_error) result \<Rightarrow> (bytes \<times> bytes, crypto_error) result \<Rightarrow>
     string \<Rightarrow> u64 \<Rightarrow> string option \<Rightarrow> communerd_api option \<Rightarrow> fs \<Rightarrow>
     ('k time_family_server, node_error) result" where
  "new_with_config E stored calendar_key new_software tbid_keypair noise_keypair listen_addr chronon_ns
       persist_path communerd files =
     rbind (server_calendar_new calendar_key tbid_default []) (\<lambda>calendar.
     rbind (rmap_err Crypto new_software) (\<lambda>_.
     rbind (chronomatter_new (ne_hex_encode E) tbid_keypair chronon_ns calendar) (\<lambda>cm.
     (let cm = set_mutual_attest_observer cm in
     rbind (set_tbid (ne_debug E) (cm_tbid cm) (sc_inner (cm_observer cm))) (\<lambda>inner1.
     rbind (set_tbn (ne_debug E) (cm_tbn cm) inner1) (\<lambda>inner2.
     rbind (rmap_err Crypto noise_keypair) (\<lambda>(pub_key, priv_key).
       Ok \<lparr>sv_chronomatter = cm\<lparr>cm_observer := (cm_observer cm)\<lparr>sc_inner := inner2\<rparr>\<rparr>,
           sv_observing = True, sv_mirror_store = mirror_store_default,
           sv_calendar_store = map_option (\<lambda>p. stored (calendar_store_path p)) persist_path,
           sv_communerd = communerd, sv_listen_addr = listen_addr, sv_persist_path = persist_path,
           sv_metrics = metrics_new, sv_noise_static_priv = priv_key, sv_noise_static_pub = pub_key,
           sv_files = files\<rparr>)))))))"

definition server_from_calendar ::
    "('k, 's) node_env \<Rightarrow> (string \<Rightarrow> (calendar_block list, node_error) result) \<Rightarrow>
     (calendar, node_error) result \<Rightarrow> (calendar, node_error) result \<Rightarrow>
     ('k, crypto_error) result \<Rightarrow> (unit, crypto_error) result \<Rightarrow>
     (bytes \<times> bytes, crypto_error) result \<Rightarrow> (bytes \<times> bytes, crypto_error) result \<Rightarrow>
     string \<Rightarrow> string \<Rightarrow> fs \<Rightarrow> ('k time_family_server, node_error) result" where
  "server_from_calendar E stored loaded loaded_again calendar_key new_software tbid_keypair noise_keypair
       path listen_addr files =
     rbind (rmap_err Crypto new_software) (\<lambda>_.
     rbind (from_calendar (ne_hex_encode E) tbid_keypair loaded ()) (\<lambda>cm.
     rbind (from_persisted loaded_again calendar_key) (\<lambda>calendar.
     rbind (rmap_err Crypto noise_keypair) (\<lambda>(pub_key, priv_key).
       Ok \<lparr>sv_chronomatter =
             \<lparr>cm_tbid = cm_tbid cm, cm_tbid_secret = cm_tbid_secret cm, cm_tbn = cm_tbn cm,
              cm_current_tick = cm_current_tick cm, cm_keypairs = cm_keypairs cm,
              cm_observer = calendar, cm_events = Some [], cm_chronon_ns = cm_chronon_ns cm,
              cm_is_dormant = cm_is_dormant cm, cm_chronon_stamp_count = cm_chronon_stamp_count cm\<rparr>,
           sv_observing = False, sv_mirror_store = mirror_store_default,
           sv_calendar_store = Some (stored (calendar_store_path path)),
           sv_communerd = None, sv_listen_addr = listen_addr, sv_persist_path = None,
           sv_metrics = metrics_new, sv_noise_static_priv = priv_key, sv_noise_static_pub = pub_key,
           sv_files = files\<rparr>))))"

definition with_communerd :: "communerd_api \<Rightarrow> 'k time_family_server \<Rightarrow> 'k time_family_server" where
  "with_communerd com s = s\<lparr>sv_communerd := Some com\<rparr>"

text \<open>The observer of the chronomatter: the calendar, or \<^verbatim>\<open>NoOpObserver\<close>.\<close>

definition sv_observer ::
    "('k, 's) node_env \<Rightarrow> bool \<Rightarrow> 'k time_family_server \<Rightarrow>
     u64 \<Rightarrow> bytes \<Rightarrow> chronon_record \<Rightarrow> 'k server_calendar \<Rightarrow> 'k server_calendar" where
  "sv_observer E lottery s =
     (if sv_observing s then on_tick_advance (ne_hex_encode E) lottery else (\<lambda>_ _ _ c. c))"

text \<open>A step of the chronomatter is a step of the server.\<close>

definition on_chronomatter ::
    "(('k, 'k server_calendar) chronomatter, 'a, 'e) stateful \<Rightarrow> ('k time_family_server, 'a, 'e) stateful" where
  "on_chronomatter m s = (let (r, cm') = m (sv_chronomatter s) in (r, s\<lparr>sv_chronomatter := cm'\<rparr>))"

definition server_daemon_tick ::
    "('k, 's) node_env \<Rightarrow> 'k call_inputs \<Rightarrow> ('k time_family_server, unit, node_error) stateful" where
  "server_daemon_tick E inp s =
     on_chronomatter (daemon_tick (ne_debug E) (ne_ffi E) (ne_hex_encode E) (ne_crypto E)
       (sv_observer E (ci_lottery inp) s) (ci_tick inp)) s"

definition server_save ::
    "('k, 's) node_env \<Rightarrow> 'k call_inputs \<Rightarrow> ('k time_family_server, unit, node_error) stateful" where
  "server_save E inp s = (case sv_persist_path s of
     None \<Rightarrow> (Ok (), s)
   | Some p \<Rightarrow>
       (let json_path = p @ ''/'' @ to_hex (ne_hex_encode E) (sv_tbid s) @ ''.json'' in
        case ci_create_dir inp of
          Err e \<Rightarrow> (Err (Io e), s)
        | Panic \<Rightarrow> (Panic, s)
        | Ok _ \<Rightarrow>
            (case save (ne_calendar_json E) (ci_io inp) json_path (sc_inner (sv_calendar s)) (sv_files s) of
               (Ok _, files') \<Rightarrow> (Ok (), inc_metric CalendarFlushCount (s\<lparr>sv_files := files'\<rparr>))
             | (r, files') \<Rightarrow> (r, s\<lparr>sv_files := files'\<rparr>))))"

definition server_integrity_check ::
    "('k, 's) node_env \<Rightarrow> 'k time_family_server \<Rightarrow> u64 option \<Rightarrow> u64 option \<Rightarrow> (bool list, node_error) result" where
  "server_integrity_check E s start end =
     cm_integrity_check (ne_ffi E) (ne_hex_encode E) (ne_crypto E) (sc_lookup (sv_calendar s)) start end"

definition start_daemon_arc :: "'k time_family_server \<times> daemon \<Rightarrow> 'k time_family_server \<times> daemon" where
  "start_daemon_arc = (\<lambda>(s, d).
     (let d' = start_daemon (cm_chronon_ns (sv_chronomatter s)) d in
      if sv_communerd s \<noteq> None \<and> sc_task_tx (sv_calendar s) = None
      then (set_calendar ((sv_calendar s)\<lparr>sc_task_tx := Some \<lparr>tc_closed = False, tc_tasks = []\<rparr>\<rparr>) s, d')
      else (s, d')))"

definition stop_daemon_arc :: "'k time_family_server \<times> daemon \<Rightarrow> 'k time_family_server \<times> daemon" where
  "stop_daemon_arc = (\<lambda>(s, d). (s, stop_daemon d))"

subsection \<open>Responses\<close>

type_synonym 'k handler = "('k time_family_server, json_rpc_response, node_error) stateful"

definition resp_success :: "json option \<Rightarrow> json \<Rightarrow> 'k handler" where
  "resp_success req_id value s =
     (Ok (if is_dormant s then dormant_success req_id value else rpc_success req_id value), s)"

definition resp_error :: "json option \<Rightarrow> int \<Rightarrow> string \<Rightarrow> 'k handler" where
  "resp_error req_id code message s =
     (Ok (if is_dormant s then dormant_error req_id code message else rpc_error req_id code message), s)"

text \<open>The responses built without looking at dormancy.\<close>

definition plain_success :: "json option \<Rightarrow> json \<Rightarrow> 'k handler" where
  "plain_success req_id value s = (Ok (rpc_success req_id value), s)"

definition plain_error :: "json option \<Rightarrow> int \<Rightarrow> string \<Rightarrow> 'k handler" where
  "plain_error req_id code message s = (Ok (rpc_error req_id code message), s)"

text \<open>\<^verbatim>\<open>match r { Ok(p) => .., Err(e) => return resp_error(..) }\<close>.\<close>

definition or_error ::
    "json option \<Rightarrow> int \<Rightarrow> ('a, string) result \<Rightarrow> ('a \<Rightarrow> 'k handler) \<Rightarrow> 'k handler" where
  "or_error req_id code r f = (case r of
     Ok a \<Rightarrow> f a | Err e \<Rightarrow> resp_error req_id code e | Panic \<Rightarrow> slift Panic)"

text \<open>
  \<^verbatim>\<open>Handle::current().block_on(..)\<close>: it panics when the caller is itself driven by a runtime,
  as every request of the three servers (TCP, HTTP, libp2p) is.
\<close>

definition block_on :: "bool \<Rightarrow> 'a \<Rightarrow> ('a, 'e) result" where
  "block_on in_runtime a = (if in_runtime then Panic else Ok a)"

lemmas response_defs = resp_success_def resp_error_def plain_success_def plain_error_def

end
