(* ===== verification/Handlers_Core.thy ===== *)
theory Handlers_Core
  imports Server_State
begin

section \<open>Handlers: stamping, verifying and the rest of the core methods\<close>

text \<open>
  Models the handlers of \<^verbatim>\<open>foretias-server/src/server/handlers.rs\<close> that are not about mirrors
  or storage. A handler takes the JSON parameters, answers with a response and leaves a
  server; what it logs is left out.
\<close>

definition MAX_CONTENT_BYTES :: nat where "MAX_CONTENT_BYTES = 1073741824"
definition MAX_CALENDAR_SLICE_COUNT :: nat where "MAX_CALENDAR_SLICE_COUNT = 10000"

definition quoted :: "string \<Rightarrow> string" where
  "quoted s = [CHR 0x27] @ s @ [CHR 0x27]"

text \<open>\<^verbatim>\<open>hex::decode(..).unwrap_or_default()\<close>.\<close>

definition hex_or_empty :: "('k, 's) node_env \<Rightarrow> string \<Rightarrow> bytes" where
  "hex_or_empty E s = (case ne_hex_decode E s of Ok b \<Rightarrow> b | _ \<Rightarrow> [])"

definition foretis_hex :: "('k, 's) node_env \<Rightarrow> foretis_record \<Rightarrow> string" where
  "foretis_hex E f = to_hex (ne_hex_encode E) (fr_tbid f)"

text \<open>A save whose failure is logged.\<close>

definition save_logged :: "('k, 's) node_env \<Rightarrow> 'k call_inputs \<Rightarrow> ('k time_family_server, unit, node_error) stateful" where
  "save_logged E inp s = (case server_save E inp s of
     (Panic, s') \<Rightarrow> (Panic, s')
   | (_, s') \<Rightarrow> (Ok (), s'))"

subsection \<open>stamp\<close>

definition stamp_json :: "('k, 's) node_env \<Rightarrow> stamped_foretis \<Rightarrow> json" where
  "stamp_json E stamped =
     JObject [(''foretis'', ne_foretis_json E (st_foretis stamped)),
              (''signature'', JString (ne_hex_encode E (st_signature_bytes stamped))),
              (''signature_algorithm'', JString (st_signature_algorithm stamped))]"

text \<open>The parameters of a stamp: the content and the echo.\<close>

definition parse_stamp_params :: "('k, 's) node_env \<Rightarrow> json \<Rightarrow> (bytes \<times> string, string) result" where
  "parse_stamp_params E params =
     rbind (ok_or (''missing or invalid '' @ quoted ''content'' @ '' (hex string)'') (get_str ''content'' params))
       (\<lambda>content_hex.
     rbind (rmap_err (\<lambda>e. ''invalid hex: '' @ e) (ne_hex_decode E content_hex)) (\<lambda>content.
     if length content > MAX_CONTENT_BYTES
     then Err (''content exceeds maximum size of '' @ decimal MAX_CONTENT_BYTES @ '' bytes'')
     else Ok (content, unwrap_or [] (get_str ''echo'' params))))"

definition call_stamp ::
    "('k, 's) node_env \<Rightarrow> 'k call_inputs \<Rightarrow> bytes \<Rightarrow> string \<Rightarrow>
     ('k time_family_server, stamped_foretis, node_error) stateful" where
  "call_stamp E inp content echo s =
     on_chronomatter (cm_stamp (ne_debug E) (ne_ffi E) (ne_hex_encode E) (ne_postcard E) (ne_crypto E)
       (sv_observer E (ci_lottery inp) s) (ci_tick inp) content echo) s"

definition handle_stamp :: "('k, 's) node_env \<Rightarrow> 'k call_inputs \<Rightarrow> json \<Rightarrow> 'k handler" where
  "handle_stamp E inp params =
     (let req_id = jget ''id'' params in
      or_error req_id INVALID_PARAMS (parse_stamp_params E params) (\<lambda>(content, echo).
      sbind (sget is_dormant) (\<lambda>dormant.
      if dormant then resp_error req_id DORMANT_ERROR ''node is dormant''
      else (\<lambda>s. case call_stamp E inp content echo s of
          (Panic, s') \<Rightarrow> (Panic, s')
        | (Err e, s') \<Rightarrow> resp_error req_id INTERNAL_ERROR (''stamp failed: '' @ ne_show_error E e) s'
        | (Ok stamped, s') \<Rightarrow>
            sbind (smod (inc_metric StampsTotal)) (\<lambda>_.
            sbind (save_logged E inp) (\<lambda>_.
              resp_success req_id (stamp_json E stamped))) s'))))"

subsection \<open>route_stamp\<close>

record route_stamp_params =
  rsp_target_tbid :: string
  rsp_content_hex :: string
  rsp_content :: bytes
  rsp_echo :: string

definition parse_route_stamp_params :: "('k, 's) node_env \<Rightarrow> json \<Rightarrow> (route_stamp_params, string) result" where
  "parse_route_stamp_params E params =
     rbind (ok_or (''missing or invalid '' @ quoted ''target_tbid'' @ '' (hex string)'')
              (get_str ''target_tbid'' params)) (\<lambda>target_tbid.
     rbind (ok_or (''missing or invalid '' @ quoted ''content'' @ '' (hex string)'')
              (get_str ''content'' params)) (\<lambda>content_hex.
     rbind (rmap_err (\<lambda>e. ''invalid hex: '' @ e) (ne_hex_decode E content_hex)) (\<lambda>content.
     if length content > MAX_CONTENT_BYTES
     then Err (''content exceeds maximum size of '' @ decimal MAX_CONTENT_BYTES @ '' bytes'')
     else Ok \<lparr>rsp_target_tbid = target_tbid, rsp_content_hex = content_hex, rsp_content = content,
              rsp_echo = unwrap_or [] (get_str ''echo'' params)\<rparr>)))"

definition build_route_stamp_response ::
    "('k, 's) node_env \<Rightarrow> json option \<Rightarrow> foretis_record clean \<Rightarrow> 'k handler" where
  "build_route_stamp_response E req_id ca_foretis =
     (let sig_hex = (case signature_bytes ca_foretis of None \<Rightarrow> [] | Some b \<Rightarrow> ne_hex_encode E b);
          sig_alg = unwrap_or ''Ed25519'' (signature_algorithm_of ca_foretis)
      in resp_success req_id
           (JObject [(''foretis'', ne_foretis_json E (ca_inner ca_foretis)),
                     (''signature'', JString sig_hex), (''signature_algorithm'', JString sig_alg)]))"

definition handle_route_stamp :: "bool \<Rightarrow> ('k, 's) node_env \<Rightarrow> 'k call_inputs \<Rightarrow> json \<Rightarrow> 'k handler" where
  "handle_route_stamp in_runtime E inp params =
     (let req_id = jget ''id'' params in
      or_error req_id INVALID_PARAMS (parse_route_stamp_params E params) (\<lambda>rps s.
        if rsp_target_tbid rps = to_hex (ne_hex_encode E) (sv_tbid s) then handle_stamp E inp params s
        else (case sv_communerd s of
          None \<Rightarrow> resp_error req_id INTERNAL_ERROR ''p2p not enabled'' s
        | Some cm \<Rightarrow>
            sbind (slift (block_on in_runtime
                     (ca_route_stamp cm (rsp_target_tbid rps) (rsp_content_hex rps) (rsp_echo rps)))) (\<lambda>answer.
              case answer of
                Ok ca_foretis \<Rightarrow>
                  sbind (smod (inc_metric StampsTotal)) (\<lambda>_.
                  sbind (save_logged E inp) (\<lambda>_. build_route_stamp_response E req_id ca_foretis))
              | Err e \<Rightarrow> resp_error req_id INTERNAL_ERROR (''route stamp failed: '' @ ne_show_error E e)
              | Panic \<Rightarrow> slift Panic) s)))"

subsection \<open>verify\<close>

record verify_params =
  vp_content :: bytes
  vp_foretis :: foretis_record
  vp_foretis_value :: json
  vp_signature :: bytes
  vp_signature_algorithm :: string
  vp_cross_node :: bool

definition parse_verify_params :: "('k, 's) node_env \<Rightarrow> json \<Rightarrow> (verify_params, string) result" where
  "parse_verify_params E params =
     rbind (ok_or (''missing '' @ quoted ''content'') (get_str ''content'' params)) (\<lambda>content_hex.
     rbind (ok_or (''missing or invalid '' @ quoted ''foretis'') (jget ''foretis'' params)) (\<lambda>foretis_value.
     (let signature_hex = unwrap_or [] (get_str ''signature'' params);
          signature_algorithm = unwrap_or ''Ed25519'' (get_str ''signature_algorithm'' params);
          sig = hex_or_empty E signature_hex in
     rbind (rmap_err (\<lambda>e. ''invalid hex: '' @ e) (ne_hex_decode E content_hex)) (\<lambda>content.
     if length content > MAX_CONTENT_BYTES
     then Err (''content exceeds maximum size of '' @ decimal MAX_CONTENT_BYTES @ '' bytes'')
     else
       rbind (rmap_err (\<lambda>e. ''failed to parse foretis: '' @ e) (ne_foretis_of_json E foretis_value)) (\<lambda>foretis.
         Ok \<lparr>vp_content = content, vp_foretis = foretis, vp_foretis_value = foretis_value,
             vp_signature = sig, vp_signature_algorithm = signature_algorithm,
             vp_cross_node = unwrap_or False (get_bool ''cross_node'' params)\<rparr>)))))"

definition try_local_verify ::
    "('k, 's) node_env \<Rightarrow> 'k time_family_server \<Rightarrow> foretis_record \<Rightarrow> bytes \<Rightarrow> string \<Rightarrow> bytes \<Rightarrow>
     (bool, 'e) result" where
  "try_local_verify E s foretis sig signature_algorithm content =
     (let cal = sc_inner (sv_calendar s) in
      case cal_get cal (fr_chronon_number foretis) 1 of
        Ok recs \<Rightarrow>
          if recs = [] then Ok False
          else (case verify (ne_postcard E) (ne_crypto E) foretis sig signature_algorithm content (cal_lookup cal) of
                  Ok valid \<Rightarrow> Ok valid | Err _ \<Rightarrow> Ok False | Panic \<Rightarrow> Panic)
      | Err _ \<Rightarrow> Ok False
      | Panic \<Rightarrow> Panic)"

definition cross_node_verify ::
    "('k, 's) node_env \<Rightarrow> 'k time_family_server \<Rightarrow> foretis_record unverified \<Rightarrow> bytes \<Rightarrow> string \<Rightarrow>
     (bool, node_error) result" where
  "cross_node_verify E s unproc_foretis content foretis_tbid_hex =
     rbind (ok_or (Internal ''P2P not enabled'') (sv_communerd s)) (\<lambda>com.
     rbind (rmap_err (\<lambda>e. Internal (''bad TBID hex: '' @ ne_show_error E (Crypto e)))
              (from_hex (\<lambda>h. case ne_hex_decode E h of Ok b \<Rightarrow> Some b | _ \<Rightarrow> None) foretis_tbid_hex)) (\<lambda>t.
     rbind (rmap_err (\<lambda>e. Internal (''get_chronon failed: '' @ e))
              (ca_get_chronon com t (fr_chronon_number (uv_inner unproc_foretis)))) (\<lambda>tick.
     rbind (rmap_err (\<lambda>e. Internal (ne_show_auth E e))
              (foretis_into_clean_authenticated (ne_postcard E) (ne_crypto E) content tick unproc_foretis))
       (\<lambda>_. Ok True))))"

definition build_cross_node_verify_response ::
    "bool \<Rightarrow> ('k, 's) node_env \<Rightarrow> json option \<Rightarrow> json \<Rightarrow> bytes \<Rightarrow> string \<Rightarrow> 'k handler" where
  "build_cross_node_verify_response in_runtime E req_id foretis_value content foretis_tbid_hex =
     or_error req_id INVALID_PARAMS
       (rmap_err (\<lambda>e. ''failed to parse foretis: '' @ ne_show_parse E e)
          (from_json_text (ne_foretis_of_json E) foretis_value)) (\<lambda>unproc_foretis s.
       sbind (slift (block_on in_runtime
                (cross_node_verify E s unproc_foretis content foretis_tbid_hex))) (\<lambda>answer. case answer of
           Ok valid \<Rightarrow> resp_success req_id (JObject [(''valid'', JBool valid), (''method'', JString ''cross_node'')])
         | Err e \<Rightarrow> resp_error req_id INTERNAL_ERROR (''cross-node verify failed: '' @ ne_show_error E e)
         | Panic \<Rightarrow> slift Panic) s)"

definition handle_verify :: "bool \<Rightarrow> ('k, 's) node_env \<Rightarrow> json \<Rightarrow> 'k handler" where
  "handle_verify in_runtime E params =
     (let req_id = jget ''id'' params in
      or_error req_id INVALID_PARAMS (parse_verify_params E params) (\<lambda>vp s.
      sbind (slift (try_local_verify E s (vp_foretis vp) (vp_signature vp) (vp_signature_algorithm vp)
               (vp_content vp))) (\<lambda>locally.
      if locally then resp_success req_id (JObject [(''valid'', JBool True), (''method'', JString ''local'')])
      else if \<not> vp_cross_node vp
      then resp_success req_id (JObject [(''valid'', JBool False), (''method'', JString ''local''),
             (''note'', JString ''foretis.tbid not found in local calendar'')])
      else if fr_tbid (vp_foretis vp) = sv_tbid s
      then resp_success req_id (JObject [(''valid'', JBool False), (''method'', JString ''local''),
             (''note'', JString ''own TBID but calendar miss'')])
      else build_cross_node_verify_response in_runtime E req_id (vp_foretis_value vp) (vp_content vp)
             (foretis_hex E (vp_foretis vp))) s))"

subsection \<open>Calendar slices and integrity\<close>

definition chronons_json :: "('k, 's) node_env \<Rightarrow> chronon_record list \<Rightarrow> json" where
  "chronons_json E rs = JArray (map (ne_chronon_json E) rs)"

definition handle_get_calendar_slice :: "('k, 's) node_env \<Rightarrow> json \<Rightarrow> 'k handler" where
  "handle_get_calendar_slice E params =
     (let req_id = jget ''id'' params;
          cal_chronon_start = unwrap_or 0 (Option.bind
            (case jget ''cal_chronon_start'' params of
               None \<Rightarrow> jget ''cal_tick_start'' params | Some v \<Rightarrow> Some v) as_u64);
          count = unat (unwrap_or 10 (get_u64 ''count'' params)) in
      if count > MAX_CALENDAR_SLICE_COUNT
      then resp_error req_id INVALID_PARAMS (''count exceeds maximum of '' @ decimal MAX_CALENDAR_SLICE_COUNT)
      else (\<lambda>s.
        case cal_get (sc_inner (sv_calendar s)) cal_chronon_start count of
          Ok recs \<Rightarrow> resp_success req_id (chronons_json E recs) s
        | Err e \<Rightarrow> resp_error req_id INTERNAL_ERROR
            (ne_show_error E (Internal (''calendar lookup failed: '' @ ne_show_error E e))) s
        | Panic \<Rightarrow> (Panic, s)))"

definition handle_integrity_check :: "('k, 's) node_env \<Rightarrow> json \<Rightarrow> 'k handler" where
  "handle_integrity_check E params s =
     (let req_id = jget ''id'' params; start = get_u64 ''start'' params; end = get_u64 ''end'' params in
      case cm_integrity_check (ne_ffi E) (ne_hex_encode E) (ne_crypto E)
             (cal_lookup (sc_inner (sv_calendar s))) start end of
        Ok results \<Rightarrow>
          resp_success req_id (JObject [(''all_valid'', JBool (list_all (\<lambda>v. v) results)),
            (''pair_results'', JArray (map JBool results)), (''pairs_checked'', jlen results)]) s
      | Err e \<Rightarrow> resp_error req_id INTERNAL_ERROR (''integrity check failed: '' @ ne_show_error E e) s
      | Panic \<Rightarrow> (Panic, s))"

subsection \<open>Liveness and channel binding\<close>

definition handle_ping :: "json \<Rightarrow> 'k handler" where
  "handle_ping params = plain_success (jget ''id'' params) (JObject [(''pong'', JBool True)])"

text \<open>Both challenges are signed with both keys of the TBID; the first 64 bytes are the fast key's.\<close>

definition sign_challenge ::
    "('k, 's) node_env \<Rightarrow> json option \<Rightarrow> bytes \<Rightarrow> (bytes \<Rightarrow> bytes \<Rightarrow> 'k handler) \<Rightarrow> 'k handler" where
  "sign_challenge E req_id msg answer s =
     (case sign_tbid_message (ne_ffi E) (sv_chronomatter s) msg of
        Ok sig_bytes \<Rightarrow>
          if length sig_bytes < 64 then plain_error req_id (- 32000) ''signature too short'' s
          else answer (take 64 sig_bytes) (drop 64 sig_bytes) s
      | Err e \<Rightarrow> plain_error req_id (- 32000) (''signing failed: '' @ ne_show_error E e) s
      | Panic \<Rightarrow> (Panic, s))"

definition handle_channel_bind_challenge :: "('k, 's) node_env \<Rightarrow> json \<Rightarrow> 'k handler" where
  "handle_channel_bind_challenge E params s =
     (let req_id = jget ''id'' params in
      case get_str ''nonce'' params of
        None \<Rightarrow> plain_error req_id (- 32602) ''missing nonce'' s
      | Some nonce_hex \<Rightarrow>
      (case get_str ''channel_id'' params of
        None \<Rightarrow> plain_error req_id (- 32602) ''missing channel_id'' s
      | Some channel_id \<Rightarrow>
      (let responder_tbid_hex = to_hex (ne_hex_encode E) (sv_tbid s) in
       case ne_hex_decode E nonce_hex of
         Ok nonce_bytes \<Rightarrow>
           sign_challenge E req_id (nonce_bytes @ as_bytes channel_id @ as_bytes responder_tbid_hex)
             (\<lambda>fast slow. plain_success req_id
                (JObject [(''responder_tbid'', JString responder_tbid_hex), (''nonce_echo'', JString nonce_hex),
                   (''channel_id'', JString channel_id), (''fast_sig'', JString (ne_hex_encode E fast)),
                   (''slow_sig'', JString (ne_hex_encode E slow))])) s
       | Err _ \<Rightarrow> plain_error req_id (- 32602) ''nonce not hex'' s
       | Panic \<Rightarrow> (Panic, s))))"

definition handle_authenticated_ping :: "('k, 's) node_env \<Rightarrow> json \<Rightarrow> 'k handler" where
  "handle_authenticated_ping E params s =
     (let req_id = jget ''id'' params in
      case get_str ''challenge'' params of
        None \<Rightarrow> plain_error req_id (- 32602) ''missing challenge'' s
      | Some challenge_hex \<Rightarrow>
      (case ne_hex_decode E challenge_hex of
         Ok challenge \<Rightarrow>
           (let responder_tbid_hex = to_hex (ne_hex_encode E) (sv_tbid s) in
            sign_challenge E req_id (challenge @ as_bytes responder_tbid_hex)
              (\<lambda>fast _. plain_success req_id
                (JObject [(''responder_tbid'', JString responder_tbid_hex),
                   (''challenge_echo'', JString challenge_hex),
                   (''signature'', JString (ne_hex_encode E fast)),
                   (''signature_algorithm'', JString ''Ed25519'')])) s)
       | Err _ \<Rightarrow> plain_error req_id (- 32602) ''challenge not hex'' s
       | Panic \<Rightarrow> (Panic, s)))"

subsection \<open>Status and scores\<close>

definition handle_status :: "bool \<Rightarrow> ('k, 's) node_env \<Rightarrow> json \<Rightarrow> 'k handler" where
  "handle_status in_runtime E params s =
     sbind (slift (case sv_communerd s of
              None \<Rightarrow> Ok 0 | Some c \<Rightarrow> block_on in_runtime (word_of_nat (length (ca_known_peers c))))) (\<lambda>peer_count.
       resp_success (jget ''id'' params)
         (JObject [(''tbid'', JString (to_hex (ne_hex_encode E) (sv_tbid s))),
            (''tbn'', JString (cm_tbn (sv_chronomatter s))),
            (''tick_count'', jnum (cm_current_tick (sv_chronomatter s))),
            (''peer_count'', jnum peer_count), (''dormant'', JBool (is_dormant s))])) s"

definition handle_collision_status :: "json \<Rightarrow> 'k handler" where
  "handle_collision_status params s =
     resp_success (jget ''id'' params)
       (JObject [(''dormant'', JBool (is_dormant s)),
          (''heartbeats_sent'', jnum (metric s HeartbeatsSent)),
          (''heartbeats_received'', jnum (metric s HeartbeatsReceived)),
          (''collisions_detected'', jnum (metric s CollisionsDetected)),
          (''dormant_transitions'', jnum (metric s DormantTransitions))]) s"

definition handle_get_peer_score :: "json \<Rightarrow> 'k handler" where
  "handle_get_peer_score params s =
     (let req_id = jget ''id'' params in
      case get_str ''peer_id'' params of
        None \<Rightarrow> resp_error req_id INVALID_PARAMS (''missing '' @ quoted ''peer_id'') s
      | Some peer_id \<Rightarrow>
      (case sv_communerd s of
        None \<Rightarrow> resp_error req_id INTERNAL_ERROR ''p2p not enabled'' s
      | Some com \<Rightarrow>
          (let (score, count) = ca_peer_score com peer_id in
           resp_success req_id (JObject [(''peer_id'', JString peer_id), (''score'', JNumber (Float score)),
             (''report_count'', jnum (word_of_nat count))]) s)))"

definition handle_get_latest_epoch :: "json \<Rightarrow> 'k handler" where
  "handle_get_latest_epoch params =
     resp_error (jget ''id'' params) INTERNAL_ERROR ''FROST epoch data not yet implemented''"

definition handle_verify_epoch_snapshot :: "json \<Rightarrow> 'k handler" where
  "handle_verify_epoch_snapshot params =
     resp_success (jget ''id'' params) (JObject [(''valid'', JBool False),
       (''reason'', JString ''FROST epoch verification not yet implemented'')])"

subsection \<open>Attestation requests\<close>

definition enqueue_attestation ::
    "('k, 's) node_env \<Rightarrow> (string \<Rightarrow> calendar_task) \<Rightarrow> string \<Rightarrow> json \<Rightarrow> 'k handler" where
  "enqueue_attestation E task number_key params s =
     (let req_id = jget ''id'' params;
          missing = resp_error req_id INVALID_PARAMS
            (''missing or empty '' @ quoted ''requester_tbid'' @ '' (hex string)'') s in
      case get_str ''requester_tbid'' params of
        None \<Rightarrow> missing
      | Some requester_tbid \<Rightarrow>
        if requester_tbid = [] then missing
        else (case ne_hex_decode E requester_tbid of
          Panic \<Rightarrow> (Panic, s)
        | Err _ \<Rightarrow> resp_error req_id INVALID_PARAMS (''invalid hex in '' @ quoted ''requester_tbid'') s
        | Ok _ \<Rightarrow>
        (case get_u64 number_key params of
          None \<Rightarrow> resp_error req_id INVALID_PARAMS
            (''missing or invalid '' @ quoted number_key @ '' (u64)'') s
        | Some _ \<Rightarrow>
          (let (r, c') = enqueue_task (task requester_tbid) (sv_calendar s); s' = set_calendar c' s in
           case r of
             Ok _ \<Rightarrow> resp_success req_id (JObject [(''status'', JString ''queued'')]) s'
           | Err _ \<Rightarrow> resp_error req_id INTERNAL_ERROR ''task queue not started or closed'' s'
           | Panic \<Rightarrow> (Panic, s')))))"

definition handle_stamp_my_chronon :: "('k, 's) node_env \<Rightarrow> json \<Rightarrow> 'k handler" where
  "handle_stamp_my_chronon E = enqueue_attestation E DoChrononAttestation ''chronon_number''"

definition handle_stamp_my_chronon_block :: "('k, 's) node_env \<Rightarrow> json \<Rightarrow> 'k handler" where
  "handle_stamp_my_chronon_block E = enqueue_attestation E DoEpochAttestation ''epoch_number''"

end
