(* ===== verification/Handlers_Mirror.thy ===== *)
theory Handlers_Mirror
  imports Handlers_Core
begin

section \<open>Handlers: mirroring\<close>

text \<open>
  Models the handlers of \<^verbatim>\<open>foretias-server/src/server/handlers.rs\<close> by which one node
  mirrors the calendar of another: the requests that ask for a mirror, the shipping of batches
  and chunks, streamed ticks, reconciliation and health checks.
\<close>

definition hash_sanity :: "('k, 's) node_env \<Rightarrow> chronon_record list \<Rightarrow> string" where
  "hash_sanity E records = compute_hash_sanity (ne_ffi E) (ne_hex_encode E) records"

definition str_or_empty :: "string \<Rightarrow> json \<Rightarrow> string" where
  "str_or_empty key params = unwrap_or [] (get_str key params)"

definition u64_or_zero :: "string \<Rightarrow> json \<Rightarrow> u64" where
  "u64_or_zero key params = unwrap_or 0 (get_u64 key params)"

text \<open>A required TBID: present, and not the empty string.\<close>

definition nonempty_tbid :: "json \<Rightarrow> (string, string) result" where
  "nonempty_tbid params = (case get_str ''tbid'' params of
     None \<Rightarrow> Err (''missing or empty '' @ quoted ''tbid'')
   | Some t \<Rightarrow> if t = [] then Err (''missing or empty '' @ quoted ''tbid'') else Ok t)"

subsection \<open>Asking for a mirror\<close>

definition handle_mirror_request :: "('k, 's) node_env \<Rightarrow> json \<Rightarrow> 'k handler" where
  "handle_mirror_request E params s =
     (let req_id = jget ''id'' params in
      case get_str ''tbid'' params of
        None \<Rightarrow> resp_error req_id INVALID_PARAMS (''missing '' @ quoted ''tbid'') s
      | Some t \<Rightarrow>
        if \<not> can_accept_mirror t (sv_mirror_store s)
        then resp_error req_id INVALID_PARAMS ''mirror_reject'' s
        else
          (let cal = sc_inner (sv_calendar s) in
           resp_success req_id
             (JObject [(''status'', JString ''accept''),
                (''tick_count'', jnum (word_of_nat (tick_count cal))),
                (''latest_tick'', jnum (unwrap_or 0 (cal_latest cal))),
                (''hash_sanity'', JString (hash_sanity E (ticks cal)))]) s))"

definition handle_mirror_accept :: "json \<Rightarrow> 'k handler" where
  "handle_mirror_accept params =
     resp_success (jget ''id'' params)
       (JObject [(''status'', JString ''accepted''), (''tbid'', JString (str_or_empty ''tbid'' params)),
          (''tick_count'', jnum (u64_or_zero ''tick_count'' params)),
          (''latest_tick'', jnum (u64_or_zero ''latest_tick'' params)),
          (''hash_sanity'', JString (str_or_empty ''hash_sanity'' params))])"

definition handle_ship_batch :: "('k, 's) node_env \<Rightarrow> json \<Rightarrow> 'k handler" where
  "handle_ship_batch E params s =
     (let req_id = jget ''id'' params;
          tick_start = u64_or_zero ''tick_start'' params;
          count = unat (unwrap_or 10 (get_u64 ''count'' params)) in
      if count > MAX_CALENDAR_SLICE_COUNT
      then resp_error req_id INVALID_PARAMS (''count exceeds maximum of '' @ decimal MAX_CALENDAR_SLICE_COUNT) s
      else (case cal_get (sc_inner (sv_calendar s)) tick_start count of
          Ok recs \<Rightarrow>
            resp_success req_id (JObject [(''records'', chronons_json E recs),
              (''batch_hash'', JString (hash_sanity E recs)), (''count'', jlen recs)]) s
        | Err e \<Rightarrow> resp_error req_id INTERNAL_ERROR
            (ne_show_error E (Internal (''calendar lookup failed: '' @ ne_show_error E e))) s
        | Panic \<Rightarrow> (Panic, s)))"

subsection \<open>Shipped batches\<close>

definition parse_records ::
    "('k, 's) node_env \<Rightarrow> json list \<Rightarrow> (chronon_record unverified list, string) result" where
  "parse_records E raw_records =
     rmap_err (\<lambda>e. ''failed to parse records: '' @ ne_show_parse E e)
       (try_map (from_json_text (ne_chronon_of_json E)) raw_records)"

definition parse_ship_ack_records ::
    "('k, 's) node_env \<Rightarrow> json \<Rightarrow> (chronon_record unverified list, string) result" where
  "parse_ship_ack_records E params = parse_records E (unwrap_or [] (get_array ''records'' params))"

text \<open>The gates of the records, with the error text of the two batch loops.\<close>

definition gate_after ::
    "('k, 's) node_env \<Rightarrow> chronon_record clean \<Rightarrow> chronon_record unverified \<Rightarrow>
     (chronon_record clean, clean_auth_error) result" where
  "gate_after E prev u = chronon_into_clean_authenticated (ne_ffi E) (ne_hex_encode E) (ne_crypto E) prev u"

definition gate_genesis ::
    "('k, 's) node_env \<Rightarrow> chronon_record unverified \<Rightarrow> (chronon_record clean, clean_auth_error) result" where
  "gate_genesis E u = chronon_into_clean_authenticated_genesis (ne_ffi E) (ne_hex_encode E) (ne_crypto E) u"

definition chain_error :: "('k, 's) node_env \<Rightarrow> nat \<Rightarrow> clean_auth_error \<Rightarrow> string" where
  "chain_error E i e = ''chain verification failed at record '' @ decimal i @ '': '' @ ne_show_auth E e"

fun verify_ship_ack_from ::
    "('k, 's) node_env \<Rightarrow> nat \<Rightarrow> chronon_record clean list \<Rightarrow> chronon_record unverified list \<Rightarrow>
     (chronon_record clean list, string) result" where
  "verify_ship_ack_from E i verified [] = Ok verified"
| "verify_ship_ack_from E i verified (unproc # rest) =
     rbind (if i = 0
            then if is_genesis (uv_inner unproc) then rmap_err (chain_error E i) (gate_genesis E unproc)
                 else Err ''batch first record is not genesis (chronon_number != 1)''
            else rbind (ok_or (''chain verification: missing previous record '' @
                          ''(internal invariant violation)'') (list_last verified)) (\<lambda>prev.
                   rmap_err (chain_error E i) (gate_after E prev unproc)))
       (\<lambda>v. verify_ship_ack_from E (i + 1) (verified @ [v]) rest)"

definition verify_ship_ack_chain ::
    "('k, 's) node_env \<Rightarrow> chronon_record unverified list \<Rightarrow> (chronon_record clean list, string) result" where
  "verify_ship_ack_chain E unprocessed = verify_ship_ack_from E 0 [] unprocessed"

text \<open>Inserting records one by one; an insert that failed would be logged.\<close>

definition insert_records :: "string \<Rightarrow> chronon_record clean list \<Rightarrow> mirror_store \<Rightarrow> mirror_store" where
  "insert_records t verified m = fold (\<lambda>r m. snd (insert_mirrored t (ca_inner r) m)) verified m"

definition insert_ship_ack_records ::
    "string \<Rightarrow> chronon_record clean list \<Rightarrow> mirror_store \<Rightarrow> u64 \<times> mirror_store" where
  "insert_ship_ack_records t verified m =
     (let m' = insert_records t verified m in (mirror_tick_count t m', m'))"

definition acked_json :: "string \<Rightarrow> u64 \<Rightarrow> json" where
  "acked_json t count =
     JObject [(''status'', JString ''acked''), (''tbid'', JString t), (''tick_count'', jnum count)]"

definition handle_ship_ack :: "('k, 's) node_env \<Rightarrow> json \<Rightarrow> 'k handler" where
  "handle_ship_ack E params =
     (let req_id = jget ''id'' params; t = str_or_empty ''tbid'' params in
      or_error req_id INVALID_PARAMS (parse_ship_ack_records E params) (\<lambda>unprocessed s.
        if unprocessed = []
        then resp_success req_id (acked_json t (mirror_tick_count t (sv_mirror_store s))) s
        else or_error req_id INVALID_PARAMS (verify_ship_ack_chain E unprocessed) (\<lambda>verified s.
          (let (count, m') = insert_ship_ack_records t verified (sv_mirror_store s)
           in resp_success req_id (acked_json t count) (s\<lparr>sv_mirror_store := m'\<rparr>))) s))"

subsection \<open>Streamed ticks\<close>

definition parse_stream_tick_params ::
    "('k, 's) node_env \<Rightarrow> json \<Rightarrow> (string \<times> u64 \<times> chronon_record unverified, string) result" where
  "parse_stream_tick_params E params =
     rbind (ok_or (''missing '' @ quoted ''record'') (jget ''record'' params)) (\<lambda>unproc.
     rbind (rmap_err (\<lambda>e. ''failed to parse record: '' @ ne_show_parse E e)
              (from_json_text (ne_chronon_of_json E) unproc)) (\<lambda>unproc.
       Ok (str_or_empty ''tbid'' params, u64_or_zero ''chronon_number'' params, unproc)))"

definition verify_stream_tick_record ::
    "('k, 's) node_env \<Rightarrow> mirror_store \<Rightarrow> string \<Rightarrow> chronon_record unverified \<Rightarrow>
     (chronon_record clean, string) result" where
  "verify_stream_tick_record E m t unproc =
     (case latest_record t m of
        Some trusted_rec \<Rightarrow>
          rmap_err (\<lambda>e. ''verification failed: '' @ ne_show_auth E e)
            (gate_after E (ca_from_trusted trusted_rec) unproc)
      | None \<Rightarrow>
          if is_genesis (uv_inner unproc)
          then rmap_err (\<lambda>e. ''verification failed: '' @ ne_show_auth E e) (gate_genesis E unproc)
          else Err ''non-genesis record without predecessor'')"

definition handle_stream_tick :: "('k, 's) node_env \<Rightarrow> json \<Rightarrow> 'k handler" where
  "handle_stream_tick E params =
     (let req_id = jget ''id'' params in
      or_error req_id INVALID_PARAMS (parse_stream_tick_params E params) (\<lambda>(t, chronon_number, unproc) s.
      or_error req_id INVALID_PARAMS (verify_stream_tick_record E (sv_mirror_store s) t unproc) (\<lambda>verified s.
        (let (r, m') = insert_mirrored t (ca_inner verified) (sv_mirror_store s);
             s' = s\<lparr>sv_mirror_store := m'\<rparr> in
         case r of
           Err e \<Rightarrow> resp_error req_id INTERNAL_ERROR (''mirror insert failed: '' @ ne_show_error E e) s'
         | Panic \<Rightarrow> (Panic, s')
         | Ok _ \<Rightarrow>
             resp_success req_id
               (JObject [(''status'', JString ''acked''), (''tbid'', JString t),
                  (''chronon_number'', jnum chronon_number),
                  (''tick_count'', jnum (mirror_tick_count t m'))]) s')) s))"

definition handle_stream_ack :: "json \<Rightarrow> 'k handler" where
  "handle_stream_ack params =
     resp_success (jget ''id'' params)
       (JObject [(''status'', JString ''acked''),
          (''chronon_number'', jnum (u64_or_zero ''chronon_number'' params))])"

subsection \<open>Mutual mirrors and reconciliation\<close>

definition handle_mirror_mutual :: "('k, 's) node_env \<Rightarrow> json \<Rightarrow> 'k handler" where
  "handle_mirror_mutual E params s =
     (let req_id = jget ''id'' params; peer_tbid = str_or_empty ''peer_tbid'' params in
      if \<not> can_accept_mirror peer_tbid (sv_mirror_store s)
      then resp_error req_id INVALID_PARAMS ''cannot accept mirror: limit exceeded'' s
      else
        (let cal = sc_inner (sv_calendar s) in
         resp_success req_id
           (JObject [(''status'', JString ''ready''), (''my_addr'', JString (sv_listen_addr s)),
              (''my_tbid'', JString (str_or_empty ''my_tbid'' params)), (''peer_tbid'', JString peer_tbid),
              (''my_tick_count'', jnum (word_of_nat (tick_count cal))),
              (''my_latest_tick'', jnum (unwrap_or 0 (cal_latest cal))),
              (''my_hash_sanity'', JString (hash_sanity E (ticks cal))),
              (''peer_addr'', JString (str_or_empty ''peer_addr'' params))]) s))"

definition reconcile_status :: "u64 \<Rightarrow> string \<Rightarrow> u64 \<Rightarrow> string \<Rightarrow> string" where
  "reconcile_status my_tick_count my_hash peer_tick_count peer_hash_sanity =
     (if my_tick_count = peer_tick_count \<and> my_hash = peer_hash_sanity then ''in_sync''
      else if my_tick_count < peer_tick_count then ''behind''
      else if my_tick_count > peer_tick_count then ''ahead''
      else ''diverged'')"

definition jopt :: "u64 option \<Rightarrow> json" where
  "jopt x = (case x of None \<Rightarrow> JNull | Some n \<Rightarrow> jnum n)"

definition reconcile_json :: "string \<Rightarrow> u64 \<Rightarrow> u64 \<Rightarrow> string \<Rightarrow> u64 option \<Rightarrow> json" where
  "reconcile_json status my_tick_count my_latest_tick my_hash divergence_tick =
     JObject [(''status'', JString status), (''my_tick_count'', jnum my_tick_count),
       (''my_latest_tick'', jnum my_latest_tick), (''my_hash_sanity'', JString my_hash),
       (''divergence_tick'', jopt divergence_tick)]"

definition handle_mirror_reconcile :: "('k, 's) node_env \<Rightarrow> json \<Rightarrow> 'k handler" where
  "handle_mirror_reconcile E params s =
     (let req_id = jget ''id'' params;
          t = str_or_empty ''tbid'' params;
          peer_tick_count = u64_or_zero ''peer_tick_count'' params;
          peer_hash_sanity = str_or_empty ''peer_hash_sanity'' params in
      case mirror_info (ne_ffi E) (ne_hex_encode E) t (sv_mirror_store s) of
        None \<Rightarrow> resp_success req_id (reconcile_json ''not_mirrored'' 0 0 [] None) s
      | Some (my_tick_count, my_latest_tick, my_hash) \<Rightarrow>
          (let status = reconcile_status my_tick_count my_hash peer_tick_count peer_hash_sanity in
           if status = ''behind'' \<or> status = ''diverged''
           then (case add_u64 (ne_debug E) my_latest_tick 1 of
                   Ok d \<Rightarrow> resp_success req_id
                     (reconcile_json status my_tick_count my_latest_tick my_hash (Some d)) s
                 | Err e \<Rightarrow> (Err e, s)
                 | Panic \<Rightarrow> (Panic, s))
           else resp_success req_id (reconcile_json status my_tick_count my_latest_tick my_hash None) s))"

subsection \<open>Active mirroring\<close>

definition reject_json :: "string \<Rightarrow> json" where
  "reject_json t = JObject [(''status'', JString ''reject''), (''tbid'', JString t),
     (''reason'', JString ''mirror capacity exhausted'')]"

definition handle_mirror_announce :: "json \<Rightarrow> 'k handler" where
  "handle_mirror_announce params =
     (let req_id = jget ''id'' params in
      or_error req_id INVALID_PARAMS (nonempty_tbid params) (\<lambda>t s.
        if can_accept_mirror t (sv_mirror_store s)
        then resp_success req_id
               (JObject [(''status'', JString ''accept''), (''tbid'', JString t),
                  (''current_tick_count'', jnum (mirror_tick_count t (sv_mirror_store s)))]) s
        else resp_success req_id (reject_json t) s))"

definition handle_history_dump_request :: "json \<Rightarrow> 'k handler" where
  "handle_history_dump_request params =
     (let req_id = jget ''id'' params in
      or_error req_id INVALID_PARAMS (nonempty_tbid params) (\<lambda>t s.
        (let chronon_start = u64_or_zero ''chronon_start'' params;
             chronon_end = u64_or_zero ''chronon_end'' params in
         if chronon_end < chronon_start
         then resp_error req_id INVALID_PARAMS (''chronon_end ('' @ show_u64 chronon_end @
                '') < chronon_start ('' @ show_u64 chronon_start @ '')'') s
         else if \<not> can_accept_mirror t (sv_mirror_store s)
         then resp_success req_id (reject_json t) s
         else resp_success req_id
                (JObject [(''status'', JString ''accept''), (''tbid'', JString t),
                   (''chronon_start'', jnum chronon_start), (''chronon_end'', jnum chronon_end),
                   (''current_tick_count'', jnum (mirror_tick_count t (sv_mirror_store s)))]) s)))"

definition handle_history_dump_ack :: "json \<Rightarrow> 'k handler" where
  "handle_history_dump_ack params =
     resp_success (jget ''id'' params)
       (JObject [(''status'', JString ''noted''), (''tbid'', JString (str_or_empty ''tbid'' params)),
          (''echoed_status'', JString (unwrap_or ''accept'' (get_str ''status'' params)))])"

definition parse_history_dump_chunk_params ::
    "('k, 's) node_env \<Rightarrow> json \<Rightarrow> (string \<times> chronon_record unverified list, string) result" where
  "parse_history_dump_chunk_params E params =
     rbind (ok_or (''missing or empty '' @ quoted ''tbid'') (get_str ''tbid'' params)) (\<lambda>t.
     (let raw_records = unwrap_or [] (get_array ''records'' params) in
      if length raw_records > MAX_CALENDAR_SLICE_COUNT
      then Err (''chunk size exceeds maximum of '' @ decimal MAX_CALENDAR_SLICE_COUNT)
      else rbind (parse_records E raw_records) (\<lambda>unprocessed. Ok (t, unprocessed))))"

fun verify_chunk_from ::
    "('k, 's) node_env \<Rightarrow> mirror_store \<Rightarrow> string \<Rightarrow> nat \<Rightarrow> chronon_record clean list \<Rightarrow>
     chronon_record unverified list \<Rightarrow> (chronon_record clean list, string) result" where
  "verify_chunk_from E m t i verified [] = Ok verified"
| "verify_chunk_from E m t i verified (unproc # rest) =
     rbind (case list_last verified of
              Some prev_record \<Rightarrow> rmap_err (chain_error E i) (gate_after E prev_record unproc)
            | None \<Rightarrow>
              (case latest_record t m of
                 Some prev_trusted \<Rightarrow>
                   rmap_err (chain_error E i) (gate_after E (ca_from_trusted prev_trusted) unproc)
               | None \<Rightarrow>
                   if is_genesis (uv_inner unproc) then rmap_err (chain_error E i) (gate_genesis E unproc)
                   else Err ''non-genesis record without predecessor in store''))
       (\<lambda>v. verify_chunk_from E m t (i + 1) (verified @ [v]) rest)"

definition verify_history_dump_chunk ::
    "('k, 's) node_env \<Rightarrow> mirror_store \<Rightarrow> string \<Rightarrow> chronon_record unverified list \<Rightarrow>
     (chronon_record clean list, string) result" where
  "verify_history_dump_chunk E m t unprocessed = verify_chunk_from E m t 0 [] unprocessed"

definition handle_history_dump_chunk :: "('k, 's) node_env \<Rightarrow> json \<Rightarrow> 'k handler" where
  "handle_history_dump_chunk E params =
     (let req_id = jget ''id'' params in
      or_error req_id INVALID_PARAMS (parse_history_dump_chunk_params E params) (\<lambda>(t, unprocessed) s.
      or_error req_id INVALID_PARAMS (verify_history_dump_chunk E (sv_mirror_store s) t unprocessed) (\<lambda>verified s.
        (let m' = insert_records t verified (sv_mirror_store s) in
         resp_success req_id
           (JObject [(''status'', JString ''ok''), (''tbid'', JString t), (''accepted_count'', jlen verified),
              (''tick_count'', jnum (mirror_tick_count t m'))]) (s\<lparr>sv_mirror_store := m'\<rparr>))) s))"

definition handle_history_dump_complete :: "json \<Rightarrow> 'k handler" where
  "handle_history_dump_complete params s =
     (let t = str_or_empty ''tbid'' params in
      resp_success (jget ''id'' params)
        (JObject [(''status'', JString ''complete''), (''tbid'', JString t),
           (''tick_count'', jnum (mirror_tick_count t (sv_mirror_store s))),
           (''claimed_total'', jopt (get_u64 ''total_records'' params))]) s)"

definition handle_mirror_health_check :: "('k, 's) node_env \<Rightarrow> json \<Rightarrow> 'k handler" where
  "handle_mirror_health_check E params =
     (let req_id = jget ''id'' params in
      or_error req_id INVALID_PARAMS (nonempty_tbid params) (\<lambda>t s.
        (let info = mirror_info (ne_ffi E) (ne_hex_encode E) t (sv_mirror_store s);
             latest = map_option (\<lambda>(_, latest, _). latest) info in
         resp_success req_id
           (JObject [(''alive'', JBool True), (''tbid'', JString t),
              (''tick_count'', jnum (mirror_tick_count t (sv_mirror_store s))),
              (''latest_tick'', jopt latest)]) s)))"

end
