(* ===== verification/Handlers_Proof.thy ===== *)
theory Handlers_Proof
  imports Handlers_Mirror
begin

section \<open>Handlers: storage proofs and chronon queries\<close>

text \<open>
  Models the handlers of \<^verbatim>\<open>foretias-server/src/server/handlers.rs\<close> over the block store: making
  and verifying storage proofs, with their JSON, and looking up chronons.
\<close>

subsection \<open>Storage proof requests\<close>

definition u64_param :: "string \<Rightarrow> json \<Rightarrow> (u64, string) result" where
  "u64_param key params = ok_or (''missing or invalid '' @ quoted key @ '' (u64)'') (get_u64 key params)"

definition parse_storage_proof_request_params :: "json \<Rightarrow> (storage_proof_request, string) result" where
  "parse_storage_proof_request_params params =
     rbind (ok_or (''missing or empty '' @ quoted ''tbid'') (get_str ''tbid'' params)) (\<lambda>t.
     rbind (u64_param ''chronon_start'' params) (\<lambda>chronon_start.
     rbind (u64_param ''chronon_end'' params) (\<lambda>chronon_end.
       Ok \<lparr>sp_tbid = t, sp_chronon_start = chronon_start, sp_chronon_end = chronon_end\<rparr>)))"

definition jusize :: "nat \<Rightarrow> json" where
  "jusize n = jnum (word_of_nat n)"

definition jhexes :: "('k, 's) node_env \<Rightarrow> hash32 list \<Rightarrow> json" where
  "jhexes E hs = JArray (map (\<lambda>h. JString (ne_hex_encode E h)) hs)"

definition block_json :: "('k, 's) node_env \<Rightarrow> block_proof \<Rightarrow> json" where
  "block_json E bp =
     JObject [(''block_id'', jnum (bp_block_id bp)),
       (''merkle_root'', JString (ne_hex_encode E (bp_merkle_root bp))),
       (''leaves'', jhexes E (take (bp_leaf_count bp) (bp_leaves bp))),
       (''siblings'', jhexes E (take (bp_sibling_count bp) (bp_siblings bp))),
       (''leaf_count'', jusize (bp_leaf_count bp)), (''sibling_count'', jusize (bp_sibling_count bp)),
       (''n'', jusize (bp_n bp))]"

definition storage_proof_json :: "('k, 's) node_env \<Rightarrow> storage_proof_response \<Rightarrow> json" where
  "storage_proof_json E resp =
     JObject [(''blocks'', JArray (map (block_json E) (spr_blocks resp))),
       (''coverage_ratio'', JNumber (Float (ne_ratio E (spr_covered resp) (spr_requested resp))))]"

definition build_storage_proof_response ::
    "('k, 's) node_env \<Rightarrow> json option \<Rightarrow> storage_proof_response \<Rightarrow> 'k handler" where
  "build_storage_proof_response E req_id resp = resp_success req_id (storage_proof_json E resp)"

definition no_store :: string where
  "no_store = ''no calendar store configured (requires --persist-path)''"

definition handle_storage_proof_request :: "('k, 's) node_env \<Rightarrow> json \<Rightarrow> 'k handler" where
  "handle_storage_proof_request E params =
     (let req_id = jget ''id'' params in
      or_error req_id INVALID_PARAMS (parse_storage_proof_request_params params) (\<lambda>req s.
      case sv_calendar_store s of
        None \<Rightarrow> resp_error req_id INTERNAL_ERROR no_store s
      | Some stored \<Rightarrow>
          sbind (slift (prove_storage (ne_debug E) (ne_codec E) stored req)) (\<lambda>proof. case proof of
              Some resp \<Rightarrow> build_storage_proof_response E req_id resp
            | None \<Rightarrow> resp_error req_id INTERNAL_ERROR
                ''no storage proof available for the requested range'') s))"

subsection \<open>Verifying a proof that arrived\<close>

definition parse_storage_proof_request :: "json \<Rightarrow> (storage_proof_request, string) result" where
  "parse_storage_proof_request params =
     rbind (ok_or (''missing '' @ quoted ''request'') (jget ''request'' params)) (\<lambda>req_val.
     rbind (case get_str ''tbid'' req_val of
              None \<Rightarrow> Err (''missing or empty '' @ quoted ''request.tbid'')
            | Some t \<Rightarrow> if t = [] then Err (''missing or empty '' @ quoted ''request.tbid'') else Ok t) (\<lambda>t.
     rbind (ok_or (''missing or invalid '' @ quoted ''request.chronon_start'')
              (get_u64 ''chronon_start'' req_val)) (\<lambda>chronon_start.
     rbind (ok_or (''missing or invalid '' @ quoted ''request.chronon_end'')
              (get_u64 ''chronon_end'' req_val)) (\<lambda>chronon_end.
       Ok \<lparr>sp_tbid = t, sp_chronon_start = chronon_start, sp_chronon_end = chronon_end\<rparr>))))"

text \<open>The ratio of the response is read, and not looked at again.\<close>

definition parse_storage_proof_response :: "json \<Rightarrow> (json list, string) result" where
  "parse_storage_proof_response params =
     rbind (ok_or (''missing '' @ quoted ''response'') (jget ''response'' params)) (\<lambda>resp_val.
       ok_or (''missing or invalid '' @ quoted ''response.blocks'') (get_array ''blocks'' resp_val))"

definition bytes_or_zero :: "('k, 's) node_env \<Rightarrow> json \<Rightarrow> hash32" where
  "bytes_or_zero E v = (case as_str v of
     None \<Rightarrow> zero_hash
   | Some h \<Rightarrow> (case ne_hex_decode E h of
       Ok b \<Rightarrow> if length b = 32 then b else zero_hash
     | _ \<Rightarrow> zero_hash))"

definition hash_array :: "('k, 's) node_env \<Rightarrow> string \<Rightarrow> nat \<Rightarrow> nat \<Rightarrow> json \<Rightarrow> hash32 list" where
  "hash_array E key len count v =
     pad_to len (map (bytes_or_zero E) (take (min count len) (unwrap_or [] (get_array key v))))"

definition indexed :: "string \<Rightarrow> nat \<Rightarrow> string \<Rightarrow> string" where
  "indexed name i rest = name @ ''['' @ decimal i @ '']'' @ rest"

definition parse_block :: "('k, 's) node_env \<Rightarrow> nat \<Rightarrow> json \<Rightarrow> (block_proof, string) result" where
  "parse_block E i bv =
     rbind (ok_or (''missing '' @ indexed ''blocks'' i ''.merkle_root'') (get_str ''merkle_root'' bv)) (\<lambda>h.
     (let root = hex_or_empty E h in
      if length root \<noteq> 32 then Err (indexed ''blocks'' i ''.merkle_root must be 64-char hex'')
      else
        (let leaf_count = unat (u64_or_zero ''leaf_count'' bv);
             sibling_count = unat (u64_or_zero ''sibling_count'' bv) in
         Ok \<lparr>bp_block_id = u64_or_zero ''block_id'' bv, bp_merkle_root = root,
             bp_leaves = hash_array E ''leaves'' 64 leaf_count bv,
             bp_siblings = hash_array E ''siblings'' 32 sibling_count bv,
             bp_leaf_count = leaf_count, bp_sibling_count = sibling_count,
             bp_n = unat (u64_or_zero ''n'' bv)\<rparr>)))"

fun parse_blocks_from :: "('k, 's) node_env \<Rightarrow> nat \<Rightarrow> json list \<Rightarrow> (block_proof list, string) result" where
  "parse_blocks_from E i [] = Ok []"
| "parse_blocks_from E i (bv # bvs) =
     rbind (parse_block E i bv) (\<lambda>bp. rbind (parse_blocks_from E (i + 1) bvs) (\<lambda>bps. Ok (bp # bps)))"

definition parse_storage_proof_blocks ::
    "('k, 's) node_env \<Rightarrow> json list \<Rightarrow> (block_proof list, string) result" where
  "parse_storage_proof_blocks E blocks_val = parse_blocks_from E 0 blocks_val"

fun parse_roots_from :: "('k, 's) node_env \<Rightarrow> nat \<Rightarrow> json list \<Rightarrow> (hash32 list, string) result" where
  "parse_roots_from E i [] = Ok []"
| "parse_roots_from E i (rv # rvs) =
     (case as_str rv of
        None \<Rightarrow> parse_roots_from E (i + 1) rvs
      | Some h \<Rightarrow>
          if length (hex_or_empty E h) \<noteq> 32 then Err (indexed ''known_roots'' i '' must be 64-char hex'')
          else rbind (parse_roots_from E (i + 1) rvs) (\<lambda>roots. Ok (hex_or_empty E h # roots)))"

definition parse_known_roots :: "('k, 's) node_env \<Rightarrow> json \<Rightarrow> (hash32 list, string) result" where
  "parse_known_roots E params = parse_roots_from E 0 (unwrap_or [] (get_array ''known_roots'' params))"

definition verdict_json :: "('k, 's) node_env \<Rightarrow> storage_proof_result \<Rightarrow> json" where
  "verdict_json E res =
     JObject [(''verified'', JBool (sp_verified res)),
       (''coverage_ratio'', JNumber (Float (ne_ratio E (sp_covered res) (sp_requested res))))]"

definition handle_storage_proof_verify :: "('k, 's) node_env \<Rightarrow> json \<Rightarrow> 'k handler" where
  "handle_storage_proof_verify E params =
     (let req_id = jget ''id'' params in
      or_error req_id INVALID_PARAMS (parse_storage_proof_request params) (\<lambda>req.
      or_error req_id INVALID_PARAMS (parse_storage_proof_response params) (\<lambda>blocks_val.
      or_error req_id INVALID_PARAMS (parse_storage_proof_blocks E blocks_val) (\<lambda>blocks.
      or_error req_id INVALID_PARAMS (parse_known_roots E params) (\<lambda>known_roots.
      sbind (slift (verify_storage_proof (ne_debug E) (cd_sha256 (ne_codec E)) req
               \<lparr>spr_blocks = blocks, spr_covered = 0, spr_requested = 0\<rparr> known_roots)) (\<lambda>res.
        resp_success req_id (verdict_json E res)))))))"

subsection \<open>Chronon queries\<close>

definition handle_get_chronon :: "('k, 's) node_env \<Rightarrow> json \<Rightarrow> 'k handler" where
  "handle_get_chronon E params =
     (let req_id = jget ''id'' params in
      or_error req_id INVALID_PARAMS (nonempty_tbid params) (\<lambda>t.
      or_error req_id INVALID_PARAMS (u64_param ''chronon_number'' params) (\<lambda>chronon_number s.
        (let include_attestations = unwrap_or True (get_bool ''include_attestations'' params) in
         case sv_calendar_store s of
           None \<Rightarrow> resp_error req_id INTERNAL_ERROR no_store s
         | Some stored \<Rightarrow>
             (case get_chronon stored chronon_number include_attestations of
                Some record \<Rightarrow> resp_success req_id (JObject [(''status'', JString ''found''),
                  (''record'', ne_chronon_json E (ca_inner record))]) s
              | None \<Rightarrow> resp_success req_id (JObject [(''status'', JString ''not_found'')]) s)))))"

definition parse_chronon_chain_params :: "json \<Rightarrow> (string \<times> u64 \<times> u64 \<times> bool, string) result" where
  "parse_chronon_chain_params params =
     rbind (ok_or (''missing or empty '' @ quoted ''tbid'') (get_str ''tbid'' params)) (\<lambda>t.
     rbind (u64_param ''chronon_start'' params) (\<lambda>chronon_start.
     rbind (u64_param ''chronon_end'' params) (\<lambda>chronon_end.
       Ok (t, chronon_start, chronon_end, unwrap_or True (get_bool ''include_attestations'' params)))))"

definition coverage_json :: "coverage_info \<Rightarrow> json" where
  "coverage_json cov =
     JObject [(''requested'', jnum (cov_requested cov)), (''returned'', jnum (cov_returned cov))]"

fun chain_json :: "('k, 's) node_env \<Rightarrow> chronon_chain_result \<Rightarrow> json" where
  "chain_json E (Complete records coverage) =
     JObject [(''status'', JString ''complete''), (''records'', chronons_json E records),
       (''coverage'', coverage_json coverage)]"
| "chain_json E (Partial records coverage gaps) =
     JObject [(''status'', JString ''partial''), (''records'', chronons_json E records),
       (''coverage'', coverage_json coverage),
       (''gaps'', JArray (map (\<lambda>(a, b). JObject [(''start'', jnum a), (''end'', jnum b)]) gaps))]"
| "chain_json E (NoChronons coverage) =
     JObject [(''status'', JString ''none''), (''records'', JArray []),
       (''coverage'', coverage_json coverage)]"

definition build_chronon_chain_response ::
    "('k, 's) node_env \<Rightarrow> json option \<Rightarrow> chronon_chain_result \<Rightarrow> 'k handler" where
  "build_chronon_chain_response E req_id res = resp_success req_id (chain_json E res)"

definition handle_get_chronon_chain :: "('k, 's) node_env \<Rightarrow> json \<Rightarrow> 'k handler" where
  "handle_get_chronon_chain E params =
     (let req_id = jget ''id'' params in
      or_error req_id INVALID_PARAMS (parse_chronon_chain_params params)
        (\<lambda>(t, chronon_start, chronon_end, include_attestations) s.
        case sv_calendar_store s of
          None \<Rightarrow> resp_error req_id INTERNAL_ERROR no_store s
        | Some stored \<Rightarrow>
            sbind (slift (get_chronon_chain (ne_debug E) stored chronon_start chronon_end
                     include_attestations)) (\<lambda>res.
              build_chronon_chain_response E req_id res) s))"

end
