(* ===== verification/Server_Dispatch.thy ===== *)
theory Server_Dispatch
  imports Handlers_Proof
begin

section \<open>Dispatching a request\<close>

text \<open>
  Models \<^verbatim>\<open>process_request_from_value\<close> and its callers in
  \<^verbatim>\<open>foretias-server/src/server/mod.rs\<close>: the connection loop of the TCP server, the HTTP handler
  and the handler of the libp2p layer. All three run it inside a runtime.
\<close>

text \<open>The arms of the \<^verbatim>\<open>match\<close> on the method.\<close>

definition arms ::
    "bool \<Rightarrow> ('k, 's) node_env \<Rightarrow> 'k call_inputs \<Rightarrow> (string \<times> (json \<Rightarrow> 'k handler)) list" where
  "arms in_runtime E inp =
     [(''ping'', handle_ping),
      (''channel_bind_challenge'', handle_channel_bind_challenge E),
      (''authenticated_ping'', handle_authenticated_ping E),
      (''stamp'', handle_stamp E inp),
      (''route_stamp'', handle_route_stamp in_runtime E inp),
      (''verify'', handle_verify in_runtime E),
      (''status'', handle_status in_runtime E),
      (''get_calendar_slice'', handle_get_calendar_slice E),
      (''integrity_check'', handle_integrity_check E),
      (''get_peer_score'', handle_get_peer_score),
      (''collision_status'', handle_collision_status),
      (''get_latest_epoch'', handle_get_latest_epoch),
      (''verify_epoch_snapshot'', handle_verify_epoch_snapshot),
      (''mirror_request'', handle_mirror_request E),
      (''mirror_accept'', handle_mirror_accept),
      (''ship_batch'', handle_ship_batch E),
      (''ship_ack'', handle_ship_ack E),
      (''stream_tick'', handle_stream_tick E),
      (''stream_ack'', handle_stream_ack),
      (''mirror_mutual'', handle_mirror_mutual E),
      (''mirror_reconcile'', handle_mirror_reconcile E),
      (''mirror_announce'', handle_mirror_announce),
      (''history_dump_request'', handle_history_dump_request),
      (''history_dump_ack'', handle_history_dump_ack),
      (''history_dump_chunk'', handle_history_dump_chunk E),
      (''history_dump_complete'', handle_history_dump_complete),
      (''mirror_health_check'', handle_mirror_health_check E),
      (''storage_proof_request'', handle_storage_proof_request E),
      (''storage_proof_verify'', handle_storage_proof_verify E),
      (''stamp_my_chronon'', handle_stamp_my_chronon E),
      (''stamp_my_chronon_block'', handle_stamp_my_chronon_block E),
      (''get_chronon'', handle_get_chronon E),
      (''get_chronon_chain'', handle_get_chronon_chain E)]"

definition dispatch ::
    "bool \<Rightarrow> ('k, 's) node_env \<Rightarrow> 'k call_inputs \<Rightarrow> json option \<Rightarrow> string \<Rightarrow> json \<Rightarrow> 'k handler" where
  "dispatch in_runtime E inp req_id meth params =
     (case map_of (arms in_runtime E inp) meth of
        Some h \<Rightarrow> h params
      | None \<Rightarrow> plain_error req_id METHOD_NOT_FOUND (''method '' @ quoted meth @ '' not found''))"

definition process_request_from_value ::
    "bool \<Rightarrow> ('k, 's) node_env \<Rightarrow> 'k call_inputs \<Rightarrow> json \<Rightarrow> 'k handler" where
  "process_request_from_value in_runtime E inp req =
     sbind (slift (ok_or (Internal ''missing jsonrpc field'') (get_str ''jsonrpc'' req))) (\<lambda>jsonrpc.
     if jsonrpc \<noteq> ''2.0''
     then plain_error (jget ''id'' req) INVALID_REQUEST ''invalid jsonrpc version''
     else
       sbind (slift (ok_or (Internal ''missing method field'') (get_str ''method'' req))) (\<lambda>meth.
         dispatch in_runtime E inp (jget ''id'' req) meth (unwrap_or JNull (jget ''params'' req))))"

definition process_request ::
    "(string \<Rightarrow> (json, string) result) \<Rightarrow> bool \<Rightarrow> ('k, 's) node_env \<Rightarrow> 'k call_inputs \<Rightarrow> string \<Rightarrow> 'k handler" where
  "process_request from_str in_runtime E inp line =
     sbind (slift (rmap_err (\<lambda>e. Internal (''JSON parse: '' @ e)) (from_str line)))
       (process_request_from_value in_runtime E inp)"

text \<open>An \<^verbatim>\<open>Err\<close> of the dispatcher becomes an error response without an id.\<close>

definition answer_errors :: "('k, 's) node_env \<Rightarrow> 'k handler \<Rightarrow> 'k handler" where
  "answer_errors E h s = (case h s of
     (Err e, s') \<Rightarrow> plain_error None INTERNAL_ERROR (ne_show_error E e) s'
   | (r, s') \<Rightarrow> (r, s'))"

definition jsonrpc_handler :: "('k, 's) node_env \<Rightarrow> 'k call_inputs \<Rightarrow> json \<Rightarrow> 'k handler" where
  "jsonrpc_handler E inp req = answer_errors E (process_request_from_value True E inp req)"

definition connection_request ::
    "(string \<Rightarrow> (json, string) result) \<Rightarrow> ('k, 's) node_env \<Rightarrow> 'k call_inputs \<Rightarrow> string \<Rightarrow> 'k handler" where
  "connection_request from_str E inp line = answer_errors E (process_request from_str True E inp line)"

text \<open>The request the libp2p layer builds around a method and its parameters.\<close>

definition rpc_envelope :: "string \<Rightarrow> json \<Rightarrow> json" where
  "rpc_envelope meth params =
     JObject [(''jsonrpc'', JString ''2.0''), (''method'', JString meth), (''params'', params)]"

definition rpc_handle ::
    "('k, 's) node_env \<Rightarrow> 'k call_inputs \<Rightarrow> string \<Rightarrow> json \<Rightarrow> 'k handler" where
  "rpc_handle E inp meth params = process_request_from_value True E inp (rpc_envelope meth params)"

text \<open>The requests of one connection or client, one after another; a panic ends it.\<close>

fun serve ::
    "('k, 's) node_env \<Rightarrow> ('k call_inputs \<times> json) list \<Rightarrow> 'k time_family_server \<Rightarrow>
     (json_rpc_response, node_error) result list \<times> 'k time_family_server" where
  "serve E [] s = ([], s)"
| "serve E ((inp, req) # reqs) s =
     (case jsonrpc_handler E inp req s of
        (Panic, s') \<Rightarrow> ([Panic], s')
      | (r, s') \<Rightarrow> (let (rs, s'') = serve E reqs s' in (r # rs, s'')))"

end
