(* ===== verification/Server_Laws.thy ===== *)
theory Server_Laws
  imports Server_Dispatch Chronomatter_Faults
begin

section \<open>What a request may change\<close>

text \<open>
  Every handler answers with the id found in its parameters, and leaves everything of the
  server alone but the part it is about. \<open>answer i R s out\<close>: the outcome \<open>out\<close> of a handler on
  the server \<open>s\<close> is in the relation \<open>R\<close> to it, and its response, if there is one, has the id
  \<open>i\<close>.
\<close>

definition answer ::
    "json option \<Rightarrow> ('k time_family_server \<Rightarrow> 'k time_family_server \<Rightarrow> bool) \<Rightarrow> 'k time_family_server \<Rightarrow>
     (json_rpc_response, node_error) result \<times> 'k time_family_server \<Rightarrow> bool" where
  "answer i R s out \<longleftrightarrow> R s (snd out) \<and> (\<forall>resp. fst out = Ok resp \<longrightarrow> jr_id resp = i)"

named_theorems answer_simps

lemma answer_responses [answer_simps]:
  "answer i R s (resp_success j v s') \<longleftrightarrow> R s s' \<and> j = i"
  "answer i R s (resp_error j c m s') \<longleftrightarrow> R s s' \<and> j = i"
  "answer i R s (plain_success j v s') \<longleftrightarrow> R s s' \<and> j = i"
  "answer i R s (plain_error j c m s') \<longleftrightarrow> R s s' \<and> j = i"
  "answer i R s (Err e, s') \<longleftrightarrow> R s s'"
  "answer i R s (Panic, s') \<longleftrightarrow> R s s'"
  by (auto simp: answer_def response_defs)

lemma answer_or_error [answer_simps]:
  "answer i R s (or_error j c r f s') \<longleftrightarrow> (case r of
     Ok a \<Rightarrow> answer i R s (f a s') | Err e \<Rightarrow> R s s' \<and> j = i | Panic \<Rightarrow> R s s')"
  by (simp add: or_error_def answer_simps slift_def split: result.splits)

lemma answer_slift [answer_simps]:
  "answer i R s (sbind (slift r) f s') \<longleftrightarrow> (case r of
     Ok a \<Rightarrow> answer i R s (f a s') | Err e \<Rightarrow> R s s' | Panic \<Rightarrow> R s s')"
  "answer i R s (slift Panic s') \<longleftrightarrow> R s s'"
  by (auto simp: answer_def slift_def split: result.splits)

lemma answer_sget [answer_simps]: "answer i R s (sbind (sget g) f s') \<longleftrightarrow> answer i R s (f (g s') s')"
  by (simp add: sbind_def sget_def)

lemma answer_smod [answer_simps]: "answer i R s (sbind (smod g) f s') \<longleftrightarrow> answer i R s (f () (g s'))"
  by (simp add: sbind_def smod_def)

lemmas answer_splits = option.splits result.splits prod.splits if_splits

subsection \<open>The handlers that read only\<close>

lemmas read_only_defs =
  handle_ping_def handle_channel_bind_challenge_def handle_authenticated_ping_def sign_challenge_def
  handle_status_def handle_get_calendar_slice_def handle_integrity_check_def handle_get_peer_score_def
  handle_collision_status_def handle_get_latest_epoch_def handle_verify_epoch_snapshot_def

lemma core_read_only:
  "answer (jget ''id'' ps) (=) s (handle_ping ps s)"
  "answer (jget ''id'' ps) (=) s (handle_channel_bind_challenge E ps s)"
  "answer (jget ''id'' ps) (=) s (handle_authenticated_ping E ps s)"
  "answer (jget ''id'' ps) (=) s (handle_status rt E ps s)"
  "answer (jget ''id'' ps) (=) s (handle_get_calendar_slice E ps s)"
  "answer (jget ''id'' ps) (=) s (handle_integrity_check E ps s)"
  "answer (jget ''id'' ps) (=) s (handle_get_peer_score ps s)"
  "answer (jget ''id'' ps) (=) s (handle_collision_status ps s)"
  "answer (jget ''id'' ps) (=) s (handle_get_latest_epoch ps s)"
  "answer (jget ''id'' ps) (=) s (handle_verify_epoch_snapshot ps s)"
  by (simp_all add: read_only_defs Let_def answer_simps split: answer_splits)

lemma verify_read_only: "answer (jget ''id'' ps) (=) s (handle_verify rt E ps s)"
  by (simp add: handle_verify_def build_cross_node_verify_response_def Let_def answer_simps
      split: answer_splits)

lemma mirror_read_only:
  "answer (jget ''id'' ps) (=) s (handle_mirror_request E ps s)"
  "answer (jget ''id'' ps) (=) s (handle_mirror_accept ps s)"
  "answer (jget ''id'' ps) (=) s (handle_ship_batch E ps s)"
  "answer (jget ''id'' ps) (=) s (handle_stream_ack ps s)"
  "answer (jget ''id'' ps) (=) s (handle_mirror_mutual E ps s)"
  "answer (jget ''id'' ps) (=) s (handle_mirror_reconcile E ps s)"
  "answer (jget ''id'' ps) (=) s (handle_mirror_announce ps s)"
  "answer (jget ''id'' ps) (=) s (handle_history_dump_request ps s)"
  "answer (jget ''id'' ps) (=) s (handle_history_dump_ack ps s)"
  "answer (jget ''id'' ps) (=) s (handle_history_dump_complete ps s)"
  "answer (jget ''id'' ps) (=) s (handle_mirror_health_check E ps s)"
  by (simp_all add: handle_mirror_request_def handle_mirror_accept_def handle_ship_batch_def
      handle_stream_ack_def handle_mirror_mutual_def handle_mirror_reconcile_def
      handle_mirror_announce_def handle_history_dump_request_def handle_history_dump_ack_def
      handle_history_dump_complete_def handle_mirror_health_check_def Let_def answer_simps
      split: answer_splits)

lemma store_read_only:
  "answer (jget ''id'' ps) (=) s (handle_storage_proof_request E ps s)"
  "answer (jget ''id'' ps) (=) s (handle_storage_proof_verify E ps s)"
  "answer (jget ''id'' ps) (=) s (handle_get_chronon E ps s)"
  "answer (jget ''id'' ps) (=) s (handle_get_chronon_chain E ps s)"
  by (simp_all add: handle_storage_proof_request_def build_storage_proof_response_def
      handle_storage_proof_verify_def handle_get_chronon_def handle_get_chronon_chain_def
      build_chronon_chain_response_def Let_def answer_simps split: answer_splits)

subsection \<open>The handlers that mirror\<close>

text \<open>Only the mirror store changes, by insertions under one TBID.\<close>

definition mirror_step :: "'k time_family_server \<Rightarrow> 'k time_family_server \<Rightarrow> bool" where
  "mirror_step s s' \<longleftrightarrow>
     s' = s \<or> (\<exists>t rs. s' = s\<lparr>sv_mirror_store := insert_records t rs (sv_mirror_store s)\<rparr>)"

lemma mirror_step_refl [simp]: "mirror_step s s"
  by (simp add: mirror_step_def)

lemma mirror_step_insert [simp]:
  "mirror_step s (s\<lparr>sv_mirror_store := insert_records t rs (sv_mirror_store s)\<rparr>)"
  by (auto simp: mirror_step_def)

lemma insert_one: "snd (insert_mirrored t (ca_inner v) m) = insert_records t [v] m" for v :: "chronon_record clean"
  by (simp add: insert_records_def)

lemma mirror_writes:
  "answer (jget ''id'' ps) mirror_step s (handle_ship_ack E ps s)"
  "answer (jget ''id'' ps) mirror_step s (handle_stream_tick E ps s)"
  "answer (jget ''id'' ps) mirror_step s (handle_history_dump_chunk E ps s)"
proof -
  have one: "mirror_step s (s\<lparr>sv_mirror_store := m'\<rparr>)"
    if "insert_mirrored t (ca_inner v) (sv_mirror_store s) = (r, m')" for t and v :: "chronon_record clean" and r m'
  proof -
    have "m' = insert_records t [v] (sv_mirror_store s)" using that insert_one [of t v "sv_mirror_store s"] by simp
    then show ?thesis by simp
  qed
  show "answer (jget ''id'' ps) mirror_step s (handle_ship_ack E ps s)"
    by (simp add: handle_ship_ack_def insert_ship_ack_records_def Let_def answer_simps split: answer_splits)
  show "answer (jget ''id'' ps) mirror_step s (handle_stream_tick E ps s)"
    by (auto simp: handle_stream_tick_def Let_def answer_simps one split: answer_splits)
  show "answer (jget ''id'' ps) mirror_step s (handle_history_dump_chunk E ps s)"
    by (simp add: handle_history_dump_chunk_def Let_def answer_simps split: answer_splits)
qed

subsection \<open>The handlers that stamp or queue\<close>

text \<open>Only the chronomatter, the metrics and the files change, and the task queue.\<close>

definition stamp_step ::
    "('k time_family_server \<Rightarrow> bool) \<Rightarrow> 'k time_family_server \<Rightarrow> 'k time_family_server \<Rightarrow> bool" where
  "stamp_step P s s' \<longleftrightarrow> (P s \<longrightarrow> P s') \<and>
     s'\<lparr>sv_chronomatter := sv_chronomatter s, sv_metrics := sv_metrics s, sv_files := sv_files s\<rparr> = s"

text \<open>A property of the chronomatter alone.\<close>

definition of_chronomatter ::
    "(('k, 'k server_calendar) chronomatter \<Rightarrow> bool) \<Rightarrow> 'k time_family_server \<Rightarrow> bool" where
  "of_chronomatter P s \<longleftrightarrow> P (sv_chronomatter s)"

lemma stamp_step_refl [simp]: "stamp_step P s s"
  by (simp add: stamp_step_def)

lemma stamp_step_trans: "stamp_step P s s' \<Longrightarrow> stamp_step P s' s'' \<Longrightarrow> stamp_step P s s''"
  by (cases s; cases s'; cases s'') (simp add: stamp_step_def)

lemma stamp_step_metric [simp]: "stamp_step (of_chronomatter P) s (inc_metric f s)"
  by (simp add: stamp_step_def inc_metric_def of_chronomatter_def)

lemma stamp_step_files [simp]: "stamp_step (of_chronomatter P) s (s\<lparr>sv_files := f\<rparr>)"
  by (simp add: stamp_step_def of_chronomatter_def)

lemma stamp_step_save: "stamp_step (of_chronomatter P) s (snd (save_logged E inp s))"
proof -
  have "stamp_step (of_chronomatter P) s (inc_metric g (s\<lparr>sv_files := f\<rparr>))" for f g
    by (rule stamp_step_trans [OF stamp_step_files stamp_step_metric])
  then show ?thesis
    by (simp add: save_logged_def server_save_def Let_def split: answer_splits)
qed

lemma stamp_step_stamp:
  assumes "keeps P (cm_stamp (ne_debug E) (ne_ffi E) (ne_hex_encode E) (ne_postcard E) (ne_crypto E)
      (sv_observer E (ci_lottery inp) s) (ci_tick inp) content echo)"
  shows "stamp_step (of_chronomatter P) s (snd (call_stamp E inp content echo s))"
  using keepsD [OF assms, of "sv_chronomatter s"]
  by (auto simp: stamp_step_def call_stamp_def on_chronomatter_def of_chronomatter_def split: prod.splits)

text \<open>A property that holds while the observer of \<open>s0\<close> is the one that is told of ticks.\<close>

definition stamps_keep ::
    "('k, 's) node_env \<Rightarrow> (('k, 'k server_calendar) chronomatter \<Rightarrow> bool) \<Rightarrow> 'k time_family_server \<Rightarrow> bool" where
  "stamps_keep E P s \<longleftrightarrow> (\<forall>(inp :: 'k call_inputs) content echo.
     keeps P (cm_stamp (ne_debug E) (ne_ffi E) (ne_hex_encode E) (ne_postcard E) (ne_crypto E)
       (sv_observer E (ci_lottery inp) s) (ci_tick inp) content echo))"

lemma stamp_writes:
  assumes "stamps_keep E P s"
  shows "answer (jget ''id'' ps) (stamp_step (of_chronomatter P)) s (handle_stamp E inp ps s)"
proof -
  have step: "stamp_step (of_chronomatter P) s s'" if "call_stamp E inp content echo s = (r, s')" for content echo r s'
    using stamp_step_stamp [of P E inp s content echo] assms that by (simp add: stamps_keep_def)
  have saved: "stamp_step (of_chronomatter P) s s''"
    if "stamp_step (of_chronomatter P) s s'" "save_logged E inp (inc_metric g s') = (r, s'')" for g s' r s''
    using stamp_step_save [of P "inc_metric g s'" E inp] that
    by (auto intro: stamp_step_trans [OF that(1) stamp_step_trans [OF stamp_step_metric [of P s' g]]])
  show ?thesis
    by (auto simp: handle_stamp_def Let_def answer_simps sbind_def [of "save_logged E inp"]
        split: answer_splits dest: step saved)
qed

lemma route_writes:
  assumes "stamps_keep E P s"
  shows "answer (jget ''id'' ps) (stamp_step (of_chronomatter P)) s (handle_route_stamp rt E inp ps s)"
proof -
  have saved: "stamp_step (of_chronomatter P) s s'" if "save_logged E inp (inc_metric g s) = (r, s')" for g r s'
    using stamp_step_save [of P "inc_metric g s" E inp] that
    by (auto intro: stamp_step_trans [OF stamp_step_metric [of P s g]])
  show ?thesis
    by (auto simp: handle_route_stamp_def build_route_stamp_response_def Let_def answer_simps
        sbind_def [of "save_logged E inp"] stamp_writes [OF assms] split: answer_splits dest: saved)
qed

text \<open>Only the task queue changes.\<close>

definition queue_step :: "'k time_family_server \<Rightarrow> 'k time_family_server \<Rightarrow> bool" where
  "queue_step s s' \<longleftrightarrow> (\<exists>tx. s' = set_calendar ((sv_calendar s)\<lparr>sc_task_tx := tx\<rparr>) s)"

lemma queue_step_refl [simp]: "queue_step s s"
  by (cases s) (auto simp: queue_step_def set_calendar_def sv_calendar_def intro!: exI [of _ "sc_task_tx (sv_calendar s)"])

lemma enqueue_task_queue: "enqueue_task task c = (r, c') \<Longrightarrow> \<exists>tx. c' = c\<lparr>sc_task_tx := tx\<rparr>"
  by (cases "sc_task_tx c") (auto simp: enqueue_task_def split: prod.splits intro: exI [of _ "sc_task_tx c"])

lemma queue_writes:
  "answer (jget ''id'' ps) queue_step s (handle_stamp_my_chronon E ps s)"
  "answer (jget ''id'' ps) queue_step s (handle_stamp_my_chronon_block E ps s)"
proof -
  have step: "queue_step s (set_calendar c' s)" if "enqueue_task task (sv_calendar s) = (r, c')" for task r c'
    using enqueue_task_queue [OF that] by (auto simp: queue_step_def)
  then have "answer (jget ''id'' ps) queue_step s (enqueue_attestation E task key ps s)" for task key
    by (auto simp: enqueue_attestation_def Let_def answer_simps split: answer_splits)
  then show "answer (jget ''id'' ps) queue_step s (handle_stamp_my_chronon E ps s)"
    and "answer (jget ''id'' ps) queue_step s (handle_stamp_my_chronon_block E ps s)"
    by (simp_all add: handle_stamp_my_chronon_def handle_stamp_my_chronon_block_def)
qed

subsection \<open>Any request\<close>

definition request_step ::
    "(('k, 'k server_calendar) chronomatter \<Rightarrow> bool) \<Rightarrow> 'k time_family_server \<Rightarrow> 'k time_family_server \<Rightarrow> bool" where
  "request_step P s s' \<longleftrightarrow>
     (of_chronomatter P s \<longrightarrow> of_chronomatter P s') \<and>
     (ms_inv (sv_mirror_store s) \<longrightarrow> ms_inv (sv_mirror_store s')) \<and>
     s'\<lparr>sv_chronomatter := sv_chronomatter s, sv_mirror_store := sv_mirror_store s,
        sv_metrics := sv_metrics s, sv_files := sv_files s\<rparr> = s"

lemma request_step_refl [simp]: "request_step P s s"
  by (simp add: request_step_def)

lemma request_step_trans: "request_step P s s' \<Longrightarrow> request_step P s' s'' \<Longrightarrow> request_step P s s''"
  by (cases s; cases s'; cases s'') (simp add: request_step_def)

lemma ms_inv_insert_records: "ms_inv m \<Longrightarrow> ms_inv (insert_records t rs m)"
  unfolding insert_records_def by (induction rs arbitrary: m) (simp_all add: ms_inv_insert)

lemma mirror_request_step: "mirror_step s s' \<Longrightarrow> request_step P s s'"
  by (auto simp: mirror_step_def request_step_def of_chronomatter_def ms_inv_insert_records)

lemma stamp_request_step: "stamp_step (of_chronomatter P) s s' \<Longrightarrow> request_step P s s'"
  by (cases s; cases s') (simp add: stamp_step_def request_step_def)

lemma answer_mono: "answer i R s out \<Longrightarrow> (\<And>s'. R s s' \<Longrightarrow> R' s s') \<Longrightarrow> answer i R' s out"
  by (simp add: answer_def)

lemma answer_eq_step: "answer i (=) s out \<Longrightarrow> answer i (request_step P) s out"
  by (erule answer_mono) auto

text \<open>A property of the chronomatter that does not look at the task queue of its calendar.\<close>

definition queue_blind :: "(('k, 'k server_calendar) chronomatter \<Rightarrow> bool) \<Rightarrow> bool" where
  "queue_blind P \<longleftrightarrow> (\<forall>cm tx. P cm \<longrightarrow> P (cm\<lparr>cm_observer := (cm_observer cm)\<lparr>sc_task_tx := tx\<rparr>\<rparr>))"

lemma queue_request_step: "queue_blind P \<Longrightarrow> queue_step s s' \<Longrightarrow> request_step P s s'"
  by (auto simp: queue_step_def request_step_def set_calendar_def of_chronomatter_def queue_blind_def sv_calendar_def)

text \<open>The methods that write the mirror store, the task queue, and the chronomatter.\<close>

definition mirror_writers :: "string set" where
  "mirror_writers = {''ship_ack'', ''stream_tick'', ''history_dump_chunk''}"

definition queue_writers :: "string set" where
  "queue_writers = {''stamp_my_chronon'', ''stamp_my_chronon_block''}"

definition stamp_writers :: "string set" where
  "stamp_writers = {''stamp'', ''route_stamp''}"

lemmas read_only_answers = core_read_only verify_read_only mirror_read_only store_read_only

lemma arms_answer:
  assumes "stamps_keep E P s" and "(meth, h) \<in> set (arms rt E inp)"
  shows "answer (jget ''id'' ps) (=) s (h ps s) \<or>
    meth \<in> mirror_writers \<and> answer (jget ''id'' ps) mirror_step s (h ps s) \<or>
    meth \<in> queue_writers \<and> answer (jget ''id'' ps) queue_step s (h ps s) \<or>
    meth \<in> stamp_writers \<and> answer (jget ''id'' ps) (stamp_step (of_chronomatter P)) s (h ps s)"
  using assms(2) unfolding arms_def list.set insert_iff empty_iff prod.inject
  by (elim disjE conjE FalseE)
    (simp_all add: read_only_answers mirror_writes stamp_writes [OF assms(1)] route_writes [OF assms(1)]
      queue_writes mirror_writers_def stamp_writers_def queue_writers_def)

lemma dispatch_answer:
  assumes "stamps_keep E P s" and "meth \<in> fst ` set (arms rt E inp)"
  shows "answer (jget ''id'' ps) (=) s (dispatch rt E inp i meth ps s) \<or>
    meth \<in> mirror_writers \<and> answer (jget ''id'' ps) mirror_step s (dispatch rt E inp i meth ps s) \<or>
    meth \<in> queue_writers \<and> answer (jget ''id'' ps) queue_step s (dispatch rt E inp i meth ps s) \<or>
    meth \<in> stamp_writers \<and>
      answer (jget ''id'' ps) (stamp_step (of_chronomatter P)) s (dispatch rt E inp i meth ps s)"
proof -
  obtain h where h: "map_of (arms rt E inp) meth = Some h"
    using assms(2) by (metis map_of_eq_None_iff not_None_eq)
  then show ?thesis
    using arms_answer [OF assms(1) map_of_SomeD [OF h], of ps] by (simp add: dispatch_def)
qed

lemma dispatch_unknown:
  "meth \<notin> fst ` set (arms rt E inp) \<Longrightarrow> dispatch rt E inp i meth ps s =
    (Ok (rpc_error i METHOD_NOT_FOUND (''method '' @ quoted meth @ '' not found'')), s)"
  by (simp add: dispatch_def plain_error_def map_of_eq_None_iff [THEN iffD2])

lemma dispatch_step:
  assumes "stamps_keep E P s" and "queue_blind P"
  shows "request_step P s (snd (dispatch rt E inp i meth ps s))"
proof (cases "meth \<in> fst ` set (arms rt E inp)")
  case True
  from dispatch_answer [OF assms(1) True, of ps i] show ?thesis
    using mirror_request_step stamp_request_step queue_request_step [OF assms(2)] by (fastforce simp: answer_def)
next
  case False
  then show ?thesis by (simp add: dispatch_unknown)
qed

lemma request_keeps:
  assumes "stamps_keep E P s" and "queue_blind P"
  shows "request_step P s (snd (process_request_from_value rt E inp req s))"
  using dispatch_step [OF assms]
  by (auto simp: process_request_from_value_def plain_error_def ok_or_def split: option.splits)

end
