(* ===== verification/Server_Run.thy ===== *)
theory Server_Run
  imports Server_Laws
begin

section \<open>A node in operation\<close>

text \<open>
  A run of a node: the requests that reach it, each through one of its servers and so inside a
  runtime, the ticks of its daemon and the switching of its dormancy. A request that fails or
  panics ends its connection at most, and the node goes on.
\<close>

datatype 'k node_event =
    Request "'k call_inputs" json
  | DaemonTick "'k call_inputs"
  | SwitchDormant bool

fun node_step ::
    "('k, 's) node_env \<Rightarrow> 'k node_event \<Rightarrow> ('k time_family_server, json_rpc_response option, node_error) stateful" where
  "node_step E (Request inp req) = sbind (process_request_from_value True E inp req) (\<lambda>resp. sret (Some resp))"
| "node_step E (DaemonTick inp) = sbind (server_daemon_tick E inp) (\<lambda>_. sret None)"
| "node_step E (SwitchDormant d) = sbind (on_chronomatter (smod (set_dormant d))) (\<lambda>_. sret None)"

fun node_run ::
    "('k, 's) node_env \<Rightarrow> 'k node_event list \<Rightarrow> 'k time_family_server \<Rightarrow>
     (json_rpc_response option, node_error) result list \<times> 'k time_family_server" where
  "node_run E [] s = ([], s)"
| "node_run E (e # es) s =
     (let (r, s') = node_step E e s; (rs, s'') = node_run E es s' in (r # rs, s''))"

lemma snd_sbind_sret: "snd (sbind m (\<lambda>a. sret (f a)) s) = snd (m s)"
  by (simp add: sbind_def sret_def split: prod.splits result.splits)

lemma snd_node_run_Cons: "snd (node_run E (e # es) s) = snd (node_run E es (snd (node_step E e s)))"
  by (simp add: Let_def split: prod.splits)

subsection \<open>What every run keeps\<close>

text \<open>The calendar of \<open>s\<close> extends the one of \<open>o0\<close>, soundly; the mirrors are in order.\<close>

definition node_sound :: "('k, 's) node_env \<Rightarrow> 'k server_calendar \<Rightarrow> 'k time_family_server \<Rightarrow> bool" where
  "node_sound E o0 s \<longleftrightarrow> sv_observing s \<and>
     safe_from sc_records sc_inv (ne_ffi E) o0 (sv_chronomatter s) \<and> ms_inv (sv_mirror_store s)"

lemma sc_task_tx_blind [simp]:
  "sc_records (c\<lparr>sc_task_tx := tx\<rparr>) = sc_records c" "sc_inv (c\<lparr>sc_task_tx := tx\<rparr>) = sc_inv c"
  by (simp_all add: sc_records_def sc_inv_def)

lemma safe_queue_blind: "queue_blind (safe_from sc_records sc_inv F o0)"
  by (simp add: queue_blind_def safe_from_def)

lemma safe_stamps_keep: "sv_observing s \<Longrightarrow> stamps_keep E (safe_from sc_records sc_inv (ne_ffi E) o0) s"
  by (simp add: stamps_keep_def sv_observer_def sc_obs.keeps_cm_stamp)

lemma node_step_keeps:
  assumes "node_sound E o0 s"
  shows "node_sound E o0 (snd (node_step E e s))"
proof (cases e)
  case (Request inp req)
  have "stamps_keep E (safe_from sc_records sc_inv (ne_ffi E) o0) s"
    using assms by (simp add: node_sound_def safe_stamps_keep)
  note step = request_keeps [OF this safe_queue_blind, of True inp req]
  then have "sv_observing (snd (process_request_from_value True E inp req s)) = sv_observing s"
    by (cases s; cases "snd (process_request_from_value True E inp req s)") (simp add: request_step_def)
  with step assms show ?thesis
    by (simp add: Request node_sound_def snd_sbind_sret request_step_def of_chronomatter_def)
next
  case (DaemonTick inp)
  have "keeps (safe_from sc_records sc_inv (ne_ffi E) o0) (daemon_tick (ne_debug E) (ne_ffi E) (ne_hex_encode E)
      (ne_crypto E) (on_tick_advance (ne_hex_encode E) (ci_lottery inp)) (ci_tick inp))"
    by (rule sc_obs.keeps_daemon_tick)
  from keepsD [OF this] assms show ?thesis
    by (auto simp: DaemonTick node_sound_def snd_sbind_sret server_daemon_tick_def on_chronomatter_def
        sv_observer_def split: prod.splits) (metis snd_conv)
next
  case (SwitchDormant d)
  with assms show ?thesis
    by (simp add: node_sound_def on_chronomatter_def smod_def sret_def sbind_def set_dormant_def safe_from_def)
qed

lemma node_run_keeps: "node_sound E o0 s \<Longrightarrow> node_sound E o0 (snd (node_run E es s))"
  by (induction es arbitrary: s) (simp, simp only: snd_node_run_Cons node_step_keeps)

lemma node_sound_rebase:
  assumes "node_sound E o0 s"
  shows "node_sound E (sv_calendar s) s"
  using assms by (simp add: node_sound_def safe_from_def sv_calendar_def)

text \<open>A new server over an empty calendar.\<close>

lemma new_with_config_Ok:
  assumes "new_with_config E stored key sw tk nk addr ns persist com files = Ok s0"
  shows "\<exists>cal0 cm0. chronomatter_new (ne_hex_encode E) tk ns cal0 = Ok cm0 \<and> sc_records cal0 = [] \<and>
      (\<exists>c. sv_chronomatter s0 = cm0\<lparr>cm_events := Some [], cm_observer := c\<rparr> \<and> sc_records c = [])"
    and "sv_observing s0" and "sv_mirror_store s0 = mirror_store_default"
    and "sv_communerd s0 = com" and "sv_persist_path s0 = persist"
    and "sv_calendar_store s0 = map_option (\<lambda>p. stored (calendar_store_path p)) persist"
proof -
  from assms obtain cal0 cm inner1 inner2 pub priv where
    cal0: "server_calendar_new key tbid_default [] = (Ok cal0 :: (_, node_error) result)"
    and cm: "chronomatter_new (ne_hex_encode E) tk ns cal0 = Ok cm"
    and in1: "set_tbid (ne_debug E) (cm_tbid cm) (sc_inner (cm_observer (set_mutual_attest_observer cm))) = (Ok inner1 :: (_, node_error) result)"
    and in2: "set_tbn (ne_debug E) (cm_tbn cm) inner1 = (Ok inner2 :: (_, node_error) result)"
    and s0: "sv_chronomatter s0 = (set_mutual_attest_observer cm)\<lparr>cm_observer := (cm_observer (set_mutual_attest_observer cm))\<lparr>sc_inner := inner2\<rparr>\<rparr>"
      "sv_observing s0" "sv_mirror_store s0 = mirror_store_default" "sv_communerd s0 = com"
      "sv_persist_path s0 = persist" "sv_calendar_store s0 = map_option (\<lambda>p. stored (calendar_store_path p)) persist"
    by (auto simp: new_with_config_def Let_def result_simps set_mutual_attest_observer_def)
  have empty: "sc_records cal0 = []"
    using cal0 by (auto simp: server_calendar_new_def result_simps sc_records_def calendar_new_def)
  have "cm_observer cm = cal0" using chronomatter_new_Ok [OF cm] by simp
  then have "ticks inner2 = []"
    using in1 in2 empty by (auto simp: set_tbid_def set_tbn_def set_mutual_attest_observer_def sc_records_def split: if_splits)
  then show "\<exists>cal0 cm0. chronomatter_new (ne_hex_encode E) tk ns cal0 = Ok cm0 \<and> sc_records cal0 = [] \<and>
      (\<exists>c. sv_chronomatter s0 = cm0\<lparr>cm_events := Some [], cm_observer := c\<rparr> \<and> sc_records c = [])"
    using cm empty s0(1)
    by (intro exI [of _ cal0] exI [of _ cm] conjI exI [of _ "(cm_observer cm)\<lparr>sc_inner := inner2\<rparr>"])
      (simp_all add: set_mutual_attest_observer_def sc_records_def)
qed (use assms in \<open>auto simp: new_with_config_def Let_def result_simps\<close>)

lemma new_run_inv:
  assumes "new_with_config E stored key sw tk nk addr ns persist com files = Ok s0"
  shows "run_inv sc_records sc_inv F (ne_hex_encode E) crypto (sv_chronomatter s0)"
proof -
  from new_with_config_Ok(1) [OF assms] obtain cal0 cm0 c where
    cm0: "chronomatter_new (ne_hex_encode E) tk ns cal0 = Ok cm0" "sc_records cal0 = []"
    and s0: "sv_chronomatter s0 = cm0\<lparr>cm_events := Some [], cm_observer := c\<rparr>" "sc_records c = []" by blast
  have "sc_inv c" using s0(2) by (simp add: sc_inv_def cal_inv_def sc_records_def)
  then show ?thesis
    using fresh_run_inv [OF cm0, of F crypto] s0 cm0 chronomatter_new_Ok [OF cm0(1)]
    by (simp add: run_inv_def Let_def)
qed

lemma new_node_sound:
  assumes "new_with_config E stored key sw tk nk addr ns persist com files = Ok s0"
  shows "node_sound E (sv_calendar s0) s0"
  using run_inv_safe_from [OF new_run_inv [OF assms]] new_with_config_Ok [OF assms]
  by (simp add: node_sound_def sv_calendar_def mirror_store_default_def)

subsection \<open>Stamping and verifying over JSON-RPC\<close>

text \<open>What the codecs of the crates promise: they read back what they wrote.\<close>

definition codecs_ok :: "('k, 's) node_env \<Rightarrow> bool" where
  "codecs_ok E \<longleftrightarrow> (\<forall>b. ne_hex_decode E (ne_hex_encode E b) = Ok b) \<and>
     (\<forall>f. ne_foretis_of_json E (ne_foretis_json E f) = Ok f)"

lemma save_logged_frame:
  assumes "save_logged E inp s = (r, s')"
  shows "sv_chronomatter s' = sv_chronomatter s" and "sv_observing s' = sv_observing s"
    and "r \<noteq> Err e"
  using assms by (auto simp: save_logged_def server_save_def inc_metric_def Let_def split: answer_splits)

text \<open>A stamp request that is answered with a result.\<close>

lemma handle_stamp_success:
  assumes "handle_stamp E inp ps s = (Ok resp, s')" and "jr_error resp = None"
  obtains content echo st s1 where "parse_stamp_params E ps = Ok (content, echo)"
    and "call_stamp E inp content echo s = (Ok st, s1)"
    and "sv_chronomatter s' = sv_chronomatter s1" and "sv_observing s' = sv_observing s1"
    and "jr_result resp = Some (stamp_json E st)"
proof -
  have err: "resp_error i c m s \<noteq> (Ok resp, s')" for i c m and s :: "'a time_family_server"
    using assms(2) by (auto simp: resp_error_def)
  obtain content echo where p: "parse_stamp_params E ps = Ok (content, echo)"
    using assms err by (cases "parse_stamp_params E ps") (auto simp: handle_stamp_def Let_def or_error_def slift_def)
  have nd: "\<not> is_dormant s"
    using assms(1) err by (auto simp: handle_stamp_def Let_def or_error_def p sbind_def sget_def)
  obtain r s1 where c: "call_stamp E inp content echo s = (r, s1)" by (cases "call_stamp E inp content echo s")
  obtain st where st: "r = Ok st"
    using assms(1) err by (cases r) (auto simp: handle_stamp_def Let_def or_error_def p sbind_def sget_def nd c)
  obtain r2 s2 where sv: "save_logged E inp (inc_metric StampsTotal s1) = (r2, s2)"
    by (cases "save_logged E inp (inc_metric StampsTotal s1)")
  have "sv_chronomatter s' = sv_chronomatter s2 \<and> sv_observing s' = sv_observing s2 \<and>
      jr_result resp = Some (stamp_json E st)"
    using assms(1)
    by (cases r2) (auto simp: handle_stamp_def Let_def or_error_def p sbind_def [of "sget is_dormant"] sget_def nd c st
        sbind_def smod_def sv resp_success_def)
  with save_logged_frame [OF sv] show ?thesis
    using c st p by (intro that [of content echo st s1]) (simp_all add: inc_metric_def)
qed

lemma dispatch_eqs:
  "dispatch rt E inp i ''stamp'' ps = handle_stamp E inp ps"
  "dispatch rt E inp i ''route_stamp'' ps = handle_route_stamp rt E inp ps"
  "dispatch rt E inp i ''verify'' ps = handle_verify rt E ps"
  "dispatch rt E inp i ''status'' ps = handle_status rt E ps"
  "dispatch rt E inp i ''ship_ack'' ps = handle_ship_ack E ps"
  "dispatch rt E inp i ''stream_tick'' ps = handle_stream_tick E ps"
  "dispatch rt E inp i ''history_dump_chunk'' ps = handle_history_dump_chunk E ps"
  "dispatch rt E inp i ''storage_proof_request'' ps = handle_storage_proof_request E ps"
  "dispatch rt E inp i ''storage_proof_verify'' ps = handle_storage_proof_verify E ps"
  by (simp_all add: dispatch_def arms_def fun_eq_iff)

lemma process_envelope:
  "process_request_from_value rt E inp (rpc_envelope meth ps) s = dispatch rt E inp None meth ps s"
  by (simp add: process_request_from_value_def rpc_envelope_def get_str_def)

text \<open>An outcome that is a result.\<close>

definition answered :: "(json_rpc_response option, node_error) result \<Rightarrow> bool" where
  "answered r \<longleftrightarrow> (\<exists>x. r = Ok x \<and> (\<forall>resp. x = Some resp \<longrightarrow> jr_error resp = None))"

text \<open>
  What an answered request does to the chronomatter: nothing, a change of the task queue, or
  one successful stamp.
\<close>

lemma process_answered:
  assumes "process_request_from_value True E inp req s = (Ok resp, s')" and "jr_error resp = None"
  shows "sv_observing s' = sv_observing s"
    and "(\<exists>tx. sv_chronomatter s' = (sv_chronomatter s)\<lparr>cm_observer := (sv_calendar s)\<lparr>sc_task_tx := tx\<rparr>\<rparr>) \<or>
      (\<exists>content echo st. fst (call_stamp E inp content echo s) = Ok st \<and>
        sv_chronomatter s' = sv_chronomatter (snd (call_stamp E inp content echo s)))"
proof -
  let ?same = "\<lambda>s'. \<exists>tx. sv_chronomatter s' = (sv_chronomatter s)\<lparr>cm_observer := (sv_calendar s)\<lparr>sc_task_tx := tx\<rparr>\<rparr>"
  let ?stamped = "\<lambda>s'. \<exists>content echo st. fst (call_stamp E inp content echo s) = Ok st \<and>
    sv_chronomatter s' = sv_chronomatter (snd (call_stamp E inp content echo s))"
  have same: "?same s"
    by (cases "sv_chronomatter s") (auto simp: sv_calendar_def intro!: exI [of _ "sc_task_tx (sv_calendar s)"])
  have obs: "sv_observing (snd (call_stamp E inp c e s)) = sv_observing s" for c e
    by (auto simp: call_stamp_def on_chronomatter_def split: prod.splits)
  have stamp: "sv_observing s' = sv_observing s \<and> ?stamped s'" if "handle_stamp E inp ps s = (Ok resp, s')" for ps
  proof -
    from that assms(2) show ?thesis
    proof (rule handle_stamp_success)
      fix content echo st s1
      assume c: "call_stamp E inp content echo s = (Ok st, s1)"
        and s': "sv_chronomatter s' = sv_chronomatter s1" "sv_observing s' = sv_observing s1"
      have "sv_observing s1 = sv_observing s" using obs [of content echo] c by simp
      moreover have "?stamped s'" using c s'(1) by (intro exI [of _ content] exI [of _ echo]) simp
      ultimately show ?thesis using s'(2) by simp
    qed
  qed
  from assms obtain i meth ps where d: "dispatch True E inp i meth ps s = (Ok resp, s')"
    by (auto simp: process_request_from_value_def plain_error_def ok_or_def split: option.splits if_splits)
  have known: "meth \<in> fst ` set (arms True E inp)"
  proof (rule ccontr)
    assume "meth \<notin> fst ` set (arms True E inp)"
    from dispatch_unknown [OF this, of i ps s] d assms(2) show False by auto
  qed
  have keep: "stamps_keep E (\<lambda>_. True) s" by (simp add: stamps_keep_def keeps_def)
  have "sv_observing s' = sv_observing s \<and> (?same s' \<or> ?stamped s')"
    using dispatch_answer [OF keep known, of ps i]
  proof (elim disjE conjE)
    assume "answer (jget ''id'' ps) (=) s (dispatch True E inp i meth ps s)"
    then show ?thesis using d same by (simp add: answer_def)
  next
    assume "answer (jget ''id'' ps) mirror_step s (dispatch True E inp i meth ps s)"
    then have "mirror_step s s'" using d by (simp add: answer_def)
    then show ?thesis using same by (auto simp: mirror_step_def)
  next
    assume "answer (jget ''id'' ps) queue_step s (dispatch True E inp i meth ps s)"
    then have "queue_step s s'" using d by (simp add: answer_def)
    then show ?thesis by (auto simp: queue_step_def set_calendar_def)
  next
    assume "meth \<in> stamp_writers"
    then consider "meth = ''stamp''" | "meth = ''route_stamp''" by (auto simp: stamp_writers_def)
    then show ?thesis
    proof cases
      case 1
      with d stamp show ?thesis by (simp add: dispatch_eqs)
    next
      case 2
      with d have "handle_route_stamp True E inp ps s = (Ok resp, s')" by (simp add: dispatch_eqs)
      with assms(2) have "handle_stamp E inp ps s = (Ok resp, s')"
        by (auto simp: handle_route_stamp_def Let_def or_error_def block_on_def response_defs slift_def
            dormant_error_def rpc_error_def split: answer_splits)
      with stamp show ?thesis by simp
    qed
  qed
  then show "sv_observing s' = sv_observing s" and "?same s' \<or> ?stamped s'" by blast+
qed

lemma node_step_run_inv:
  assumes ffi: "ffi_ed25519_correct (ne_ffi E)" and crypto: "ne_crypto E = software_crypto_server (ne_ffi E) k0"
    and inv: "run_inv sc_records sc_inv (ne_ffi E) (ne_hex_encode E) (ne_crypto E) (sv_chronomatter s)"
    and "sv_observing s" and step: "node_step E e s = (r, s')" and "answered r"
  shows "run_inv sc_records sc_inv (ne_ffi E) (ne_hex_encode E) (ne_crypto E) (sv_chronomatter s') \<and> sv_observing s'"
proof -
  note call = sc_obs.step_run_inv(1) [OF ffi inv [unfolded crypto], folded crypto]
  have obs: "sv_observer E l s = on_tick_advance (ne_hex_encode E) l" for l
    using assms(4) by (simp add: sv_observer_def)
  show ?thesis
  proof (cases e)
    case (Request inp req)
    then obtain resp where ok: "process_request_from_value True E inp req s = (Ok resp, s')" "jr_error resp = None"
      using step \<open>answered r\<close> by (auto simp: answered_def stateful_simps)
    note changed = process_answered [OF ok]
    from changed(2) have "run_inv sc_records sc_inv (ne_ffi E) (ne_hex_encode E) (ne_crypto E) (sv_chronomatter s')"
    proof (elim disjE exE conjE)
      fix tx
      assume "sv_chronomatter s' = (sv_chronomatter s)\<lparr>cm_observer := (sv_calendar s)\<lparr>sc_task_tx := tx\<rparr>\<rparr>"
      with inv show ?thesis by (simp add: run_inv_def Let_def sv_calendar_def)
    next
      fix content echo st
      assume st: "fst (call_stamp E inp content echo s) = Ok st"
        and s': "sv_chronomatter s' = sv_chronomatter (snd (call_stamp E inp content echo s))"
      then have "cm_stamp (ne_debug E) (ne_ffi E) (ne_hex_encode E) (ne_postcard E) (ne_crypto E)
          (on_tick_advance (ne_hex_encode E) (ci_lottery inp)) (ci_tick inp) content echo (sv_chronomatter s) =
          (Ok st, sv_chronomatter s')"
        by (auto simp: call_stamp_def on_chronomatter_def obs split: prod.splits)
      then show ?thesis
        by (intro call [where debug = "ne_debug E" and pc = "ne_postcard E" and v = "Some st"
              and c = "CallStamp (ci_tick inp) (ci_lottery inp) content echo"]) (simp add: stateful_simps)
    qed
    with changed(1) assms(4) show ?thesis by simp
  next
    case (DaemonTick inp)
    then have "daemon_tick (ne_debug E) (ne_ffi E) (ne_hex_encode E) (ne_crypto E)
        (on_tick_advance (ne_hex_encode E) (ci_lottery inp)) (ci_tick inp) (sv_chronomatter s) = (Ok (), sv_chronomatter s')"
      and "sv_observing s' = sv_observing s"
      using step \<open>answered r\<close>
      by (auto simp: answered_def stateful_simps server_daemon_tick_def on_chronomatter_def obs split: prod.splits)
    then show ?thesis
      using assms(4)
      by (auto intro!: call [where debug = "ne_debug E" and pc = "ne_postcard E" and v = None
            and c = "CallDaemonTick (ci_tick inp) (ci_lottery inp)"] simp: stateful_simps)
  next
    case (SwitchDormant d)
    with step inv assms(4) show ?thesis
      by (auto simp: on_chronomatter_def smod_def sret_def sbind_def set_dormant_def run_inv_def Let_def)
  qed
qed

lemma node_run_run_inv:
  assumes "ffi_ed25519_correct (ne_ffi E)" and "ne_crypto E = software_crypto_server (ne_ffi E) k0"
    and "run_inv sc_records sc_inv (ne_ffi E) (ne_hex_encode E) (ne_crypto E) (sv_chronomatter s)"
    and "sv_observing s" and "node_run E es s = (rs, s')" and "\<forall>r \<in> set rs. answered r"
  shows "run_inv sc_records sc_inv (ne_ffi E) (ne_hex_encode E) (ne_crypto E) (sv_chronomatter s') \<and> sv_observing s'"
  using assms(3-6)
proof (induction es arbitrary: s rs)
  case (Cons e es)
  obtain r s1 where step: "node_step E e s = (r, s1)" by (cases "node_step E e s")
  obtain rs1 where rest: "node_run E es s1 = (rs1, s')" "rs = r # rs1"
    using Cons.prems(3) step by (auto simp: Let_def split: prod.splits)
  then have "answered r" using Cons.prems(4) by simp
  from node_step_run_inv [OF assms(1,2) Cons.prems(1,2) step this] Cons.IH [OF _ _ rest(1)] Cons.prems(4) rest(2)
  show ?case by simp
qed simp

end
