(* ===== verification/Demo_Node.thy ===== *)
theory Demo_Node
  imports Server_Run Instances
begin

section \<open>A concrete node\<close>

text \<open>
  The codecs of the crates in small: hexadecimal writes one character for a byte, and the JSON
  of a record is the list of its fields (a chronon record without its attestations). The node
  has the cryptography of \<open>Demo_Crypto\<close>.
\<close>

definition char_hex :: "bytes \<Rightarrow> string" where
  "char_hex b = map (\<lambda>w. char_of (unat w)) b"

lemma as_bytes_char_hex [simp]: "as_bytes (char_hex b) = b"
proof -
  have "word_of_nat (of_char (char_of (unat w) :: char)) = w" for w :: u8
    using unsigned_less [of w, where ?'a = nat] by simp
  then show ?thesis by (simp add: as_bytes_def char_hex_def map_idI)
qed

lemma length_char_hex [simp]: "length (char_hex b) = length b"
  by (simp add: char_hex_def)

definition jbytes :: "bytes \<Rightarrow> json" where
  "jbytes b = JString (char_hex b)"

definition demo_foretis_json :: "foretis_record \<Rightarrow> json" where
  "demo_foretis_json f = JArray [jnum (fr_chronon_number f), jbytes (fr_content_hash f),
     jbytes (inner (fr_tbid f)), JString (fr_echo f), JString (fr_tbn f),
     JString (fr_time_being_reference_time f)]"

definition jfield :: "json \<Rightarrow> nat \<Rightarrow> json" where
  "jfield v i = unwrap_or [] (as_array v) ! i"

definition jnumber :: "json \<Rightarrow> nat \<Rightarrow> u64" where
  "jnumber v i = unwrap_or 0 (as_u64 (jfield v i))"

definition jtext :: "json \<Rightarrow> nat \<Rightarrow> string" where
  "jtext v i = unwrap_or [] (as_str (jfield v i))"

lemmas jfield_defs = jfield_def jnumber_def jtext_def

definition demo_foretis_of_json :: "json \<Rightarrow> (foretis_record, string) result" where
  "demo_foretis_of_json v =
     (if length (unwrap_or [] (as_array v)) \<noteq> 6 then Err ''foretis''
      else Ok \<lparr>fr_chronon_number = jnumber v 0, fr_content_hash = as_bytes (jtext v 1),
         fr_tbid = from_raw (as_bytes (jtext v 2)), fr_echo = jtext v 3, fr_tbn = jtext v 4,
         fr_time_being_reference_time = jtext v 5\<rparr>)"

lemma demo_foretis_codec [simp]: "demo_foretis_of_json (demo_foretis_json f) = Ok f"
  by (simp add: demo_foretis_json_def demo_foretis_of_json_def jfield_defs jbytes_def from_raw_def)

definition demo_chronon_json :: "chronon_record \<Rightarrow> json" where
  "demo_chronon_json r = JArray [jnum (cr_chronon_number r), jbytes (cr_public_key r),
     JString (cr_signature_algorithm r), jbytes (cr_forward_foretis r), jbytes (cr_backward_foretis r),
     jbytes (cr_aa_nonce r), jnum (cr_chronon_stamp_count r), jnum (ucast (cr_tb_version r)),
     jbytes (inner (cr_tbid r))]"

definition demo_chronon_of_json :: "json \<Rightarrow> (chronon_record, string) result" where
  "demo_chronon_of_json v =
     (if length (unwrap_or [] (as_array v)) \<noteq> 9 then Err ''chronon''
      else Ok (ChrononRecord (jnumber v 0) (as_bytes (jtext v 1)) (jtext v 2) (as_bytes (jtext v 3))
         (as_bytes (jtext v 4)) (as_bytes (jtext v 5)) (jnumber v 6) [] (ucast (jnumber v 7))
         (from_raw (as_bytes (jtext v 8)))))"

lemma demo_chronon_codec [simp]:
  assumes "cr_external_attestations r = []"
  shows "demo_chronon_of_json (demo_chronon_json r) = Ok r"
proof -
  have "ucast (ucast w :: u64) = w" for w :: u32
    by (rule bit_word_eqI) (simp add: bit_simps)
  then show ?thesis using assms by (cases r) (simp add: demo_chronon_json_def demo_chronon_of_json_def jfield_defs jbytes_def from_raw_def)
qed

definition demo_env :: "(bytes, bytes) node_env" where
  "demo_env =
     \<lparr>ne_debug = True, ne_ffi = demo_ffi, ne_crypto = software_crypto_server demo_ffi [],
      ne_postcard = demo_postcard, ne_hex_encode = char_hex, ne_hex_decode = (\<lambda>s. Ok (as_bytes s)),
      ne_chronon_json = demo_chronon_json, ne_chronon_of_json = demo_chronon_of_json,
      ne_foretis_json = demo_foretis_json, ne_foretis_of_json = demo_foretis_of_json,
      ne_calendar_json = (\<lambda>_. Ok ''calendar''), ne_codec = sum_codec, ne_ratio = (\<lambda>a b. a),
      ne_show_error = (\<lambda>_. ''error''), ne_show_auth = (\<lambda>_. ''refused''), ne_show_parse = (\<lambda>_. ''unparsed'')\<rparr>"

lemma demo_env_simps [simp]:
  "ne_debug demo_env" "ne_ffi demo_env = demo_ffi" "ne_crypto demo_env = software_crypto_server demo_ffi []"
  "ne_postcard demo_env = demo_postcard" "ne_hex_encode demo_env = char_hex"
  "ne_hex_decode demo_env s = Ok (as_bytes s)" "ne_chronon_json demo_env = demo_chronon_json"
  "ne_chronon_of_json demo_env = demo_chronon_of_json" "ne_foretis_json demo_env = demo_foretis_json"
  "ne_foretis_of_json demo_env = demo_foretis_of_json" "ne_codec demo_env = sum_codec"
  "ne_ratio demo_env a b = a" "ne_show_error demo_env e = ''error''" "ne_show_auth demo_env ae = ''refused''"
  "ne_show_parse demo_env pe = ''unparsed''"
  by (simp_all add: demo_env_def)

definition demo_call :: "u8 \<Rightarrow> bytes call_inputs" where
  "demo_call n = \<lparr>ci_tick = demo_inputs n, ci_lottery = False, ci_create_dir = Ok (),
     ci_io = \<lparr>io_create_dir = Ok (), io_write = Written, io_rename = Ok ()\<rparr>\<rparr>"

definition demo_tbid :: tbid where
  "demo_tbid = from_raw (replicate 96 7)"

text \<open>A new node, with the peer-to-peer layer \<open>com\<close>, that persists under \<^verbatim>\<open>/d\<close> when \<open>persist\<close> says so.\<close>

definition demo_node :: "string option \<Rightarrow> communerd_api option \<Rightarrow> bytes time_family_server" where
  "demo_node persist com =
     \<lparr>sv_chronomatter = demo_start\<lparr>cm_tbn := ''tf-'' @ replicate 16 CHR 0x07, cm_events := Some [],
        cm_observer := \<lparr>sc_inner = (calendar_new tbid_default [])\<lparr>cal_tbid := demo_tbid, cal_tbn := ''tf-'' @ replicate 16 CHR 0x07\<rparr>, sc_tbn = [],
          sc_signing_key = Some [3], sc_task_tx = None\<rparr>\<rparr>,
      sv_observing = True, sv_mirror_store = mirror_store_default,
      sv_calendar_store = map_option (\<lambda>p. Ok [two_ticks]) persist,
      sv_communerd = com, sv_listen_addr = ''a'', sv_persist_path = persist, sv_metrics = metrics_new,
      sv_noise_static_priv = [2], sv_noise_static_pub = [1], sv_files = (\<lambda>_. None)\<rparr>"

lemma demo_node_new:
  "new_with_config demo_env (\<lambda>_. Ok [two_ticks]) (Ok [3]) (Ok ()) demo_tbid_keypair (Ok ([1], [2])) ''a'' 1000000
     persist com (\<lambda>_. None) = Ok (demo_node persist com)"
proof -
  have "take 16 (char_hex (replicate 96 7)) = replicate 16 CHR 0x07"
    by (simp add: char_hex_def take_map char_of_def bit_iff_odd)
  then have "chronomatter_new char_hex demo_tbid_keypair 1000000 cal =
      Ok (demo_start\<lparr>cm_tbn := ''tf-'' @ replicate 16 CHR 0x07, cm_observer := cal\<rparr>)" for cal
    by (simp add: chronomatter_new_def tbid_secret_generate_def demo_tbid_keypair_def tbid_from_bytes_def
        secret_from_bytes_def demo_start_def to_hex_def from_raw_def)
  then show ?thesis
    by (simp add: new_with_config_def server_calendar_new_def generate_calendar_signing_key_def
        set_mutual_attest_observer_def set_tbid_def set_tbn_def calendar_new_def demo_node_def demo_start_def
        demo_tbid_def)
qed

lemma demo_node_simps [simp]:
  "sv_observing (demo_node persist com)" "sv_communerd (demo_node persist com) = com"
  "sv_mirror_store (demo_node persist com) = mirror_store_default"
  "sv_persist_path (demo_node persist com) = persist"
  "is_dormant (demo_node persist com) = False"
  "sv_tbid (demo_node persist com) = demo_tbid"
  by (simp_all add: demo_node_def is_dormant_def demo_start_def sv_tbid_def demo_tbid_def)

lemma demo_node_ready: "ready demo_ffi (sv_chronomatter (demo_node persist com))"
  using demo_answers by (simp add: ready_def demo_node_def demo_start_def)

end
