(* ===== verification/Server_Props.thy ===== *)
theory Server_Props
  imports Demo_Node
begin

section \<open>What a node promises, and what its requests do\<close>

text \<open>
  C2: Whatever requests reach a new node and however they end, panics included, with ticks and
  dormancy switches in between: its own calendar stays in order and only grows, at most two key
  pairs are kept, every mirrored calendar stays non-empty and in order, and its configuration
  never changes.
\<close>

theorem node_stays_sound:
  assumes "new_with_config E stored key sw tk nk addr ns persist com files = Ok s0"
    and "snd (node_run E before s0) = s1" and "snd (node_run E after s1) = s2"
  shows "chronological (sc_records (sv_calendar s2)) \<and>
    (\<exists>new. sc_records (sv_calendar s2) = sc_records (sv_calendar s1) @ new) \<and>
    length (cm_keypairs (sv_chronomatter s2)) \<le> 2 \<and>
    (\<forall>t rs. ms_get t (sv_mirror_store s2) = Some rs \<longrightarrow> rs \<noteq> [] \<and> chronological rs)"
proof -
  have "node_sound E (sv_calendar s1) s1"
    using node_sound_rebase [OF node_run_keeps [OF new_node_sound [OF assms(1)]], of "before"] assms(2) by simp
  from node_run_keeps [OF this, of "after"] have s2: "node_sound E (sv_calendar s1) s2"
    by (simp add: assms(3))
  then have "rs \<noteq> [] \<and> chronological rs" if "ms_get t (sv_mirror_store s2) = Some rs" for t rs
    using that by (auto simp: node_sound_def ms_inv_def ms_get_def dest: map_of_in_snd)
  with s2 show ?thesis
    using sc.source_chronological [of "sv_calendar s2"] by (auto simp: node_sound_def safe_from_def sv_calendar_def)
qed

theorem node_stays_sound_witness:
  "chronological (sc_records (sv_calendar (snd (node_run demo_env
     [DaemonTick (demo_call 2), Request (demo_call 3) (rpc_envelope ''status'' JNull)]
     (snd (node_run demo_env [DaemonTick (demo_call 1)] (demo_node None None)))))))"
  using node_stays_sound [OF demo_node_new HOL.refl HOL.refl] by blast

subsection \<open>Stamping and verifying\<close>

text \<open>The parameters a client makes of the answer \<open>v\<close> to its stamp of the content \<open>h\<close>.\<close>

definition verify_request :: "string \<Rightarrow> json \<Rightarrow> json" where
  "verify_request h v = JObject [(''content'', JString h), (''foretis'', unwrap_or JNull (jget ''foretis'' v)),
     (''signature'', unwrap_or JNull (jget ''signature'' v)),
     (''signature_algorithm'', unwrap_or JNull (jget ''signature_algorithm'' v))]"

lemma parse_verify_request:
  assumes "codecs_ok E" and "parse_stamp_params E ps = Ok (content, echo)"
    and "get_str ''content'' ps = Some h"
  shows "parse_verify_params E (verify_request h (stamp_json E st)) =
    Ok \<lparr>vp_content = content, vp_foretis = st_foretis st, vp_foretis_value = ne_foretis_json E (st_foretis st),
        vp_signature = st_signature_bytes st, vp_signature_algorithm = st_signature_algorithm st,
        vp_cross_node = False\<rparr>"
proof -
  have content: "ne_hex_decode E h = Ok content" "\<not> MAX_CONTENT_BYTES < length content"
    using assms(2,3) by (auto simp: parse_stamp_params_def result_simps split: if_splits)
  have "get_str ''content'' (verify_request h v) = Some h" "jget ''cross_node'' (verify_request h v) = None" for v
    by (simp_all add: verify_request_def get_str_def)
  moreover have "jget ''foretis'' (verify_request h (stamp_json E st)) = Some (ne_foretis_json E (st_foretis st))"
    "get_str ''signature'' (verify_request h (stamp_json E st)) = Some (ne_hex_encode E (st_signature_bytes st))"
    "get_str ''signature_algorithm'' (verify_request h (stamp_json E st)) = Some (st_signature_algorithm st)"
    by (simp_all add: verify_request_def stamp_json_def get_str_def)
  ultimately show ?thesis
    using assms(1) content by (simp add: parse_verify_params_def hex_or_empty_def codecs_ok_def get_bool_def)
qed

text \<open>
  What an answered stamp request of a new node's run leaves: the stamp of the content, whose
  foretis the local calendar verifies from then on.
\<close>

lemma stamp_answer_held:
  assumes ffi: "ffi_ed25519_correct (ne_ffi E)"
    and crypto: "ne_crypto E = software_crypto_server (ne_ffi E) k0"
    and "new_with_config E stored key sw tk nk addr ns persist com files = Ok s0"
    and "node_run E before s0 = (rs, s1)" and "\<forall>r \<in> set rs. answered r"
    and "handle_stamp E inp ps s1 = (Ok resp, s2)"
    and "jr_error resp = None" and "jr_result resp = Some v" and "snd (node_run E after s2) = s3"
  obtains content echo st where "parse_stamp_params E ps = Ok (content, echo)" and "v = stamp_json E st"
    and "try_local_verify E s3 (st_foretis st) (st_signature_bytes st) (st_signature_algorithm st) content =
      (Ok True :: (_, node_error) result)"
proof -
  note new = new_with_config_Ok [OF assms(3)]
  from node_run_run_inv [OF ffi crypto new_run_inv [OF assms(3)] new(2) assms(4,5)]
  have s1: "run_inv sc_records sc_inv (ne_ffi E) (ne_hex_encode E) (ne_crypto E) (sv_chronomatter s1)" "sv_observing s1"
    by simp_all
  from assms(6,7) obtain content echo st s1' where
    ps: "parse_stamp_params E ps = Ok (content, echo)" and call: "call_stamp E inp content echo s1 = (Ok st, s1')"
    and s2: "sv_chronomatter s2 = sv_chronomatter s1'" and v: "v = stamp_json E st"
    using assms(8) by (auto elim: handle_stamp_success)
  have stamp: "cm_stamp (ne_debug E) (ne_ffi E) (ne_hex_encode E) (ne_postcard E) (software_crypto_server (ne_ffi E) k0)
      (on_tick_advance (ne_hex_encode E) (ci_lottery inp)) (ci_tick inp) content echo (sv_chronomatter s1) =
      (Ok st, sv_chronomatter s2)"
    using call s1(2) s2 by (auto simp: call_stamp_def on_chronomatter_def sv_observer_def crypto split: prod.splits)
  from sc_obs.stamp_verifies [OF ffi s1(1) [unfolded crypto] stamp] obtain r where
    r: "sc_records (cm_observer (sv_chronomatter s2)) = sc_records (cm_observer (sv_chronomatter s1)) @ [r]"
      "cr_chronon_number r = fr_chronon_number (st_foretis st)"
    and ver: "\<And>(c :: 'a server_calendar) t n. sc_inv c \<Longrightarrow> r \<in> set (sc_records c) \<Longrightarrow>
      verify (ne_postcard E) (ne_crypto E) (st_foretis st) (st_signature_bytes st)
        (st_signature_algorithm st) content (as_lookup (sc_get c) (sc_latest c) t n) = Ok True"
    unfolding crypto by metis
  have "node_sound E (sv_calendar s0) s1"
    using node_run_keeps [OF new_node_sound [OF assms(3)], of "before"] assms(4) by simp
  then have "node_sound E (sv_calendar s0) (snd (node_step E (Request inp (rpc_envelope ''stamp'' ps)) s1))"
    by (rule node_step_keeps)
  then have "node_sound E (sv_calendar s0) s2" by (simp add: sret_def process_envelope dispatch_eqs assms(6))
  from node_run_keeps [OF node_sound_rebase [OF this], of "after"]
  have s3: "sc_inv (sv_calendar s3)" "r \<in> set (sc_records (sv_calendar s3))"
    using r(1) by (auto simp: node_sound_def safe_from_def sv_calendar_def assms(9))
  from sc.get_exact [OF this] r(2)
  have "cal_get (sc_inner (sv_calendar s3)) (fr_chronon_number (st_foretis st)) 1 = Ok [r]"
    by (simp add: sc_get_def)
  moreover have "verify (ne_postcard E) (ne_crypto E) (st_foretis st) (st_signature_bytes st)
      (st_signature_algorithm st) content (cal_lookup (sc_inner (sv_calendar s3))) = Ok True"
    using ver [OF s3] by (simp add: cal_lookup_def as_lookup_def sc_get_def [abs_def] sc_latest_def)
  ultimately have "try_local_verify E s3 (st_foretis st) (st_signature_bytes st) (st_signature_algorithm st) content =
      (Ok True :: (_, node_error) result)"
    by (simp add: try_local_verify_def Let_def)
  with ps v show ?thesis by (rule that)
qed

text \<open>
  C4: Stamping over JSON-RPC is good for verification over JSON-RPC: when the earlier events of
  a new node were answered and a stamp request is, then after whatever further events, sending
  back the foretis, signature and algorithm of the answer with the stamped content is answered
  with a valid verdict of the local calendar.
\<close>

theorem rpc_stamp_verifies:
  assumes "codecs_ok E" and ffi: "ffi_ed25519_correct (ne_ffi E)"
    and crypto: "ne_crypto E = software_crypto_server (ne_ffi E) k0"
    and "new_with_config E stored key sw tk nk addr ns persist com files = Ok s0"
    and "node_run E before s0 = (rs, s1)" and "\<forall>r \<in> set rs. answered r"
    and "process_request_from_value True E inp (rpc_envelope ''stamp'' ps) s1 = (Ok resp, s2)"
    and "jr_error resp = None" and "jr_result resp = Some v" and "get_str ''content'' ps = Some h"
    and "snd (node_run E after s2) = s3"
  shows "\<exists>resp'. process_request_from_value True E inp' (rpc_envelope ''verify'' (verify_request h v)) s3 = (Ok resp', s3) \<and>
    jr_result resp' = Some (JObject [(''valid'', JBool True), (''method'', JString ''local'')])"
proof -
  have "handle_stamp E inp ps s1 = (Ok resp, s2)" using assms(7) by (simp add: process_envelope dispatch_eqs)
  from stamp_answer_held [OF assms(2-6) this assms(8,9,11)] obtain content echo st where
    ps: "parse_stamp_params E ps = Ok (content, echo)" and v: "v = stamp_json E st"
    and held: "try_local_verify E s3 (st_foretis st) (st_signature_bytes st) (st_signature_algorithm st) content =
      (Ok True :: (_, node_error) result)" .
  then show ?thesis
    using parse_verify_request [OF assms(1) ps assms(10), of st]
    by (auto simp: v process_envelope dispatch_eqs handle_verify_def Let_def or_error_def resp_success_def
        dormant_success_def rpc_success_def)
qed

lemma demo_stamped:
  obtains resp v s2 where "handle_stamp demo_env (demo_call 2) (JObject [(''content'', JString ''hi'')])
      (demo_node None com) = (Ok resp, s2)"
    and "jr_error resp = None" and "jr_result resp = Some v"
proof -
  have "\<exists>st cm'. cm_stamp True demo_ffi char_hex demo_postcard (software_crypto_server demo_ffi [])
      (on_tick_advance char_hex False) (demo_inputs 2) (as_bytes ''hi'') [] (sv_chronomatter (demo_node None com)) =
      (Ok st, cm')"
    by (rule cm_stamp_live [OF demo_node_ready])
      (simp_all add: demo_node_def demo_start_def)
  then obtain st cm' where st: "call_stamp demo_env (demo_call 2) (as_bytes ''hi'') [] (demo_node None com) =
      (Ok st, (demo_node None com)\<lparr>sv_chronomatter := cm'\<rparr>)"
    by (auto simp: call_stamp_def on_chronomatter_def sv_observer_def demo_call_def)
  have save: "save_logged demo_env inp s = (Ok (), s)" if "sv_persist_path s = None" for inp :: "bytes call_inputs" and s
    using that by (simp add: save_logged_def server_save_def)
  have "\<exists>resp s2. handle_stamp demo_env (demo_call 2) (JObject [(''content'', JString ''hi'')])
      (demo_node None com) = (Ok resp, s2) \<and> jr_error resp = None \<and> jr_result resp = Some (stamp_json demo_env st)"
    by (simp add: handle_stamp_def parse_stamp_params_def get_str_def Let_def or_error_def sbind_def sget_def st
        MAX_CONTENT_BYTES_def smod_def save inc_metric_def resp_success_def)
  then show ?thesis using that by blast
qed

theorem rpc_stamp_verifies_witness:
  "\<exists>v s2 resp'. jr_result resp' = Some (JObject [(''valid'', JBool True), (''method'', JString ''local'')]) \<and>
    fst (process_request_from_value True demo_env (demo_call 4) (rpc_envelope ''verify'' (verify_request ''hi'' v))
      (snd (node_run demo_env [DaemonTick (demo_call 3), SwitchDormant True] s2))) = Ok resp'"
proof -
  obtain resp v s2 where st: "handle_stamp demo_env (demo_call 2) (JObject [(''content'', JString ''hi'')])
      (demo_node None None) = (Ok resp, s2)" "jr_error resp = None" "jr_result resp = Some v"
    by (rule demo_stamped)
  have "\<exists>resp'. process_request_from_value True demo_env (demo_call 4) (rpc_envelope ''verify'' (verify_request ''hi'' v))
      (snd (node_run demo_env [DaemonTick (demo_call 3), SwitchDormant True] s2)) =
      (Ok resp', snd (node_run demo_env [DaemonTick (demo_call 3), SwitchDormant True] s2)) \<and>
    jr_result resp' = Some (JObject [(''valid'', JBool True), (''method'', JString ''local'')])"
    by (rule rpc_stamp_verifies [OF _ _ _ demo_node_new, where before = "[]" and rs = "[]" and ?s1.0 = "demo_node None None"
          and inp = "demo_call 2" and ps = "JObject [(''content'', JString ''hi'')]" and resp = resp and ?s2.0 = s2
          and after = "[DaemonTick (demo_call 3), SwitchDormant True]"])
      (use st in \<open>simp_all add: codecs_ok_def process_envelope dispatch_eqs get_str_def\<close>)
  then show ?thesis by (metis fst_conv)
qed

subsection \<open>Ids, runtimes and signatures\<close>

text \<open>
  A response carries the id found inside the parameters: for every method of the table the
  id of the request itself is ignored, and only a request for an unknown method is answered
  under its own id.
\<close>

theorem response_id_from_params:
  assumes "get_str ''jsonrpc'' req = Some ''2.0''" and "get_str ''method'' req = Some meth"
    and "fst (process_request_from_value rt E inp req s) = Ok resp"
  shows "jr_id resp = (if meth \<in> fst ` set (arms rt E inp)
    then jget ''id'' (unwrap_or JNull (jget ''params'' req)) else jget ''id'' req)"
proof -
  let ?d = "dispatch rt E inp (jget ''id'' req) meth (unwrap_or JNull (jget ''params'' req)) s"
  have d: "fst ?d = Ok resp" using assms by (simp add: process_request_from_value_def)
  have keep: "stamps_keep E (\<lambda>_. True) s" by (simp add: stamps_keep_def keeps_def)
  show ?thesis
  proof (cases "meth \<in> fst ` set (arms rt E inp)")
    case True
    from dispatch_answer [OF keep True, of "unwrap_or JNull (jget ''params'' req)" "jget ''id'' req"]
    show ?thesis using d True by (auto simp: answer_def)
  next
    case False
    from dispatch_unknown [OF this] d False show ?thesis by auto
  qed
qed

theorem response_id_from_params_witness:
  "fst (process_request_from_value True demo_env (demo_call 1)
      (JObject [(''jsonrpc'', JString ''2.0''), (''method'', JString ''ping''), (''id'', jnum 7)]) (demo_node None None)) =
    Ok (rpc_success None (JObject [(''pong'', JBool True)])) \<and>
   jr_id (rpc_success None (JObject [(''pong'', JBool True)])) = None"
proof -
  let ?req = "JObject [(''jsonrpc'', JString ''2.0''), (''method'', JString ''ping''), (''id'', jnum 7)]"
  have ping: "fst (process_request_from_value True demo_env (demo_call 1) ?req (demo_node None None)) =
    Ok (rpc_success None (JObject [(''pong'', JBool True)]))"
    by (simp add: process_request_from_value_def get_str_def dispatch_def arms_def handle_ping_def plain_success_def)
  moreover from response_id_from_params [OF _ _ this, of "''ping''"]
  have "jr_id (rpc_success None (JObject [(''pong'', JBool True)])) = None"
    by (simp add: get_str_def arms_def)
  ultimately show ?thesis by blast
qed

text \<open>
  With the peer-to-peer layer enabled, every status request panics its connection, and so
  does a stamp routed to another node, and a cross-node verification that the local calendar
  does not decide: the handlers block on a future inside the runtime that drives them.
\<close>

theorem p2p_requests_panic:
  assumes "sv_communerd s = Some com"
  shows "process_request_from_value True E inp (rpc_envelope ''status'' ps) s = (Panic, s) \<and>
    (parse_route_stamp_params E ps = Ok rps \<and> rsp_target_tbid rps \<noteq> to_hex (ne_hex_encode E) (sv_tbid s) \<longrightarrow>
      process_request_from_value True E inp (rpc_envelope ''route_stamp'' ps) s = (Panic, s)) \<and>
    (parse_verify_params E ps = Ok vp \<and> vp_cross_node vp \<and> fr_tbid (vp_foretis vp) \<noteq> sv_tbid s \<and>
      ne_foretis_of_json E (vp_foretis_value vp) = Ok f \<and>
      try_local_verify E s (vp_foretis vp) (vp_signature vp) (vp_signature_algorithm vp) (vp_content vp) =
        (Ok False :: (_, node_error) result) \<longrightarrow>
      process_request_from_value True E inp (rpc_envelope ''verify'' ps) s = (Panic, s))"
  using assms
  by (simp add: process_envelope dispatch_eqs handle_status_def handle_route_stamp_def handle_verify_def
      build_cross_node_verify_response_def Let_def or_error_def block_on_def from_json_text_def)

definition demo_com :: communerd_api where
  "demo_com = \<lparr>ca_route_stamp = (\<lambda>_ _ _. Err (Internal [])), ca_get_chronon = (\<lambda>_ _. Err []),
     ca_known_peers = [''p''], ca_peer_score = (\<lambda>_. (0, 0))\<rparr>"

theorem p2p_requests_panic_witness:
  "process_request_from_value True demo_env (demo_call 1) (rpc_envelope ''status'' JNull) (demo_node None (Some demo_com)) =
     (Panic, demo_node None (Some demo_com)) \<and>
   process_request_from_value True demo_env (demo_call 1)
     (rpc_envelope ''route_stamp'' (JObject [(''target_tbid'', JString ''t''), (''content'', JString ''c'')]))
     (demo_node None (Some demo_com)) = (Panic, demo_node None (Some demo_com))"
proof -
  have com: "sv_communerd (demo_node None (Some demo_com)) = Some demo_com" by simp
  have "parse_route_stamp_params demo_env (JObject [(''target_tbid'', JString ''t''), (''content'', JString ''c'')]) =
      Ok \<lparr>rsp_target_tbid = ''t'', rsp_content_hex = ''c'', rsp_content = as_bytes ''c'', rsp_echo = []\<rparr>"
    by (simp add: parse_route_stamp_params_def get_str_def MAX_CONTENT_BYTES_def)
  moreover have "''t'' \<noteq> to_hex char_hex demo_tbid"
  proof
    assume "''t'' = to_hex char_hex demo_tbid"
    then have "length ''t'' = length (to_hex char_hex demo_tbid)" by (rule arg_cong)
    then show False by (simp add: to_hex_def demo_tbid_def from_raw_def)
  qed
  ultimately show ?thesis
    using p2p_requests_panic [OF com, THEN conjunct1]
      p2p_requests_panic [OF com, THEN conjunct2, THEN conjunct1, rule_format,
        of demo_env "JObject [(''target_tbid'', JString ''t''), (''content'', JString ''c'')]"] by simp
qed

text \<open>
  Every verdict that \<^verbatim>\<open>verify\<close> answers with is the local calendar's: the cross-node path
  parses the foretis without its signature, so that it never ends in a verdict.
\<close>

theorem verify_verdicts_local:
  assumes "ne_crypto E = software_crypto_server (ne_ffi E) k0"
    and "handle_verify rt E ps s = (Ok resp, s')" and "jr_result resp = Some v"
  shows "\<exists>vp ok. parse_verify_params E ps = Ok vp \<and>
    try_local_verify E s (vp_foretis vp) (vp_signature vp) (vp_signature_algorithm vp) (vp_content vp) =
      (Ok ok :: (_, node_error) result) \<and>
    jget ''valid'' v = Some (JBool ok) \<and> jget ''method'' v = Some (JString ''local'')"
proof -
  have refused: "cross_node_verify E s (from_parsed f) content tb \<noteq> Ok ok" for f content tb ok
  proof -
    have "foretis_into_clean_authenticated (ne_postcard E) (ne_crypto E) content tick (from_parsed f) \<noteq> Ok a" for tick a
      by (auto simp: foretis_into_clean_authenticated_def verify_foretis_def Let_def assms(1) from_parsed_def
          result_simps verify_Ok_True_iff sw_verify_with_short_sig split: if_splits)
    then show ?thesis by (auto simp: cross_node_verify_def result_simps)
  qed
  have "jr_result resp = None" if "build_cross_node_verify_response rt E i fv content tb s = (Ok resp, s')" for i fv content tb
    using that refused
    by (auto simp: build_cross_node_verify_response_def or_error_def block_on_def response_defs slift_def
        from_json_text_def result_simps split: answer_splits)
  then show ?thesis
    using assms(2,3)
    by (auto simp: handle_verify_def Let_def or_error_def response_defs slift_def sbind_def dormant_success_def
        rpc_success_def dormant_error_def rpc_error_def split: answer_splits)
qed

theorem verify_verdicts_local_witness:
  "\<exists>ok. try_local_verify demo_env (demo_node None None) \<lparr>fr_chronon_number = 5, fr_content_hash = [], fr_tbid = demo_tbid,
      fr_echo = [], fr_tbn = [], fr_time_being_reference_time = []\<rparr> [] ''Ed25519'' [1] =
    (Ok ok :: (_, node_error) result) \<and> \<not> ok"
proof -
  let ?f = "\<lparr>fr_chronon_number = 5, fr_content_hash = [], fr_tbid = demo_tbid,
      fr_echo = [], fr_tbn = [], fr_time_being_reference_time = []\<rparr>"
  let ?ps = "JObject [(''content'', JString [CHR 0x01]), (''foretis'', demo_foretis_json ?f)]"
  let ?v = "JObject [(''valid'', JBool False), (''method'', JString ''local''),
    (''note'', JString ''foretis.tbid not found in local calendar'')]"
  have ps: "parse_verify_params demo_env ?ps = Ok \<lparr>vp_content = [1], vp_foretis = ?f,
      vp_foretis_value = demo_foretis_json ?f, vp_signature = [], vp_signature_algorithm = ''Ed25519'',
      vp_cross_node = False\<rparr>"
    by (simp add: parse_verify_params_def get_str_def get_bool_def hex_or_empty_def MAX_CONTENT_BYTES_def as_bytes_def)
  have "handle_verify True demo_env ?ps (demo_node None None) = (Ok (rpc_success None ?v), demo_node None None)"
    by (simp add: handle_verify_def ps or_error_def try_local_verify_def cal_get_def demo_node_def sv_calendar_def
        calendar_new_def resp_success_def is_dormant_def demo_start_def)
  from verify_verdicts_local [OF _ this, of "[]"] show ?thesis by (simp add: ps)
qed

text \<open>
  A verify request for a stored chronon and the right content, but with a signature of
  fewer than 64 bytes or none at all, panics instead of answering that it is not valid.
\<close>

theorem short_signature_panics:
  assumes "ne_crypto E = software_crypto_server (ne_ffi E) k0" and "sc_inv (sv_calendar s)"
    and "parse_verify_params E ps = Ok vp" and "r \<in> set (sc_records (sv_calendar s))"
    and "cr_chronon_number r = fr_chronon_number (vp_foretis vp)"
    and "sha256 (ne_ffi E) (vp_content vp) = Ok (fr_content_hash (vp_foretis vp))"
    and "is_ok (ne_postcard E (vp_foretis vp))"
    and "vp_signature_algorithm vp = ''Ed25519''" and "length (vp_signature vp) < 64"
  shows "process_request_from_value rt E inp (rpc_envelope ''verify'' ps) s = (Panic, s)"
proof -
  from sc.get_exact [OF assms(2,4)] assms(5)
  have get: "cal_get (sc_inner (sv_calendar s)) (fr_chronon_number (vp_foretis vp)) 1 = Ok [r]"
    by (simp add: sc_get_def)
  obtain m where "ne_postcard E (vp_foretis vp) = Ok m" using assms(7) by (auto simp: is_ok_iff)
  then have "try_local_verify E s (vp_foretis vp) (vp_signature vp) (vp_signature_algorithm vp) (vp_content vp) =
      (Panic :: (_, node_error) result)"
    using get assms(1,6,8)
    by (simp add: try_local_verify_def Let_def verify_def cal_lookup_def as_lookup_def
        sw_verify_with_short_sig [OF assms(9)])
  then show ?thesis
    using assms(3) by (simp add: process_envelope dispatch_eqs handle_verify_def Let_def or_error_def)
qed

text \<open>A node whose calendar holds one chronon.\<close>

definition stocked_node :: "bytes time_family_server" where
  "stocked_node = set_calendar ((sv_calendar (demo_node None None))\<lparr>sc_inner :=
     (sc_inner (sv_calendar (demo_node None None)))\<lparr>ticks := [tick_numbered 3]\<rparr>\<rparr>) (demo_node None None)"

theorem short_signature_panics_witness:
  "process_request_from_value True demo_env (demo_call 1) (rpc_envelope ''verify''
      (JObject [(''content'', JString ''c''), (''foretis'', demo_foretis_json
         \<lparr>fr_chronon_number = 3, fr_content_hash = demo_tag 31 (as_bytes ''c''), fr_tbid = demo_tbid, fr_echo = [],
          fr_tbn = [], fr_time_being_reference_time = []\<rparr>)])) stocked_node = (Panic, stocked_node)"
proof -
  let ?f = "\<lparr>fr_chronon_number = 3, fr_content_hash = demo_tag 31 (as_bytes ''c''), fr_tbid = demo_tbid, fr_echo = [],
    fr_tbn = [], fr_time_being_reference_time = []\<rparr>"
  let ?ps = "JObject [(''content'', JString ''c''), (''foretis'', demo_foretis_json ?f)]"
  have ps: "parse_verify_params demo_env ?ps = Ok \<lparr>vp_content = as_bytes ''c'', vp_foretis = ?f,
      vp_foretis_value = demo_foretis_json ?f, vp_signature = [], vp_signature_algorithm = ''Ed25519'',
      vp_cross_node = False\<rparr>"
    by (simp add: parse_verify_params_def get_str_def get_bool_def hex_or_empty_def MAX_CONTENT_BYTES_def as_bytes_def)
  have "sv_calendar stocked_node = (sv_calendar (demo_node None None))\<lparr>sc_inner :=
      (sc_inner (sv_calendar (demo_node None None)))\<lparr>ticks := [tick_numbered 3]\<rparr>\<rparr>"
    by (simp add: stocked_node_def sv_calendar_def set_calendar_def)
  then have cal: "sc_inv (sv_calendar stocked_node)" "tick_numbered 3 \<in> set (sc_records (sv_calendar stocked_node))"
    by (simp_all add: sc_inv_def cal_inv_def sc_records_def)
  show ?thesis
    by (rule short_signature_panics [OF _ cal(1) ps cal(2)]) (simp_all add: tick_numbered_def)
qed

end
