(* ===== verification/Peer_Record.thy ===== *)
theory Peer_Record
  imports Demo_Crypto Json
begin

section \<open>Registration records of peers\<close>

text \<open>
  Models \<^verbatim>\<open>PeerRegistrationRecord\<close> and \<^verbatim>\<open>validate_peer_registration\<close> of
  \<^verbatim>\<open>foretias-server/src/communerd/mod.rs\<close>, the capabilities of
  \<^verbatim>\<open>communerd/capabilities.rs\<close>, and the address type and transport choice of
  \<^verbatim>\<open>communerd/transport.rs\<close>. The postcard and hex crates are arguments. A peer id is its text.
\<close>

subsection \<open>Capabilities\<close>

datatype peer_capability = AttestWilling | MirrorWilling | VerifierWilling

fun capability_discriminant :: "peer_capability \<Rightarrow> u8" where
  "capability_discriminant AttestWilling = 1"
| "capability_discriminant MirrorWilling = 2"
| "capability_discriminant VerifierWilling = 3"

fun provider_key_suffix :: "peer_capability \<Rightarrow> string" where
  "provider_key_suffix AttestWilling = ''/foretias/attest-willing/v1''"
| "provider_key_suffix MirrorWilling = ''/foretias/mirror-willing/v1''"
| "provider_key_suffix VerifierWilling = ''/foretias/verifier-willing/v1''"

definition provider_key :: "string \<Rightarrow> peer_capability \<Rightarrow> string" where
  "provider_key namespace c = namespace @ provider_key_suffix c"

definition default_capabilities :: "peer_capability list" where
  "default_capabilities = [AttestWilling]"

subsection \<open>Addresses\<close>

record net_peer_addr =
  na_json_rpc :: string
  na_peer_id :: "string option"
  na_last_seen_ns :: u64

datatype transport_kind = DirectJsonRpc | Libp2pStreams

definition select_transport :: "net_peer_addr \<Rightarrow> transport_kind" where
  "select_transport peer = (if na_json_rpc peer \<noteq> [] then DirectJsonRpc else Libp2pStreams)"

subsection \<open>The record\<close>

record peer_record =
  pg_peer_id :: string
  pg_tbid :: string
  pg_multiaddr :: string
  pg_json_rpc :: string
  pg_chronon_ns :: u64
  pg_registered_at_ns :: u64
  pg_capabilities :: "peer_capability list"
  pg_signature :: bytes

definition peer_record_new ::
    "string \<Rightarrow> string \<Rightarrow> string \<Rightarrow> string \<Rightarrow> u64 \<Rightarrow> u64 \<Rightarrow> peer_capability list \<Rightarrow> peer_record" where
  "peer_record_new peer_id tb multiaddr json_rpc chronon_ns registered_at_ns caps =
     \<lparr>pg_peer_id = peer_id, pg_tbid = tb, pg_multiaddr = multiaddr, pg_json_rpc = json_rpc,
      pg_chronon_ns = chronon_ns, pg_registered_at_ns = registered_at_ns, pg_capabilities = caps,
      pg_signature = []\<rparr>"

definition pg_set_signature :: "bytes \<Rightarrow> peer_record \<Rightarrow> peer_record" where
  "pg_set_signature sig r = r\<lparr>pg_signature := sig\<rparr>"

text \<open>Changing what the signature covers clears it.\<close>

definition set_multiaddr :: "string \<Rightarrow> peer_record \<Rightarrow> peer_record" where
  "set_multiaddr a r = r\<lparr>pg_multiaddr := a, pg_signature := []\<rparr>"

definition set_peer_id :: "string \<Rightarrow> peer_record \<Rightarrow> peer_record" where
  "set_peer_id i r = r\<lparr>pg_peer_id := i, pg_signature := []\<rparr>"

definition set_json_rpc :: "string \<Rightarrow> peer_record \<Rightarrow> peer_record" where
  "set_json_rpc a r = r\<lparr>pg_json_rpc := a, pg_signature := []\<rparr>"

definition set_capabilities :: "peer_capability list \<Rightarrow> peer_record \<Rightarrow> peer_record" where
  "set_capabilities cs r = r\<lparr>pg_capabilities := cs, pg_signature := []\<rparr>"

type_synonym postcard_peer = "peer_record \<Rightarrow> (bytes, string) result"

text \<open>The \<^verbatim>\<open>expect\<close> on the encoder is a panic.\<close>

definition canonical_payload :: "postcard_peer \<Rightarrow> peer_record \<Rightarrow> (bytes, 'e) result" where
  "canonical_payload pc r = (case pc (r\<lparr>pg_signature := []\<rparr>) of Ok b \<Rightarrow> Ok b | _ \<Rightarrow> Panic)"

subsection \<open>Validation\<close>

definition is_ascii_hexdigit :: "char \<Rightarrow> bool" where
  "is_ascii_hexdigit c \<longleftrightarrow> (let n = of_char c :: nat in
     48 \<le> n \<and> n \<le> 57 \<or> 97 \<le> n \<and> n \<le> 102 \<or> 65 \<le> n \<and> n \<le> 70)"

text \<open>
  The structural checks, then the signature: none is accepted, one that is there is checked
  with the first 32 bytes of the TBID.
\<close>

definition validate_peer_registration ::
    "(string \<Rightarrow> (bytes, string) result) \<Rightarrow> postcard_peer \<Rightarrow> crypto_server \<Rightarrow> peer_record \<Rightarrow>
     (bool, node_error) result" where
  "validate_peer_registration hex_decode pc crypto r =
     (if pg_peer_id r = [] then Ok False
      else if length (pg_tbid r) < 64 \<or> list_ex (\<lambda>c. \<not> is_ascii_hexdigit c) (pg_tbid r) then Ok False
      else if pg_json_rpc r = [] then Ok False
      else if pg_signature r = [] then Ok True
      else (case hex_decode (pg_tbid r) of
          Err e \<Rightarrow> Ok False
        | Panic \<Rightarrow> Panic
        | Ok pubkey \<Rightarrow>
            if length pubkey < 32 then Ok False
            else rbind (canonical_payload pc r) (\<lambda>canon.
              rmap_err Crypto (cs_verify_with crypto (take 32 pubkey) ''Ed25519'' canon (pg_signature r)))))"

text \<open>What the validator accepts, as one condition.\<close>

definition well_formed_peer :: "peer_record \<Rightarrow> bool" where
  "well_formed_peer r \<longleftrightarrow> pg_peer_id r \<noteq> [] \<and> 64 \<le> length (pg_tbid r) \<and>
     list_all is_ascii_hexdigit (pg_tbid r) \<and> pg_json_rpc r \<noteq> []"

lemma validate_malformed: "\<not> well_formed_peer r \<Longrightarrow> validate_peer_registration dec pc crypto r = Ok False"
  by (auto simp: validate_peer_registration_def well_formed_peer_def list_ex_iff list_all_iff)

lemma validate_unsigned:
  "well_formed_peer r \<Longrightarrow> pg_signature r = [] \<Longrightarrow> validate_peer_registration dec pc crypto r = Ok True"
  by (auto simp: validate_peer_registration_def well_formed_peer_def list_ex_iff list_all_iff)

lemma validate_signed:
  assumes "well_formed_peer r" and "pg_signature r \<noteq> []"
    and "dec (pg_tbid r) = Ok pub" and "32 \<le> length pub" and "pc (r\<lparr>pg_signature := []\<rparr>) = Ok m"
  shows "validate_peer_registration dec pc crypto r =
    rmap_err Crypto (cs_verify_with crypto (take 32 pub) ''Ed25519'' m (pg_signature r))"
proof -
  have "\<not> (length (pg_tbid r) < 64 \<or> list_ex (\<lambda>c. \<not> is_ascii_hexdigit c) (pg_tbid r))"
    using assms(1) by (auto simp: well_formed_peer_def list_ex_iff list_all_iff)
  with assms show ?thesis
    by (simp add: validate_peer_registration_def well_formed_peer_def canonical_payload_def)
qed

text \<open>A signature of fewer than 64 bytes panics the software backend.\<close>

lemma validate_short_signature:
  assumes "well_formed_peer r" and "pg_signature r \<noteq> []" and "length (pg_signature r) < 64"
    and "dec (pg_tbid r) = Ok pub" and "32 \<le> length pub" and "pc (r\<lparr>pg_signature := []\<rparr>) = Ok m"
  shows "validate_peer_registration dec pc (software_crypto_server F k) r = Panic"
  using assms(3) by (simp add: validate_signed [where dec = dec and pc = pc, OF assms(1,2,4-6)] sw_verify_with_short_sig)

text \<open>Every setter leaves a record that is accepted or refused by its form alone.\<close>

lemma setters_unsign [simp]:
  "pg_signature (set_multiaddr a r) = []" "pg_signature (set_peer_id i r) = []"
  "pg_signature (set_json_rpc a r) = []" "pg_signature (set_capabilities cs r) = []"
  by (simp_all add: set_multiaddr_def set_peer_id_def set_json_rpc_def set_capabilities_def)

end
