(* ===== verification/Communerdette.thy ===== *)
theory Communerdette
  imports Peer_Record Stateful
begin

section \<open>The relationship with one TBID\<close>

text \<open>
  Models the state of \<^verbatim>\<open>Communerdette\<close> and the operations on it in
  \<^verbatim>\<open>foretias-server/src/communerd/communerdette.rs\<close>: bindings, route statistics and backoff,
  the choice of a route, liveness flags. The smoothed round-trip time is a float that decides
  nothing: it is kept as its bit pattern, and the moving average is the argument \<open>mix\<close>.
\<close>

subsection \<open>State\<close>

datatype tbid_binding_status =
    BindingUnknown
  | ClaimedByDht "string option" "string option" u64
  | BindingVerified "string option" "string option" u64 "u64 option"
  | BindingRejected string u64

fun is_verified :: "tbid_binding_status \<Rightarrow> bool" where
  "is_verified (BindingVerified _ _ _ _) = True"
| "is_verified _ = False"

fun has_any_claim :: "tbid_binding_status \<Rightarrow> bool" where
  "has_any_claim BindingUnknown = False"
| "has_any_claim (BindingRejected _ _) = False"
| "has_any_claim _ = True"

datatype active_route = Libp2pDirect | NoiseJsonRpc | RouteUnavailable

type_synonym f64 = u64

record communerdette_stats =
  ss_last_success_ns :: "u64 option"
  ss_last_failure_ns :: "u64 option"
  ss_consecutive_failures :: u32
  ss_libp2p_successes :: u64
  ss_libp2p_failures :: u64
  ss_noise_successes :: u64
  ss_noise_failures :: u64
  ss_smoothed_rtt_ms :: "f64 option"
  ss_queue_depth :: nat

definition stats_default :: communerdette_stats where
  "stats_default = \<lparr>ss_last_success_ns = None, ss_last_failure_ns = None, ss_consecutive_failures = 0,
     ss_libp2p_successes = 0, ss_libp2p_failures = 0, ss_noise_successes = 0, ss_noise_failures = 0,
     ss_smoothed_rtt_ms = None, ss_queue_depth = 0\<rparr>"

record route_stats =
  rs_success_count :: u64
  rs_failure_count :: u64
  rs_last_success_ns :: "u64 option"
  rs_last_failure_ns :: "u64 option"
  rs_smoothed_rtt_ms :: "f64 option"
  rs_consecutive_failures :: u32
  rs_last_application_rpc_ns :: "u64 option"

definition route_stats_default :: route_stats where
  "route_stats_default = \<lparr>rs_success_count = 0, rs_failure_count = 0, rs_last_success_ns = None,
     rs_last_failure_ns = None, rs_smoothed_rtt_ms = None, rs_consecutive_failures = 0,
     rs_last_application_rpc_ns = None\<rparr>"

record liveness_cycle_flags =
  lf_l1_last_ok :: bool
  lf_l2_last_ok :: bool
  lf_binding_rejected :: bool
  lf_last_application_rpc_ns :: u64

definition liveness_cycle_flags_new :: liveness_cycle_flags where
  "liveness_cycle_flags_new = \<lparr>lf_l1_last_ok = True, lf_l2_last_ok = True, lf_binding_rejected = False,
     lf_last_application_rpc_ns = 0\<rparr>"

record liveness_policy =
  lp_l1_interval_ms :: u64
  lp_l2_interval_ms :: u64
  lp_l3_interval_ms :: u64
  lp_run_l2 :: bool
  lp_run_l3 :: bool

definition liveness_policy_default :: liveness_policy where
  "liveness_policy_default = \<lparr>lp_l1_interval_ms = 5000, lp_l2_interval_ms = 30000,
     lp_l3_interval_ms = 86400000, lp_run_l2 = True, lp_run_l3 = True\<rparr>"

record communerdette =
  cd_target_tbid :: tbid
  cd_binding :: tbid_binding_status
  cd_active_route :: active_route
  cd_stats :: communerdette_stats
  cd_backoff_until_ns :: "u64 option"
  cd_route_stats :: "active_route \<rightharpoonup> route_stats"
  cd_route_candidates :: "peer_record list"
  cd_binding_proof_requested :: bool
  cd_binding_proof_verified :: bool
  cd_last_liveness_probe_ns :: "u64 option"
  cd_liveness_interval_ms :: u64
  cd_liveness_policy :: liveness_policy
  cd_liveness_flags :: liveness_cycle_flags
  cd_shutdown :: bool

definition communerdette_new :: "tbid \<Rightarrow> communerdette" where
  "communerdette_new t = \<lparr>cd_target_tbid = t, cd_binding = BindingUnknown,
     cd_active_route = RouteUnavailable, cd_stats = stats_default, cd_backoff_until_ns = None,
     cd_route_stats = Map.empty, cd_route_candidates = [], cd_binding_proof_requested = False,
     cd_binding_proof_verified = False, cd_last_liveness_probe_ns = None,
     cd_liveness_interval_ms = 30000, cd_liveness_policy = liveness_policy_default,
     cd_liveness_flags = liveness_cycle_flags_new, cd_shutdown = False\<rparr>"

subsection \<open>Route statistics and backoff\<close>

text \<open>A counter is incremented for its own route only; \<open>on_stats\<close> writes what a fallible step computes.\<close>

definition tally :: "bool \<Rightarrow> bool \<Rightarrow> u64 \<Rightarrow> (u64, node_error) result" where
  "tally debug own n = (if own then add_u64 debug n 1 else Ok n)"

definition on_stats ::
    "(communerdette_stats \<Rightarrow> (communerdette_stats, node_error) result) \<Rightarrow> (communerdette, unit, node_error) stateful" where
  "on_stats f s = (case f (cd_stats s) of
     Ok st \<Rightarrow> (Ok (), s\<lparr>cd_stats := st\<rparr>) | Err e \<Rightarrow> (Err e, s) | Panic \<Rightarrow> (Panic, s))"

definition on_route ::
    "active_route \<Rightarrow> (route_stats \<Rightarrow> (route_stats, node_error) result) \<Rightarrow> (communerdette, unit, node_error) stateful" where
  "on_route route f s = (case f (unwrap_or route_stats_default (cd_route_stats s route)) of
     Ok rs \<Rightarrow> (Ok (), s\<lparr>cd_route_stats := (cd_route_stats s)(route \<mapsto> rs)\<rparr>)
   | Err e \<Rightarrow> (Err e, s) | Panic \<Rightarrow> (Panic, s))"

definition smooth :: "(f64 \<Rightarrow> f64 \<Rightarrow> f64) \<Rightarrow> f64 \<Rightarrow> f64 option \<Rightarrow> f64" where
  "smooth mix rtt_ms prev = (case prev of Some p \<Rightarrow> mix rtt_ms p | None \<Rightarrow> rtt_ms)"

definition record_success ::
    "bool \<Rightarrow> (f64 \<Rightarrow> f64 \<Rightarrow> f64) \<Rightarrow> u64 \<Rightarrow> f64 \<Rightarrow> route_stats \<Rightarrow> (route_stats, node_error) result" where
  "record_success debug mix now_ns rtt_ms rs =
     rbind (add_u64 debug (rs_success_count rs) 1) (\<lambda>n.
       Ok (rs\<lparr>rs_success_count := n, rs_last_success_ns := Some now_ns, rs_consecutive_failures := 0,
              rs_smoothed_rtt_ms := Some (smooth mix rtt_ms (rs_smoothed_rtt_ms rs))\<rparr>))"

definition record_application_rpc_success :: "u64 \<Rightarrow> route_stats \<Rightarrow> route_stats" where
  "record_application_rpc_success now_ns rs = rs\<lparr>rs_last_application_rpc_ns := Some now_ns\<rparr>"

definition record_failure :: "bool \<Rightarrow> u64 \<Rightarrow> route_stats \<Rightarrow> (route_stats, node_error) result" where
  "record_failure debug now_ns rs =
     rbind (add_u64 debug (rs_failure_count rs) 1) (\<lambda>n.
     rbind (add_u32 debug (rs_consecutive_failures rs) 1) (\<lambda>c.
       Ok (rs\<lparr>rs_failure_count := n, rs_last_failure_ns := Some now_ns, rs_consecutive_failures := c\<rparr>)))"

definition record_route_success ::
    "bool \<Rightarrow> (f64 \<Rightarrow> f64 \<Rightarrow> f64) \<Rightarrow> active_route \<Rightarrow> u64 \<Rightarrow> f64 \<Rightarrow> (communerdette, unit, node_error) stateful" where
  "record_route_success debug mix route now_ns rtt_ms =
     sbind (on_stats (\<lambda>st. rbind (tally debug (route = Libp2pDirect) (ss_libp2p_successes st)) (\<lambda>n.
              Ok (st\<lparr>ss_libp2p_successes := n\<rparr>)))) (\<lambda>_.
     sbind (on_stats (\<lambda>st. rbind (tally debug (route = NoiseJsonRpc) (ss_noise_successes st)) (\<lambda>n.
              Ok (st\<lparr>ss_noise_successes := n\<rparr>)))) (\<lambda>_.
     sbind (on_stats (\<lambda>st. Ok (st\<lparr>ss_last_success_ns := Some now_ns, ss_consecutive_failures := 0\<rparr>))) (\<lambda>_.
     sbind (smod (\<lambda>s. s\<lparr>cd_backoff_until_ns := None\<rparr>)) (\<lambda>_.
     sbind (on_stats (\<lambda>st. Ok (st\<lparr>ss_smoothed_rtt_ms := Some (smooth mix rtt_ms (ss_smoothed_rtt_ms st))\<rparr>))) (\<lambda>_.
       on_route route (record_success debug mix now_ns rtt_ms))))))"

text \<open>
  The next backoff in nanoseconds. The code computes it in floating point; below the cap of
  32 s every number involved is exact, and above \<^verbatim>\<open>2^53\<close> the rounding keeps it above the cap.
\<close>

definition next_backoff :: "nat \<Rightarrow> u64" where
  "next_backoff current = word_of_nat (min (2 * current) 32000000000)"

definition current_backoff :: "bool \<Rightarrow> u64 \<Rightarrow> u64 option \<Rightarrow> (nat, node_error) result" where
  "current_backoff debug now_ns backoff_until_ns = (case backoff_until_ns of
     None \<Rightarrow> Ok 1 | Some b \<Rightarrow> rbind (sub_u64 debug now_ns b) (\<lambda>d. Ok (unat d)))"

definition record_route_failure ::
    "bool \<Rightarrow> active_route \<Rightarrow> u64 \<Rightarrow> (communerdette, unit, node_error) stateful" where
  "record_route_failure debug route now_ns =
     sbind (on_stats (\<lambda>st. rbind (tally debug (route = Libp2pDirect) (ss_libp2p_failures st)) (\<lambda>n.
              Ok (st\<lparr>ss_libp2p_failures := n\<rparr>)))) (\<lambda>_.
     sbind (on_stats (\<lambda>st. rbind (tally debug (route = NoiseJsonRpc) (ss_noise_failures st)) (\<lambda>n.
              Ok (st\<lparr>ss_noise_failures := n\<rparr>)))) (\<lambda>_.
     sbind (on_stats (\<lambda>st. Ok (st\<lparr>ss_last_failure_ns := Some now_ns\<rparr>))) (\<lambda>_.
     sbind (on_stats (\<lambda>st. rbind (add_u32 debug (ss_consecutive_failures st) 1) (\<lambda>c.
              Ok (st\<lparr>ss_consecutive_failures := c\<rparr>)))) (\<lambda>_.
     sbind (sget cd_backoff_until_ns) (\<lambda>until_ns.
     sbind (slift (current_backoff debug now_ns until_ns)) (\<lambda>current.
     sbind (slift (add_u64 debug now_ns (next_backoff current))) (\<lambda>until_ns.
     sbind (smod (\<lambda>s. s\<lparr>cd_backoff_until_ns := Some until_ns\<rparr>)) (\<lambda>_.
       on_route route (record_failure debug now_ns)))))))))"

definition is_in_backoff :: "u64 \<Rightarrow> communerdette \<Rightarrow> bool" where
  "is_in_backoff now_ns s = (case cd_backoff_until_ns s of Some until_ns \<Rightarrow> now_ns < until_ns | None \<Rightarrow> False)"

text \<open>\<^verbatim>\<open>checked_pow(2)\<close> of the failures, at least one; 32 when it does not fit.\<close>

definition backoff_multiplier :: "communerdette \<Rightarrow> u32" where
  "backoff_multiplier s =
     (let n = max (unat (ss_consecutive_failures (cd_stats s))) 1
      in if n ^ 2 < 2 ^ 32 then word_of_nat (n ^ 2) else 32)"

subsection \<open>Routes\<close>

definition set_active_route :: "active_route \<Rightarrow> communerdette \<Rightarrow> communerdette" where
  "set_active_route route s = s\<lparr>cd_active_route := route\<rparr>"

definition add_route_candidate :: "peer_record \<Rightarrow> communerdette \<Rightarrow> communerdette" where
  "add_route_candidate r s =
     s\<lparr>cd_route_candidates := cd_route_candidates s @ [r], cd_active_route := Libp2pDirect\<rparr>"

definition has_candidate :: "(peer_record \<Rightarrow> string) \<Rightarrow> communerdette \<Rightarrow> bool" where
  "has_candidate field s = list_ex (\<lambda>r. field r \<noteq> []) (cd_route_candidates s)"

definition route_healthy :: "bool \<Rightarrow> active_route \<Rightarrow> communerdette \<Rightarrow> bool" where
  "route_healthy absent route s = (case cd_route_stats s route of
     None \<Rightarrow> absent | Some rs \<Rightarrow> rs_consecutive_failures rs < 5)"

text \<open>The four passes over the candidates.\<close>

definition choose_route_with_host :: "bool \<Rightarrow> communerdette \<Rightarrow> active_route" where
  "choose_route_with_host swarm_active s =
     (if swarm_active \<and> has_candidate pg_peer_id s \<and> route_healthy True Libp2pDirect s then Libp2pDirect
      else if route_healthy False NoiseJsonRpc s \<and> has_candidate pg_json_rpc s then NoiseJsonRpc
      else if swarm_active \<and> has_candidate pg_peer_id s then Libp2pDirect
      else if has_candidate pg_json_rpc s then NoiseJsonRpc
      else RouteUnavailable)"

definition route_candidates_count :: "communerdette \<Rightarrow> nat" where
  "route_candidates_count s = length (cd_route_candidates s)"

subsection \<open>Bindings\<close>

definition mark_binding_claimed_by_dht ::
    "string option \<Rightarrow> string option \<Rightarrow> u64 \<Rightarrow> communerdette \<Rightarrow> communerdette" where
  "mark_binding_claimed_by_dht peer_id json_rpc observed_at_ns s =
     s\<lparr>cd_binding := ClaimedByDht peer_id json_rpc observed_at_ns\<rparr>"

definition mark_binding_verified ::
    "string option \<Rightarrow> string option \<Rightarrow> u64 \<Rightarrow> communerdette \<Rightarrow> communerdette" where
  "mark_binding_verified peer_id json_rpc verified_at_ns s =
     s\<lparr>cd_binding := BindingVerified peer_id json_rpc verified_at_ns None, cd_binding_proof_verified := True\<rparr>"

definition mark_binding_rejected :: "string \<Rightarrow> u64 \<Rightarrow> communerdette \<Rightarrow> communerdette" where
  "mark_binding_rejected reason observed_at_ns s = s\<lparr>cd_binding := BindingRejected reason observed_at_ns\<rparr>"

definition update_from_dht_record :: "peer_record \<Rightarrow> u64 \<Rightarrow> communerdette \<Rightarrow> communerdette" where
  "update_from_dht_record r now_ns s =
     add_route_candidate r (mark_binding_claimed_by_dht (Some (pg_peer_id r)) (Some (pg_json_rpc r)) now_ns s)"

text \<open>The answers of the host: its cached record of the TBID, and that of a lookup in the DHT.\<close>

definition refresh_dht_binding ::
    "peer_record option \<Rightarrow> peer_record option \<Rightarrow> u64 \<Rightarrow> communerdette \<Rightarrow> tbid_binding_status \<times> communerdette" where
  "refresh_dht_binding cached looked_up now_ns s = (case cached of
     Some r \<Rightarrow> (let s' = update_from_dht_record r now_ns s in (cd_binding s', s'))
   | None \<Rightarrow> (case looked_up of
       Some r \<Rightarrow> (ClaimedByDht (Some (pg_peer_id r)) (Some (pg_json_rpc r)) now_ns,
                   update_from_dht_record r now_ns s)
     | None \<Rightarrow> (BindingUnknown, s)))"

definition request_tbid_binding_proof :: "(communerdette, unit, node_error) stateful" where
  "request_tbid_binding_proof =
     sbind (smod (\<lambda>s. s\<lparr>cd_binding_proof_requested := True\<rparr>)) (\<lambda>_. slift (Err (Unsupported
       ''TBID binding proof not yet implemented; proof transcript format pending'')))"

definition verify_tbid_binding_proof :: "bytes \<Rightarrow> (communerdette, unit, node_error) stateful" where
  "verify_tbid_binding_proof proof_bytes =
     slift (Err (Unsupported ''TBID binding proof verification not yet implemented''))"

subsection \<open>Liveness and shutdown\<close>

definition set_liveness_interval_ms :: "u64 \<Rightarrow> communerdette \<Rightarrow> communerdette" where
  "set_liveness_interval_ms interval_ms s = s\<lparr>cd_liveness_interval_ms := interval_ms\<rparr>"

definition record_liveness_probe :: "u64 \<Rightarrow> communerdette \<Rightarrow> communerdette" where
  "record_liveness_probe now_ns s = s\<lparr>cd_last_liveness_probe_ns := Some now_ns\<rparr>"

definition on_flags :: "(liveness_cycle_flags \<Rightarrow> liveness_cycle_flags) \<Rightarrow> communerdette \<Rightarrow> communerdette" where
  "on_flags f s = s\<lparr>cd_liveness_flags := f (cd_liveness_flags s)\<rparr>"

definition set_l1_ok :: "bool \<Rightarrow> liveness_cycle_flags \<Rightarrow> liveness_cycle_flags" where
  "set_l1_ok b f = f\<lparr>lf_l1_last_ok := b\<rparr>"

definition set_l2_ok :: "bool \<Rightarrow> liveness_cycle_flags \<Rightarrow> liveness_cycle_flags" where
  "set_l2_ok b f = f\<lparr>lf_l2_last_ok := b\<rparr>"

definition set_last_application_rpc_ns :: "u64 \<Rightarrow> liveness_cycle_flags \<Rightarrow> liveness_cycle_flags" where
  "set_last_application_rpc_ns ns f = f\<lparr>lf_last_application_rpc_ns := ns\<rparr>"

definition shutdown :: "communerdette \<Rightarrow> communerdette" where
  "shutdown s = s\<lparr>cd_shutdown := True\<rparr>"

record status_summary =
  su_target_tbid :: string
  su_binding :: tbid_binding_status
  su_active_route :: active_route
  su_stats :: communerdette_stats
  su_liveness_policy :: liveness_policy

definition status_summary_of :: "(bytes \<Rightarrow> string) \<Rightarrow> communerdette \<Rightarrow> status_summary" where
  "status_summary_of hex_encode s =
     \<lparr>su_target_tbid = to_hex hex_encode (cd_target_tbid s), su_binding = cd_binding s,
      su_active_route = cd_active_route s, su_stats = cd_stats s, su_liveness_policy = cd_liveness_policy s\<rparr>"

subsection \<open>What the operations do\<close>

lemma on_stats_Ok [simp]: "f (cd_stats s) = Ok st \<Longrightarrow> on_stats f s = (Ok (), s\<lparr>cd_stats := st\<rparr>)"
  by (simp add: on_stats_def)

text \<open>Counters far from their limits, as they are in a run of a node.\<close>

definition counters_low :: "communerdette \<Rightarrow> bool" where
  "counters_low s \<longleftrightarrow>
     (let st = cd_stats s in
      ss_libp2p_failures st < u64_max \<and> ss_noise_failures st < u64_max \<and>
      ss_consecutive_failures st < - 1 \<and>
      (\<forall>rs \<in> ran (cd_route_stats s). rs_failure_count rs < u64_max \<and> rs_consecutive_failures rs < - 1))"

lemma word_below_no_wrap: "n < m \<Longrightarrow> \<not> n + 1 < n" for n :: "'a :: len word"
proof -
  assume "n < m"
  then have "unat n + 1 < 2 ^ LENGTH('a)"
    using unsigned_less [of m, where ?'a = nat] unfolding word_less_nat_alt by linarith
  then show ?thesis by (simp add: word_less_nat_alt unat_word_ariths)
qed

lemma add_u64_below [simp]: "n < u64_max \<Longrightarrow> add_u64 debug n 1 = Ok (n + 1)"
  using word_below_no_wrap [of n u64_max] by (simp add: add_u64_def)

lemma add_u32_below [simp]: "n < - 1 \<Longrightarrow> add_u32 debug n 1 = Ok (n + 1)"
  using word_below_no_wrap [of n "- 1"] by (simp add: add_u32_def)

lemma tally_below [simp]: "n < u64_max \<Longrightarrow> tally debug own n = Ok (if own then n + 1 else n)"
  by (simp add: tally_def)

text \<open>A recorded failure gets as far as the backoff, and what it does there decides its outcome.\<close>

lemma route_failure_reaches_backoff:
  assumes "counters_low s"
  obtains st rs where
    "record_route_failure debug route now_ns s =
       (case rbind (current_backoff debug now_ns (cd_backoff_until_ns s))
               (\<lambda>c. add_u64 debug now_ns (next_backoff c)) of
          Ok until_ns \<Rightarrow> (Ok (), s\<lparr>cd_stats := st, cd_backoff_until_ns := Some until_ns,
            cd_route_stats := (cd_route_stats s)(route \<mapsto> rs)\<rparr>)
        | Err e \<Rightarrow> (Err e, s\<lparr>cd_stats := st\<rparr>)
        | Panic \<Rightarrow> (Panic, s\<lparr>cd_stats := st\<rparr>))"
    and "ss_consecutive_failures st = ss_consecutive_failures (cd_stats s) + 1"
    and "rs_consecutive_failures rs =
      rs_consecutive_failures (unwrap_or route_stats_default (cd_route_stats s route)) + 1"
proof -
  let ?st = "cd_stats s" and ?old = "unwrap_or route_stats_default (cd_route_stats s route)"
  have low: "ss_libp2p_failures ?st < u64_max" "ss_noise_failures ?st < u64_max" "ss_consecutive_failures ?st < - 1"
    using assms by (simp_all add: counters_low_def Let_def)
  have "rs_failure_count ?old < u64_max \<and> rs_consecutive_failures ?old < - 1"
    using assms by (cases "cd_route_stats s route")
      (auto simp: counters_low_def Let_def ran_def route_stats_default_def u64_max_def word_gt_0)
  then have old: "rs_failure_count ?old < u64_max" "rs_consecutive_failures ?old < - 1" by simp_all
  let ?st' = "?st\<lparr>ss_libp2p_failures := if route = Libp2pDirect then ss_libp2p_failures ?st + 1 else ss_libp2p_failures ?st,
      ss_noise_failures := if route = NoiseJsonRpc then ss_noise_failures ?st + 1 else ss_noise_failures ?st,
      ss_last_failure_ns := Some now_ns, ss_consecutive_failures := ss_consecutive_failures ?st + 1\<rparr>"
  let ?rs = "?old\<lparr>rs_failure_count := rs_failure_count ?old + 1, rs_last_failure_ns := Some now_ns,
      rs_consecutive_failures := rs_consecutive_failures ?old + 1\<rparr>"
  have rec: "record_failure debug now_ns ?old = Ok ?rs"
    using old by (simp add: record_failure_def)
  show thesis
  proof (rule that [where st = ?st' and rs = ?rs])
    show "record_route_failure debug route now_ns s =
       (case rbind (current_backoff debug now_ns (cd_backoff_until_ns s))
               (\<lambda>c. add_u64 debug now_ns (next_backoff c)) of
          Ok until_ns \<Rightarrow> (Ok (), s\<lparr>cd_stats := ?st', cd_backoff_until_ns := Some until_ns,
            cd_route_stats := (cd_route_stats s)(route \<mapsto> ?rs)\<rparr>)
        | Err e \<Rightarrow> (Err e, s\<lparr>cd_stats := ?st'\<rparr>)
        | Panic \<Rightarrow> (Panic, s\<lparr>cd_stats := ?st'\<rparr>))"
    proof (cases "rbind (current_backoff debug now_ns (cd_backoff_until_ns s))
        (\<lambda>c. add_u64 debug now_ns (next_backoff c))")
      case (Ok until_ns)
      then obtain c where "current_backoff debug now_ns (cd_backoff_until_ns s) = Ok c"
        and "add_u64 debug now_ns (next_backoff c) = (Ok until_ns :: (u64, node_error) result)" by (auto simp: result_simps)
      with Ok show ?thesis by (simp add: record_route_failure_def low on_route_def rec)
    next
      case (Err e)
      then show ?thesis
        by (auto simp: record_route_failure_def low result_simps)
    next
      case Panic
      then show ?thesis
        by (auto simp: record_route_failure_def low result_simps)
    qed
  qed simp_all
qed

lemma next_backoff_room:
  assumes "unat now_ns + 32000000000 < 2 ^ 64"
  shows "add_u64 debug now_ns (next_backoff c) = Ok (now_ns + next_backoff c)"
proof -
  have "unat (next_backoff c) \<le> 32000000000"
    unfolding next_backoff_def unat_of_nat by (rule order.trans [OF mod_less_eq_dividend]) simp
  with assms show ?thesis by (simp add: add_u64_no_overflow)
qed

text \<open>
  A failure outside a backoff starts one of 2 ns, or of twice the time since the last one
  ended, at most 32 s. A failure during a backoff panics where overflow is checked, and
  otherwise the wrapped difference makes the new backoff the longest one.
\<close>

theorem route_failure_backoff:
  assumes "counters_low s" and "unat now_ns + 32000000000 < 2 ^ 64"
    and "\<forall>b. cd_backoff_until_ns s = Some b \<longrightarrow> unat b + 32000000000 < 2 ^ 64"
    and "record_route_failure debug route now_ns s = (r, s')"
  shows "case cd_backoff_until_ns s of
      None \<Rightarrow> r = Ok () \<and> cd_backoff_until_ns s' = Some (now_ns + 2)
    | Some b \<Rightarrow>
        if b \<le> now_ns then r = Ok () \<and> cd_backoff_until_ns s' = Some (now_ns + next_backoff (unat (now_ns - b)))
        else if debug then r = Panic \<and> cd_backoff_until_ns s' = Some b
        else r = Ok () \<and> cd_backoff_until_ns s' = Some (now_ns + 32000000000)"
proof -
  obtain st rs where eq: "record_route_failure debug route now_ns s =
       (case rbind (current_backoff debug now_ns (cd_backoff_until_ns s))
               (\<lambda>c. add_u64 debug now_ns (next_backoff c)) of
          Ok until_ns \<Rightarrow> (Ok (), s\<lparr>cd_stats := st, cd_backoff_until_ns := Some until_ns,
            cd_route_stats := (cd_route_stats s)(route \<mapsto> rs)\<rparr>)
        | Err e \<Rightarrow> (Err e, s\<lparr>cd_stats := st\<rparr>)
        | Panic \<Rightarrow> (Panic, s\<lparr>cd_stats := st\<rparr>))"
    by (rule route_failure_reaches_backoff [OF assms(1)])
  show ?thesis
  proof (cases "cd_backoff_until_ns s")
    case None
    then show ?thesis
      using assms(4) unfolding eq
      by (auto simp: current_backoff_def next_backoff_room [OF assms(2)]) (simp add: next_backoff_def)
  next
    case (Some b)
    have wrapped: "next_backoff (unat (now_ns - b)) = 32000000000" if "now_ns < b"
    proof -
      have "unat b < 2 ^ 64 - 32000000000" using assms(3) Some by simp
      then have "32000000000 \<le> unat (now_ns - b)"
        using that by (simp add: unat_sub_if_size word_size word_less_nat_alt)
      then show ?thesis by (simp add: next_backoff_def)
    qed
    then show ?thesis
      using assms(4) Some unfolding eq
      by (cases "now_ns < b")
        (auto simp: current_backoff_def next_backoff_room [OF assms(2)] sub_u64_def simp flip: not_less)
  qed
qed

definition failing :: "tbid \<Rightarrow> communerdette" where
  "failing t = (communerdette_new t)\<lparr>cd_backoff_until_ns := Some 1000\<rparr>"

theorem route_failure_backoff_witness:
  "fst (record_route_failure True NoiseJsonRpc 999 (failing tbid_default)) = Panic \<and>
   cd_backoff_until_ns (snd (record_route_failure False NoiseJsonRpc 999 (failing tbid_default))) =
     Some 32000000999 \<and>
   cd_backoff_until_ns (snd (record_route_failure True NoiseJsonRpc 5 (communerdette_new tbid_default))) = Some 7"
proof -
  have low: "counters_low (failing tbid_default)" "counters_low (communerdette_new tbid_default)"
    by (simp_all add: failing_def communerdette_new_def counters_low_def stats_default_def u64_max_def word_gt_0)
  have until: "cd_backoff_until_ns (failing t) = Some 1000" "cd_backoff_until_ns (communerdette_new t) = None" for t
    by (simp_all add: failing_def communerdette_new_def)
  obtain r s' where f: "record_route_failure True NoiseJsonRpc 999 (failing tbid_default) = (r, s')" by fastforce
  obtain r1 s1 where g: "record_route_failure False NoiseJsonRpc 999 (failing tbid_default) = (r1, s1)" by fastforce
  obtain r2 s2 where h: "record_route_failure True NoiseJsonRpc 5 (communerdette_new tbid_default) = (r2, s2)" by fastforce
  show ?thesis
    using route_failure_backoff [OF low(1) _ _ f] route_failure_backoff [OF low(1) _ _ g]
      route_failure_backoff [OF low(2) _ _ h]
    by (simp add: f g h until)
qed

text \<open>
  While the libp2p layer runs and a candidate has a peer id, the JSON-RPC route is chosen
  only when it already has statistics of its own: however often libp2p failed, a route that was
  never tried is not tried.
\<close>

theorem untried_route_never_chosen:
  assumes "has_candidate pg_peer_id s" and "cd_route_stats s NoiseJsonRpc = None"
  shows "choose_route_with_host True s = Libp2pDirect"
  using assms by (simp add: choose_route_with_host_def route_healthy_def)

definition failed_five_times :: "peer_record \<Rightarrow> communerdette" where
  "failed_five_times r = (add_route_candidate r (communerdette_new tbid_default))
     \<lparr>cd_route_stats := [Libp2pDirect \<mapsto> route_stats_default\<lparr>rs_consecutive_failures := 5\<rparr>]\<rparr>"

theorem untried_route_never_chosen_witness:
  "choose_route_with_host True (failed_five_times (peer_record_new ''p'' ''t'' ''m'' ''a:1'' 0 0 [])) = Libp2pDirect"
  by (rule untried_route_never_chosen)
    (simp_all add: failed_five_times_def add_route_candidate_def communerdette_new_def has_candidate_def
      peer_record_new_def)

end
