(* ===== verification/Mirror_Laws.thy ===== *)
theory Mirror_Laws
  imports Server_Props
begin

section \<open>What the mirror handlers accept and store\<close>

subsection \<open>The gates of a batch\<close>

text \<open>
  A record passes after its predecessor, or as a first record. \<open>gate_all\<close> is what both batch
  loops check, from the record that precedes the batch.
\<close>

definition gate :: "('k, 's) node_env \<Rightarrow> chronon_record option \<Rightarrow> chronon_record \<Rightarrow> bool" where
  "gate E prev r = (case prev of
     Some p \<Rightarrow> verify_pair (ne_ffi E) (ne_crypto E) (to_hex (ne_hex_encode E) (cr_tbid p)) p r = Ok True
   | None \<Rightarrow> cr_chronon_number r = 1 \<and> cr_public_key r \<noteq> [] \<and> cr_tb_version r = 0)"

fun gate_all :: "('k, 's) node_env \<Rightarrow> chronon_record option \<Rightarrow> chronon_record list \<Rightarrow> bool" where
  "gate_all E prev [] \<longleftrightarrow> True"
| "gate_all E prev (r # rs) \<longleftrightarrow> gate E prev r \<and> gate_all E (Some r) rs"

definition cleaned :: "chronon_record unverified \<Rightarrow> chronon_record clean" where
  "cleaned u = \<lparr>ca_inner = uv_inner u, ca_signatures = uv_signatures u\<rparr>"

lemma ca_inner_cleaned [simp]: "ca_inner (cleaned u) = uv_inner u"
  by (simp add: cleaned_def)

lemma gate_after_Ok_iff: "gate_after E p u = Ok a \<longleftrightarrow> gate E (Some (ca_inner p)) (uv_inner u) \<and> a = cleaned u"
  by (auto simp: gate_after_def chronon_into_clean_authenticated_def verify_chronon_Some_Ok_iff gate_def cleaned_def)

lemma gate_genesis_Ok_iff: "gate_genesis E u = Ok a \<longleftrightarrow> gate E None (uv_inner u) \<and> a = cleaned u"
  by (auto simp: gate_genesis_def chronon_into_clean_authenticated_genesis_def verify_chronon_None_Ok_iff
      gate_def cleaned_def)

lemma gate_None_genesis: "gate E None r \<Longrightarrow> is_genesis r"
  by (simp add: gate_def is_genesis_def)

lemma verify_chunk_from_Ok_iff:
  "verify_chunk_from E m t i verified us = Ok vs \<longleftrightarrow>
     gate_all E (case list_last verified of Some p \<Rightarrow> Some (ca_inner p) | None \<Rightarrow> latest_record t m) (map uv_inner us) \<and>
     vs = verified @ map cleaned us"
proof (induction us arbitrary: i verified)
  case (Cons u us)
  show ?case
    by (auto simp: result_simps Cons gate_after_Ok_iff gate_genesis_Ok_iff ca_from_trusted_def
        split: option.splits if_splits dest: gate_None_genesis)
qed auto

lemma verify_history_dump_chunk_Ok_iff:
  "verify_history_dump_chunk E m t us = Ok vs \<longleftrightarrow>
     gate_all E (latest_record t m) (map uv_inner us) \<and> vs = map cleaned us"
  by (simp add: verify_history_dump_chunk_def verify_chunk_from_Ok_iff)

lemma verify_ship_ack_from_Ok_iff:
  "i = length verified \<Longrightarrow> verify_ship_ack_from E i verified us = Ok vs \<longleftrightarrow>
     gate_all E (map_option ca_inner (list_last verified)) (map uv_inner us) \<and> vs = verified @ map cleaned us"
proof (induction us arbitrary: i verified)
  case (Cons u us)
  show ?case
  proof (cases "verified = []")
    case True
    then show ?thesis
      using Cons.prems Cons.IH [of "i + 1" "verified @ [cleaned u]"] list_last_simps(2) [of "[]" "cleaned u"]
      by (auto simp: result_simps gate_genesis_Ok_iff dest: gate_None_genesis)
  next
    case False
    then obtain ys p where "verified = ys @ [p]" by (metis rev_exhaust)
    then show ?thesis
      using Cons.prems Cons.IH [of "i + 1" "verified @ [cleaned u]"] list_last_simps(2) [of "ys @ [p]" "cleaned u"]
      by (auto simp: result_simps gate_after_Ok_iff)
  qed
qed auto

lemma verify_ship_ack_chain_Ok_iff:
  "verify_ship_ack_chain E us = Ok vs \<longleftrightarrow> gate_all E None (map uv_inner us) \<and> vs = map cleaned us"
  by (simp add: verify_ship_ack_chain_def verify_ship_ack_from_Ok_iff)

lemma verify_stream_tick_Ok_iff:
  "verify_stream_tick_record E m t u = Ok v \<longleftrightarrow> gate E (latest_record t m) (uv_inner u) \<and> v = cleaned u"
  by (auto simp: verify_stream_tick_record_def result_simps gate_after_Ok_iff gate_genesis_Ok_iff
      ca_from_trusted_def split: option.splits dest: gate_None_genesis)

subsection \<open>Inserting a batch\<close>

lemma insert_records_Nil [simp]: "insert_records t [] m = m"
  and insert_records_Cons: "insert_records t (v # vs) m = insert_records t vs (snd (insert_mirrored t (ca_inner v) m))"
  by (simp_all add: insert_records_def)

lemma mirrored_insert_records:
  "mirrored u (insert_records t vs m) =
     (if u = t then fold insert_sorted (map ca_inner vs) (mirrored t m) else mirrored u m)"
  by (induction vs arbitrary: m) (auto simp: insert_records_Cons mirrored_insert)

lemma ms_get_insert_records:
  "ms_get u (insert_records t vs m) =
     (if u = t \<and> vs \<noteq> [] then Some (mirrored t (insert_records t vs m)) else ms_get u m)"
proof (induction vs arbitrary: m)
  case (Cons v vs)
  show ?case
  proof (cases "vs = []")
    case True
    then show ?thesis by (simp add: insert_records_Cons ms_get_insert mirrored_insert)
  next
    case False
    then show ?thesis by (simp add: insert_records_Cons Cons ms_get_insert)
  qed
qed simp

lemma insert_sorted_appends:
  "chronological (old @ new) \<Longrightarrow> fold insert_sorted new old = old @ new"
proof (induction new arbitrary: old)
  case (Cons r new)
  have "chronological old" and "\<forall>x \<in> set old. cr_chronon_number x < cr_chronon_number r"
    using Cons.prems by (auto simp: sorted_wrt_append)
  then have "insert_sorted r old = old @ [r]" by (rule insert_sorted_after)
  moreover have "chronological ((old @ [r]) @ new)" using Cons.prems by simp
  ultimately show ?case using Cons.IH [of "old @ [r]"] by simp
qed simp

lemma insert_sorted_skips:
  "set (numbers known) \<subseteq> set (numbers old) \<Longrightarrow> fold insert_sorted known old = old"
  by (induction known) (auto simp: insert_sorted_known)

lemma latest_record_mirrored: "latest_record t m = list_last (mirrored t m)"
  by (cases "ms_get t m") (simp_all add: latest_record_def mirrored_def)

lemma mirror_tick_count_mirrored: "mirror_tick_count t m = word_of_nat (length (mirrored t m))"
  by (cases "ms_get t m") (simp_all add: mirror_tick_count_def mirrored_def)

subsection \<open>Mirrored calendars as chains\<close>

definition linked :: "('k, 's) node_env \<Rightarrow> chronon_record list \<Rightarrow> bool" where
  "linked E rs \<longleftrightarrow> gate_all E None rs \<and> chronological rs"

lemma gate_all_append:
  "gate_all E prev (rs @ new) \<longleftrightarrow>
     gate_all E prev rs \<and> gate_all E (if rs = [] then prev else Some (last rs)) new"
  by (induction rs arbitrary: prev) auto

lemma linked_append:
  assumes "linked E rs" and "gate_all E (list_last rs) new" and "chronological (rs @ new)"
  shows "linked E (rs @ new)"
  using assms by (cases rs rule: rev_cases) (auto simp: linked_def gate_all_append)

subsection \<open>The handlers over the gates\<close>

lemma insert_one_mirrored:
  "snd (insert_mirrored t (ca_inner v) m) = insert_records t [v] m" for v :: "chronon_record clean"
  by (simp add: insert_records_def)

lemma fst_insert_mirrored [simp]: "fst (insert_mirrored t r m) = Ok ()"
  by (simp add: insert_mirrored_def)

text \<open>An answer of success, an error answer, and the mirror they leave.\<close>

lemma handle_history_dump_chunk_cases:
  assumes "parse_history_dump_chunk_params E ps = Ok (t, us)"
  shows "gate_all E (list_last (mirrored t (sv_mirror_store s))) (map uv_inner us) \<Longrightarrow>
      \<exists>resp. handle_history_dump_chunk E ps s =
        (Ok resp, s\<lparr>sv_mirror_store := insert_records t (map cleaned us) (sv_mirror_store s)\<rparr>) \<and> jr_error resp = None"
    and "\<not> gate_all E (list_last (mirrored t (sv_mirror_store s))) (map uv_inner us) \<Longrightarrow>
      \<exists>r. handle_history_dump_chunk E ps s = (r, s) \<and> (\<forall>resp. r = Ok resp \<longrightarrow> jr_result resp = None)"
proof -
  let ?m = "sv_mirror_store s"
  note Ok_iff = verify_history_dump_chunk_Ok_iff [of E ?m t us, unfolded latest_record_mirrored]
  show "\<exists>resp. handle_history_dump_chunk E ps s =
      (Ok resp, s\<lparr>sv_mirror_store := insert_records t (map cleaned us) ?m\<rparr>) \<and> jr_error resp = None"
    if "gate_all E (list_last (mirrored t ?m)) (map uv_inner us)"
  proof -
    have "verify_history_dump_chunk E ?m t us = Ok (map cleaned us)" using that Ok_iff by simp
    then show ?thesis
      using assms by (simp add: handle_history_dump_chunk_def Let_def or_error_def resp_success_def)
  qed
  show "\<exists>r. handle_history_dump_chunk E ps s = (r, s) \<and> (\<forall>resp. r = Ok resp \<longrightarrow> jr_result resp = None)"
    if "\<not> gate_all E (list_last (mirrored t ?m)) (map uv_inner us)"
  proof -
    show ?thesis
    proof (cases "verify_history_dump_chunk E ?m t us")
      case (Ok vs)
      then show ?thesis using that by (simp add: Ok_iff)
    qed (use assms in \<open>simp_all add: handle_history_dump_chunk_def Let_def or_error_def resp_error_def slift_def\<close>)
  qed
qed

lemma handle_stream_tick_cases:
  assumes "parse_stream_tick_params E ps = Ok (t, n, u)"
  shows "gate E (list_last (mirrored t (sv_mirror_store s))) (uv_inner u) \<Longrightarrow>
      \<exists>resp. handle_stream_tick E ps s =
        (Ok resp, s\<lparr>sv_mirror_store := insert_records t [cleaned u] (sv_mirror_store s)\<rparr>) \<and> jr_error resp = None"
    and "\<not> gate E (list_last (mirrored t (sv_mirror_store s))) (uv_inner u) \<Longrightarrow>
      \<exists>r. handle_stream_tick E ps s = (r, s) \<and> (\<forall>resp. r = Ok resp \<longrightarrow> jr_result resp = None)"
proof -
  let ?m = "sv_mirror_store s"
  note Ok_iff = verify_stream_tick_Ok_iff [of E ?m t u, unfolded latest_record_mirrored]
  show "\<exists>resp. handle_stream_tick E ps s =
      (Ok resp, s\<lparr>sv_mirror_store := insert_records t [cleaned u] ?m\<rparr>) \<and> jr_error resp = None"
    if "gate E (list_last (mirrored t ?m)) (uv_inner u)"
  proof -
    have "verify_stream_tick_record E ?m t u = Ok (cleaned u)" using that Ok_iff by simp
    then show ?thesis
      using assms insert_one_mirrored [of t "cleaned u" ?m]
      by (cases "insert_mirrored t (uv_inner u) ?m")
        (auto simp: handle_stream_tick_def Let_def or_error_def resp_success_def insert_mirrored_def)
  qed
  show "\<exists>r. handle_stream_tick E ps s = (r, s) \<and> (\<forall>resp. r = Ok resp \<longrightarrow> jr_result resp = None)"
    if "\<not> gate E (list_last (mirrored t ?m)) (uv_inner u)"
  proof -
    show ?thesis
    proof (cases "verify_stream_tick_record E ?m t u")
      case (Ok vs)
      then show ?thesis using that by (simp add: Ok_iff)
    qed (use assms in \<open>simp_all add: handle_stream_tick_def Let_def or_error_def resp_error_def slift_def\<close>)
  qed
qed

lemma handle_ship_ack_cases:
  assumes "parse_ship_ack_records E ps = Ok us" and "us \<noteq> []"
  shows "gate_all E None (map uv_inner us) \<Longrightarrow>
      \<exists>resp. handle_ship_ack E ps s =
        (Ok resp, s\<lparr>sv_mirror_store := insert_records (str_or_empty ''tbid'' ps) (map cleaned us) (sv_mirror_store s)\<rparr>) \<and>
        jr_error resp = None"
    and "\<not> gate_all E None (map uv_inner us) \<Longrightarrow>
      \<exists>r. handle_ship_ack E ps s = (r, s) \<and> (\<forall>resp. r = Ok resp \<longrightarrow> jr_result resp = None)"
proof -
  note Ok_iff = verify_ship_ack_chain_Ok_iff [of E us]
  show "\<exists>resp. handle_ship_ack E ps s =
      (Ok resp, s\<lparr>sv_mirror_store := insert_records (str_or_empty ''tbid'' ps) (map cleaned us) (sv_mirror_store s)\<rparr>) \<and>
      jr_error resp = None" if "gate_all E None (map uv_inner us)"
  proof -
    have "verify_ship_ack_chain E us = Ok (map cleaned us)" using that Ok_iff by simp
    then show ?thesis
      using assms by (simp add: handle_ship_ack_def insert_ship_ack_records_def Let_def or_error_def resp_success_def)
  qed
  show "\<exists>r. handle_ship_ack E ps s = (r, s) \<and> (\<forall>resp. r = Ok resp \<longrightarrow> jr_result resp = None)"
    if "\<not> gate_all E None (map uv_inner us)"
  proof -
    show ?thesis
    proof (cases "verify_ship_ack_chain E us")
      case (Ok vs)
      then show ?thesis using that by (simp add: Ok_iff)
    qed (use assms in \<open>simp_all add: handle_ship_ack_def Let_def or_error_def resp_error_def slift_def\<close>)
  qed
qed

end
