(* ===== verification/Mirror_Props.thy ===== *)
theory Mirror_Props
  imports Mirror_Laws
begin

section \<open>Mirrored calendars, end to end\<close>

subsection \<open>The parameters a mirroring node sends\<close>

definition chunk_params :: "('k, 's) node_env \<Rightarrow> string \<Rightarrow> chronon_record list \<Rightarrow> json" where
  "chunk_params E t rs = JObject [(''tbid'', JString t), (''records'', chronons_json E rs)]"

definition stream_params :: "('k, 's) node_env \<Rightarrow> string \<Rightarrow> chronon_record \<Rightarrow> json" where
  "stream_params E t r = JObject [(''tbid'', JString t), (''record'', ne_chronon_json E r)]"

text \<open>A record that the JSON of the program carries over.\<close>

definition carried :: "('k, 's) node_env \<Rightarrow> chronon_record \<Rightarrow> bool" where
  "carried E r \<longleftrightarrow> ne_chronon_of_json E (ne_chronon_json E r) = Ok r"

definition parsed :: "chronon_record \<Rightarrow> chronon_record unverified" where
  "parsed r = from_parsed r"

lemma uv_inner_parsed [simp]: "uv_inner (parsed r) = r"
  by (simp add: parsed_def from_parsed_def)

lemma map_inner_parsed [simp]: "map uv_inner (map parsed rs) = rs" "map ca_inner (map cleaned (map parsed rs)) = rs"
  "map (uv_inner \<circ> parsed) rs = rs" "map (ca_inner \<circ> (cleaned \<circ> parsed)) rs = rs"
  by (simp_all add: map_idI)

lemma parse_carried:
  assumes "\<forall>r \<in> set rs. carried E r"
  shows "try_map (from_json_text (ne_chronon_of_json E)) (map (ne_chronon_json E) rs) = Ok (map parsed rs)"
  using assms by (induction rs) (simp_all add: carried_def from_json_text_def parsed_def)

lemma parse_chunk:
  assumes "\<forall>r \<in> set rs. carried E r" and "length rs \<le> MAX_CALENDAR_SLICE_COUNT"
  shows "parse_history_dump_chunk_params E (chunk_params E t rs) = Ok (t, map parsed rs)"
  using assms
  by (simp add: parse_history_dump_chunk_params_def chunk_params_def json_get_defs chronons_json_def
      parse_records_def parse_carried)

lemma parse_batch:
  assumes "\<forall>r \<in> set rs. carried E r"
  shows "parse_ship_ack_records E (chunk_params E t rs) = Ok (map parsed rs)"
    and "str_or_empty ''tbid'' (chunk_params E t rs) = t"
  using assms
  by (simp_all add: parse_ship_ack_records_def chunk_params_def json_get_defs chronons_json_def
      parse_records_def parse_carried str_or_empty_def)

lemma parse_stream:
  assumes "carried E r"
  shows "parse_stream_tick_params E (stream_params E t r) = Ok (t, 0, parsed r)"
  using assms
  by (simp add: parse_stream_tick_params_def stream_params_def json_get_defs from_json_text_def parsed_def
      carried_def str_or_empty_def u64_or_zero_def)

subsection \<open>Dumps\<close>

text \<open>The chunks of a history dump, each request with its inputs.\<close>

definition dump_events ::
    "('k, 's) node_env \<Rightarrow> string \<Rightarrow> ('k call_inputs \<times> chronon_record list) list \<Rightarrow> 'k node_event list" where
  "dump_events E t chunks =
     map (\<lambda>(inp, rs). Request inp (rpc_envelope ''history_dump_chunk'' (chunk_params E t rs))) chunks"

definition accepted :: "(json_rpc_response option, node_error) result \<Rightarrow> bool" where
  "accepted r \<longleftrightarrow> (\<exists>resp. r = Ok (Some resp) \<and> jr_error resp = None)"

lemma linked_gate_all:
  "linked E (old @ new) \<Longrightarrow> gate_all E (list_last old) new"
  by (cases old rule: rev_cases) (auto simp: linked_def gate_all_append)

lemma chunk_step:
  assumes "linked E (mirrored t (sv_mirror_store s) @ rs @ rest)"
    and "length rs \<le> MAX_CALENDAR_SLICE_COUNT" and "\<forall>r \<in> set rs. carried E r"
  shows "\<exists>resp m'. process_request_from_value rt E inp
      (rpc_envelope ''history_dump_chunk'' (chunk_params E t rs)) s = (Ok resp, s\<lparr>sv_mirror_store := m'\<rparr>) \<and>
    jr_error resp = None \<and> mirrored t m' = mirrored t (sv_mirror_store s) @ rs \<and>
    (\<forall>u. u \<noteq> t \<longrightarrow> ms_get u m' = ms_get u (sv_mirror_store s))"
proof -
  let ?m = "insert_records t (map cleaned (map parsed rs)) (sv_mirror_store s)"
  have "gate_all E (list_last (mirrored t (sv_mirror_store s))) rs"
    using linked_gate_all [OF assms(1)] by (simp add: gate_all_append)
  moreover have "chronological (mirrored t (sv_mirror_store s) @ rs)"
    using assms(1) by (auto simp: linked_def sorted_wrt_append)
  moreover note handle_history_dump_chunk_cases(1) [OF parse_chunk [OF assms(3,2)], of t s]
  ultimately obtain resp where resp: "handle_history_dump_chunk E (chunk_params E t rs) s =
      (Ok resp, s\<lparr>sv_mirror_store := ?m\<rparr>)" "jr_error resp = None"
    and m: "mirrored t ?m = mirrored t (sv_mirror_store s) @ rs"
    by (auto simp: mirrored_insert_records insert_sorted_appends simp del: map_append)
  have "\<forall>u. u \<noteq> t \<longrightarrow> ms_get u ?m = ms_get u (sv_mirror_store s)"
    by (simp add: ms_get_insert_records)
  then show ?thesis
    using resp m unfolding process_envelope dispatch_eqs by blast
qed

text \<open>
  A dump rebuilds the calendar: when the records that a node already mirrors, followed by
  those of the chunks, form a chain that verifies, the chunks sent one after the other are all
  accepted, they extend the mirrored calendar by exactly their records, and nothing else of the
  node changes.
\<close>

theorem dump_rebuilds_calendar:
  assumes "linked E (mirrored t (sv_mirror_store s) @ concat (map snd chunks))"
    and "\<forall>(inp, rs) \<in> set chunks. length rs \<le> MAX_CALENDAR_SLICE_COUNT \<and> (\<forall>r \<in> set rs. carried E r)"
    and "node_run E (dump_events E t chunks) s = (answers, s')"
  shows "list_all accepted answers \<and>
    mirrored t (sv_mirror_store s') = mirrored t (sv_mirror_store s) @ concat (map snd chunks) \<and>
    (\<forall>u. u \<noteq> t \<longrightarrow> ms_get u (sv_mirror_store s') = ms_get u (sv_mirror_store s)) \<and>
    s' = s\<lparr>sv_mirror_store := sv_mirror_store s'\<rparr>"
  using assms
proof (induction chunks arbitrary: s answers)
  case Nil
  then show ?case by (simp add: dump_events_def)
next
  case (Cons c chunks)
  obtain inp rs where c: "c = (inp, rs)" by (cases c)
  from chunk_step [of E t s rs "concat (map snd chunks)" True inp] Cons.prems(1,2) obtain resp m' where
    m': "process_request_from_value True E inp (rpc_envelope ''history_dump_chunk'' (chunk_params E t rs)) s =
      (Ok resp, s\<lparr>sv_mirror_store := m'\<rparr>)" "jr_error resp = None"
    "mirrored t m' = mirrored t (sv_mirror_store s) @ rs" "\<forall>u. u \<noteq> t \<longrightarrow> ms_get u m' = ms_get u (sv_mirror_store s)"
    by (auto simp: c)
  obtain answers' where run: "node_run E (dump_events E t chunks) (s\<lparr>sv_mirror_store := m'\<rparr>) = (answers', s')"
    and answers: "answers = Ok (Some resp) # answers'"
    using Cons.prems(3) m'(1) by (auto simp: dump_events_def c sret_def split: prod.splits)
  have "linked E (mirrored t (sv_mirror_store (s\<lparr>sv_mirror_store := m'\<rparr>)) @ concat (map snd chunks))"
    using Cons.prems(1) m'(3) by (simp add: c)
  note IH = Cons.IH [OF this _ run]
  have "\<forall>(inp, rs) \<in> set chunks. length rs \<le> MAX_CALENDAR_SLICE_COUNT \<and> (\<forall>r \<in> set rs. carried E r)"
    using Cons.prems(2) by simp
  note IH = IH [OF this]
  have "s' = s\<lparr>sv_mirror_store := sv_mirror_store s'\<rparr>"
    using IH [THEN conjunct2, THEN conjunct2, THEN conjunct2] by (rule trans) simp
  moreover have "list_all accepted answers"
    using IH [THEN conjunct1] m'(2) unfolding answers by (simp add: accepted_def [of "Ok (Some resp)"])
  moreover have "mirrored t (sv_mirror_store s') = mirrored t (sv_mirror_store s) @ concat (map snd (c # chunks))"
    using IH [THEN conjunct2, THEN conjunct1] m'(3) by (simp add: c)
  moreover have "\<forall>u. u \<noteq> t \<longrightarrow> ms_get u (sv_mirror_store s') = ms_get u (sv_mirror_store s)"
    using IH [THEN conjunct2, THEN conjunct2, THEN conjunct1] m'(4) by simp
  ultimately show ?case by (intro conjI)
qed

text \<open>A chain of records that the demo cryptography verifies.\<close>

definition demo_record :: "u64 \<Rightarrow> u8 \<Rightarrow> bytes \<Rightarrow> bytes \<Rightarrow> chronon_record" where
  "demo_record n k forward backward =
     ChrononRecord n (replicate 32 k) ''Ed25519'' forward backward [] 0 [] 0 demo_tbid"

definition demo_next :: "chronon_record \<Rightarrow> u64 \<Rightarrow> u8 \<Rightarrow> chronon_record" where
  "demo_next p n k =
     (let tag = demo_tag 31 (build_normal_attest_blob (to_hex char_hex (cr_tbid p)) p (demo_record n k [] []) 0 [])
      in demo_record n k (cr_public_key p @ tag) (replicate 32 k @ tag))"

lemma demo_record_simps [simp]:
  "cr_chronon_number (demo_record n k f b) = n" "cr_public_key (demo_record n k f b) = replicate 32 k"
  "cr_tb_version (demo_record n k f b) = 0" "cr_external_attestations (demo_record n k f b) = []"
  by (simp_all add: demo_record_def)

lemma demo_next_simps [simp]:
  "cr_chronon_number (demo_next p n k) = n" "cr_public_key (demo_next p n k) = replicate 32 k"
  "cr_tb_version (demo_next p n k) = 0" "cr_external_attestations (demo_next p n k) = []"
  by (simp_all add: demo_next_def Let_def)

lemma demo_verify:
  "length pk = 32 \<Longrightarrow> length sig = 64 \<Longrightarrow> sw_verify_with demo_ffi pk ''Ed25519'' m sig = Ok (sig = pk @ demo_tag 31 m)"
  by (simp add: sw_verify_with_ed25519 ed25519_verify_def verify_rc_def)

lemma demo_verify_next:
  assumes "length (cr_public_key p) = 32" and "length (cr_public_key q) = 32"
  shows "verify_pair demo_ffi (software_crypto_server demo_ffi []) (to_hex char_hex (cr_tbid q)) q (demo_next p n k) =
    Ok (cr_public_key p = cr_public_key q \<and>
      demo_tag 31 (build_normal_attest_blob (to_hex char_hex (cr_tbid p)) p (demo_record n k [] []) 0 []) =
      demo_tag 31 (build_normal_attest_blob (to_hex char_hex (cr_tbid q)) q (demo_record n k [] []) 0 []))"
  using assms
  by (simp add: verify_pair_def demo_next_def Let_def demo_record_def demo_verify build_normal_attest_blob_def)

text \<open>The first record, the second, and the second and third of another calendar of the same TBID.\<close>

definition demo_first :: chronon_record where
  "demo_first = demo_record 1 1 [] []"

definition demo_chain :: "chronon_record list" where
  "demo_chain = [demo_first, demo_next demo_first 2 2]"

definition demo_fork :: "chronon_record list" where
  "demo_fork = [demo_next demo_first 2 3, demo_next (demo_next demo_first 2 3) 3 4]"

lemmas demo_chain_defs = demo_chain_def demo_fork_def demo_first_def

lemma demo_linked: "linked demo_env demo_chain" "gate_all demo_env None (demo_first # demo_fork)"
  by (simp_all add: linked_def demo_chain_defs gate_def demo_verify_next)

lemma demo_carried: "r \<in> set (demo_chain @ demo_fork) \<Longrightarrow> carried demo_env r"
  by (auto simp: carried_def demo_chain_defs)

theorem dump_rebuilds_calendar_witness:
  "mirrored ''t'' (sv_mirror_store (snd (node_run demo_env (dump_events demo_env ''t''
     [(demo_call 1, [demo_first]), (demo_call 2, [demo_next demo_first 2 2])]) (demo_node None None)))) = demo_chain"
proof -
  have "mirrored ''t'' (sv_mirror_store (demo_node None None)) = []"
    by (simp add: mirrored_def ms_get_def mirror_store_default_def mirror_store_new_def)
  then show ?thesis
    using dump_rebuilds_calendar [of demo_env "''t''" "demo_node None None"
        "[(demo_call 1, [demo_first]), (demo_call 2, [demo_next demo_first 2 2])]", OF _ _ surjective_pairing]
      demo_linked(1) demo_carried
    by (simp add: demo_chain_def demo_fork_def MAX_CALENDAR_SLICE_COUNT_def)
qed

subsection \<open>What the gates let through\<close>

text \<open>
  C28: A shipped batch is verified from its own first record on, and only its unknown records
  are appended: a batch that shares the numbers of the mirrored calendar and goes on is spliced
  onto it although the last mirrored record and the first new one do not verify as a pair.
\<close>

theorem ship_ack_splices:
  assumes "gate_all E None (known @ new)" and "\<forall>r \<in> set (known @ new). carried E r"
    and "set (numbers known) \<subseteq> set (numbers (mirrored t (sv_mirror_store s)))"
    and "chronological (mirrored t (sv_mirror_store s) @ new)"
    and "new \<noteq> []" and "\<not> gate E (list_last (mirrored t (sv_mirror_store s))) (hd new)"
  shows "\<exists>resp s'. process_request_from_value rt E inp (rpc_envelope ''ship_ack'' (chunk_params E t (known @ new))) s =
      (Ok resp, s') \<and> jr_error resp = None \<and>
    mirrored t (sv_mirror_store s') = mirrored t (sv_mirror_store s) @ new \<and>
    \<not> linked E (mirrored t (sv_mirror_store s'))"
proof -
  let ?m = "insert_records t (map cleaned (map parsed (known @ new))) (sv_mirror_store s)"
  have "mirrored t ?m = fold insert_sorted (known @ new) (mirrored t (sv_mirror_store s))"
    by (simp only: mirrored_insert_records map_inner_parsed refl if_True)
  also have "\<dots> = mirrored t (sv_mirror_store s) @ new"
    by (simp add: insert_sorted_skips [OF assms(3)] insert_sorted_appends [OF assms(4)])
  finally have m: "mirrored t ?m = mirrored t (sv_mirror_store s) @ new" .
  have "\<not> linked E (mirrored t (sv_mirror_store s) @ new)"
    using assms(5,6) linked_gate_all by (cases new) fastforce+
  moreover have "map parsed (known @ new) \<noteq> []" using assms(5) by simp
  note handle_ship_ack_cases(1) [OF parse_batch(1) [OF assms(2)] this]
  then obtain resp where "handle_ship_ack E (chunk_params E t (known @ new)) s = (Ok resp, s\<lparr>sv_mirror_store := ?m\<rparr>)"
    and "jr_error resp = None"
    using assms(1) unfolding map_inner_parsed parse_batch(2) [OF assms(2)] by blast
  ultimately show ?thesis
    using m by (simp add: process_envelope dispatch_eqs)
qed

text \<open>A node that mirrors one calendar, under \<^verbatim>\<open>t\<close>.\<close>

definition mirroring_node :: "chronon_record list \<Rightarrow> nat \<Rightarrow> bytes time_family_server" where
  "mirroring_node rs max_tbids = (demo_node None None)\<lparr>sv_mirror_store :=
     \<lparr>ms_mirrors = [(''t'', rs)], ms_base_dir = [], ms_max_mirrored_tbids = max_tbids\<rparr>\<rparr>"

lemma mirroring_node_simps [simp]:
  "mirrored ''t'' (sv_mirror_store (mirroring_node rs n)) = rs"
  "ms_mirrors (sv_mirror_store (mirroring_node rs n)) = [(''t'', rs)]"
  "ms_max_mirrored_tbids (sv_mirror_store (mirroring_node rs n)) = n"
  by (simp_all add: mirroring_node_def mirrored_def ms_get_def)

theorem ship_ack_splices_witness:
  "\<exists>resp s'. process_request_from_value True demo_env (demo_call 1)
      (rpc_envelope ''ship_ack'' (chunk_params demo_env ''t'' (demo_first # demo_fork))) (mirroring_node demo_chain 5) = (Ok resp, s') \<and>
    mirrored ''t'' (sv_mirror_store s') = demo_chain @ [last demo_fork] \<and> \<not> linked demo_env (mirrored ''t'' (sv_mirror_store s'))"
proof -
  have batch: "[demo_first, hd demo_fork] @ [last demo_fork] = demo_first # demo_fork" by (simp add: demo_fork_def)
  have old: "mirrored ''t'' (sv_mirror_store (mirroring_node demo_chain 5)) = demo_chain" by simp
  have "\<forall>r \<in> set ([demo_first, hd demo_fork] @ [last demo_fork]). carried demo_env r"
    using demo_carried unfolding batch by (auto simp: demo_chain_def)
  moreover have "set (numbers [demo_first, hd demo_fork]) \<subseteq> set (numbers demo_chain)"
    "chronological (demo_chain @ [last demo_fork])"
    by (simp_all add: demo_chain_defs)
  moreover have "\<not> gate demo_env (list_last demo_chain) (hd [last demo_fork])"
    by (simp add: demo_chain_defs gate_def demo_verify_next list_last_def)
  ultimately show ?thesis
    using ship_ack_splices [of demo_env "[demo_first, hd demo_fork]" "[last demo_fork]" "''t''" "mirroring_node demo_chain 5"
        True "demo_call 1"] demo_linked(2)
    unfolding batch old by blast
qed

text \<open>
  Anyone starts a mirror: a stream of ticks is opened under any TBID string by an unsigned
  first record with some public key, whoever's TBID the record carries, also when the node
  mirrors as many calendars as it may and answers announcements with a rejection.
\<close>

theorem unsigned_mirror_accepted:
  assumes "carried E r" and "cr_chronon_number r = 1" and "cr_public_key r \<noteq> []" and "cr_tb_version r = 0"
    and "ms_get t (sv_mirror_store s) = None" and "ms_inv (sv_mirror_store s)"
    and "ms_max_mirrored_tbids (sv_mirror_store s) \<le> length (ms_mirrors (sv_mirror_store s))"
  shows "\<not> can_accept_mirror t (sv_mirror_store s) \<and>
    (\<exists>resp s'. process_request_from_value rt E inp (rpc_envelope ''stream_tick'' (stream_params E t r)) s = (Ok resp, s') \<and>
      jr_error resp = None \<and> ms_get t (sv_mirror_store s') = Some [r] \<and>
      ms_max_mirrored_tbids (sv_mirror_store s') < length (ms_mirrors (sv_mirror_store s')))"
proof -
  let ?m = "insert_records t [cleaned (parsed r)] (sv_mirror_store s)"
  have "mirrored t (sv_mirror_store s) = []" using assms(5) by (simp add: mirrored_def)
  then have "ms_get t ?m = Some [r]"
    by (simp add: ms_get_insert_records mirrored_insert_records insert_sorted_def)
  moreover have "ms_max_mirrored_tbids ?m < length (ms_mirrors ?m)"
    using assms(5-7)
    by (simp add: insert_records_def insert_mirrored_def ms_get_def ms_inv_def length_update map_of_eq_None_iff)
  moreover obtain resp where "handle_stream_tick E (stream_params E t r) s = (Ok resp, s\<lparr>sv_mirror_store := ?m\<rparr>)"
    and "jr_error resp = None"
    using handle_stream_tick_cases(1) [OF parse_stream [OF assms(1)], of t s] assms(2-4)
      \<open>mirrored t (sv_mirror_store s) = []\<close>
    by (auto simp: gate_def)
  ultimately show ?thesis
    using assms(7) by (simp add: process_envelope dispatch_eqs can_accept_mirror_def)
qed

theorem unsigned_mirror_accepted_witness:
  "\<exists>resp s'. process_request_from_value True demo_env (demo_call 1)
      (rpc_envelope ''stream_tick'' (stream_params demo_env ''other'' demo_first)) (mirroring_node demo_chain 1) = (Ok resp, s') \<and>
    ms_get ''other'' (sv_mirror_store s') = Some [demo_first]"
proof -
  have store: "ms_get ''other'' (sv_mirror_store (mirroring_node demo_chain 1)) = None"
    "ms_inv (sv_mirror_store (mirroring_node demo_chain 1))"
    using demo_linked(1) by (simp_all add: ms_get_def ms_inv_def linked_def demo_chain_defs)
  have "carried demo_env demo_first" by (rule demo_carried) (simp add: demo_chain_def)
  from unsigned_mirror_accepted [OF this _ _ _ store, of True "demo_call 1"] show ?thesis
    by (simp add: demo_first_def) blast
qed

end
