(* ===== verification/Mirror_Own.thy ===== *)
theory Mirror_Own
  imports Mirror_Props
begin

section \<open>Mirroring the calendar of a node\<close>

text \<open>
  A node that can sign with its TBID gives its first record version 1, and no gate lets a first
  record of version 1 through: what the calendars of real nodes are to the mirror handlers.
\<close>

definition pqc_genesis :: "('k, 'k server_calendar) chronomatter \<Rightarrow> bool" where
  "pqc_genesis cm \<longleftrightarrow> cm_tbid_secret cm \<noteq> None \<and>
     (\<forall>r \<in> set (sc_records (cm_observer cm)). cr_chronon_number r = 1 \<longrightarrow> cr_tb_version r = 1) \<and>
     sc_inv (cm_observer cm)"

lemma pqc_genesis_cong:
  "cm_tbid_secret cm' = cm_tbid_secret cm \<Longrightarrow> cm_observer cm' = cm_observer cm \<Longrightarrow> pqc_genesis cm' = pqc_genesis cm"
  by (simp add: pqc_genesis_def)

subsection \<open>The operations keep it\<close>

lemma keeps_pqc_mod:
  assumes "\<And>cm. cm_tbid_secret (f cm) = cm_tbid_secret cm" and "\<And>cm. cm_observer (f cm) = cm_observer cm"
  shows "keeps pqc_genesis (smod f)"
  by (rule keeps_smod) (simp add: pqc_genesis_cong [OF assms])

lemma keeps_pqc_parts:
  "keeps pqc_genesis (smod (emit ev))" "keeps pqc_genesis (generate_and_store_keypair F generated)"
  "keeps pqc_genesis swap_stamp_count" "keeps pqc_genesis (sign_with_keypair F i m)"
  "keeps pqc_genesis (next_tick debug)"
proof -
  show "keeps pqc_genesis (smod (emit ev))" by (rule keeps_pqc_mod) (simp_all add: emit_def)
  show "keeps pqc_genesis (generate_and_store_keypair F generated)"
    unfolding generate_and_store_keypair_def
    by (intro keeps_sbind keeps_slift keeps_pqc_mod) (simp_all add: store_keypair_def)
qed (simp_all add: keeps_def pqc_genesis_def swap_stamp_count_def sign_with_keypair_def next_tick_def)

lemma keeps_pqc_report: "keeps pqc_genesis m \<Longrightarrow> keeps pqc_genesis (report_result m)"
  unfolding keeps_def report_result_def
  by (auto split: prod.splits result.splits) (metis emit_def keepsD keeps_def keeps_pqc_parts(1) smod_def snd_conv)+

lemmas keeps_pqc_intros = keeps_sbind keeps_pqc_parts keeps_pqc_report keeps_read keeps_split
  keeps_if keeps_sret keeps_slift keeps_sget keeps_current

lemma keeps_pqc_build:
  "keeps pqc_genesis (build_auto_attestation F hex rn tick pub)"
  "keeps pqc_genesis (build_tick_record F hex crypto rn tick pub)"
proof -
  show att: "keeps pqc_genesis (build_auto_attestation F hex rn tick pub)" for rn pub
    unfolding build_auto_attestation_def by (intro keeps_pqc_intros)
  show "keeps pqc_genesis (build_tick_record F hex crypto rn tick pub)"
    unfolding build_tick_record_def build_genesis_tick_record_def build_regular_tick_record_def
      build_genesis_with_pqc_def build_genesis_without_pqc_def
    by (intro keeps_pqc_intros att) (auto split: option.splits intro!: keeps_pqc_intros att)
qed

lemma build_tick_record_version:
  assumes "build_tick_record F hex crypto rn tick pub s = (Ok r, s')" and "cm_tbid_secret s \<noteq> None"
    and "cr_chronon_number r = 1"
  shows "cr_tb_version r = 1"
proof (cases "tick = 1")
  case True
  with assms show ?thesis
    by (auto simp: build_tick_record_def build_genesis_tick_record_def build_genesis_with_pqc_def stateful_simps
        sign_with_keypair_Ok chronon_build_Ok_iff)
next
  case False
  with assms build_regular_Ok(1) [OF False, of F hex crypto rn pub s r s'] show ?thesis
    by (auto simp: build_tick_record_def built_from_def)
qed

lemma keeps_pqc_record:
  "keeps pqc_genesis (sbind (build_tick_record F hex crypto rn tick pub) (\<lambda>r.
     notify_observer (on_tick_advance hex' l) tick pk r))"
  "keeps pqc_genesis (sbind (build_tick_record F hex crypto rn tick pub) (\<lambda>r.
     sbind (notify_observer (on_tick_advance hex' l) tick pk r) (\<lambda>_. sret a)))"
proof -
  have "pqc_genesis (s'\<lparr>cm_observer := on_tick_advance hex' l tick pk r (cm_observer s')\<rparr>)"
    if "pqc_genesis s" and "build_tick_record F hex crypto rn tick pub s = (Ok r, s')" for s r s'
  proof -
    have s': "pqc_genesis s'" using keepsD [OF keeps_pqc_build(2) that(1)] that(2) by (metis snd_conv)
    have "cr_chronon_number r = 1 \<longrightarrow> cr_tb_version r = 1"
      using build_tick_record_version [OF that(2)] that(1) by (auto simp: pqc_genesis_def)
    with s' show ?thesis
      using sc_obs.notify_invar [of "cm_observer s'" hex' l tick pk r]
      by (auto simp: pqc_genesis_def sc_obs.notify_records split: if_splits)
  qed
  then show "keeps pqc_genesis (sbind (build_tick_record F hex crypto rn tick pub) (\<lambda>r.
       notify_observer (on_tick_advance hex' l) tick pk r))"
    and "keeps pqc_genesis (sbind (build_tick_record F hex crypto rn tick pub) (\<lambda>r.
       sbind (notify_observer (on_tick_advance hex' l) tick pk r) (\<lambda>_. sret a)))"
    using keepsD [OF keeps_pqc_build(2) [of F hex crypto rn tick pub]]
    by (auto simp: keeps_def sbind_def notify_observer_def smod_def sret_def split: prod.splits result.splits)
      (metis snd_conv)+
qed

lemma keeps_pqc_daemon_tick:
  "keeps pqc_genesis (daemon_tick debug F hex crypto (on_tick_advance hex' l) inp)"
  unfolding daemon_tick_def by (intro keeps_pqc_intros keeps_pqc_record)

lemma keeps_pqc_stamp:
  "keeps pqc_genesis (cm_stamp debug F hex pc crypto (on_tick_advance hex' l) inp content echo)"
  unfolding cm_stamp_def create_foretis_def
  by (intro keeps_pqc_intros keeps_pqc_record keeps_pqc_mod) simp_all

subsection \<open>Runs of a node\<close>

definition own_sound :: "('k, 's) node_env \<Rightarrow> 'k server_calendar \<Rightarrow> 'k time_family_server \<Rightarrow> bool" where
  "own_sound E o0 s \<longleftrightarrow> node_sound E o0 s \<and> pqc_genesis (sv_chronomatter s)"

lemma pqc_queue_blind: "queue_blind pqc_genesis"
  by (simp add: queue_blind_def pqc_genesis_def)

lemma own_step_keeps:
  assumes "own_sound E o0 s"
  shows "own_sound E o0 (snd (node_step E e s))"
proof -
  have sound: "node_sound E o0 s" "pqc_genesis (sv_chronomatter s)" and observing: "sv_observing s"
    using assms by (simp_all add: own_sound_def node_sound_def)
  have "pqc_genesis (sv_chronomatter (snd (node_step E e s)))"
  proof (cases e)
    case (Request inp req)
    have "stamps_keep E pqc_genesis s"
      using observing by (simp add: stamps_keep_def sv_observer_def keeps_pqc_stamp)
    from request_keeps [OF this pqc_queue_blind, of True inp req] sound(2) show ?thesis
      by (simp add: Request snd_sbind_sret request_step_def of_chronomatter_def)
  next
    case (DaemonTick inp)
    have "keeps pqc_genesis (daemon_tick (ne_debug E) (ne_ffi E) (ne_hex_encode E) (ne_crypto E)
        (on_tick_advance (ne_hex_encode E) (ci_lottery inp)) (ci_tick inp))"
      by (rule keeps_pqc_daemon_tick)
    from keepsD [OF this sound(2)] observing show ?thesis
      by (auto simp: DaemonTick snd_sbind_sret server_daemon_tick_def on_chronomatter_def sv_observer_def
          split: prod.splits)
  next
    case (SwitchDormant d)
    with sound(2) show ?thesis
      by (simp add: on_chronomatter_def smod_def sret_def sbind_def set_dormant_def pqc_genesis_def)
  qed
  then show ?thesis using node_step_keeps [OF sound(1), of e] by (simp add: own_sound_def)
qed

lemma own_run_keeps: "own_sound E o0 s \<Longrightarrow> own_sound E o0 (snd (node_run E es s))"
  by (induction es arbitrary: s) (simp, simp only: snd_node_run_Cons own_step_keeps)

lemma new_own_sound:
  assumes "new_with_config E stored key sw tk nk addr ns persist com files = Ok s0"
  shows "own_sound E (sv_calendar s0) s0"
proof -
  from new_with_config_Ok(1) [OF assms] obtain cal0 cm0 c where
    cm0: "chronomatter_new (ne_hex_encode E) tk ns cal0 = Ok cm0"
    and s0: "sv_chronomatter s0 = cm0\<lparr>cm_events := Some [], cm_observer := c\<rparr>" "sc_records c = []" by blast
  then have "pqc_genesis (sv_chronomatter s0)"
    using chronomatter_new_Ok [OF cm0] by (auto simp: pqc_genesis_def sc_inv_def cal_inv_def sc_records_def)
  with new_node_sound [OF assms] show ?thesis by (simp add: own_sound_def)
qed

lemma own_first_refused:
  assumes "pqc_genesis cm" and "sc_records (cm_observer cm) = r # rs"
  shows "\<not> gate E None r"
  using assms by (auto simp: pqc_genesis_def gate_def)

definition refused :: "('k time_family_server, json_rpc_response, node_error) stateful \<Rightarrow> 'k time_family_server \<Rightarrow> bool" where
  "refused m s \<longleftrightarrow> (\<exists>r. m s = (r, s) \<and> (\<forall>resp. r = Ok resp \<longrightarrow> jr_result resp = None))"

text \<open>
  C17: The calendar of a node is never mirrored: whatever has happened to a new node, a peer
  that holds nothing of its calendar refuses the first record of it, streamed as a tick or sent
  first in a chunk of a dump, and any peer refuses a batch that starts with it. A refused
  request leaves the peer as it was, and so without the predecessor the next record needs.
\<close>

theorem own_calendar_never_mirrored:
  assumes "new_with_config E stored key sw tk nk addr ns persist com files = Ok s0"
    and "sc_records (sv_calendar (snd (node_run E es s0))) = r # rs"
    and "carried E' r" and "\<forall>x \<in> set (take n rs). carried E' x" and "n < MAX_CALENDAR_SLICE_COUNT"
    and "mirrored t (sv_mirror_store peer) = []"
  shows "refused (process_request_from_value rt E' inp (rpc_envelope ''stream_tick'' (stream_params E' t r))) peer \<and>
    refused (process_request_from_value rt E' inp
      (rpc_envelope ''history_dump_chunk'' (chunk_params E' t (r # take n rs)))) peer \<and>
    refused (process_request_from_value rt E' inp (rpc_envelope ''ship_ack'' (chunk_params E' u (r # take n rs)))) peer'"
proof -
  have "own_sound E (sv_calendar s0) (snd (node_run E es s0))"
    by (rule own_run_keeps [OF new_own_sound [OF assms(1)]])
  then have no: "\<not> gate E' None r"
    using own_first_refused assms(2) by (auto simp: own_sound_def sv_calendar_def)
  have carried: "\<forall>x \<in> set (r # take n rs). carried E' x" using assms(3,4) by simp
  have len: "length (r # take n rs) \<le> MAX_CALENDAR_SLICE_COUNT" using assms(5) by simp
  have "map parsed (r # take n rs) \<noteq> []" by simp
  note ship = handle_ship_ack_cases(2) [OF parse_batch(1) [OF carried, of u] this, of peer']
  note stream = handle_stream_tick_cases(2) [OF parse_stream [OF assms(3)], of t peer]
  note chunk = handle_history_dump_chunk_cases(2) [OF parse_chunk [OF carried len], of t peer]
  show ?thesis
    using ship stream chunk no assms(6)
    by (simp add: refused_def process_envelope dispatch_eqs)
qed

text \<open>The first tick of the demo node.\<close>

lemma demo_first_tick:
  obtains r where "sc_records (sv_calendar (snd (node_run demo_env [DaemonTick (demo_call 1)] (demo_node None None)))) = [r]"
    and "cr_external_attestations r = []"
proof -
  let ?s = "sv_chronomatter (demo_node None None)"
  let ?crypto = "software_crypto_server demo_ffi []"
  have start: "cm_current_tick ?s = 0" "\<not> cm_is_dormant ?s" "sc_inv (cm_observer ?s)" "sc_records (cm_observer ?s) = []"
    by (simp_all add: demo_node_def demo_start_def sc_inv_def sc_records_def cal_inv_def calendar_new_def)
  obtain s' where tick: "daemon_tick True demo_ffi char_hex ?crypto (on_tick_advance char_hex False) (demo_inputs 1) ?s = (Ok (), s')"
    using daemon_tick_live [OF demo_node_ready demo_ffi_ed25519, of None None "demo_inputs 1" True char_hex ?crypto
        "on_tick_advance char_hex False"] start(1) by auto
  then obtain k r s1 where build: "build_tick_record demo_ffi char_hex ?crypto (ti_nonce (demo_inputs 1)) 1
      (ffi_ed25519_public demo_ffi k)
      (store_keypair \<lparr>kp_pub_key = ffi_ed25519_public demo_ffi k, kp_priv_key = k\<rparr> (?s\<lparr>cm_current_tick := 1\<rparr>)) = (Ok r, s1)"
    and obs: "notify_observer (on_tick_advance char_hex False) 1 (ffi_ed25519_public demo_ffi k) r s1 = (Ok (), s')"
    using start(1,2) by (auto simp: daemon_tick_def stateful_simps generate_and_store_keypair_Ok dest!: next_tick_Ok)
  have "sc_inv (cm_observer s1)" "sc_records (cm_observer s1) = []" and ext: "cr_external_attestations r = []"
    using build_tick_record_Ok(1,2) [OF build] start(3,4) by (simp_all add: same_core_def built_from_def)
  then have "sc_records (cm_observer s') = [r]"
    using obs sc_obs.notify_new [of "cm_observer s1" r char_hex False 1 "ffi_ed25519_public demo_ffi k"]
    by (simp add: notify_observer_def smod_eq)
  then show ?thesis
    using tick ext by (intro that [of r])
      (simp_all add: server_daemon_tick_def on_chronomatter_def sv_observer_def demo_call_def sv_calendar_def
        sbind_def sret_def Let_def)
qed

theorem own_calendar_never_mirrored_witness:
  "\<exists>r. sc_records (sv_calendar (snd (node_run demo_env [DaemonTick (demo_call 1)] (demo_node None None)))) = [r] \<and>
    refused (process_request_from_value True demo_env (demo_call 2)
      (rpc_envelope ''stream_tick'' (stream_params demo_env ''t'' r))) (demo_node None None)"
proof -
  obtain r where r: "sc_records (sv_calendar (snd (node_run demo_env [DaemonTick (demo_call 1)] (demo_node None None)))) = [r]"
    and "cr_external_attestations r = []" by (rule demo_first_tick)
  then have "carried demo_env r" by (simp add: carried_def)
  moreover have "mirrored ''t'' (sv_mirror_store (demo_node None None)) = []"
    by (simp add: mirrored_def ms_get_def mirror_store_default_def mirror_store_new_def)
  ultimately show ?thesis
    using r own_calendar_never_mirrored [OF demo_node_new r, of demo_env 0 "''t''" "demo_node None None"]
    by (simp add: MAX_CALENDAR_SLICE_COUNT_def)
qed

end
