(* ===== verification/Communerdette_Gate.thy ===== *)
theory Communerdette_Gate
  imports Communerdette Mirror_Own Probity
begin

section \<open>What a node accepts from the other end\<close>

text \<open>
  Models the verification half of \<^verbatim>\<open>foretias-server/src/communerd/communerdette.rs\<close>: channel
  binding, authenticated pongs, the gates of records and stamps that a peer answers with, and the
  requests built on them. The transports and the DHT are operations over a state of their own,
  the fields of \<open>comm_host\<close> (\<^verbatim>\<open>CommunerdetteHost\<close>); a request that runs out of its
  time is one that answers with \<^verbatim>\<open>Timeout\<close>.
\<close>

subsection \<open>Errors\<close>

datatype transport_error =
    TrConnect string
  | TrRpc int string
  | TrTimeout
  | TrDecode string
  | TrUnsupported string

datatype communerdette_error =
    CeTransport transport_error
  | CeCleanAuth clean_auth_error
  | CeTbidMismatch string string
  | CeStructural string
  | CeNoRoute
  | CeNoPeerRecord
  | CeBindingInsufficient string
  | CeNode node_error

subsection \<open>Structures of strings on the wire\<close>

text \<open>
  The derived decoder of a structure whose fields are strings: an object with all of them, or an
  array of exactly as many strings. The text of its error is not kept.
\<close>

fun string_list :: "json option list \<Rightarrow> (string list, string) result" where
  "string_list [] = Ok []"
| "string_list (v # vs) =
     rbind (ok_or ''expected a string'' (Option.bind v as_str)) (\<lambda>t.
     rbind (string_list vs) (\<lambda>ts. Ok (t # ts)))"

definition string_fields :: "string list \<Rightarrow> json \<Rightarrow> (string list, string) result" where
  "string_fields names v = (case as_array v of
     Some vs \<Rightarrow> if length vs \<noteq> length names then Err ''invalid length'' else string_list (map Some vs)
   | None \<Rightarrow> if as_object v = None then Err ''invalid type'' else string_list (map (\<lambda>n. jget n v) names))"

definition hex_opt :: "('k, 's) node_env \<Rightarrow> string \<Rightarrow> bytes option" where
  "hex_opt E h = (case ne_hex_decode E h of Ok b \<Rightarrow> Some b | _ \<Rightarrow> None)"

subsection \<open>Channel binding\<close>

record channel_binding =
  cb_responder_tbid :: string
  cb_nonce_echo :: string
  cb_channel_id :: string
  cb_fast_sig :: string
  cb_slow_sig :: string

definition channel_binding_of_json :: "json \<Rightarrow> (channel_binding unverified, clean_auth_parse_error) result" where
  "channel_binding_of_json v =
     rbind (rmap_err InvalidJson (string_fields
       [''responder_tbid'', ''nonce_echo'', ''channel_id'', ''fast_sig'', ''slow_sig''] v)) (\<lambda>fs.
       Ok (from_parsed \<lparr>cb_responder_tbid = fs ! 0, cb_nonce_echo = fs ! 1, cb_channel_id = fs ! 2,
         cb_fast_sig = fs ! 3, cb_slow_sig = fs ! 4\<rparr>))"

datatype channel_binding_state =
    Unbound
  | FullyBound "channel_binding clean_full"
  | ChannelRejected string

definition check_binding_fields ::
    "('k, 's) node_env \<Rightarrow> channel_binding \<Rightarrow> bytes \<Rightarrow> string \<Rightarrow> tbid \<Rightarrow> (unit, communerdette_error) result" where
  "check_binding_fields E cb nonce channel_id target =
     rbind (rmap_err (\<lambda>_. CeStructural ''bad responder_tbid hex'')
              (from_hex (hex_opt E) (cb_responder_tbid cb))) (\<lambda>responder.
     if responder \<noteq> target
     then Err (CeTbidMismatch (to_hex (ne_hex_encode E) target) (cb_responder_tbid cb))
     else
     rbind (rmap_err (\<lambda>_. CeStructural ''nonce_echo not hex'') (ne_hex_decode E (cb_nonce_echo cb))) (\<lambda>nonce_echo.
     if nonce_echo \<noteq> nonce then Err (CeStructural ''nonce_echo mismatch'')
     else if cb_channel_id cb \<noteq> channel_id then Err (CeStructural ''channel_id mismatch'')
     else Ok ()))"

definition binding_msg :: "bytes \<Rightarrow> string \<Rightarrow> string \<Rightarrow> bytes" where
  "binding_msg nonce channel_id responder_tbid_hex =
     nonce @ as_bytes channel_id @ as_bytes responder_tbid_hex"

definition crypto_failure :: "crypto_error \<Rightarrow> communerdette_error" where
  "crypto_failure e = CeCleanAuth (CaCrypto (Crypto e))"

definition verify_fast_only ::
    "('k, 's) node_env \<Rightarrow> bytes \<Rightarrow> string \<Rightarrow> tbid \<Rightarrow> channel_binding unverified \<Rightarrow>
     (bool, communerdette_error) result" where
  "verify_fast_only E nonce channel_id target u =
     rbind (check_binding_fields E (uv_inner u) nonce channel_id target) (\<lambda>_.
     rbind (rmap_err (\<lambda>_. CeStructural ''fast_sig not hex'') (ne_hex_decode E (cb_fast_sig (uv_inner u)))) (\<lambda>fast_sig.
     rmap_err crypto_failure
       (cs_verify_with (ne_crypto E) (ed25519_public_key target) ''Ed25519''
         (binding_msg nonce channel_id (cb_responder_tbid (uv_inner u))) fast_sig)))"

definition verify_slow_only ::
    "('k, 's) node_env \<Rightarrow> bytes \<Rightarrow> string \<Rightarrow> tbid \<Rightarrow> channel_binding unverified \<Rightarrow>
     (bool, communerdette_error) result" where
  "verify_slow_only E nonce channel_id target u =
     rbind (check_binding_fields E (uv_inner u) nonce channel_id target) (\<lambda>_.
     rbind (rmap_err (\<lambda>_. CeStructural ''slow_sig not hex'') (ne_hex_decode E (cb_slow_sig (uv_inner u)))) (\<lambda>slow_sig.
     rmap_err crypto_failure
       (cs_verify_with (ne_crypto E) (slh_dsa_public_key target) ''SLH-DSA-SHA2-256f''
         (binding_msg nonce channel_id (cb_responder_tbid (uv_inner u))) slow_sig)))"

definition verify_full ::
    "('k, 's) node_env \<Rightarrow> bytes \<Rightarrow> string \<Rightarrow> tbid \<Rightarrow> channel_binding unverified \<Rightarrow>
     (channel_binding clean_full, communerdette_error) result" where
  "verify_full E nonce channel_id target u =
     rbind (check_binding_fields E (uv_inner u) nonce channel_id target) (\<lambda>_.
     rbind (rmap_err (\<lambda>_. CeStructural ''fast_sig not hex'') (ne_hex_decode E (cb_fast_sig (uv_inner u)))) (\<lambda>fast_bytes.
     rbind (rmap_err (\<lambda>_. CeStructural ''slow_sig not hex'') (ne_hex_decode E (cb_slow_sig (uv_inner u)))) (\<lambda>slow_bytes.
     rbind (rmap_err crypto_failure
       (tbid_verify (ne_ffi E) (raw_bytes target)
         (binding_msg nonce channel_id (cb_responder_tbid (uv_inner u))) (fast_bytes @ slow_bytes))) (\<lambda>ok.
     if \<not> ok then Err (CeCleanAuth InvalidSignature) else Ok (from_dual_verified (uv_inner u))))))"

subsection \<open>Authenticated pongs\<close>

record authenticated_pong =
  ap_responder_tbid :: string
  ap_challenge_echo :: string
  ap_signature :: string
  ap_signature_algorithm :: string

definition pong_of_json :: "json \<Rightarrow> (authenticated_pong, transport_error) result" where
  "pong_of_json v =
     rbind (rmap_err TrDecode (string_fields
       [''responder_tbid'', ''challenge_echo'', ''signature'', ''signature_algorithm''] v)) (\<lambda>fs.
       Ok \<lparr>ap_responder_tbid = fs ! 0, ap_challenge_echo = fs ! 1, ap_signature = fs ! 2,
           ap_signature_algorithm = fs ! 3\<rparr>)"

definition verify_pong ::
    "('k, 's) node_env \<Rightarrow> bytes \<Rightarrow> tbid \<Rightarrow> authenticated_pong \<Rightarrow>
     (authenticated_pong clean, communerdette_error) result" where
  "verify_pong E challenge target p =
     rbind (rmap_err (\<lambda>_. CeStructural ''bad responder_tbid'')
              (from_hex (hex_opt E) (ap_responder_tbid p))) (\<lambda>responder.
     if responder \<noteq> target
     then Err (CeTbidMismatch (to_hex (ne_hex_encode E) target) (ap_responder_tbid p))
     else
     rbind (rmap_err (\<lambda>_. CeStructural ''challenge_echo not hex'') (ne_hex_decode E (ap_challenge_echo p))) (\<lambda>echo.
     if echo \<noteq> challenge then Err (CeStructural ''challenge_echo mismatch'')
     else
     rbind (rmap_err (\<lambda>_. CeStructural ''signature not hex'') (ne_hex_decode E (ap_signature p))) (\<lambda>sig.
     rbind (rmap_err crypto_failure
       (cs_verify_with (ne_crypto E) (ed25519_public_key target) ''Ed25519''
         (challenge @ as_bytes (to_hex (ne_hex_encode E) target)) sig)) (\<lambda>ok.
     if \<not> ok then Err (CeCleanAuth InvalidSignature) else Ok (ca_from_trusted p)))))"

subsection \<open>Gates of a peer's answers\<close>

fun gate_records_from ::
    "('k, 's) node_env \<Rightarrow> tbid \<Rightarrow> chronon_record clean list \<Rightarrow> chronon_record list \<Rightarrow>
     (chronon_record clean list, communerdette_error) result" where
  "gate_records_from E target authenticated [] = Ok authenticated"
| "gate_records_from E target authenticated (r # rs) =
     (if cr_chronon_number r = 0 \<or> cr_public_key r = []
      then Err (CeStructural ''chronon_number == 0 or empty public_key'')
      else if cr_tbid r \<noteq> target
      then Err (CeTbidMismatch (to_hex (ne_hex_encode E) target) (to_hex (ne_hex_encode E) (cr_tbid r)))
      else
        rbind (rmap_err CeCleanAuth (case list_last authenticated of
                 None \<Rightarrow> verify_chronon (ne_ffi E) (ne_hex_encode E) (ne_crypto E) None (from_parsed r)
               | Some p \<Rightarrow> gate_after E p (from_parsed r))) (\<lambda>ca.
          gate_records_from E target (authenticated @ [ca]) rs))"

definition gate_chronon_records ::
    "('k, 's) node_env \<Rightarrow> tbid \<Rightarrow> chronon_record list \<Rightarrow> (chronon_record clean list, communerdette_error) result" where
  "gate_chronon_records E target rs = gate_records_from E target [] rs"

definition foretis_of_answer ::
    "('k, 's) node_env \<Rightarrow> json \<Rightarrow> (foretis_record unverified, communerdette_error) result" where
  "foretis_of_answer E v =
     rmap_err (\<lambda>e. CeTransport (TrDecode (ne_show_parse E e)))
       (from_json_value_v2 as_object as_str (ne_foretis_of_json E) (hex_opt E) v)"

definition gate_foretis ::
    "('k, 's) node_env \<Rightarrow> tbid \<Rightarrow> json \<Rightarrow> chronon_record clean \<Rightarrow> bytes \<Rightarrow>
     (foretis_record clean, communerdette_error) result" where
  "gate_foretis E target raw chronon content =
     rbind (foretis_of_answer E raw) (\<lambda>u.
     if fr_chronon_number (uv_inner u) = 0
     then Err (CeStructural ''structurally invalid ForetisRecord: chronon_number == 0'')
     else if fr_tbid (uv_inner u) \<noteq> target
     then Err (CeTbidMismatch (to_hex (ne_hex_encode E) target) (to_hex (ne_hex_encode E) (fr_tbid (uv_inner u))))
     else if \<not> has_signatures u
     then Err (CeStructural ''structurally invalid ForetisRecord: no signatures in envelope'')
     else rmap_err CeCleanAuth (verify_foretis (ne_postcard E) (ne_crypto E) chronon content u))"

subsection \<open>The host\<close>

type_synonym ('h, 'a) call = "('h, 'a, communerdette_error) stateful"

record 'h comm_host =
  ho_lookup_tbid :: "string \<Rightarrow> string \<Rightarrow> ('h, peer_record option) call"
  ho_namespace :: "('h, string) call"
  ho_execute_stamp :: "net_peer_addr \<Rightarrow> string \<Rightarrow> string \<Rightarrow> string \<Rightarrow> ('h, json, transport_error) stateful"
  ho_execute_calendar_slice :: "net_peer_addr \<Rightarrow> u64 \<Rightarrow> u64 \<Rightarrow> ('h, chronon_record list, transport_error) stateful"
  ho_execute_channel_bind_challenge ::
    "net_peer_addr \<Rightarrow> string \<Rightarrow> string \<Rightarrow> string \<Rightarrow> ('h, json, transport_error) stateful"
  ho_execute_ping :: "net_peer_addr \<Rightarrow> ('h, unit, transport_error) stateful"
  ho_sign_probity_report :: "probity_report \<Rightarrow> ('h, bytes, string) stateful"
  ho_publish_probity_report :: "bytes \<Rightarrow> ('h, unit) call"

text \<open>\<^verbatim>\<open>map_err\<close> of a call, and a call whose error is only logged.\<close>

definition smap_err :: "('e \<Rightarrow> 'f) \<Rightarrow> ('h, 'a, 'e) stateful \<Rightarrow> ('h, 'a, 'f) stateful" where
  "smap_err f m h = (case m h of (r, h') \<Rightarrow> (rmap_err f r, h'))"

definition sattempt :: "('h, 'a, 'e) stateful \<Rightarrow> ('h, 'a option, 'f) stateful" where
  "sattempt m h = (case m h of
     (Ok a, h') \<Rightarrow> (Ok (Some a), h') | (Err e, h') \<Rightarrow> (Ok None, h') | (Panic, h') \<Rightarrow> (Panic, h'))"

text \<open>\<^verbatim>\<open>CommunerdetteExecutor\<close>: the host, the TBID at the other end, codecs, clock.\<close>

record ('k, 's, 'h) executor =
  ex_env :: "('k, 's) node_env"
  ex_host :: "'h comm_host"
  ex_target :: tbid
  ex_parse_peer_id :: "string \<Rightarrow> string option"
  ex_clock :: clock_reading
  ex_local_calendar_tbid :: "string option"

definition ex_hex :: "('k, 's, 'h) executor \<Rightarrow> string" where
  "ex_hex X = to_hex (ne_hex_encode (ex_env X)) (ex_target X)"

definition clock_or_zero :: "clock_reading \<Rightarrow> u64" where
  "clock_or_zero c = (case c of Ok n \<Rightarrow> n | _ \<Rightarrow> 0)"

text \<open>The 32-bit float 1.0.\<close>

definition f32_one :: f32 where
  "f32_one = 1065353216"

definition emit_fb_report :: "('k, 's, 'h) executor \<Rightarrow> f32 \<Rightarrow> ('h, unit) call" where
  "emit_fb_report X v = (case ex_local_calendar_tbid X of
     None \<Rightarrow> sret ()
   | Some reporter \<Rightarrow>
       sbind (sattempt (ho_sign_probity_report (ex_host X)
                \<lparr>pr_subject = ex_hex X, pr_reporter = reporter, pr_attribute = ''fb'', pr_value = v,
                 pr_timestamp_ns = clock_or_zero (ex_clock X), pr_signature = [], pr_curve = 1,
                 pr_slow_signature = []\<rparr>)) (\<lambda>signed.
       case signed of Some b \<Rightarrow> ho_publish_probity_report (ex_host X) b | None \<Rightarrow> sret ()))"

definition resolve_peer :: "('k, 's, 'h) executor \<Rightarrow> ('h, net_peer_addr) call" where
  "resolve_peer X =
     sbind (ho_namespace (ex_host X)) (\<lambda>ns.
     sbind (ho_lookup_tbid (ex_host X) (ex_hex X) ns) (\<lambda>owner.
     slift (case owner of
       None \<Rightarrow> Err (CeTransport (TrConnect (''TBID '' @ ex_hex X @ '' not found in DHT'')))
     | Some r \<Rightarrow> Ok \<lparr>na_json_rpc = pg_json_rpc r, na_peer_id = ex_parse_peer_id X (pg_peer_id r),
                     na_last_seen_ns = 0\<rparr>)))"

subsection \<open>Requests\<close>

text \<open>The parameters both transports send with a request.\<close>

definition channel_bind_params :: "string \<Rightarrow> string \<Rightarrow> string \<Rightarrow> json" where
  "channel_bind_params nonce_hex channel_id requester_tbid_hex =
     JObject [(''nonce'', JString nonce_hex), (''channel_id'', JString channel_id),
              (''requester_tbid'', JString requester_tbid_hex)]"

definition route_stamp_request :: "string \<Rightarrow> string \<Rightarrow> string \<Rightarrow> json" where
  "route_stamp_request target_tbid content_hex echo =
     JObject [(''target_tbid'', JString target_tbid), (''content'', JString content_hex), (''echo'', JString echo)]"

definition calendar_slice_request :: "u64 \<Rightarrow> u64 \<Rightarrow> json" where
  "calendar_slice_request tick_start cnt =
     JObject [(''cal_chronon_start'', jnum tick_start), (''count'', jnum cnt)]"

definition execute_calendar_slice ::
    "('k, 's, 'h) executor \<Rightarrow> u64 \<Rightarrow> u64 \<Rightarrow> ('h, chronon_record clean list) call" where
  "execute_calendar_slice X tick_start cnt =
     sbind (resolve_peer X) (\<lambda>peer.
     sbind (smap_err CeTransport (ho_execute_calendar_slice (ex_host X) peer tick_start cnt)) (\<lambda>raw.
       slift (gate_chronon_records (ex_env X) (ex_target X) raw)))"

definition execute_tick :: "('k, 's, 'h) executor \<Rightarrow> u64 \<Rightarrow> ('h, chronon_record clean) call" where
  "execute_tick X tick_number =
     sbind (execute_calendar_slice X tick_number 1) (\<lambda>slice.
       slift (ok_or (CeStructural ''empty calendar slice for single tick request'') (list_first slice)))"

definition execute_stamp :: "('k, 's, 'h) executor \<Rightarrow> bytes \<Rightarrow> string \<Rightarrow> ('h, foretis_record clean) call" where
  "execute_stamp X content echo =
     sbind (resolve_peer X) (\<lambda>peer.
     sbind (smap_err CeTransport (ho_execute_stamp (ex_host X) peer (ex_hex X)
              (ne_hex_encode (ex_env X) content) echo)) (\<lambda>raw.
     sbind (slift (foretis_of_answer (ex_env X) raw)) (\<lambda>tmp.
     sbind (execute_tick X (fr_chronon_number (uv_inner tmp))) (\<lambda>chronon.
       slift (gate_foretis (ex_env X) (ex_target X) raw chronon content)))))"

text \<open>
  The methods of \<^verbatim>\<open>CommunerdetteLine\<close>: a request, and the time of its success in the flags of
  the relationship.
\<close>

definition line_call :: "clock_reading \<Rightarrow> ('h, 'a) call \<Rightarrow> ('h \<times> communerdette, 'a) call" where
  "line_call clock m = (\<lambda>(h, c). case m h of (r, h') \<Rightarrow>
     (r, (h', if is_ok r then on_flags (set_last_application_rpc_ns (clock_or_zero clock)) c else c)))"

definition line_get_calendar_slice ::
    "('k, 's, 'h) executor \<Rightarrow> u64 \<Rightarrow> u64 \<Rightarrow> ('h \<times> communerdette, chronon_record clean list) call" where
  "line_get_calendar_slice X tick_start cnt =
     line_call (ex_clock X) (execute_calendar_slice (X\<lparr>ex_local_calendar_tbid := None\<rparr>) tick_start cnt)"

definition line_get_chronon ::
    "('k, 's, 'h) executor \<Rightarrow> u64 \<Rightarrow> ('h \<times> communerdette, chronon_record clean) call" where
  "line_get_chronon X tick_number =
     line_call (ex_clock X) (execute_tick (X\<lparr>ex_local_calendar_tbid := None\<rparr>) tick_number)"

definition line_stamp ::
    "('k, 's, 'h) executor \<Rightarrow> bytes \<Rightarrow> string \<Rightarrow> ('h \<times> communerdette, foretis_record clean) call" where
  "line_stamp X content echo =
     line_call (ex_clock X) (execute_stamp (X\<lparr>ex_local_calendar_tbid := None\<rparr>) content echo)"

definition line_stamp_chronon ::
    "(bytes \<Rightarrow> (bytes, string) result) \<Rightarrow> (bytes \<Rightarrow> (bytes, string) result) \<Rightarrow> ('k, 's, 'h) executor \<Rightarrow>
     bytes \<Rightarrow> serialization_algorithm \<Rightarrow> string \<Rightarrow> ('h \<times> communerdette, foretis_record clean) call" where
  "line_stamp_chronon postcard bincode X content alg echo =
     sbind (slift (rmap_err (\<lambda>e. CeStructural (serialization_name alg @ '' serialization failed: '' @
              ne_show_error (ex_env X) e)) (serialize postcard bincode alg content))) (\<lambda>serialized.
       line_stamp X serialized echo)"

subsection \<open>The channel-binding task\<close>

definition channel_bind_task ::
    "('k, 's, 'h) executor \<Rightarrow> bool \<Rightarrow> bytes \<Rightarrow> string \<Rightarrow> ('h, channel_binding clean_full option) call" where
  "channel_bind_task X cancelled nonce channel_id =
     (if cancelled then sret None
      else
        sbind (sattempt (resolve_peer X)) (\<lambda>found. case found of None \<Rightarrow> sret None | Some peer \<Rightarrow>
        sbind (sattempt (ho_execute_channel_bind_challenge (ex_host X) peer
                 (ne_hex_encode (ex_env X) nonce) channel_id (ex_hex X))) (\<lambda>answer.
        case answer of None \<Rightarrow> sret None | Some raw \<Rightarrow>
        (case channel_binding_of_json raw of
           Ok u \<Rightarrow>
             sbind (sattempt (slift (verify_full (ex_env X) nonce channel_id (ex_target X) u))) (\<lambda>bound.
             case bound of
               None \<Rightarrow> sret None
             | Some b \<Rightarrow> sbind (emit_fb_report X f32_one) (\<lambda>_. sret (Some b)))
         | _ \<Rightarrow> sret None))))"

subsection \<open>One round of each liveness task\<close>

definition saturating_mul :: "u64 \<Rightarrow> u64 \<Rightarrow> u64" where
  "saturating_mul a b = (if unat a * unat b < 2 ^ 64 then a * b else u64_max)"

definition l1_round ::
    "('k, 's, 'h) executor \<Rightarrow> u64 \<Rightarrow> liveness_cycle_flags \<Rightarrow> ('h, liveness_cycle_flags) call" where
  "l1_round X interval_ms flags =
     (let last_rpc_ns = lf_last_application_rpc_ns flags in
      if last_rpc_ns > 0 \<and>
         saturating_sub (clock_or_zero (ex_clock X)) last_rpc_ns < saturating_mul interval_ms 1000000
      then sret (set_l1_ok True flags)
      else
        sbind (sattempt (resolve_peer X)) (\<lambda>found. case found of
          None \<Rightarrow> sret (set_l1_ok False flags)
        | Some peer \<Rightarrow>
            sbind (sattempt (ho_execute_ping (ex_host X) peer)) (\<lambda>pong.
              sret (set_l1_ok (pong \<noteq> None) flags))))"

definition l2_round ::
    "('k, 's, 'h) executor \<Rightarrow> bytes \<Rightarrow> liveness_cycle_flags \<Rightarrow> ('h, liveness_cycle_flags) call" where
  "l2_round X challenge flags =
     (if \<not> lf_l1_last_ok flags then sret (set_l2_ok False flags)
      else
        sbind (sattempt (resolve_peer X)) (\<lambda>found. case found of
          None \<Rightarrow> sret (set_l2_ok False flags)
        | Some peer \<Rightarrow>
            sbind (sattempt (ho_execute_stamp (ex_host X) peer (ex_hex X)
                     (ne_hex_encode (ex_env X) challenge) ''auth-ping'')) (\<lambda>answer. case answer of
              None \<Rightarrow> sret (set_l2_ok False flags)
            | Some raw \<Rightarrow> (case pong_of_json raw of
                Ok p \<Rightarrow>
                  sbind (sattempt (slift (verify_pong (ex_env X) challenge (ex_target X) p))) (\<lambda>ok.
                    sret (set_l2_ok (ok \<noteq> None) flags))
              | _ \<Rightarrow> sret (set_l2_ok False flags)))))"

definition l3_round :: "('k, 's, 'h) executor \<Rightarrow> liveness_cycle_flags \<Rightarrow> ('h, liveness_cycle_flags) call" where
  "l3_round X flags =
     (if \<not> lf_l2_last_ok flags \<or> lf_binding_rejected flags then sret flags
      else sbind (sattempt (execute_stamp X (as_bytes ''liveness-probe'') ''liveness'')) (\<lambda>_. sret flags))"

end
