(* ===== verification/Peer_Transport.thy ===== *)
theory Peer_Transport
  imports Communerdette_Gate
begin

section \<open>Transports\<close>

text \<open>
  Models what \<^verbatim>\<open>JsonRpcTransport\<close> (\<^verbatim>\<open>communerd/json_rpc_transport.rs\<close>) and
  \<^verbatim>\<open>Libp2pTransport\<close> (\<^verbatim>\<open>communerd/libp2p_transport.rs\<close>) put around an exchange of JSON
  values, and the choice between them in \<^verbatim>\<open>communerd/mod.rs\<close>. The exchange itself (sockets,
  the Noise session, the swarm) is an argument; \<open>node_exchange\<close> is one with a node that runs
  the modelled server.
\<close>

type_synonym 'h rpc_call = "string \<Rightarrow> json \<Rightarrow> ('h, json, transport_error) stateful"

definition json_rpc_request :: "string \<Rightarrow> json \<Rightarrow> json" where
  "json_rpc_request meth params =
     JObject [(''jsonrpc'', JString ''2.0''), (''method'', JString meth), (''params'', params), (''id'', jnum 1)]"

text \<open>The response on the wire: an absent result or error is not written.\<close>

definition response_json :: "json_rpc_response \<Rightarrow> json" where
  "response_json r = JObject
     ([(''jsonrpc'', JString (jr_jsonrpc r))] @
      (case jr_result r of None \<Rightarrow> [] | Some v \<Rightarrow> [(''result'', v)]) @
      (case jr_error r of None \<Rightarrow> [] | Some (code, message) \<Rightarrow>
         [(''error'', JObject [(''code'', JNumber (if 0 \<le> code then PosInt (word_of_int code) else NegInt code)),
                               (''message'', JString message)])]) @
      [(''id'', unwrap_or JNull (jr_id r)), (''dormant'', JBool (jr_dormant r))])"

definition json_i64 :: "json \<Rightarrow> int option" where
  "json_i64 v = (case v of
     JNumber (PosInt n) \<Rightarrow> if uint n < 2 ^ 63 then Some (uint n) else None
   | JNumber (NegInt i) \<Rightarrow> Some i
   | _ \<Rightarrow> None)"

definition rpc_result :: "json \<Rightarrow> (json, transport_error) result" where
  "rpc_result response = (case jget ''error'' response of
     Some err \<Rightarrow> Err (TrRpc (sint (word_of_int (unwrap_or (- 1) (Option.bind (jget ''code'' err) json_i64)) :: 32 word))
       (unwrap_or ''unknown'' (get_str ''message'' err)))
   | None \<Rightarrow> ok_or (TrDecode ''missing result'') (jget ''result'' response))"

subsection \<open>The four requests\<close>

definition tr_route_stamp :: "'h rpc_call \<Rightarrow> string \<Rightarrow> string \<Rightarrow> string \<Rightarrow> ('h, json, transport_error) stateful" where
  "tr_route_stamp call target_tbid content_hex echo =
     call ''route_stamp'' (route_stamp_request target_tbid content_hex echo)"

definition chronons_of_json :: "('k, 's) node_env \<Rightarrow> json \<Rightarrow> (chronon_record list, transport_error) result" where
  "chronons_of_json E v = (case as_array v of
     None \<Rightarrow> Err (TrDecode ''invalid type'')
   | Some vs \<Rightarrow> rmap_err TrDecode (try_map (ne_chronon_of_json E) vs))"

definition tr_get_calendar_slice ::
    "('k, 's) node_env \<Rightarrow> 'h rpc_call \<Rightarrow> u64 \<Rightarrow> u64 \<Rightarrow> ('h, chronon_record list, transport_error) stateful" where
  "tr_get_calendar_slice E call tick_start cnt =
     sbind (call ''get_calendar_slice'' (calendar_slice_request tick_start cnt)) (\<lambda>v. slift (chronons_of_json E v))"

definition tr_ping :: "'h rpc_call \<Rightarrow> ('h, unit, transport_error) stateful" where
  "tr_ping call = sbind (call ''ping'' (JObject [])) (\<lambda>_. sret ())"

definition tr_channel_bind_challenge ::
    "'h rpc_call \<Rightarrow> string \<Rightarrow> string \<Rightarrow> string \<Rightarrow> ('h, json, transport_error) stateful" where
  "tr_channel_bind_challenge call nonce_hex channel_id requester_tbid_hex =
     call ''channel_bind_challenge'' (channel_bind_params nonce_hex channel_id requester_tbid_hex)"

subsection \<open>The libp2p layer and the fallback\<close>

definition libp2p_rpc_call ::
    "bool \<Rightarrow> (string \<Rightarrow> json \<Rightarrow> ('h, json, transport_error) stateful) \<Rightarrow> net_peer_addr \<Rightarrow> 'h rpc_call" where
  "libp2p_rpc_call swarm_active exchange peer meth params =
     (if \<not> swarm_active then slift (Err (TrConnect ''libp2p swarm not active''))
      else (case na_peer_id peer of
        None \<Rightarrow> slift (Err (TrUnsupported ''peer has no libp2p PeerId''))
      | Some pid \<Rightarrow> exchange pid (json_rpc_request meth params)))"

text \<open>The libp2p layer first when it can be used; after an error of it, the TCP transport.\<close>

definition with_fallback ::
    "bool \<Rightarrow> net_peer_addr \<Rightarrow> ('h, 'a, transport_error) stateful \<Rightarrow> ('h, 'a, transport_error) stateful \<Rightarrow>
     ('h, 'a, transport_error) stateful" where
  "with_fallback swarm_active peer libp2p tcp h =
     (if na_peer_id peer \<noteq> None \<and> swarm_active
      then (case libp2p h of (Err _, h') \<Rightarrow> tcp h' | r \<Rightarrow> r)
      else tcp h)"

subsection \<open>An exchange with a node\<close>

text \<open>
  The node answers with its response; when it panics the connection ends without one. The state
  is that of the node.
\<close>

definition node_exchange ::
    "('k, 's) node_env \<Rightarrow> 'k call_inputs \<Rightarrow> json \<Rightarrow> ('k time_family_server, json, transport_error) stateful" where
  "node_exchange E inp request s = (case jsonrpc_handler E inp request s of
     (Ok resp, s') \<Rightarrow> (rpc_result (response_json resp), s')
   | (_, s') \<Rightarrow> (Err (TrConnect ''connection closed''), s'))"

definition node_rpc :: "('k, 's) node_env \<Rightarrow> 'k call_inputs \<Rightarrow> 'k time_family_server rpc_call" where
  "node_rpc E inp meth params = node_exchange E inp (json_rpc_request meth params)"

text \<open>A host whose only peer is that node, found under every TBID.\<close>

definition node_host ::
    "('k, 's) node_env \<Rightarrow> 'k call_inputs \<Rightarrow> peer_record \<Rightarrow> 'k time_family_server comm_host" where
  "node_host E inp r =
     \<lparr>ho_lookup_tbid = (\<lambda>_ _. sret (Some r)), ho_namespace = sret ''mainnet'',
      ho_execute_stamp = (\<lambda>_ t c e. tr_route_stamp (node_rpc E inp) t c e),
      ho_execute_calendar_slice = (\<lambda>_ n c. tr_get_calendar_slice E (node_rpc E inp) n c),
      ho_execute_channel_bind_challenge = (\<lambda>_ n c q. tr_channel_bind_challenge (node_rpc E inp) n c q),
      ho_execute_ping = (\<lambda>_. tr_ping (node_rpc E inp)),
      ho_sign_probity_report = (\<lambda>_. slift (Err ''no key'')),
      ho_publish_probity_report = (\<lambda>_. sret ())\<rparr>"

subsection \<open>What a node's answer means\<close>

lemma rpc_result_response:
  "rpc_result (response_json r) = Ok v \<longleftrightarrow> jr_error r = None \<and> jr_result r = Some v"
  by (cases "jr_error r"; cases "jr_result r")
    (auto simp: rpc_result_def response_json_def split: prod.splits)

lemma node_exchange_Ok:
  "node_exchange E inp req s = (Ok v, s') \<longleftrightarrow>
     (\<exists>resp. jsonrpc_handler E inp req s = (Ok resp, s') \<and> jr_error resp = None \<and> jr_result resp = Some v)"
  by (auto simp: node_exchange_def rpc_result_response split: prod.splits result.splits)

lemma node_rpc_Ok:
  "node_rpc E inp meth ps s = (Ok v, s') \<longleftrightarrow>
     (\<exists>resp. dispatch True E inp (Some (jnum 1)) meth ps s = (Ok resp, s') \<and> jr_error resp = None \<and>
        jr_result resp = Some v)"
proof -
  have "process_request_from_value True E inp (json_rpc_request meth ps) s = dispatch True E inp (Some (jnum 1)) meth ps s"
    by (simp add: process_request_from_value_def json_rpc_request_def get_str_def)
  then show ?thesis
    by (auto simp: node_rpc_def node_exchange_Ok jsonrpc_handler_def answer_errors_def plain_error_def rpc_error_def
        split: prod.splits result.splits)
qed

lemma node_rpc_no_panic: "fst (node_rpc E inp meth ps s) \<noteq> Panic"
proof -
  have "rpc_result v \<noteq> Panic" for v
    by (cases "jget ''result'' v") (auto simp: rpc_result_def split: option.splits)
  then show ?thesis by (simp add: node_rpc_def node_exchange_def split: prod.splits result.splits)
qed

lemma dispatch_peer_eqs:
  "dispatch rt E inp i ''channel_bind_challenge'' ps = handle_channel_bind_challenge E ps"
  "dispatch rt E inp i ''get_calendar_slice'' ps = handle_get_calendar_slice E ps"
  "dispatch rt E inp i ''ping'' ps = handle_ping ps"
  by (simp_all add: dispatch_def arms_def fun_eq_iff)

lemma node_host_simps [simp]:
  "ho_lookup_tbid (node_host E inp r) t ns = sret (Some r)"
  "ho_namespace (node_host E inp r) = sret ''mainnet''"
  "ho_execute_stamp (node_host E inp r) peer t c e = tr_route_stamp (node_rpc E inp) t c e"
  "ho_execute_calendar_slice (node_host E inp r) peer n m = tr_get_calendar_slice E (node_rpc E inp) n m"
  "ho_execute_channel_bind_challenge (node_host E inp r) peer nonce c q =
     tr_channel_bind_challenge (node_rpc E inp) nonce c q"
  "ho_execute_ping (node_host E inp r) peer = tr_ping (node_rpc E inp)"
  by (simp_all add: node_host_def)

end
