(* ===== verification/Peer_Tables.thy ===== *)
theory Peer_Tables
  imports Peer_Record Alists
begin

section \<open>Tables of peers\<close>

text \<open>
  Models \<^verbatim>\<open>PeerPool\<close> (\<^verbatim>\<open>communerd/peer_pool.rs\<close>), the list of peers keyed by their
  JSON-RPC address, and \<^verbatim>\<open>DhtPeerSource\<close> (\<^verbatim>\<open>communerd/dht_peer_source.rs\<close>), the bounded
  map of peers keyed by their peer id with its index by capability. Both keep the contract of a
  table with distinct keys, the locale \<open>peer_table\<close>.
\<close>

subsection \<open>The contract\<close>

locale peer_table =
  fixes keys :: "'s \<Rightarrow> string set" and invar :: "'s \<Rightarrow> bool"
    and add :: "string \<Rightarrow> 'p \<Rightarrow> 's \<Rightarrow> 's" and remove :: "string \<Rightarrow> 's \<Rightarrow> 's"
  assumes add_invar: "invar s \<Longrightarrow> invar (add k p s)" and remove_invar: "invar s \<Longrightarrow> invar (remove k s)"
    and keys_add: "invar s \<Longrightarrow> keys s \<subseteq> keys (add k p s) \<and> keys (add k p s) \<subseteq> insert k (keys s)"
    and keys_remove: "invar s \<Longrightarrow> keys (remove k s) = keys s - {k}"
begin

text \<open>Additions (with a peer) and removals, in any order.\<close>

definition table_step :: "string \<times> 'p option \<Rightarrow> 's \<Rightarrow> 's" where
  "table_step e s = (case e of (k, Some p) \<Rightarrow> add k p s | (k, None) \<Rightarrow> remove k s)"

lemma step_invar: "invar s \<Longrightarrow> invar (table_step e s)"
  by (auto simp: table_step_def add_invar remove_invar split: prod.splits option.splits)

lemma run_invar: "invar s \<Longrightarrow> invar (fold table_step es s)"
  by (induction es arbitrary: s) (simp_all add: step_invar)

lemma run_keys: "invar s \<Longrightarrow> keys (fold table_step es s) \<subseteq> keys s \<union> {k. \<exists>p. (k, Some p) \<in> set es}"
proof (induction es arbitrary: s)
  case (Cons e es)
  have "keys (table_step e s) \<subseteq> keys s \<union> {k. \<exists>p. (k, Some p) = e}"
  proof (cases e)
    case (Pair k x)
    then show ?thesis
      using keys_add [OF Cons.prems, of k] keys_remove [OF Cons.prems, of k]
      by (cases x) (auto simp: table_step_def)
  qed
  with Cons.IH [OF step_invar [OF Cons.prems, of e]]
  have "keys (fold table_step es (table_step e s)) \<subseteq>
      keys s \<union> {k. \<exists>p. (k, Some p) = e} \<union> {k. \<exists>p. (k, Some p) \<in> set es}" by blast
  then show ?case unfolding fold_simps list.set by blast
qed simp

lemma removed_stays_out:
  assumes "invar s" and "\<forall>p. (k, Some p) \<notin> set es"
  shows "k \<notin> keys (fold table_step es (remove k s))"
  using run_keys [OF remove_invar [OF assms(1)], of es k] keys_remove [OF assms(1), of k] assms(2) by auto

end

subsection \<open>The pool\<close>

definition pool_add_peer :: "net_peer_addr \<Rightarrow> net_peer_addr list \<Rightarrow> net_peer_addr list" where
  "pool_add_peer addr peers =
     (if \<not> list_ex (\<lambda>p. na_json_rpc p = na_json_rpc addr) peers then peers @ [addr] else peers)"

definition pool_remove_peer :: "net_peer_addr \<Rightarrow> net_peer_addr list \<Rightarrow> net_peer_addr list" where
  "pool_remove_peer addr peers = filter (\<lambda>p. na_json_rpc p \<noteq> na_json_rpc addr) peers"

definition pool_keys :: "net_peer_addr list \<Rightarrow> string set" where
  "pool_keys peers = na_json_rpc ` set peers"

lemma pool_keys_add: "pool_keys (pool_add_peer a ps) = insert (na_json_rpc a) (pool_keys ps)"
  by (auto simp: pool_keys_def pool_add_peer_def list_ex_iff intro: rev_image_eqI)

lemma pool_keys_remove: "pool_keys (pool_remove_peer a ps) = pool_keys ps - {na_json_rpc a}"
  by (auto simp: pool_keys_def pool_remove_peer_def)

lemma pool_add_distinct:
  "distinct (map na_json_rpc ps) \<Longrightarrow> distinct (map na_json_rpc (pool_add_peer a ps))"
  by (auto simp: pool_add_peer_def list_ex_iff)

lemma pool_remove_distinct:
  "distinct (map na_json_rpc ps) \<Longrightarrow> distinct (map na_json_rpc (pool_remove_peer a ps))"
  by (simp add: pool_remove_peer_def distinct_map_filter)

interpretation pool: peer_table pool_keys "\<lambda>ps. distinct (map na_json_rpc ps)"
    "\<lambda>k p. pool_add_peer (p\<lparr>na_json_rpc := k\<rparr>)"
    "\<lambda>k. pool_remove_peer \<lparr>na_json_rpc = k, na_peer_id = None, na_last_seen_ns = 0\<rparr>"
  by unfold_locales (auto simp: pool_add_distinct pool_remove_distinct pool_keys_add pool_keys_remove)

subsection \<open>Peers from the DHT\<close>

definition MAX_PEERS :: nat where
  "MAX_PEERS = 256"

record dht_peer_source =
  ds_peers :: "(string \<times> net_peer_addr) list"
  ds_capability_index :: "peer_capability \<rightharpoonup> string set"

definition dht_peer_source_default :: dht_peer_source where
  "dht_peer_source_default = \<lparr>ds_peers = [], ds_capability_index = Map.empty\<rparr>"

definition index_capability ::
    "string \<Rightarrow> peer_capability \<Rightarrow> (peer_capability \<rightharpoonup> string set) \<Rightarrow> (peer_capability \<rightharpoonup> string set)" where
  "index_capability peer_id cap idx =
     idx(cap \<mapsto> insert peer_id (case idx cap of Some ids \<Rightarrow> ids | None \<Rightarrow> {}))"

definition upsert_with_capabilities ::
    "string \<Rightarrow> net_peer_addr \<Rightarrow> peer_capability list \<Rightarrow> dht_peer_source \<Rightarrow> dht_peer_source" where
  "upsert_with_capabilities peer_id addr caps s =
     (if length (ds_peers s) \<ge> MAX_PEERS \<and> map_of (ds_peers s) peer_id = None then s
      else s\<lparr>ds_peers := AList.update peer_id addr (ds_peers s),
             ds_capability_index := fold (index_capability peer_id) caps (ds_capability_index s)\<rparr>)"

definition upsert :: "string \<Rightarrow> net_peer_addr \<Rightarrow> dht_peer_source \<Rightarrow> dht_peer_source" where
  "upsert peer_id addr = upsert_with_capabilities peer_id addr [AttestWilling]"

text \<open>\<open>order\<close> is the order in which a hash set is walked.\<close>

definition list_by_capability ::
    "(string set \<Rightarrow> string list) \<Rightarrow> peer_capability \<Rightarrow> dht_peer_source \<Rightarrow> net_peer_addr list" where
  "list_by_capability order cap s =
     List.map_filter (map_of (ds_peers s))
       (order (case ds_capability_index s cap of Some ids \<Rightarrow> ids | None \<Rightarrow> {}))"

definition ds_remove :: "string \<Rightarrow> dht_peer_source \<Rightarrow> dht_peer_source" where
  "ds_remove peer_id s =
     s\<lparr>ds_peers := AList.delete peer_id (ds_peers s),
       ds_capability_index := (\<lambda>cap. case ds_capability_index s cap of
         None \<Rightarrow> None
       | Some ids \<Rightarrow> (let ids' = ids - {peer_id} in if ids' = {} then None else Some ids'))\<rparr>"

definition update_json_rpc :: "string \<Rightarrow> string \<Rightarrow> dht_peer_source \<Rightarrow> dht_peer_source" where
  "update_json_rpc peer_id json_rpc s = (case map_of (ds_peers s) peer_id of
     None \<Rightarrow> s
   | Some entry \<Rightarrow> s\<lparr>ds_peers := AList.update peer_id (entry\<lparr>na_json_rpc := json_rpc\<rparr>) (ds_peers s)\<rparr>)"

definition ds_list :: "dht_peer_source \<Rightarrow> net_peer_addr list" where
  "ds_list s = map snd (ds_peers s)"

text \<open>
  The invariant: distinct peer ids, no more than the maximum, and an index of known peers only,
  without empty entries.
\<close>

definition ds_inv :: "dht_peer_source \<Rightarrow> bool" where
  "ds_inv s \<longleftrightarrow> distinct (map fst (ds_peers s)) \<and> length (ds_peers s) \<le> MAX_PEERS \<and>
     (\<forall>cap ids. ds_capability_index s cap = Some ids \<longrightarrow> ids \<noteq> {} \<and> ids \<subseteq> fst ` set (ds_peers s))"

definition ds_keys :: "dht_peer_source \<Rightarrow> string set" where
  "ds_keys s = fst ` set (ds_peers s)"

lemma fold_index:
  "fold (index_capability i) caps idx c =
     (if c \<in> set caps then Some (insert i (case idx c of Some ids \<Rightarrow> ids | None \<Rightarrow> {})) else idx c)"
  by (induction caps arbitrary: idx) (auto simp: index_capability_def split: option.splits)

lemma keys_update: "fst ` set (AList.update k v xs) = insert k (fst ` set xs)"
  by (induction xs) auto

lemma keys_delete: "fst ` set (AList.delete k xs) = fst ` set xs - {k}"
  by (induction xs) auto

lemma ds_inv_upsert:
  assumes "ds_inv s" shows "ds_inv (upsert_with_capabilities i a caps s)"
proof (cases "length (ds_peers s) \<ge> MAX_PEERS \<and> map_of (ds_peers s) i = None")
  case False
  have "i \<in> fst ` set (ds_peers s) \<or> length (ds_peers s) < MAX_PEERS"
    using False by (auto simp: map_of_eq_None_iff)
  then have "length (AList.update i a (ds_peers s)) \<le> MAX_PEERS"
    using assms by (auto simp: ds_inv_def length_update)
  with False assms show ?thesis
    by (auto simp: upsert_with_capabilities_def ds_inv_def distinct_update keys_update fold_index split: option.splits)
qed (use assms in \<open>simp add: upsert_with_capabilities_def\<close>)

lemma ds_inv_remove: "ds_inv s \<Longrightarrow> ds_inv (ds_remove i s)"
proof -
  assume inv: "ds_inv s"
  have "length (AList.delete i (ds_peers s)) \<le> length (ds_peers s)" by (rule length_delete_le)
  with inv show ?thesis
    by (auto simp: ds_inv_def ds_remove_def distinct_delete keys_delete Let_def split: option.splits if_splits)
qed

lemma ds_inv_update_json_rpc: "ds_inv s \<Longrightarrow> ds_inv (update_json_rpc i j s)"
proof -
  assume inv: "ds_inv s"
  show ?thesis
  proof (cases "map_of (ds_peers s) i")
    case (Some a)
    then have known: "i \<in> fst ` set (ds_peers s)" by (metis map_of_eq_None_iff option.distinct(1))
    then have "insert i (fst ` set (ds_peers s)) = fst ` set (ds_peers s)" by blast
    with inv known Some show ?thesis
      by (auto simp: ds_inv_def update_json_rpc_def distinct_update length_update keys_update)
  qed (use inv in \<open>simp add: update_json_rpc_def\<close>)
qed

lemma ds_keys_upsert:
  "ds_keys (upsert_with_capabilities i a caps s) =
     (if length (ds_peers s) \<ge> MAX_PEERS \<and> map_of (ds_peers s) i = None then ds_keys s else insert i (ds_keys s))"
  by (simp add: ds_keys_def upsert_with_capabilities_def keys_update)

lemma ds_keys_remove: "ds_keys (ds_remove i s) = ds_keys s - {i}"
  by (simp add: ds_keys_def ds_remove_def keys_delete)

interpretation dht: peer_table ds_keys ds_inv "\<lambda>k (a, caps). upsert_with_capabilities k a caps" ds_remove
  by unfold_locales (auto simp: ds_inv_upsert ds_inv_remove ds_keys_upsert ds_keys_remove split: if_splits)

subsection \<open>The table as a map to addresses and capabilities\<close>

definition ds_abs :: "dht_peer_source \<Rightarrow> string \<rightharpoonup> net_peer_addr \<times> peer_capability set" where
  "ds_abs s i = (case map_of (ds_peers s) i of
     None \<Rightarrow> None
   | Some a \<Rightarrow> Some (a, {c. \<exists>ids. ds_capability_index s c = Some ids \<and> i \<in> ids}))"

definition caps_of :: "string \<Rightarrow> (string \<rightharpoonup> net_peer_addr \<times> peer_capability set) \<Rightarrow> peer_capability set" where
  "caps_of i m = (case m i of None \<Rightarrow> {} | Some (a, cs) \<Rightarrow> cs)"

lemma caps_of_abs:
  assumes "ds_inv s"
  shows "caps_of i (ds_abs s) = {c. \<exists>ids. ds_capability_index s c = Some ids \<and> i \<in> ids}"
proof (cases "map_of (ds_peers s) i")
  case None
  then have "i \<notin> fst ` set (ds_peers s)" by (simp add: map_of_eq_None_iff)
  with assms None show ?thesis by (auto simp: caps_of_def ds_abs_def ds_inv_def)
qed (simp add: caps_of_def ds_abs_def)

lemma abs_upsert:
  assumes "ds_inv s"
  shows "ds_abs (upsert_with_capabilities i a caps s) =
    (if card (dom (ds_abs s)) \<ge> MAX_PEERS \<and> ds_abs s i = None then ds_abs s
     else (ds_abs s)(i \<mapsto> (a, set caps \<union> caps_of i (ds_abs s))))"
proof -
  have dom: "dom (ds_abs s) = fst ` set (ds_peers s)"
    by (auto simp: ds_abs_def dom_def map_of_eq_None_iff image_iff split: option.splits)
  have "card (dom (ds_abs s)) = length (ds_peers s)"
    using assms unfolding dom by (metis card_image distinct_card distinct_map ds_inv_def length_map list.set_map)
  moreover have "ds_abs s i = None \<longleftrightarrow> map_of (ds_peers s) i = None"
    by (simp add: ds_abs_def split: option.splits)
  moreover have "ds_abs (upsert_with_capabilities i a caps s) j =
      ((ds_abs s)(i \<mapsto> (a, set caps \<union> caps_of i (ds_abs s)))) j"
    if "\<not> (length (ds_peers s) \<ge> MAX_PEERS \<and> map_of (ds_peers s) i = None)" for j
    using that
    by (auto simp: ds_abs_def caps_of_abs [OF assms] upsert_with_capabilities_def map_of_update fold_index
        split: option.splits if_splits)
  ultimately show ?thesis by (auto simp: upsert_with_capabilities_def fun_eq_iff)
qed

lemma abs_remove: "ds_abs (ds_remove i s) = (ds_abs s)(i := None)"
  by (auto simp: ds_abs_def ds_remove_def map_of_delete fun_eq_iff Let_def split: option.splits if_splits)

lemma abs_update_json_rpc:
  "ds_abs (update_json_rpc i j s) =
     (case ds_abs s i of None \<Rightarrow> ds_abs s | Some (a, cs) \<Rightarrow> (ds_abs s)(i \<mapsto> (a\<lparr>na_json_rpc := j\<rparr>, cs)))"
  by (auto simp: ds_abs_def update_json_rpc_def map_of_update fun_eq_iff split: option.splits)

lemma set_list_by_capability:
  assumes "\<forall>ids \<in> insert {} (ran (ds_capability_index s)). set (order ids) = ids"
  shows "set (list_by_capability order c s) = {a. \<exists>i cs. ds_abs s i = Some (a, cs) \<and> c \<in> cs}"
proof (cases "ds_capability_index s c")
  case (Some ids)
  then have "set (order ids) = ids" using assms by (auto simp: ran_def)
  with Some show ?thesis
    by (auto simp: list_by_capability_def map_filter_def ds_abs_def image_iff split: option.splits) force+
qed (use assms in \<open>auto simp: list_by_capability_def map_filter_def ds_abs_def split: option.splits\<close>)

text \<open>
  C19: The table of DHT peers is a map from at most 256 peer ids to an address and a growing set
  of capabilities: an insertion into a full table changes known peers only, a removal removes the
  peer and all its capabilities, and the list by capability is exactly the known peers that
  advertise it.
\<close>

theorem dht_table_refines_map:
  assumes "ds_inv s" and "\<forall>ids \<in> insert {} (ran (ds_capability_index s)). set (order ids) = ids"
  shows "ds_abs (upsert_with_capabilities i a caps s) =
      (if card (dom (ds_abs s)) \<ge> MAX_PEERS \<and> ds_abs s i = None then ds_abs s
       else (ds_abs s)(i \<mapsto> (a, set caps \<union> caps_of i (ds_abs s)))) \<and>
    ds_abs (ds_remove i s) = (ds_abs s)(i := None) \<and>
    set (list_by_capability order c s) = {a. \<exists>i cs. ds_abs s i = Some (a, cs) \<and> c \<in> cs} \<and>
    ds_inv (upsert_with_capabilities i a caps s) \<and> ds_inv (ds_remove i s) \<and> ds_inv (update_json_rpc i j s)"
  using abs_upsert [OF assms(1)] abs_remove set_list_by_capability [OF assms(2)]
    ds_inv_upsert [OF assms(1)] ds_inv_remove [OF assms(1)] ds_inv_update_json_rpc [OF assms(1)]
  by simp

definition demo_addr :: net_peer_addr where
  "demo_addr = \<lparr>na_json_rpc = ''a:1'', na_peer_id = Some ''p'', na_last_seen_ns = 0\<rparr>"

definition one_peer :: dht_peer_source where
  "one_peer = upsert_with_capabilities ''p'' demo_addr [MirrorWilling] dht_peer_source_default"

lemma one_peer_fields:
  "ds_peers one_peer = [(''p'', demo_addr)]" "ds_capability_index one_peer = [MirrorWilling \<mapsto> {''p''}]"
  by (simp_all add: one_peer_def upsert_with_capabilities_def dht_peer_source_default_def MAX_PEERS_def
      index_capability_def)

theorem dht_table_refines_map_witness:
  "set (list_by_capability (\<lambda>ids. if ''p'' \<in> ids then [''p''] else []) MirrorWilling one_peer) = {demo_addr} \<and>
   ds_abs (ds_remove ''p'' one_peer) = Map.empty"
proof -
  have inv: "ds_inv one_peer"
    by (simp add: ds_inv_def one_peer_fields MAX_PEERS_def)
  have order: "\<forall>ids \<in> insert {} (ran (ds_capability_index one_peer)). set (if ''p'' \<in> ids then [''p''] else []) = ids"
    by (simp add: one_peer_fields)
  have "ds_abs one_peer = [''p'' \<mapsto> (demo_addr, {MirrorWilling})]"
    by (auto simp: ds_abs_def one_peer_fields fun_eq_iff)
  with dht_table_refines_map [OF inv order, of "''p''" demo_addr "[]" MirrorWilling "[]"] show ?thesis
    by (auto split: if_splits)
qed

end
