(* ===== verification/Communerd.thy ===== *)
theory Communerd
  imports Peer_Transport Peer_Tables Collision Probity Family
begin

section \<open>The communerd\<close>

text \<open>
  Models the state of \<^verbatim>\<open>Communerd\<close> (\<^verbatim>\<open>foretias-server/src/communerd/mod.rs\<close>) and
  what its event loop does with each event of the swarm. The commands and events of
  \<^verbatim>\<open>communerd/p2p/swarm.rs\<close> and \<^verbatim>\<open>p2p/events.rs\<close> are datatypes; the command
  channel is the list of the commands sent, a oneshot channel an entry of a list of replies. Peer
  ids, multiaddresses and record keys are their text, a record of the DHT always has no expiry.
  The JSON of serde, postcard, hex and the address parsers of libp2p are arguments.
\<close>

subsection \<open>Commands and events of the swarm\<close>

record kad_record =
  kr_key :: string
  kr_value :: bytes
  kr_publisher :: "string option"

datatype swarm_command =
    Bootstrap
  | Provide string
  | GetProviders string
  | PutRecord string kad_record
  | PutRecordTo string kad_record "string list"
  | StoreRecordLocal kad_record
  | GetRecord string
  | Dial string
  | AddAddress string string
  | EnterDormancy
  | PublishProbity probity_report string
  | PublishHeartbeat heartbeat string
  | ProvideForCapability peer_capability string
  | GetProvidersForCapability peer_capability string
  | RequestResponse string json nat

datatype network_event =
    Connected string
  | Disconnected string
  | Identified string
  | PingSuccess string
  | DhtPeerDiscovered string "string list"
  | DhtBootstrapComplete
  | GossipMessage bytes string
  | HeartbeatMessage bytes string
  | ListenReady string
  | RecordRetrieved string "kad_record list"
  | RecordPutOk string
  | RecordPutError string string
  | DhtPeerDiscoveredByCapability peer_capability string "string list"
  | PeerRegistrationRetrieved peer_record

subsection \<open>State\<close>

text \<open>A oneshot channel: nothing yet, a value, or its sender dropped.\<close>

datatype 'a reply = Waiting | Answered 'a | Closed

record communerd =
  co_peers :: "net_peer_addr list"
  co_probity :: probity_store
  co_detector :: "collision_detector option"
  co_tbid_index :: "string \<rightharpoonup> peer_record"
  co_pending_lookups :: "(string \<times> nat) list"
  co_pending_family_lookups :: "(string \<times> nat) list"
  co_lookups :: "peer_record option reply list"
  co_family_lookups :: "bytes option reply list"
  co_communerdettes :: "tbid \<rightharpoonup> communerdette"
  co_family_cache :: "string \<rightharpoonup> family_record clean_full"
  co_local_peer_id :: "string option"
  co_swarm :: bool
  co_commands :: "swarm_command list"
  co_namespace :: string
  co_local_multiaddr :: "string option"
  co_peer_change_cb :: bool
  co_peer_changes :: "string list list"

text \<open>
  \<open>ce_drain\<close> is the entry a hash map of pending lookups gives first, as a position in the
  list of its entries.
\<close>

record comm_env =
  ce_debug :: bool
  ce_hex_encode :: "bytes \<Rightarrow> string"
  ce_hex_decode :: "string \<Rightarrow> (bytes, string) result"
  ce_crypto :: crypto_server
  ce_public_key :: bytes
  ce_postcard_peer :: postcard_peer
  ce_postcard_report :: postcard_report
  ce_postcard_family :: "family_record \<Rightarrow> (bytes, string) result"
  ce_postcard_sigs :: "signature_entry list \<Rightarrow> (bytes, string) result"
  ce_json_parse :: "bytes \<Rightarrow> (json, string) result"
  ce_json_print :: "json \<Rightarrow> bytes"
  ce_peer_of_json :: "json \<Rightarrow> (peer_record, string) result"
  ce_peer_to_json :: "peer_record \<Rightarrow> json"
  ce_report_of_json :: "json \<Rightarrow> (probity_report, string) result"
  ce_heartbeat_of_json :: "json \<Rightarrow> (heartbeat, string) result"
  ce_parse_peer_id :: "string \<Rightarrow> string option"
  ce_parse_multiaddr :: "string \<Rightarrow> (string, string) result"
  ce_is_ipv4 :: "string \<Rightarrow> bool"
  ce_is_ipv6 :: "string \<Rightarrow> bool"
  ce_shuffle :: "string list \<Rightarrow> string list"
  ce_drain :: "(string \<times> nat) list \<Rightarrow> nat"

definition co_hex :: "comm_env \<Rightarrow> string \<Rightarrow> bytes option" where
  "co_hex E s = (case ce_hex_decode E s of Ok b \<Rightarrow> Some b | _ \<Rightarrow> None)"

definition from_slice :: "comm_env \<Rightarrow> (json \<Rightarrow> ('a, string) result) \<Rightarrow> bytes \<Rightarrow> ('a, string) result" where
  "from_slice E of_json data = rbind (ce_json_parse E data) of_json"

definition communerd_new :: "string list \<Rightarrow> communerd" where
  "communerd_new peers =
     \<lparr>co_peers = map (\<lambda>p. \<lparr>na_json_rpc = p, na_peer_id = None, na_last_seen_ns = 0\<rparr>) peers,
      co_probity = ps_new, co_detector = None, co_tbid_index = Map.empty, co_pending_lookups = [],
      co_pending_family_lookups = [], co_lookups = [], co_family_lookups = [],
      co_communerdettes = Map.empty, co_family_cache = Map.empty, co_local_peer_id = None,
      co_swarm = False, co_commands = [], co_namespace = ''mainnet'', co_local_multiaddr = None,
      co_peer_change_cb = False, co_peer_changes = []\<rparr>"

text \<open>
  A command is sent only where the swarm was started. \<open>listening\<close> is the address the swarm
  knew at the moment it was started.
\<close>

definition send_command :: "swarm_command \<Rightarrow> communerd \<Rightarrow> communerd" where
  "send_command c s = (if co_swarm s then s\<lparr>co_commands := co_commands s @ [c]\<rparr> else s)"

definition enable_p2p :: "comm_env \<Rightarrow> nat \<Rightarrow> string \<Rightarrow> string \<Rightarrow> string option \<Rightarrow> communerd \<Rightarrow> communerd" where
  "enable_p2p E nonce_window namespace peer_id listening s =
     (if co_local_peer_id s \<noteq> None then s
      else s\<lparr>co_namespace := namespace, co_local_peer_id := Some peer_id, co_swarm := True,
             co_local_multiaddr := listening,
             co_detector := Some (collision_detector_new peer_id (ce_public_key E) nonce_window)\<rparr>)"

subsection \<open>Communerdettes and the family cache\<close>

definition line_for_tbid :: "tbid \<Rightarrow> communerd \<Rightarrow> communerdette \<times> communerd" where
  "line_for_tbid tb s = (case co_communerdettes s tb of
     Some c \<Rightarrow> (c, s)
   | None \<Rightarrow> (let c = communerdette_new tb in (c, s\<lparr>co_communerdettes := (co_communerdettes s)(tb \<mapsto> c)\<rparr>)))"

definition try_line_for_tbid :: "tbid \<Rightarrow> communerd \<Rightarrow> communerdette option" where
  "try_line_for_tbid tb s = co_communerdettes s tb"

definition family_cache_insert :: "family_record clean_full \<Rightarrow> communerd \<Rightarrow> communerd" where
  "family_cache_insert r s =
     s\<lparr>co_family_cache := fold (\<lambda>m cache. cache(m \<mapsto> r)) (fam_members (cf_inner r)) (co_family_cache s)\<rparr>"

definition family_cache_lookup :: "string \<Rightarrow> communerd \<Rightarrow> family_record clean_full option" where
  "family_cache_lookup tbid_hex s = co_family_cache s tbid_hex"

definition shutdown_relationships :: "communerd \<Rightarrow> communerd" where
  "shutdown_relationships s = s\<lparr>co_communerdettes := (\<lambda>tb. map_option shutdown (co_communerdettes s tb))\<rparr>"

definition bridge_dht_to_communerdette ::
    "comm_env \<Rightarrow> clock_reading \<Rightarrow> string \<Rightarrow> peer_record \<Rightarrow> communerd \<Rightarrow> communerd" where
  "bridge_dht_to_communerdette E clock tbid_hex r s = (case from_hex (co_hex E) tbid_hex of
     Ok tb \<Rightarrow> (case line_for_tbid tb s of (c, s') \<Rightarrow>
       s'\<lparr>co_communerdettes := (co_communerdettes s')(tb \<mapsto>
         add_route_candidate r
           (mark_binding_claimed_by_dht (Some (pg_peer_id r)) (Some (pg_json_rpc r)) (clock_or_zero clock) c))\<rparr>)
   | _ \<Rightarrow> s)"

subsection \<open>The pool of peers\<close>

text \<open>The callback of the calendar is told the addresses.\<close>

definition notify_peer_change :: "communerd \<Rightarrow> communerd" where
  "notify_peer_change s =
     (if co_peer_change_cb s then s\<lparr>co_peer_changes := co_peer_changes s @ [map na_json_rpc (co_peers s)]\<rparr> else s)"

definition set_peer_change_callback :: "bool \<Rightarrow> communerd \<Rightarrow> communerd" where
  "set_peer_change_callback cb s = s\<lparr>co_peer_change_cb := cb\<rparr>"

definition pool_add :: "net_peer_addr \<Rightarrow> communerd \<Rightarrow> communerd" where
  "pool_add addr s = s\<lparr>co_peers := pool_add_peer addr (co_peers s)\<rparr>"

definition co_add_peer :: "net_peer_addr \<Rightarrow> communerd \<Rightarrow> communerd" where
  "co_add_peer addr s = notify_peer_change (pool_add addr s)"

definition co_remove_peer :: "net_peer_addr \<Rightarrow> communerd \<Rightarrow> communerd" where
  "co_remove_peer addr s = notify_peer_change (s\<lparr>co_peers := pool_remove_peer addr (co_peers s)\<rparr>)"

definition handle_dht_peer_discovered :: "clock_reading \<Rightarrow> string \<Rightarrow> communerd \<Rightarrow> communerd" where
  "handle_dht_peer_discovered clock peer_id =
     pool_add \<lparr>na_json_rpc = [], na_peer_id = Some peer_id, na_last_seen_ns = clock_or_zero clock\<rparr>"

subsection \<open>Heartbeats\<close>

definition handle_heartbeat :: "comm_env \<Rightarrow> bytes \<Rightarrow> (communerd, unit, node_error) stateful" where
  "handle_heartbeat E data s = (case from_slice E (ce_heartbeat_of_json E) data of
     Ok hb \<Rightarrow> (case co_detector s of
         None \<Rightarrow> (Ok (), s)
       | Some det \<Rightarrow> (case on_heartbeat hb (ce_crypto E) det of
           Ok (Some foreign) \<Rightarrow> (Ok (), send_command EnterDormancy s)
         | Ok None \<Rightarrow> (Ok (), s)
         | Err e \<Rightarrow> (Err e, s)
         | Panic \<Rightarrow> (Panic, s)))
   | _ \<Rightarrow> (Ok (), s))"

text \<open>One round of \<^verbatim>\<open>heartbeat_broadcast_loop\<close>; \<open>nonce\<close> is the answer of the random bytes.\<close>

definition heartbeat_broadcast_round ::
    "comm_env \<Rightarrow> clock_reading \<Rightarrow> (bytes, crypto_error) result \<Rightarrow> string \<Rightarrow> (communerd, unit, node_error) stateful" where
  "heartbeat_broadcast_round E clock nonce_result peer_id s = (case nonce_result of
     Err e \<Rightarrow> (Ok (), s)
   | Panic \<Rightarrow> (Panic, s)
   | Ok nonce \<Rightarrow>
       (let s1 = s\<lparr>co_detector := map_option (register_own_nonce nonce) (co_detector s)\<rparr>;
            hb = \<lparr>hb_peer_id = peer_id, hb_timestamp_ns = clock_or_zero clock, hb_nonce = nonce, hb_curve = 1,
                  hb_signature = []\<rparr>
        in case cs_sign (ce_crypto E) (hb_canonical hb) of
             Panic \<Rightarrow> (Panic, s1)
           | Err e \<Rightarrow> (Ok (), send_command (PublishHeartbeat hb (co_namespace s1)) s1)
           | Ok sig \<Rightarrow> (Ok (), send_command (PublishHeartbeat (hb\<lparr>hb_signature := sig\<rparr>) (co_namespace s1)) s1)))"

subsection \<open>Records of the DHT\<close>

text \<open>\<^verbatim>\<open>sender.send\<close>: the sender is consumed.\<close>

definition answer_lookup :: "nat \<Rightarrow> peer_record option \<Rightarrow> communerd \<Rightarrow> communerd" where
  "answer_lookup i r s = s\<lparr>co_lookups := (co_lookups s)[i := Answered r]\<rparr>"

definition close_lookup :: "nat \<Rightarrow> communerd \<Rightarrow> communerd" where
  "close_lookup i s = s\<lparr>co_lookups := (co_lookups s)[i := Closed]\<rparr>"

text \<open>A validator's error and a refusal both skip the record; its panic ends the task.\<close>

definition parse_and_validate :: "comm_env \<Rightarrow> kad_record \<Rightarrow> (peer_record option, node_error) result" where
  "parse_and_validate E rec = (case from_slice E (ce_peer_of_json E) (kr_value rec) of
     Ok r \<Rightarrow> (case validate_peer_registration (ce_hex_decode E) (ce_postcard_peer E) (ce_crypto E) r of
         Ok True \<Rightarrow> Ok (Some r)
       | Panic \<Rightarrow> Panic
       | _ \<Rightarrow> Ok None)
   | _ \<Rightarrow> Ok None)"

fun handle_peer_records ::
    "comm_env \<Rightarrow> clock_reading \<Rightarrow> kad_record list \<Rightarrow> (communerd, unit, node_error) stateful" where
  "handle_peer_records E clock [] s = (Ok (), s)"
| "handle_peer_records E clock (rec # recs) s = (case parse_and_validate E rec of
     Ok (Some r) \<Rightarrow> handle_peer_records E clock recs
       (pool_add \<lparr>na_json_rpc = pg_json_rpc r, na_peer_id = ce_parse_peer_id E (pg_peer_id r),
                  na_last_seen_ns = clock_or_zero clock\<rparr> s)
   | Ok None \<Rightarrow> handle_peer_records E clock recs s
   | Err e \<Rightarrow> (Err e, s)
   | Panic \<Rightarrow> (Panic, s))"

definition index_record :: "comm_env \<Rightarrow> clock_reading \<Rightarrow> peer_record \<Rightarrow> communerd \<Rightarrow> communerd" where
  "index_record E clock r s =
     bridge_dht_to_communerdette E clock (pg_tbid r) r
       (s\<lparr>co_tbid_index := (co_tbid_index s)(pg_tbid r \<mapsto> r)\<rparr>)"

text \<open>The loop, with the accepted records in \<open>valid_results\<close>.\<close>

fun index_records ::
    "comm_env \<Rightarrow> clock_reading \<Rightarrow> peer_record list \<Rightarrow> kad_record list \<Rightarrow>
     (communerd, peer_record list, node_error) stateful" where
  "index_records E clock valid_results [] s = (Ok valid_results, s)"
| "index_records E clock valid_results (rec # recs) s = (case parse_and_validate E rec of
     Ok (Some r) \<Rightarrow> index_records E clock (valid_results @ [r]) recs (index_record E clock r s)
   | Ok None \<Rightarrow> index_records E clock valid_results recs s
   | Err e \<Rightarrow> (Err e, s)
   | Panic \<Rightarrow> (Panic, s))"

text \<open>
  \<^verbatim>\<open>pending_lookups.lock().drain().next()\<close>: the entry that comes first is answered, and the
  rest of the map is dropped with the drain, which closes every other channel.
\<close>

definition drain_lookups :: "comm_env \<Rightarrow> peer_record option \<Rightarrow> communerd \<Rightarrow> communerd" where
  "drain_lookups E result s = (case co_pending_lookups s of
     [] \<Rightarrow> s
   | entries \<Rightarrow>
       (let chosen = ce_drain E entries mod length entries
        in answer_lookup (snd (entries ! chosen)) result
             (fold close_lookup (map snd (take chosen entries @ drop (Suc chosen) entries))
               (s\<lparr>co_pending_lookups := []\<rparr>))))"

definition handle_tbid_records ::
    "comm_env \<Rightarrow> clock_reading \<Rightarrow> kad_record list \<Rightarrow> (communerd, unit, node_error) stateful" where
  "handle_tbid_records E clock recs =
     sbind (index_records E clock [] recs) (\<lambda>valid_results.
       smod (drain_lookups E (list_first valid_results)))"

definition ends_with :: "string \<Rightarrow> string \<Rightarrow> bool" where
  "ends_with key suff \<longleftrightarrow> drop (length key - length suff) key = suff"

fun str_contains :: "string \<Rightarrow> string \<Rightarrow> bool" where
  "str_contains part [] \<longleftrightarrow> part = []"
| "str_contains part (c # cs) \<longleftrightarrow> take (length part) (c # cs) = part \<or> str_contains part cs"

definition answer_family_lookup :: "string \<Rightarrow> kad_record list \<Rightarrow> communerd \<Rightarrow> communerd" where
  "answer_family_lookup key recs s = (case map_of (co_pending_family_lookups s) key of
     None \<Rightarrow> s
   | Some i \<Rightarrow> s\<lparr>co_pending_family_lookups := AList.delete key (co_pending_family_lookups s),
                  co_family_lookups := (co_family_lookups s)[i := Answered (map_option kr_value (list_first recs))]\<rparr>)"

definition handle_record_retrieved ::
    "comm_env \<Rightarrow> clock_reading \<Rightarrow> string \<Rightarrow> kad_record list \<Rightarrow> (communerd, unit, node_error) stateful" where
  "handle_record_retrieved E clock key recs =
     sbind (if ends_with key ''/peers/v1'' then handle_peer_records E clock recs else sret ()) (\<lambda>_.
     if \<not> ends_with key ''/v1'' then sret ()
     else
       sbind (smod (if str_contains ''/family/'' key then answer_family_lookup key recs else id)) (\<lambda>_.
       if str_contains ''/tbid/'' key then handle_tbid_records E clock recs else sret ()))"

subsection \<open>The event loop\<close>

text \<open>A refused gossip message is logged; a panic of any handler ends the loop.\<close>

definition handle_gossip :: "comm_env \<Rightarrow> clock_reading \<Rightarrow> bytes \<Rightarrow> (communerd, unit, node_error) stateful" where
  "handle_gossip E clock data s =
     (case handle_gossip_message (ce_debug E) (from_slice E (ce_report_of_json E)) (ce_hex_decode E)
             (ce_postcard_report E) (ce_crypto E) (clock_or_zero clock) data (co_probity s) of
        (Panic, p) \<Rightarrow> (Panic, s\<lparr>co_probity := p\<rparr>)
      | (_, p) \<Rightarrow> (Ok (), s\<lparr>co_probity := p\<rparr>))"

fun handle_event :: "comm_env \<Rightarrow> clock_reading \<Rightarrow> network_event \<Rightarrow> (communerd, unit, node_error) stateful" where
  "handle_event E clock (GossipMessage data source) = handle_gossip E clock data"
| "handle_event E clock (HeartbeatMessage data source) = handle_heartbeat E data"
| "handle_event E clock (RecordRetrieved key recs) = handle_record_retrieved E clock key recs"
| "handle_event E clock (DhtPeerDiscovered peer_id addresses) = smod (handle_dht_peer_discovered clock peer_id)"
| "handle_event E clock _ = sret ()"

text \<open>
  The events in the order the channel gives them, each with the clock at its time. The Boolean
  says whether the task still runs.
\<close>

fun gossip_event_loop :: "comm_env \<Rightarrow> (clock_reading \<times> network_event) list \<Rightarrow> communerd \<Rightarrow> bool \<times> communerd" where
  "gossip_event_loop E [] s = (True, s)"
| "gossip_event_loop E ((clock, ev) # evs) s = (case handle_event E clock ev s of
     (Ok u, s') \<Rightarrow> gossip_event_loop E evs s'
   | (_, s') \<Rightarrow> (False, s'))"

end
