(* ===== verification/Communerd_Ops.thy ===== *)
theory Communerd_Ops
  imports Communerd
begin

section \<open>What the communerd is asked to do\<close>

text \<open>
  Models the operations of \<^verbatim>\<open>Communerd\<close> (\<^verbatim>\<open>foretias-server/src/communerd/mod.rs\<close>) that the
  node calls: lookups in the DHT, registration, probity reports, family records, the host of the
  communerdettes, the calls of the mirror dispatcher and the queries of the community. An
  \<^verbatim>\<open>await\<close> on a oneshot channel is split where it waits: the events of the loop that come
  before the timer are an argument.
\<close>

subsection \<open>Lookups of a TBID\<close>

definition tbid_key :: "string \<Rightarrow> string \<Rightarrow> string" where
  "tbid_key namespace tbid_hex = ''/foretias/'' @ namespace @ ''/tbid/'' @ tbid_hex @ ''/v1''"

definition family_key :: "string \<Rightarrow> string \<Rightarrow> string" where
  "family_key namespace tbid_hex = ''/foretias/'' @ namespace @ ''/family/'' @ tbid_hex @ ''/v1''"

definition peers_key :: "string \<Rightarrow> string" where
  "peers_key namespace = ''/foretias/'' @ namespace @ ''/peers/v1''"

text \<open>An entry of a map of senders that is replaced or removed drops its sender.\<close>

definition drop_pending :: "string \<Rightarrow> communerd \<Rightarrow> communerd" where
  "drop_pending key s = (case map_of (co_pending_lookups s) key of
     None \<Rightarrow> s
   | Some i \<Rightarrow> close_lookup i (s\<lparr>co_pending_lookups := AList.delete key (co_pending_lookups s)\<rparr>))"

definition drop_pending_family :: "string \<Rightarrow> communerd \<Rightarrow> communerd" where
  "drop_pending_family key s = (case map_of (co_pending_family_lookups s) key of
     None \<Rightarrow> s
   | Some i \<Rightarrow> s\<lparr>co_pending_family_lookups := AList.delete key (co_pending_family_lookups s),
                  co_family_lookups := (co_family_lookups s)[i := Closed]\<rparr>)"

definition lookup_tbid_cached :: "string \<Rightarrow> communerd \<Rightarrow> peer_record option" where
  "lookup_tbid_cached tbid_hex s = co_tbid_index s tbid_hex"

text \<open>The channel a lookup waits on, in the state where its command was sent.\<close>

definition open_lookup :: "string \<Rightarrow> communerd \<Rightarrow> nat \<times> communerd" where
  "open_lookup key s =
     (let s1 = drop_pending key s; i = length (co_lookups s1)
      in (i, send_command (GetRecord key)
               (s1\<lparr>co_lookups := co_lookups s1 @ [Waiting],
                   co_pending_lookups := (key, i) # co_pending_lookups s1\<rparr>)))"

definition close_wait :: "string \<Rightarrow> nat \<Rightarrow> communerd \<Rightarrow> peer_record option \<times> communerd" where
  "close_wait key i s = (case co_lookups s ! i of
     Answered r \<Rightarrow> (r, s)
   | Closed \<Rightarrow> (None, s)
   | Waiting \<Rightarrow> (None, drop_pending key s))"

definition lookup_tbid ::
    "comm_env \<Rightarrow> (clock_reading \<times> network_event) list \<Rightarrow> string \<Rightarrow> string \<Rightarrow> communerd \<Rightarrow>
     peer_record option \<times> communerd" where
  "lookup_tbid E evs tbid_hex namespace s = (case lookup_tbid_cached tbid_hex s of
     Some r \<Rightarrow> (Some r, s)
   | None \<Rightarrow>
       if \<not> co_swarm s then (None, s)
       else (let key = tbid_key namespace tbid_hex in case open_lookup key s of (i, s1) \<Rightarrow>
             close_wait key i (snd (gossip_event_loop E evs s1))))"

subsection \<open>Family records\<close>

definition byte_array_json :: "bytes \<Rightarrow> json" where
  "byte_array_json bs = JArray (map (\<lambda>b. jnum (word_of_nat (unat b))) bs)"

fun u8_of_json :: "json \<Rightarrow> (u8, string) result" where
  "u8_of_json (JNumber (PosInt n)) = (if n < 256 then Ok (word_of_nat (unat n)) else Err ''invalid value'')"
| "u8_of_json _ = Err ''invalid type''"

fun string_of_json :: "json \<Rightarrow> (string, string) result" where
  "string_of_json (JString s) = Ok s"
| "string_of_json _ = Err ''invalid type''"

fun vec_of_json :: "(json \<Rightarrow> ('a, string) result) \<Rightarrow> json \<Rightarrow> ('a list, string) result" where
  "vec_of_json f (JArray vs) = try_map f vs"
| "vec_of_json f _ = Err ''invalid type''"

definition matrix_of_json :: "json \<Rightarrow> (bytes list list, string) result" where
  "matrix_of_json = vec_of_json (vec_of_json (vec_of_json u8_of_json))"

text \<open>
  The derived decoder: an object with each field once, other fields ignored, or an array of the
  two fields.
\<close>

fun family_of_json :: "json \<Rightarrow> (family_record, string) result" where
  "family_of_json (JObject es) =
     (if length (filter (\<lambda>(k, v). k = ''members'') es) > 1 \<or> length (filter (\<lambda>(k, v). k = ''matrix'') es) > 1
      then Err ''duplicate field''
      else rbind (ok_or ''missing field'' (map_of es ''members'')) (\<lambda>m.
           rbind (ok_or ''missing field'' (map_of es ''matrix'')) (\<lambda>x.
           rbind (vec_of_json string_of_json m) (\<lambda>members.
           rbind (matrix_of_json x) (\<lambda>matrix. Ok \<lparr>fam_members = members, fam_matrix = matrix\<rparr>)))))"
| "family_of_json (JArray (m # rest)) =
     rbind (vec_of_json string_of_json m) (\<lambda>members. case rest of
       [x] \<Rightarrow> rbind (matrix_of_json x) (\<lambda>matrix. Ok \<lparr>fam_members = members, fam_matrix = matrix\<rparr>)
     | _ \<Rightarrow> Err ''invalid length'')"
| "family_of_json _ = Err ''invalid type''"

definition family_to_json :: "family_record \<Rightarrow> json" where
  "family_to_json f = JObject
     [(''members'', JArray (map JString (fam_members f))),
      (''matrix'', JArray (map (\<lambda>row. JArray (map byte_array_json row)) (fam_matrix f)))]"

definition publish_family_record :: "comm_env \<Rightarrow> string \<Rightarrow> family_record \<Rightarrow> communerd \<Rightarrow> communerd" where
  "publish_family_record E ns r s = (case co_local_peer_id s of
     None \<Rightarrow> s
   | Some peer_id \<Rightarrow>
       fold (\<lambda>member. let key = family_key ns member in send_command (PutRecord key
               \<lparr>kr_key = key, kr_value = ce_json_print E (family_to_json r), kr_publisher = Some peer_id\<rparr>))
         (fam_members r) s)"

definition open_family_lookup :: "string \<Rightarrow> communerd \<Rightarrow> nat \<times> communerd" where
  "open_family_lookup key s =
     (let s1 = drop_pending_family key s; i = length (co_family_lookups s1)
      in (i, send_command (GetRecord key)
               (s1\<lparr>co_family_lookups := co_family_lookups s1 @ [Waiting],
                   co_pending_family_lookups := (key, i) # co_pending_family_lookups s1\<rparr>)))"

text \<open>
  What follows the wait. The bytes of the record are printed as a JSON array of numbers before
  they are parsed, and where the wait ran out the key is removed from the lookups of TBIDs.
\<close>

definition gate_family_record ::
    "comm_env \<Rightarrow> string \<Rightarrow> bytes \<Rightarrow> (family_record clean_full option, node_error) result" where
  "gate_family_record E tbid_hex raw = (case from_slice E family_of_json raw of
     Err e \<Rightarrow> Ok None
   | Panic \<Rightarrow> Panic
   | Ok fr \<Rightarrow> (case ce_hex_decode E (take 64 tbid_hex) of
       Ok pubkey_bytes \<Rightarrow>
         if length pubkey_bytes \<noteq> 32 then Ok None
         else (case verify_family_record (co_hex E) (ce_postcard_family E) (ce_postcard_sigs E)
                      (ce_crypto E) pubkey_bytes (from_parsed fr) of
                 Ok cfa \<Rightarrow> Ok (Some cfa) | Err e \<Rightarrow> Ok None | Panic \<Rightarrow> Panic)
     | Err e \<Rightarrow> Ok None
     | Panic \<Rightarrow> Panic))"

definition fetch_and_cache_family_record ::
    "comm_env \<Rightarrow> (clock_reading \<times> network_event) list \<Rightarrow> string \<Rightarrow> string \<Rightarrow>
     (communerd, family_record clean_full option, node_error) stateful" where
  "fetch_and_cache_family_record E evs tbid_hex ns s = (case family_cache_lookup tbid_hex s of
     Some cached \<Rightarrow> (Ok (Some cached), s)
   | None \<Rightarrow>
       if \<not> co_swarm s then (Ok None, s)
       else (let key = family_key ns tbid_hex in case open_family_lookup key s of (i, s1) \<Rightarrow>
         (let s2 = snd (gossip_event_loop E evs s1) in case co_family_lookups s2 ! i of
            Waiting \<Rightarrow> (Ok None, drop_pending key s2)
          | Closed \<Rightarrow> (Ok None, s2)
          | Answered None \<Rightarrow> (Ok None, s2)
          | Answered (Some value) \<Rightarrow>
              (case gate_family_record E tbid_hex (ce_json_print E (byte_array_json value)) of
                 Ok (Some cfa) \<Rightarrow> (Ok (Some cfa), family_cache_insert cfa s2)
               | r \<Rightarrow> (r, s2)))))"

subsection \<open>Registration\<close>

text \<open>A port: an optional plus, then decimal digits below \<^verbatim>\<open>2^16\<close>.\<close>

definition parse_u16 :: "string \<Rightarrow> nat option" where
  "parse_u16 s =
     (let ds = (case s of c # cs \<Rightarrow> if c = CHR ''+'' then cs else s | [] \<Rightarrow> []);
          n = fold (\<lambda>c n. 10 * n + (of_char c - 48)) ds 0
      in if ds \<noteq> [] \<and> list_all (\<lambda>c. 48 \<le> (of_char c :: nat) \<and> (of_char c :: nat) \<le> 57) ds \<and> n < 65536
         then Some n else None)"

text \<open>The part before the last colon, and the part after it.\<close>

definition rsplit_colon :: "string \<Rightarrow> (string \<times> string) option" where
  "rsplit_colon s =
     (if CHR '':'' \<notin> set s then None
      else let after = rev (takeWhile (\<lambda>c. c \<noteq> CHR '':'') (rev s))
           in Some (take (length s - length after - 1) s, after))"

definition resolve_known_server :: "comm_env \<Rightarrow> string \<Rightarrow> (string, node_error) result" where
  "resolve_known_server E addr_str = (case rsplit_colon addr_str of
     None \<Rightarrow> Err (Internal (''invalid known server address: '' @ addr_str))
   | Some (host, port_str) \<Rightarrow> (case parse_u16 port_str of
       None \<Rightarrow> Err (Internal ''invalid port in known server'')
     | Some port \<Rightarrow>
         rmap_err (\<lambda>e. Internal (''invalid multiaddr parse: '' @ e)) (ce_parse_multiaddr E
           ((if ce_is_ipv4 E host then ''/ip4/'' else if ce_is_ipv6 E host then ''/ip6/'' else ''/dns/'') @
            host @ ''/tcp/'' @ decimal port))))"

text \<open>Both loops dial each address once it is resolved, and stop at the first that is not.\<close>

fun dial_all :: "(string \<Rightarrow> (string, node_error) result) \<Rightarrow> string list \<Rightarrow> (communerd, unit, node_error) stateful" where
  "dial_all resolve [] = sret ()"
| "dial_all resolve (a # as) =
     sbind (slift (resolve a)) (\<lambda>multiaddr.
     sbind (smod (send_command (Dial multiaddr))) (\<lambda>_. dial_all resolve as))"

definition bootstrap_dht :: "comm_env \<Rightarrow> string list \<Rightarrow> (communerd, unit, node_error) stateful" where
  "bootstrap_dht E addrs s =
     (if \<not> co_swarm s then (Ok (), s)
      else sbind (dial_all (\<lambda>a. rmap_err (\<lambda>e. Internal (''invalid dht_bootstrap addr: '' @ e))
                             (ce_parse_multiaddr E a)) addrs)
             (\<lambda>_. smod (send_command Bootstrap)) s)"

definition publish_attest_willing :: "string \<Rightarrow> communerd \<Rightarrow> communerd" where
  "publish_attest_willing namespace = send_command (Provide (namespace @ ''/foretias/attest-willing/v1''))"

text \<open>The record a node registers under two keys, signed with the key of the communerd.\<close>

definition self_record :: "string \<Rightarrow> string \<Rightarrow> string \<Rightarrow> string \<Rightarrow> u64 \<Rightarrow> clock_reading \<Rightarrow> peer_record" where
  "self_record peer_id tbid_hex multiaddr json_rpc_addr chronon_ns clock =
     peer_record_new peer_id tbid_hex multiaddr json_rpc_addr chronon_ns (clock_or_zero clock) [AttestWilling]"

definition put_self_record :: "comm_env \<Rightarrow> string \<Rightarrow> string \<Rightarrow> peer_record \<Rightarrow> communerd \<Rightarrow> communerd" where
  "put_self_record E ns peer_id r s =
     (let value = ce_json_print E (ce_peer_to_json E r);
          put = (\<lambda>key. send_command (PutRecord key \<lparr>kr_key = key, kr_value = value, kr_publisher = Some peer_id\<rparr>))
      in put (tbid_key ns (pg_tbid r)) (put (peers_key ns) s))"

definition register_and_discover ::
    "comm_env \<Rightarrow> clock_reading \<Rightarrow> string list \<Rightarrow> string \<Rightarrow> tbid \<Rightarrow> u64 \<Rightarrow> string \<Rightarrow>
     (communerd, unit, node_error) stateful" where
  "register_and_discover E clock known_servers namespace tb chronon_ns json_rpc_addr s =
     (if \<not> co_swarm s then (Err (Internal ''P2P not enabled''), s)
      else (case co_local_peer_id s of
        None \<Rightarrow> (Err (Internal ''PeerId not available''), s)
      | Some peer_id \<Rightarrow>
        sbind (dial_all (resolve_known_server E) (ce_shuffle E (filter (\<lambda>a. a \<noteq> json_rpc_addr) known_servers))) (\<lambda>_.
        sbind (sget co_local_multiaddr) (\<lambda>listening.
        sbind (slift (ok_or (Internal ''timed out waiting for listen address'') listening)) (\<lambda>my_multiaddr.
        sbind (smod (send_command Bootstrap)) (\<lambda>_.
        let r = self_record peer_id (to_hex (ce_hex_encode E) tb) my_multiaddr json_rpc_addr chronon_ns clock in
        sbind (slift (canonical_payload (ce_postcard_peer E) r)) (\<lambda>canon.
        sbind (slift (rmap_err (\<lambda>_. Internal ''DHT record sign'') (cs_sign (ce_crypto E) canon))) (\<lambda>sig.
        sbind (smod (put_self_record E namespace peer_id (pg_set_signature sig r))) (\<lambda>_.
        smod (send_command (GetRecord (peers_key namespace)))))))))) s))"

text \<open>One round of the task that refreshes the registration.\<close>

definition refresh_self_registration ::
    "comm_env \<Rightarrow> clock_reading \<Rightarrow> string \<Rightarrow> tbid \<Rightarrow> u64 \<Rightarrow> string \<Rightarrow> (communerd, unit, node_error) stateful" where
  "refresh_self_registration E clock peer_id tb chronon_ns json_rpc_addr s = (case co_local_multiaddr s of
     None \<Rightarrow> (Ok (), s)
   | Some ma \<Rightarrow>
       (let r = self_record peer_id (to_hex (ce_hex_encode E) tb) ma json_rpc_addr chronon_ns clock
        in case canonical_payload (ce_postcard_peer E) r of
             Ok canon \<Rightarrow> (case cs_sign (ce_crypto E) canon of
                 Ok sig \<Rightarrow> (Ok (), put_self_record E (co_namespace s) peer_id (pg_set_signature sig r) s)
               | Err e \<Rightarrow> (Ok (), s)
               | Panic \<Rightarrow> (Panic, s))
           | Err e \<Rightarrow> (Err e, s)
           | Panic \<Rightarrow> (Panic, s)))"

subsection \<open>Probity\<close>

definition report_probity ::
    "comm_env \<Rightarrow> clock_reading \<Rightarrow> string \<Rightarrow> string \<Rightarrow> f32 \<Rightarrow> (communerd, unit, node_error) stateful" where
  "report_probity E clock subj attribute v s = (case co_local_peer_id s of
     None \<Rightarrow> (Ok (), s)
   | Some reporter \<Rightarrow>
       (let r = \<lparr>pr_subject = subj, pr_reporter = reporter, pr_attribute = attribute, pr_value = v,
                 pr_timestamp_ns = clock_or_zero clock, pr_signature = [], pr_curve = 1,
                 pr_slow_signature = []\<rparr>;
            publish = (\<lambda>report. (Ok (), send_command (PublishProbity report (co_namespace s))
                                          (s\<lparr>co_probity := ingest report (co_probity s)\<rparr>)))
        in case canonical (ce_postcard_report E) r of
             Ok canon \<Rightarrow> (case cs_sign (ce_crypto E) canon of
                 Ok sig \<Rightarrow> publish (set_signature sig r)
               | Err e \<Rightarrow> publish r
               | Panic \<Rightarrow> (Panic, s))
           | Err e \<Rightarrow> (Err e, s)
           | Panic \<Rightarrow> (Panic, s)))"

definition get_peer_score :: "string \<Rightarrow> communerd \<Rightarrow> f32 \<times> nat" where
  "get_peer_score peer_id s = (ps_score peer_id (co_probity s), report_count peer_id (co_probity s))"

subsection \<open>The host of the communerdettes\<close>

text \<open>
  Its state is the communerd's and that of the network; \<open>during\<close> gives the events that the
  loop handles while a lookup waits, \<open>tcp\<close> and \<open>libp2p\<close> the exchange with a peer.
\<close>

definition on_network :: "('h, 'a, 'e) stateful \<Rightarrow> (communerd \<times> 'h, 'a, 'e) stateful" where
  "on_network m = (\<lambda>(s, h). case m h of (r, h') \<Rightarrow> (r, (s, h')))"

definition layered_call ::
    "(net_peer_addr \<Rightarrow> 'h rpc_call) \<Rightarrow> (string \<Rightarrow> json \<Rightarrow> ('h, json, transport_error) stateful) \<Rightarrow>
     net_peer_addr \<Rightarrow> ('h rpc_call \<Rightarrow> ('h, 'a, transport_error) stateful) \<Rightarrow>
     (communerd \<times> 'h, 'a, transport_error) stateful" where
  "layered_call tcp libp2p peer request = (\<lambda>(s, h).
     on_network (with_fallback (co_swarm s) peer
       (request (libp2p_rpc_call (co_swarm s) libp2p peer)) (request (tcp peer))) (s, h))"

definition communerd_host ::
    "comm_env \<Rightarrow> ('k, 's) node_env \<Rightarrow> (communerd \<Rightarrow> (clock_reading \<times> network_event) list) \<Rightarrow>
     (net_peer_addr \<Rightarrow> 'h rpc_call) \<Rightarrow> (string \<Rightarrow> json \<Rightarrow> ('h, json, transport_error) stateful) \<Rightarrow>
     (communerd \<times> 'h) comm_host" where
  "communerd_host E N during tcp libp2p =
     \<lparr>ho_lookup_tbid = (\<lambda>tbid_hex ns (s, h). case lookup_tbid E (during s) tbid_hex ns s of (r, s') \<Rightarrow>
            (Ok r, (s', h))),
          ho_namespace = sget (\<lambda>(s, h). co_namespace s),
          ho_execute_stamp = (\<lambda>peer t c e. layered_call tcp libp2p peer (\<lambda>call. tr_route_stamp call t c e)),
          ho_execute_calendar_slice = (\<lambda>peer n c. layered_call tcp libp2p peer (\<lambda>call. tr_get_calendar_slice N call n c)),
          ho_execute_channel_bind_challenge = (\<lambda>peer n c q. on_network (tr_channel_bind_challenge (tcp peer) n c q)),
          ho_execute_ping = (\<lambda>peer. on_network (tr_ping (tcp peer))),
          ho_sign_probity_report = (\<lambda>report. sbind (slift (canonical (ce_postcard_report E) report)) (\<lambda>canon.
            slift (rmap_err (\<lambda>_. ''signing failed'') (cs_sign (ce_crypto E) canon)))),
          ho_publish_probity_report = (\<lambda>_. sret ())\<rparr>"

subsection \<open>Calls by TBID\<close>

definition co_get_calendar_slice ::
    "('k, 's) node_env \<Rightarrow> (net_peer_addr \<Rightarrow> 'h rpc_call) \<Rightarrow> (string \<Rightarrow> json \<Rightarrow> ('h, json, transport_error) stateful) \<Rightarrow>
     net_peer_addr \<Rightarrow> u64 \<Rightarrow> u64 \<Rightarrow> (communerd \<times> 'h, chronon_record list, transport_error) stateful" where
  "co_get_calendar_slice N tcp libp2p peer tick_start cnt =
     layered_call tcp libp2p peer (\<lambda>call. tr_get_calendar_slice N call tick_start cnt)"

definition get_calendar_slice_by_tbid ::
    "comm_env \<Rightarrow> ('k, 's) node_env \<Rightarrow> (communerd \<Rightarrow> (clock_reading \<times> network_event) list) \<Rightarrow>
     (net_peer_addr \<Rightarrow> 'h rpc_call) \<Rightarrow> (string \<Rightarrow> json \<Rightarrow> ('h, json, transport_error) stateful) \<Rightarrow>
     string \<Rightarrow> u64 \<Rightarrow> u64 \<Rightarrow> (communerd \<times> 'h, chronon_record list, transport_error) stateful" where
  "get_calendar_slice_by_tbid E N during tcp libp2p tbid_hex tick_start cnt = (\<lambda>(s, h).
     case from_hex (co_hex E) tbid_hex of
       Ok tb \<Rightarrow>
         (let s1 = snd (line_for_tbid tb s) in case lookup_tbid E (during s1) tbid_hex (co_namespace s1) s1 of
            (None, s2) \<Rightarrow> (Err (TrDecode (''TBID '' @ tbid_hex @ '' not found in DHT'')), (s2, h))
          | (Some owner, s2) \<Rightarrow>
              co_get_calendar_slice N tcp libp2p
                \<lparr>na_json_rpc = pg_json_rpc owner, na_peer_id = ce_parse_peer_id E (pg_peer_id owner),
                 na_last_seen_ns = 0\<rparr> tick_start cnt (s2, h))
     | _ \<Rightarrow> (Err (TrDecode ''invalid TBID''), (s, h)))"

text \<open>
  A line to the TBID: the call runs over the host, and one that succeeds notes its time in the
  communerdette, which the communerd shares.
\<close>

definition on_communerdette :: "tbid \<Rightarrow> (communerdette \<Rightarrow> communerdette) \<Rightarrow> communerd \<Rightarrow> communerd" where
  "on_communerdette tb f s =
     s\<lparr>co_communerdettes := (co_communerdettes s)(tb := map_option f (co_communerdettes s tb))\<rparr>"

definition through_line ::
    "tbid \<Rightarrow> clock_reading \<Rightarrow> (communerd \<times> 'h, 'a) call \<Rightarrow> (communerd \<times> 'h, 'a) call" where
  "through_line tb clock m = (\<lambda>(s, h).
     case m (snd (line_for_tbid tb s), h) of (r, (s', h')) \<Rightarrow>
       (r, (if is_ok r then on_communerdette tb (on_flags (set_last_application_rpc_ns (clock_or_zero clock))) s'
            else s', h')))"

definition co_stamp ::
    "('k, 's, communerd \<times> 'h) executor \<Rightarrow> string \<Rightarrow> bytes \<Rightarrow> string \<Rightarrow> (communerd \<times> 'h, foretis_record clean) call" where
  "co_stamp X target_tbid content echo =
     sbind (slift (rmap_err (\<lambda>_. CeStructural ''bad tbid hex'') (from_hex (hex_opt (ex_env X)) target_tbid))) (\<lambda>tb.
       through_line tb (ex_clock X)
         (execute_stamp (X\<lparr>ex_target := tb, ex_local_calendar_tbid := None\<rparr>) content echo))"

definition co_route_stamp ::
    "('k, 's, communerd \<times> 'h) executor \<Rightarrow> string \<Rightarrow> string \<Rightarrow> string \<Rightarrow> (communerd \<times> 'h, foretis_record clean) call" where
  "co_route_stamp X target_tbid content_hex echo =
     sbind (slift (rmap_err (\<lambda>e. CeStructural (''content not hex: '' @ e)) (ne_hex_decode (ex_env X) content_hex)))
       (\<lambda>content. co_stamp X target_tbid content echo)"

subsection \<open>The mirror dispatcher\<close>

text \<open>The calls of \<^verbatim>\<open>MirrorDispatcher\<close>: one TCP request each, an answer without the field is the default.\<close>

definition dispatcher_known_peers :: "communerd \<Rightarrow> string list" where
  "dispatcher_known_peers s = map na_json_rpc (filter (\<lambda>p. na_json_rpc p \<noteq> []) (co_peers s))"

definition mirror_rpc ::
    "(net_peer_addr \<Rightarrow> 'h rpc_call) \<Rightarrow> (transport_error \<Rightarrow> string) \<Rightarrow> string \<Rightarrow> string \<Rightarrow> json \<Rightarrow>
     ('h, json, string) stateful" where
  "mirror_rpc tcp show_err addr meth params =
     smap_err show_err (tcp \<lparr>na_json_rpc = addr, na_peer_id = None, na_last_seen_ns = 0\<rparr> meth params)"

definition md_mirror_announce ::
    "(net_peer_addr \<Rightarrow> 'h rpc_call) \<Rightarrow> (transport_error \<Rightarrow> string) \<Rightarrow> string \<Rightarrow> string \<Rightarrow> ('h, bool, string) stateful" where
  "md_mirror_announce tcp show_err addr local_tbid_hex =
     sbind (mirror_rpc tcp show_err addr ''mirror_announce'' (JObject [(''tbid'', JString local_tbid_hex)]))
       (\<lambda>resp. sret (get_str ''status'' resp = Some ''accept''))"

definition md_history_dump_chunk ::
    "(net_peer_addr \<Rightarrow> 'h rpc_call) \<Rightarrow> (transport_error \<Rightarrow> string) \<Rightarrow> (chronon_record \<Rightarrow> json) \<Rightarrow> string \<Rightarrow> string \<Rightarrow>
     chronon_record list \<Rightarrow> ('h, u64, string) stateful" where
  "md_history_dump_chunk tcp show_err to_json addr local_tbid_hex records =
     sbind (mirror_rpc tcp show_err addr ''history_dump_chunk''
              (JObject [(''tbid'', JString local_tbid_hex), (''records'', JArray (map to_json records))]))
       (\<lambda>resp. sret (unwrap_or 0 (get_u64 ''accepted_count'' resp)))"

definition md_history_dump_complete ::
    "(net_peer_addr \<Rightarrow> 'h rpc_call) \<Rightarrow> (transport_error \<Rightarrow> string) \<Rightarrow> string \<Rightarrow> string \<Rightarrow> u64 \<Rightarrow> ('h, u64, string) stateful" where
  "md_history_dump_complete tcp show_err addr local_tbid_hex total_records =
     sbind (mirror_rpc tcp show_err addr ''history_dump_complete''
              (JObject [(''tbid'', JString local_tbid_hex), (''total_records'', jnum total_records)]))
       (\<lambda>resp. sret (unwrap_or 0 (get_u64 ''tick_count'' resp)))"

definition md_mirror_health_check ::
    "(net_peer_addr \<Rightarrow> 'h rpc_call) \<Rightarrow> (transport_error \<Rightarrow> string) \<Rightarrow> string \<Rightarrow> string \<Rightarrow> ('h, u64, string) stateful" where
  "md_mirror_health_check tcp show_err addr local_tbid_hex =
     sbind (mirror_rpc tcp show_err addr ''mirror_health_check'' (JObject [(''tbid'', JString local_tbid_hex)]))
       (\<lambda>resp. sret (unwrap_or 0 (get_u64 ''tick_count'' resp)))"

subsection \<open>Queries of the community\<close>

datatype community_query = KnownPeers | PeerByAddr string

datatype community_response = KnownPeersAnswer "string list" | PeerStatus string bool

text \<open>
  The calling thread: outside every runtime, a blocking thread of one, or a worker that runs a
  task, where \<^verbatim>\<open>block_on\<close> panics.
\<close>

datatype thread_context = NoRuntime | BlockingThread | AsyncTask

definition block_on :: "thread_context \<Rightarrow> 'a \<Rightarrow> 'a \<Rightarrow> ('a, 'e) result" where
  "block_on ctx fallback v = (case ctx of NoRuntime \<Rightarrow> Ok fallback | BlockingThread \<Rightarrow> Ok v | AsyncTask \<Rightarrow> Panic)"

fun query_community ::
    "thread_context \<Rightarrow> community_query \<Rightarrow> communerd \<Rightarrow> (community_response, transport_error) result" where
  "query_community ctx KnownPeers s =
     rbind (block_on ctx [] (co_peers s)) (\<lambda>peers.
       Ok (KnownPeersAnswer (map na_json_rpc (filter (\<lambda>p. na_json_rpc p \<noteq> []) peers))))"
| "query_community ctx (PeerByAddr a) s =
     rbind (block_on ctx False (list_ex (\<lambda>p. na_json_rpc p = a \<and> na_last_seen_ns p > 0) (co_peers s)))
       (\<lambda>alive. Ok (PeerStatus a alive))"

definition send_to_peer :: "string \<Rightarrow> string \<Rightarrow> json \<Rightarrow> (json, transport_error) result" where
  "send_to_peer addr meth params =
     Err (TrConnect ''sync PeerMessenger not implemented; use async methods'')"

end
