(* ===== verification/Mirror_Workers.thy ===== *)
theory Mirror_Workers
  imports Communerd_Ops Interleaving "HOL-Library.FSet"
begin

section \<open>The workers of the calendar's task queue\<close>

text \<open>
  Models \<^verbatim>\<open>foretias-server/src/calendar/task_queue.rs\<close>: the state the worker pool keeps, the
  handlers of its tasks, the pool. Several workers run at once: a handler is a program cut at
  its calls over the network and its lock regions. The network (peers, transports, the
  chronomatter and whatever else lies behind an \<^verbatim>\<open>await\<close>) is a state \<open>'h\<close>; a call over
  it is one step. Of the log, the lines that are a handler's only outcome are kept.
\<close>

subsection \<open>State\<close>

record mirror_state =
  mst_local_tbid_hex :: string
  mst_mirrors :: "string fset"
  mst_health_failures :: "string \<rightharpoonup> u32"
  mst_min_mirrors :: nat
  mst_target_mirrors :: nat

definition mirror_state_default :: mirror_state where
  "mirror_state_default = \<lparr>mst_local_tbid_hex = [], mst_mirrors = {||}, mst_health_failures = Map.empty,
     mst_min_mirrors = 0, mst_target_mirrors = 0\<rparr>"

definition MAX_HEALTH_FAILURES :: u32 where
  "MAX_HEALTH_FAILURES = 3"

definition DEFAULT_MIN_MIRRORS :: nat where
  "DEFAULT_MIN_MIRRORS = 1"

definition DEFAULT_TARGET_MIRRORS :: nat where
  "DEFAULT_TARGET_MIRRORS = 3"

definition DUMP_CHUNK_SIZE :: nat where
  "DUMP_CHUNK_SIZE = 1"

definition DEFAULT_WORKER_COUNT :: nat where
  "DEFAULT_WORKER_COUNT = 4"

datatype worker_log =
    AttestationComplete string u64
  | AttestationRecorded string u64 bool
  | CoverageResult string u64 u64 u64 nat
  | PoorCoverage string
  | NoAttestations string

record 'h pool_world =
  pw_mirrors :: mirror_state
  pw_tasks :: task_channel
  pw_calendar :: calendar
  pw_log :: "worker_log list"
  pw_net :: 'h

type_synonym ('h, 'a) work = "('h pool_world, ('a, string) result) prog"

subsection \<open>What the workers call\<close>

text \<open>The trait \<^verbatim>\<open>MirrorDispatcher\<close>, by the address of the mirror.\<close>

record 'h mirror_dispatcher =
  dp_known_peers :: "('h, peer_addr list, string) stateful"
  dp_mirror_announce :: "string \<Rightarrow> string \<Rightarrow> ('h, bool, string) stateful"
  dp_history_dump_chunk :: "string \<Rightarrow> string \<Rightarrow> chronon_record list \<Rightarrow> ('h, u64, string) stateful"
  dp_history_dump_complete :: "string \<Rightarrow> string \<Rightarrow> u64 \<Rightarrow> ('h, u64, string) stateful"
  dp_mirror_health_check :: "string \<Rightarrow> string \<Rightarrow> ('h, u64, string) stateful"

text \<open>The communerd as the dispatcher.\<close>

definition on_second :: "('n, 'a, 'e) stateful \<Rightarrow> ('c \<times> 'n, 'a, 'e) stateful" where
  "on_second m = (\<lambda>(c, n). case m n of (r, n') \<Rightarrow> (r, (c, n')))"

definition communerd_dispatcher ::
    "(net_peer_addr \<Rightarrow> 'n rpc_call) \<Rightarrow> (transport_error \<Rightarrow> string) \<Rightarrow> (chronon_record \<Rightarrow> json) \<Rightarrow>
     (communerd \<times> 'n) mirror_dispatcher" where
  "communerd_dispatcher tcp show_err to_json =
     \<lparr>dp_known_peers = sget (\<lambda>(s, _). map (\<lambda>a. \<lparr>json_rpc = a\<rparr>) (dispatcher_known_peers s)),
      dp_mirror_announce = (\<lambda>a t. on_second (md_mirror_announce tcp show_err a t)),
      dp_history_dump_chunk = (\<lambda>a t rs. on_second (md_history_dump_chunk tcp show_err to_json a t rs)),
      dp_history_dump_complete = (\<lambda>a t n. on_second (md_history_dump_complete tcp show_err a t n)),
      dp_mirror_health_check = (\<lambda>a t. on_second (md_mirror_health_check tcp show_err a t))\<rparr>"

text \<open>A line to a TBID, and the one a communerdette's executor gives.\<close>

record 'h comm_line =
  ln_get_chronon :: "u64 \<Rightarrow> ('h, chronon_record clean) call"
  ln_get_calendar_slice :: "u64 \<Rightarrow> u64 \<Rightarrow> ('h, chronon_record clean list) call"
  ln_stamp :: "bytes \<Rightarrow> string \<Rightarrow> ('h, foretis_record clean) call"

definition executor_line :: "('k, 's, 'h) executor \<Rightarrow> ('h \<times> communerdette) comm_line" where
  "executor_line X = \<lparr>ln_get_chronon = line_get_chronon X,
     ln_get_calendar_slice = line_get_calendar_slice X, ln_stamp = line_stamp X\<rparr>"

text \<open>
  \<^verbatim>\<open>WorkerContext\<close>: what the workers share besides the state. \<open>wc_stamp\<close> is the
  chronomatter's \<^verbatim>\<open>stamp\<close>; \<open>wc_draw n\<close> is what \<^verbatim>\<open>gen_range(1..=n)\<close> draws.
\<close>

record ('k, 's, 'h) worker_context =
  wc_env :: "('k, 's) node_env"
  wc_dispatcher :: "'h mirror_dispatcher option"
  wc_communerd :: "(tbid \<Rightarrow> 'h comm_line) option"
  wc_stamp :: "(bytes \<Rightarrow> string \<Rightarrow> ('h, stamped_foretis, node_error) stateful) option"
  wc_signing_key :: "'k option option"
  wc_draw :: "u64 \<Rightarrow> u64"

definition sign_with_calendar_key :: "('k, 's, 'h) worker_context \<Rightarrow> bytes \<Rightarrow> bytes option" where
  "sign_with_calendar_key C data = (case wc_signing_key C of
     Some (Some key) \<Rightarrow> (case handle_sign (ne_ffi (wc_env C)) key data of Ok sig \<Rightarrow> Some sig | _ \<Rightarrow> None)
   | _ \<Rightarrow> None)"

subsection \<open>The steps of a worker\<close>

definition skip :: "('h, unit) work" where
  "skip = Finished (Ok ())"

definition on_net :: "('h, 'a, 'e) stateful \<Rightarrow> ('h pool_world, 'a, 'e) stateful" where
  "on_net m w = (case m (pw_net w) of (r, h) \<Rightarrow> (r, w\<lparr>pw_net := h\<rparr>))"

text \<open>A call whose error is only logged.\<close>

definition net :: "('h, 'a, 'e) stateful \<Rightarrow> ('h, 'a option) work" where
  "net m = atomic (sattempt (on_net m))"

definition read_mirrors :: "(mirror_state \<Rightarrow> 'a) \<Rightarrow> ('h, 'a) work" where
  "read_mirrors f = atomic (sget (\<lambda>w. f (pw_mirrors w)))"

definition on_mirrors :: "(mirror_state \<Rightarrow> mirror_state) \<Rightarrow> 'h pool_world \<Rightarrow> 'h pool_world" where
  "on_mirrors f w = w\<lparr>pw_mirrors := f (pw_mirrors w)\<rparr>"

definition enqueue_work :: "calendar_task \<Rightarrow> ('h, unit) work" where
  "enqueue_work task = atomic (smod (\<lambda>w. w\<lparr>pw_tasks := snd (enqueue task (pw_tasks w))\<rparr>))"

definition log_work :: "worker_log \<Rightarrow> ('h, unit) work" where
  "log_work l = atomic (smod (\<lambda>w. w\<lparr>pw_log := pw_log w @ [l]\<rparr>))"

definition set_failures :: "string \<Rightarrow> u32 \<Rightarrow> mirror_state \<Rightarrow> mirror_state" where
  "set_failures a n m = m\<lparr>mst_health_failures := (mst_health_failures m)(a \<mapsto> n)\<rparr>"

definition failures_of :: "string \<Rightarrow> mirror_state \<Rightarrow> u32" where
  "failures_of a m = unwrap_or 0 (mst_health_failures m a)"

definition enrol :: "string \<Rightarrow> mirror_state \<Rightarrow> mirror_state" where
  "enrol a m = m\<lparr>mst_mirrors := finsert a (mst_mirrors m)\<rparr>"

subsection \<open>Finding mirrors\<close>

text \<open>The candidates in turn, those left out that were mirrors when the task began.\<close>

primrec try_candidates ::
    "'h mirror_dispatcher \<Rightarrow> string \<Rightarrow> string fset \<Rightarrow> peer_addr list \<Rightarrow> ('h, unit) work" where
  "try_candidates D local_tbid already [] = skip"
| "try_candidates D local_tbid already (peer # peers) =
     (if json_rpc peer |\<in>| already then try_candidates D local_tbid already peers
      else
        pthen (net (dp_mirror_announce D (json_rpc peer) local_tbid)) (\<lambda>answer.
        if answer = Some True then
          pthen (atomic (smod (on_mirrors (enrol (json_rpc peer))))) (\<lambda>_.
          pthen (enqueue_work (InitiateDump peer)) (\<lambda>_.
          pthen (read_mirrors (\<lambda>m. mst_target_mirrors m \<le> fcard (mst_mirrors m))) (\<lambda>full.
            if full then skip else try_candidates D local_tbid already peers)))
        else try_candidates D local_tbid already peers))"

definition handle_find_new_mirror :: "('k, 's, 'h) worker_context \<Rightarrow> ('h, unit) work" where
  "handle_find_new_mirror C = (case wc_dispatcher C of
     None \<Rightarrow> skip
   | Some D \<Rightarrow>
       pthen (read_mirrors mst_target_mirrors) (\<lambda>target.
       pthen (read_mirrors (\<lambda>m. fcard (mst_mirrors m))) (\<lambda>current.
       if target \<le> current then skip
       else
         pthen (read_mirrors mst_local_tbid_hex) (\<lambda>local_tbid.
         if local_tbid = [] then skip
         else
           pthen (net (dp_known_peers D)) (\<lambda>candidates.
           pthen (read_mirrors mst_mirrors) (\<lambda>already.
             try_candidates D local_tbid already (unwrap_or [] candidates)))))))"

subsection \<open>Dumping the calendar\<close>

text \<open>\<^verbatim>\<open>slice::chunks\<close>; a chunk size of zero would panic, the code's is a constant.\<close>

function chunks :: "nat \<Rightarrow> 'a list \<Rightarrow> 'a list list" where
  "chunks n xs = (if xs = [] \<or> n = 0 then [] else take n xs # chunks n (drop n xs))"
  by auto
termination by (relation "measure (\<lambda>(n, xs). length xs)") auto

declare chunks.simps [simp del]

text \<open>The chunks in turn, with the sum of what the mirror says it accepted; \<open>None\<close> when one failed.\<close>

primrec send_chunks ::
    "bool \<Rightarrow> 'h mirror_dispatcher \<Rightarrow> string \<Rightarrow> string \<Rightarrow> chronon_record list list \<Rightarrow> u64 \<Rightarrow> ('h, u64 option) work" where
  "send_chunks debug D a local_tbid [] sent = Finished (Ok (Some sent))"
| "send_chunks debug D a local_tbid (chunk # cs) sent =
     pthen (net (dp_history_dump_chunk D a local_tbid chunk)) (\<lambda>answer. case answer of
       None \<Rightarrow> Finished (Ok None)
     | Some accepted_count \<Rightarrow>
         pthen (Finished (add_u64 debug sent accepted_count)) (\<lambda>sent'. send_chunks debug D a local_tbid cs sent'))"

definition handle_initiate_dump :: "('k, 's, 'h) worker_context \<Rightarrow> peer_addr \<Rightarrow> ('h, unit) work" where
  "handle_initiate_dump C mirror = (case wc_dispatcher C of
     None \<Rightarrow> skip
   | Some D \<Rightarrow>
       pthen (read_mirrors mst_local_tbid_hex) (\<lambda>local_tbid.
       if local_tbid = [] then skip
       else
         pthen (atomic (sget (\<lambda>w. ticks (pw_calendar w)))) (\<lambda>records.
         if records = [] then
           pthen (net (dp_history_dump_complete D (json_rpc mirror) local_tbid 0)) (\<lambda>_. skip)
         else
           pthen (send_chunks (ne_debug (wc_env C)) D (json_rpc mirror) local_tbid
                    (chunks DUMP_CHUNK_SIZE records) 0) (\<lambda>sent. case sent of
             None \<Rightarrow> skip
           | Some _ \<Rightarrow>
               pthen (net (dp_history_dump_complete D (json_rpc mirror) local_tbid
                        (word_of_nat (length records)))) (\<lambda>reported. case reported of
                 None \<Rightarrow> skip
               | Some _ \<Rightarrow> enqueue_work (StartStream mirror))))))"

subsection \<open>The health of a mirror\<close>

definition strike :: "bool \<Rightarrow> string \<Rightarrow> ('h pool_world, u32, string) stateful" where
  "strike debug a =
     sbind (sget (\<lambda>w. failures_of a (pw_mirrors w))) (\<lambda>entry.
     sbind (slift (add_u32 debug entry 1)) (\<lambda>entry'.
     sbind (smod (on_mirrors (set_failures a entry'))) (\<lambda>_. sret entry')))"

definition handle_explore_mirror :: "('k, 's, 'h) worker_context \<Rightarrow> peer_addr \<Rightarrow> ('h, unit) work" where
  "handle_explore_mirror C mirror = (case wc_dispatcher C of
     None \<Rightarrow> skip
   | Some D \<Rightarrow>
       pthen (read_mirrors mst_local_tbid_hex) (\<lambda>local_tbid.
       if local_tbid = [] then skip
       else
         pthen (net (dp_mirror_health_check D (json_rpc mirror) local_tbid)) (\<lambda>answer. case answer of
           Some _ \<Rightarrow> atomic (smod (on_mirrors (set_failures (json_rpc mirror) 0)))
         | None \<Rightarrow>
             pthen (atomic (strike (ne_debug (wc_env C)) (json_rpc mirror))) (\<lambda>failures.
               if MAX_HEALTH_FAILURES \<le> failures then enqueue_work (ExpireMirror mirror) else skip))))"

text \<open>\<open>HashSet::remove\<close>, which says whether the mirror was there.\<close>

definition remove_mirror :: "string \<Rightarrow> ('h pool_world, bool, string) stateful" where
  "remove_mirror a w =
     (Ok (a |\<in>| mst_mirrors (pw_mirrors w)),
      on_mirrors (\<lambda>m. m\<lparr>mst_mirrors := mst_mirrors m |-| {|a|}\<rparr>) w)"

definition handle_expire_mirror :: "peer_addr \<Rightarrow> ('h, unit) work" where
  "handle_expire_mirror mirror =
     pthen (atomic (remove_mirror (json_rpc mirror))) (\<lambda>removed.
     if \<not> removed then skip
     else
       pthen (atomic (smod (on_mirrors (\<lambda>m. m\<lparr>mst_health_failures :=
                (mst_health_failures m)(json_rpc mirror := None)\<rparr>)))) (\<lambda>_.
       pthen (read_mirrors (\<lambda>m. fcard (mst_mirrors m))) (\<lambda>active.
       pthen (read_mirrors mst_min_mirrors) (\<lambda>min_mirrors.
         if active < min_mirrors then enqueue_work FindNewMirror else skip))))"

end
