(* ===== verification/Mirror_Tasks.thy ===== *)
theory Mirror_Tasks
  imports Mirror_Workers
begin

section \<open>Attestation tasks, verification tasks, and the pool\<close>

text \<open>
  The other half of \<^verbatim>\<open>foretias-server/src/calendar/task_queue.rs\<close>: mutual attestation
  with a TBID at the level of a chronon and of an epoch, the check of a remote calendar, the
  worker's loop and the constructors of the pool, with the wiring of \<^verbatim>\<open>calendar/mod.rs\<close>.
\<close>

subsection \<open>Mutual attestation\<close>

text \<open>Stamp for oneself and sign with the calendar's key; \<open>None\<close> where either is refused.\<close>

definition stamp_and_sign ::
    "('k, 's, 'h) worker_context \<Rightarrow> (bytes \<Rightarrow> string \<Rightarrow> ('h, stamped_foretis, node_error) stateful) \<Rightarrow>
     string \<Rightarrow> string \<Rightarrow> ('h, (stamped_foretis \<times> bytes) option) work" where
  "stamp_and_sign C stamp_op stamp_content echo =
     pthen (net (stamp_op (as_bytes stamp_content) echo)) (\<lambda>stamped. case stamped of
       None \<Rightarrow> Finished (Ok None)
     | Some st \<Rightarrow>
         pthen (Finished (sig_input_bytes (ne_postcard (wc_env C)) (st_foretis st))) (\<lambda>bytes.
           Finished (Ok (map_option (Pair st) (sign_with_calendar_key C bytes)))))"

definition stamp_and_sign_chronon_attestation ::
    "('k, 's, 'h) worker_context \<Rightarrow> (bytes \<Rightarrow> string \<Rightarrow> ('h, stamped_foretis, node_error) stateful) \<Rightarrow>
     string \<Rightarrow> ('h, (stamped_foretis \<times> bytes) option) work" where
  "stamp_and_sign_chronon_attestation C stamp_op target_tbid =
     stamp_and_sign C stamp_op (''chronon-attest-'' @ target_tbid) ''chronon-attestation''"

definition stamp_and_sign_epoch_attestation ::
    "('k, 's, 'h) worker_context \<Rightarrow> (bytes \<Rightarrow> string \<Rightarrow> ('h, stamped_foretis, node_error) stateful) \<Rightarrow>
     string \<Rightarrow> ('h, (stamped_foretis \<times> bytes) option) work" where
  "stamp_and_sign_epoch_attestation C stamp_op target_tbid =
     stamp_and_sign C stamp_op (''epoch-attest-'' @ target_tbid) ''epoch-attestation''"

definition verify_chronon_attestation_recorded ::
    "string \<Rightarrow> u64 \<Rightarrow> 'h comm_line \<Rightarrow> string \<Rightarrow> foretis_record clean \<Rightarrow> ('h, unit) work" where
  "verify_chronon_attestation_recorded target_tbid target_chronon line echo remote_foretis =
     pthen (net (ln_get_chronon line target_chronon)) (\<lambda>verified_record. case verified_record of
       None \<Rightarrow> skip
     | Some ca \<Rightarrow> log_work (AttestationRecorded target_tbid target_chronon
         (list_ex (\<lambda>att. fr_echo (ea_foretis att) = echo \<and>
              fr_content_hash (ea_foretis att) = fr_content_hash (ca_inner remote_foretis))
            (cr_external_attestations (ca_inner ca)))))"

definition transmit_chronon_attestation ::
    "('k, 's, 'h) worker_context \<Rightarrow> string \<Rightarrow> 'h comm_line \<Rightarrow> u64 \<Rightarrow> stamped_foretis \<Rightarrow> ('h, unit) work" where
  "transmit_chronon_attestation C target_tbid line target_chronon stamped =
     pthen (Finished (sig_input_bytes (ne_postcard (wc_env C)) (st_foretis stamped))) (\<lambda>foretis_bytes.
       (let echo = ''attest-'' @ show_u64 (fr_chronon_number (st_foretis stamped)) in
        pthen (net (ln_stamp line foretis_bytes echo)) (\<lambda>answer. case answer of
          None \<Rightarrow> skip
        | Some remote_foretis \<Rightarrow>
            pthen (log_work (AttestationComplete target_tbid (fr_chronon_number (ca_inner remote_foretis)))) (\<lambda>_.
              verify_chronon_attestation_recorded target_tbid target_chronon line echo remote_foretis))))"

definition transmit_epoch_attestation ::
    "('k, 's, 'h) worker_context \<Rightarrow> string \<Rightarrow> 'h comm_line \<Rightarrow> stamped_foretis \<Rightarrow> ('h, unit) work" where
  "transmit_epoch_attestation C target_tbid line stamped =
     pthen (Finished (sig_input_bytes (ne_postcard (wc_env C)) (st_foretis stamped))) (\<lambda>foretis_bytes.
     pthen (net (ln_stamp line foretis_bytes
              (''epoch-attest-'' @ show_u64 (fr_chronon_number (st_foretis stamped))))) (\<lambda>answer. case answer of
       None \<Rightarrow> skip
     | Some remote_foretis \<Rightarrow>
         log_work (AttestationComplete target_tbid (fr_chronon_number (ca_inner remote_foretis)))))"

definition handle_do_chronon_attestation :: "('k, 's, 'h) worker_context \<Rightarrow> string \<Rightarrow> ('h, unit) work" where
  "handle_do_chronon_attestation C target_tbid = (case wc_communerd C of
     None \<Rightarrow> skip
   | Some line_for \<Rightarrow> (case wc_stamp C of
       None \<Rightarrow> skip
     | Some stamp_op \<Rightarrow> (case from_hex (hex_opt (wc_env C)) target_tbid of
         Ok tbid \<Rightarrow>
           pthen (net (ln_get_chronon (line_for tbid) u64_max)) (\<lambda>target_record. case target_record of
             None \<Rightarrow> skip
           | Some ca \<Rightarrow>
               pthen (stamp_and_sign_chronon_attestation C stamp_op target_tbid) (\<lambda>signed. case signed of
                 None \<Rightarrow> skip
               | Some (stamped, calendar_signature) \<Rightarrow>
                   transmit_chronon_attestation C target_tbid (line_for tbid)
                     (cr_chronon_number (ca_inner ca)) stamped))
       | _ \<Rightarrow> skip)))"

definition get_target_latest_epoch :: "'h comm_line \<Rightarrow> ('h, u64 option) work" where
  "get_target_latest_epoch line =
     pthen (net (ln_get_calendar_slice line u64_max 1)) (\<lambda>slice.
       Finished (Ok (map_option (\<lambda>ca. cr_chronon_number (ca_inner ca)) (Option.bind slice list_first))))"

definition handle_do_epoch_attestation :: "('k, 's, 'h) worker_context \<Rightarrow> string \<Rightarrow> ('h, unit) work" where
  "handle_do_epoch_attestation C target_tbid = (case wc_communerd C of
     None \<Rightarrow> skip
   | Some line_for \<Rightarrow> (case wc_stamp C of
       None \<Rightarrow> skip
     | Some stamp_op \<Rightarrow> (case from_hex (hex_opt (wc_env C)) target_tbid of
         Ok tbid \<Rightarrow>
           pthen (get_target_latest_epoch (line_for tbid)) (\<lambda>target_chronon. case target_chronon of
             None \<Rightarrow> skip
           | Some _ \<Rightarrow>
               pthen (stamp_and_sign_epoch_attestation C stamp_op target_tbid) (\<lambda>signed. case signed of
                 None \<Rightarrow> skip
               | Some (stamped, calendar_signature) \<Rightarrow>
                   transmit_epoch_attestation C target_tbid (line_for tbid) stamped))
       | _ \<Rightarrow> skip)))"

subsection \<open>Checking a remote calendar\<close>

definition get_verify_latest_chronon :: "'h comm_line \<Rightarrow> ('h, u64 option) work" where
  "get_verify_latest_chronon line =
     pthen (net (ln_get_chronon line u64_max)) (\<lambda>record.
       Finished (Ok (case record of
         None \<Rightarrow> None
       | Some ca \<Rightarrow>
           (let latest_chronon = cr_chronon_number (ca_inner ca) in
            if latest_chronon = 0 then None else Some latest_chronon))))"

definition pick_verify_range :: "bool \<Rightarrow> (u64 \<Rightarrow> u64) \<Rightarrow> u64 \<Rightarrow> (u64 \<times> u64, 'e) result" where
  "pick_verify_range debug draw latest_chronon =
     (let start = (if latest_chronon \<le> 1 then 1 else draw latest_chronon) in
      rbind (add_u64 debug (saturating_sub latest_chronon start) 1) (\<lambda>n. Ok (start, min 100 n)))"

text \<open>
  The ratio of returned to requested records is compared with one half as a 64-bit float; as at
  most 100 records are requested, the rounded quotient is below one half exactly when the
  quotient is.
\<close>

definition coverage_log :: "string \<Rightarrow> u64 \<Rightarrow> u64 \<Rightarrow> chronon_record clean list \<Rightarrow> worker_log list" where
  "coverage_log target_tbid start cnt records =
     (let returned = (word_of_nat (length records) :: u64);
          records_with_attestations = length (filter (\<lambda>r. cr_external_attestations (ca_inner r) \<noteq> []) records) in
      CoverageResult target_tbid start cnt returned records_with_attestations #
      (if 0 < cnt \<and> 2 * unat returned < unat cnt then [PoorCoverage target_tbid] else []) @
      (if 0 < returned \<and> records_with_attestations = 0 then [NoAttestations target_tbid] else []))"

definition handle_verify_fb_recorded :: "('k, 's, 'h) worker_context \<Rightarrow> string \<Rightarrow> ('h, unit) work" where
  "handle_verify_fb_recorded C target_tbid = (case wc_communerd C of
     None \<Rightarrow> skip
   | Some line_for \<Rightarrow> (case from_hex (hex_opt (wc_env C)) target_tbid of
       Ok tbid \<Rightarrow>
         pthen (get_verify_latest_chronon (line_for tbid)) (\<lambda>latest_chronon. case latest_chronon of
           None \<Rightarrow> skip
         | Some latest \<Rightarrow>
             pthen (Finished (pick_verify_range (ne_debug (wc_env C)) (wc_draw C) latest)) (\<lambda>(start, cnt).
             pthen (net (ln_get_calendar_slice (line_for tbid) start cnt)) (\<lambda>records. case records of
               None \<Rightarrow> skip
             | Some rs \<Rightarrow> atomic (smod (\<lambda>w. w\<lparr>pw_log := pw_log w @ coverage_log target_tbid start cnt rs\<rparr>)))))
     | _ \<Rightarrow> skip))"

subsection \<open>Workers\<close>

fun handle_task :: "('k, 's, 'h) worker_context \<Rightarrow> calendar_task \<Rightarrow> ('h, unit) work" where
  "handle_task C FindNewMirror = handle_find_new_mirror C"
| "handle_task C (InitiateDump mirror) = handle_initiate_dump C mirror"
| "handle_task C (StartStream mirror) = skip"
| "handle_task C (ExploreMirror mirror) = handle_explore_mirror C mirror"
| "handle_task C (ExpireMirror mirror) = handle_expire_mirror mirror"
| "handle_task C (DoChrononAttestation target_tbid) = handle_do_chronon_attestation C target_tbid"
| "handle_task C (DoEpochAttestation target_tbid) = handle_do_epoch_attestation C target_tbid"
| "handle_task C (VerifyFbRecorded target_tbid) = handle_verify_fb_recorded C target_tbid"

definition recv :: "('h pool_world, calendar_task option, string) stateful" where
  "recv w = (case tc_tasks (pw_tasks w) of
     [] \<Rightarrow> (Ok None, w)
   | task # tasks \<Rightarrow> (Ok (Some task), w\<lparr>pw_tasks := (pw_tasks w)\<lparr>tc_tasks := tasks\<rparr>\<rparr>))"

text \<open>
  A worker that polls the channel \<open>n\<close> times. The pool holds a sender, so that the channel never
  closes under the workers; a panic of a handler is the end of its worker.
\<close>

primrec worker :: "nat \<Rightarrow> ('k, 's, 'h) worker_context \<Rightarrow> ('h, unit) work" where
  "worker 0 C = skip"
| "worker (Suc n) C =
     pthen (atomic recv) (\<lambda>task_opt. case task_opt of
       None \<Rightarrow> worker n C
     | Some task \<Rightarrow> pthen (handle_task C task) (\<lambda>_. worker n C))"

definition spawn_workers :: "nat \<Rightarrow> nat \<Rightarrow> ('k, 's, 'h) worker_context \<Rightarrow> ('h pool_world, (unit, string) result) prog list" where
  "spawn_workers n worker_count C = replicate worker_count (worker n C)"

text \<open>The pool of \<^verbatim>\<open>start_pool\<close>: the context, the world it starts in, the workers.\<close>

definition start_pool ::
    "('k, 's) node_env \<Rightarrow> (u64 \<Rightarrow> u64) \<Rightarrow> nat \<Rightarrow> calendar \<Rightarrow> 'h mirror_dispatcher option \<Rightarrow>
     (tbid \<Rightarrow> 'h comm_line) option \<Rightarrow>
     (bytes \<Rightarrow> string \<Rightarrow> ('h, stamped_foretis, node_error) stateful) option \<Rightarrow> 'k option option \<Rightarrow> 'h \<Rightarrow>
     ('k, 's, 'h) worker_context \<times> 'h pool_world \<times> ('h pool_world, (unit, string) result) prog list" where
  "start_pool E draw n calendar_lookup dispatcher communerd chronomatter signing_key h =
     (let C = \<lparr>wc_env = E, wc_dispatcher = dispatcher, wc_communerd = communerd, wc_stamp = chronomatter,
               wc_signing_key = signing_key, wc_draw = draw\<rparr>;
          w = \<lparr>pw_mirrors = mirror_state_default\<lparr>mst_min_mirrors := DEFAULT_MIN_MIRRORS,
                                                mst_target_mirrors := DEFAULT_TARGET_MIRRORS\<rparr>,
               pw_tasks = \<lparr>tc_closed = False, tc_tasks = []\<rparr>, pw_calendar = calendar_lookup,
               pw_log = [], pw_net = h\<rparr> in
      (C, w, spawn_workers n DEFAULT_WORKER_COUNT C))"

definition start_default_pool_with_dispatcher ::
    "('k, 's) node_env \<Rightarrow> (u64 \<Rightarrow> u64) \<Rightarrow> nat \<Rightarrow> calendar \<Rightarrow> 'h mirror_dispatcher option \<Rightarrow> 'k option option \<Rightarrow> 'h \<Rightarrow>
     ('k, 's, 'h) worker_context \<times> 'h pool_world \<times> ('h pool_world, (unit, string) result) prog list" where
  "start_default_pool_with_dispatcher E draw n calendar_lookup dispatcher signing_key h =
     start_pool E draw n calendar_lookup dispatcher None None signing_key h"

definition start_default_pool ::
    "('k, 's) node_env \<Rightarrow> (u64 \<Rightarrow> u64) \<Rightarrow> nat \<Rightarrow> calendar \<Rightarrow> 'k option option \<Rightarrow> 'h \<Rightarrow>
     ('k, 's, 'h) worker_context \<times> 'h pool_world \<times> ('h pool_world, (unit, string) result) prog list" where
  "start_default_pool E draw n calendar_lookup signing_key h =
     start_default_pool_with_dispatcher E draw n calendar_lookup None signing_key h"

text \<open>
  How the server's calendar starts its queue. Its key is shared with the workers; the channel
  of the pool is from then on the one its tasks are sent to.
\<close>

definition start_task_queue_with_dispatcher ::
    "('k, 's) node_env \<Rightarrow> (u64 \<Rightarrow> u64) \<Rightarrow> nat \<Rightarrow> 'h mirror_dispatcher \<Rightarrow> 'h \<Rightarrow> 'k server_calendar \<Rightarrow>
     ('k, 's, 'h) worker_context \<times> 'h pool_world \<times> ('h pool_world, (unit, string) result) prog list \<times> 'k server_calendar" where
  "start_task_queue_with_dispatcher E draw n dispatcher h c =
     (let (C, w, pool) = start_default_pool_with_dispatcher E draw n (sc_inner c) (Some dispatcher)
                           (Some (sc_signing_key c)) h;
          local_tbid = to_hex (ne_hex_encode E) (sc_tbid c) in
      (C, on_mirrors (\<lambda>m. m\<lparr>mst_local_tbid_hex := local_tbid\<rparr>) w, pool, c\<lparr>sc_task_tx := Some (pw_tasks w)\<rparr>))"

definition start_task_queue ::
    "('k, 's) node_env \<Rightarrow> (u64 \<Rightarrow> u64) \<Rightarrow> nat \<Rightarrow> 'h \<Rightarrow> 'k server_calendar \<Rightarrow>
     ('k, 's, 'h) worker_context \<times> 'h pool_world \<times> ('h pool_world, (unit, string) result) prog list \<times> 'k server_calendar" where
  "start_task_queue E draw n h c =
     (let (C, w, pool) = start_default_pool E draw n (sc_inner c) (Some (sc_signing_key c)) h;
          local_tbid = to_hex (ne_hex_encode E) (sc_tbid c) in
      (C, on_mirrors (\<lambda>m. m\<lparr>mst_local_tbid_hex := local_tbid\<rparr>) w, pool, c\<lparr>sc_task_tx := Some (pw_tasks w)\<rparr>))"

definition task_queue_started :: "'k server_calendar \<Rightarrow> bool" where
  "task_queue_started c \<longleftrightarrow> sc_task_tx c \<noteq> None"

end
