(* ===== verification/Mirror_Pool.thy ===== *)
theory Mirror_Pool
  imports Mirror_Tasks
begin

section \<open>How many mirrors a pool enrols\<close>

text \<open>
  The workers find mirrors concurrently: each looks at the number of mirrors, announces itself
  to a peer, and enrols it when the answer comes, whatever the others did meanwhile. A worker
  that has seen room holds a credit: it may enrol one mirror without looking again. What is
  bounded is the number of mirrors and credits together.
\<close>

definition mirror_count :: "'h pool_world \<Rightarrow> nat" where
  "mirror_count w = fcard (mst_mirrors (pw_mirrors w))"

definition target_of :: "'h pool_world \<Rightarrow> nat" where
  "target_of w = mst_target_mirrors (pw_mirrors w)"

lemma count_updates [simp]:
  "mirror_count (w\<lparr>pw_tasks := q\<rparr>) = mirror_count w" "mirror_count (w\<lparr>pw_net := h\<rparr>) = mirror_count w"
  "mirror_count (w\<lparr>pw_log := l\<rparr>) = mirror_count w"
  "target_of (w\<lparr>pw_tasks := q\<rparr>) = target_of w" "target_of (w\<lparr>pw_net := h\<rparr>) = target_of w"
  "target_of (w\<lparr>pw_log := l\<rparr>) = target_of w"
  "mirror_count (on_mirrors f w) = fcard (mst_mirrors (f (pw_mirrors w)))"
  "target_of (on_mirrors f w) = mst_target_mirrors (f (pw_mirrors w))"
  by (simp_all add: mirror_count_def target_of_def on_mirrors_def)

subsection \<open>Programs and their credit\<close>

text \<open>
  A step from a world to the next that changes the credit to \<open>c'\<close>: it spends a credit per mirror
  it enrols, and takes one only where it has seen room.
\<close>

definition moves :: "nat \<Rightarrow> nat \<Rightarrow> 'h pool_world \<Rightarrow> nat \<Rightarrow> 'h pool_world \<Rightarrow> bool" where
  "moves T c w c' w' \<longleftrightarrow> c' \<le> 1 \<and> target_of w' = T \<and>
     (mirror_count w' + c' \<le> mirror_count w + c \<or> mirror_count w' = mirror_count w \<and> mirror_count w < T)"

inductive paced :: "nat \<Rightarrow> nat \<Rightarrow> ('h pool_world, 'r) prog \<Rightarrow> bool" for T where
  finished: "paced T c (Finished r)"
| step: "(\<And>w. target_of w = T \<Longrightarrow> \<exists>c'. moves T c w c' (snd (f w)) \<and> paced T c' (fst (f w))) \<Longrightarrow> paced T c (Atomic f)"

inductive_simps paced_Atomic: "paced T c (Atomic f)"

lemma moves_more: "moves T c w c' w' \<Longrightarrow> c \<le> d \<Longrightarrow> moves T d w c' w'"
  by (auto simp: moves_def)

lemma paced_more:
  assumes "paced T c p" and "c \<le> d"
  shows "paced T d p"
  using assms(1)
proof cases
  case finished
  then show ?thesis by (simp add: paced.finished)
next
  case (step f)
  then show ?thesis using moves_more [OF _ assms(2)] by (metis paced.step)
qed

lemma paced_pbind:
  assumes "paced T c m" and "\<And>a. paced T 0 (k a)"
  shows "paced T c (pbind m k)"
  using assms(1)
proof induction
  case (finished c r)
  show ?case using paced_more [OF assms(2)] by simp
next
  case (step c f)
  have "\<exists>c'. moves T c w c' (snd (f w)) \<and> paced T c' (pbind (fst (f w)) k)" if "target_of w = T" for w
    using step.IH [OF that] by blast
  then show ?case by (auto simp: paced_Atomic)
qed

lemma paced_pthen:
  "paced T c m \<Longrightarrow> (\<And>a. paced T 0 (k a)) \<Longrightarrow> paced T c (pthen m k)"
  unfolding pthen_def by (erule paced_pbind) (auto split: result.splits intro: paced.finished)

text \<open>A step, and what may follow it with the credit it leaves.\<close>

lemma paced_first:
  assumes "\<And>w. target_of w = T \<Longrightarrow>
      \<exists>c'. moves T c w c' (snd (m w)) \<and> (\<forall>a. fst (m w) = Ok a \<longrightarrow> paced T c' (k a))"
  shows "paced T c (pthen (atomic m) k)"
proof -
  have "paced T c' (case r of Ok a \<Rightarrow> k a | Err e \<Rightarrow> Finished (Err e) | Panic \<Rightarrow> Finished Panic)"
    if "\<forall>a. r = Ok a \<longrightarrow> paced T c' (k a)" for r c'
    using that by (cases r) (simp_all add: paced.finished)
  with assms show ?thesis
    unfolding pthen_def atomic_def pbind.simps paced_Atomic
    by (simp add: case_prod_beta Let_def) blast
qed

text \<open>A step that enrols nothing.\<close>

definition quiet :: "('h pool_world, 'a, 'e) stateful \<Rightarrow> bool" where
  "quiet m \<longleftrightarrow> (\<forall>w. target_of (snd (m w)) = target_of w \<and> mirror_count (snd (m w)) \<le> mirror_count w)"

lemma quiet_moves: "quiet m \<Longrightarrow> target_of w = T \<Longrightarrow> c \<le> 1 \<Longrightarrow> moves T c w c (snd (m w))"
  by (simp add: quiet_def moves_def)

lemma paced_quiet_then:
  assumes "quiet m" and "\<And>a. paced T c (k a)" and "c \<le> 1"
  shows "paced T c (pthen (atomic m) k)"
  using quiet_moves [OF assms(1) _ assms(3)] assms(2) by (intro paced_first) blast

lemma paced_quiet:
  assumes "quiet m" shows "paced T 0 (atomic m)"
  using quiet_moves [OF assms] by (auto simp: atomic_def paced_Atomic case_prod_beta Let_def intro: paced.finished)

lemma quiet_basic [simp]: "quiet (sattempt (on_net m))" "quiet (sget f)" "quiet (slift r)" "quiet (sret a)"
  by (auto simp: quiet_def sattempt_def on_net_def sget_def slift_def sret_def split: prod.splits result.splits)

lemma quiet_smod: "quiet (smod f) \<longleftrightarrow> (\<forall>w. target_of (f w) = target_of w \<and> mirror_count (f w) \<le> mirror_count w)"
  by (simp add: quiet_def smod_def)

lemma quiet_recv [simp]: "quiet recv"
  by (auto simp: quiet_def recv_def split: list.splits)

lemma quiet_remove [simp]: "quiet (remove_mirror a)"
  by (auto simp: quiet_def remove_mirror_def target_of_def mirror_count_def on_mirrors_def intro!: fcard_mono)

lemma quiet_strike [simp]: "quiet (strike debug a)"
  by (auto simp: quiet_def strike_def sbind_def sget_def slift_def smod_def sret_def on_mirrors_def set_failures_def
      target_of_def mirror_count_def split: result.splits)

lemma quiet_enqueue [simp]: "quiet (smod (\<lambda>w. w\<lparr>pw_tasks := g w\<rparr>))" "quiet (smod (\<lambda>w. w\<lparr>pw_log := l w\<rparr>))"
  by (simp_all add: quiet_smod)

lemma quiet_failures [simp]: "quiet (smod (on_mirrors (set_failures a n)))"
  "quiet (smod (on_mirrors (\<lambda>m. m\<lparr>mst_health_failures := g m\<rparr>)))"
  by (simp_all add: quiet_smod set_failures_def target_of_def mirror_count_def on_mirrors_def)

lemmas work_defs = net_def read_mirrors_def enqueue_work_def log_work_def

lemma paced_skip [simp]: "paced T c skip"
  by (simp add: skip_def paced.finished)

lemma paced_call [simp]:
  "paced T 0 (net m)" "paced T 0 (read_mirrors g)" "paced T 0 (enqueue_work task)" "paced T 0 (log_work l)"
  by (simp_all add: work_defs paced_quiet)

subsection \<open>The handlers\<close>

lemma paced_finish [simp]: "paced T c (Finished r)"
  by (rule paced.finished)

lemma paced_enrol:
  assumes "\<And>a. paced T 0 (k a)"
  shows "paced T 1 (pthen (atomic (smod (on_mirrors (enrol addr)))) k)"
  using assms
  by (intro paced_first exI [of _ 0])
    (simp add: moves_def smod_def enrol_def target_of_def mirror_count_def on_mirrors_def fcard_finsert_if)

lemma paced_room:
  assumes "paced T 0 p" and "paced T 1 q"
  shows "paced T 0 (pthen (read_mirrors (\<lambda>m. mst_target_mirrors m \<le> fcard (mst_mirrors m))) (\<lambda>full. if full then p else q))"
  unfolding read_mirrors_def
proof (rule paced_first)
  fix w :: "'a pool_world"
  assume T: "target_of w = T"
  let ?full = "mst_target_mirrors (pw_mirrors w) \<le> fcard (mst_mirrors (pw_mirrors w))"
  have "moves T 0 w (if ?full then 0 else 1) w"
    using T by (simp add: moves_def target_of_def mirror_count_def)
  then show "\<exists>c'. moves T 0 w c' (snd (sget (\<lambda>w. mst_target_mirrors (pw_mirrors w) \<le> fcard (mst_mirrors (pw_mirrors w))) w)) \<and>
      (\<forall>a. fst (sget (\<lambda>w. mst_target_mirrors (pw_mirrors w) \<le> fcard (mst_mirrors (pw_mirrors w))) w) = Ok a \<longrightarrow>
        paced T c' (if a then p else q))"
    using assms by (auto simp: sget_def)
qed

lemma paced_candidates: "paced T 1 (try_candidates D t already peers)"
proof (induction peers)
  case (Cons peer peers)
  let ?next = "try_candidates D t already peers"
  have "paced T 1 (pthen (atomic (smod (on_mirrors (enrol (json_rpc peer))))) (\<lambda>_.
      pthen (enqueue_work (InitiateDump peer)) (\<lambda>_.
      pthen (read_mirrors (\<lambda>m. mst_target_mirrors m \<le> fcard (mst_mirrors m))) (\<lambda>full.
        if full then skip else ?next))))"
    using Cons unfolding enqueue_work_def by (intro paced_enrol paced_quiet_then paced_room) simp_all
  with Cons show ?case
    unfolding try_candidates.simps net_def by (auto intro: paced_quiet_then)
qed simp

lemma paced_look:
  assumes "\<And>current. current < T \<Longrightarrow> paced T 1 (q current)"
  shows "paced T 0 (pthen (read_mirrors (\<lambda>m. fcard (mst_mirrors m))) (\<lambda>current. if T \<le> current then skip else q current))"
  unfolding read_mirrors_def
proof (rule paced_first)
  fix w :: "'a pool_world"
  assume "target_of w = T"
  then have "moves T 0 w (if T \<le> mirror_count w then 0 else 1) w" by (simp add: moves_def)
  then show "\<exists>c'. moves T 0 w c' (snd (sget (\<lambda>w. fcard (mst_mirrors (pw_mirrors w))) w)) \<and>
      (\<forall>a. fst (sget (\<lambda>w. fcard (mst_mirrors (pw_mirrors w))) w) = Ok a \<longrightarrow> paced T c' (if T \<le> a then skip else q a))"
    using assms by (auto simp: sget_def mirror_count_def)
qed

lemma paced_target:
  assumes "paced T 0 (k T)"
  shows "paced T 0 (pthen (read_mirrors mst_target_mirrors) k)"
  unfolding read_mirrors_def
  by (rule paced_first) (use assms in \<open>auto simp: moves_def sget_def target_of_def intro!: exI [of _ 0]\<close>)

lemma paced_find: "paced T 0 (handle_find_new_mirror C)"
proof (cases "wc_dispatcher C")
  case (Some D)
  have "paced T 1 (pthen (read_mirrors mst_local_tbid_hex) (\<lambda>local_tbid.
      if local_tbid = [] then skip
      else pthen (net (dp_known_peers D)) (\<lambda>candidates.
        pthen (read_mirrors mst_mirrors) (\<lambda>already.
          try_candidates D local_tbid already (unwrap_or [] candidates)))))"
    unfolding read_mirrors_def net_def
    by (rule paced_quiet_then) (auto intro!: paced_quiet_then paced_candidates [unfolded One_nat_def])
  then show ?thesis
    by (simp add: handle_find_new_mirror_def Some paced_target paced_look)
qed (simp add: handle_find_new_mirror_def)

lemma paced_chunks: "paced T 0 (send_chunks debug D a t cs sent)"
  by (induction cs arbitrary: sent) (auto intro!: paced_pthen split: option.splits)

lemma paced_dump: "paced T 0 (handle_initiate_dump C mirror)"
  unfolding handle_initiate_dump_def
  by (auto intro!: paced_pthen paced_chunks paced_quiet split: option.splits)

lemma paced_explore: "paced T 0 (handle_explore_mirror C mirror)"
  unfolding handle_explore_mirror_def
  by (auto intro!: paced_pthen paced_quiet split: option.splits)

lemma paced_expire: "paced T 0 (handle_expire_mirror mirror)"
  unfolding handle_expire_mirror_def by (auto intro!: paced_pthen paced_quiet)

lemma paced_stamp_and_sign: "paced T 0 (stamp_and_sign C stamp_op content echo)"
  unfolding stamp_and_sign_def by (auto intro!: paced_pthen split: option.splits)

lemma paced_transmit:
  "paced T 0 (transmit_chronon_attestation C t line n st)" "paced T 0 (transmit_epoch_attestation C t line st)"
  unfolding transmit_chronon_attestation_def transmit_epoch_attestation_def verify_chronon_attestation_recorded_def Let_def
  by (auto intro!: paced_pthen split: option.splits)

lemma paced_chronon_attestation: "paced T 0 (handle_do_chronon_attestation C t)"
  unfolding handle_do_chronon_attestation_def stamp_and_sign_chronon_attestation_def
  by (auto intro!: paced_pthen paced_transmit paced_stamp_and_sign split: option.splits result.splits)

lemma paced_epoch_attestation: "paced T 0 (handle_do_epoch_attestation C t)"
  unfolding handle_do_epoch_attestation_def stamp_and_sign_epoch_attestation_def get_target_latest_epoch_def
  by (auto intro!: paced_pthen paced_transmit paced_stamp_and_sign split: option.splits result.splits)

lemma paced_verify: "paced T 0 (handle_verify_fb_recorded C t)"
  unfolding handle_verify_fb_recorded_def get_verify_latest_chronon_def
  by (auto intro!: paced_pthen paced_quiet split: option.splits result.splits)

lemma paced_task: "paced T 0 (handle_task C task)"
  by (cases task)
    (simp_all add: paced_find paced_dump paced_explore paced_expire paced_chronon_attestation
      paced_epoch_attestation paced_verify)

lemma paced_worker: "paced T 0 (worker n C)"
  by (induction n) (auto intro!: paced_pthen paced_task paced_quiet split: option.splits)

subsection \<open>The pool\<close>

definition paced_pool :: "nat \<Rightarrow> nat \<Rightarrow> ('h pool_world, 'r) prog list \<times> 'h pool_world \<Rightarrow> bool" where
  "paced_pool T n = (\<lambda>(ts, w). target_of w = T \<and> length ts = n \<and>
     (\<exists>cs. list_all2 (paced T) cs ts \<and> (\<forall>c \<in> set cs. c \<le> 1) \<and> mirror_count w + sum_list cs < T + n))"

lemma sum_list_le_length: "\<forall>c \<in> set cs. c \<le> (1::nat) \<Longrightarrow> sum_list cs \<le> length cs"
  by (induction cs) auto

lemma paced_pool_step:
  assumes "thread_step (ts, w) (ts', w')" and "paced_pool T n (ts, w)"
  shows "paced_pool T n (ts', w')"
  using assms(1)
proof (rule thread_stepE)
  fix i f p w2
  assume "(ts', w') = (ts[i := p], w2)" and i: "i < length ts" and f: "ts ! i = Atomic f" "f w = (p, w2)"
  then have eqs: "ts' = ts[i := p]" "w' = w2" by simp_all
  from assms(2) obtain cs where cs: "list_all2 (paced T) cs ts" "\<forall>c \<in> set cs. c \<le> 1"
    "mirror_count w + sum_list cs < T + n" and w: "target_of w = T" "length ts = n"
    by (auto simp: paced_pool_def)
  have len: "length cs = n" using cs(1) w(2) by (simp add: list_all2_lengthD)
  have "paced T (cs ! i) (Atomic f)" using list_all2_nthD2 [OF cs(1) i] f(1) by simp
  then obtain c' where c': "moves T (cs ! i) w c' w2" "paced T c' p"
    using w(1) f(2) by (force simp: paced_Atomic)
  have bounded: "\<forall>c \<in> set (cs[i := c']). c \<le> 1"
    using cs(2) c'(1) set_update_subset_insert [of cs i c'] by (auto simp: moves_def)
  have sum: "sum_list (cs[i := c']) = sum_list cs + c' - cs ! i" "cs ! i \<le> sum_list cs"
    using i w(2) len by (simp_all add: sum_list_update elem_le_sum_list)
  have "mirror_count w2 + sum_list (cs[i := c']) < T + n"
    using c'(1) cs(3) sum sum_list_le_length [OF bounded] len by (auto simp: moves_def)
  moreover have "list_all2 (paced T) (cs[i := c']) (ts[i := p])"
    using cs(1) c'(2) by (rule list_all2_update_cong)
  ultimately show "paced_pool T n (ts', w')"
    using c'(1) bounded w(2) eqs by (auto simp: paced_pool_def moves_def intro!: exI [of _ "cs[i := c']"])
qed

lemma paced_pool_steps: "thread_steps c c' \<Longrightarrow> paced_pool T n c \<Longrightarrow> paced_pool T n c'"
  by (induction rule: thread_steps.induct) (auto intro: paced_pool_step)


text \<open>
  C16: However the workers of a pool and their tasks interleave, and whatever the peers answer,
  the pool never has more mirrors than its target and one for every worker but one: a worker
  that waits for an answer may enrol a mirror although the target has been reached meanwhile.
\<close>

theorem mirrors_bounded:
  assumes "start_task_queue_with_dispatcher E draw n dispatcher h c = (C, w, pool, c')"
    and "thread_steps (pool, w\<lparr>pw_tasks := q\<rparr>) (pool', w')"
  shows "fcard (mst_mirrors (pw_mirrors w')) < DEFAULT_TARGET_MIRRORS + DEFAULT_WORKER_COUNT"
proof -
  have "pool = replicate DEFAULT_WORKER_COUNT (worker n C)" "target_of w = DEFAULT_TARGET_MIRRORS" "mirror_count w = 0"
    using assms(1)
    by (auto simp: start_task_queue_with_dispatcher_def start_default_pool_with_dispatcher_def start_pool_def
        spawn_workers_def mirror_state_default_def target_of_def mirror_count_def on_mirrors_def Let_def)
  then have "paced_pool DEFAULT_TARGET_MIRRORS DEFAULT_WORKER_COUNT (pool, w\<lparr>pw_tasks := q\<rparr>)"
    by (auto simp: paced_pool_def paced_worker list_all2_conv_all_nth sum_list_replicate DEFAULT_WORKER_COUNT_def
        intro!: exI [of _ "replicate DEFAULT_WORKER_COUNT 0"])
  from paced_pool_steps [OF assms(2) this] show ?thesis
    by (auto simp: paced_pool_def mirror_count_def)
qed

text \<open>Peers that accept every announcement and take every record.\<close>

definition accepting :: "string list \<Rightarrow> unit mirror_dispatcher" where
  "accepting addrs = \<lparr>dp_known_peers = sret (map (\<lambda>a. \<lparr>json_rpc = a\<rparr>) addrs),
     dp_mirror_announce = (\<lambda>_ _. sret True), dp_history_dump_chunk = (\<lambda>_ _ rs. sret (word_of_nat (length rs))),
     dp_history_dump_complete = (\<lambda>_ _ n. sret n), dp_mirror_health_check = (\<lambda>_ _. sret 0)\<rparr>"

definition demo_pool_calendar :: "bytes server_calendar" where
  "demo_pool_calendar = \<lparr>sc_inner = calendar_new tbid_default ''n'', sc_tbn = ''n'', sc_signing_key = None, sc_task_tx = None\<rparr>"

lemma accepting_simps [simp]:
  "dp_known_peers (accepting as) = sret (map (\<lambda>a. \<lparr>json_rpc = a\<rparr>) as)"
  "dp_mirror_announce (accepting as) a t = sret True"
  "dp_history_dump_chunk (accepting as) a t rs = sret (word_of_nat (length rs))"
  "dp_history_dump_complete (accepting as) a t n = sret n"
  "dp_mirror_health_check (accepting as) a t = sret 0"
  by (simp_all add: accepting_def)

lemmas pool_defs = start_task_queue_with_dispatcher_def start_default_pool_with_dispatcher_def start_pool_def
  spawn_workers_def mirror_state_default_def on_mirrors_def

lemmas step_defs = sget_def smod_def sret_def slift_def sbind_def sattempt_def on_net_def on_mirrors_def
  enrol_def set_failures_def failures_of_def unwrap_or_def recv_def enqueue_def remove_mirror_def strike_def

lemma demo_tbid_hex: "to_hex char_hex tbid_default \<noteq> []"
  by (simp add: to_hex_def tbid_default_def length_0_conv [symmetric] del: length_0_conv)

lemma run_parts [simp]:
  "run_prog skip = sret ()" "run_prog (net m) = sattempt (on_net m)" "run_prog (read_mirrors g) = sget (\<lambda>w. g (pw_mirrors w))"
  "run_prog (enqueue_work task) = smod (\<lambda>w. w\<lparr>pw_tasks := snd (enqueue task (pw_tasks w))\<rparr>)"
  "run_prog (log_work l) = smod (\<lambda>w. w\<lparr>pw_log := pw_log w @ [l]\<rparr>)"
  by (simp_all add: work_defs skip_def sret_def slift_def fun_eq_iff)

lemma run_prog_if [simp]: "run_prog (if b then p else q) = (if b then run_prog p else run_prog q)"
  by simp

lemma sbind_net [simp]:
  "m (pw_net w) = (Ok a, h) \<Longrightarrow> sbind (sattempt (on_net m)) k w = k (Some a) (w\<lparr>pw_net := h\<rparr>)"
  "m (pw_net w) = (Err e, h) \<Longrightarrow> sbind (sattempt (on_net m)) k w = k None (w\<lparr>pw_net := h\<rparr>)"
  "m (pw_net w) = (Panic, h) \<Longrightarrow> sbind (sattempt (on_net m)) k w = (Panic, w\<lparr>pw_net := h\<rparr>)"
  by (simp_all add: sbind_def sattempt_def on_net_def)

lemma sbind_assoc [simp]: "sbind (sbind m f) g = sbind m (\<lambda>a. sbind (f a) g)"
  by (auto simp: sbind_def fun_eq_iff split: prod.splits result.splits)

lemma sbind_Panic [simp]: "m s = (Panic, s') \<Longrightarrow> sbind m f s = (Panic, s')"
  by (simp add: sbind_def)

lemma sbind_recv [simp]:
  "tc_tasks (pw_tasks w) = [] \<Longrightarrow> sbind recv k w = k None w"
  "tc_tasks (pw_tasks w) = task # tasks \<Longrightarrow>
     sbind recv k w = k (Some task) (w\<lparr>pw_tasks := (pw_tasks w)\<lparr>tc_tasks := tasks\<rparr>\<rparr>)"
  by (simp_all add: sbind_def recv_def)

lemma steps_alone:
  assumes "i < length ts" and "ts ! i = p"
  shows "thread_steps (ts, s) (ts[i := Finished (fst (run_prog p s))], snd (run_prog p s))"
  using run_alone [OF assms(1), of s] run_schedule_steps assms(2) by metis

theorem mirrors_bounded_witness:
  "\<exists>C w pool c' pool' w'.
     start_task_queue_with_dispatcher demo_env id 1 (accepting [''a'', ''b'']) () demo_pool_calendar = (C, w, pool, c') \<and>
     thread_steps (pool, w\<lparr>pw_tasks := \<lparr>tc_closed = False, tc_tasks = [FindNewMirror]\<rparr>\<rparr>) (pool', w') \<and>
     mst_mirrors (pw_mirrors w') = {|''a'', ''b''|} \<and> fcard (mst_mirrors (pw_mirrors w')) < 7"
proof -
  obtain C w pool c' where start:
    "start_task_queue_with_dispatcher demo_env id 1 (accepting [''a'', ''b'']) () demo_pool_calendar = (C, w, pool, c')"
    using prod_cases4 by blast
  let ?w = "w\<lparr>pw_tasks := \<lparr>tc_closed = False, tc_tasks = [FindNewMirror]\<rparr>\<rparr>"
  have C: "wc_dispatcher C = Some (accepting [''a'', ''b''])" "pool = replicate 4 (worker 1 C)"
    "pw_mirrors w = \<lparr>mst_local_tbid_hex = to_hex char_hex tbid_default, mst_mirrors = {||},
       mst_health_failures = Map.empty, mst_min_mirrors = 1, mst_target_mirrors = 3\<rparr>"
    using start
    by (auto simp: pool_defs demo_pool_calendar_def DEFAULT_WORKER_COUNT_def DEFAULT_TARGET_MIRRORS_def DEFAULT_MIN_MIRRORS_def
        sc_tbid_def calendar_new_def Let_def)
  have steps: "thread_steps (pool, ?w) (pool[2 := Finished (fst (run_prog (worker 1 C) ?w))], snd (run_prog (worker 1 C) ?w))"
    by (rule steps_alone) (simp_all add: C(2) del: worker.simps)
  have "mst_mirrors (pw_mirrors (snd (run_prog (worker 1 C) ?w))) = {|''a'', ''b''|}"
    using demo_tbid_hex
    by (simp add: C handle_find_new_mirror_def sret_def unwrap_or_def on_mirrors_def enrol_def fcard_finsert_if fcard_fempty
        finsert_commute)
  moreover have "fcard (mst_mirrors (pw_mirrors (snd (run_prog (worker 1 C) ?w)))) < 7"
    using mirrors_bounded [OF start steps] unfolding DEFAULT_TARGET_MIRRORS_def DEFAULT_WORKER_COUNT_def by linarith
  ultimately show ?thesis using start steps by (intro exI conjI)
qed

section \<open>What the tasks of the queue achieve\<close>

subsection \<open>Health\<close>

text \<open>Failures in a row at the end of some answers, after \<open>n\<close> earlier ones.\<close>

primrec fails :: "nat \<Rightarrow> bool list \<Rightarrow> nat" where
  "fails n [] = n"
| "fails n (ok # oks) = fails (if ok then 0 else Suc n) oks"

lemma fails_snoc: "fails n (oks @ [ok]) = (if ok then 0 else Suc (fails n oks))"
  by (induction oks arbitrary: n) auto

lemma fails_trailing: "fails 0 oks = length (takeWhile Not (rev oks))"
  by (induction oks rule: rev_induct) (simp_all add: fails_snoc)

text \<open>The answers after which a mirror has failed at least three times in a row.\<close>

definition strikes_out :: "nat \<Rightarrow> bool list \<Rightarrow> nat" where
  "strikes_out n oks = length (filter (\<lambda>i. 3 \<le> fails n (take i oks)) [1..<Suc (length oks)])"

lemma strikes_out_simps [simp]:
  "strikes_out n [] = 0"
  "strikes_out n (ok # oks) =
     (if \<not> ok \<and> 2 \<le> n then 1 else 0) + strikes_out (if ok then 0 else Suc n) oks"
proof -
  have "[1..<Suc (length (ok # oks))] = 1 # map Suc [1..<Suc (length oks)]"
    by (simp add: map_Suc_upt upt_conv_Cons del: upt_Suc)
  then show "strikes_out n (ok # oks) =
     (if \<not> ok \<and> 2 \<le> n then 1 else 0) + strikes_out (if ok then 0 else Suc n) oks"
    unfolding strikes_out_def by (simp add: filter_map comp_def del: upt_Suc)
qed (simp add: strikes_out_def)

text \<open>What the mirror answers when it is probed again and again, and the network after that.\<close>

primrec probe_answers :: "'h mirror_dispatcher \<Rightarrow> string \<Rightarrow> string \<Rightarrow> nat \<Rightarrow> 'h \<Rightarrow> bool list" where
  "probe_answers D a t 0 h = []"
| "probe_answers D a t (Suc k) h = (case dp_mirror_health_check D a t h of
     (r, h') \<Rightarrow> is_ok r # probe_answers D a t k h')"

primrec probed :: "'h mirror_dispatcher \<Rightarrow> string \<Rightarrow> string \<Rightarrow> nat \<Rightarrow> 'h \<Rightarrow> 'h" where
  "probed D a t 0 h = h"
| "probed D a t (Suc k) h = probed D a t k (snd (dp_mirror_health_check D a t h))"

lemma explore_step:
  assumes "wc_dispatcher C = Some D" and "mst_local_tbid_hex (pw_mirrors w) = t" and "t \<noteq> []"
    and "dp_mirror_health_check D (json_rpc m) t (pw_net w) = (r, h')" and "r \<noteq> Panic"
    and "unat (failures_of (json_rpc m) (pw_mirrors w)) < 2 ^ 32 - 1" and "\<not> tc_closed (pw_tasks w)"
  shows "run_prog (handle_explore_mirror C m) w =
    (let n = (if is_ok r then 0 else failures_of (json_rpc m) (pw_mirrors w) + 1) in
     (Ok (), w\<lparr>pw_net := h', pw_mirrors := set_failures (json_rpc m) n (pw_mirrors w),
        pw_tasks := (pw_tasks w)\<lparr>tc_tasks := tc_tasks (pw_tasks w) @
          (if \<not> is_ok r \<and> 3 \<le> n then [ExpireMirror m] else [])\<rparr>\<rparr>))"
proof (cases r)
  case (Ok c)
  with assms show ?thesis
    by (simp add: handle_explore_mirror_def smod_def on_mirrors_def set_failures_def Let_def)
next
  case (Err e)
  have "failures_of (json_rpc m) (pw_mirrors w) < - 1"
    using assms(6) by (simp add: word_less_nat_alt unsigned_minus_1_eq_mask mask_eq_exp_minus_1)
  then have "add_u32 (ne_debug (wc_env C)) (failures_of (json_rpc m) (pw_mirrors w)) 1 =
      (Ok (failures_of (json_rpc m) (pw_mirrors w) + 1) :: (u32, string) result)" by (rule add_u32_below)
  with Err assms show ?thesis
    by (simp add: handle_explore_mirror_def strike_def MAX_HEALTH_FAILURES_def smod_def sret_def
        on_mirrors_def enqueue_def Let_def)
qed (use assms in simp)

lemma explore_all:
  assumes "wc_dispatcher C = Some D" and "t \<noteq> []" and "\<forall>h. fst (dp_mirror_health_check D (json_rpc m) t h) \<noteq> Panic"
  shows "mst_local_tbid_hex (pw_mirrors w) = t \<Longrightarrow> failures_of (json_rpc m) (pw_mirrors w) = word_of_nat n \<Longrightarrow>
    n + k < 2 ^ 32 \<Longrightarrow> pw_tasks w = \<lparr>tc_closed = False, tc_tasks = replicate k (ExploreMirror m) @ later\<rparr> \<Longrightarrow>
    (let oks = probe_answers D (json_rpc m) t k (pw_net w);
         last = word_of_nat (fails n oks) in
     \<exists>ms. run_prog (worker k C) w =
       (Ok (), w\<lparr>pw_net := probed D (json_rpc m) t k (pw_net w), pw_mirrors := ms,
          pw_tasks := \<lparr>tc_closed = False, tc_tasks = later @ replicate (strikes_out n oks) (ExpireMirror m)\<rparr>\<rparr>) \<and>
       failures_of (json_rpc m) ms = last \<and> mst_mirrors ms = mst_mirrors (pw_mirrors w))"
proof (induction k arbitrary: w n later)
  case 0
  then show ?case by (cases w) (simp add: sret_def exI [of _ "pw_mirrors w"])
next
  case (Suc k)
  let ?a = "json_rpc m" and ?ms = "pw_mirrors w"
  obtain r h' where r: "dp_mirror_health_check D ?a t (pw_net w) = (r, h')" by fastforce
  with assms(3) have "r \<noteq> Panic" by (metis fst_conv)
  define n' where "n' = (if is_ok r then 0 else Suc n)"
  define expires where "expires = (if \<not> is_ok r \<and> 2 \<le> n then [ExpireMirror m] else [])"
  let ?w1 = "w\<lparr>pw_tasks := \<lparr>tc_closed = False, tc_tasks = replicate k (ExploreMirror m) @ later\<rparr>\<rparr>"
  let ?w2 = "w\<lparr>pw_net := h', pw_mirrors := set_failures ?a (word_of_nat n') ?ms,
    pw_tasks := \<lparr>tc_closed = False, tc_tasks = replicate k (ExploreMirror m) @ later @ expires\<rparr>\<rparr>"
  have n: "unat (word_of_nat n :: u32) = n" using Suc.prems(3) by (simp add: unat_of_nat take_bit_nat_eq_self)
  have "(3::u32) \<le> word_of_nat n + 1 \<longleftrightarrow> 2 \<le> n"
  proof -
    have "unat (word_of_nat n + 1 :: u32) = Suc n"
      using Suc.prems(3) n by (simp add: unat_word_ariths)
    then show ?thesis by (simp add: word_le_nat_alt)
  qed
  then have "run_prog (handle_explore_mirror C m) ?w1 = (Ok (), ?w2)"
    using explore_step [OF assms(1), of ?w1 t m r h'] assms(2) r \<open>r \<noteq> Panic\<close> Suc.prems n
    by (simp add: n'_def expires_def add.commute)
  then have "run_prog (worker (Suc k) C) w = run_prog (worker k C) ?w2"
    using Suc.prems(4) by simp
  moreover have "failures_of ?a (pw_mirrors ?w2) = word_of_nat n'" "mst_local_tbid_hex (pw_mirrors ?w2) = t"
    "mst_mirrors (pw_mirrors ?w2) = mst_mirrors ?ms" "n' + k < 2 ^ 32"
    using Suc.prems by (simp_all add: failures_of_def set_failures_def unwrap_or_def n'_def)
  moreover note Suc.IH [of ?w2 n' "later @ expires"]
  ultimately show ?case
    using r by (auto simp: Let_def n'_def expires_def)
qed

text \<open>
  A mirror is expired for its third failed probe in a row and every further one: however
  the probes of a mirror go, one expiry is enqueued for each probe that ends a run of at least
  three failures, the counter is the length of the last run, and the mirror stays enrolled
  until an expiry is handled.
\<close>

theorem three_failures_expire:
  assumes "wc_dispatcher C = Some D" and "mst_local_tbid_hex (pw_mirrors w) = t" and "t \<noteq> []"
    and "\<forall>h. fst (dp_mirror_health_check D (json_rpc m) t h) \<noteq> Panic"
    and "mst_health_failures (pw_mirrors w) (json_rpc m) = None" and "k < 2 ^ 32"
    and "pw_tasks w = \<lparr>tc_closed = False, tc_tasks = replicate k (ExploreMirror m)\<rparr>"
  shows "\<exists>w'. run_prog (worker k C) w = (Ok (), w') \<and>
    (let oks = probe_answers D (json_rpc m) t k (pw_net w) in
     tc_tasks (pw_tasks w') = replicate (length (filter (\<lambda>i. 3 \<le> length (takeWhile Not (rev (take i oks))))
       [1..<Suc (length oks)])) (ExpireMirror m) \<and>
     failures_of (json_rpc m) (pw_mirrors w') = word_of_nat (length (takeWhile Not (rev oks))) \<and>
     mst_mirrors (pw_mirrors w') = mst_mirrors (pw_mirrors w))"
proof -
  have "failures_of (json_rpc m) (pw_mirrors w) = word_of_nat 0"
    using assms(5) by (simp add: failures_of_def unwrap_or_def)
  from explore_all [OF assms(1,3,4,2) this, of k "[]"] assms(6,7) show ?thesis
    by (auto simp: Let_def strikes_out_def fails_trailing simp del: upt_Suc)
qed

text \<open>A mirror that answers as it is told to.\<close>

definition flaky :: "bool list mirror_dispatcher" where
  "flaky = \<lparr>dp_known_peers = sret [], dp_mirror_announce = (\<lambda>_ _. sret False), dp_history_dump_chunk = (\<lambda>_ _ _. sret 0),
     dp_history_dump_complete = (\<lambda>_ _ _. sret 0),
     dp_mirror_health_check = (\<lambda>_ _ oks. (if oks \<noteq> [] \<and> hd oks then Ok 0 else Err ''timeout'', tl oks))\<rparr>"

definition demo_context :: "'h mirror_dispatcher \<Rightarrow> (bytes, bytes, 'h) worker_context" where
  "demo_context D = \<lparr>wc_env = demo_env, wc_dispatcher = Some D, wc_communerd = None, wc_stamp = None,
     wc_signing_key = Some None, wc_draw = id\<rparr>"

definition demo_world :: "chronon_record list \<Rightarrow> calendar_task list \<Rightarrow> 'h \<Rightarrow> 'h pool_world" where
  "demo_world records queue h =
     \<lparr>pw_mirrors = \<lparr>mst_local_tbid_hex = ''t'', mst_mirrors = {||}, mst_health_failures = Map.empty,
                     mst_min_mirrors = 1, mst_target_mirrors = 3\<rparr>,
      pw_tasks = \<lparr>tc_closed = False, tc_tasks = queue\<rparr>,
      pw_calendar = (calendar_new tbid_default ''n'')\<lparr>ticks := records\<rparr>, pw_log = [], pw_net = h\<rparr>"

lemma demo_pool_simps [simp]:
  "dp_mirror_health_check flaky a t = (\<lambda>oks. (if oks \<noteq> [] \<and> hd oks then Ok 0 else Err ''timeout'', tl oks))"
  "wc_dispatcher (demo_context D) = Some D" "wc_env (demo_context D) = demo_env"
  "pw_tasks (demo_world rs q h) = \<lparr>tc_closed = False, tc_tasks = q\<rparr>" "pw_net (demo_world rs q h) = h"
  "ticks (pw_calendar (demo_world rs q h)) = rs" "mst_local_tbid_hex (pw_mirrors (demo_world rs q h)) = ''t''"
  "mst_health_failures (pw_mirrors (demo_world rs q h)) = Map.empty" "mst_mirrors (pw_mirrors (demo_world rs q h)) = {||}"
  "mst_target_mirrors (pw_mirrors (demo_world rs q h)) = 3"
  by (simp_all add: flaky_def demo_context_def demo_world_def)

theorem three_failures_expire_witness:
  "\<exists>w'. run_prog (worker 6 (demo_context flaky)) (demo_world [] (replicate 6 (ExploreMirror \<lparr>json_rpc = ''a''\<rparr>))
      [False, False, True, False, False, False]) = (Ok (), w') \<and>
    tc_tasks (pw_tasks w') = [ExpireMirror \<lparr>json_rpc = ''a''\<rparr>]"
proof -
  have "probe_answers flaky ''a'' ''t'' 6 [False, False, True, False, False, False] =
      [False, False, True, False, False, False]"
    by (simp add: numeral_eq_Suc)
  moreover have "(if b then Ok 0 else Err ''timeout'') \<noteq> (Panic :: (u64, string) result)" for b by simp
  ultimately show ?thesis
    using three_failures_expire [of "demo_context flaky" flaky "demo_world [] (replicate 6 (ExploreMirror \<lparr>json_rpc = ''a''\<rparr>))
        [False, False, True, False, False, False]" "''t''" "\<lparr>json_rpc = ''a''\<rparr>" 6]
    by (auto simp: Let_def upt_conv_Cons simp del: worker.simps upt_Suc)
qed

end
