(* ===== verification/Mirror_Dump.thy ===== *)
theory Mirror_Dump
  imports Mirror_Pool
begin

section \<open>Dumps from a worker to a node\<close>

text \<open>
  A worker of one node and the server of another, joined by the communerd's dispatcher over the
  JSON-RPC transport: what a dump leaves at the mirror, and what it leaves when the mirror's
  gate refuses a record.
\<close>

lemma chunks_one: "chunks (Suc 0) xs = map (\<lambda>x. [x]) xs"
  by (induction xs) (subst chunks.simps, simp)+

lemma worker_idle [simp]: "tc_tasks (pw_tasks w) = [] \<Longrightarrow> run_prog (worker n C) w = (Ok (), w)"
  by (induction n) (simp_all add: sret_def)

subsection \<open>One request\<close>

lemma dispatch_mirror_eqs:
  "dispatch rt E inp i ''mirror_announce'' ps = handle_mirror_announce ps"
  "dispatch rt E inp i ''history_dump_complete'' ps = handle_history_dump_complete ps"
  by (simp_all add: dispatch_def arms_def fun_eq_iff)

lemma resp_success_result: "\<exists>resp. resp_success i v s = (Ok resp, s) \<and> jr_error resp = None \<and> jr_result resp = Some v"
  by (simp add: resp_success_def dormant_success_def rpc_success_def)

lemma dispatch_answered:
  assumes "dispatch True E inp (Some (jnum 1)) meth ps s = resp_success i v s'"
  shows "node_rpc E inp meth ps s = (Ok v, s')"
  using assms resp_success_result [of i v s'] by (auto simp: node_rpc_Ok)

lemma dispatch_refused:
  assumes "dispatch True E inp (Some (jnum 1)) meth ps s = (r, s)" and "\<forall>resp. r = Ok resp \<longrightarrow> jr_result resp = None"
  shows "\<exists>e. node_rpc E inp meth ps s = (Err e, s)"
proof -
  have "snd (node_rpc E inp meth ps s) = s"
    using assms(1)
    by (simp add: node_rpc_def node_exchange_def jsonrpc_handler_def process_request_from_value_def json_rpc_request_def
        get_str_def answer_errors_def plain_error_def split: prod.splits result.splits)
  moreover have "fst (node_rpc E inp meth ps s) \<noteq> Ok v" for v
    using assms node_rpc_Ok [of E inp meth ps s v] by (metis option.distinct(1) prod.collapse prod.inject)
  ultimately show ?thesis
    using node_rpc_no_panic [of E inp meth ps s] by (cases "node_rpc E inp meth ps s"; cases "fst (node_rpc E inp meth ps s)") auto
qed

text \<open>The dispatcher of a node whose every peer is the node \<open>E\<close> runs.\<close>

definition node_dispatcher ::
    "('k, 's) node_env \<Rightarrow> 'k call_inputs \<Rightarrow> (transport_error \<Rightarrow> string) \<Rightarrow>
     (communerd \<times> 'k time_family_server) mirror_dispatcher" where
  "node_dispatcher E inp show_err = communerd_dispatcher (\<lambda>_. node_rpc E inp) show_err (ne_chronon_json E)"

lemmas node_dispatcher_defs = node_dispatcher_def communerd_dispatcher_def on_second_def mirror_rpc_def smap_err_def

lemma chunk_json: "JObject [(''tbid'', JString t), (''records'', JArray (map (ne_chronon_json E) rs))] = chunk_params E t rs"
  by (simp add: chunk_params_def chronons_json_def)

lemma dump_chunk_taken:
  assumes "linked E (mirrored t (sv_mirror_store peer) @ [r])" and "carried E r"
  shows "\<exists>m'. dp_history_dump_chunk (node_dispatcher E inp show_err) a t [r] (c, peer) =
      (Ok 1, (c, peer\<lparr>sv_mirror_store := m'\<rparr>)) \<and>
    mirrored t m' = mirrored t (sv_mirror_store peer) @ [r] \<and>
    (\<forall>u. u \<noteq> t \<longrightarrow> ms_get u m' = ms_get u (sv_mirror_store peer))"
proof -
  let ?m = "insert_records t [cleaned (parsed r)] (sv_mirror_store peer)"
  have "gate_all E (list_last (mirrored t (sv_mirror_store peer))) [r]" by (rule linked_gate_all [OF assms(1)])
  then have verified: "verify_history_dump_chunk E (sv_mirror_store peer) t [parsed r] = Ok [cleaned (parsed r)]"
    by (simp add: verify_history_dump_chunk_Ok_iff latest_record_mirrored)
  have "parse_history_dump_chunk_params E (chunk_params E t [r]) = Ok (t, [parsed r])"
    using parse_chunk [of "[r]" E t] assms(2) by (simp add: MAX_CALENDAR_SLICE_COUNT_def)
  then have "handle_history_dump_chunk E (chunk_params E t [r]) peer =
      resp_success (jget ''id'' (chunk_params E t [r]))
        (JObject [(''status'', JString ''ok''), (''tbid'', JString t), (''accepted_count'', jnum 1),
           (''tick_count'', jnum (mirror_tick_count t ?m))]) (peer\<lparr>sv_mirror_store := ?m\<rparr>)"
    using verified by (simp add: handle_history_dump_chunk_def Let_def or_error_def jlen_def)
  then have "node_rpc E inp ''history_dump_chunk'' (chunk_params E t [r]) peer =
      (Ok (JObject [(''status'', JString ''ok''), (''tbid'', JString t), (''accepted_count'', jnum 1),
         (''tick_count'', jnum (mirror_tick_count t ?m))]), peer\<lparr>sv_mirror_store := ?m\<rparr>)"
    by (intro dispatch_answered) (simp add: dispatch_eqs)
  moreover have "mirrored t ?m = mirrored t (sv_mirror_store peer) @ [r]"
    using assms(1) insert_sorted_appends [of "mirrored t (sv_mirror_store peer)" "[r]"]
    by (simp add: mirrored_insert_records linked_def)
  ultimately show ?thesis
    by (intro exI [of _ ?m])
      (simp add: node_dispatcher_defs md_history_dump_chunk_def chunk_json sbind_def sret_def json_get_defs unwrap_or_def
        ms_get_insert_records)
qed

lemma dump_chunk_refused:
  assumes "\<not> gate E (list_last (mirrored t (sv_mirror_store peer))) r" and "carried E r"
  shows "\<exists>e. dp_history_dump_chunk (node_dispatcher E inp show_err) a t [r] (c, peer) = (Err e, (c, peer))"
proof -
  have "parse_history_dump_chunk_params E (chunk_params E t [r]) = Ok (t, [parsed r])"
    using parse_chunk [of "[r]" E t] assms(2) by (simp add: MAX_CALENDAR_SLICE_COUNT_def)
  from handle_history_dump_chunk_cases(2) [OF this, of peer] assms(1) obtain ans where
    "handle_history_dump_chunk E (chunk_params E t [r]) peer = (ans, peer)"
    "\<forall>resp. ans = Ok resp \<longrightarrow> jr_result resp = None" by auto
  then obtain e where "node_rpc E inp ''history_dump_chunk'' (chunk_params E t [r]) peer = (Err e, peer)"
    using dispatch_refused [of E inp "''history_dump_chunk''" "chunk_params E t [r]" peer ans] unfolding dispatch_eqs by blast
  then show ?thesis
    by (simp add: node_dispatcher_defs md_history_dump_chunk_def chunk_json sbind_def)
qed

lemma dump_complete_answered:
  "\<exists>n. dp_history_dump_complete (node_dispatcher E inp show_err) a t n0 (c, peer) = (Ok n, (c, peer))"
proof -
  obtain v i where "handle_history_dump_complete (JObject [(''tbid'', JString t), (''total_records'', jnum n0)]) peer =
      resp_success i v peer"
    by (simp add: handle_history_dump_complete_def Let_def)
  then have "node_rpc E inp ''history_dump_complete'' (JObject [(''tbid'', JString t), (''total_records'', jnum n0)]) peer =
      (Ok v, peer)"
    by (intro dispatch_answered) (simp add: dispatch_mirror_eqs)
  then show ?thesis
    by (simp add: node_dispatcher_defs md_history_dump_complete_def sbind_def sret_def)
qed

lemma announce_accepted:
  assumes "t \<noteq> []" and "can_accept_mirror t (sv_mirror_store peer)"
  shows "dp_mirror_announce (node_dispatcher E inp show_err) a t (c, peer) = (Ok True, (c, peer))"
proof -
  have "handle_mirror_announce (JObject [(''tbid'', JString t)]) peer =
      resp_success (jget ''id'' (JObject [(''tbid'', JString t)]))
        (JObject [(''status'', JString ''accept''), (''tbid'', JString t),
           (''current_tick_count'', jnum (mirror_tick_count t (sv_mirror_store peer)))]) peer"
    using assms by (simp add: handle_mirror_announce_def Let_def or_error_def nonempty_tbid_def get_str_def)
  then have "node_rpc E inp ''mirror_announce'' (JObject [(''tbid'', JString t)]) peer =
      (Ok (JObject [(''status'', JString ''accept''), (''tbid'', JString t),
         (''current_tick_count'', jnum (mirror_tick_count t (sv_mirror_store peer)))]), peer)"
    by (intro dispatch_answered) (simp add: dispatch_mirror_eqs)
  then show ?thesis
    by (simp add: node_dispatcher_defs md_mirror_announce_def sbind_def sret_def get_str_def)
qed

subsection \<open>The whole dump\<close>

lemma send_chunks_taken:
  assumes "linked E (mirrored t (sv_mirror_store peer) @ rs)" and "\<forall>r \<in> set rs. carried E r"
    and "unat sent + length rs < 2 ^ 64" and "pw_net w = (c, peer)"
  shows "\<exists>m'. run_prog (send_chunks debug (node_dispatcher E inp show_err) a t (map (\<lambda>r. [r]) rs) sent) w =
      (Ok (Some (sent + word_of_nat (length rs))), w\<lparr>pw_net := (c, peer\<lparr>sv_mirror_store := m'\<rparr>)\<rparr>) \<and>
    mirrored t m' = mirrored t (sv_mirror_store peer) @ rs \<and>
    (\<forall>u. u \<noteq> t \<longrightarrow> ms_get u m' = ms_get u (sv_mirror_store peer))"
  using assms
proof (induction rs arbitrary: sent peer w)
  case Nil
  then show ?case by (cases w) (auto simp: slift_def intro: exI [of _ "sv_mirror_store peer"])
next
  case (Cons r rs)
  let ?D = "node_dispatcher E inp show_err"
  have "linked E (mirrored t (sv_mirror_store peer) @ [r])"
    using Cons.prems(1) by (auto simp: linked_def gate_all_append sorted_wrt_append)
  moreover have "carried E r" using Cons.prems(2) by simp
  ultimately obtain m1 where m1: "dp_history_dump_chunk ?D a t [r] (c, peer) = (Ok 1, (c, peer\<lparr>sv_mirror_store := m1\<rparr>))"
    "mirrored t m1 = mirrored t (sv_mirror_store peer) @ [r]"
    "\<forall>u. u \<noteq> t \<longrightarrow> ms_get u m1 = ms_get u (sv_mirror_store peer)"
    using dump_chunk_taken by blast
  have sent: "unat (sent + 1) = Suc (unat sent)" "add_u64 debug sent 1 = (Ok (sent + 1) :: (u64, string) result)"
    using Cons.prems(3) by (simp_all add: unat_word_ariths add_u64_no_overflow)
  let ?w1 = "w\<lparr>pw_net := (c, peer\<lparr>sv_mirror_store := m1\<rparr>)\<rparr>"
  have "run_prog (send_chunks debug ?D a t (map (\<lambda>r. [r]) (r # rs)) sent) w =
      run_prog (send_chunks debug ?D a t (map (\<lambda>r. [r]) rs) (sent + 1)) ?w1"
    using m1(1) Cons.prems(4) sent(2) by simp
  moreover from Cons.IH [of "peer\<lparr>sv_mirror_store := m1\<rparr>" "sent + 1" ?w1] Cons.prems m1(2) sent(1)
  obtain m' where "run_prog (send_chunks debug ?D a t (map (\<lambda>r. [r]) rs) (sent + 1)) ?w1 =
      (Ok (Some (sent + 1 + word_of_nat (length rs))), w\<lparr>pw_net := (c, peer\<lparr>sv_mirror_store := m'\<rparr>)\<rparr>)"
    "mirrored t m' = mirrored t (sv_mirror_store peer) @ r # rs" "\<forall>u. u \<noteq> t \<longrightarrow> ms_get u m' = ms_get u m1"
    by auto
  ultimately show ?case using m1(3) by (intro exI [of _ m']) (simp add: algebra_simps)
qed

text \<open>
  C15: A dump task rebuilds the calendar at the mirror: when the records that the mirror's server
  holds of the TBID, followed by the worker's calendar, form a chain that verifies, the task
  sends the calendar record by record over the JSON-RPC transport, the mirror holds all of it
  afterwards and nothing else of it has changed, and the stream of new records is enqueued.
\<close>

theorem dump_task_rebuilds_calendar:
  assumes "wc_dispatcher C = Some (node_dispatcher E inp show_err)" and "mst_local_tbid_hex (pw_mirrors w) = t"
    and "t \<noteq> []" and "pw_net w = (c, peer)" and "ticks (pw_calendar w) \<noteq> []"
    and "linked E (mirrored t (sv_mirror_store peer) @ ticks (pw_calendar w))"
    and "\<forall>r \<in> set (ticks (pw_calendar w)). carried E r" and "length (ticks (pw_calendar w)) < 2 ^ 64"
    and "\<not> tc_closed (pw_tasks w)"
  shows "\<exists>m'. run_prog (handle_initiate_dump C mirror) w =
      (Ok (), w\<lparr>pw_net := (c, peer\<lparr>sv_mirror_store := m'\<rparr>),
         pw_tasks := (pw_tasks w)\<lparr>tc_tasks := tc_tasks (pw_tasks w) @ [StartStream mirror]\<rparr>\<rparr>) \<and>
    mirrored t m' = mirrored t (sv_mirror_store peer) @ ticks (pw_calendar w) \<and>
    (\<forall>u. u \<noteq> t \<longrightarrow> ms_get u m' = ms_get u (sv_mirror_store peer))"
proof -
  let ?D = "node_dispatcher E inp show_err" and ?rs = "ticks (pw_calendar w)"
  obtain m' where m': "run_prog (send_chunks (ne_debug (wc_env C)) ?D (json_rpc mirror) t (map (\<lambda>r. [r]) ?rs) 0) w =
      (Ok (Some (word_of_nat (length ?rs))), w\<lparr>pw_net := (c, peer\<lparr>sv_mirror_store := m'\<rparr>)\<rparr>)"
    "mirrored t m' = mirrored t (sv_mirror_store peer) @ ?rs" "\<forall>u. u \<noteq> t \<longrightarrow> ms_get u m' = ms_get u (sv_mirror_store peer)"
    using send_chunks_taken [OF assms(6,7) _ assms(4), of 0 "ne_debug (wc_env C)" inp show_err "json_rpc mirror"] assms(8)
    by auto
  obtain n where "dp_history_dump_complete ?D (json_rpc mirror) t (word_of_nat (length ?rs)) (c, peer\<lparr>sv_mirror_store := m'\<rparr>) =
      (Ok n, (c, peer\<lparr>sv_mirror_store := m'\<rparr>))"
    using dump_complete_answered by blast
  then have "run_prog (handle_initiate_dump C mirror) w = (Ok (), w\<lparr>pw_net := (c, peer\<lparr>sv_mirror_store := m'\<rparr>),
         pw_tasks := (pw_tasks w)\<lparr>tc_tasks := tc_tasks (pw_tasks w) @ [StartStream mirror]\<rparr>\<rparr>)"
    using assms(1-5,9) m'(1)
    by (simp add: handle_initiate_dump_def DUMP_CHUNK_SIZE_def chunks_one smod_def enqueue_def)
  with m'(2,3) show ?thesis by blast
qed

theorem dump_task_rebuilds_calendar_witness:
  "\<forall>com. \<exists>w' m'. run_prog (handle_initiate_dump (demo_context (node_dispatcher demo_env (demo_call 1) (\<lambda>_. []))) \<lparr>json_rpc = ''a''\<rparr>)
      (demo_world demo_chain [] (com, demo_node None None)) = (Ok (), w') \<and>
    snd (pw_net w') = (demo_node None None)\<lparr>sv_mirror_store := m'\<rparr> \<and> mirrored ''t'' m' = demo_chain \<and>
    tc_tasks (pw_tasks w') = [StartStream \<lparr>json_rpc = ''a''\<rparr>]"
proof -
  have "mirrored ''t'' (sv_mirror_store (demo_node None None)) = []"
    by (simp add: mirrored_def ms_get_def mirror_store_default_def mirror_store_new_def)
  then have "\<exists>w' m'. run_prog (handle_initiate_dump (demo_context (node_dispatcher demo_env (demo_call 1) (\<lambda>_. []))) \<lparr>json_rpc = ''a''\<rparr>)
      (demo_world demo_chain [] (com, demo_node None None)) = (Ok (), w') \<and>
    snd (pw_net w') = (demo_node None None)\<lparr>sv_mirror_store := m'\<rparr> \<and> mirrored ''t'' m' = demo_chain \<and>
    tc_tasks (pw_tasks w') = [StartStream \<lparr>json_rpc = ''a''\<rparr>]" for com
    using dump_task_rebuilds_calendar [of "demo_context (node_dispatcher demo_env (demo_call 1) (\<lambda>_. []))" demo_env
        "demo_call 1" "\<lambda>_. []" "demo_world demo_chain [] (com, demo_node None None)" "''t''" com
        "demo_node None None" "\<lparr>json_rpc = ''a''\<rparr>"]
      demo_linked(1) demo_carried
    by (auto simp: demo_chain_def)
  then show ?thesis by blast
qed

end
