(* ===== verification/Communerdette_Props.thy ===== *)
theory Communerdette_Props
  imports Peer_Transport
begin

section \<open>What the gates of a relationship let through\<close>

text \<open>
  The gates of \<open>Communerdette_Gate\<close> against the calendar, the stamps and the challenges of
  a peer that runs the modelled program, and against each other.
\<close>

subsection \<open>Shape of a request\<close>

lemma smap_err_Ok [stateful_simps]: "smap_err f m h = (Ok a, h') \<longleftrightarrow> m h = (Ok a, h')"
  by (cases "m h") (auto simp: smap_err_def result_simps)

lemma gate_records_from_Ok_iff:
  "gate_records_from E t acc rs = Ok as \<longleftrightarrow>
     (\<forall>r \<in> set rs. cr_chronon_number r \<noteq> 0 \<and> cr_public_key r \<noteq> [] \<and> cr_tbid r = t) \<and>
     gate_all E (map_option ca_inner (list_last acc)) rs \<and> as = acc @ map (cleaned \<circ> from_parsed) rs"
proof (induction rs arbitrary: acc)
  case (Cons r rs)
  have verify: "verify_chronon (ne_ffi E) (ne_hex_encode E) (ne_crypto E) None u = Ok a \<longleftrightarrow>
      gate E None (uv_inner u) \<and> a = cleaned u" for u a
    by (auto simp: verify_chronon_None_Ok_iff gate_def cleaned_def)
  show ?case
    by (cases "list_last acc")
      (auto simp: result_simps Cons verify gate_after_Ok_iff from_parsed_def cleaned_def)
qed auto

lemma gate_chronon_records_Ok_iff:
  "gate_chronon_records E t rs = Ok as \<longleftrightarrow>
     (\<forall>r \<in> set rs. cr_chronon_number r \<noteq> 0 \<and> cr_public_key r \<noteq> [] \<and> cr_tbid r = t) \<and>
     gate_all E None rs \<and> as = map (cleaned \<circ> from_parsed) rs"
  by (simp add: gate_chronon_records_def gate_records_from_Ok_iff)

lemma execute_slice_Ok:
  assumes "execute_calendar_slice X n c h = (Ok as, h')"
  obtains peer rs h1 h2 where "ho_execute_calendar_slice (ex_host X) peer n c h1 = (Ok rs, h2)"
    and "gate_chronon_records (ex_env X) (ex_target X) rs = Ok as"
  using assms by (auto simp: execute_calendar_slice_def stateful_simps)

lemma execute_tick_Ok:
  assumes "execute_tick X n h = (Ok ca, h')"
  obtains as h1 where "execute_calendar_slice X n 1 h = (Ok (ca # as), h1)"
proof -
  obtain slice h1 where s: "execute_calendar_slice X n 1 h = (Ok slice, h1)" "list_first slice = Some ca"
    using assms by (auto simp: execute_tick_def stateful_simps result_simps)
  then show thesis using that by (cases slice) (auto simp: list_first_def)
qed

lemma line_call_Ok:
  "line_call c m (h, cd) = (Ok a, hc') \<longleftrightarrow>
     (\<exists>h'. m h = (Ok a, h') \<and> hc' = (h', on_flags (set_last_application_rpc_ns (clock_or_zero c)) cd))"
  by (auto simp: line_call_def split: prod.splits)

subsection \<open>Records of a peer\<close>

definition serves_records :: "'h comm_host \<Rightarrow> chronon_record set \<Rightarrow> bool" where
  "serves_records H R \<longleftrightarrow>
     (\<forall>peer n c h rs h'. ho_execute_calendar_slice H peer n c h = (Ok rs, h') \<longrightarrow> set rs \<subseteq> R)"

lemma no_slice_accepted:
  assumes "serves_records (ex_host X) R" and "\<forall>r \<in> R. \<not> gate (ex_env X) None r"
    and "execute_calendar_slice X n c h = (Ok as, h')"
  shows "as = []"
proof -
  obtain peer rs h1 h2 where rs: "ho_execute_calendar_slice (ex_host X) peer n c h1 = (Ok rs, h2)"
    and gated: "gate_chronon_records (ex_env X) (ex_target X) rs = Ok as"
    using execute_slice_Ok [OF assms(3)] .
  from rs assms(1,2) have "\<forall>r \<in> set rs. \<not> gate (ex_env X) None r"
    unfolding serves_records_def by blast
  with gated show ?thesis by (cases rs) (auto simp: gate_chronon_records_Ok_iff)
qed

lemma no_tick_accepted:
  assumes "serves_records (ex_host X) R" and "\<forall>r \<in> R. \<not> gate (ex_env X) None r"
  shows "execute_tick X n h \<noteq> (Ok ca, h')"
  using no_slice_accepted [OF assms] by (metis execute_tick_Ok list.distinct(1))

lemma no_stamp_accepted:
  assumes "serves_records (ex_host X) R" and "\<forall>r \<in> R. \<not> gate (ex_env X) None r"
  shows "execute_stamp X content echo h \<noteq> (Ok f, h')"
  using no_tick_accepted [OF assms] by (auto simp: execute_stamp_def stateful_simps)

text \<open>
  Whatever has happened to a new node, another node accepts nothing that rests on its
  calendar: a chronon is refused, a stamp is refused with it, and an accepted slice is empty.
  (A single record is gated as a first record without attestation of a TBID; a node's first
  record has one, and its other records are not the first.)
\<close>

theorem peer_chronons_refused:
  assumes "new_with_config E stored key sw tk nk addr ns persist com files = Ok s0"
    and "serves_records (ex_host X) (set (sc_records (sv_calendar (snd (node_run E es s0)))))"
  shows "line_get_chronon X n hc \<noteq> (Ok ca, hc') \<and> line_stamp X content echo hc \<noteq> (Ok f, hc') \<and>
    (line_get_calendar_slice X n c hc = (Ok as, hc') \<longrightarrow> as = [])"
proof -
  let ?R = "set (sc_records (sv_calendar (snd (node_run E es s0))))"
  have "own_sound E (sv_calendar s0) (snd (node_run E es s0))"
    by (rule own_run_keeps [OF new_own_sound [OF assms(1)]])
  then have R: "\<forall>r \<in> ?R. \<not> gate (ex_env (X\<lparr>ex_local_calendar_tbid := None\<rparr>)) None r"
    by (auto simp: own_sound_def pqc_genesis_def sv_calendar_def gate_def)
  have H: "serves_records (ex_host (X\<lparr>ex_local_calendar_tbid := None\<rparr>)) ?R" using assms(2) by simp
  have "line_get_chronon X n hc \<noteq> (Ok ca, hc')"
    using no_tick_accepted [OF H R] by (cases hc) (simp add: line_get_chronon_def line_call_Ok)
  moreover have "line_stamp X content echo hc \<noteq> (Ok f, hc')"
    using no_stamp_accepted [OF H R] by (cases hc) (simp add: line_stamp_def line_call_Ok)
  moreover have "line_get_calendar_slice X n c hc = (Ok as, hc') \<longrightarrow> as = []"
    using no_slice_accepted [OF H R] by (cases hc) (auto simp: line_get_calendar_slice_def line_call_Ok)
  ultimately show ?thesis by blast
qed

subsection \<open>Challenges\<close>

lemma uv_inner_from_parsed [simp]: "uv_inner (from_parsed a) = a"
  by (simp add: from_parsed_def)

definition lossless_hex :: "('k, 's) node_env \<Rightarrow> bool" where
  "lossless_hex E \<longleftrightarrow> (\<forall>b. ne_hex_decode E (ne_hex_encode E b) = Ok b)"

lemma hex_opt_encode [simp]: "lossless_hex E \<Longrightarrow> hex_opt E (ne_hex_encode E b) = Some b"
  by (simp add: lossless_hex_def hex_opt_def)

lemma from_hex_to_hex:
  "lossless_hex E \<Longrightarrow> wf_tbid t \<Longrightarrow> from_hex (hex_opt E) (to_hex (ne_hex_encode E) t) = Ok t"
  by (simp add: from_hex_def to_hex_def tbid_from_bytes_def wf_tbid_def from_raw_def)

lemma check_binding_fields_Ok_iff:
  "check_binding_fields E cb nonce c t = Ok () \<longleftrightarrow>
     from_hex (hex_opt E) (cb_responder_tbid cb) = Ok t \<and> ne_hex_decode E (cb_nonce_echo cb) = Ok nonce \<and>
     cb_channel_id cb = c"
  by (auto simp: check_binding_fields_def result_simps)

lemma verify_full_Ok_iff:
  "verify_full E nonce c t u = Ok b \<longleftrightarrow>
     check_binding_fields E (uv_inner u) nonce c t = Ok () \<and>
     (\<exists>fast slow. ne_hex_decode E (cb_fast_sig (uv_inner u)) = Ok fast \<and>
        ne_hex_decode E (cb_slow_sig (uv_inner u)) = Ok slow \<and>
        tbid_verify (ne_ffi E) (raw_bytes t) (binding_msg nonce c (cb_responder_tbid (uv_inner u))) (fast @ slow) =
          Ok True) \<and>
     b = from_dual_verified (uv_inner u)"
  by (auto simp: verify_full_def result_simps)

text \<open>A signed answer to a challenge, from a node whose keys work.\<close>

lemma sign_challenge_success:
  assumes "sign_challenge E i msg k s = (Ok resp, s')" and "jr_result resp = Some v"
  obtains sig where "sign_tbid_message (ne_ffi E) (sv_chronomatter s) msg = Ok sig" and "64 \<le> length sig"
    and "k (take 64 sig) (drop 64 sig) s = (Ok resp, s')"
  using assms by (auto simp: sign_challenge_def plain_error_def rpc_error_def split: result.splits if_splits)

lemma signed_message_verifies:
  assumes "ffi_tbid_correct F t sec" and "wf_tbid t" and "cm_tbid_secret cm = Some sec"
    and "sign_tbid_message F cm msg = Ok sig"
  shows "tbid_verify F (raw_bytes t) msg sig = Ok True"
  using assms secret_sign_verifies(2) by (auto simp: sign_tbid_message_def result_simps)

text \<open>The answer to a challenge, checked by whoever asked.\<close>

lemma channel_binding_verifies:
  assumes "lossless_hex E" and "wf_tbid (sv_tbid s)" and "cm_tbid_secret (sv_chronomatter s) = Some sec"
    and "ffi_tbid_correct (ne_ffi E) (sv_tbid s) sec"
    and "handle_channel_bind_challenge E (channel_bind_params (ne_hex_encode E nonce) c requester) s = (Ok resp, s')"
    and "jr_result resp = Some v"
  shows "s' = s \<and> (\<exists>u. channel_binding_of_json v = Ok u \<and>
    verify_full E nonce c (sv_tbid s) u = Ok (from_dual_verified (uv_inner u)) \<and>
    (\<forall>nonce2 c2 t2 b. verify_full E nonce2 c2 t2 u = Ok b \<longrightarrow> nonce2 = nonce \<and> c2 = c \<and> t2 = sv_tbid s))"
proof -
  let ?t = "sv_tbid s"
  let ?hex = "to_hex (ne_hex_encode E) ?t"
  have dec: "ne_hex_decode E (ne_hex_encode E b) = Ok b" for b
    using assms(1) by (simp add: lossless_hex_def)
  let ?msg = "nonce @ as_bytes c @ as_bytes ?hex"
  let ?answer = "\<lambda>fast slow. plain_success None
    (JObject [(''responder_tbid'', JString ?hex), (''nonce_echo'', JString (ne_hex_encode E nonce)),
      (''channel_id'', JString c), (''fast_sig'', JString (ne_hex_encode E fast)),
      (''slow_sig'', JString (ne_hex_encode E slow))])"
  have "sign_challenge E None ?msg ?answer s = (Ok resp, s')"
    using assms(5) by (simp add: handle_channel_bind_challenge_def channel_bind_params_def get_str_def dec Let_def)
  then obtain sig where sig: "sign_tbid_message (ne_ffi E) (sv_chronomatter s) ?msg = Ok sig"
    and answer: "?answer (take 64 sig) (drop 64 sig) s = (Ok resp, s')"
    by (rule sign_challenge_success [OF _ assms(6)])
  then have s': "s' = s" and v: "v = JObject [(''responder_tbid'', JString ?hex),
      (''nonce_echo'', JString (ne_hex_encode E nonce)),
      (''channel_id'', JString c), (''fast_sig'', JString (ne_hex_encode E (take 64 sig))),
      (''slow_sig'', JString (ne_hex_encode E (drop 64 sig)))]"
    using assms(6) by (auto simp: plain_success_def rpc_success_def)
  define cb where "cb = \<lparr>cb_responder_tbid = ?hex, cb_nonce_echo = ne_hex_encode E nonce, cb_channel_id = c,
      cb_fast_sig = ne_hex_encode E (take 64 sig), cb_slow_sig = ne_hex_encode E (drop 64 sig)\<rparr>"
  have parsed: "channel_binding_of_json v = Ok (from_parsed cb)"
    by (simp add: channel_binding_of_json_def string_fields_def v cb_def)
  have full: "verify_full E nonce c ?t (from_parsed cb) = Ok (from_dual_verified (uv_inner (from_parsed cb)))"
    using signed_message_verifies [OF assms(4,2,3) sig] from_hex_to_hex [OF assms(1,2)]
    by (simp add: verify_full_def check_binding_fields_def cb_def dec binding_msg_def)
  have only: "nonce2 = nonce \<and> c2 = c \<and> t2 = ?t" if "verify_full E nonce2 c2 t2 (from_parsed cb) = Ok b"
    for nonce2 c2 t2 b
  proof -
    from that have "check_binding_fields E cb nonce2 c2 t2 = Ok ()" by (simp add: verify_full_Ok_iff)
    then have "from_hex (hex_opt E) (cb_responder_tbid cb) = Ok t2"
      and "ne_hex_decode E (cb_nonce_echo cb) = Ok nonce2" and "cb_channel_id cb = c2"
      by (simp_all add: check_binding_fields_Ok_iff)
    then show ?thesis by (simp add: cb_def dec from_hex_to_hex [OF assms(1,2)])
  qed
  show ?thesis
    by (rule conjI [OF s'], rule exI [of _ "from_parsed cb"], rule conjI [OF parsed], rule conjI [OF full])
      (intro allI impI only)
qed

lemma challenge_answered:
  assumes "lossless_hex E" and "cm_tbid_secret (sv_chronomatter s) = Some sec"
    and "\<forall>m. \<exists>sig. secret_sign (ne_ffi E) sec m = Ok sig \<and> 64 \<le> length sig"
  obtains resp v where "handle_channel_bind_challenge E (channel_bind_params (ne_hex_encode E nonce) c q) s = (Ok resp, s)"
    and "jr_error resp = None" and "jr_result resp = Some v"
proof -
  have dec: "ne_hex_decode E (ne_hex_encode E b) = Ok b" for b
    using assms(1) by (simp add: lossless_hex_def)
  obtain sig where "secret_sign (ne_ffi E) sec (nonce @ as_bytes c @ as_bytes (to_hex (ne_hex_encode E) (sv_tbid s))) = Ok sig"
    and "64 \<le> length sig"
    using assms(3) by blast
  then have "\<exists>resp v. handle_channel_bind_challenge E (channel_bind_params (ne_hex_encode E nonce) c q) s = (Ok resp, s) \<and>
      jr_error resp = None \<and> jr_result resp = Some v"
    by (simp add: handle_channel_bind_challenge_def channel_bind_params_def get_str_def dec Let_def sign_challenge_def
        sign_tbid_message_def assms(2) plain_success_def rpc_success_def)
  then show thesis using that by blast
qed

text \<open>
  C14: Binding a channel to a node succeeds: the task's challenge, answered by the node's server,
  passes the check of both signatures, leaves the node as it was, and the binding it returns
  passes for no other nonce, channel or TBID. (The node looks at neither the requester nor the
  channel: it signs for anyone whatever channel they name.)
\<close>

theorem channel_binding_succeeds:
  assumes "lossless_hex E" and "wf_tbid (sv_tbid s)" and "cm_tbid_secret (sv_chronomatter s) = Some sec"
    and "ffi_tbid_correct (ne_ffi E) (sv_tbid s) sec"
    and "\<forall>m. \<exists>sig. secret_sign (ne_ffi E) sec m = Ok sig \<and> 64 \<le> length sig"
  shows "\<exists>b. channel_bind_task
      \<lparr>ex_env = E, ex_host = node_host E inp r, ex_target = sv_tbid s, ex_parse_peer_id = parse, ex_clock = clock,
       ex_local_calendar_tbid = None\<rparr> False nonce c s = (Ok (Some (from_dual_verified b)), s) \<and>
    (\<forall>nonce2 c2 t2 b2. verify_full E nonce2 c2 t2 (from_parsed b) = Ok b2 \<longrightarrow>
       nonce2 = nonce \<and> c2 = c \<and> t2 = sv_tbid s)"
proof -
  let ?q = "to_hex (ne_hex_encode E) (sv_tbid s)"
  obtain resp v where h: "handle_channel_bind_challenge E (channel_bind_params (ne_hex_encode E nonce) c ?q) s = (Ok resp, s)"
    and v: "jr_error resp = None" "jr_result resp = Some v"
    by (rule challenge_answered [OF assms(1,3,5)])
  then have call: "tr_channel_bind_challenge (node_rpc E inp) (ne_hex_encode E nonce) c ?q s = (Ok v, s)"
    by (simp add: tr_channel_bind_challenge_def node_rpc_Ok dispatch_peer_eqs)
  from channel_binding_verifies [OF assms(1-4) h v(2)] obtain u
    where u: "channel_binding_of_json v = Ok u" "verify_full E nonce c (sv_tbid s) u = Ok (from_dual_verified (uv_inner u))"
      and only: "\<forall>nonce2 c2 t2 b. verify_full E nonce2 c2 t2 u = Ok b \<longrightarrow> nonce2 = nonce \<and> c2 = c \<and> t2 = sv_tbid s"
    by blast
  from u(1) have eq: "u = from_parsed (uv_inner u)"
    by (auto simp: channel_binding_of_json_def result_simps)
  show ?thesis
    by (rule exI [of _ "uv_inner u"], rule conjI)
      (simp add: channel_bind_task_def resolve_peer_def sattempt_def sbind_def sret_def slift_def ex_hex_def call u
        emit_fb_report_def, use only eq in metis)
qed

text \<open>
  The layout of a TBID signature (\<^verbatim>\<open>core/src/signing_tbid.c\<close>): its first 64 bytes are the
  Ed25519 signature of the same message.
\<close>

definition ffi_fast_part :: "'k ffi \<Rightarrow> tbid \<Rightarrow> tbid_secret \<Rightarrow> bool" where
  "ffi_fast_part F t sec \<longleftrightarrow>
     (\<forall>m. fst (ffi_tbid_v1_sign F (secret_to_bytes sec) m) = 0 \<longrightarrow>
        ffi_ed25519_verify F (ed25519_public_key t) m
          (take 64 (snd (ffi_tbid_v1_sign F (secret_to_bytes sec) m))) = 0)"

lemma fast_part_verifies:
  assumes "ffi_fast_part F t sec" and "wf_tbid t" and "cm_tbid_secret cm = Some sec"
    and "sign_tbid_message F cm msg = Ok sig" and "64 \<le> length sig"
  shows "sw_verify_with F (ed25519_public_key t) ''Ed25519'' msg (take 64 sig) = Ok True"
  using assms tbid_public_keys(1) [OF assms(2)]
  by (auto simp: sign_tbid_message_def result_simps secret_sign_Ok ffi_fast_part_def sw_verify_with_ed25519
      ed25519_verify_def verify_rc_def)

text \<open>
  A node that answers an authenticated ping has also signed a channel binding: the pong's
  signature passes the fast check of a binding whose nonce and channel, written one after the
  other, are the challenge. The two messages have no tag that tells them apart.
\<close>

theorem pong_passes_as_binding:
  assumes "lossless_hex E" and "wf_tbid (sv_tbid s)" and "cm_tbid_secret (sv_chronomatter s) = Some sec"
    and "ffi_fast_part (ne_ffi E) (sv_tbid s) sec" and "ne_crypto E = software_crypto_server (ne_ffi E) k"
    and "handle_authenticated_ping E
      (JObject [(''challenge'', JString (ne_hex_encode E (nonce @ as_bytes c)))]) s = (Ok resp, s')"
    and "jr_result resp = Some v"
  shows "\<exists>p. pong_of_json v = Ok p \<and>
    verify_pong E (nonce @ as_bytes c) (sv_tbid s) p = Ok (ca_from_trusted p) \<and>
    verify_fast_only E nonce c (sv_tbid s) (from_parsed
      \<lparr>cb_responder_tbid = ap_responder_tbid p, cb_nonce_echo = ne_hex_encode E nonce, cb_channel_id = c,
       cb_fast_sig = ap_signature p, cb_slow_sig = slow\<rparr>) = Ok True"
proof -
  let ?t = "sv_tbid s"
  let ?hex = "to_hex (ne_hex_encode E) ?t" and ?ch = "nonce @ as_bytes c"
  have dec: "ne_hex_decode E (ne_hex_encode E b) = Ok b" for b
    using assms(1) by (simp add: lossless_hex_def)
  let ?answer = "\<lambda>fast _. plain_success None
    (JObject [(''responder_tbid'', JString ?hex), (''challenge_echo'', JString (ne_hex_encode E ?ch)),
      (''signature'', JString (ne_hex_encode E fast)), (''signature_algorithm'', JString ''Ed25519'')])"
  have "sign_challenge E None (?ch @ as_bytes ?hex) ?answer s = (Ok resp, s')"
    using assms(6) by (simp add: handle_authenticated_ping_def get_str_def dec Let_def)
  then obtain sig where sig: "sign_tbid_message (ne_ffi E) (sv_chronomatter s) (?ch @ as_bytes ?hex) = Ok sig"
    and len: "64 \<le> length sig" and answer: "?answer (take 64 sig) (drop 64 sig) s = (Ok resp, s')"
    by (rule sign_challenge_success [OF _ assms(7)])
  then have v: "v = JObject [(''responder_tbid'', JString ?hex),
      (''challenge_echo'', JString (ne_hex_encode E ?ch)),
      (''signature'', JString (ne_hex_encode E (take 64 sig))), (''signature_algorithm'', JString ''Ed25519'')]"
    using assms(7) by (auto simp: plain_success_def rpc_success_def)
  have ok: "sw_verify_with (ne_ffi E) (ed25519_public_key ?t) ''Ed25519'' (nonce @ as_bytes c @ as_bytes ?hex) (take 64 sig) =
      Ok True"
    using fast_part_verifies [OF assms(4,2,3) sig len] by simp
  define p where "p = \<lparr>ap_responder_tbid = ?hex, ap_challenge_echo = ne_hex_encode E ?ch,
      ap_signature = ne_hex_encode E (take 64 sig), ap_signature_algorithm = ''Ed25519''\<rparr>"
  have "pong_of_json v = Ok p"
    by (simp add: pong_of_json_def string_fields_def v p_def)
  moreover have "verify_pong E ?ch ?t p = Ok (ca_from_trusted p)"
    using ok from_hex_to_hex [OF assms(1,2)] by (simp add: verify_pong_def p_def dec assms(5))
  moreover have "verify_fast_only E nonce c ?t (from_parsed
      \<lparr>cb_responder_tbid = ap_responder_tbid p, cb_nonce_echo = ne_hex_encode E nonce, cb_channel_id = c,
       cb_fast_sig = ap_signature p, cb_slow_sig = slow\<rparr>) = Ok True"
    using ok from_hex_to_hex [OF assms(1,2)]
    by (simp add: verify_fast_only_def check_binding_fields_def p_def dec assms(5) binding_msg_def)
  ultimately show ?thesis by blast
qed

subsection \<open>Liveness\<close>

text \<open>The answers to a stamp request are those of a node.\<close>

definition serves_stamps :: "('k, 's) node_env \<Rightarrow> 'h comm_host \<Rightarrow> bool" where
  "serves_stamps E H \<longleftrightarrow>
     (\<forall>peer t c e h v h'. ho_execute_stamp H peer t c e h = (Ok v, h') \<longrightarrow>
        (\<exists>rt inp s resp s'. handle_route_stamp rt E inp (route_stamp_request t c e) s = (Ok resp, s') \<and>
           jr_result resp = Some v))"

lemma node_host_serves_stamps: "serves_stamps E (node_host E inp r)"
  by (auto simp: serves_stamps_def tr_route_stamp_def node_rpc_Ok dispatch_eqs) blast

lemma route_stamp_answer:
  assumes "handle_route_stamp rt E inp ps s = (Ok resp, s')" and "jr_result resp = Some v"
  shows "\<exists>a b d. v = JObject [(''foretis'', a), (''signature'', b), (''signature_algorithm'', d)]"
  using assms
  by (auto simp: handle_route_stamp_def handle_stamp_def build_route_stamp_response_def stamp_json_def Let_def
      or_error_def response_defs rpc_success_def rpc_error_def dormant_success_def dormant_error_def
      sbind_def slift_def sget_def smod_def split: result.splits prod.splits option.splits if_splits)

lemma stamp_is_no_pong: "pong_of_json (JObject [(''foretis'', a), (''signature'', b), (''signature_algorithm'', d)]) \<noteq> Ok p"
  by (simp add: pong_of_json_def string_fields_def)

lemma served_stamp_no_pong:
  assumes "serves_stamps E H" and "ho_execute_stamp H peer t c e h = (Ok raw, h')"
  shows "pong_of_json raw \<noteq> Ok p"
  using assms(1) [unfolded serves_stamps_def, rule_format, OF assms(2)] route_stamp_answer stamp_is_no_pong by metis

text \<open>
  The second liveness check never succeeds against a node: what comes back is the answer to
  a stamp, which is no authenticated pong. With it the third check never runs.
\<close>

theorem identity_check_never_succeeds:
  assumes "serves_stamps E (ex_host X)" and "l2_round X challenge flags h = (Ok flags', h')"
  shows "\<not> lf_l2_last_ok flags' \<and> l3_round X flags' h'' = (Ok flags', h'')"
proof -
  have no: "\<not> lf_l2_last_ok (set_l2_ok False f)" for f by (simp add: set_l2_ok_def)
  have "\<not> lf_l2_last_ok flags'"
    using assms(2) no served_stamp_no_pong [OF assms(1)]
    by (auto simp: l2_round_def sbind_def sattempt_def sret_def split: prod.splits result.splits option.splits if_splits)
  then show ?thesis by (simp add: l3_round_def sret_def)
qed

subsection \<open>The properties on the demo node\<close>

definition demo_peer :: peer_record where
  "demo_peer = peer_record_new ''p'' ''t'' ''m'' ''a:1'' 0 0 default_capabilities"

definition demo_executor :: "'h comm_host \<Rightarrow> (bytes, bytes, 'h) executor" where
  "demo_executor H = \<lparr>ex_env = demo_env, ex_host = H, ex_target = demo_tbid, ex_parse_peer_id = Some,
     ex_clock = Ok 5, ex_local_calendar_tbid = None\<rparr>"

definition fixed_host :: "chronon_record list \<Rightarrow> unit comm_host" where
  "fixed_host rs = \<lparr>ho_lookup_tbid = (\<lambda>_ _. sret (Some demo_peer)), ho_namespace = sret ''mainnet'',
     ho_execute_stamp = (\<lambda>_ _ _ _. slift (Err TrTimeout)), ho_execute_calendar_slice = (\<lambda>_ _ _. sret rs),
     ho_execute_channel_bind_challenge = (\<lambda>_ _ _ _. slift (Err TrTimeout)), ho_execute_ping = (\<lambda>_. sret ()),
     ho_sign_probity_report = (\<lambda>_. slift (Err ''no key'')), ho_publish_probity_report = (\<lambda>_. sret ())\<rparr>"

theorem peer_chronons_refused_witness:
  "\<exists>r. sc_records (sv_calendar (snd (node_run demo_env [DaemonTick (demo_call 1)] (demo_node None None)))) = [r] \<and>
     (\<forall>ca hc'. line_get_chronon (demo_executor (fixed_host [r])) 1 ((), communerdette_new demo_tbid) \<noteq> (Ok ca, hc'))"
proof -
  obtain r where r: "sc_records (sv_calendar (snd (node_run demo_env [DaemonTick (demo_call 1)] (demo_node None None)))) = [r]"
    by (rule demo_first_tick)
  then have "serves_records (ex_host (demo_executor (fixed_host [r])))
      (set (sc_records (sv_calendar (snd (node_run demo_env [DaemonTick (demo_call 1)] (demo_node None None))))))"
    by (simp add: serves_records_def demo_executor_def fixed_host_def sret_def)
  from peer_chronons_refused [OF demo_node_new this, THEN conjunct1] r show ?thesis by blast
qed

lemma demo_lossless [simp]: "lossless_hex demo_env"
  by (simp add: lossless_hex_def)

lemma demo_tbid_wf [simp]: "wf_tbid demo_tbid"
  by (simp add: demo_tbid_def wf_tbid_def from_raw_def)

definition demo_secret :: tbid_secret where
  "demo_secret = \<lparr>encrypted_ed25519 = replicate 48 9, ed25519_nonce = replicate 24 9,
     encrypted_slh_dsa = replicate 144 9, slh_dsa_nonce = replicate 24 9\<rparr>"

lemma demo_node_secret [simp]: "cm_tbid_secret (sv_chronomatter (demo_node persist com)) = Some demo_secret"
  by (simp add: demo_node_def demo_start_def demo_secret_def)

lemma demo_secret_length [simp]: "length (secret_to_bytes demo_secret) = 240"
  by (simp add: demo_secret_def secret_to_bytes_def)

theorem channel_binding_succeeds_witness:
  "\<exists>b. channel_bind_task (demo_executor (node_host demo_env (demo_call 1) demo_peer)) False [1, 2] ''c''
     (demo_node None None) = (Ok (Some (from_dual_verified b)), demo_node None None)"
proof -
  have "\<forall>m. \<exists>sig. secret_sign (ne_ffi demo_env) demo_secret m = Ok sig \<and> 64 \<le> length sig"
    by (simp add: secret_sign_Ok)
  from channel_binding_succeeds [where s = "demo_node None None" and E = demo_env, OF _ _ _ _ this, of "demo_call 1" demo_peer Some "Ok 5" "[1, 2]" "''c''"]
  show ?thesis by (auto simp: demo_executor_def)
qed

definition dual_ffi :: "bytes ffi" where
  "dual_ffi = demo_ffi\<lparr>ffi_tbid_v1_sign :=
     (\<lambda>sk m. (0, (replicate 32 7 @ demo_tag 31 m) @ demo_tag 49855 m))\<rparr>"

definition dual_env :: "(bytes, bytes) node_env" where
  "dual_env = demo_env\<lparr>ne_ffi := dual_ffi, ne_crypto := software_crypto_server dual_ffi []\<rparr>"

lemma dual_simps [simp]:
  "ne_ffi dual_env = dual_ffi" "ne_crypto dual_env = software_crypto_server dual_ffi []"
  "ne_hex_encode dual_env = char_hex" "ne_hex_decode dual_env h = Ok (as_bytes h)"
  "ffi_tbid_v1_sign dual_ffi sk m = (0, (replicate 32 7 @ demo_tag 31 m) @ demo_tag 49855 m)"
  "ffi_ed25519_verify dual_ffi pk m sig = (if sig = pk @ demo_tag 31 m then 0 else - 1)"
  by (simp_all add: dual_env_def dual_ffi_def)

theorem pong_passes_as_binding_witness:
  "\<exists>resp v p. handle_authenticated_ping dual_env
      (JObject [(''challenge'', JString (char_hex ([1, 2] @ as_bytes ''c'')))]) (demo_node None None) =
      (Ok resp, demo_node None None) \<and> jr_result resp = Some v \<and> pong_of_json v = Ok p \<and>
    verify_fast_only dual_env [1, 2] ''c'' demo_tbid (from_parsed
      \<lparr>cb_responder_tbid = ap_responder_tbid p, cb_nonce_echo = char_hex [1, 2], cb_channel_id = ''c'',
       cb_fast_sig = ap_signature p, cb_slow_sig = []\<rparr>) = Ok True"
proof -
  let ?s = "demo_node None None :: bytes time_family_server"
  let ?ps = "JObject [(''challenge'', JString (char_hex ([1, 2] @ as_bytes ''c'')))]"
  have "\<exists>resp v. handle_authenticated_ping dual_env ?ps ?s = (Ok resp, ?s) \<and> jr_result resp = Some v"
    by (simp add: handle_authenticated_ping_def get_str_def Let_def sign_challenge_def sign_tbid_message_def
        secret_sign_def tbid_sign_def c_result_to_error_def plain_success_def rpc_success_def)
  then obtain resp v where h: "handle_authenticated_ping dual_env ?ps ?s = (Ok resp, ?s)" "jr_result resp = Some v"
    by blast
  have "ffi_fast_part (ne_ffi dual_env) (sv_tbid ?s) demo_secret"
    by (simp add: ffi_fast_part_def ed25519_public_key_def demo_tbid_def from_raw_def)
  from pong_passes_as_binding [where s = ?s and E = dual_env and nonce = "[1, 2]" and c = "''c''" and slow = "[]", OF _ _ _ this _ _ h(2)]
  show ?thesis using h by (force simp: lossless_hex_def)
qed

theorem identity_check_never_succeeds_witness:
  "\<exists>flags' s'. l2_round (demo_executor (node_host demo_env (demo_call 2) demo_peer)) (as_bytes ''hi'')
      liveness_cycle_flags_new (demo_node None None) = (Ok flags', s') \<and> \<not> lf_l2_last_ok flags'"
proof -
  let ?X = "demo_executor (node_host demo_env (demo_call 2) demo_peer)"
  let ?s = "demo_node None None :: bytes time_family_server"
  have serves: "serves_stamps demo_env (ex_host ?X)"
    by (simp add: demo_executor_def node_host_serves_stamps)
  have sel: "ex_host ?X = node_host demo_env (demo_call 2) demo_peer" "ex_env ?X = demo_env"
    by (simp_all add: demo_executor_def)
  obtain a s1 where call: "ho_execute_stamp (ex_host ?X) \<lparr>na_json_rpc = pg_json_rpc demo_peer,
      na_peer_id = ex_parse_peer_id ?X (pg_peer_id demo_peer), na_last_seen_ns = 0\<rparr> (ex_hex ?X)
      (char_hex (as_bytes ''hi'')) ''auth-ping'' ?s = (a, s1)" by fastforce
  then have "a \<noteq> Panic"
    using node_rpc_no_panic by (metis fst_conv node_host_simps(3) sel(1) tr_route_stamp_def)
  then have "\<exists>flags' s'. l2_round ?X (as_bytes ''hi'') liveness_cycle_flags_new ?s = (Ok flags', s')"
    using call served_stamp_no_pong [OF serves] 
    by (cases a) (auto simp: l2_round_def liveness_cycle_flags_new_def resolve_peer_def sbind_def sattempt_def sret_def
        slift_def sel split: result.splits)
  then show ?thesis using identity_check_never_succeeds [OF serves] by blast
qed

end
