(* ===== verification/Mirror_Faults.thy ===== *)
theory Mirror_Faults
  imports Mirror_Dump Communerdette_Props
begin

section \<open>Tasks between real nodes, and a hostile mirror\<close>

subsection \<open>A node's own calendar\<close>

lemma known_peers_node:
  "dp_known_peers (node_dispatcher E inp show_err) (c, peer) =
     (Ok (map (\<lambda>a. \<lparr>json_rpc = a\<rparr>) (dispatcher_known_peers c)), (c, peer))"
  by (simp add: node_dispatcher_def communerd_dispatcher_def sget_def)

lemma find_enrols:
  assumes "wc_dispatcher C = Some (node_dispatcher E inp show_err)" and "mst_local_tbid_hex (pw_mirrors w) = t"
    and "t \<noteq> []" and "pw_net w = (c, peer)" and "can_accept_mirror t (sv_mirror_store peer)"
    and "dispatcher_known_peers c = [a]" and "mst_mirrors (pw_mirrors w) = {||}"
    and "0 < mst_target_mirrors (pw_mirrors w)" and "\<not> tc_closed (pw_tasks w)"
  shows "run_prog (handle_find_new_mirror C) w =
    (Ok (), w\<lparr>pw_mirrors := enrol a (pw_mirrors w),
       pw_tasks := (pw_tasks w)\<lparr>tc_tasks := tc_tasks (pw_tasks w) @ [InitiateDump \<lparr>json_rpc = a\<rparr>]\<rparr>\<rparr>)"
  using assms announce_accepted [OF assms(3,5), of E inp show_err a c]
  by (cases w) (simp add: handle_find_new_mirror_def known_peers_node unwrap_or_def on_mirrors_def enrol_def enqueue_def
      sret_def fcard_fempty)

lemma dump_aborted:
  assumes "wc_dispatcher C = Some (node_dispatcher E inp show_err)" and "mst_local_tbid_hex (pw_mirrors w) = t"
    and "t \<noteq> []" and "pw_net w = (c, peer)" and "ticks (pw_calendar w) = r # rs"
    and "\<not> gate E (list_last (mirrored t (sv_mirror_store peer))) r" and "carried E r"
  shows "run_prog (handle_initiate_dump C m) w = (Ok (), w)"
proof -
  obtain e where "dp_history_dump_chunk (node_dispatcher E inp show_err) (json_rpc m) t [r] (c, peer) = (Err e, (c, peer))"
    using dump_chunk_refused [OF assms(6,7)] by blast
  with assms show ?thesis
    by (cases w) (simp add: handle_initiate_dump_def DUMP_CHUNK_SIZE_def chunks_one sret_def)
qed

text \<open>
  C18: A node enrols a mirror that holds nothing of it: whatever has happened to a new node, when
  its worker looks for a mirror and the one peer, a node with room, accepts, the dump that
  follows is refused with its first record. The worker is then done: the peer counts as a
  mirror, nothing is queued that would try again, and the peer is as it was.
\<close>

theorem own_dump_leaves_empty_mirror:
  assumes "new_with_config E stored key sw tk nk addr ns persist com files = Ok s0"
    and "ticks (pw_calendar w) = sc_records (sv_calendar (snd (node_run E es s0)))"
    and "ticks (pw_calendar w) \<noteq> []" and "carried E' (hd (ticks (pw_calendar w)))"
    and "wc_dispatcher C = Some (node_dispatcher E' inp show_err)" and "mst_local_tbid_hex (pw_mirrors w) = t"
    and "t \<noteq> []" and "pw_net w = (c, peer)" and "can_accept_mirror t (sv_mirror_store peer)"
    and "dispatcher_known_peers c = [a]" and "mst_mirrors (pw_mirrors w) = {||}"
    and "0 < mst_target_mirrors (pw_mirrors w)" and "pw_tasks w = \<lparr>tc_closed = False, tc_tasks = [FindNewMirror]\<rparr>"
  shows "\<exists>w'. run_prog (worker (Suc (Suc n)) C) w = (Ok (), w') \<and> mst_mirrors (pw_mirrors w') = {|a|} \<and>
    tc_tasks (pw_tasks w') = [] \<and> pw_net w' = (c, peer) \<and> mirrored t (sv_mirror_store peer) = []"
proof -
  obtain r rs where rs: "ticks (pw_calendar w) = r # rs" using assms(3) by (cases "ticks (pw_calendar w)") auto
  have "own_sound E (sv_calendar s0) (snd (node_run E es s0))"
    by (rule own_run_keeps [OF new_own_sound [OF assms(1)]])
  then have no: "\<not> gate E' None r"
    using own_first_refused [of "sv_chronomatter (snd (node_run E es s0))" r rs E'] assms(2) rs
    by (simp add: own_sound_def sv_calendar_def)
  have empty: "mirrored t (sv_mirror_store peer) = []"
    using assms(9) by (simp add: can_accept_mirror_def mirrored_def split: if_splits option.splits)
  let ?w1 = "w\<lparr>pw_tasks := \<lparr>tc_closed = False, tc_tasks = []\<rparr>\<rparr>"
  let ?w2 = "w\<lparr>pw_mirrors := enrol a (pw_mirrors w), pw_tasks := \<lparr>tc_closed = False, tc_tasks = []\<rparr>\<rparr>"
  have "run_prog (handle_find_new_mirror C) ?w1 =
      (Ok (), ?w2\<lparr>pw_tasks := \<lparr>tc_closed = False, tc_tasks = [InitiateDump \<lparr>json_rpc = a\<rparr>]\<rparr>\<rparr>)"
    using find_enrols [OF assms(5) _ assms(7), of ?w1 c peer a] assms(6,8-12) by simp
  moreover have "run_prog (handle_initiate_dump C \<lparr>json_rpc = a\<rparr>) ?w2 = (Ok (), ?w2)"
    by (rule dump_aborted [OF assms(5) _ assms(7), of ?w2 c peer r rs])
      (use assms(4,6,8) rs no empty in \<open>simp_all add: enrol_def\<close>)
  ultimately have "run_prog (worker (Suc (Suc n)) C) w = (Ok (), ?w2)"
    using assms(13) by simp
  then show ?thesis using assms(8,11) empty by (simp add: enrol_def)
qed

text \<open>A communerd that knows one peer, whatever else it holds.\<close>

definition with_peer :: "string \<Rightarrow> communerd \<Rightarrow> communerd" where
  "with_peer a s = s\<lparr>co_peers := [\<lparr>na_json_rpc = a, na_peer_id = None, na_last_seen_ns = 0\<rparr>]\<rparr>"

theorem own_dump_leaves_empty_mirror_witness:
  "\<exists>r. sc_records (sv_calendar (snd (node_run demo_env [DaemonTick (demo_call 1)] (demo_node None None)))) = [r] \<and>
    (\<forall>s. \<exists>w'. run_prog (worker 2 (demo_context (node_dispatcher demo_env (demo_call 1) (\<lambda>_. []))))
        (demo_world [r] [FindNewMirror] (with_peer ''a'' s, demo_node None None)) = (Ok (), w') \<and>
      mst_mirrors (pw_mirrors w') = {|''a''|} \<and> snd (pw_net w') = demo_node None None)"
proof -
  obtain r where r: "sc_records (sv_calendar (snd (node_run demo_env [DaemonTick (demo_call 1)] (demo_node None None)))) = [r]"
    and "cr_external_attestations r = []" by (rule demo_first_tick)
  then have "carried demo_env r" by (simp add: carried_def)
  moreover have "dispatcher_known_peers (with_peer ''a'' s) = [''a'']" for s
    by (simp add: dispatcher_known_peers_def with_peer_def)
  moreover have "can_accept_mirror ''t'' (sv_mirror_store (demo_node None None))"
    by (simp add: can_accept_mirror_def ms_get_def mirror_store_default_def mirror_store_new_def)
  ultimately have "\<exists>w'. run_prog (worker 2 (demo_context (node_dispatcher demo_env (demo_call 1) (\<lambda>_. []))))
        (demo_world [r] [FindNewMirror] (with_peer ''a'' s, demo_node None None)) = (Ok (), w') \<and>
      mst_mirrors (pw_mirrors w') = {|''a''|} \<and> snd (pw_net w') = demo_node None None" for s
    using own_dump_leaves_empty_mirror [OF demo_node_new [of None None],
        where w = "demo_world [r] [FindNewMirror] (with_peer ''a'' s, demo_node None None)"
        and es = "[DaemonTick (demo_call 1)]" and E' = demo_env and inp = "demo_call 1" and show_err = "\<lambda>_. []"
        and C = "demo_context (node_dispatcher demo_env (demo_call 1) (\<lambda>_. []))" and t = "''t''" and n = 0 and c = "with_peer ''a'' s" and a = "''a''"] r
    by (auto simp: numeral_2_eq_2 simp del: worker.simps node_run.simps)
  with r show ?thesis by blast
qed

subsection \<open>Attestation\<close>

definition ends :: "('a, 'e) result \<Rightarrow> (unit, 'f) result" where
  "ends r = (if r = Panic then Panic else Ok ())"

text \<open>
  Mutual attestation with a real node never begins, also where the communerd and the
  chronomatter are wired to the workers: the task ends with its first request, the latest
  chronon or slice of the target, whose answer is refused or empty. Nothing is stamped, sent
  or logged; and the task that checks a remote calendar ends there too.
\<close>

theorem attestation_never_begins:
  assumes "new_with_config E stored key sw tk nk addr ns persist com files = Ok s0"
    and "\<forall>tb. serves_records (ex_host (X tb)) (set (sc_records (sv_calendar (snd (node_run E es s0)))))"
    and "wc_communerd C = Some (\<lambda>tb. executor_line (X tb))" and "wc_stamp C = Some stamp_op"
    and "from_hex (hex_opt (wc_env C)) t = Ok tb"
  shows "run_prog (handle_do_chronon_attestation C t) w =
      (ends (fst (line_get_chronon (X tb) u64_max (pw_net w))),
       w\<lparr>pw_net := snd (line_get_chronon (X tb) u64_max (pw_net w))\<rparr>) \<and>
    run_prog (handle_do_epoch_attestation C t) w =
      (ends (fst (line_get_calendar_slice (X tb) u64_max 1 (pw_net w))),
       w\<lparr>pw_net := snd (line_get_calendar_slice (X tb) u64_max 1 (pw_net w))\<rparr>) \<and>
    run_prog (handle_verify_fb_recorded C t) w =
      (ends (fst (line_get_chronon (X tb) u64_max (pw_net w))),
       w\<lparr>pw_net := snd (line_get_chronon (X tb) u64_max (pw_net w))\<rparr>)"
proof -
  note refused = peer_chronons_refused [OF assms(1), of "X tb" es, OF assms(2) [THEN spec]]
  obtain r h where rh: "line_get_chronon (X tb) u64_max (pw_net w) = (r, h)" by (rule that [OF prod.collapse [symmetric]])
  obtain r' h' where rh': "line_get_calendar_slice (X tb) u64_max 1 (pw_net w) = (r', h')"
    by (rule that [OF prod.collapse [symmetric]])
  have r: "\<forall>ca. r \<noteq> Ok ca" using refused rh by blast
  have r': "\<forall>cas. r' = Ok cas \<longrightarrow> cas = []" using refused rh' by blast
  note defs = executor_line_def assms(3-5) sret_def ends_def
  have "run_prog (handle_do_chronon_attestation C t) w = (ends r, w\<lparr>pw_net := h\<rparr>)"
    using rh r by (cases r) (simp_all add: handle_do_chronon_attestation_def defs)
  moreover have "run_prog (handle_do_epoch_attestation C t) w = (ends r', w\<lparr>pw_net := h'\<rparr>)"
    using rh' r' by (cases r') (simp_all add: handle_do_epoch_attestation_def get_target_latest_epoch_def defs)
  moreover have "run_prog (handle_verify_fb_recorded C t) w = (ends r, w\<lparr>pw_net := h\<rparr>)"
    using rh r by (cases r) (simp_all add: handle_verify_fb_recorded_def get_verify_latest_chronon_def defs)
  ultimately show ?thesis using rh rh' by simp
qed

text \<open>A context with everything wired, whose stamp would show: it shuts the relationship down.\<close>

definition demo_wired :: "chronon_record list \<Rightarrow> (bytes, bytes, unit \<times> communerdette) worker_context" where
  "demo_wired rs = \<lparr>wc_env = demo_env, wc_dispatcher = None,
     wc_communerd = Some (\<lambda>tb. executor_line (demo_executor (fixed_host rs))),
     wc_stamp = Some (\<lambda>content echo (u, cd). (Err (Internal []), (u, cd\<lparr>cd_shutdown := True\<rparr>))),
     wc_signing_key = Some None, wc_draw = id\<rparr>"

theorem attestation_never_begins_witness:
  "\<exists>r. sc_records (sv_calendar (snd (node_run demo_env [DaemonTick (demo_call 1)] (demo_node None None)))) = [r] \<and>
    (let (_, w') = run_prog (handle_do_chronon_attestation (demo_wired [r]) (to_hex char_hex demo_tbid))
       (demo_world [] [] ((), communerdette_new demo_tbid))
     in pw_log w' = [] \<and> pw_net w' = ((), communerdette_new demo_tbid))"
proof -
  obtain r where r: "sc_records (sv_calendar (snd (node_run demo_env [DaemonTick (demo_call 1)] (demo_node None None)))) = [r]"
    by (rule demo_first_tick)
  let ?X = "demo_executor (fixed_host [r])" and ?h = "((), communerdette_new demo_tbid)"
  have serves: "serves_records (ex_host ?X)
      (set (sc_records (sv_calendar (snd (node_run demo_env [DaemonTick (demo_call 1)] (demo_node None None))))))"
    using r by (simp add: serves_records_def demo_executor_def fixed_host_def sret_def)
  have "\<not> is_ok (fst (line_get_chronon ?X u64_max ?h))"
    using peer_chronons_refused [OF demo_node_new serves] by (metis is_ok_iff prod.collapse)
  then have "snd (line_get_chronon ?X u64_max ?h) = ?h"
    by (auto simp: line_get_chronon_def line_call_def split: prod.splits)
  moreover have "from_hex (hex_opt demo_env) (to_hex char_hex demo_tbid) = Ok demo_tbid"
    using from_hex_to_hex [of demo_env demo_tbid] by simp
  ultimately show ?thesis
    using r serves attestation_never_begins [OF demo_node_new, of "\<lambda>_. ?X" "[DaemonTick (demo_call 1)]" None None
        "demo_wired [r]" _ "to_hex char_hex demo_tbid" demo_tbid "demo_world [] [] ?h"]
    by (auto simp: demo_wired_def demo_world_def simp del: node_run.simps)
qed

subsection \<open>What a mirror reports\<close>

lemma hostile_dump_panics:
  assumes "ne_debug (wc_env C)" and "wc_dispatcher C = Some D" and "mst_local_tbid_hex (pw_mirrors w) = t" and "t \<noteq> []"
    and "\<forall>rs h. fst (dp_history_dump_chunk D (json_rpc m) t rs h) = Ok u64_max" and "ticks (pw_calendar w) = r1 # r2 # rs"
    and "pw_tasks w = \<lparr>tc_closed = False, tc_tasks = InitiateDump m # q\<rparr>"
  shows "\<exists>h. run_prog (worker (Suc n) C) w = (Panic, w\<lparr>pw_net := h, pw_tasks := \<lparr>tc_closed = False, tc_tasks = q\<rparr>\<rparr>)"
proof -
  obtain h1 where h1: "dp_history_dump_chunk D (json_rpc m) t [r1] (pw_net w) = (Ok u64_max, h1)"
    using assms(5) by (metis prod.collapse)
  obtain h2 where h2: "dp_history_dump_chunk D (json_rpc m) t [r2] h1 = (Ok u64_max, h2)"
    using assms(5) by (metis prod.collapse)
  have "add_u64 True 0 u64_max = (Ok u64_max :: (u64, string) result)"
    "add_u64 True u64_max u64_max = (Panic :: (u64, string) result)"
    by (simp_all add: add_u64_def u64_max_def)
  then have "run_prog (handle_initiate_dump C m) (w\<lparr>pw_tasks := \<lparr>tc_closed = False, tc_tasks = q\<rparr>\<rparr>) =
      (Panic, w\<lparr>pw_net := h2, pw_tasks := \<lparr>tc_closed = False, tc_tasks = q\<rparr>\<rparr>)"
    using assms(1-4,6) h1 h2
    by (simp add: handle_initiate_dump_def DUMP_CHUNK_SIZE_def chunks_one)
  then show ?thesis using assms(7) by (intro exI [of _ h2]) simp
qed

text \<open>
  One hostile mirror ends a pool: where additions are checked, a mirror that reports the
  largest count for each chunk panics the worker that dumps to it, and as many dumps as there
  are workers leave none; the tasks that follow are never handled.
\<close>

theorem hostile_counts_end_pool:
  assumes "ne_debug (wc_env C)" and "wc_dispatcher C = Some D" and "t \<noteq> []"
    and "\<forall>rs h. fst (dp_history_dump_chunk D (json_rpc m) t rs h) = Ok u64_max"
    and "mst_local_tbid_hex (pw_mirrors w) = t" and "2 \<le> length (ticks (pw_calendar w))"
    and "pw_tasks w = \<lparr>tc_closed = False, tc_tasks = replicate k (InitiateDump m) @ q\<rparr>"
  shows "\<exists>w'. thread_steps (spawn_workers (Suc n) k C, w) (replicate k (Finished Panic), w') \<and>
    tc_tasks (pw_tasks w') = q"
proof -
  obtain r1 r2 rs where rs: "ticks (pw_calendar w) = r1 # r2 # rs"
    using assms(6) by (metis Suc_le_length_iff numeral_2_eq_2)
  have "\<exists>w'. thread_steps (replicate i (Finished Panic) @ replicate k (worker (Suc n) C), w)
      (replicate (i + k) (Finished Panic), w') \<and> tc_tasks (pw_tasks w') = q" for i
    using assms(5,7) rs
  proof (induction k arbitrary: i w)
    case 0
    then show ?case by (auto intro: thread_steps.refl)
  next
    case (Suc k)
    let ?ts = "replicate i (Finished Panic) @ replicate (Suc k) (worker (Suc n) C)"
    obtain h where h: "run_prog (worker (Suc n) C) w =
        (Panic, w\<lparr>pw_net := h, pw_tasks := \<lparr>tc_closed = False, tc_tasks = replicate k (InitiateDump m) @ q\<rparr>\<rparr>)"
      using hostile_dump_panics [OF assms(1,2) Suc.prems(1) assms(3,4) Suc.prems(3)] Suc.prems(2) by (metis append_Cons replicate_Suc)
    let ?w = "w\<lparr>pw_net := h, pw_tasks := \<lparr>tc_closed = False, tc_tasks = replicate k (InitiateDump m) @ q\<rparr>\<rparr>"
    have "?ts[i := Finished Panic] = replicate (Suc i) (Finished Panic) @ replicate k (worker (Suc n) C)"
      using list_update_length [of "replicate i (Finished Panic)" "worker (Suc n) C" "replicate k (worker (Suc n) C)" "Finished Panic"]
      by (simp add: replicate_app_Cons_same del: worker.simps)
    then have first: "thread_steps (?ts, w) (replicate (Suc i) (Finished Panic) @ replicate k (worker (Suc n) C), ?w)"
      using steps_alone [of i ?ts "worker (Suc n) C" w] h by (simp del: worker.simps replicate_Suc add: nth_append)
    obtain w' where rest: "thread_steps (replicate (Suc i) (Finished Panic) @ replicate k (worker (Suc n) C), ?w)
        (replicate (Suc i + k) (Finished Panic), w')" and w': "tc_tasks (pw_tasks w') = q"
      using Suc.IH [of ?w "Suc i"] Suc.prems(1,3) by (auto simp del: worker.simps)
    from thread_steps_trans [OF first rest] w' show ?case
      unfolding add_Suc add_Suc_right by blast
  qed
  from this [of 0] show ?thesis by (simp add: spawn_workers_def del: worker.simps)
qed

text \<open>A mirror that takes every record and always reports the largest count.\<close>

definition boasting :: "unit mirror_dispatcher" where
  "boasting = (accepting [])\<lparr>dp_history_dump_chunk := \<lambda>_ _ _. sret u64_max\<rparr>"

theorem hostile_counts_end_pool_witness:
  "\<exists>w'. thread_steps (spawn_workers 1 4 (demo_context boasting),
       demo_world demo_chain (replicate 4 (InitiateDump \<lparr>json_rpc = ''a''\<rparr>) @ [FindNewMirror]) ())
     (replicate 4 (Finished Panic), w') \<and> tc_tasks (pw_tasks w') = [FindNewMirror]"
  using hostile_counts_end_pool [of "demo_context boasting" boasting "''t''" "\<lparr>json_rpc = ''a''\<rparr>"
      "demo_world demo_chain (replicate 4 (InitiateDump \<lparr>json_rpc = ''a''\<rparr>) @ [FindNewMirror]) ()" 4 "[FindNewMirror]" 0]
  by (simp add: boasting_def sret_def demo_chain_def del: worker.simps)

end
