(* ===== verification/Tbid_Handshake.thy ===== *)
theory Tbid_Handshake
  imports Demo_Crypto
begin

section \<open>The TBID proof handshake\<close>

text \<open>
  Models \<^verbatim>\<open>TbidHandshake\<close> of \<^verbatim>\<open>communerd/p2p/tbid_handshake.rs\<close>. A peer id is its
  byte encoding, \<open>show_error\<close> the \<^verbatim>\<open>Display\<close> of an error; the public key of the crypto server is \<open>None\<close> when it is not an Ed25519 key.
\<close>

record tbid_proof_response =
  tp_tbid :: tbid
  tp_public_key :: bytes
  tp_signed_payload :: bytes
  tp_signature :: bytes

datatype tbid_proof_result = ProofSuccess tbid bytes | ProofFailed string

definition proof_payload :: "tbid \<Rightarrow> bytes \<Rightarrow> bytes \<Rightarrow> u64 \<Rightarrow> bytes" where
  "proof_payload local_tbid peer_id nonce timestamp =
     raw_bytes local_tbid @ peer_id @ nonce @ to_be_bytes timestamp"

definition create_proof ::
    "(crypto_error \<Rightarrow> string) \<Rightarrow> crypto_server \<Rightarrow> bytes option \<Rightarrow> tbid \<Rightarrow> clock_reading \<Rightarrow> bytes \<Rightarrow> bytes \<Rightarrow>
     (tbid_proof_response, node_error) result" where
  "create_proof show_error crypto public local_tbid clock nonce peer_id =
     rbind (ok_or (Internal ''non-Ed25519 public key'') public) (\<lambda>public_key.
     (let timestamp = (case clock of Ok n \<Rightarrow> n | _ \<Rightarrow> 0) div 1000000000;
          signed_payload = proof_payload local_tbid peer_id nonce timestamp
      in case cs_sign crypto signed_payload of
           Ok sig \<Rightarrow> Ok \<lparr>tp_tbid = local_tbid, tp_public_key = public_key, tp_signed_payload = signed_payload,
                        tp_signature = sig\<rparr>
         | Err e \<Rightarrow> Err (Internal (show_error e))
         | Panic \<Rightarrow> Panic))"

definition verify_proof ::
    "crypto_server \<Rightarrow> tbid_proof_response \<Rightarrow> bytes \<Rightarrow> bytes \<Rightarrow> (tbid_proof_result, node_error) result" where
  "verify_proof crypto response expected_nonce peer_id =
     (if length (tp_public_key response) \<noteq> 32 then Ok (ProofFailed ''public key is not 32 bytes'')
      else
        rbind (case cs_verify_ed25519 crypto (tp_public_key response) (tp_signed_payload response)
                  (tp_signature response) of Ok b \<Rightarrow> Ok b | Err _ \<Rightarrow> Ok False | Panic \<Rightarrow> Panic) (\<lambda>valid.
        if \<not> valid then Ok (ProofFailed ''signature verification failed'')
        else
          (let nonce_offset = 96 + length peer_id in
           if length (tp_signed_payload response) < nonce_offset + 32
           then Ok (ProofFailed ''malformed signed_payload (too short for nonce)'')
           else if take 32 (drop nonce_offset (tp_signed_payload response)) \<noteq> expected_nonce
           then Ok (ProofFailed ''nonce mismatch'')
           else Ok (ProofSuccess (tp_tbid response) peer_id))))"

text \<open>What an accepted proof shows: a key, named by the prover itself, signed the nonce.\<close>

lemma verify_proof_success_iff:
  "verify_proof crypto r nonce peer_id = Ok (ProofSuccess t p) \<longleftrightarrow>
     length (tp_public_key r) = 32 \<and>
     cs_verify_ed25519 crypto (tp_public_key r) (tp_signed_payload r) (tp_signature r) = Ok True \<and>
     96 + length peer_id + 32 \<le> length (tp_signed_payload r) \<and>
     take 32 (drop (96 + length peer_id) (tp_signed_payload r)) = nonce \<and> t = tp_tbid r \<and> p = peer_id"
  by (auto simp: verify_proof_def Let_def result_simps split: result.splits if_splits)

text \<open>
  A key proves any TBID: a proof made with an arbitrary key for a TBID it has nothing to do
  with is accepted, and also for another peer id of the same length than the one that was signed.
\<close>

theorem any_key_proves_any_tbid:
  assumes "ffi_ed25519_correct F" and "wf_tbid t" and "length nonce = 32" and "length peer_id' = length peer_id"
    and "create_proof show_error (software_crypto_server F k) (Some (ffi_ed25519_public F k)) t clock nonce peer_id = Ok r"
  shows "verify_proof (software_crypto_server F k') r nonce peer_id' = Ok (ProofSuccess t peer_id')"
proof -
  obtain ts sig where sig: "handle_sign F k (proof_payload t peer_id nonce ts) = Ok sig"
    and r: "r = \<lparr>tp_tbid = t, tp_public_key = ffi_ed25519_public F k,
      tp_signed_payload = proof_payload t peer_id nonce ts, tp_signature = sig\<rparr>"
    using assms(5) by (auto simp: create_proof_def Let_def split: result.splits)
  have "length (raw_bytes t) = 96" using assms(2) by (simp add: wf_tbid_def raw_bytes_def)
  then have "take 32 (drop (96 + length peer_id') (proof_payload t peer_id nonce ts)) = nonce"
    and "96 + length peer_id' + 32 \<le> length (proof_payload t peer_id nonce ts)"
    using assms(3,4) by (simp_all add: proof_payload_def)
  moreover have "length (ffi_ed25519_public F k) = 32"
    and "ed25519_verify F (ffi_ed25519_public F k) (proof_payload t peer_id nonce ts) sig = Ok True"
    using assms(1) sig by (auto simp: ffi_ed25519_correct_def handle_sign_Ok ed25519_verify_def verify_rc_def)
  ultimately show ?thesis by (simp add: verify_proof_success_iff r)
qed

theorem any_key_proves_any_tbid_witness:
  "\<exists>r. create_proof (\<lambda>_. []) (software_crypto_server demo_ffi [1]) (Some (ffi_ed25519_public demo_ffi [1]))
      tbid_default (Ok 0) (replicate 32 5) [9] = Ok r \<and>
     verify_proof (software_crypto_server demo_ffi [2]) r (replicate 32 5) [8] = Ok (ProofSuccess tbid_default [8])"
proof -
  obtain r where r: "create_proof (\<lambda>_. []) (software_crypto_server demo_ffi [1]) (Some (ffi_ed25519_public demo_ffi [1]))
      tbid_default (Ok 0) (replicate 32 5) [9] = Ok r"
    by (simp add: create_proof_def Let_def)
  from any_key_proves_any_tbid [OF demo_ffi_ed25519 wf_tbid_default _ _ r, of "[8]" "[2]"] r show ?thesis by simp
qed

end
