(* ===== verification/Communerd_Inv.thy ===== *)
theory Communerd_Inv
  imports Communerd_Ops
begin

section \<open>What the communerd keeps\<close>

text \<open>
  The contract of the event loop as a locale: a property of the state that every primitive update
  keeps is kept by any sequence of events. Its interpretations are the soundness of the
  directory and the parts of the state that no event changes. Then what the operations do with
  the answers.
\<close>

definition accepts_peer :: "comm_env \<Rightarrow> peer_record \<Rightarrow> bool" where
  "accepts_peer E r \<longleftrightarrow>
     validate_peer_registration (ce_hex_decode E) (ce_postcard_peer E) (ce_crypto E) r = Ok True"

lemma parse_and_validate_Some:
  "parse_and_validate E rec = Ok (Some r) \<longleftrightarrow>
     from_slice E (ce_peer_of_json E) (kr_value rec) = Ok r \<and> accepts_peer E r"
  by (auto simp: parse_and_validate_def accepts_peer_def split: result.splits bool.splits)

lemma parse_and_validate_no_Err [simp]: "parse_and_validate E rec \<noteq> Err e"
  by (auto simp: parse_and_validate_def split: result.splits bool.splits)

subsection \<open>The contract of the event loop\<close>

locale kept_by_events =
  fixes E :: comm_env and P :: "communerd \<Rightarrow> bool"
  assumes dormancy: "P s \<Longrightarrow> P (send_command EnterDormancy s)"
    and pool: "P s \<Longrightarrow> P (pool_add a s)"
    and gossip: "P s \<Longrightarrow> P (snd (handle_gossip E clock data s))"
    and indexed: "P s \<Longrightarrow> accepts_peer E r \<Longrightarrow> P (index_record E clock r s)"
    and drained: "P s \<Longrightarrow> (\<And>r. result = Some r \<Longrightarrow> accepts_peer E r) \<Longrightarrow> P (drain_lookups E result s)"
    and family: "P s \<Longrightarrow> P (answer_family_lookup key recs s)"
begin

lemma peer_records: "P s \<Longrightarrow> P (snd (handle_peer_records E clock recs s))"
  by (induction recs arbitrary: s) (auto simp: pool split: result.splits option.splits)

lemma index_records_kept:
  "P s \<Longrightarrow> P (snd (index_records E clock valid recs s))"
  by (induction recs arbitrary: valid s)
    (auto simp: indexed parse_and_validate_Some split: result.splits option.splits)

lemma index_records_valid:
  "index_records E clock valid recs s = (Ok rs, s') \<Longrightarrow> r \<in> set rs \<Longrightarrow> r \<in> set valid \<or> accepts_peer E r"
proof (induction recs arbitrary: valid s)
  case (Cons rec recs)
  consider x where "parse_and_validate E rec = Ok (Some x)" "accepts_peer E x"
    | "parse_and_validate E rec = Ok None" | "parse_and_validate E rec = Panic"
    by (metis parse_and_validate_Some parse_and_validate_no_Err option.exhaust result.exhaust)
  then show ?case
  proof cases
    case 1
    then show ?thesis using Cons.IH [of "valid @ [x]"] Cons.prems by auto
  next
    case 2
    then show ?thesis using Cons.IH [of valid] Cons.prems by simp
  qed (use Cons.prems in simp)
qed simp

lemma tbid_records: "P s \<Longrightarrow> P (snd (handle_tbid_records E clock recs s))"
proof -
  assume P: "P s"
  obtain r s' where ir: "index_records E clock [] recs s = (r, s')" by fastforce
  have P': "P s'" using index_records_kept [OF P, of clock "[]" recs] ir by simp
  show ?thesis
  proof (cases r)
    case (Ok rs)
    have "list_first rs = Some x \<Longrightarrow> accepts_peer E x" for x
      using index_records_valid [OF ir [unfolded Ok], of x] by (auto simp: list_first_Some_iff)
    then show ?thesis using P' ir Ok by (simp add: handle_tbid_records_def drained smod_def)
  qed (use P' ir in \<open>simp_all add: handle_tbid_records_def sbind_def\<close>)
qed

lemma heartbeat: "P s \<Longrightarrow> P (snd (handle_heartbeat E data s))"
  by (auto simp: handle_heartbeat_def dormancy split: result.splits option.splits)

lemma record_retrieved: "keeps P (handle_record_retrieved E clock key recs)"
  unfolding handle_record_retrieved_def
  by (intro keeps_sbind keeps_if keeps_sret keeps_smod)
    (auto simp: keeps_def peer_records tbid_records family)

lemma event: "P s \<Longrightarrow> P (snd (handle_event E clock ev s))"
  by (cases ev) (auto simp: gossip heartbeat handle_dht_peer_discovered_def pool smod_def sret_def
      intro: keepsD [OF record_retrieved])

lemma loop: "P s \<Longrightarrow> P (snd (gossip_event_loop E evs s))"
proof (induction evs arbitrary: s)
  case (Cons e evs)
  obtain clock ev where "e = (clock, ev)" by fastforce
  moreover obtain r s' where "handle_event E clock ev s = (r, s')" by fastforce
  moreover have "P (snd (handle_event E clock ev s))" using Cons.prems by (rule event)
  ultimately show ?case using Cons.IH by (auto split: result.splits)
qed simp

end

subsection \<open>What no event changes\<close>

lemma send_command_sels [simp]:
  "co_peers (send_command c s) = co_peers s" "co_probity (send_command c s) = co_probity s"
  "co_tbid_index (send_command c s) = co_tbid_index s" "co_lookups (send_command c s) = co_lookups s"
  "co_pending_lookups (send_command c s) = co_pending_lookups s"
  "co_communerdettes (send_command c s) = co_communerdettes s"
  "co_family_cache (send_command c s) = co_family_cache s" "co_swarm (send_command c s) = co_swarm s"
  "co_local_multiaddr (send_command c s) = co_local_multiaddr s"
  "co_local_peer_id (send_command c s) = co_local_peer_id s"
  "co_namespace (send_command c s) = co_namespace s" "co_detector (send_command c s) = co_detector s"
  "co_family_lookups (send_command c s) = co_family_lookups s"
  "co_pending_family_lookups (send_command c s) = co_pending_family_lookups s"
  by (simp_all add: send_command_def)

definition the_communerdette :: "tbid \<Rightarrow> communerd \<Rightarrow> communerdette" where
  "the_communerdette tb s = (case co_communerdettes s tb of Some c \<Rightarrow> c | None \<Rightarrow> communerdette_new tb)"

lemma line_for_tbid_eq:
  "line_for_tbid tb s =
     (the_communerdette tb s, s\<lparr>co_communerdettes := (co_communerdettes s)(tb \<mapsto> the_communerdette tb s)\<rparr>)"
  by (auto simp: line_for_tbid_def the_communerdette_def Let_def fun_upd_idem split: option.splits)

lemma index_record_eq:
  "index_record E clock r s = s\<lparr>co_tbid_index := (co_tbid_index s)(pg_tbid r \<mapsto> r),
     co_communerdettes := (case from_hex (co_hex E) (pg_tbid r) of
       Ok tb \<Rightarrow> (co_communerdettes s)(tb \<mapsto> update_from_dht_record r (clock_or_zero clock) (the_communerdette tb s))
     | _ \<Rightarrow> co_communerdettes s)\<rparr>"
  by (simp add: index_record_def bridge_dht_to_communerdette_def line_for_tbid_eq the_communerdette_def
      update_from_dht_record_def split: result.splits)

definition untouched :: "communerd \<Rightarrow> (string \<rightharpoonup> family_record clean_full) \<times> string option \<times> string option \<times> string \<times> bool" where
  "untouched s = (co_family_cache s, co_local_multiaddr s, co_local_peer_id s, co_namespace s, co_swarm s)"

lemma fold_close_lookup: "fold close_lookup is s = s\<lparr>co_lookups := fold (\<lambda>i cs. cs[i := Closed]) is (co_lookups s)\<rparr>"
  by (induction "is" arbitrary: s) (simp_all add: close_lookup_def)

lemma drain_lookups_sels [simp]:
  "untouched (drain_lookups E result s) = untouched s"
  by (simp add: untouched_def drain_lookups_def fold_close_lookup answer_lookup_def Let_def split: list.split)

lemma answer_family_lookup_sels [simp]:
  "untouched (answer_family_lookup key recs s) = untouched s"
  by (simp add: untouched_def answer_family_lookup_def split: option.split)

lemma handle_gossip_sels [simp]:
  "untouched (snd (handle_gossip E clock data s)) = untouched s"
  by (simp add: untouched_def handle_gossip_def split: prod.split result.split)

interpretation still: kept_by_events E "\<lambda>s. untouched s = u" for E u
  by unfold_locales (simp_all, simp_all add: untouched_def pool_add_def index_record_eq)

section \<open>The directory of the communerd\<close>

text \<open>
  The invariant of the communerd's state over every operation and event, in any order: what the
  directory, the pool, the relationships and the pending lookups hold.
\<close>

definition index_sound :: "comm_env \<Rightarrow> communerd \<Rightarrow> bool" where
  "index_sound E s \<longleftrightarrow> (\<forall>k r. co_tbid_index s k = Some r \<longrightarrow> pg_tbid r = k \<and> accepts_peer E r)"

definition relationships_sound :: "communerd \<Rightarrow> bool" where
  "relationships_sound s \<longleftrightarrow> (\<forall>t c. co_communerdettes s t = Some c \<longrightarrow> cd_target_tbid c = t)"

text \<open>
  The addresses of the configuration are taken as they are; every other address is in the pool at
  most once.
\<close>

definition pool_sound :: "string list \<Rightarrow> communerd \<Rightarrow> bool" where
  "pool_sound configured s \<longleftrightarrow>
     (\<forall>a. count_list (map na_json_rpc (co_peers s)) a \<le> max 1 (count_list configured a))"

text \<open>A lookup that is pending has a channel of its own that nobody answered yet.\<close>

definition lookups_sound :: "communerd \<Rightarrow> bool" where
  "lookups_sound s \<longleftrightarrow> distinct (map fst (co_pending_lookups s)) \<and> distinct (map snd (co_pending_lookups s)) \<and>
     (\<forall>i \<in> snd ` set (co_pending_lookups s). i < length (co_lookups s) \<and> co_lookups s ! i = Waiting)"

definition answers_sound :: "comm_env \<Rightarrow> communerd \<Rightarrow> bool" where
  "answers_sound E s \<longleftrightarrow> (\<forall>r. Answered (Some r) \<in> set (co_lookups s) \<longrightarrow> accepts_peer E r)"

definition dir_inv :: "string list \<Rightarrow> comm_env \<Rightarrow> communerd \<Rightarrow> bool" where
  "dir_inv cfg E s \<longleftrightarrow> index_sound E s \<and> relationships_sound s \<and> pool_sound cfg s \<and> lookups_sound s \<and> answers_sound E s"

lemmas dir_defs = dir_inv_def index_sound_def relationships_sound_def pool_sound_def lookups_sound_def
  answers_sound_def

text \<open>Only these fields matter.\<close>

definition directory :: "communerd \<Rightarrow> (string \<rightharpoonup> peer_record) \<times> (tbid \<rightharpoonup> communerdette) \<times> net_peer_addr list \<times>
    (string \<times> nat) list \<times> peer_record option reply list" where
  "directory s = (co_tbid_index s, co_communerdettes s, co_peers s, co_pending_lookups s, co_lookups s)"

lemma dir_inv_cong: "directory s = directory s' \<Longrightarrow> dir_inv cfg E s = dir_inv cfg E s'"
  by (simp add: directory_def dir_defs)

lemma update_from_dht_target [simp]: "cd_target_tbid (update_from_dht_record r n c) = cd_target_tbid c"
  by (simp add: update_from_dht_record_def add_route_candidate_def mark_binding_claimed_by_dht_def)

lemma the_communerdette_target:
  "relationships_sound s \<Longrightarrow> cd_target_tbid (the_communerdette tb s) = tb"
  by (auto simp: relationships_sound_def the_communerdette_def communerdette_new_def split: option.splits)

lemma index_record_inv:
  assumes "dir_inv cfg E s" and "accepts_peer E r" shows "dir_inv cfg E (index_record E clock r s)"
proof -
  have "relationships_sound (index_record E clock r s)"
    using assms(1) the_communerdette_target [of s]
    by (auto simp: dir_inv_def relationships_sound_def index_record_eq split: result.splits if_splits)
  then show ?thesis using assms by (auto simp: dir_defs index_record_eq)
qed

lemma answers_close: "Answered x \<in> set (fold (\<lambda>i cs. cs[i := Closed]) is cs) \<Longrightarrow> Answered x \<in> set cs"
proof (induction "is" arbitrary: cs)
  case (Cons i "is")
  then have "Answered x \<in> set (cs[i := Closed])" by simp
  then show ?case using set_update_subset_insert [of cs i Closed] by auto
qed simp

definition chosen_lookup :: "comm_env \<Rightarrow> (string \<times> nat) list \<Rightarrow> nat" where
  "chosen_lookup E entries = ce_drain E entries mod length entries"

lemma drain_lookups_eq:
  assumes "co_pending_lookups s \<noteq> []"
  shows "drain_lookups E result s =
    (let entries = co_pending_lookups s; n = chosen_lookup E entries in
     s\<lparr>co_pending_lookups := [],
       co_lookups := (fold (\<lambda>i cs. cs[i := Closed]) (map snd (take n entries @ drop (Suc n) entries)) (co_lookups s))
         [snd (entries ! n) := Answered result]\<rparr>)"
proof -
  obtain e es where es: "co_pending_lookups s = e # es" using assms by (auto simp: neq_Nil_conv)
  show ?thesis
    unfolding drain_lookups_def chosen_lookup_def Let_def es list.case
    by (simp add: fold_close_lookup answer_lookup_def del: map_append fold_append drop_Suc_Cons)
qed

lemma drain_lookups_inv:
  assumes "dir_inv cfg E s" and "\<And>r. result = Some r \<Longrightarrow> accepts_peer E r"
  shows "dir_inv cfg E (drain_lookups E result s)"
proof (cases "co_pending_lookups s = []")
  case True
  with assms(1) show ?thesis by (simp add: drain_lookups_def)
next
  case False
  then obtain i "is" where d: "drain_lookups E result s = s\<lparr>co_pending_lookups := [],
      co_lookups := (fold (\<lambda>i cs. cs[i := Closed]) is (co_lookups s))[i := Answered result]\<rparr>"
    unfolding drain_lookups_eq [OF False] Let_def by blast
  have "accepts_peer E r" if "Answered (Some r) \<in> set (co_lookups (drain_lookups E result s))" for r
  proof -
    have "Answered (Some r) \<in> insert (Answered result) (set (fold (\<lambda>i cs. cs[i := Closed]) is (co_lookups s)))"
      using that d set_update_subset_insert [of "fold (\<lambda>i cs. cs[i := Closed]) is (co_lookups s)" i "Answered result"]
      by auto
    then show ?thesis using assms by (auto simp: dir_defs dest!: answers_close)
  qed
  then show ?thesis using assms(1) d by (simp add: dir_defs)
qed

lemma pool_add_count:
  "count_list (map na_json_rpc ps) a \<le> max (Suc 0) n \<Longrightarrow> count_list (map na_json_rpc (pool_add_peer p ps)) a \<le> max (Suc 0) n"
proof (cases "na_json_rpc p \<in> set (map na_json_rpc ps)")
  case False
  then have "count_list (map na_json_rpc ps) (na_json_rpc p) = 0" by (intro count_notin)
  then show "count_list (map na_json_rpc ps) a \<le> max (Suc 0) n \<Longrightarrow> ?thesis" by (auto simp: pool_add_peer_def)
qed (auto simp: pool_add_peer_def list_ex_iff)

lemma pool_remove_count: "count_list (map na_json_rpc (pool_remove_peer p ps)) a \<le> count_list (map na_json_rpc ps) a"
  by (induction ps) (auto simp: pool_remove_peer_def)

lemma pool_add_inv: "dir_inv cfg E s \<Longrightarrow> dir_inv cfg E (pool_add a s)"
  by (simp add: dir_inv_def index_sound_def relationships_sound_def lookups_sound_def answers_sound_def)
    (simp add: pool_sound_def pool_add_def pool_add_count)

lemma still_directory [simp]:
  "directory (send_command c s) = directory s"
  "directory (answer_family_lookup key recs s) = directory s"
  "directory (snd (handle_gossip E clock data s)) = directory s"
  by (simp_all add: directory_def answer_family_lookup_def handle_gossip_def split: option.split prod.split result.split)

lemma dir_inv_still [simp]:
  "dir_inv cfg E (send_command c s) = dir_inv cfg E s"
  "dir_inv cfg E (answer_family_lookup key recs s) = dir_inv cfg E s"
  "dir_inv cfg E (snd (handle_gossip E' clock data s)) = dir_inv cfg E s"
  by (intro dir_inv_cong, simp)+

interpretation dir: kept_by_events E "dir_inv cfg E" for E cfg
  by unfold_locales (simp_all add: pool_add_inv index_record_inv drain_lookups_inv)

subsection \<open>Lookups\<close>

lemma distinct_delete_snd: "distinct (map snd xs) \<Longrightarrow> distinct (map snd (AList.delete k xs))"
  by (simp add: AList.delete_eq distinct_map_filter)

lemma drop_pending_inv:
  assumes "dir_inv cfg E s" shows "dir_inv cfg E (drop_pending key s)"
proof (cases "map_of (co_pending_lookups s) key")
  case (Some i)
  then have key: "(key, i) \<in> set (co_pending_lookups s)" by (rule map_of_SomeD)
  have neq: "j \<noteq> i" if "(k, j) \<in> set (AList.delete key (co_pending_lookups s))" for k j
  proof
    assume "j = i"
    with that have "(k, i) \<in> set (co_pending_lookups s)" "k \<noteq> key" by (auto simp: AList.delete_eq)
    moreover have "inj_on snd (set (co_pending_lookups s))" using assms by (simp add: dir_defs distinct_map)
    ultimately show False using key inj_onD [of snd _ "(k, i)" "(key, i)"] by simp
  qed
  have other: "j \<noteq> i" if "j \<in> snd ` set (AList.delete key (co_pending_lookups s))" for j
    using that neq by (metis imageE surjective_pairing)
  have sub: "set (AList.delete key (co_pending_lookups s)) \<subseteq> set (co_pending_lookups s)" by (auto simp: AList.delete_eq)
  let ?s = "s\<lparr>co_pending_lookups := AList.delete key (co_pending_lookups s), co_lookups := (co_lookups s)[i := Closed]\<rparr>"
  have "lookups_sound s" using assms by (simp add: dir_inv_def)
  moreover have "(co_lookups s)[i := Closed] ! j = Waiting"
    if "j \<in> snd ` set (AList.delete key (co_pending_lookups s))" for j
  proof -
    have "j \<in> snd ` set (co_pending_lookups s)" using that sub by blast
    with \<open>lookups_sound s\<close> other [OF that] show ?thesis by (auto simp: lookups_sound_def)
  qed
  ultimately have "lookups_sound ?s"
    using sub by (auto simp: lookups_sound_def distinct_delete distinct_delete_snd)
  moreover have "answers_sound E ?s"
    using assms set_update_subset_insert [of "co_lookups s" i Closed] by (auto simp: dir_inv_def answers_sound_def)
  moreover have "index_sound E ?s \<and> relationships_sound ?s \<and> pool_sound cfg ?s"
    using assms by (simp add: dir_defs)
  ultimately show ?thesis using Some by (simp add: drop_pending_def close_lookup_def dir_inv_def)
qed (use assms in \<open>simp add: drop_pending_def\<close>)

lemma drop_pending_key: "key \<notin> fst ` set (co_pending_lookups (drop_pending key s))"
proof (cases "map_of (co_pending_lookups s) key")
  case None
  then have "key \<notin> fst ` set (co_pending_lookups s)" by (simp add: map_of_eq_None_iff)
  with None show ?thesis by (simp add: drop_pending_def)
next
  case (Some i)
  then show ?thesis by (simp add: drop_pending_def close_lookup_def keys_delete)
qed

lemma open_lookup_inv:
  assumes "dir_inv cfg E s" shows "dir_inv cfg E (snd (open_lookup key s))"
proof -
  have "dir_inv cfg E (drop_pending key s)" using assms by (rule drop_pending_inv)
  then have "dir_inv cfg E ((drop_pending key s)\<lparr>co_lookups := co_lookups (drop_pending key s) @ [Waiting],
      co_pending_lookups := (key, length (co_lookups (drop_pending key s))) # co_pending_lookups (drop_pending key s)\<rparr>)"
    using drop_pending_key [of key s] by (auto simp: dir_defs nth_append less_SucI)
  then show ?thesis by (simp add: open_lookup_def Let_def)
qed

lemma close_wait_inv: "dir_inv cfg E s \<Longrightarrow> dir_inv cfg E (snd (close_wait key i s))"
  by (simp add: close_wait_def drop_pending_inv split: reply.split)

lemma lookup_tbid_inv: "dir_inv cfg E s \<Longrightarrow> dir_inv cfg E (snd (lookup_tbid E evs tbid_hex ns s))"
  by (auto simp: lookup_tbid_def Let_def open_lookup_inv [of cfg E s] intro!: close_wait_inv dir.loop
      dest: open_lookup_inv [where key = "tbid_key ns tbid_hex"] split: option.split prod.splits)

section \<open>Every operation keeps the directory sound\<close>

text \<open>
  The operations and events of the communerd as a step relation, in any order, and the invariant
  over every state it reaches.
\<close>

inductive co_step :: "comm_env \<Rightarrow> communerd \<Rightarrow> communerd \<Rightarrow> bool" for E where
  step_enable: "co_step E s (enable_p2p E w ns peer_id listening s)"
| step_event: "co_step E s (snd (handle_event E clock ev s))"
| step_open_lookup: "co_step E s (snd (open_lookup key s))"
| step_close_wait: "co_step E s (snd (close_wait key i s))"
| step_open_family: "co_step E s (snd (open_family_lookup key s))"
| step_family_timeout: "co_step E s (drop_pending key s)"
| step_family_cache: "gate_family_record E tbid_hex raw = Ok (Some cfa) \<Longrightarrow> co_step E s (family_cache_insert cfa s)"
| step_publish_family: "co_step E s (publish_family_record E ns fr s)"
| step_line: "co_step E s (snd (line_for_tbid tb s))"
| step_line_time: "co_step E s (on_communerdette tb (on_flags (set_last_application_rpc_ns n)) s)"
| step_add_peer: "co_step E s (co_add_peer addr s)"
| step_remove_peer: "co_step E s (co_remove_peer addr s)"
| step_callback: "co_step E s (set_peer_change_callback cb s)"
| step_register: "co_step E s (snd (register_and_discover E clock servers ns tb chronon_ns addr' s))"
| step_refresh: "co_step E s (snd (refresh_self_registration E clock peer_id tb chronon_ns addr' s))"
| step_report: "co_step E s (snd (report_probity E clock subj attribute v s))"
| step_heartbeat: "co_step E s (snd (heartbeat_broadcast_round E clock nonce peer_id s))"
| step_bootstrap: "co_step E s (snd (bootstrap_dht E addrs s))"
| step_provide: "co_step E s (publish_attest_willing ns s)"
| step_shutdown: "co_step E s (shutdown_relationships s)"

inductive_cases co_stepE [elim]: "co_step E s s'"

lemma keeps_send_command [intro]: "keeps (dir_inv cfg E) (smod (send_command c))"
  by (rule keeps_smod) simp

lemma keeps_dial: "keeps (dir_inv cfg E) (dial_all f as)"
proof (induction "as")
  case (Cons a "as")
  then show ?case unfolding dial_all.simps by (intro keeps_sbind keeps_slift keeps_send_command)
qed simp

lemma keeps_bootstrap: "dir_inv cfg E s \<Longrightarrow> dir_inv cfg E (snd (bootstrap_dht E' addrs s))"
  by (auto simp: bootstrap_dht_def intro!: keepsD [of "dir_inv cfg E"] keeps_sbind keeps_dial keeps_send_command
      simp del: sbind_smod)

lemma put_self_record_inv [simp]: "dir_inv cfg E (put_self_record E' ns peer_id r s) = dir_inv cfg E s"
  by (simp add: put_self_record_def Let_def)

lemma keeps_register: "dir_inv cfg E s \<Longrightarrow> dir_inv cfg E (snd (register_and_discover E' clock servers ns tb n a s))"
  unfolding register_and_discover_def Let_def
  by (auto split: option.split intro!: keepsD [of "dir_inv cfg E"] keeps_sbind keeps_dial keeps_smod)

lemma directory_still [simp]:
  "directory (snd (open_family_lookup key s)) = directory s"
  "directory (family_cache_insert cfa s) = directory s"
  "directory (enable_p2p E w ns peer_id listening s) = directory s"
  "directory (set_peer_change_callback cb s) = directory s"
  "directory (notify_peer_change s) = directory s"
  "directory (snd (report_probity E clock subj attribute v s)) = directory s"
  "directory (snd (heartbeat_broadcast_round E clock nonce peer_id s)) = directory s"
  by (simp_all add: directory_def open_family_lookup_def drop_pending_family_def family_cache_insert_def
      enable_p2p_def set_peer_change_callback_def notify_peer_change_def report_probity_def
      heartbeat_broadcast_round_def Let_def split: option.split result.split)

lemma dir_inv_directory:
  "dir_inv cfg E s \<Longrightarrow> directory s' = directory s \<Longrightarrow> dir_inv cfg E s'"
  using dir_inv_cong by metis

lemma publish_family_inv: "dir_inv cfg E (publish_family_record E' ns fr s) = dir_inv cfg E s"
proof -
  have "dir_inv cfg E (fold (\<lambda>m. send_command (c m)) ms s) = dir_inv cfg E s" for c :: "string \<Rightarrow> swarm_command" and ms
    by (induction ms arbitrary: s) simp_all
  then show ?thesis by (simp add: publish_family_record_def Let_def split: option.split)
qed

lemma relationships_inv:
  "dir_inv cfg E s \<Longrightarrow> dir_inv cfg E (s\<lparr>co_communerdettes := m\<rparr>) \<longleftrightarrow> (\<forall>t c. m t = Some c \<longrightarrow> cd_target_tbid c = t)"
  by (simp add: dir_defs)

lemma target_inv: "dir_inv cfg E s \<Longrightarrow> co_communerdettes s t = Some c \<Longrightarrow> cd_target_tbid c = t"
  by (simp add: dir_defs)

lemma co_step_inv:
  assumes "co_step E s s'" and inv: "dir_inv cfg E s"
  shows "dir_inv cfg E s'"
  using assms(1)
proof cases
  case (step_line tb)
  have "relationships_sound s" using inv by (simp add: dir_inv_def)
  with step_line show ?thesis
    by (auto simp: line_for_tbid_eq relationships_inv [OF inv] the_communerdette_target target_inv [OF inv] split: if_splits)
next
  case (step_line_time tb n)
  then show ?thesis
    by (auto simp: on_communerdette_def on_flags_def relationships_inv [OF inv] target_inv [OF inv] split: if_splits)
next
  case step_shutdown
  then show ?thesis
    by (auto simp: shutdown_relationships_def shutdown_def relationships_inv [OF inv] target_inv [OF inv])
next
  case (step_remove_peer addr)
  have "dir_inv cfg E (s\<lparr>co_peers := pool_remove_peer addr (co_peers s)\<rparr>)"
    using inv le_trans [OF pool_remove_count] by (simp add: dir_defs)
  with step_remove_peer show ?thesis by (simp add: co_remove_peer_def dir_inv_directory)
next
  case (step_add_peer addr)
  then show ?thesis using inv by (simp add: co_add_peer_def dir_inv_directory [OF pool_add_inv])
next
  case (step_refresh clock peer_id tb n a)
  then show ?thesis using inv
    by (simp add: refresh_self_registration_def Let_def split: option.split result.split)
qed (use inv in \<open>auto intro: dir.event open_lookup_inv close_wait_inv drop_pending_inv keeps_bootstrap
      keeps_register dir_inv_directory simp: publish_family_inv publish_attest_willing_def\<close>)

end
