(* ===== verification/Communerd_Claims.thy ===== *)
theory Communerd_Claims
  imports Communerd_Inv Demo_Node
begin

section \<open>What the communerd promises\<close>

text \<open>
  The properties of the communerd over its event loop and operations, and an environment in which
  each applies.
\<close>

subsection \<open>Keys and commands\<close>

lemma ends_with_append [simp]: "ends_with (x @ suff) suff"
  by (simp add: ends_with_def)

lemma str_contains_prefix: "str_contains p (p @ y)"
  by (cases "p @ y") (auto simp del: append_eq_Cons_conv, metis append_eq_conv_conj)

lemma str_contains_mid: "str_contains p (x @ p @ y)"
  by (induction x) (simp_all add: str_contains_prefix)

lemma tbid_key_arms [simp]: "ends_with (tbid_key ns t) ''/v1''" "str_contains ''/tbid/'' (tbid_key ns t)"
proof -
  have "tbid_key ns t = (''/foretias/'' @ ns @ ''/tbid/'' @ t) @ ''/v1''" by (simp add: tbid_key_def)
  then show "ends_with (tbid_key ns t) ''/v1''" by (metis ends_with_append)
  have "tbid_key ns t = (''/foretias/'' @ ns) @ ''/tbid/'' @ (t @ ''/v1'')" by (simp add: tbid_key_def)
  then show "str_contains ''/tbid/'' (tbid_key ns t)" by (metis str_contains_mid)
qed

lemma dial_all_shape:
  "co_swarm s \<Longrightarrow> dial_all f as s = (r, s') \<Longrightarrow> \<exists>ds. s' = s\<lparr>co_commands := co_commands s @ map Dial ds\<rparr>"
proof (induction "as" arbitrary: s)
  case Nil
  then show ?case by (intro exI [of _ "[]"]) (simp add: sret_def)
next
  case (Cons a "as")
  show ?case
  proof (cases "f a")
    case (Ok ma)
    then have "dial_all f as (s\<lparr>co_commands := co_commands s @ [Dial ma]\<rparr>) = (r, s')"
      using Cons.prems by (simp add: send_command_def)
    from Cons.IH [OF _ this] Cons.prems(1) obtain ds
      where "s' = s\<lparr>co_commands := co_commands s @ Dial ma # map Dial ds\<rparr>" by auto
    then show ?thesis by (intro exI [of _ "ma # ds"]) simp
  qed (use Cons.prems in \<open>auto simp: sbind_def slift_def intro!: exI [of _ "[]"]\<close>)
qed

lemma put_self_record_commands:
  "co_swarm s \<Longrightarrow> PutRecord key rec \<in> set (co_commands (put_self_record E ns peer_id r s)) \<Longrightarrow>
     PutRecord key rec \<in> set (co_commands s) \<or> kr_value rec = ce_json_print E (ce_peer_to_json E r)"
  by (auto simp: put_self_record_def send_command_def Let_def)

text \<open>What a registration that succeeded put into the DHT.\<close>

lemma register_puts:
  assumes "register_and_discover E clock servers ns tb n a s = (Ok (), s')"
    and "PutRecord key rec \<in> set (drop (length (co_commands s)) (co_commands s'))"
  obtains peer_id ma canon sig r where "r = self_record peer_id (to_hex (ce_hex_encode E) tb) ma a n clock"
    and "canonical_payload (ce_postcard_peer E) r = (Ok canon :: (bytes, node_error) result)"
    and "cs_sign (ce_crypto E) canon = Ok sig"
    and "kr_value rec = ce_json_print E (ce_peer_to_json E (pg_set_signature sig r))"
proof -
  obtain peer_id where swarm: "co_swarm s" and peer_id: "co_local_peer_id s = Some peer_id"
    using assms(1) by (auto simp: register_and_discover_def split: if_splits option.splits)
  obtain ds where s1: "dial_all (resolve_known_server E) (ce_shuffle E (filter (\<lambda>x. x \<noteq> a) servers)) s =
      (Ok (), s\<lparr>co_commands := co_commands s @ map Dial ds\<rparr>)"
    using assms(1) swarm peer_id dial_all_shape [OF swarm]
    by (fastforce simp: register_and_discover_def sbind_eq_Ok)
  let ?s1 = "s\<lparr>co_commands := co_commands s @ map Dial ds\<rparr>"
  obtain ma where ma: "co_local_multiaddr s = Some ma"
    using assms(1) swarm peer_id s1 by (cases "co_local_multiaddr s") (auto simp: register_and_discover_def sbind_def slift_def sget_def)
  let ?r = "self_record peer_id (to_hex (ce_hex_encode E) tb) ma a n clock"
  obtain canon sig where canon: "canonical_payload (ce_postcard_peer E) ?r = (Ok canon :: (bytes, node_error) result)"
    and sig: "cs_sign (ce_crypto E) canon = Ok sig"
    and s': "s' = send_command (GetRecord (peers_key ns)) (put_self_record E ns peer_id (pg_set_signature sig ?r)
               (send_command Bootstrap ?s1))"
    using assms(1) swarm peer_id s1 ma
    by (auto simp: register_and_discover_def Let_def sbind_eq_Ok slift_eq smod_eq result_simps)
  have "kr_value rec = ce_json_print E (ce_peer_to_json E (pg_set_signature sig ?r))"
    using assms(2) swarm s' by (auto simp: put_self_record_def send_command_def Let_def)
  with that canon sig show thesis by blast
qed

subsection \<open>An environment\<close>

text \<open>
  Every TBID prints as 64 zeros and reads as the demo TBID; JSON is an array of numbers, and the
  only peer record that is read back is the given one.
\<close>

definition demo_comm :: "peer_record \<Rightarrow> comm_env" where
  "demo_comm r0 =
     \<lparr>ce_debug = True, ce_hex_encode = (\<lambda>_. replicate 64 CHR ''0''), ce_hex_decode = (\<lambda>s. if length s < 64 then Err ''odd'' else Ok (replicate 96 7)),
      ce_crypto = demo_server, ce_public_key = demo_public [], ce_postcard_peer = (\<lambda>_. Ok [1]),
      ce_postcard_report = (\<lambda>_. Ok [2]), ce_postcard_family = (\<lambda>_. Ok [3]), ce_postcard_sigs = (\<lambda>_. Ok [4]),
      ce_json_parse = (\<lambda>bs. Ok (byte_array_json bs)),
      ce_json_print = (\<lambda>j. case j of JArray vs \<Rightarrow> map (\<lambda>v. case as_u64 v of Some n \<Rightarrow> word_of_nat (unat n) | None \<Rightarrow> 0) vs
                                  | _ \<Rightarrow> []),
      ce_peer_of_json = (\<lambda>j. if j = byte_array_json [1] then Ok r0 else Err ''not a record''),
      ce_peer_to_json = (\<lambda>r. byte_array_json (if r = r0 then [1] else [0])),
      ce_report_of_json = (\<lambda>_. Err ''not a report''), ce_heartbeat_of_json = (\<lambda>_. Err ''not a heartbeat''),
      ce_parse_peer_id = Some, ce_parse_multiaddr = Ok, ce_is_ipv4 = (\<lambda>_. False), ce_is_ipv6 = (\<lambda>_. False),
      ce_shuffle = id, ce_drain = (\<lambda>_. 0)\<rparr>"

lemma byte_there_and_back: "map (\<lambda>x. ucast (ucast x :: u64)) bs = (bs :: bytes)"
  by (induction bs) (simp_all add: ucast_up_ucast_id is_up)

definition demo_comm_started :: "peer_record \<Rightarrow> communerd" where
  "demo_comm_started r0 = enable_p2p (demo_comm r0) 8 ''mainnet'' ''p'' (Some ''m'') (communerd_new [])"

definition demo_self :: peer_record where
  "demo_self = \<lparr>pg_peer_id = ''p'', pg_tbid = replicate 64 CHR ''0'', pg_multiaddr = ''m'', pg_json_rpc = ''a:1'',
     pg_chronon_ns = 9, pg_registered_at_ns = 5, pg_capabilities = [AttestWilling],
     pg_signature = demo_public [] @ demo_tag 31 [1]\<rparr>"

lemma demo_comm_simps [simp]:
  "ce_hex_decode (demo_comm r) s = (if length s < 64 then Err ''odd'' else Ok (replicate 96 7))"
  "to_hex (ce_hex_encode (demo_comm r)) tb = replicate 64 CHR ''0''"
  "ce_crypto (demo_comm r) = demo_server" "ce_postcard_peer (demo_comm r) x = Ok [1]"
  "ce_json_print (demo_comm r) (byte_array_json bs) = bs"
  "from_slice (demo_comm r) f bs = f (byte_array_json bs)"
  "ce_shuffle (demo_comm r) = id" "ce_parse_peer_id (demo_comm r) = Some"
  by (simp_all add: demo_comm_def to_hex_def byte_array_json_def from_slice_def o_def byte_there_and_back)

lemma demo_register:
  "register_and_discover (demo_comm demo_self) (Ok 5) [] ''n'' demo_tbid 9 ''a:1'' (demo_comm_started demo_self) =
     (Ok (), (demo_comm_started demo_self)\<lparr>co_commands :=
       [Bootstrap, PutRecord (peers_key ''n'') \<lparr>kr_key = peers_key ''n'', kr_value = [1], kr_publisher = Some ''p''\<rparr>,
        PutRecord (tbid_key ''n'' (replicate 64 CHR ''0'')) \<lparr>kr_key = tbid_key ''n'' (replicate 64 CHR ''0''), kr_value = [1], kr_publisher = Some ''p''\<rparr>,
        GetRecord (peers_key ''n'')]\<rparr>)"
  by (simp add: register_and_discover_def demo_comm_started_def enable_p2p_def communerd_new_def sbind_def sget_def slift_def smod_def
     self_record_def peer_record_new_def canonical_payload_def demo_server_def put_self_record_def Let_def sret_def send_command_def
     pg_set_signature_def demo_self_def demo_comm_def to_hex_def byte_array_json_def clock_or_zero_def)
subsection \<open>Registrations are refused\<close>

text \<open>
  A node that registers signs its record with the key of its communerd, while every receiver
  checks the signature with the key in the TBID: where one is not the other, no receiver accepts a
  record that the registration put into the DHT.
\<close>

theorem self_registration_refused:
  assumes "register_and_discover E clock servers ns tb n a s = (Ok (), s')"
    and "PutRecord key rec \<in> set (drop (length (co_commands s)) (co_commands s'))"
    and "\<And>m sig. cs_sign (ce_crypto E) m = Ok sig \<Longrightarrow> sig \<noteq> [] \<and>
      cs_verify_with (ce_crypto E') (take 32 (raw_bytes tb)) ''Ed25519'' m sig \<noteq> Ok True"
    and "ce_hex_decode E' (to_hex (ce_hex_encode E) tb) = Ok (raw_bytes tb)"
    and "ce_postcard_peer E' = ce_postcard_peer E"
    and "\<And>r r'. from_slice E' (ce_peer_of_json E') (ce_json_print E (ce_peer_to_json E r)) = Ok r' \<Longrightarrow> r' = r"
  shows "parse_and_validate E' rec \<noteq> Ok (Some r)"
proof
  assume "parse_and_validate E' rec = Ok (Some r)"
  then have parsed: "from_slice E' (ce_peer_of_json E') (kr_value rec) = Ok r" and ok: "accepts_peer E' r"
    by (simp_all add: parse_and_validate_Some)
  obtain peer_id ma canon sig r0 where r0: "r0 = self_record peer_id (to_hex (ce_hex_encode E) tb) ma a n clock"
    and canon: "canonical_payload (ce_postcard_peer E) r0 = (Ok canon :: (bytes, node_error) result)"
    and sig: "cs_sign (ce_crypto E) canon = Ok sig"
    and printed: "kr_value rec = ce_json_print E (ce_peer_to_json E (pg_set_signature sig r0))"
    using register_puts [OF assms(1,2)] by metis
  have r: "r = pg_set_signature sig r0" using assms(6) parsed printed by simp
  have "well_formed_peer r" using ok validate_malformed unfolding accepts_peer_def by fastforce
  moreover have "r0\<lparr>pg_signature := []\<rparr> = r\<lparr>pg_signature := []\<rparr>" by (simp add: r pg_set_signature_def)
  then have "ce_postcard_peer E' (r\<lparr>pg_signature := []\<rparr>) = Ok canon"
    using canon assms(5) by (simp add: canonical_payload_def split: result.splits)
  moreover have "pg_signature r = sig" and tb: "pg_tbid r = to_hex (ce_hex_encode E) tb"
    by (simp_all add: r pg_set_signature_def r0 self_record_def peer_record_new_def)
  moreover have "length (raw_bytes tb) \<ge> 32 \<or> validate_peer_registration (ce_hex_decode E') (ce_postcard_peer E') (ce_crypto E') r \<noteq> Ok True"
    using assms(4) tb sig assms(3) \<open>pg_signature r = sig\<close> by (auto simp: validate_peer_registration_def)
  ultimately have "rmap_err Crypto (cs_verify_with (ce_crypto E') (take 32 (raw_bytes tb)) ''Ed25519'' canon sig) = Ok True"
    using ok assms(3) [OF sig] assms(4)
      validate_signed [of r "ce_hex_decode E'" "raw_bytes tb" "ce_postcard_peer E'" canon "ce_crypto E'"]
    by (simp add: accepts_peer_def)
  then show False using assms(3) [OF sig] by (simp add: rmap_err_eq_Ok)
qed

lemma demo_sign_not_tbid:
  "cs_sign demo_server m = Ok sig \<Longrightarrow>
     sig \<noteq> [] \<and> cs_verify_with demo_server (take 32 (raw_bytes demo_tbid)) ''Ed25519'' m sig \<noteq> Ok True"
  by (auto simp: demo_server_def sw_verify_with_ed25519 raw_bytes_def demo_tbid_def from_raw_def demo_public_def
      ed25519_verify_def split: if_splits)

theorem self_registration_refused_witness:
  "\<exists>s' rec. register_and_discover (demo_comm demo_self) (Ok 5) [] ''n'' demo_tbid 9 ''a:1'' (demo_comm_started demo_self) = (Ok (), s') \<and>
     PutRecord (peers_key ''n'') rec \<in> set (co_commands s') \<and>
     parse_and_validate (demo_comm demo_self) rec \<noteq> Ok (Some demo_self)"
proof (intro exI conjI)
  show "parse_and_validate (demo_comm demo_self)
      \<lparr>kr_key = peers_key ''n'', kr_value = [1], kr_publisher = Some ''p''\<rparr> \<noteq> Ok (Some demo_self)"
    by (rule self_registration_refused [OF demo_register, where E' = "demo_comm demo_self" and key = "peers_key ''n''"])
      (use demo_sign_not_tbid in \<open>auto simp: demo_comm_started_def enable_p2p_def communerd_new_def raw_bytes_def demo_tbid_def
        from_raw_def to_hex_def jnum_def demo_comm_def byte_array_json_def from_slice_def split: if_splits\<close>)
qed (rule demo_register, simp)

end
