(* ===== verification/Communerd_Loop.thy ===== *)
theory Communerd_Loop
  imports Communerd_Claims
begin

section \<open>What the communerd makes of answers\<close>

text \<open>
  Properties of the communerd's reports, of the records and lookups that the event loop answers,
  and of its reaction to a heartbeat under its own identity.
\<close>

subsection \<open>Probity reports\<close>

lemma report_puts:
  assumes "report_probity E clock subj attribute v s = (Ok (), s')"
    and "PublishProbity r ns \<in> set (drop (length (co_commands s)) (co_commands s'))"
  shows "co_local_peer_id s = Some (pr_reporter r)"
  using assms by (auto simp: report_probity_def send_command_def Let_def set_signature_def
      split: option.splits result.splits if_splits)

text \<open>
  A probity report that a communerd publishes names its peer id as the reporter. A receiver
  reads the reporter as a TBID in hex: where a peer id is not hex, no receiver keeps the report,
  whatever its keys and its clock.
\<close>

theorem own_report_ignored:
  assumes "report_probity E clock subj attribute v s = (Ok (), s')"
    and "PublishProbity r ns \<in> set (drop (length (co_commands s)) (co_commands s'))"
    and "\<And>peer_id. co_local_peer_id s = Some peer_id \<Longrightarrow> \<exists>e. hex peer_id = Err e"
    and "parse data = Ok r"
  shows "snd (handle_gossip_message debug parse hex pc crypto now data store) = store"
proof -
  obtain e where "hex (pr_reporter r) = Err e" using assms(3) report_puts [OF assms(1,2)] by blast
  then have "\<not> is_ok (authenticate_gossip hex pc crypto (from_parsed r))"
    by (auto simp: is_ok_iff authenticate_gossip_def result_simps verify_report_Ok_iff verify_report_full_Ok_iff
        check_fast_Ok_iff pub_key_from_tbid_hex_def from_parsed_def split: if_splits)
  then show ?thesis using assms(4)
    by (auto simp: handle_gossip_message_def is_ok_iff split: result.split)
qed

definition demo_report :: probity_report where
  "demo_report = \<lparr>pr_subject = ''x'', pr_reporter = ''p'', pr_attribute = ''fb'', pr_value = f32_one,
     pr_timestamp_ns = 5, pr_signature = demo_public [] @ demo_tag 31 [2], pr_curve = 1, pr_slow_signature = []\<rparr>"

lemma demo_reported:
  "report_probity (demo_comm demo_self) (Ok 5) ''x'' ''fb'' f32_one (demo_comm_started demo_self) =
     (Ok (), (demo_comm_started demo_self)\<lparr>co_probity := ingest demo_report ps_new,
        co_commands := [PublishProbity demo_report ''mainnet'']\<rparr>)"
  by (simp add: report_probity_def demo_comm_started_def enable_p2p_def communerd_new_def clock_or_zero_def
      canonical_def Let_def send_command_def set_signature_def demo_report_def demo_server_def demo_comm_def)

theorem own_report_ignored_witness:
  "snd (handle_gossip_message True (\<lambda>_. Ok demo_report) (\<lambda>s. if s = ''p'' then Err ''odd'' else Ok (demo_public []))
     (\<lambda>_. Ok [2]) demo_server 5 () ps_new) = ps_new"
  by (rule own_report_ignored [OF demo_reported, where ns = "''mainnet''" and r = demo_report])
    (simp_all add: demo_comm_started_def enable_p2p_def communerd_new_def)

subsection \<open>Records without a signature\<close>

lemma parse_unsigned:
  assumes "from_slice E (ce_peer_of_json E) (kr_value rec) = Ok r" and "well_formed_peer r" and "pg_signature r = []"
  shows "parse_and_validate E rec = Ok (Some r)"
  using assms by (simp add: parse_and_validate_Some accepts_peer_def validate_unsigned)

lemma drain_keeps_index [simp]:
  "co_tbid_index (drain_lookups E result s) = co_tbid_index s"
  "co_communerdettes (drain_lookups E result s) = co_communerdettes s"
  by (simp_all add: drain_lookups_def fold_close_lookup answer_lookup_def Let_def split: list.split)

lemma tbid_event:
  assumes "parse_and_validate E rec = Ok (Some r)"
  obtains s1 where "co_communerdettes s1 = co_communerdettes s" and "co_tbid_index s1 = co_tbid_index s"
    and "co_lookups s1 = co_lookups s" and "co_pending_lookups s1 = co_pending_lookups s"
    and "handle_event E clock (RecordRetrieved (tbid_key ns t) [rec]) s =
      (Ok (), drain_lookups E (Some r) (index_record E clock r s1))"
proof -
  let ?peer = "\<lparr>na_json_rpc = pg_json_rpc r, na_peer_id = ce_parse_peer_id E (pg_peer_id r),
    na_last_seen_ns = clock_or_zero clock\<rparr>"
  let ?s0 = "if ends_with (tbid_key ns t) ''/peers/v1'' then pool_add ?peer s else s"
  let ?s1 = "if str_contains ''/family/'' (tbid_key ns t) then answer_family_lookup (tbid_key ns t) [rec] ?s0 else ?s0"
  have "directory ?s1 = directory (if ends_with (tbid_key ns t) ''/peers/v1'' then pool_add ?peer s else s)" by simp
  then have "co_communerdettes ?s1 = co_communerdettes s" "co_tbid_index ?s1 = co_tbid_index s"
    "co_lookups ?s1 = co_lookups s" "co_pending_lookups ?s1 = co_pending_lookups s"
    by (auto simp: directory_def pool_add_def split: if_splits)
  moreover have "handle_event E clock (RecordRetrieved (tbid_key ns t) [rec]) s =
      (Ok (), drain_lookups E (Some r) (index_record E clock r ?s1))"
    using assms by (simp add: handle_record_retrieved_def handle_tbid_records_def sbind_def smod_def sret_def)
  ultimately show thesis by (rule that)
qed

text \<open>
  C40: A record of the DHT without a signature is taken as it is: whatever the directory held for
  its TBID, a signed record too, is replaced by it, and the relationship of that TBID goes back to
  a claim of the DHT, also where its binding had been verified.
\<close>

theorem unsigned_record_replaces:
  assumes "from_slice E (ce_peer_of_json E) (kr_value rec) = Ok r" and "well_formed_peer r" and "pg_signature r = []"
    and "from_hex (co_hex E) (pg_tbid r) = Ok tb"
    and "handle_event E clock (RecordRetrieved (tbid_key ns t) [rec]) s = (res, s')"
  shows "co_tbid_index s' (pg_tbid r) = Some r \<and>
    map_option cd_binding (co_communerdettes s' tb) =
      Some (ClaimedByDht (Some (pg_peer_id r)) (Some (pg_json_rpc r)) (clock_or_zero clock))"
proof -
  obtain s1 where "s' = drain_lookups E (Some r) (index_record E clock r s1)"
    using tbid_event [OF parse_unsigned [OF assms(1-3)], of s clock ns t] assms(5) by (metis prod.inject)
  then show ?thesis using assms(4)
    by (simp add: index_record_eq update_from_dht_record_def add_route_candidate_def mark_binding_claimed_by_dht_def)
qed

definition demo_unsigned :: peer_record where
  "demo_unsigned = demo_self\<lparr>pg_signature := []\<rparr>"

definition demo_kad :: kad_record where
  "demo_kad = \<lparr>kr_key = ''k'', kr_value = [1], kr_publisher = None\<rparr>"

lemma demo_unsigned_parses:
  "from_slice (demo_comm demo_unsigned) (ce_peer_of_json (demo_comm demo_unsigned)) (kr_value demo_kad) = Ok demo_unsigned"
  "well_formed_peer demo_unsigned" "pg_signature demo_unsigned = []"
  "from_hex (co_hex (demo_comm demo_unsigned)) (pg_tbid demo_unsigned) = Ok demo_tbid"
  by (simp_all add: demo_kad_def demo_unsigned_def demo_self_def well_formed_peer_def list_all_length is_ascii_hexdigit_def
      from_hex_def co_hex_def tbid_from_bytes_def demo_tbid_def) (simp add: demo_comm_def)

text \<open>Here the relationship was verified and the directory held a signed record.\<close>

definition demo_verified :: communerd where
  "demo_verified = (demo_comm_started demo_self)\<lparr>
     co_tbid_index := [replicate 64 CHR ''0'' \<mapsto> demo_self],
     co_communerdettes := [demo_tbid \<mapsto> mark_binding_verified (Some ''p'') None 3 (communerdette_new demo_tbid)]\<rparr>"

theorem unsigned_record_replaces_witness:
  "\<exists>s'. co_tbid_index s' (replicate 64 CHR ''0'') = Some demo_unsigned \<and> demo_unsigned \<noteq> demo_self \<and>
     handle_event (demo_comm demo_unsigned) (Ok 5) (RecordRetrieved (tbid_key ''n'' ''t'') [demo_kad]) demo_verified = (Ok (), s')"
proof -
  obtain s' where s': "handle_event (demo_comm demo_unsigned) (Ok 5) (RecordRetrieved (tbid_key ''n'' ''t'') [demo_kad]) demo_verified = (Ok (), s')"
    using tbid_event [OF parse_unsigned [OF demo_unsigned_parses(1-3)]] by metis
  have "co_tbid_index s' (pg_tbid demo_unsigned) = Some demo_unsigned"
    using unsigned_record_replaces [OF demo_unsigned_parses s'] by (rule conjunct1)
  with s' show ?thesis by (auto simp: demo_unsigned_def demo_self_def demo_public_def)
qed

section \<open>The communerd over time\<close>

text \<open>
  Properties of the communerd over its event loop and over the sequence of its operations: which
  lookup an answer reaches, what stops the loop, what never gets into the caches, when it goes
  dormant.
\<close>

subsection \<open>The directory\<close>

lemma communerd_new_inv: "dir_inv peers E (communerd_new peers)"
  by (simp add: dir_defs communerd_new_def o_def)

text \<open>
  C3: Whatever operations and events a communerd has gone through, its directory holds under a
  TBID a record of that TBID which the validator accepted, a relationship is kept under its own
  TBID, and every pending lookup waits on a channel of its own. The pool, which the constructor
  fills with the configured addresses as they are, has no address twice, unless the configuration
  lists it more often, and then not more often than there.
\<close>

theorem directory_sound:
  assumes "(co_step E)\<^sup>*\<^sup>* (communerd_new peers) s"
  shows "dir_inv peers E s"
  using assms by (induction rule: rtranclp_induct) (auto intro: communerd_new_inv co_step_inv)

theorem directory_sound_witness:
  "\<exists>s. dir_inv [''a'', ''b'', ''a''] (demo_comm demo_unsigned) s \<and> co_tbid_index s (replicate 64 CHR ''0'') = Some demo_unsigned"
proof -
  let ?cfg = "[''a'', ''b'', ''a'']" and ?E = "demo_comm demo_unsigned" and ?ev = "RecordRetrieved (tbid_key ''n'' ''t'') [demo_kad]"
  let ?s = "snd (handle_event ?E (Ok 5) ?ev (communerd_new ?cfg))"
  have "(co_step ?E)\<^sup>*\<^sup>* (communerd_new ?cfg) ?s" by (intro r_into_rtranclp step_event)
  then have "dir_inv ?cfg ?E ?s" by (rule directory_sound)
  moreover obtain s1 where "handle_event ?E (Ok 5) ?ev (communerd_new ?cfg) =
      (Ok (), drain_lookups ?E (Some demo_unsigned) (index_record ?E (Ok 5) demo_unsigned s1))"
    by (rule tbid_event [OF parse_unsigned [OF demo_unsigned_parses(1-3)]])
  then have "co_tbid_index ?s (pg_tbid demo_unsigned) = Some demo_unsigned" by (simp add: index_record_eq)
  ultimately show ?thesis by (auto simp: demo_unsigned_def demo_self_def)
qed

subsection \<open>Which lookup is answered\<close>

lemma index_records_lookups:
  "index_records E clock valid recs s = (r, s') \<Longrightarrow>
     co_lookups s' = co_lookups s \<and> co_pending_lookups s' = co_pending_lookups s"
proof (induction recs arbitrary: valid s)
  case (Cons rec recs)
  then show ?case by (fastforce simp: index_record_eq split: result.splits option.splits)
qed simp

lemma nth_fold_close:
  "i < length cs \<Longrightarrow> fold (\<lambda>i cs. cs[i := Closed]) is cs ! i = (if i \<in> set is then Closed else cs ! i)"
  by (induction "is" arbitrary: cs) (simp_all add: nth_list_update)

lemma length_fold_close [simp]: "length (fold (\<lambda>i cs. cs[i := Closed]) is cs) = length cs"
  by (induction "is" arbitrary: cs) simp_all

text \<open>
  The records that arrive for one TBID answer a single pending lookup, the one that the hash
  map gives first, whichever TBID it was for, and with the first valid record; every other lookup that
  was pending, the one for this TBID too, is told that its channel closed.
\<close>

theorem answer_reaches_first_lookup:
  assumes "lookups_sound s" and "index_records E clock [] recs s = (Ok valid, s1)"
    and "(key, i) \<in> set (co_pending_lookups s)"
  shows "co_lookups (snd (handle_tbid_records E clock recs s)) ! i =
    (if i = snd (co_pending_lookups s ! chosen_lookup E (co_pending_lookups s))
     then Answered (list_first valid) else Closed)"
proof -
  let ?p = "co_pending_lookups s" and ?n = "chosen_lookup E (co_pending_lookups s)"
  have eqs: "co_lookups s1 = co_lookups s" "co_pending_lookups s1 = ?p"
    using index_records_lookups [OF assms(2)] by simp_all
  have "?p \<noteq> []" using assms(3) by auto
  then have n: "?n < length ?p" by (simp add: chosen_lookup_def)
  have i: "i < length (co_lookups s)" using assms(1,3) by (force simp: lookups_sound_def)
  have "set (map snd ?p) = insert (snd (?p ! ?n)) (set (map snd (take ?n ?p @ drop (Suc ?n) ?p)))"
    using n by (subst id_take_nth_drop [OF n]) auto
  moreover have "i \<in> set (map snd ?p)" using assms(3) by force
  ultimately have other: "i \<noteq> snd (?p ! ?n) \<Longrightarrow> i \<in> set (map snd (take ?n ?p @ drop (Suc ?n) ?p))" by auto
  have "snd (handle_tbid_records E clock recs s) = drain_lookups E (list_first valid) s1"
    using assms(2) by (simp add: handle_tbid_records_def smod_def)
  then show ?thesis
    using \<open>?p \<noteq> []\<close> i other eqs
    by (auto simp: drain_lookups_eq Let_def nth_list_update nth_fold_close simp del: map_append fold_append)
qed

text \<open>A lookup of another TBID gets this record, while the one that asked for it is closed.\<close>

definition demo_waiting :: communerd where
  "demo_waiting = snd (open_lookup (tbid_key ''n'' ''other'')
     (snd (open_lookup (tbid_key ''n'' (replicate 64 CHR ''0'')) (communerd_new []))))"

lemma tbid_key_inj [simp]: "tbid_key ns t = tbid_key ns u \<longleftrightarrow> t = u"
  by (simp add: tbid_key_def)

lemma other_tbid: "replicate 64 CHR ''0'' \<noteq> ''other''"
  by (rule notI, drule arg_cong [of _ _ length]) simp

lemma demo_waiting_pending:
  "co_pending_lookups demo_waiting = [(tbid_key ''n'' ''other'', 1), (tbid_key ''n'' (replicate 64 CHR ''0''), 0)]"
  by (simp add: demo_waiting_def open_lookup_def drop_pending_def communerd_new_def Let_def other_tbid other_tbid [symmetric])

theorem answer_reaches_first_lookup_witness:
  "co_lookups (snd (handle_tbid_records (demo_comm demo_unsigned) (Ok 5) [demo_kad] demo_waiting)) ! 1 =
     Answered (Some demo_unsigned)"
proof -
  let ?E = "demo_comm demo_unsigned"
  have "dir_inv [] ?E demo_waiting"
    unfolding demo_waiting_def by (intro open_lookup_inv communerd_new_inv)
  then have sound: "lookups_sound demo_waiting" by (simp add: dir_inv_def)
  have "index_records ?E (Ok 5) [] [demo_kad] demo_waiting = (Ok [demo_unsigned], index_record ?E (Ok 5) demo_unsigned demo_waiting)"
    using parse_unsigned [OF demo_unsigned_parses(1-3)] by simp
  from answer_reaches_first_lookup [OF sound this, of "tbid_key ''n'' ''other''" 1]
  show ?thesis by (simp add: demo_waiting_pending chosen_lookup_def demo_comm_def)
qed

subsection \<open>What stops the loop\<close>

text \<open>
  A record whose signature has fewer than 64 bytes ends the event loop of every communerd that
  retrieves it, under the software backend: the validator slices the signature and panics, and no
  later event is handled.
\<close>

theorem short_signature_stops_loop:
  assumes "ce_crypto E = software_crypto_server F k"
    and "from_slice E (ce_peer_of_json E) (kr_value rec) = Ok r" and "well_formed_peer r"
    and "pg_signature r \<noteq> []" and "length (pg_signature r) < 64"
    and "ce_hex_decode E (pg_tbid r) = Ok pub" and "32 \<le> length pub"
    and "ce_postcard_peer E (r\<lparr>pg_signature := []\<rparr>) = Ok m"
  shows "\<not> fst (gossip_event_loop E ((clock, RecordRetrieved (tbid_key ns t) (rec # recs)) # evs) s)"
proof -
  have panic: "parse_and_validate E rec = Panic"
    using validate_short_signature [where dec = "ce_hex_decode E" and pc = "ce_postcard_peer E" and F = F and k = k,
        OF assms(3-8)] assms(1,2)
    by (simp add: parse_and_validate_def)
  then have "fst (handle_event E clock (RecordRetrieved (tbid_key ns t) (rec # recs)) s) = Panic"
    by (simp add: handle_record_retrieved_def handle_tbid_records_def sbind_def smod_def sret_def)
  then show ?thesis by (auto split: prod.split result.split simp: prod_eq_iff)
qed

definition demo_short :: peer_record where
  "demo_short = demo_self\<lparr>pg_signature := [1]\<rparr>"

theorem short_signature_stops_loop_witness:
  "\<not> fst (gossip_event_loop (demo_comm demo_short)
     [(Ok 5, RecordRetrieved (tbid_key ''n'' ''t'') [demo_kad]), (Ok 6, DhtPeerDiscovered ''q'' [])] (communerd_new []))"
proof (rule short_signature_stops_loop)
  show "ce_crypto (demo_comm demo_short) = software_crypto_server demo_ffi []" by (simp add: demo_server_def)
  show "from_slice (demo_comm demo_short) (ce_peer_of_json (demo_comm demo_short)) (kr_value demo_kad) = Ok demo_short"
    by (simp add: demo_kad_def) (simp add: demo_comm_def)
  show "well_formed_peer demo_short"
    by (simp add: demo_short_def demo_self_def well_formed_peer_def list_all_length is_ascii_hexdigit_def)
  show "ce_hex_decode (demo_comm demo_short) (pg_tbid demo_short) = Ok (replicate 96 7)"
    by (simp add: demo_short_def demo_self_def)
qed (simp_all add: demo_short_def)

subsection \<open>Families\<close>

lemma byte_array_no_family: "\<exists>e. family_of_json (byte_array_json v) = Err e"
  by (cases v) (simp_all add: byte_array_json_def jnum_def)

text \<open>
  No family record of the DHT gets into the cache: the bytes of the record are printed as a
  JSON array of numbers before they are parsed, which is no family record, so that every fetch
  that misses the cache ends without a record and leaves the cache as it was.
\<close>

theorem family_fetch_never_caches:
  assumes "family_cache_lookup tbid_hex s = None"
    and "\<And>v. from_slice E Ok (ce_json_print E (byte_array_json v)) = Ok (byte_array_json v)"
    and "fetch_and_cache_family_record E evs tbid_hex ns s = (r, s')"
  shows "r = Ok None \<and> co_family_cache s' = co_family_cache s"
proof (cases "co_swarm s")
  case True
  have "ce_json_parse E (ce_json_print E (byte_array_json v)) = Ok (byte_array_json v)" for v
    using assms(2) [of v] by (simp add: from_slice_def result_simps)
  then have gate: "gate_family_record E tbid_hex (ce_json_print E (byte_array_json v)) = Ok None" for v
    using byte_array_no_family [of v] by (auto simp: gate_family_record_def from_slice_def)
  let ?s1 = "snd (open_family_lookup (family_key ns tbid_hex) s)"
  have "untouched (snd (gossip_event_loop E evs ?s1)) = untouched ?s1" by (rule still.loop) simp
  then have cache: "co_family_cache (snd (gossip_event_loop E evs ?s1)) = co_family_cache s"
    by (simp add: untouched_def open_family_lookup_def drop_pending_family_def Let_def split: option.splits)
  have drop: "co_family_cache (drop_pending key x) = co_family_cache x" for key x
    by (simp add: drop_pending_def close_lookup_def split: option.split)
  show ?thesis
    using assms(1,3) True cache
    by (auto simp: fetch_and_cache_family_record_def Let_def gate drop split: prod.splits reply.splits option.splits)
qed (use assms in \<open>simp add: fetch_and_cache_family_record_def\<close>)

text \<open>The answer of the DHT is the very record that was published.\<close>

definition demo_family_record :: family_record where
  "demo_family_record = \<lparr>fam_members = [''a''], fam_matrix = [[[1]]]\<rparr>"

theorem family_fetch_never_caches_witness:
  "\<exists>s'. fetch_and_cache_family_record (demo_comm demo_self)
     [(Ok 5, RecordRetrieved (family_key ''n'' ''a'') [demo_kad])] ''a'' ''n'' (demo_comm_started demo_self) = (Ok None, s') \<and>
     co_family_lookups s' = [Answered (Some [1])]"
proof -
  obtain r s' where f: "fetch_and_cache_family_record (demo_comm demo_self)
     [(Ok 5, RecordRetrieved (family_key ''n'' ''a'') [demo_kad])] ''a'' ''n'' (demo_comm_started demo_self) = (r, s')" by fastforce
  have "r = Ok None"
    using family_fetch_never_caches [OF _ _ f]
    by (simp add: family_cache_lookup_def demo_comm_started_def enable_p2p_def communerd_new_def)
  moreover have "co_family_lookups s' = [Answered (Some [1])]"
    using f byte_array_no_family [of "[1]"]
    by (auto simp: fetch_and_cache_family_record_def open_family_lookup_def drop_pending_family_def family_key_def
        family_cache_lookup_def demo_comm_started_def enable_p2p_def communerd_new_def send_command_def Let_def
        handle_record_retrieved_def ends_with_def answer_family_lookup_def smod_def sret_def sbind_def demo_kad_def
        gate_family_record_def)
  ultimately show ?thesis using f by blast
qed

section \<open>The identity of the communerd\<close>

text \<open>
  What a communerd knows of itself, from the start of its swarm on: its peer id, its listen address,
  and the detector that tells it of another holder of its identity.
\<close>

subsection \<open>The listen address\<close>

definition identity :: "communerd \<Rightarrow> string option \<times> string option" where
  "identity s = (co_local_peer_id s, co_local_multiaddr s)"

lemma identity_send [simp]: "identity (send_command c s) = identity s"
  by (simp add: identity_def)

lemma keeps_identity_send: "keeps (\<lambda>s. identity s = i) (smod (send_command c))"
  by (rule keeps_smod) simp

lemma keeps_identity_dial: "keeps (\<lambda>s. identity s = i) (dial_all f as)"
proof (induction "as")
  case (Cons a "as")
  then show ?case unfolding dial_all.simps by (intro keeps_sbind keeps_slift keeps_identity_send)
qed simp

lemma identity_bootstrap: "identity (snd (bootstrap_dht E addrs s)) = identity s"
proof -
  have "keeps (\<lambda>x. identity x = identity s) (bootstrap_dht E addrs)"
  proof (unfold keeps_def, intro allI impI)
    fix x assume "identity x = identity s"
    then show "identity (snd (bootstrap_dht E addrs x)) = identity s"
      by (auto simp: bootstrap_dht_def simp del: sbind_smod
          intro!: keepsD [of "\<lambda>x. identity x = identity s"] keeps_sbind keeps_identity_dial keeps_identity_send)
  qed
  then show ?thesis by (rule keepsD) simp
qed

lemma identity_register: "identity (snd (register_and_discover E clock servers ns tb n a s)) = identity s"
  unfolding register_and_discover_def Let_def
  by (auto split: option.split simp: put_self_record_def Let_def intro!: keepsD [of "\<lambda>x. identity x = identity s"] keeps_sbind
      keeps_identity_dial keeps_smod)

lemma identity_event: "identity (snd (handle_event E clock ev s)) = identity s"
  using still.event [of s "untouched s" E clock ev] by (simp add: untouched_def identity_def)

lemma identity_publish_family: "identity (publish_family_record E ns fr s) = identity s"
proof -
  have "identity (fold (\<lambda>m. send_command (c m)) ms s) = identity s" for c :: "string \<Rightarrow> swarm_command" and ms
    by (induction ms arbitrary: s) simp_all
  then show ?thesis by (simp add: publish_family_record_def Let_def split: option.split)
qed

lemmas identity_ops = open_lookup_def close_wait_def open_family_lookup_def drop_pending_def drop_pending_family_def
  close_lookup_def family_cache_insert_def line_for_tbid_eq on_communerdette_def co_add_peer_def co_remove_peer_def
  pool_add_def notify_peer_change_def set_peer_change_callback_def refresh_self_registration_def put_self_record_def
  report_probity_def heartbeat_broadcast_round_def publish_attest_willing_def shutdown_relationships_def

lemma co_step_identity:
  assumes "co_step E s s'" and "co_local_peer_id s \<noteq> None" shows "identity s' = identity s"
  using assms(1)
proof cases
  case step_enable
  then show ?thesis using assms(2) by (simp add: enable_p2p_def)
qed (auto simp: identity_event identity_register identity_bootstrap identity_publish_family,
    (auto simp: identity_def identity_ops Let_def split: option.split result.split reply.split)?)

text \<open>
  The listen address of a communerd is the one its swarm had at the moment it was started: where
  it had none yet, no operation and no event sets it later, not the event that a listener is
  ready, and no registration ever succeeds.
\<close>

theorem registration_needs_early_address:
  assumes "co_local_peer_id s0 = None"
    and "(co_step E)\<^sup>*\<^sup>* (enable_p2p E' w ns peer_id None s0) s"
  shows "fst (register_and_discover E clock servers ns' tb n a s) \<noteq> Ok ()"
proof -
  have "identity s = (Some peer_id, None)"
    using assms(2)
  proof (induction rule: rtranclp_induct)
    case base
    then show ?case using assms(1) by (simp add: enable_p2p_def identity_def)
  next
    case (step y z)
    from step.IH have "co_local_peer_id y \<noteq> None" by (simp add: identity_def)
    from co_step_identity [OF step.hyps(2) this] step.IH show ?case by simp
  qed
  then have none: "co_local_multiaddr s = None" and id: "co_local_peer_id s = Some peer_id" by (simp_all add: identity_def)
  show ?thesis
  proof (cases "co_swarm s")
    case True
    obtain r s1 where s1: "dial_all (resolve_known_server E) (ce_shuffle E (filter (\<lambda>x. x \<noteq> a) servers)) s = (r, s1)" by fastforce
    then have "co_local_multiaddr s1 = None" using dial_all_shape [OF True] none by fastforce
    with True id s1 show ?thesis
      by (cases r) (auto simp: register_and_discover_def sbind_def sget_def slift_def)
  qed (simp add: register_and_discover_def)
qed

theorem registration_needs_early_address_witness:
  "fst (register_and_discover (demo_comm demo_self) (Ok 5) [] ''n'' demo_tbid 9 ''a:1''
     (snd (handle_event (demo_comm demo_self) (Ok 3) (ListenReady ''m'')
       (enable_p2p (demo_comm demo_self) 8 ''n'' ''p'' None (communerd_new []))))) \<noteq> Ok ()"
  by (rule registration_needs_early_address [of "communerd_new []", OF _ r_into_rtranclp [of "co_step (demo_comm demo_self)", OF step_event]])
    (simp add: communerd_new_def)

subsection \<open>Dormancy\<close>

definition dormancy_state :: "communerd \<Rightarrow> collision_detector option \<times> bool" where
  "dormancy_state s = (co_detector s, EnterDormancy \<in> set (co_commands s))"

lemma dormancy_updates [simp]:
  "dormancy_state (pool_add a s) = dormancy_state s"
  "dormancy_state (index_record E clock r s) = dormancy_state s"
  "dormancy_state (drain_lookups E result s) = dormancy_state s"
  "dormancy_state (answer_family_lookup key recs s) = dormancy_state s"
  "dormancy_state (snd (handle_gossip E clock data s)) = dormancy_state s"
  by (simp_all add: dormancy_state_def pool_add_def index_record_eq drain_lookups_def fold_close_lookup
      answer_lookup_def answer_family_lookup_def handle_gossip_def Let_def split: list.split option.split prod.split result.split)

lemma dormancy_peer_records: "dormancy_state (snd (handle_peer_records E clock recs s)) = dormancy_state s"
  by (induction recs arbitrary: s) (auto split: result.split option.split)

lemma dormancy_index_records: "dormancy_state (snd (index_records E clock valid recs s)) = dormancy_state s"
  by (induction recs arbitrary: s valid) (auto split: result.split option.split)

lemma dormancy_record_retrieved: "dormancy_state (snd (handle_record_retrieved E clock key recs s)) = dormancy_state s"
proof -
  have "keeps (\<lambda>x. dormancy_state x = dormancy_state s) (handle_record_retrieved E clock key recs)"
    unfolding handle_record_retrieved_def handle_tbid_records_def
    by (intro keeps_sbind keeps_if keeps_sret keeps_smod)
      (auto simp: keeps_def dormancy_peer_records dormancy_index_records)
  then show ?thesis by (rule keepsD) simp
qed

text \<open>What makes a communerd send the command.\<close>

definition own_heartbeat_elsewhere :: "comm_env \<Rightarrow> collision_detector \<Rightarrow> network_event \<Rightarrow> bool" where
  "own_heartbeat_elsewhere E det ev \<longleftrightarrow> (\<exists>data source hb. ev = HeartbeatMessage data source \<and>
     from_slice E (ce_heartbeat_of_json E) data = Ok hb \<and> hb_peer_id hb = cd_my_peer_id det \<and>
     hb_nonce hb \<notin> set (cd_my_nonces det) \<and> 64 \<le> length (hb_signature hb) \<and>
     cs_verify_ed25519 (ce_crypto E) (cd_my_pub_key det) (hb_canonical hb) (take 64 (hb_signature hb)) = Ok True)"

lemma event_dormancy:
  "dormancy_state (snd (handle_event E clock ev s)) = dormancy_state s \<or>
   (co_detector (snd (handle_event E clock ev s)) = co_detector s \<and>
    (\<exists>det. co_detector s = Some det \<and> own_heartbeat_elsewhere E det ev))"
proof (cases ev)
  case (HeartbeatMessage data source)
  show ?thesis
  proof (cases "\<exists>hb det ev'. from_slice E (ce_heartbeat_of_json E) data = Ok hb \<and> co_detector s = Some det \<and>
      on_heartbeat hb (ce_crypto E) det = (Ok (Some ev') :: (heartbeat option, node_error) result)")
    case True
    then show ?thesis using HeartbeatMessage
      by (auto simp: handle_heartbeat_def own_heartbeat_elsewhere_def on_heartbeat_confirmed_iff
          split: result.split option.split)
  next
    case False
    then show ?thesis using HeartbeatMessage by (auto simp: handle_heartbeat_def split: result.split option.split)
  qed
qed (auto simp: dormancy_record_retrieved handle_dht_peer_discovered_def smod_def sret_def)

text \<open>
  The event loop sends its swarm to dormancy only after a heartbeat in the communerd's own
  name, under its own key, with a nonce that it has not sent itself.
\<close>

theorem dormancy_needs_own_heartbeat:
  assumes "EnterDormancy \<notin> set (co_commands s)" and "co_detector s = Some det"
    and "EnterDormancy \<in> set (co_commands (snd (gossip_event_loop E evs s)))"
  shows "\<exists>(clock, ev) \<in> set evs. own_heartbeat_elsewhere E det ev"
  using assms
proof (induction evs arbitrary: s)
  case (Cons e evs)
  obtain clock ev where e: "e = (clock, ev)" by fastforce
  obtain r s1 where s1: "handle_event E clock ev s = (r, s1)" by fastforce
  show ?case
  proof (cases "own_heartbeat_elsewhere E det ev")
    case False
    then have same: "dormancy_state s1 = dormancy_state s" using event_dormancy [of E clock ev s] s1 Cons.prems(2) by auto
    then have "EnterDormancy \<notin> set (co_commands s1)" "co_detector s1 = Some det"
      using Cons.prems by (simp_all add: dormancy_state_def)
    moreover from this have "EnterDormancy \<in> set (co_commands (snd (gossip_event_loop E evs s1)))"
      using Cons.prems(3) s1 e by (auto split: result.splits)
    ultimately show ?thesis using Cons.IH by auto
  qed (use e in auto)
qed simp

definition demo_own_heartbeat :: heartbeat where
  "demo_own_heartbeat = (let hb = \<lparr>hb_peer_id = ''p'', hb_timestamp_ns = 1, hb_nonce = replicate 16 9, hb_curve = 1, hb_signature = []\<rparr>
     in hb\<lparr>hb_signature := demo_public [] @ demo_tag 31 (hb_canonical hb)\<rparr>)"

definition demo_hb_comm :: comm_env where
  "demo_hb_comm = (demo_comm demo_self)\<lparr>ce_heartbeat_of_json := (\<lambda>_. Ok demo_own_heartbeat)\<rparr>"

theorem dormancy_needs_own_heartbeat_witness:
  "\<exists>(clock, ev) \<in> {(Ok 5, HeartbeatMessage [1] ''q'')}.
     own_heartbeat_elsewhere demo_hb_comm (collision_detector_new ''p'' (demo_public []) 8) ev"
proof -
  let ?evs = "[(Ok 5, HeartbeatMessage [1] ''q'')]"
  have "EnterDormancy \<in> set (co_commands (snd (gossip_event_loop demo_hb_comm ?evs (demo_comm_started demo_self))))"
    by (simp add: handle_heartbeat_def demo_hb_comm_def demo_comm_def from_slice_def demo_comm_started_def enable_p2p_def
        communerd_new_def collision_detector_new_def on_heartbeat_def demo_own_heartbeat_def demo_server_def
        ed25519_verify_def hb_canonical_def Let_def send_command_def verify_rc_def)
  from dormancy_needs_own_heartbeat [OF _ _ this]
  show ?thesis
    by (simp add: demo_comm_started_def enable_p2p_def communerd_new_def demo_comm_def)
qed

end
