(* ===== verification/Swarm.thy ===== *)
theory Swarm
  imports Communerd_Ops
begin

section \<open>The swarm\<close>

text \<open>
  Models \<^verbatim>\<open>swarm_loop\<close> (\<^verbatim>\<open>communerd/p2p/swarm.rs\<close>), the task between the communerd and
  libp2p, the topics of \<^verbatim>\<open>p2p/gossip.rs\<close> and the framing of \<^verbatim>\<open>p2p/rpc_protocol.rs\<close>. One
  iteration takes a command, an event of libp2p or a finished inbound request. What it asks of
  libp2p is appended to a list of actions; the ids libp2p gives back are in the input.
\<close>

subsection \<open>Frames\<close>

definition MAX_RPC_FRAME_BYTES :: nat where
  "MAX_RPC_FRAME_BYTES = 16 * 1024 * 1024"

definition u32_to_be_bytes :: "u32 \<Rightarrow> bytes" where
  "u32_to_be_bytes w = map (\<lambda>i. ucast (drop_bit (8 * i) w)) [3, 2, 1, 0]"

definition u32_from_be_bytes :: "bytes \<Rightarrow> u32" where
  "u32_from_be_bytes bs = fold (\<lambda>b w. 256 * w + ucast b) bs 0"

definition write_length_prefixed :: "bytes \<Rightarrow> bytes" where
  "write_length_prefixed data = u32_to_be_bytes (word_of_nat (length data)) @ data"

datatype frame_error = UnexpectedEof | FrameTooLarge

text \<open>The frame and what is left of the stream.\<close>

definition read_length_prefixed :: "bytes \<Rightarrow> (bytes \<times> bytes, frame_error) result" where
  "read_length_prefixed io =
     (if length io < 4 then Err UnexpectedEof
      else (let len = unat (u32_from_be_bytes (take 4 io)) in
        if len > MAX_RPC_FRAME_BYTES then Err FrameTooLarge
        else if length io < 4 + len then Err UnexpectedEof
        else Ok (take len (drop 4 io), drop (4 + len) io)))"

subsection \<open>Topics\<close>

definition probity_topic :: "string \<Rightarrow> string" where
  "probity_topic namespace = ''/foretias/'' @ namespace @ ''/probity/v1''"

definition heartbeat_topic :: "string \<Rightarrow> string" where
  "heartbeat_topic namespace = ''/foretias/'' @ namespace @ ''/heartbeat/v1''"

definition is_heartbeat_topic :: "string \<Rightarrow> bool" where
  "is_heartbeat_topic t \<longleftrightarrow> take (length ''/foretias/'') t = ''/foretias/'' \<and> ends_with t ''/heartbeat/v1''"

subsection \<open>Actions, events and state\<close>

datatype swarm_action =
    KadBootstrap
  | KadStartProviding string
  | KadGetProviders string
  | KadPutRecord kad_record
  | KadPutRecordTo kad_record "string list"
  | KadStorePut kad_record
  | KadGetRecord string
  | KadAddAddress string string
  | DialPeer string
  | Disconnect string
  | RemoveListener nat
  | GossipPublish string bytes
  | SendRequest string bytes
  | SendResponse nat bytes
  | HandleRequest nat string json

datatype outbound_failure = OfTimeout | OfOther string

datatype swarm_event =
    NewListenAddr string nat
  | ListenerGone nat
  | ConnectionEstablished string
  | ConnectionClosed string
  | IdentifyReceived string
  | PingResult string bool
  | KadBootstrapOk
  | KadFoundRecord nat kad_record
  | KadNoFurtherRecord nat
  | KadGetFailed nat
  | KadPutOk nat
  | KadPutFailed nat string
  | KadFoundProviders "string list"
  | RpcRequest string nat bytes nat
  | RpcResponse nat bytes
  | RpcOutboundFailure nat outbound_failure
  | GossipReceived string string bytes
  | OtherEvent

text \<open>
  Maps by the ids of libp2p: a query to its key and records, a request to the channel of its
  reply, an inbound request to its channel and peer. \<open>sm_replies\<close> are the replies sent.
\<close>

record swarm_state =
  sm_listener_ids :: "nat list"
  sm_local_multiaddr :: "string option"
  sm_pending_get_record :: "(nat \<times> string \<times> kad_record list) list"
  sm_pending_put_record :: "(nat \<times> string) list"
  sm_pending_rpc :: "(nat \<times> nat) list"
  sm_pending_inbound :: "(nat \<times> nat \<times> string) list"
  sm_events :: "network_event list"
  sm_replies :: "(nat \<times> (json, transport_error) result) list"
  sm_actions :: "swarm_action list"

definition swarm_new :: swarm_state where
  "swarm_new = \<lparr>sm_listener_ids = [], sm_local_multiaddr = None, sm_pending_get_record = [],
     sm_pending_put_record = [], sm_pending_rpc = [], sm_pending_inbound = [], sm_events = [],
     sm_replies = [], sm_actions = []\<rparr>"

definition emit :: "network_event \<Rightarrow> swarm_state \<Rightarrow> swarm_state" where
  "emit ev s = s\<lparr>sm_events := sm_events s @ [ev]\<rparr>"

definition act :: "swarm_action \<Rightarrow> swarm_state \<Rightarrow> swarm_state" where
  "act a s = s\<lparr>sm_actions := sm_actions s @ [a]\<rparr>"

definition reply_to :: "nat \<Rightarrow> (json, transport_error) result \<Rightarrow> swarm_state \<Rightarrow> swarm_state" where
  "reply_to ch r s = s\<lparr>sm_replies := sm_replies s @ [(ch, r)]\<rparr>"

text \<open>What libp2p gives back for a command, and the codecs.\<close>

record swarm_answers =
  sa_query_id :: nat
  sa_put_record :: "(nat, string) result"
  sa_request_id :: nat
  sa_connected_peers :: "string list"

record swarm_env =
  se_parse :: "bytes \<Rightarrow> (json, string) result"
  se_print :: "json \<Rightarrow> bytes"
  se_print_request :: "json \<Rightarrow> (bytes, string) result"
  se_print_report :: "probity_report \<Rightarrow> (bytes, string) result"
  se_print_heartbeat :: "heartbeat \<Rightarrow> (bytes, string) result"
  se_has_rpc_handler :: bool

subsection \<open>Commands\<close>

definition publish_bytes :: "string \<Rightarrow> (bytes, string) result \<Rightarrow> swarm_state \<Rightarrow> swarm_state" where
  "publish_bytes topic b s = (case b of Ok bs \<Rightarrow> act (GossipPublish topic bs) s | _ \<Rightarrow> s)"

fun handle_command :: "swarm_env \<Rightarrow> swarm_answers \<Rightarrow> swarm_command \<Rightarrow> swarm_state \<Rightarrow> swarm_state" where
  "handle_command E A Bootstrap s = act KadBootstrap s"
| "handle_command E A (Provide key) s = act (KadStartProviding key) s"
| "handle_command E A (GetProviders key) s = act (KadGetProviders key) s"
| "handle_command E A (Dial addr) s = act (DialPeer addr) s"
| "handle_command E A (AddAddress peer_id addr) s = act (KadAddAddress peer_id addr) s"
| "handle_command E A EnterDormancy s =
     (fold (\<lambda>lid. act (RemoveListener lid)) (sm_listener_ids s)
        (fold (\<lambda>peer. act (Disconnect peer)) (sa_connected_peers A) s))\<lparr>sm_listener_ids := []\<rparr>"
| "handle_command E A (PublishProbity report namespace) s =
     publish_bytes (probity_topic namespace) (se_print_report E report) s"
| "handle_command E A (PublishHeartbeat hb namespace) s =
     publish_bytes (heartbeat_topic namespace) (se_print_heartbeat E hb) s"
| "handle_command E A (PutRecord key rec) s =
     (case sa_put_record A of
        Ok query_id \<Rightarrow> (act (KadPutRecord rec) s)\<lparr>sm_pending_put_record :=
          AList.update query_id key (sm_pending_put_record s)\<rparr>
      | Err e \<Rightarrow> emit (RecordPutError key e) (act (KadPutRecord rec) s)
      | Panic \<Rightarrow> act (KadPutRecord rec) s)"
| "handle_command E A (PutRecordTo key rec peers) s =
     (act (KadPutRecordTo rec peers) s)\<lparr>sm_pending_put_record :=
       AList.update (sa_query_id A) key (sm_pending_put_record s)\<rparr>"
| "handle_command E A (StoreRecordLocal rec) s = act (KadStorePut rec) s"
| "handle_command E A (GetRecord key) s =
     (act (KadGetRecord key) s)\<lparr>sm_pending_get_record :=
       AList.update (sa_query_id A) (key, []) (sm_pending_get_record s)\<rparr>"
| "handle_command E A (ProvideForCapability capability namespace) s =
     act (KadStartProviding (provider_key namespace capability)) s"
| "handle_command E A (GetProvidersForCapability capability namespace) s =
     act (KadGetProviders (provider_key namespace capability)) s"
| "handle_command E A (RequestResponse peer_id request ch) s =
     (case se_print_request E request of
        Ok bs \<Rightarrow> (act (SendRequest peer_id bs) s)\<lparr>sm_pending_rpc :=
          AList.update (sa_request_id A) ch (sm_pending_rpc s)\<rparr>
      | Err e \<Rightarrow> reply_to ch (Err (TrDecode e)) s
      | Panic \<Rightarrow> s)"

subsection \<open>Events\<close>

text \<open>The answer to a request: an error of the peer, or the result, which is null where there is none.\<close>

definition rpc_reply :: "swarm_env \<Rightarrow> bytes \<Rightarrow> (json, transport_error) result" where
  "rpc_reply E response = (case se_parse E response of
     Ok v \<Rightarrow> (case jget ''error'' v of
         Some err \<Rightarrow> Err (TrRpc (sint (word_of_int (unwrap_or (- 1) (Option.bind (jget ''code'' err) json_i64)) :: 32 word))
           (unwrap_or ''unknown'' (get_str ''message'' err)))
       | None \<Rightarrow> Ok (unwrap_or JNull (jget ''result'' v)))
   | Err e \<Rightarrow> Err (TrDecode e)
   | Panic \<Rightarrow> Panic)"

fun handle_swarm_event :: "swarm_env \<Rightarrow> swarm_event \<Rightarrow> swarm_state \<Rightarrow> swarm_state" where
  "handle_swarm_event E (NewListenAddr address lid) s =
     emit (ListenReady address) (s\<lparr>sm_listener_ids := List.insert lid (sm_listener_ids s),
       sm_local_multiaddr := (case sm_local_multiaddr s of None \<Rightarrow> Some address | ma \<Rightarrow> ma)\<rparr>)"
| "handle_swarm_event E (ListenerGone lid) s = s\<lparr>sm_listener_ids := remove1 lid (sm_listener_ids s)\<rparr>"
| "handle_swarm_event E (ConnectionEstablished peer_id) s = emit (Connected peer_id) s"
| "handle_swarm_event E (ConnectionClosed peer_id) s = emit (Disconnected peer_id) s"
| "handle_swarm_event E (IdentifyReceived peer_id) s = emit (Identified peer_id) s"
| "handle_swarm_event E (PingResult peer_id rtt) s = (if rtt then emit (PingSuccess peer_id) s else s)"
| "handle_swarm_event E KadBootstrapOk s = emit DhtBootstrapComplete s"
| "handle_swarm_event E (KadFoundRecord query_id rec) s =
     s\<lparr>sm_pending_get_record := AList.map_entry query_id (\<lambda>(key, recs). (key, recs @ [rec])) (sm_pending_get_record s)\<rparr>"
| "handle_swarm_event E (KadNoFurtherRecord query_id) s = (case map_of (sm_pending_get_record s) query_id of
     Some (key, recs) \<Rightarrow> emit (RecordRetrieved key recs)
       (s\<lparr>sm_pending_get_record := AList.delete query_id (sm_pending_get_record s)\<rparr>)
   | None \<Rightarrow> s)"
| "handle_swarm_event E (KadGetFailed query_id) s =
     s\<lparr>sm_pending_get_record := AList.delete query_id (sm_pending_get_record s)\<rparr>"
| "handle_swarm_event E (KadPutOk query_id) s = (case map_of (sm_pending_put_record s) query_id of
     Some key \<Rightarrow> emit (RecordPutOk key) (s\<lparr>sm_pending_put_record := AList.delete query_id (sm_pending_put_record s)\<rparr>)
   | None \<Rightarrow> s)"
| "handle_swarm_event E (KadPutFailed query_id e) s = (case map_of (sm_pending_put_record s) query_id of
     Some key \<Rightarrow> emit (RecordPutError key e) (s\<lparr>sm_pending_put_record := AList.delete query_id (sm_pending_put_record s)\<rparr>)
   | None \<Rightarrow> s)"
| "handle_swarm_event E (KadFoundProviders providers) s = fold (\<lambda>p. emit (DhtPeerDiscovered p [])) providers s"
| "handle_swarm_event E (RpcRequest peer request_id request ch) s = (case se_parse E request of
     Ok req_val \<Rightarrow>
       (if \<not> se_has_rpc_handler E then s
        else act (HandleRequest request_id (unwrap_or [] (get_str ''method'' req_val))
                    (unwrap_or JNull (jget ''params'' req_val)))
               (s\<lparr>sm_pending_inbound := AList.update request_id (ch, peer) (sm_pending_inbound s)\<rparr>))
   | _ \<Rightarrow> s)"
| "handle_swarm_event E (RpcResponse request_id response) s = (case map_of (sm_pending_rpc s) request_id of
     Some ch \<Rightarrow> reply_to ch (rpc_reply E response)
       (s\<lparr>sm_pending_rpc := AList.delete request_id (sm_pending_rpc s)\<rparr>)
   | None \<Rightarrow> s)"
| "handle_swarm_event E (RpcOutboundFailure request_id failure) s = (case map_of (sm_pending_rpc s) request_id of
     Some ch \<Rightarrow> reply_to ch (Err (case failure of OfTimeout \<Rightarrow> TrTimeout | OfOther e \<Rightarrow> TrConnect e))
       (s\<lparr>sm_pending_rpc := AList.delete request_id (sm_pending_rpc s)\<rparr>)
   | None \<Rightarrow> s)"
| "handle_swarm_event E (GossipReceived source topic data) s =
     emit (if is_heartbeat_topic topic then HeartbeatMessage data source else GossipMessage data source) s"
| "handle_swarm_event E OtherEvent s = s"

subsection \<open>The loop\<close>

text \<open>The bytes of a finished inbound request; a handler that fails leaves none.\<close>

definition inbound_bytes :: "swarm_env \<Rightarrow> (json, transport_error) result \<Rightarrow> bytes" where
  "inbound_bytes E r = (case r of Ok v \<Rightarrow> se_print E v | _ \<Rightarrow> [])"

definition handle_inbound_result :: "nat \<Rightarrow> bytes \<Rightarrow> swarm_state \<Rightarrow> swarm_state" where
  "handle_inbound_result request_id bs s = (case map_of (sm_pending_inbound s) request_id of
     Some (ch, peer) \<Rightarrow> act (SendResponse ch bs)
       (s\<lparr>sm_pending_inbound := AList.delete request_id (sm_pending_inbound s)\<rparr>)
   | None \<Rightarrow> s)"

datatype swarm_input =
    InCommand swarm_answers swarm_command
  | InEvent swarm_event
  | InInbound nat bytes

fun swarm_step :: "swarm_env \<Rightarrow> swarm_input \<Rightarrow> swarm_state \<Rightarrow> swarm_state" where
  "swarm_step E (InCommand A c) s = handle_command E A c s"
| "swarm_step E (InEvent ev) s = handle_swarm_event E ev s"
| "swarm_step E (InInbound request_id bs) s = handle_inbound_result request_id bs s"

definition swarm_loop :: "swarm_env \<Rightarrow> swarm_input list \<Rightarrow> swarm_state \<Rightarrow> swarm_state" where
  "swarm_loop E ins s = fold (swarm_step E) ins s"

end
