(* ===== verification/Swarm_Props.thy ===== *)
theory Swarm_Props
  imports Swarm Communerd_Claims
begin

section \<open>What the swarm promises\<close>

text \<open>
  Frames come back as they were written, a query's event holds what the query found, every request
  is answered by its own answer, and an answer over libp2p reads as the same answer over TCP.
\<close>

subsection \<open>Frames\<close>

lemma be_bytes_nat:
  assumes "n < 2 ^ 32"
  shows "256 * (256 * (256 * (n div 2 ^ 24 mod 256) + n div 2 ^ 16 mod 256) + n div 2 ^ 8 mod 256) + n mod 256 = (n :: nat)"
proof -
  have "n div 2 ^ 16 = n div 2 ^ 8 div 256" "n div 2 ^ 24 = n div 2 ^ 16 div 256" "n div 2 ^ 8 = n div 256"
    by (simp_all add: div_mult2_eq [symmetric])
  moreover have "n div 2 ^ 24 mod 256 = n div 2 ^ 24" using assms by simp
  ultimately show ?thesis by (simp only: mult_div_mod_eq)
qed

lemma ucast_byte: "(ucast (ucast (drop_bit k w :: u32) :: u8) :: u32) = word_of_nat (unat w div 2 ^ k mod 256)"
proof -
  have "unat w < 2 ^ 32" using unsigned_less [of w, where 'a = nat] by simp
  then have "unat (drop_bit k w) = unat w div 2 ^ k" by (simp add: unsigned_drop_bit_eq take_bit_nat_eq_self) (simp add: drop_bit_eq_div)
  moreover have "unat (ucast x :: u8) = unat x mod 256" for x :: u32 by (simp add: unsigned_ucast_eq take_bit_eq_mod)
  ultimately have "unat (ucast (drop_bit k w) :: u8) = unat w div 2 ^ k mod 256" by simp
  then show ?thesis by (metis of_nat_unat)
qed

lemma u32_be_roundtrip [simp]: "u32_from_be_bytes (u32_to_be_bytes w) = w"
proof -
  let ?n = "unat w"
  have "u32_from_be_bytes (u32_to_be_bytes w) =
      word_of_nat (256 * (256 * (256 * (?n div 2 ^ 24 mod 256) + ?n div 2 ^ 16 mod 256) + ?n div 2 ^ 8 mod 256) + ?n mod 256)"
    using ucast_byte [of 0 w]
    by (simp add: u32_from_be_bytes_def u32_to_be_bytes_def ucast_byte)
  also have "\<dots> = word_of_nat ?n" using be_bytes_nat [of ?n] unsigned_less [of w, where 'a = nat] by simp
  finally show ?thesis by simp
qed

lemma length_u32_to_be_bytes [simp]: "length (u32_to_be_bytes w) = 4"
  by (simp add: u32_to_be_bytes_def)

text \<open>
  A frame is read back as it was written, with the rest of the stream left over, up to 16 MiB;
  a longer one is written all the same and refused by the reader.
\<close>

theorem frame_roundtrip:
  assumes "length data < 2 ^ 32"
  shows "read_length_prefixed (write_length_prefixed data @ remain) =
    (if length data \<le> MAX_RPC_FRAME_BYTES then Ok (data, remain) else Err FrameTooLarge)"
proof -
  have "unat (word_of_nat (length data) :: u32) = length data" using assms by (simp add: unat_of_nat)
  then show ?thesis by (simp add: read_length_prefixed_def write_length_prefixed_def Let_def)
qed

theorem frame_roundtrip_witness:
  "read_length_prefixed (write_length_prefixed [1, 2] @ [3]) = Ok ([1, 2], [3])"
  by (subst frame_roundtrip) (simp_all add: MAX_RPC_FRAME_BYTES_def)

subsection \<open>Queries\<close>

lemma sm_updates [simp]:
  "sm_pending_get_record (emit ev s) = sm_pending_get_record s" "sm_pending_get_record (act a s) = sm_pending_get_record s"
  "sm_pending_get_record (reply_to ch r s) = sm_pending_get_record s"
  "sm_pending_rpc (emit ev s) = sm_pending_rpc s" "sm_pending_rpc (act a s) = sm_pending_rpc s"
  "sm_pending_rpc (reply_to ch r s) = sm_pending_rpc s"
  "sm_replies (emit ev s) = sm_replies s" "sm_replies (act a s) = sm_replies s"
  "sm_replies (reply_to ch r s) = sm_replies s @ [(ch, r)]"
  "sm_events (emit ev s) = sm_events s @ [ev]" "sm_events (act a s) = sm_events s"
  by (simp_all add: emit_def act_def reply_to_def)

lemma sm_folds [simp]:
  "sm_pending_get_record (fold (\<lambda>x. emit (e x)) xs s) = sm_pending_get_record s"
  "sm_pending_get_record (fold (\<lambda>x. act (a x)) xs s) = sm_pending_get_record s"
  "sm_pending_rpc (fold (\<lambda>x. emit (e x)) xs s) = sm_pending_rpc s"
  "sm_pending_rpc (fold (\<lambda>x. act (a x)) xs s) = sm_pending_rpc s"
  "sm_replies (fold (\<lambda>x. emit (e x)) xs s) = sm_replies s"
  "sm_replies (fold (\<lambda>x. act (a x)) xs s) = sm_replies s"
  by (induction xs arbitrary: s) simp_all

lemma publish_bytes_sels [simp]:
  "sm_pending_get_record (publish_bytes t b s) = sm_pending_get_record s"
  "sm_pending_rpc (publish_bytes t b s) = sm_pending_rpc s" "sm_replies (publish_bytes t b s) = sm_replies s"
  by (simp_all add: publish_bytes_def split: result.split)

lemma handle_inbound_sels [simp]:
  "sm_pending_get_record (handle_inbound_result i bs s) = sm_pending_get_record s"
  "sm_pending_rpc (handle_inbound_result i bs s) = sm_pending_rpc s"
  "sm_replies (handle_inbound_result i bs s) = sm_replies s"
  by (simp_all add: handle_inbound_result_def split: option.split prod.split)

text \<open>What the inputs say about one query: the records found for it, and whether they leave it running.\<close>

fun found :: "nat \<Rightarrow> swarm_input \<Rightarrow> kad_record list" where
  "found q (InEvent (KadFoundRecord q' rec)) = (if q' = q then [rec] else [])"
| "found q _ = []"

fun leaves_running :: "nat \<Rightarrow> swarm_input \<Rightarrow> bool" where
  "leaves_running q (InEvent (KadNoFurtherRecord q')) \<longleftrightarrow> q' \<noteq> q"
| "leaves_running q (InEvent (KadGetFailed q')) \<longleftrightarrow> q' \<noteq> q"
| "leaves_running q (InCommand A (GetRecord key)) \<longleftrightarrow> sa_query_id A \<noteq> q"
| "leaves_running q _ \<longleftrightarrow> True"

lemma step_query:
  assumes "map_of (sm_pending_get_record s) q = Some (key, recs)" and "leaves_running q i"
  shows "map_of (sm_pending_get_record (swarm_step E i s)) q = Some (key, recs @ found q i)"
proof (cases i)
  case (InCommand A c)
  then show ?thesis using assms by (cases c) (auto simp: update_conv' split: result.split)
next
  case (InEvent ev)
  then show ?thesis using assms
    by (cases ev) (auto simp: map_of_map_entry delete_conv' split: option.split result.split)
qed (use assms in simp)

lemma run_query:
  assumes "map_of (sm_pending_get_record s) q = Some (key, recs)" and "\<forall>i \<in> set ins. leaves_running q i"
  shows "map_of (sm_pending_get_record (swarm_loop E ins s)) q = Some (key, recs @ concat (map (found q) ins))"
  using assms
proof (induction ins arbitrary: s recs)
  case (Cons i ins)
  then show ?case using Cons.IH [OF step_query] by (simp add: swarm_loop_def)
qed (simp add: swarm_loop_def)

text \<open>
  When a query of the DHT ends with no further record, the event for the communerd has the key
  that was asked for and exactly the records that were found for the query, in their order; one that
  fails is forgotten without an event.
\<close>

theorem query_event_holds_found:
  assumes "sa_query_id A = q" and "\<forall>i \<in> set ins. leaves_running q i"
  shows "sm_events (swarm_loop E (InCommand A (GetRecord key) # ins @ [InEvent (KadNoFurtherRecord q)]) s) =
    sm_events (swarm_loop E (InCommand A (GetRecord key) # ins) s) @ [RecordRetrieved key (concat (map (found q) ins))]"
proof -
  let ?s = "handle_command E A (GetRecord key) s"
  have "map_of (sm_pending_get_record ?s) q = Some (key, [])" using assms(1) by (simp add: update_conv')
  from run_query [OF this assms(2)] show ?thesis by (simp add: swarm_loop_def)
qed

definition demo_answers :: "nat \<Rightarrow> swarm_answers" where
  "demo_answers q = \<lparr>sa_query_id = q, sa_put_record = Ok q, sa_request_id = q, sa_connected_peers = []\<rparr>"

definition demo_swarm_env :: swarm_env where
  "demo_swarm_env = \<lparr>se_parse = (\<lambda>bs. Ok (byte_array_json bs)), se_print = (\<lambda>_. []), se_print_request = (\<lambda>_. Ok []), se_print_report = (\<lambda>_. Err ''no''),
     se_print_heartbeat = (\<lambda>_. Err ''no''), se_has_rpc_handler = False\<rparr>"

definition demo_kad_record :: kad_record where
  "demo_kad_record = \<lparr>kr_key = ''k'', kr_value = [1], kr_publisher = None\<rparr>"

theorem query_event_holds_found_witness:
  "sm_events (swarm_loop demo_swarm_env (InCommand (demo_answers 1) (GetRecord ''k'') #
       [InEvent (KadFoundRecord 2 (demo_kad_record\<lparr>kr_value := []\<rparr>)), InEvent (KadFoundRecord 1 demo_kad_record)] @
       [InEvent (KadNoFurtherRecord 1)]) swarm_new) = [RecordRetrieved ''k'' [demo_kad_record]]"
  by (subst query_event_holds_found) (simp_all add: demo_answers_def swarm_loop_def swarm_new_def)

subsection \<open>Replies\<close>

text \<open>
  What an input says about the request libp2p knows by an id, the channels and the ids that come
  with the requests, and the same for the requests of other nodes.
\<close>

fun outcome :: "swarm_env \<Rightarrow> nat \<Rightarrow> swarm_input \<Rightarrow> (json, transport_error) result list" where
  "outcome E k (InEvent (RpcResponse k' response)) = (if k' = k then [rpc_reply E response] else [])"
| "outcome E k (InEvent (RpcOutboundFailure k' failure)) =
     (if k' = k then [Err (case failure of OfTimeout \<Rightarrow> TrTimeout | OfOther e \<Rightarrow> TrConnect e)] else [])"
| "outcome E k _ = []"

fun request_channel :: "swarm_input \<Rightarrow> nat list" where
  "request_channel (InCommand A (RequestResponse peer request ch)) = [ch]"
| "request_channel _ = []"

fun request_id :: "swarm_input \<Rightarrow> nat list" where
  "request_id (InCommand A (RequestResponse peer request ch)) = [sa_request_id A]"
| "request_id _ = []"

fun handled :: "nat \<Rightarrow> swarm_input \<Rightarrow> bytes list" where
  "handled k (InInbound k' bs) = (if k' = k then [bs] else [])"
| "handled k _ = []"

fun inbound_channel :: "swarm_input \<Rightarrow> nat list" where
  "inbound_channel (InEvent (RpcRequest peer k request ch)) = [ch]"
| "inbound_channel _ = []"

fun inbound_id :: "swarm_input \<Rightarrow> nat list" where
  "inbound_id (InEvent (RpcRequest peer k request ch)) = [k]"
| "inbound_id _ = []"

text \<open>What was sent on a channel: the replies to a request, the responses to another node's.\<close>

definition replies_on :: "nat \<Rightarrow> swarm_state \<Rightarrow> (json, transport_error) result list" where
  "replies_on ch s = map snd (filter (\<lambda>r. fst r = ch) (sm_replies s))"

fun response_on :: "nat \<Rightarrow> swarm_action \<Rightarrow> bytes list" where
  "response_on ch (SendResponse ch' bs) = (if ch' = ch then [bs] else [])"
| "response_on ch _ = []"

definition responses_on :: "nat \<Rightarrow> swarm_state \<Rightarrow> bytes list" where
  "responses_on ch s = concat (map (response_on ch) (sm_actions s))"

text \<open>Nobody waits on a channel; or the request of one id does, and nothing was sent on it.\<close>

definition unawaited :: "nat \<Rightarrow> swarm_state \<Rightarrow> bool" where
  "unawaited ch s \<longleftrightarrow> (\<forall>k. map_of (sm_pending_rpc s) k \<noteq> Some ch)"

definition awaiting :: "nat \<Rightarrow> nat \<Rightarrow> swarm_state \<Rightarrow> bool" where
  "awaiting k ch s \<longleftrightarrow> replies_on ch s = [] \<and> map_of (sm_pending_rpc s) k = Some ch \<and>
     (\<forall>k'. map_of (sm_pending_rpc s) k' = Some ch \<longrightarrow> k' = k)"

definition unresponded :: "nat \<Rightarrow> swarm_state \<Rightarrow> bool" where
  "unresponded ch s \<longleftrightarrow> (\<forall>k peer. map_of (sm_pending_inbound s) k \<noteq> Some (ch, peer))"

definition responding :: "nat \<Rightarrow> nat \<Rightarrow> swarm_state \<Rightarrow> bool" where
  "responding k ch s \<longleftrightarrow> responses_on ch s = [] \<and> (\<exists>peer. map_of (sm_pending_inbound s) k = Some (ch, peer)) \<and>
     (\<forall>k' peer. map_of (sm_pending_inbound s) k' = Some (ch, peer) \<longrightarrow> k' = k)"

lemma replies_on_simps [simp]:
  "replies_on ch (emit ev s) = replies_on ch s" "replies_on ch (act a s) = replies_on ch s"
  "replies_on ch (reply_to ch' r s) = replies_on ch s @ (if ch' = ch then [r] else [])"
  "replies_on ch (fold (\<lambda>x. emit (g x)) xs s) = replies_on ch s"
  "replies_on ch (fold (\<lambda>x. act (f x)) xs s) = replies_on ch s"
  "replies_on ch (publish_bytes t b s) = replies_on ch s"
  "replies_on ch (handle_inbound_result i bs s) = replies_on ch s"
  by (simp_all add: replies_on_def)

lemma replies_on_cong [simp]:
  "replies_on ch (s\<lparr>sm_pending_rpc := p\<rparr>) = replies_on ch s"
  "replies_on ch (s\<lparr>sm_pending_get_record := g\<rparr>) = replies_on ch s"
  "replies_on ch (s\<lparr>sm_pending_put_record := q\<rparr>) = replies_on ch s"
  "replies_on ch (s\<lparr>sm_pending_inbound := b\<rparr>) = replies_on ch s"
  "replies_on ch (s\<lparr>sm_listener_ids := l\<rparr>) = replies_on ch s"
  "replies_on ch (s\<lparr>sm_listener_ids := l, sm_local_multiaddr := m\<rparr>) = replies_on ch s"
  by (simp_all add: replies_on_def)

lemma step_unawaited:
  assumes "unawaited ch s" and "ch \<notin> set (request_channel i)"
  shows "unawaited ch (swarm_step E i s) \<and> replies_on ch (swarm_step E i s) = replies_on ch s"
proof (cases i)
  case (InCommand A c)
  then show ?thesis using assms by (cases c) (auto simp: unawaited_def update_conv' split: result.split)
next
  case (InEvent ev)
  then show ?thesis using assms
    by (cases ev) (auto simp: unawaited_def delete_conv' split: option.split result.split)
qed (use assms in \<open>simp add: unawaited_def\<close>)

lemma step_awaiting:
  assumes "awaiting k ch s" and "ch \<notin> set (request_channel i)" and "k \<notin> set (request_id i)"
  shows "case outcome E k i of
      [] \<Rightarrow> awaiting k ch (swarm_step E i s)
    | r # _ \<Rightarrow> unawaited ch (swarm_step E i s) \<and> replies_on ch (swarm_step E i s) = [r]"
proof (cases i)
  case (InCommand A c)
  then show ?thesis using assms by (cases c) (auto simp: awaiting_def update_conv' split: result.split)
next
  case (InEvent ev)
  then show ?thesis using assms
    by (cases ev) (auto simp: awaiting_def unawaited_def delete_conv' split: option.split result.split)
qed (use assms in \<open>simp add: awaiting_def\<close>)

lemma sm_inbound_sels [simp]:
  "sm_pending_inbound (emit ev s) = sm_pending_inbound s" "sm_pending_inbound (act a s) = sm_pending_inbound s"
  "sm_pending_inbound (reply_to ch r s) = sm_pending_inbound s"
  "sm_pending_inbound (publish_bytes t b s) = sm_pending_inbound s"
  by (simp_all add: emit_def act_def reply_to_def publish_bytes_def split: result.split)

lemma sm_inbound_folds [simp]:
  "sm_pending_inbound (fold (\<lambda>x. emit (g x)) xs s) = sm_pending_inbound s"
  "sm_pending_inbound (fold (\<lambda>x. act (f x)) xs s) = sm_pending_inbound s"
  by (induction xs arbitrary: s) simp_all

lemma responses_on_simps [simp]:
  "responses_on ch (emit ev s) = responses_on ch s" "responses_on ch (reply_to ch' r s) = responses_on ch s"
  "responses_on ch (act a s) = responses_on ch s @ response_on ch a"
  "responses_on ch (fold (\<lambda>x. emit (g x)) xs s) = responses_on ch s"
  "responses_on ch (publish_bytes t b s) = responses_on ch s"
  by (simp_all add: responses_on_def emit_def reply_to_def act_def publish_bytes_def split: result.split)
    (induction xs arbitrary: s, simp_all add: emit_def)

lemma responses_on_fold [simp]:
  "(\<And>x. response_on ch (f x) = []) \<Longrightarrow> responses_on ch (fold (\<lambda>x. act (f x)) xs s) = responses_on ch s"
  by (induction xs arbitrary: s) simp_all

lemma responses_on_cong [simp]:
  "responses_on ch (s\<lparr>sm_pending_rpc := p\<rparr>) = responses_on ch s"
  "responses_on ch (s\<lparr>sm_pending_get_record := g\<rparr>) = responses_on ch s"
  "responses_on ch (s\<lparr>sm_pending_put_record := q\<rparr>) = responses_on ch s"
  "responses_on ch (s\<lparr>sm_pending_inbound := b\<rparr>) = responses_on ch s"
  "responses_on ch (s\<lparr>sm_listener_ids := l\<rparr>) = responses_on ch s"
  "responses_on ch (s\<lparr>sm_listener_ids := l, sm_local_multiaddr := m\<rparr>) = responses_on ch s"
  by (simp_all add: responses_on_def)

lemma step_unresponded:
  assumes "unresponded ch s" and "ch \<notin> set (inbound_channel i)"
  shows "unresponded ch (swarm_step E i s) \<and> responses_on ch (swarm_step E i s) = responses_on ch s"
proof (cases i)
  case (InCommand A c)
  then show ?thesis using assms by (cases c) (auto simp: unresponded_def split: result.split)
next
  case (InEvent ev)
  then show ?thesis using assms
    by (cases ev) (auto simp: unresponded_def update_conv' split: option.split result.split)
next
  case (InInbound k bs)
  then show ?thesis using assms
    by (auto simp: handle_inbound_result_def unresponded_def delete_conv' split: option.split)
qed

lemma step_responding:
  assumes "responding k ch s" and "ch \<notin> set (inbound_channel i)" and "k \<notin> set (inbound_id i)"
  shows "case handled k i of
      [] \<Rightarrow> responding k ch (swarm_step E i s)
    | bs # _ \<Rightarrow> unresponded ch (swarm_step E i s) \<and> responses_on ch (swarm_step E i s) = [bs]"
proof (cases i)
  case (InCommand A c)
  then show ?thesis using assms by (cases c) (auto simp: responding_def split: result.split)
next
  case (InEvent ev)
  then show ?thesis using assms
    by (cases ev) (auto simp: responding_def update_conv' split: option.split result.split)
next
  case (InInbound k' bs)
  then show ?thesis using assms
    by (auto simp: handle_inbound_result_def responding_def unresponded_def delete_conv' split: option.split)
qed

lemma swarm_loop_simps [simp]:
  "swarm_loop E [] s = s" "swarm_loop E (i # ins) s = swarm_loop E ins (swarm_step E i s)"
  "swarm_loop E (ins @ ins') s = swarm_loop E ins' (swarm_loop E ins s)"
  by (simp_all add: swarm_loop_def)

lemma run_unawaited:
  "unawaited ch s \<Longrightarrow> ch \<notin> set (concat (map request_channel ins)) \<Longrightarrow>
   unawaited ch (swarm_loop E ins s) \<and> replies_on ch (swarm_loop E ins s) = replies_on ch s"
  by (induction ins arbitrary: s) (use step_unawaited in auto)

lemma run_unresponded:
  "unresponded ch s \<Longrightarrow> ch \<notin> set (concat (map inbound_channel ins)) \<Longrightarrow>
   unresponded ch (swarm_loop E ins s) \<and> responses_on ch (swarm_loop E ins s) = responses_on ch s"
  by (induction ins arbitrary: s) (use step_unresponded in auto)

lemma outcome_cases: "outcome E k i = [] \<or> (\<exists>r. outcome E k i = [r])"
  by (cases "(E, k, i)" rule: outcome.cases) simp_all

lemma handled_cases: "handled k i = [] \<or> (\<exists>bs. handled k i = [bs])"
  by (cases "(k, i)" rule: handled.cases) simp_all

lemma run_awaiting:
  assumes "awaiting k ch s" and "ch \<notin> set (concat (map request_channel ins))" and "k \<notin> set (concat (map request_id ins))"
  shows "replies_on ch (swarm_loop E ins s) = take 1 (concat (map (outcome E k) ins))"
  using assms
proof (induction ins arbitrary: s)
  case (Cons i ins)
  show ?case
  proof (cases "outcome E k i")
    case Nil
    with Cons step_awaiting [of k ch s i E] show ?thesis by simp
  next
    case (Cons r rs)
    with Cons.prems step_awaiting [of k ch s i E]
    have "unawaited ch (swarm_step E i s) \<and> replies_on ch (swarm_step E i s) = [r]" by simp
    then show ?thesis using run_unawaited [of ch "swarm_step E i s" ins E] Cons.prems(2) Cons outcome_cases [of E k i] by auto
  qed
qed (simp add: awaiting_def)

lemma run_responding:
  assumes "responding k ch s" and "ch \<notin> set (concat (map inbound_channel ins))" and "k \<notin> set (concat (map inbound_id ins))"
  shows "responses_on ch (swarm_loop E ins s) = take 1 (concat (map (handled k) ins))"
  using assms
proof (induction ins arbitrary: s)
  case (Cons i ins)
  show ?case
  proof (cases "handled k i")
    case Nil
    with Cons step_responding [of k ch s i E] show ?thesis by simp
  next
    case (Cons bs rs)
    with Cons.prems step_responding [of k ch s i E]
    have "unresponded ch (swarm_step E i s) \<and> responses_on ch (swarm_step E i s) = [bs]" by simp
    then show ?thesis using run_unresponded [of ch "swarm_step E i s" ins E] Cons.prems(2) Cons handled_cases [of k i] by auto
  qed
qed (simp add: responding_def)

text \<open>What was asked of libp2p or of the handler stays asked.\<close>

lemma acts_kept:
  "a \<in> set (sm_actions s) \<Longrightarrow> a \<in> set (sm_actions (act b s))" "sm_actions (emit ev s) = sm_actions s"
  "sm_actions (reply_to ch r s) = sm_actions s"
  by (simp_all add: act_def emit_def reply_to_def)

lemma acts_kept_folds:
  "sm_actions (fold (\<lambda>x. emit (g x)) xs s) = sm_actions s"
  "a \<in> set (sm_actions s) \<Longrightarrow> a \<in> set (sm_actions (fold (\<lambda>x. act (f x)) xs s))"
  by (induction xs arbitrary: s) (simp_all add: acts_kept)

lemma step_acts: "a \<in> set (sm_actions s) \<Longrightarrow> a \<in> set (sm_actions (swarm_step E i s))"
proof (cases i)
  case (InCommand A c)
  then show "a \<in> set (sm_actions s) \<Longrightarrow> ?thesis"
    by (cases c) (auto simp: acts_kept acts_kept_folds publish_bytes_def split: result.split)
next
  case (InEvent ev)
  then show "a \<in> set (sm_actions s) \<Longrightarrow> ?thesis"
    by (cases ev) (auto simp: acts_kept acts_kept_folds split: result.split option.split)
qed (auto simp: handle_inbound_result_def acts_kept split: option.split)

lemma run_acts: "a \<in> set (sm_actions s) \<Longrightarrow> a \<in> set (sm_actions (swarm_loop E ins s))"
  by (induction ins arbitrary: s) (simp_all add: step_acts)

lemma request_answered:
  assumes ids: "distinct (concat (map request_channel ins))" "distinct (concat (map request_id ins))"
    and ins: "ins = before @ InCommand A (RequestResponse peer request ch) # later"
  shows "(case se_print_request E request of
       Ok bs \<Rightarrow> SendRequest peer bs \<in> set (sm_actions (swarm_loop E ins swarm_new)) \<and>
         replies_on ch (swarm_loop E ins swarm_new) = take 1 (concat (map (outcome E (sa_request_id A)) later))
     | Err e \<Rightarrow> replies_on ch (swarm_loop E ins swarm_new) = [Err (TrDecode e)]
     | Panic \<Rightarrow> replies_on ch (swarm_loop E ins swarm_new) = [])"
proof -
  let ?i = "InCommand A (RequestResponse peer request ch)" and ?s = "swarm_loop E before swarm_new"
  have fresh: "ch \<notin> set (concat (map request_channel before))" "ch \<notin> set (concat (map request_channel later))"
    "sa_request_id A \<notin> set (concat (map request_id later))" using ids by (auto simp: ins)
  have "unawaited ch swarm_new" "replies_on ch swarm_new = []" by (simp_all add: unawaited_def replies_on_def swarm_new_def)
  then have s: "unawaited ch ?s" "replies_on ch ?s = []" using run_unawaited fresh(1) by auto
  show ?thesis
  proof (cases "se_print_request E request")
    case (Ok bs)
    then have "awaiting (sa_request_id A) ch (swarm_step E ?i ?s)" "SendRequest peer bs \<in> set (sm_actions (swarm_step E ?i ?s))"
      using s by (simp_all add: awaiting_def unawaited_def update_conv') (simp add: act_def)
    with Ok run_awaiting fresh(2,3) show ?thesis by (simp add: ins run_acts)
  next
    case (Err e)
    then have "unawaited ch (swarm_step E ?i ?s)" "replies_on ch (swarm_step E ?i ?s) = [Err (TrDecode e)]"
      using s by (simp_all add: unawaited_def)
    with Err run_unawaited fresh(2) show ?thesis by (simp add: ins)
  next
    case Panic
    with s run_unawaited fresh(2) show ?thesis by (simp add: ins)
  qed
qed

lemma inbound_answered:
  assumes ids: "distinct (concat (map inbound_channel ins))" "distinct (concat (map inbound_id ins))"
    and ins: "ins = before @ InEvent (RpcRequest peer k request ch) # later"
  shows "(case se_parse E request of
       Ok v \<Rightarrow> if se_has_rpc_handler E
         then HandleRequest k (unwrap_or [] (get_str ''method'' v)) (unwrap_or JNull (jget ''params'' v))
             \<in> set (sm_actions (swarm_loop E ins swarm_new)) \<and>
           responses_on ch (swarm_loop E ins swarm_new) = take 1 (concat (map (handled k) later))
         else responses_on ch (swarm_loop E ins swarm_new) = []
     | _ \<Rightarrow> responses_on ch (swarm_loop E ins swarm_new) = [])"
proof -
  let ?i = "InEvent (RpcRequest peer k request ch)" and ?s = "swarm_loop E before swarm_new"
  have fresh: "ch \<notin> set (concat (map inbound_channel before))" "ch \<notin> set (concat (map inbound_channel later))"
    "k \<notin> set (concat (map inbound_id later))" using ids by (auto simp: ins)
  have "unresponded ch swarm_new" "responses_on ch swarm_new = []" by (simp_all add: unresponded_def responses_on_def swarm_new_def)
  then have s: "unresponded ch ?s" "responses_on ch ?s = []" using run_unresponded fresh(1) by auto
  show ?thesis
  proof (cases "\<exists>v. se_parse E request = Ok v \<and> se_has_rpc_handler E")
    case True
    then obtain v where v: "se_parse E request = Ok v" "se_has_rpc_handler E" by blast
    then have "responding k ch (swarm_step E ?i ?s)"
      "HandleRequest k (unwrap_or [] (get_str ''method'' v)) (unwrap_or JNull (jget ''params'' v)) \<in> set (sm_actions (swarm_step E ?i ?s))"
      using s by (simp_all add: responding_def unresponded_def update_conv') (simp add: act_def)
    with v run_responding fresh(2,3) show ?thesis by (simp add: ins run_acts)
  next
    case False
    then have "swarm_step E ?i ?s = ?s" by (auto split: result.split)
    with False s run_unresponded fresh(2) show ?thesis by (auto simp: ins split: result.split)
  qed
qed

text \<open>
  C21: Requests over libp2p get their own answers. Where channels and the ids of libp2p are not used
  twice, a request goes to the peer it is for, and what its caller is told is the first answer or
  failure that libp2p reports for its id, and nothing where there is none, whatever else happens on
  the swarm; one that cannot be serialized is refused at once. A request of another node goes to
  the handler with its method and parameters, and what is responded on its channel is what the
  handler made of it, once; one that is no JSON, or comes where there is no handler, is not responded to.
\<close>

theorem requests_get_their_answers:
  assumes "distinct (concat (map request_channel ins))" and "distinct (concat (map request_id ins))"
    and "distinct (concat (map inbound_channel ins))" and "distinct (concat (map inbound_id ins))"
  shows "(\<forall>before A peer request ch later. ins = before @ InCommand A (RequestResponse peer request ch) # later \<longrightarrow>
      (case se_print_request E request of
         Ok bs \<Rightarrow> SendRequest peer bs \<in> set (sm_actions (swarm_loop E ins swarm_new)) \<and>
           replies_on ch (swarm_loop E ins swarm_new) = take 1 (concat (map (outcome E (sa_request_id A)) later))
       | Err e \<Rightarrow> replies_on ch (swarm_loop E ins swarm_new) = [Err (TrDecode e)]
       | Panic \<Rightarrow> replies_on ch (swarm_loop E ins swarm_new) = [])) \<and>
    (\<forall>before peer k request ch later. ins = before @ InEvent (RpcRequest peer k request ch) # later \<longrightarrow>
      (case se_parse E request of
         Ok v \<Rightarrow> if se_has_rpc_handler E
           then HandleRequest k (unwrap_or [] (get_str ''method'' v)) (unwrap_or JNull (jget ''params'' v))
               \<in> set (sm_actions (swarm_loop E ins swarm_new)) \<and>
             responses_on ch (swarm_loop E ins swarm_new) = take 1 (concat (map (handled k) later))
           else responses_on ch (swarm_loop E ins swarm_new) = []
       | _ \<Rightarrow> responses_on ch (swarm_loop E ins swarm_new) = []))"
  using request_answered [OF assms(1,2)] inbound_answered [OF assms(3,4)] by blast

theorem requests_get_their_answers_witness:
  "let s = swarm_loop (demo_swarm_env\<lparr>se_has_rpc_handler := True\<rparr>)
     [InCommand (demo_answers 1) (RequestResponse ''p'' JNull 7), InEvent (RpcRequest ''q'' 3 [] 4),
      InCommand (demo_answers 2) (RequestResponse ''r'' JNull 8), InEvent (RpcOutboundFailure 2 OfTimeout),
      InInbound 3 [9], InEvent (RpcOutboundFailure 1 (OfOther ''e'')), InEvent (RpcResponse 1 [])] swarm_new
   in replies_on 7 s = [Err (TrConnect ''e'')] \<and> replies_on 8 s = [Err TrTimeout] \<and> responses_on 4 s = [[9]]"
proof -
  let ?E = "demo_swarm_env\<lparr>se_has_rpc_handler := True\<rparr>"
  let ?a = "InCommand (demo_answers 1) (RequestResponse ''p'' JNull 7)" and ?b = "InEvent (RpcRequest ''q'' 3 [] 4)"
    and ?c = "InCommand (demo_answers 2) (RequestResponse ''r'' JNull 8)"
  let ?tail = "[InEvent (RpcOutboundFailure 2 OfTimeout), InInbound 3 [9], InEvent (RpcOutboundFailure 1 (OfOther ''e'')),
    InEvent (RpcResponse 1 [])]"
  have "distinct (concat (map request_channel (?a # ?b # ?c # ?tail)))" "distinct (concat (map request_id (?a # ?b # ?c # ?tail)))"
    "distinct (concat (map inbound_channel (?a # ?b # ?c # ?tail)))" "distinct (concat (map inbound_id (?a # ?b # ?c # ?tail)))"
    by (simp_all add: demo_answers_def)
  note own = requests_get_their_answers [OF this, of ?E]
  have "se_print_request ?E JNull = Ok []" "se_parse ?E [] = Ok (byte_array_json [])" "se_has_rpc_handler ?E"
    by (simp_all add: demo_swarm_env_def)
  with own [THEN conjunct1, rule_format, of "[]" "demo_answers 1" "''p''" JNull 7 "?b # ?c # ?tail"]
    own [THEN conjunct1, rule_format, of "[?a, ?b]" "demo_answers 2" "''r''" JNull 8 ?tail]
    own [THEN conjunct2, rule_format, of "[?a]" "''q''" 3 "[]" 4 "?c # ?tail"]
  show ?thesis by (simp add: demo_answers_def Let_def del: swarm_loop_simps)
qed

text \<open>
  A response of a node that has a result or an error is read from libp2p as it is from TCP.
\<close>

theorem libp2p_reads_as_tcp:
  assumes "se_parse E (se_print E (response_json r)) = Ok (response_json r)"
    and "jr_result r \<noteq> None \<or> jr_error r \<noteq> None"
  shows "rpc_reply E (inbound_bytes E (Ok (response_json r))) = rpc_result (response_json r)"
  using assms by (auto simp: rpc_reply_def inbound_bytes_def rpc_result_def response_json_def split: option.split prod.split)

theorem libp2p_reads_as_tcp_witness:
  "rpc_reply (demo_swarm_env\<lparr>se_parse := (\<lambda>_. Ok (response_json (rpc_error None METHOD_NOT_FOUND ''m'')))\<rparr>)
     (inbound_bytes (demo_swarm_env\<lparr>se_parse := (\<lambda>_. Ok (response_json (rpc_error None METHOD_NOT_FOUND ''m'')))\<rparr>)
       (Ok (response_json (rpc_error None METHOD_NOT_FOUND ''m'')))) =
   rpc_result (response_json (rpc_error None METHOD_NOT_FOUND ''m''))"
  by (rule libp2p_reads_as_tcp) (simp_all add: rpc_error_def)

end
