(* ===== verification/Client.thy ===== *)
theory Client
  imports Chronomatter_Faults Peer_Transport
begin

section \<open>The client's calendar\<close>

text \<open>
  Models \<^verbatim>\<open>foretias-client/src/calendar/mod.rs\<close>: the calendar of a client of the library,
  which the client's own chronomatter feeds. It meets the contract of a tick observer, so that
  what is proved of chronomatters holds of the client's.
\<close>

record client_calendar =
  cc_inner :: calendar
  cc_tbn :: string

definition client_calendar_new :: "tbid \<Rightarrow> string \<Rightarrow> client_calendar" where
  "client_calendar_new t tbn = \<lparr>cc_inner = calendar_new t tbn, cc_tbn = tbn\<rparr>"

definition client_from_persisted :: "(calendar, node_error) result \<Rightarrow> (client_calendar, node_error) result" where
  "client_from_persisted loaded = rbind loaded (\<lambda>c. Ok \<lparr>cc_inner = c, cc_tbn = cal_tbn c\<rparr>)"

definition client_save ::
    "(calendar \<Rightarrow> (string, string) result) \<Rightarrow> io_outcomes \<Rightarrow> string \<Rightarrow> client_calendar \<Rightarrow> fs \<Rightarrow>
     (unit, node_error) result \<times> fs" where
  "client_save to_json io path c files = save to_json io path (cc_inner c) files"

definition client_on_tick_advance ::
    "unit \<Rightarrow> u64 \<Rightarrow> bytes \<Rightarrow> chronon_record \<Rightarrow> client_calendar \<Rightarrow> client_calendar" where
  "client_on_tick_advance u chronon_number public_key tick_record c =
     (case cal_append tick_record (cc_inner c) of Ok inner' \<Rightarrow> c\<lparr>cc_inner := inner'\<rparr> | _ \<Rightarrow> c)"

definition cc_records :: "client_calendar \<Rightarrow> chronon_record list" where
  "cc_records c = ticks (cc_inner c)"

definition cc_inv :: "client_calendar \<Rightarrow> bool" where
  "cc_inv c \<longleftrightarrow> cal_inv (cc_inner c)"

definition cc_get :: "client_calendar \<Rightarrow> u64 \<Rightarrow> nat \<Rightarrow> (chronon_record list, node_error) result" where
  "cc_get c n cnt = cal_get (cc_inner c) n cnt"

definition cc_latest :: "client_calendar \<Rightarrow> u64 option" where
  "cc_latest c = cal_latest (cc_inner c)"

definition cc_lookup :: "client_calendar \<Rightarrow> calendar_lookup" where
  "cc_lookup c = as_lookup (cc_get c) (cc_latest c) (cal_tbid (cc_inner c)) (cc_tbn c)"

interpretation cc: chronon_source cc_records cc_inv cc_get cc_latest
  by unfold_locales
    (simp_all add: cc_records_def cc_inv_def cc_get_def cc_latest_def cal.source_chronological
      cal.get_spec cal.latest_spec)

interpretation cc_obs: tick_observer cc_records cc_inv cc_get cc_latest client_on_tick_advance
proof unfold_locales
  fix c l n pk r
  assume inv: "cc_inv c"
  show "cc_inv (client_on_tick_advance l n pk r c)"
    using inv cal.append_records(1) [of "cc_inner c" r]
    by (auto simp: cc_inv_def client_on_tick_advance_def split: result.splits)
  show "cc_records (client_on_tick_advance l n pk r c) =
      (if \<forall>m. cc_latest c = Some m \<longrightarrow> m < cr_chronon_number r then cc_records c @ [r] else cc_records c)"
  proof (cases "cal_append r (cc_inner c)")
    case (Ok c')
    then have "\<forall>m. cc_latest c = Some m \<longrightarrow> m < cr_chronon_number r"
      using cal.append_ok_iff [of "cc_inner c" r] inv by (simp add: cc_inv_def cc_latest_def)
    with Ok show ?thesis
      using cal.append_records(2) [of "cc_inner c" r c'] inv
      by (simp add: cc_records_def client_on_tick_advance_def cc_inv_def)
  qed (use cal.append_ok_iff [of "cc_inner c" r] inv in
      \<open>auto simp: cc_records_def client_on_tick_advance_def cc_inv_def cc_latest_def is_ok_iff\<close>)
qed

section \<open>The client library\<close>

text \<open>
  Models \<^verbatim>\<open>foretias-client/src/foretias.rs\<close> with its configuration (\<^verbatim>\<open>config.rs\<close>) and the
  frame of its JSON-RPC calls (\<^verbatim>\<open>noise_ptp.rs\<close>): a client that stamps and verifies by itself,
  or through a server. The encrypted exchange of two JSON values with a server is an argument; it
  changes a state \<open>'h\<close> behind it. A client's state is paired with \<open>'h\<close>.
\<close>

subsection \<open>Errors\<close>

datatype foretias_error =
    FeCrypto string
  | FeDormant string
  | FeIo string
  | FeNetwork string
  | FeInternal string

datatype ptp_error =
    PtConnect string
  | PtTimeout
  | PtNoise string
  | PtDecode string
  | PtRpc int string

text \<open>\<open>show_crypto\<close>, \<open>show_node\<close>: the \<^verbatim>\<open>Display\<close> of the wrapped errors; \<open>show_code\<close> that of an \<^verbatim>\<open>i32\<close>.\<close>

fun foretias_error_of_node ::
    "(crypto_error \<Rightarrow> string) \<Rightarrow> (node_error \<Rightarrow> string) \<Rightarrow> node_error \<Rightarrow> foretias_error" where
  "foretias_error_of_node show_crypto show_node (Crypto e) = FeCrypto (show_crypto e)"
| "foretias_error_of_node show_crypto show_node (Dormant e) = FeDormant e"
| "foretias_error_of_node show_crypto show_node (Io e) = FeIo e"
| "foretias_error_of_node show_crypto show_node (Internal e) = FeInternal e"
| "foretias_error_of_node show_crypto show_node e = FeInternal (show_node e)"

fun foretias_error_of_ptp :: "(int \<Rightarrow> string) \<Rightarrow> ptp_error \<Rightarrow> foretias_error" where
  "foretias_error_of_ptp show_code (PtConnect msg) = FeNetwork msg"
| "foretias_error_of_ptp show_code PtTimeout = FeNetwork ''PtP request timeout''"
| "foretias_error_of_ptp show_code (PtNoise msg) = FeNetwork msg"
| "foretias_error_of_ptp show_code (PtDecode msg) = FeNetwork msg"
| "foretias_error_of_ptp show_code (PtRpc code message) = FeNetwork (''RPC '' @ show_code code @ '': '' @ message)"

subsection \<open>Configuration\<close>

record standalone_config =
  sg_tbn :: string
  sg_chronon_ns :: u64
  sg_persist_path :: "string option"

definition standalone_config_new :: "string \<Rightarrow> standalone_config" where
  "standalone_config_new tbn = \<lparr>sg_tbn = tbn, sg_chronon_ns = 60000000000, sg_persist_path = None\<rparr>"

definition standalone_with_chronon :: "u64 \<Rightarrow> standalone_config \<Rightarrow> standalone_config" where
  "standalone_with_chronon chronon_ns cfg = cfg\<lparr>sg_chronon_ns := chronon_ns\<rparr>"

definition standalone_with_persist_path :: "string \<Rightarrow> standalone_config \<Rightarrow> standalone_config" where
  "standalone_with_persist_path path cfg = cfg\<lparr>sg_persist_path := Some path\<rparr>"

record ptp_config =
  pc_standalone :: standalone_config
  pc_peers :: "string list"
  pc_timeout_secs :: u64

definition ptp_config_new :: "string \<Rightarrow> string list \<Rightarrow> ptp_config" where
  "ptp_config_new tbn peers = \<lparr>pc_standalone = standalone_config_new tbn, pc_peers = peers, pc_timeout_secs = 30\<rparr>"

definition ptp_with_timeout :: "u64 \<Rightarrow> ptp_config \<Rightarrow> ptp_config" where
  "ptp_with_timeout timeout_secs cfg = cfg\<lparr>pc_timeout_secs := timeout_secs\<rparr>"

definition ptp_with_chronon :: "u64 \<Rightarrow> ptp_config \<Rightarrow> ptp_config" where
  "ptp_with_chronon chronon_ns cfg = cfg\<lparr>pc_standalone := (pc_standalone cfg)\<lparr>sg_chronon_ns := chronon_ns\<rparr>\<rparr>"

definition ptp_with_persist_path :: "string \<Rightarrow> ptp_config \<Rightarrow> ptp_config" where
  "ptp_with_persist_path path cfg = cfg\<lparr>pc_standalone := (pc_standalone cfg)\<lparr>sg_persist_path := Some path\<rparr>\<rparr>"

definition ptp_primary_peer :: "ptp_config \<Rightarrow> string option" where
  "ptp_primary_peer cfg = list_first (pc_peers cfg)"

record p2p_config =
  pg2_ptp :: ptp_config
  pg2_dht_namespace :: string
  pg2_known_servers :: "string list"
  pg2_max_discovered_peers :: nat

definition p2p_config_new :: "string \<Rightarrow> string \<Rightarrow> p2p_config" where
  "p2p_config_new tbn dht_namespace = \<lparr>pg2_ptp = ptp_config_new tbn [], pg2_dht_namespace = dht_namespace,
     pg2_known_servers = [], pg2_max_discovered_peers = 13\<rparr>"

definition p2p_with_peers :: "string list \<Rightarrow> p2p_config \<Rightarrow> p2p_config" where
  "p2p_with_peers peers cfg = cfg\<lparr>pg2_ptp := (pg2_ptp cfg)\<lparr>pc_peers := peers\<rparr>\<rparr>"

definition p2p_with_known_servers :: "string list \<Rightarrow> p2p_config \<Rightarrow> p2p_config" where
  "p2p_with_known_servers servers cfg = cfg\<lparr>pg2_known_servers := servers\<rparr>"

definition p2p_with_max_discovered_peers :: "nat \<Rightarrow> p2p_config \<Rightarrow> p2p_config" where
  "p2p_with_max_discovered_peers m cfg = cfg\<lparr>pg2_max_discovered_peers := m\<rparr>"

definition p2p_with_chronon :: "u64 \<Rightarrow> p2p_config \<Rightarrow> p2p_config" where
  "p2p_with_chronon chronon_ns cfg = cfg\<lparr>pg2_ptp := ptp_with_chronon chronon_ns (pg2_ptp cfg)\<rparr>"

definition p2p_with_persist_path :: "string \<Rightarrow> p2p_config \<Rightarrow> p2p_config" where
  "p2p_with_persist_path path cfg = cfg\<lparr>pg2_ptp := ptp_with_persist_path path (pg2_ptp cfg)\<rparr>"

datatype foretias_config =
    StandaloneCfg standalone_config
  | PtpCfg ptp_config
  | P2pCfg p2p_config

fun config_standalone :: "foretias_config \<Rightarrow> standalone_config" where
  "config_standalone (StandaloneCfg cfg) = cfg"
| "config_standalone (PtpCfg cfg) = pc_standalone cfg"
| "config_standalone (P2pCfg cfg) = pc_standalone (pg2_ptp cfg)"

definition config_tbn :: "foretias_config \<Rightarrow> string" where
  "config_tbn cfg = sg_tbn (config_standalone cfg)"

definition config_chronon_ns :: "foretias_config \<Rightarrow> u64" where
  "config_chronon_ns cfg = sg_chronon_ns (config_standalone cfg)"

definition config_persist_path :: "foretias_config \<Rightarrow> string option" where
  "config_persist_path cfg = sg_persist_path (config_standalone cfg)"

subsection \<open>State\<close>

datatype client_level = LevelStandalone | LevelPtp | LevelP2p

record p2p_join_config =
  pj_tbn :: string
  pj_known_peers :: "string list"
  pj_dht_namespace :: string
  pj_persist_path :: "string option"

text \<open>
  The calendar is the state of the chronomatter's observer, as it is for a server; a client
  restored from a file has one that its chronomatter does not notify.
\<close>

record 'k standalone_state =
  sl_chronomatter :: "('k, client_calendar) chronomatter"
  sl_observing :: bool

record 'k ptp_state =
  pt_standalone :: "'k standalone_state"
  pt_peers :: "string list"
  pt_timeout_secs :: u64

record 'k p2p_state =
  p3_ptp :: "'k ptp_state"
  p3_config :: p2p_join_config

datatype 'k foretias_inner =
    InnerStandalone "'k standalone_state"
  | InnerPtp "'k ptp_state"
  | InnerP2p "'k p2p_state"

record 'k foretias =
  fo_level :: client_level
  fo_inner :: "'k foretias_inner"
  fo_persist_path :: "string option"
  fo_files :: fs

fun inner_standalone :: "'k foretias_inner \<Rightarrow> 'k standalone_state" where
  "inner_standalone (InnerStandalone s) = s"
| "inner_standalone (InnerPtp s) = pt_standalone s"
| "inner_standalone (InnerP2p s) = pt_standalone (p3_ptp s)"

fun set_standalone :: "'k standalone_state \<Rightarrow> 'k foretias_inner \<Rightarrow> 'k foretias_inner" where
  "set_standalone st (InnerStandalone s) = InnerStandalone st"
| "set_standalone st (InnerPtp s) = InnerPtp (s\<lparr>pt_standalone := st\<rparr>)"
| "set_standalone st (InnerP2p s) = InnerP2p (s\<lparr>p3_ptp := (p3_ptp s)\<lparr>pt_standalone := st\<rparr>\<rparr>)"

definition fo_chronomatter :: "'k foretias \<Rightarrow> ('k, client_calendar) chronomatter" where
  "fo_chronomatter c = sl_chronomatter (inner_standalone (fo_inner c))"

definition fo_calendar :: "'k foretias \<Rightarrow> client_calendar" where
  "fo_calendar c = cm_observer (fo_chronomatter c)"

definition fo_observing :: "'k foretias \<Rightarrow> bool" where
  "fo_observing c = sl_observing (inner_standalone (fo_inner c))"

definition set_chronomatter :: "('k, client_calendar) chronomatter \<Rightarrow> 'k foretias \<Rightarrow> 'k foretias" where
  "set_chronomatter cm c = c\<lparr>fo_inner := set_standalone
     ((inner_standalone (fo_inner c))\<lparr>sl_chronomatter := cm\<rparr>) (fo_inner c)\<rparr>"

record foretias_status =
  fs_is_dormant :: bool
  fs_peer_count :: nat
  fs_current_tick :: u64
  fs_dht_connected :: bool
  fs_gossipsub_subscribed :: bool

text \<open>
  What the client is given: codecs and primitives, displays of errors and strings, and the
  exchange of a request for a response with the server at an address within some seconds.
\<close>

record ('k, 's, 'h) client_env =
  cl_env :: "('k, 's) node_env"
  cl_show_crypto :: "crypto_error \<Rightarrow> string"
  cl_show_code :: "int \<Rightarrow> string"
  cl_calendar_of_json :: "string \<Rightarrow> calendar option"
  cl_show_debug :: "string \<Rightarrow> string"
  cl_exchange :: "string \<Rightarrow> u64 \<Rightarrow> json \<Rightarrow> ('h, json, ptp_error) stateful"

definition node_failed :: "('k, 's, 'h) client_env \<Rightarrow> node_error \<Rightarrow> foretias_error" where
  "node_failed K = foretias_error_of_node (cl_show_crypto K) (ne_show_error (cl_env K))"

definition ptp_failed :: "('k, 's, 'h) client_env \<Rightarrow> ptp_error \<Rightarrow> foretias_error" where
  "ptp_failed K = foretias_error_of_ptp (cl_show_code K)"

subsection \<open>Making a client\<close>

text \<open>The name that the caller gives is not used.\<close>

definition create_standalone_state ::
    "('k, 's, 'h) client_env \<Rightarrow> (unit, crypto_error) result \<Rightarrow> (bytes \<times> bytes, crypto_error) result \<Rightarrow>
     string \<Rightarrow> ('k standalone_state, foretias_error) result" where
  "create_standalone_state K new_software tbid_keypair tbn =
     (let E = cl_env K; calendar = client_calendar_new tbid_default [] in
      rbind (rmap_err (\<lambda>e. FeCrypto (cl_show_crypto K e)) new_software) (\<lambda>_.
      rbind (rmap_err (node_failed K) (chronomatter_new (ne_hex_encode E) tbid_keypair 60000000000 calendar)) (\<lambda>cm.
      (let cm = set_mutual_attest_observer cm in
      rbind (set_tbid (ne_debug E) (cm_tbid cm) (cc_inner (cm_observer cm))) (\<lambda>inner1.
      rbind (set_tbn (ne_debug E) (cm_tbn cm) inner1) (\<lambda>inner2.
        Ok \<lparr>sl_chronomatter = cm\<lparr>cm_observer := (cm_observer cm)\<lparr>cc_inner := inner2\<rparr>\<rparr>,
            sl_observing = True\<rparr>))))))"

definition foretias_new ::
    "('k, 's, 'h) client_env \<Rightarrow> (unit, crypto_error) result \<Rightarrow> (bytes \<times> bytes, crypto_error) result \<Rightarrow>
     string \<Rightarrow> string option \<Rightarrow> fs \<Rightarrow> ('k foretias, foretias_error) result" where
  "foretias_new K new_software tbid_keypair tbn persist_path files =
     rbind (create_standalone_state K new_software tbid_keypair []) (\<lambda>state.
       Ok \<lparr>fo_level = LevelStandalone, fo_inner = InnerStandalone state, fo_persist_path = persist_path,
           fo_files = files\<rparr>)"

text \<open>The file is loaded for the chronomatter and again for the calendar.\<close>

definition foretias_from_persist ::
    "('k, 's, 'h) client_env \<Rightarrow> (unit, crypto_error) result \<Rightarrow> (bytes \<times> bytes, crypto_error) result \<Rightarrow>
     string \<Rightarrow> fs \<Rightarrow> ('k foretias, foretias_error) result" where
  "foretias_from_persist K new_software tbid_keypair path files =
     rbind (rmap_err (\<lambda>e. FeCrypto (cl_show_crypto K e)) new_software) (\<lambda>_.
       (let (loaded, files1) = load (cl_calendar_of_json K) path files in
        rbind (rmap_err (node_failed K) (from_calendar (ne_hex_encode (cl_env K)) tbid_keypair loaded ())) (\<lambda>cm.
        (let (loaded_again, files2) = load (cl_calendar_of_json K) path files1 in
         rbind (rmap_err (node_failed K) (client_from_persisted loaded_again)) (\<lambda>calendar.
           Ok \<lparr>fo_level = LevelStandalone,
               fo_inner = InnerStandalone
                 \<lparr>sl_chronomatter =
                    \<lparr>cm_tbid = cm_tbid cm, cm_tbid_secret = cm_tbid_secret cm, cm_tbn = cm_tbn cm,
                     cm_current_tick = cm_current_tick cm, cm_keypairs = cm_keypairs cm,
                     cm_observer = calendar, cm_events = Some [], cm_chronon_ns = cm_chronon_ns cm,
                     cm_is_dormant = cm_is_dormant cm, cm_chronon_stamp_count = cm_chronon_stamp_count cm\<rparr>,
                  sl_observing = False\<rparr>,
               fo_persist_path = Some path, fo_files = files2\<rparr>)))))"

definition foretias_connect ::
    "('k, 's, 'h) client_env \<Rightarrow> (unit, crypto_error) result \<Rightarrow> (bytes \<times> bytes, crypto_error) result \<Rightarrow>
     string \<Rightarrow> string list \<Rightarrow> u64 \<Rightarrow> string option \<Rightarrow> fs \<Rightarrow> ('k foretias, foretias_error) result" where
  "foretias_connect K new_software tbid_keypair tbn peer_addrs timeout_secs persist_path files =
     rbind (create_standalone_state K new_software tbid_keypair tbn) (\<lambda>standalone.
       Ok \<lparr>fo_level = LevelPtp,
           fo_inner = InnerPtp \<lparr>pt_standalone = standalone, pt_peers = peer_addrs, pt_timeout_secs = timeout_secs\<rparr>,
           fo_persist_path = persist_path, fo_files = files\<rparr>)"

definition foretias_connect_one ::
    "('k, 's, 'h) client_env \<Rightarrow> (unit, crypto_error) result \<Rightarrow> (bytes \<times> bytes, crypto_error) result \<Rightarrow>
     string \<Rightarrow> string \<Rightarrow> string option \<Rightarrow> fs \<Rightarrow> ('k foretias, foretias_error) result" where
  "foretias_connect_one K new_software tbid_keypair tbn peer_addr persist_path files =
     foretias_connect K new_software tbid_keypair tbn [peer_addr] 30 persist_path files"

definition foretias_join ::
    "('k, 's, 'h) client_env \<Rightarrow> (unit, crypto_error) result \<Rightarrow> (bytes \<times> bytes, crypto_error) result \<Rightarrow>
     p2p_join_config \<Rightarrow> fs \<Rightarrow> ('k foretias, foretias_error) result" where
  "foretias_join K new_software tbid_keypair config files =
     rbind (create_standalone_state K new_software tbid_keypair (pj_tbn config)) (\<lambda>standalone.
       Ok \<lparr>fo_level = LevelP2p,
           fo_inner = InnerP2p \<lparr>p3_ptp = \<lparr>pt_standalone = standalone, pt_peers = pj_known_peers config,
                                          pt_timeout_secs = 30\<rparr>, p3_config = config\<rparr>,
           fo_persist_path = None, fo_files = files\<rparr>)"

definition with_config_standalone ::
    "('k, 's, 'h) client_env \<Rightarrow> (unit, crypto_error) result \<Rightarrow> (bytes \<times> bytes, crypto_error) result \<Rightarrow>
     standalone_config \<Rightarrow> fs \<Rightarrow> ('k foretias, foretias_error) result" where
  "with_config_standalone K new_software tbid_keypair cfg files =
     foretias_new K new_software tbid_keypair (sg_tbn cfg) (sg_persist_path cfg) files"

definition with_config_ptp ::
    "('k, 's, 'h) client_env \<Rightarrow> (unit, crypto_error) result \<Rightarrow> (bytes \<times> bytes, crypto_error) result \<Rightarrow>
     ptp_config \<Rightarrow> fs \<Rightarrow> ('k foretias, foretias_error) result" where
  "with_config_ptp K new_software tbid_keypair cfg files =
     foretias_connect K new_software tbid_keypair (sg_tbn (pc_standalone cfg)) (pc_peers cfg) (pc_timeout_secs cfg)
       (sg_persist_path (pc_standalone cfg)) files"

definition with_config_p2p ::
    "('k, 's, 'h) client_env \<Rightarrow> (unit, crypto_error) result \<Rightarrow> (bytes \<times> bytes, crypto_error) result \<Rightarrow>
     p2p_config \<Rightarrow> fs \<Rightarrow> ('k foretias, foretias_error) result" where
  "with_config_p2p K new_software tbid_keypair cfg files =
     (let ptp = pg2_ptp cfg in
      rbind (create_standalone_state K new_software tbid_keypair (sg_tbn (pc_standalone ptp))) (\<lambda>standalone.
        Ok \<lparr>fo_level = LevelP2p,
            fo_inner = InnerP2p \<lparr>p3_ptp = \<lparr>pt_standalone = standalone, pt_peers = pc_peers ptp,
                                           pt_timeout_secs = pc_timeout_secs ptp\<rparr>,
              p3_config = \<lparr>pj_tbn = sg_tbn (pc_standalone ptp), pj_known_peers = pg2_known_servers cfg,
                           pj_dht_namespace = pg2_dht_namespace cfg,
                           pj_persist_path = sg_persist_path (pc_standalone ptp)\<rparr>\<rparr>,
            fo_persist_path = sg_persist_path (pc_standalone ptp), fo_files = files\<rparr>))"

fun with_config ::
    "('k, 's, 'h) client_env \<Rightarrow> (unit, crypto_error) result \<Rightarrow> (bytes \<times> bytes, crypto_error) result \<Rightarrow>
     foretias_config \<Rightarrow> fs \<Rightarrow> ('k foretias, foretias_error) result" where
  "with_config K new_software tbid_keypair (StandaloneCfg cfg) files =
     with_config_standalone K new_software tbid_keypair cfg files"
| "with_config K new_software tbid_keypair (PtpCfg cfg) files = with_config_ptp K new_software tbid_keypair cfg files"
| "with_config K new_software tbid_keypair (P2pCfg cfg) files = with_config_p2p K new_software tbid_keypair cfg files"

end
