(* ===== verification/Config.thy ===== *)
theory Config
  imports Client Core_Types Json Calendar_Chain Collision
begin

section \<open>Configuration of a node\<close>

text \<open>
  Models \<^verbatim>\<open>core-engine/src/config\<close> and \<^verbatim>\<open>foretias-server/src/server/config.rs\<close>: the
  configuration records, how \<^verbatim>\<open>serde\<close> reads them from a JSON file, their defaults, and how the
  command line is merged with a file. A field that a file leaves out takes the default of its own
  attribute; a whole section that is left out takes the \<^verbatim>\<open>Default\<close> of its type, which is a
  different thing where that is derived.
\<close>

subsection \<open>The records\<close>

record key_rotation_config =
  kro_enabled :: bool
  kro_interval_chronons :: u64

record chronomatter_config =
  chc_chronon_ns :: u64
  chc_tbn :: string
  chc_dormant :: bool
  chc_signature_algorithm :: signature_algorithm
  chc_kem_algorithm :: kem_algorithm
  chc_key_rotation :: key_rotation_config

record encryption_config =
  ecf_enabled :: bool
  ecf_algorithm :: string

record calendar_config =
  clg_tbn :: u64
  clg_persist_path :: string
  clg_encryption :: encryption_config

record mutual_attest_config =
  mac_every_n_chronons :: u64
  mac_request_timeout_secs :: u64
  mac_peers :: "string list"

record dht_config =
  dhc_namespace :: string
  dhc_bootstrap :: "string list"

record collision_config =
  cof_heartbeat_interval_secs :: u64
  cof_nonce_window :: nat
  cof_liege_wait_secs :: u64

record communerd_config =
  cmc_mutual_attest :: mutual_attest_config
  cmc_p2p_listen :: "string option"
  cmc_p2p_port_range :: "u16 \<times> u16"
  cmc_p2p_dial :: "string list"
  cmc_known_servers :: "string list"
  cmc_max_discovered_peers :: nat
  cmc_dht :: dht_config
  cmc_collision :: collision_config

record logging_config =
  lgc_log_dir :: string
  lgc_level :: string
  lgc_component_levels :: "string list"
  lgc_format :: string

record time_family_config =
  tfc_version :: string
  tfc_chronomatter :: chronomatter_config
  tfc_calendars :: "calendar_config list"
  tfc_communerd :: communerd_config
  tfc_listen_addr :: string
  tfc_logging :: logging_config

record node_config =
  ndc_listen_addr :: string
  ndc_version :: string
  ndc_calendar_path :: string
  ndc_chronon_ns :: u64
  ndc_serialized :: bool
  ndc_peers :: "string list"
  ndc_auto_attest_every_n :: u64
  ndc_request_timeout_secs :: u64
  ndc_p2p_listen :: "string option"
  ndc_p2p_dial :: "string list"
  ndc_dht_namespace :: string
  ndc_dht_bootstrap :: "string list"
  ndc_p2p_port_range :: "u16 \<times> u16"
  ndc_known_servers :: "string list"
  ndc_max_discovered_peers :: nat
  ndc_collision :: collision_config
  ndc_signature_algorithm :: signature_algorithm
  ndc_kem_algorithm :: kem_algorithm

subsection \<open>Defaults\<close>

text \<open>What surrounds a process: \<^verbatim>\<open>HOME\<close> and the version of the package.\<close>

record config_env =
  cfe_home :: "string option"
  cfe_pkg_version :: string

definition key_rotation_default :: key_rotation_config where
  "key_rotation_default = \<lparr>kro_enabled = False, kro_interval_chronons = 0\<rparr>"

definition DEFAULT_CHRONON_NS :: u64 where
  "DEFAULT_CHRONON_NS = 60000000000"

definition chronomatter_default :: chronomatter_config where
  "chronomatter_default = \<lparr>chc_chronon_ns = DEFAULT_CHRONON_NS, chc_tbn = ''Default'', chc_dormant = False,
     chc_signature_algorithm = Ed25519, chc_kem_algorithm = NoiseXX, chc_key_rotation = key_rotation_default\<rparr>"

definition encryption_default :: encryption_config where
  "encryption_default = \<lparr>ecf_enabled = False, ecf_algorithm = []\<rparr>"

definition calendar_config_default :: calendar_config where
  "calendar_config_default = \<lparr>clg_tbn = 0, clg_persist_path = ''.foretias/calendars'', clg_encryption = encryption_default\<rparr>"

text \<open>The derived \<^verbatim>\<open>Default\<close> of the four records below is zero, empty, absent in every field.\<close>

definition mutual_attest_default :: mutual_attest_config where
  "mutual_attest_default = \<lparr>mac_every_n_chronons = 0, mac_request_timeout_secs = 0, mac_peers = []\<rparr>"

definition dht_default :: dht_config where
  "dht_default = \<lparr>dhc_namespace = [], dhc_bootstrap = []\<rparr>"

definition collision_default :: collision_config where
  "collision_default = \<lparr>cof_heartbeat_interval_secs = 0, cof_nonce_window = 0, cof_liege_wait_secs = 0\<rparr>"

definition communerd_default :: communerd_config where
  "communerd_default = \<lparr>cmc_mutual_attest = mutual_attest_default, cmc_p2p_listen = None, cmc_p2p_port_range = (0, 0),
     cmc_p2p_dial = [], cmc_known_servers = [], cmc_max_discovered_peers = 0, cmc_dht = dht_default,
     cmc_collision = collision_default\<rparr>"

definition default_log_dir :: "config_env \<Rightarrow> string" where
  "default_log_dir e = (case cfe_home e of
     Some h \<Rightarrow> h @ ''/.local/share/foretias/log'' | None \<Rightarrow> ''/tmp/foretias-log'')"

definition logging_default :: "config_env \<Rightarrow> logging_config" where
  "logging_default e = \<lparr>lgc_log_dir = default_log_dir e, lgc_level = ''info'', lgc_component_levels = [],
     lgc_format = ''pretty''\<rparr>"

definition time_family_default :: "config_env \<Rightarrow> time_family_config" where
  "time_family_default e = \<lparr>tfc_version = cfe_pkg_version e, tfc_chronomatter = chronomatter_default,
     tfc_calendars = [calendar_config_default], tfc_communerd = communerd_default,
     tfc_listen_addr = ''127.0.0.1:4001'', tfc_logging = logging_default e\<rparr>"

definition node_default :: "config_env \<Rightarrow> node_config" where
  "node_default e = \<lparr>ndc_listen_addr = ''127.0.0.1:4001'', ndc_version = cfe_pkg_version e,
     ndc_calendar_path = ''.foretias/calendars'', ndc_chronon_ns = 60000000000, ndc_serialized = False, ndc_peers = [],
     ndc_auto_attest_every_n = 1, ndc_request_timeout_secs = 5, ndc_p2p_listen = None, ndc_p2p_dial = [],
     ndc_dht_namespace = ''mainnet'', ndc_dht_bootstrap = [], ndc_p2p_port_range = (9900, 9999),
     ndc_known_servers = [], ndc_max_discovered_peers = 13, ndc_collision = collision_default,
     ndc_signature_algorithm = Ed25519, ndc_kem_algorithm = NoiseXX\<rparr>"

subsection \<open>Reading a file\<close>

text \<open>
  A record is read from an object, or from an array by position; an unknown field is ignored, a
  repeated one refused. The error is not kept: \<open>load\<close> drops it.
\<close>

type_synonym 'a de = "json \<Rightarrow> 'a option"

definition de_usize :: "nat de" where
  "de_usize v = map_option unat (as_u64 v)"

definition de_u16 :: "u16 de" where
  "de_u16 v = Option.bind (as_u64 v) (\<lambda>n. if n < 65536 then Some (ucast n) else None)"

definition de_list :: "'a de \<Rightarrow> 'a list de" where
  "de_list d v = Option.bind (as_array v) (\<lambda>vs. those (map d vs))"

definition de_option :: "'a de \<Rightarrow> 'a option de" where
  "de_option d v = (if v = JNull then Some None else map_option Some (d v))"

definition de_port_range :: "(u16 \<times> u16) de" where
  "de_port_range v = Option.bind (de_list de_u16 v) (\<lambda>ps. case ps of [a, b] \<Rightarrow> Some (a, b) | _ \<Rightarrow> None)"

definition de_signature_algorithm :: "signature_algorithm de" where
  "de_signature_algorithm v = Option.bind (as_str v) (\<lambda>s. case from_id_string s of Ok a \<Rightarrow> Some a | _ \<Rightarrow> None)"

definition de_kem_algorithm :: "kem_algorithm de" where
  "de_kem_algorithm v = Option.bind (as_str v) (\<lambda>s. case kem_from_id_string s of Ok a \<Rightarrow> Some a | _ \<Rightarrow> None)"

definition de_entries :: "string list \<Rightarrow> (string \<times> json) list de" where
  "de_entries names v = (case v of
     JObject kvs \<Rightarrow> Some kvs
   | JArray vs \<Rightarrow> if length vs \<le> length names then Some (zip names vs) else None
   | _ \<Rightarrow> None)"

definition de_field :: "string \<Rightarrow> 'a de \<Rightarrow> 'a option \<Rightarrow> (string \<times> json) list \<Rightarrow> 'a option" where
  "de_field name d absent kvs = (case filter (\<lambda>kv. fst kv = name) kvs of
     [] \<Rightarrow> absent | [kv] \<Rightarrow> d (snd kv) | _ \<Rightarrow> None)"

definition key_rotation_of_json :: "key_rotation_config de" where
  "key_rotation_of_json v =
     Option.bind (de_entries [''enabled'', ''interval_chronons''] v) (\<lambda>kvs.
     Option.bind (de_field ''enabled'' as_bool (Some False) kvs) (\<lambda>enabled.
     Option.bind (de_field ''interval_chronons'' as_u64 (Some 0) kvs) (\<lambda>interval.
       Some \<lparr>kro_enabled = enabled, kro_interval_chronons = interval\<rparr>)))"

definition chronomatter_of_json :: "chronomatter_config de" where
  "chronomatter_of_json v =
     Option.bind (de_entries [''chronon_ns'', ''tbn'', ''dormant'', ''signature_algorithm'', ''kem_algorithm'',
       ''key_rotation''] v) (\<lambda>kvs.
     Option.bind (de_field ''chronon_ns'' as_u64 (Some DEFAULT_CHRONON_NS) kvs) (\<lambda>chronon_ns.
     Option.bind (de_field ''tbn'' as_str (Some ''Default'') kvs) (\<lambda>tbn.
     Option.bind (de_field ''dormant'' as_bool (Some False) kvs) (\<lambda>dormant.
     Option.bind (de_field ''signature_algorithm'' de_signature_algorithm (Some Ed25519) kvs) (\<lambda>sig.
     Option.bind (de_field ''kem_algorithm'' de_kem_algorithm (Some NoiseXX) kvs) (\<lambda>kem.
     Option.bind (de_field ''key_rotation'' key_rotation_of_json (Some key_rotation_default) kvs) (\<lambda>rotation.
       Some \<lparr>chc_chronon_ns = chronon_ns, chc_tbn = tbn, chc_dormant = dormant, chc_signature_algorithm = sig,
             chc_kem_algorithm = kem, chc_key_rotation = rotation\<rparr>)))))))"

definition encryption_of_json :: "encryption_config de" where
  "encryption_of_json v =
     Option.bind (de_entries [''enabled'', ''algorithm''] v) (\<lambda>kvs.
     Option.bind (de_field ''enabled'' as_bool (Some False) kvs) (\<lambda>enabled.
     Option.bind (de_field ''algorithm'' as_str (Some []) kvs) (\<lambda>algorithm.
       Some \<lparr>ecf_enabled = enabled, ecf_algorithm = algorithm\<rparr>)))"

definition calendar_config_of_json :: "calendar_config de" where
  "calendar_config_of_json v =
     Option.bind (de_entries [''tbn'', ''persist_path'', ''encryption''] v) (\<lambda>kvs.
     Option.bind (de_field ''tbn'' as_u64 (Some 0) kvs) (\<lambda>tbn.
     Option.bind (de_field ''persist_path'' as_str (Some ''.foretias/calendars'') kvs) (\<lambda>persist_path.
     Option.bind (de_field ''encryption'' encryption_of_json (Some encryption_default) kvs) (\<lambda>encryption.
       Some \<lparr>clg_tbn = tbn, clg_persist_path = persist_path, clg_encryption = encryption\<rparr>))))"

definition mutual_attest_of_json :: "mutual_attest_config de" where
  "mutual_attest_of_json v =
     Option.bind (de_entries [''every_n_chronons'', ''request_timeout_secs'', ''peers''] v) (\<lambda>kvs.
     Option.bind (de_field ''every_n_chronons'' as_u64 (Some 1) kvs) (\<lambda>every_n.
     Option.bind (de_field ''request_timeout_secs'' as_u64 (Some 5) kvs) (\<lambda>timeout.
     Option.bind (de_field ''peers'' (de_list as_str) (Some []) kvs) (\<lambda>peers.
       Some \<lparr>mac_every_n_chronons = every_n, mac_request_timeout_secs = timeout, mac_peers = peers\<rparr>))))"

definition dht_of_json :: "dht_config de" where
  "dht_of_json v =
     Option.bind (de_entries [''namespace'', ''bootstrap''] v) (\<lambda>kvs.
     Option.bind (de_field ''namespace'' as_str (Some ''mainnet'') kvs) (\<lambda>namespace.
     Option.bind (de_field ''bootstrap'' (de_list as_str) (Some []) kvs) (\<lambda>bootstrap.
       Some \<lparr>dhc_namespace = namespace, dhc_bootstrap = bootstrap\<rparr>)))"

definition collision_of_json :: "collision_config de" where
  "collision_of_json v =
     Option.bind (de_entries [''heartbeat_interval_secs'', ''nonce_window'', ''liege_wait_secs''] v) (\<lambda>kvs.
     Option.bind (de_field ''heartbeat_interval_secs'' as_u64 (Some 30) kvs) (\<lambda>interval.
     Option.bind (de_field ''nonce_window'' de_usize (Some 10) kvs) (\<lambda>window.
     Option.bind (de_field ''liege_wait_secs'' as_u64 (Some 30) kvs) (\<lambda>wait.
       Some \<lparr>cof_heartbeat_interval_secs = interval, cof_nonce_window = window, cof_liege_wait_secs = wait\<rparr>))))"

definition communerd_of_json :: "communerd_config de" where
  "communerd_of_json v =
     Option.bind (de_entries [''mutual_attest'', ''p2p_listen'', ''p2p_port_range'', ''p2p_dial'', ''known_servers'',
       ''max_discovered_peers'', ''dht'', ''collision''] v) (\<lambda>kvs.
     Option.bind (de_field ''mutual_attest'' mutual_attest_of_json (Some mutual_attest_default) kvs) (\<lambda>mutual.
     Option.bind (de_field ''p2p_listen'' (de_option as_str) (Some None) kvs) (\<lambda>listen.
     Option.bind (de_field ''p2p_port_range'' de_port_range (Some (9900, 9999)) kvs) (\<lambda>range.
     Option.bind (de_field ''p2p_dial'' (de_list as_str) (Some []) kvs) (\<lambda>dial.
     Option.bind (de_field ''known_servers'' (de_list as_str) (Some []) kvs) (\<lambda>servers.
     Option.bind (de_field ''max_discovered_peers'' de_usize (Some 13) kvs) (\<lambda>max_peers.
     Option.bind (de_field ''dht'' dht_of_json (Some dht_default) kvs) (\<lambda>dht.
     Option.bind (de_field ''collision'' collision_of_json (Some collision_default) kvs) (\<lambda>collision.
       Some \<lparr>cmc_mutual_attest = mutual, cmc_p2p_listen = listen, cmc_p2p_port_range = range, cmc_p2p_dial = dial,
             cmc_known_servers = servers, cmc_max_discovered_peers = max_peers, cmc_dht = dht,
             cmc_collision = collision\<rparr>)))))))))"

definition logging_of_json :: "config_env \<Rightarrow> logging_config de" where
  "logging_of_json e v =
     Option.bind (de_entries [''log_dir'', ''level'', ''component_levels'', ''format''] v) (\<lambda>kvs.
     Option.bind (de_field ''log_dir'' as_str (Some (default_log_dir e)) kvs) (\<lambda>log_dir.
     Option.bind (de_field ''level'' as_str (Some ''info'') kvs) (\<lambda>level.
     Option.bind (de_field ''component_levels'' (de_list as_str) (Some []) kvs) (\<lambda>component_levels.
     Option.bind (de_field ''format'' as_str (Some ''pretty'') kvs) (\<lambda>format.
       Some \<lparr>lgc_log_dir = log_dir, lgc_level = level, lgc_component_levels = component_levels,
             lgc_format = format\<rparr>)))))"

definition time_family_of_json :: "config_env \<Rightarrow> time_family_config de" where
  "time_family_of_json e v =
     Option.bind (de_entries [''version'', ''chronomatter'', ''calendars'', ''communerd'', ''listen_addr'', ''logging''] v)
       (\<lambda>kvs.
     Option.bind (de_field ''version'' as_str None kvs) (\<lambda>version.
     Option.bind (de_field ''chronomatter'' chronomatter_of_json (Some chronomatter_default) kvs) (\<lambda>chronomatter.
     Option.bind (de_field ''calendars'' (de_list calendar_config_of_json) (Some [calendar_config_default]) kvs) (\<lambda>calendars.
     Option.bind (de_field ''communerd'' communerd_of_json (Some communerd_default) kvs) (\<lambda>communerd.
     Option.bind (de_field ''listen_addr'' as_str (Some ''127.0.0.1:4001'') kvs) (\<lambda>listen_addr.
     Option.bind (de_field ''logging'' (logging_of_json e) (Some (logging_default e)) kvs) (\<lambda>logging.
       Some \<lparr>tfc_version = version, tfc_chronomatter = chronomatter, tfc_calendars = calendars,
             tfc_communerd = communerd, tfc_listen_addr = listen_addr, tfc_logging = logging\<rparr>)))))))"

text \<open>\<open>from_str\<close> parses the text of a file.\<close>

definition time_family_load ::
    "config_env \<Rightarrow> (string \<Rightarrow> json option) \<Rightarrow> fs \<Rightarrow> string \<Rightarrow> time_family_config" where
  "time_family_load e from_str files path =
     unwrap_or (time_family_default e)
       (Option.bind (Option.bind (files path) from_str) (time_family_of_json e))"

definition time_family_default_path :: "config_env \<Rightarrow> string" where
  "time_family_default_path e = (case cfe_home e of
     Some h \<Rightarrow> h @ ''/.config/foretias/foretias.json'' | None \<Rightarrow> ''.config/foretias/foretias.json'')"

section \<open>Merging a configuration with the command line\<close>

text \<open>
  The rest of \<^verbatim>\<open>core-engine/src/config\<close> (\<^verbatim>\<open>TimeFamilyConfig::from_cli_and_file\<close>, the older
  \<^verbatim>\<open>NodeConfig\<close> and its conversion) and the builder of \<^verbatim>\<open>server/config.rs\<close>, with what they
  make of a missing file or section.
\<close>

subsection \<open>Command line and file\<close>

record time_family_cli_config =
  tcc_listen_addr :: string
  tcc_chronon_ns :: u64
  tcc_persist_path :: "string option"
  tcc_dormant :: bool
  tcc_peers :: "string list"
  tcc_auto_attest_every_n :: u64
  tcc_request_timeout_secs :: u64
  tcc_p2p_listen :: "string option"
  tcc_p2p_port_range :: "u16 \<times> u16"
  tcc_p2p_dial :: "string list"
  tcc_known_servers :: "string list"
  tcc_dht_namespace :: string
  tcc_dht_bootstrap :: "string list"
  tcc_max_discovered_peers :: nat
  tcc_config_file_path :: "string option"

definition from_cli_and_file ::
    "config_env \<Rightarrow> (string \<Rightarrow> json option) \<Rightarrow> fs \<Rightarrow> time_family_cli_config \<Rightarrow> time_family_config" where
  "from_cli_and_file e from_str files cli =
     (let cfg = (case tcc_config_file_path cli of
            Some path \<Rightarrow> time_family_load e from_str files path
          | None \<Rightarrow> time_family_default e);
          comm = tfc_communerd cfg;
          calendars = (case tcc_persist_path cli of
            None \<Rightarrow> tfc_calendars cfg
          | Some p \<Rightarrow>
              (let cs = (if tfc_calendars cfg = [] then [calendar_config_default] else tfc_calendars cfg)
               in cs[0 := (cs ! 0)\<lparr>clg_persist_path := p\<rparr>]))
      in cfg\<lparr>
        tfc_chronomatter := (tfc_chronomatter cfg)\<lparr>chc_chronon_ns := tcc_chronon_ns cli, chc_dormant := tcc_dormant cli\<rparr>,
        tfc_listen_addr := tcc_listen_addr cli,
        tfc_communerd := comm\<lparr>
          cmc_mutual_attest := (cmc_mutual_attest comm)\<lparr>mac_peers := tcc_peers cli,
            mac_every_n_chronons := tcc_auto_attest_every_n cli,
            mac_request_timeout_secs := tcc_request_timeout_secs cli\<rparr>,
          cmc_p2p_listen := tcc_p2p_listen cli, cmc_p2p_port_range := tcc_p2p_port_range cli,
          cmc_p2p_dial := tcc_p2p_dial cli, cmc_known_servers := tcc_known_servers cli,
          cmc_max_discovered_peers := tcc_max_discovered_peers cli,
          cmc_dht := \<lparr>dhc_namespace = tcc_dht_namespace cli, dhc_bootstrap = tcc_dht_bootstrap cli\<rparr>\<rparr>,
        tfc_calendars := calendars\<rparr>)"

definition tfc_persist_path :: "time_family_config \<Rightarrow> string option" where
  "tfc_persist_path cfg = map_option clg_persist_path (list_first (tfc_calendars cfg))"

definition mutual_attest_peers :: "time_family_config \<Rightarrow> string list" where
  "mutual_attest_peers cfg = mac_peers (cmc_mutual_attest (tfc_communerd cfg))"

definition mutual_attest_every_n :: "time_family_config \<Rightarrow> u64" where
  "mutual_attest_every_n cfg = mac_every_n_chronons (cmc_mutual_attest (tfc_communerd cfg))"

definition mutual_attest_request_timeout_secs :: "time_family_config \<Rightarrow> u64" where
  "mutual_attest_request_timeout_secs cfg = mac_request_timeout_secs (cmc_mutual_attest (tfc_communerd cfg))"

subsection \<open>The configuration of a node\<close>

definition node_of_json :: "config_env \<Rightarrow> node_config de" where
  "node_of_json e v =
     Option.bind (de_entries [''listen_addr'', ''version'', ''calendar_path'', ''chronon_ns'', ''serialized'', ''peers'',
       ''auto_attest_every_n'', ''request_timeout_secs'', ''p2p_listen'', ''p2p_dial'', ''dht_namespace'',
       ''dht_bootstrap'', ''p2p_port_range'', ''known_servers'', ''max_discovered_peers'', ''collision'',
       ''signature_algorithm'', ''kem_algorithm''] v) (\<lambda>kvs.
     Option.bind (de_field ''listen_addr'' as_str (Some ''127.0.0.1:4001'') kvs) (\<lambda>listen_addr.
     Option.bind (de_field ''version'' as_str (Some (cfe_pkg_version e)) kvs) (\<lambda>version.
     Option.bind (de_field ''calendar_path'' as_str (Some ''.foretias/calendars'') kvs) (\<lambda>calendar_path.
     Option.bind (de_field ''chronon_ns'' as_u64 (Some 60000000000) kvs) (\<lambda>chronon_ns.
     Option.bind (de_field ''serialized'' as_bool (Some False) kvs) (\<lambda>serialized.
     Option.bind (de_field ''peers'' (de_list as_str) (Some []) kvs) (\<lambda>peers.
     Option.bind (de_field ''auto_attest_every_n'' as_u64 (Some 1) kvs) (\<lambda>every_n.
     Option.bind (de_field ''request_timeout_secs'' as_u64 (Some 5) kvs) (\<lambda>timeout.
     Option.bind (de_field ''p2p_listen'' (de_option as_str) (Some None) kvs) (\<lambda>listen.
     Option.bind (de_field ''p2p_dial'' (de_list as_str) (Some []) kvs) (\<lambda>dial.
     Option.bind (de_field ''dht_namespace'' as_str (Some ''mainnet'') kvs) (\<lambda>namespace.
     Option.bind (de_field ''dht_bootstrap'' (de_list as_str) (Some []) kvs) (\<lambda>bootstrap.
     Option.bind (de_field ''p2p_port_range'' de_port_range (Some (9900, 9999)) kvs) (\<lambda>range.
     Option.bind (de_field ''known_servers'' (de_list as_str) (Some []) kvs) (\<lambda>servers.
     Option.bind (de_field ''max_discovered_peers'' de_usize (Some 13) kvs) (\<lambda>max_peers.
     Option.bind (de_field ''collision'' collision_of_json (Some collision_default) kvs) (\<lambda>collision.
     Option.bind (de_field ''signature_algorithm'' de_signature_algorithm (Some Ed25519) kvs) (\<lambda>sig.
     Option.bind (de_field ''kem_algorithm'' de_kem_algorithm (Some NoiseXX) kvs) (\<lambda>kem.
       Some \<lparr>ndc_listen_addr = listen_addr, ndc_version = version, ndc_calendar_path = calendar_path,
         ndc_chronon_ns = chronon_ns, ndc_serialized = serialized, ndc_peers = peers,
         ndc_auto_attest_every_n = every_n, ndc_request_timeout_secs = timeout, ndc_p2p_listen = listen,
         ndc_p2p_dial = dial, ndc_dht_namespace = namespace, ndc_dht_bootstrap = bootstrap,
         ndc_p2p_port_range = range, ndc_known_servers = servers, ndc_max_discovered_peers = max_peers,
         ndc_collision = collision, ndc_signature_algorithm = sig, ndc_kem_algorithm = kem\<rparr>)))))))))))))))))))"

definition node_load :: "config_env \<Rightarrow> (string \<Rightarrow> json option) \<Rightarrow> fs \<Rightarrow> string \<Rightarrow> node_config" where
  "node_load e from_str files path =
     unwrap_or (node_default e) (Option.bind (Option.bind (files path) from_str) (node_of_json e))"

definition node_default_path :: "config_env \<Rightarrow> string" where
  "node_default_path e = (case cfe_home e of
     Some h \<Rightarrow> h @ ''/.config/foretias/foretias.settings.json'' | None \<Rightarrow> ''.config/foretias/foretias.settings.json'')"

definition node_validate :: "node_config \<Rightarrow> (unit, string) result" where
  "node_validate cfg =
     (if ndc_dht_namespace cfg = [] then Err ''dht_namespace must not be empty''
      else if 64 < length (ndc_dht_namespace cfg) then Err ''dht_namespace must be 64 bytes or fewer''
      else Ok ())"

definition time_family_of_node :: "config_env \<Rightarrow> node_config \<Rightarrow> time_family_config" where
  "time_family_of_node e node =
     \<lparr>tfc_version = ndc_version node,
      tfc_chronomatter = \<lparr>chc_chronon_ns = ndc_chronon_ns node, chc_tbn = ''Default'', chc_dormant = False,
        chc_signature_algorithm = ndc_signature_algorithm node, chc_kem_algorithm = ndc_kem_algorithm node,
        chc_key_rotation = key_rotation_default\<rparr>,
      tfc_calendars = [\<lparr>clg_tbn = 0, clg_persist_path = ndc_calendar_path node, clg_encryption = encryption_default\<rparr>],
      tfc_communerd =
        \<lparr>cmc_mutual_attest = \<lparr>mac_every_n_chronons = ndc_auto_attest_every_n node,
           mac_request_timeout_secs = ndc_request_timeout_secs node, mac_peers = ndc_peers node\<rparr>,
         cmc_p2p_listen = ndc_p2p_listen node, cmc_p2p_port_range = ndc_p2p_port_range node,
         cmc_p2p_dial = ndc_p2p_dial node, cmc_known_servers = ndc_known_servers node,
         cmc_max_discovered_peers = ndc_max_discovered_peers node,
         cmc_dht = \<lparr>dhc_namespace = ndc_dht_namespace node, dhc_bootstrap = ndc_dht_bootstrap node\<rparr>,
         cmc_collision = ndc_collision node\<rparr>,
      tfc_listen_addr = ndc_listen_addr node, tfc_logging = logging_default e\<rparr>"

definition FORETIAS_MUTUAL_ATTESTATION_MINIMUM :: u64 where
  "FORETIAS_MUTUAL_ATTESTATION_MINIMUM = 60000000000"

text \<open>With overflow checks on, a sum or a product past 64 bits panics; else it wraps.\<close>

definition compute_attestation_interval :: "bool \<Rightarrow> u64 \<Rightarrow> u64 \<Rightarrow> (u64, 'e) result" where
  "compute_attestation_interval debug my_chronon_ns peer_chronon_ns =
     rbind (add_u64 debug my_chronon_ns peer_chronon_ns) (\<lambda>n.
       if debug \<and> 2 ^ 64 \<le> 50 * unat n then Panic
       else Ok (max FORETIAS_MUTUAL_ATTESTATION_MINIMUM (50 * n)))"

subsection \<open>The configuration of a server\<close>

record foretias_server_config =
  fsc_p2p :: p2p_config
  fsc_listen_addr :: string
  fsc_p2p_enabled :: bool
  fsc_p2p_listen :: "string option"
  fsc_p2p_port_range :: "u16 \<times> u16"
  fsc_persist_path :: "string option"

definition server_config_new :: "string \<Rightarrow> string \<Rightarrow> foretias_server_config" where
  "server_config_new tbn listen_addr = \<lparr>fsc_p2p = p2p_config_new tbn ''mainnet'', fsc_listen_addr = listen_addr,
     fsc_p2p_enabled = False, fsc_p2p_listen = None, fsc_p2p_port_range = (0, 0), fsc_persist_path = None\<rparr>"

definition with_p2p_enabled :: "bool \<Rightarrow> foretias_server_config \<Rightarrow> foretias_server_config" where
  "with_p2p_enabled enabled cfg = cfg\<lparr>fsc_p2p_enabled := enabled\<rparr>"

definition with_dht_namespace :: "string \<Rightarrow> foretias_server_config \<Rightarrow> foretias_server_config" where
  "with_dht_namespace namespace cfg = cfg\<lparr>fsc_p2p := (fsc_p2p cfg)\<lparr>pg2_dht_namespace := namespace\<rparr>\<rparr>"

definition with_known_servers :: "string list \<Rightarrow> foretias_server_config \<Rightarrow> foretias_server_config" where
  "with_known_servers servers cfg = cfg\<lparr>fsc_p2p := p2p_with_known_servers servers (fsc_p2p cfg)\<rparr>"

definition with_peers :: "string list \<Rightarrow> foretias_server_config \<Rightarrow> foretias_server_config" where
  "with_peers peers cfg = cfg\<lparr>fsc_p2p := p2p_with_peers peers (fsc_p2p cfg)\<rparr>"

definition with_chronon :: "u64 \<Rightarrow> foretias_server_config \<Rightarrow> foretias_server_config" where
  "with_chronon chronon_ns cfg = cfg\<lparr>fsc_p2p := p2p_with_chronon chronon_ns (fsc_p2p cfg)\<rparr>"

definition with_persist_path :: "string \<Rightarrow> foretias_server_config \<Rightarrow> foretias_server_config" where
  "with_persist_path path cfg =
     cfg\<lparr>fsc_persist_path := Some path, fsc_p2p := p2p_with_persist_path path (fsc_p2p cfg)\<rparr>"

definition with_p2p_listen :: "string \<Rightarrow> foretias_server_config \<Rightarrow> foretias_server_config" where
  "with_p2p_listen addr cfg = cfg\<lparr>fsc_p2p_listen := Some addr\<rparr>"

definition server_config_tbn :: "foretias_server_config \<Rightarrow> string" where
  "server_config_tbn cfg = sg_tbn (pc_standalone (pg2_ptp (fsc_p2p cfg)))"

definition server_config_chronon_ns :: "foretias_server_config \<Rightarrow> u64" where
  "server_config_chronon_ns cfg = sg_chronon_ns (pc_standalone (pg2_ptp (fsc_p2p cfg)))"

definition server_config_persist_path :: "foretias_server_config \<Rightarrow> string option" where
  "server_config_persist_path cfg = (case fsc_persist_path cfg of
     Some p \<Rightarrow> Some p | None \<Rightarrow> sg_persist_path (pc_standalone (pg2_ptp (fsc_p2p cfg))))"

section \<open>What a missing file configures\<close>

lemma from_cli_sections:
  "tfc_communerd (from_cli_and_file e from_str files cli) =
     (tfc_communerd (case tcc_config_file_path cli of Some path \<Rightarrow> time_family_load e from_str files path
        | None \<Rightarrow> time_family_default e))\<lparr>
       cmc_mutual_attest := \<lparr>mac_every_n_chronons = tcc_auto_attest_every_n cli,
         mac_request_timeout_secs = tcc_request_timeout_secs cli, mac_peers = tcc_peers cli\<rparr>,
       cmc_p2p_listen := tcc_p2p_listen cli, cmc_p2p_port_range := tcc_p2p_port_range cli,
       cmc_p2p_dial := tcc_p2p_dial cli, cmc_known_servers := tcc_known_servers cli,
       cmc_max_discovered_peers := tcc_max_discovered_peers cli,
       cmc_dht := \<lparr>dhc_namespace = tcc_dht_namespace cli, dhc_bootstrap = tcc_dht_bootstrap cli\<rparr>\<rparr>"
  by (simp add: from_cli_and_file_def Let_def)

lemma time_family_section:
  "time_family_of_json e (JObject kvs) = Some cfg \<Longrightarrow>
     de_field ''communerd'' communerd_of_json (Some communerd_default) kvs = Some (tfc_communerd cfg)"
  by (auto simp: time_family_of_json_def de_entries_def bind_eq_Some_conv)

lemma communerd_section:
  "communerd_of_json (JObject ckvs) = Some c \<Longrightarrow>
     de_field ''collision'' collision_of_json (Some collision_default) ckvs = Some (cmc_collision c)"
  by (auto simp: communerd_of_json_def de_entries_def bind_eq_Some_conv)

lemma no_entry: "name \<notin> fst ` set kvs \<Longrightarrow> filter (\<lambda>kv. fst kv = name) kvs = []"
  by (induction kvs) auto

lemma field_left_out: "name \<notin> fst ` set kvs \<Longrightarrow> de_field name d absent kvs = absent"
  by (simp add: de_field_def no_entry)

text \<open>The object of a file does not configure collisions: neither its section nor one of its own.\<close>

definition no_collision_section :: "(string \<times> json) list \<Rightarrow> bool" where
  "no_collision_section kvs \<longleftrightarrow> ''communerd'' \<notin> fst ` set kvs \<or>
     (\<exists>pre post ckvs. kvs = pre @ (''communerd'', JObject ckvs) # post \<and> ''communerd'' \<notin> fst ` set (pre @ post) \<and>
        ''collision'' \<notin> fst ` set ckvs)"

lemma section_left_out:
  assumes "files path = Some s" and "from_str s = Some (JObject kvs)" and "time_family_of_json e (JObject kvs) = Some cfg"
    and "no_collision_section kvs"
  shows "cmc_collision (tfc_communerd (time_family_load e from_str files path)) = collision_default"
proof -
  note sec = time_family_section [OF assms(3)]
  from assms(4) have "cmc_collision (tfc_communerd cfg) = collision_default"
    unfolding no_collision_section_def
  proof (elim disjE exE conjE)
    assume "''communerd'' \<notin> fst ` set kvs"
    with sec have "tfc_communerd cfg = communerd_default" by (simp add: field_left_out)
    then show ?thesis by (simp add: communerd_default_def)
  next
    fix pre post ckvs
    assume kvs: "kvs = pre @ (''communerd'', JObject ckvs) # post" "''communerd'' \<notin> fst ` set (pre @ post)"
      and "''collision'' \<notin> fst ` set ckvs"
    have "filter (\<lambda>kv. fst kv = ''communerd'') pre = []" "filter (\<lambda>kv. fst kv = ''communerd'') post = []"
      using kvs(2) no_entry [of _ pre] no_entry [of _ post] by (simp_all add: image_Un)
    then have "communerd_of_json (JObject ckvs) = Some (tfc_communerd cfg)"
      using sec kvs(1) by (simp add: de_field_def)
    from communerd_section [OF this] show ?thesis
      using \<open>''collision'' \<notin> fst ` set ckvs\<close> by (simp add: field_left_out)
  qed
  with assms(1-3) show ?thesis by (simp add: time_family_load_def unwrap_or_def)
qed

text \<open>
  C29: A node started without a configuration file, or with one that does not configure the
  detection of collisions, remembers a single nonce of its own, where the documented default is
  ten: the heartbeat before its last one, coming back, is confirmed as a collision.
\<close>

theorem unconfigured_node_reports_itself:
  assumes "tcc_config_file_path cli = None \<or> (\<exists>path s kvs cfg. tcc_config_file_path cli = Some path \<and>
      files path = Some s \<and> from_str s = Some (JObject kvs) \<and> time_family_of_json e (JObject kvs) = Some cfg \<and>
      no_collision_section kvs)"
    and "hb_peer_id hb = p" and "64 \<le> length (hb_signature hb)"
    and "cs_verify_ed25519 crypto key (hb_canonical hb) (take 64 (hb_signature hb)) = Ok True"
    and "hb_nonce hb \<noteq> later"
  shows "on_heartbeat hb crypto (register_all (sent @ [hb_nonce hb, later]) (collision_detector_new p key
      (cof_nonce_window (cmc_collision (tfc_communerd (from_cli_and_file e from_str files cli)))))) =
    (Ok (Some hb) :: (heartbeat option, node_error) result)"
proof -
  have "cmc_collision (tfc_communerd (from_cli_and_file e from_str files cli)) = collision_default"
    using assms(1) section_left_out [of files _ _ from_str _ e]
    by (auto simp: from_cli_sections time_family_default_def communerd_default_def)
  moreover have "hb_nonce hb \<notin> set (recent (max 1 0) (sent @ [hb_nonce hb, later]))"
    using assms(5) by (simp add: recent_def)
  ultimately show ?thesis
    using late_echo_is_a_collision [OF assms(2-4), THEN conjunct1, of "sent @ [hb_nonce hb, later]" 0]
    by (simp add: collision_default_def)
qed

text \<open>With a file that gives a version and the namespace of the DHT.\<close>

definition demo_cli :: time_family_cli_config where
  "demo_cli = \<lparr>tcc_listen_addr = ''127.0.0.1:4001'', tcc_chronon_ns = 60000000000, tcc_persist_path = None,
     tcc_dormant = False, tcc_peers = [''p:1''], tcc_auto_attest_every_n = 1, tcc_request_timeout_secs = 5,
     tcc_p2p_listen = None, tcc_p2p_port_range = (9900, 9999), tcc_p2p_dial = [], tcc_known_servers = [],
     tcc_dht_namespace = ''mainnet'', tcc_dht_bootstrap = [], tcc_max_discovered_peers = 13,
     tcc_config_file_path = Some ''f''\<rparr>"

definition demo_file :: "(string \<times> json) list" where
  "demo_file = [(''version'', JString ''1''),
     (''communerd'', JObject [(''dht'', JObject [(''namespace'', JString ''testnet'')])])]"

theorem unconfigured_node_reports_itself_witness:
  "on_heartbeat (own_heartbeat 1) demo_server (register_all [replicate 16 1, replicate 16 2]
     (collision_detector_new ''p'' (demo_public [1]) (cof_nonce_window (cmc_collision (tfc_communerd
       (from_cli_and_file \<lparr>cfe_home = None, cfe_pkg_version = ''0''\<rparr> (\<lambda>_. Some (JObject demo_file)) (Map.empty(''f'' \<mapsto> ''text''))
          demo_cli)))))) =
   (Ok (Some (own_heartbeat 1)) :: (heartbeat option, node_error) result)"
proof -
  let ?e = "\<lparr>cfe_home = None, cfe_pkg_version = ''0''\<rparr>"
  have hb: "hb_peer_id (own_heartbeat 1) = ''p''" "64 \<le> length (hb_signature (own_heartbeat 1))"
    "hb_nonce (own_heartbeat 1) = replicate 16 1"
    by (simp_all add: own_heartbeat_def Let_def)
  have "hb_canonical (own_heartbeat 1) =
      hb_canonical \<lparr>hb_peer_id = ''p'', hb_timestamp_ns = 9, hb_nonce = replicate 16 1, hb_curve = 1, hb_signature = []\<rparr>"
    by (simp add: own_heartbeat_def Let_def hb_canonical_def)
  then have sig: "cs_verify_ed25519 demo_server (demo_public [1]) (hb_canonical (own_heartbeat 1))
      (take 64 (hb_signature (own_heartbeat 1))) = Ok True"
    by (simp add: demo_server_def ed25519_verify_def verify_rc_def) (simp add: own_heartbeat_def Let_def)
  have read: "\<exists>cfg. time_family_of_json ?e (JObject demo_file) = Some cfg"
    by (simp add: demo_file_def time_family_of_json_def de_entries_def de_field_def communerd_of_json_def dht_of_json_def)
  have "no_collision_section demo_file"
    unfolding no_collision_section_def
    by (rule disjI2, intro exI [of _ "[(''version'', JString ''1'')]"] exI [of _ "[]"] exI) (auto simp: demo_file_def)
  then have "tcc_config_file_path demo_cli = None \<or> (\<exists>path s kvs cfg. tcc_config_file_path demo_cli = Some path \<and>
      (Map.empty(''f'' \<mapsto> ''text'')) path = Some s \<and> (\<lambda>_. Some (JObject demo_file)) s = Some (JObject kvs) \<and>
      time_family_of_json ?e (JObject kvs) = Some cfg \<and> no_collision_section kvs)"
    using read by (auto simp: demo_cli_def)
  from unconfigured_node_reports_itself [OF this hb(1,2) sig, of "replicate 16 2" "[]"]
  show ?thesis by (simp add: hb(3) fun_upd_def)
qed

end
