(* ===== verification/Client_Ops.thy ===== *)
theory Client_Ops
  imports Client
begin

section \<open>Stamping and verifying with a client\<close>

text \<open>
  The calls of \<^verbatim>\<open>foretias.rs\<close>, the check of a response in \<^verbatim>\<open>noise_ptp.rs\<close>, and the
  reader of \<^verbatim>\<open>communerd_reader.rs\<close> that makes the same requests.
\<close>

subsection \<open>Calls of a server\<close>

definition validate_jsonrpc_response :: "('k, 's, 'h) client_env \<Rightarrow> json \<Rightarrow> (unit, string) result" where
  "validate_jsonrpc_response K response =
     (if as_object response = None then Err ''invalid JSON-RPC response: not an object''
      else (case get_str ''jsonrpc'' response of
        None \<Rightarrow> Err ''invalid JSON-RPC response: missing jsonrpc field''
      | Some version \<Rightarrow>
          if version \<noteq> ''2.0''
          then Err (''invalid JSON-RPC response: unexpected version '' @ cl_show_debug K version)
          else if jget ''result'' response = None \<and> jget ''error'' response = None
          then Err ''invalid JSON-RPC response: missing both result and error''
          else Ok ()))"

definition ptp_result :: "('k, 's, 'h) client_env \<Rightarrow> json \<Rightarrow> (json, ptp_error) result" where
  "ptp_result K response =
     rbind (rmap_err PtDecode (validate_jsonrpc_response K response)) (\<lambda>_.
     case jget ''error'' response of
       Some err \<Rightarrow> Err (PtRpc (sint (word_of_int (unwrap_or (- 1) (Option.bind (jget ''code'' err) json_i64)) :: 32 word))
         (unwrap_or ''unknown'' (get_str ''message'' err)))
     | None \<Rightarrow> ok_or (PtDecode ''missing result in response'') (jget ''result'' response))"

definition noise_json_rpc ::
    "('k, 's, 'h) client_env \<Rightarrow> string \<Rightarrow> string \<Rightarrow> json \<Rightarrow> u64 \<Rightarrow> ('h, json, ptp_error) stateful" where
  "noise_json_rpc K server meth params timeout_secs =
     sbind (cl_exchange K server timeout_secs (json_rpc_request meth params)) (\<lambda>response.
       slift (ptp_result K response))"

definition primary_peer :: "'k foretias \<Rightarrow> string option" where
  "primary_peer c = (case fo_inner c of
     InnerPtp s \<Rightarrow> list_first (pt_peers s)
   | InnerP2p s \<Rightarrow> list_first (pt_peers (p3_ptp s))
   | InnerStandalone _ \<Rightarrow> None)"

definition client_timeout :: "'k foretias \<Rightarrow> u64" where
  "client_timeout c = (case fo_inner c of
     InnerPtp s \<Rightarrow> pt_timeout_secs s
   | InnerP2p s \<Rightarrow> pt_timeout_secs (p3_ptp s)
   | InnerStandalone _ \<Rightarrow> 30)"

text \<open>A call of the first peer, with the client beside it as it was.\<close>

definition call_peer ::
    "('k, 's, 'h) client_env \<Rightarrow> string \<Rightarrow> json \<Rightarrow> ('k foretias \<times> 'h, json, foretias_error) stateful" where
  "call_peer K meth params = (\<lambda>(c, h). case primary_peer c of
     None \<Rightarrow> (Err (FeNetwork ''no peer configured''), (c, h))
   | Some peer \<Rightarrow>
       (case noise_json_rpc K peer meth params (client_timeout c) h of
          (r, h') \<Rightarrow> (rmap_err (ptp_failed K) r, (c, h'))))"

subsection \<open>Stamping\<close>

definition client_echo :: "clock_reading \<Rightarrow> string" where
  "client_echo clock = ''UE+'' @ show_u64 (case clock of Ok now_ns \<Rightarrow> now_ns | _ \<Rightarrow> 0) @ ''ns''"

text \<open>A saving that fails is not reported.\<close>

definition save_calendar :: "('k, 's, 'h) client_env \<Rightarrow> io_outcomes \<Rightarrow> string \<Rightarrow> ('k foretias, unit, foretias_error) stateful" where
  "save_calendar K io path c =
     (case client_save (ne_calendar_json (cl_env K)) io path (fo_calendar c) (fo_files c) of
        (r, files') \<Rightarrow> (rmap_err (node_failed K) r, c\<lparr>fo_files := files'\<rparr>))"

definition fo_observer :: "'k foretias \<Rightarrow> u64 \<Rightarrow> bytes \<Rightarrow> chronon_record \<Rightarrow> client_calendar \<Rightarrow> client_calendar" where
  "fo_observer c = (if fo_observing c then client_on_tick_advance () else (\<lambda>_ _ _ cal. cal))"

definition stamp_standalone ::
    "('k, 's, 'h) client_env \<Rightarrow> 'k tick_inputs \<Rightarrow> io_outcomes \<Rightarrow> bytes \<Rightarrow> string \<Rightarrow>
     ('k foretias, foretis_record \<times> bytes \<times> string, foretias_error) stateful" where
  "stamp_standalone K inp io content echo c =
     (let E = cl_env K in
      if cm_is_dormant (fo_chronomatter c)
      then (Err (FeDormant (''client is dormant '' @ [CHR 0xE2, CHR 0x80, CHR 0x94] @ '' cannot stamp'')), c)
      else (case cm_stamp (ne_debug E) (ne_ffi E) (ne_hex_encode E) (ne_postcard E) (ne_crypto E) (fo_observer c)
                   inp content echo (fo_chronomatter c) of
          (Ok stamped, cm) \<Rightarrow>
            (let c1 = set_chronomatter cm c;
                 c2 = (case fo_persist_path c1 of None \<Rightarrow> c1 | Some path \<Rightarrow> snd (save_calendar K io path c1)) in
             (Ok (st_foretis stamped, st_signature_bytes stamped, st_signature_algorithm stamped), c2))
        | (Err e, cm) \<Rightarrow> (Err (node_failed K e), set_chronomatter cm c)
        | (Panic, cm) \<Rightarrow> (Panic, set_chronomatter cm c)))"

definition stamp_remote ::
    "('k, 's, 'h) client_env \<Rightarrow> bytes \<Rightarrow> string \<Rightarrow>
     ('k foretias \<times> 'h, foretis_record \<times> bytes \<times> string, foretias_error) stateful" where
  "stamp_remote K content echo =
     (let E = cl_env K in
      sbind (call_peer K ''stamp''
               (JObject [(''content'', JString (ne_hex_encode E content)), (''echo'', JString echo)])) (\<lambda>v.
      sbind (slift (rmap_err (\<lambda>e. FeNetwork (''stamp deserialization failed: '' @ e))
               (ne_foretis_of_json E (unwrap_or v (jget ''foretis'' v))))) (\<lambda>foretis.
        sret (foretis, hex_or_empty E (unwrap_or [] (get_str ''signature'' v)),
              unwrap_or ''Ed25519'' (get_str ''signature_algorithm'' v)))))"

definition client_stamp ::
    "('k, 's, 'h) client_env \<Rightarrow> 'k tick_inputs \<Rightarrow> io_outcomes \<Rightarrow> clock_reading \<Rightarrow> bytes \<Rightarrow> string \<Rightarrow>
     ('k foretias \<times> 'h, foretis_record \<times> bytes \<times> string, foretias_error) stateful" where
  "client_stamp K inp io clock content echo = (\<lambda>(c, h).
     let echo = (if echo = [] then client_echo clock else echo) in
     case fo_level c of
       LevelStandalone \<Rightarrow> (case stamp_standalone K inp io content echo c of (r, c') \<Rightarrow> (r, (c', h)))
     | _ \<Rightarrow> stamp_remote K content echo (c, h))"

subsection \<open>Reading and verifying\<close>

definition calendar_slice_remote ::
    "('k, 's, 'h) client_env \<Rightarrow> u64 \<Rightarrow> u64 \<Rightarrow> ('k foretias \<times> 'h, chronon_record list, foretias_error) stateful" where
  "calendar_slice_remote K start cnt =
     sbind (call_peer K ''get_calendar_slice'' (JObject [(''cal_chronon_start'', jnum start), (''count'', jnum cnt)])) (\<lambda>v.
       slift (rmap_err (\<lambda>e. FeNetwork (''calendar slice deserialization failed: '' @ e))
         (case as_array v of
            None \<Rightarrow> Err ''invalid type''
          | Some vs \<Rightarrow> try_map (ne_chronon_of_json (cl_env K)) vs)))"

definition client_calendar_slice ::
    "('k, 's, 'h) client_env \<Rightarrow> u64 \<Rightarrow> u64 \<Rightarrow> ('k foretias \<times> 'h, chronon_record list, foretias_error) stateful" where
  "client_calendar_slice K start cnt = (\<lambda>(c, h). case fo_level c of
     LevelStandalone \<Rightarrow> (rmap_err (node_failed K) (cc_get (fo_calendar c) start (unat cnt)), (c, h))
   | _ \<Rightarrow> calendar_slice_remote K start cnt (c, h))"

definition verify_remote ::
    "('k, 's, 'h) client_env \<Rightarrow> bytes \<Rightarrow> foretis_record \<Rightarrow> bytes \<Rightarrow> string \<Rightarrow>
     ('k foretias \<times> 'h, bool, foretias_error) stateful" where
  "verify_remote K content foretis signature signature_algorithm =
     (let E = cl_env K in
      sbind (call_peer K ''verify''
               (JObject [(''content'', JString (ne_hex_encode E content)), (''foretis'', ne_foretis_json E foretis),
                         (''signature'', JString (ne_hex_encode E signature)),
                         (''signature_algorithm'', JString signature_algorithm)])) (\<lambda>v.
        sret (unwrap_or False (get_bool ''valid'' v))))"

definition client_verify ::
    "('k, 's, 'h) client_env \<Rightarrow> bytes \<Rightarrow> foretis_record \<Rightarrow> bytes \<Rightarrow> string \<Rightarrow>
     ('k foretias \<times> 'h, bool, foretias_error) stateful" where
  "client_verify K content foretis signature signature_algorithm = (\<lambda>(c, h). case fo_level c of
     LevelStandalone \<Rightarrow>
       (rmap_err (node_failed K) (verify (ne_postcard (cl_env K)) (ne_crypto (cl_env K)) foretis signature
          signature_algorithm content (cc_lookup (fo_calendar c))), (c, h))
   | _ \<Rightarrow> verify_remote K content foretis signature signature_algorithm (c, h))"

record fetched_calendar =
  fd_record :: chronon_record
  fd_tbid :: tbid
  fd_tbn :: string

definition fetched_get :: "fetched_calendar \<Rightarrow> u64 \<Rightarrow> nat \<Rightarrow> (chronon_record list, node_error) result" where
  "fetched_get f start cnt = (if start = cr_chronon_number (fd_record f) \<and> 1 \<le> cnt then Ok [fd_record f] else Ok [])"

definition fetched_lookup :: "fetched_calendar \<Rightarrow> calendar_lookup" where
  "fetched_lookup f = as_lookup (fetched_get f) (Some (cr_chronon_number (fd_record f))) (fd_tbid f) (fd_tbn f)"

record verification_report =
  vr_verified :: bool
  vr_chronon_number :: u64
  vr_calendar_records :: "chronon_record list"
  vr_foretis :: foretis_record
  vr_method :: string

text \<open>The crypto server made for the call is the software one over the environment's primitives.\<close>

definition verify_with_proof ::
    "('k, 's, 'h) client_env \<Rightarrow> (crypto_server, crypto_error) result \<Rightarrow> bytes \<Rightarrow> foretis_record \<Rightarrow> bytes \<Rightarrow> string \<Rightarrow>
     ('k foretias \<times> 'h, verification_report, foretias_error) stateful" where
  "verify_with_proof K new_software content foretis signature signature_algorithm =
     (let chronon_number = fr_chronon_number foretis in
      sbind (client_calendar_slice K chronon_number 2) (\<lambda>records.
      if records = []
      then slift (Err (FeNetwork (''no calendar records found for chronon '' @ show_u64 chronon_number)))
      else
        sbind (slift (rmap_err (\<lambda>e. FeCrypto (cl_show_crypto K e)) new_software)) (\<lambda>crypto.
        sbind (slift (rmap_err (node_failed K)
          (verify (ne_postcard (cl_env K)) crypto foretis signature signature_algorithm content
            (fetched_lookup \<lparr>fd_record = hd records, fd_tbid = fr_tbid foretis, fd_tbn = fr_tbn foretis\<rparr>)))) (\<lambda>verified.
          sret \<lparr>vr_verified = verified, vr_chronon_number = chronon_number, vr_calendar_records = records,
                vr_foretis = foretis, vr_method = ''verify_with_proof''\<rparr>))))"

subsection \<open>Accessors\<close>

definition client_public_key :: "'k foretias \<Rightarrow> bytes option" where
  "client_public_key c = latest_public_key (fo_chronomatter c)"

definition client_tbid :: "('k, 's, 'h) client_env \<Rightarrow> 'k foretias \<Rightarrow> string" where
  "client_tbid K c = to_hex (ne_hex_encode (cl_env K)) (cm_tbid (fo_chronomatter c))"

definition client_tbn :: "'k foretias \<Rightarrow> string" where
  "client_tbn c = cm_tbn (fo_chronomatter c)"

definition client_current_tick :: "'k foretias \<Rightarrow> u64" where
  "client_current_tick c = cm_current_tick (fo_chronomatter c)"

definition client_status :: "'k foretias \<Rightarrow> foretias_status" where
  "client_status c =
     \<lparr>fs_is_dormant = cm_is_dormant (fo_chronomatter c),
      fs_peer_count = (case fo_level c of
        LevelPtp \<Rightarrow> (case fo_inner c of InnerPtp s \<Rightarrow> length (pt_peers s) | _ \<Rightarrow> 0)
      | _ \<Rightarrow> 0),
      fs_current_tick = cm_current_tick (fo_chronomatter c),
      fs_dht_connected = (fo_level c = LevelP2p), fs_gossipsub_subscribed = (fo_level c = LevelP2p)\<rparr>"

subsection \<open>The outbound-only reader\<close>

record communerd_reader =
  rd_peers :: "string list"
  rd_timeout_secs :: u64

definition reader_new :: "string list \<Rightarrow> u64 \<Rightarrow> communerd_reader" where
  "reader_new peers timeout_secs = \<lparr>rd_peers = peers, rd_timeout_secs = max timeout_secs 1\<rparr>"

definition reader_call ::
    "('k, 's, 'h) client_env \<Rightarrow> communerd_reader \<Rightarrow> nat \<Rightarrow> string \<Rightarrow> json \<Rightarrow> ('h, json, ptp_error) stateful" where
  "reader_call K rd peer_idx meth params =
     (if peer_idx < length (rd_peers rd)
      then noise_json_rpc K (rd_peers rd ! peer_idx) meth params (rd_timeout_secs rd)
      else slift (Err (PtConnect ''peer index out of range'')))"

definition reader_stamp ::
    "('k, 's, 'h) client_env \<Rightarrow> communerd_reader \<Rightarrow> nat \<Rightarrow> bytes \<Rightarrow> string \<Rightarrow> ('h, json, ptp_error) stateful" where
  "reader_stamp K rd peer_idx content echo = reader_call K rd peer_idx ''stamp''
     (JObject [(''content'', JString (ne_hex_encode (cl_env K) content)), (''echo'', JString echo)])"

definition reader_verify ::
    "('k, 's, 'h) client_env \<Rightarrow> communerd_reader \<Rightarrow> nat \<Rightarrow> bytes \<Rightarrow> json \<Rightarrow> ('h, json, ptp_error) stateful" where
  "reader_verify K rd peer_idx content foretis = reader_call K rd peer_idx ''verify''
     (JObject [(''content'', JString (ne_hex_encode (cl_env K) content)), (''foretis'', foretis)])"

definition reader_calendar_slice ::
    "('k, 's, 'h) client_env \<Rightarrow> communerd_reader \<Rightarrow> nat \<Rightarrow> u64 \<Rightarrow> u64 \<Rightarrow> ('h, json, ptp_error) stateful" where
  "reader_calendar_slice K rd peer_idx start cnt = reader_call K rd peer_idx ''get_calendar_slice''
     (JObject [(''cal_chronon_start'', jnum start), (''count'', jnum cnt)])"

end
