(* ===== verification/Client_Props.thy ===== *)
theory Client_Props
  imports Client_Ops Demo_Node Chronomatter_Live Server_Props
begin

section \<open>A client by itself\<close>

text \<open>
  A standalone client is its chronomatter: a stamp of the client is a stamp of the
  chronomatter, whose observer is the client's calendar. What is proved of chronomatters in the
  locale \<open>tick_observer\<close> therefore holds of the client, through \<open>cc_obs\<close>.
\<close>

subsection \<open>What creating and stamping leave\<close>

datatype 'k client_call = ClientCall (cl_inputs: "'k tick_inputs") (cl_io: io_outcomes)
  (cl_clock: clock_reading) (cl_content: bytes) (cl_echo: string)

fun client_run ::
    "('k, 's, 'h) client_env \<Rightarrow> 'k client_call list \<Rightarrow> 'k foretias \<times> 'h \<Rightarrow>
     (foretis_record \<times> bytes \<times> string, foretias_error) result list \<times> ('k foretias \<times> 'h)" where
  "client_run K [] ch = ([], ch)"
| "client_run K (ClientCall inp io clock content echo # calls) ch =
     (let (r, ch1) = client_stamp K inp io clock content echo ch; (rs, ch2) = client_run K calls ch1
      in (r # rs, ch2))"

definition standalone_ok :: "'k foretias \<Rightarrow> bool" where
  "standalone_ok c \<longleftrightarrow> fo_level c = LevelStandalone \<and> fo_observing c"

lemma set_chronomatter_sels [simp]:
  "fo_chronomatter (set_chronomatter cm c) = cm" "fo_observing (set_chronomatter cm c) = fo_observing c"
  "fo_level (set_chronomatter cm c) = fo_level c" "fo_files (set_chronomatter cm c) = fo_files c"
  "fo_persist_path (set_chronomatter cm c) = fo_persist_path c"
  by (cases "fo_inner c"; simp add: set_chronomatter_def fo_chronomatter_def fo_observing_def)+

lemma set_files_sels [simp]:
  "fo_chronomatter (c\<lparr>fo_files := fs\<rparr>) = fo_chronomatter c" "fo_observing (c\<lparr>fo_files := fs\<rparr>) = fo_observing c"
  by (simp_all add: fo_chronomatter_def fo_observing_def)

lemma save_calendar_sels [simp]:
  "fo_chronomatter (snd (save_calendar K io path c)) = fo_chronomatter c"
  "fo_observing (snd (save_calendar K io path c)) = fo_observing c"
  "fo_level (snd (save_calendar K io path c)) = fo_level c"
  "fo_persist_path (snd (save_calendar K io path c)) = fo_persist_path c"
  by (simp_all add: save_calendar_def split: prod.splits)

text \<open>A stamp of the chronomatter of a client, with the client's calendar as its observer.\<close>

definition client_cm_call ::
    "'k tick_inputs \<Rightarrow> clock_reading \<Rightarrow> bytes \<Rightarrow> string \<Rightarrow> ('k, unit) cm_call" where
  "client_cm_call inp clock content echo =
     CallStamp inp () content (if echo = [] then client_echo clock else echo)"

abbreviation client_cm_step where
  "client_cm_step K \<equiv> cm_call_step (ne_debug (cl_env K)) (ne_ffi (cl_env K)) (ne_hex_encode (cl_env K))
     (ne_postcard (cl_env K)) (ne_crypto (cl_env K)) client_on_tick_advance"

abbreviation client_cm_run where
  "client_cm_run K \<equiv> cm_run (ne_debug (cl_env K)) (ne_ffi (cl_env K)) (ne_hex_encode (cl_env K))
     (ne_postcard (cl_env K)) (ne_crypto (cl_env K)) client_on_tick_advance"

abbreviation client_cm_calls :: "'k client_call list \<Rightarrow> ('k, unit) cm_call list" where
  "client_cm_calls \<equiv> map (\<lambda>x. client_cm_call (cl_inputs x) (cl_clock x) (cl_content x) (cl_echo x))"

lemma client_stamp_step:
  assumes "standalone_ok c" and "client_stamp K inp io clock content echo (c, h) = (r, (c', h'))"
  obtains r' where "client_cm_step K
      (client_cm_call inp clock content echo) (fo_chronomatter c) = (r', fo_chronomatter c')"
    and "is_ok r' \<longleftrightarrow> is_ok r" and "standalone_ok c'" and "h' = h" and "fo_persist_path c' = fo_persist_path c"
    and "\<And>f sig alg. r = Ok (f, sig, alg) \<Longrightarrow> \<exists>st. r' = Ok (Some st) \<and> f = st_foretis st \<and>
      sig = st_signature_bytes st \<and> alg = st_signature_algorithm st"
proof (cases "cm_is_dormant (fo_chronomatter c)")
  case True
  then show ?thesis
    using assms that by (auto simp: client_stamp_def standalone_ok_def stamp_standalone_def client_cm_call_def
        stateful_simps dormant_stamp Let_def)
next
  case False
  let ?echo = "if echo = [] then client_echo clock else echo"
  obtain x cm where x: "cm_stamp (ne_debug (cl_env K)) (ne_ffi (cl_env K)) (ne_hex_encode (cl_env K))
      (ne_postcard (cl_env K)) (ne_crypto (cl_env K)) (client_on_tick_advance ()) inp content ?echo
      (fo_chronomatter c) = (x, cm)" by fastforce
  have obs: "fo_observer c = client_on_tick_advance ()" using assms(1) by (auto simp: fo_observer_def standalone_ok_def)
  show ?thesis
    by (rule that [of "case x of Ok st \<Rightarrow> Ok (Some st) | Err e \<Rightarrow> Err e | Panic \<Rightarrow> Panic"])
      (use assms False x obs in \<open>auto simp: client_stamp_def standalone_ok_def stamp_standalone_def client_cm_call_def
        sbind_def sret_def Let_def is_ok_def split: result.splits option.splits prod.splits\<close>)
qed

lemma foretias_new_Ok:
  assumes "foretias_new K new_software tk tbn persist_path files = Ok c"
  obtains cm cal where "chronomatter_new (ne_hex_encode (cl_env K)) tk 60000000000
      (client_calendar_new tbid_default []) = Ok cm"
    and "fo_chronomatter c = cm\<lparr>cm_events := Some [], cm_observer := cal\<rparr>" and "cc_records cal = []"
    and "standalone_ok c" and "fo_persist_path c = persist_path" and "fo_files c = files"
proof -
  from assms obtain cm inner1 inner2 where cm: "chronomatter_new (ne_hex_encode (cl_env K)) tk 60000000000
      (client_calendar_new tbid_default []) = Ok cm"
    and inner: "set_tbid (ne_debug (cl_env K)) (cm_tbid cm) (cc_inner (cm_observer cm)) = (Ok inner1 :: (_, foretias_error) result)"
      "set_tbn (ne_debug (cl_env K)) (cm_tbn cm) inner1 = (Ok inner2 :: (_, foretias_error) result)"
    and c: "c = \<lparr>fo_level = LevelStandalone, fo_inner = InnerStandalone
        \<lparr>sl_chronomatter = cm\<lparr>cm_events := Some [], cm_observer := (cm_observer cm)\<lparr>cc_inner := inner2\<rparr>\<rparr>,
         sl_observing = True\<rparr>, fo_persist_path = persist_path, fo_files = files\<rparr>"
    unfolding foretias_new_def create_standalone_state_def Let_def
    by (auto simp: result_simps set_mutual_attest_observer_def)
  have "ticks inner2 = []"
    using inner chronomatter_new_Ok(3) [OF cm]
    by (auto simp: set_tbid_def set_tbn_def client_calendar_new_def calendar_new_def split: if_splits)
  then have "cc_records ((cm_observer cm)\<lparr>cc_inner := inner2\<rparr>) = []" by (simp add: cc_records_def)
  moreover have "fo_chronomatter c = cm\<lparr>cm_events := Some [], cm_observer := (cm_observer cm)\<lparr>cc_inner := inner2\<rparr>\<rparr>"
    "standalone_ok c" "fo_persist_path c = persist_path" "fo_files c = files"
    using c by (simp_all add: fo_chronomatter_def standalone_ok_def fo_observing_def)
  ultimately show ?thesis by (intro that [OF cm]) assumption+
qed

lemma foretias_new_inv:
  assumes "foretias_new K new_software tk tbn persist_path files = Ok c"
  shows "run_inv cc_records cc_inv F (ne_hex_encode (cl_env K)) crypto (fo_chronomatter c)" and "standalone_ok c"
proof -
  obtain cm cal where cm: "chronomatter_new (ne_hex_encode (cl_env K)) tk 60000000000
      (client_calendar_new tbid_default []) = Ok cm"
    and c: "fo_chronomatter c = cm\<lparr>cm_events := Some [], cm_observer := cal\<rparr>" "cc_records cal = []"
      "standalone_ok c" by (rule foretias_new_Ok [OF assms])
  from c(2) have "cc_inv cal" by (simp add: cc_inv_def cal_inv_def cc_records_def)
  with c chronomatter_new_Ok [OF cm]
  show "run_inv cc_records cc_inv F (ne_hex_encode (cl_env K)) crypto (fo_chronomatter c)"
    by (simp add: run_inv_def Let_def keypairs_inv_def)
  show "standalone_ok c" by (fact c(3))
qed

text \<open>A run of a standalone client is a run of its chronomatter.\<close>

lemma client_run_cm_run:
  assumes "standalone_ok c" and "client_run K calls (c, h) = (rs, (c', h'))"
  obtains rs' where "client_cm_run K (client_cm_calls calls) (fo_chronomatter c) =
      (rs', fo_chronomatter c')"
    and "all_ok rs' \<longleftrightarrow> all_ok rs" and "standalone_ok c'" and "h' = h"
proof -
  have "\<exists>rs'. client_cm_run K (client_cm_calls calls) (fo_chronomatter c) =
      (rs', fo_chronomatter c') \<and> (all_ok rs' \<longleftrightarrow> all_ok rs) \<and> standalone_ok c' \<and> h' = h"
    using assms
  proof (induction calls arbitrary: c rs)
    case Nil
    then show ?case by (auto simp: all_ok_def)
  next
    case (Cons x calls)
    obtain inp io clock content echo where x: "x = ClientCall inp io clock content echo" by (cases x)
    obtain r c1 h1 where step: "client_stamp K inp io clock content echo (c, h) = (r, (c1, h1))" by (metis prod.exhaust)
    obtain rs1 where run: "client_run K calls (c1, h1) = (rs1, (c', h'))" and rs: "rs = r # rs1"
      using Cons.prems(2) x step by (auto simp: Let_def split: prod.splits)
    from client_stamp_step [OF Cons.prems(1) step] obtain r' where
      r': "client_cm_step K
        (client_cm_call inp clock content echo) (fo_chronomatter c) = (r', fo_chronomatter c1)"
        "is_ok r' \<longleftrightarrow> is_ok r" "standalone_ok c1" "h1 = h" by metis
    from Cons.IH [OF r'(3)] run r'(4) obtain rs' where
      "client_cm_run K (client_cm_calls calls) (fo_chronomatter c1) =
        (rs', fo_chronomatter c')" "all_ok rs' \<longleftrightarrow> all_ok rs1" "standalone_ok c'" "h' = h" by blast
    then show ?case using r' rs x by (auto simp: all_ok_def)
  qed
  then show ?thesis using that by blast
qed

subsection \<open>Stamps verify\<close>

text \<open>What one call makes of a stamp's record is what every later calendar of the client keeps.\<close>

lemma client_stamp_held:
  assumes ffi: "ffi_ed25519_correct (ne_ffi (cl_env K))"
    and crypto: "ne_crypto (cl_env K) = software_crypto_server (ne_ffi (cl_env K)) k0"
    and "foretias_new K new_software tk tbn persist_path files = Ok c0"
    and "client_run K before (c0, h) = (rs, (c1, h1))" and "all_ok rs"
    and "client_stamp K inp io clock content echo (c1, h1) = (Ok (f, sig, alg), (c2, h2))"
    and "snd (client_run K after (c2, h2)) = (c3, h3)"
  obtains r where "cc_inv (fo_calendar c3)" and "r \<in> set (cc_records (fo_calendar c3))"
    and "cr_chronon_number r = fr_chronon_number f" and "standalone_ok c3"
    and "\<And>(c :: client_calendar) t n. cc_inv c \<Longrightarrow> r \<in> set (cc_records c) \<Longrightarrow>
      verify (ne_postcard (cl_env K)) (ne_crypto (cl_env K)) f sig alg content
        (as_lookup (cc_get c) (cc_latest c) t n) = Ok True"
proof -
  let ?E = "cl_env K"
  note new = foretias_new_inv [OF assms(3)]
  obtain rs1 where
    run1: "client_cm_run K (client_cm_calls before) (fo_chronomatter c0) = (rs1, fo_chronomatter c1)"
      "all_ok rs1 \<longleftrightarrow> all_ok rs" "standalone_ok c1" by (rule client_run_cm_run [OF new(2) assms(4)])
  then have "all_ok rs1" using assms(5) by simp
  from cc_obs.run_keeps_inv [OF ffi new(1) run1(1) [unfolded crypto] this]
  have inv1: "run_inv cc_records cc_inv (ne_ffi ?E) (ne_hex_encode ?E) (ne_crypto ?E) (fo_chronomatter c1)"
    by (simp add: crypto)
  obtain r' where
    step': "client_cm_step K (client_cm_call inp clock content echo) (fo_chronomatter c1) = (r', fo_chronomatter c2)"
      "standalone_ok c2" and st': "\<And>f' sig' alg'. Ok (f, sig, alg) = (Ok (f', sig', alg') :: (_, foretias_error) result) \<Longrightarrow>
        \<exists>st. r' = Ok (Some st) \<and> f' = st_foretis st \<and> sig' = st_signature_bytes st \<and> alg' = st_signature_algorithm st"
    by (rule client_stamp_step [OF run1(3) assms(6)]) (rule that)
  from st' [OF HOL.refl] obtain st where r': "r' = Ok (Some st)"
    and st: "f = st_foretis st" "sig = st_signature_bytes st" "alg = st_signature_algorithm st" by blast
  note step = step' [unfolded r']
  then have "cm_stamp (ne_debug ?E) (ne_ffi ?E) (ne_hex_encode ?E) (ne_postcard ?E) (software_crypto_server (ne_ffi ?E) k0)
      (client_on_tick_advance ()) inp content (if echo = [] then client_echo clock else echo) (fo_chronomatter c1) =
      (Ok st, fo_chronomatter c2)"
    by (auto simp: client_cm_call_def stateful_simps crypto)
  from cc_obs.stamp_verifies [OF ffi inv1 [unfolded crypto] this] obtain r where
    r: "cc_records (fo_calendar c2) = cc_records (fo_calendar c1) @ [r]" "cr_chronon_number r = fr_chronon_number f"
    and ver: "\<And>(c :: client_calendar) t n. cc_inv c \<Longrightarrow> r \<in> set (cc_records c) \<Longrightarrow>
      verify (ne_postcard ?E) (ne_crypto ?E) f sig alg content (as_lookup (cc_get c) (cc_latest c) t n) = Ok True"
    unfolding st fo_calendar_def crypto by metis
  obtain rs2 where "client_run K after (c2, h2) = (rs2, (c3, h3))" using assms(7) by (metis prod.collapse)
  obtain rs3 where
    run3: "client_cm_run K (client_cm_calls after) (fo_chronomatter c2) = (rs3, fo_chronomatter c3)" "standalone_ok c3"
    by (rule client_run_cm_run [OF step(2) \<open>client_run K after (c2, h2) = (rs2, (c3, h3))\<close>])
  note inv2 = cc_obs.step_run_inv(1) [OF ffi inv1 [unfolded crypto] step(1) [unfolded crypto]]
  from cc_obs.run_safe [OF run_inv_safe_from [OF inv2], of "ne_debug ?E" "ne_hex_encode ?E" "ne_postcard ?E"
      "ne_crypto ?E" "client_cm_calls after"] run3(1)
  have "safe_from cc_records cc_inv (ne_ffi ?E) (fo_calendar c2) (fo_chronomatter c3)" by (simp add: fo_calendar_def)
  then have "cc_inv (fo_calendar c3)" "r \<in> set (cc_records (fo_calendar c3))"
    using r(1) by (auto simp: safe_from_def fo_calendar_def)
  then show ?thesis using that r(2) run3(2) ver by blast
qed

subsection \<open>A concrete client\<close>

definition demo_client_env ::
    "calendar \<Rightarrow> (string \<Rightarrow> u64 \<Rightarrow> json \<Rightarrow> ('h, json, ptp_error) stateful) \<Rightarrow> (bytes, bytes, 'h) client_env" where
  "demo_client_env stored exchange =
     \<lparr>cl_env = demo_env, cl_show_crypto = (\<lambda>_. ''crypto''), cl_show_code = (\<lambda>_. ''code''),
      cl_calendar_of_json = (\<lambda>_. Some stored), cl_show_debug = (\<lambda>s. s), cl_exchange = exchange\<rparr>"

lemma demo_client_env_simps [simp]:
  "cl_env (demo_client_env stored ex) = demo_env" "cl_calendar_of_json (demo_client_env stored ex) = (\<lambda>_. Some stored)"
  "cl_exchange (demo_client_env stored ex) = ex"
  by (simp_all add: demo_client_env_def)

definition demo_client_calendar :: calendar where
  "demo_client_calendar = (calendar_new tbid_default [])\<lparr>cal_tbid := demo_tbid, cal_tbn := ''tf-'' @ replicate 16 CHR 0x07\<rparr>"

definition demo_standalone :: "bytes standalone_state" where
  "demo_standalone = \<lparr>sl_chronomatter =
     \<lparr>cm_tbid = demo_tbid, cm_tbid_secret = cm_tbid_secret demo_start, cm_tbn = ''tf-'' @ replicate 16 CHR 0x07,
      cm_current_tick = 0, cm_keypairs = [], cm_observer = \<lparr>cc_inner = demo_client_calendar, cc_tbn = []\<rparr>,
      cm_events = Some [], cm_chronon_ns = 60000000000, cm_is_dormant = False, cm_chronon_stamp_count = 0\<rparr>,
     sl_observing = True\<rparr>"

definition demo_client :: "string option \<Rightarrow> fs \<Rightarrow> bytes foretias" where
  "demo_client persist files = \<lparr>fo_level = LevelStandalone, fo_inner = InnerStandalone demo_standalone,
     fo_persist_path = persist, fo_files = files\<rparr>"

lemma demo_client_new:
  "foretias_new (demo_client_env stored ex) (Ok ()) demo_tbid_keypair tbn persist files = Ok (demo_client persist files)"
proof -
  have "take 16 (char_hex (replicate 96 7)) = replicate 16 CHR 0x07"
    by (simp add: char_hex_def take_map char_of_def bit_iff_odd)
  then have "chronomatter_new char_hex demo_tbid_keypair 60000000000 cal =
      (Ok :: (bytes, client_calendar) chronomatter \<Rightarrow> _) \<lparr>cm_tbid = demo_tbid, cm_tbid_secret = cm_tbid_secret demo_start, cm_tbn = ''tf-'' @ replicate 16 CHR 0x07,
        cm_current_tick = 0, cm_keypairs = [], cm_observer = cal, cm_events = None, cm_chronon_ns = 60000000000,
        cm_is_dormant = False, cm_chronon_stamp_count = 0\<rparr>" for cal :: client_calendar
    by (simp add: chronomatter_new_def tbid_secret_generate_def demo_tbid_keypair_def tbid_from_bytes_def
        secret_from_bytes_def demo_start_def to_hex_def from_raw_def demo_tbid_def)
  then show ?thesis
    by (simp add: foretias_new_def create_standalone_state_def Let_def result_simps set_mutual_attest_observer_def set_tbid_def
        set_tbn_def client_calendar_new_def calendar_new_def demo_client_def demo_standalone_def demo_client_calendar_def)
qed

lemma demo_client_stamp:
  obtains f sig alg ch where "client_stamp (demo_client_env stored ex) (demo_inputs 1) io (Ok 5) [5] ''e''
    (demo_client persist files, h) = (Ok (f, sig, alg), ch)"
proof -
  have "ready demo_ffi (fo_chronomatter (demo_client persist files))"
    "cm_current_tick (fo_chronomatter (demo_client persist files)) + 1 \<noteq> 0"
    using demo_answers by (simp_all add: ready_def demo_client_def demo_standalone_def fo_chronomatter_def)
  from cm_stamp_live [OF this(1) demo_ffi_ed25519 this(2) demo_inputs_ok [of 1], of demo_postcard,
      OF demo_postcard_ok, where debug = True and hex = char_hex and ?k0.0 = "[]" and obs = "client_on_tick_advance ()" and content = "[5]"
        and echo = "''e''"]
  obtain st cm where "cm_stamp True demo_ffi char_hex demo_postcard (software_crypto_server demo_ffi [])
      (client_on_tick_advance ()) (demo_inputs 1) [5] ''e'' (fo_chronomatter (demo_client persist files)) = (Ok st, cm)" by auto
  then have "\<exists>f sig alg ch. client_stamp (demo_client_env stored ex) (demo_inputs 1) io (Ok 5) [5] ''e''
      (demo_client persist files, h) = (Ok (f, sig, alg), ch)"
    by (simp add: client_stamp_def stamp_standalone_def Let_def fo_observer_def fo_observing_def fo_chronomatter_def
        demo_client_def demo_standalone_def)
  then show ?thesis using that by blast
qed

subsection \<open>What a client verifies\<close>

lemma hd_at_or_after:
  assumes "at_or_after n 1 rs = [r]"
  shows "at_or_after n 2 rs \<noteq> [] \<and> hd (at_or_after n 2 rs) = r"
  using assms by (cases "filter (\<lambda>t. n \<le> cr_chronon_number t) rs") (auto simp: at_or_after_def numeral_2_eq_2)

text \<open>One with no server, whose stored calendar is the empty one.\<close>

abbreviation demo_alone :: "(bytes, bytes, unit) client_env" where
  "demo_alone \<equiv> demo_client_env demo_client_calendar (\<lambda>_ _ _. slift (Err PtTimeout))"

text \<open>
  C6: A standalone client verifies what it stamped. When the earlier stamps of a new client
  succeeded and one more does, then after whatever further stamps both \<^verbatim>\<open>verify\<close> and
  \<^verbatim>\<open>verify_with_proof\<close> accept it with the stamped content, whatever became of the file.
\<close>

theorem client_stamps_verify:
  assumes ffi: "ffi_ed25519_correct (ne_ffi (cl_env K))"
    and crypto: "ne_crypto (cl_env K) = software_crypto_server (ne_ffi (cl_env K)) k0"
    and "foretias_new K new_software tk tbn persist_path files = Ok c0"
    and "client_run K before (c0, h) = (rs, (c1, h1))" and "all_ok rs"
    and "client_stamp K inp io clock content echo (c1, h1) = (Ok (f, sig, alg), (c2, h2))"
    and "snd (client_run K after (c2, h2)) = (c3, h3)"
  shows "client_verify K content f sig alg (c3, h3) = (Ok True, (c3, h3)) \<and>
    (\<exists>report. verify_with_proof K (Ok (software_crypto_server (ne_ffi (cl_env K)) k1)) content f sig alg (c3, h3) =
        (Ok report, (c3, h3)) \<and> vr_verified report)"
proof (rule client_stamp_held [OF assms])
  let ?E = "cl_env K" and ?c = "fo_calendar c3"
  fix r
  assume c: "cc_inv ?c" "r \<in> set (cc_records ?c)" and number: "cr_chronon_number r = fr_chronon_number f"
    and c3: "standalone_ok c3"
    and ver: "\<And>(c :: client_calendar) t n. cc_inv c \<Longrightarrow> r \<in> set (cc_records c) \<Longrightarrow>
      verify (ne_postcard ?E) (ne_crypto ?E) f sig alg content (as_lookup (cc_get c) (cc_latest c) t n) = Ok True"
  from ver [OF c] have v: "verify (ne_postcard ?E) (ne_crypto ?E) f sig alg content (cc_lookup ?c) = Ok True"
    by (simp add: cc_lookup_def)
  obtain rs where rs: "cc_get ?c (fr_chronon_number f) 2 = Ok rs" "rs \<noteq> []" "hd rs = r"
    using cc.get_exact [OF c] cc.get_spec [OF c(1)] hd_at_or_after [of "fr_chronon_number f"] number by auto
  have "verify (ne_postcard ?E) (software_crypto_server (ne_ffi ?E) k1) f sig alg content
      (fetched_lookup \<lparr>fd_record = hd rs, fd_tbid = fr_tbid f, fd_tbn = fr_tbn f\<rparr>) = Ok True"
    using iffD1 [OF cc.verify_held_chronon [OF c number] v [unfolded cc_lookup_def]]
    by (auto simp: verify_Ok_True_iff crypto fetched_lookup_def as_lookup_def fetched_get_def rs(3) number)
  then show ?thesis
    using c3 v rs by (auto simp: client_verify_def verify_with_proof_def client_calendar_slice_def standalone_ok_def
        Let_def sbind_def slift_def sret_def)
qed

theorem client_stamps_verify_witness:
  "\<exists>f sig alg c3. client_verify demo_alone [5] f sig alg (c3, ()) =
      (Ok True, (c3, ())) \<and>
    (\<exists>io ch. (c3, ()) = snd (client_run demo_alone
       [ClientCall (demo_inputs 2) io (Ok 6) [] []] ch) \<and>
     client_stamp demo_alone (demo_inputs 1) io (Ok 5) [5] ''e''
       (demo_client None Map.empty, ()) = (Ok (f, sig, alg), ch))"
proof -
  let ?K = demo_alone
    and ?io = "\<lparr>io_create_dir = Ok (), io_write = Written, io_rename = Ok ()\<rparr>"
  obtain f sig alg ch where st: "client_stamp ?K (demo_inputs 1) ?io (Ok 5) [5] ''e'' (demo_client None Map.empty, ()) =
      (Ok (f, sig, alg), ch)" by (rule demo_client_stamp)
  obtain c2 where ch: "ch = (c2, ())" by (cases ch) simp
  define c3 where "c3 = fst (snd (client_run ?K [ClientCall (demo_inputs 2) ?io (Ok 6) [] []] (c2, ())))"
  have run: "snd (client_run ?K [ClientCall (demo_inputs 2) ?io (Ok 6) [] []] (c2, ())) = (c3, ())"
    by (simp add: c3_def prod_eq_iff del: client_run.simps)
  have ffi: "ffi_ed25519_correct (ne_ffi (cl_env ?K))"
    and crypto: "ne_crypto (cl_env ?K) = software_crypto_server (ne_ffi (cl_env ?K)) []"
    and none: "client_run ?K [] (demo_client None Map.empty, ()) = ([], (demo_client None Map.empty, ()))"
      "all_ok ([] :: (foretis_record \<times> bytes \<times> string, foretias_error) result list)"
    using demo_ffi_ed25519 by (simp_all add: all_ok_def)
  note st2 = st [unfolded ch]
  note v = client_stamps_verify [OF ffi crypto demo_client_new none st2 run]
  have "client_verify ?K [5] f sig alg (c3, ()) = (Ok True, (c3, ()))" by (rule conjunct1 [OF v])
  with run [symmetric] st2 show ?thesis by (intro exI conjI)
qed

subsection \<open>A restored client\<close>

text \<open>Verifying depends on the records of the calendar alone.\<close>

lemma verify_same_inner:
  assumes "cc_inner a = cc_inner b"
  shows "verify pc server f sig alg content (cc_lookup a) = verify pc server f sig alg content (cc_lookup b)"
proof -
  have "lk_get (cc_lookup a) = lk_get (cc_lookup b)"
    using assms by (simp add: cc_lookup_def as_lookup_def cc_get_def [abs_def])
  then show ?thesis unfolding verify_def by metis
qed

text \<open>
  C33: A client restored from its saved calendar verifies exactly what the client that saved
  verified, and never stamps again: it is dormant, and the library has no way to wake it.
\<close>

theorem restored_client_only_verifies:
  assumes "fo_level c = LevelStandalone" and "save_calendar K io path c = (Ok (), c1)"
    and "\<And>data. ne_calendar_json (cl_env K) (cc_inner (fo_calendar c)) = Ok data \<Longrightarrow>
      cl_calendar_of_json K data = Some (cc_inner (fo_calendar c))"
    and "foretias_new K new_software tk tbn persist_path files = Ok c2"
  shows "\<exists>c3. foretias_from_persist K new_software tk path (fo_files c1) = Ok c3 \<and>
    cc_inner (fo_calendar c3) = cc_inner (fo_calendar c) \<and>
    (\<forall>content f sig alg h. client_verify K content f sig alg (c3, h) =
       (fst (client_verify K content f sig alg (c, h)), (c3, h))) \<and>
    (\<forall>inp io clock content echo h. \<exists>msg. client_stamp K inp io clock content echo (c3, h) =
       (Err (FeDormant msg), (c3, h)))"
proof -
  let ?E = "cl_env K" and ?cal = "cc_inner (fo_calendar c)"
  obtain data where json: "ne_calendar_json ?E ?cal = Ok data"
    and files: "fo_files c1 = crashed_save AfterRename path data (fo_files c)"
  proof (rule save_Ok_files)
    show "save (ne_calendar_json ?E) io path ?cal (fo_files c) = (Ok (), fo_files c1)"
      using assms(2) by (auto simp: save_calendar_def client_save_def rmap_err_eq_Ok split: prod.splits)
  qed
  have load: "load (cl_calendar_of_json K) path (fo_files c1) = (Ok ?cal, fo_files c1)"
    using assms(3) [OF json] files
    by (intro load_no_tmp) (auto simp: crashed_save_def fs_write_def fs_rename_def)
  obtain u t secret prefix where sw: "new_software = Ok u" and tk: "tbid_secret_generate tk = Ok (t, secret)"
    and "slice_to (to_hex (ne_hex_encode ?E) t) 16 = (Ok prefix :: (_, node_error) result)"
    using assms(4) unfolding foretias_new_def create_standalone_state_def Let_def
    by (auto simp: result_simps chronomatter_new_def)
  then obtain c3 where c3: "foretias_from_persist K new_software tk path (fo_files c1) = Ok c3"
    and "fo_level c3 = LevelStandalone" "cm_is_dormant (fo_chronomatter c3)" "fo_calendar c3 = \<lparr>cc_inner = ?cal, cc_tbn = cal_tbn ?cal\<rparr>"
    by (simp add: foretias_from_persist_def load from_calendar_def client_from_persisted_def Let_def
        fo_chronomatter_def fo_calendar_def)
  then show ?thesis
    using assms(1)
    using verify_same_inner [of "fo_calendar c3" "fo_calendar c"]
    by (auto simp: client_verify_def client_stamp_def stamp_standalone_def Let_def)
qed

theorem restored_client_only_verifies_witness:
  "\<exists>c3. foretias_from_persist demo_alone (Ok ())
      demo_tbid_keypair ''c'' (Map.empty(''c'' \<mapsto> ''calendar'')) = Ok c3 \<and>
    (\<forall>h :: unit. \<exists>msg. client_stamp demo_alone
       (demo_inputs 1) \<lparr>io_create_dir = Ok (), io_write = Written, io_rename = Ok ()\<rparr>
       (Ok 5) [5] [] (c3, h) = (Err (FeDormant msg), (c3, h)))"
proof -
  let ?K = demo_alone
    and ?io = "\<lparr>io_create_dir = Ok (), io_write = Written, io_rename = Ok ()\<rparr>"
    and ?files = "Map.empty(''c'' \<mapsto> ''calendar'')"
  have save: "save_calendar ?K ?io ''c'' (demo_client None Map.empty) = (Ok (), (demo_client None Map.empty)\<lparr>fo_files := ?files\<rparr>)"
    by (auto simp: save_calendar_def client_save_def save_def demo_client_def demo_env_def fs_write_def fs_rename_def
        tmp_path_neq fun_upd_twist)
  have level: "fo_level (demo_client None Map.empty) = LevelStandalone"
    and files: "fo_files ((demo_client None Map.empty)\<lparr>fo_files := ?files\<rparr>) = ?files"
    by (simp_all add: demo_client_def)
  show ?thesis
  proof (rule exE [OF restored_client_only_verifies [OF level save _ demo_client_new [where tbn = "[]" and persist = None and
        files = Map.empty], unfolded files]], goal_cases)
    case (1 data)
    show ?case by (simp add: demo_client_def demo_standalone_def fo_calendar_def fo_chronomatter_def)
  next
    case (2 c3)
    show ?case by (rule exI [of _ c3]) (use 2 in simp)
  qed
qed

end
