(* ===== verification/Client_Remote.thy ===== *)
theory Client_Remote
  imports Client_Props
begin

section \<open>A client of a server\<close>

text \<open>
  The client of \<^verbatim>\<open>foretias.rs\<close> against the node of \<open>Server_Dispatch\<close>: its request is what the
  node's handler receives, and the node's response what the client parses.
\<close>

definition node_answer ::
    "('k, 's) node_env \<Rightarrow> 'k call_inputs \<Rightarrow> string \<Rightarrow> u64 \<Rightarrow> json \<Rightarrow> ('k time_family_server, json, ptp_error) stateful" where
  "node_answer E inp server timeout_secs request s = (case jsonrpc_handler E inp request s of
     (Ok resp, s') \<Rightarrow> (Ok (response_json resp), s')
   | (_, s') \<Rightarrow> (Err (PtConnect ''connection closed''), s'))"

definition client_at ::
    "('k, 's, 'h) client_env \<Rightarrow> 'k call_inputs \<Rightarrow> ('k, 's, 'k time_family_server) client_env" where
  "client_at K inp = \<lparr>cl_env = cl_env K, cl_show_crypto = cl_show_crypto K, cl_show_code = cl_show_code K,
     cl_calendar_of_json = cl_calendar_of_json K, cl_show_debug = cl_show_debug K,
     cl_exchange = node_answer (cl_env K) inp\<rparr>"

lemma client_at_simps [simp]:
  "cl_env (client_at K inp) = cl_env K" "cl_exchange (client_at K inp) = node_answer (cl_env K) inp"
  by (simp_all add: client_at_def)

lemma ptp_result_response:
  "ptp_result K (response_json r) = Ok v \<longleftrightarrow> jr_jsonrpc r = ''2.0'' \<and> jr_error r = None \<and> jr_result r = Some v"
proof -
  have "jget ''jsonrpc'' (response_json r) = Some (JString (jr_jsonrpc r))" "as_object (response_json r) \<noteq> None"
    "jget ''result'' (response_json r) = jr_result r"
    "jget ''error'' (response_json r) = map_option (\<lambda>(code, message).
       JObject [(''code'', JNumber (if 0 \<le> code then PosInt (word_of_int code) else NegInt code)),
         (''message'', JString message)]) (jr_error r)"
    by (auto simp: response_json_def split: option.splits)
  then show ?thesis
    by (cases "jr_error r"; cases "jr_result r")
      (auto simp: ptp_result_def validate_jsonrpc_response_def get_str_def result_simps)
qed

text \<open>A call that succeeds is a handler's answer with a result.\<close>

lemma call_peer_Ok:
  assumes "call_peer (client_at K inp) meth params (c, s) = (Ok v, (c', s'))"
  obtains resp where "dispatch True (cl_env K) inp (Some (jnum 1)) meth params s = (Ok resp, s')"
    and "jr_error resp = None" and "jr_result resp = Some v" and "c' = c"
proof -
  have req: "process_request_from_value True (cl_env K) inp (json_rpc_request meth params) s =
      dispatch True (cl_env K) inp (Some (jnum 1)) meth params s"
    by (simp add: process_request_from_value_def json_rpc_request_def get_str_def)
  from assms obtain resp where "jsonrpc_handler (cl_env K) inp (json_rpc_request meth params) s = (Ok resp, s')"
    and "jr_error resp = None" and "jr_result resp = Some v" and "c' = c"
    by (auto simp: call_peer_def noise_json_rpc_def node_answer_def sbind_def slift_def ptp_result_response
        rmap_err_eq_Ok split: option.splits prod.splits result.splits)
  then show ?thesis
    using that by (auto simp: jsonrpc_handler_def answer_errors_def plain_error_def rpc_error_def req
        split: prod.splits result.splits)
qed

lemma call_peer_answered:
  assumes "dispatch True (cl_env K) inp (Some (jnum 1)) meth params s = (Ok resp, s')"
    and "jr_error resp = None" and "jr_result resp = Some v" and "jr_jsonrpc resp = ''2.0''" and "primary_peer c = Some peer"
  shows "call_peer (client_at K inp) meth params (c, s) = (Ok v, (c, s'))"
proof -
  have req: "process_request_from_value True (cl_env K) inp (json_rpc_request meth params) s =
      dispatch True (cl_env K) inp (Some (jnum 1)) meth params s"
    by (simp add: process_request_from_value_def json_rpc_request_def get_str_def)
  have "ptp_result (client_at K inp) (response_json resp) = Ok v" using assms by (simp add: ptp_result_response)
  then show ?thesis
    using assms(1,5) by (simp add: call_peer_def noise_json_rpc_def node_answer_def sbind_def slift_def
        jsonrpc_handler_def answer_errors_def req rmap_err_simps)
qed

subsection \<open>Stamping and verifying through the server\<close>

lemma stamp_remote_Ok:
  assumes codecs: "codecs_ok (cl_env K)"
    and "stamp_remote (client_at K inp) content echo (c, s) = (Ok (f, sig, alg), (c', s'))"
  obtains resp v where "handle_stamp (cl_env K) inp (JObject [(''content'', JString (ne_hex_encode (cl_env K) content)),
      (''echo'', JString echo)]) s = (Ok resp, s')"
    and "jr_error resp = None" and "jr_result resp = Some v"
    and "\<And>st. v = stamp_json (cl_env K) st \<Longrightarrow>
      f = st_foretis st \<and> sig = st_signature_bytes st \<and> alg = st_signature_algorithm st"
proof -
  let ?ps = "JObject [(''content'', JString (ne_hex_encode (cl_env K) content)), (''echo'', JString echo)]"
  from assms(2) obtain v where call: "call_peer (client_at K inp) ''stamp'' ?ps (c, s) = (Ok v, (c', s'))"
    and f: "ne_foretis_of_json (cl_env K) (unwrap_or v (jget ''foretis'' v)) = Ok f"
    and rest: "sig = hex_or_empty (cl_env K) (unwrap_or [] (get_str ''signature'' v))"
      "alg = unwrap_or ''Ed25519'' (get_str ''signature_algorithm'' v)"
    by (auto simp: stamp_remote_def Let_def sbind_eq_Ok slift_def sret_def rmap_err_eq_Ok)
  from call obtain resp where "dispatch True (cl_env K) inp (Some (jnum 1)) ''stamp'' ?ps s = (Ok resp, s')"
    "jr_error resp = None" "jr_result resp = Some v" by (rule call_peer_Ok)
  then show ?thesis
    using f rest codecs
    by (intro that [of resp v])
      (auto simp: dispatch_eqs stamp_json_def get_str_def codecs_ok_def hex_or_empty_def)
qed

text \<open>
  Client and server together: what a client stamped through a new node whose earlier events were
  answered is valid, after whatever further events, for every client that asks the node.
\<close>

lemma stamp_verifies_at_node:
  assumes codecs: "codecs_ok (cl_env K)" and ffi: "ffi_ed25519_correct (ne_ffi (cl_env K))"
    and crypto: "ne_crypto (cl_env K) = software_crypto_server (ne_ffi (cl_env K)) k0"
    and "new_with_config (cl_env K) stored key sw tk nk addr ns persist com files = Ok s0"
    and "node_run (cl_env K) before s0 = (rs, s1)" and "\<forall>r \<in> set rs. answered r"
    and "fo_level c \<noteq> LevelStandalone"
    and "client_stamp (client_at K inp) ti io clock content echo (c, s1) = (Ok (f, sig, alg), (c', s2))"
    and "snd (node_run (cl_env K) after s2) = s3"
    and "fo_level d \<noteq> LevelStandalone" and "primary_peer d = Some peer"
  shows "client_verify (client_at K inp') content f sig alg (d, s3) = (Ok True, (d, s3))"
proof -
  let ?E = "cl_env K" and ?echo = "if echo = [] then client_echo clock else echo"
  let ?stamp = "JObject [(''content'', JString (ne_hex_encode ?E content)), (''echo'', JString ?echo)]"
  have remote: "stamp_remote (client_at K inp) content ?echo (c, s1) = (Ok (f, sig, alg), (c', s2))"
    using assms(7,8) by (cases "fo_level c") (auto simp: client_stamp_def Let_def)
  obtain resp v where
    answer: "handle_stamp ?E inp ?stamp s1 = (Ok resp, s2)" "jr_error resp = None" "jr_result resp = Some v"
    and fields: "\<And>st. v = stamp_json ?E st \<Longrightarrow>
      f = st_foretis st \<and> sig = st_signature_bytes st \<and> alg = st_signature_algorithm st"
    by (rule stamp_remote_Ok [OF codecs remote]) (rule that)
  from stamp_answer_held [OF ffi crypto assms(4-6) answer assms(9)] obtain content' echo' st where
    ps: "parse_stamp_params ?E ?stamp = Ok (content', echo')" and v: "v = stamp_json ?E st"
    and st: "try_local_verify ?E s3 (st_foretis st) (st_signature_bytes st) (st_signature_algorithm st) content' =
      (Ok True :: (_, node_error) result)" .
  then have held: "try_local_verify ?E s3 f sig alg content' = (Ok True :: (_, node_error) result)"
    using fields [OF v] by simp
  from ps codecs have content: "content' = content" "\<not> MAX_CONTENT_BYTES < length content"
    by (auto simp: parse_stamp_params_def get_str_def codecs_ok_def result_simps split: if_splits)
  let ?ps = "JObject [(''content'', JString (ne_hex_encode ?E content)), (''foretis'', ne_foretis_json ?E f),
    (''signature'', JString (ne_hex_encode ?E sig)), (''signature_algorithm'', JString alg)]"
  have "parse_verify_params ?E ?ps = Ok \<lparr>vp_content = content, vp_foretis = f, vp_foretis_value = ne_foretis_json ?E f,
      vp_signature = sig, vp_signature_algorithm = alg, vp_cross_node = False\<rparr>"
    using codecs content by (simp add: parse_verify_params_def get_str_def get_bool_def hex_or_empty_def codecs_ok_def)
  then have "\<exists>resp. dispatch True ?E inp' (Some (jnum 1)) ''verify'' ?ps s3 = (Ok resp, s3) \<and> jr_error resp = None \<and>
      jr_result resp = Some (JObject [(''valid'', JBool True), (''method'', JString ''local'')]) \<and> jr_jsonrpc resp = ''2.0''"
    using held by (simp add: dispatch_eqs handle_verify_def Let_def or_error_def resp_success_def dormant_success_def
        rpc_success_def content(1) sbind_def slift_def)
  then have "call_peer (client_at K inp') ''verify'' ?ps (d, s3) =
      (Ok (JObject [(''valid'', JBool True), (''method'', JString ''local'')]), (d, s3))"
    using call_peer_answered assms(11) by blast
  then show ?thesis
    using assms(10) by (cases "fo_level d") (simp_all add: client_verify_def verify_remote_def Let_def sbind_def sret_def get_bool_def)
qed

definition demo_remote :: "bytes foretias" where
  "demo_remote = \<lparr>fo_level = LevelPtp,
     fo_inner = InnerPtp \<lparr>pt_standalone = demo_standalone, pt_peers = [''peer''], pt_timeout_secs = 30\<rparr>,
     fo_persist_path = None, fo_files = Map.empty\<rparr>"

subsection \<open>What a proof of verification proves\<close>

text \<open>
  C27: \<^verbatim>\<open>verify_with_proof\<close> takes the record that decides from the server it asks. Whatever
  TBID, name and chronon a foretis claims, a server that answers with a record of that chronon
  under a key of its own makes its own signature of the foretis pass as verified.
\<close>

theorem server_chooses_proof:
  assumes ffi: "ffi_ed25519_correct (ne_ffi (cl_env K))"
    and "fo_level c \<noteq> LevelStandalone" and "primary_peer c = Some peer"
    and "sha256 (ne_ffi (cl_env K)) content = Ok (fr_content_hash f)" and "ne_postcard (cl_env K) f = Ok msg"
    and "handle_sign (ne_ffi (cl_env K)) own_key msg = Ok sig"
    and "cr_chronon_number r = fr_chronon_number f" and "cr_public_key r = ffi_ed25519_public (ne_ffi (cl_env K)) own_key"
    and "ne_chronon_of_json (cl_env K) j = Ok r"
    and "cl_exchange K peer (client_timeout c) (json_rpc_request ''get_calendar_slice''
      (JObject [(''cal_chronon_start'', jnum (fr_chronon_number f)), (''count'', jnum 2)])) h =
      (Ok (response_json (rpc_success None (JArray [j]))), h')"
  shows "verify_with_proof K (Ok (software_crypto_server (ne_ffi (cl_env K)) k1)) content f sig ''Ed25519'' (c, h) =
    (Ok \<lparr>vr_verified = True, vr_chronon_number = fr_chronon_number f, vr_calendar_records = [r], vr_foretis = f,
         vr_method = ''verify_with_proof''\<rparr>, (c, h'))"
proof -
  have "call_peer K ''get_calendar_slice''
      (JObject [(''cal_chronon_start'', jnum (fr_chronon_number f)), (''count'', jnum 2)]) (c, h) = (Ok (JArray [j]), (c, h'))"
    using assms(3,10) ptp_result_response [of K "rpc_success None (JArray [j])" "JArray [j]"]
    by (simp add: call_peer_def noise_json_rpc_def sbind_def slift_def rpc_success_def rmap_err_simps)
  then have "client_calendar_slice K (fr_chronon_number f) 2 (c, h) = (Ok [r], (c, h'))"
    using assms(2,9) by (cases "fo_level c")
      (simp_all add: client_calendar_slice_def calendar_slice_remote_def sbind_def slift_def result_simps)
  moreover have "verify (ne_postcard (cl_env K)) (software_crypto_server (ne_ffi (cl_env K)) k1) f sig ''Ed25519'' content
      (fetched_lookup \<lparr>fd_record = r, fd_tbid = fr_tbid f, fd_tbn = fr_tbn f\<rparr>) = Ok True"
    using handle_sign_verifies(2) [OF ffi assms(6)] assms(4,5,7,8)
    by (auto simp: verify_Ok_True_iff fetched_lookup_def as_lookup_def fetched_get_def)
  ultimately show ?thesis
    by (simp add: verify_with_proof_def Let_def sbind_def slift_def sret_def)
qed

definition forging_client :: "json \<Rightarrow> (bytes, bytes, unit) client_env" where
  "forging_client j = demo_client_env demo_client_calendar (\<lambda>_ _ _. slift (Ok (response_json (rpc_success None (JArray [j])))))"

theorem server_chooses_proof_witness:
  "\<exists>f sig j. fr_tbid f = tbid_default \<and> fr_tbn f = ''not mine'' \<and>
    fst (verify_with_proof (forging_client j) (Ok (software_crypto_server demo_ffi [])) [5] f sig ''Ed25519'' (demo_remote, ())) =
    Ok \<lparr>vr_verified = True, vr_chronon_number = 9, vr_calendar_records = [ChrononRecord 9 (ffi_ed25519_public demo_ffi [7])
         [] [] [] [] 0 [] 0 tbid_default], vr_foretis = f, vr_method = ''verify_with_proof''\<rparr>"
proof -
  let ?r = "ChrononRecord 9 (ffi_ed25519_public demo_ffi [7]) [] [] [] [] 0 [] 0 tbid_default"
  obtain hash where hash: "sha256 demo_ffi [5] = Ok hash" using demo_hash by blast
  let ?f = "\<lparr>fr_chronon_number = 9, fr_content_hash = hash, fr_tbid = tbid_default, fr_echo = [], fr_tbn = ''not mine'',
    fr_time_being_reference_time = []\<rparr>"
  let ?j = "demo_chronon_json ?r"
  obtain msg sig where sign: "demo_postcard ?f = Ok msg" "handle_sign demo_ffi [7] msg = Ok sig"
    using demo_postcard_ok [of ?f] handle_sign_answers [OF demo_answers, of "[7]"] by (auto simp: is_ok_iff)
  have env: "cl_env (forging_client j) = demo_env"
    "cl_exchange (forging_client j) p t q () = (Ok (response_json (rpc_success None (JArray [j]))), ())" for j p t q
    by (simp_all add: forging_client_def slift_def)
  have remote: "fo_level demo_remote \<noteq> LevelStandalone" "primary_peer demo_remote = Some ''peer''"
    by (simp_all add: demo_remote_def primary_peer_def list_first_def)
  have "verify_with_proof (forging_client ?j) (Ok (software_crypto_server (ne_ffi (cl_env (forging_client ?j))) [])) [5] ?f
      sig ''Ed25519'' (demo_remote, ()) = (Ok \<lparr>vr_verified = True, vr_chronon_number = fr_chronon_number ?f,
        vr_calendar_records = [?r], vr_foretis = ?f, vr_method = ''verify_with_proof''\<rparr>, (demo_remote, ()))"
    by (rule server_chooses_proof [where own_key = "[7]" and j = ?j, OF _ remote])
      (use hash sign in \<open>simp_all add: env demo_ffi_ed25519\<close>)
  then show ?thesis by (intro exI [of _ ?f] exI [of _ sig] exI [of _ ?j]) (simp add: env)
qed

end
