(* ===== verification/Cli.thy ===== *)
theory Cli
  imports Config Client_Remote Calendar_Store
begin

section \<open>The command line\<close>

text \<open>
  Models \<^verbatim>\<open>foretias-server/src/main.rs\<close>: the subcommands of the binary and what they make of
  their arguments. The parsing of the arguments, the printing of status lines and the set-up of
  logging are left out. Files and the standard output are a state beside the one of the server
  that a client command talks to.
\<close>

subsection \<open>Durations and port ranges\<close>

definition time_units :: "(string \<times> u64) list" where
  "time_units =
     [(''century'', 3155760000000000000), (''year'', 31557600000000000), (''day'', 86400000000000),
      (''hour'', 3600000000000), (''minute'', 60000000000), (''second'', 1000000000), (''millisecond'', 1000000),
      (''microsecond'', 1000), (''nanosecond'', 1)]"

text \<open>A single unit is written with its number alone, and without it among others.\<close>

definition unit_count :: "string \<Rightarrow> u64 \<Rightarrow> string" where
  "unit_count name cnt = (if cnt = 1 then ''1 '' @ name else show_u64 cnt @ '' '' @ name @ ''s'')"

fun mixed_parts :: "u64 \<Rightarrow> (string \<times> u64) list \<Rightarrow> string list" where
  "mixed_parts remainder [] = []"
| "mixed_parts remainder ((name, val) # us) =
     (if val \<le> remainder
      then (let remainder' = remainder mod val in
            (if remainder div val = 1 then name else unit_count name (remainder div val)) # (if remainder' = 0 then [] else mixed_parts remainder' us))
      else if remainder = 0 then [] else mixed_parts remainder us)"

definition format_comma_delimited :: "u64 \<Rightarrow> string \<Rightarrow> string" where
  "format_comma_delimited n u =
     (let s = show_u64 n in
      concat (map (\<lambda>i. (if 0 < i \<and> (length s - i) mod 3 = 0 then '','' else []) @ [s ! i]) [0..<length s]) @ '' '' @ u)"

definition join :: "string \<Rightarrow> string list \<Rightarrow> string" where
  "join sep ss = concat (case ss of [] \<Rightarrow> [] | x # xs \<Rightarrow> x # map (\<lambda>y. sep @ y) xs)"

definition humanize_nanoseconds :: "u64 \<Rightarrow> string" where
  "humanize_nanoseconds ns =
     (if ns = 0 then ''0 ns''
      else (case List.find (\<lambda>(name, val). ns mod val = 0 \<and> val \<le> ns) time_units of
        Some (name, val) \<Rightarrow> unit_count name (ns div val)
      | None \<Rightarrow>
          (case mixed_parts ns time_units of
             [] \<Rightarrow> format_comma_delimited ns ''ns''
           | [p] \<Rightarrow> p
           | [p, q] \<Rightarrow> p @ '' and '' @ q
           | ps \<Rightarrow> join '', '' (butlast ps) @ '', and '' @ last ps)))"

text \<open>The two sides of the first \<^verbatim>\<open>..\<close>.\<close>

fun split_dots :: "string \<Rightarrow> (string \<times> string) option" where
  "split_dots (c # d # cs) =
     (if c = CHR ''.'' \<and> d = CHR ''.'' then Some ([], cs)
      else map_option (\<lambda>(a, b). (c # a, b)) (split_dots (d # cs)))"
| "split_dots _ = None"

fun digits_u16 :: "nat \<Rightarrow> string \<Rightarrow> (nat, string) result" where
  "digits_u16 acc [] = Ok acc"
| "digits_u16 acc (c # cs) =
     (let d = (of_char c :: nat) in
      if d < 48 \<or> 57 < d then Err ''invalid digit found in string''
      else if 65536 \<le> 10 * acc + (d - 48) then Err ''number too large to fit in target type''
      else digits_u16 (10 * acc + (d - 48)) cs)"

definition parse_u16 :: "string \<Rightarrow> (u16, string) result" where
  "parse_u16 s =
     (if s = [] then Err ''cannot parse integer from empty string''
      else if s = ''+'' then Err ''invalid digit found in string''
      else rbind (digits_u16 0 (if hd s = CHR ''+'' then tl s else s)) (\<lambda>n. Ok (of_nat n)))"

definition parse_port_range :: "string \<Rightarrow> (u16 \<times> u16, string) result" where
  "parse_port_range range_str = (case split_dots range_str of
     None \<Rightarrow> Err (''invalid port range '' @ quoted range_str @ '', expected format: start..end'')
   | Some (a, b) \<Rightarrow>
       rbind (rmap_err (\<lambda>e. ''invalid port range start '' @ quoted a @ '': '' @ e) (parse_u16 (trim a))) (\<lambda>start.
       rbind (rmap_err (\<lambda>e. ''invalid port range end '' @ quoted b @ '': '' @ e) (parse_u16 (trim b))) (\<lambda>stop.
         if stop \<le> start
         then Err (''port range start ('' @ decimal (unat start) @ '') must be less than end ('' @ decimal (unat stop) @ '')'')
         else Ok (start, stop))))"

subsection \<open>Messages and files\<close>

record cli_world =
  cw_files :: fs
  cw_stdout :: "string list"

definition read_file :: "string \<Rightarrow> cli_world \<Rightarrow> (string, string) result" where
  "read_file path w = ok_or ''No such file or directory (os error 2)'' (cw_files w path)"

definition load_message :: "string option \<Rightarrow> string option \<Rightarrow> cli_world \<Rightarrow> (bytes, string) result" where
  "load_message msg msg_file w = (case (msg, msg_file) of
     (Some m, None) \<Rightarrow> Ok (as_bytes m)
   | (None, Some f) \<Rightarrow> rbind (read_file f w) (\<lambda>s. Ok (as_bytes s))
   | (None, None) \<Rightarrow> Err ''Must provide --message or --message-file''
   | (Some _, Some _) \<Rightarrow> Err ''Cannot specify both --message and --message-file'')"

definition load_foretis :: "string option \<Rightarrow> string option \<Rightarrow> cli_world \<Rightarrow> (string, string) result" where
  "load_foretis foretis foretis_file w = (case (foretis, foretis_file) of
     (Some j, None) \<Rightarrow> Ok j
   | (None, Some f) \<Rightarrow> read_file f w
   | (None, None) \<Rightarrow> Err ''Must provide --foretis or --foretis-file''
   | (Some _, Some _) \<Rightarrow> Err ''Cannot specify both --foretis and --foretis-file'')"

text \<open>Standard output, or a file whose writing succeeds or not.\<close>

definition write_output :: "write_outcome \<Rightarrow> string option \<Rightarrow> string \<Rightarrow> (cli_world, unit, string) stateful" where
  "write_output outcome dest output w = (case dest of
     None \<Rightarrow> (Ok (), w\<lparr>cw_stdout := cw_stdout w @ [output]\<rparr>)
   | Some path \<Rightarrow> (case fs_write outcome path output (cw_files w) of
       (r, files') \<Rightarrow> (rmap_err (\<lambda>e. ''Failed to write '' @ path @ '': '' @ (case e of Io m \<Rightarrow> m | _ \<Rightarrow> [])) r,
         w\<lparr>cw_files := files'\<rparr>)))"

fun show_foretias_error :: "foretias_error \<Rightarrow> string" where
  "show_foretias_error (FeCrypto msg) = ''Foretias crypto error: '' @ msg"
| "show_foretias_error (FeDormant msg) = ''Foretias dormant error: '' @ msg"
| "show_foretias_error (FeIo msg) = ''Foretias I/O error: '' @ msg"
| "show_foretias_error (FeNetwork msg) = ''Foretias network error: '' @ msg"
| "show_foretias_error (FeInternal msg) = ''Foretias internal error: '' @ msg"

subsection \<open>Client commands\<close>

text \<open>
  What a client command is given: the crypto server and key pair of its client, the clock, the
  text of a JSON value and its parser, the outcome of writing, and the inputs that a standalone
  stamp would have used.
\<close>

record 'k cli_inputs =
  cin_new_software :: "(unit, crypto_error) result"
  cin_tbid_keypair :: "(bytes \<times> bytes, crypto_error) result"
  cin_tick :: "'k tick_inputs"
  cin_io :: io_outcomes
  cin_clock :: clock_reading
  cin_pretty :: "json \<Rightarrow> (string, string) result"
  cin_from_str :: "string \<Rightarrow> (json, string) result"
  cin_write :: write_outcome

definition cli_client ::
    "('k, 's, 'h) client_env \<Rightarrow> 'k cli_inputs \<Rightarrow> string \<Rightarrow> string \<Rightarrow> ('k foretias, string) result" where
  "cli_client K cin name server =
     rmap_err show_foretias_error
       (foretias_connect_one K (cin_new_software cin) (cin_tbid_keypair cin) name server None Map.empty)"

text \<open>One call of a fresh client that is dropped afterwards.\<close>

definition with_client ::
    "'k foretias \<Rightarrow> string \<Rightarrow> ('k foretias \<times> 'h, 'a, foretias_error) stateful \<Rightarrow> ('h, 'a, string) stateful" where
  "with_client c what m h = (case m (c, h) of
     (r, (c', h')) \<Rightarrow> (rmap_err (\<lambda>e. what @ '' failed: '' @ show_foretias_error e) r, h'))"

definition lift_world :: "(cli_world, 'a, string) stateful \<Rightarrow> (cli_world \<times> 'h, 'a, string) stateful" where
  "lift_world m = (\<lambda>(w, h). case m w of (r, w') \<Rightarrow> (r, (w', h)))"

definition lift_server :: "('h, 'a, string) stateful \<Rightarrow> (cli_world \<times> 'h, 'a, string) stateful" where
  "lift_server m = (\<lambda>(w, h). case m h of (r, h') \<Rightarrow> (r, (w, h')))"

definition stamp_output_json :: "('k, 's, 'h) client_env \<Rightarrow> foretis_record \<Rightarrow> bytes \<Rightarrow> string \<Rightarrow> json" where
  "stamp_output_json K foretis sig sig_alg =
     JObject [(''foretis'', ne_foretis_json (cl_env K) foretis), (''signature'', JString (ne_hex_encode (cl_env K) sig)),
              (''signature_algorithm'', JString sig_alg)]"

definition cmd_stamp ::
    "('k, 's, 'h) client_env \<Rightarrow> 'k cli_inputs \<Rightarrow> string option \<Rightarrow> string option \<Rightarrow> string option \<Rightarrow> string \<Rightarrow>
     (cli_world \<times> 'h, unit, string) stateful" where
  "cmd_stamp K cin message message_file stamp_output server_addr = (\<lambda>(w, h).
     sbind (slift (load_message message message_file w)) (\<lambda>content.
     sbind (slift (cli_client K cin ''cli-stamp'' server_addr)) (\<lambda>client.
     sbind (lift_server (with_client client ''stamp''
       (client_stamp K (cin_tick cin) (cin_io cin) (cin_clock cin) content (client_echo (cin_clock cin)))))
       (\<lambda>(foretis, sig, sig_alg).
     sbind (slift (cin_pretty cin (stamp_output_json K foretis sig sig_alg))) (\<lambda>output.
       lift_world (write_output (cin_write cin) stamp_output output))))) (w, h))"

definition cmd_verify ::
    "('k, 's, 'h) client_env \<Rightarrow> 'k cli_inputs \<Rightarrow> string option \<Rightarrow> string option \<Rightarrow> string option \<Rightarrow> string option \<Rightarrow>
     string option \<Rightarrow> string \<Rightarrow> string option \<Rightarrow> string \<Rightarrow> (cli_world \<times> 'h, unit, string) stateful" where
  "cmd_verify K cin message message_file foretis foretis_file sig sig_alg verify_output server_addr = (\<lambda>(w, h).
     (let E = cl_env K in
     sbind (slift (load_message message message_file w)) (\<lambda>content.
     sbind (slift (load_foretis foretis foretis_file w)) (\<lambda>stamp_str.
     sbind (slift (cin_from_str cin stamp_str)) (\<lambda>stamp_obj.
     sbind (slift (ne_foretis_of_json E (unwrap_or stamp_obj (jget ''foretis'' stamp_obj)))) (\<lambda>record.
     let sig_hex = (case sig of Some s \<Rightarrow> s | None \<Rightarrow> unwrap_or [] (get_str ''signature'' stamp_obj));
         signature_bytes = hex_or_empty E sig_hex;
         alg = (if sig \<noteq> None then sig_alg else unwrap_or ''Ed25519'' (get_str ''signature_algorithm'' stamp_obj)) in
     sbind (slift (cli_client K cin ''cli-verify'' server_addr)) (\<lambda>client.
     sbind (lift_server (with_client client ''verify'' (client_verify K content record signature_bytes alg))) (\<lambda>valid.
     sbind (slift (cin_pretty cin (JObject [(''valid'', JBool valid), (''method'', JString ''remote'')]))) (\<lambda>output.
       lift_world (write_output (cin_write cin) verify_output output)))))))) (w, h)))"

definition report_json :: "('k, 's, 'h) client_env \<Rightarrow> verification_report \<Rightarrow> json" where
  "report_json K report =
     JObject [(''verified'', JBool (vr_verified report)), (''chronon_number'', jnum (vr_chronon_number report)),
              (''calendar_records'', chronons_json (cl_env K) (vr_calendar_records report)),
              (''foretis'', ne_foretis_json (cl_env K) (vr_foretis report)), (''method'', JString (vr_method report))]"

definition cmd_verify_with_proof ::
    "('k, 's, 'h) client_env \<Rightarrow> (crypto_server, crypto_error) result \<Rightarrow> 'k cli_inputs \<Rightarrow> string option \<Rightarrow>
     string option \<Rightarrow> string option \<Rightarrow> string option \<Rightarrow> string option \<Rightarrow> string \<Rightarrow>
     (cli_world \<times> 'h, unit, string) stateful" where
  "cmd_verify_with_proof K new_software cin message message_file foretis foretis_file proof_output server_addr = (\<lambda>(w, h).
     (let E = cl_env K in
     sbind (slift (load_message message message_file w)) (\<lambda>content.
     sbind (slift (load_foretis foretis foretis_file w)) (\<lambda>stamp_str.
     sbind (slift (cin_from_str cin stamp_str)) (\<lambda>stamp_obj.
     sbind (slift (ne_foretis_of_json E (unwrap_or stamp_obj (jget ''foretis'' stamp_obj)))) (\<lambda>record.
     let sig = hex_or_empty E (unwrap_or [] (get_str ''signature'' stamp_obj));
         alg = unwrap_or ''Ed25519'' (get_str ''signature_algorithm'' stamp_obj) in
     sbind (slift (cli_client K cin ''cli-verify-with-proof'' server_addr)) (\<lambda>client.
     sbind (lift_server (with_client client ''verify with proof''
       (verify_with_proof K new_software content record sig alg))) (\<lambda>report.
     sbind (slift (cin_pretty cin (report_json K report))) (\<lambda>output.
       lift_world (write_output (cin_write cin) proof_output output)))))))) (w, h)))"

end
