(* ===== verification/Cli_Serve.thy ===== *)
theory Cli_Serve
  imports Cli Server_Run
begin

section \<open>Serving and inspecting\<close>

text \<open>
  The two subcommands of \<^verbatim>\<open>main.rs\<close> that work on a calendar of this machine: \<^verbatim>\<open>serve\<close>, which
  makes a node of its arguments, the settings file and the configuration file, and
  \<^verbatim>\<open>inspect-attestations\<close>, which checks the attestations in a saved calendar.
\<close>

subsection \<open>Settings\<close>

record settings_config =
  sc2_listen_addr :: "string option"
  sc2_chronon_ns :: "u64 option"

definition settings_default :: settings_config where
  "settings_default = \<lparr>sc2_listen_addr = None, sc2_chronon_ns = None\<rparr>"

text \<open>A field left out of an object is absent; an array has to have both elements.\<close>

definition settings_of_json :: "settings_config de" where
  "settings_of_json v =
     Option.bind (case v of JArray [a, b] \<Rightarrow> Some [(''listen_addr'', a), (''chronon_ns'', b)]
       | JObject kvs \<Rightarrow> Some kvs | _ \<Rightarrow> None) (\<lambda>kvs.
     Option.bind (de_field ''listen_addr'' (de_option as_str) (Some None) kvs) (\<lambda>addr.
     Option.bind (de_field ''chronon_ns'' (de_option as_u64) (Some None) kvs) (\<lambda>ns.
       Some \<lparr>sc2_listen_addr = addr, sc2_chronon_ns = ns\<rparr>)))"

definition load_config :: "config_env \<Rightarrow> (string \<Rightarrow> json option) \<Rightarrow> fs \<Rightarrow> settings_config" where
  "load_config e from_str files = (case cfe_home e of
     None \<Rightarrow> settings_default
   | Some h \<Rightarrow> unwrap_or settings_default
       (Option.bind (Option.bind (files (h @ ''/.config/foretias/foretias.settings.json'')) from_str) settings_of_json))"

subsection \<open>The configuration of the subcommand\<close>

record serve_config =
  svc_addr :: string
  svc_chronon_ns :: u64
  svc_persist_path :: "string option"
  svc_start_dormant :: bool
  svc_peers :: "string list"
  svc_mutually_attest_every_chronons :: u64
  svc_request_timeout_secs :: u64
  svc_p2p_listen :: "string option"
  svc_p2p_port_range :: string
  svc_p2p_dial :: "string list"
  svc_known_servers :: "string list"
  svc_dht_namespace :: string
  svc_dht_bootstrap :: "string list"
  svc_max_discovered_peers :: nat

definition default_request_timeout_secs :: u64 where
  "default_request_timeout_secs = 15"

definition default_p2p_port_range :: string where
  "default_p2p_port_range = ''4002-4999''"

definition default_dht_namespace :: string where
  "default_dht_namespace = ''foretias''"

definition default_max_discovered_peers :: nat where
  "default_max_discovered_peers = 100"

text \<open>What the builder of the configuration gives for the fields that are not set.\<close>

definition serve_config_build :: "string \<Rightarrow> u64 \<Rightarrow> serve_config" where
  "serve_config_build addr chronon_ns = \<lparr>svc_addr = addr, svc_chronon_ns = chronon_ns, svc_persist_path = None,
     svc_start_dormant = False, svc_peers = [], svc_mutually_attest_every_chronons = 0,
     svc_request_timeout_secs = default_request_timeout_secs, svc_p2p_listen = None,
     svc_p2p_port_range = default_p2p_port_range, svc_p2p_dial = [], svc_known_servers = [],
     svc_dht_namespace = default_dht_namespace, svc_dht_bootstrap = [],
     svc_max_discovered_peers = default_max_discovered_peers\<rparr>"

definition build_time_family_config ::
    "config_env \<Rightarrow> (string \<Rightarrow> json option) \<Rightarrow> fs \<Rightarrow> serve_config \<Rightarrow> (string \<times> u64 \<times> time_family_config, string) result" where
  "build_time_family_config e from_str files config =
     (let cfg = load_config e from_str files;
          addr = (if svc_addr config = ''127.0.0.1:4001'' then unwrap_or (svc_addr config) (sc2_listen_addr cfg)
                  else svc_addr config);
          chronon_ns = (if svc_chronon_ns config = 60000000000
                        then unwrap_or (svc_chronon_ns config) (sc2_chronon_ns cfg) else svc_chronon_ns config);
          path = time_family_default_path e in
      rbind (parse_port_range (svc_p2p_port_range config)) (\<lambda>range.
        Ok (addr, chronon_ns, from_cli_and_file e from_str files
          \<lparr>tcc_listen_addr = addr, tcc_chronon_ns = chronon_ns, tcc_persist_path = svc_persist_path config,
           tcc_dormant = svc_start_dormant config, tcc_peers = svc_peers config,
           tcc_auto_attest_every_n = svc_mutually_attest_every_chronons config,
           tcc_request_timeout_secs = svc_request_timeout_secs config, tcc_p2p_listen = svc_p2p_listen config,
           tcc_p2p_port_range = range, tcc_p2p_dial = svc_p2p_dial config,
           tcc_known_servers = svc_known_servers config, tcc_dht_namespace = svc_dht_namespace config,
           tcc_dht_bootstrap = svc_dht_bootstrap config, tcc_max_discovered_peers = svc_max_discovered_peers config,
           tcc_config_file_path = (if files path = None then None else Some path)\<rparr>)))"

subsection \<open>The node\<close>

text \<open>
  What the start of a node draws and finds: its keys, the outcome of creating the crypto server,
  the block stores under a path, and the decoder of a saved calendar.
\<close>

record 'k start_inputs =
  sin_stored :: "string \<Rightarrow> (calendar_block list, node_error) result"
  sin_calendar_key :: "('k, crypto_error) result"
  sin_new_software :: "(unit, crypto_error) result"
  sin_tbid_keypair :: "(bytes \<times> bytes, crypto_error) result"
  sin_noise_keypair :: "(bytes \<times> bytes, crypto_error) result"
  sin_calendar_of_json :: "string \<Rightarrow> calendar option"

text \<open>The file is loaded twice; the first time consumes what an interrupted save left behind.\<close>

definition create_server ::
    "('k, 's) node_env \<Rightarrow> 'k start_inputs \<Rightarrow> serve_config \<Rightarrow> string \<Rightarrow> u64 \<Rightarrow> fs \<Rightarrow>
     ('k time_family_server, string) result \<times> fs" where
  "create_server E i config addr chronon_ns files =
     (if svc_start_dormant config
      then (case svc_persist_path config of
        None \<Rightarrow> (Err ''--persist-path is required for --dormant mode'', files)
      | Some persist \<Rightarrow>
          (let (loaded, files1) = load (sin_calendar_of_json i) persist files;
               (loaded_again, files2) = load (sin_calendar_of_json i) persist files1 in
           (rmap_err (ne_show_error E)
              (server_from_calendar E (sin_stored i) loaded loaded_again (sin_calendar_key i) (sin_new_software i)
                 (sin_tbid_keypair i) (sin_noise_keypair i) persist addr files2),
            case sin_new_software i of Ok _ \<Rightarrow> files2 | _ \<Rightarrow> files)))
      else (rmap_err (ne_show_error E)
              (new_with_config E (sin_stored i) (sin_calendar_key i) (sin_new_software i) (sin_tbid_keypair i)
                 (sin_noise_keypair i) addr chronon_ns (svc_persist_path config) None files), files))"

text \<open>What is asked of the communerd when the node is set up, in that order.\<close>

datatype p2p_step =
    EnableP2p string "string list" string string
  | BootstrapDht "string list"
  | RegisterAndDiscover "string list" string tbid u64 string nat

record p2p_inputs =
  pin_multiaddr :: "string \<Rightarrow> (string, string) result"
  pin_free_port :: "u16 \<times> u16 \<Rightarrow> (u16, string) result"
  pin_swarm :: "(unit, string) result"

fun parse_dials :: "(string \<Rightarrow> (string, string) result) \<Rightarrow> string list \<Rightarrow> (string list, string) result" where
  "parse_dials parse [] = Ok []"
| "parse_dials parse (s # ss) =
     rbind (rmap_err (\<lambda>e. ''invalid --p2p-dial '' @ s @ '': '' @ e) (parse s)) (\<lambda>m.
     rbind (parse_dials parse ss) (\<lambda>ms. Ok (m # ms)))"

definition setup_p2p ::
    "p2p_inputs \<Rightarrow> 'k time_family_server \<Rightarrow> serve_config \<Rightarrow> string \<Rightarrow> u64 \<Rightarrow>
     (string option \<times> p2p_step list, string) result" where
  "setup_p2p p server config addr chronon_ns =
     (let known = svc_known_servers config; communerd = (sv_communerd server \<noteq> None) in
      rbind (parse_port_range (svc_p2p_port_range config)) (\<lambda>range.
      rbind (case svc_p2p_listen config of
          Some s \<Rightarrow> rmap_err (\<lambda>e. ''invalid --p2p-listen '' @ s @ '': '' @ e)
            (rbind (pin_multiaddr p s) (\<lambda>m. Ok (Some m)))
        | None \<Rightarrow>
            (if known = [] then Ok None
             else rbind (rmap_err (\<lambda>e. ''failed to find free port in '' @ svc_p2p_port_range config @ '': '' @ e)
                    (pin_free_port p range)) (\<lambda>port.
                  rmap_err (\<lambda>e. ''failed to parse auto listen address: '' @ e)
                    (rbind (pin_multiaddr p (''/ip4/0.0.0.0/tcp/'' @ decimal (unat port))) (\<lambda>m. Ok (Some m))))))
        (\<lambda>listen.
      rbind (parse_dials (pin_multiaddr p) (svc_p2p_dial config)) (\<lambda>dials.
      rbind (case listen of
          Some m \<Rightarrow>
            if communerd then rmap_err (\<lambda>e. ''failed to start libp2p swarm: '' @ e)
              (rbind (pin_swarm p) (\<lambda>_. Ok [EnableP2p m dials (svc_dht_namespace config) addr]))
            else Ok []
        | None \<Rightarrow> Ok []) (\<lambda>enabled.
      Ok (listen, enabled
        @ (if communerd \<and> svc_dht_bootstrap config \<noteq> [] then [BootstrapDht (svc_dht_bootstrap config)] else [])
        @ (if communerd \<and> known \<noteq> []
           then [RegisterAndDiscover known (svc_dht_namespace config) (sv_tbid server) chronon_ns addr
                   (svc_max_discovered_peers config)] else [])))))))"

text \<open>
  The whole subcommand: what happens between the start and the shutdown is a sequence of events
  of the node, its daemon's ticks among them; it is empty where the address cannot be bound. A
  failed save at the end is a warning. \<open>new_communerd\<close> is the communerd of a configuration.
\<close>

definition serve_start ::
    "('k, 's) node_env \<Rightarrow> config_env \<Rightarrow> (string \<Rightarrow> json option) \<Rightarrow> 'k start_inputs \<Rightarrow> p2p_inputs \<Rightarrow>
     (communerd_config \<Rightarrow> communerd_api) \<Rightarrow> serve_config \<Rightarrow>
     (fs, 'k time_family_server \<times> string option \<times> p2p_step list, string) stateful" where
  "serve_start E e from_str i p new_communerd config files =
     sbind (slift (build_time_family_config e from_str files config)) (\<lambda>(addr, chronon_ns, tfc).
     sbind (create_server E i config addr chronon_ns) (\<lambda>server.
     (let server = (if svc_peers config \<noteq> [] then with_communerd (new_communerd (tfc_communerd tfc)) server else server) in
     sbind (slift (setup_p2p p server config addr chronon_ns)) (\<lambda>(listen, steps). sret (server, listen, steps))))) files"

definition cmd_serve ::
    "('k, 's) node_env \<Rightarrow> config_env \<Rightarrow> (string \<Rightarrow> json option) \<Rightarrow> 'k start_inputs \<Rightarrow> p2p_inputs \<Rightarrow>
     (communerd_config \<Rightarrow> communerd_api) \<Rightarrow> serve_config \<Rightarrow> 'k node_event list \<Rightarrow> 'k call_inputs \<Rightarrow>
     (fs, unit, string) stateful" where
  "cmd_serve E e from_str i p new_communerd config events inp =
     sbind (serve_start E e from_str i p new_communerd config) (\<lambda>(server, _, _).
       (\<lambda>_. (Ok (), sv_files (snd (server_save E inp (snd (node_run E events server)))))))"

subsection \<open>Inspecting a calendar\<close>

text \<open>The records are looked up by their place in the calendar.\<close>

definition inspect_get :: "calendar \<Rightarrow> u64 \<Rightarrow> nat \<Rightarrow> (chronon_record list, node_error) result" where
  "inspect_get c start cnt = Ok (take cnt (drop (unat start) (ticks c)))"

definition calendar_inspect :: "calendar \<Rightarrow> calendar_lookup" where
  "calendar_inspect c = as_lookup (inspect_get c) (map_option cr_chronon_number (latest_tick c)) (cal_tbid c) (cal_tbn c)"

text \<open>\<open>to_vec\<close> prints a record as JSON.\<close>

definition inspect_attestation ::
    "('k, 's) node_env \<Rightarrow> crypto_server \<Rightarrow> (chronon_record \<Rightarrow> (bytes, string) result) \<Rightarrow> calendar \<Rightarrow>
     chronon_record \<Rightarrow> external_attestation_record \<Rightarrow> (bool \<times> string, string) result" where
  "inspect_attestation E crypto to_vec c tick att =
     (let head = ''tick='' @ show_u64 (cr_chronon_number tick) @ '' attester='' @ ea_attester_tbid att;
          named = head @ '' attester_tick='' @ show_u64 (fr_chronon_number (ea_foretis att)) in
      case to_vec tick of
        Err e \<Rightarrow> Ok (False, head @ '' sig=INVALID (serialize error: '' @ e @ '')'')
      | Panic \<Rightarrow> Panic
      | Ok content \<Rightarrow>
          (case verify (ne_postcard E) crypto (ea_foretis att) (ea_signature att) (ea_signature_algorithm att) content
                  (calendar_inspect c) of
             Ok valid \<Rightarrow> Ok (valid, named @ (if valid then '' sig=VALID'' else '' sig=INVALID''))
           | Err e \<Rightarrow> Ok (False, head @ '' sig=INVALID (verify error: '' @ ne_show_error E e @ '')'')
           | Panic \<Rightarrow> Panic))"

fun inspect_all :: "(chronon_record \<Rightarrow> external_attestation_record \<Rightarrow> (bool \<times> string, string) result) \<Rightarrow>
    (chronon_record \<times> external_attestation_record) list \<Rightarrow> ((bool \<times> string) list, string) result" where
  "inspect_all f [] = Ok []"
| "inspect_all f ((t, a) # tas) = rbind (f t a) (\<lambda>v. rbind (inspect_all f tas) (\<lambda>vs. Ok (v # vs)))"

definition attestations_of :: "calendar \<Rightarrow> (chronon_record \<times> external_attestation_record) list" where
  "attestations_of c = concat (map (\<lambda>t. map (\<lambda>a. (t, a)) (cr_external_attestations t)) (ticks c))"

text \<open>The lines that are printed, and the exit code.\<close>

definition cmd_inspect_attestations ::
    "('k, 's) node_env \<Rightarrow> (crypto_server, string) result \<Rightarrow> (chronon_record \<Rightarrow> (bytes, string) result) \<Rightarrow>
     (string \<Rightarrow> (calendar, string) result) \<Rightarrow> string \<Rightarrow> fs \<Rightarrow> (string list \<times> int, string) result" where
  "cmd_inspect_attestations E new_software to_vec from_str path files =
     rbind (ok_or (''Failed to read '' @ path @ '': No such file or directory (os error 2)'') (files path)) (\<lambda>contents.
     rbind (rmap_err (\<lambda>e. ''Failed to parse calendar JSON: '' @ e) (from_str contents)) (\<lambda>c.
     rbind new_software (\<lambda>crypto.
     rbind (inspect_all (inspect_attestation E crypto to_vec c) (attestations_of c)) (\<lambda>verdicts.
       (let valid = length (filter fst verdicts); invalid = length verdicts - valid in
        Ok (map snd verdicts @ [''\<newline>--- Summary ---'', ''Total attestations: '' @ decimal (length verdicts),
              ''Valid:              '' @ decimal valid, ''Invalid:            '' @ decimal invalid],
            if 0 < invalid then 1 else 0))))))"

end
