(* ===== verification/Cli_Restart.thy ===== *)
theory Cli_Restart
  imports Cli_Serve Server_Props
begin

section \<open>Restarting a node from what it saved\<close>

text \<open>A step of a node writes no file but in its own directory.\<close>

definition own_file :: "'k time_family_server \<Rightarrow> string \<Rightarrow> bool" where
  "own_file s q \<longleftrightarrow> (\<exists>p r. sv_persist_path s = Some p \<and> q = p @ ''/'' @ r)"

definition files_step :: "'k time_family_server \<Rightarrow> 'k time_family_server \<Rightarrow> bool" where
  "files_step s s' \<longleftrightarrow> sv_persist_path s' = sv_persist_path s \<and> (\<forall>q. \<not> own_file s q \<longrightarrow> sv_files s' q = sv_files s q)"

lemma files_step_refl [simp]: "files_step s s"
  by (simp add: files_step_def)

lemma files_step_trans: "files_step s s' \<Longrightarrow> files_step s' s'' \<Longrightarrow> files_step s s''"
  by (simp add: files_step_def own_file_def)

lemma files_step_same:
  "sv_persist_path s' = sv_persist_path s \<Longrightarrow> sv_files s' = sv_files s \<Longrightarrow> files_step s s'"
  by (simp add: files_step_def)

lemma save_elsewhere:
  "save to_json io (p @ ''/'' @ r) c files = (res, files') \<Longrightarrow> \<forall>r. q \<noteq> p @ ''/'' @ r \<Longrightarrow> files' q = files q"
  by (auto simp: save_def fs_write_def fs_rename_def tmp_path_def split: result.splits write_outcome.splits)

lemma files_step_save: "files_step s (snd (server_save E inp s))"
  by (auto simp: server_save_def Let_def files_step_def own_file_def inc_metric_def save_elsewhere
      split: option.splits result.splits prod.splits)

lemma files_step_chronomatter [simp]: "files_step s (snd (on_chronomatter m s))"
  by (auto simp: on_chronomatter_def intro: files_step_same split: prod.splits)

lemma files_step_logged: "save_logged E inp (inc_metric g s) = (r, s') \<Longrightarrow> files_step s s'"
  using files_step_save [of "inc_metric g s" E inp]
  by (auto simp: save_logged_def inc_metric_def files_step_def own_file_def split: prod.splits result.splits)

lemma files_step_stamp:
  "answer (jget ''id'' ps) files_step s (handle_stamp E inp ps s)"
  "answer (jget ''id'' ps) files_step s (handle_route_stamp rt E inp ps s)"
proof -
  have call: "files_step s s'" if "call_stamp E inp content echo s = (r, s')" for content echo r s'
    using files_step_chronomatter that by (metis call_stamp_def snd_conv)
  show stamp: "answer (jget ''id'' ps) files_step s (handle_stamp E inp ps s)"
    by (auto simp: handle_stamp_def Let_def answer_simps sbind_def [of "save_logged E inp"] split: answer_splits
        dest: call intro: files_step_trans [OF call files_step_logged])
  show "answer (jget ''id'' ps) files_step s (handle_route_stamp rt E inp ps s)"
    by (auto simp: handle_route_stamp_def build_route_stamp_response_def Let_def answer_simps stamp
        sbind_def [of "save_logged E inp"] split: answer_splits dest: files_step_logged)
qed

lemma dispatch_files: "files_step s (snd (dispatch rt E inp i meth ps s))"
proof (cases "map_of (arms rt E inp) meth")
  case None
  then show ?thesis by (simp add: dispatch_def plain_error_def)
next
  case (Some h)
  have mirror: "mirror_step s s' \<Longrightarrow> files_step s s'" and queue: "queue_step s s' \<Longrightarrow> files_step s s'" for s'
    by (auto simp: mirror_step_def queue_step_def set_calendar_def intro: files_step_same)
  have "answer (jget ''id'' ps) files_step s (h ps s)"
    using map_of_SomeD [OF Some] unfolding arms_def list.set insert_iff empty_iff prod.inject
    by (elim disjE conjE FalseE)
      (simp_all add: files_step_stamp read_only_answers [THEN answer_mono]
        mirror_writes [THEN answer_mono] queue_writes [THEN answer_mono] mirror queue)
  then show ?thesis using Some by (simp add: dispatch_def answer_def)
qed

lemma node_step_files: "files_step s (snd (node_step E e s))"
  by (cases e) (auto simp: snd_sbind_sret server_daemon_tick_def process_request_from_value_def plain_error_def ok_or_def
      dispatch_files split: option.splits)

lemma node_run_files: "files_step s (snd (node_run E es s))"
  by (induction es arbitrary: s) (auto simp: snd_node_run_Cons simp del: node_run.simps(2) intro: files_step_trans [OF node_step_files])

text \<open>Where a node's files are, from its start to a save.\<close>

lemma serve_start_fresh:
  assumes "serve_start E e from_str i p nc config files = (Ok (server, x), files0)" and "\<not> svc_start_dormant config"
  shows "sv_persist_path server = svc_persist_path config" and "sv_files server = files"
proof -
  have "\<exists>addr ns com s0. new_with_config E (sin_stored i) (sin_calendar_key i) (sin_new_software i)
      (sin_tbid_keypair i) (sin_noise_keypair i) addr ns (svc_persist_path config) None files = Ok s0 \<and>
      (server = s0 \<or> server = with_communerd com s0)"
    using assms by (cases "svc_peers config = []")
      (auto simp: serve_start_def sbind_eq_Ok slift_def create_server_def rmap_err_eq_Ok Let_def sret_def)
  then obtain addr ns com s0 where s0: "new_with_config E (sin_stored i) (sin_calendar_key i) (sin_new_software i)
      (sin_tbid_keypair i) (sin_noise_keypair i) addr ns (svc_persist_path config) None files = Ok s0"
    and "server = s0 \<or> server = with_communerd com s0" by blast
  moreover have "sv_files s0 = files" using s0 by (auto simp: new_with_config_def Let_def result_simps)
  ultimately show "sv_persist_path server = svc_persist_path config" "sv_files server = files"
    using new_with_config_Ok(5) [OF s0] by (auto simp: with_communerd_def)
qed

definition saved_path :: "('k, 's) node_env \<Rightarrow> 'k time_family_server \<Rightarrow> string \<Rightarrow> string" where
  "saved_path E s p = p @ ''/'' @ to_hex (ne_hex_encode E) (sv_tbid s) @ ''.json''"

lemma server_save_file:
  assumes "server_save E inp s = (Ok (), s')" and "sv_persist_path s = Some p"
  obtains data where "ne_calendar_json E (sc_inner (sv_calendar s)) = Ok data"
    and "sv_files s' (saved_path E s p) = Some data" and "sv_files s' (tmp_path (saved_path E s p)) = None"
  using assms
  by (auto simp: server_save_def Let_def save_def fs_write_def fs_rename_def inc_metric_def saved_path_def
      split: result.splits prod.splits write_outcome.splits)

lemma load_nothing: "files path = None \<Longrightarrow> files (tmp_path path) = None \<Longrightarrow>
    load from_json path files = (Err (Internal (''calendar file not found: '' @ path)), files)"
  by (simp add: load_def)

text \<open>
  C31: A node's \<^verbatim>\<open>--persist-path\<close> is a directory, and \<^verbatim>\<open>--start-dormant\<close> reads it as a file. After
  whatever events and a successful save, a dormant start with the same path fails, and one with
  the file the node wrote below it is a dormant node with the very calendar of the saved one.
\<close>

theorem dormant_start_needs_file:
  assumes start: "serve_start E e from_str i pin nc config files = (Ok (server, x), files0)"
    and fresh: "\<not> svc_start_dormant config" "svc_persist_path config = Some p"
    and directory: "files p = None" "files (tmp_path p) = None"
    and run: "node_run E events server = (rs, s)" and save: "server_save E inp s = (Ok (), s')"
    and decode: "\<And>d. ne_calendar_json E (sc_inner (sv_calendar s)) = Ok d \<Longrightarrow>
      sin_calendar_of_json i' d = Some (sc_inner (sv_calendar s))"
    and works: "sin_new_software i' = Ok ()" "sin_calendar_key i' = Ok key" "sin_noise_keypair i' = Ok noise"
      "tbid_secret_generate (sin_tbid_keypair i') = Ok (t, secret)" "slice_to (to_hex (ne_hex_encode E) t) 16 = (Ok prefix :: (string, node_error) result)"
    and dormant: "svc_start_dormant config'"
  shows "(\<exists>m. create_server E i' (config'\<lparr>svc_persist_path := Some p\<rparr>) addr ns (sv_files s') = (Err m, sv_files s')) \<and>
    (\<exists>s2 files2. create_server E i' (config'\<lparr>svc_persist_path := Some (saved_path E s p)\<rparr>) addr ns (sv_files s') = (Ok s2, files2) \<and>
       is_dormant s2 \<and> sc_inner (sv_calendar s2) = sc_inner (sv_calendar s))"
proof -
  have "files_step server s" using node_run_files [of server E events] run by simp
  moreover have "files_step s s'" using files_step_save [of s E inp] save by simp
  ultimately have step: "files_step server s'" by (rule files_step_trans)
  have persist: "sv_persist_path s = Some p"
    using serve_start_fresh(1) [OF start fresh(1)] fresh(2) \<open>files_step server s\<close> by (simp add: files_step_def)
  have "\<not> own_file server p" "\<not> own_file server (tmp_path p)"
    using serve_start_fresh(1) [OF start fresh(1)] fresh(2) by (auto simp: own_file_def tmp_path_def)
  then have gone: "sv_files s' p = None" "sv_files s' (tmp_path p) = None"
    using step directory serve_start_fresh(2) [OF start fresh(1)] by (auto simp: files_step_def)
  from server_save_file [OF save persist] obtain data where data: "ne_calendar_json E (sc_inner (sv_calendar s)) = Ok data"
    and there: "sv_files s' (saved_path E s p) = Some data" "sv_files s' (tmp_path (saved_path E s p)) = None" .
  have loads: "load (sin_calendar_of_json i') (saved_path E s p) (sv_files s') = (Ok (sc_inner (sv_calendar s)), sv_files s')"
    using there decode [OF data] by (simp add: load_def)
  show ?thesis
    using dormant works load_nothing [OF gone, of "sin_calendar_of_json i'"]
    by (simp add: create_server_def loads server_from_calendar_def from_calendar_def from_persisted_def
        generate_calendar_signing_key_def is_dormant_def sv_calendar_def rmap_err_simps Let_def split: prod.split)
qed

definition demo_serve :: serve_config where
  "demo_serve = (serve_config_build ''a'' 1000000)\<lparr>svc_persist_path := Some ''/d'', svc_p2p_port_range := ''9900..9999''\<rparr>"

definition demo_start_inputs :: "calendar \<Rightarrow> bytes start_inputs" where
  "demo_start_inputs c = \<lparr>sin_stored = (\<lambda>_. Ok [two_ticks]), sin_calendar_key = Ok [3], sin_new_software = Ok (),
     sin_tbid_keypair = demo_tbid_keypair, sin_noise_keypair = Ok ([1], [2]), sin_calendar_of_json = (\<lambda>_. Some c)\<rparr>"

definition demo_p2p_inputs :: p2p_inputs where
  "demo_p2p_inputs = \<lparr>pin_multiaddr = Ok, pin_free_port = (\<lambda>_. Ok 9900), pin_swarm = Ok ()\<rparr>"

lemma demo_range: "parse_port_range ''9900..9999'' = Ok (9900, 9999)"
  by (simp add: parse_port_range_def parse_u16_def trim_def is_blank_def Let_def rmap_err_simps)

lemma demo_serve_start:
  "serve_start demo_env \<lparr>cfe_home = None, cfe_pkg_version = ''1''\<rparr> (\<lambda>_. None) (demo_start_inputs c) demo_p2p_inputs nc
     demo_serve Map.empty = (Ok (demo_node (Some ''/d'') None, None, []), Map.empty)"
  by (simp add: serve_start_def sbind_def slift_def sret_def build_time_family_config_def demo_serve_def serve_config_build_def
      demo_range create_server_def demo_start_inputs_def demo_node_new rmap_err_simps Let_def setup_p2p_def)

theorem dormant_start_needs_file_witness:
  "\<exists>s s' path. s = snd (node_run demo_env [DaemonTick (demo_call 1)] (demo_node (Some ''/d'') None)) \<and>
     server_save demo_env (demo_call 2) s = (Ok (), s') \<and>
     (\<exists>m. fst (create_server demo_env (demo_start_inputs (sc_inner (sv_calendar s))) (demo_serve\<lparr>svc_start_dormant := True\<rparr>) ''a'' 5
        (sv_files s')) = Err m) \<and>
     (\<exists>s2. fst (create_server demo_env (demo_start_inputs (sc_inner (sv_calendar s)))
        (demo_serve\<lparr>svc_start_dormant := True, svc_persist_path := Some path\<rparr>) ''a'' 5 (sv_files s')) = Ok s2 \<and> is_dormant s2)"
proof -
  define s where "s = snd (node_run demo_env [DaemonTick (demo_call 1)] (demo_node (Some ''/d'') None))"
  then obtain rs where run: "node_run demo_env [DaemonTick (demo_call 1)] (demo_node (Some ''/d'') None) = (rs, s)"
    by (metis prod.collapse)
  have "sv_persist_path s = Some ''/d''"
    using node_run_files [of "demo_node (Some ''/d'') None" demo_env "[DaemonTick (demo_call 1)]"] run
    by (simp add: files_step_def demo_node_def del: node_run.simps)
  then obtain s' where save: "server_save demo_env (demo_call 2) s = (Ok (), s')"
    by (simp add: server_save_def demo_call_def save_def fs_write_def fs_rename_def demo_env_def Let_def)
  let ?i = "demo_start_inputs (sc_inner (sv_calendar s))"
  have config: "\<not> svc_start_dormant demo_serve" "svc_persist_path demo_serve = Some ''/d''"
    "Map.empty ''/d'' = None" "Map.empty (tmp_path ''/d'') = None"
    by (simp_all add: demo_serve_def serve_config_build_def)
  obtain secret where "secret_from_bytes (replicate 240 9) = (Ok secret :: (tbid_secret, crypto_error) result)"
    by (simp add: secret_from_bytes_def)
  then have works: "sin_new_software ?i = Ok ()" "sin_calendar_key ?i = Ok [3]" "sin_noise_keypair ?i = Ok ([1], [2])"
    "tbid_secret_generate (sin_tbid_keypair ?i) = Ok (demo_tbid, secret)"
    "slice_to (to_hex (ne_hex_encode demo_env) demo_tbid) 16 = (Ok (replicate 16 CHR 0x07) :: (string, node_error) result)"
    by (simp_all add: demo_start_inputs_def demo_tbid_keypair_def tbid_secret_generate_def tbid_from_bytes_def demo_tbid_def
        from_raw_def to_hex_def char_hex_def take_map char_of_def bit_iff_odd)
  have calendar: "sin_calendar_of_json ?i d = Some (sc_inner (sv_calendar s))" for d by (simp add: demo_start_inputs_def)
  from dormant_start_needs_file [OF demo_serve_start config run save calendar works, of "demo_serve\<lparr>svc_start_dormant := True\<rparr>" "''a''" 5]
  have "(\<exists>m. fst (create_server demo_env ?i (demo_serve\<lparr>svc_start_dormant := True\<rparr>) ''a'' 5 (sv_files s')) = Err m) \<and>
    (\<exists>s2. fst (create_server demo_env ?i (demo_serve\<lparr>svc_start_dormant := True, svc_persist_path := Some (saved_path demo_env s ''/d'')\<rparr>)
      ''a'' 5 (sv_files s')) = Ok s2 \<and> is_dormant s2)"
    by (force simp: demo_serve_def serve_config_build_def)
  with save s_def show ?thesis by blast
qed

end
