(* ===== verification/Cli_Props.thy ===== *)
theory Cli_Props
  imports Cli_Serve Config
begin

section \<open>The command line and a node\<close>

lemma cli_client_level:
  "cli_client K cin name server = Ok c \<Longrightarrow> fo_level c \<noteq> LevelStandalone"
  "cli_client K cin name server = Ok c \<Longrightarrow> primary_peer c = Some server"
  by (auto simp: cli_client_def foretias_connect_one_def foretias_connect_def rmap_err_eq_Ok primary_peer_def list_first_def result_simps)

lemma with_client_Ok:
  "with_client c what m h = (Ok v, h') \<longleftrightarrow> (\<exists>c'. m (c, h) = (Ok v, (c', h')))"
  by (cases "m (c, h)") (auto simp: with_client_def rmap_err_eq_Ok split: prod.splits)

lemma write_output_Ok:
  "write_output outcome (Some path) written w = (Ok (), w') \<longleftrightarrow>
     outcome = Written \<and> w' = w\<lparr>cw_files := (cw_files w)(path \<mapsto> written)\<rparr>"
  by (auto simp: write_output_def fs_write_def rmap_err_simps split: write_outcome.splits)

lemma lifted_Ok:
  "lift_server m (w, h) = (Ok v, (w', h')) \<longleftrightarrow> w' = w \<and> m h = (Ok v, h')"
  "lift_world g (w, h) = (Ok u, (w', h')) \<longleftrightarrow> h' = h \<and> g w = (Ok u, w')"
  by (auto simp: lift_server_def lift_world_def split: prod.splits)

lemma cmd_stamp_Ok:
  assumes "cmd_stamp K cin msg msg_file (Some out) addr (w, h) = (Ok (), (w', h'))"
  obtains content c f sig alg c' written where "load_message msg msg_file w = Ok content"
    and "cli_client K cin ''cli-stamp'' addr = Ok c"
    and "client_stamp K (cin_tick cin) (cin_io cin) (cin_clock cin) content (client_echo (cin_clock cin)) (c, h) =
      (Ok (f, sig, alg), (c', h'))"
    and "cin_pretty cin (stamp_output_json K f sig alg) = Ok written"
    and "w' = w\<lparr>cw_files := (cw_files w)(out \<mapsto> written)\<rparr>"
  using assms
  by (auto simp: cmd_stamp_def sbind_eq_Ok slift_def lifted_Ok with_client_Ok write_output_Ok)

text \<open>
  C5: The command line against a node. What \<^verbatim>\<open>stamp\<close> wrote to a file through a new node whose
  earlier events were answered, \<^verbatim>\<open>verify\<close> with that file, the same message and any later client
  calls valid, after whatever further events of the node.
\<close>

theorem cli_stamp_verifies:
  assumes codecs: "codecs_ok (cl_env K)" and ffi: "ffi_ed25519_correct (ne_ffi (cl_env K))"
    and crypto: "ne_crypto (cl_env K) = software_crypto_server (ne_ffi (cl_env K)) k0"
    and printed: "\<And>j s. cin_pretty cin j = Ok s \<Longrightarrow> cin_from_str cin' s = Ok j"
    and node: "new_with_config (cl_env K) stored key sw tk nk a ns persist com files = Ok s0"
      "node_run (cl_env K) before s0 = (rs, s1)" "\<forall>r \<in> set rs. answered r"
    and stamp: "cmd_stamp (client_at K inp) cin msg msg_file (Some out) addr (w, s1) = (Ok (), (w', s2))"
    and later: "snd (node_run (cl_env K) after s2) = s3"
    and same: "load_message msg msg_file w = Ok content" "load_message msg' msg_file' w' = Ok content"
    and client: "cli_client (client_at K inp') cin' ''cli-verify'' addr' = Ok d"
    and verdict: "cin_pretty cin' (JObject [(''valid'', JBool True), (''method'', JString ''remote'')]) = Ok shown"
  shows "cmd_verify (client_at K inp') cin' msg' msg_file' None (Some out) None sig_alg None addr' (w', s3) =
    (Ok (), (w'\<lparr>cw_stdout := cw_stdout w' @ [shown]\<rparr>, s3))"
proof -
  from stamp same(1) obtain c f sig alg c' written where c: "cli_client (client_at K inp) cin ''cli-stamp'' addr = Ok c"
    and st: "client_stamp (client_at K inp) (cin_tick cin) (cin_io cin) (cin_clock cin) content (client_echo (cin_clock cin))
      (c, s1) = (Ok (f, sig, alg), (c', s2))"
    and o: "cin_pretty cin (stamp_output_json (client_at K inp) f sig alg) = Ok written" "cw_files w' out = Some written"
    by (auto elim!: cmd_stamp_Ok)
  have "client_verify (client_at K inp') content f sig alg (d, s3) = (Ok True, (d, s3))"
    by (rule stamp_verifies_at_node [OF codecs ffi crypto node cli_client_level(1) [OF c] st later
          cli_client_level [OF client]])
  moreover have "load_foretis None (Some out) w' = Ok written" using o(2) by (simp add: load_foretis_def read_file_def ok_or_def)
  moreover have "cin_from_str cin' written = Ok (stamp_output_json (client_at K inp) f sig alg)" by (rule printed [OF o(1)])
  ultimately show ?thesis
    using same(2) client verdict codecs
    by (simp add: cmd_verify_def sbind_def slift_def Let_def stamp_output_json_def get_str_def hex_or_empty_def codecs_ok_def
        lift_server_def lift_world_def with_client_def write_output_def rmap_err_simps)
qed

lemma demo_remote_stamp:
  assumes "echo \<noteq> []"
  obtains f sig alg s' where "client_stamp (client_at demo_alone (demo_call 2)) ti io clock (as_bytes ''hi'') echo
    (demo_remote, demo_node None None) = (Ok (f, sig, alg), (demo_remote, s'))"
proof -
  let ?ps = "JObject [(''content'', JString ''hi''), (''echo'', JString echo)]"
  have hex: "char_hex (as_bytes ''hi'') = ''hi''" by (simp add: char_hex_def as_bytes_def char_of_def bit_iff_odd)
  have "\<exists>st cm'. cm_stamp True demo_ffi char_hex demo_postcard (software_crypto_server demo_ffi [])
      (on_tick_advance char_hex False) (demo_inputs 2) (as_bytes ''hi'') echo (sv_chronomatter (demo_node None None)) =
      (Ok st, cm')"
    by (rule cm_stamp_live [OF demo_node_ready]) (simp_all add: demo_node_def demo_start_def)
  then obtain st cm' where st: "call_stamp demo_env (demo_call 2) (as_bytes ''hi'') echo (demo_node None None) =
      (Ok st, (demo_node None None)\<lparr>sv_chronomatter := cm'\<rparr>)"
    by (auto simp: call_stamp_def on_chronomatter_def sv_observer_def demo_call_def)
  have save: "save_logged demo_env inp s = (Ok (), s)" if "sv_persist_path s = None" for inp :: "bytes call_inputs" and s
    using that by (simp add: save_logged_def server_save_def)
  have "\<exists>resp s2. handle_stamp demo_env (demo_call 2) ?ps (demo_node None None) = (Ok resp, s2) \<and>
      jr_error resp = None \<and> jr_result resp = Some (stamp_json demo_env st) \<and> jr_jsonrpc resp = ''2.0''"
    by (simp add: handle_stamp_def parse_stamp_params_def get_str_def Let_def or_error_def sbind_def sget_def st
        MAX_CONTENT_BYTES_def smod_def save inc_metric_def resp_success_def dormant_success_def rpc_success_def)
  then obtain resp s2 where "dispatch True (cl_env demo_alone) (demo_call 2) (Some (jnum 1)) ''stamp'' ?ps (demo_node None None) =
      (Ok resp, s2)" "jr_error resp = None" "jr_result resp = Some (stamp_json demo_env st)" "jr_jsonrpc resp = ''2.0''"
    by (auto simp: dispatch_eqs)
  from call_peer_answered [OF this, of demo_remote "''peer''"]
  have "call_peer (client_at demo_alone (demo_call 2)) ''stamp'' ?ps (demo_remote, demo_node None None) =
      (Ok (stamp_json demo_env st), (demo_remote, s2))"
    by (simp add: primary_peer_def demo_remote_def list_first_def)
  then show ?thesis
    by (intro that [of "st_foretis st" "st_signature_bytes st" "st_signature_algorithm st" s2])
      (use assms in \<open>simp add: client_stamp_def demo_remote_def stamp_remote_def Let_def hex sbind_def slift_def sret_def stamp_json_def
        get_str_def hex_or_empty_def\<close>)
qed


definition demo_inputs_cli :: "json \<Rightarrow> json \<Rightarrow> bytes cli_inputs" where
  "demo_inputs_cli j k =
     \<lparr>cin_new_software = Ok (), cin_tbid_keypair = demo_tbid_keypair, cin_tick = demo_inputs 1,
      cin_io = \<lparr>io_create_dir = Ok (), io_write = Written, io_rename = Ok ()\<rparr>, cin_clock = Ok 5,
      cin_pretty = (\<lambda>x. if x = j then Ok ''stamp'' else if x = k then Ok ''verdict'' else Err ''not printed''),
      cin_from_str = (\<lambda>s. if s = ''stamp'' then Ok j else if s = ''verdict'' then Ok k else Err ''not parsed''),
      cin_write = Written\<rparr>"

lemma demo_cli_client: "cli_client (client_at demo_alone inp) (demo_inputs_cli j k) name ''peer'' = Ok demo_remote"
proof -
  have env: "client_at demo_alone inp = demo_client_env demo_client_calendar (node_answer demo_env inp)"
    by (simp add: client_at_def demo_client_env_def)
  have "create_standalone_state (client_at demo_alone inp) (Ok ()) demo_tbid_keypair name = Ok demo_standalone"
    using demo_client_new [of demo_client_calendar "node_answer demo_env inp" "[]" None Map.empty]
    by (simp add: env foretias_new_def demo_client_def rbind_eq_Ok create_standalone_state_def)
  then show ?thesis
    by (simp add: cli_client_def foretias_connect_one_def foretias_connect_def demo_inputs_cli_def demo_remote_def rmap_err_simps)
qed

theorem cli_stamp_verifies_witness:
  "\<exists>j k w' s. fst (cmd_verify (client_at demo_alone (demo_call 4)) (demo_inputs_cli j k) (Some ''hi'') None None (Some ''out'')
       None ''Ed25519'' None ''peer'' (w', snd (node_run demo_env [DaemonTick (demo_call 3), SwitchDormant True] s))) = Ok () \<and>
     cw_files w' ''out'' \<noteq> None"
proof -
  let ?cin = "\<lambda>j. demo_inputs_cli j (JObject [(''valid'', JBool True), (''method'', JString ''remote'')])"
    and ?w = "\<lparr>cw_files = Map.empty, cw_stdout = []\<rparr>" and ?K = "client_at demo_alone (demo_call 2)"
  obtain f sig alg s' where st: "client_stamp ?K (demo_inputs 1) \<lparr>io_create_dir = Ok (), io_write = Written, io_rename = Ok ()\<rparr>
      (Ok 5) (as_bytes ''hi'') (client_echo (Ok 5)) (demo_remote, demo_node None None) = (Ok (f, sig, alg), (demo_remote, s'))"
    by (rule demo_remote_stamp [of "client_echo (Ok 5)"]) (simp add: client_echo_def)
  define j where "j = stamp_output_json ?K f sig alg"
  let ?w' = "?w\<lparr>cw_files := [''out'' \<mapsto> ''stamp'']\<rparr>"
  have stamp: "cmd_stamp ?K (?cin j) (Some ''hi'') None (Some ''out'') ''peer'' (?w, demo_node None None) = (Ok (), (?w', s'))"
    using st demo_cli_client [of "demo_call 2" j "JObject [(''valid'', JBool True), (''method'', JString ''remote'')]" "''cli-stamp''"]
    by (simp add: cmd_stamp_def sbind_def slift_def load_message_def lift_server_def with_client_def rmap_err_simps lift_world_def
        write_output_def fs_write_def demo_inputs_cli_def j_def [symmetric])
  have env: "codecs_ok (cl_env demo_alone)" "ffi_ed25519_correct (ne_ffi (cl_env demo_alone))"
    "ne_crypto (cl_env demo_alone) = software_crypto_server (ne_ffi (cl_env demo_alone)) []"
    "\<And>x s. cin_pretty (?cin j) x = Ok s \<Longrightarrow> cin_from_str (?cin j) s = Ok x"
    "new_with_config (cl_env demo_alone) (\<lambda>_. Ok [two_ticks]) (Ok [3]) (Ok ()) demo_tbid_keypair (Ok ([1], [2])) ''a''
      1000000 None None (\<lambda>_. None) = Ok (demo_node None None)"
    "node_run (cl_env demo_alone) [] (demo_node None None) = ([], demo_node None None)" "\<forall>r \<in> set []. answered r"
    using demo_ffi_ed25519 by (auto simp: codecs_ok_def demo_inputs_cli_def demo_node_new split: if_splits)
  have message: "load_message (Some ''hi'') None ?w = Ok (as_bytes ''hi'')" "load_message (Some ''hi'') None ?w' = Ok (as_bytes ''hi'')"
    by (simp_all add: load_message_def)
  have "cin_pretty (?cin j) (JObject [(''valid'', JBool True), (''method'', JString ''remote'')]) = Ok ''verdict''"
    by (simp add: demo_inputs_cli_def j_def stamp_output_json_def)
  from cli_stamp_verifies [OF env stamp HOL.refl message demo_cli_client this, where inp' = "demo_call 4" and
      after = "[DaemonTick (demo_call 3), SwitchDormant True]" and sig_alg = "''Ed25519''"]
  show ?thesis by (intro exI [of _ j] exI [of _ "JObject [(''valid'', JBool True), (''method'', JString ''remote'')]"] exI [of _ ?w'] exI [of _ s']) simp
qed

section \<open>What the commands report\<close>

subsection \<open>Durations\<close>

lemma humanize_nanosecond_last: "(''nanosecond'', 1) \<in> set time_units"
  by (simp add: time_units_def)

text \<open>
  One unit always divides: what is printed is the first unit that does, and neither several units
  nor grouped digits are ever printed.
\<close>

lemma humanize_one_unit:
  assumes "ns \<noteq> 0"
  shows "\<exists>name val. (name, val) \<in> set time_units \<and> val dvd ns \<and> val \<le> ns \<and>
    humanize_nanoseconds ns = unit_count name (ns div val)"
proof (cases "List.find (\<lambda>(name, val). ns mod val = 0 \<and> val \<le> ns) time_units")
  case None
  then have "\<not> 1 \<le> ns" using humanize_nanosecond_last unfolding find_None_iff by fastforce
  then show ?thesis using assms word_coorder.not_eq_extremum by (simp add: not_le)
next
  case (Some u)
  then have "u \<in> set time_units \<and> snd u dvd ns \<and> snd u \<le> ns"
    by (auto simp: find_Some_iff mod_eq_0_iff_dvd in_set_conv_nth)
  then show ?thesis using assms Some
    by (cases u) (auto simp: humanize_nanoseconds_def)
qed

subsection \<open>Known servers without peers\<close>

lemma no_communerd_no_steps:
  assumes "serve_start E e from_str i p nc config files = (Ok (server, listen, steps), files')" and "svc_peers config = []"
  shows "steps = []"
proof -
  from assms obtain addr ns s0 where "create_server E i config addr ns files = (Ok s0, files')" "server = s0"
    "setup_p2p p s0 config addr ns = Ok (listen, steps)"
    by (auto simp: serve_start_def sbind_eq_Ok slift_def Let_def sret_def)
  moreover have "sv_communerd s0 = None"
    using calculation(1) by (auto simp: create_server_def rmap_err_eq_Ok server_from_calendar_def new_with_config_def Let_def
        result_simps split: if_splits option.splits prod.splits)
  ultimately show ?thesis
    by (auto simp: setup_p2p_def Let_def result_simps split: option.splits if_splits)
qed

subsection \<open>Inspected attestations\<close>

lemma inspect_all_true:
  "inspect_all f tas = Ok vs \<Longrightarrow> (\<forall>v \<in> set vs. fst v) \<longleftrightarrow> (\<forall>(t, a) \<in> set tas. \<exists>l. f t a = Ok (True, l))"
proof (induction f tas arbitrary: vs rule: inspect_all.induct)
  case (2 f t a tas)
  from 2(2) obtain v vs' where "f t a = Ok v" "inspect_all f tas = Ok vs'" "vs = v # vs'" by (auto simp: rbind_eq_Ok)
  with 2(1) show ?case by (cases v) auto
qed simp

lemma inspect_attestation_true:
  "(\<exists>l. inspect_attestation E crypto to_vec c t a = Ok (True, l)) \<longleftrightarrow>
     (\<exists>content. to_vec t = Ok content \<and> verify (ne_postcard E) crypto (ea_foretis a) (ea_signature a)
        (ea_signature_algorithm a) content (calendar_inspect c) = Ok True)"
  by (auto simp: inspect_attestation_def Let_def split: result.splits)

lemma inspect_get_next:
  assumes "consecutive (ticks c)"
  shows "inspect_get c start 1 = Ok (r # rs) \<longleftrightarrow> rs = [] \<and> r \<in> set (ticks c) \<and> cr_chronon_number r = start + 1"
proof -
  have num: "cr_chronon_number (ticks c ! k) = of_nat k + 1" if "k < length (ticks c)" for k
  proof -
    have "unat (cr_chronon_number (ticks c ! k)) = Suc k" using assms that by (simp add: consecutive_def)
    then have "of_nat (unat (cr_chronon_number (ticks c ! k))) = (of_nat (Suc k) :: u64)" by (rule arg_cong)
    then show ?thesis by (simp add: add.commute)
  qed
  have get: "inspect_get c start 1 = Ok (r # rs) \<longleftrightarrow> rs = [] \<and> unat start < length (ticks c) \<and> r = ticks c ! unat start"
    by (cases "unat start < length (ticks c)") (auto simp: inspect_get_def take_Suc_conv_app_nth hd_drop_conv_nth take_Suc)
  show ?thesis
  proof (cases "rs = [] \<and> r \<in> set (ticks c) \<and> cr_chronon_number r = start + 1")
    case True
    then obtain k where k: "k < length (ticks c)" "r = ticks c ! k" by (auto simp: in_set_conv_nth)
    then have "of_nat k = start" using num [of k] True by simp
    moreover have "Suc k < 2 ^ 64"
      using assms k(1) unsigned_less [where 'a = nat, of "cr_chronon_number (ticks c ! k)"] by (simp add: consecutive_def)
    then have "unat (of_nat k :: u64) = k" by (simp add: unsigned_of_nat take_bit_nat_eq_self)
    ultimately have "unat start = k" by simp
    then show ?thesis using True k get by simp
  next
    case False
    then show ?thesis using get num [of "unat start"] by auto
  qed
qed

text \<open>
  C30: The inspector's exit code is 0 exactly when every attestation is a signature, over the
  printed record that already contains it, under the key of the inspected calendar's own record
  one after the chronon that the attestation names.
\<close>

theorem inspector_reads_next_record:
  assumes "files path = Some s" and "from_str s = Ok c"
    and numbered: "consecutive (ticks c)"
    and "cmd_inspect_attestations E (Ok crypto) to_vec from_str path files = Ok (lines, code)"
  shows "code = 0 \<longleftrightarrow> (\<forall>t \<in> set (ticks c). \<forall>a \<in> set (cr_external_attestations t). \<exists>content msg r.
      to_vec t = Ok content \<and> cs_sha256 crypto content = Ok (fr_content_hash (ea_foretis a)) \<and>
      r \<in> set (ticks c) \<and> cr_chronon_number r = fr_chronon_number (ea_foretis a) + 1 \<and>
      ne_postcard E (ea_foretis a) = Ok msg \<and>
      cs_verify_with crypto (cr_public_key r) (ea_signature_algorithm a) msg (ea_signature a) = Ok True)"
proof -
  from assms(1,2,4) obtain vs where vs: "inspect_all (inspect_attestation E crypto to_vec c) (attestations_of c) = Ok vs"
    and code: "code = (if 0 < length vs - length (filter fst vs) then 1 else 0)"
    by (auto simp: cmd_inspect_attestations_def ok_or_def rmap_err_simps rbind_eq_Ok Let_def)
  have "code = 0 \<longleftrightarrow> (\<forall>v \<in> set vs. fst v)"
    unfolding code by (induction vs) (auto simp: Suc_diff_le less_Suc_eq_le)
  also have "\<dots> \<longleftrightarrow> (\<forall>t \<in> set (ticks c). \<forall>a \<in> set (cr_external_attestations t).
      \<exists>l. inspect_attestation E crypto to_vec c t a = Ok (True, l))"
    unfolding inspect_all_true [OF vs] by (auto simp: attestations_of_def)
  finally show ?thesis
    unfolding inspect_attestation_true verify_Ok_True_iff calendar_inspect_def as_lookup_def calendar_lookup.simps
      inspect_get_next [OF numbered] by blast
qed

text \<open>A calendar whose first record holds an attestation that names its own chronon, under the second record's key.\<close>

definition attested_calendar :: "foretis_record \<Rightarrow> bytes \<Rightarrow> calendar" where
  "attested_calendar f sig = (calendar_new tbid_default [])\<lparr>ticks :=
     [ChrononRecord 1 [] [] [] [] [] 0 [ExternalAttestationRecord ''a'' f sig ''Ed25519'' (ChrononRecord 1 [] [] [] [] [] 0 [] 0 tbid_default) 0]
        0 tbid_default,
      ChrononRecord 2 (ffi_ed25519_public demo_ffi [7]) [] [] [] [] 0 [] 0 tbid_default]\<rparr>"

theorem inspector_reads_next_record_witness:
  "\<exists>f sig lines. fr_chronon_number f = 1 \<and>
     cmd_inspect_attestations demo_env (Ok (software_crypto_server demo_ffi [])) (\<lambda>_. Ok [5]) (\<lambda>_. Ok (attested_calendar f sig)) ''c''
       (Map.empty(''c'' \<mapsto> ''json'')) = Ok (lines, 0)"
proof -
  obtain hash where hash: "sha256 demo_ffi [5] = Ok hash" using demo_hash by blast
  let ?f = "\<lparr>fr_chronon_number = 1, fr_content_hash = hash, fr_tbid = tbid_default, fr_echo = [], fr_tbn = [],
    fr_time_being_reference_time = []\<rparr>"
  obtain msg sig where sign: "demo_postcard ?f = Ok msg" "handle_sign demo_ffi [7] msg = Ok sig"
    using demo_postcard_ok [of ?f] handle_sign_answers [OF demo_answers, of "[7]"] by (auto simp: is_ok_iff)
  let ?c = "attested_calendar ?f sig" and ?S = "software_crypto_server demo_ffi []"
  have ok: "cs_verify_with ?S (ffi_ed25519_public demo_ffi [7]) ''Ed25519'' msg sig = Ok True"
    using handle_sign_verifies(2) [OF demo_ffi_ed25519 sign(2)] by simp
  have "consecutive (ticks ?c)" by (auto simp: attested_calendar_def consecutive_def less_Suc_eq)
  moreover obtain lines code where run: "cmd_inspect_attestations demo_env (Ok ?S) (\<lambda>_. Ok [5]) (\<lambda>_. Ok ?c) ''c''
      (Map.empty(''c'' \<mapsto> ''json'')) = Ok (lines, code)"
    using hash sign(1) ok
    by (simp add: cmd_inspect_attestations_def ok_or_def rmap_err_simps attested_calendar_def attestations_of_def
        inspect_attestation_def verify_def calendar_inspect_def as_lookup_def inspect_get_def list_first_def Let_def)
  ultimately have "code = 0"
    using inspector_reads_next_record [of "Map.empty(''c'' \<mapsto> ''json'')" "''c''" "''json''" "\<lambda>_. Ok ?c" ?c demo_env ?S "\<lambda>_. Ok [5]" lines code]
      hash sign(1) ok by (force simp: attested_calendar_def)
  with run show ?thesis by (intro exI [of _ ?f] exI) simp
qed

end
