(* ===== verification/Snapshot.thy ===== *)
theory Snapshot
  imports Cli "HOL-Library.List_Lexorder" "HOL-Library.Char_ord"
begin

section \<open>Signed snapshots\<close>

text \<open>
  Models \<^verbatim>\<open>core-engine/src/snapshot_signature.rs\<close> and \<^verbatim>\<open>snapshot_suite.rs\<close>: the output of a test
  scenario is a text of fenced blocks with a footer of three Ed25519 signatures, each over the
  blocks up to its own, under a key that is derived from a passphrase; a suite compares and
  verifies such texts. Strings are bytes, and blanks those of ASCII. The crates (Argon2id, Ed25519, hex
  and base64) are the fields of \<open>snapshot_crypto\<close>.
\<close>

subsection \<open>Keys and signatures\<close>

record 'e snapshot_crypto =
  sp_argon2 :: "bytes \<Rightarrow> bytes \<Rightarrow> (bytes, 'e) result"
  sp_public :: "bytes \<Rightarrow> bytes"
  sp_sign :: "bytes \<Rightarrow> bytes \<Rightarrow> bytes"
  sp_key_ok :: "bytes \<Rightarrow> bool"
  sp_verify_strict :: "bytes \<Rightarrow> bytes \<Rightarrow> bytes \<Rightarrow> bool"
  sp_hex :: "bytes \<Rightarrow> string"
  sp_hex_decode :: "string \<Rightarrow> (bytes, string) result"
  sp_b64 :: "bytes \<Rightarrow> string"
  sp_b64_decode :: "string \<Rightarrow> (bytes, string) result"

datatype 'e snapshot_signature_error = Argon2Failure 'e

definition SALT :: bytes where
  "SALT = as_bytes ''foretias:snapsuite-sig:v1''"

definition derive_keypair :: "'e snapshot_crypto \<Rightarrow> string \<Rightarrow> (bytes \<times> bytes, 'e snapshot_signature_error) result" where
  "derive_keypair C passphrase =
     rbind (rmap_err Argon2Failure (sp_argon2 C (as_bytes passphrase) SALT)) (\<lambda>key. Ok (key, sp_public C key))"

definition sign_content :: "'e snapshot_crypto \<Rightarrow> bytes \<Rightarrow> string \<Rightarrow> bytes \<times> bytes" where
  "sign_content C key content = (sp_public C key, sp_sign C key (as_bytes content))"

text \<open>A signature of another length than 64 is refused.\<close>

definition verify_signature :: "'e snapshot_crypto \<Rightarrow> bytes \<Rightarrow> string \<Rightarrow> bytes \<Rightarrow> bool" where
  "verify_signature C key content sig =
     (if length sig \<noteq> 64 then False else sp_verify_strict C key (as_bytes content) sig)"

subsection \<open>Canonical blocks\<close>

definition canonicalize_block :: "string \<Rightarrow> string" where
  "canonicalize_block s = trim s @ [newline]"

definition canonicalize_all_results :: "string list \<Rightarrow> string" where
  "canonicalize_all_results results =
     (if results = [] then [newline] else join [newline] (map canonicalize_block results))"

subsection \<open>Signing and verifying a snapshot\<close>

record snapshot_signature =
  ss_public_key_hex :: string
  ss_input_sig_b64 :: string
  ss_result_sig_b64 :: string
  ss_comments_sig_b64 :: string

definition format_footer :: "snapshot_signature \<Rightarrow> string" where
  "format_footer s = ''SIGNATURES:'' @ [newline] @ ''Public key: '' @ ss_public_key_hex s @
     [newline] @ ''Input signature: '' @ ss_input_sig_b64 s @ [newline] @ ''Result signature: '' @ ss_result_sig_b64 s @
     [newline] @ ''Comments signature: '' @ ss_comments_sig_b64 s"

record snapshot_verification =
  sv2_key_match :: bool
  sv2_input_ok :: bool
  sv2_result_ok :: bool
  sv2_comments_ok :: bool

definition snapshot_all_ok :: "snapshot_verification \<Rightarrow> bool" where
  "snapshot_all_ok v \<longleftrightarrow> sv2_key_match v \<and> sv2_input_ok v \<and> sv2_result_ok v \<and> sv2_comments_ok v"

definition status_line :: "snapshot_verification \<Rightarrow> string" where
  "status_line v = ''key='' @ (if sv2_key_match v then ''match'' else ''no_match'') @
     '' input='' @ (if sv2_input_ok v then ''ok'' else ''fail'') @
     '' result='' @ (if sv2_result_ok v then ''ok'' else ''fail'') @
     '' comments='' @ (if sv2_comments_ok v then ''ok'' else ''fail'')"

definition sign_snapshot ::
    "'e snapshot_crypto \<Rightarrow> string \<Rightarrow> string \<Rightarrow> string list \<Rightarrow> string \<Rightarrow>
     (snapshot_signature, 'e snapshot_signature_error) result" where
  "sign_snapshot C passphrase input results comments =
     (let canon_input = canonicalize_block input;
          canon_result = canonicalize_all_results results;
          canon_comments = canonicalize_block comments in
      rbind (derive_keypair C passphrase) (\<lambda>(sk, vk).
        Ok \<lparr>ss_public_key_hex = sp_hex C vk,
            ss_input_sig_b64 = sp_b64 C (snd (sign_content C sk canon_input)),
            ss_result_sig_b64 = sp_b64 C (snd (sign_content C sk (canon_input @ canon_result))),
            ss_comments_sig_b64 = sp_b64 C (snd (sign_content C sk (canon_input @ canon_result @ canon_comments)))\<rparr>))"

definition snapshot_fail :: "bool \<Rightarrow> snapshot_verification" where
  "snapshot_fail key_match =
     \<lparr>sv2_key_match = key_match, sv2_input_ok = False, sv2_result_ok = False, sv2_comments_ok = False\<rparr>"

definition verify_snapshot ::
    "'e snapshot_crypto \<Rightarrow> string \<Rightarrow> string \<Rightarrow> string list \<Rightarrow> string \<Rightarrow> snapshot_signature \<Rightarrow> snapshot_verification" where
  "verify_snapshot C passphrase input results comments sig =
     (case sp_hex_decode C (ss_public_key_hex sig) of
        Ok vk \<Rightarrow>
          if length vk \<noteq> 32 \<or> \<not> sp_key_ok C vk then snapshot_fail False
          else (case derive_keypair C passphrase of
            Ok (_, derived_vk) \<Rightarrow>
              (let key_match = (derived_vk = vk);
                   canon_input = canonicalize_block input;
                   canon_result = canonicalize_all_results results;
                   canon_comments = canonicalize_block comments in
               case (sp_b64_decode C (ss_input_sig_b64 sig), sp_b64_decode C (ss_result_sig_b64 sig),
                     sp_b64_decode C (ss_comments_sig_b64 sig)) of
                 (Ok i, Ok r, Ok c) \<Rightarrow>
                   \<lparr>sv2_key_match = key_match, sv2_input_ok = verify_signature C vk canon_input i,
                    sv2_result_ok = verify_signature C vk (canon_input @ canon_result) r,
                    sv2_comments_ok = verify_signature C vk (canon_input @ canon_result @ canon_comments) c\<rparr>
               | _ \<Rightarrow> snapshot_fail key_match)
          | _ \<Rightarrow> snapshot_fail False)
      | _ \<Rightarrow> snapshot_fail False)"

subsection \<open>The text of a snapshot\<close>

text \<open>\<^verbatim>\<open>str::lines\<close>: a line ends at a newline, with a carriage return before it or not.\<close>

fun str_lines :: "string \<Rightarrow> string list" where
  "str_lines [] = []"
| "str_lines (c # cs) =
     (if c = newline then [] # str_lines cs
      else if c = CHR 0x0D \<and> cs \<noteq> [] \<and> hd cs = newline then str_lines cs
      else (case str_lines cs of [] \<Rightarrow> [[c]] | l # ls \<Rightarrow> (c # l) # ls))"

fun position :: "('a \<Rightarrow> bool) \<Rightarrow> 'a list \<Rightarrow> nat option" where
  "position P [] = None"
| "position P (x # xs) = (if P x then Some 0 else map_option Suc (position P xs))"

definition rposition :: "('a \<Rightarrow> bool) \<Rightarrow> 'a list \<Rightarrow> nat option" where
  "rposition P xs = map_option (\<lambda>i. length xs - Suc i) (position P (rev xs))"

fun strip_prefix :: "string \<Rightarrow> string \<Rightarrow> string option" where
  "strip_prefix [] s = Some s"
| "strip_prefix (p # ps) [] = None"
| "strip_prefix (p # ps) (c # cs) = (if p = c then strip_prefix ps cs else None)"

definition parse_snapshot_footer :: "string \<Rightarrow> snapshot_signature option" where
  "parse_snapshot_footer snapshot_text =
     (let lines = str_lines snapshot_text in
      Option.bind (rposition (\<lambda>l. trim l = ''SIGNATURES:'') lines) (\<lambda>sig_pos.
      (case filter (\<lambda>l. trim l \<noteq> []) (drop (sig_pos + 1) lines) of
         a # b # c # d # _ \<Rightarrow>
           Option.bind (strip_prefix ''Public key: '' a) (\<lambda>key.
           Option.bind (strip_prefix ''Input signature: '' b) (\<lambda>input.
           Option.bind (strip_prefix ''Result signature: '' c) (\<lambda>result.
           Option.bind (strip_prefix ''Comments signature: '' d) (\<lambda>comments.
             if trim key = [] \<or> trim input = [] \<or> trim result = [] \<or> trim comments = [] then None
             else Some \<lparr>ss_public_key_hex = trim key, ss_input_sig_b64 = trim input,
                        ss_result_sig_b64 = trim result, ss_comments_sig_b64 = trim comments\<rparr>))))
       | _ \<Rightarrow> None)))"

definition trim_end :: "string \<Rightarrow> string" where
  "trim_end s = rev (dropWhile is_blank (rev s))"

definition is_fence :: "string \<Rightarrow> bool" where
  "is_fence l \<longleftrightarrow> strip_prefix ''```'' (trim l) \<noteq> None"

text \<open>The fenced lines that follow a label at \<open>start\<close>, and where their end is.\<close>

definition fenced :: "string list \<Rightarrow> nat \<Rightarrow> (nat \<times> string) option" where
  "fenced lines start =
     Option.bind (position is_fence (drop (start + 1) lines)) (\<lambda>i.
     Option.bind (position is_fence (drop (i + start + 1 + 1) lines)) (\<lambda>j.
       (let fence_start = i + start + 1; fence_end = j + fence_start + 1
        in Some (fence_end, join [newline] (drop (fence_start + 1) (take fence_end lines))))))"

definition parse_blocks :: "string \<Rightarrow> (string \<times> string list \<times> string) option" where
  "parse_blocks txt =
     (let lines = str_lines txt in
      Option.bind (position (\<lambda>l. trim l = ''INPUT:'') lines) (\<lambda>input_start.
      Option.bind (fenced lines input_start) (\<lambda>(input_fence_end, input).
      Option.bind (position (\<lambda>l. strip_prefix (rev ''RESULT:'') (rev (trim l)) \<noteq> None) (drop input_fence_end lines)) (\<lambda>r.
      Option.bind (fenced lines (r + input_fence_end)) (\<lambda>(result_fence_end, result).
      Option.bind (position (\<lambda>l. trim l = ''COMMENTS:'') (drop result_fence_end lines)) (\<lambda>c.
      Option.bind (fenced lines (c + result_fence_end)) (\<lambda>(_, comments).
        Some (input, [result], comments))))))))"

subsection \<open>The suite\<close>

record snapshot_suite =
  su_approved_dir :: string
  su_passphrase :: string

definition snapshot_path :: "snapshot_suite \<Rightarrow> string \<Rightarrow> string" where
  "snapshot_path su test_name = su_approved_dir su @ ''/'' @ test_name @ ''.snap''"

datatype test_failure =
    Pending string string
  | Mismatch string string string
  | TestError string string

text \<open>\<open>readable\<close>: the outcome of reading a file that exists.\<close>

definition compare_snapshot ::
    "(unit, string) result \<Rightarrow> fs \<Rightarrow> snapshot_suite \<Rightarrow> string \<Rightarrow> string \<Rightarrow> (unit, test_failure) result" where
  "compare_snapshot readable files su test_name actual =
     (let path = snapshot_path su test_name in
      case files path of
        None \<Rightarrow> Err (Pending test_name actual)
      | Some expected \<Rightarrow>
          rbind (rmap_err (\<lambda>e. TestError test_name (''Failed to read '' @ path @ '': '' @ e)) readable) (\<lambda>_.
            if trim_end expected \<noteq> trim_end actual then Err (Mismatch test_name expected actual) else Ok ()))"

definition verify_signatures :: "'e snapshot_crypto \<Rightarrow> snapshot_suite \<Rightarrow> string \<Rightarrow> snapshot_verification option" where
  "verify_signatures C su snapshot_text =
     Option.bind (parse_snapshot_footer snapshot_text) (\<lambda>sig.
     Option.bind (parse_blocks snapshot_text) (\<lambda>(input, results, comments).
       Some (verify_snapshot C (su_passphrase su) input results comments sig)))"

text \<open>\<open>entries\<close>: the names in the directory, if it can be read.\<close>

definition approved_names :: "string list option \<Rightarrow> string list" where
  "approved_names entries =
     sort (map rev (List.map_filter (\<lambda>fname. strip_prefix (rev ''.snap'') (rev fname)) (case entries of None \<Rightarrow> [] | Some es \<Rightarrow> es)))"

definition get_extraneous_snapshots :: "string list option \<Rightarrow> string list \<Rightarrow> string list" where
  "get_extraneous_snapshots entries registered_tests =
     filter (\<lambda>name. \<not> List.member registered_tests name) (approved_names entries)"

definition build_snapshot ::
    "'e snapshot_crypto \<Rightarrow> string \<Rightarrow> string \<Rightarrow> string list \<Rightarrow> string \<Rightarrow> (string, 'e snapshot_signature_error) result" where
  "build_snapshot C passphrase input results comments =
     rbind (sign_snapshot C passphrase input results comments) (\<lambda>sig.
       Ok (join [newline]
         ([''INPUT:'', ''```json'', trim_end input, ''```'']
          @ concat (map (\<lambda>(i, result). [''['' @ decimal i @ ''] RESULT:'', ''```json'', trim_end result, ''```''])
              (List.enumerate 0 results))
          @ [''COMMENTS:'', ''```markdown'', trim_end comments, ''```'', format_footer sig])))"

end
