(* ===== verification/Snapshot_Props.thy ===== *)
theory Snapshot_Props
  imports Snapshot
begin

section \<open>Built snapshots verify\<close>

subsection \<open>Trimming and lines\<close>

lemma trim_end_split:
  obtains q where "s = trim_end s @ q" and "\<forall>c \<in> set q. is_blank c"
  using that [of "rev (takeWhile is_blank (rev s))"]
  by (auto simp: trim_end_def simp flip: rev_append dest: set_takeWhileD)

lemma trim_end_app: "\<forall>c \<in> set q. is_blank c \<Longrightarrow> trim_end (s @ q) = trim_end s"
  using dropWhile_append2 [of "rev q" is_blank "rev s"] by (simp add: trim_end_def)

lemma trim_trim_end [simp]: "trim (trim_end s) = trim s"
proof -
  obtain q where q: "s = trim_end s @ q" "\<forall>c \<in> set q. is_blank c" by (rule trim_end_split)
  have eq: "trim t = trim_end (dropWhile is_blank t)" for t by (simp add: trim_def trim_end_def)
  show ?thesis
  proof (cases "\<forall>c \<in> set (trim_end s). is_blank c")
    case True
    then have "\<forall>c \<in> set s. is_blank c" by (subst q(1)) (use q(2) in auto)
    then show ?thesis using True by (simp add: trim_def dropWhile_eq_Nil_conv [THEN iffD2])
  next
    case False
    then have "dropWhile is_blank s = dropWhile is_blank (trim_end s) @ q" by (subst q(1)) (auto simp: dropWhile_append1)
    then show ?thesis by (simp add: eq trim_end_app [OF q(2)])
  qed
qed

lemma canonicalize_trim_end [simp]: "canonicalize_block (trim_end s) = canonicalize_block s"
  by (simp add: canonicalize_block_def)

text \<open>The pieces of a text between its newlines.\<close>

fun split_nl :: "string \<Rightarrow> string list" where
  "split_nl [] = [[]]"
| "split_nl (c # cs) = (if c = newline then [] # split_nl cs else (c # hd (split_nl cs)) # tl (split_nl cs))"

lemma split_nl_ne [simp]: "split_nl s \<noteq> []"
  by (cases s) auto

lemma split_nl_line: "newline \<notin> set l \<Longrightarrow> split_nl l = [l]"
  by (induction l) auto

lemma split_nl_app: "split_nl (a @ newline # b) = split_nl a @ split_nl b"
  by (induction a) (auto simp: hd_append tl_append split: list.splits)

lemma join_simps [simp]:
  "join sep [] = []" "join sep [x] = x" "join sep (x # y # xs) = x @ sep @ join sep (y # xs)"
  by (simp_all add: join_def)

lemma join_split_nl [simp]: "join [newline] (split_nl s) = s"
proof (induction s)
  case (Cons c s)
  then show ?case by (cases "split_nl s"; cases "tl (split_nl s)") auto
qed simp

lemma split_nl_join: "ls \<noteq> [] \<Longrightarrow> split_nl (join [newline] ls) = concat (map split_nl ls)"
  by (induction ls rule: induct_list012) (auto simp: split_nl_app)

lemma str_lines_split: "CHR 0x0D \<notin> set s \<Longrightarrow> s \<noteq> [] \<Longrightarrow> last s \<noteq> newline \<Longrightarrow> str_lines s = split_nl s"
proof (induction s)
  case (Cons c s)
  then show ?case by (cases "s = []") (auto split: list.splits)
qed simp

subsection \<open>Finding lines\<close>

lemma position_app: "\<forall>x \<in> set xs. \<not> P x \<Longrightarrow> P y \<Longrightarrow> position P (xs @ y # ys) = Some (length xs)"
  by (induction xs) auto

lemma rposition_app: "\<forall>x \<in> set ys. \<not> P x \<Longrightarrow> P y \<Longrightarrow> rposition P (xs @ y # ys) = Some (length xs)"
  using position_app [of "rev ys" P y "rev xs"] by (simp add: rposition_def)

lemma fenced_block:
  assumes "is_fence open" and "\<forall>l \<in> set body. \<not> is_fence l" and "is_fence close"
  shows "fenced (pre @ label # open # body @ close # post) (length pre) =
    Some (length pre + length body + 2, join [newline] body)"
  using position_app [of "[]" is_fence "open" "body @ close # post"] position_app [of body is_fence close post] assms
  by (simp add: fenced_def)

lemma parse_blocks_lines:
  assumes "str_lines txt = l1 # o1 # A @ c1 # l2 # o2 # B @ c2 # M @ l3 # o3 # D @ c3 # F"
    and "trim l1 = ''INPUT:''" and "strip_prefix (rev ''RESULT:'') (rev (trim l2)) \<noteq> None" and "trim l3 = ''COMMENTS:''"
    and "strip_prefix (rev ''RESULT:'') (rev (trim c1)) = None" and "\<forall>l \<in> set (c2 # M). trim l \<noteq> ''COMMENTS:''"
    and "\<forall>l \<in> {o1, c1, o2, c2, o3, c3}. is_fence l" and "\<forall>l \<in> set A \<union> set B \<union> set D. \<not> is_fence l"
  shows "parse_blocks txt = Some (join [newline] A, [join [newline] B], join [newline] D)"
proof -
  let ?r = "\<lambda>l. strip_prefix (rev ''RESULT:'') (rev (trim l)) \<noteq> None" and ?c = "\<lambda>l. trim l = ''COMMENTS:''"
  have 1: "fenced (str_lines txt) 0 = Some (length A + 2, join [newline] A)"
    using fenced_block [of o1 A c1 "[]" l1 "l2 # o2 # B @ c2 # M @ l3 # o3 # D @ c3 # F"] assms by simp
  have 2: "fenced (str_lines txt) (1 + (length A + 2)) = Some (length A + length B + 5, join [newline] B)"
    using fenced_block [of o2 B c2 "l1 # o1 # A @ [c1]" l2 "M @ l3 # o3 # D @ c3 # F"] assms by (simp add: eval_nat_numeral)
  have 3: "fenced (str_lines txt) (length M + 1 + (length A + length B + 5)) = Some (length A + length B + length M + length D + 8, join [newline] D)"
    using fenced_block [of o3 D c3 "l1 # o1 # A @ c1 # l2 # o2 # B @ c2 # M" l3 F] assms by (simp add: eval_nat_numeral ac_simps)
  have d2: "drop (length A + 2) (str_lines txt) = [c1] @ l2 # o2 # B @ c2 # M @ l3 # o3 # D @ c3 # F"
    and d3: "drop (length A + length B + 5) (str_lines txt) = (c2 # M) @ l3 # o3 # D @ c3 # F"
    using assms(1) by (simp_all add: eval_nat_numeral)
  have p2: "position ?r (drop (length A + 2) (str_lines txt)) = Some 1"
    unfolding d2 using position_app [of "[c1]" ?r l2] assms(3,5) by simp
  have p3: "position ?c (drop (length A + length B + 5) (str_lines txt)) = Some (length M + 1)"
    unfolding d3 using position_app [of "c2 # M" ?c l3] assms(4,6) by simp
  have p1: "position (\<lambda>l. trim l = ''INPUT:'') (str_lines txt) = Some 0" using assms(1,2) by simp
  show ?thesis
    by (simp only: parse_blocks_def Let_def p1 1 p2 2 p3 3 bind.bind_lunit prod.case)
qed

subsection \<open>The footer\<close>

definition clean_text :: "string \<Rightarrow> bool" where
  "clean_text s \<longleftrightarrow> s \<noteq> [] \<and> (\<forall>c \<in> set s. \<not> is_blank c)"

lemma trim_fixed: "s \<noteq> [] \<Longrightarrow> \<not> is_blank (hd s) \<Longrightarrow> \<not> is_blank (last s) \<Longrightarrow> trim s = s"
proof -
  have *: "t \<noteq> [] \<Longrightarrow> \<not> is_blank (hd t) \<Longrightarrow> dropWhile is_blank t = t" for t by (cases t) auto
  assume "s \<noteq> []" "\<not> is_blank (hd s)" "\<not> is_blank (last s)"
  then show ?thesis using * [of s] * [of "rev s"] by (simp add: trim_def hd_rev)
qed

lemma trim_clean: "\<forall>c \<in> set s. \<not> is_blank c \<Longrightarrow> trim s = s"
  by (cases "s = []") (auto simp: trim_fixed, simp add: trim_def)

lemma strip_prefix_app [simp]: "strip_prefix p (p @ s) = Some s"
  by (induction p) auto

definition footer_lines :: "snapshot_signature \<Rightarrow> string list" where
  "footer_lines s = [''SIGNATURES:'', ''Public key: '' @ ss_public_key_hex s, ''Input signature: '' @ ss_input_sig_b64 s,
     ''Result signature: '' @ ss_result_sig_b64 s, ''Comments signature: '' @ ss_comments_sig_b64 s]"

definition clean_signature :: "snapshot_signature \<Rightarrow> bool" where
  "clean_signature s \<longleftrightarrow> clean_text (ss_public_key_hex s) \<and> clean_text (ss_input_sig_b64 s) \<and>
     clean_text (ss_result_sig_b64 s) \<and> clean_text (ss_comments_sig_b64 s)"

lemma clean_no_newline: "clean_text s \<Longrightarrow> newline \<notin> set s" "clean_text s \<Longrightarrow> CHR 0x0D \<notin> set s"
  by (auto simp: clean_text_def is_blank_def)

lemma footer_text: "format_footer s = join [newline] (footer_lines s)"
  by (simp add: format_footer_def footer_lines_def)

lemma split_nl_lines: "ls \<noteq> [] \<Longrightarrow> \<forall>l \<in> set ls. newline \<notin> set l \<Longrightarrow> concat (map split_nl ls) = ls"
  by (induction ls rule: induct_list012) (auto simp: split_nl_line)

lemma footer_split: "clean_signature s \<Longrightarrow> split_nl (format_footer s) = footer_lines s"
proof -
  assume "clean_signature s"
  then have "\<forall>l \<in> set (footer_lines s). newline \<notin> set l"
    by (auto simp: footer_lines_def clean_signature_def clean_no_newline)
  moreover have "footer_lines s \<noteq> []" by (simp add: footer_lines_def)
  ultimately show ?thesis by (simp only: footer_text split_nl_join split_nl_lines not_False_eq_True)
qed

lemma footer_ends:
  assumes "clean_signature s"
  shows "CHR 0x0D \<notin> set (format_footer s)" "format_footer s \<noteq> []" "last (format_footer s) \<noteq> newline"
proof -
  have "clean_text (ss_comments_sig_b64 s)" using assms by (simp add: clean_signature_def)
  then have "newline \<notin> set (ss_comments_sig_b64 s)" "ss_comments_sig_b64 s \<noteq> []"
    by (simp_all add: clean_no_newline(1)) (simp add: clean_text_def)
  then show "last (format_footer s) \<noteq> newline" by (auto simp: format_footer_def dest: last_in_set)
  show "CHR 0x0D \<notin> set (format_footer s)" "format_footer s \<noteq> []"
    using assms by (simp_all add: format_footer_def clean_signature_def clean_no_newline)
qed

lemma trim_head: "\<not> is_blank c \<Longrightarrow> \<exists>r. trim (c # l) = c # r"
  by (auto simp: trim_def dropWhile_append intro: exI [of _ "rev (dropWhile is_blank (rev l))"])

lemma parse_footer_lines:
  assumes "str_lines txt = L @ footer_lines s" and "clean_signature s"
  shows "parse_snapshot_footer txt = Some s"
proof -
  have clean: "trim (ss_public_key_hex s) = ss_public_key_hex s" "trim (ss_input_sig_b64 s) = ss_input_sig_b64 s"
      "trim (ss_result_sig_b64 s) = ss_result_sig_b64 s" "trim (ss_comments_sig_b64 s) = ss_comments_sig_b64 s"
      "ss_public_key_hex s \<noteq> []" "ss_input_sig_b64 s \<noteq> []" "ss_result_sig_b64 s \<noteq> []" "ss_comments_sig_b64 s \<noteq> []"
    using assms(2) by (simp_all add: clean_signature_def clean_text_def trim_clean)
  have head: "trim (c # l) \<noteq> [] \<and> hd (trim (c # l)) = c" if "\<not> is_blank c" for c l
    using trim_head [OF that, of l] by auto
  have plain: "\<forall>l \<in> set (tl (footer_lines s)). trim l \<noteq> [] \<and> hd (trim l) \<noteq> CHR ''S''"
    by (auto simp: footer_lines_def head is_blank_def)
  then have other: "\<forall>l \<in> set (tl (footer_lines s)). trim l \<noteq> ''SIGNATURES:''" by fastforce
  have "trim ''SIGNATURES:'' = ''SIGNATURES:''" by (rule trim_clean) (simp add: is_blank_def)
  then have "rposition (\<lambda>l. trim l = ''SIGNATURES:'') (str_lines txt) = Some (length L)"
    using rposition_app [OF other, of "''SIGNATURES:''" L] assms(1) by (simp add: footer_lines_def)
  moreover have "filter (\<lambda>l. trim l \<noteq> []) (drop (length L + 1) (str_lines txt)) = tl (footer_lines s)"
    using assms(1) plain by (simp add: footer_lines_def)
  ultimately show ?thesis
    using clean strip_prefix_app [of "''Public key: ''"] strip_prefix_app [of "''Input signature: ''"]
      strip_prefix_app [of "''Result signature: ''"] strip_prefix_app [of "''Comments signature: ''"]
    by (simp add: parse_snapshot_footer_def footer_lines_def)
qed

subsection \<open>What is built is read back\<close>

text \<open>A block without carriage returns whose lines are no fences, as it stands in the text.\<close>

definition plain_block :: "string \<Rightarrow> bool" where
  "plain_block s \<longleftrightarrow> CHR 0x0D \<notin> set s \<and> (\<forall>l \<in> set (split_nl (trim_end s)). \<not> is_fence l)"

definition uncommented :: "string \<Rightarrow> bool" where
  "uncommented s \<longleftrightarrow> CHR 0x0D \<notin> set s \<and> (\<forall>l \<in> set (split_nl (trim_end s)). trim l \<noteq> ''COMMENTS:'')"

definition result_lines :: "nat \<Rightarrow> string \<Rightarrow> string list" where
  "result_lines i r = [''['' @ decimal i @ ''] RESULT:'', ''```json'', trim_end r, ''```'']"

definition snapshot_lines :: "string \<Rightarrow> string list \<Rightarrow> string \<Rightarrow> snapshot_signature \<Rightarrow> string list" where
  "snapshot_lines input results comments sig = [''INPUT:'', ''```json'', trim_end input, ''```'']
     @ concat (map (\<lambda>(i, r). result_lines i r) (List.enumerate 0 results))
     @ [''COMMENTS:'', ''```markdown'', trim_end comments, ''```'', format_footer sig]"

lemma build_snapshot_Ok:
  "build_snapshot C pass input results comments = Ok txt \<longleftrightarrow> (\<exists>sig.
     sign_snapshot C pass input results comments = Ok sig \<and> txt = join [newline] (snapshot_lines input results comments sig))"
  by (auto simp: build_snapshot_def snapshot_lines_def result_lines_def result_simps split_def)

lemma decimal_digits: "c \<in> set (decimal n) \<Longrightarrow> c \<noteq> newline \<and> c \<noteq> CHR 0x0D"
proof (induction n rule: decimal.induct)
  case (1 n)
  have digit: "char_of (48 + d) \<noteq> newline \<and> char_of (48 + d) \<noteq> CHR 0x0D" if "d < 10" for d :: nat
    using that by (simp add: char_of_eq_iff take_bit_eq_mod)
  show ?case
    using 1 digit by (subst (asm) decimal.simps) (auto split: if_splits)
qed

lemma trim_end_subset: "set (trim_end s) \<subseteq> set s"
  by (auto simp: trim_end_def dest: set_dropWhileD)

lemma join_set: "set (join sep ls) \<subseteq> set sep \<union> \<Union> (set ` set ls)"
  by (induction ls rule: induct_list012) auto

lemma join_last: "ys \<noteq> [] \<Longrightarrow> join sep (xs @ [ys]) \<noteq> [] \<and> last (join sep (xs @ [ys])) = last ys"
  by (induction xs rule: induct_list012) (auto simp: last_append)

lemma result_label: "trim (''['' @ s) \<noteq> ''COMMENTS:''"
  using trim_head [of "CHR ''[''" s] by (auto simp: is_blank_def)

lemma results_uncommented:
  assumes "\<forall>r \<in> set rs. uncommented r"
  shows "\<forall>l \<in> set (concat (map split_nl (concat (map (\<lambda>(i, r). result_lines i r) (List.enumerate n rs))))). trim l \<noteq> ''COMMENTS:''"
proof -
  have label: "split_nl (''['' @ decimal i @ ''] RESULT:'') = [''['' @ decimal i @ ''] RESULT:'']" for i
    by (rule split_nl_line) (auto dest: decimal_digits)
  have "trim ''```json'' = ''```json''" "trim ''```'' = ''```''" by (simp_all add: trim_clean is_blank_def)
  then have one: "\<forall>l \<in> set (concat (map split_nl (result_lines i r))). trim l \<noteq> ''COMMENTS:''" if "uncommented r" for i r
    using that result_label [of "decimal i @ ''] RESULT:''"] label [of i]
    by (auto simp: result_lines_def uncommented_def split_nl_line)
  show ?thesis using assms one by (induction rs arbitrary: n) auto
qed

lemma snapshot_text:
  assumes "clean_signature sig" and "CHR 0x0D \<notin> set input" and "\<forall>r \<in> set results. CHR 0x0D \<notin> set r" and "CHR 0x0D \<notin> set comments"
  shows "str_lines (join [newline] (snapshot_lines input results comments sig)) =
    concat (map split_nl (snapshot_lines input results comments sig))"
proof -
  have "CHR 0x0D \<notin> set l" if "l \<in> set (concat (map (\<lambda>(i, r). result_lines i r) (List.enumerate n results)))" for l n
    using that assms(3)
  proof (induction results arbitrary: n)
    case (Cons r rs)
    then show ?case using trim_end_subset [of r] by (auto simp: result_lines_def dest: decimal_digits)
  qed simp
  then have "\<forall>l \<in> set (snapshot_lines input results comments sig). CHR 0x0D \<notin> set l"
    using assms(2,4) trim_end_subset [of input] trim_end_subset [of comments] footer_ends(1) [OF assms(1)]
    by (auto simp: snapshot_lines_def simp del: set_concat)
  then have "CHR 0x0D \<notin> set (join [newline] (snapshot_lines input results comments sig))"
    using join_set [of "[newline]" "snapshot_lines input results comments sig"] by auto
  moreover have "\<exists>xs. snapshot_lines input results comments sig = xs @ [format_footer sig]"
    by (simp add: snapshot_lines_def)
  then have "join [newline] (snapshot_lines input results comments sig) \<noteq> [] \<and>
      last (join [newline] (snapshot_lines input results comments sig)) \<noteq> newline"
    using join_last [OF footer_ends(2) [OF assms(1)]] footer_ends(3) [OF assms(1)] by auto
  ultimately have "str_lines (join [newline] (snapshot_lines input results comments sig)) =
      split_nl (join [newline] (snapshot_lines input results comments sig))" using str_lines_split by blast
  moreover have "snapshot_lines input results comments sig \<noteq> []" by (simp add: snapshot_lines_def)
  ultimately show ?thesis using split_nl_join by metis
qed

lemma snapshot_lines_split:
  assumes "clean_signature sig"
  shows "concat (map split_nl (snapshot_lines input (r # rs) comments sig)) =
    ''INPUT:'' # ''```json'' # split_nl (trim_end input) @ ''```'' # ''[0] RESULT:'' # ''```json'' # split_nl (trim_end r) @ ''```'' #
    concat (map split_nl (concat (map (\<lambda>(i, r). result_lines i r) (List.enumerate 1 rs)))) @
    ''COMMENTS:'' # ''```markdown'' # split_nl (trim_end comments) @ ''```'' # footer_lines sig"
  using footer_split [OF assms] decimal.simps [of 0]
  by (simp add: snapshot_lines_def result_lines_def split_nl_line char_of_def bit_iff_odd)

definition snapshot_crypto_ok :: "'e snapshot_crypto \<Rightarrow> bool" where
  "snapshot_crypto_ok C \<longleftrightarrow> (\<forall>b. sp_hex_decode C (sp_hex C b) = Ok b \<and> sp_b64_decode C (sp_b64 C b) = Ok b) \<and>
     (\<forall>b. b \<noteq> [] \<longrightarrow> clean_text (sp_hex C b) \<and> clean_text (sp_b64 C b)) \<and>
     (\<forall>k. length (sp_public C k) = 32 \<and> sp_key_ok C (sp_public C k)) \<and>
     (\<forall>k m. length (sp_sign C k m) = 64 \<and> sp_verify_strict C (sp_public C k) m (sp_sign C k m))"

lemma signed_clean:
  assumes "snapshot_crypto_ok C" and "sign_snapshot C pass input results comments = Ok sig"
  shows "clean_signature sig"
proof -
  have "sp_public C k \<noteq> []" "sp_sign C k m \<noteq> []" for k m
    using assms(1) unfolding snapshot_crypto_ok_def by (metis list.size(3) zero_neq_numeral)+
  then show ?thesis
    using assms by (auto simp: sign_snapshot_def sign_content_def derive_keypair_def result_simps snapshot_crypto_ok_def clean_signature_def Let_def)
qed

lemma signed_verifies:
  assumes "snapshot_crypto_ok C" and "sign_snapshot C pass input results comments = Ok sig"
  shows "snapshot_all_ok (verify_snapshot C pass input results comments sig)"
  using assms by (auto simp: sign_snapshot_def sign_content_def derive_keypair_def result_simps snapshot_crypto_ok_def
      verify_snapshot_def snapshot_all_ok_def verify_signature_def Let_def rmap_err_simps)

lemma verify_snapshot_trim_end:
  "verify_snapshot C pass (trim_end input) [trim_end r] (trim_end comments) sig = verify_snapshot C pass input [r] comments sig"
proof -
  have "canonicalize_all_results [trim_end r] = canonicalize_all_results [r]" by (simp add: canonicalize_all_results_def)
  then show ?thesis unfolding verify_snapshot_def by (simp only: canonicalize_trim_end)
qed

text \<open>
  C9: A built snapshot, whose blocks have no fences and no carriage returns, is read back with its
  signatures. They are verified over the first result alone: with a single result every check
  passes for the passphrase it was built with.
\<close>

theorem snapshot_read_back:
  assumes "snapshot_crypto_ok C" and built: "build_snapshot C pass input (r # rs) comments = Ok txt"
    and "plain_block input" and "plain_block r" and "plain_block comments" and "\<forall>x \<in> set rs. uncommented x"
  shows "\<exists>sig. sign_snapshot C pass input (r # rs) comments = Ok sig \<and> parse_snapshot_footer txt = Some sig \<and>
    verify_signatures C su txt = Some (verify_snapshot C (su_passphrase su) input [r] comments sig) \<and>
    (rs = [] \<and> su_passphrase su = pass \<longrightarrow> snapshot_all_ok (verify_snapshot C (su_passphrase su) input [r] comments sig))"
proof -
  from built obtain sig where sig: "sign_snapshot C pass input (r # rs) comments = Ok sig"
    and written: "txt = join [newline] (snapshot_lines input (r # rs) comments sig)" by (auto simp: build_snapshot_Ok)
  have clean: "clean_signature sig" by (rule signed_clean [OF assms(1) sig])
  let ?M = "concat (map split_nl (concat (map (\<lambda>(i, r). result_lines i r) (List.enumerate 1 rs))))"
  have lines: "str_lines txt = ''INPUT:'' # ''```json'' # split_nl (trim_end input) @ ''```'' # ''[0] RESULT:'' # ''```json'' #
      split_nl (trim_end r) @ ''```'' # ?M @ ''COMMENTS:'' # ''```markdown'' # split_nl (trim_end comments) @ ''```'' # footer_lines sig"
    unfolding written using assms(3-6) snapshot_text [OF clean, of input "r # rs" comments] snapshot_lines_split [OF clean]
    by (simp add: plain_block_def uncommented_def)
  have "parse_snapshot_footer txt = Some sig"
    by (rule parse_footer_lines [OF _ clean, where L = "''INPUT:'' # ''```json'' # split_nl (trim_end input) @ ''```'' #
          ''[0] RESULT:'' # ''```json'' # split_nl (trim_end r) @ ''```'' # ?M @ ''COMMENTS:'' # ''```markdown'' #
          split_nl (trim_end comments) @ [''```'']"]) (simp only: lines append.simps append_assoc)
  moreover have fences: "\<forall>l \<in> {''```json'', ''```'', ''```json'', ''```'', ''```markdown'', ''```''}. is_fence l"
    by (simp add: is_fence_def trim_clean is_blank_def)
  have labels: "trim ''INPUT:'' = ''INPUT:''" "trim ''COMMENTS:'' = ''COMMENTS:''" "trim ''```'' = ''```''"
    "trim ''[0] RESULT:'' = ''[0] RESULT:''"
    by (simp_all add: trim_fixed is_blank_def)
  have bodies: "\<forall>l \<in> set (split_nl (trim_end input)) \<union> set (split_nl (trim_end r)) \<union> set (split_nl (trim_end comments)). \<not> is_fence l"
    using assms(3-5) by (auto simp: plain_block_def)
  have "\<forall>l \<in> set (''```'' # ?M). trim l \<noteq> ''COMMENTS:''"
    using results_uncommented [OF assms(6), of 1] by (simp only: list.set insert_iff ball_simps labels) simp
  from parse_blocks_lines [OF lines _ _ _ _ this fences bodies]
  have "parse_blocks txt = Some (trim_end input, [trim_end r], trim_end comments)" by (simp add: labels)
  ultimately show ?thesis
    using sig signed_verifies [OF assms(1) sig] by (auto simp: verify_signatures_def verify_snapshot_trim_end)
qed

text \<open>A crypto whose text form of a byte is two letters.\<close>

fun two_letters :: "bytes \<Rightarrow> string" where
  "two_letters [] = []"
| "two_letters (b # bs) = char_of (64 + unat b div 16) # char_of (64 + unat b mod 16) # two_letters bs"

fun of_two_letters :: "string \<Rightarrow> bytes" where
  "of_two_letters (c # d # cs) = of_nat ((of_char c - 64) * 16 + (of_char d - 64)) # of_two_letters cs"
| "of_two_letters _ = []"

lemma of_two_letters_inverse: "of_two_letters (two_letters bs) = bs"
proof (induction bs)
  case (Cons b bs)
  have "unat b < 256" using unsigned_less [where 'a = nat, of b] by simp
  then have "unat b div 16 < 16" by (simp add: less_mult_imp_div_less)
  then show ?case using Cons by (simp add: of_char_of take_bit_eq_mod)
qed simp

lemma two_letters_clean: "bs \<noteq> [] \<Longrightarrow> clean_text (two_letters bs)"
proof -
  have "\<not> is_blank (char_of (64 + n))" if "n < 16" for n :: nat
    using that by (simp add: is_blank_def char_of_eq_iff take_bit_eq_mod)
  moreover have "unat b div 16 < 16" for b :: u8
    using unsigned_less [where 'a = nat, of b] by (simp add: less_mult_imp_div_less)
  ultimately have "\<forall>c \<in> set (two_letters bs). \<not> is_blank c" for bs by (induction bs) auto
  moreover assume "bs \<noteq> []"
  then have "two_letters bs \<noteq> []" by (cases bs) simp_all
  ultimately show ?thesis by (simp add: clean_text_def)
qed

definition demo_snapshot_crypto :: "unit snapshot_crypto" where
  "demo_snapshot_crypto = \<lparr>sp_argon2 = (\<lambda>pw salt. Ok pw), sp_public = (\<lambda>k. take 32 (k @ replicate 32 0)),
     sp_sign = (\<lambda>k m. take 64 (k @ replicate 32 0 @ m @ replicate 64 0)), sp_key_ok = (\<lambda>k. True),
     sp_verify_strict = (\<lambda>k m s. take 32 s = k), sp_hex = two_letters, sp_hex_decode = (\<lambda>s. Ok (of_two_letters s)),
     sp_b64 = two_letters, sp_b64_decode = (\<lambda>s. Ok (of_two_letters s))\<rparr>"

lemma demo_snapshot_crypto_ok: "snapshot_crypto_ok demo_snapshot_crypto"
  by (auto simp: snapshot_crypto_ok_def demo_snapshot_crypto_def of_two_letters_inverse two_letters_clean min_def)

theorem snapshot_read_back_witness:
  "\<exists>txt v. build_snapshot demo_snapshot_crypto ''p'' ''in'' [''r''] ''c'' = Ok txt \<and>
    verify_signatures demo_snapshot_crypto \<lparr>su_approved_dir = ''d'', su_passphrase = ''p''\<rparr> txt = Some v \<and> snapshot_all_ok v"
proof -
  have "\<exists>t. build_snapshot demo_snapshot_crypto ''p'' ''in'' [''r''] ''c'' = Ok t"
    by (simp add: build_snapshot_def sign_snapshot_def derive_keypair_def demo_snapshot_crypto_def rmap_err_simps Let_def)
  then obtain t where b: "build_snapshot demo_snapshot_crypto ''p'' ''in'' [''r''] ''c'' = Ok t" ..
  have "plain_block s" if "s \<in> {''in'', ''r'', ''c''}" for s
    using that by (auto simp: plain_block_def trim_end_def is_blank_def is_fence_def trim_clean split_nl_line)
  then show ?thesis
    using snapshot_read_back [OF demo_snapshot_crypto_ok b, of "\<lparr>su_approved_dir = ''d'', su_passphrase = ''p''\<rparr>"] b by auto
qed

subsection \<open>What the signatures leave open\<close>

lemma trim_ends:
  assumes "trim x \<noteq> []"
  shows "\<not> is_blank (hd (trim x))" and "\<not> is_blank (last (trim x))"
proof -
  let ?u = "dropWhile is_blank x"
  have eq: "trim x = trim_end ?u" by (simp add: trim_def trim_end_def)
  obtain q where "?u = trim_end ?u @ q" by (rule trim_end_split)
  then have "hd (trim x) = hd ?u" and "?u \<noteq> []" using assms unfolding eq by (metis hd_append2, metis append_is_Nil_conv)
  then show "\<not> is_blank (hd (trim x))" using hd_dropWhile by metis
  have "dropWhile is_blank (rev ?u) \<noteq> []" using assms by (simp add: trim_def)
  then show "\<not> is_blank (last (trim x))" using hd_dropWhile [of is_blank "rev ?u"] by (simp add: trim_def last_rev)
qed

lemma join_merge: "join sep (pre @ x # y # post) = join sep (pre @ (x @ sep @ y) # post)"
proof -
  have "join sep (x # y # post) = join sep ((x @ sep @ y) # post)" by (cases post) auto
  moreover have "join sep (pre @ u # us) = join sep (pre @ v # vs)" if "join sep (u # us) = join sep (v # vs)" for u us v vs
    using that by (induction pre rule: induct_list012) auto
  ultimately show ?thesis by blast
qed

text \<open>
  The signatures of a snapshot do not tell one result from several: two results, and the one
  that has both with an empty line between them, are signed alike.
\<close>

theorem results_boundary_unsigned:
  assumes "trim x \<noteq> []" and "trim y \<noteq> []"
  shows "sign_snapshot C pass input (pre @ x # y # post) comments =
    sign_snapshot C pass input (pre @ (trim x @ [newline, newline] @ trim y) # post) comments"
proof -
  let ?z = "trim x @ [newline, newline] @ trim y"
  have "trim ?z = ?z" using assms trim_ends [OF assms(1)] trim_ends [OF assms(2)] by (intro trim_fixed) auto
  then have "canonicalize_block ?z = canonicalize_block x @ [newline] @ canonicalize_block y"
    by (simp add: canonicalize_block_def)
  then have "canonicalize_all_results (pre @ x # y # post) = canonicalize_all_results (pre @ ?z # post)"
    by (simp add: canonicalize_all_results_def join_merge)
  then show ?thesis by (simp add: sign_snapshot_def)
qed

theorem results_boundary_unsigned_witness:
  "sign_snapshot demo_snapshot_crypto ''p'' ''in'' [''a'', ''b''] ''c'' =
    sign_snapshot demo_snapshot_crypto ''p'' ''in'' [''a'' @ [newline, newline] @ ''b''] ''c''"
  using results_boundary_unsigned [of "''a''" "''b''" demo_snapshot_crypto "''p''" "''in''" "[]" "[]" "''c''"]
  by (simp add: trim_clean is_blank_def)

end
