(* ===== verification/Noise.thy ===== *)
theory Noise
  imports Swarm
begin

section \<open>The Noise channel of the C core\<close>

text \<open>
  Models \<^verbatim>\<open>core/src/noise_xx.c\<close>, the handshake \<^verbatim>\<open>Noise_XX_25519_ChaChaPoly_SHA256\<close> and the
  transport that follows it, with the sealing of its secrets by \<^verbatim>\<open>privkey.c\<close>. A function
  returns a value or a negative code, and what it had written before it failed stays written.
  The state of a session is paired with the one of its process, which holds the key that seals
  secrets in memory and a counter. libsodium is the record \<open>noise_crypto\<close>.
\<close>

subsection \<open>libsodium\<close>

record noise_crypto =
  nz_sodium_init :: bool
  nz_sha256 :: "bytes \<Rightarrow> bytes"
  nz_hmac :: "bytes \<Rightarrow> bytes \<Rightarrow> bytes"
  nz_scalarmult :: "bytes \<Rightarrow> bytes \<Rightarrow> bytes option"
  nz_scalarmult_base :: "bytes \<Rightarrow> bytes option"
  nz_encrypt :: "bytes \<Rightarrow> bytes \<Rightarrow> bytes \<Rightarrow> bytes \<Rightarrow> bytes"
  nz_decrypt :: "bytes \<Rightarrow> bytes \<Rightarrow> bytes \<Rightarrow> bytes \<Rightarrow> bytes option"
  nz_secretbox :: "bytes \<Rightarrow> bytes \<Rightarrow> bytes \<Rightarrow> bytes"
  nz_secretbox_open :: "bytes \<Rightarrow> bytes \<Rightarrow> bytes \<Rightarrow> bytes option"

definition ERR_BAD_SIG :: int where "ERR_BAD_SIG = -1"
definition ERR_BAD_KEY :: int where "ERR_BAD_KEY = -3"
definition ERR_BAD_INPUT :: int where "ERR_BAD_INPUT = -6"
definition ERR_INTERNAL :: int where "ERR_INTERNAL = -99"

lemmas noise_codes = ERR_BAD_SIG_def ERR_BAD_KEY_def ERR_BAD_INPUT_def ERR_INTERNAL_def

subsection \<open>Secrets at rest\<close>

record process_state =
  pk_kek :: "bytes option"
  pk_counter :: u64

type_synonym sealed = "bytes \<times> bytes"

definition privkey_init :: "bytes \<Rightarrow> process_state \<Rightarrow> process_state" where
  "privkey_init random p = (if pk_kek p \<noteq> None then p else \<lparr>pk_kek = Some random, pk_counter = 0\<rparr>)"

definition derive_nonce :: "noise_crypto \<Rightarrow> u64 \<Rightarrow> bytes" where
  "derive_nonce C counter = take 24 (nz_sha256 C (to_le_bytes counter))"

definition privkey_encrypt :: "noise_crypto \<Rightarrow> bytes \<Rightarrow> (process_state, sealed, int) stateful" where
  "privkey_encrypt C plaintext p = (case pk_kek p of
     None \<Rightarrow> (Err ERR_INTERNAL, p)
   | Some kek \<Rightarrow>
       (let counter = pk_counter p + 1; nonce = derive_nonce C counter
        in (Ok (nz_secretbox C kek nonce plaintext, nonce), p\<lparr>pk_counter := counter\<rparr>)))"

definition privkey_decrypt :: "noise_crypto \<Rightarrow> sealed \<Rightarrow> process_state \<Rightarrow> (bytes, int) result" where
  "privkey_decrypt C s p = (case pk_kek p of
     None \<Rightarrow> Err ERR_INTERNAL
   | Some kek \<Rightarrow>
       if length (fst s) < 16 then Err ERR_BAD_INPUT
       else ok_or ERR_BAD_SIG (nz_secretbox_open C kek (snd s) (fst s)))"

subsection \<open>State\<close>

record noise_state =
  ns_chaining_key :: sealed
  ns_local_static :: sealed
  ns_send_key :: sealed
  ns_recv_key :: sealed
  ns_handshake_hash :: bytes
  ns_local_static_pub :: bytes
  ns_local_ephemeral :: bytes
  ns_remote_ephemeral :: bytes
  ns_remote_static :: bytes
  ns_send_nonce :: u64
  ns_recv_nonce :: u64
  ns_step :: int
  ns_is_initiator :: bool
  ns_complete :: bool

definition zero_sealed :: sealed where
  "zero_sealed = (replicate 48 0, replicate 24 0)"

definition noise_zero :: noise_state where
  "noise_zero = \<lparr>ns_chaining_key = zero_sealed, ns_local_static = zero_sealed, ns_send_key = zero_sealed,
     ns_recv_key = zero_sealed, ns_handshake_hash = replicate 32 0, ns_local_static_pub = replicate 32 0,
     ns_local_ephemeral = replicate 32 0, ns_remote_ephemeral = replicate 32 0, ns_remote_static = replicate 32 0,
     ns_send_nonce = 0, ns_recv_nonce = 0, ns_step = 0, ns_is_initiator = False, ns_complete = False\<rparr>"

type_synonym 'a noise = "(noise_state \<times> process_state, 'a, int) stateful"

definition ns_get :: "(noise_state \<Rightarrow> 'a) \<Rightarrow> 'a noise" where
  "ns_get f = sget (\<lambda>(st, p). f st)"

definition ns_mod :: "(noise_state \<Rightarrow> noise_state) \<Rightarrow> unit noise" where
  "ns_mod f = smod (\<lambda>(st, p). (f st, p))"

definition put_key :: "noise_crypto \<Rightarrow> (sealed \<Rightarrow> noise_state \<Rightarrow> noise_state) \<Rightarrow> bytes \<Rightarrow> unit noise" where
  "put_key C upd key = (\<lambda>(st, p). case privkey_encrypt C key p of
     (Ok s, p') \<Rightarrow> (Ok (), (upd s st, p'))
   | (_, p') \<Rightarrow> (Err ERR_INTERNAL, (st, p')))"

definition get_key :: "noise_crypto \<Rightarrow> (noise_state \<Rightarrow> sealed) \<Rightarrow> bytes noise" where
  "get_key C sel = (\<lambda>(st, p). case privkey_decrypt C (sel st) p of
     Ok key \<Rightarrow> (Ok key, (st, p))
   | _ \<Rightarrow> (Err ERR_BAD_KEY, (st, p)))"

definition put_chaining :: "noise_crypto \<Rightarrow> bytes \<Rightarrow> unit noise" where
  "put_chaining C = put_key C (\<lambda>s st. st\<lparr>ns_chaining_key := s\<rparr>)"

definition put_local_static :: "noise_crypto \<Rightarrow> bytes \<Rightarrow> unit noise" where
  "put_local_static C = put_key C (\<lambda>s st. st\<lparr>ns_local_static := s\<rparr>)"

definition put_send_key :: "noise_crypto \<Rightarrow> bytes \<Rightarrow> unit noise" where
  "put_send_key C = put_key C (\<lambda>s st. st\<lparr>ns_send_key := s\<rparr>)"

definition put_recv_key :: "noise_crypto \<Rightarrow> bytes \<Rightarrow> unit noise" where
  "put_recv_key C = put_key C (\<lambda>s st. st\<lparr>ns_recv_key := s\<rparr>)"

subsection \<open>Hashes and keys\<close>

definition mix_hash :: "noise_crypto \<Rightarrow> bytes \<Rightarrow> bytes \<Rightarrow> bytes" where
  "mix_hash C h d = nz_sha256 C (h @ d)"

text \<open>The first argument of \<open>nz_hmac\<close> is the key.\<close>

definition mix_key :: "noise_crypto \<Rightarrow> bytes \<Rightarrow> bytes \<Rightarrow> bytes \<times> bytes" where
  "mix_key C ck dh = (let t = nz_hmac C ck dh; nck = nz_hmac C t [1] in (nck, nz_hmac C t (nck @ [2])))"

definition split_key :: "noise_crypto \<Rightarrow> bytes \<Rightarrow> bytes \<times> bytes" where
  "split_key C ck = (let t = nz_hmac C ck []; sk = nz_hmac C t [1] in (sk, nz_hmac C t (sk @ [2])))"

definition nonce_bytes :: "u64 \<Rightarrow> bytes" where
  "nonce_bytes n = replicate 4 0 @ to_le_bytes n"

definition ae_enc :: "noise_crypto \<Rightarrow> bytes \<Rightarrow> u64 \<Rightarrow> bytes \<Rightarrow> bytes \<Rightarrow> (bytes \<times> u64) option" where
  "ae_enc C k n ad pt = (if n = - 1 then None else Some (nz_encrypt C k (nonce_bytes n) ad pt, n + 1))"

definition ae_dec :: "noise_crypto \<Rightarrow> bytes \<Rightarrow> u64 \<Rightarrow> bytes \<Rightarrow> bytes \<Rightarrow> (bytes \<times> u64) option" where
  "ae_dec C k n ad ct = (if n = - 1 then None else map_option (\<lambda>pt. (pt, n + 1)) (nz_decrypt C k (nonce_bytes n) ad ct))"

text \<open>What is sealed with the hash so far, and the hash with it.\<close>

definition encrypt_and_hash :: "noise_crypto \<Rightarrow> bytes \<Rightarrow> bytes \<Rightarrow> bytes \<Rightarrow> (bytes \<times> bytes) noise" where
  "encrypt_and_hash C h k pt =
     sbind (ns_get ns_send_nonce) (\<lambda>n. case ae_enc C k n h pt of
       None \<Rightarrow> slift (Err ERR_INTERNAL)
     | Some (ct, n') \<Rightarrow> sbind (ns_mod (\<lambda>st. st\<lparr>ns_send_nonce := n'\<rparr>)) (\<lambda>_. sret (ct, mix_hash C h ct)))"

definition decrypt_and_hash :: "noise_crypto \<Rightarrow> bytes \<Rightarrow> bytes \<Rightarrow> bytes \<Rightarrow> (bytes \<times> bytes) noise" where
  "decrypt_and_hash C h k ct =
     sbind (ns_get ns_recv_nonce) (\<lambda>n. case ae_dec C k n h ct of
       None \<Rightarrow> slift (Err ERR_BAD_SIG)
     | Some (pt, n') \<Rightarrow> sbind (ns_mod (\<lambda>st. st\<lparr>ns_recv_nonce := n'\<rparr>)) (\<lambda>_. sret (pt, mix_hash C h ct)))"

definition noise_dh :: "noise_crypto \<Rightarrow> bytes \<Rightarrow> bytes \<Rightarrow> bytes noise" where
  "noise_dh C p q = slift (ok_or ERR_BAD_KEY (nz_scalarmult C p q))"

subsection \<open>A new session\<close>

text \<open>
  The key of the HMAC is 32 bytes from the address of a literal of 27 characters: its end, and
  then \<open>beyond\<close>, the four bytes that happen to follow it.
\<close>

definition static_salt :: "bytes \<Rightarrow> bytes" where
  "static_salt beyond = as_bytes ''Noise_XX_static_key_ed25519'' @ 0 # beyond"

definition protocol_name :: bytes where
  "protocol_name = as_bytes ''Noise_XX_25519_ChaChaPoly_SHA256''"

definition initial_hash :: "noise_crypto \<Rightarrow> bytes" where
  "initial_hash C =
     (if 32 < length protocol_name then nz_sha256 C protocol_name
      else protocol_name @ replicate (32 - length protocol_name) 0)"

definition noise_init_ed25519 :: "noise_crypto \<Rightarrow> bytes \<Rightarrow> bytes \<Rightarrow> bytes option \<Rightarrow> bool \<Rightarrow> unit noise" where
  "noise_init_ed25519 C beyond my_static_priv their_static_pub is_initiator =
     (if \<not> nz_sodium_init C then slift (Err ERR_INTERNAL)
      else sbind (ns_mod (\<lambda>_. noise_zero)) (\<lambda>_.
        (let prk = nz_hmac C (static_salt beyond) my_static_priv; seed = nz_hmac C prk [1] in
         sbind (slift (ok_or ERR_BAD_KEY (nz_scalarmult_base C seed))) (\<lambda>pub.
         sbind (put_local_static C seed) (\<lambda>_.
         sbind (ns_mod (\<lambda>st. st\<lparr>ns_local_static_pub := pub\<rparr>)) (\<lambda>_.
         sbind (case their_static_pub of
            None \<Rightarrow> sret () | Some k \<Rightarrow> ns_mod (\<lambda>st. st\<lparr>ns_remote_static := k\<rparr>)) (\<lambda>_.
         sbind (ns_mod (\<lambda>st. st\<lparr>ns_handshake_hash := initial_hash C\<rparr>)) (\<lambda>_.
         sbind (put_chaining C (initial_hash C)) (\<lambda>_.
           ns_mod (\<lambda>st. st\<lparr>ns_step := 0, ns_is_initiator := is_initiator, ns_complete := False\<rparr>))))))))))"

text \<open>With a handle, the seed is taken out of it first.\<close>

definition noise_init_with_handle ::
    "noise_crypto \<Rightarrow> bytes \<Rightarrow> (bytes, int) result \<Rightarrow> bytes option \<Rightarrow> bool \<Rightarrow> unit noise" where
  "noise_init_with_handle C beyond ed_seed their_static_pub is_initiator =
     (if \<not> nz_sodium_init C then slift (Err ERR_INTERNAL)
      else sbind (ns_mod (\<lambda>_. noise_zero)) (\<lambda>_.
        sbind (slift ed_seed) (\<lambda>seed. noise_init_ed25519 C beyond seed their_static_pub is_initiator)))"

subsection \<open>The handshake\<close>

text \<open>
  A message that is written is the result; where the call only reads, the output buffer and its
  length are left as they were (\<open>None\<close>). \<open>cap\<close> is the size of the buffer, \<open>e_priv\<close> what the random
  number generator gives.
\<close>

definition initiator_send_e :: "noise_crypto \<Rightarrow> nat \<Rightarrow> bytes \<Rightarrow> bytes \<Rightarrow> bytes option noise" where
  "initiator_send_e C cap e_priv h =
     (if cap < 32 then slift (Err ERR_BAD_INPUT)
      else sbind (slift (ok_or ERR_INTERNAL (nz_scalarmult_base C e_priv))) (\<lambda>e_pub.
           sbind (ns_mod (\<lambda>st. st\<lparr>ns_local_ephemeral := e_pub\<rparr>)) (\<lambda>_.
           sbind (put_send_key C e_priv) (\<lambda>_.
           sbind (ns_mod (\<lambda>st. st\<lparr>ns_handshake_hash := mix_hash C h e_pub, ns_step := 1\<rparr>)) (\<lambda>_.
             sret (Some e_pub))))))"

text \<open>A payload behind the two fields of a message is decrypted and dropped.\<close>

definition read_payload :: "noise_crypto \<Rightarrow> nat \<Rightarrow> bytes \<Rightarrow> bytes \<Rightarrow> bytes \<Rightarrow> bytes noise" where
  "read_payload C off input h k =
     (if length input \<le> off then sret h
      else if length input - off < 16 then slift (Err ERR_BAD_INPUT)
      else sbind (decrypt_and_hash C h k (drop off input)) (\<lambda>(_, h'). sret h'))"

definition read_static :: "noise_crypto \<Rightarrow> bytes \<Rightarrow> bytes \<Rightarrow> bytes \<Rightarrow> (bytes \<times> bytes) noise" where
  "read_static C h k ct =
     sbind (decrypt_and_hash C h k ct) (\<lambda>(s, h').
       if length s \<noteq> 32 then slift (Err ERR_BAD_INPUT)
       else sbind (ns_mod (\<lambda>st. st\<lparr>ns_remote_static := s\<rparr>)) (\<lambda>_. sret (s, h')))"

definition initiator_recv_e_s :: "noise_crypto \<Rightarrow> bytes option \<Rightarrow> bytes \<Rightarrow> bytes \<Rightarrow> bytes option noise" where
  "initiator_recv_e_s C input ck h = (case input of
     None \<Rightarrow> slift (Err ERR_BAD_INPUT)
   | Some i \<Rightarrow>
       if length i < 80 then slift (Err ERR_BAD_INPUT)
       else (let re = take 32 i; h1 = mix_hash C h re in
         sbind (ns_mod (\<lambda>st. st\<lparr>ns_remote_ephemeral := re\<rparr>)) (\<lambda>_.
         sbind (get_key C ns_send_key) (\<lambda>e_priv.
         sbind (noise_dh C e_priv re) (\<lambda>ee.
         (let (ck1, k1) = mix_key C ck ee in
         sbind (read_static C h1 k1 (take 48 (drop 32 i))) (\<lambda>(s, h2).
         sbind (get_key C ns_send_key) (\<lambda>e_priv'.
         sbind (noise_dh C e_priv' s) (\<lambda>es.
         (let (ck2, k2) = mix_key C ck1 es in
         sbind (read_payload C 80 i h2 k2) (\<lambda>h3.
         sbind (put_send_key C k2) (\<lambda>_.
         sbind (put_chaining C ck2) (\<lambda>_.
         sbind (ns_mod (\<lambda>st. st\<lparr>ns_handshake_hash := h3, ns_step := 2\<rparr>)) (\<lambda>_.
           sret None))))))))))))))"

definition initiator_send_s :: "noise_crypto \<Rightarrow> nat \<Rightarrow> bytes \<Rightarrow> bytes \<Rightarrow> bytes option noise" where
  "initiator_send_s C cap ck h =
     (if cap < 48 then slift (Err ERR_BAD_INPUT)
      else sbind (get_key C ns_send_key) (\<lambda>k.
           sbind (ns_get ns_local_static_pub) (\<lambda>pub.
           sbind (encrypt_and_hash C h k pub) (\<lambda>(ct, h1).
           sbind (get_key C ns_local_static) (\<lambda>s_priv.
           sbind (ns_get ns_remote_ephemeral) (\<lambda>re.
           sbind (noise_dh C s_priv re) (\<lambda>se.
           (let ck1 = fst (mix_key C ck se); (sk, rk) = split_key C ck1 in
           sbind (put_send_key C sk) (\<lambda>_.
           sbind (put_recv_key C rk) (\<lambda>_.
           sbind (put_chaining C ck1) (\<lambda>_.
           sbind (ns_mod (\<lambda>st. st\<lparr>ns_handshake_hash := h1, ns_step := 3, ns_complete := True\<rparr>)) (\<lambda>_.
             sret (Some ct)))))))))))))"

definition responder_recv_e :: "noise_crypto \<Rightarrow> bytes option \<Rightarrow> bytes \<Rightarrow> bytes option noise" where
  "responder_recv_e C input h = (case input of
     None \<Rightarrow> slift (Err ERR_BAD_INPUT)
   | Some i \<Rightarrow>
       if length i < 32 then slift (Err ERR_BAD_INPUT)
       else sbind (ns_mod (\<lambda>st. st\<lparr>ns_remote_ephemeral := take 32 i, ns_handshake_hash := mix_hash C h (take 32 i),
              ns_step := 1\<rparr>)) (\<lambda>_. sret None))"

definition responder_send_e_s :: "noise_crypto \<Rightarrow> nat \<Rightarrow> bytes \<Rightarrow> bytes \<Rightarrow> bytes \<Rightarrow> bytes option noise" where
  "responder_send_e_s C cap e_priv ck h =
     (if cap < 80 then slift (Err ERR_BAD_INPUT)
      else sbind (slift (ok_or ERR_INTERNAL (nz_scalarmult_base C e_priv))) (\<lambda>e_pub.
           sbind (ns_mod (\<lambda>st. st\<lparr>ns_local_ephemeral := e_pub\<rparr>)) (\<lambda>_.
           sbind (put_recv_key C e_priv) (\<lambda>_.
           (let h1 = mix_hash C h e_pub in
           sbind (get_key C ns_recv_key) (\<lambda>rk.
           sbind (ns_get ns_remote_ephemeral) (\<lambda>re.
           sbind (noise_dh C rk re) (\<lambda>ee.
           (let (ck1, k1) = mix_key C ck ee in
           sbind (ns_get ns_local_static_pub) (\<lambda>pub.
           sbind (encrypt_and_hash C h1 k1 pub) (\<lambda>(ct, h2).
           sbind (get_key C ns_local_static) (\<lambda>s_priv.
           sbind (noise_dh C s_priv re) (\<lambda>es.
           (let (ck2, k2) = mix_key C ck1 es in
           sbind (put_send_key C k2) (\<lambda>_.
           sbind (put_chaining C ck2) (\<lambda>_.
           sbind (ns_mod (\<lambda>st. st\<lparr>ns_handshake_hash := h2, ns_step := 2\<rparr>)) (\<lambda>_.
             sret (Some (e_pub @ ct)))))))))))))))))) )"

definition responder_recv_s :: "noise_crypto \<Rightarrow> bytes option \<Rightarrow> bytes \<Rightarrow> bytes \<Rightarrow> bytes option noise" where
  "responder_recv_s C input ck h = (case input of
     None \<Rightarrow> slift (Err ERR_BAD_INPUT)
   | Some i \<Rightarrow>
       if length i < 48 then slift (Err ERR_BAD_INPUT)
       else
         sbind (get_key C ns_send_key) (\<lambda>k.
         sbind (read_static C h k (take 48 i)) (\<lambda>(s, h1).
         sbind (get_key C ns_recv_key) (\<lambda>e_priv.
         sbind (noise_dh C e_priv s) (\<lambda>se.
         (let (ck1, k1) = mix_key C ck se in
         sbind (read_payload C 48 i h1 k1) (\<lambda>h2.
         (let (sk, rk) = split_key C ck1 in
         sbind (put_send_key C rk) (\<lambda>_.
         sbind (put_recv_key C sk) (\<lambda>_.
         sbind (put_chaining C ck1) (\<lambda>_.
         sbind (ns_mod (\<lambda>st. st\<lparr>ns_handshake_hash := h2, ns_step := 3, ns_complete := True\<rparr>)) (\<lambda>_.
           sret None))))))))))))"

definition noise_step :: "noise_crypto \<Rightarrow> nat \<Rightarrow> bytes \<Rightarrow> bytes option \<Rightarrow> bytes option noise" where
  "noise_step C cap e_priv input =
     sbind (ns_get (\<lambda>st. st)) (\<lambda>st.
       if ns_complete st then slift (Err ERR_BAD_INPUT)
       else sbind (get_key C ns_chaining_key) (\<lambda>ck.
         (let h = ns_handshake_hash st in
          if ns_is_initiator st
          then (if ns_step st = 0 then initiator_send_e C cap e_priv h
                else if ns_step st = 1 then initiator_recv_e_s C input ck h
                else if ns_step st = 2 then initiator_send_s C cap ck h
                else slift (Err ERR_BAD_INPUT))
          else (if ns_step st = 0 then responder_recv_e C input h
                else if ns_step st = 1 then responder_send_e_s C cap e_priv ck h
                else if ns_step st = 2 then responder_recv_s C input ck h
                else slift (Err ERR_BAD_INPUT)))))"

subsection \<open>Transport\<close>

definition noise_core_send :: "noise_crypto \<Rightarrow> bytes \<Rightarrow> bytes noise" where
  "noise_core_send C plaintext =
     sbind (ns_get ns_complete) (\<lambda>complete.
       if \<not> complete then slift (Err ERR_BAD_INPUT)
       else sbind (get_key C ns_send_key) (\<lambda>sk.
         sbind (ns_get ns_send_nonce) (\<lambda>n. case ae_enc C sk n [] plaintext of
           None \<Rightarrow> slift (Err ERR_INTERNAL)
         | Some (ct, n') \<Rightarrow> sbind (ns_mod (\<lambda>st. st\<lparr>ns_send_nonce := n'\<rparr>)) (\<lambda>_. sret ct))))"

definition noise_core_recv :: "noise_crypto \<Rightarrow> bytes \<Rightarrow> bytes noise" where
  "noise_core_recv C ciphertext =
     sbind (ns_get ns_complete) (\<lambda>complete.
       if \<not> complete \<or> length ciphertext < 16 then slift (Err ERR_BAD_INPUT)
       else sbind (get_key C ns_recv_key) (\<lambda>rk.
         sbind (ns_get ns_recv_nonce) (\<lambda>n. case ae_dec C rk n [] ciphertext of
           None \<Rightarrow> slift (Err ERR_BAD_SIG)
         | Some (pt, n') \<Rightarrow> sbind (ns_mod (\<lambda>st. st\<lparr>ns_recv_nonce := n'\<rparr>)) (\<lambda>_. sret pt))))"

end
