(* ===== verification/Noise_Session.thy ===== *)
theory Noise_Session
  imports Noise Server_Dispatch Client_Ops
begin

section \<open>Noise sessions over a connection\<close>

text \<open>
  Models \<^verbatim>\<open>core-engine/src/noise.rs\<close>, the client's exchange of \<^verbatim>\<open>foretias-client/src/noise_ptp.rs\<close> and
  the server's \<^verbatim>\<open>handle_connection\<close> (\<^verbatim>\<open>server/mod.rs\<close>). The two directions of a connection are the
  bytes that are still to be read, after which reading fails, and the bytes that were written;
  writing fails if the connection is broken.
\<close>

definition NOISE_MAX_MSG :: nat where "NOISE_MAX_MSG = 65535"
definition HANDSHAKE_MAX :: nat where "HANDSHAKE_MAX = 128"

subsection \<open>Sessions\<close>

definition core_error :: "int \<Rightarrow> crypto_error" where
  "core_error rc = (case c_result_to_error rc of Err e \<Rightarrow> e | _ \<Rightarrow> CryptoInternal rc)"

type_synonym session = "noise_state \<times> process_state"

definition on_core :: "'a noise \<Rightarrow> (session, 'a, crypto_error) stateful" where
  "on_core m s = (case m s of (r, s') \<Rightarrow> (rmap_err core_error r, s'))"

definition session_new ::
    "noise_crypto \<Rightarrow> bytes \<Rightarrow> bytes \<Rightarrow> bytes option \<Rightarrow> bool \<Rightarrow> (process_state, noise_state, crypto_error) stateful" where
  "session_new C beyond static_priv their_static_pub is_initiator p =
     (case noise_init_ed25519 C beyond static_priv their_static_pub is_initiator (noise_zero, p) of
        (Ok _, (st, p')) \<Rightarrow> (Ok st, p')
      | (Err rc, (_, p')) \<Rightarrow> (Err (core_error rc), p')
      | (Panic, (_, p')) \<Rightarrow> (Panic, p'))"

definition session_new_with_handle ::
    "noise_crypto \<Rightarrow> bytes \<Rightarrow> (bytes, int) result \<Rightarrow> bytes option \<Rightarrow> bool \<Rightarrow> (process_state, noise_state, crypto_error) stateful" where
  "session_new_with_handle C beyond ed_seed their_static_pub is_initiator p =
     (case noise_init_with_handle C beyond ed_seed their_static_pub is_initiator (noise_zero, p) of
        (Ok _, (st, p')) \<Rightarrow> (Ok st, p')
      | (Err rc, (_, p')) \<Rightarrow> (Err (core_error rc), p')
      | (Panic, (_, p')) \<Rightarrow> (Panic, p'))"

text \<open>A step that only reads returns its whole buffer, which is still zero.\<close>

definition session_step :: "noise_crypto \<Rightarrow> bytes \<Rightarrow> bytes option \<Rightarrow> (session, bytes, crypto_error) stateful" where
  "session_step C e_priv input =
     sbind (on_core (noise_step C HANDSHAKE_MAX e_priv input)) (\<lambda>written.
       sret (case written of Some b \<Rightarrow> b | None \<Rightarrow> replicate HANDSHAKE_MAX 0))"

definition session_send :: "noise_crypto \<Rightarrow> bytes \<Rightarrow> (session, bytes, crypto_error) stateful" where
  "session_send C plaintext = on_core (noise_core_send C plaintext)"

definition session_recv :: "noise_crypto \<Rightarrow> bytes \<Rightarrow> (session, bytes, crypto_error) stateful" where
  "session_recv C ciphertext = on_core (noise_core_recv C ciphertext)"

definition remote_static_pub :: "noise_state \<Rightarrow> bytes option" where
  "remote_static_pub st =
     (if ns_complete st \<and> (\<exists>b \<in> set (ns_remote_static st). b \<noteq> 0) then Some (ns_remote_static st) else None)"

subsection \<open>Streams and frames\<close>

record noise_stream =
  nst_in :: bytes
  nst_out :: bytes
  nst_eof :: string
  nst_broken :: "string option"

definition stream_write :: "bytes \<Rightarrow> (noise_stream, unit, string) stateful" where
  "stream_write bs s = (case nst_broken s of
     Some e \<Rightarrow> (Err e, s) | None \<Rightarrow> (Ok (), s\<lparr>nst_out := nst_out s @ bs\<rparr>))"

definition stream_read :: "nat \<Rightarrow> (noise_stream, bytes, string) stateful" where
  "stream_read n s =
     (if length (nst_in s) < n then (Err (nst_eof s), s\<lparr>nst_in := []\<rparr>)
      else (Ok (take n (nst_in s)), s\<lparr>nst_in := drop n (nst_in s)\<rparr>))"

definition u32_to_le_bytes :: "u32 \<Rightarrow> bytes" where
  "u32_to_le_bytes w = rev (u32_to_be_bytes w)"

definition u32_from_le_bytes :: "bytes \<Rightarrow> u32" where
  "u32_from_le_bytes bs = u32_from_be_bytes (rev bs)"

definition write_len :: "bytes \<Rightarrow> (noise_stream, unit, crypto_error) stateful" where
  "write_len msg =
     sbind (smap_err IoWrite (stream_write (u32_to_le_bytes (word_of_nat (length msg))))) (\<lambda>_.
       smap_err IoWrite (stream_write msg))"

definition read_len :: "(noise_stream, bytes, crypto_error) stateful" where
  "read_len =
     sbind (smap_err IoRead (stream_read 4)) (\<lambda>len_buf.
       (let len = unat (u32_from_le_bytes len_buf) in
        if NOISE_MAX_MSG < len then slift (Err (BadInput ''message exceeds maximum size''))
        else smap_err IoRead (stream_read len)))"

subsection \<open>Handshake\<close>

type_synonym 'a connection = "(session \<times> noise_stream, 'a, crypto_error) stateful"

definition on_session :: "(session, 'a, 'e) stateful \<Rightarrow> (session \<times> noise_stream, 'a, 'e) stateful" where
  "on_session m = (\<lambda>(s, io). case m s of (r, s') \<Rightarrow> (r, (s', io)))"

definition on_stream :: "(noise_stream, 'a, 'e) stateful \<Rightarrow> (session \<times> noise_stream, 'a, 'e) stateful" where
  "on_stream m = (\<lambda>(s, io). case m io of (r, io') \<Rightarrow> (r, (s, io')))"

definition handshake_steps :: "noise_crypto \<Rightarrow> bytes \<Rightarrow> bool \<Rightarrow> unit connection" where
  "handshake_steps C e_priv is_initiator =
     sbind (if is_initiator
       then sbind (on_session (session_step C e_priv None)) (\<lambda>e_out.
            sbind (on_stream (write_len e_out)) (\<lambda>_.
            sbind (on_stream read_len) (\<lambda>e2.
            sbind (on_session (session_step C e_priv (Some e2))) (\<lambda>_.
            sbind (on_session (session_step C e_priv None)) (\<lambda>e3.
              on_stream (write_len e3))))))
       else sbind (on_stream read_len) (\<lambda>e1.
            sbind (on_session (session_step C e_priv (Some e1))) (\<lambda>_.
            sbind (on_session (session_step C e_priv None)) (\<lambda>e2.
            sbind (on_stream (write_len e2)) (\<lambda>_.
            sbind (on_stream read_len) (\<lambda>e3.
            sbind (on_session (session_step C e_priv (Some e3))) (\<lambda>_. sret ())))))))
       (\<lambda>_. sbind (sget (\<lambda>((st, p), io). ns_complete st)) (\<lambda>complete.
         if complete then sret () else slift (Err (BadInput ''noise handshake incomplete''))))"

definition with_new_session ::
    "(process_state, noise_state, crypto_error) stateful \<Rightarrow> unit connection \<Rightarrow>
     (process_state \<times> noise_stream, noise_state, crypto_error) stateful" where
  "with_new_session new steps = (\<lambda>(p, io). case new p of
     (Ok st, p') \<Rightarrow> (case steps ((st, p'), io) of (r, ((st', p''), io')) \<Rightarrow> (rbind r (\<lambda>_. Ok st'), (p'', io')))
   | (Err e, p') \<Rightarrow> (Err e, (p', io))
   | (Panic, p') \<Rightarrow> (Panic, (p', io)))"

definition noise_handshake ::
    "noise_crypto \<Rightarrow> bytes \<Rightarrow> bytes \<Rightarrow> bytes \<Rightarrow> bytes option \<Rightarrow> bool \<Rightarrow>
     (process_state \<times> noise_stream, noise_state, crypto_error) stateful" where
  "noise_handshake C beyond e_priv static_priv their_static_pub is_initiator =
     with_new_session (session_new C beyond static_priv their_static_pub is_initiator)
       (handshake_steps C e_priv is_initiator)"

definition noise_handshake_with_handle ::
    "noise_crypto \<Rightarrow> bytes \<Rightarrow> bytes \<Rightarrow> (bytes, int) result \<Rightarrow> bytes option \<Rightarrow> bool \<Rightarrow>
     (process_state \<times> noise_stream, noise_state, crypto_error) stateful" where
  "noise_handshake_with_handle C beyond e_priv ed_seed their_static_pub is_initiator =
     with_new_session (session_new_with_handle C beyond ed_seed their_static_pub is_initiator)
       (handshake_steps C e_priv is_initiator)"

subsection \<open>Messages\<close>

definition noise_send :: "noise_crypto \<Rightarrow> bytes \<Rightarrow> unit connection" where
  "noise_send C plaintext =
     sbind (on_session (session_send C plaintext)) (\<lambda>ct.
     sbind (on_stream (smap_err (\<lambda>e. IoWrite (''length prefix: '' @ e))
       (stream_write (u32_to_le_bytes (word_of_nat (length ct)))))) (\<lambda>_.
       on_stream (smap_err (\<lambda>e. IoWrite (''ciphertext write: '' @ e)) (stream_write ct))))"

text \<open>The length that the peer sends is allocated as it is.\<close>

definition noise_recv :: "noise_crypto \<Rightarrow> bytes connection" where
  "noise_recv C =
     sbind (on_stream (smap_err (\<lambda>e. IoRead (''length prefix: '' @ e)) (stream_read 4))) (\<lambda>len_buf.
     sbind (on_stream (smap_err (\<lambda>e. IoRead (''ciphertext read: '' @ e))
       (stream_read (unat (u32_from_le_bytes len_buf))))) (\<lambda>ct.
       on_session (session_recv C ct)))"

subsection \<open>A client's call\<close>

text \<open>
  What the client draws and finds for one call: the connection, or why there is none, its fresh
  key pair and ephemeral key. JSON is printed and parsed by \<open>to_string\<close> and \<open>from_slice\<close>.
\<close>

record ptp_inputs =
  ptc_connect :: "(noise_stream, string) result"
  ptc_keypair :: "(bytes \<times> bytes, crypto_error) result"
  ptc_e_priv :: bytes
  ptc_to_string :: "json \<Rightarrow> (bytes, string) result"
  ptc_from_slice :: "bytes \<Rightarrow> (json, string) result"

definition noise_exchange ::
    "noise_crypto \<Rightarrow> bytes \<Rightarrow> (crypto_error \<Rightarrow> string) \<Rightarrow> ptp_inputs \<Rightarrow> json \<Rightarrow>
     process_state \<Rightarrow> (json, ptp_error) result \<times> process_state \<times> noise_stream option" where
  "noise_exchange C beyond show_crypto i request p =
     (case (rmap_err PtDecode (ptc_to_string i request), rmap_err PtConnect (ptc_connect i),
            rmap_err (\<lambda>e. PtConnect (show_crypto e)) (ptc_keypair i)) of
        (Err e, _, _) \<Rightarrow> (Err e, p, None)
      | (_, Err e, _) \<Rightarrow> (Err e, p, None)
      | (_, Ok io, Err e) \<Rightarrow> (Err e, p, Some io)
      | (Ok request_bytes, Ok io, Ok (_, priv)) \<Rightarrow>
          (case noise_handshake C beyond (ptc_e_priv i) priv None True (p, io) of
             (Ok st, (p', io')) \<Rightarrow>
               (case sbind (smap_err (\<lambda>e. PtNoise (show_crypto e)) (on_session (session_send C request_bytes))) (\<lambda>ct.
                     sbind (smap_err PtConnect (on_stream (stream_write (u32_to_le_bytes (word_of_nat (length ct)))))) (\<lambda>_.
                     sbind (smap_err PtConnect (on_stream (stream_write ct))) (\<lambda>_.
                     sbind (smap_err PtConnect (on_stream (stream_read 4))) (\<lambda>len_buf.
                     sbind (smap_err PtConnect (on_stream (stream_read (unat (u32_from_le_bytes len_buf))))) (\<lambda>resp.
                     sbind (smap_err (\<lambda>e. PtDecode (show_crypto e)) (on_session (session_recv C resp))) (\<lambda>plaintext.
                       slift (rmap_err PtDecode (ptc_from_slice i plaintext)))))))) ((st, p'), io') of
                  (r, ((_, p''), io'')) \<Rightarrow> (r, p'', Some io''))
           | (Err e, (p', io')) \<Rightarrow> (Err (PtNoise (show_crypto e)), p', Some io')
           | (Panic, (p', io')) \<Rightarrow> (Panic, p', Some io'))
      | (_, _, _) \<Rightarrow> (Panic, p, None))"

section \<open>A connection of the server\<close>

text \<open>
  Models \<^verbatim>\<open>handle_connection\<close> and its frames in \<^verbatim>\<open>foretias-server/src/server/mod.rs\<close>. The loop ends
  because each turn takes a frame from what the peer still sends. What a request reads of the
  world is \<open>inps\<close>, by the number of the request on the connection.
\<close>

definition MAX_REQUEST_LINE_BYTES :: nat where "MAX_REQUEST_LINE_BYTES = 8 * 1024 * 1024"

definition read_request_frame :: "(noise_stream, bytes, node_error) stateful" where
  "read_request_frame =
     sbind (smap_err Io (stream_read 4)) (\<lambda>len_buf.
       (let len = unat (u32_from_le_bytes len_buf) in
        if MAX_REQUEST_LINE_BYTES + 65535 < len then slift (Err (Internal ''oversized message''))
        else smap_err Io (stream_read len)))"

definition write_response_frame :: "bytes \<Rightarrow> (noise_stream, unit, node_error) stateful" where
  "write_response_frame data =
     sbind (smap_err Io (stream_write (u32_to_le_bytes (word_of_nat (length data))))) (\<lambda>_.
       smap_err Io (stream_write data))"

text \<open>The strings of a connection: \<^verbatim>\<open>String::from_utf8\<close> and the JSON parser and printer.\<close>

record line_codec =
  lc_from_utf8 :: "bytes \<Rightarrow> (string, string) result"
  lc_from_str :: "string \<Rightarrow> (json, string) result"
  lc_to_string :: "json \<Rightarrow> (bytes, string) result"

text \<open>
  One turn: a request and its response. The error is \<open>None\<close> where the loop is left by \<^verbatim>\<open>break\<close>.
\<close>

type_synonym 'k connection_state = "(session \<times> noise_stream) \<times> 'k time_family_server"

definition on_connection :: "(session \<times> noise_stream, 'a, 'e) stateful \<Rightarrow> ('k connection_state, 'a, 'e) stateful" where
  "on_connection m = (\<lambda>(c, server). case m c of (r, c') \<Rightarrow> (r, (c', server)))"

definition on_server :: "('k time_family_server, 'a, 'e) stateful \<Rightarrow> ('k connection_state, 'a, 'e) stateful" where
  "on_server m = (\<lambda>(c, server). case m server of (r, server') \<Rightarrow> (r, (c, server')))"

definition serve_line ::
    "noise_crypto \<Rightarrow> line_codec \<Rightarrow> ('k, 's) node_env \<Rightarrow> 'k call_inputs \<Rightarrow> bytes \<Rightarrow>
     ('k connection_state, unit, node_error option) stateful" where
  "serve_line C W E inp ciphertext =
     sbind (on_connection (on_session (smap_err (\<lambda>_. None) (session_recv C ciphertext)))) (\<lambda>plaintext.
     sbind (slift (rmap_err (\<lambda>_. None) (lc_from_utf8 W plaintext))) (\<lambda>line.
       if MAX_REQUEST_LINE_BYTES < length plaintext then slift (Err None)
       else
         sbind (on_server (smap_err Some (connection_request (lc_from_str W) E inp line))) (\<lambda>response.
         sbind (slift (rmap_err (\<lambda>e. Some (Serialization e)) (lc_to_string W (response_json response)))) (\<lambda>response_line.
         sbind (on_connection (on_session (smap_err (\<lambda>_. None) (session_send C response_line)))) (\<lambda>ct.
           on_connection (on_stream (smap_err Some (write_response_frame ct))))))))"

lemma stream_read_shrinks:
  "stream_read n io = (Ok bs, io') \<Longrightarrow> length (nst_in io) = length (nst_in io') + n"
  by (auto simp: stream_read_def split: if_splits)

lemma read_request_frame_shrinks:
  "read_request_frame io = (Ok ct, io') \<Longrightarrow> length (nst_in io') < length (nst_in io)"
  by (auto simp: read_request_frame_def Let_def smap_err_def slift_def sbind_eq_Ok rmap_err_eq_Ok
    dest!: stream_read_shrinks split: if_splits prod.splits)

lemma stream_write_in: "nst_in (snd (stream_write bs io)) = nst_in io"
  by (auto simp: stream_write_def split: option.splits)

lemma serve_line_in:
  "serve_line C W E inp ct ((ses, io), server) = (Ok (), ((ses', io'), server')) \<Longrightarrow> nst_in io' = nst_in io"
  using stream_write_in
  by (auto simp: serve_line_def sbind_eq_Ok slift_def on_connection_def on_session_def on_server_def on_stream_def
    write_response_frame_def smap_err_def rmap_err_eq_Ok split: if_splits prod.splits) (metis snd_conv)+

function serve_requests ::
    "noise_crypto \<Rightarrow> line_codec \<Rightarrow> ('k, 's) node_env \<Rightarrow> (nat \<Rightarrow> 'k call_inputs) \<Rightarrow> nat \<Rightarrow> 'k connection_state \<Rightarrow>
     (unit, node_error) result \<times> 'k connection_state" where
  "serve_requests C W E inps n ((ses, io), server) = (case read_request_frame io of
     (Err e, io') \<Rightarrow> (Err e, ((ses, io'), server))
   | (Panic, io') \<Rightarrow> (Panic, ((ses, io'), server))
   | (Ok ct, io') \<Rightarrow>
       (case serve_line C W E (inps n) ct ((ses, io'), server) of
          (Ok _, ((ses', io''), server')) \<Rightarrow> serve_requests C W E inps (n + 1) ((ses', io''), server')
        | (Err None, s') \<Rightarrow> (Ok (), s')
        | (Err (Some e), s') \<Rightarrow> (Err e, s')
        | (Panic, s') \<Rightarrow> (Panic, s')))"
  by pat_completeness auto
termination
  by (relation "measure (\<lambda>(_, _, _, _, _, ((_, io), _)). length (nst_in io))")
    (auto dest!: read_request_frame_shrinks [OF sym] serve_line_in [OF sym])

declare serve_requests.simps [simp del]

definition handle_connection ::
    "noise_crypto \<Rightarrow> bytes \<Rightarrow> line_codec \<Rightarrow> ('k, 's) node_env \<Rightarrow> bytes \<Rightarrow> (nat \<Rightarrow> 'k call_inputs) \<Rightarrow>
     process_state \<times> noise_stream \<Rightarrow> 'k time_family_server \<Rightarrow>
     (unit, node_error) result \<times> (process_state \<times> noise_stream) \<times> 'k time_family_server" where
  "handle_connection C beyond W E e_priv inps = (\<lambda>(p, io) server.
     (case noise_handshake C beyond e_priv (sv_noise_static_priv server) None False (p, io) of
        (Ok st, (p', io')) \<Rightarrow>
          (case serve_requests C W E inps 0 (((st, p'), io'), server) of
             (r, (((_, p''), io''), server')) \<Rightarrow> (r, (p'', io''), server'))
      | (Err _, pio) \<Rightarrow> (Err (Internal ''noise handshake failed''), pio, server)
      | (Panic, pio) \<Rightarrow> (Panic, pio, server)))"

end
