(* ===== verification/Noise_Channel.thy ===== *)
theory Noise_Channel
  imports Noise_Session Swarm_Props
begin

section \<open>Two honest ends of a Noise channel\<close>

subsection \<open>What libsodium promises\<close>

definition noise_crypto_ok :: "noise_crypto \<Rightarrow> bool" where
  "noise_crypto_ok C \<longleftrightarrow> nz_sodium_init C \<and>
     (\<forall>k n ad pt. nz_decrypt C k n ad (nz_encrypt C k n ad pt) = Some pt \<and> length (nz_encrypt C k n ad pt) = length pt + 16) \<and>
     (\<forall>k n pt. nz_secretbox_open C k n (nz_secretbox C k n pt) = Some pt \<and> length (nz_secretbox C k n pt) = length pt + 16) \<and>
     (\<forall>a. \<exists>A. nz_scalarmult_base C a = Some A \<and> length A = 32) \<and>
     (\<forall>a A b B. nz_scalarmult_base C a = Some A \<longrightarrow> nz_scalarmult_base C b = Some B \<longrightarrow>
        (\<exists>d. nz_scalarmult C a B = Some d \<and> nz_scalarmult C b A = Some d))"

named_theorems noise_simps

lemma crypto_ok [noise_simps]:
  assumes "noise_crypto_ok C"
  shows "nz_decrypt C k n ad (nz_encrypt C k n ad pt) = Some pt" "length (nz_encrypt C k n ad pt) = length pt + 16"
    "nz_secretbox_open C k n (nz_secretbox C k n pt) = Some pt" "length (nz_secretbox C k n pt) = length pt + 16" "nz_sodium_init C"
  using assms by (simp_all add: noise_crypto_ok_def)

lemma crypto_base:
  assumes "noise_crypto_ok C"
  obtains A where "nz_scalarmult_base C a = Some A" and "length A = 32"
  using assms unfolding noise_crypto_ok_def by blast

lemma crypto_dh:
  assumes "noise_crypto_ok C" and "nz_scalarmult_base C a = Some A" and "nz_scalarmult_base C b = Some B"
  obtains d where "nz_scalarmult C a B = Some d" and "nz_scalarmult C b A = Some d"
  using assms unfolding noise_crypto_ok_def by blast

subsection \<open>Sealed fields\<close>

definition holds :: "noise_crypto \<Rightarrow> bytes \<Rightarrow> sealed \<Rightarrow> bytes \<Rightarrow> bool" where
  "holds C kek s v \<longleftrightarrow> (\<exists>n. s = (nz_secretbox C kek n v, n))"

lemma get_key_holds [noise_simps]:
  "noise_crypto_ok C \<Longrightarrow> pk_kek p = Some kek \<Longrightarrow> holds C kek (sel st) v \<Longrightarrow> get_key C sel (st, p) = (Ok v, (st, p))"
  by (auto simp: get_key_def privkey_decrypt_def holds_def noise_simps ok_or_def)

definition sealed_in :: "noise_crypto \<Rightarrow> bytes \<Rightarrow> process_state \<Rightarrow> bytes \<Rightarrow> sealed" where
  "sealed_in C kek p v = (nz_secretbox C kek (derive_nonce C (pk_counter p + 1)) v, derive_nonce C (pk_counter p + 1))"

lemma holds_sealed [simp]: "holds C kek (sealed_in C kek p v) v"
  by (auto simp: holds_def sealed_in_def)

abbreviation counted :: "process_state \<Rightarrow> process_state" where
  "counted p \<equiv> p\<lparr>pk_counter := pk_counter p + 1\<rparr>"

lemma put_key_ok:
  "pk_kek p = Some kek \<Longrightarrow> put_key C upd v (st, p) = (Ok (), (upd (sealed_in C kek p v) st, counted p))"
  by (simp add: put_key_def privkey_encrypt_def sealed_in_def Let_def)

lemmas put_keys [noise_simps] =
  put_key_ok [where upd = "\<lambda>s st. st\<lparr>ns_chaining_key := s\<rparr>", folded put_chaining_def]
  put_key_ok [where upd = "\<lambda>s st. st\<lparr>ns_local_static := s\<rparr>", folded put_local_static_def]
  put_key_ok [where upd = "\<lambda>s st. st\<lparr>ns_send_key := s\<rparr>", folded put_send_key_def]
  put_key_ok [where upd = "\<lambda>s st. st\<lparr>ns_recv_key := s\<rparr>", folded put_recv_key_def]

lemma ns_get_bind [simp]: "sbind (ns_get f) g (st, p) = g (f st) (st, p)"
  by (simp add: ns_get_def)

lemma ns_mod_bind [simp]: "sbind (ns_mod f) g (st, p) = g () (f st, p)"
  by (simp add: ns_mod_def)

lemma noise_dh_ok: "nz_scalarmult C a B = Some d \<Longrightarrow> sbind (noise_dh C a B) g s = g d s"
  by (simp add: noise_dh_def ok_or_def)

lemma encrypt_and_hash_ok:
  "ns_send_nonce st \<noteq> - 1 \<Longrightarrow> sbind (encrypt_and_hash C h k pt) g (st, p) =
     g (nz_encrypt C k (nonce_bytes (ns_send_nonce st)) h pt, mix_hash C h (nz_encrypt C k (nonce_bytes (ns_send_nonce st)) h pt))
       (st\<lparr>ns_send_nonce := ns_send_nonce st + 1\<rparr>, p)"
  by (simp add: sbind_def [of "encrypt_and_hash C h k pt"] encrypt_and_hash_def ae_enc_def) (simp add: sret_def)

lemma decrypt_and_hash_ok:
  assumes "noise_crypto_ok C" and "ns_recv_nonce st \<noteq> - 1"
    and "ct = nz_encrypt C k (nonce_bytes (ns_recv_nonce st)) h pt"
  shows "decrypt_and_hash C h k ct (st, p) = (Ok (pt, mix_hash C h ct), (st\<lparr>ns_recv_nonce := ns_recv_nonce st + 1\<rparr>, p))"
  using assms(2,3) crypto_ok(1) [OF assms(1)] by (simp add: decrypt_and_hash_def ae_dec_def sret_def)

lemma read_static_ok:
  assumes "noise_crypto_ok C" and "ns_recv_nonce st \<noteq> - 1" and "length pub = 32"
    and "ct = nz_encrypt C k (nonce_bytes (ns_recv_nonce st)) h pub"
  shows "sbind (read_static C h k ct) g (st, p) =
    g (pub, mix_hash C h ct) (st\<lparr>ns_recv_nonce := ns_recv_nonce st + 1, ns_remote_static := pub\<rparr>, p)"
  using assms(3) decrypt_and_hash_ok [OF assms(1,2,4), of p] by (simp add: read_static_def sbind_def ns_mod_def smod_def sret_def)

lemma read_payload_none: "length i \<le> off \<Longrightarrow> sbind (read_payload C off i h k) g s = g h s"
  by (simp add: read_payload_def)

subsection \<open>The six steps\<close>

text \<open>A session at a step of its handshake, with the chaining key and hash so far.\<close>

definition at_step :: "noise_crypto \<Rightarrow> bytes \<Rightarrow> bool \<Rightarrow> int \<Rightarrow> bytes \<Rightarrow> bytes \<Rightarrow> noise_state \<Rightarrow> bool" where
  "at_step C kek init n ck h st \<longleftrightarrow> \<not> ns_complete st \<and> ns_is_initiator st = init \<and> ns_step st = n \<and>
     holds C kek (ns_chaining_key st) ck \<and> ns_handshake_hash st = h"

lemma noise_step_at:
  assumes "noise_crypto_ok C" and "pk_kek p = Some kek" and "at_step C kek init n ck h st"
  shows "noise_step C cap e input (st, p) =
    (if init then (if n = 0 then initiator_send_e C cap e h else if n = 1 then initiator_recv_e_s C input ck h
        else if n = 2 then initiator_send_s C cap ck h else slift (Err ERR_BAD_INPUT))
      else (if n = 0 then responder_recv_e C input h else if n = 1 then responder_send_e_s C cap e ck h
        else if n = 2 then responder_recv_s C input ck h else slift (Err ERR_BAD_INPUT))) (st, p)"
  using assms get_key_holds [OF assms(1,2), where sel = ns_chaining_key and st = st and v = ck] by (simp add: noise_step_def at_step_def Let_def)

lemma step_send_e:
  assumes ok: "noise_crypto_ok C" "pk_kek p = Some kek" and st: "at_step C kek True 0 ck h st"
    and "nz_scalarmult_base C e = Some E" and "32 \<le> cap"
  shows "noise_step C cap e input (st, p) = (Ok (Some E),
    (st\<lparr>ns_local_ephemeral := E, ns_send_key := sealed_in C kek p e, ns_handshake_hash := mix_hash C h E, ns_step := 1\<rparr>, counted p))"
  using assms noise_step_at [OF ok st] by (simp add: initiator_send_e_def ok_or_def put_keys sret_def)

lemma step_recv_e:
  assumes ok: "noise_crypto_ok C" "pk_kek p = Some kek" and st: "at_step C kek False 0 ck h st" and "length E = 32"
  shows "noise_step C cap e (Some E) (st, p) = (Ok None,
    (st\<lparr>ns_remote_ephemeral := E, ns_handshake_hash := mix_hash C h E, ns_step := 1\<rparr>, p))"
  using assms noise_step_at [OF ok st] by (simp add: responder_recv_e_def sret_def)

lemma step_send_e_s:
  assumes ok: "noise_crypto_ok C" "pk_kek p = Some kek" and st: "at_step C kek False 1 ck h st" and "80 \<le> cap"
    and "nz_scalarmult_base C e = Some E" and "nz_scalarmult C e (ns_remote_ephemeral st) = Some ee"
    and "holds C kek (ns_local_static st) s" and "nz_scalarmult C s (ns_remote_ephemeral st) = Some es"
    and "ns_send_nonce st \<noteq> - 1"
    and m: "mix_key C ck ee = (ck1, k1)" "mix_key C ck1 es = (ck2, k2)"
    and ct: "ct = nz_encrypt C k1 (nonce_bytes (ns_send_nonce st)) (mix_hash C h E) (ns_local_static_pub st)"
  shows "noise_step C cap e input (st, p) = (Ok (Some (E @ ct)),
    (st\<lparr>ns_local_ephemeral := E, ns_recv_key := sealed_in C kek p e, ns_send_nonce := ns_send_nonce st + 1,
       ns_send_key := sealed_in C kek (counted p) k2, ns_chaining_key := sealed_in C kek (counted (counted p)) ck2,
       ns_handshake_hash := mix_hash C (mix_hash C h E) ct, ns_step := 2\<rparr>, counted (counted (counted p))))"
proof -
  have recv: "get_key C ns_recv_key (st\<lparr>ns_local_ephemeral := E, ns_recv_key := sealed_in C kek p e\<rparr>, counted p) =
      (Ok e, (st\<lparr>ns_local_ephemeral := E, ns_recv_key := sealed_in C kek p e\<rparr>, counted p))"
    by (rule get_key_holds [OF ok(1), where kek = kek]) (simp_all add: ok(2))
  have static: "get_key C ns_local_static (st', counted p) = (Ok s, (st', counted p))" if "ns_local_static st' = ns_local_static st" for st'
    by (rule get_key_holds [OF ok(1), where kek = kek]) (simp_all add: ok(2) that assms(7))
  show ?thesis
    using assms(4-6,8,9) ok m unfolding noise_step_at [OF ok st] ct
    by (simp add: responder_send_e_s_def ok_or_def put_keys recv static Let_def noise_dh_ok encrypt_and_hash_ok sret_def)
qed

lemma step_recv_e_s:
  assumes ok: "noise_crypto_ok C" "pk_kek p = Some kek" and st: "at_step C kek True 1 ck h st"
    and "length E = 32" and "length S = 32" and e: "holds C kek (ns_send_key st) e"
    and "nz_scalarmult C e E = Some ee" and "nz_scalarmult C e S = Some es" and n: "ns_recv_nonce st \<noteq> - 1"
    and m: "mix_key C ck ee = (ck1, k1)" "mix_key C ck1 es = (ck2, k2)"
    and ct: "ct = nz_encrypt C k1 (nonce_bytes (ns_recv_nonce st)) (mix_hash C h E) S"
  shows "noise_step C cap e' (Some (E @ ct)) (st, p) = (Ok None,
    (st\<lparr>ns_remote_ephemeral := E, ns_recv_nonce := ns_recv_nonce st + 1, ns_remote_static := S,
       ns_send_key := sealed_in C kek p k2, ns_chaining_key := sealed_in C kek (counted p) ck2,
       ns_handshake_hash := mix_hash C (mix_hash C h E) ct, ns_step := 2\<rparr>, counted (counted p)))"
proof -
  have send: "get_key C ns_send_key (st', p) = (Ok e, (st', p))" if "ns_send_key st' = ns_send_key st" for st'
    by (rule get_key_holds [OF ok(1), where kek = kek]) (simp_all add: ok(2) that e)
  have len: "length ct = 48"
    using crypto_ok(2) [OF ok(1)] assms(5) ct by simp
  have read: "sbind (read_static C (mix_hash C h E) k1 ct) g (st', p) =
      g (S, mix_hash C (mix_hash C h E) ct) (st'\<lparr>ns_recv_nonce := ns_recv_nonce st' + 1, ns_remote_static := S\<rparr>, p)"
    if "ns_recv_nonce st' = ns_recv_nonce st" for g st'
    by (rule read_static_ok [OF ok(1)]) (simp_all add: that n assms(5) ct)
  show ?thesis
    using assms(4,7,8) ok m len unfolding noise_step_at [OF ok st]
    by (simp add: initiator_recv_e_s_def put_keys send Let_def noise_dh_ok read read_payload_none sret_def)
qed

lemma step_send_s:
  assumes ok: "noise_crypto_ok C" "pk_kek p = Some kek" and st: "at_step C kek True 2 ck h st" and "48 \<le> cap"
    and k: "holds C kek (ns_send_key st) k" and s: "holds C kek (ns_local_static st) s"
    and "nz_scalarmult C s (ns_remote_ephemeral st) = Some se" and "ns_send_nonce st \<noteq> - 1"
    and m: "ck1 = fst (mix_key C ck se)" "split_key C ck1 = (sk, rk)"
    and ct: "ct = nz_encrypt C k (nonce_bytes (ns_send_nonce st)) h (ns_local_static_pub st)"
  shows "noise_step C cap e input (st, p) = (Ok (Some ct),
    (st\<lparr>ns_send_nonce := ns_send_nonce st + 1, ns_send_key := sealed_in C kek p sk,
       ns_recv_key := sealed_in C kek (counted p) rk, ns_chaining_key := sealed_in C kek (counted (counted p)) ck1,
       ns_handshake_hash := mix_hash C h ct, ns_step := 3, ns_complete := True\<rparr>, counted (counted (counted p))))"
proof -
  have send: "get_key C ns_send_key (st', p) = (Ok k, (st', p))" if "ns_send_key st' = ns_send_key st" for st'
    by (rule get_key_holds [OF ok(1), where kek = kek]) (simp_all add: ok(2) that k)
  have static: "get_key C ns_local_static (st', p) = (Ok s, (st', p))" if "ns_local_static st' = ns_local_static st" for st'
    by (rule get_key_holds [OF ok(1), where kek = kek]) (simp_all add: ok(2) that s)
  show ?thesis
    using assms(4,7,8) ok m unfolding noise_step_at [OF ok st] ct
    by (simp add: initiator_send_s_def put_keys send static Let_def noise_dh_ok encrypt_and_hash_ok sret_def)
qed

lemma step_recv_s:
  assumes ok: "noise_crypto_ok C" "pk_kek p = Some kek" and st: "at_step C kek False 2 ck h st" and "length S = 32"
    and k: "holds C kek (ns_send_key st) k" and e: "holds C kek (ns_recv_key st) e"
    and "nz_scalarmult C e S = Some se" and n: "ns_recv_nonce st \<noteq> - 1"
    and m: "ck1 = fst (mix_key C ck se)" "split_key C ck1 = (sk, rk)"
    and ct: "ct = nz_encrypt C k (nonce_bytes (ns_recv_nonce st)) h S"
  shows "noise_step C cap e' (Some ct) (st, p) = (Ok None,
    (st\<lparr>ns_recv_nonce := ns_recv_nonce st + 1, ns_remote_static := S, ns_send_key := sealed_in C kek p rk,
       ns_recv_key := sealed_in C kek (counted p) sk, ns_chaining_key := sealed_in C kek (counted (counted p)) ck1,
       ns_handshake_hash := mix_hash C h ct, ns_step := 3, ns_complete := True\<rparr>, counted (counted (counted p))))"
proof -
  have send: "get_key C ns_send_key (st', p) = (Ok k, (st', p))" if "ns_send_key st' = ns_send_key st" for st'
    by (rule get_key_holds [OF ok(1), where kek = kek]) (simp_all add: ok(2) that k)
  have recv: "get_key C ns_recv_key (st', p) = (Ok e, (st', p))" if "ns_recv_key st' = ns_recv_key st" for st'
    by (rule get_key_holds [OF ok(1), where kek = kek]) (simp_all add: ok(2) that e)
  have len: "length ct = 48"
    using crypto_ok(2) [OF ok(1)] assms(4) ct by simp
  have read: "sbind (read_static C h k ct) g (st', p) =
      g (S, mix_hash C h ct) (st'\<lparr>ns_recv_nonce := ns_recv_nonce st' + 1, ns_remote_static := S\<rparr>, p)"
    if "ns_recv_nonce st' = ns_recv_nonce st" for g st'
    by (rule read_static_ok [OF ok(1)]) (simp_all add: that n assms(4) ct)
  obtain k1 where "mix_key C ck se = (ck1, k1)"
    using m(1) by (cases "mix_key C ck se") simp
  then show ?thesis
    using assms(4,7) ok m(2) len unfolding noise_step_at [OF ok st]
    by (simp add: responder_recv_s_def put_keys send recv Let_def noise_dh_ok read read_payload_none sret_def)
qed

section \<open>The handshake between two honest ends\<close>

text \<open>
  Both ends of \<open>noise_handshake\<close> over a connection that delivers what they write: each reads the
  messages the other one wrote. They end with the keys of the transport crossed.
\<close>

subsection \<open>Frames\<close>

definition frame_of :: "bytes \<Rightarrow> bytes" where
  "frame_of bs = u32_to_le_bytes (word_of_nat (length bs)) @ bs"

lemma u32_le_length [simp]: "length (u32_to_le_bytes w) = 4"
  by (simp add: u32_to_le_bytes_def u32_to_be_bytes_def)

lemma u32_le_round [simp]: "u32_from_le_bytes (u32_to_le_bytes w) = w"
  by (simp add: u32_from_le_bytes_def u32_to_le_bytes_def)

lemma stream_write_ok [simp]:
  "nst_broken io = None \<Longrightarrow> stream_write bs io = (Ok (), io\<lparr>nst_out := nst_out io @ bs\<rparr>)"
  by (simp add: stream_write_def)

lemma stream_read_ok: "nst_in io = bs @ r \<Longrightarrow> length bs = n \<Longrightarrow> stream_read n io = (Ok bs, io\<lparr>nst_in := r\<rparr>)"
  by (simp add: stream_read_def)

lemma read_frame:
  assumes "nst_in io = frame_of m @ r" and "length m < 2 ^ 32"
  shows "stream_read 4 io = (Ok (u32_to_le_bytes (word_of_nat (length m))), io\<lparr>nst_in := m @ r\<rparr>)"
    and "unat (word_of_nat (length m) :: u32) = length m"
    and "stream_read (length m) (io\<lparr>nst_in := m @ r\<rparr>) = (Ok m, io\<lparr>nst_in := r\<rparr>)"
  using assms by (simp_all add: frame_of_def stream_read_ok unsigned_of_nat take_bit_nat_eq_self)

lemma write_len_ok:
  "nst_broken io = None \<Longrightarrow> write_len m io = (Ok (), io\<lparr>nst_out := nst_out io @ frame_of m\<rparr>)"
  by (simp add: write_len_def smap_err_def sbind_def frame_of_def)

lemma read_len_ok:
  "nst_in io = frame_of m @ r \<Longrightarrow> length m \<le> NOISE_MAX_MSG \<Longrightarrow> read_len io = (Ok m, io\<lparr>nst_in := r\<rparr>)"
  using read_frame [of io m r] by (simp add: read_len_def smap_err_def sbind_def NOISE_MAX_MSG_def Let_def)

subsection \<open>The messages of a handshake\<close>

lemma session_step_ok:
  "noise_step C HANDSHAKE_MAX e input s = (Ok w, s') \<Longrightarrow> session_step C e input s =
     (Ok (case w of Some b \<Rightarrow> b | None \<Rightarrow> replicate HANDSHAKE_MAX 0), s')"
  by (simp add: session_step_def on_core_def sbind_def sret_def)

lemma smap_err_ok: "m s = (Ok a, s') \<Longrightarrow> smap_err f m s = (Ok a, s')"
  by (simp add: smap_err_def)

lemma on_session_ok: "m s = (Ok a, s') \<Longrightarrow> on_session m (s, io) = (Ok a, (s', io))"
  by (simp add: on_session_def)

lemma on_stream_ok: "m io = (Ok a, io') \<Longrightarrow> on_stream m (s, io) = (Ok a, (s, io'))"
  by (simp add: on_stream_def)

lemma on_session_bind: "m s = (Ok a, s') \<Longrightarrow> sbind (on_session m) g (s, io) = g a (s', io)"
  by (simp add: on_session_def sbind_def)

lemma on_stream_bind: "m io = (Ok a, io') \<Longrightarrow> sbind (on_stream m) g (s, io) = g a (s, io')"
  by (simp add: on_stream_def sbind_def)

lemma handshake_end:
  "m s = (Ok (), ((st, p), io)) \<Longrightarrow> ns_complete st \<Longrightarrow>
   sbind m (\<lambda>_. sbind (sget (\<lambda>((st, p), io). ns_complete st)) (\<lambda>complete.
     if complete then sret () else slift (Err e))) s = (Ok (), ((st, p), io))"
  by (simp add: sbind_def sget_def sret_def)

lemma initiator_handshake:
  assumes "noise_step C HANDSHAKE_MAX e None s0 = (Ok (Some m1), s1)"
    and "noise_step C HANDSHAKE_MAX e (Some m2) s1 = (Ok None, s2)"
    and "noise_step C HANDSHAKE_MAX e None s2 = (Ok (Some m3), s3)" and "ns_complete (fst s3)"
    and "nst_in io = frame_of m2 @ r" and "length m2 \<le> NOISE_MAX_MSG" and "nst_broken io = None"
  shows "handshake_steps C e True (s0, io) =
    (Ok (), (s3, io\<lparr>nst_in := r, nst_out := nst_out io @ frame_of m1 @ frame_of m3\<rparr>))"
proof -
  let ?io = "\<lambda>x o'. io\<lparr>nst_in := x, nst_out := o'\<rparr>"
  have "sbind (on_session (session_step C e None)) (\<lambda>e_out. sbind (on_stream (write_len e_out)) (\<lambda>_.
      sbind (on_stream read_len) (\<lambda>e2. sbind (on_session (session_step C e (Some e2))) (\<lambda>_.
      sbind (on_session (session_step C e None)) (\<lambda>e3. on_stream (write_len e3)))))) (s0, io) =
      (Ok (), (s3, ?io r (nst_out io @ frame_of m1 @ frame_of m3)))"
    using assms by (simp add: on_session_bind [OF session_step_ok] on_stream_bind [OF write_len_ok]
      on_stream_bind [OF read_len_ok]) (simp add: on_stream_def write_len_ok)
  then show ?thesis
    using assms(4) by (cases s3) (simp add: handshake_steps_def handshake_end sret_def)
qed

lemma responder_handshake:
  assumes "noise_step C HANDSHAKE_MAX e (Some m1) s0 = (Ok None, s1)"
    and "noise_step C HANDSHAKE_MAX e None s1 = (Ok (Some m2), s2)"
    and "noise_step C HANDSHAKE_MAX e (Some m3) s2 = (Ok None, s3)" and "ns_complete (fst s3)"
    and "nst_in io = frame_of m1 @ frame_of m3 @ r" and "length m1 \<le> NOISE_MAX_MSG" and "length m3 \<le> NOISE_MAX_MSG"
    and "nst_broken io = None"
  shows "handshake_steps C e False (s0, io) =
    (Ok (), (s3, io\<lparr>nst_in := r, nst_out := nst_out io @ frame_of m2\<rparr>))"
proof -
  have "sbind (on_stream read_len) (\<lambda>e1. sbind (on_session (session_step C e (Some e1))) (\<lambda>_.
      sbind (on_session (session_step C e None)) (\<lambda>e2. sbind (on_stream (write_len e2)) (\<lambda>_.
      sbind (on_stream read_len) (\<lambda>e3. sbind (on_session (session_step C e (Some e3))) (\<lambda>_. sret ())))))) (s0, io) =
      (Ok (), (s3, io\<lparr>nst_in := r, nst_out := nst_out io @ frame_of m2\<rparr>))"
    using assms by (simp add: on_session_bind [OF session_step_ok] on_stream_bind [OF write_len_ok]
      on_stream_bind [OF read_len_ok]) (simp add: sret_def)
  then show ?thesis
    using assms(4) by (cases s3) (simp add: handshake_steps_def handshake_end sret_def)
qed

subsection \<open>A new session\<close>

definition static_seed :: "noise_crypto \<Rightarrow> bytes \<Rightarrow> bytes \<Rightarrow> bytes" where
  "static_seed C beyond priv = nz_hmac C (nz_hmac C (static_salt beyond) priv) [1]"

text \<open>A session before its first step, with its static key pair.\<close>

definition fresh :: "noise_crypto \<Rightarrow> bytes \<Rightarrow> bool \<Rightarrow> bytes \<Rightarrow> bytes \<Rightarrow> bytes \<Rightarrow> noise_state \<Rightarrow> bool" where
  "fresh C kek init s S h st \<longleftrightarrow> at_step C kek init 0 h h st \<and> holds C kek (ns_local_static st) s \<and>
     nz_scalarmult_base C s = Some S \<and> ns_local_static_pub st = S \<and> ns_send_nonce st = 0 \<and> ns_recv_nonce st = 0"

lemma session_new_ok:
  assumes "noise_crypto_ok C" and "pk_kek p = Some kek" and "nz_scalarmult_base C (static_seed C beyond priv) = Some S"
  obtains st where "session_new C beyond priv pin init p = (Ok st, counted (counted p))"
    and "fresh C kek init (static_seed C beyond priv) S (initial_hash C) st"
proof -
  let ?p = "counted p" and ?s = "static_seed C beyond priv" and ?h = "initial_hash C"
  let ?st = "noise_zero\<lparr>ns_local_static := sealed_in C kek p ?s, ns_local_static_pub := S,
    ns_remote_static := (case pin of None \<Rightarrow> ns_remote_static noise_zero | Some k \<Rightarrow> k), ns_handshake_hash := ?h,
    ns_chaining_key := sealed_in C kek ?p ?h, ns_step := 0, ns_is_initiator := init, ns_complete := False\<rparr>"
  have set: "ns_mod f (st, q) = (Ok (), (f st, q))" for f st q
    by (simp add: ns_mod_def smod_def)
  have "noise_init_ed25519 C beyond priv pin init (noise_zero, p) = (Ok (), (?st, counted ?p))"
    using assms crypto_ok(5) [OF assms(1)]
    by (cases pin) (simp_all add: noise_init_ed25519_def static_seed_def ok_or_def Let_def put_keys set)
  then have "session_new C beyond priv pin init p = (Ok ?st, counted (counted p))"
    by (simp add: session_new_def)
  moreover have "fresh C kek init ?s S ?h ?st"
    using assms(3) by (simp add: fresh_def at_step_def noise_zero_def)
  ultimately show ?thesis
    by (rule that)
qed

subsection \<open>Crossed keys\<close>

text \<open>Two sessions of one channel: what the one seals, the other can open, in order.\<close>

definition half_link :: "noise_crypto \<Rightarrow> session \<Rightarrow> session \<Rightarrow> bool" where
  "half_link C a b \<longleftrightarrow> (\<exists>ka kb k. pk_kek (snd a) = Some ka \<and> pk_kek (snd b) = Some kb \<and> holds C ka (ns_send_key (fst a)) k \<and>
     holds C kb (ns_recv_key (fst b)) k \<and> ns_send_nonce (fst a) = ns_recv_nonce (fst b))"

definition channel_linked :: "noise_crypto \<Rightarrow> session \<Rightarrow> session \<Rightarrow> bool" where
  "channel_linked C a b \<longleftrightarrow> ns_complete (fst a) \<and> ns_complete (fst b) \<and> half_link C a b \<and> half_link C b a"

lemma channel_linked_sym: "channel_linked C a b \<longleftrightarrow> channel_linked C b a"
  by (auto simp: channel_linked_def)

text \<open>The six steps of two fresh sessions, each reading what the other one wrote.\<close>

lemma honest_steps:
  assumes ok: "noise_crypto_ok C" and pi: "pk_kek pi = Some ki" and pr: "pk_kek pr = Some kr"
    and fi: "fresh C ki True si Si h sti" and fr: "fresh C kr False sr Sr h str"
  obtains m1 m2 m3 i1 i2 i3 r1 r2 r3 where
    "noise_step C HANDSHAKE_MAX ei None (sti, pi) = (Ok (Some m1), i1)"
    "noise_step C HANDSHAKE_MAX er (Some m1) (str, pr) = (Ok None, r1)"
    "noise_step C HANDSHAKE_MAX er None r1 = (Ok (Some m2), r2)"
    "noise_step C HANDSHAKE_MAX ei (Some m2) i1 = (Ok None, i2)"
    "noise_step C HANDSHAKE_MAX ei None i2 = (Ok (Some m3), i3)"
    "noise_step C HANDSHAKE_MAX er (Some m3) r2 = (Ok None, r3)"
    "length m1 = 32" "length m2 = 80" "length m3 = 48" "channel_linked C i3 r3"
    "ns_remote_static (fst i3) = Sr" "ns_remote_static (fst r3) = Si" "ns_send_nonce (fst i3) = 1" "ns_send_nonce (fst r3) = 1"
proof -
  obtain Ei where Ei: "nz_scalarmult_base C ei = Some Ei" "length Ei = 32" by (rule crypto_base [OF ok])
  obtain Er where Er: "nz_scalarmult_base C er = Some Er" "length Er = 32" by (rule crypto_base [OF ok])
  have S: "nz_scalarmult_base C si = Some Si" "nz_scalarmult_base C sr = Some Sr"
    using fi fr by (auto simp: fresh_def)
  then have len: "length Si = 32" "length Sr = 32"
    by (metis crypto_base [OF ok] option.inject)+
  obtain ee where ee: "nz_scalarmult C ei Er = Some ee" "nz_scalarmult C er Ei = Some ee" by (rule crypto_dh [OF ok Ei(1) Er(1)])
  obtain es where es: "nz_scalarmult C ei Sr = Some es" "nz_scalarmult C sr Ei = Some es" by (rule crypto_dh [OF ok Ei(1) S(2)])
  obtain se where se: "nz_scalarmult C si Er = Some se" "nz_scalarmult C er Si = Some se" by (rule crypto_dh [OF ok S(1) Er(1)])
  obtain ck1 k1 where mk1: "mix_key C h ee = (ck1, k1)" by fastforce
  obtain ck2 k2 where mk2: "mix_key C ck1 es = (ck2, k2)" by fastforce
  obtain ck3 where ck3: "ck3 = fst (mix_key C ck2 se)" by blast
  obtain sk rk where split: "split_key C ck3 = (sk, rk)" by fastforce
  define ct where "ct = nz_encrypt C k1 (nonce_bytes 0) (mix_hash C (mix_hash C h Ei) Er) Sr"
  define h2 where "h2 = mix_hash C (mix_hash C (mix_hash C h Ei) Er) ct"
  define m3 where "m3 = nz_encrypt C k2 (nonce_bytes 0) h2 Si"
  let ?h1 = "mix_hash C h Ei"
  let ?i1 = "sti\<lparr>ns_local_ephemeral := Ei, ns_send_key := sealed_in C ki pi ei, ns_handshake_hash := ?h1, ns_step := 1\<rparr>"
  let ?r1 = "str\<lparr>ns_remote_ephemeral := Ei, ns_handshake_hash := ?h1, ns_step := 1\<rparr>"
  let ?r2 = "?r1\<lparr>ns_local_ephemeral := Er, ns_recv_key := sealed_in C kr pr er, ns_send_nonce := ns_send_nonce ?r1 + 1,
    ns_send_key := sealed_in C kr (counted pr) k2, ns_chaining_key := sealed_in C kr (counted (counted pr)) ck2,
    ns_handshake_hash := h2, ns_step := 2\<rparr>"
  let ?i2 = "?i1\<lparr>ns_remote_ephemeral := Er, ns_recv_nonce := ns_recv_nonce ?i1 + 1, ns_remote_static := Sr,
    ns_send_key := sealed_in C ki (counted pi) k2, ns_chaining_key := sealed_in C ki (counted (counted pi)) ck2,
    ns_handshake_hash := h2, ns_step := 2\<rparr>"
  let ?pi2 = "counted (counted (counted pi))" and ?pr2 = "counted (counted (counted pr))"
  let ?i3 = "?i2\<lparr>ns_send_nonce := ns_send_nonce ?i2 + 1, ns_send_key := sealed_in C ki ?pi2 sk,
    ns_recv_key := sealed_in C ki (counted ?pi2) rk, ns_chaining_key := sealed_in C ki (counted (counted ?pi2)) ck3,
    ns_handshake_hash := mix_hash C h2 m3, ns_step := 3, ns_complete := True\<rparr>"
  let ?r3 = "?r2\<lparr>ns_recv_nonce := ns_recv_nonce ?r2 + 1, ns_remote_static := Si, ns_send_key := sealed_in C kr ?pr2 rk,
    ns_recv_key := sealed_in C kr (counted ?pr2) sk, ns_chaining_key := sealed_in C kr (counted (counted ?pr2)) ck3,
    ns_handshake_hash := mix_hash C h2 m3, ns_step := 3, ns_complete := True\<rparr>"
  note f = fi [unfolded fresh_def at_step_def] fr [unfolded fresh_def at_step_def]
  have "noise_step C HANDSHAKE_MAX ei None (sti, pi) = (Ok (Some Ei), (?i1, counted pi))"
    by (rule step_send_e [OF ok pi, where ck = h and h = h]) (use f Ei in \<open>simp_all add: at_step_def HANDSHAKE_MAX_def\<close>)
  moreover have "noise_step C HANDSHAKE_MAX er (Some Ei) (str, pr) = (Ok None, (?r1, pr))"
    by (rule step_recv_e [OF ok pr, where ck = h and h = h]) (use f Ei in \<open>simp_all add: at_step_def\<close>)
  moreover have "noise_step C HANDSHAKE_MAX er None (?r1, pr) = (Ok (Some (Er @ ct)), (?r2, ?pr2))"
    unfolding h2_def
    by (rule step_send_e_s [OF ok pr, where ck = h and h = ?h1 and ee = ee and s = sr and es = es and ?ck1.0 = ck1 and ?k1.0 = k1 and ?ck2.0 = ck2 and ?k2.0 = k2])
      (use f Er ee es mk1 mk2 in \<open>simp_all add: at_step_def HANDSHAKE_MAX_def ct_def\<close>)
  moreover have "noise_step C HANDSHAKE_MAX ei (Some (Er @ ct)) (?i1, counted pi) = (Ok None, (?i2, ?pi2))"
    unfolding h2_def
    by (rule step_recv_e_s [OF ok, where kek = ki and ck = h and h = ?h1 and e = ei and ee = ee and es = es and ?ck1.0 = ck1 and ?k1.0 = k1 and ?ck2.0 = ck2 and ?k2.0 = k2])
      (use f pi Er ee es mk1 mk2 len in \<open>simp_all add: at_step_def ct_def\<close>)
  moreover have "noise_step C HANDSHAKE_MAX ei None (?i2, ?pi2) = (Ok (Some m3), (?i3, counted (counted (counted ?pi2))))"
    by (rule step_send_s [OF ok, where kek = ki and ck = ck2 and h = h2 and k = k2 and s = si and se = se])
      (use f pi se ck3 split in \<open>simp_all add: at_step_def HANDSHAKE_MAX_def m3_def\<close>)
  moreover have "noise_step C HANDSHAKE_MAX er (Some m3) (?r2, ?pr2) = (Ok None, (?r3, counted (counted (counted ?pr2))))"
    by (rule step_recv_s [OF ok, where kek = kr and ck = ck2 and h = h2 and k = k2 and e = er and se = se])
      (use f pr se ck3 split len in \<open>simp_all add: at_step_def m3_def\<close>)
  moreover have "channel_linked C (?i3, counted (counted (counted ?pi2))) (?r3, counted (counted (counted ?pr2)))"
    using pi pr f by (simp add: channel_linked_def half_link_def) (meson holds_sealed)
  ultimately show ?thesis
    using f len Er Ei crypto_ok(2) [OF ok] by (intro that) (assumption | simp add: ct_def m3_def)+
qed

end
