(* ===== verification/Noise_Call.thy ===== *)
theory Noise_Call
  imports Noise_Channel Client_Remote
begin

section \<open>A call over the Noise channel\<close>

text \<open>
  The two ends of a handshake, the messages that follow it, and a call of the client's library to
  the server's connection loop.
\<close>

subsection \<open>The handshake\<close>

text \<open>A libsodium of the documented kind, to try the properties on.\<close>

definition pad32 :: "bytes \<Rightarrow> bytes" where
  "pad32 bs = take 32 (bs @ replicate 32 0)"

definition demo_open :: "bytes \<Rightarrow> bytes \<Rightarrow> bytes option" where
  "demo_open k ct = (if drop (length ct - 16) ct = take 16 (pad32 k) then Some (take (length ct - 16) ct) else None)"

definition demo_noise :: noise_crypto where
  "demo_noise = \<lparr>nz_sodium_init = True, nz_sha256 = pad32, nz_hmac = (\<lambda>k d. pad32 (rev d @ k)),
     nz_scalarmult = (\<lambda>a B. Some (map2 (+) (pad32 a) B)), nz_scalarmult_base = (\<lambda>a. Some (pad32 a)),
     nz_encrypt = (\<lambda>k n ad pt. pt @ take 16 (pad32 k)), nz_decrypt = (\<lambda>k n ad. demo_open k),
     nz_secretbox = (\<lambda>k n pt. pt @ take 16 (pad32 k)), nz_secretbox_open = (\<lambda>k n. demo_open k)\<rparr>"

lemma length_pad32 [simp]: "length (pad32 bs) = 32"
  by (simp add: pad32_def)

lemma demo_noise_ok: "noise_crypto_ok demo_noise"
proof -
  have "map2 (+) xs ys = map2 (+) ys xs" for xs ys :: bytes
    by (auto simp: list_eq_iff_nth_eq add.commute)
  then show ?thesis by (simp add: noise_crypto_ok_def demo_noise_def demo_open_def)
qed

text \<open>The messages of a handshake depend on neither stream.\<close>

lemma honest_handshakes:
  fixes pin_i pin_r :: "bytes option"
  assumes ok: "noise_crypto_ok C" and pi: "pk_kek pi = Some ki" and pr: "pk_kek pr = Some kr"
    and Si: "nz_scalarmult_base C (static_seed C bi vi) = Some Si" and Sr: "nz_scalarmult_base C (static_seed C br vr) = Some Sr"
  obtains m1 m2 m3 i r where
    "\<And>io rest. nst_broken io = None \<Longrightarrow> nst_in io = frame_of m2 @ rest \<Longrightarrow>
       noise_handshake C bi ei vi pin_i True (pi, io) =
         (Ok (fst i), (snd i, io\<lparr>nst_in := rest, nst_out := nst_out io @ frame_of m1 @ frame_of m3\<rparr>))"
    "\<And>io rest. nst_broken io = None \<Longrightarrow> nst_in io = frame_of m1 @ frame_of m3 @ rest \<Longrightarrow>
       noise_handshake C br er vr pin_r False (pr, io) =
         (Ok (fst r), (snd r, io\<lparr>nst_in := rest, nst_out := nst_out io @ frame_of m2\<rparr>))"
    "channel_linked C i r" "ns_remote_static (fst i) = Sr" "ns_remote_static (fst r) = Si"
    "ns_send_nonce (fst i) = 1" "ns_send_nonce (fst r) = 1"
proof -
  let ?si = "static_seed C bi vi" and ?sr = "static_seed C br vr" and ?h = "initial_hash C"
  let ?pi = "counted (counted pi)" and ?pr = "counted (counted pr)"
  obtain sti where sti: "session_new C bi vi pin_i True pi = (Ok sti, ?pi)" "fresh C ki True ?si Si ?h sti"
    by (rule session_new_ok [OF ok pi Si])
  obtain str where str: "session_new C br vr pin_r False pr = (Ok str, ?pr)" "fresh C kr False ?sr Sr ?h str"
    by (rule session_new_ok [OF ok pr Sr])
  have keks: "pk_kek ?pi = Some ki" "pk_kek ?pr = Some kr" using pi pr by simp_all
  obtain m1 m2 m3 i1 i2 i3 r1 r2 r3 where steps:
    "noise_step C HANDSHAKE_MAX ei None (sti, ?pi) = (Ok (Some m1), i1)"
    "noise_step C HANDSHAKE_MAX er (Some m1) (str, ?pr) = (Ok None, r1)"
    "noise_step C HANDSHAKE_MAX er None r1 = (Ok (Some m2), r2)"
    "noise_step C HANDSHAKE_MAX ei (Some m2) i1 = (Ok None, i2)"
    "noise_step C HANDSHAKE_MAX ei None i2 = (Ok (Some m3), i3)"
    "noise_step C HANDSHAKE_MAX er (Some m3) r2 = (Ok None, r3)"
    and len: "length m1 = 32" "length m2 = 80" "length m3 = 48" and link: "channel_linked C i3 r3"
    and ends: "ns_remote_static (fst i3) = Sr" "ns_remote_static (fst r3) = Si" "ns_send_nonce (fst i3) = 1" "ns_send_nonce (fst r3) = 1"
    by (rule honest_steps [OF ok keks sti(2) str(2)])
  have complete: "ns_complete (fst i3)" "ns_complete (fst r3)" using link by (auto simp: channel_linked_def)
  have i: "noise_handshake C bi ei vi pin_i True (pi, io) =
      (Ok (fst i3), (snd i3, io\<lparr>nst_in := rest, nst_out := nst_out io @ frame_of m1 @ frame_of m3\<rparr>))"
    if "nst_broken io = None" "nst_in io = frame_of m2 @ rest" for io rest
    using initiator_handshake [OF steps(1,4,5) complete(1) that(2) _ that(1)] sti(1) len
    by (cases i3) (simp add: noise_handshake_def with_new_session_def NOISE_MAX_MSG_def result_simps)
  have r: "noise_handshake C br er vr pin_r False (pr, io) =
      (Ok (fst r3), (snd r3, io\<lparr>nst_in := rest, nst_out := nst_out io @ frame_of m2\<rparr>))"
    if "nst_broken io = None" "nst_in io = frame_of m1 @ frame_of m3 @ rest" for io rest
    using responder_handshake [OF steps(2,3,6) complete(2) that(2) _ _ that(1)] str(1) len
    by (cases r3) (simp add: noise_handshake_def with_new_session_def NOISE_MAX_MSG_def result_simps)
  show ?thesis
    by (rule that [OF i r link ends])
qed

abbreviation stream_of :: "bytes \<Rightarrow> bytes \<Rightarrow> noise_stream" where
  "stream_of i out \<equiv> \<lparr>nst_in = i, nst_out = out, nst_eof = ''early eof'', nst_broken = None\<rparr>"

text \<open>
  C8: Two ends that each read what the other one wrote both finish the handshake, with their
  keys and counters crossed, and each with the static public key of the other: whatever four
  bytes follow the salt at either end, and whichever key the caller had pinned.
\<close>

theorem honest_ends_meet:
  assumes "noise_crypto_ok C" and "pk_kek pi \<noteq> None" and "pk_kek pr \<noteq> None"
  shows "\<exists>a b sti str pi' pr'.
    noise_handshake C bi ei vi pin_i True (pi, stream_of b []) = (Ok sti, (pi', stream_of [] a)) \<and>
    noise_handshake C br er vr pin_r False (pr, stream_of a []) = (Ok str, (pr', stream_of [] b)) \<and>
    channel_linked C (sti, pi') (str, pr') \<and>
    nz_scalarmult_base C (static_seed C br vr) = Some (ns_remote_static sti) \<and>
    nz_scalarmult_base C (static_seed C bi vi) = Some (ns_remote_static str)"
proof -
  obtain ki kr where keks: "pk_kek pi = Some ki" "pk_kek pr = Some kr" using assms(2,3) by blast
  obtain Si Sr where S: "nz_scalarmult_base C (static_seed C bi vi) = Some Si" "nz_scalarmult_base C (static_seed C br vr) = Some Sr"
    using crypto_base [OF assms(1)] by metis
  obtain m1 m2 m3 i r where i: "\<And>io rest. nst_broken io = None \<Longrightarrow> nst_in io = frame_of m2 @ rest \<Longrightarrow>
       noise_handshake C bi ei vi pin_i True (pi, io) =
         (Ok (fst i), (snd i, io\<lparr>nst_in := rest, nst_out := nst_out io @ frame_of m1 @ frame_of m3\<rparr>))"
    and r: "\<And>io rest. nst_broken io = None \<Longrightarrow> nst_in io = frame_of m1 @ frame_of m3 @ rest \<Longrightarrow>
       noise_handshake C br er vr pin_r False (pr, io) =
         (Ok (fst r), (snd r, io\<lparr>nst_in := rest, nst_out := nst_out io @ frame_of m2\<rparr>))"
    and link: "channel_linked C i r" "ns_remote_static (fst i) = Sr" "ns_remote_static (fst r) = Si"
    using honest_handshakes [OF assms(1) keks S] by metis
  show ?thesis
    using i [of "stream_of (frame_of m2) []" "[]"] r [of "stream_of (frame_of m1 @ frame_of m3) []" "[]"] link S
    by (intro exI [of _ "frame_of m1 @ frame_of m3"] exI [of _ "frame_of m2"] exI [of _ "fst i"] exI [of _ "fst r"]
      exI [of _ "snd i"] exI [of _ "snd r"]) simp
qed

theorem honest_ends_meet_witness:
  "\<exists>a b sti str pi' pr'.
    noise_handshake demo_noise [] [1] [2] (Some [9]) True (\<lparr>pk_kek = Some [5], pk_counter = 0\<rparr>, stream_of b []) =
      (Ok sti, (pi', stream_of [] a)) \<and>
    noise_handshake demo_noise [7] [3] [4] None False (\<lparr>pk_kek = Some [6], pk_counter = 0\<rparr>, stream_of a []) =
      (Ok str, (pr', stream_of [] b)) \<and>
    channel_linked demo_noise (sti, pi') (str, pr') \<and>
    nz_scalarmult_base demo_noise (static_seed demo_noise [7] [4]) = Some (ns_remote_static sti) \<and>
    nz_scalarmult_base demo_noise (static_seed demo_noise [] [2]) = Some (ns_remote_static str)"
  by (rule honest_ends_meet [OF demo_noise_ok]) simp_all

subsection \<open>Messages\<close>

lemma half_link_delivers:
  assumes "noise_crypto_ok C" and "channel_linked C a b" and "ns_send_nonce (fst a) \<noteq> - 1"
  obtains ct a' b' where "session_send C m a = (Ok ct, a')" and "session_recv C ct b = (Ok m, b')"
    and "channel_linked C a' b'" and "length ct = length m + 16" and "ns_send_nonce (fst a') = ns_send_nonce (fst a) + 1"
    and "ns_send_nonce (fst b') = ns_send_nonce (fst b)"
proof -
  obtain st p st' q where ab: "a = (st, p)" "b = (st', q)" by (cases a, cases b)
  obtain ka kb k where keks: "pk_kek p = Some ka" "pk_kek q = Some kb" and k: "holds C ka (ns_send_key st) k"
    "holds C kb (ns_recv_key st') k" "ns_send_nonce st = ns_recv_nonce st'"
    using assms(2) ab by (auto simp: channel_linked_def half_link_def)
  let ?ct = "nz_encrypt C k (nonce_bytes (ns_send_nonce st)) [] m"
  let ?a = "(st\<lparr>ns_send_nonce := ns_send_nonce st + 1\<rparr>, p)" and ?b = "(st'\<lparr>ns_recv_nonce := ns_recv_nonce st' + 1\<rparr>, q)"
  note ct = crypto_ok(1,2) [OF assms(1), of k "nonce_bytes (ns_send_nonce st)" "[]" m]
  have complete: "ns_complete st" "ns_complete st'" using assms(2) ab by (auto simp: channel_linked_def)
  have "session_send C m a = (Ok ?ct, ?a)"
    using complete assms(3) ab get_key_holds [where sel = ns_send_key, OF assms(1) keks(1) k(1)]
    by (simp add: session_send_def on_core_def noise_core_send_def ae_enc_def sret_def)
  moreover have "session_recv C ?ct b = (Ok m, ?b)"
    using complete assms(3) ab ct k(3) get_key_holds [where sel = ns_recv_key, OF assms(1) keks(2) k(2)]
    by (simp add: session_recv_def on_core_def noise_core_recv_def ae_dec_def sret_def)
  moreover have "channel_linked C ?a ?b"
    using assms(2) ab by (auto simp: channel_linked_def half_link_def)
  ultimately show ?thesis
    using that ct(2) ab by fastforce
qed

text \<open>
  What one end of a linked channel sends the other receives, and the channel stays linked:
  messages arrive in order, one for one, until the counter of a direction is used up.
\<close>

theorem sent_is_received:
  assumes "noise_crypto_ok C" and "channel_linked C a b" and "ns_send_nonce (fst a) \<noteq> - 1" and "length m + 16 < 2 ^ 32"
  shows "\<exists>bs a' b'. noise_send C m (a, stream_of i out) = (Ok (), (a', stream_of i (out @ bs))) \<and>
    noise_recv C (b, stream_of (bs @ rest) out') = (Ok m, (b', stream_of rest out')) \<and> channel_linked C a' b'"
proof -
  obtain ct a' b' where send: "session_send C m a = (Ok ct, a')" and recv: "session_recv C ct b = (Ok m, b')"
    and link: "channel_linked C a' b'" "length ct = length m + 16"
    using half_link_delivers [OF assms(1-3)] by metis
  have "noise_send C m (a, stream_of i out) = (Ok (), (a', stream_of i (out @ frame_of ct)))"
    using send by (simp add: noise_send_def on_session_bind smap_err_def on_stream_def frame_of_def)
  moreover have "noise_recv C (b, stream_of (frame_of ct @ rest) out') = (Ok m, (b', stream_of rest out'))"
    using recv read_frame [of "stream_of (frame_of ct @ rest) out'" ct rest] link(2) assms(4)
    by (simp add: noise_recv_def on_stream_bind smap_err_def on_session_def)
  ultimately show ?thesis
    using link(1) by blast
qed

definition demo_end :: session where
  "demo_end = (noise_zero\<lparr>ns_complete := True, ns_send_key := sealed_in demo_noise [5] \<lparr>pk_kek = None, pk_counter = 0\<rparr> [8],
     ns_recv_key := sealed_in demo_noise [5] \<lparr>pk_kek = None, pk_counter = 0\<rparr> [8]\<rparr>, \<lparr>pk_kek = Some [5], pk_counter = 0\<rparr>)"

theorem sent_is_received_witness:
  "\<exists>bs a' b'. noise_send demo_noise [1, 2] (demo_end, stream_of [] []) = (Ok (), (a', stream_of [] ([] @ bs))) \<and>
    noise_recv demo_noise (demo_end, stream_of (bs @ [3]) []) = (Ok [1, 2], (b', stream_of [3] [])) \<and>
    channel_linked demo_noise a' b'"
proof (rule sent_is_received [OF demo_noise_ok])
  show "channel_linked demo_noise demo_end demo_end"
    by (simp add: channel_linked_def half_link_def demo_end_def noise_zero_def) (meson holds_sealed)
qed (simp_all add: demo_end_def noise_zero_def)

subsection \<open>A call\<close>

text \<open>The two ends of a call, each with what the other one sends.\<close>

lemma exchange_answered:
  assumes hc: "\<And>io rest. nst_broken io = None \<Longrightarrow> nst_in io = frame_of m2 @ rest \<Longrightarrow>
       noise_handshake C bi (ptc_e_priv i) priv None True (pi, io) =
         (Ok (fst c), (snd c, io\<lparr>nst_in := rest, nst_out := nst_out io @ frame_of m1 @ frame_of m3\<rparr>))"
    and key: "ptc_keypair i = Ok (pub, priv)" and request: "ptc_to_string i request = Ok bs"
    and q: "session_send C bs c = (Ok q, c1)" and r: "session_recv C r c1 = (Ok out, c2)" "length r < 2 ^ 32"
    and response: "ptc_from_slice i out = Ok v"
  shows "noise_exchange C bi show_crypto (i\<lparr>ptc_connect := Ok (stream_of (frame_of m2 @ frame_of r) [])\<rparr>) request pi =
    (Ok v, snd c2, Some (stream_of [] (frame_of m1 @ frame_of m3 @ frame_of q)))"
proof -
  let ?a = "frame_of m1 @ frame_of m3 @ frame_of q"
  show ?thesis
    using hc [of "stream_of (frame_of m2 @ frame_of r) []" "frame_of r"] q r(1)
      read_frame [of "stream_of (frame_of r) ?a" r "[]"] r(2)
    by (cases c2) (simp add: noise_exchange_def request key response result_simps smap_err_ok on_session_ok on_stream_ok
      frame_of_def sret_def slift_def)
qed

lemma connection_answers:
  assumes hs: "\<And>io rest. nst_broken io = None \<Longrightarrow> nst_in io = frame_of m1 @ frame_of m3 @ rest \<Longrightarrow>
       noise_handshake C br er (sv_noise_static_priv server) None False (pr, io) =
         (Ok (fst s), (snd s, io\<lparr>nst_in := rest, nst_out := nst_out io @ frame_of m2\<rparr>))"
    and q: "session_recv C q s = (Ok bs, s1)" "length q \<le> MAX_REQUEST_LINE_BYTES + 65535" "length bs \<le> MAX_REQUEST_LINE_BYTES"
    and request: "lc_from_utf8 W bs = Ok line" "lc_from_str W line = Ok request"
    and answer: "node_answer E (inps 0) peer t request server = (Ok v, server')"
    and r: "lc_to_string W v = Ok out" "session_send C out s1 = (Ok r, s2)"
  shows "handle_connection C br W E er inps (pr, stream_of (frame_of m1 @ frame_of m3 @ frame_of q) []) server =
    (Err (Io ''early eof''), (snd s2, stream_of [] (frame_of m2 @ frame_of r)), server')"
proof -
  let ?b = "frame_of m2 @ frame_of r"
  obtain resp where resp: "jsonrpc_handler E (inps 0) request server = (Ok resp, server')" "response_json resp = v"
    using answer by (auto simp: node_answer_def split: prod.splits result.splits)
  have "connection_request (lc_from_str W) E (inps 0) line server = (Ok resp, server')"
    using resp(1) request(2)
    by (simp add: connection_request_def process_request_def jsonrpc_handler_def answer_errors_def result_simps)
  then have turn: "serve_line C W E (inps 0) q ((s, stream_of [] (frame_of m2)), server) = (Ok (), ((s2, stream_of [] ?b), server'))"
    using q(1,3) r request(1) resp(2)
    by (simp add: serve_line_def write_response_frame_def on_connection_def on_server_def smap_err_ok on_session_ok
      on_stream_ok result_simps frame_of_def)
  have frame: "read_request_frame (stream_of (frame_of q) (frame_of m2)) = (Ok q, stream_of [] (frame_of m2))"
    using read_frame [of "stream_of (frame_of q) (frame_of m2)" q "[]"] q(2)
    by (simp add: read_request_frame_def smap_err_ok MAX_REQUEST_LINE_BYTES_def)
  have eof: "read_request_frame (stream_of [] ?b) = (Err (Io ''early eof''), stream_of [] ?b)"
    by (simp add: read_request_frame_def smap_err_def stream_read_def sbind_def result_simps)
  have "serve_requests C W E inps 0 ((s, stream_of (frame_of q) (frame_of m2)), server) =
      (Err (Io ''early eof''), ((s2, stream_of [] ?b), server'))"
    using frame turn eof by (cases s; cases s2) (simp add: serve_requests.simps)
  then show ?thesis
    using hs [of "stream_of (frame_of m1 @ frame_of m3 @ frame_of q) []" "frame_of q"]
    by (cases s; cases s2) (simp add: handle_connection_def)
qed

text \<open>
  C7: A call of the client's library over a fresh connection to the server returns what the node
  answers to the request itself, and leaves the node as that answer does: the handshake, the
  framing and the encryption change nothing. The server's thread then ends, when it reads the
  client's closed connection.
\<close>

theorem call_over_noise:
  assumes ok: "noise_crypto_ok C" and "pk_kek pi \<noteq> None" and "pk_kek pr \<noteq> None"
    and key: "ptc_keypair i = Ok (pub, priv)"
    and request: "ptc_to_string i request = Ok bs" "lc_from_utf8 W bs = Ok line" "lc_from_str W line = Ok request"
    and small: "length bs \<le> MAX_REQUEST_LINE_BYTES"
    and answer: "node_answer E (inps 0) peer t request server = (Ok v, server')"
    and response: "lc_to_string W v = Ok out" "length out + 16 < 2 ^ 32" "ptc_from_slice i out = Ok v"
  shows "\<exists>a b pi' pr'.
    noise_exchange C bi show_crypto (i\<lparr>ptc_connect := Ok (stream_of b [])\<rparr>) request pi = (Ok v, pi', Some (stream_of [] a)) \<and>
    handle_connection C br W E er inps (pr, stream_of a []) server = (Err (Io ''early eof''), (pr', stream_of [] b), server')"
proof -
  obtain ki kr where keks: "pk_kek pi = Some ki" "pk_kek pr = Some kr" using assms(2,3) by blast
  obtain Si Sr where S: "nz_scalarmult_base C (static_seed C bi priv) = Some Si"
      "nz_scalarmult_base C (static_seed C br (sv_noise_static_priv server)) = Some Sr"
    using crypto_base [OF ok] by metis
  obtain m1 m2 m3 c s where
    hc: "\<And>io rest. nst_broken io = None \<Longrightarrow> nst_in io = frame_of m2 @ rest \<Longrightarrow>
       noise_handshake C bi (ptc_e_priv i) priv None True (pi, io) =
         (Ok (fst c), (snd c, io\<lparr>nst_in := rest, nst_out := nst_out io @ frame_of m1 @ frame_of m3\<rparr>))"
    and hs: "\<And>io rest. nst_broken io = None \<Longrightarrow> nst_in io = frame_of m1 @ frame_of m3 @ rest \<Longrightarrow>
       noise_handshake C br er (sv_noise_static_priv server) None False (pr, io) =
         (Ok (fst s), (snd s, io\<lparr>nst_in := rest, nst_out := nst_out io @ frame_of m2\<rparr>))"
    and link: "channel_linked C c s" and nonces: "ns_send_nonce (fst c) \<noteq> - 1" "ns_send_nonce (fst s) \<noteq> - 1"
    by (rule honest_handshakes [OF ok keks S, of "ptc_e_priv i" None er None]) (rule that, assumption, assumption, simp_all)
  obtain q c1 s1 where q: "session_send C bs c = (Ok q, c1)" "session_recv C q s = (Ok bs, s1)" "length q = length bs + 16"
    and link1: "channel_linked C c1 s1" and n1: "ns_send_nonce (fst s1) = ns_send_nonce (fst s)"
    using half_link_delivers [OF ok link nonces(1), of bs] by metis
  obtain r s2 c2 where r: "session_send C out s1 = (Ok r, s2)" "session_recv C r c1 = (Ok out, c2)" "length r = length out + 16"
    using half_link_delivers [OF ok channel_linked_sym [THEN iffD1, OF link1], of out] n1 nonces(2) by metis
  have "length q \<le> MAX_REQUEST_LINE_BYTES + 65535" "length r < 2 ^ 32"
    using q(3) small r(3) response(2) by simp_all
  then show ?thesis
    using exchange_answered [OF hc key request(1) q(1) r(2) _ response(3)]
      connection_answers [where inps = inps, OF hs q(2) _ small request(2,3) answer response(1) r(1)] by blast
qed

theorem call_over_noise_witness:
  "\<exists>v a b pi' pr'. jget ''result'' v = Some (JObject [(''pong'', JBool True)]) \<and>
    noise_exchange demo_noise [] (\<lambda>_. ''crypto'')
      (\<lparr>ptc_connect = Panic, ptc_keypair = Ok ([1], [2]), ptc_e_priv = [3], ptc_to_string = (\<lambda>_. Ok [1]),
        ptc_from_slice = (\<lambda>_. Ok v)\<rparr>\<lparr>ptc_connect := Ok (stream_of b [])\<rparr>)
      (json_rpc_request ''ping'' JNull) \<lparr>pk_kek = Some [5], pk_counter = 0\<rparr> = (Ok v, pi', Some (stream_of [] a)) \<and>
    handle_connection demo_noise [] \<lparr>lc_from_utf8 = (\<lambda>_. Ok ''request''), lc_from_str = (\<lambda>_. Ok (json_rpc_request ''ping'' JNull)),
        lc_to_string = (\<lambda>_. Ok [2])\<rparr> demo_env [4] (\<lambda>_. demo_call 1) (\<lparr>pk_kek = Some [6], pk_counter = 0\<rparr>, stream_of a [])
      (demo_node None None) = (Err (Io ''early eof''), (pr', stream_of [] b), demo_node None None)"
proof -
  let ?resp = "rpc_success None (JObject [(''pong'', JBool True)])"
  have ping: "node_answer demo_env (demo_call 1) ''peer'' 30 (json_rpc_request ''ping'' JNull) (demo_node None None) =
      (Ok (response_json ?resp), demo_node None None)"
    by (simp add: node_answer_def jsonrpc_handler_def answer_errors_def process_request_from_value_def json_rpc_request_def
      get_str_def dispatch_def arms_def handle_ping_def plain_success_def result_simps sret_def)
  have pong: "jget ''result'' (response_json ?resp) = Some (JObject [(''pong'', JBool True)])"
    by (simp add: response_json_def rpc_success_def)
  show ?thesis
    using call_over_noise [OF demo_noise_ok, of "\<lparr>pk_kek = Some [5], pk_counter = 0\<rparr>" "\<lparr>pk_kek = Some [6], pk_counter = 0\<rparr>"
        "\<lparr>ptc_connect = Panic, ptc_keypair = Ok ([1], [2]), ptc_e_priv = [3], ptc_to_string = (\<lambda>_. Ok [1]),
          ptc_from_slice = (\<lambda>_. Ok (response_json ?resp))\<rparr>" "[1]" "[2]" "json_rpc_request ''ping'' JNull" "[1]"
        "\<lparr>lc_from_utf8 = (\<lambda>_. Ok ''request''), lc_from_str = (\<lambda>_. Ok (json_rpc_request ''ping'' JNull)), lc_to_string = (\<lambda>_. Ok [2])\<rparr>"
        "''request''" demo_env "\<lambda>_. demo_call 1" "''peer''" 30 "demo_node None None" "response_json ?resp" "demo_node None None"
        "[2]" "[]" "\<lambda>_. ''crypto''" "[]" "[4]"] ping
    by (intro exI [of _ "response_json ?resp"] conjI pong) (simp_all add: MAX_REQUEST_LINE_BYTES_def pong)
qed

end
