(* ===== verification/Record_Json.thy ===== *)
theory Record_Json
  imports Config Clean_Auth Mirror_Laws Demo_Node
begin

section \<open>Records as JSON\<close>

text \<open>
  Models \<^verbatim>\<open>core-engine/src/foretias/encoding.rs\<close> and the serde derives of the records in
  \<^verbatim>\<open>tick.rs\<close>, \<^verbatim>\<open>external_attestation.rs\<close>, \<^verbatim>\<open>types.rs\<close> and \<^verbatim>\<open>calendar.rs\<close>, with the attributes of their
  fields. Bytes are strings in URL-safe base64; the base64 engine is an argument. Elsewhere the
  formats of records are arguments of the model; these are the ones the code has.
\<close>

subsection \<open>Byte arrays\<close>

record base64 =
  b6_encode :: "bytes \<Rightarrow> string"
  b6_decode :: "string \<Rightarrow> (bytes, string) result"

definition base64_ok :: "base64 \<Rightarrow> bool" where
  "base64_ok B \<longleftrightarrow> (\<forall>bs. b6_decode B (b6_encode B bs) = Ok bs)"

definition ft_vector_json :: "base64 \<Rightarrow> bytes \<Rightarrow> json" where
  "ft_vector_json B bs = JString (b6_encode B bs)"

definition ft_vector_of_json :: "base64 \<Rightarrow> bytes de" where
  "ft_vector_of_json B v =
     Option.bind (as_str v) (\<lambda>s. case b6_decode B s of Ok bs \<Rightarrow> Some bs | _ \<Rightarrow> None)"

definition ft_array_of_json :: "base64 \<Rightarrow> nat \<Rightarrow> bytes de" where
  "ft_array_of_json B n v =
     Option.bind (ft_vector_of_json B v) (\<lambda>bs. if length bs \<noteq> n then None else Some bs)"

definition de_u32 :: "u32 de" where
  "de_u32 v = Option.bind (as_u64 v) (\<lambda>n. if n < 2 ^ 32 then Some (ucast n) else None)"

subsection \<open>Recursion through the combinators\<close>

lemma de_field_cong [fundef_cong]:
  assumes "name = name'" and "absent = absent'" and "kvs = kvs'" and "\<And>v. (name', v) \<in> set kvs' \<Longrightarrow> d v = d' v"
  shows "de_field name d absent kvs = de_field name' d' absent' kvs'"
proof -
  have "d (snd kv) = d' (snd kv)" if "filter (\<lambda>kv. fst kv = name') kvs' = [kv]" for kv
  proof -
    have "kv \<in> set kvs' \<and> fst kv = name'" using arg_cong [OF that, of set] by auto
    then show ?thesis using assms(4) [of "snd kv"] by (cases kv) simp
  qed
  then show ?thesis by (auto simp: assms(1-3) de_field_def split: list.splits)
qed

lemma de_list_cong [fundef_cong]:
  assumes "v = v'" and "\<And>vs w. v' = JArray vs \<Longrightarrow> w \<in> set vs \<Longrightarrow> d w = d' w"
  shows "de_list d v = de_list d' v'"
  using assms by (cases v') (auto simp: de_list_def intro: arg_cong [of _ _ those] map_cong)

lemma size_entry: "(k, v) \<in> set kvs \<Longrightarrow> size v < size (JObject kvs)"
  by (induction kvs) auto

lemma size_element: "v \<in> set vs \<Longrightarrow> size v < size (JArray vs)"
  by (induction vs) auto

lemma size_de_entries:
  assumes "de_entries names v = Some kvs" and "(k, w) \<in> set kvs"
  shows "size w < size v"
proof (cases v)
  case (JArray vs)
  then have "w \<in> set vs" using assms by (auto simp: de_entries_def split: if_splits dest: set_zip_rightD)
  then show ?thesis using JArray size_element by simp
qed (use assms size_entry in \<open>auto simp: de_entries_def\<close>)

subsection \<open>Records\<close>

definition tbid_json :: "base64 \<Rightarrow> tbid \<Rightarrow> json" where
  "tbid_json B t = JObject [(''inner'', ft_vector_json B (inner t))]"

definition tbid_of_json :: "base64 \<Rightarrow> tbid de" where
  "tbid_of_json B v =
     Option.bind (de_entries [''inner''] v) (\<lambda>kvs.
     Option.bind (de_field ''inner'' (ft_array_of_json B 96) None kvs) (\<lambda>bs.
       Some \<lparr>inner = bs\<rparr>))"

definition foretis_record_json :: "base64 \<Rightarrow> foretis_record \<Rightarrow> json" where
  "foretis_record_json B f = JObject
     [(''chronon_number'', jnum (fr_chronon_number f)), (''content_hash'', ft_vector_json B (fr_content_hash f)),
      (''tbid'', tbid_json B (fr_tbid f)), (''echo'', JString (fr_echo f)), (''tbn'', JString (fr_tbn f)),
      (''time_being_reference_time'', JString (fr_time_being_reference_time f))]"

definition foretis_record_of_json :: "base64 \<Rightarrow> foretis_record de" where
  "foretis_record_of_json B v =
     Option.bind (de_entries [''chronon_number'', ''content_hash'', ''tbid'', ''echo'', ''tbn'',
       ''time_being_reference_time''] v) (\<lambda>kvs.
     Option.bind (de_field ''chronon_number'' as_u64 None kvs) (\<lambda>n.
     Option.bind (de_field ''content_hash'' (ft_array_of_json B 32) None kvs) (\<lambda>hash.
     Option.bind (de_field ''tbid'' (tbid_of_json B) None kvs) (\<lambda>t.
     Option.bind (de_field ''echo'' as_str None kvs) (\<lambda>echo.
     Option.bind (de_field ''tbn'' as_str None kvs) (\<lambda>tbn.
     Option.bind (de_field ''time_being_reference_time'' as_str None kvs) (\<lambda>time.
       Some \<lparr>fr_chronon_number = n, fr_content_hash = hash, fr_tbid = t, fr_echo = echo, fr_tbn = tbn,
             fr_time_being_reference_time = time\<rparr>)))))))"

fun chronon_record_json :: "base64 \<Rightarrow> chronon_record \<Rightarrow> json"
  and attestation_json :: "base64 \<Rightarrow> external_attestation_record \<Rightarrow> json" where
  "chronon_record_json B (ChrononRecord n key alg forw backw nonce stamps atts version t) = JObject
     [(''tick_number'', jnum n), (''public_key'', ft_vector_json B key), (''signature_algorithm'', JString alg),
      (''forward_foretis'', ft_vector_json B forw), (''backward_foretis'', ft_vector_json B backw),
      (''aa_nonce'', ft_vector_json B nonce), (''chronon_stamp_count'', jnum stamps),
      (''external_attestations'', JArray (map (attestation_json B) atts)), (''tb_version'', jnum (ucast version)),
      (''tbid'', tbid_json B t)]"
| "attestation_json B (ExternalAttestationRecord attester f sig alg r received) = JObject
     [(''attester_tbid'', JString attester), (''foretis'', foretis_record_json B f), (''signature'', ft_vector_json B sig),
      (''signature_algorithm'', JString alg), (''attester_tick_record'', chronon_record_json B r),
      (''received_at_ns'', jnum received)]"

function chronon_record_of_json :: "base64 \<Rightarrow> chronon_record de"
  and attestation_of_json :: "base64 \<Rightarrow> external_attestation_record de" where
  "chronon_record_of_json B v =
     Option.bind (de_entries [''tick_number'', ''public_key'', ''signature_algorithm'', ''forward_foretis'',
       ''backward_foretis'', ''aa_nonce'', ''chronon_stamp_count'', ''external_attestations'', ''tb_version'', ''tbid''] v) (\<lambda>kvs.
     Option.bind (de_field ''tick_number'' as_u64 None kvs) (\<lambda>n.
     Option.bind (de_field ''public_key'' (ft_vector_of_json B) None kvs) (\<lambda>key.
     Option.bind (de_field ''signature_algorithm'' as_str (Some ''Ed25519'') kvs) (\<lambda>alg.
     Option.bind (de_field ''forward_foretis'' (ft_vector_of_json B) None kvs) (\<lambda>forw.
     Option.bind (de_field ''backward_foretis'' (ft_vector_of_json B) None kvs) (\<lambda>backw.
     Option.bind (de_field ''aa_nonce'' (ft_array_of_json B 16) None kvs) (\<lambda>nonce.
     Option.bind (de_field ''chronon_stamp_count'' as_u64 None kvs) (\<lambda>stamps.
     Option.bind (de_field ''external_attestations'' (de_list (attestation_of_json B)) (Some []) kvs) (\<lambda>atts.
     Option.bind (de_field ''tb_version'' de_u32 (Some 1) kvs) (\<lambda>version.
     Option.bind (de_field ''tbid'' (tbid_of_json B) (Some tbid_default) kvs) (\<lambda>t.
       Some (ChrononRecord n key alg forw backw nonce stamps atts version t))))))))))))"
| "attestation_of_json B v =
     Option.bind (de_entries [''attester_tbid'', ''foretis'', ''signature'', ''signature_algorithm'',
       ''attester_tick_record'', ''received_at_ns''] v) (\<lambda>kvs.
     Option.bind (de_field ''attester_tbid'' as_str None kvs) (\<lambda>attester.
     Option.bind (de_field ''foretis'' (foretis_record_of_json B) None kvs) (\<lambda>f.
     Option.bind (de_field ''signature'' (ft_vector_of_json B) (Some []) kvs) (\<lambda>sig.
     Option.bind (de_field ''signature_algorithm'' as_str (Some ''Ed25519'') kvs) (\<lambda>alg.
     Option.bind (de_field ''attester_tick_record'' (chronon_record_of_json B) None kvs) (\<lambda>r.
     Option.bind (de_field ''received_at_ns'' as_u64 None kvs) (\<lambda>received.
       Some (ExternalAttestationRecord attester f sig alg r received))))))))"
  by pat_completeness auto
termination
  by (relation "measure (\<lambda>x. case x of Inl (_, v) \<Rightarrow> size v | Inr (_, v) \<Rightarrow> size v)")
    (auto dest!: size_de_entries size_element)

declare chronon_record_of_json.simps [simp del] attestation_of_json.simps [simp del]

definition calendar_json :: "base64 \<Rightarrow> calendar \<Rightarrow> json" where
  "calendar_json B c = JObject
     [(''tbid'', tbid_json B (cal_tbid c)), (''tbn'', JString (cal_tbn c)), (''stamp_tbid'', tbid_json B (cal_stamp_tbid c)),
      (''ticks'', JArray (map (chronon_record_json B) (ticks c)))]"

definition calendar_of_json :: "base64 \<Rightarrow> calendar de" where
  "calendar_of_json B v =
     Option.bind (de_entries [''tbid'', ''tbn'', ''stamp_tbid'', ''ticks''] v) (\<lambda>kvs.
     Option.bind (de_field ''tbid'' (tbid_of_json B) None kvs) (\<lambda>t.
     Option.bind (de_field ''tbn'' as_str None kvs) (\<lambda>tbn.
     Option.bind (de_field ''stamp_tbid'' (tbid_of_json B) None kvs) (\<lambda>st.
     Option.bind (de_field ''ticks'' (de_list (chronon_record_of_json B)) None kvs) (\<lambda>ts.
       Some \<lparr>cal_tbid = t, cal_tbn = tbn, cal_stamp_tbid = st, ticks = ts\<rparr>)))))"

subsection \<open>Round trips\<close>

text \<open>The lengths that the types of the code fix.\<close>

definition foretis_wf :: "foretis_record \<Rightarrow> bool" where
  "foretis_wf f \<longleftrightarrow> length (fr_content_hash f) = 32 \<and> wf_tbid (fr_tbid f)"

fun record_wf :: "chronon_record \<Rightarrow> bool" and attestation_wf :: "external_attestation_record \<Rightarrow> bool" where
  "record_wf (ChrononRecord n key alg forw backw nonce stamps atts version t) \<longleftrightarrow>
     length nonce = 16 \<and> wf_tbid t \<and> (\<forall>a \<in> set atts. attestation_wf a)"
| "attestation_wf (ExternalAttestationRecord attester f sig alg r received) \<longleftrightarrow> foretis_wf f \<and> record_wf r"

definition calendar_wf :: "calendar \<Rightarrow> bool" where
  "calendar_wf c \<longleftrightarrow> wf_tbid (cal_tbid c) \<and> wf_tbid (cal_stamp_tbid c) \<and> (\<forall>r \<in> set (ticks c). record_wf r)"

lemma ft_vector_roundtrip: "base64_ok B \<Longrightarrow> ft_vector_of_json B (ft_vector_json B bs) = Some bs"
  by (simp add: base64_ok_def ft_vector_of_json_def ft_vector_json_def)

lemma ft_array_roundtrip: "base64_ok B \<Longrightarrow> length bs = n \<Longrightarrow> ft_array_of_json B n (ft_vector_json B bs) = Some bs"
  by (simp add: ft_array_of_json_def ft_vector_roundtrip)

lemma tbid_json_roundtrip: "base64_ok B \<Longrightarrow> wf_tbid t \<Longrightarrow> tbid_of_json B (tbid_json B t) = Some t"
  by (cases t) (simp add: tbid_of_json_def tbid_json_def de_entries_def de_field_def ft_array_roundtrip wf_tbid_def)

lemma de_u32_jnum: "de_u32 (jnum (ucast w)) = Some w"
proof -
  have "(ucast w :: u64) < 2 ^ 32"
    using uint_bounded [of w] by (simp add: word_less_def unsigned_ucast_eq take_bit_int_eq_self)
  moreover have "ucast (ucast w :: u64) = w"
    by (rule bit_word_eqI) (simp add: bit_simps)
  ultimately show ?thesis by (simp add: de_u32_def)
qed

lemma those_map: "(\<And>x. x \<in> set xs \<Longrightarrow> f (g x) = Some x) \<Longrightarrow> those (map f (map g xs)) = Some xs"
  by (induction xs) auto

lemma de_list_roundtrip: "(\<And>x. x \<in> set xs \<Longrightarrow> f (g x) = Some x) \<Longrightarrow> de_list f (JArray (map g xs)) = Some xs"
  using those_map [of xs f g] by (simp add: de_list_def)

lemma foretis_json_roundtrip:
  "base64_ok B \<Longrightarrow> foretis_wf f \<Longrightarrow> foretis_record_of_json B (foretis_record_json B f) = Some f"
  by (simp add: foretis_record_of_json_def foretis_record_json_def foretis_wf_def de_entries_def de_field_def
    ft_array_roundtrip tbid_json_roundtrip)

lemma chronon_json_roundtrip:
  assumes "base64_ok B"
  shows "record_wf r \<Longrightarrow> chronon_record_of_json B (chronon_record_json B r) = Some r"
    and "attestation_wf a \<Longrightarrow> attestation_of_json B (attestation_json B a) = Some a"
  using assms
proof (induction B r and B a rule: chronon_record_json_attestation_json.induct)
  case (1 B n key alg forw backw nonce stamps atts version t)
  then have "de_list (attestation_of_json B) (JArray (map (attestation_json B) atts)) = Some atts"
    by (intro de_list_roundtrip) simp
  then show ?case
    using 1 by (simp add: chronon_record_of_json.simps de_entries_def de_field_def ft_vector_roundtrip ft_array_roundtrip
      tbid_json_roundtrip de_u32_jnum)
next
  case (2 B attester f sig alg r received)
  then show ?case
    by (simp add: attestation_of_json.simps de_entries_def de_field_def ft_vector_roundtrip foretis_json_roundtrip)
qed

lemma calendar_json_roundtrip:
  "base64_ok B \<Longrightarrow> calendar_wf c \<Longrightarrow> calendar_of_json B (calendar_json B c) = Some c"
  by (simp add: calendar_of_json_def calendar_json_def calendar_wf_def de_entries_def de_field_def tbid_json_roundtrip
    de_list_roundtrip chronon_json_roundtrip)

subsection \<open>The calendar's file\<close>

text \<open>
  C10: A calendar is saved as JSON with its bytes in base64, and loaded as the very same calendar,
  with every record, attestation and attester's record in it.
\<close>

theorem calendar_file_read_back:
  assumes "base64_ok B" and "calendar_wf c"
    and "save (\<lambda>c. to_string (calendar_json B c)) io path c files = (Ok (), files')"
    and "\<And>text. to_string (calendar_json B c) = Ok text \<Longrightarrow> from_str text = Some (calendar_json B c)"
  shows "load (\<lambda>s. Option.bind (from_str s) (calendar_of_json B)) path files' = (Ok c, files')"
proof -
  obtain data where data: "to_string (calendar_json B c) = Ok data" and files: "files' = crashed_save AfterRename path data files"
    using save_Ok_files [OF assms(3)] .
  then have "Option.bind (from_str data) (calendar_of_json B) = Some c"
    using assms(1,2,4) calendar_json_roundtrip by simp
  then show ?thesis
    by (intro load_no_tmp) (auto simp: files crashed_save_def fs_write_def fs_rename_def)
qed

definition demo_base64 :: base64 where
  "demo_base64 = \<lparr>b6_encode = char_hex, b6_decode = (\<lambda>s. Ok (as_bytes s))\<rparr>"

definition demo_file_calendar :: calendar where
  "demo_file_calendar =
     (let r = ChrononRecord 1 [7] ''Ed25519'' [1, 2] [] (replicate 16 3) 5 [] 1 tbid_default;
          f = \<lparr>fr_chronon_number = 2, fr_content_hash = replicate 32 9, fr_tbid = tbid_default, fr_echo = ''e'',
               fr_tbn = ''n'', fr_time_being_reference_time = ''t''\<rparr>
      in (calendar_new tbid_default ''cal'')\<lparr>ticks :=
           [r, ChrononRecord 2 [8] ''Ed25519'' [3] [4] (replicate 16 0) 0 [ExternalAttestationRecord ''a'' f [6] ''Ed25519'' r 11] 1 tbid_default]\<rparr>)"

theorem calendar_file_read_back_witness:
  "\<exists>files'. save (\<lambda>c. Ok ''json'') \<lparr>io_create_dir = Ok (), io_write = Written, io_rename = Ok ()\<rparr> ''c'' demo_file_calendar
      Map.empty = (Ok (), files') \<and>
    load (\<lambda>s. Option.bind (Some (calendar_json demo_base64 demo_file_calendar)) (calendar_of_json demo_base64)) ''c'' files' =
      (Ok demo_file_calendar, files')"
proof -
  let ?io = "\<lparr>io_create_dir = Ok (), io_write = Written, io_rename = Ok ()\<rparr>"
  have "base64_ok demo_base64"
    by (simp add: base64_ok_def demo_base64_def)
  moreover have "calendar_wf demo_file_calendar"
    by (simp add: calendar_wf_def demo_file_calendar_def calendar_new_def foretis_wf_def Let_def)
  moreover have save: "save (\<lambda>c. Ok ''json'') ?io ''c'' demo_file_calendar Map.empty =
      (Ok (), snd (save (\<lambda>c. Ok ''json'') ?io ''c'' demo_file_calendar Map.empty))"
    by (simp add: save_def fs_write_def fs_rename_def)
  ultimately show ?thesis
    using calendar_file_read_back [of demo_base64 demo_file_calendar "\<lambda>_. Ok ''json''" ?io "''c''" Map.empty _
        "\<lambda>_. Some (calendar_json demo_base64 demo_file_calendar)"] by blast
qed

subsection \<open>Records without a version\<close>

text \<open>
  C32: A first record whose JSON names no version is read as one of version 1, and so the gate of
  the trust boundary refuses it, although version 0 is the documented version of such records.
\<close>

theorem versionless_genesis_refused:
  assumes "chronon_record_of_json B (JObject kvs) = Some r" and "\<forall>kv \<in> set kvs. fst kv \<noteq> ''tb_version''" and "uv_inner u = r"
  shows "cr_tb_version r = 1 \<and> gate_genesis E u \<noteq> Ok a"
proof -
  have "filter (\<lambda>kv. fst kv = ''tb_version'') kvs = []"
    using assms(2) by (auto simp: filter_empty_conv)
  then have "cr_tb_version r = 1"
    using assms(1) by (auto simp: chronon_record_of_json.simps de_entries_def de_field_def [of "''tb_version''"] Option.bind_eq_Some_conv)
  then show ?thesis
    using assms(3) by (simp add: gate_genesis_def chronon_into_clean_authenticated_genesis_def verify_chronon_None_Ok_iff)
qed

theorem versionless_genesis_refused_witness:
  "\<exists>r. chronon_record_of_json demo_base64 (JObject [(''tick_number'', jnum 1), (''public_key'', JString [CHR 0x07]),
       (''forward_foretis'', JString []), (''backward_foretis'', JString []), (''aa_nonce'', JString (replicate 16 CHR 0x01)),
       (''chronon_stamp_count'', jnum 0)]) = Some r \<and>
     cr_tb_version r = 1 \<and> gate_genesis demo_env \<lparr>uv_inner = r, uv_signatures = []\<rparr> \<noteq> Ok \<lparr>ca_inner = r, ca_signatures = []\<rparr>"
proof -
  let ?kvs = "[(''tick_number'', jnum 1), (''public_key'', JString [CHR 0x07]), (''forward_foretis'', JString []),
    (''backward_foretis'', JString []), (''aa_nonce'', JString (replicate 16 CHR 0x01)), (''chronon_stamp_count'', jnum 0)]"
  have "\<exists>r. chronon_record_of_json demo_base64 (JObject ?kvs) = Some r"
    by (simp add: chronon_record_of_json.simps de_entries_def de_field_def ft_vector_of_json_def ft_array_of_json_def demo_base64_def)
  then obtain r where r: "chronon_record_of_json demo_base64 (JObject ?kvs) = Some r" ..
  show ?thesis
    using versionless_genesis_refused [OF r, of "\<lparr>uv_inner = r, uv_signatures = []\<rparr>" demo_env "\<lparr>ca_inner = r, ca_signatures = []\<rparr>"] r
    by simp
qed

end
