(* ===== verification/Communerdette_Queue.thy ===== *)
theory Communerdette_Queue
  imports Communerdette_Props "HOL-Library.Multiset"
begin

section \<open>The command queue of a relationship\<close>

text \<open>
  Models the queue worker of \<^verbatim>\<open>communerd/communerdette.rs\<close>: commands with a priority go through a
  channel to a task that keeps them in a heap. A turn of the task's loop waits for the channel.
  The \<^verbatim>\<open>else\<close> arm of its \<^verbatim>\<open>select!\<close> runs when the other arm cannot match, which is when the
  channel is closed and empty; while the channel is merely empty, the turn does not end.
\<close>

subsection \<open>Priorities and commands\<close>

datatype communerdette_priority = PrioBulk | PrioNormal | PrioHigh | PrioCritical

fun prio_rank :: "communerdette_priority \<Rightarrow> nat" where
  "prio_rank PrioBulk = 0"
| "prio_rank PrioNormal = 1"
| "prio_rank PrioHigh = 2"
| "prio_rank PrioCritical = 3"

instantiation communerdette_priority :: linorder
begin

definition less_eq_communerdette_priority :: "communerdette_priority \<Rightarrow> communerdette_priority \<Rightarrow> bool" where
  "p \<le> q \<longleftrightarrow> prio_rank p \<le> prio_rank q"

definition less_communerdette_priority :: "communerdette_priority \<Rightarrow> communerdette_priority \<Rightarrow> bool" where
  "p < q \<longleftrightarrow> prio_rank p < prio_rank q"

instance
proof
  fix p q :: communerdette_priority
  show "p \<le> q \<Longrightarrow> q \<le> p \<Longrightarrow> p = q"
    by (cases p; cases q) (simp_all add: less_eq_communerdette_priority_def)
qed (auto simp: less_eq_communerdette_priority_def less_communerdette_priority_def)

end

text \<open>The last field of a command stands for the channel its reply goes to.\<close>

datatype communerdette_command =
    CmdCalendarSlice u64 u64 nat
  | CmdStamp bytes string nat
  | CmdShutdown

record queued_command =
  qu_priority :: communerdette_priority
  qu_sequence :: u64
  qu_command :: communerdette_command

definition queued_less :: "queued_command \<Rightarrow> queued_command \<Rightarrow> bool" where
  "queued_less a b \<longleftrightarrow> qu_priority a < qu_priority b \<or>
     qu_priority a = qu_priority b \<and> qu_sequence b < qu_sequence a"

text \<open>\<^verbatim>\<open>BinaryHeap::pop\<close>: a greatest element.\<close>

definition heap_pop :: "queued_command list \<Rightarrow> (queued_command \<times> queued_command list) option" where
  "heap_pop heap = (case heap of
     [] \<Rightarrow> None
   | q # qs \<Rightarrow> (let m = foldl (\<lambda>m x. if queued_less m x then x else m) q qs in Some (m, remove1 m heap)))"

subsection \<open>The worker\<close>

datatype queue_reply =
    SliceReply nat "(chronon_record clean list, communerdette_error) result"
  | StampReply nat "(foretis_record clean, communerdette_error) result"

record queue_worker =
  qw_heap :: "queued_command list"
  qw_sequence :: u64
  qw_flags :: liveness_cycle_flags
  qw_replies :: "queue_reply list"
  qw_running :: bool

definition queue_worker_new :: "liveness_cycle_flags \<Rightarrow> queue_worker" where
  "queue_worker_new flags =
     \<lparr>qw_heap = [], qw_sequence = 0, qw_flags = flags, qw_replies = [], qw_running = True\<rparr>"

text \<open>A command's reply, and whether it is a success; a shutdown has none.\<close>

definition perform :: "('k, 's, 'h) executor \<Rightarrow> communerdette_command \<Rightarrow> ('h, (queue_reply \<times> bool) option, unit) stateful" where
  "perform X cmd h = (case cmd of
     CmdCalendarSlice tick_start cnt reply \<Rightarrow> (case execute_calendar_slice X tick_start cnt h of
        (Panic, h') \<Rightarrow> (Panic, h') | (r, h') \<Rightarrow> (Ok (Some (SliceReply reply r, is_ok r)), h'))
   | CmdStamp content echo reply \<Rightarrow> (case execute_stamp X content echo h of
        (Panic, h') \<Rightarrow> (Panic, h') | (r, h') \<Rightarrow> (Ok (Some (StampReply reply r, is_ok r)), h'))
   | CmdShutdown \<Rightarrow> (Ok None, h))"

text \<open>
  What the channel gives: a command, with those that are waiting behind it, or its end.
\<close>

datatype queue_poll =
    Polled communerdette_priority communerdette_command "(communerdette_priority \<times> communerdette_command) list"
  | Ended

definition queue_push :: "communerdette_priority \<Rightarrow> communerdette_command \<Rightarrow> queue_worker \<Rightarrow> queue_worker" where
  "queue_push p c w = w\<lparr>qw_heap := qw_heap w @ [\<lparr>qu_priority = p, qu_sequence = qw_sequence w, qu_command = c\<rparr>],
     qw_sequence := qw_sequence w + 1\<rparr>"

definition queue_turn :: "('k, 's, 'h) executor \<Rightarrow> queue_poll \<Rightarrow> 'h \<times> queue_worker \<Rightarrow> 'h \<times> queue_worker" where
  "queue_turn X poll = (\<lambda>(h, w).
     if \<not> qw_running w then (h, w)
     else (case poll of
       Polled p c backlog \<Rightarrow>
         if c = CmdShutdown then (h, (fold (\<lambda>(q, d). queue_push q d) backlog (queue_push p c w))\<lparr>qw_running := False\<rparr>)
         else (h, queue_push p c w)
     | Ended \<Rightarrow> (case heap_pop (qw_heap w) of
         None \<Rightarrow> (h, w)
       | Some (q, rest) \<Rightarrow> (case perform X (qu_command q) h of
           (Ok (Some (reply, success)), h') \<Rightarrow>
             (h', w\<lparr>qw_heap := rest, qw_replies := qw_replies w @ [reply],
                qw_flags := (if success then set_last_application_rpc_ns (clock_or_zero (ex_clock X)) (qw_flags w) else qw_flags w)\<rparr>)
         | (_, h') \<Rightarrow> (h', w\<lparr>qw_heap := rest, qw_running := False\<rparr>)))))"

definition queue_run :: "('k, 's, 'h) executor \<Rightarrow> queue_poll list \<Rightarrow> 'h \<times> queue_worker \<Rightarrow> 'h \<times> queue_worker" where
  "queue_run X polls s = foldl (\<lambda>s poll. queue_turn X poll s) s polls"

subsection \<open>Nothing is answered while somebody may still send\<close>

lemma queue_run_app: "queue_run X (xs @ ys) s = queue_run X ys (queue_run X xs s)"
  by (simp add: queue_run_def)

lemma queue_push_sels [simp]:
  "qw_replies (queue_push p c w) = qw_replies w" "qw_running (queue_push p c w) = qw_running w"
  "qw_flags (queue_push p c w) = qw_flags w"
  by (simp_all add: queue_push_def)

lemma fold_queue_push_replies [simp]: "qw_replies (fold (\<lambda>(q, d). queue_push q d) ms w) = qw_replies w"
  by (induction ms arbitrary: w) auto

lemma queue_run_stopped: "\<not> qw_running w \<Longrightarrow> queue_run X polls (h, w) = (h, w)"
  by (induction polls) (simp_all add: queue_run_def queue_turn_def)

lemma queue_turn_polled:
  "fst (queue_turn X (Polled p c backlog) (h, w)) = h \<and> qw_replies (snd (queue_turn X (Polled p c backlog) (h, w))) = qw_replies w"
  by (simp add: queue_turn_def)

lemma queue_run_Cons: "queue_run X (poll # polls) s = queue_run X polls (queue_turn X poll s)"
  by (simp add: queue_run_def)

lemma queue_run_open:
  "\<forall>poll \<in> set polls. poll \<noteq> Ended \<Longrightarrow>
   fst (queue_run X polls (h, w)) = h \<and> qw_replies (snd (queue_run X polls (h, w))) = qw_replies w"
proof (induction polls arbitrary: w)
  case (Cons poll polls)
  then obtain p c backlog where "poll = Polled p c backlog" by (cases poll) auto
  then show ?case
    using Cons queue_turn_polled [of X p c backlog h w]
    by (cases "queue_turn X poll (h, w)") (simp add: queue_run_Cons)
qed (simp add: queue_run_def)

text \<open>
  The queue worker answers no command while the channel is open, however many wait and for
  however long, and after a shutdown it answers none at all: every command in the queue is dropped.
\<close>

theorem open_queue_answers_nothing:
  assumes "\<forall>poll \<in> set polls. poll \<noteq> Ended"
  shows "fst (queue_run X polls (h, queue_worker_new flags)) = h \<and>
    qw_replies (snd (queue_run X polls (h, queue_worker_new flags))) = [] \<and>
    qw_replies (snd (queue_run X (polls @ Polled p CmdShutdown backlog # later) (h, queue_worker_new flags))) = []"
proof -
  obtain w where w: "queue_run X polls (h, queue_worker_new flags) = (h, w)" "qw_replies w = []"
    using queue_run_open [OF assms, of X h "queue_worker_new flags"]
    by (cases "queue_run X polls (h, queue_worker_new flags)") (auto simp: queue_worker_new_def)
  define w' where "w' = snd (queue_turn X (Polled p CmdShutdown backlog) (h, w))"
  have w': "queue_turn X (Polled p CmdShutdown backlog) (h, w) = (h, w')" "qw_replies w' = []" "\<not> qw_running w'"
    unfolding w'_def using w(2) by (auto simp: queue_turn_def)
  have "queue_run X (polls @ Polled p CmdShutdown backlog # later) (h, queue_worker_new flags) = queue_run X later (h, w')"
    using w(1) w'(1) by (simp add: queue_run_def)
  then show ?thesis using w w' by (simp add: queue_run_stopped)
qed

theorem open_queue_answers_nothing_witness:
  "let X = demo_executor (fixed_host []); polls = [Polled PrioBulk (CmdCalendarSlice 1 1 0) [], Polled PrioCritical (CmdStamp [] '''' 1) []];
       run = (\<lambda>polls. queue_run X polls ((), queue_worker_new liveness_cycle_flags_new))
   in (\<forall>poll \<in> set polls. poll \<noteq> Ended) \<and> qw_replies (snd (run polls)) = [] \<and> length (qw_heap (snd (run polls))) = 2 \<and>
     qw_replies (snd (run (polls @ Polled PrioHigh CmdShutdown [(PrioHigh, CmdStamp [] '''' 2)] # [Ended, Ended]))) = []"
proof -
  let ?polls = "[Polled PrioBulk (CmdCalendarSlice 1 1 0) [], Polled PrioCritical (CmdStamp [] '''' 1) []]"
  have polls: "\<forall>poll \<in> set ?polls. poll \<noteq> Ended" by simp
  note nothing = open_queue_answers_nothing [OF polls, of "demo_executor (fixed_host [])" "()" liveness_cycle_flags_new
      PrioHigh "[(PrioHigh, CmdStamp [] '''' 2)]" "[Ended, Ended]"]
  moreover have "length (qw_heap (snd (queue_run (demo_executor (fixed_host [])) ?polls ((), queue_worker_new liveness_cycle_flags_new)))) = 2"
    by (simp add: queue_run_def queue_turn_def queue_worker_new_def queue_push_def)
  ultimately show ?thesis by (simp add: Let_def)
qed

subsection \<open>When all senders are gone\<close>

text \<open>The reference: the commands of a list, one after another.\<close>

fun serially :: "('k, 's, 'h) executor \<Rightarrow> communerdette_command list \<Rightarrow> 'h \<Rightarrow> queue_reply list \<times> 'h" where
  "serially X [] h = ([], h)"
| "serially X (c # cs) h = (case perform X c h of
     (Ok (Some (r, _)), h') \<Rightarrow> (let (rs, h'') = serially X cs h' in (r # rs, h''))
   | (_, h') \<Rightarrow> ([], h'))"

definition by_priority ::
    "(communerdette_priority \<times> communerdette_command) list \<Rightarrow> (communerdette_priority \<times> communerdette_command) list" where
  "by_priority ms = concat (map (\<lambda>p. filter (\<lambda>m. fst m = p) ms) [PrioCritical, PrioHigh, PrioNormal, PrioBulk])"

definition place :: "queued_command \<Rightarrow> nat" where
  "place q = (3 - prio_rank (qu_priority q)) * 2 ^ 64 + unat (qu_sequence q)"

lemma digits_less:
  fixes N :: nat
  assumes "s < N" and "t < N"
  shows "x * N + s < y * N + t \<longleftrightarrow> x < y \<or> x = y \<and> s < t"
proof -
  have "x * N + s < y * N + t" if "x < y" "s < N" for x y s t
  proof -
    have "(x + 1) * N \<le> y * N" using that(1) by (intro mult_le_mono1) simp
    then show ?thesis using that(2) by simp
  qed
  from this [of x y s t] this [of y x t s] assms show ?thesis by (cases x y rule: linorder_cases) auto
qed

lemma prio_rank_le: "prio_rank p \<le> 3"
  by (cases p) simp_all

lemma prio_rank_inj: "prio_rank p = prio_rank q \<longleftrightarrow> p = q"
  by (cases p; cases q) simp_all

lemma queued_less_place: "queued_less a b \<longleftrightarrow> place b < place a"
proof -
  have u: "unat (s :: u64) < 2 ^ 64" for s
    using unsigned_less [of s] by simp
  have "3 - prio_rank (qu_priority b) < 3 - prio_rank (qu_priority a) \<longleftrightarrow> prio_rank (qu_priority a) < prio_rank (qu_priority b)"
    "3 - prio_rank (qu_priority b) = 3 - prio_rank (qu_priority a) \<longleftrightarrow> qu_priority a = qu_priority b"
    using prio_rank_le [of "qu_priority a"] prio_rank_le [of "qu_priority b"] prio_rank_inj [of "qu_priority a" "qu_priority b"]
    by linarith+
  then show ?thesis
    unfolding place_def digits_less [OF u u]
    by (simp add: queued_less_def less_communerdette_priority_def word_less_nat_alt)
qed

lemma foldl_first:
  "m = foldl (\<lambda>m x. if queued_less m x then x else m) q qs \<Longrightarrow>
   m \<in> set (q # qs) \<and> (\<forall>x \<in> set (q # qs). place m \<le> place x)"
proof (induction qs arbitrary: q)
  case (Cons x qs)
  from Cons.IH [of "if queued_less q x then x else q"] Cons.prems show ?case
    by (auto simp: queued_less_place split: if_splits)
qed simp

lemma heap_pop_Some:
  assumes "heap \<noteq> []" and inj: "inj_on place (set heap)"
  obtains q rest where "heap_pop heap = Some (q, rest)" and "sort_key place heap = q # sort_key place rest"
    and "length heap = Suc (length rest)" and "set rest \<subseteq> set heap"
proof -
  obtain y ys where heap: "heap = y # ys" using assms(1) by (cases heap) auto
  define q where "q = foldl (\<lambda>m x. if queued_less m x then x else m) y ys"
  have q: "q \<in> set heap" "\<forall>x \<in> set heap. place q \<le> place x"
    using foldl_first [OF q_def] heap by auto
  let ?rest = "remove1 q heap"
  have "mset (q # sort_key place ?rest) = mset heap" using q(1) by simp
  moreover have "sorted (map place (q # sort_key place ?rest))"
    using q(2) by (auto dest: notin_set_remove1)
  ultimately have "sort_key place heap = q # sort_key place ?rest"
    using inj by (intro sort_key_inj_key_eq) auto
  moreover have "heap_pop heap = Some (q, ?rest)" by (simp add: heap_pop_def heap q_def Let_def)
  ultimately show ?thesis
    using q(1) set_remove1_subset [of q heap] length_pos_if_in_set [OF q(1)] by (intro that) (simp_all add: length_remove1)
qed

fun received :: "u64 \<Rightarrow> (communerdette_priority \<times> communerdette_command) list \<Rightarrow> queued_command list" where
  "received k [] = []"
| "received k ((p, c) # ms) = \<lparr>qu_priority = p, qu_sequence = k, qu_command = c\<rparr> # received (k + 1) ms"

lemma queue_run_receives:
  "qw_running w \<Longrightarrow> \<forall>m \<in> set ms. snd m \<noteq> CmdShutdown \<Longrightarrow>
   \<exists>w'. queue_run X (map (\<lambda>(p, c). Polled p c []) ms) (h, w) = (h, w') \<and> qw_running w' \<and> qw_replies w' = qw_replies w \<and>
     qw_heap w' = qw_heap w @ received (qw_sequence w) ms"
proof (induction ms arbitrary: w)
  case (Cons m ms)
  obtain p c where m: "m = (p, c)" by (cases m)
  have "queue_turn X (Polled p c []) (h, w) = (h, queue_push p c w)" using Cons.prems m by (simp add: queue_turn_def)
  then show ?case using Cons.IH [of "queue_push p c w"] Cons.prems m by (auto simp: queue_run_Cons queue_push_def)
qed (auto simp: queue_run_def)

lemma queue_run_drains:
  assumes "inj_on place (set (qw_heap w))" and "qw_running w" and "length (qw_heap w) \<le> n"
  shows "\<exists>w'. queue_run X (replicate n Ended) (h, w) = (snd (serially X (map qu_command (sort_key place (qw_heap w))) h), w') \<and>
    qw_replies w' = qw_replies w @ fst (serially X (map qu_command (sort_key place (qw_heap w))) h)"
  using assms
proof (induction n arbitrary: w h)
  case (Suc n)
  show ?case
  proof (cases "qw_heap w = []")
    case True
    then have "queue_turn X Ended (h, w) = (h, w)" by (simp add: queue_turn_def heap_pop_def)
    then show ?thesis using Suc.IH [of w h] Suc.prems True by (simp add: queue_run_Cons)
  next
    case False
    then obtain q rest where pop: "heap_pop (qw_heap w) = Some (q, rest)" and sort: "sort_key place (qw_heap w) = q # sort_key place rest"
      and rest: "length (qw_heap w) = Suc (length rest)" "set rest \<subseteq> set (qw_heap w)"
      using heap_pop_Some Suc.prems(1) by metis
    obtain r h' where run: "perform X (qu_command q) h = (r, h')" by fastforce
    show ?thesis
    proof (cases "\<exists>reply success. r = Ok (Some (reply, success))")
      case True
      then obtain reply success where r: "r = Ok (Some (reply, success))" by blast
      let ?w = "w\<lparr>qw_heap := rest, qw_replies := qw_replies w @ [reply], qw_flags := (if success
        then set_last_application_rpc_ns (clock_or_zero (ex_clock X)) (qw_flags w) else qw_flags w)\<rparr>"
      have "queue_turn X Ended (h, w) = (h', ?w)" using Suc.prems(2) pop run r by (simp add: queue_turn_def)
      moreover have "inj_on place (set (qw_heap ?w))" using Suc.prems(1) rest(2) by (auto intro: inj_on_subset)
      ultimately show ?thesis
        using Suc.IH [of ?w h'] Suc.prems rest(1) sort run r by (auto simp: queue_run_Cons split: prod.splits)
    next
      case False
      then have "queue_turn X Ended (h, w) = (h', w\<lparr>qw_heap := rest, qw_running := False\<rparr>)"
        using Suc.prems(2) pop run by (cases r) (auto simp: queue_turn_def split: option.splits)
      then show ?thesis
        using False sort run by (cases r) (auto simp: queue_run_Cons queue_run_stopped split: option.splits)
    qed
  qed
qed (simp add: queue_run_def)

lemma received_order:
  "unat k + length ms \<le> 2 ^ 64 \<Longrightarrow>
   (\<forall>q \<in> set (received k ms). unat k \<le> unat (qu_sequence q)) \<and>
   sorted_wrt (\<lambda>a b. unat (qu_sequence a) < unat (qu_sequence b)) (received k ms)"
proof (induction k ms rule: received.induct)
  case (2 k p c ms)
  show ?case
  proof (cases ms)
    case (Cons m ms')
    then have "unat k + 1 < 2 ^ 64" using 2(2) by simp
    then have "unat (k + 1) = unat k + 1" by (simp add: unat_word_ariths)
    then show ?thesis using 2 by (auto dest: Suc_leD)
  qed simp
qed simp

lemma received_priority:
  "map qu_command (filter (\<lambda>q. qu_priority q = p) (received k ms)) = map snd (filter (\<lambda>m. fst m = p) ms)"
  by (induction k ms rule: received.induct) auto

lemma place_le: "qu_priority b < qu_priority a \<or> qu_priority a = qu_priority b \<and> unat (qu_sequence a) < unat (qu_sequence b) \<Longrightarrow> place a \<le> place b"
  using queued_less_place [of b a] by (auto simp: queued_less_def word_less_nat_alt)

lemma mset_by_priority:
  "mset (filter (\<lambda>q. qu_priority q = PrioCritical) qs @ filter (\<lambda>q. qu_priority q = PrioHigh) qs @
     filter (\<lambda>q. qu_priority q = PrioNormal) qs @ filter (\<lambda>q. qu_priority q = PrioBulk) qs) = mset qs"
proof (induction qs)
  case (Cons q qs)
  then show ?case by (cases "qu_priority q") simp_all
qed simp

lemma received_sorted:
  assumes "length ms \<le> 2 ^ 64"
  shows "inj_on place (set (received 0 ms))"
    and "map qu_command (sort_key place (received 0 ms)) = map snd (by_priority ms)"
proof -
  let ?R = "received 0 ms" and ?F = "\<lambda>p. filter (\<lambda>q. qu_priority q = p) (received 0 ms)"
  have order: "sorted_wrt (\<lambda>a b. unat (qu_sequence a) < unat (qu_sequence b)) ?R"
    using received_order [of 0 ms] assms by simp
  then have "sorted_wrt (<) (map (\<lambda>q. unat (qu_sequence q)) ?R)" by (simp add: sorted_wrt_map)
  then have "distinct (map (\<lambda>q. unat (qu_sequence q)) ?R)" by (simp add: strict_sorted_iff)
  then have seq: "inj_on (\<lambda>q. unat (qu_sequence q)) (set ?R)" by (simp add: distinct_map)
  show inj: "inj_on place (set ?R)"
  proof (rule inj_onI)
    fix a b assume ab: "a \<in> set ?R" "b \<in> set ?R" "place a = place b"
    then have "\<not> queued_less a b" "\<not> queued_less b a" by (simp_all add: queued_less_place)
    then have "qu_sequence a = qu_sequence b"
      by (cases "qu_priority a" "qu_priority b" rule: linorder_cases) (auto simp: queued_less_def)
    then show "a = b" using inj_onD [OF seq] ab by simp
  qed
  let ?L = "?F PrioCritical @ ?F PrioHigh @ ?F PrioNormal @ ?F PrioBulk"
  have "mset ?L = mset ?R" by (rule mset_by_priority)
  moreover have "sorted (map place (?F p))" for p
  proof -
    have "sorted_wrt (\<lambda>a b. place a \<le> place b) (?F p)"
      by (rule sorted_wrt_mono_rel [OF _ sorted_wrt_filter [OF order]]) (auto intro: place_le)
    then show ?thesis by (simp add: sorted_map)
  qed
  then have "sorted (map place ?L)"
    by (auto simp: sorted_append less_communerdette_priority_def intro!: place_le)
  ultimately have "sort_key place ?R = ?L" using inj by (intro sort_key_inj_key_eq) simp_all
  then show "map qu_command (sort_key place ?R) = map snd (by_priority ms)"
    by (simp add: by_priority_def received_priority)
qed

text \<open>
  C39: Once every sender is gone, the worker answers exactly what executing the waiting commands
  one after another would, in the order of their priority and, within one, of their arrival.
\<close>

theorem closed_queue_drains_by_priority:
  assumes "\<forall>m \<in> set ms. snd m \<noteq> CmdShutdown" and "length ms \<le> 2 ^ 64" and "length ms \<le> n"
  shows "(let (h', w) = queue_run X (map (\<lambda>(p, c). Polled p c []) ms @ replicate n Ended) (h, queue_worker_new flags)
     in (qw_replies w, h')) = serially X (map snd (by_priority ms)) h"
proof -
  obtain w where w: "queue_run X (map (\<lambda>(p, c). Polled p c []) ms) (h, queue_worker_new flags) = (h, w)" "qw_running w"
      "qw_replies w = []" "qw_heap w = received 0 ms"
    using queue_run_receives [of "queue_worker_new flags" ms X h] assms(1) by (auto simp: queue_worker_new_def)
  have "length (received k ms) = length ms" for k by (induction k ms rule: received.induct) auto
  then obtain w' where "queue_run X (replicate n Ended) (h, w) = (snd (serially X (map snd (by_priority ms)) h), w')"
      "qw_replies w' = fst (serially X (map snd (by_priority ms)) h)"
    using queue_run_drains [of w n X h] received_sorted [OF assms(2)] w assms(3) by auto
  then show ?thesis using w(1) by (simp add: queue_run_app)
qed

theorem closed_queue_drains_by_priority_witness:
  "(let (h', w) = queue_run (demo_executor (fixed_host [])) [Polled PrioBulk (CmdCalendarSlice 1 1 0) [],
       Polled PrioCritical (CmdStamp [] '''' 1) [], Polled PrioBulk (CmdStamp [] '''' 2) [], Ended, Ended, Ended]
       ((), queue_worker_new liveness_cycle_flags_new)
    in (qw_replies w, h')) =
   serially (demo_executor (fixed_host [])) [CmdStamp [] '''' 1, CmdCalendarSlice 1 1 0, CmdStamp [] '''' 2] ()"
  using closed_queue_drains_by_priority [of "[(PrioBulk, CmdCalendarSlice 1 1 0), (PrioCritical, CmdStamp [] '''' 1),
      (PrioBulk, CmdStamp [] '''' 2)]" 3 "demo_executor (fixed_host [])" "()" liveness_cycle_flags_new]
  by (simp add: by_priority_def numeral_3_eq_3)

end
