(* ===== verification/Spec2Isabelle.thy ===== *)
theory Spec2Isabelle
  imports Chronomatter_Laws Family Probity Chronomatter_Race Collision Epoch Calendar_Lru
    Chronon_Lookup Server_Props Mirror_Faults Communerdette_Props Tbid_Handshake Peer_Tables
    Communerd_Loop Swarm_Props Cli_Restart Cli_Props Snapshot_Props Noise_Call
    Record_Json Communerdette_Queue
begin

text \<open>
  A model of foretias: nodes that keep a calendar of signed ticks (chronons), stamp data with
  the tick of the moment, let others verify the stamps, and mirror, prove and gossip about one
  another's calendars. The code is Rust under \<^verbatim>\<open>src/p2p/\<close>: \<^verbatim>\<open>core-engine\<close> (records,
  chronomatter, calendar, trust boundary, probity, epochs, collisions, configuration, sessions of
  the Noise channel), \<^verbatim>\<open>foretias-client\<close> (the client library, the mirror store) and
  \<^verbatim>\<open>foretias-server\<close> (the node and its command line), over C primitives in \<^verbatim>\<open>core\<close>. Paths below
  are relative to \<^verbatim>\<open>src/p2p/\<close>.

  \<^bold>\<open>How the parts interact.\<close> A request reaches \<^verbatim>\<open>process_request_from_value\<close>, which dispatches on
  the method to a handler. A stamp goes to the chronomatter: it takes the next tick number,
  makes a key pair, signs, builds a tick record linked by signatures to the one before, and
  hands the record to its observer, the server's calendar, which appends it and may queue
  attestation work. A verification looks the stamp's chronon up in the calendar and checks the
  signature under the key stored there. Records of other nodes arrive as unverified envelopes
  and pass the gates of the trust boundary before the mirror store keeps them. Blocks of the
  encrypted block store answer chronon queries and storage proofs through Merkle trees. Gossip
  brings probity reports, heartbeats reveal a second node with the same TBID, and epochs select
  a committee by score.

  \<^bold>\<open>How code becomes definitions.\<close>
  \<^item> A method on a shared state is a function from the state to an outcome and a state
    (\<open>Stateful\<close>): what an operation changed before it failed stays changed. Outcomes are \<open>Ok\<close>,
    \<open>Err\<close> and \<open>Panic\<close> (\<open>Prelude\<close>): slices and indices out of range, \<^verbatim>\<open>expect\<close>, and checked
    arithmetic when the flag \<open>debug\<close> says that overflow checks are on.
  \<^item> \<^verbatim>\<open>u64\<close> and the other widths are words; structs are records, enums are datatypes, hash maps
    whose iteration or size matters are association lists with distinct keys, others are maps.
  \<^item> Entropy, clocks, file-system outcomes and the observer's lottery are inputs of each
    operation (\<open>tick_inputs\<close>, \<open>io_outcomes\<close>, \<open>call_inputs\<close>).
  \<^item> Code outside the repository is an argument: the primitives of libsodium and liboqs are the
    record \<open>ffi\<close>, SHA-256 in the Merkle code is a function on bytes, serde, hex and postcard are
    the codec fields of \<open>node_env\<close> and \<open>codec\<close>. What is assumed of them is named:
    \<open>ffi_ed25519_correct\<close>, \<open>ffi_tbid_correct\<close>, \<open>ffi_answers\<close>, \<open>codecs_ok\<close>, \<open>carried\<close>,
    \<open>codec_ok\<close>, \<open>enc_ok\<close>, \<open>noise_crypto_ok\<close>,
    \<open>snapshot_crypto_ok\<close>. \<open>Demo_Crypto\<close>, \<open>Instances\<close> and \<open>Demo_Node\<close> give each of them a small
    executable instance, on which the theorems are applied.

  \<^bold>\<open>Theories and code.\<close>
  \<^item> \<open>Prelude\<close>, \<open>Stateful\<close>, \<open>Alists\<close>: shared types, the outcome and state monads, what operations
    keep, lemmas on lists, encodings and association lists.
  \<^item> \<open>Core_Types\<close> (\<^verbatim>\<open>core-engine/src/error.rs\<close>, \<^verbatim>\<open>foretias/types.rs\<close>), \<open>Crypto\<close>
    (\<^verbatim>\<open>crypto_server/\<close>, \<^verbatim>\<open>core/signing.rs\<close>, \<^verbatim>\<open>hashing.rs\<close>, \<^verbatim>\<open>identity.rs\<close>), \<open>Tick\<close>
    (\<^verbatim>\<open>foretias/tick.rs\<close>, \<^verbatim>\<open>external_attestation.rs\<close>).
  \<^item> \<open>Calendar_Lookup\<close> states the lookup contract as the locales \<open>chronon_source\<close> and
    \<open>chronon_log\<close>; \<open>Calendar\<close> and \<open>Calendar_Chain\<close> (\<^verbatim>\<open>foretias/calendar.rs\<close>) hold append, lookup,
    binary search, the chain check, and saving and loading over a file system with crashes.
  \<^item> \<open>Clean_Auth\<close> and \<open>Family\<close> (\<^verbatim>\<open>foretias/clean_auth.rs\<close>, \<^verbatim>\<open>family_record.rs\<close>): the wrappers, the
    gates and the cross-signing matrix.
  \<^item> \<open>Chronomatter\<close> (\<^verbatim>\<open>chronomatter/mod.rs\<close>): every operation. \<open>Chronomatter_Run\<close> proves what
    successful runs keep, \<open>Chronomatter_Live\<close> that runs succeed, \<open>Chronomatter_Faults\<close> what
    failures keep, \<open>Chronomatter_Laws\<close> the first and the failed tick. \<open>Interleaving\<close> and
    \<open>Chronomatter_Race\<close> take the operations apart into atomic steps, for concurrent calls.
  \<^item> \<open>Server_Calendar\<close> (\<^verbatim>\<open>foretias-server/src/calendar/mod.rs\<close>, \<^verbatim>\<open>task_queue.rs\<close> for the task type):
    the observer, with the contract \<open>tick_observer\<close> between it and the chronomatter.
  \<^item> \<open>Calendar_Lru\<close> (\<^verbatim>\<open>calendar_store/lru.rs\<close>), \<open>Calendar_Store\<close> (\<^verbatim>\<open>encrypted_jsonl.rs\<close>),
    \<open>Chronon_Lookup\<close> and \<open>Storage_Proof\<close> (\<^verbatim>\<open>calendar_store/mod.rs\<close>), \<open>Merkle\<close>
    (\<^verbatim>\<open>core/src/merkle.c\<close> and its wrapper \<^verbatim>\<open>core-engine/src/core/merkle.rs\<close>).
  \<^item> \<open>Probity\<close> (\<^verbatim>\<open>probity/\<close> of both crates), \<open>Collision\<close> (\<^verbatim>\<open>collision/\<close>), \<open>Epoch\<close> (\<^verbatim>\<open>epoch/\<close>).
  \<^item> \<open>Json\<close> (\<^verbatim>\<open>server/jsonrpc.rs\<close> and JSON values), \<open>Mirror_Store\<close>
    (\<^verbatim>\<open>foretias-client/src/calendar/mirror.rs\<close>), \<open>Server_State\<close> (\<^verbatim>\<open>server/mod.rs\<close>,
    \<^verbatim>\<open>metrics.rs\<close>), \<open>Handlers_Core\<close>, \<open>Handlers_Mirror\<close>, \<open>Handlers_Proof\<close> (\<^verbatim>\<open>server/handlers.rs\<close>),
    \<open>Server_Dispatch\<close> (\<^verbatim>\<open>process_request_from_value\<close> and its callers).
  \<^item> \<open>Server_Laws\<close> says of every method what it may change, \<open>Server_Run\<close> composes requests, ticks
    and dormancy into runs of a node, \<open>Server_Props\<close> draws the consequences. \<open>Mirror_Laws\<close>
    reduces the mirror handlers to the gate of a chain, \<open>Mirror_Props\<close> and \<open>Mirror_Own\<close> follow
    dumps, batches and streams.
  \<^item> \<open>Peer_Record\<close> (\<^verbatim>\<open>communerd/mod.rs\<close>, \<^verbatim>\<open>capabilities.rs\<close>, \<^verbatim>\<open>transport.rs\<close>: registration records),
    \<open>Peer_Tables\<close> (\<^verbatim>\<open>peer_pool.rs\<close>, \<^verbatim>\<open>dht_peer_source.rs\<close>, with the contract \<open>peer_table\<close>),
    \<open>Tbid_Handshake\<close> (\<^verbatim>\<open>p2p/tbid_handshake.rs\<close>).
  \<^item> \<open>Communerdette\<close> (the state of a relationship), \<open>Communerdette_Gate\<close> (what it accepts from the
    other end, its requests and liveness rounds), \<open>Peer_Transport\<close> (the two transports) and
    \<open>Communerdette_Props\<close>, which runs a relationship against a modelled node
    (\<^verbatim>\<open>communerd/communerdette.rs\<close>, \<^verbatim>\<open>json_rpc_transport.rs\<close>, \<^verbatim>\<open>libp2p_transport.rs\<close>).
  \<^item> \<open>Communerdette_Queue\<close>: the worker that executes a relationship's commands by priority.
  \<^item> \<open>Communerd\<close> (state and event loop) and \<open>Communerd_Ops\<close> (lookups, registration, reports,
    family records, host and dispatcher calls) of \<^verbatim>\<open>communerd/mod.rs\<close>. \<open>Communerd_Inv\<close> states
    the contract of the event loop as the locale \<open>kept_by_events\<close> and carries the invariant of
    the directory over all steps, and \<open>Communerd_Claims\<close> and \<open>Communerd_Loop\<close> draw the
    consequences.
  \<^item> \<open>Swarm\<close> and \<open>Swarm_Props\<close> (\<^verbatim>\<open>p2p/swarm.rs\<close>, \<^verbatim>\<open>gossip.rs\<close>, \<^verbatim>\<open>rpc_protocol.rs\<close>): the loop between
    the communerd and libp2p.
  \<^item> \<open>Mirror_Workers\<close> and \<open>Mirror_Tasks\<close> (\<^verbatim>\<open>calendar/task_queue.rs\<close>): the task handlers, the
    workers and their pool, as interleaved programs. \<open>Mirror_Pool\<close> bounds the mirrors of a pool
    and has the health counters, \<open>Mirror_Dump\<close> runs a dump against the modelled
    server of another node, \<open>Mirror_Faults\<close> what happens between real nodes and with a hostile one.
  \<^item> \<open>Client\<close> and \<open>Client_Ops\<close> (\<^verbatim>\<open>foretias-client/src/\<close>: the client's calendar,
    configurations and constructors, its calls alone and through a server, with \<^verbatim>\<open>noise_ptp.rs\<close>'s
    request and answer and \<^verbatim>\<open>communerd_reader.rs\<close>). \<open>Client_Props\<close> runs a client alone,
    \<open>Client_Remote\<close> one against the modelled server.
  \<^item> \<open>Config\<close> (the configuration types, their defaults, what serde makes of a file, loading,
    merging, validating; the server's configuration) (\<^verbatim>\<open>core-engine/src/config/\<close>, \<^verbatim>\<open>server/config.rs\<close>).
  \<^item> \<open>Record_Json\<close>: records and calendars as JSON (\<^verbatim>\<open>encoding.rs\<close> and the serde derives), which
    elsewhere is an argument of the model.
  \<^item> \<open>Cli\<close> (stamp, verify and verify-with-proof) and \<open>Cli_Serve\<close> (serve and
    inspect-attestations) are the subcommands of \<^verbatim>\<open>foretias-server/src/main.rs\<close>; \<open>Cli_Props\<close>
    composes commands with a running server and has the inspector, \<open>Cli_Restart\<close> a node's end with
    its next start.
  \<^item> \<open>Snapshot\<close> and \<open>Snapshot_Props\<close> (\<^verbatim>\<open>snapshot_signature.rs\<close>, \<^verbatim>\<open>snapshot_suite.rs\<close>): signed
    snapshots of test results, their text and its parsing.
  \<^item> \<open>Noise\<close> (\<^verbatim>\<open>core/src/noise_xx.c\<close>, \<^verbatim>\<open>privkey.c\<close>), \<open>Noise_Session\<close> (\<^verbatim>\<open>core-engine/src/noise.rs\<close>, the
    exchange of \<^verbatim>\<open>noise_ptp.rs\<close>, \<^verbatim>\<open>handle_connection\<close>): the encrypted channel. A stream is the bytes
    that still arrive, so the server's loop ends with them. \<open>Noise_Channel\<close> has the laws of
    libsodium (\<open>noise_crypto_ok\<close>), each step of a handshake and a whole one, and \<open>Noise_Call\<close> shows that a call over the channel is the node's own answer,
    which is what \<open>Client_Remote\<close> and \<open>Cli_Props\<close> take it for.

  \<^bold>\<open>What the lemmas show.\<close> A component has an invariant that every operation keeps
  (\<open>cal_inv\<close>, \<open>sc_inv\<close>, \<open>run_inv\<close>, \<open>safe_from\<close>, \<open>ps_inv\<close>, \<open>lru_inv\<close>, \<open>ms_inv\<close>, \<open>node_sound\<close>, \<open>ds_inv\<close>,
  \<open>dir_inv\<close>, \<open>at_step\<close>, \<open>channel_linked\<close>), the
  behaviour of each operation on success and on its errors (the lemmas named \<open>.._Ok_iff\<close>,
  \<open>.._cases\<close>, \<open>.._live\<close>), and where it promises something to another component, that contract
  as a locale, interpreted on the component's own definitions. The properties, numbered C1, C2
  and so on in the theories, rest on them; those about the composition of the chronomatter with
  its calendar follow below. Some of them state what goes wrong: a concurrent stamp that is
  lost, a registration that no receiver accepts, a lookup that is answered for another one.

  \<^bold>\<open>Bounds and termination.\<close> Loops are structural recursion or have a termination
  proof; only a worker of the task queue, whose loop has no end, is given a number of polls, and
  what is stated of it holds for every number that covers the tasks in question. Retries,
  evictions and the trees of the Merkle code are proved to end.
  The C code's Merkle trees have at most 128 leaves, range proofs 64 leaves and 32 siblings:
  the model has the same arrays, and reading past them is a \<open>Panic\<close> that stands for undefined
  behaviour. Runs of a chronomatter are shorter than 2^64 calls where the tick counter must not
  wrap.

  \<^bold>\<open>Not modelled.\<close>
  \<^item> Input and output: sockets and the accepting of connections, libp2p itself, HTTP, the parsing
    of arguments, status lines and log lines. They carry the requests and answers that are
    modelled.
  \<^item> Of the communerd layer: timers (a wait is given the events that come before it ends), the
    facades of \<^verbatim>\<open>communerd/tiers.rs\<close>. The node's handlers see
    the layer as the functions of \<open>communerd_api\<close>.
  \<^item> The aggregation of probity scores and every other computation on floating-point numbers;
    a float is its bit pattern, compared as the code compares it.
  \<^item> Key generation, key handles and the post-quantum key exchange: calls into the C core.
\<close>

section \<open>The chronomatter and its calendar\<close>

text \<open>
  C1: Every run of a fresh chronomatter whose calls all succeed leaves a calendar numbered
  1, 2, ..., up to the current tick, whose integrity check succeeds with every pair valid, and
  at most two retained key pairs.
\<close>

theorem run_builds_valid_calendar:
  assumes "ffi_ed25519_correct F"
    and "chronomatter_new hex tk ns cal0 = Ok s0" and "sc_records cal0 = []"
    and "cm_run debug F hex pc (software_crypto_server F k0) (on_tick_advance hex) cs s0 = (rs, s)"
    and "all_ok rs"
  shows "consecutive (sc_records (cm_observer s)) \<and>
    length (sc_records (cm_observer s)) = unat (cm_current_tick s) \<and>
    integrity_check F (software_crypto_server F k0) (to_hex hex (cm_tbid s)) None None
      (sc_inner (cm_observer s)) = Ok (replicate (unat (cm_current_tick s) - 1) True) \<and>
    length (cm_keypairs s) = min 2 (unat (cm_current_tick s))"
proof -
  from sc_obs.run_keeps_inv [OF assms(1) fresh_run_inv [OF assms(2,3)] assms(4,5)]
  have "run_inv sc_records sc_inv F hex (software_crypto_server F k0) s" by simp
  then show ?thesis
    using integrity_check_chain_ok [of F "software_crypto_server F k0" _ "sc_inner (cm_observer s)"]
    by (simp add: run_inv_def Let_def keypairs_inv_def sc_records_def tick_count_def)
qed

theorem run_builds_valid_calendar_witness:
  "length (sc_records (cm_observer (snd (demo_run demo_calls)))) =
     unat (cm_current_tick (snd (demo_run demo_calls)))"
proof -
  have "all_ok (fst (demo_run demo_calls))" by (rule demo_run_ok) (simp_all add: demo_calls_def)
  from run_builds_valid_calendar [OF demo_ffi_ed25519 demo_new demo_calendar_empty surjective_pairing this]
  show ?thesis by (elim conjE)
qed

text \<open>
  C11: A fresh chronomatter makes progress: as long as the key generator, the random numbers
  and the clock answer and the primitives return success, every stamp and every daemon tick of
  a run of fewer than 2^64 calls succeeds.
\<close>

theorem run_always_succeeds:
  assumes "ffi_ed25519_correct F"
    and "chronomatter_new hex tk ns cal0 = Ok s0" and "ffi_answers F (cm_tbid_secret s0)"
    and "length cs < 2 ^ 64" and "\<forall>c \<in> set cs. call_ok c" and "\<And>f. is_ok (pc f)"
  shows "all_ok (fst (cm_run debug F hex pc (software_crypto_server F k0) (on_tick_advance hex) cs s0))"
proof (rule cm_run_live)
  show "ready F s0" using chronomatter_new_Ok [OF assms(2)] assms(3) by (simp add: ready_def)
  show "unat (cm_current_tick s0) + length cs < 2 ^ 64"
    using chronomatter_new_Ok(1) [OF assms(2)] assms(4) by simp
qed (fact assms)+

theorem run_always_succeeds_witness: "all_ok (fst (demo_run demo_calls))"
  by (rule run_always_succeeds [OF demo_ffi_ed25519 demo_new demo_answers]) (simp_all add: demo_calls_def)

text \<open>
  C12: A stamp keeps verifying. Once a stamp has succeeded in a run whose earlier calls
  succeeded, then whatever calls follow and however they end, verifying it against the calendar
  answers \<open>Ok True\<close> for a content exactly when that content has the hash of the
  stamped one, and the gate for unprocessed records accepts it for that content.
\<close>

theorem stamp_stays_verifiable:
  fixes cal0 :: "'s server_calendar"
  assumes "ffi_ed25519_correct F"
    and "chronomatter_new hex tk ns cal0 = Ok s0" and "sc_records cal0 = []"
    and "cm_run debug F hex pc (software_crypto_server F k0) (on_tick_advance hex) before s0 = (rs, s1)"
    and "all_ok rs"
    and "cm_stamp debug F hex pc (software_crypto_server F k0) (on_tick_advance hex l) inp content echo s1 =
      (Ok st, s2)"
    and "snd (cm_run debug F hex pc (software_crypto_server F k0) (on_tick_advance hex) after s2) = s3"
    and "sha256 F content' = Ok h"
  shows "(verify pc (software_crypto_server F k0) (st_foretis st) (st_signature_bytes st)
      (st_signature_algorithm st) content' (sc_lookup (cm_observer s3)) = Ok True \<longleftrightarrow>
        sha256 F content = Ok h) \<and>
    (sha256 F content = Ok h \<longleftrightarrow>
      verify_unprocessed show_error show_auth_error pc (software_crypto_server F k0)
        (stamped_envelope st) content' (sc_lookup (cm_observer s3)) =
      Ok \<lparr>ca_inner = st_foretis st, ca_signatures = uv_signatures (stamped_envelope st)\<rparr>)"
proof -
  let ?G = "software_crypto_server F k0" and ?c = "cm_observer s3"
  from sc_obs.run_keeps_inv [OF assms(1) fresh_run_inv [OF assms(2,3)] assms(4,5)]
  have inv1: "run_inv sc_records sc_inv F hex ?G s1" by simp
  show ?thesis
  proof (rule sc_obs.stamp_verifies [OF assms(1) inv1 assms(6)])
    fix r
    assume r: "sc_records (cm_observer s2) = sc_records (cm_observer s1) @ [r]"
      "cr_chronon_number r = fr_chronon_number (st_foretis st)"
      and ver: "\<And>(c :: 's server_calendar) t n. sc_inv c \<Longrightarrow> r \<in> set (sc_records c) \<Longrightarrow>
        verify pc ?G (st_foretis st) (st_signature_bytes st) (st_signature_algorithm st) content
          (as_lookup (sc_get c) (sc_latest c) t n) = Ok True"
    have "cm_call_step debug F hex pc ?G (on_tick_advance hex) (CallStamp inp l content echo) s1 = (Ok (Some st), s2)"
      using assms(6) by (simp add: stateful_simps)
    note inv2 = sc_obs.step_run_inv(1) [OF assms(1) inv1 this]
    from sc_obs.run_safe [OF run_inv_safe_from [OF inv2], of debug hex pc ?G hex "after"]
    have "safe_from sc_records sc_inv F (cm_observer s2) s3" by (simp add: assms(7))
    then have c: "sc_inv ?c" "r \<in> set (sc_records ?c)" using r(1) by (auto simp: safe_from_def)
    have alg: "st_signature_algorithm st = ''Ed25519''" using assms(6) by (elim cm_stamp_Ok) simp
    note held = sc.verify_held_chronon [OF c r(2)]
    from ver [OF c] held have V: "sha256 F content = Ok (fr_content_hash (st_foretis st))"
      "\<exists>m. pc (st_foretis st) = Ok m \<and>
         sw_verify_with F (cr_public_key r) ''Ed25519'' m (st_signature_bytes st) = Ok True"
      by (auto simp: alg)
    have "verify_unprocessed show_error show_auth_error pc ?G (stamped_envelope st) content' (sc_lookup ?c) =
        Ok \<lparr>ca_inner = st_foretis st, ca_signatures = uv_signatures (stamped_envelope st)\<rparr> \<longleftrightarrow>
        sha256 F content' = Ok (fr_content_hash (st_foretis st))"
      using sc.get_exact [OF c] V r(2)
      by (auto simp: verify_unprocessed_def stamped_envelope_def sc_lookup_def as_lookup_def result_simps
          foretis_into_clean_authenticated_def verify_foretis_signed_Ok_iff ca_from_trusted_def)
    then show ?thesis
      using held V assms(8) by (auto simp: sc_lookup_def alg)
  qed
qed

theorem stamp_stays_verifiable_witness:
  "\<exists>st s2. cm_stamp True demo_ffi light_hex demo_postcard (software_crypto_server demo_ffi [])
      (on_tick_advance light_hex True) (demo_inputs 2) [5] ''e''
      (snd (demo_run [CallDaemonTick (demo_inputs 1) False])) = (Ok st, s2) \<and>
    verify demo_postcard (software_crypto_server demo_ffi []) (st_foretis st) (st_signature_bytes st)
      (st_signature_algorithm st) [5] (sc_lookup (cm_observer (snd (cm_run True demo_ffi light_hex demo_postcard
        (software_crypto_server demo_ffi []) (on_tick_advance light_hex)
        [CallDaemonTick (demo_inputs 3) True, CallSetDormant True] s2)))) = Ok True"
proof -
  let ?b = "[CallDaemonTick (demo_inputs 1) False] :: (bytes, bool) cm_call list"
  have ok: "all_ok (fst (demo_run ?b))" by (rule demo_run_ok) simp_all
  have "all_ok (fst (demo_run (?b @ [CallStamp (demo_inputs 2) True [5] ''e''])))"
    by (rule demo_run_ok) simp_all
  then obtain st s2 where st: "cm_stamp True demo_ffi light_hex demo_postcard
      (software_crypto_server demo_ffi []) (on_tick_advance light_hex True) (demo_inputs 2) [5] ''e''
      (snd (demo_run ?b)) = (Ok st, s2)"
    unfolding cm_run_snoc
    by (auto simp: all_ok_def is_ok_iff stateful_simps Let_def split: prod.splits)
  from stamp_stays_verifiable [OF demo_ffi_ed25519 demo_new demo_calendar_empty surjective_pairing ok st
      HOL.refl demo_hash [of "[5]"]] st
  show ?thesis by (simp only: demo_hash) blast
qed

subsection \<open>Concurrent calls\<close>

text \<open>
  C13: Whatever the interleaving of any number of concurrent calls, the calendar stays in
  order, only grows, and keeps answering for every record it held; at most two key pairs are
  retained, each with its own public key.
\<close>

theorem concurrent_calls_keep_calendar:
  assumes "thread_steps (map (call_prog debug F hex pc crypto (on_tick_advance hex)) calls, s0) (ts, s)"
    and "safe_from sc_records sc_inv F (cm_observer s0) s0"
  shows "chronological (sc_records (cm_observer s)) \<and>
    (\<exists>new. sc_records (cm_observer s) = sc_records (cm_observer s0) @ new) \<and>
    (\<forall>r \<in> set (sc_records (cm_observer s0)). sc_get (cm_observer s) (cr_chronon_number r) 1 = Ok [r]) \<and>
    length (cm_keypairs s) \<le> 2 \<and>
    (\<forall>kp \<in> set (cm_keypairs s). kp_pub_key kp = ffi_ed25519_public F (kp_priv_key kp))"
proof -
  have "safe_from sc_records sc_inv F (cm_observer s0) s"
    using sc_obs.concurrent_calls_safe [OF assms] .
  then show ?thesis
    using sc.source_chronological [of "cm_observer s"] sc.get_exact [of "cm_observer s"]
    by (auto simp: safe_from_def)
qed

definition race_calls :: "(bytes, bool) cm_call list" where
  "race_calls = [CallDaemonTick (light_inputs 1) False, CallStamp (light_inputs 2) False [1, 2] ''a'',
     CallStamp (light_inputs 3) True [3] ''b'']"

definition race_end ::
    "((bytes, bytes server_calendar) chronomatter, (stamped_foretis option, node_error) result) prog list \<times>
     (bytes, bytes server_calendar) chronomatter" where
  "race_end = run_schedule (replicate 20 0 @ replicate 15 1 @ replicate 16 2 @ [1])
     (map (call_prog True light_ffi light_hex demo_postcard (software_crypto_server light_ffi [])
        (on_tick_advance light_hex)) race_calls, demo_start)"

theorem concurrent_calls_keep_calendar_witness:
  "chronological (sc_records (cm_observer (snd race_end)))"
proof -
  have "safe_from sc_records sc_inv light_ffi (cm_observer demo_start) demo_start"
    by (rule run_inv_safe_from) (rule fresh_run_inv [OF demo_new demo_calendar_empty])
  from concurrent_calls_keep_calendar [OF run_schedule_steps [THEN subst [where P = "thread_steps c" for c, OF prod.collapse [symmetric]]] this]
  show ?thesis unfolding race_end_def by blast
qed

lemma overtaken_verdicts:
  assumes ffi: "ffi_ed25519_correct F" and safe: "safe_from sc_records sc_inv F (cm_observer s) s"
    and recs: "sc_records (cm_observer s) = rs @ [r]"
    and lost: "\<forall>x \<in> set rs. cr_chronon_number x < fr_chronon_number (st_foretis lost)"
      "fr_chronon_number (st_foretis lost) < cr_chronon_number r"
      "sha256 F content = Ok (fr_content_hash (st_foretis lost))" "pc (st_foretis lost) = Ok b"
      "sw_verify_with F (cr_public_key r) (st_signature_algorithm lost) b (st_signature_bytes lost) = Ok False"
    and kept: "cr_chronon_number r = fr_chronon_number (st_foretis kept)"
      "sha256 F content' = Ok (fr_content_hash (st_foretis kept))" "pc (st_foretis kept) = Ok b'"
      "cr_public_key r = ffi_ed25519_public F k'" "handle_sign F k' b' = Ok (st_signature_bytes kept)"
      "st_signature_algorithm kept = ''Ed25519''"
    and c: "c = sc_lookup (cm_observer (snd
      (cm_run debug F hex pc (software_crypto_server F k0) (on_tick_advance hex) later s)))"
  shows "verify pc (software_crypto_server F k0) (st_foretis lost) (st_signature_bytes lost)
      (st_signature_algorithm lost) content c = Ok False"
    and "verify pc (software_crypto_server F k0) (st_foretis kept) (st_signature_bytes kept)
      (st_signature_algorithm kept) content' c = Ok True"
proof -
  define d where "d = cm_observer (snd (cm_run debug F hex pc (software_crypto_server F k0) (on_tick_advance hex) later s))"
  obtain newer where d: "sc_inv d" "sc_records d = rs @ r # newer"
    using sc_obs.run_safe [OF safe, of debug hex pc "software_crypto_server F k0" hex later] recs
    by (auto simp: d_def safe_from_def)
  have c: "c = as_lookup (sc_get d) (sc_latest d) (sc_tbid d) (sc_tbn d)"
    by (simp add: c d_def sc_lookup_def)
  show "verify pc (software_crypto_server F k0) (st_foretis lost) (st_signature_bytes lost)
      (st_signature_algorithm lost) content c = Ok False"
    using sc.verify_next_chronon [where pc = pc, OF d lost(1) less_imp_le [OF lost(2)] _ lost(4)] lost(3,5) by (simp add: c)
  show "verify pc (software_crypto_server F k0) (st_foretis kept) (st_signature_bytes kept)
      (st_signature_algorithm kept) content' c = Ok True"
    using sc.verify_held_chronon [OF d(1) _ kept(1)] d(2) kept handle_sign_verifies(2) [OF ffi kept(5)]
    by (simp add: c)
qed

text \<open>
  C23: A stamp that succeeded can be missing from the calendar for good. From any state that
  successful calls of a fresh chronomatter reached after a first tick, with room for two more numbers,
  and for any two concurrent stamps whose key generator, random numbers and clock answer, there is an
  interleaving in which both succeed, the one with the later number is stored first, and the record of the
  earlier number is refused, which the observer only logs. Whatever calls follow, the earlier stamp is
  checked against the later one's record and verifies as \<open>Ok False\<close>, given that the later key pair does not
  accept the earlier one's signatures, while the later stamp verifies.
\<close>

theorem concurrent_stamp_lost:
  fixes cal0 :: "'s server_calendar"
  assumes ffi: "ffi_ed25519_correct F"
    and new: "chronomatter_new hex tk ns cal0 = Ok s0" "sc_records cal0 = []"
    and "before": "cm_run debug F hex pc (software_crypto_server F k0) (on_tick_advance hex) calls s0 = (rs, s1)"
      "all_ok rs"
    and ready: "ready F s1" and ticked: "cm_current_tick s1 \<noteq> 0" "unat (cm_current_tick s1) + 2 < 2 ^ 64"
    and inputs: "inputs_ok inp" "inputs_ok inp'" and pc: "\<And>f. is_ok (pc f)"
    and keys: "ti_key inp = Ok k" "ti_key inp' = Ok k'"
      "\<forall>m sig. handle_sign F k m = Ok sig \<longrightarrow> sw_verify_with F (ffi_ed25519_public F k') ''Ed25519'' m sig = Ok False"
  shows "\<exists>s lost kept r.
    thread_steps
      (map (call_prog debug F hex pc (software_crypto_server F k0) (on_tick_advance hex))
         [CallStamp inp l content echo, CallStamp inp' l' content' echo'], s1)
      ([Finished (Ok (Some lost)), Finished (Ok (Some kept))], s) \<and>
    fr_chronon_number (st_foretis lost) = cm_current_tick s1 + 1 \<and>
    fr_chronon_number (st_foretis kept) = cm_current_tick s1 + 2 \<and>
    cr_chronon_number r = cm_current_tick s1 + 2 \<and>
    sc_records (cm_observer s) = sc_records (cm_observer s1) @ [r] \<and>
    (\<forall>later. let c = sc_lookup (cm_observer (snd
        (cm_run debug F hex pc (software_crypto_server F k0) (on_tick_advance hex) later s))) in
       verify pc (software_crypto_server F k0) (st_foretis lost) (st_signature_bytes lost)
         (st_signature_algorithm lost) content c = Ok False \<and>
       verify pc (software_crypto_server F k0) (st_foretis kept) (st_signature_bytes kept)
         (st_signature_algorithm kept) content' c = Ok True)"
proof -
  let ?G = "software_crypto_server F k0" and ?t = "cm_current_tick s1" and ?rs = "sc_records (cm_observer s1)"
  let ?s1 = "s1\<lparr>cm_current_tick := ?t + 1\<rparr>"
  from sc_obs.run_keeps_inv [OF ffi fresh_run_inv [OF new] "before"]
  have inv: "run_inv sc_records sc_inv F hex ?G s1" by simp
  obtain kept s2 r b' where stamp: "cm_stamp debug F hex pc ?G (on_tick_advance hex l') inp' content' echo' ?s1 = (Ok kept, s2)"
    and s2: "ready F s2" "cm_keypairs s2 \<noteq> []" "sc_inv (cm_observer s2)" "sc_records (cm_observer s2) = ?rs @ [r]"
    and r: "cr_chronon_number r = ?t + 2" "cr_public_key r = ffi_ed25519_public F k'"
    and kept: "fr_chronon_number (st_foretis kept) = ?t + 2" "sha256 F content' = Ok (fr_content_hash (st_foretis kept))"
      "pc (st_foretis kept) = Ok b'" "handle_sign F k' b' = Ok (st_signature_bytes kept)"
      "st_signature_algorithm kept = ''Ed25519''"
    and old: "\<forall>x \<in> set ?rs. cr_chronon_number x < ?t + 1" and less: "?t + 1 < ?t + 2"
    by (rule sc_obs.stamp_over_gap [where pc = pc, OF ffi inv ready ticked inputs(2) keys(2) pc])
  let ?s2 = "s2\<lparr>cm_chronon_stamp_count := cm_chronon_stamp_count s2 + 1\<rparr>"
  have "unat (?t + 1) = unat ?t + 1" using ticked(2) by (intro unat_succ) simp
  then have t: "?t + 1 \<noteq> 0" by (metis add_is_0 one_neq_zero unat_0)
  have "ffi_answers F (cm_tbid_secret ?s2)" "cm_keypairs ?s2 \<noteq> []" using s2 by (simp_all add: ready_def)
  from create_foretis_live [where pc = pc and obs = "on_tick_advance hex l" and hex = hex and ?k0.0 = k0
      and content = content and echo = echo, OF this ffi t inputs(1) pc keys(1)]
  obtain lost s3 x b where late: "create_foretis F hex pc ?G (on_tick_advance hex l) inp (?t + 1) content echo ?s2 = (Ok lost, s3)"
    and hash: "sha256 F content = Ok (fr_content_hash (st_foretis lost))"
    and lost: "fr_chronon_number (st_foretis lost) = ?t + 1" "pc (st_foretis lost) = Ok b"
      "handle_sign F k b = Ok (st_signature_bytes lost)" "st_signature_algorithm lost = ''Ed25519''"
    and x: "cr_chronon_number x = ?t + 1"
      "cm_observer s3 = on_tick_advance hex l (?t + 1) (ffi_ed25519_public F k) x (cm_observer ?s2)"
    by metis
  have recs: "sc_records (cm_observer s3) = ?rs @ [r]"
    using sc_obs.notify_records [OF s2(3), of hex l "?t + 1" "ffi_ed25519_public F k" x] sc.latest_spec [OF s2(3)]
      s2(4) x r(1) less by (auto simp: list_last_def)
  have steps: "thread_steps
      (map (call_prog debug F hex pc ?G (on_tick_advance hex))
         [CallStamp inp l content echo, CallStamp inp' l' content' echo'], s1)
      ([Finished (Ok (Some lost)), Finished (Ok (Some kept))], s3)"
    using ready t stamp late by (intro overtaken_stamp) (simp_all add: ready_def stateful_simps)
  have old': "\<forall>x \<in> set ?rs. cr_chronon_number x < fr_chronon_number (st_foretis lost)"
    "fr_chronon_number (st_foretis lost) < cr_chronon_number r"
    and num: "cr_chronon_number r = fr_chronon_number (st_foretis kept)"
    and refused: "sw_verify_with F (cr_public_key r) (st_signature_algorithm lost) b (st_signature_bytes lost) = Ok False"
    using old less lost r kept(1) keys(3) by simp_all
  have "safe_from sc_records sc_inv F (cm_observer s3) s3"
    using sc_obs.concurrent_calls_safe [OF steps run_inv_safe_from [OF inv]] by (simp add: safe_from_def)
  note verdicts = overtaken_verdicts [where pc = pc, OF ffi this recs old' hash lost(2) refused num kept(2,3) r(2) kept(4,5) HOL.refl]
  show ?thesis
    unfolding Let_def using steps lost(1) kept(1) r(1) recs verdicts by (intro exI conjI allI)
qed

theorem concurrent_stamp_lost_witness:
  "\<exists>s lost kept.
    thread_steps
      (map (call_prog True demo_ffi light_hex demo_postcard (software_crypto_server demo_ffi []) (on_tick_advance light_hex))
         [CallStamp (demo_inputs 2) False [5] ''a'', CallStamp (demo_inputs 3) True [6] ''b''],
       snd (demo_run [CallDaemonTick (demo_inputs 1) False]))
      ([Finished (Ok (Some lost)), Finished (Ok (Some kept))], s) \<and>
    verify demo_postcard (software_crypto_server demo_ffi []) (st_foretis lost) (st_signature_bytes lost)
      (st_signature_algorithm lost) [5] (sc_lookup (cm_observer s)) = Ok False \<and>
    verify demo_postcard (software_crypto_server demo_ffi []) (st_foretis kept) (st_signature_bytes kept)
      (st_signature_algorithm kept) [6] (sc_lookup (cm_observer s)) = Ok True"
proof -
  let ?b = "[CallDaemonTick (demo_inputs 1) False] :: (bytes, bool) cm_call list"
  have ok: "all_ok (fst (demo_run ?b))" by (rule demo_run_ok) simp_all
  have "ready demo_ffi demo_start" using demo_answers by (simp add: ready_def demo_start_def)
  from daemon_tick_live [OF this demo_ffi_ed25519, where debug = True and hex = light_hex and inp = "demo_inputs 1"
      and crypto = "software_crypto_server demo_ffi []" and obs = "on_tick_advance light_hex False"]
  obtain s1 where tick: "daemon_tick True demo_ffi light_hex (software_crypto_server demo_ffi [])
      (on_tick_advance light_hex False) (demo_inputs 1) demo_start = (Ok (), s1)"
    by (auto simp: demo_start_def inputs_ok_def demo_inputs_def)
  then have s1: "snd (demo_run ?b) = s1" by (simp add: stateful_simps sret_def)
  obtain k r where t: "ticked demo_ffi light_hex (software_crypto_server demo_ffi []) (on_tick_advance light_hex False)
      k demo_start s1 r"
    using tick by (rule daemon_tick_Ok) (simp add: demo_start_def)
  have rdy: "ready demo_ffi (snd (demo_run ?b))"
    unfolding s1 by (rule ticked_ready [OF \<open>ready demo_ffi demo_start\<close> t])
  have tk: "cm_current_tick (snd (demo_run ?b)) \<noteq> 0" "unat (cm_current_tick (snd (demo_run ?b))) + 2 < 2 ^ 64"
    unfolding s1 using t by (simp_all add: ticked_def Let_def demo_start_def)
  have "demo_public [3] \<noteq> demo_public [2]" by (simp add: demo_public_def)
  then have keys: "\<forall>m sig. handle_sign demo_ffi [2] m = Ok sig \<longrightarrow>
      sw_verify_with demo_ffi (ffi_ed25519_public demo_ffi [3]) ''Ed25519'' m sig = Ok False"
    by (auto simp: sw_verify_with_ed25519 ed25519_verify_def verify_rc_def)
  have key: "ti_key (demo_inputs n) = Ok [n]" for n by (simp add: demo_inputs_def)
  obtain s lost kept where
    steps: "thread_steps
      (map (call_prog True demo_ffi light_hex demo_postcard (software_crypto_server demo_ffi []) (on_tick_advance light_hex))
         [CallStamp (demo_inputs 2) False [5] ''a'', CallStamp (demo_inputs 3) True [6] ''b''], snd (demo_run ?b))
      ([Finished (Ok (Some lost)), Finished (Ok (Some kept))], s)"
    and later: "\<forall>later. let c = sc_lookup (cm_observer (snd (cm_run True demo_ffi light_hex demo_postcard
        (software_crypto_server demo_ffi []) (on_tick_advance light_hex) later s))) in
      verify demo_postcard (software_crypto_server demo_ffi []) (st_foretis lost) (st_signature_bytes lost)
        (st_signature_algorithm lost) [5] c = Ok False \<and>
      verify demo_postcard (software_crypto_server demo_ffi []) (st_foretis kept) (st_signature_bytes kept)
        (st_signature_algorithm kept) [6] c = Ok True"
    using concurrent_stamp_lost [where inp = "demo_inputs 2" and inp' = "demo_inputs 3" and l = False and l' = True
        and content = "[5]" and content' = "[6]" and echo = "''a''" and echo' = "''b''",
        OF demo_ffi_ed25519 demo_new demo_calendar_empty surjective_pairing ok rdy tk
          demo_inputs_ok demo_inputs_ok demo_postcard_ok key key keys]
    by (elim exE conjE) (rule that)
  from later [THEN spec, of "[]"] steps show ?thesis by (auto simp: Let_def)
qed

text \<open>
  Calls made one after another are one of the schedules of the concurrent calls, with the
  same results and the same final state.
\<close>

theorem sequential_calls_are_a_schedule:
  "\<exists>is. run_schedule is (map (call_prog debug F hex pc crypto obs) calls, s) =
     (map Finished (fst (cm_run debug F hex pc crypto obs calls s)),
      snd (cm_run debug F hex pc crypto obs calls s))"
  using sequential_schedule [of "[]"] by simp

subsection \<open>Saving and loading\<close>

text \<open>
  C24: Whatever a fresh chronomatter's successful calls built can be saved, and is then loaded
  again by the loader that verifies: the very same calendar.
\<close>

theorem built_calendar_survives_saving:
  assumes "ffi_ed25519_correct F"
    and "chronomatter_new hex tk ns cal0 = Ok s0" and "sc_records cal0 = []"
    and "cm_run debug F hex pc (software_crypto_server F k0) (on_tick_advance hex) cs s0 = (rs, s)"
    and "all_ok rs"
    and "save to_json io path (sc_inner (cm_observer s)) files = (Ok (), files')"
    and "\<And>data. to_json (sc_inner (cm_observer s)) = Ok data \<Longrightarrow> from_json data = Some (sc_inner (cm_observer s))"
  shows "fst (load_and_verify F from_json path (software_crypto_server F k0) (to_hex hex (cm_tbid s))
      None None files') = Ok (sc_inner (cm_observer s))"
proof -
  let ?c = "sc_inner (cm_observer s)" and ?G = "software_crypto_server F k0" and ?s = "to_hex hex (cm_tbid s)"
  from sc_obs.run_keeps_inv [OF assms(1) fresh_run_inv [OF assms(2,3)] assms(4,5)]
  have "run_inv sc_records sc_inv F hex ?G s" by simp
  then have "chain_ok F ?G ?s (ticks ?c)" by (simp add: run_inv_def Let_def sc_records_def)
  then have "integrity_check F ?G ?s None None ?c = Ok (replicate (tick_count ?c - 1) True)"
    by (rule integrity_check_chain_ok)
  moreover obtain data where "to_json ?c = Ok data" and "files' = crashed_save AfterRename path data files"
    using assms(6) by (rule save_Ok_files)
  then have "load from_json path files' = (Ok ?c, files')"
    using assms(7) by (intro load_no_tmp) (auto simp: crashed_save_def fs_write_def fs_rename_def)
  ultimately show ?thesis by (simp add: load_and_verify_def)
qed

theorem built_calendar_survives_saving_witness:
  "\<exists>c. c = sc_inner (cm_observer (snd (demo_run demo_calls))) \<and>
    fst (load_and_verify demo_ffi (\<lambda>_. Some c) ''cal'' (software_crypto_server demo_ffi [])
      (to_hex light_hex (cm_tbid (snd (demo_run demo_calls)))) None None
      (snd (save (\<lambda>_. Ok ''json'') \<lparr>io_create_dir = Ok (), io_write = Written, io_rename = Ok ()\<rparr> ''cal'' c Map.empty)))
    = Ok c"
proof -
  let ?c = "sc_inner (cm_observer (snd (demo_run demo_calls)))"
    and ?io = "\<lparr>io_create_dir = Ok (), io_write = Written, io_rename = Ok ()\<rparr>"
  have ok: "all_ok (fst (demo_run demo_calls))" by (rule demo_run_ok) (simp_all add: demo_calls_def)
  have "save (\<lambda>_. Ok ''json'') ?io ''cal'' ?c Map.empty =
      (Ok (), snd (save (\<lambda>_. Ok ''json'') ?io ''cal'' ?c Map.empty))"
    by (simp add: save_def fs_write_def fs_rename_def)
  from built_calendar_survives_saving [OF demo_ffi_ed25519 demo_new demo_calendar_empty surjective_pairing ok this,
      of "\<lambda>_. Some ?c"]
  show ?thesis by blast
qed

end
